(* ===== verification/UTE_Prelude.thy ===== *)
theory UTE_Prelude
  imports Main
begin

text \<open>
  What every component shares: the exception classes of
  \<^verbatim>\<open>packages/core/src/unified_trading_execution/errors/__init__.py\<close> and of Python's
  standard library, results of fallible code as \<open>exn + 'a\<close>, the effects of the stateful
  components, Python's small list and string helpers, and the collections of rules the component
  proofs use.
\<close>

named_theorems wf_intros \<open>well-formedness facts about constructed values\<close>
named_theorems upd_simps \<open>lookups in updated tables\<close>

subsection \<open>Exceptions\<close>

text \<open>
  One constructor per class the code raises or catches. The classes before \<open>UteError\<close> belong to
  Python; the rest is the hierarchy of the errors module,
  followed by the classes of the venue adapters. Its alias \<^verbatim>\<open>ConnectionError\<close> is
  \<open>PlatformConnectionError\<close>.
\<close>

datatype exn_class =
    PyException | PyValueError | PyTypeError | PyRuntimeError | PyNotImplementedError
  | PyImportError | PyOSError | PyTimeoutError | PyArithmeticError | PyZeroDivisionError
  | PyDecimalInvalidOperation | SqlIntegrityError
  | UteError
  | InsufficientBalanceError | InvalidSymbolError | MarketClosedError | RateLimitError
  | OrderNotFoundError | UnsupportedOrderTypeError | InvalidOrderError | DuplicateOrderIdError
  | PlatformConnectionError | AccountChangedError
  | InstrumentHaltedError | AccountHaltedError
  | EngineShutdownError | ReconciliationError
  | TrailingNotSupportedError | TrailingStateError
  | PlatformError
  | MissingAverageFillPriceError
  | LeverageDriftError | LeverageExceedsMaxError | AsymmetricLeverageError
  | LeverageNotModifiedError | MarginModeNotModifiedError | PositionModeNotModifiedError

text \<open>The direct base class; \<open>PyException\<close> is the root that a bare \<^verbatim>\<open>except Exception\<close> catches.\<close>

fun exn_base :: "exn_class \<Rightarrow> exn_class option" where
  "exn_base PyException = None"
| "exn_base PyNotImplementedError = Some PyRuntimeError"
| "exn_base PyTimeoutError = Some PyOSError"
| "exn_base PyZeroDivisionError = Some PyArithmeticError"
| "exn_base PyDecimalInvalidOperation = Some PyArithmeticError"
| "exn_base PyValueError = Some PyException"
| "exn_base PyTypeError = Some PyException"
| "exn_base PyRuntimeError = Some PyException"
| "exn_base PyOSError = Some PyException"
| "exn_base PyImportError = Some PyException"
| "exn_base PyArithmeticError = Some PyException"
| "exn_base SqlIntegrityError = Some PyException"
| "exn_base UteError = Some PyException"
| "exn_base MarketClosedError = Some InvalidSymbolError"
| "exn_base AccountChangedError = Some PlatformConnectionError"
| "exn_base MissingAverageFillPriceError = Some PlatformError"
| "exn_base LeverageNotModifiedError = Some PlatformError"
| "exn_base MarginModeNotModifiedError = Some PlatformError"
| "exn_base PositionModeNotModifiedError = Some PlatformError"
| "exn_base _ = Some UteError"

text \<open>The depth of the hierarchy is at most four, so four steps reach the root.\<close>

fun exn_ancestors :: "nat \<Rightarrow> exn_class \<Rightarrow> exn_class list" where
  "exn_ancestors 0 c = [c]"
| "exn_ancestors (Suc n) c =
     c # (case exn_base c of None \<Rightarrow> [] | Some b \<Rightarrow> exn_ancestors n b)"

definition exn_is :: "exn_class \<Rightarrow> exn_class \<Rightarrow> bool" where
  \<comment> \<open>whether an \<^verbatim>\<open>except d\<close> clause catches an exception of class \<open>c\<close>\<close>
  "exn_is c d \<longleftrightarrow> d \<in> set (exn_ancestors 4 c)"

lemma exn_is_refl [simp]: "exn_is c c"
  by (simp add: exn_is_def numeral_eq_Suc)

lemma exn_is_root [simp]: "exn_is c PyException"
  by (cases c) (simp_all add: exn_is_def numeral_eq_Suc)

lemma exn_ancestors_step:
  "d \<in> set (exn_ancestors n c) \<Longrightarrow> d = c \<or> (\<exists>b. exn_base c = Some b \<and> n > 0 \<and> d \<in> set (exn_ancestors (n - 1) b))"
  by (cases n) (auto split: option.splits)

fun exn_name :: "exn_class \<Rightarrow> string" where
  \<comment> \<open>\<^verbatim>\<open>type(exc).__name__\<close>\<close>
  "exn_name PyException = ''Exception''"
| "exn_name PyValueError = ''ValueError''"
| "exn_name PyTypeError = ''TypeError''"
| "exn_name PyRuntimeError = ''RuntimeError''"
| "exn_name PyNotImplementedError = ''NotImplementedError''"
| "exn_name PyImportError = ''ImportError''"
| "exn_name PyOSError = ''OSError''"
| "exn_name PyTimeoutError = ''TimeoutError''"
| "exn_name PyArithmeticError = ''ArithmeticError''"
| "exn_name PyZeroDivisionError = ''DivisionByZero''"
| "exn_name PyDecimalInvalidOperation = ''InvalidOperation''"
| "exn_name SqlIntegrityError = ''IntegrityError''"
| "exn_name UteError = ''UteError''"
| "exn_name InsufficientBalanceError = ''InsufficientBalanceError''"
| "exn_name InvalidSymbolError = ''InvalidSymbolError''"
| "exn_name MarketClosedError = ''MarketClosedError''"
| "exn_name RateLimitError = ''RateLimitError''"
| "exn_name OrderNotFoundError = ''OrderNotFoundError''"
| "exn_name UnsupportedOrderTypeError = ''UnsupportedOrderTypeError''"
| "exn_name InvalidOrderError = ''InvalidOrderError''"
| "exn_name DuplicateOrderIdError = ''DuplicateOrderIdError''"
| "exn_name PlatformConnectionError = ''PlatformConnectionError''"
| "exn_name AccountChangedError = ''AccountChangedError''"
| "exn_name InstrumentHaltedError = ''InstrumentHaltedError''"
| "exn_name AccountHaltedError = ''AccountHaltedError''"
| "exn_name EngineShutdownError = ''EngineShutdownError''"
| "exn_name ReconciliationError = ''ReconciliationError''"
| "exn_name TrailingNotSupportedError = ''TrailingNotSupportedError''"
| "exn_name TrailingStateError = ''TrailingStateError''"
| "exn_name PlatformError = ''PlatformError''"
| "exn_name MissingAverageFillPriceError = ''_MissingAverageFillPriceError''"
| "exn_name LeverageDriftError = ''LeverageDriftError''"
| "exn_name LeverageExceedsMaxError = ''LeverageExceedsMaxError''"
| "exn_name AsymmetricLeverageError = ''AsymmetricLeverageError''"
| "exn_name LeverageNotModifiedError = ''LeverageNotModifiedError''"
| "exn_name MarginModeNotModifiedError = ''MarginModeNotModifiedError''"
| "exn_name PositionModeNotModifiedError = ''PositionModeNotModifiedError''"

text \<open>An exception is its class and its message \<^verbatim>\<open>str(exc)\<close>.\<close>

datatype exn = Exn (exn_cls: exn_class) (exn_msg: string)

definition exn_text :: "exn \<Rightarrow> string" where
  \<comment> \<open>\<^verbatim>\<open>str(exc) or type(exc).__name__\<close>\<close>
  "exn_text e = (if exn_msg e = [] then exn_name (exn_cls e) else exn_msg e)"

type_synonym 'a result = "exn + 'a"

abbreviation raise_exn :: "exn_class \<Rightarrow> string \<Rightarrow> 'a result" where
  "raise_exn c m \<equiv> Inl (Exn c m)"

subsection \<open>Sequencing fallible computations\<close>

definition rbind :: "'a result \<Rightarrow> ('a \<Rightarrow> 'b result) \<Rightarrow> 'b result" where
  "rbind r f = (case r of Inl e \<Rightarrow> Inl e | Inr a \<Rightarrow> f a)"

lemma rbind_simps [simp]:
  "rbind (Inl e) f = Inl e"
  "rbind (Inr a) f = f a"
  by (simp_all add: rbind_def)

lemma rbind_eq_Inr: "rbind r f = Inr b \<longleftrightarrow> (\<exists>a. r = Inr a \<and> f a = Inr b)"
  by (cases r) auto

lemma rbind_eq_Inl: "rbind r f = Inl e \<longleftrightarrow> r = Inl e \<or> (\<exists>a. r = Inr a \<and> f a = Inl e)"
  by (cases r) auto

lemma rbind_assoc: "rbind (rbind r f) g = rbind r (\<lambda>a. rbind (f a) g)"
  by (cases r) auto

definition guard_exn :: "bool \<Rightarrow> exn_class \<Rightarrow> string \<Rightarrow> unit result" where
  \<comment> \<open>\<^verbatim>\<open>if b: raise c(m)\<close>\<close>
  "guard_exn b c m = (if b then raise_exn c m else Inr ())"

lemma guard_exn_Inr [simp]: "guard_exn b c m = Inr u \<longleftrightarrow> \<not> b"
  by (simp add: guard_exn_def)

lemma guard_exn_Inl: "guard_exn b c m = Inl e \<longleftrightarrow> b \<and> e = Exn c m"
  by (auto simp: guard_exn_def)

definition is_ok :: "'a result \<Rightarrow> bool" where
  "is_ok r = (case r of Inl _ \<Rightarrow> False | Inr _ \<Rightarrow> True)"

lemma is_ok_simps [simp]: "is_ok (Inr a)" "\<not> is_ok (Inl e)"
  by (simp_all add: is_ok_def)

text \<open>The exception class of a failed result, for statements about error branches.\<close>

definition fails_with :: "'a result \<Rightarrow> exn_class \<Rightarrow> bool" where
  "fails_with r c = (case r of Inl e \<Rightarrow> exn_cls e = c | Inr _ \<Rightarrow> False)"

lemma fails_with_simps [simp]:
  "fails_with (Inl (Exn c m)) d \<longleftrightarrow> c = d"
  "\<not> fails_with (Inr a) d"
  by (simp_all add: fails_with_def)

subsection \<open>Strings and lists\<close>

definition starts_with :: "string \<Rightarrow> string \<Rightarrow> bool" where
  "starts_with s p \<longleftrightarrow> take (length p) s = p"

lemma starts_with_append [simp]: "starts_with (p @ s) p"
  by (simp add: starts_with_def)

lemma starts_with_Nil [simp]: "starts_with s []"
  by (simp add: starts_with_def)

lemma starts_with_iff: "starts_with s p \<longleftrightarrow> (\<exists>t. s = p @ t)"
  by (metis append_take_drop_id starts_with_append starts_with_def)

text \<open>\<^verbatim>\<open>list(dict.fromkeys(xs))\<close>: the first occurrence of each element, in order.\<close>

fun dedupe :: "'a list \<Rightarrow> 'a list" where
  "dedupe [] = []"
| "dedupe (x # xs) = x # filter (\<lambda>y. y \<noteq> x) (dedupe xs)"

lemma set_dedupe [simp]: "set (dedupe xs) = set xs"
  by (induction xs) auto

lemma distinct_dedupe [simp]: "distinct (dedupe xs)"
  by (induction xs) auto

fun join_comma :: "string list \<Rightarrow> string" where
  \<comment> \<open>\<^verbatim>\<open>", ".join(xs)\<close>\<close>
  "join_comma [] = []"
| "join_comma [x] = x"
| "join_comma (x # y # ys) = x @ '', '' @ join_comma (y # ys)"

text \<open>\<^verbatim>\<open>next((x for x in xs if p(x)), None)\<close> is \<open>List.find\<close>.\<close>

lemma find_SomeD: "List.find p xs = Some x \<Longrightarrow> x \<in> set xs \<and> p x"
  by (induction xs) (auto split: if_splits)

lemma find_NoneD: "List.find p xs = None \<Longrightarrow> x \<in> set xs \<Longrightarrow> \<not> p x"
  by (induction xs) (auto split: if_splits)

subsection \<open>Dictionaries\<close>

text \<open>
  A Python dictionary is an association list in insertion order with distinct keys: assignment
  replaces a present value in place and appends a new one, \<^verbatim>\<open>del\<close> and \<^verbatim>\<open>pop\<close> drop the entry.
\<close>

type_synonym ('k, 'v) dict = "('k \<times> 'v) list"

abbreviation dict_get :: "('k, 'v) dict \<Rightarrow> 'k \<Rightarrow> 'v option" where
  "dict_get \<equiv> map_of"

fun dict_set :: "'k \<Rightarrow> 'v \<Rightarrow> ('k, 'v) dict \<Rightarrow> ('k, 'v) dict" where
  "dict_set k v [] = [(k, v)]"
| "dict_set k v ((k', v') # d) = (if k' = k then (k, v) # d else (k', v') # dict_set k v d)"

definition dict_del :: "'k \<Rightarrow> ('k, 'v) dict \<Rightarrow> ('k, 'v) dict" where
  "dict_del k d = filter (\<lambda>(k', _). k' \<noteq> k) d"

abbreviation dict_has :: "('k, 'v) dict \<Rightarrow> 'k \<Rightarrow> bool" where
  "dict_has d k \<equiv> map_of d k \<noteq> None"

definition wf_dict :: "('k, 'v) dict \<Rightarrow> bool" where
  "wf_dict d \<longleftrightarrow> distinct (map fst d)"

lemma dict_get_set [upd_simps, simp]: "dict_get (dict_set k v d) = (dict_get d)(k \<mapsto> v)"
  by (induction k v d rule: dict_set.induct) (auto simp: fun_eq_iff)

lemma dict_get_del [upd_simps, simp]: "dict_get (dict_del k d) = (dict_get d)(k := None)"
  by (induction d) (auto simp: fun_eq_iff dict_del_def)

lemma keys_dict_set: "fst ` set (dict_set k v d) = insert k (fst ` set d)"
  by (induction k v d rule: dict_set.induct) auto

lemma keys_dict_del: "fst ` set (dict_del k d) = fst ` set d - {k}"
  by (auto simp: dict_del_def)

lemma wf_dict_set [simp]: "wf_dict d \<Longrightarrow> wf_dict (dict_set k v d)"
proof (induction k v d rule: dict_set.induct)
  case (2 k v k' v' d)
  then show ?case using keys_dict_set [of k v d] by (auto simp: wf_dict_def)
qed (simp add: wf_dict_def)

lemma wf_dict_del [simp]: "wf_dict d \<Longrightarrow> wf_dict (dict_del k d)"
  by (induction d) (auto simp: wf_dict_def dict_del_def)

lemma wf_dict_Nil [simp]: "wf_dict []"
  by (simp add: wf_dict_def)

lemma dict_set_new: "dict_get d k = None \<Longrightarrow> dict_set k v d = d @ [(k, v)]"
  by (induction k v d rule: dict_set.induct) (auto split: if_splits)

lemma dict_del_absent: "dict_get d k = None \<Longrightarrow> dict_del k d = d"
  by (induction d) (auto simp: dict_del_def split: if_splits)

lemma dict_del_append: "dict_del k (d @ e) = dict_del k d @ dict_del k e"
  by (simp add: dict_del_def)

lemma dict_del_last: "dict_get d k = None \<Longrightarrow> dict_del k (d @ [(k, v)]) = d"
  by (simp add: dict_del_append dict_del_absent) (simp add: dict_del_def)

subsection \<open>Effects\<close>

text \<open>
  An operation with effects maps the world to its outcome and the next world; an exception keeps
  the effects that happened before it was raised. \<open>etry\<close> is \<^verbatim>\<open>try / except Exception\<close>: its handler
  runs in the world the failed body left.
\<close>

type_synonym ('w, 'a) eff = "'w \<Rightarrow> 'a result \<times> 'w"

definition eret :: "'a \<Rightarrow> ('w, 'a) eff" where
  "eret a = (\<lambda>w. (Inr a, w))"

definition elift :: "'a result \<Rightarrow> ('w, 'a) eff" where
  "elift r = (\<lambda>w. (r, w))"

abbreviation eraise :: "exn_class \<Rightarrow> string \<Rightarrow> ('w, 'a) eff" where
  "eraise c m \<equiv> elift (raise_exn c m)"

definition ebind :: "('w, 'a) eff \<Rightarrow> ('a \<Rightarrow> ('w, 'b) eff) \<Rightarrow> ('w, 'b) eff" where
  "ebind m f = (\<lambda>w. case m w of (Inl e, w') \<Rightarrow> (Inl e, w') | (Inr a, w') \<Rightarrow> f a w')"

definition etry :: "('w, 'a) eff \<Rightarrow> (exn \<Rightarrow> ('w, 'a) eff) \<Rightarrow> ('w, 'a) eff" where
  "etry m h = (\<lambda>w. case m w of (Inl e, w') \<Rightarrow> h e w' | (Inr a, w') \<Rightarrow> (Inr a, w'))"

definition eattempt :: "('w, 'a) eff \<Rightarrow> ('w, 'a result) eff" where
  \<comment> \<open>\<^verbatim>\<open>try / except / else\<close> with the outcome as a value\<close>
  "eattempt m = (\<lambda>w. case m w of (r, w') \<Rightarrow> (Inr r, w'))"

definition eget :: "('w \<Rightarrow> 'a) \<Rightarrow> ('w, 'a) eff" where
  "eget f = (\<lambda>w. (Inr (f w), w))"

definition eupd :: "('w \<Rightarrow> 'w) \<Rightarrow> ('w, unit) eff" where
  "eupd f = (\<lambda>w. (Inr (), f w))"

definition ewhen :: "bool \<Rightarrow> ('w, unit) eff \<Rightarrow> ('w, unit) eff" where
  "ewhen b m = (if b then m else eret ())"

definition eguard :: "bool \<Rightarrow> exn_class \<Rightarrow> string \<Rightarrow> ('w, unit) eff" where
  \<comment> \<open>\<^verbatim>\<open>if b: raise c(m)\<close>\<close>
  "eguard b c m = elift (guard_exn b c m)"

fun efor :: "'a list \<Rightarrow> ('a \<Rightarrow> ('w, unit) eff) \<Rightarrow> ('w, unit) eff" where
  "efor [] f = eret ()"
| "efor (x # xs) f = ebind (f x) (\<lambda>_. efor xs f)"

fun emap :: "('a \<Rightarrow> ('w, 'b) eff) \<Rightarrow> 'a list \<Rightarrow> ('w, 'b list) eff" where
  "emap f [] = eret []"
| "emap f (x # xs) = ebind (f x) (\<lambda>y. ebind (emap f xs) (\<lambda>ys. eret (y # ys)))"

lemma eff_run:
  "eret a w = (Inr a, w)"
  "elift r w = (r, w)"
  "eget g w = (Inr (g w), w)"
  "eupd u w = (Inr (), u w)"
  "m w = (Inl e, w') \<Longrightarrow> ebind m f w = (Inl e, w')"
  "m w = (Inr a, w') \<Longrightarrow> ebind m f w = f a w'"
  "m w = (Inr a, w') \<Longrightarrow> etry m h w = (Inr a, w')"
  "m w = (Inl e, w') \<Longrightarrow> etry m h w = h e w'"
  by (simp_all add: eret_def elift_def eget_def eupd_def ebind_def etry_def)

lemma ebind_simps [simp]:
  "ebind (eret a) f = f a"
  "ebind (elift (Inr a)) f = f a"
  "ebind (elift (Inl e)) f = elift (Inl e)"
  by (simp_all add: fun_eq_iff ebind_def eret_def elift_def)

lemma eguard_simps [simp]:
  "eguard False c m = eret ()"
  "eguard True c m = eraise c m"
  by (simp_all add: eguard_def guard_exn_def elift_def eret_def)

lemma ewhen_simps [simp]:
  "ewhen False m = eret ()"
  "ewhen True m = m"
  by (simp_all add: ewhen_def)

lemma ebind_eq:
  "ebind m f w = (r, w'') \<longleftrightarrow>
     (\<exists>e w'. m w = (Inl e, w') \<and> r = Inl e \<and> w'' = w') \<or> (\<exists>a w'. m w = (Inr a, w') \<and> f a w' = (r, w''))"
  by (auto simp: ebind_def split: prod.splits sum.splits)

lemma ebind_eget: "ebind (eget g) f w = f (g w) w"
  by (simp add: ebind_def eget_def)

lemma ebind_eupd: "ebind (eupd g) f w = f () (g w)"
  by (simp add: ebind_def eupd_def)

lemma ebind_eattempt: "ebind (eattempt m) f w = (case m w of (r, w') \<Rightarrow> f r w')"
  by (simp add: ebind_def eattempt_def split: prod.splits)

subsection \<open>Invariants of effectful operations\<close>

text \<open>
  \<open>safe I m Q\<close>: started where \<open>I\<close> holds, \<open>m\<close> ends where \<open>I\<close> holds, also when it raises, and a
  returned value satisfies \<open>Q\<close>.
\<close>

definition safe :: "('w \<Rightarrow> bool) \<Rightarrow> ('w, 'a) eff \<Rightarrow> ('a \<Rightarrow> bool) \<Rightarrow> bool" where
  "safe I m Q \<longleftrightarrow> (\<forall>w. I w \<longrightarrow> I (snd (m w)) \<and> (case fst (m w) of Inr a \<Rightarrow> Q a | Inl _ \<Rightarrow> True))"

lemma safeI:
  "(\<And>w r w'. I w \<Longrightarrow> m w = (r, w') \<Longrightarrow> I w' \<and> (\<forall>a. r = Inr a \<longrightarrow> Q a)) \<Longrightarrow> safe I m Q"
  unfolding safe_def by (metis prod.collapse sum.case_eq_if sum.collapse(2))

lemma safeD: "safe I m Q \<Longrightarrow> I w \<Longrightarrow> m w = (r, w') \<Longrightarrow> I w'"
  by (metis safe_def snd_conv)

lemma safe_valueD: "safe I m Q \<Longrightarrow> I w \<Longrightarrow> m w = (Inr a, w') \<Longrightarrow> Q a"
  by (auto simp: safe_def)

lemma safe_weaken: "safe I m P \<Longrightarrow> (\<And>a. P a \<Longrightarrow> Q a) \<Longrightarrow> safe I m Q"
  by (auto simp: safe_def split: sum.splits)

lemma safe_any: "safe I m P \<Longrightarrow> safe I m (\<lambda>_. True)"
  by (erule safe_weaken) simp

lemma safe_eret: "Q a \<Longrightarrow> safe I (eret a) Q"
  by (simp add: safe_def eret_def)

lemma safe_eraise: "safe I (elift (Inl e)) Q"
  by (simp add: safe_def elift_def)

lemma safe_elift: "safe I (elift r) (\<lambda>a. r = Inr a)"
  by (simp add: safe_def elift_def split: sum.splits)

lemma safe_eguard: "safe I (eguard b c m) (\<lambda>_. \<not> b)"
  by (simp add: safe_def eguard_def elift_def guard_exn_def)

lemma safe_eget: "(\<And>w. I w \<Longrightarrow> Q (f w)) \<Longrightarrow> safe I (eget f) Q"
  by (simp add: safe_def eget_def)

lemma safe_eupd: "(\<And>w. I w \<Longrightarrow> I (f w)) \<Longrightarrow> safe I (eupd f) (\<lambda>_. True)"
  by (simp add: safe_def eupd_def)

lemma safe_ebind:
  assumes "safe I m P" and "\<And>a. P a \<Longrightarrow> safe I (f a) Q"
  shows "safe I (ebind m f) Q"
proof (rule safeI)
  fix w r w'
  assume I: "I w" and run: "ebind m f w = (r, w')"
  from run consider e where "m w = (Inl e, w')" "r = Inl e"
    | a v where "m w = (Inr a, v)" "f a v = (r, w')"
    by (auto simp: ebind_eq)
  then show "I w' \<and> (\<forall>a. r = Inr a \<longrightarrow> Q a)"
  proof cases
    case 1
    with safeD [OF assms(1) I] show ?thesis by simp
  next
    case (2 a v)
    with safeD [OF assms(1) I] safe_valueD [OF assms(1) I] have "I v" "P a" by auto
    with 2(2) safeD [OF assms(2)] safe_valueD [OF assms(2)] show ?thesis by blast
  qed
qed

lemma safe_eattempt:
  "safe I m P \<Longrightarrow> safe I (eattempt m) (\<lambda>r. case r of Inr a \<Rightarrow> P a | Inl _ \<Rightarrow> True)"
  by (auto simp: safe_def eattempt_def split: prod.splits sum.splits)

lemma safe_etry:
  assumes "safe I m Q" and "\<And>e. safe I (h e) Q"
  shows "safe I (etry m h) Q"
proof (rule safeI)
  fix w r w'
  assume I: "I w" and run: "etry m h w = (r, w')"
  from run consider e v where "m w = (Inl e, v)" "h e v = (r, w')" | a where "m w = (Inr a, w')" "r = Inr a"
    by (auto simp: etry_def split: prod.splits sum.splits)
  then show "I w' \<and> (\<forall>a. r = Inr a \<longrightarrow> Q a)"
    by cases (metis safeD [OF assms(1) I] safe_valueD [OF assms(1) I] safeD [OF assms(2)] safe_valueD [OF assms(2)]
        sum.inject(2))+
qed

lemma safe_ewhen: "(b \<Longrightarrow> safe I m (\<lambda>_. True)) \<Longrightarrow> safe I (ewhen b m) (\<lambda>_. True)"
  by (simp add: ewhen_def safe_eret)

lemma safe_if: "(b \<Longrightarrow> safe I m Q) \<Longrightarrow> (\<not> b \<Longrightarrow> safe I n Q) \<Longrightarrow> safe I (if b then m else n) Q"
  by simp

lemma safe_case_option:
  "(v = None \<Longrightarrow> safe I m Q) \<Longrightarrow> (\<And>x. v = Some x \<Longrightarrow> safe I (f x) Q)
   \<Longrightarrow> safe I (case v of None \<Rightarrow> m | Some x \<Rightarrow> f x) Q"
  by (cases v) simp_all

lemma safe_case_sum:
  "(\<And>x. v = Inl x \<Longrightarrow> safe I (f x) Q) \<Longrightarrow> (\<And>x. v = Inr x \<Longrightarrow> safe I (g x) Q)
   \<Longrightarrow> safe I (case v of Inl x \<Rightarrow> f x | Inr x \<Rightarrow> g x) Q"
  by (cases v) simp_all

lemma safe_case_prod:
  "(\<And>x y. p = (x, y) \<Longrightarrow> safe I (f x y) Q) \<Longrightarrow> safe I (case p of (x, y) \<Rightarrow> f x y) Q"
  by (cases p) simp

lemma safe_let: "(\<And>x. x = v \<Longrightarrow> safe I (f x) Q) \<Longrightarrow> safe I (let x = v in f x) Q"
  by simp

lemma safe_efor: "(\<And>x. x \<in> set xs \<Longrightarrow> safe I (f x) (\<lambda>_. True)) \<Longrightarrow> safe I (efor xs f) (\<lambda>_. True)"
  by (induction xs) (auto intro: safe_eret safe_ebind)

text \<open>
  The same rules with the continuation of a bind, for proofs that walk along a handler: each applies
  to one form of the first operation and leaves no unknown behind.
\<close>

lemma safe_bind_eret: "safe I (f a) Q \<Longrightarrow> safe I (ebind (eret a) f) Q"
  by simp

lemma safe_bind_elift: "(\<And>a. r = Inr a \<Longrightarrow> safe I (f a) Q) \<Longrightarrow> safe I (ebind (elift r) f) Q"
  by (rule safe_ebind [OF safe_elift])

lemma safe_bind_eguard: "(\<not> b \<Longrightarrow> safe I (f ()) Q) \<Longrightarrow> safe I (ebind (eguard b c m) f) Q"
  by (rule safe_ebind [OF safe_eguard]) simp

lemma safe_bind_eget: "(\<And>a. safe I (f a) Q) \<Longrightarrow> safe I (ebind (eget g) f) Q"
  by (rule safe_ebind [where P = "\<lambda>_. True", OF safe_eget]) simp_all

lemma safe_bind_any: "safe I m (\<lambda>_. True) \<Longrightarrow> (\<And>a. safe I (f a) Q) \<Longrightarrow> safe I (ebind m f) Q"
  by (erule safe_ebind)

lemma safe_bind_eattempt:
  "safe I m (\<lambda>_. True) \<Longrightarrow> (\<And>r. safe I (f r) Q) \<Longrightarrow> safe I (ebind (eattempt m) f) Q"
  by (rule safe_bind_any [OF safe_any [OF safe_eattempt]])

lemma safe_bind_ewhen:
  "(b \<Longrightarrow> safe I m (\<lambda>_. True)) \<Longrightarrow> safe I (f ()) Q \<Longrightarrow> safe I (ebind (ewhen b m) f) Q"
  by (rule safe_bind_any [OF safe_ewhen]) simp_all

lemma safe_bind_etry:
  "safe I m (\<lambda>_. True) \<Longrightarrow> (\<And>e. safe I (h e) (\<lambda>_. True)) \<Longrightarrow> (\<And>a. safe I (f a) Q)
   \<Longrightarrow> safe I (ebind (etry m h) f) Q"
  by (rule safe_bind_any [OF safe_etry]) simp_all

lemma safe_bind_efor:
  "(\<And>x. x \<in> set xs \<Longrightarrow> safe I (g x) (\<lambda>_. True)) \<Longrightarrow> (\<And>a. safe I (f a) Q)
   \<Longrightarrow> safe I (ebind (efor xs g) f) Q"
  by (rule safe_bind_any [OF safe_efor]) simp_all

lemma ebind_assoc: "ebind (ebind m f) g = ebind m (\<lambda>a. ebind (f a) g)"
  by (simp add: fun_eq_iff ebind_def split: prod.splits sum.splits)

lemma safe_bind_assoc: "safe I (ebind m (\<lambda>a. ebind (f a) g)) Q \<Longrightarrow> safe I (ebind (ebind m f) g) Q"
  by (simp add: ebind_assoc)

lemma safe_bind_if:
  "(b \<Longrightarrow> safe I (ebind m f) Q) \<Longrightarrow> (\<not> b \<Longrightarrow> safe I (ebind n f) Q)
   \<Longrightarrow> safe I (ebind (if b then m else n) f) Q"
  by simp

lemma safe_bind_case_option:
  "(v = None \<Longrightarrow> safe I (ebind m f) Q) \<Longrightarrow> (\<And>x. v = Some x \<Longrightarrow> safe I (ebind (g x) f) Q)
   \<Longrightarrow> safe I (ebind (case v of None \<Rightarrow> m | Some x \<Rightarrow> g x) f) Q"
  by (cases v) simp_all

lemma safe_bind_case_sum:
  "(\<And>x. v = Inl x \<Longrightarrow> safe I (ebind (g x) f) Q) \<Longrightarrow> (\<And>x. v = Inr x \<Longrightarrow> safe I (ebind (h x) f) Q)
   \<Longrightarrow> safe I (ebind (case v of Inl x \<Rightarrow> g x | Inr x \<Rightarrow> h x) f) Q"
  by (cases v) simp_all

lemmas safe_walk = safe_bind_case_sum safe_bind_eret safe_bind_elift safe_bind_eguard safe_bind_eget safe_bind_eattempt
  safe_bind_ewhen safe_bind_etry safe_bind_efor safe_bind_assoc safe_bind_if safe_bind_case_option
  safe_eret safe_eraise safe_ewhen safe_if safe_case_option safe_case_sum safe_case_prod safe_let

end
