(* ===== verification/UTE_Decimal.thy ===== *)
theory UTE_Decimal
  imports UTE_Prelude Complex_Main
begin

text \<open>
  Python's \<^verbatim>\<open>decimal.Decimal\<close> under the default context, which is what the code uses everywhere:
  28 significant digits, rounding half to even. A finite \<^verbatim>\<open>Decimal\<close> is modelled by its value, a
  rational number; constructing one from text is exact, and every arithmetic operation returns the
  exact result rounded by \<open>ctx_round\<close>. Comparisons, \<^verbatim>\<open>max\<close> and \<^verbatim>\<open>min\<close> are exact. The code relies
  on no property of the representation (exponent, signed zero) beyond the value. Not modelled: the
  exponent limits of the context (about a million digits) and the special values, except that
  \<^verbatim>\<open>Decimal("Inf")\<close> as a configured limit is a constructor of its own in the risk theory.
\<close>

type_synonym decimal = rat

subsection \<open>Rounding to an integer\<close>

definition round_half_even :: "rat \<Rightarrow> int" where
  "round_half_even x =
     (let f = \<lfloor>x\<rfloor>; d = x - of_int f
      in if d < 1 / 2 then f else if 1 / 2 < d then f + 1 else if even f then f else f + 1)"

lemma round_half_even_of_int [simp]: "round_half_even (of_int n) = n"
  by (simp add: round_half_even_def)

lemma round_half_even_dist: "\<bar>of_int (round_half_even x) - x\<bar> \<le> 1 / 2"
proof -
  define f where "f = \<lfloor>x\<rfloor>"
  have "of_int f \<le> x" "x < of_int f + 1" unfolding f_def by linarith+
  then show ?thesis by (auto simp: round_half_even_def Let_def abs_if simp flip: f_def)
qed

lemma round_half_even_mono:
  assumes "x \<le> y"
  shows "round_half_even x \<le> round_half_even y"
proof -
  have fl: "\<lfloor>x\<rfloor> \<le> \<lfloor>y\<rfloor>" using assms by (rule floor_mono)
  show ?thesis
  proof (cases "\<lfloor>x\<rfloor> = \<lfloor>y\<rfloor>")
    case True
    with assms show ?thesis by (auto simp: round_half_even_def Let_def)
  next
    case False
    with fl have "\<lfloor>x\<rfloor> + 1 \<le> \<lfloor>y\<rfloor>" by simp
    moreover have "round_half_even x \<le> \<lfloor>x\<rfloor> + 1" by (simp add: round_half_even_def Let_def)
    moreover have "\<lfloor>y\<rfloor> \<le> round_half_even y" by (simp add: round_half_even_def Let_def)
    ultimately show ?thesis by linarith
  qed
qed

lemma round_half_even_minus: "round_half_even (- x) = - round_half_even x"
proof (cases "x \<in> \<int>")
  case True
  then obtain n where "x = of_int n" by (auto elim: Ints_cases)
  then show ?thesis by (metis of_int_minus round_half_even_of_int)
next
  case False
  then have ne: "x \<noteq> of_int \<lfloor>x\<rfloor>" by (metis Ints_of_int)
  define f where "f = \<lfloor>x\<rfloor>"
  have "of_int f \<le> x" "x < of_int f + 1" unfolding f_def by linarith+
  with ne have le: "of_int f < x" "x < of_int f + 1" unfolding f_def by linarith+
  have fl: "\<lfloor>- x\<rfloor> = - f - 1"
    by (rule floor_unique) (use le in auto)
  have f: "\<lfloor>x\<rfloor> = f" by (simp add: f_def)
  show ?thesis
    unfolding round_half_even_def Let_def fl f using le by (auto simp: even_diff)
qed

subsection \<open>The adjusted exponent\<close>

text \<open>
  \<open>dec_len n\<close> counts the decimal digits of a natural number. The adjusted exponent of a positive
  rational \<open>p / q\<close> is the exponent of its leading digit: the difference of the digit counts, or
  one less.
\<close>

fun dec_len :: "nat \<Rightarrow> nat" where
  "dec_len n = (if n < 10 then 1 else Suc (dec_len (n div 10)))"

declare dec_len.simps [simp del]

lemma dec_len_bounds:
  assumes "n > 0"
  shows "10 ^ (dec_len n - 1) \<le> n \<and> n < 10 ^ dec_len n"
  using assms
proof (induction n rule: dec_len.induct)
  case (1 n)
  show ?case
  proof (cases "n < 10")
    case True
    with "1.prems" show ?thesis by (simp add: dec_len.simps)
  next
    case False
    let ?l = "dec_len (n div 10)"
    from False have pos: "n div 10 > 0" by simp
    have l: "?l \<ge> 1" by (subst dec_len.simps) simp
    from "1.IH"[OF False pos] have ih: "10 ^ (?l - 1) \<le> n div 10" "n div 10 < 10 ^ ?l" by auto
    have "(10 :: nat) ^ ?l = 10 * 10 ^ (?l - 1)" using l by (cases ?l) auto
    with ih(1) have "10 ^ ?l \<le> 10 * (n div 10)" by (metis mult_le_mono2)
    then have "10 ^ ?l \<le> n" by (rule order_trans) simp
    moreover from ih(2) have "n < 10 * 10 ^ ?l" by linarith
    ultimately show ?thesis using False by (simp add: dec_len.simps [of n])
  qed
qed

lemma dec_len_pos [simp]: "dec_len n > 0"
  by (subst dec_len.simps) simp

definition adj_exp :: "rat \<Rightarrow> int" where
  "adj_exp x =
     (let (p, q) = quotient_of x;
          e = int (dec_len (nat p)) - int (dec_len (nat q))
      in if 10 powi e \<le> x then e else e - 1)"

lemma powi_ten_pos [simp]: "(10 :: rat) powi e > 0"
  by simp

lemma powi_ten_Suc: "(10 :: rat) powi (e + 1) = 10 * 10 powi e"
  by (simp add: power_int_add)

lemma powi_ten_less_iff [simp]: "(10 :: rat) powi a < 10 powi b \<longleftrightarrow> a < b"
  by (metis linorder_not_less one_less_numeral_iff power_int_increasing order_less_imp_le
      power_int_strict_increasing semiring_norm(76))

lemma powi_ten_le_iff [simp]: "(10 :: rat) powi a \<le> 10 powi b \<longleftrightarrow> a \<le> b"
  by (meson linorder_not_less powi_ten_less_iff)

lemma powi_ten_nat: "(10 :: rat) powi (int n) = 10 ^ n"
  by (simp add: power_int_of_nat)

lemma powi_ten_pred: "n > 0 \<Longrightarrow> (10 :: rat) ^ (n - 1) = 10 powi (int n - 1)"
  by (simp add: of_nat_diff flip: powi_ten_nat)

lemma of_nat_mono_rat: "m \<le> n \<Longrightarrow> (of_nat m :: rat) \<le> of_nat n"
  by simp

lemma of_nat_less_rat: "m < n \<Longrightarrow> (of_nat m :: rat) < of_nat n"
  by simp

lemma adj_exp_bounds:
  assumes "x > 0"
  shows "10 powi (adj_exp x) \<le> x \<and> x < 10 powi (adj_exp x + 1)"
proof -
  obtain p q where pq: "quotient_of x = (p, q)" by (cases "quotient_of x") auto
  from pq have q: "q > 0" by (rule quotient_of_denom_pos)
  from pq have x: "x = of_int p / of_int q" by (rule quotient_of_div)
  with assms q have p: "p > 0" by (simp add: zero_less_divide_iff)
  let ?a = "dec_len (nat p)" and ?b = "dec_len (nat q)"
  let ?e = "int ?a - int ?b"
  have pb: "10 ^ (?a - 1) \<le> nat p" "nat p < 10 ^ ?a" using dec_len_bounds [of "nat p"] p by auto
  have qb: "10 ^ (?b - 1) \<le> nat q" "nat q < 10 ^ ?b" using dec_len_bounds [of "nat q"] q by auto
  have cast: "(of_int p :: rat) = of_nat (nat p)" "(of_int q :: rat) = of_nat (nat q)"
    using p q by simp_all
  have pr: "(10 :: rat) ^ (?a - 1) \<le> of_int p" "(of_int p :: rat) < 10 ^ ?a"
    unfolding cast using pb(1) [THEN of_nat_mono_rat] pb(2) [THEN of_nat_less_rat] by simp_all
  have qr: "(10 :: rat) ^ (?b - 1) \<le> of_int q" "(of_int q :: rat) < 10 ^ ?b"
    unfolding cast using qb(1) [THEN of_nat_mono_rat] qb(2) [THEN of_nat_less_rat] by simp_all
  have qpos: "(of_int q :: rat) > 0" using q by simp
  have a1: "(10 :: rat) ^ (?a - 1) = 10 powi (int ?a - 1)"
    by (rule powi_ten_pred) simp
  have b1: "(10 :: rat) ^ (?b - 1) = 10 powi (int ?b - 1)"
    by (rule powi_ten_pred) simp
  have up: "x < 10 powi (?e + 1)"
  proof -
    have "of_int p < (10 powi (?e + 1)) * (of_int q :: rat)"
    proof -
      have "(of_int p :: rat) < 10 powi (int ?a)" using pr(2) by (simp add: powi_ten_nat)
      also have "\<dots> = 10 powi (?e + 1) * 10 powi (int ?b - 1)"
        by (simp flip: power_int_add)
      also have "\<dots> \<le> 10 powi (?e + 1) * of_int q"
        by (intro mult_left_mono) (use qr(1) in \<open>simp_all only: b1 powi_ten_pos less_imp_le\<close>)
      finally show ?thesis .
    qed
    with qpos show ?thesis by (simp add: x divide_less_eq)
  qed
  have lo: "10 powi (?e - 1) \<le> x"
  proof -
    have "10 powi (?e - 1) * of_int q \<le> (of_int p :: rat)"
    proof -
      have "10 powi (?e - 1) * of_int q \<le> 10 powi (?e - 1) * (10 powi int ?b :: rat)"
        using qr(2) by (intro mult_left_mono) (auto simp: powi_ten_nat)
      also have "\<dots> = 10 powi (int ?a - 1)" by (subst power_int_add [symmetric]) simp_all
      also have "\<dots> \<le> of_int p" using pr(1) unfolding a1 .
      finally show ?thesis .
    qed
    with qpos show ?thesis by (simp add: x pos_le_divide_eq)
  qed
  show ?thesis
    using up lo by (auto simp: adj_exp_def pq Let_def)
qed

lemma adj_exp_unique:
  assumes "10 powi e \<le> x" "x < 10 powi (e + 1)"
  shows "adj_exp x = e"
proof -
  have pos: "x > 0" using assms(1) powi_ten_pos [of e] by linarith
  note b = adj_exp_bounds [OF pos]
  have "(10 :: rat) powi e < 10 powi (adj_exp x + 1)" using assms(1) b by linarith
  moreover have "(10 :: rat) powi adj_exp x < 10 powi (e + 1)" using assms(2) b by linarith
  ultimately show ?thesis by simp
qed

subsection \<open>Rounding to the context\<close>

definition ctx_prec :: int where
  "ctx_prec = 28"

definition ctx_round :: "rat \<Rightarrow> decimal" where
  "ctx_round x =
     (if x = 0 then 0
      else let u = 10 powi (adj_exp \<bar>x\<bar> - (ctx_prec - 1))
           in of_int (round_half_even (x / u)) * u)"

lemma ctx_round_zero [simp]: "ctx_round 0 = 0"
  by (simp add: ctx_round_def)

lemma ctx_round_minus: "ctx_round (- x) = - ctx_round x"
proof (cases "x = 0")
  case False
  then show ?thesis
    using round_half_even_minus [of "x / 10 powi (adj_exp \<bar>x\<bar> - (ctx_prec - 1))"]
    by (simp add: ctx_round_def Let_def)
qed simp

text \<open>Within one decade the rounding is monotone and stays in the closed decade.\<close>

lemma ctx_round_decade:
  assumes "x > 0"
  shows "10 powi (adj_exp x) \<le> ctx_round x \<and> ctx_round x \<le> 10 powi (adj_exp x + 1)"
proof -
  let ?e = "adj_exp x"
  let ?u = "(10 :: rat) powi (?e - (ctx_prec - 1))"
  note b = adj_exp_bounds [OF assms]
  have u: "?u > 0" by simp
  have lo: "10 powi ?e = (of_int (10 ^ 27) :: rat) * ?u"
    and hi: "10 powi (?e + 1) = (of_int (10 ^ 28) :: rat) * ?u"
    by (simp_all add: ctx_prec_def power_int_diff power_int_add)
  have "of_int (10 ^ 27) \<le> x / ?u" using b lo u by (simp add: pos_le_divide_eq)
  then have 1: "10 ^ 27 \<le> round_half_even (x / ?u)"
    using round_half_even_mono [of "of_int (10 ^ 27)" "x / ?u"] by (simp only: round_half_even_of_int)
  have "x / ?u \<le> of_int (10 ^ 28)" using b hi u by (simp add: pos_divide_le_eq)
  then have 2: "round_half_even (x / ?u) \<le> 10 ^ 28"
    using round_half_even_mono [of "x / ?u" "of_int (10 ^ 28)"] by (simp only: round_half_even_of_int)
  have r: "ctx_round x = of_int (round_half_even (x / ?u)) * ?u"
    using assms by (simp add: ctx_round_def Let_def)
  have "(of_int (10 ^ 27) :: rat) * ?u \<le> of_int (round_half_even (x / ?u)) * ?u"
    by (intro mult_right_mono) (use 1 in \<open>simp_all only: of_int_le_iff\<close>, simp)
  moreover have "of_int (round_half_even (x / ?u)) * ?u \<le> (of_int (10 ^ 28) :: rat) * ?u"
    by (intro mult_right_mono) (use 2 in \<open>simp_all only: of_int_le_iff\<close>, simp)
  ultimately show ?thesis by (simp only: r lo hi)
qed

lemma ctx_round_mono_pos:
  assumes "0 < x" "x \<le> y"
  shows "ctx_round x \<le> ctx_round y"
proof -
  have y: "0 < y" using assms by simp
  note bx = adj_exp_bounds [OF assms(1)] and b_y = adj_exp_bounds [OF y]
  have "(10 :: rat) powi adj_exp x < 10 powi (adj_exp y + 1)" using bx b_y assms(2) by linarith
  then have le: "adj_exp x \<le> adj_exp y" by simp
  show ?thesis
  proof (cases "adj_exp x = adj_exp y")
    case True
    let ?u = "(10 :: rat) powi (adj_exp y - (ctx_prec - 1))"
    have "round_half_even (x / ?u) \<le> round_half_even (y / ?u)"
      by (rule round_half_even_mono) (simp add: divide_right_mono assms(2))
    then show ?thesis
      using assms y True by (simp add: ctx_round_def Let_def mult_right_mono)
  next
    case False
    with le have "adj_exp x + 1 \<le> adj_exp y" by simp
    then have "(10 :: rat) powi (adj_exp x + 1) \<le> 10 powi adj_exp y" by simp
    with ctx_round_decade [OF assms(1)] ctx_round_decade [OF y] show ?thesis by linarith
  qed
qed

lemma ctx_round_pos: "0 < x \<Longrightarrow> 0 < ctx_round x"
  using ctx_round_decade [of x] powi_ten_pos [of "adj_exp x"] by linarith

lemma ctx_round_neg: "x < 0 \<Longrightarrow> ctx_round x < 0"
  using ctx_round_pos [of "- x"] by (simp add: ctx_round_minus)

lemma ctx_round_mono:
  assumes "x \<le> y"
  shows "ctx_round x \<le> ctx_round y"
proof -
  consider "0 < x" | "x \<le> 0" "0 \<le> y" | "y < 0" using assms by linarith
  then show ?thesis
  proof cases
    case 1
    then show ?thesis using assms by (rule ctx_round_mono_pos)
  next
    case 2
    have "ctx_round x \<le> 0" using ctx_round_neg [of x] 2 by (cases "x = 0") auto
    moreover have "0 \<le> ctx_round y" using ctx_round_pos [of y] 2 by (cases "y = 0") auto
    ultimately show ?thesis by linarith
  next
    case 3
    then have "ctx_round (- y) \<le> ctx_round (- x)" using assms by (intro ctx_round_mono_pos) auto
    then show ?thesis by (simp add: ctx_round_minus)
  qed
qed

subsection \<open>Exact results\<close>

text \<open>
  A value with at most 28 significant digits is its own rounding. The side conditions of the
  evaluation rules are closed integer arithmetic, so the simplifier decides them on literals.
\<close>

definition fits :: "rat \<Rightarrow> bool" where
  "fits x \<longleftrightarrow> (\<exists>m e. x = of_int m * 10 powi e \<and> \<bar>m\<bar> < 10 ^ 28)"

lemma ctx_round_fits_pos:
  assumes "x = of_int m * 10 powi e" "\<bar>m\<bar> < 10 ^ 28" "0 < x"
  shows "ctx_round x = x"
proof -
  let ?a = "adj_exp x"
  let ?u = "(10 :: rat) powi (?a - (ctx_prec - 1))"
  have "(of_int m :: rat) < of_int (10 ^ 28)" using assms(2) by (simp only: of_int_less_iff)
  then have "x < of_int (10 ^ 28) * 10 powi e"
    unfolding assms(1) by (intro mult_strict_right_mono) simp_all
  also have "\<dots> = 10 powi (28 + e)" by (simp add: power_int_add)
  finally have "(10 :: rat) powi ?a < 10 powi (28 + e)"
    using adj_exp_bounds [OF assms(3)] by linarith
  then have le: "?a - (ctx_prec - 1) \<le> e" by (simp add: ctx_prec_def)
  define k where "k = nat (e - (?a - (ctx_prec - 1)))"
  have "x / ?u = of_int m * 10 powi (e - (?a - (ctx_prec - 1)))"
    unfolding assms(1) by (simp add: power_int_diff)
  also have "\<dots> = of_int (m * 10 ^ k)"
    using le by (simp add: k_def power_int_nonneg_exp)
  finally have q: "x / ?u = of_int (m * 10 ^ k)" .
  have "ctx_round x = of_int (round_half_even (x / ?u)) * ?u"
    using assms(3) by (simp add: ctx_round_def Let_def)
  also have "\<dots> = x / ?u * ?u" by (simp only: q round_half_even_of_int)
  finally show ?thesis by simp
qed

lemma ctx_round_fits: "fits x \<Longrightarrow> ctx_round x = x"
proof -
  assume "fits x"
  then obtain m e where x: "x = of_int m * 10 powi e" "\<bar>m\<bar> < 10 ^ 28" by (auto simp: fits_def)
  consider "x = 0" | "0 < x" | "0 < - x" by linarith
  then show ?thesis
  proof cases
    case 3
    then have "ctx_round (- x) = - x"
      by (intro ctx_round_fits_pos [of _ "- m" e]) (use x in auto)
    then show ?thesis by (simp add: ctx_round_minus)
  qed (use ctx_round_fits_pos x in auto)
qed

lemma fits_of_int: "\<bar>m\<bar> < 10 ^ 28 \<Longrightarrow> fits (of_int m)"
  unfolding fits_def by (rule exI [of _ m], rule exI [of _ 0]) simp

lemma fits_scaled:
  assumes "x * 10 ^ k = of_int m" "\<bar>m\<bar> < 10 ^ 28"
  shows "fits x"
proof -
  have "x = of_int m * 10 powi (- int k)"
    using assms(1) by (simp add: power_int_minus field_simps)
  with assms(2) show ?thesis by (auto simp: fits_def)
qed

lemma ctx_round_fits_neg: "fits x \<Longrightarrow> ctx_round (- x) = - x"
  by (simp add: ctx_round_minus ctx_round_fits)

lemma fits_numeral: "(numeral n :: int) < 10 ^ 28 \<Longrightarrow> fits (numeral n)"
  using fits_of_int [of "numeral n"] by simp

lemma fits_one: "fits 1"
  using fits_of_int [of 1] by simp

lemma fits_zero: "fits 0"
  using fits_of_int [of 0] by simp

lemma fits_divides:
  assumes d: "d * M = (10 :: int) ^ 12" and n: "\<bar>n * M\<bar> < 10 ^ 28"
  shows "fits (of_int n / of_int d)"
proof (rule fits_scaled [OF _ n])
  from d have "(of_int d :: rat) * of_int M = 10 ^ 12"
    by (metis of_int_mult of_int_numeral of_int_power)
  moreover have "(of_int d :: rat) \<noteq> 0" using d by auto
  ultimately show "of_int n / of_int d * 10 ^ 12 = (of_int (n * M) :: rat)"
    by (simp add: field_simps flip: \<open>of_int d * of_int M = 10 ^ 12\<close>)
qed

lemma mult_div_cancel_mod: "(a :: int) mod b = 0 \<Longrightarrow> b * (a div b) = a"
  by auto

lemma fits_quotient:
  assumes "(10 :: int) ^ 12 mod numeral d = 0"
    and "numeral n * (10 ^ 12 div numeral d) < (10 :: int) ^ 28"
  shows "fits (numeral n / numeral d)"
proof -
  define M :: int where "M = 10 ^ 12 div numeral d"
  have e: "numeral d * M = 10 ^ 12"
    unfolding M_def using assms(1) by (rule mult_div_cancel_mod)
  have "0 \<le> M" unfolding M_def by (rule pos_imp_zdiv_nonneg_iff [THEN iffD2]) simp_all
  moreover have "numeral n * M < 10 ^ 28" unfolding M_def by (rule assms(2))
  ultimately have "\<bar>numeral n * M\<bar> < 10 ^ 28" by (simp add: abs_mult)
  from fits_divides [OF e this] show ?thesis by simp
qed

lemma fits_inverse:
  assumes "(10 :: int) ^ 12 mod numeral d = 0"
  shows "fits (1 / numeral d)"
proof -
  define M :: int where "M = 10 ^ 12 div numeral d"
  have e: "numeral d * M = 10 ^ 12"
    unfolding M_def using assms(1) by (rule mult_div_cancel_mod)
  have "0 \<le> M" unfolding M_def by (rule pos_imp_zdiv_nonneg_iff [THEN iffD2]) simp_all
  moreover have "M \<le> 10 ^ 12 div 1" unfolding M_def by (intro zdiv_mono2) simp_all
  ultimately have "\<bar>1 * M\<bar> < 10 ^ 28" by simp
  from fits_divides [OF e this] show ?thesis by simp
qed

lemma floor_quotient_rat: "\<lfloor>(numeral a :: rat) / numeral b\<rfloor> = numeral a div numeral b"
  using floor_divide_of_int_eq [of "numeral a" "numeral b", where ?'a = rat] by simp

lemma ceiling_quotient_rat: "\<lceil>(numeral a :: rat) / numeral b\<rceil> = - (- numeral a div numeral b)"
  using ceiling_divide_eq_div [of "numeral a" "numeral b", where ?'a = rat] by simp

lemmas ctx_round_eval =
  floor_quotient_rat ceiling_quotient_rat
  ctx_round_fits [OF fits_numeral] ctx_round_fits [OF fits_one] ctx_round_zero
  ctx_round_fits [OF fits_quotient] ctx_round_fits [OF fits_inverse]
  ctx_round_fits_neg [OF fits_numeral] ctx_round_fits_neg [OF fits_one]
  ctx_round_fits_neg [OF fits_quotient] ctx_round_fits_neg [OF fits_inverse]

text \<open>The relative error of one rounding.\<close>

lemma ctx_round_error: "\<bar>ctx_round x - x\<bar> \<le> \<bar>x\<bar> * 5 / 10 ^ 28"
proof (cases "x = 0")
  case False
  then have pos: "\<bar>x\<bar> > 0" by simp
  let ?e = "adj_exp \<bar>x\<bar>"
  let ?u = "(10 :: rat) powi (?e - (ctx_prec - 1))"
  have u: "?u > 0" by simp
  have "ctx_round x = of_int (round_half_even (x / ?u)) * ?u"
    using False by (simp add: ctx_round_def Let_def)
  then have "ctx_round x - x = (of_int (round_half_even (x / ?u)) - x / ?u) * ?u"
    by (simp add: field_simps)
  then have "\<bar>ctx_round x - x\<bar> = \<bar>of_int (round_half_even (x / ?u)) - x / ?u\<bar> * ?u"
    using u by (simp add: abs_mult)
  also have "\<dots> \<le> 1 / 2 * ?u"
    by (intro mult_right_mono round_half_even_dist) simp
  also have "?u = 10 powi ?e / 10 ^ 27" by (simp add: ctx_prec_def power_int_diff)
  also have "1 / 2 * (10 powi ?e / 10 ^ 27 :: rat) \<le> 1 / 2 * (\<bar>x\<bar> / 10 ^ 27)"
    using adj_exp_bounds [OF pos] by (intro mult_left_mono divide_right_mono) auto
  finally show ?thesis by simp
qed simp

subsection \<open>The operations of the context\<close>

definition dadd :: "decimal \<Rightarrow> decimal \<Rightarrow> decimal" where
  "dadd x y = ctx_round (x + y)"

definition dsub :: "decimal \<Rightarrow> decimal \<Rightarrow> decimal" where
  "dsub x y = ctx_round (x - y)"

definition dmul :: "decimal \<Rightarrow> decimal \<Rightarrow> decimal" where
  "dmul x y = ctx_round (x * y)"

definition ddiv_nz :: "decimal \<Rightarrow> decimal \<Rightarrow> decimal" where
  \<comment> \<open>division by a divisor the code has shown to be nonzero\<close>
  "ddiv_nz x y = ctx_round (x / y)"

definition ddiv :: "decimal \<Rightarrow> decimal \<Rightarrow> decimal result" where
  \<comment> \<open>\<^verbatim>\<open>x / 0\<close> raises \<^verbatim>\<open>DivisionByZero\<close>, and \<^verbatim>\<open>0 / 0\<close> raises \<^verbatim>\<open>InvalidOperation\<close>\<close>
  "ddiv x y =
     (if y = 0 then
        if x = 0 then raise_exn PyDecimalInvalidOperation ''DivisionUndefined''
        else raise_exn PyZeroDivisionError ''DivisionByZero''
      else Inr (ddiv_nz x y))"

definition dabs :: "decimal \<Rightarrow> decimal" where
  "dabs x = ctx_round \<bar>x\<bar>"

definition trunc_int :: "rat \<Rightarrow> int" where
  \<comment> \<open>\<^verbatim>\<open>ROUND_DOWN\<close>: towards zero\<close>
  "trunc_int x = (if 0 \<le> x then \<lfloor>x\<rfloor> else \<lceil>x\<rceil>)"

definition away_int :: "rat \<Rightarrow> int" where
  \<comment> \<open>\<^verbatim>\<open>ROUND_UP\<close>: away from zero\<close>
  "away_int x = (if 0 \<le> x then \<lceil>x\<rceil> else \<lfloor>x\<rfloor>)"

definition dmod :: "decimal \<Rightarrow> decimal \<Rightarrow> decimal result" where
  \<comment> \<open>\<^verbatim>\<open>x % y\<close>: the remainder of truncating division; the integer quotient must fit the precision\<close>
  "dmod x y =
     (if y = 0 then
        if x = 0 then raise_exn PyDecimalInvalidOperation ''DivisionUndefined''
        else raise_exn PyDecimalInvalidOperation ''InvalidOperation''
      else if 10 ^ nat ctx_prec \<le> \<bar>trunc_int (x / y)\<bar>
      then raise_exn PyDecimalInvalidOperation ''DivisionImpossible''
      else Inr (ctx_round (x - y * of_int (trunc_int (x / y)))))"

definition dsum :: "decimal list \<Rightarrow> decimal" where
  \<comment> \<open>\<^verbatim>\<open>sum(xs, start=Decimal("0"))\<close>: additions from the left, each rounded\<close>
  "dsum xs = foldl dadd 0 xs"

lemmas dec_defs = dadd_def dsub_def dmul_def ddiv_nz_def dabs_def

lemma ctx_round_eq_zero [simp]: "ctx_round x = 0 \<longleftrightarrow> x = 0"
  using ctx_round_pos [of x] ctx_round_neg [of x] by (cases "x = 0"; linarith?) auto

lemma trunc_int_le: "0 \<le> x \<Longrightarrow> of_int (trunc_int x) \<le> x"
  by (simp add: trunc_int_def)

lemma away_int_ge: "0 \<le> x \<Longrightarrow> x \<le> of_int (away_int x)"
  by (simp add: away_int_def)

lemma trunc_int_mono:
  assumes "x \<le> y"
  shows "trunc_int x \<le> trunc_int y"
proof -
  consider "0 \<le> x" | "x < 0" "0 \<le> y" | "y < 0" by linarith
  then show ?thesis
  proof cases
    case 2
    then have "\<lceil>x\<rceil> \<le> 0" "0 \<le> \<lfloor>y\<rfloor>" by simp_all
    then have "\<lceil>x\<rceil> \<le> \<lfloor>y\<rfloor>" by (rule order_trans)
    with 2 show ?thesis by (simp add: trunc_int_def)
  qed (use assms in \<open>auto simp: trunc_int_def floor_mono ceiling_mono\<close>)
qed

lemma away_int_mono:
  assumes "x \<le> y"
  shows "away_int x \<le> away_int y"
proof -
  consider "0 \<le> x" | "x < 0" "0 \<le> y" | "y < 0" by linarith
  then show ?thesis
  proof cases
    case 2
    then have "\<lfloor>x\<rfloor> \<le> 0" "0 \<le> \<lceil>y\<rceil>" by linarith+
    then have "\<lfloor>x\<rfloor> \<le> \<lceil>y\<rceil>" by (rule order_trans)
    with 2 show ?thesis by (simp add: away_int_def)
  qed (use assms in \<open>auto simp: away_int_def floor_mono ceiling_mono\<close>)
qed

subsection \<open>The contract of a rounding\<close>

text \<open>
  What the arithmetic of the trailing engine relies on: rounding is monotone and odd and keeps
  zero. The client lemmas are about sums, differences and products of rounded operands.
\<close>

locale rounding =
  fixes rnd :: "rat \<Rightarrow> rat"
  assumes rnd_mono: "x \<le> y \<Longrightarrow> rnd x \<le> rnd y"
    and rnd_minus: "rnd (- x) = - rnd x"
    and rnd_pos: "0 < x \<Longrightarrow> 0 < rnd x"
begin

lemma rnd_zero: "rnd 0 = 0"
  using rnd_minus [of 0] by simp

lemma rnd_nonneg: "0 \<le> x \<Longrightarrow> 0 \<le> rnd x"
  using rnd_mono [of 0 x] by (simp add: rnd_zero)

lemma add_left_mono_rnd: "y \<le> z \<Longrightarrow> rnd (x + y) \<le> rnd (x + z)"
  by (simp add: rnd_mono)

lemma add_right_mono_rnd: "y \<le> z \<Longrightarrow> rnd (y + x) \<le> rnd (z + x)"
  by (simp add: rnd_mono)

lemma sub_left_mono_rnd: "y \<le> z \<Longrightarrow> rnd (y - x) \<le> rnd (z - x)"
  by (simp add: rnd_mono)

lemma sub_right_antimono_rnd: "y \<le> z \<Longrightarrow> rnd (x - z) \<le> rnd (x - y)"
  by (simp add: rnd_mono)

lemma mul_mono_rnd: "0 \<le> f \<Longrightarrow> y \<le> z \<Longrightarrow> rnd (y * f) \<le> rnd (z * f)"
  by (intro rnd_mono mult_right_mono)

lemma sub_sign_rnd: "y \<le> x \<Longrightarrow> 0 \<le> rnd (x - y)"
  by (simp add: rnd_nonneg)

end

interpretation ctx: rounding ctx_round
  by unfold_locales (simp_all add: ctx_round_mono ctx_round_minus ctx_round_pos)

end
