(* ===== verification/UTE_Types.thy ===== *)
theory UTE_Types
  imports UTE_Decimal
begin

text \<open>
  The canonical types of \<^verbatim>\<open>core/types/\<close>: enums as datatypes, dataclasses as records, and each
  \<^verbatim>\<open>__post_init__\<close> as a function from the fields as given to the constructed value or the
  exception raised. Record fields carry a prefix per class (\<open>in_\<close> instrument, \<open>sp_\<close> spec, \<open>uo_\<close>
  order, \<open>or_\<close> order record, \<open>re_\<close> result, \<open>fl_\<close> fill, \<open>po_\<close> position, \<open>ba_\<close> balance), since one
  theory cannot hold two fields of the same name.

  A timezone-aware datetime is the instant it denotes, in microseconds of UTC; a naive one is kept
  apart, because the constructors reject it. Symbols and currencies are ASCII strings.
\<close>

subsection \<open>Enums\<close>

datatype order_type = MARKET | LIMIT | STOP | STOP_LIMIT
datatype order_side = BUY | SELL
datatype time_in_force = GTC | IOC | FOK | DAY | GTD
datatype order_status =
  PENDING | OPEN | PARTIALLY_FILLED | FILLED | CANCELLED | REJECTED | EXPIRED
datatype asset_class = SPOT | MARGIN_FX | CFD | FUTURES | OPTION | STOCK | BOND | FUND
datatype option_right = CALL | PUT
datatype halt_state = HS_ACTIVE | HS_HALTED
datatype fill_reason =
    FR_CLIENT | FR_EXPERT | FR_DEALER | FR_STOP_LOSS | FR_TAKE_PROFIT | FR_TRAILING_STOP
  | FR_STOP_OUT | FR_ROLLOVER | FR_MARGIN | FR_SPLIT | FR_UNKNOWN
datatype fill_entry = FE_IN | FE_OUT | FE_INOUT | FE_OUT_BY | FE_UNKNOWN
datatype halt_clear_mode = AUTOMATIC | MANUAL

definition LIVE_ORDER_STATUSES :: "order_status list" where
  "LIVE_ORDER_STATUSES = [PENDING, OPEN, PARTIALLY_FILLED]"

subsection \<open>Time\<close>

type_synonym instant = int

datatype py_datetime = Aware instant | Naive int

definition require_aware :: "string \<Rightarrow> py_datetime \<Rightarrow> instant result" where
  "require_aware field d =
     (case d of Aware t \<Rightarrow> Inr t
      | Naive _ \<Rightarrow> raise_exn PyValueError (field @ '' must be timezone-aware (UTC)''))"

fun opt_aware :: "string \<Rightarrow> py_datetime option \<Rightarrow> instant option result" where
  "opt_aware field None = Inr None"
| "opt_aware field (Some d) = rbind (require_aware field d) (\<lambda>t. Inr (Some t))"

subsection \<open>Instruments\<close>

definition upper_char :: "char \<Rightarrow> char" where
  "upper_char c = (let n = of_char c :: nat in if 97 \<le> n \<and> n \<le> 122 then char_of (n - 32) else c)"

definition upper :: "string \<Rightarrow> string" where
  "upper s = map upper_char s"

definition py_space :: "char \<Rightarrow> bool" where
  "py_space c = (let n = of_char c :: nat in (9 \<le> n \<and> n \<le> 13) \<or> (28 \<le> n \<and> n \<le> 32))"

definition blank :: "string \<Rightarrow> bool" where
  \<comment> \<open>\<^verbatim>\<open>not s.strip()\<close>\<close>
  "blank s \<longleftrightarrow> list_all py_space s"

lemma upper_char_idem [simp]: "upper_char (upper_char c) = upper_char c"
proof (cases "97 \<le> (of_char c :: nat) \<and> (of_char c :: nat) \<le> 122")
  case True
  then have "(of_char c - 32 :: nat) mod 256 = of_char c - 32" by (intro mod_less) arith
  moreover have "\<not> 97 \<le> (of_char c - 32 :: nat)" using True by arith
  ultimately show ?thesis using True by (simp add: upper_char_def Let_def)
next
  case False
  then have "upper_char c = c" by (auto simp: upper_char_def Let_def)
  then show ?thesis by simp
qed

lemma upper_idem [simp]: "upper (upper s) = upper s"
  by (simp add: upper_def)

record instrument =
  in_symbol :: string
  in_asset_class :: asset_class
  in_quote :: "string option"
  in_exchange :: "string option"
  in_currency :: "string option"
  in_expiry :: "int option"
  in_strike :: "decimal option"
  in_right :: "option_right option"
  in_multiplier :: "int option"
  in_platform_symbol :: "string option"

text \<open>
  \<open>platform_symbol\<close> is declared with \<^verbatim>\<open>compare=False\<close>: equality and hashing ignore it. A
  dictionary keyed by instruments is keyed by \<open>inst_id\<close> here.
\<close>

definition inst_id :: "instrument \<Rightarrow> instrument" where
  "inst_id i = i\<lparr>in_platform_symbol := None\<rparr>"

definition same_instrument :: "instrument \<Rightarrow> instrument \<Rightarrow> bool" where
  "same_instrument i j \<longleftrightarrow> inst_id i = inst_id j"

lemma same_instrument_refl [simp]: "same_instrument i i"
  by (simp add: same_instrument_def)

lemma same_instrument_sym: "same_instrument i j \<Longrightarrow> same_instrument j i"
  by (simp add: same_instrument_def)

lemma inst_id_idem [simp]: "inst_id (inst_id i) = inst_id i"
  by (simp add: inst_id_def)

definition missing_pair_currency :: "instrument \<Rightarrow> bool" where
  "missing_pair_currency i \<longleftrightarrow>
     (in_asset_class i \<in> {SPOT, MARGIN_FX} \<or> in_asset_class i = FUTURES \<and> in_expiry i = None)
     \<and> (case in_quote i of None \<Rightarrow> True | Some q \<Rightarrow> q = [])"

definition instrument_normalise :: "instrument \<Rightarrow> instrument" where
  "instrument_normalise i =
     i\<lparr>in_symbol := upper (in_symbol i), in_quote := map_option upper (in_quote i),
       in_currency := map_option upper (in_currency i)\<rparr>"

definition instrument_checks :: "instrument \<Rightarrow> unit result" where
  "instrument_checks i =
     rbind (guard_exn (blank (in_symbol i)) PyValueError ''symbol must be non-empty'') (\<lambda>_.
     rbind (guard_exn (case in_quote i of None \<Rightarrow> False | Some q \<Rightarrow> blank q)
              PyValueError ''quote_currency must be non-empty'') (\<lambda>_.
     rbind (guard_exn (case in_currency i of None \<Rightarrow> False | Some c \<Rightarrow> blank c)
              PyValueError ''currency must be non-empty'') (\<lambda>_.
     rbind (guard_exn (missing_pair_currency i) PyValueError ''quote_currency is required'') (\<lambda>_.
     rbind (guard_exn (in_asset_class i = OPTION \<and> in_expiry i = None)
              PyValueError ''expiry is required for OPTION'') (\<lambda>_.
     rbind (guard_exn (in_asset_class i = OPTION \<and> in_strike i = None)
              PyValueError ''strike is required for OPTION'') (\<lambda>_.
     rbind (guard_exn (in_asset_class i = OPTION \<and> in_right i = None)
              PyValueError ''option_right is required for OPTION'') (\<lambda>_.
     guard_exn (in_asset_class i \<in> {FUTURES, OPTION} \<and> in_multiplier i = None)
       PyValueError ''multiplier is required'')))))))"

definition instrument_post_init :: "instrument \<Rightarrow> instrument result" where
  "instrument_post_init i0 =
     (let i = instrument_normalise i0 in rbind (instrument_checks i) (\<lambda>_. Inr i))"

definition instrument_str :: "instrument \<Rightarrow> string result" where
  "instrument_str i =
     (case in_quote i of
        Some q \<Rightarrow>
          if q \<noteq> [] \<and> (in_asset_class i \<in> {SPOT, MARGIN_FX}
                \<or> in_asset_class i = FUTURES \<and> in_expiry i = None)
          then Inr (in_symbol i @ ''/'' @ q)
          else raise_exn PyValueError ''cannot be represented as a shorthand string''
      | None \<Rightarrow> raise_exn PyValueError ''cannot be represented as a shorthand string'')"

definition wf_instrument :: "instrument \<Rightarrow> bool" where
  "wf_instrument i \<longleftrightarrow> instrument_post_init i = Inr i"

lemma instrument_normalise_idem [simp]:
  "instrument_normalise (instrument_normalise i) = instrument_normalise i"
  by (cases "in_quote i"; cases "in_currency i") (simp_all add: instrument_normalise_def)

lemma instrument_post_init_Inr:
  "instrument_post_init i = Inr j \<longleftrightarrow> j = instrument_normalise i \<and> instrument_checks j = Inr ()"
proof -
  have "instrument_post_init i = Inr j \<longleftrightarrow>
      (\<exists>u. instrument_checks (instrument_normalise i) = Inr u) \<and> instrument_normalise i = j"
    by (simp add: instrument_post_init_def Let_def rbind_eq_Inr)
  then show ?thesis by auto
qed

lemma instrument_checks_Inr:
  "instrument_checks i = Inr () \<longleftrightarrow>
     \<not> blank (in_symbol i) \<and> (\<forall>q. in_quote i = Some q \<longrightarrow> \<not> blank q)
     \<and> (\<forall>c. in_currency i = Some c \<longrightarrow> \<not> blank c) \<and> \<not> missing_pair_currency i
     \<and> (in_asset_class i = OPTION \<longrightarrow> in_expiry i \<noteq> None \<and> in_strike i \<noteq> None \<and> in_right i \<noteq> None)
     \<and> (in_asset_class i \<in> {FUTURES, OPTION} \<longrightarrow> in_multiplier i \<noteq> None)"
  unfolding instrument_checks_def rbind_eq_Inr guard_exn_Inr
  by (simp split: option.splits) blast

lemma instrument_post_init_idem:
  "instrument_post_init i = Inr j \<Longrightarrow> instrument_post_init j = Inr j"
  by (metis instrument_post_init_Inr instrument_normalise_idem)

text \<open>
  What construction promises, stated on the two values: a letter from a to z moves down by 32 in the
  ASCII table and every other character stays, in the three upper-cased texts; nothing else changes;
  and the constructed value names everything its asset class needs.
\<close>

definition upper_cased :: "string \<Rightarrow> string \<Rightarrow> bool" where
  "upper_cased s t \<longleftrightarrow>
     list_all2 (\<lambda>c d. if of_char c \<in> {97..122 :: nat} then of_char d + 32 = (of_char c :: nat) else d = c) s t"

definition canonical_of :: "instrument \<Rightarrow> instrument \<Rightarrow> bool" where
  "canonical_of i j \<longleftrightarrow> upper_cased (in_symbol i) (in_symbol j) \<and> rel_option upper_cased (in_quote i) (in_quote j)
     \<and> rel_option upper_cased (in_currency i) (in_currency j) \<and> in_asset_class j = in_asset_class i
     \<and> in_exchange j = in_exchange i \<and> in_expiry j = in_expiry i \<and> in_strike j = in_strike i
     \<and> in_right j = in_right i \<and> in_multiplier j = in_multiplier i \<and> in_platform_symbol j = in_platform_symbol i"

definition well_specified :: "instrument \<Rightarrow> bool" where
  "well_specified i \<longleftrightarrow> (\<exists>c\<in>set (in_symbol i). \<not> py_space c)
     \<and> pred_option (\<lambda>q. \<exists>c\<in>set q. \<not> py_space c) (in_quote i)
     \<and> pred_option (\<lambda>q. \<exists>c\<in>set q. \<not> py_space c) (in_currency i)
     \<and> (case in_asset_class i of
          SPOT \<Rightarrow> in_quote i \<noteq> None
        | MARGIN_FX \<Rightarrow> in_quote i \<noteq> None
        | FUTURES \<Rightarrow> in_multiplier i \<noteq> None \<and> (in_expiry i = None \<longrightarrow> in_quote i \<noteq> None)
        | OPTION \<Rightarrow> in_expiry i \<noteq> None \<and> in_strike i \<noteq> None \<and> in_right i \<noteq> None \<and> in_multiplier i \<noteq> None
        | _ \<Rightarrow> True)"

lemma upper_char_unique:
  "(if of_char c \<in> {97..122 :: nat} then of_char d + 32 = (of_char c :: nat) else d = c) \<longleftrightarrow> d = upper_char c"
proof (cases "of_char c \<in> {97..122 :: nat}")
  case True
  then have "(of_char c - 32 :: nat) mod 256 = of_char c - 32" by (intro mod_less) auto
  then have "of_char (upper_char c) = (of_char c - 32 :: nat)" using True by (simp add: upper_char_def Let_def)
  then have u: "of_char (upper_char c) + 32 = (of_char c :: nat)" using True by simp
  have "d = upper_char c" if "of_char d + 32 = (of_char c :: nat)"
  proof -
    from that u have "of_char d = (of_char (upper_char c) :: nat)" by linarith
    then show ?thesis by (metis char_of_char)
  qed
  with u True show ?thesis by auto
qed (auto simp: upper_char_def Let_def)

lemma upper_cased_iff [simp]: "upper_cased s t \<longleftrightarrow> t = upper s"
  unfolding upper_cased_def upper_char_unique upper_def
  by (auto simp: list_all2_conv_all_nth list_eq_iff_nth_eq)

lemma rel_upper_cased [simp]: "rel_option upper_cased a b \<longleftrightarrow> b = map_option upper a"
  by (cases a; cases b) auto

lemma canonical_of_iff: "canonical_of i j \<longleftrightarrow> j = instrument_normalise i"
  by (cases i; cases j) (auto simp: canonical_of_def instrument_normalise_def)

lemma text_not_blank: "(\<exists>c\<in>set s. \<not> py_space c) \<longleftrightarrow> \<not> blank s"
  by (simp add: blank_def list_all_iff)

lemma well_specified_iff: "well_specified i \<longleftrightarrow> instrument_checks i = Inr ()"
  unfolding well_specified_def text_not_blank instrument_checks_Inr
  by (cases "in_asset_class i"; cases "in_quote i"; cases "in_currency i")
    (auto simp: missing_pair_currency_def blank_def)

lemma post_init_error: "instrument_post_init i = Inl e \<Longrightarrow> exn_cls e = PyValueError"
  by (auto simp: instrument_post_init_def instrument_checks_def Let_def rbind_eq_Inl guard_exn_Inl)

text \<open>
  C40. Constructing an \<open>Instrument\<close>. The constructor returns a value exactly when the upper-cased copy
  of the given fields is well specified, and then it returns that copy: symbol, quote and currency
  are upper-cased letter by letter and nothing else changes; none of them is blank; a pair and a
  perpetual carry a quote, an option its expiry, strike, right and multiplier, and a future its
  multiplier. Otherwise it raises \<open>ValueError\<close>. The constructed value is a fixed point of the constructor
  (re-reading it from the store cannot change it or fail), and a pair or a perpetual has the shorthand
  symbol/quote.
\<close>

theorem instrument_construction:
  "(instrument_post_init i = Inr j \<longleftrightarrow> canonical_of i j \<and> well_specified j)
   \<and> (instrument_post_init i = Inl e \<longrightarrow> exn_cls e = PyValueError)
   \<and> (instrument_post_init i = Inr j \<longrightarrow> wf_instrument j
        \<and> (in_asset_class j \<in> {SPOT, MARGIN_FX} \<or> in_asset_class j = FUTURES \<and> in_expiry j = None
             \<longrightarrow> (\<exists>q. in_quote j = Some q \<and> instrument_str j = Inr (in_symbol j @ ''/'' @ q))))"
proof -
  have "instrument_post_init i = Inr j \<longleftrightarrow> canonical_of i j \<and> well_specified j"
    by (simp add: canonical_of_iff well_specified_iff instrument_post_init_Inr)
  moreover have "wf_instrument j \<and> instrument_checks j = Inr ()" if "instrument_post_init i = Inr j"
    using that instrument_post_init_idem [OF that] instrument_post_init_Inr [of i j] wf_instrument_def by blast
  ultimately show ?thesis
    using post_init_error
    by (auto simp: instrument_checks_Inr missing_pair_currency_def instrument_str_def split: option.splits)
qed

definition btc_spot :: instrument where
  "btc_spot = \<lparr>in_symbol = ''BTC'', in_asset_class = SPOT, in_quote = Some ''USDT'', in_exchange = None,
     in_currency = None, in_expiry = None, in_strike = None, in_right = None, in_multiplier = None,
     in_platform_symbol = None\<rparr>"

theorem instrument_construction_witness:
  "instrument_post_init (btc_spot\<lparr>in_symbol := ''btc''\<rparr>) = Inr btc_spot \<and> wf_instrument btc_spot
   \<and> instrument_str btc_spot = Inr ''BTC/USDT''"
proof -
  let ?i = "btc_spot\<lparr>in_symbol := ''btc''\<rparr>"
  have "canonical_of ?i btc_spot" "well_specified btc_spot" 
    by (simp_all add: canonical_of_def well_specified_def btc_spot_def py_space_def Let_def) code_simp
  then have run: "instrument_post_init ?i = Inr btc_spot"
    using instrument_construction [of ?i btc_spot] by blast
  moreover have "wf_instrument btc_spot \<and> instrument_str btc_spot = Inr ''BTC/USDT''"
    using instrument_construction [of ?i btc_spot] run by (simp add: btc_spot_def)
  ultimately show ?thesis by blast
qed

record instrument_spec =
  sp_tick_size :: decimal
  sp_lot_size :: decimal
  sp_min_qty :: decimal
  sp_max_qty :: decimal
  sp_min_notional :: decimal
  sp_price_precision :: int
  sp_qty_precision :: int
  sp_max_leverage :: "decimal option"
  sp_min_stop_distance :: "decimal option"

subsection \<open>Market data\<close>

record ticker =
  ti_bid :: "decimal option"
  ti_ask :: "decimal option"
  ti_last :: "decimal option"
  ti_mark :: "decimal option"

definition ticker_mid :: "ticker \<Rightarrow> decimal option" where
  "ticker_mid t =
     (case (ti_bid t, ti_ask t) of
        (Some b, Some a) \<Rightarrow> Some (ddiv_nz (dadd b a) 2)
      | _ \<Rightarrow> (case ti_last t of Some l \<Rightarrow> Some l | None \<Rightarrow> ti_mark t))"

record candle =
  ca_open_time :: instant
  ca_close_time :: instant
  ca_open :: decimal
  ca_high :: decimal
  ca_low :: decimal
  ca_close :: decimal

definition candle_post_init :: "py_datetime \<Rightarrow> py_datetime \<Rightarrow> decimal \<Rightarrow> decimal \<Rightarrow> decimal \<Rightarrow> decimal \<Rightarrow> candle result" where
  "candle_post_init open_time close_time op hi lo cl =
     (case (open_time, close_time) of
        (Aware ot, Aware ct) \<Rightarrow>
          rbind (guard_exn (ct \<le> ot) PyValueError ''close_time must be after open_time'') (\<lambda>_.
          rbind (guard_exn (hi < max op cl) PyValueError ''high must be >= max(open, close)'') (\<lambda>_.
          rbind (guard_exn (min op cl < lo) PyValueError ''low must be <= min(open, close)'') (\<lambda>_.
          Inr \<lparr>ca_open_time = ot, ca_close_time = ct, ca_open = op, ca_high = hi, ca_low = lo,
               ca_close = cl\<rparr>)))
      | _ \<Rightarrow> raise_exn PyValueError ''candle times must be timezone-aware (UTC)'')"

definition wf_candle :: "candle \<Rightarrow> bool" where
  "wf_candle c \<longleftrightarrow> ca_open_time c < ca_close_time c \<and> max (ca_open c) (ca_close c) \<le> ca_high c
     \<and> ca_low c \<le> min (ca_open c) (ca_close c)"

lemma candle_post_init_wf [wf_intros]: "candle_post_init ot ct op hi lo cl = Inr c \<Longrightarrow> wf_candle c"
  by (auto simp: candle_post_init_def rbind_eq_Inr wf_candle_def split: py_datetime.splits)

subsection \<open>Orders\<close>

record tpsl =
  tp_trigger :: decimal
  tp_limit :: "decimal option"

definition tpsl_post_init :: "tpsl \<Rightarrow> tpsl result" where
  "tpsl_post_init a =
     rbind (guard_exn (tp_trigger a \<le> 0) PyValueError ''trigger_price must be > 0'') (\<lambda>_.
     rbind (guard_exn (case tp_limit a of None \<Rightarrow> False | Some l \<Rightarrow> l \<le> 0)
              PyValueError ''limit_price must be > 0'') (\<lambda>_. Inr a))"

record unified_order =
  uo_instrument :: instrument
  uo_type :: order_type
  uo_side :: order_side
  uo_quantity :: decimal
  uo_tif :: time_in_force
  uo_client_id :: "string option"
  uo_price :: "decimal option"
  uo_stop_price :: "decimal option"
  uo_reduce_only :: bool
  uo_client_tag :: "string option"
  uo_take_profit :: "tpsl option"
  uo_stop_loss :: "tpsl option"
  uo_position_id :: "string option"
  uo_expire_at :: "py_datetime option"

text \<open>\<open>now\<close> is the clock reading of the constructor.\<close>

definition gtd_check :: "instant \<Rightarrow> unified_order \<Rightarrow> unit result" where
  "gtd_check now u =
     (if uo_tif u = GTD then
        case uo_expire_at u of
          None \<Rightarrow> raise_exn PyValueError ''expire_at is required when time_in_force == GTD''
        | Some (Naive _) \<Rightarrow> raise_exn PyValueError ''expire_at must be timezone-aware (UTC)''
        | Some (Aware t) \<Rightarrow> guard_exn (t \<le> now) PyValueError ''expire_at must be in the future''
      else Inr ())"

definition unified_order_post_init :: "instant \<Rightarrow> unified_order \<Rightarrow> unified_order result" where
  "unified_order_post_init now u =
     rbind (guard_exn (uo_type u \<in> {LIMIT, STOP_LIMIT} \<and> uo_price u = None)
              PyValueError ''price is required'') (\<lambda>_.
     rbind (guard_exn (uo_type u \<in> {STOP, STOP_LIMIT} \<and> uo_stop_price u = None)
              PyValueError ''stop_price is required'') (\<lambda>_.
     rbind (guard_exn (uo_quantity u \<le> 0) PyValueError ''quantity must be > 0'') (\<lambda>_.
     rbind (guard_exn (case uo_price u of None \<Rightarrow> False | Some p \<Rightarrow> p \<le> 0)
              PyValueError ''price must be > 0'') (\<lambda>_.
     rbind (guard_exn (case uo_stop_price u of None \<Rightarrow> False | Some p \<Rightarrow> p \<le> 0)
              PyValueError ''stop_price must be > 0'') (\<lambda>_.
     rbind (gtd_check now u) (\<lambda>_. Inr u))))))"

definition wf_order :: "unified_order \<Rightarrow> bool" where
  "wf_order u \<longleftrightarrow> 0 < uo_quantity u
     \<and> (uo_type u \<in> {LIMIT, STOP_LIMIT} \<longrightarrow> uo_price u \<noteq> None)
     \<and> (uo_type u \<in> {STOP, STOP_LIMIT} \<longrightarrow> uo_stop_price u \<noteq> None)
     \<and> (\<forall>p. uo_price u = Some p \<longrightarrow> 0 < p) \<and> (\<forall>p. uo_stop_price u = Some p \<longrightarrow> 0 < p)"

lemma unified_order_post_init_wf [wf_intros]:
  "unified_order_post_init now u = Inr v \<Longrightarrow> v = u \<and> wf_order v"
  by (auto simp: unified_order_post_init_def rbind_eq_Inr wf_order_def split: option.splits)

record order_modification =
  mo_client_id :: string
  mo_price :: "decimal option"
  mo_stop_price :: "decimal option"
  mo_quantity :: "decimal option"
  mo_take_profit :: "tpsl option"
  mo_stop_loss :: "tpsl option"

definition modification_post_init :: "order_modification \<Rightarrow> order_modification result" where
  "modification_post_init m =
     rbind (guard_exn (mo_price m = None \<and> mo_stop_price m = None \<and> mo_quantity m = None
                       \<and> mo_take_profit m = None \<and> mo_stop_loss m = None)
              PyValueError ''OrderModification must set at least one field to modify'') (\<lambda>_. Inr m)"

record order_result =
  re_client_id :: string
  re_platform_id :: "string option"
  re_status :: order_status
  re_filled :: decimal
  re_avg_price :: "decimal option"
  re_created_at :: instant
  re_updated_at :: instant

record order_record =
  or_instrument :: instrument
  or_type :: order_type
  or_side :: order_side
  or_quantity :: decimal
  or_tif :: time_in_force
  or_client_id :: string
  or_price :: "decimal option"
  or_stop_price :: "decimal option"
  or_reduce_only :: bool
  or_client_tag :: "string option"
  or_take_profit :: "tpsl option"
  or_stop_loss :: "tpsl option"
  or_platform_id :: "string option"
  or_status :: order_status
  or_filled :: decimal
  or_avg_price :: "decimal option"
  or_correlation_id :: string
  or_created_at :: instant
  or_updated_at :: instant
  or_expire_at :: "instant option"

record fill_record =
  fl_client_id :: string
  fl_fill_id :: string
  fl_instrument :: instrument
  fl_quantity :: decimal
  fl_price :: decimal
  fl_timestamp :: instant
  fl_fee_currency :: "string option"
  fl_fee_amount :: "decimal option"
  fl_correlation_id :: string
  fl_position_id :: "string option"
  fl_reason :: "fill_reason option"
  fl_entry :: "fill_entry option"

definition fill_post_init :: "fill_record \<Rightarrow> fill_record result" where
  "fill_post_init f =
     rbind (guard_exn (fl_quantity f \<le> 0) PyValueError ''fill_quantity must be > 0'') (\<lambda>_.
     rbind (guard_exn (fl_price f \<le> 0) PyValueError ''fill_price must be > 0'') (\<lambda>_. Inr f))"

subsection \<open>Positions and balances\<close>

record position =
  po_instrument :: instrument
  po_quantity :: decimal
  po_entry :: decimal
  po_updated_at :: instant
  po_id :: "string option"
  po_opened_at :: "instant option"

record balance =
  ba_currency :: string
  ba_free :: decimal
  ba_used :: decimal
  ba_total :: decimal
  ba_updated_at :: instant

definition balance_post_init :: "balance \<Rightarrow> balance result" where
  "balance_post_init b =
     rbind (guard_exn (dadd (ba_free b) (ba_used b) \<noteq> ba_total b)
              PyValueError ''Balance invariant violated'') (\<lambda>_. Inr b)"

definition available_ratio :: "balance \<Rightarrow> decimal" where
  "available_ratio b = (if ba_total b = 0 then 1 else ddiv_nz (ba_free b) (ba_total b))"

text \<open>
  A constructed balance that locks a non-negative amount of a non-negative free balance reports
  an available ratio in the unit interval: the rounded division cannot leave it.
\<close>

theorem available_ratio_bounds:
  assumes "balance_post_init b = Inr b'" and "0 \<le> ba_free b" and "0 \<le> ba_used b" and "fits (ba_free b)"
  shows "0 \<le> available_ratio b' \<and> available_ratio b' \<le> 1"
proof -
  from assms(1) have b: "b' = b" and tot: "ba_total b = ctx_round (ba_free b + ba_used b)"
    by (auto simp: balance_post_init_def rbind_eq_Inr dadd_def)
  have "ctx_round (ba_free b) \<le> ba_total b" unfolding tot using assms(3) by (intro ctx_round_mono) simp
  with assms(4) have le: "ba_free b \<le> ba_total b" by (simp add: ctx_round_fits)
  show ?thesis
  proof (cases "ba_total b = 0")
    case False
    with le assms(2) have pos: "0 < ba_total b" by linarith
    then have "0 \<le> ba_free b / ba_total b" "ba_free b / ba_total b \<le> 1" using le assms(2) by simp_all
    then have "0 \<le> ctx_round (ba_free b / ba_total b)" "ctx_round (ba_free b / ba_total b) \<le> ctx_round 1"
      by (auto intro: ctx.rnd_nonneg ctx_round_mono)
    then show ?thesis using False by (simp add: b available_ratio_def ddiv_nz_def ctx_round_eval)
  qed (simp add: b available_ratio_def)
qed

definition usdt_balance :: balance where
  "usdt_balance = \<lparr>ba_currency = ''USDT'', ba_free = 75, ba_used = 25, ba_total = 100, ba_updated_at = 0\<rparr>"

theorem available_ratio_bounds_witness:
  "0 \<le> available_ratio usdt_balance \<and> available_ratio usdt_balance \<le> 1"
proof -
  have "balance_post_init usdt_balance = Inr usdt_balance"
    by (simp add: balance_post_init_def usdt_balance_def guard_exn_def dadd_def ctx_round_eval)
  from available_ratio_bounds [OF this] show ?thesis
    by (simp add: usdt_balance_def fits_numeral)
qed

end
