(* ===== verification/UTE_Halt.thy ===== *)
theory UTE_Halt
  imports UTE_Types
begin

text \<open>
  The halt state machine of \<^verbatim>\<open>core/state/halt.py\<close>: its configuration, the table of halted
  instruments with the account-wide entry, the queries, and the three mutations. A scope that is
  not the account is treated as an instrument scope, as the code does.
\<close>

datatype halt_scope = SC_INSTRUMENT | SC_ACCOUNT

record halt_config =
  hc_auto :: bool
  hc_closing :: bool
  hc_mode :: halt_clear_mode

definition default_halt_config :: halt_config where
  "default_halt_config = \<lparr>hc_auto = True, hc_closing = True, hc_mode = AUTOMATIC\<rparr>"

record halt_entry =
  he_scope :: halt_scope
  he_instrument :: "instrument option"
  he_reason :: string
  he_detail :: string

record halt_machine =
  hm_config :: halt_config
  hm_instruments :: "(instrument, halt_entry) dict"
  hm_account :: "halt_entry option"

definition halt_init :: "halt_config option \<Rightarrow> halt_machine" where
  "halt_init c = \<lparr>hm_config = (case c of None \<Rightarrow> default_halt_config | Some cfg \<Rightarrow> cfg),
                  hm_instruments = [], hm_account = None\<rparr>"

subsection \<open>Queries\<close>

definition is_account_halted :: "halt_machine \<Rightarrow> bool" where
  "is_account_halted m \<longleftrightarrow> hm_account m \<noteq> None"

definition is_instrument_halted :: "halt_machine \<Rightarrow> instrument \<Rightarrow> bool" where
  "is_instrument_halted m i \<longleftrightarrow> dict_has (hm_instruments m) (inst_id i)"

definition is_halted :: "halt_machine \<Rightarrow> instrument option \<Rightarrow> bool" where
  "is_halted m i \<longleftrightarrow>
     (if hm_account m \<noteq> None then True
      else case i of None \<Rightarrow> False | Some j \<Rightarrow> dict_has (hm_instruments m) (inst_id j))"

definition get_halt_state :: "halt_machine \<Rightarrow> halt_scope \<Rightarrow> instrument option \<Rightarrow> halt_state" where
  "get_halt_state m s i =
     (if s = SC_ACCOUNT then (if hm_account m \<noteq> None then HS_HALTED else HS_ACTIVE)
      else case i of
        None \<Rightarrow> HS_ACTIVE
      | Some j \<Rightarrow> if dict_has (hm_instruments m) (inst_id j) then HS_HALTED else HS_ACTIVE)"

definition can_place_order :: "halt_machine \<Rightarrow> instrument \<Rightarrow> bool \<Rightarrow> bool" where
  "can_place_order m i reduce_only \<longleftrightarrow>
     (if \<not> is_halted m (Some i) then True
      else if reduce_only \<and> hc_closing (hm_config m) then True else False)"

definition active_halts :: "halt_machine \<Rightarrow> halt_entry list" where
  "active_halts m =
     map snd (hm_instruments m) @ (case hm_account m of None \<Rightarrow> [] | Some e \<Rightarrow> [e])"

subsection \<open>Mutations\<close>

definition restore_halt ::
    "halt_scope \<Rightarrow> instrument option \<Rightarrow> string \<Rightarrow> string \<Rightarrow> halt_machine
     \<Rightarrow> (bool \<times> halt_machine) result" where
  "restore_halt s i reason detail m =
     (let entry = \<lparr>he_scope = s, he_instrument = i, he_reason = reason, he_detail = detail\<rparr>
      in if s = SC_ACCOUNT then
           if hm_account m \<noteq> None then Inr (False, m)
           else Inr (True, m\<lparr>hm_account := Some entry\<rparr>)
         else case i of
           None \<Rightarrow> raise_exn PyValueError ''instrument required for instrument-scoped halt''
         | Some j \<Rightarrow>
             if dict_has (hm_instruments m) (inst_id j) then Inr (False, m)
             else Inr (True, m\<lparr>hm_instruments := dict_set (inst_id j) entry (hm_instruments m)\<rparr>))"

definition enter_halt ::
    "halt_scope \<Rightarrow> instrument option \<Rightarrow> string \<Rightarrow> string \<Rightarrow> halt_machine
     \<Rightarrow> (bool \<times> halt_machine) result" where
  "enter_halt s i reason detail m =
     (if \<not> hc_auto (hm_config m) then Inr (False, m)
      else let entry = \<lparr>he_scope = s, he_instrument = i, he_reason = reason, he_detail = detail\<rparr>
      in if s = SC_ACCOUNT then
           if hm_account m \<noteq> None then Inr (False, m)
           else Inr (True, m\<lparr>hm_account := Some entry\<rparr>)
         else case i of
           None \<Rightarrow> raise_exn PyValueError ''instrument required for instrument-scoped halt''
         | Some j \<Rightarrow>
             if dict_has (hm_instruments m) (inst_id j) then Inr (False, m)
             else Inr (True, m\<lparr>hm_instruments := dict_set (inst_id j) entry (hm_instruments m)\<rparr>))"

definition try_clear_halt ::
    "halt_scope \<Rightarrow> instrument option \<Rightarrow> bool \<Rightarrow> bool \<Rightarrow> halt_machine \<Rightarrow> bool \<times> halt_machine" where
  "try_clear_halt s i reconciliation_is_clean manual_clear m =
     (let entry = (if s = SC_ACCOUNT then hm_account m
                   else case i of None \<Rightarrow> None | Some j \<Rightarrow> dict_get (hm_instruments m) (inst_id j))
      in if entry = None then (False, m)
         else if hc_mode (hm_config m) = AUTOMATIC \<and> \<not> reconciliation_is_clean then (False, m)
         else if hc_mode (hm_config m) \<noteq> AUTOMATIC \<and> \<not> manual_clear then (False, m)
         else (True,
           if s = SC_ACCOUNT then m\<lparr>hm_account := None\<rparr>
           else case i of None \<Rightarrow> m
                | Some j \<Rightarrow> m\<lparr>hm_instruments := dict_del (inst_id j) (hm_instruments m)\<rparr>))"

subsection \<open>Well-formed machines\<close>

text \<open>
  An entry is filed where its own scope and instrument say. This is what lets a listing of the
  active halts be used to clear them again.
\<close>

definition wf_halts :: "halt_machine \<Rightarrow> bool" where
  "wf_halts m \<longleftrightarrow> wf_dict (hm_instruments m)
     \<and> (\<forall>(k, e) \<in> set (hm_instruments m). he_scope e = SC_INSTRUMENT
           \<and> map_option inst_id (he_instrument e) = Some k)
     \<and> (\<forall>e. hm_account m = Some e \<longrightarrow> he_scope e = SC_ACCOUNT)"

lemma set_dict_set_subset: "set (dict_set k v d) \<subseteq> insert (k, v) (set d)"
  by (induction k v d rule: dict_set.induct) auto

lemma wf_halts_init [wf_intros]: "wf_halts (halt_init c)"
  by (simp add: wf_halts_def halt_init_def)

lemma restore_halt_wf:
  assumes "wf_halts m" and "restore_halt s i r d m = Inr (b, m')"
  shows "wf_halts m'"
proof (cases s)
  case SC_ACCOUNT
  with assms show ?thesis
    by (auto simp: restore_halt_def Let_def wf_halts_def split: if_splits)
next
  case SC_INSTRUMENT
  with assms(2) obtain j where i: "i = Some j"
    by (auto simp: restore_halt_def Let_def split: option.splits)
  show ?thesis
  proof (cases "dict_has (hm_instruments m) (inst_id j)")
    case True
    with assms SC_INSTRUMENT i show ?thesis by (simp add: restore_halt_def Let_def)
  next
    case False
    then have none: "dict_get (hm_instruments m) (inst_id j) = None" by simp
    then have "inst_id j \<notin> fst ` set (hm_instruments m)" by (simp add: map_of_eq_None_iff)
    with none assms SC_INSTRUMENT i show ?thesis
      by (auto simp: restore_halt_def Let_def wf_halts_def dict_set_new wf_dict_def)
  qed
qed

lemma enter_halt_eq:
  "enter_halt s i r d m =
     (if hc_auto (hm_config m) then restore_halt s i r d m else Inr (False, m))"
  by (simp add: enter_halt_def restore_halt_def)

lemma enter_halt_wf:
  assumes "wf_halts m" and "enter_halt s i r d m = Inr (b, m')"
  shows "wf_halts m'"
  using assms restore_halt_wf by (auto simp: enter_halt_eq split: if_splits)

lemma try_clear_halt_wf:
  assumes "wf_halts m"
  shows "wf_halts (snd (try_clear_halt s i rc mc m))"
  using assms by (auto simp: try_clear_halt_def Let_def wf_halts_def dict_del_def wf_dict_def
      distinct_map_filter split: option.splits)

text \<open>The halts in effect, as a set of scope keys: the abstraction the engine reasons with.\<close>

definition halted_keys :: "halt_machine \<Rightarrow> instrument option set" where
  "halted_keys m = (if hm_account m = None then {} else {None}) \<union> Some ` dom (dict_get (hm_instruments m))"

definition scope_key :: "halt_scope \<Rightarrow> instrument option \<Rightarrow> instrument option" where
  "scope_key s i = (if s = SC_ACCOUNT then None else map_option inst_id i)"

lemma restore_halt_keys:
  assumes "restore_halt s i r d m = Inr (b, m')"
  shows "halted_keys m' = insert (scope_key s i) (halted_keys m)
    \<and> (b \<longleftrightarrow> scope_key s i \<notin> halted_keys m) \<and> hm_config m' = hm_config m"
  using assms
  by (cases s; cases i)
    (auto simp: restore_halt_def Let_def halted_keys_def scope_key_def dom_def split: if_splits)

lemma can_place_order_keys:
  "can_place_order m i ro \<longleftrightarrow>
     halted_keys m \<inter> {None, Some (inst_id i)} = {} \<or> ro \<and> hc_closing (hm_config m)"
  by (auto simp: can_place_order_def is_halted_def halted_keys_def dom_def)

text \<open>Restoring a list of entries, one after the other; an entry that raises is skipped.\<close>

definition restore_entries :: "halt_entry list \<Rightarrow> halt_machine \<Rightarrow> halt_machine" where
  "restore_entries es m =
     fold (\<lambda>e n. case restore_halt (he_scope e) (he_instrument e) (he_reason e) (he_detail e) n of
                  Inl _ \<Rightarrow> n | Inr (_, n') \<Rightarrow> n') es m"

lemma restore_halt_total:
  assumes "s = SC_ACCOUNT \<or> i \<noteq> None"
  shows "\<exists>b m'. restore_halt s i r d m = Inr (b, m')"
  using assms by (cases s; cases i) (simp_all add: restore_halt_def Let_def ex_bool_eq)

lemma fold_restore_keys:
  assumes "\<forall>e \<in> set es. he_scope e = SC_ACCOUNT \<or> he_instrument e \<noteq> None"
  shows "halted_keys (restore_entries es m)
         = (\<lambda>e. scope_key (he_scope e) (he_instrument e)) ` set es \<union> halted_keys m"
  using assms
proof (induction es arbitrary: m)
  case (Cons e es)
  have "he_scope e = SC_ACCOUNT \<or> he_instrument e \<noteq> None" using Cons.prems by (meson list.set_intros(1))
  then obtain b m' where
    r: "restore_halt (he_scope e) (he_instrument e) (he_reason e) (he_detail e) m = Inr (b, m')"
    using restore_halt_total by metis
  have "restore_entries (e # es) m = restore_entries es m'" by (simp add: restore_entries_def r)
  with Cons.IH [of m'] Cons.prems restore_halt_keys [OF r] show ?case by auto
qed (simp add: restore_entries_def)

lemma active_halts_keys:
  assumes "wf_halts m"
  shows "(\<lambda>e. scope_key (he_scope e) (he_instrument e)) ` set (active_halts m) = halted_keys m"
proof -
  define f :: "halt_entry \<Rightarrow> instrument option" where "f = (\<lambda>e. scope_key (he_scope e) (he_instrument e))"
  have "f ` snd ` set (hm_instruments m) = Some ` fst ` set (hm_instruments m)"
    unfolding image_image
    by (rule image_cong) (use assms in \<open>auto simp: wf_halts_def scope_key_def f_def\<close>)
  also have "fst ` set (hm_instruments m) = dom (dict_get (hm_instruments m))"
    by (rule dom_map_of_conv_image_fst [symmetric])
  finally have tab: "f ` snd ` set (hm_instruments m) = Some ` dom (dict_get (hm_instruments m))" .
  have acc: "f e = None" if "hm_account m = Some e" for e
    using assms that by (simp add: wf_halts_def f_def scope_key_def)
  have "f ` set (active_halts m) = halted_keys m"
  proof (cases "hm_account m")
    case None
    then show ?thesis using tab by (simp add: active_halts_def halted_keys_def)
  next
    case (Some e)
    then show ?thesis using tab acc by (simp add: active_halts_def halted_keys_def image_Un)
  qed
  then show ?thesis by (simp add: f_def)
qed

text \<open>
  C34. Order admission under halts. After a halt on a scope has been entered or restored, an order
  on any instrument of that scope is admitted exactly when it is reduce-only and closing orders are
  permitted; an order on another instrument is admitted exactly when it was before. A second entry
  of the same scope reports no change and leaves the machine as it is.
\<close>

theorem halt_admission:
  assumes "restore_halt s i r d m = Inr (b, m')"
  shows "(\<forall>j. (s = SC_ACCOUNT \<or> i = Some k \<and> same_instrument j k)
            \<longrightarrow> can_place_order m' j ro = (ro \<and> hc_closing (hm_config m)))
    \<and> (\<forall>j. s = SC_INSTRUMENT \<longrightarrow> i = Some k \<longrightarrow> \<not> same_instrument j k
            \<longrightarrow> can_place_order m' j ro = can_place_order m j ro)
    \<and> restore_halt s i r' d' m' = Inr (False, m')"
proof -
  note k = restore_halt_keys [OF assms]
  have "restore_halt s i r' d' m' = Inr (False, m')"
    using assms by (cases s; cases i) (auto simp: restore_halt_def Let_def split: if_splits)
  with k show ?thesis
    by (auto simp: can_place_order_keys scope_key_def same_instrument_def)
qed

theorem halt_admission_witness:
  "can_place_order (snd (projr (restore_halt SC_INSTRUMENT (Some btc_spot) ''r'' ''d'' (halt_init None))))
     btc_spot True"
proof -
  have "\<exists>b m'. restore_halt SC_INSTRUMENT (Some btc_spot) ''r'' ''d'' (halt_init None) = Inr (b, m')"
    by (rule restore_halt_total) simp
  then obtain b m' where
    r: "restore_halt SC_INSTRUMENT (Some btc_spot) ''r'' ''d'' (halt_init None) = Inr (b, m')" by blast
  have "can_place_order m' btc_spot True = (True \<and> hc_closing (hm_config (halt_init None)))"
    using halt_admission [OF r, of btc_spot True] same_instrument_refl by blast
  then have "can_place_order m' btc_spot True" by (simp add: halt_init_def default_halt_config_def)
  then show ?thesis by (simp only: r sum.sel snd_conv)
qed

text \<open>
  C35. Clearing. A halt is cleared exactly when it is in effect and the configured mode is met: a
  clean reconciliation in AUTOMATIC mode, the operator's request in MANUAL mode. Clearing removes
  that halt and no other, a refused attempt changes nothing, and clearing a freshly entered halt
  restores the machine to what it was before the halt.
\<close>

theorem halt_clear:
  "fst (try_clear_halt s i rc mc m) =
      (scope_key s i \<in> halted_keys m \<and> (s = SC_ACCOUNT \<or> i \<noteq> None)
       \<and> (if hc_mode (hm_config m) = AUTOMATIC then rc else mc))
   \<and> halted_keys (snd (try_clear_halt s i rc mc m)) =
       (if fst (try_clear_halt s i rc mc m) then halted_keys m - {scope_key s i} else halted_keys m)
   \<and> (\<not> fst (try_clear_halt s i rc mc m) \<longrightarrow> snd (try_clear_halt s i rc mc m) = m)
   \<and> (restore_halt s i r d m = Inr (True, m') \<longrightarrow> fst (try_clear_halt s i rc mc m')
        \<longrightarrow> snd (try_clear_halt s i rc mc m') = m)"
proof -
  have "restore_halt s i r d m = Inr (True, m') \<longrightarrow> fst (try_clear_halt s i rc mc m')
        \<longrightarrow> snd (try_clear_halt s i rc mc m') = m"
    by (cases s; cases i)
      (auto simp: restore_halt_def try_clear_halt_def Let_def dict_set_new dict_del_last
        split: if_splits)
  then show ?thesis
    by (cases s; cases i)
      (auto simp: try_clear_halt_def Let_def halted_keys_def scope_key_def dom_def)
qed

theorem halt_clear_witness:
  "fst (try_clear_halt SC_INSTRUMENT (Some btc_spot) True False
     (snd (projr (restore_halt SC_INSTRUMENT (Some btc_spot) ''r'' ''d'' (halt_init None)))))"
proof -
  let ?m = "snd (projr (restore_halt SC_INSTRUMENT (Some btc_spot) ''r'' ''d'' (halt_init None)))"
  have "scope_key SC_INSTRUMENT (Some btc_spot) \<in> halted_keys ?m" "hc_mode (hm_config ?m) = AUTOMATIC"
    by (simp_all add: restore_halt_def halt_init_def Let_def scope_key_def halted_keys_def
        default_halt_config_def)
  with halt_clear [of SC_INSTRUMENT "Some btc_spot" True False ?m] show ?thesis by simp
qed

text \<open>
  Rehydration. Restoring the active halts of a well-formed machine into a fresh one, with any
  configuration, puts exactly the same scopes under halt: a restart over a faithful list of halts
  neither loses nor adds one, also when automatic halting is disabled.
\<close>

theorem halt_rehydration:
  assumes "wf_halts m"
  shows "halted_keys (restore_entries (active_halts m) (halt_init c)) = halted_keys m"
proof -
  have "\<forall>e \<in> set (active_halts m). he_scope e = SC_ACCOUNT \<or> he_instrument e \<noteq> None"
    using assms by (auto simp: active_halts_def wf_halts_def split: option.splits)
  from fold_restore_keys [OF this, of "halt_init c"] active_halts_keys [OF assms]
  show ?thesis by (simp add: halt_init_def halted_keys_def)
qed

theorem halt_rehydration_witness:
  "None \<in> halted_keys (restore_entries
      (active_halts (snd (projr (restore_halt SC_ACCOUNT None ''r'' ''d'' (halt_init None))))) (halt_init None))"
proof -
  let ?m = "snd (projr (restore_halt SC_ACCOUNT None ''r'' ''d'' (halt_init None)))"
  have "wf_halts ?m" "None \<in> halted_keys ?m"
    by (simp_all add: restore_halt_def halt_init_def Let_def wf_halts_def halted_keys_def)
  with halt_rehydration [of ?m None] show ?thesis by simp
qed

end
