(* ===== verification/UTE_Risk.thy ===== *)
theory UTE_Risk
  imports UTE_Types
begin

text \<open>
  The validator chain of \<^verbatim>\<open>core/risk/__init__.py\<close>. A validator returns \<open>Inr ()\<close> for a pass and
  the typed exception for a rejection; the chain runs them in order and stops at the first
  rejection. \<^verbatim>\<open>Decimal("Inf")\<close>, the default of the global caps, is \<open>Unlimited\<close>.
\<close>

datatype dec_limit = Unlimited | AtMost decimal

fun exceeds :: "decimal \<Rightarrow> dec_limit \<Rightarrow> bool" where
  "exceeds x Unlimited = False"
| "exceeds x (AtMost m) = (m < x)"

record risk_config =
  rc_max_size :: dec_limit
  rc_max_notional :: dec_limit
  rc_inst_size :: "(instrument, decimal) dict"
  rc_inst_notional :: "(instrument, decimal) dict"
  rc_deviation :: decimal
  rc_budget_override :: "int option"

definition default_risk_config :: risk_config where
  "default_risk_config = \<lparr>rc_max_size = Unlimited, rc_max_notional = Unlimited, rc_inst_size = [],
     rc_inst_notional = [], rc_deviation = 5, rc_budget_override = None\<rparr>"

subsection \<open>The validators\<close>

definition validate_symbol_validity :: "unified_order \<Rightarrow> instrument_spec option \<Rightarrow> unit result" where
  "validate_symbol_validity ord spec =
     guard_exn (spec = None) InvalidSymbolError ''not tradable on this platform''"

definition qty_tick :: "instrument_spec \<Rightarrow> decimal result" where
  \<comment> \<open>\<^verbatim>\<open>10 ** precision\<close> is a float for a negative precision, which \<^verbatim>\<open>Decimal\<close> refuses\<close>
  "qty_tick spec =
     (if sp_qty_precision spec < 0 then raise_exn PyTypeError ''unsupported operand''
      else Inr (ddiv_nz 1 (10 ^ nat (sp_qty_precision spec))))"

definition notional_checks :: "unified_order \<Rightarrow> instrument_spec \<Rightarrow> risk_config \<Rightarrow> unit result" where
  "notional_checks ord spec cfg =
     (case uo_price ord of
        None \<Rightarrow> Inr ()
      | Some price \<Rightarrow>
          let notional = dmul (uo_quantity ord) price in
          rbind (guard_exn (case dict_get (rc_inst_notional cfg) (inst_id (uo_instrument ord)) of
                     None \<Rightarrow> False | Some m \<Rightarrow> m < notional)
                  InvalidSymbolError ''notional exceeds configured max'') (\<lambda>_.
          rbind (guard_exn (exceeds notional (rc_max_notional cfg))
                  InvalidSymbolError ''notional exceeds global max'') (\<lambda>_.
          guard_exn (notional < sp_min_notional spec)
                  InvalidSymbolError ''notional is below minimum'')))"

definition validate_order_size :: "unified_order \<Rightarrow> instrument_spec \<Rightarrow> risk_config \<Rightarrow> unit result" where
  "validate_order_size ord spec cfg =
     (let qty = uo_quantity ord in
      rbind (guard_exn (qty < sp_min_qty spec) InvalidSymbolError ''below minimum'') (\<lambda>_.
      rbind (guard_exn (sp_max_qty spec < qty) InvalidSymbolError ''exceeds platform maximum'') (\<lambda>_.
      rbind (qty_tick spec) (\<lambda>tick.
      rbind (dmod qty tick) (\<lambda>rest.
      rbind (guard_exn (rest \<noteq> 0) InvalidSymbolError ''violates qty_precision'') (\<lambda>_.
      rbind (guard_exn (case dict_get (rc_inst_size cfg) (inst_id (uo_instrument ord)) of
                 None \<Rightarrow> False | Some m \<Rightarrow> m < qty)
              InvalidSymbolError ''exceeds configured max'') (\<lambda>_.
      rbind (guard_exn (exceeds qty (rc_max_size cfg)) InvalidSymbolError ''exceeds global max'') (\<lambda>_.
      notional_checks ord spec cfg))))))))"

definition check_price_deviation :: "decimal \<Rightarrow> decimal \<Rightarrow> decimal \<Rightarrow> unit result" where
  "check_price_deviation price reference max_pct =
     rbind (ddiv (dabs (dsub price reference)) reference) (\<lambda>q.
     guard_exn (max_pct < dmul q 100) InvalidSymbolError ''deviates from reference'')"

fun check_prices :: "decimal \<Rightarrow> decimal \<Rightarrow> decimal list \<Rightarrow> unit result" where
  "check_prices reference max_pct [] = Inr ()"
| "check_prices reference max_pct (p # ps) =
     rbind (check_price_deviation p reference max_pct) (\<lambda>_. check_prices reference max_pct ps)"

definition opt_list :: "'a option \<Rightarrow> 'a list" where
  "opt_list x = (case x of None \<Rightarrow> [] | Some a \<Rightarrow> [a])"

lemma set_opt_list [simp]: "set (opt_list x) = set_option x"
  by (cases x) (simp_all add: opt_list_def)

definition attached_prices :: "tpsl option \<Rightarrow> decimal list" where
  "attached_prices a =
     (case a of None \<Rightarrow> [] | Some t \<Rightarrow> tp_trigger t # opt_list (tp_limit t))"

definition order_prices :: "unified_order \<Rightarrow> decimal list" where
  \<comment> \<open>limit price, stop price, then trigger and limit of the take profit and of the stop loss\<close>
  "order_prices ord =
     opt_list (uo_price ord) @ opt_list (uo_stop_price ord)
     @ attached_prices (uo_take_profit ord) @ attached_prices (uo_stop_loss ord)"

definition validate_price_sanity ::
    "unified_order \<Rightarrow> decimal option \<Rightarrow> risk_config \<Rightarrow> unit result" where
  "validate_price_sanity ord reference cfg =
     (case reference of None \<Rightarrow> Inr ()
      | Some r \<Rightarrow> check_prices r (rc_deviation cfg) (order_prices ord))"

definition validate_no_duplicate :: "string \<Rightarrow> string set \<Rightarrow> unit result" where
  "validate_no_duplicate cid known =
     guard_exn (cid \<in> known) DuplicateOrderIdError ''client_order_id is already in use''"

definition validate_rate_limit :: "int \<Rightarrow> unit result" where
  "validate_rate_limit remaining =
     guard_exn (remaining \<le> 0) RateLimitError ''Rate-limit budget exhausted''"

definition run_risk_checks ::
    "unified_order \<Rightarrow> instrument_spec option \<Rightarrow> decimal option \<Rightarrow> string set \<Rightarrow> int
     \<Rightarrow> risk_config option \<Rightarrow> unit result" where
  "run_risk_checks ord spec reference known remaining config =
     (let cfg = (case config of None \<Rightarrow> default_risk_config | Some c \<Rightarrow> c) in
      rbind (validate_symbol_validity ord spec) (\<lambda>_.
      rbind (validate_order_size ord (the spec) cfg) (\<lambda>_.
      rbind (validate_price_sanity ord reference cfg) (\<lambda>_.
      case uo_client_id ord of
        None \<Rightarrow> raise_exn InvalidSymbolError ''client_order_id must be set before risk checks''
      | Some cid \<Rightarrow>
          rbind (validate_no_duplicate cid known) (\<lambda>_.
          validate_rate_limit remaining)))))"

subsection \<open>What a pass means\<close>

lemma guard_exn_Inr_unit [simp]: "(guard_exn b c m = Inr ()) = (\<not> b)"
  by (simp add: guard_exn_def)

lemma dmod_zero_iff:
  assumes "y \<noteq> 0"
  shows "dmod x y = Inr r \<Longrightarrow> r = 0 \<longleftrightarrow> (\<exists>n :: int. x = of_int n * y)"
proof -
  assume r: "dmod x y = Inr r"
  then have "r = ctx_round (x - y * of_int (trunc_int (x / y)))"
    using assms by (simp add: dmod_def split: if_splits)
  then have "r = 0 \<longleftrightarrow> x = y * of_int (trunc_int (x / y))" by simp
  moreover have "x = y * of_int (trunc_int (x / y))" if "x = of_int n * y" for n
    using that assms by (simp add: trunc_int_def)
  ultimately show ?thesis by (metis mult.commute)
qed

lemma fits_power_ten: "fits (1 / 10 ^ n)"
  unfolding fits_def by (rule exI [of _ 1], rule exI [of _ "- int n"]) (simp add: power_int_minus divide_inverse)

lemma qty_tick_value: "0 \<le> sp_qty_precision s \<Longrightarrow> qty_tick s = Inr (1 / 10 ^ nat (sp_qty_precision s))"
  by (simp add: qty_tick_def ddiv_nz_def ctx_round_fits fits_power_ten)

lemma qty_tick_Inr:
  "qty_tick s = Inr t \<longleftrightarrow> 0 \<le> sp_qty_precision s \<and> t = 1 / 10 ^ nat (sp_qty_precision s)"
  by (cases "0 \<le> sp_qty_precision s") (auto simp: qty_tick_value, simp add: qty_tick_def)

text \<open>The quantity condition of the chain, as a specification over exact rationals.\<close>

definition size_ok :: "unified_order \<Rightarrow> instrument_spec \<Rightarrow> risk_config \<Rightarrow> bool" where
  "size_ok ord s cfg \<longleftrightarrow>
     sp_min_qty s \<le> uo_quantity ord \<and> uo_quantity ord \<le> sp_max_qty s
     \<and> 0 \<le> sp_qty_precision s
     \<and> uo_quantity ord * 10 ^ nat (sp_qty_precision s) \<in> \<int>
     \<and> \<bar>uo_quantity ord * 10 ^ nat (sp_qty_precision s)\<bar> < 10 ^ 28
     \<and> (\<forall>m. dict_get (rc_inst_size cfg) (inst_id (uo_instrument ord)) = Some m \<longrightarrow> uo_quantity ord \<le> m)
     \<and> \<not> exceeds (uo_quantity ord) (rc_max_size cfg)"

definition notional_ok :: "unified_order \<Rightarrow> instrument_spec \<Rightarrow> risk_config \<Rightarrow> bool" where
  "notional_ok ord s cfg \<longleftrightarrow>
     (\<forall>p. uo_price ord = Some p \<longrightarrow>
        sp_min_notional s \<le> dmul (uo_quantity ord) p
        \<and> \<not> exceeds (dmul (uo_quantity ord) p) (rc_max_notional cfg)
        \<and> (\<forall>m. dict_get (rc_inst_notional cfg) (inst_id (uo_instrument ord)) = Some m
               \<longrightarrow> dmul (uo_quantity ord) p \<le> m))"

definition price_ok :: "unified_order \<Rightarrow> decimal option \<Rightarrow> risk_config \<Rightarrow> bool" where
  "price_ok ord reference cfg \<longleftrightarrow>
     (\<forall>r p. reference = Some r \<longrightarrow> p \<in> set (order_prices ord) \<longrightarrow>
        r \<noteq> 0 \<and> dmul (ddiv_nz (dabs (dsub p r)) r) 100 \<le> rc_deviation cfg)"

lemma notional_checks_Inr: "notional_checks ord s cfg = Inr () \<longleftrightarrow> notional_ok ord s cfg"
  by (auto simp: notional_checks_def notional_ok_def Let_def rbind_eq_Inr split: option.splits)

lemma trunc_int_of_int [simp]: "trunc_int (of_int n) = n"
  by (simp add: trunc_int_def)

lemma dmod_tick_zero:
  fixes n :: nat
  shows "dmod q (1 / 10 ^ n) = Inr 0 \<longleftrightarrow> q * 10 ^ n \<in> \<int> \<and> \<bar>q * 10 ^ n\<bar> < 10 ^ 28"
proof -
  have e: "q / (1 / 10 ^ n) = q * 10 ^ n" by simp
  have z: "dmod q (1 / 10 ^ n) = Inr 0 \<longleftrightarrow>
      \<not> 10 ^ 28 \<le> \<bar>trunc_int (q * 10 ^ n)\<bar> \<and> q * 10 ^ n = of_int (trunc_int (q * 10 ^ n))"
    by (simp add: dmod_def ctx_prec_def field_simps)
  show ?thesis
  proof (cases "q * 10 ^ n \<in> \<int>")
    case True
    then obtain k where k: "q * 10 ^ n = of_int k" by (auto elim: Ints_cases)
    have "\<bar>of_int k :: rat\<bar> < 10 ^ 28 \<longleftrightarrow> \<bar>k\<bar> < 10 ^ 28"
      by (metis of_int_abs of_int_less_iff of_int_numeral of_int_power)
    with z k True show ?thesis by (simp add: not_le)
  next
    case False
    with z show ?thesis by (metis Ints_of_int)
  qed
qed

lemma validate_order_size_Inr:
  "validate_order_size ord s cfg = Inr () \<longleftrightarrow> size_ok ord s cfg \<and> notional_ok ord s cfg"
proof -
  have "validate_order_size ord s cfg = Inr () \<longleftrightarrow>
      \<not> uo_quantity ord < sp_min_qty s \<and> \<not> sp_max_qty s < uo_quantity ord
      \<and> (\<exists>t. qty_tick s = Inr t \<and> dmod (uo_quantity ord) t = Inr 0)
      \<and> (\<forall>m. dict_get (rc_inst_size cfg) (inst_id (uo_instrument ord)) = Some m \<longrightarrow> \<not> m < uo_quantity ord)
      \<and> \<not> exceeds (uo_quantity ord) (rc_max_size cfg) \<and> notional_checks ord s cfg = Inr ()"
    unfolding validate_order_size_def Let_def rbind_eq_Inr guard_exn_Inr
    by (simp split: option.split) blast
  then show ?thesis
    unfolding qty_tick_Inr notional_checks_Inr size_ok_def by (auto simp: dmod_tick_zero)
qed

lemma check_prices_Inr:
  "check_prices r m ps = Inr () \<longleftrightarrow>
     (\<forall>p \<in> set ps. r \<noteq> 0 \<and> dmul (ddiv_nz (dabs (dsub p r)) r) 100 \<le> m)"
proof (induction ps)
  case (Cons p ps)
  have "check_price_deviation p r m = Inr () \<longleftrightarrow>
      r \<noteq> 0 \<and> dmul (ddiv_nz (dabs (dsub p r)) r) 100 \<le> m"
    by (auto simp: check_price_deviation_def ddiv_def not_less)
  with Cons.IH show ?case by (auto simp: rbind_eq_Inr)
qed simp

lemma validate_price_sanity_Inr: "validate_price_sanity ord ref cfg = Inr () \<longleftrightarrow> price_ok ord ref cfg"
  by (auto simp: validate_price_sanity_def price_ok_def check_prices_Inr split: option.splits)

text \<open>
  C31. The chain accepts an order exactly when the instrument is listed, the quantity is within the
  platform's bounds, a whole multiple of the quantity step and within the configured caps, the
  notional of a priced order is within its bounds, every price the order carries (limit, stop, and
  both prices of the attached exits) deviates from a known reference by at most the configured
  percentage, the client order id is set and new, and the rate budget is positive.
\<close>

theorem risk_accepts_iff:
  "run_risk_checks ord spec ref known remaining (Some cfg) = Inr () \<longleftrightarrow>
     (\<exists>s cid. spec = Some s \<and> size_ok ord s cfg \<and> notional_ok ord s cfg \<and> price_ok ord ref cfg
        \<and> uo_client_id ord = Some cid \<and> cid \<notin> known \<and> 0 < remaining)"
proof (cases spec)
  case None
  then show ?thesis
    by (simp add: run_risk_checks_def validate_symbol_validity_def guard_exn_def)
next
  case (Some s)
  have v: "validate_symbol_validity ord (Some s) = Inr ()" by (simp add: validate_symbol_validity_def)
  show ?thesis
    unfolding run_risk_checks_def Let_def Some v
    by (auto simp: rbind_eq_Inr validate_order_size_Inr validate_price_sanity_Inr
        validate_no_duplicate_def validate_rate_limit_def split: option.splits)
qed

subsection \<open>Order of the rejections\<close>

lemma notional_checks_Inl: "notional_checks ord s cfg = Inl e \<Longrightarrow> exn_cls e = InvalidSymbolError"
  by (auto simp: notional_checks_def Let_def rbind_eq_Inl guard_exn_Inl split: option.splits)

lemma validate_order_size_Inl:
  assumes "validate_order_size ord s cfg = Inl e"
  shows "exn_cls e \<notin> {DuplicateOrderIdError, RateLimitError}"
  using assms notional_checks_Inl [of ord s cfg e]
  unfolding validate_order_size_def Let_def rbind_eq_Inl
  by (auto simp: guard_exn_Inl qty_tick_def dmod_def split: if_splits)

lemma check_prices_Inl:
  "check_prices r m ps = Inl e \<Longrightarrow> exn_cls e \<notin> {DuplicateOrderIdError, RateLimitError}"
  by (induction ps) (auto simp: rbind_eq_Inl check_price_deviation_def ddiv_def guard_exn_Inl split: if_splits)

lemma validate_price_sanity_Inl:
  "validate_price_sanity ord ref cfg = Inl e \<Longrightarrow> exn_cls e \<notin> {DuplicateOrderIdError, RateLimitError}"
  by (auto simp: validate_price_sanity_def split: option.splits dest: check_prices_Inl)

text \<open>
  Fail-fast order. A duplicate identifier is reported exactly for an order that passes the
  symbol, size and price checks and whose identifier is known; an exhausted budget exactly for one
  that passes every other check. An unlisted instrument is rejected as an invalid symbol, whatever
  else is wrong with the order.
\<close>

theorem risk_fail_fast:
  "(fails_with (run_risk_checks ord spec ref known remaining (Some cfg)) DuplicateOrderIdError \<longleftrightarrow>
      (\<exists>s cid. spec = Some s \<and> size_ok ord s cfg \<and> notional_ok ord s cfg \<and> price_ok ord ref cfg
        \<and> uo_client_id ord = Some cid \<and> cid \<in> known))
   \<and> (fails_with (run_risk_checks ord spec ref known remaining (Some cfg)) RateLimitError \<longleftrightarrow>
      (\<exists>s cid. spec = Some s \<and> size_ok ord s cfg \<and> notional_ok ord s cfg \<and> price_ok ord ref cfg
        \<and> uo_client_id ord = Some cid \<and> cid \<notin> known \<and> remaining \<le> 0))
   \<and> (spec = None \<longrightarrow>
        fails_with (run_risk_checks ord spec ref known remaining (Some cfg)) InvalidSymbolError)"
proof (cases spec)
  case None
  then show ?thesis
    by (simp add: run_risk_checks_def validate_symbol_validity_def guard_exn_def)
next
  case (Some s)
  have v: "validate_symbol_validity ord (Some s) = Inr ()" by (simp add: validate_symbol_validity_def)
  have run: "run_risk_checks ord (Some s) ref known remaining (Some cfg) =
      rbind (validate_order_size ord s cfg) (\<lambda>_. rbind (validate_price_sanity ord ref cfg) (\<lambda>_.
        case uo_client_id ord of
          None \<Rightarrow> raise_exn InvalidSymbolError ''client_order_id must be set before risk checks''
        | Some cid \<Rightarrow> rbind (validate_no_duplicate cid known) (\<lambda>_. validate_rate_limit remaining)))"
    unfolding run_risk_checks_def Let_def v by simp
  consider e where "validate_order_size ord s cfg = Inl e"
    | e where "validate_order_size ord s cfg = Inr ()" "validate_price_sanity ord ref cfg = Inl e"
    | "validate_order_size ord s cfg = Inr ()" "validate_price_sanity ord ref cfg = Inr ()"
    by (metis (full_types) obj_sumE old.unit.exhaust)
  then show ?thesis
  proof cases
    case (1 e)
    then have "\<not> (size_ok ord s cfg \<and> notional_ok ord s cfg)"
      by (metis Inl_Inr_False validate_order_size_Inr)
    with 1 validate_order_size_Inl [OF 1] Some show ?thesis by (auto simp: run fails_with_def)
  next
    case (2 e)
    then have "\<not> price_ok ord ref cfg" by (metis Inl_Inr_False validate_price_sanity_Inr)
    with 2 validate_price_sanity_Inl [OF 2(2)] Some show ?thesis by (auto simp: run fails_with_def)
  next
    case 3
    then have "size_ok ord s cfg" "notional_ok ord s cfg" "price_ok ord ref cfg"
      by (auto simp: validate_order_size_Inr validate_price_sanity_Inr)
    with 3 Some show ?thesis
      by (auto simp: run validate_no_duplicate_def validate_rate_limit_def guard_exn_def
          split: option.splits)
  qed
qed

definition risk_order :: unified_order where
  "risk_order = \<lparr>uo_instrument = btc_spot, uo_type = LIMIT, uo_side = BUY, uo_quantity = 1, uo_tif = GTC,
     uo_client_id = Some ''a'', uo_price = Some 100, uo_stop_price = None, uo_reduce_only = False,
     uo_client_tag = None, uo_take_profit = None, uo_stop_loss = None, uo_position_id = None,
     uo_expire_at = None\<rparr>"

theorem risk_fail_fast_witness:
  "fails_with (run_risk_checks risk_order None (Some 100) {} 0 (Some default_risk_config)) InvalidSymbolError"
  using risk_fail_fast [of risk_order None "Some 100" "{}" 0 default_risk_config] by simp

end
