(* ===== verification/UTE_Reconcile.thy ===== *)
theory UTE_Reconcile
  imports UTE_Types
begin

text \<open>
  Mismatch detection, \<^verbatim>\<open>core/state/reconciliation.py\<close>. The local side is always a snapshot; a
  platform dataset may be \<open>None\<close>, which means that the venue cannot report it. The code walks
  Python sets of keys; here they are walked in the order of first occurrence, local keys before
  platform keys, and the theorems only speak of which mismatches are reported. The two values of a
  mismatch are kept structured instead of formatted into text.
\<close>

datatype mismatch_kind = MK_position | MK_balance | MK_orphan_platform | MK_orphan_local | MK_fill

datatype mismatch_value =
    MV_absent | MV_leg decimal "string option" | MV_total decimal | MV_order string | MV_filled decimal

record mismatch =
  mm_kind :: mismatch_kind
  mm_instrument :: "instrument option"
  mm_local :: mismatch_value
  mm_platform :: mismatch_value

record reconciliation_result =
  rr_positions :: "mismatch list"
  rr_balances :: "mismatch list"
  rr_orphans_platform :: "order_record list"
  rr_orphans_local :: "string list"
  rr_fills :: "mismatch list"

definition rr_is_clean :: "reconciliation_result \<Rightarrow> bool" where
  "rr_is_clean r \<longleftrightarrow> rr_positions r = [] \<and> rr_balances r = [] \<and> rr_orphans_platform r = []
     \<and> rr_orphans_local r = [] \<and> rr_fills r = []"

definition orphan_platform_mismatch :: "order_record \<Rightarrow> mismatch" where
  "orphan_platform_mismatch ord =
     \<lparr>mm_kind = MK_orphan_platform, mm_instrument = Some (or_instrument ord), mm_local = MV_absent,
      mm_platform = MV_order (or_client_id ord)\<rparr>"

definition orphan_local_mismatch :: "string \<Rightarrow> mismatch" where
  "orphan_local_mismatch cid =
     \<lparr>mm_kind = MK_orphan_local, mm_instrument = None, mm_local = MV_order cid, mm_platform = MV_absent\<rparr>"

definition all_mismatches :: "reconciliation_result \<Rightarrow> mismatch list" where
  "all_mismatches r =
     rr_positions r @ rr_balances r @ map orphan_platform_mismatch (rr_orphans_platform r)
     @ map orphan_local_mismatch (rr_orphans_local r) @ rr_fills r"

subsection \<open>The comparison\<close>

type_synonym leg_key = "instrument \<times> string option"

definition leg_key :: "position \<Rightarrow> leg_key" where
  "leg_key p = (inst_id (po_instrument p), po_id p)"

definition by_leg :: "position list \<Rightarrow> (leg_key, position) dict" where
  "by_leg ps = foldl (\<lambda>d p. dict_set (leg_key p) p d) [] ps"

definition keys_union :: "('k, 'v) dict \<Rightarrow> ('k, 'w) dict \<Rightarrow> 'k list" where
  "keys_union d e = dedupe (map fst d @ map fst e)"

definition opt_qty :: "position option \<Rightarrow> decimal" where
  "opt_qty p = (case p of None \<Rightarrow> 0 | Some q \<Rightarrow> po_quantity q)"

definition leg_value :: "position option \<Rightarrow> mismatch_value" where
  "leg_value p = (case p of None \<Rightarrow> MV_absent | Some q \<Rightarrow> MV_leg (po_quantity q) (po_id q))"

definition position_mismatches :: "position list \<Rightarrow> position list \<Rightarrow> mismatch list" where
  "position_mismatches local_ps platform_ps =
     (let l = by_leg local_ps; p = by_leg platform_ps in
      map (\<lambda>k. \<lparr>mm_kind = MK_position, mm_instrument = Some (fst k),
                mm_local = leg_value (dict_get l k), mm_platform = leg_value (dict_get p k)\<rparr>)
        (filter (\<lambda>k. opt_qty (dict_get l k) \<noteq> opt_qty (dict_get p k)) (keys_union l p)))"

definition opt_total :: "balance option \<Rightarrow> decimal" where
  "opt_total b = (case b of None \<Rightarrow> 0 | Some c \<Rightarrow> ba_total c)"

definition total_value :: "balance option \<Rightarrow> mismatch_value" where
  "total_value b = (case b of None \<Rightarrow> MV_absent | Some c \<Rightarrow> MV_total (ba_total c))"

definition balance_mismatches :: "(string, balance) dict \<Rightarrow> (string, balance) dict \<Rightarrow> mismatch list" where
  "balance_mismatches l p =
     map (\<lambda>k. \<lparr>mm_kind = MK_balance, mm_instrument = None,
               mm_local = total_value (dict_get l k), mm_platform = total_value (dict_get p k)\<rparr>)
       (filter (\<lambda>k. opt_total (dict_get l k) \<noteq> opt_total (dict_get p k)) (keys_union l p))"

definition filled_total :: "(string, fill_record list) dict \<Rightarrow> string \<Rightarrow> decimal" where
  "filled_total d cid =
     dsum (map fl_quantity (case dict_get d cid of None \<Rightarrow> [] | Some fs \<Rightarrow> fs))"

definition fill_mismatches ::
    "(string, fill_record list) dict \<Rightarrow> (string, fill_record list) dict \<Rightarrow> mismatch list" where
  "fill_mismatches l p =
     map (\<lambda>k. \<lparr>mm_kind = MK_fill, mm_instrument = None,
               mm_local = MV_filled (filled_total l k), mm_platform = MV_filled (filled_total p k)\<rparr>)
       (filter (\<lambda>k. filled_total l k \<noteq> filled_total p k) (keys_union l p))"

definition reconcile ::
    "position list \<Rightarrow> position list option \<Rightarrow> (string, balance) dict \<Rightarrow> (string, balance) dict option
     \<Rightarrow> (string, order_record) dict \<Rightarrow> (string, order_record) dict option
     \<Rightarrow> (string, fill_record list) dict \<Rightarrow> (string, fill_record list) dict option
     \<Rightarrow> reconciliation_result" where
  "reconcile lp pp lb pb lo po lf pf =
     \<lparr>rr_positions = (case pp of None \<Rightarrow> [] | Some p \<Rightarrow> position_mismatches lp p),
      rr_balances = (case pb of None \<Rightarrow> [] | Some p \<Rightarrow> balance_mismatches lb p),
      rr_orphans_platform = (case po of None \<Rightarrow> []
        | Some p \<Rightarrow> map snd (filter (\<lambda>(cid, _). \<not> dict_has lo cid) p)),
      rr_orphans_local = (case po of None \<Rightarrow> []
        | Some p \<Rightarrow> filter (\<lambda>cid. \<not> dict_has p cid) (map fst lo)),
      rr_fills = (case pf of None \<Rightarrow> [] | Some p \<Rightarrow> fill_mismatches lf p)\<rparr>"

subsection \<open>What is reported\<close>

lemma set_keys_union: "k \<in> set (keys_union d e) \<longleftrightarrow> dict_has d k \<or> dict_has e k"
  by (auto simp: keys_union_def map_of_eq_None_iff simp del: not_None_eq)

lemma distinct_keys_union [simp]: "distinct (keys_union d e)"
  by (simp add: keys_union_def)

text \<open>Comparing two tables by a total view: nothing differs on the union iff the views agree.\<close>

lemma filter_keys_union_Nil:
  assumes "\<And>k. dict_get l k = None \<Longrightarrow> dict_get p k = None \<Longrightarrow> f k = g k"
  shows "filter (\<lambda>k. f k \<noteq> g k) (keys_union l p) = [] \<longleftrightarrow> (\<forall>k. f k = g k)"
  using assms set_keys_union [of _ l p] by (auto simp: filter_empty_conv simp del: not_None_eq)

definition leg_quantity :: "position list \<Rightarrow> leg_key \<Rightarrow> decimal" where
  \<comment> \<open>the last listed position of a leg counts\<close>
  "leg_quantity ps k =
     (case List.find (\<lambda>p. leg_key p = k) (rev ps) of None \<Rightarrow> 0 | Some p \<Rightarrow> po_quantity p)"

lemma dict_get_by_leg: "dict_get (by_leg ps) k = List.find (\<lambda>p. leg_key p = k) (rev ps)"
  by (induction ps rule: rev_induct) (auto simp: by_leg_def)

lemma opt_qty_by_leg: "opt_qty (dict_get (by_leg ps) k) = leg_quantity ps k"
  by (simp add: opt_qty_def leg_quantity_def dict_get_by_leg)

lemma position_mismatches_Nil:
  "position_mismatches l p = [] \<longleftrightarrow> (\<forall>k. leg_quantity l k = leg_quantity p k)"
  unfolding position_mismatches_def Let_def map_is_Nil_conv
  by (subst filter_keys_union_Nil) (simp_all add: opt_qty_by_leg [symmetric])

lemma balance_mismatches_Nil:
  "balance_mismatches l p = [] \<longleftrightarrow> (\<forall>c. opt_total (dict_get l c) = opt_total (dict_get p c))"
  unfolding balance_mismatches_def map_is_Nil_conv
  by (subst filter_keys_union_Nil) simp_all

lemma fill_mismatches_Nil:
  "fill_mismatches l p = [] \<longleftrightarrow> (\<forall>c. filled_total l c = filled_total p c)"
  unfolding fill_mismatches_def map_is_Nil_conv
  by (subst filter_keys_union_Nil) (simp_all add: filled_total_def)

lemma orphans_platform_Nil:
  "map snd (filter (\<lambda>(cid, _). \<not> dict_has lo cid) p) = [] \<longleftrightarrow> (\<forall>cid. dict_has p cid \<longrightarrow> dict_has lo cid)"
  by (auto simp: filter_empty_conv map_of_eq_None_iff simp del: not_None_eq) force

lemma orphans_local_Nil:
  "filter (\<lambda>cid. \<not> dict_has p cid) (map fst lo) = [] \<longleftrightarrow> (\<forall>cid. dict_has lo cid \<longrightarrow> dict_has p cid)"
  by (auto simp: filter_empty_conv map_of_eq_None_iff simp del: not_None_eq)

text \<open>
  C32. A reconciliation is clean exactly when every dataset the venue can report agrees with the
  mirror: the quantity of every leg (an absent leg counts as zero), the settled total of every
  currency (an absent balance counts as zero), the set of live orders, and the filled total of
  every order. A dataset the venue cannot report never makes it unclean, and it is clean exactly
  when it has no mismatch to list.
\<close>

theorem reconcile_clean_iff:
  "rr_is_clean (reconcile lp pp lb pb lo po lf pf) \<longleftrightarrow>
     (pp = None \<or> (\<forall>k. leg_quantity lp k = leg_quantity (the pp) k))
     \<and> (pb = None \<or> (\<forall>c. opt_total (dict_get lb c) = opt_total (dict_get (the pb) c)))
     \<and> (po = None \<or> dom (dict_get lo) = dom (dict_get (the po)))
     \<and> (pf = None \<or> (\<forall>c. filled_total lf c = filled_total (the pf) c))"
proof -
  have doms: "dom (dict_get lo) = dom (dict_get p) \<longleftrightarrow>
      (\<forall>cid. dict_has p cid \<longrightarrow> dict_has lo cid) \<and> (\<forall>cid. dict_has lo cid \<longrightarrow> dict_has p cid)" for p
    by (auto simp: dom_def)
  let ?r = "reconcile lp pp lb pb lo po lf pf"
  have "rr_positions ?r = [] \<longleftrightarrow> pp = None \<or> (\<forall>k. leg_quantity lp k = leg_quantity (the pp) k)"
    by (cases pp) (simp_all add: reconcile_def position_mismatches_Nil)
  moreover have "rr_balances ?r = [] \<longleftrightarrow>
      pb = None \<or> (\<forall>c. opt_total (dict_get lb c) = opt_total (dict_get (the pb) c))"
    by (cases pb) (simp_all add: reconcile_def balance_mismatches_Nil)
  moreover have "rr_orphans_platform ?r = [] \<and> rr_orphans_local ?r = [] \<longleftrightarrow>
      po = None \<or> dom (dict_get lo) = dom (dict_get (the po))"
  proof (cases po)
    case (Some p)
    then show ?thesis
      using orphans_platform_Nil [of lo p] orphans_local_Nil [of p lo] doms [of p]
      by (simp add: reconcile_def)
  qed (simp add: reconcile_def)
  moreover have "rr_fills ?r = [] \<longleftrightarrow> pf = None \<or> (\<forall>c. filled_total lf c = filled_total (the pf) c)"
    by (cases pf) (simp_all add: reconcile_def fill_mismatches_Nil)
  ultimately show ?thesis unfolding rr_is_clean_def by blast
qed

text \<open>
  Every disagreement is reported once. The position mismatches are in one-to-one
  correspondence with the legs whose quantities differ, each naming the leg's instrument and both
  quantities; the orphans found on the platform are exactly its orders unknown to the mirror, and
  the orphans found in the mirror exactly its live orders unknown to the platform.
\<close>

theorem reconcile_reports:
  "(\<exists>ks. distinct ks \<and> set ks = {k. leg_quantity lp k \<noteq> leg_quantity pp k}
      \<and> rr_positions (reconcile lp (Some pp) lb pb lo (Some po) lf pf)
        = map (\<lambda>k. \<lparr>mm_kind = MK_position, mm_instrument = Some (fst k),
            mm_local = leg_value (dict_get (by_leg lp) k),
            mm_platform = leg_value (dict_get (by_leg pp) k)\<rparr>) ks)
   \<and> set (rr_orphans_platform (reconcile lp (Some pp) lb pb lo (Some po) lf pf))
       = {r. \<exists>cid. (cid, r) \<in> set po \<and> dict_get lo cid = None}
   \<and> set (rr_orphans_local (reconcile lp (Some pp) lb pb lo (Some po) lf pf))
       = dom (dict_get lo) - dom (dict_get po)"
proof -
  let ?ks = "filter (\<lambda>k. opt_qty (dict_get (by_leg lp) k) \<noteq> opt_qty (dict_get (by_leg pp) k))
      (keys_union (by_leg lp) (by_leg pp))"
  have "k \<in> set (keys_union (by_leg lp) (by_leg pp))" if "leg_quantity lp k \<noteq> leg_quantity pp k" for k
    using that set_keys_union [of k "by_leg lp" "by_leg pp"]
    by (auto simp: opt_qty_def simp flip: opt_qty_by_leg)
  then have "set ?ks = {k. leg_quantity lp k \<noteq> leg_quantity pp k}" by (auto simp: opt_qty_by_leg)
  moreover have "distinct ?ks" by simp
  moreover have "set (filter (\<lambda>cid. \<not> dict_has po cid) (map fst lo)) = dom (dict_get lo) - dom (dict_get po)"
    by (auto simp: dom_map_of_conv_image_fst map_of_eq_None_iff)
  moreover have "set (map snd (filter (\<lambda>(cid, _). \<not> dict_has lo cid) po))
      = {r. \<exists>cid. (cid, r) \<in> set po \<and> dict_get lo cid = None}"
    by force
  ultimately show ?thesis
    unfolding reconcile_def position_mismatches_def Let_def option.case
      reconciliation_result.select_convs by blast
qed

end
