(* ===== verification/UTE_Trailing_Types.thy ===== *)
theory UTE_Trailing_Types
  imports UTE_Types
begin

text \<open>
  The data of the trailing engine, \<^verbatim>\<open>core/trailing/types.py\<close>: the enums, the request and its
  specification with the constructor checks, the runtime configuration and the persisted state of
  one trailed leg. Fields carry the prefixes \<open>pl_\<close> (protection level), \<open>tq_\<close> (trailing spec),
  \<open>rq_\<close> (request), \<open>nr_\<close> / \<open>nt_\<close> (native request and result), \<open>tc_\<close> (configuration) and \<open>ts_\<close>
  (state). Intervals given as floats are rationals, with the non-finite floats kept apart.
\<close>

datatype trailing_mode = TM_AUTO | TM_NATIVE | TM_SYNTHETIC
datatype trailing_offset_type = OT_PRICE | OT_PERCENT | OT_ATR
datatype protection_level_type = LT_PRICE | LT_PERCENT | LT_ATR
datatype trailing_basis = TB_LAST | TB_MARK | TB_MID | TB_BID | TB_ASK
datatype trailing_activation = TA_IMMEDIATE | TA_PRICE | TA_PROFIT_PERCENT
datatype trailing_phase = ARMING | ARMED | TRIGGERED | DONE | TR_CANCELLED | DEGRADED | FAILED
datatype candle_timeframe = TF_M1 | TF_M5 | TF_M15 | TF_M30 | TF_H1 | TF_H4 | TF_H8 | TF_H12 | TF_D1

definition ACTIVE_TRAILING_PHASES :: "trailing_phase set" where
  "ACTIVE_TRAILING_PHASES = {ARMING, ARMED, TRIGGERED, DEGRADED}"

definition TERMINAL_TRAILING_PHASES :: "trailing_phase set" where
  "TERMINAL_TRAILING_PHASES = {DONE, TR_CANCELLED, FAILED}"

lemma phase_split:
  "p \<in> ACTIVE_TRAILING_PHASES \<longleftrightarrow> p \<notin> TERMINAL_TRAILING_PHASES"
  by (cases p) (simp_all add: ACTIVE_TRAILING_PHASES_def TERMINAL_TRAILING_PHASES_def)

subsection \<open>Protection levels and specifications\<close>

record protection_level =
  pl_type :: protection_level_type
  pl_value :: decimal

definition level_post_init :: "protection_level \<Rightarrow> protection_level result" where
  "level_post_init l =
     rbind (guard_exn (pl_value l \<le> 0) PyValueError ''ProtectionLevel.value must be > 0'') (\<lambda>_. Inr l)"

definition is_atr :: "protection_level option \<Rightarrow> bool" where
  "is_atr l = (case l of None \<Rightarrow> False | Some p \<Rightarrow> pl_type p = LT_ATR)"

record trailing_spec =
  tq_offset_type :: trailing_offset_type
  tq_offset :: decimal
  tq_basis :: "trailing_basis option"
  tq_activation :: trailing_activation
  tq_activation_price :: "decimal option"
  tq_activation_pct :: "decimal option"
  tq_initial_stop :: "protection_level option"
  tq_take_profit :: "protection_level option"
  tq_step :: "decimal option"
  tq_atr_period :: "int option"
  tq_atr_timeframe :: "candle_timeframe option"

definition uses_atr :: "trailing_spec \<Rightarrow> bool" where
  "uses_atr q \<longleftrightarrow>
     tq_offset_type q = OT_ATR \<or> is_atr (tq_initial_stop q) \<or> is_atr (tq_take_profit q)"

definition validate_activation :: "trailing_spec \<Rightarrow> unit result" where
  "validate_activation q =
     (case tq_activation q of
        TA_IMMEDIATE \<Rightarrow>
          guard_exn (tq_activation_price q \<noteq> None \<or> tq_activation_pct q \<noteq> None) PyValueError
            ''activation=IMMEDIATE forbids activation_price and activation_profit_percent''
      | TA_PRICE \<Rightarrow>
          rbind (guard_exn (case tq_activation_price q of None \<Rightarrow> True | Some p \<Rightarrow> p \<le> 0) PyValueError
                  ''activation=PRICE requires activation_price > 0'') (\<lambda>_.
          guard_exn (tq_activation_pct q \<noteq> None) PyValueError
            ''activation=PRICE forbids activation_profit_percent'')
      | TA_PROFIT_PERCENT \<Rightarrow>
          rbind (guard_exn (case tq_activation_pct q of None \<Rightarrow> True | Some p \<Rightarrow> \<not> (0 < p \<and> p < 100))
                  PyValueError ''activation=PROFIT_PERCENT requires 0 < percent < 100'') (\<lambda>_.
          guard_exn (tq_activation_price q \<noteq> None) PyValueError
            ''activation=PROFIT_PERCENT forbids activation_price''))"

definition validate_atr :: "trailing_spec \<Rightarrow> unit result" where
  "validate_atr q =
     (let atr_set = (tq_atr_period q \<noteq> None \<and> tq_atr_timeframe q \<noteq> None) in
      rbind (guard_exn (uses_atr q \<and> \<not> atr_set) PyValueError
              ''ATR values require both atr_period and atr_timeframe'') (\<lambda>_.
      rbind (guard_exn (\<not> uses_atr q \<and> (tq_atr_period q \<noteq> None \<or> tq_atr_timeframe q \<noteq> None))
              PyValueError ''atr_period/atr_timeframe are set but no ATR value is requested'') (\<lambda>_.
      guard_exn (case tq_atr_period q of None \<Rightarrow> False | Some n \<Rightarrow> n < 2) PyValueError
        ''atr_period must be >= 2'')))"

definition spec_post_init :: "trailing_spec \<Rightarrow> trailing_spec result" where
  "spec_post_init q =
     rbind (guard_exn (tq_offset q \<le> 0) PyValueError ''offset must be > 0'') (\<lambda>_.
     rbind (guard_exn (tq_offset_type q = OT_PERCENT \<and> \<not> (0 < tq_offset q \<and> tq_offset q < 100))
              PyValueError ''percent offset must be in (0, 100)'') (\<lambda>_.
     rbind (guard_exn (case tq_step q of None \<Rightarrow> False | Some s \<Rightarrow> s < 0) PyValueError
              ''step must be >= 0'') (\<lambda>_.
     rbind (validate_activation q) (\<lambda>_.
     rbind (validate_atr q) (\<lambda>_. Inr q)))))"

definition wf_spec :: "trailing_spec \<Rightarrow> bool" where
  "wf_spec q \<longleftrightarrow> spec_post_init q = Inr q"

lemma spec_post_init_wf [wf_intros]: "spec_post_init q = Inr r \<Longrightarrow> r = q \<and> wf_spec r"
  unfolding wf_spec_def by (auto simp: spec_post_init_def rbind_eq_Inr)

lemma wf_spec_basic:
  assumes "wf_spec q"
  shows "0 < tq_offset q"
    and "tq_offset_type q = OT_PERCENT \<Longrightarrow> tq_offset q < 100"
    and "tq_step q = Some s \<Longrightarrow> 0 \<le> s"
    and "validate_activation q = Inr ()"
    and "validate_atr q = Inr ()"
  using assms by (auto simp: wf_spec_def spec_post_init_def rbind_eq_Inr)

lemma wf_spec_activation:
  assumes "wf_spec q"
  shows "tq_activation q = TA_PRICE \<Longrightarrow> \<exists>p. tq_activation_price q = Some p \<and> 0 < p"
    and "tq_activation q = TA_PROFIT_PERCENT \<Longrightarrow> \<exists>p. tq_activation_pct q = Some p \<and> 0 < p \<and> p < 100"
  using wf_spec_basic(4) [OF assms]
  by (auto simp: validate_activation_def rbind_eq_Inr split: option.splits)

lemma wf_spec_atr:
  assumes "wf_spec q" "uses_atr q"
  shows "\<exists>n tf. tq_atr_period q = Some n \<and> 2 \<le> n \<and> tq_atr_timeframe q = Some tf"
  using wf_spec_basic(5) [OF assms(1)] assms(2)
  by (auto simp: validate_atr_def Let_def rbind_eq_Inr split: option.splits)

record trailing_request =
  rq_instrument :: instrument
  rq_spec :: trailing_spec
  rq_position_id :: "string option"
  rq_mode :: trailing_mode
  rq_take_over :: bool

record native_request =
  nr_instrument :: instrument
  nr_position_id :: string
  nr_side :: order_side
  nr_quantity :: decimal
  nr_offset :: decimal
  nr_offset_type :: trailing_offset_type
  nr_basis :: "trailing_basis option"
  nr_activation_price :: "decimal option"
  nr_client_id :: string

record native_result =
  nt_native_id :: string
  nt_confirmed_offset :: "decimal option"
  nt_current_stop :: "decimal option"
  nt_activated :: bool
  nt_position_scoped :: bool

subsection \<open>Runtime configuration\<close>

datatype py_float = PF rat | PF_nonfinite

record trailing_config =
  tc_poll_interval :: py_float
  tc_max_fetches :: int
  tc_fetch_threshold :: int
  tc_protection_threshold :: int
  tc_rearm :: bool
  tc_settle :: py_float
  tc_stale_candles :: int
  tc_publish_tickers :: bool

fun float_below :: "py_float \<Rightarrow> rat \<Rightarrow> bool" where
  \<comment> \<open>\<^verbatim>\<open>not math.isfinite(x) or x < bound\<close>\<close>
  "float_below PF_nonfinite bnd = True"
| "float_below (PF x) bnd = (x < bnd)"

definition config_post_init :: "trailing_config \<Rightarrow> trailing_config result" where
  "config_post_init c =
     rbind (guard_exn (float_below (tc_poll_interval c) (1 / 10)) PyValueError
              ''poll_interval_seconds must be a finite value >= 0.1'') (\<lambda>_.
     rbind (guard_exn (tc_max_fetches c < 1) PyValueError ''max_concurrent_fetches must be >= 1'') (\<lambda>_.
     rbind (guard_exn (tc_fetch_threshold c < 1) PyValueError ''fetch_failure_threshold must be >= 1'') (\<lambda>_.
     rbind (guard_exn (tc_protection_threshold c < 1) PyValueError
              ''protection_failure_threshold must be >= 1'') (\<lambda>_.
     rbind (guard_exn (float_below (tc_settle c) 0) PyValueError
              ''candle_settle_seconds must be a finite value >= 0'') (\<lambda>_.
     rbind (guard_exn (tc_stale_candles c < 1) PyValueError ''atr_stale_after_candles must be >= 1'')
       (\<lambda>_. Inr c))))))"

definition default_trailing_config :: trailing_config where
  "default_trailing_config = \<lparr>tc_poll_interval = PF 1, tc_max_fetches = 4, tc_fetch_threshold = 5,
     tc_protection_threshold = 3, tc_rearm = True, tc_settle = PF 2, tc_stale_candles = 2,
     tc_publish_tickers = False\<rparr>"

subsection \<open>The state of a trailed leg\<close>

record trailing_state =
  ts_id :: string
  ts_instrument :: instrument
  ts_position_id :: string
  ts_mode :: trailing_mode
  ts_phase :: trailing_phase
  ts_spec :: trailing_spec
  ts_side :: order_side
  ts_entry :: decimal
  ts_quantity :: decimal
  ts_created_at :: instant
  ts_updated_at :: instant
  ts_opened_at :: "instant option"
  ts_routing :: "string option"
  ts_basis :: "trailing_basis option"
  ts_trigger_basis :: "trailing_basis option"
  ts_stop :: "decimal option"
  ts_take_profit :: "decimal option"
  ts_stop_owned :: bool
  ts_tp_owned :: bool
  ts_prev_stop :: "decimal option"
  ts_prev_tp :: "decimal option"
  ts_best :: "decimal option"
  ts_activation_price :: "decimal option"
  ts_activated :: bool
  ts_atr :: "decimal option"
  ts_atr_as_of :: "instant option"
  ts_native_id :: "string option"
  ts_last_reprice :: "instant option"
  ts_reprices :: int
  ts_error :: "string option"
  ts_failures :: int

text \<open>Timestamps are instants in a state, so the awareness checks of the constructor cannot fail.\<close>

definition state_post_init :: "trailing_state \<Rightarrow> trailing_state result" where
  "state_post_init t =
     rbind (guard_exn (ts_mode t = TM_AUTO) PyValueError
              ''TrailingState.mode must be resolved (never AUTO)'') (\<lambda>_.
     rbind (guard_exn (ts_quantity t < 0) PyValueError ''quantity must be an absolute size >= 0'') (\<lambda>_.
     Inr t))"

definition wf_tstate :: "trailing_state \<Rightarrow> bool" where
  "wf_tstate t \<longleftrightarrow> ts_mode t \<noteq> TM_AUTO \<and> 0 \<le> ts_quantity t"

lemma state_post_init_Inr: "state_post_init t = Inr u \<longleftrightarrow> u = t \<and> wf_tstate t"
  by (auto simp: state_post_init_def rbind_eq_Inr wf_tstate_def)

end
