(* ===== verification/UTE_Events.thy ===== *)
theory UTE_Events
  imports UTE_Halt UTE_Reconcile UTE_Trailing_Types
begin

text \<open>
  \<^verbatim>\<open>core/events/__init__.py\<close>: the events published on the bus, the records of the audit trail, and
  the synchronous bus. Callbacks are identified by a value of type \<open>'c\<close>; what a callback does when it
  is called is a parameter of \<open>publish\<close>.
\<close>

subsection \<open>Events\<close>

datatype event_type =
    ET_Event | ET_Fill | ET_PositionUpdate | ET_BalanceUpdate | ET_Ticker | ET_ConnectionState
  | ET_OrderPlaced | ET_OrderModified | ET_OrderCancelled | ET_OrderStatus | ET_TrailingState
  | ET_ReconciliationComplete | ET_HaltEntered | ET_HaltCleared | ET_AccountChanged

record trailing_note =
  tn_id :: string
  tn_instrument :: instrument
  tn_position_id :: string
  tn_previous :: trailing_phase
  tn_phase :: trailing_phase
  tn_mode :: trailing_mode
  tn_stop :: "decimal option"
  tn_reason :: "string option"

datatype event_body =
    FillEvent fill_record
  | PositionUpdateEvent position
  | BalanceUpdateEvent balance
  | TickerEvent instrument ticker
  | ConnectionStateEvent bool
  | OrderPlacedEvent order_record
  | OrderModifiedEvent order_record order_record
  | OrderCancelledEvent string instrument
  | OrderStatusEvent order_record
  | TrailingStateEvent trailing_note
  | ReconciliationCompleteEvent "mismatch list"
  | HaltEnteredEvent halt_scope "instrument option" string string
  | HaltClearedEvent halt_scope "instrument option" halt_clear_mode
  | AccountChangedEvent string "string option"

record event =
  ev_id :: string
  ev_time :: instant
  ev_adapter :: string
  ev_account :: string
  ev_correlation :: "string option"
  ev_body :: event_body

fun event_type_of :: "event_body \<Rightarrow> event_type" where
  "event_type_of (FillEvent _) = ET_Fill"
| "event_type_of (PositionUpdateEvent _) = ET_PositionUpdate"
| "event_type_of (BalanceUpdateEvent _) = ET_BalanceUpdate"
| "event_type_of (TickerEvent _ _) = ET_Ticker"
| "event_type_of (ConnectionStateEvent _) = ET_ConnectionState"
| "event_type_of (OrderPlacedEvent _) = ET_OrderPlaced"
| "event_type_of (OrderModifiedEvent _ _) = ET_OrderModified"
| "event_type_of (OrderCancelledEvent _ _) = ET_OrderCancelled"
| "event_type_of (OrderStatusEvent _) = ET_OrderStatus"
| "event_type_of (TrailingStateEvent _) = ET_TrailingState"
| "event_type_of (ReconciliationCompleteEvent _) = ET_ReconciliationComplete"
| "event_type_of (HaltEnteredEvent _ _ _ _) = ET_HaltEntered"
| "event_type_of (HaltClearedEvent _ _ _) = ET_HaltCleared"
| "event_type_of (AccountChangedEvent _ _) = ET_AccountChanged"

definition is_instance :: "event \<Rightarrow> event_type \<Rightarrow> bool" where
  "is_instance e t \<longleftrightarrow> t = ET_Event \<or> t = event_type_of (ev_body e)"

subsection \<open>Audit records\<close>

text \<open>The values of a payload keep their type; the text the code renders them to is not modelled.\<close>

datatype payload_value = PV_null | PV_text string | PV_dec decimal | PV_int int | PV_bool bool

definition pv_text :: "string option \<Rightarrow> payload_value" where
  "pv_text x = (case x of None \<Rightarrow> PV_null | Some s \<Rightarrow> PV_text s)"

definition pv_dec :: "decimal option \<Rightarrow> payload_value" where
  "pv_dec x = (case x of None \<Rightarrow> PV_null | Some s \<Rightarrow> PV_dec s)"

record audit_event =
  au_id :: string
  au_time :: instant
  au_adapter :: string
  au_account :: string
  au_correlation :: string
  au_type :: string
  au_payload :: "(string \<times> payload_value) list"

record reconciliation_event =
  re_event_id :: string
  re_time :: instant
  re_adapter :: string
  re_account :: string
  re_correlation :: "string option"
  re_mismatches :: "mismatch list"
  re_duration :: rat

datatype halt_action = HA_ENTERED | HA_CLEARED

record halt_event =
  hv_id :: string
  hv_time :: instant
  hv_adapter :: string
  hv_account :: string
  hv_correlation :: "string option"
  hv_action :: halt_action
  hv_scope :: halt_scope
  hv_instrument :: "instrument option"
  hv_reason :: string
  hv_detail :: string
  hv_cleared_by :: "halt_clear_mode option"

subsection \<open>The bus\<close>

type_synonym 'c bus = "(event_type, 'c list) dict"

definition subscribers_of :: "'c bus \<Rightarrow> event_type \<Rightarrow> 'c list" where
  "subscribers_of b t = (case dict_get b t of None \<Rightarrow> [] | Some cs \<Rightarrow> cs)"

definition subscribe :: "event_type \<Rightarrow> 'c \<Rightarrow> 'c bus \<Rightarrow> 'c bus" where
  "subscribe t c b = dict_set t (subscribers_of b t @ [c]) b"

definition unsubscribe :: "event_type \<Rightarrow> 'c \<Rightarrow> 'c bus \<Rightarrow> 'c bus" where
  \<comment> \<open>the default dictionary creates the entry even when there is nothing to remove\<close>
  "unsubscribe t c b = dict_set t (remove1 c (subscribers_of b t)) b"

definition matching :: "'c bus \<Rightarrow> event \<Rightarrow> 'c list" where
  "matching b e = concat (map snd (filter (\<lambda>(t, _). is_instance e t) b))"

text \<open>
  Each callback runs in the world the previous one left; one that raises is logged and skipped. The
  callbacks do not change the subscriptions while an event is being delivered.
\<close>

definition publish :: "('c \<Rightarrow> event \<Rightarrow> ('w, unit) eff) \<Rightarrow> 'c bus \<Rightarrow> event \<Rightarrow> ('w, unit) eff" where
  "publish call b e = efor (matching b e) (\<lambda>c. etry (call c e) (\<lambda>_. eret ()))"

lemma matching_count:
  assumes "wf_dict b"
  shows "count_list (matching b e) c =
    count_list (subscribers_of b ET_Event) c + count_list (subscribers_of b (event_type_of (ev_body e))) c"
  using assms
proof (induction b)
  case (Cons x b)
  obtain t cs where x: "x = (t, cs)" by (cases x)
  have ne: "event_type_of (ev_body e) \<noteq> ET_Event" by (cases "ev_body e") simp_all
  have fresh: "dict_get b t = None" using Cons.prems x by (auto simp: wf_dict_def map_of_eq_None_iff)
  have "wf_dict b" using Cons.prems by (simp add: wf_dict_def)
  from Cons.IH [OF this] x ne fresh show ?case
    by (auto simp: matching_def subscribers_of_def is_instance_def count_list_append split: option.splits)
qed (simp add: matching_def subscribers_of_def)

lemma wf_bus_ops:
  "wf_dict b \<Longrightarrow> wf_dict (subscribe t c b)"
  "wf_dict b \<Longrightarrow> wf_dict (unsubscribe t c b)"
  by (simp_all add: subscribe_def unsubscribe_def)

lemma subscribers_after:
  "subscribers_of (subscribe t c b) u = (if u = t then subscribers_of b t @ [c] else subscribers_of b u)"
  "subscribers_of (unsubscribe t c b) u = (if u = t then remove1 c (subscribers_of b t) else subscribers_of b u)"
  by (simp_all add: subscribers_of_def subscribe_def unsubscribe_def)

lemma count_list_remove1: "count_list (remove1 c xs) d = count_list xs d - (if d = c then 1 else 0)"
  by (induction xs) (auto simp: count_list_0_iff)

text \<open>
  The bus delivers an event to a callback once for each of its registrations for the event's
  own type or for the base type, and never raises: whatever some callbacks raise, the others run. A
  new registration adds exactly one delivery of the matching events, and removing it takes it away again.
\<close>

theorem bus_delivery:
  assumes "wf_dict b"
  shows "fst (publish call b e w) = Inr ()
    \<and> count_list (matching (subscribe t c b) e) d
        = count_list (matching b e) d + (if d = c \<and> is_instance e t then 1 else 0)
    \<and> count_list (matching (unsubscribe t c (subscribe t c b)) e) d = count_list (matching b e) d"
proof -
  have "fst (efor cs (\<lambda>c. etry (call c e) (\<lambda>_. eret ())) w) = Inr ()" for cs w
    by (induction cs arbitrary: w)
      (auto simp: ebind_def etry_def eret_def split: prod.splits sum.splits)
  then have 1: "fst (publish call b e w) = Inr ()" by (simp add: publish_def)
  have ne: "event_type_of (ev_body e) \<noteq> ET_Event" by (cases "ev_body e") simp_all
  have s: "wf_dict (subscribe t c b)" "wf_dict (unsubscribe t c (subscribe t c b))"
    using assms by (simp_all add: wf_bus_ops)
  have 2: "count_list (matching (subscribe t c b) e) d
        = count_list (matching b e) d + (if d = c \<and> is_instance e t then 1 else 0)"
    unfolding matching_count [OF assms] matching_count [OF s(1)] subscribers_after is_instance_def
    using ne by (simp add: count_list_append)
  have 3: "count_list (matching (unsubscribe t c (subscribe t c b)) e) d = count_list (matching b e) d"
    unfolding matching_count [OF assms] matching_count [OF s(2)] subscribers_after
    using ne by (simp add: count_list_append count_list_remove1)
  from 1 2 3 show ?thesis by blast
qed

definition fill_note :: event where
  "fill_note = \<lparr>ev_id = ''e'', ev_time = 0, ev_adapter = ''mock'', ev_account = ''a'',
     ev_correlation = None, ev_body = ConnectionStateEvent True\<rparr>"

theorem bus_delivery_witness:
  "count_list (matching (subscribe ET_Event (7 :: nat) []) fill_note) 7 = 1"
  using bus_delivery [of "[] :: nat bus" "\<lambda>_ _. eret ()" fill_note "()" ET_Event 7 7]
  by (simp add: matching_def is_instance_def)

end
