(* ===== verification/UTE_Store.thy ===== *)
theory UTE_Store
  imports UTE_Events
begin

text \<open>
  The SQLite state store of \<^verbatim>\<open>core/state/store.py\<close> with the schema of its migrations. A table is
  a list of typed rows in \<^verbatim>\<open>rowid\<close> order: replacing a row deletes it and appends the new one.
  \<^verbatim>\<open>ORDER BY\<close> on equal keys keeps that order. Every operation runs under the write lock and its
  transaction either completes or leaves the tables unchanged, so it is one step here. Rows hold the
  values a read returns: where writing loses a value (a zero optional decimal is stored as NULL) the
  row is normalised by \<open>stored_order\<close> and \<open>stored_fill\<close>. The text encoding of decimals and
  timestamps is exact and is not modelled; the encoding of a trailing state into columns is the
  theory \<open>UTE_Rows\<close>.
\<close>

subsection \<open>Tables\<close>

record halt_row =
  hr_scope :: halt_scope
  hr_instrument :: "instrument option"
  hr_reason :: string
  hr_detail :: string

record store =
  so_positions :: "position list"
  so_balances :: "balance list"
  so_balance_history :: "balance list"
  so_orders :: "order_record list"
  so_order_history :: "order_record list"
  so_fills :: "fill_record list"
  so_audit :: "audit_event list"
  so_reconciliations :: "reconciliation_event list"
  so_halt_events :: "halt_event list"
  so_config :: "(string, string) dict"
  so_watermark :: "instant option"
  so_halts :: "halt_row list"
  so_trailing :: "trailing_state list"

definition empty_store :: store where
  "empty_store = \<lparr>so_positions = [], so_balances = [], so_balance_history = [], so_orders = [],
     so_order_history = [], so_fills = [], so_audit = [], so_reconciliations = [],
     so_halt_events = [], so_config = [], so_watermark = None, so_halts = [], so_trailing = []\<rparr>"

text \<open>The identity columns every instrument-keyed table uses: expiry, strike and right are not among them.\<close>

type_synonym sql_key = "string \<times> string option \<times> asset_class"

definition sql_key :: "instrument \<Rightarrow> sql_key" where
  "sql_key i = (in_symbol i, in_quote i, in_asset_class i)"

definition limited :: "int \<Rightarrow> 'a list \<Rightarrow> 'a list" where
  \<comment> \<open>a negative LIMIT is no limit\<close>
  "limited n xs = (if n < 0 then xs else take (nat n) xs)"

definition newest :: "('a \<Rightarrow> instant) \<Rightarrow> 'a list \<Rightarrow> 'a list" where
  "newest f xs = sort_key (\<lambda>x. - f x) xs"

definition in_window :: "instant option \<Rightarrow> instant option \<Rightarrow> instant \<Rightarrow> bool" where
  "in_window start end t \<longleftrightarrow>
     (case start of None \<Rightarrow> True | Some a \<Rightarrow> a \<le> t) \<and> (case end of None \<Rightarrow> True | Some b \<Rightarrow> t \<le> b)"

subsection \<open>Positions and balances\<close>

definition position_row_is :: "instrument \<Rightarrow> string \<Rightarrow> position \<Rightarrow> bool" where
  "position_row_is i pid p \<longleftrightarrow> sql_key (po_instrument p) = sql_key i \<and> po_id p = Some pid"

definition upsert_position :: "position \<Rightarrow> (store, unit) eff" where
  "upsert_position p =
     (case po_id p of
        None \<Rightarrow> eraise PyValueError ''position_id is required to persist a position''
      | Some pid \<Rightarrow> eupd (\<lambda>s. s\<lparr>so_positions :=
          filter (\<lambda>q. \<not> position_row_is (po_instrument p) pid q) (so_positions s) @ [p]\<rparr>))"

definition delete_position :: "instrument \<Rightarrow> string \<Rightarrow> (store, unit) eff" where
  "delete_position i pid =
     eupd (\<lambda>s. s\<lparr>so_positions := filter (\<lambda>q. \<not> position_row_is i pid q) (so_positions s)\<rparr>)"

definition get_positions :: "instrument \<Rightarrow> (store, position list) eff" where
  "get_positions i =
     eget (\<lambda>s. map (\<lambda>p. p\<lparr>po_instrument := i\<rparr>)
                 (filter (\<lambda>p. sql_key (po_instrument p) = sql_key i) (so_positions s)))"

definition get_net_position :: "instrument \<Rightarrow> (store, position option) eff" where
  "get_net_position i =
     ebind (get_positions i) (\<lambda>legs.
     let net = dsum (map po_quantity legs) in
     if net = 0 then eret None
     else let weighted = dsum (map (\<lambda>l. dmul (po_quantity l) (po_entry l)) legs)
          in eret (Some \<lparr>po_instrument = i, po_quantity = net, po_entry = ddiv_nz weighted net,
                         po_updated_at = Max (set (map po_updated_at legs)), po_id = None,
                         po_opened_at = None\<rparr>))"

definition query_positions :: "instrument option \<Rightarrow> int \<Rightarrow> (store, position list) eff" where
  "query_positions i n =
     eget (\<lambda>s. limited n (newest po_updated_at
       (filter (\<lambda>p. case i of None \<Rightarrow> True | Some j \<Rightarrow> sql_key (po_instrument p) = sql_key j)
         (so_positions s))))"

definition upsert_balance :: "balance \<Rightarrow> (store, unit) eff" where
  "upsert_balance b =
     eupd (\<lambda>s. s\<lparr>so_balances := filter (\<lambda>c. ba_currency c \<noteq> ba_currency b) (so_balances s) @ [b],
                so_balance_history := so_balance_history s @ [b]\<rparr>)"

definition get_balance :: "string \<Rightarrow> (store, balance option) eff" where
  "get_balance cur = eget (\<lambda>s. List.find (\<lambda>b. ba_currency b = cur) (so_balances s))"

definition query_balances ::
    "string option \<Rightarrow> instant option \<Rightarrow> instant option \<Rightarrow> int \<Rightarrow> (store, balance list) eff" where
  \<comment> \<open>\<^verbatim>\<open>ORDER BY recorded_at DESC, id DESC\<close>: ties newest row first\<close>
  "query_balances cur start end n =
     eget (\<lambda>s. limited n (newest ba_updated_at
       (filter (\<lambda>b. (case cur of None \<Rightarrow> True | Some c \<Rightarrow> ba_currency b = c)
                  \<and> in_window start end (ba_updated_at b)) (rev (so_balance_history s)))))"

subsection \<open>Orders and fills\<close>

definition drop_zero :: "decimal option \<Rightarrow> decimal option" where
  \<comment> \<open>\<^verbatim>\<open>str(x) if x else None\<close>: zero is falsy\<close>
  "drop_zero x = (if x = Some 0 then None else x)"

definition stored_tpsl :: "tpsl option \<Rightarrow> tpsl option" where
  "stored_tpsl a = map_option (\<lambda>t. t\<lparr>tp_limit := drop_zero (tp_limit t)\<rparr>) a"

definition stored_order :: "order_record \<Rightarrow> order_record" where
  "stored_order r = r\<lparr>or_price := drop_zero (or_price r), or_stop_price := drop_zero (or_stop_price r),
     or_avg_price := drop_zero (or_avg_price r), or_take_profit := stored_tpsl (or_take_profit r),
     or_stop_loss := stored_tpsl (or_stop_loss r)\<rparr>"

definition upsert_order :: "order_record \<Rightarrow> (store, unit) eff" where
  "upsert_order r =
     eupd (\<lambda>s. s\<lparr>so_orders := filter (\<lambda>x. or_client_id x \<noteq> or_client_id r) (so_orders s) @ [stored_order r],
                so_order_history := so_order_history s @ [stored_order r]\<rparr>)"

definition get_order :: "string \<Rightarrow> (store, order_record option) eff" where
  "get_order cid = eget (\<lambda>s. List.find (\<lambda>r. or_client_id r = cid) (so_orders s))"

definition query_orders ::
    "instrument option \<Rightarrow> instant option \<Rightarrow> instant option \<Rightarrow> int \<Rightarrow> (store, order_record list) eff" where
  \<comment> \<open>the instrument filter compares symbol and asset class only\<close>
  "query_orders i start end n =
     eget (\<lambda>s. limited n (newest or_created_at
       (filter (\<lambda>r. (case i of None \<Rightarrow> True
                      | Some j \<Rightarrow> in_symbol (or_instrument r) = in_symbol j
                                 \<and> in_asset_class (or_instrument r) = in_asset_class j)
                  \<and> in_window start end (or_created_at r)) (so_orders s))))"

definition query_open_orders :: "int \<Rightarrow> (store, order_record list) eff" where
  "query_open_orders n =
     eget (\<lambda>s. limited n (newest or_created_at
       (filter (\<lambda>r. or_status r \<in> {PENDING, OPEN, PARTIALLY_FILLED}) (so_orders s))))"

definition delete_orders_by_client_ids :: "string list \<Rightarrow> (store, unit) eff" where
  "delete_orders_by_client_ids cids =
     eupd (\<lambda>s. s\<lparr>so_orders := filter (\<lambda>r. or_client_id r \<notin> set cids) (so_orders s)\<rparr>)"

definition stored_fill :: "fill_record \<Rightarrow> fill_record" where
  "stored_fill f = f\<lparr>fl_fee_amount := drop_zero (fl_fee_amount f)\<rparr>"

fun put_fill :: "fill_record \<Rightarrow> fill_record list \<Rightarrow> fill_record list" where
  \<comment> \<open>\<^verbatim>\<open>ON CONFLICT(platform_fill_id) DO UPDATE\<close>: a present row is updated in place\<close>
  "put_fill f [] = [f]"
| "put_fill f (g # gs) = (if fl_fill_id g = fl_fill_id f then f # gs else g # put_fill f gs)"

definition upsert_fill :: "fill_record \<Rightarrow> (store, unit) eff" where
  "upsert_fill f = eupd (\<lambda>s. s\<lparr>so_fills := put_fill (stored_fill f) (so_fills s)\<rparr>)"

definition upsert_fills_batch :: "fill_record list \<Rightarrow> (store, unit) eff" where
  "upsert_fills_batch fs = efor fs upsert_fill"

definition delete_fills_by_client_ids ::
    "string list \<Rightarrow> instant option \<Rightarrow> instant option \<Rightarrow> (store, unit) eff" where
  "delete_fills_by_client_ids cids since end =
     eupd (\<lambda>s. s\<lparr>so_fills :=
       filter (\<lambda>f. \<not> (fl_client_id f \<in> set cids \<and> in_window since end (fl_timestamp f))) (so_fills s)\<rparr>)"

definition query_fills ::
    "instrument option \<Rightarrow> string option \<Rightarrow> instant option \<Rightarrow> instant option \<Rightarrow> int
     \<Rightarrow> (store, fill_record list) eff" where
  "query_fills i pid start end n =
     eget (\<lambda>s. limited n (newest fl_timestamp
       (filter (\<lambda>f. (case i of None \<Rightarrow> True
                      | Some j \<Rightarrow> in_symbol (fl_instrument f) = in_symbol j
                                 \<and> in_asset_class (fl_instrument f) = in_asset_class j)
                  \<and> (case pid of None \<Rightarrow> True | Some p \<Rightarrow> fl_position_id f = Some p)
                  \<and> in_window start end (fl_timestamp f)) (so_fills s))))"

subsection \<open>The audit trail\<close>

definition write_audit_event :: "audit_event \<Rightarrow> (store, unit) eff" where
  "write_audit_event a =
     ebind (eget (\<lambda>s. au_id a \<in> set (map au_id (so_audit s)))) (\<lambda>dup.
     ebind (eguard dup SqlIntegrityError ''UNIQUE constraint failed: audit_events.event_id'') (\<lambda>_.
     eupd (\<lambda>s. s\<lparr>so_audit := so_audit s @ [a]\<rparr>)))"

definition write_reconciliation_event :: "reconciliation_event \<Rightarrow> (store, unit) eff" where
  "write_reconciliation_event e =
     ebind (eget (\<lambda>s. re_event_id e \<in> set (map re_event_id (so_reconciliations s)))) (\<lambda>dup.
     ebind (eguard dup SqlIntegrityError ''UNIQUE constraint failed: reconciliation_events.event_id'') (\<lambda>_.
     eupd (\<lambda>s. s\<lparr>so_reconciliations := so_reconciliations s @ [e]\<rparr>)))"

definition write_halt_event :: "halt_event \<Rightarrow> (store, unit) eff" where
  "write_halt_event e =
     ebind (eget (\<lambda>s. hv_id e \<in> set (map hv_id (so_halt_events s)))) (\<lambda>dup.
     ebind (eguard dup SqlIntegrityError ''UNIQUE constraint failed: halt_events.event_id'') (\<lambda>_.
     eupd (\<lambda>s. s\<lparr>so_halt_events := so_halt_events s @ [e]\<rparr>)))"

definition query_audit_events ::
    "instant option \<Rightarrow> instant option \<Rightarrow> int \<Rightarrow> (store, audit_event list) eff" where
  "query_audit_events start end n =
     eget (\<lambda>s. limited n (newest au_time (filter (\<lambda>a. in_window start end (au_time a)) (so_audit s))))"

definition query_reconciliation_events ::
    "instant option \<Rightarrow> instant option \<Rightarrow> int \<Rightarrow> (store, reconciliation_event list) eff" where
  "query_reconciliation_events start end n =
     eget (\<lambda>s. limited n (newest re_time (filter (\<lambda>a. in_window start end (re_time a)) (so_reconciliations s))))"

definition query_halt_events ::
    "instant option \<Rightarrow> instant option \<Rightarrow> int \<Rightarrow> (store, halt_event list) eff" where
  "query_halt_events start end n =
     eget (\<lambda>s. limited n (newest hv_time (filter (\<lambda>a. in_window start end (hv_time a)) (so_halt_events s))))"

subsection \<open>Configuration and watermark\<close>

definition get_adapter_config :: "string \<Rightarrow> (store, string option) eff" where
  "get_adapter_config k = eget (\<lambda>s. dict_get (so_config s) k)"

definition set_adapter_config :: "string \<Rightarrow> string \<Rightarrow> (store, unit) eff" where
  "set_adapter_config k v = eupd (\<lambda>s. s\<lparr>so_config := dict_del k (so_config s) @ [(k, v)]\<rparr>)"

definition delete_adapter_config :: "string \<Rightarrow> (store, unit) eff" where
  "delete_adapter_config k = eupd (\<lambda>s. s\<lparr>so_config := dict_del k (so_config s)\<rparr>)"

definition like_prefix :: "string \<Rightarrow> string \<Rightarrow> bool" where
  \<comment> \<open>SQLite's \<^verbatim>\<open>LIKE\<close> with the wildcards of the pattern escaped: ASCII letters match either case\<close>
  "like_prefix p k \<longleftrightarrow> upper (take (length p) k) = upper p"

definition list_adapter_config :: "string \<Rightarrow> (store, (string, string) dict) eff" where
  "list_adapter_config p = eget (\<lambda>s. filter (\<lambda>(k, _). like_prefix p k) (so_config s))"

definition get_reconcile_watermark :: "(store, instant option) eff" where
  "get_reconcile_watermark = eget so_watermark"

definition set_reconcile_watermark :: "instant \<Rightarrow> (store, unit) eff" where
  "set_reconcile_watermark t = eupd (\<lambda>s. s\<lparr>so_watermark := Some t\<rparr>)"

subsection \<open>Active halts\<close>

type_synonym halt_key = "halt_scope \<times> (string \<times> string option \<times> asset_class option)"

definition halt_key :: "halt_scope \<Rightarrow> instrument option \<Rightarrow> halt_key" where
  "halt_key sc i = (sc, case i of None \<Rightarrow> ([], Some [], None)
                             | Some j \<Rightarrow> (in_symbol j, in_quote j, Some (in_asset_class j)))"

definition get_active_halts :: "(store, halt_row list) eff" where
  "get_active_halts = eget so_halts"

definition upsert_halt :: "halt_scope \<Rightarrow> instrument option \<Rightarrow> string \<Rightarrow> string \<Rightarrow> (store, unit) eff" where
  "upsert_halt sc i reason detail =
     eupd (\<lambda>s. s\<lparr>so_halts :=
       filter (\<lambda>h. halt_key (hr_scope h) (hr_instrument h) \<noteq> halt_key sc i) (so_halts s)
       @ [\<lparr>hr_scope = sc, hr_instrument = i, hr_reason = reason, hr_detail = detail\<rparr>]\<rparr>)"

definition delete_halt :: "halt_scope \<Rightarrow> instrument option \<Rightarrow> (store, unit) eff" where
  "delete_halt sc i =
     eupd (\<lambda>s. s\<lparr>so_halts :=
       filter (\<lambda>h. case i of
                 None \<Rightarrow> hr_scope h \<noteq> sc
               | Some _ \<Rightarrow> halt_key (hr_scope h) (hr_instrument h) \<noteq> halt_key sc i) (so_halts s)\<rparr>)"

subsection \<open>Trailing states\<close>

definition active_key :: "trailing_state \<Rightarrow> (sql_key \<times> string) option" where
  \<comment> \<open>the partial unique index: active rows only, and SQLite treats a NULL quote currency as
      distinct from every other\<close>
  "active_key t =
     (if ts_phase t \<in> ACTIVE_TRAILING_PHASES \<and> in_quote (ts_instrument t) \<noteq> None
      then Some (sql_key (ts_instrument t), ts_position_id t) else None)"

definition upsert_trailing_state :: "trailing_state \<Rightarrow> (store, unit) eff" where
  "upsert_trailing_state t =
     ebind (eget (\<lambda>s. filter (\<lambda>u. ts_id u \<noteq> ts_id t) (so_trailing s))) (\<lambda>rest.
     ebind (eguard (active_key t \<noteq> None \<and> active_key t \<in> set (map active_key rest)) SqlIntegrityError
              ''UNIQUE constraint failed: idx_trailing_active_position'') (\<lambda>_.
     eupd (\<lambda>s. s\<lparr>so_trailing := rest @ [t]\<rparr>)))"

definition get_trailing_state :: "string \<Rightarrow> (store, trailing_state option) eff" where
  "get_trailing_state tid = eget (\<lambda>s. List.find (\<lambda>t. ts_id t = tid) (so_trailing s))"

definition list_trailing_states ::
    "instrument option \<Rightarrow> trailing_phase set option \<Rightarrow> (store, trailing_state list) eff" where
  "list_trailing_states i phases =
     eget (\<lambda>s. if phases = Some {} then []
       else newest ts_updated_at
         (filter (\<lambda>t. (case i of None \<Rightarrow> True | Some j \<Rightarrow> sql_key (ts_instrument t) = sql_key j)
                    \<and> (case phases of None \<Rightarrow> True | Some ps \<Rightarrow> ts_phase t \<in> ps)) (so_trailing s)))"

subsection \<open>Keyed tables\<close>

text \<open>
  The contract the components rely on: a row that was written is read back under its key (in the
  form the table stores it), other keys are not affected, and a failed write changes nothing.
\<close>

locale keyed_table =
  fixes key :: "'r \<Rightarrow> 'k"
    and stored :: "'r \<Rightarrow> 'r"
    and get :: "'k \<Rightarrow> 's \<Rightarrow> 'r option"
    and put :: "'r \<Rightarrow> ('s, unit) eff"
  assumes read_write: "put r s = (Inr u, s') \<Longrightarrow> get k s' = (if k = key r then Some (stored r) else get k s)"
    and write_fail: "put r s = (Inl e, s') \<Longrightarrow> s' = s"
begin

lemma read_own: "put r s = (Inr u, s') \<Longrightarrow> get (key r) s' = Some (stored r)"
  by (simp add: read_write)

lemma read_other: "put r s = (res, s') \<Longrightarrow> k \<noteq> key r \<Longrightarrow> get k s' = get k s"
  by (cases res) (auto simp: read_write dest: write_fail)

lemma read_after: "put r s = (res, s') \<Longrightarrow> get k s' = get k s \<or> k = key r \<and> get k s' = Some (stored r)"
  by (cases res) (auto simp: read_write dest: write_fail)

text \<open>A batch: the last row written under a key is the one that is get.\<close>

lemma read_batch:
  "efor rs put s = (Inr u, s') \<Longrightarrow>
   get k s' = (case List.find (\<lambda>r. key r = k) (rev rs) of Some r \<Rightarrow> Some (stored r) | None \<Rightarrow> get k s)"
proof (induction rs arbitrary: s)
  case (Cons r rs)
  then obtain v t where w: "put r s = (Inr v, t)" and rest: "efor rs put t = (Inr u, s')"
    by (auto simp: ebind_eq)
  have f: "List.find P (xs @ [x]) = (case List.find P xs of Some y \<Rightarrow> Some y | None \<Rightarrow> if P x then Some x else None)"
    for P and xs :: "'r list" and x
    by (induction xs) auto
  from Cons.IH [OF rest] read_write [OF w, of k] show ?case
    by (auto simp: f split: option.splits)
qed (simp add: eret_def)

end

lemma find_filter_append:
  "List.find (\<lambda>x. f x = k) (filter (\<lambda>x. f x \<noteq> f r) xs @ [r']) =
     (if f r' = f r then (if k = f r then Some r' else List.find (\<lambda>x. f x = k) xs)
      else (case List.find (\<lambda>x. f x = k) (filter (\<lambda>x. f x \<noteq> f r) xs) of
              Some x \<Rightarrow> Some x | None \<Rightarrow> if f r' = k then Some r' else None))"
  by (induction xs) auto

lemma find_put_fill:
  "List.find (\<lambda>g. fl_fill_id g = k) (put_fill f gs) =
     (if k = fl_fill_id f then Some f else List.find (\<lambda>g. fl_fill_id g = k) gs)"
  by (induction f gs rule: put_fill.induct) auto

lemma stored_keys [simp]:
  "or_client_id (stored_order r) = or_client_id r"
  "fl_fill_id (stored_fill f) = fl_fill_id f"
  by (simp_all add: stored_order_def stored_fill_def)

definition trailing_row :: "string \<Rightarrow> store \<Rightarrow> trailing_state option" where
  "trailing_row tid s = List.find (\<lambda>t. ts_id t = tid) (so_trailing s)"

lemma get_trailing_state_run: "get_trailing_state tid s = (Inr (trailing_row tid s), s)"
  by (simp add: get_trailing_state_def eget_def trailing_row_def)

lemma upsert_trailing_state_cases:
  "upsert_trailing_state t s =
     (let rest = filter (\<lambda>u. ts_id u \<noteq> ts_id t) (so_trailing s)
      in if active_key t \<noteq> None \<and> active_key t \<in> set (map active_key rest)
         then (raise_exn SqlIntegrityError ''UNIQUE constraint failed: idx_trailing_active_position'', s)
         else (Inr (), s\<lparr>so_trailing := rest @ [t]\<rparr>))"
  by (simp add: upsert_trailing_state_def eget_def eupd_def ebind_def eguard_def guard_exn_def elift_def
      Let_def)

interpretation trailing: keyed_table ts_id "\<lambda>t. t" trailing_row upsert_trailing_state
  by unfold_locales
    (auto simp: upsert_trailing_state_cases trailing_row_def find_filter_append Let_def split: if_splits)

interpretation orders: keyed_table or_client_id stored_order
    "\<lambda>cid s. List.find (\<lambda>r. or_client_id r = cid) (so_orders s)" upsert_order
proof
  fix r s u s' k
  assume "upsert_order r s = (Inr u, s')"
  then have "so_orders s' = filter (\<lambda>x. or_client_id x \<noteq> or_client_id r) (so_orders s) @ [stored_order r]"
    by (auto simp: upsert_order_def eupd_def)
  then show "List.find (\<lambda>r. or_client_id r = k) (so_orders s') =
      (if k = or_client_id r then Some (stored_order r) else List.find (\<lambda>r. or_client_id r = k) (so_orders s))"
    by (simp add: find_filter_append)
qed (simp add: upsert_order_def eupd_def)

interpretation fills: keyed_table fl_fill_id stored_fill
    "\<lambda>fid s. List.find (\<lambda>f. fl_fill_id f = fid) (so_fills s)" upsert_fill
  by unfold_locales (auto simp: upsert_fill_def eupd_def find_put_fill)

interpretation balances: keyed_table ba_currency "\<lambda>b. b"
    "\<lambda>c s. List.find (\<lambda>b. ba_currency b = c) (so_balances s)" upsert_balance
  by unfold_locales (auto simp: upsert_balance_def eupd_def find_filter_append)

subsection \<open>Trailing rows\<close>

text \<open>At most one row per identifier, and at most one active row per indexed position leg.\<close>

definition wf_trailing_table :: "store \<Rightarrow> bool" where
  "wf_trailing_table s \<longleftrightarrow> distinct (map ts_id (so_trailing s))
     \<and> (\<forall>t \<in> set (so_trailing s). \<forall>u \<in> set (so_trailing s).
          active_key t \<noteq> None \<longrightarrow> active_key u = active_key t \<longrightarrow> ts_id u = ts_id t)"

lemma find_distinct:
  "distinct (map f xs) \<Longrightarrow> x \<in> set xs \<Longrightarrow> List.find (\<lambda>y. f y = f x) xs = Some x"
  by (induction xs) auto

lemma distinct_replaced:
  "distinct (map f xs) \<Longrightarrow> distinct (map f (filter (\<lambda>u. f u \<noteq> f t) xs @ [t]))"
  by (induction xs) auto

lemma upsert_trailing_wf:
  assumes "wf_trailing_table s" and "upsert_trailing_state t s = (r, s')"
  shows "wf_trailing_table s'"
proof -
  let ?rest = "filter (\<lambda>u. ts_id u \<noteq> ts_id t) (so_trailing s)"
  show ?thesis
  proof (cases "active_key t \<noteq> None \<and> active_key t \<in> set (map active_key ?rest)")
    case True
    with assms show ?thesis by (simp add: upsert_trailing_state_cases Let_def)
  next
    case False
    with assms(2) have s': "so_trailing s' = ?rest @ [t]"
      by (auto simp: upsert_trailing_state_cases Let_def)
    have "distinct (map ts_id (so_trailing s'))"
      unfolding s' using assms(1) by (intro distinct_replaced) (simp add: wf_trailing_table_def)
    moreover have "ts_id u = ts_id v"
      if "u \<in> set (so_trailing s')" "v \<in> set (so_trailing s')" "active_key v \<noteq> None"
        "active_key u = active_key v" for u v
    proof -
      have fresh: "x \<notin> set ?rest" if "active_key x = active_key t" "active_key t \<noteq> None" for x
        using False that by force
      have old: "ts_id u = ts_id v" if "u \<in> set ?rest" "v \<in> set ?rest"
        using that \<open>active_key v \<noteq> None\<close> \<open>active_key u = active_key v\<close> assms(1)
        by (simp add: wf_trailing_table_def)
      from that(1,2) show ?thesis unfolding s' using fresh [of u] fresh [of v] old that(3,4) by auto
    qed
    ultimately show ?thesis unfolding wf_trailing_table_def by blast
  qed
qed

text \<open>
  Writing a trailing state is all or nothing: it either replaces exactly the row with its
  identifier, or it is refused because another active row occupies the same indexed leg and the
  store is unchanged. The table keeps at most one row per identifier and at most one active row per
  leg whose instrument has a quote currency.
\<close>

theorem trailing_upsert:
  assumes "wf_trailing_table s" and "upsert_trailing_state t s = (r, s')"
  shows "wf_trailing_table s'
    \<and> (case r of
        Inr _ \<Rightarrow> trailing_row (ts_id t) s' = Some t
          \<and> (\<forall>tid. tid \<noteq> ts_id t \<longrightarrow> trailing_row tid s' = trailing_row tid s)
      | Inl e \<Rightarrow> exn_cls e = SqlIntegrityError \<and> s' = s
          \<and> (\<exists>u \<in> set (so_trailing s). ts_id u \<noteq> ts_id t \<and> active_key u = active_key t
                \<and> ts_phase u \<in> ACTIVE_TRAILING_PHASES \<and> ts_phase t \<in> ACTIVE_TRAILING_PHASES))"
proof (cases r)
  case (Inl e)
  with assms(2) have "exn_cls e = SqlIntegrityError" and "s' = s" and ne: "active_key t \<noteq> None"
    and "active_key t \<in> set (map active_key (filter (\<lambda>u. ts_id u \<noteq> ts_id t) (so_trailing s)))"
    by (auto simp: upsert_trailing_state_cases Let_def split: if_splits)
  then obtain u where u: "u \<in> set (so_trailing s)" "ts_id u \<noteq> ts_id t" "active_key u = active_key t" by auto
  then have "ts_phase u \<in> ACTIVE_TRAILING_PHASES" "ts_phase t \<in> ACTIVE_TRAILING_PHASES"
    using ne by (auto simp: active_key_def split: if_splits)
  with Inl u \<open>exn_cls e = SqlIntegrityError\<close> \<open>s' = s\<close> assms(1) show ?thesis by auto
next
  case (Inr x)
  with assms upsert_trailing_wf [OF assms] show ?thesis by (auto simp: trailing.read_write)
qed

definition row_template :: trailing_state where
  "row_template = \<lparr>ts_id = ''t'', ts_instrument = btc_spot, ts_position_id = ''p'', ts_mode = TM_SYNTHETIC,
     ts_phase = ARMED,
     ts_spec = \<lparr>tq_offset_type = OT_PERCENT, tq_offset = 1, tq_basis = None, tq_activation = TA_IMMEDIATE,
       tq_activation_price = None, tq_activation_pct = None, tq_initial_stop = None,
       tq_take_profit = None, tq_step = None, tq_atr_period = None, tq_atr_timeframe = None\<rparr>,
     ts_side = BUY, ts_entry = 100, ts_quantity = 1, ts_created_at = 0, ts_updated_at = 0,
     ts_opened_at = None, ts_routing = None, ts_basis = Some TB_LAST, ts_trigger_basis = None,
     ts_stop = Some 99, ts_take_profit = None, ts_stop_owned = True, ts_tp_owned = False,
     ts_prev_stop = None, ts_prev_tp = None, ts_best = Some 100, ts_activation_price = None,
     ts_activated = True, ts_atr = None, ts_atr_as_of = None, ts_native_id = None,
     ts_last_reprice = None, ts_reprices = 0, ts_error = None, ts_failures = 0\<rparr>"

theorem trailing_upsert_witness:
  "trailing_row ''t'' (snd (upsert_trailing_state row_template empty_store)) = Some row_template"
proof -
  have "wf_trailing_table empty_store" by (simp add: wf_trailing_table_def empty_store_def)
  moreover have "upsert_trailing_state row_template empty_store
      = (Inr (), empty_store\<lparr>so_trailing := [row_template]\<rparr>)"
    by (simp add: upsert_trailing_state_cases empty_store_def)
  ultimately show ?thesis
    using trailing_upsert [of empty_store row_template "Inr ()"] by (simp add: row_template_def)
qed

text \<open>
  Orders round-trip. After an order was written, reading its identifier returns the order as
  stored, in the current table and as the newest entry of its history; the stored form is the order
  itself exactly when none of its optional prices is zero; other orders are not affected, and
  removing an order from the current table leaves the history alone.
\<close>

theorem order_roundtrip:
  "fst (ebind (upsert_order r) (\<lambda>_. get_order (or_client_id r)) s) = Inr (Some (stored_order r))
   \<and> last (so_order_history (snd (upsert_order r s))) = stored_order r
   \<and> (stored_order r = r \<longleftrightarrow>
        Some 0 \<notin> {or_price r, or_stop_price r, or_avg_price r}
        \<and> (\<forall>a. or_take_profit r = Some a \<longrightarrow> tp_limit a \<noteq> Some 0)
        \<and> (\<forall>a. or_stop_loss r = Some a \<longrightarrow> tp_limit a \<noteq> Some 0))
   \<and> (\<forall>cid. cid \<noteq> or_client_id r \<longrightarrow> fst (get_order cid (snd (upsert_order r s))) = fst (get_order cid s))
   \<and> fst (get_order (or_client_id r) (snd (delete_orders_by_client_ids [or_client_id r] s))) = Inr None
   \<and> so_order_history (snd (delete_orders_by_client_ids [or_client_id r] s)) = so_order_history s"
proof -
  have z: "drop_zero x = x \<longleftrightarrow> x \<noteq> Some 0" for x by (simp add: drop_zero_def)
  have t: "stored_tpsl a = a \<longleftrightarrow> (\<forall>b. a = Some b \<longrightarrow> tp_limit b \<noteq> Some 0)" for a
  proof (cases a)
    case (Some b)
    have "b\<lparr>tp_limit := drop_zero (tp_limit b)\<rparr> = b \<longleftrightarrow> drop_zero (tp_limit b) = tp_limit b"
      by (cases b) simp
    with Some z show ?thesis by (simp add: stored_tpsl_def)
  qed (simp add: stored_tpsl_def)
  have eq: "stored_order r = r \<longleftrightarrow> drop_zero (or_price r) = or_price r
      \<and> drop_zero (or_stop_price r) = or_stop_price r \<and> drop_zero (or_avg_price r) = or_avg_price r
      \<and> stored_tpsl (or_take_profit r) = or_take_profit r \<and> stored_tpsl (or_stop_loss r) = or_stop_loss r"
    by (cases r) (auto simp: stored_order_def)
  obtain s' where w: "upsert_order r s = (Inr (), s')" by (simp add: upsert_order_def eupd_def)
  have h: "last (so_order_history s') = stored_order r" using w by (auto simp: upsert_order_def eupd_def)
  have d: "List.find (\<lambda>x. or_client_id x = or_client_id r)
      (filter (\<lambda>x. or_client_id x \<noteq> or_client_id r) (so_orders s)) = None"
    by (simp add: find_None_iff)
  have own: "List.find (\<lambda>x. or_client_id x = or_client_id r) (so_orders s') = Some (stored_order r)"
    using orders.read_own [OF w] .
  have oth: "cid \<noteq> or_client_id r \<Longrightarrow>
      List.find (\<lambda>x. or_client_id x = cid) (so_orders s') = List.find (\<lambda>x. or_client_id x = cid) (so_orders s)"
    for cid using orders.read_other [OF w] .
  have 1: "fst (ebind (upsert_order r) (\<lambda>_. get_order (or_client_id r)) s) = Inr (Some (stored_order r))"
    using w own by (simp add: ebind_def get_order_def eget_def)
  have 2: "last (so_order_history (snd (upsert_order r s))) = stored_order r" using w h by simp
  have 3: "\<forall>cid. cid \<noteq> or_client_id r \<longrightarrow> fst (get_order cid (snd (upsert_order r s))) = fst (get_order cid s)"
    using w oth by (simp add: get_order_def eget_def)
  have 4: "fst (get_order (or_client_id r) (snd (delete_orders_by_client_ids [or_client_id r] s))) = Inr None"
    using d by (simp add: get_order_def eget_def delete_orders_by_client_ids_def eupd_def)
  have 5: "so_order_history (snd (delete_orders_by_client_ids [or_client_id r] s)) = so_order_history s"
    by (simp add: delete_orders_by_client_ids_def eupd_def)
  have 6: "stored_order r = r \<longleftrightarrow>
        Some 0 \<notin> {or_price r, or_stop_price r, or_avg_price r}
        \<and> (\<forall>a. or_take_profit r = Some a \<longrightarrow> tp_limit a \<noteq> Some 0)
        \<and> (\<forall>a. or_stop_loss r = Some a \<longrightarrow> tp_limit a \<noteq> Some 0)"
    unfolding eq z t by auto
  show ?thesis by (intro conjI) (rule 1, rule 2, rule 6, rule 3, rule 4, rule 5)
qed

definition sample_order :: order_record where
  "sample_order = \<lparr>or_instrument = btc_spot, or_type = LIMIT, or_side = BUY, or_quantity = 1, or_tif = GTC,
     or_client_id = ''c'', or_price = Some 100, or_stop_price = None, or_reduce_only = False,
     or_client_tag = None, or_take_profit = None, or_stop_loss = None, or_platform_id = Some ''p'',
     or_status = OPEN, or_filled = 0, or_avg_price = Some 0, or_correlation_id = ''x'',
     or_created_at = 0, or_updated_at = 0, or_expire_at = None\<rparr>"

theorem order_roundtrip_witness:
  "fst (ebind (upsert_order sample_order) (\<lambda>_. get_order ''c'') empty_store)
     = Inr (Some (sample_order\<lparr>or_avg_price := None\<rparr>))
   \<and> stored_order sample_order \<noteq> sample_order"
  using order_roundtrip [of sample_order empty_store]
  by (simp add: sample_order_def stored_order_def drop_zero_def stored_tpsl_def)

lemma put_fill_absorb:
  "distinct (map fl_fill_id gs) \<Longrightarrow> List.find (\<lambda>g. fl_fill_id g = fl_fill_id f) gs = Some f \<Longrightarrow> put_fill f gs = gs"
  by (induction gs) (auto split: if_splits)

lemma put_fill_ids: "fl_fill_id ` set (put_fill f gs) = insert (fl_fill_id f) (fl_fill_id ` set gs)"
  by (induction f gs rule: put_fill.induct) auto

lemma put_fill_distinct: "distinct (map fl_fill_id gs) \<Longrightarrow> distinct (map fl_fill_id (put_fill f gs))"
proof (induction f gs rule: put_fill.induct)
  case (2 f g gs)
  then show ?case using put_fill_ids [of f gs] by auto
qed simp

definition put_fills :: "fill_record list \<Rightarrow> fill_record list \<Rightarrow> fill_record list" where
  "put_fills fs gs = fold (\<lambda>f. put_fill (stored_fill f)) fs gs"

lemma upsert_fills_batch_run: "upsert_fills_batch fs s = (Inr (), s\<lparr>so_fills := put_fills fs (so_fills s)\<rparr>)"
  unfolding upsert_fills_batch_def put_fills_def
  by (induction fs arbitrary: s) (simp_all add: eret_def ebind_def upsert_fill_def eupd_def)

lemma put_fills_distinct: "distinct (map fl_fill_id gs) \<Longrightarrow> distinct (map fl_fill_id (put_fills fs gs))"
  unfolding put_fills_def by (induction fs arbitrary: gs) (simp_all add: put_fill_distinct)

lemma find_put_fills:
  "distinct (map fl_fill_id fs) \<Longrightarrow>
   List.find (\<lambda>g. fl_fill_id g = k) (put_fills fs gs) =
     (case List.find (\<lambda>f. fl_fill_id f = k) fs of Some f \<Rightarrow> Some (stored_fill f)
      | None \<Rightarrow> List.find (\<lambda>g. fl_fill_id g = k) gs)"
proof (induction fs arbitrary: gs)
  case (Cons f fs)
  have "List.find (\<lambda>g. fl_fill_id g = fl_fill_id f) fs = None"
    using Cons.prems by (simp add: find_None_iff) (metis image_eqI)
  with Cons show ?case
    by (auto simp: put_fills_def find_put_fill split: option.splits)
qed (simp add: put_fills_def)

lemma put_fills_absorb:
  assumes "distinct (map fl_fill_id gs)"
    and "\<forall>f \<in> set fs. List.find (\<lambda>g. fl_fill_id g = fl_fill_id f) gs = Some (stored_fill f)"
  shows "put_fills fs gs = gs"
  using assms(2) unfolding put_fills_def
proof (induction fs)
  case (Cons f fs)
  then have "put_fill (stored_fill f) gs = gs" using assms(1) by (intro put_fill_absorb) simp_all
  with Cons show ?case by simp
qed simp

text \<open>
  Fill writes are idempotent. The fill identifiers in the table stay distinct; after a batch
  of distinct fills each of them is read back under its identifier in its stored form and all
  others are as before; and writing the same batch again changes nothing.
\<close>

theorem fill_batch_idempotent:
  assumes "distinct (map fl_fill_id (so_fills s))" and "distinct (map fl_fill_id fs)"
  shows "\<exists>s'. upsert_fills_batch fs s = (Inr (), s')
    \<and> distinct (map fl_fill_id (so_fills s'))
    \<and> (\<forall>k. List.find (\<lambda>g. fl_fill_id g = k) (so_fills s') =
          (case List.find (\<lambda>f. fl_fill_id f = k) fs of Some f \<Rightarrow> Some (stored_fill f)
           | None \<Rightarrow> List.find (\<lambda>g. fl_fill_id g = k) (so_fills s)))
    \<and> upsert_fills_batch fs s' = (Inr (), s')"
proof -
  let ?g = "put_fills fs (so_fills s)"
  have dis: "distinct (map fl_fill_id ?g)" using assms(1) by (rule put_fills_distinct)
  have fnd: "List.find (\<lambda>g. fl_fill_id g = k) ?g =
      (case List.find (\<lambda>f. fl_fill_id f = k) fs of Some f \<Rightarrow> Some (stored_fill f)
       | None \<Rightarrow> List.find (\<lambda>g. fl_fill_id g = k) (so_fills s))" for k
    by (rule find_put_fills [OF assms(2)])
  have "put_fills fs ?g = ?g"
  proof (rule put_fills_absorb [OF dis], rule ballI)
    fix f assume "f \<in> set fs"
    then have "List.find (\<lambda>h. fl_fill_id h = fl_fill_id f) fs = Some f"
      by (rule find_distinct [OF assms(2)])
    then show "List.find (\<lambda>g. fl_fill_id g = fl_fill_id f) ?g = Some (stored_fill f)" by (simp add: fnd)
  qed
  then show ?thesis by (simp add: upsert_fills_batch_run dis fnd)
qed

definition sample_fill :: fill_record where
  "sample_fill = \<lparr>fl_client_id = ''c'', fl_fill_id = ''f'', fl_instrument = btc_spot, fl_quantity = 1,
     fl_price = 100, fl_timestamp = 0, fl_fee_currency = None, fl_fee_amount = Some 0,
     fl_correlation_id = ''x'', fl_position_id = None, fl_reason = None, fl_entry = None\<rparr>"

theorem fill_batch_idempotent_witness:
  "\<exists>s'. upsert_fills_batch [sample_fill] empty_store = (Inr (), s')
     \<and> upsert_fills_batch [sample_fill] s' = (Inr (), s')"
  using fill_batch_idempotent [of empty_store "[sample_fill]"] by (auto simp: empty_store_def)

text \<open>Two options of one underlying.\<close>

definition btc_call :: "decimal \<Rightarrow> instrument" where
  "btc_call strike = \<lparr>in_symbol = ''BTC'', in_asset_class = OPTION, in_quote = Some ''USD'',
     in_exchange = None, in_currency = None, in_expiry = Some 20000, in_strike = Some strike,
     in_right = Some CALL, in_multiplier = Some 1, in_platform_symbol = None\<rparr>"

text \<open>
  The persisted halts are keyed by symbol, quote currency and asset class alone. Two options
  of one underlying are different instruments to the halt machine, but persisting the halt of the
  second replaces the row of the first, and deleting the halt of the second also deletes that of
  the first: after a restart one of the two halts is lost.
\<close>

theorem halt_rows_collapse:
  "wf_instrument (btc_call 100) \<and> wf_instrument (btc_call 200)
   \<and> \<not> same_instrument (btc_call 100) (btc_call 200)
   \<and> (let s = snd (ebind (upsert_halt SC_INSTRUMENT (Some (btc_call 100)) r d)
                 (\<lambda>_. upsert_halt SC_INSTRUMENT (Some (btc_call 200)) r' d') empty_store)
      in fst (get_active_halts s) = Inr [\<lparr>hr_scope = SC_INSTRUMENT, hr_instrument = Some (btc_call 200),
            hr_reason = r', hr_detail = d'\<rparr>])
   \<and> (let s = snd (ebind (upsert_halt SC_INSTRUMENT (Some (btc_call 100)) r d)
                 (\<lambda>_. delete_halt SC_INSTRUMENT (Some (btc_call 200))) empty_store)
      in fst (get_active_halts s) = Inr [])"
proof -
  have w: "wf_instrument (btc_call 100)" "wf_instrument (btc_call 200)" by code_simp+
  have n: "\<not> same_instrument (btc_call 100) (btc_call 200)"
    by (simp add: same_instrument_def inst_id_def btc_call_def)
  have k: "halt_key SC_INSTRUMENT (Some (btc_call x)) = halt_key SC_INSTRUMENT (Some (btc_call y))" for x y
    by (simp add: halt_key_def btc_call_def)
  show ?thesis
    using w n k [of 100 200]
    by (simp add: ebind_def upsert_halt_def delete_halt_def eupd_def get_active_halts_def eget_def
        empty_store_def)
qed

end
