(* ===== verification/UTE_Rows.thy ===== *)
theory UTE_Rows
  imports UTE_Store
begin

text \<open>
  The encoding of a trailing state into the columns of its table and back, the serialisation helpers
  of \<^verbatim>\<open>core/state/store.py\<close>. Enumerations are stored as their text values and booleans as integers,
  and reading goes through the constructors again, so a row that violates one of them fails to
  load. Decimals and timestamps stand for their exact text; the calendar date of an expiry for its
  day number.
\<close>

subsection \<open>Enumerations as text\<close>

definition enum_value :: "(string \<times> 'a) list \<Rightarrow> 'a \<Rightarrow> string" where
  "enum_value tab x = (case List.find (\<lambda>(s, y). y = x) tab of Some (s, _) \<Rightarrow> s | None \<Rightarrow> [])"

definition enum_parse :: "(string \<times> 'a) list \<Rightarrow> string \<Rightarrow> 'a result" where
  "enum_parse tab s = (case map_of tab s of
     Some x \<Rightarrow> Inr x | None \<Rightarrow> raise_exn PyValueError ''is not a valid value'')"

definition opt_parse :: "('b \<Rightarrow> 'a result) \<Rightarrow> 'b option \<Rightarrow> 'a option result" where
  "opt_parse f x = (case x of None \<Rightarrow> Inr None | Some s \<Rightarrow> rbind (f s) (\<lambda>a. Inr (Some a)))"

lemma enum_roundtrip:
  assumes "distinct (map fst tab)" and "x \<in> snd ` set tab"
  shows "enum_parse tab (enum_value tab x) = Inr x"
proof -
  have "\<exists>s. List.find (\<lambda>(s, y). y = x) tab = Some (s, x)" using assms(2)
  proof (induction tab)
    case (Cons p tab)
    then show ?case by (cases p; cases "snd p = x") auto
  qed simp
  then obtain s where s: "List.find (\<lambda>(s, y). y = x) tab = Some (s, x)" by blast
  then have "(s, x) \<in> set tab" by (auto dest: find_SomeD)
  with assms(1) have "map_of tab s = Some x" by simp
  with s show ?thesis by (simp add: enum_parse_def enum_value_def)
qed

lemma opt_enum_roundtrip:
  assumes "\<And>y. enum_parse tab (enum_value tab y) = Inr y"
  shows "opt_parse (enum_parse tab) (map_option (enum_value tab) x) = Inr x"
  using assms by (cases x) (simp_all add: opt_parse_def)

definition asset_class_table :: "(string \<times> asset_class) list" where
  "asset_class_table =
    [(''SPOT'', SPOT), (''MARGIN_FX'', MARGIN_FX), (''CFD'', CFD), (''FUTURES'', FUTURES),
     (''OPTION'', OPTION), (''STOCK'', STOCK), (''BOND'', BOND), (''FUND'', FUND)]"

definition option_right_table :: "(string \<times> option_right) list" where
  "option_right_table =
    [(''CALL'', CALL), (''PUT'', PUT)]"

definition side_table :: "(string \<times> order_side) list" where
  "side_table =
    [(''BUY'', BUY), (''SELL'', SELL)]"

definition mode_table :: "(string \<times> trailing_mode) list" where
  "mode_table =
    [(''auto'', TM_AUTO), (''native'', TM_NATIVE), (''synthetic'', TM_SYNTHETIC)]"

definition phase_table :: "(string \<times> trailing_phase) list" where
  "phase_table =
    [(''arming'', ARMING), (''armed'', ARMED), (''triggered'', TRIGGERED), (''done'', DONE),
     (''cancelled'', TR_CANCELLED), (''degraded'', DEGRADED), (''failed'', FAILED)]"

definition offset_type_table :: "(string \<times> trailing_offset_type) list" where
  "offset_type_table =
    [(''price'', OT_PRICE), (''percent'', OT_PERCENT), (''atr'', OT_ATR)]"

definition level_type_table :: "(string \<times> protection_level_type) list" where
  "level_type_table =
    [(''price'', LT_PRICE), (''percent'', LT_PERCENT), (''atr'', LT_ATR)]"

definition basis_table :: "(string \<times> trailing_basis) list" where
  "basis_table =
    [(''last'', TB_LAST), (''mark'', TB_MARK), (''mid'', TB_MID), (''bid'', TB_BID),
     (''ask'', TB_ASK)]"

definition activation_table :: "(string \<times> trailing_activation) list" where
  "activation_table =
    [(''immediate'', TA_IMMEDIATE), (''price'', TA_PRICE), (''profit_percent'', TA_PROFIT_PERCENT)]"

definition timeframe_table :: "(string \<times> candle_timeframe) list" where
  "timeframe_table =
    [(''1m'', TF_M1), (''5m'', TF_M5), (''15m'', TF_M15), (''30m'', TF_M30), (''1h'', TF_H1),
     (''4h'', TF_H4), (''8h'', TF_H8), (''12h'', TF_H12), (''1d'', TF_D1)]"

lemma enum_tables:
  "enum_parse asset_class_table (enum_value asset_class_table a) = Inr a"
  "enum_parse option_right_table (enum_value option_right_table b) = Inr b"
  "enum_parse side_table (enum_value side_table c) = Inr c"
  "enum_parse mode_table (enum_value mode_table d) = Inr d"
  "enum_parse phase_table (enum_value phase_table e) = Inr e"
  "enum_parse offset_type_table (enum_value offset_type_table f) = Inr f"
  "enum_parse level_type_table (enum_value level_type_table g) = Inr g"
  "enum_parse basis_table (enum_value basis_table h) = Inr h"
  "enum_parse activation_table (enum_value activation_table i) = Inr i"
  "enum_parse timeframe_table (enum_value timeframe_table j) = Inr j"
proof -
  show "enum_parse asset_class_table (enum_value asset_class_table a) = Inr a"
    by (rule enum_roundtrip) (simp_all add: asset_class_table_def, cases a, simp_all)
  show "enum_parse option_right_table (enum_value option_right_table b) = Inr b"
    by (rule enum_roundtrip) (simp_all add: option_right_table_def, cases b, simp_all)
  show "enum_parse side_table (enum_value side_table c) = Inr c"
    by (rule enum_roundtrip) (simp_all add: side_table_def, cases c, simp_all)
  show "enum_parse mode_table (enum_value mode_table d) = Inr d"
    by (rule enum_roundtrip) (simp_all add: mode_table_def, cases d, simp_all)
  show "enum_parse phase_table (enum_value phase_table e) = Inr e"
    by (rule enum_roundtrip) (simp_all add: phase_table_def, cases e, simp_all)
  show "enum_parse offset_type_table (enum_value offset_type_table f) = Inr f"
    by (rule enum_roundtrip) (simp_all add: offset_type_table_def, cases f, simp_all)
  show "enum_parse level_type_table (enum_value level_type_table g) = Inr g"
    by (rule enum_roundtrip) (simp_all add: level_type_table_def, cases g, simp_all)
  show "enum_parse basis_table (enum_value basis_table h) = Inr h"
    by (rule enum_roundtrip) (simp_all add: basis_table_def, cases h, simp_all)
  show "enum_parse activation_table (enum_value activation_table i) = Inr i"
    by (rule enum_roundtrip) (simp_all add: activation_table_def, cases i, simp_all)
  show "enum_parse timeframe_table (enum_value timeframe_table j) = Inr j"
    by (rule enum_roundtrip) (simp_all add: timeframe_table_def, cases j, simp_all)
qed

lemmas opt_enum_tables = opt_enum_roundtrip [OF enum_tables(2)] opt_enum_roundtrip [OF enum_tables(8)]
  opt_enum_roundtrip [OF enum_tables(10)]

subsection \<open>Instruments and levels\<close>

record inst_row =
  ir_symbol :: string
  ir_quote :: "string option"
  ir_asset_class :: string
  ir_exchange :: "string option"
  ir_currency :: "string option"
  ir_expiry :: "int option"
  ir_strike :: "decimal option"
  ir_right :: "string option"
  ir_multiplier :: "int option"
  ir_platform_symbol :: "string option"

definition serialise_instrument :: "instrument \<Rightarrow> inst_row" where
  "serialise_instrument i =
     \<lparr>ir_symbol = in_symbol i, ir_quote = in_quote i,
      ir_asset_class = enum_value asset_class_table (in_asset_class i), ir_exchange = in_exchange i,
      ir_currency = in_currency i, ir_expiry = in_expiry i, ir_strike = in_strike i,
      ir_right = map_option (enum_value option_right_table) (in_right i),
      ir_multiplier = in_multiplier i, ir_platform_symbol = in_platform_symbol i\<rparr>"

definition deserialise_instrument :: "inst_row \<Rightarrow> instrument result" where
  "deserialise_instrument r =
     rbind (enum_parse asset_class_table (ir_asset_class r)) (\<lambda>ac.
     rbind (opt_parse (enum_parse option_right_table) (ir_right r)) (\<lambda>rt.
     instrument_post_init
       \<lparr>in_symbol = ir_symbol r, in_asset_class = ac, in_quote = ir_quote r,
        in_exchange = ir_exchange r, in_currency = ir_currency r, in_expiry = ir_expiry r,
        in_strike = ir_strike r, in_right = rt, in_multiplier = ir_multiplier r,
        in_platform_symbol = ir_platform_symbol r\<rparr>))"

definition serialise_level :: "protection_level option \<Rightarrow> string option \<times> decimal option" where
  "serialise_level l =
     (case l of None \<Rightarrow> (None, None)
      | Some p \<Rightarrow> (Some (enum_value level_type_table (pl_type p)), Some (pl_value p)))"

definition deserialise_level :: "string option \<Rightarrow> decimal option \<Rightarrow> protection_level option result" where
  "deserialise_level ty v =
     (case (ty, v) of
        (Some s, Some x) \<Rightarrow>
          rbind (enum_parse level_type_table s) (\<lambda>k.
          rbind (level_post_init \<lparr>pl_type = k, pl_value = x\<rparr>) (\<lambda>p. Inr (Some p)))
      | _ \<Rightarrow> Inr None)"

subsection \<open>Trailing states\<close>

record trailing_row_cols =
  rw_id :: string
  rw_inst :: inst_row
  rw_position_id :: string
  rw_opened_at :: "instant option"
  rw_side :: string
  rw_mode :: string
  rw_routing :: "string option"
  rw_phase :: string
  rw_offset_type :: string
  rw_offset :: decimal
  rw_basis :: "string option"
  rw_resolved_basis :: "string option"
  rw_trigger_basis :: "string option"
  rw_activation :: string
  rw_act_price :: "decimal option"
  rw_act_pct :: "decimal option"
  rw_is_type :: "string option"
  rw_is_value :: "decimal option"
  rw_tp_type :: "string option"
  rw_tp_value :: "decimal option"
  rw_step :: "decimal option"
  rw_atr_period :: "int option"
  rw_atr_timeframe :: "string option"
  rw_atr_value :: "decimal option"
  rw_atr_as_of :: "instant option"
  rw_entry :: decimal
  rw_quantity :: decimal
  rw_stop :: "decimal option"
  rw_take_profit :: "decimal option"
  rw_stop_owned :: int
  rw_tp_owned :: int
  rw_prev_stop :: "decimal option"
  rw_prev_tp :: "decimal option"
  rw_best :: "decimal option"
  rw_res_act_price :: "decimal option"
  rw_activated :: int
  rw_native_id :: "string option"
  rw_last_reprice :: "instant option"
  rw_reprices :: int
  rw_error :: "string option"
  rw_failures :: int
  rw_created_at :: instant
  rw_updated_at :: instant

definition serialise_trailing_state :: "trailing_state \<Rightarrow> trailing_row_cols" where
  "serialise_trailing_state t =
     (let q = ts_spec t in
      \<lparr>rw_id = ts_id t, rw_inst = serialise_instrument (ts_instrument t),
       rw_position_id = ts_position_id t, rw_opened_at = ts_opened_at t,
       rw_side = enum_value side_table (ts_side t), rw_mode = enum_value mode_table (ts_mode t),
       rw_routing = ts_routing t, rw_phase = enum_value phase_table (ts_phase t),
       rw_offset_type = enum_value offset_type_table (tq_offset_type q), rw_offset = tq_offset q,
       rw_basis = map_option (enum_value basis_table) (tq_basis q),
       rw_resolved_basis = map_option (enum_value basis_table) (ts_basis t),
       rw_trigger_basis = map_option (enum_value basis_table) (ts_trigger_basis t),
       rw_activation = enum_value activation_table (tq_activation q),
       rw_act_price = tq_activation_price q, rw_act_pct = tq_activation_pct q,
       rw_is_type = fst (serialise_level (tq_initial_stop q)),
       rw_is_value = snd (serialise_level (tq_initial_stop q)),
       rw_tp_type = fst (serialise_level (tq_take_profit q)),
       rw_tp_value = snd (serialise_level (tq_take_profit q)), rw_step = tq_step q,
       rw_atr_period = tq_atr_period q,
       rw_atr_timeframe = map_option (enum_value timeframe_table) (tq_atr_timeframe q),
       rw_atr_value = ts_atr t, rw_atr_as_of = ts_atr_as_of t, rw_entry = ts_entry t,
       rw_quantity = ts_quantity t, rw_stop = ts_stop t, rw_take_profit = ts_take_profit t,
       rw_stop_owned = of_bool (ts_stop_owned t), rw_tp_owned = of_bool (ts_tp_owned t),
       rw_prev_stop = ts_prev_stop t, rw_prev_tp = ts_prev_tp t, rw_best = ts_best t,
       rw_res_act_price = ts_activation_price t, rw_activated = of_bool (ts_activated t),
       rw_native_id = ts_native_id t, rw_last_reprice = ts_last_reprice t,
       rw_reprices = ts_reprices t, rw_error = ts_error t, rw_failures = ts_failures t,
       rw_created_at = ts_created_at t, rw_updated_at = ts_updated_at t\<rparr>)"

definition row_to_spec :: "trailing_row_cols \<Rightarrow> trailing_spec result" where
  "row_to_spec r =
     rbind (enum_parse offset_type_table (rw_offset_type r)) (\<lambda>ot.
     rbind (opt_parse (enum_parse basis_table) (rw_basis r)) (\<lambda>b.
     rbind (enum_parse activation_table (rw_activation r)) (\<lambda>ac.
     rbind (deserialise_level (rw_is_type r) (rw_is_value r)) (\<lambda>isl.
     rbind (deserialise_level (rw_tp_type r) (rw_tp_value r)) (\<lambda>tpl.
     rbind (opt_parse (enum_parse timeframe_table) (rw_atr_timeframe r)) (\<lambda>tf.
     spec_post_init
       \<lparr>tq_offset_type = ot, tq_offset = rw_offset r, tq_basis = b, tq_activation = ac,
        tq_activation_price = rw_act_price r, tq_activation_pct = rw_act_pct r,
        tq_initial_stop = isl, tq_take_profit = tpl, tq_step = rw_step r,
        tq_atr_period = rw_atr_period r, tq_atr_timeframe = tf\<rparr>))))))"

definition row_to_trailing_state :: "trailing_row_cols \<Rightarrow> trailing_state result" where
  "row_to_trailing_state r =
     rbind (row_to_spec r) (\<lambda>q.
     rbind (deserialise_instrument (rw_inst r)) (\<lambda>i.
     rbind (enum_parse mode_table (rw_mode r)) (\<lambda>m.
     rbind (enum_parse phase_table (rw_phase r)) (\<lambda>ph.
     rbind (enum_parse side_table (rw_side r)) (\<lambda>sd.
     rbind (opt_parse (enum_parse basis_table) (rw_resolved_basis r)) (\<lambda>rb.
     rbind (opt_parse (enum_parse basis_table) (rw_trigger_basis r)) (\<lambda>tb.
     state_post_init
       \<lparr>ts_id = rw_id r, ts_instrument = i, ts_position_id = rw_position_id r, ts_mode = m,
        ts_phase = ph, ts_spec = q, ts_side = sd, ts_entry = rw_entry r,
        ts_quantity = rw_quantity r, ts_created_at = rw_created_at r,
        ts_updated_at = rw_updated_at r, ts_opened_at = rw_opened_at r, ts_routing = rw_routing r,
        ts_basis = rb, ts_trigger_basis = tb, ts_stop = rw_stop r,
        ts_take_profit = rw_take_profit r, ts_stop_owned = rw_stop_owned r \<noteq> 0,
        ts_tp_owned = rw_tp_owned r \<noteq> 0, ts_prev_stop = rw_prev_stop r,
        ts_prev_tp = rw_prev_tp r, ts_best = rw_best r, ts_activation_price = rw_res_act_price r,
        ts_activated = rw_activated r \<noteq> 0, ts_atr = rw_atr_value r,
        ts_atr_as_of = rw_atr_as_of r, ts_native_id = rw_native_id r,
        ts_last_reprice = rw_last_reprice r, ts_reprices = rw_reprices r, ts_error = rw_error r,
        ts_failures = rw_failures r\<rparr>)))))))"

subsection \<open>Round trip\<close>

definition wf_level :: "protection_level option \<Rightarrow> bool" where
  "wf_level l \<longleftrightarrow> (case l of None \<Rightarrow> True | Some p \<Rightarrow> 0 < pl_value p)"

text \<open>A trailing state all of whose parts were built by their constructors.\<close>

definition built_tstate :: "trailing_state \<Rightarrow> bool" where
  "built_tstate t \<longleftrightarrow> wf_tstate t \<and> wf_instrument (ts_instrument t) \<and> wf_spec (ts_spec t)
     \<and> wf_level (tq_initial_stop (ts_spec t)) \<and> wf_level (tq_take_profit (ts_spec t))"

lemma deserialise_instrument_ser:
  "wf_instrument i \<Longrightarrow> deserialise_instrument (serialise_instrument i) = Inr i"
  by (cases i) (simp add: deserialise_instrument_def serialise_instrument_def enum_tables opt_enum_tables
      wf_instrument_def)

lemma deserialise_level_ser:
  "wf_level l \<Longrightarrow> deserialise_level (fst (serialise_level l)) (snd (serialise_level l)) = Inr l"
  by (cases l) (simp_all add: deserialise_level_def serialise_level_def wf_level_def level_post_init_def
      enum_tables guard_exn_def)

lemma row_to_spec_ser:
  assumes "wf_spec (ts_spec t)" "wf_level (tq_initial_stop (ts_spec t))" "wf_level (tq_take_profit (ts_spec t))"
  shows "row_to_spec (serialise_trailing_state t) = Inr (ts_spec t)"
proof -
  define q where "q = ts_spec t"
  have "spec_post_init q = Inr q" using assms(1) by (simp add: q_def wf_spec_def)
  then show ?thesis
    using assms(2,3)
    by (simp add: row_to_spec_def serialise_trailing_state_def Let_def enum_tables opt_enum_tables
        deserialise_level_ser flip: q_def) (cases q, simp)
qed

text \<open>
  Persisting a trailing state loses nothing: every state whose parts were built by their
  constructors, in any phase, is read back from its row exactly as it was written.
\<close>

theorem trailing_row_roundtrip:
  assumes "built_tstate t"
  shows "row_to_trailing_state (serialise_trailing_state t) = Inr t"
proof -
  have parts: "wf_tstate t" "wf_instrument (ts_instrument t)"
    and spec: "row_to_spec (serialise_trailing_state t) = Inr (ts_spec t)"
    using assms row_to_spec_ser by (auto simp: built_tstate_def)
  have "rw_inst (serialise_trailing_state t) = serialise_instrument (ts_instrument t)"
    by (simp add: serialise_trailing_state_def Let_def)
  then show ?thesis
    using spec parts
    by (simp add: row_to_trailing_state_def deserialise_instrument_ser)
      (simp add: serialise_trailing_state_def Let_def enum_tables opt_enum_tables state_post_init_Inr
        wf_tstate_def)
qed

theorem trailing_row_roundtrip_witness:
  "row_to_trailing_state (serialise_trailing_state row_template) = Inr row_template"
proof (rule trailing_row_roundtrip)
  have "wf_tstate row_template" "wf_level None" by (simp_all add: row_template_def wf_tstate_def wf_level_def)
  moreover have "wf_instrument (ts_instrument row_template)" "wf_spec (ts_spec row_template)" by code_simp+
  ultimately show "built_tstate row_template" by (simp add: built_tstate_def row_template_def)
qed

end
