(* ===== verification/UTE_Trailing_Math.thy ===== *)
theory UTE_Trailing_Math
  imports UTE_Trailing_Types
begin

text \<open>
  The pure calculations of \<^verbatim>\<open>core/trailing/math.py\<close>: Wilder's average true range, the best basis,
  activation, the candidate stop, the static protection levels, rounding to the tick and the
  ratchet. Every arithmetic step rounds to the context as the code's decimals do, so monotonicity
  and direction are proved of the rounded computation.
\<close>

definition is_long :: "order_side \<Rightarrow> bool" where
  "is_long s \<longleftrightarrow> s = BUY"

definition require_atr :: "decimal option \<Rightarrow> decimal result" where
  "require_atr a = (case a of None \<Rightarrow> raise_exn PyValueError ''requires an ATR value'' | Some v \<Rightarrow> Inr v)"

subsection \<open>Average true range\<close>

definition true_range :: "candle \<Rightarrow> decimal \<Rightarrow> decimal" where
  "true_range c prev =
     max (max (dsub (ca_high c) (ca_low c)) (dabs (dsub (ca_high c) prev))) (dabs (dsub (ca_low c) prev))"

fun true_ranges :: "candle list \<Rightarrow> decimal list" where
  "true_ranges (c # d # cs) = true_range d (ca_close c) # true_ranges (d # cs)"
| "true_ranges _ = []"

definition wilder_step :: "nat \<Rightarrow> decimal \<Rightarrow> decimal \<Rightarrow> decimal" where
  "wilder_step n atr v = ddiv_nz (dadd (dmul atr (of_nat n - 1)) v) (of_nat n)"

definition wilder_atr :: "candle list \<Rightarrow> int \<Rightarrow> decimal result" where
  "wilder_atr candles period =
     (if period < 2 then raise_exn PyValueError ''ATR period must be >= 2''
      else if int (length candles) < period + 1
      then raise_exn TrailingNotSupportedError ''not enough closed candles''
      else let n = nat period; ranges = true_ranges candles
           in Inr (foldl (wilder_step n) (ddiv_nz (dsum (take n ranges)) (of_nat n)) (drop n ranges)))"

subsection \<open>Basis, activation and candidate\<close>

definition update_best_basis :: "order_side \<Rightarrow> decimal option \<Rightarrow> decimal \<Rightarrow> decimal" where
  "update_best_basis s best b =
     (case best of None \<Rightarrow> b | Some x \<Rightarrow> if is_long s then max x b else min x b)"

definition profit_percent_activation_price :: "decimal \<Rightarrow> order_side \<Rightarrow> decimal \<Rightarrow> decimal" where
  "profit_percent_activation_price entry s pct =
     (let ratio = ddiv_nz pct 100; factor = (if is_long s then dadd 1 ratio else dsub 1 ratio)
      in dmul entry factor)"

definition resolve_activation_price ::
    "trailing_spec \<Rightarrow> order_side \<Rightarrow> decimal \<Rightarrow> decimal option result" where
  "resolve_activation_price q s entry =
     (case tq_activation q of
        TA_IMMEDIATE \<Rightarrow> Inr None
      | TA_PRICE \<Rightarrow>
          (case tq_activation_price q of
             None \<Rightarrow> raise_exn PyValueError ''activation=PRICE requires activation_price''
           | Some p \<Rightarrow> Inr (Some p))
      | TA_PROFIT_PERCENT \<Rightarrow>
          (case tq_activation_pct q of
             None \<Rightarrow> raise_exn PyValueError ''activation=PROFIT_PERCENT requires activation_profit_percent''
           | Some p \<Rightarrow> Inr (Some (profit_percent_activation_price entry s p))))"

definition is_activation_reached :: "order_side \<Rightarrow> decimal \<Rightarrow> decimal option \<Rightarrow> bool" where
  "is_activation_reached s b p =
     (case p of None \<Rightarrow> True | Some a \<Rightarrow> if is_long s then a \<le> b else b \<le> a)"

definition candidate_stop ::
    "order_side \<Rightarrow> decimal \<Rightarrow> trailing_spec \<Rightarrow> decimal option \<Rightarrow> decimal result" where
  "candidate_stop s best q atr =
     (case tq_offset_type q of
        OT_PRICE \<Rightarrow> Inr (if is_long s then dsub best (tq_offset q) else dadd best (tq_offset q))
      | OT_PERCENT \<Rightarrow>
          (let ratio = ddiv_nz (tq_offset q) 100;
               factor = (if is_long s then dsub 1 ratio else dadd 1 ratio)
           in Inr (dmul best factor))
      | OT_ATR \<Rightarrow>
          rbind (require_atr atr) (\<lambda>v.
          let distance = dmul (tq_offset q) v
          in Inr (if is_long s then dsub best distance else dadd best distance)))"

subsection \<open>Static levels\<close>

definition initial_stop_price ::
    "protection_level \<Rightarrow> order_side \<Rightarrow> decimal \<Rightarrow> decimal option \<Rightarrow> decimal result" where
  "initial_stop_price l s entry atr =
     (case pl_type l of
        LT_PRICE \<Rightarrow> Inr (pl_value l)
      | LT_PERCENT \<Rightarrow>
          (let ratio = ddiv_nz (pl_value l) 100;
               factor = (if is_long s then dsub 1 ratio else dadd 1 ratio)
           in Inr (dmul entry factor))
      | LT_ATR \<Rightarrow>
          rbind (require_atr atr) (\<lambda>v.
          let distance = dmul (pl_value l) v
          in Inr (if is_long s then dsub entry distance else dadd entry distance)))"

definition take_profit_price ::
    "protection_level \<Rightarrow> order_side \<Rightarrow> decimal \<Rightarrow> decimal option \<Rightarrow> decimal result" where
  "take_profit_price l s entry atr =
     (case pl_type l of
        LT_PRICE \<Rightarrow> Inr (pl_value l)
      | LT_PERCENT \<Rightarrow>
          (let ratio = ddiv_nz (pl_value l) 100;
               factor = (if is_long s then dadd 1 ratio else dsub 1 ratio)
           in Inr (dmul entry factor))
      | LT_ATR \<Rightarrow>
          rbind (require_atr atr) (\<lambda>v.
          let distance = dmul (pl_value l) v
          in Inr (if is_long s then dadd entry distance else dsub entry distance)))"

datatype level_role = ROLE_INITIAL_STOP | ROLE_TAKE_PROFIT

definition validate_level_direction ::
    "order_side \<Rightarrow> level_role \<Rightarrow> decimal \<Rightarrow> decimal \<Rightarrow> unit result" where
  "validate_level_direction s role level ref =
     (let valid = (if role = ROLE_INITIAL_STOP
                   then (if is_long s then level < ref else ref < level)
                   else (if is_long s then ref < level else level < ref))
      in guard_exn (\<not> valid) TrailingStateError ''level is on the wrong side'')"

subsection \<open>Ticks, minimum distance and ratchet\<close>

datatype dec_rounding = ROUND_DOWN | ROUND_UP

definition to_integral :: "dec_rounding \<Rightarrow> decimal \<Rightarrow> int" where
  "to_integral r x = (case r of ROUND_DOWN \<Rightarrow> trunc_int x | ROUND_UP \<Rightarrow> away_int x)"

definition quantize_price :: "decimal \<Rightarrow> decimal \<Rightarrow> dec_rounding \<Rightarrow> decimal result" where
  "quantize_price v tick r = rbind (ddiv v tick) (\<lambda>x. Inr (dmul (of_int (to_integral r x)) tick))"

definition quantize_stop :: "decimal \<Rightarrow> decimal \<Rightarrow> order_side \<Rightarrow> decimal result" where
  "quantize_stop v tick s = quantize_price v tick (if is_long s then ROUND_DOWN else ROUND_UP)"

definition quantize_take_profit :: "decimal \<Rightarrow> decimal \<Rightarrow> order_side \<Rightarrow> decimal result" where
  "quantize_take_profit v tick s = quantize_price v tick (if is_long s then ROUND_UP else ROUND_DOWN)"

definition respects_min_stop_distance ::
    "order_side \<Rightarrow> decimal \<Rightarrow> decimal \<Rightarrow> decimal option \<Rightarrow> bool" where
  "respects_min_stop_distance s candidate basis d =
     (case d of None \<Rightarrow> True
      | Some m \<Rightarrow> if is_long s then candidate \<le> dsub basis m else dadd basis m \<le> candidate)"

definition ratchet_accepts ::
    "order_side \<Rightarrow> decimal option \<Rightarrow> decimal \<Rightarrow> decimal option \<Rightarrow> bool" where
  "ratchet_accepts s current candidate step =
     (case current of None \<Rightarrow> True
      | Some c \<Rightarrow>
          if is_long s then
            (if candidate \<le> c then False
             else case step of None \<Rightarrow> True | Some d \<Rightarrow> dadd c d \<le> candidate)
          else
            (if c \<le> candidate then False
             else case step of None \<Rightarrow> True | Some d \<Rightarrow> candidate \<le> dsub c d))"

subsection \<open>Wilder's average\<close>

lemma length_true_ranges: "length (true_ranges cs) = length cs - 1"
  by (induction cs rule: true_ranges.induct) simp_all

lemma dabs_nonneg: "0 \<le> dabs x"
  by (simp add: dabs_def ctx.rnd_nonneg)

lemma true_range_nonneg: "0 \<le> true_range c p"
  by (simp add: true_range_def le_max_iff_disj dabs_nonneg)

lemma true_ranges_nonneg: "\<forall>v \<in> set (true_ranges cs). 0 \<le> v"
  by (induction cs rule: true_ranges.induct) (simp_all add: true_range_nonneg)

lemma dsum_nonneg:
  assumes "\<forall>v \<in> set vs. 0 \<le> v"
  shows "0 \<le> dsum vs"
proof -
  have "0 \<le> x \<Longrightarrow> \<forall>v \<in> set vs. 0 \<le> v \<Longrightarrow> 0 \<le> foldl dadd x vs" for x
    by (induction vs arbitrary: x) (simp_all add: dadd_def ctx.rnd_nonneg)
  with assms show ?thesis by (simp add: dsum_def)
qed

lemma ddiv_nz_nonneg: "0 \<le> x \<Longrightarrow> 0 \<le> y \<Longrightarrow> 0 \<le> ddiv_nz x y"
  by (simp add: ddiv_nz_def ctx.rnd_nonneg)

lemma wilder_step_nonneg: "1 \<le> n \<Longrightarrow> 0 \<le> a \<Longrightarrow> 0 \<le> v \<Longrightarrow> 0 \<le> wilder_step n a v"
  by (simp add: wilder_step_def ddiv_nz_def dadd_def dmul_def ctx.rnd_nonneg)

lemma wilder_step_mono:
  "1 \<le> n \<Longrightarrow> a \<le> b \<Longrightarrow> v \<le> w \<Longrightarrow> wilder_step n a v \<le> wilder_step n b w"
  unfolding wilder_step_def ddiv_nz_def dadd_def dmul_def
  by (intro ctx_round_mono divide_right_mono add_mono mult_right_mono) simp_all

lemma foldl_wilder_nonneg:
  "1 \<le> n \<Longrightarrow> 0 \<le> a \<Longrightarrow> \<forall>v \<in> set vs. 0 \<le> v \<Longrightarrow> 0 \<le> foldl (wilder_step n) a vs"
  by (induction vs arbitrary: a) (simp_all add: wilder_step_nonneg)

lemma wilder_atr_ok:
  assumes "2 \<le> period" and "period < int (length cs)"
  shows "\<exists>a. wilder_atr cs period = Inr a \<and> 0 \<le> a"
proof -
  have "0 \<le> foldl (wilder_step (nat period))
      (ddiv_nz (dsum (take (nat period) (true_ranges cs))) (of_nat (nat period)))
      (drop (nat period) (true_ranges cs))"
    using assms(1) true_ranges_nonneg [of cs]
    by (intro foldl_wilder_nonneg ddiv_nz_nonneg dsum_nonneg)
      (auto dest: in_set_takeD in_set_dropD)
  with assms show ?thesis by (simp add: wilder_atr_def Let_def)
qed

text \<open>Sums and means of bounded values stay in the bounds while the multiples of the bound fit.\<close>

lemma foldl_dadd_mono:
  "x \<le> y \<Longrightarrow> list_all2 (\<le>) vs ws \<Longrightarrow> foldl dadd x vs \<le> foldl dadd y ws"
proof (induction vs arbitrary: x y ws)
  case (Cons v vs)
  then obtain w ws' where "ws = w # ws'" "v \<le> w" "list_all2 (\<le>) vs ws'" by (cases ws) auto
  with Cons show ?case by (simp add: dadd_def ctx_round_mono add_mono)
qed simp

lemma foldl_dadd_replicate:
  assumes "\<And>k. k \<le> j + n \<Longrightarrow> fits (of_nat k * b)"
  shows "foldl dadd (of_nat j * b) (replicate n b) = of_nat (j + n) * b"
  using assms
proof (induction n arbitrary: j)
  case (Suc n)
  have "fits (of_nat (Suc j) * b)" by (rule Suc.prems) simp
  then have "dadd (of_nat j * b) b = of_nat (Suc j) * b"
    by (simp add: dadd_def ctx_round_fits algebra_simps)
  with Suc.IH [of "Suc j"] Suc.prems show ?case by simp
qed simp

lemma dsum_replicate:
  assumes "\<And>k. k \<le> n \<Longrightarrow> fits (of_nat k * b)"
  shows "dsum (replicate n b) = of_nat n * b"
  using foldl_dadd_replicate [of 0 n b] assms by (simp add: dsum_def)

lemma list_all2_replicate_le: "list_all2 (\<le>) vs (replicate (length vs) b) \<longleftrightarrow> (\<forall>v \<in> set vs. v \<le> b)"
  by (induction vs) auto

lemma list_all2_replicate_ge: "list_all2 (\<le>) (replicate (length vs) b) vs \<longleftrightarrow> (\<forall>v \<in> set vs. b \<le> v)"
  by (induction vs) auto

lemma wilder_step_fix:
  assumes "1 \<le> n" and "\<And>k. k \<le> n \<Longrightarrow> fits (of_nat k * b)"
  shows "wilder_step n b b = b"
proof -
  have "fits (of_nat (n - 1) * b)" "fits (of_nat n * b)" "fits b"
    using assms(2) [of "n - 1"] assms(2) [of n] assms(2) [of 1] assms(1) by simp_all
  moreover have "(of_nat (n - 1) :: rat) = of_nat n - 1" using assms(1) by (simp add: of_nat_diff)
  moreover have "b * (of_nat n - 1) + b = of_nat n * b" by (simp add: algebra_simps)
  ultimately show ?thesis using assms(1)
    by (simp add: wilder_step_def dmul_def dadd_def ddiv_nz_def ctx_round_fits mult.commute)
qed

lemma foldl_wilder_le:
  assumes "1 \<le> n" "\<And>k. k \<le> n \<Longrightarrow> fits (of_nat k * b)"
  shows "a \<le> b \<Longrightarrow> \<forall>v \<in> set vs. v \<le> b \<Longrightarrow> foldl (wilder_step n) a vs \<le> b"
proof (induction vs arbitrary: a)
  case (Cons v vs)
  then have "wilder_step n a v \<le> wilder_step n b b" using assms(1) by (intro wilder_step_mono) simp_all
  with Cons assms show ?case by (simp add: wilder_step_fix)
qed simp

lemma foldl_wilder_ge:
  assumes "1 \<le> n" "\<And>k. k \<le> n \<Longrightarrow> fits (of_nat k * b)"
  shows "b \<le> a \<Longrightarrow> \<forall>v \<in> set vs. b \<le> v \<Longrightarrow> b \<le> foldl (wilder_step n) a vs"
proof (induction vs arbitrary: a)
  case (Cons v vs)
  then have "wilder_step n b b \<le> wilder_step n a v" using assms(1) by (intro wilder_step_mono) simp_all
  with Cons assms show ?case by (simp add: wilder_step_fix)
qed simp

lemma mean_bounds:
  assumes "1 \<le> n" "length vs = n" "\<And>k. k \<le> n \<Longrightarrow> fits (of_nat k * b)"
  shows "\<forall>v \<in> set vs. v \<le> b \<Longrightarrow> ddiv_nz (dsum vs) (of_nat n) \<le> b"
    and "\<forall>v \<in> set vs. b \<le> v \<Longrightarrow> b \<le> ddiv_nz (dsum vs) (of_nat n)"
proof -
  have r: "dsum (replicate n b) = of_nat n * b" using assms(3) by (rule dsum_replicate)
  have f: "ctx_round b = b" using assms(1) assms(3) [of 1] by (simp add: ctx_round_fits)
  have m: "ddiv_nz (of_nat n * b) (of_nat n) = b" using assms(1) f by (simp add: ddiv_nz_def)
  { assume "\<forall>v \<in> set vs. v \<le> b"
    then have "dsum vs \<le> of_nat n * b"
      using foldl_dadd_mono [of 0 0 vs "replicate n b"] list_all2_replicate_le [of vs b] assms(2) r
      by (simp add: dsum_def)
    then have "ddiv_nz (dsum vs) (of_nat n) \<le> ddiv_nz (of_nat n * b) (of_nat n)"
      unfolding ddiv_nz_def by (intro ctx_round_mono divide_right_mono) simp_all
    with m show "ddiv_nz (dsum vs) (of_nat n) \<le> b" by simp }
  { assume "\<forall>v \<in> set vs. b \<le> v"
    then have "of_nat n * b \<le> dsum vs"
      using foldl_dadd_mono [of 0 0 "replicate n b" vs] list_all2_replicate_ge [of vs b] assms(2) r
      by (simp add: dsum_def)
    then have "ddiv_nz (of_nat n * b) (of_nat n) \<le> ddiv_nz (dsum vs) (of_nat n)"
      unfolding ddiv_nz_def by (intro ctx_round_mono divide_right_mono) simp_all
    with m show "b \<le> ddiv_nz (dsum vs) (of_nat n)" by simp }
qed

text \<open>
  Wilder's average is an average: for a period of at least two and more candles than the
  period it is defined, and it lies between any two bounds of the true ranges of the series, as long as
  the multiples of the bounds up to the period fit the decimal context. With fewer candles it
  refuses instead of shortening the period.
\<close>

theorem wilder_atr_between:
  assumes "2 \<le> period"
    and "\<forall>v \<in> set (true_ranges cs). lo \<le> v \<and> v \<le> hi"
    and "\<forall>k \<le> nat period. fits (of_nat k * lo) \<and> fits (of_nat k * hi)"
  shows "if period < int (length cs)
         then \<exists>a. wilder_atr cs period = Inr a \<and> lo \<le> a \<and> a \<le> hi
         else fails_with (wilder_atr cs period) TrailingNotSupportedError"
proof (cases "period < int (length cs)")
  case True
  let ?n = "nat period" and ?r = "true_ranges cs"
  have n: "1 \<le> ?n" and l: "length (take ?n ?r) = ?n" using assms(1) True by (auto simp: length_true_ranges)
  have seed: "\<forall>v \<in> set (take ?n ?r). lo \<le> v \<and> v \<le> hi" and rest: "\<forall>v \<in> set (drop ?n ?r). lo \<le> v \<and> v \<le> hi"
    using assms(2) by (auto dest: in_set_takeD in_set_dropD)
  let ?s = "ddiv_nz (dsum (take ?n ?r)) (of_nat ?n)"
  have "lo \<le> ?s" "?s \<le> hi" using mean_bounds [OF n l] seed assms(3) by auto
  then have "lo \<le> foldl (wilder_step ?n) ?s (drop ?n ?r)" "foldl (wilder_step ?n) ?s (drop ?n ?r) \<le> hi"
    using foldl_wilder_le [OF n, of hi ?s] foldl_wilder_ge [OF n, of lo ?s] rest assms(3) by auto
  with True assms(1) show ?thesis by (simp add: wilder_atr_def Let_def)
next
  case False
  with assms(1) show ?thesis by (simp add: wilder_atr_def)
qed

definition flat_candle :: "int \<Rightarrow> candle" where
  "flat_candle t = \<lparr>ca_open_time = t, ca_close_time = t + 1, ca_open = 10, ca_high = 12, ca_low = 10,
     ca_close = 10\<rparr>"

theorem wilder_atr_between_witness:
  "\<exists>a. wilder_atr (map flat_candle [0, 1, 2, 3]) 2 = Inr a \<and> 2 \<le> a \<and> a \<le> 2"
proof -
  have r: "true_ranges (map flat_candle [0, 1, 2, 3]) = [2, 2, 2]"
    by (simp add: flat_candle_def true_range_def dec_defs ctx_round_eval)
  have "k \<le> nat 2 \<Longrightarrow> fits (of_nat k * 2)" for k
    using fits_of_int [of "int k * 2"] by simp
  with wilder_atr_between [of 2 "map flat_candle [0, 1, 2, 3]" 2 2] show ?thesis
    unfolding r by simp
qed

subsection \<open>Tightness\<close>

text \<open>\<open>tighter_eq s x y\<close>: on side \<open>s\<close> the stop \<open>y\<close> protects at least as closely as \<open>x\<close>.\<close>

definition tighter_eq :: "order_side \<Rightarrow> decimal \<Rightarrow> decimal \<Rightarrow> bool" where
  "tighter_eq s x y \<longleftrightarrow> (if is_long s then x \<le> y else y \<le> x)"

lemma tighter_eq_refl [simp]: "tighter_eq s x x"
  by (simp add: tighter_eq_def)

lemma tighter_eq_trans: "tighter_eq s x y \<Longrightarrow> tighter_eq s y z \<Longrightarrow> tighter_eq s x z"
  by (auto simp: tighter_eq_def split: if_splits)

lemma tighter_eq_antisym: "tighter_eq s x y \<Longrightarrow> tighter_eq s y x \<Longrightarrow> x = y"
  by (auto simp: tighter_eq_def split: if_splits)

lemma update_best_basis_tight:
  "tighter_eq s b (update_best_basis s best b)"
  "best = Some x \<Longrightarrow> tighter_eq s x (update_best_basis s best b)"
  by (auto simp: update_best_basis_def tighter_eq_def split: option.splits)

lemma percent_factor_nonneg:
  assumes "0 < p" "p < 100"
  shows "0 \<le> dsub 1 (ddiv_nz p 100)" "0 \<le> dadd 1 (ddiv_nz p 100)"
proof -
  have "ddiv_nz p 100 \<le> ctx_round 1"
    unfolding ddiv_nz_def using assms by (intro ctx_round_mono) simp
  then have "ddiv_nz p 100 \<le> 1" by (simp add: ctx_round_eval)
  then show "0 \<le> dsub 1 (ddiv_nz p 100)" by (simp add: dsub_def ctx.rnd_nonneg)
  have "0 \<le> ddiv_nz p 100" using assms by (simp add: ddiv_nz_nonneg)
  then show "0 \<le> dadd 1 (ddiv_nz p 100)" by (simp add: dadd_def ctx.rnd_nonneg)
qed

lemma candidate_stop_mono:
  assumes "wf_spec q" "tighter_eq s b b'"
    and "candidate_stop s b q atr = Inr c" "candidate_stop s b' q atr = Inr c'"
  shows "tighter_eq s c c'"
proof (cases "tq_offset_type q")
  case OT_PERCENT
  have "0 \<le> dsub 1 (ddiv_nz (tq_offset q) 100)" "0 \<le> dadd 1 (ddiv_nz (tq_offset q) 100)"
    using percent_factor_nonneg wf_spec_basic(1,2) [OF assms(1)] OT_PERCENT by auto
  with OT_PERCENT assms(2-4) show ?thesis
    by (auto simp: candidate_stop_def Let_def tighter_eq_def dmul_def ctx.mul_mono_rnd split: if_splits)
next
  case OT_PRICE
  with assms(2-4) show ?thesis
    by (auto simp: candidate_stop_def tighter_eq_def dsub_def dadd_def ctx_round_mono split: if_splits)
next
  case OT_ATR
  with assms(2-4) show ?thesis
    by (auto simp: candidate_stop_def tighter_eq_def dsub_def dadd_def ctx_round_mono rbind_eq_Inr
        Let_def split: if_splits)
qed

lemma to_integral_mono: "x \<le> y \<Longrightarrow> to_integral r x \<le> to_integral r y"
  by (cases r) (simp_all add: to_integral_def trunc_int_mono away_int_mono)

lemma quantize_price_mono:
  assumes "0 < tick" "v \<le> w" "quantize_price v tick r = Inr x" "quantize_price w tick r = Inr y"
  shows "x \<le> y"
proof -
  have "ddiv_nz v tick \<le> ddiv_nz w tick"
    unfolding ddiv_nz_def using assms(1,2) by (intro ctx_round_mono divide_right_mono) auto
  then have "to_integral r (ddiv_nz v tick) \<le> to_integral r (ddiv_nz w tick)" by (rule to_integral_mono)
  then have "(of_int (to_integral r (ddiv_nz v tick)) :: rat) \<le> of_int (to_integral r (ddiv_nz w tick))"
    by simp
  with assms show ?thesis
    by (auto simp: quantize_price_def ddiv_def dmul_def ctx.mul_mono_rnd)
qed

lemma quantize_price_total: "tick \<noteq> 0 \<Longrightarrow> \<exists>x. quantize_price v tick r = Inr x"
  by (simp add: quantize_price_def ddiv_def)

lemma quantize_stop_mono:
  assumes "0 < tick" "tighter_eq s v w" "quantize_stop v tick s = Inr x" "quantize_stop w tick s = Inr y"
  shows "tighter_eq s x y"
  using assms quantize_price_mono [of tick]
  by (auto simp: tighter_eq_def quantize_stop_def split: if_splits)

text \<open>
  C37. The stop never loosens as the market improves: for a valid specification and a positive
  tick, the rounded and quantized stop computed from a more favourable best basis is at least as
  tight as the one computed before, for every unit of the offset and despite every rounding on
  the way; and the best basis itself only improves.
\<close>

theorem stop_follows_basis:
  assumes "wf_spec q" and "0 < tick"
    and "candidate_stop s best q atr = Inr c" and "quantize_stop c tick s = Inr x"
    and "candidate_stop s (update_best_basis s (Some best) b) q atr = Inr c'"
    and "quantize_stop c' tick s = Inr x'"
  shows "tighter_eq s best (update_best_basis s (Some best) b) \<and> tighter_eq s x x'"
proof -
  have "tighter_eq s best (update_best_basis s (Some best) b)" by (simp add: update_best_basis_tight)
  moreover from this have "tighter_eq s c c'"
    using candidate_stop_mono [OF assms(1) _ assms(3,5)] by simp
  ultimately show ?thesis using quantize_stop_mono [OF assms(2) _ assms(4,6)] by simp
qed

definition percent_spec :: trailing_spec where
  "percent_spec = \<lparr>tq_offset_type = OT_PERCENT, tq_offset = 1, tq_basis = None, tq_activation = TA_IMMEDIATE,
     tq_activation_price = None, tq_activation_pct = None, tq_initial_stop = None, tq_take_profit = None,
     tq_step = Some 1, tq_atr_period = None, tq_atr_timeframe = None\<rparr>"

lemma wf_percent_spec: "wf_spec percent_spec"
  by code_simp

theorem stop_follows_basis_witness:
  "tighter_eq BUY 99 108"
proof -
  have 1: "candidate_stop BUY 100 percent_spec None = Inr 99" by code_simp
  have 2: "quantize_stop 99 1 BUY = Inr 99" by code_simp
  have 3: "candidate_stop BUY (update_best_basis BUY (Some 100) 110) percent_spec None = Inr (1089 / 10)"
    by code_simp
  have 4: "quantize_stop (1089 / 10) 1 BUY = Inr 108" by code_simp
  show ?thesis using stop_follows_basis [OF wf_percent_spec _ 1 2 3 4] by simp
qed

text \<open>
  Quantizing moves a price by less than one tick and in the safe direction: a stop away from
  the market (down for a long, up for a short), a take profit towards more profit. The result is
  a whole number of ticks. The hypotheses say that neither the quotient nor the product needs more
  digits than the context has.
\<close>

theorem quantize_directions:
  assumes "0 < tick" and "0 \<le> v" and "fits (v / tick)"
    and "\<forall>r. fits (of_int (to_integral r (v / tick)) * tick)"
  shows "\<exists>x y. quantize_stop v tick s = Inr x \<and> quantize_take_profit v tick s = Inr y
    \<and> x / tick \<in> \<int> \<and> y / tick \<in> \<int>
    \<and> (if is_long s then x \<le> v \<and> v < x + tick \<and> v \<le> y \<and> y < v + tick
       else v \<le> x \<and> x < v + tick \<and> y \<le> v \<and> v < y + tick)"
proof -
  define x where "x = of_int (trunc_int (v / tick)) * tick"
  define y where "y = of_int (away_int (v / tick)) * tick"
  have q: "0 \<le> v / tick" using assms by simp
  have X: "quantize_price v tick ROUND_DOWN = Inr x" and Y: "quantize_price v tick ROUND_UP = Inr y"
    using assms(1,3) assms(4) [rule_format, of ROUND_DOWN] assms(4) [rule_format, of ROUND_UP]
    by (simp_all add: quantize_price_def ddiv_def ddiv_nz_def dmul_def ctx_round_fits x_def y_def to_integral_def)
  have "of_int (trunc_int (v / tick)) \<le> v / tick" "v / tick < of_int (trunc_int (v / tick)) + 1"
    using q by (simp_all add: trunc_int_def) linarith
  then have x: "x \<le> v" "v < x + tick"
    using assms(1) by (simp_all add: x_def pos_le_divide_eq pos_divide_less_eq distrib_right)
  have "v / tick \<le> of_int (away_int (v / tick))" "of_int (away_int (v / tick)) < v / tick + 1"
    using q by (simp_all add: away_int_def ceiling_less_iff) linarith
  then have "v / tick \<le> y / tick" "y / tick < (v + tick) / tick"
    using assms(1) by (simp_all add: y_def add_divide_distrib)
  then have y: "v \<le> y" "y < v + tick"
    using assms(1) by (simp_all add: divide_le_cancel divide_less_cancel)
  have "x / tick \<in> \<int>" "y / tick \<in> \<int>" using assms(1) by (simp_all add: x_def y_def)
  with x y X Y show ?thesis by (simp add: quantize_stop_def quantize_take_profit_def)
qed

theorem quantize_directions_witness:
  "\<exists>x. quantize_stop (1089 / 10) 1 SELL = Inr x \<and> 1089 / 10 \<le> x"
proof -
  have "fits (of_int (to_integral r (1089 / 10)))" for r
    by (cases r) (simp_all add: to_integral_def trunc_int_def away_int_def floor_quotient_rat
        ceiling_quotient_rat fits_numeral)
  moreover have "fits (1089 / 10)" by (rule fits_quotient) simp_all
  ultimately show ?thesis
    using quantize_directions [of 1 "1089 / 10" SELL] by (auto simp: is_long_def)
qed

text \<open>
  The ratchet. An accepted candidate is strictly tighter than the current stop and clears it
  by at least the configured step (as the context computes the threshold); a candidate that is not strictly tighter is
  refused whatever the step; and a leg without a stop accepts any candidate. So a run of accepted
  candidates moves in one direction only.
\<close>

theorem ratchet_tightens:
  "(ratchet_accepts s None c step)
   \<and> (ratchet_accepts s (Some x) c step \<longleftrightarrow>
        x \<noteq> c \<and> tighter_eq s x c
        \<and> (step = None \<or> (if is_long s then dadd x (the step) \<le> c else c \<le> dsub x (the step))))"
  by (cases step) (auto simp: ratchet_accepts_def tighter_eq_def)

text \<open>
  Activation. A profit-percent activation price of a valid specification lies on the
  profitable side of a positive entry price that fits the context, and activation latches: a basis
  that reaches the activation price still reaches it after moving further in the position's favour.
\<close>

theorem activation_side:
  assumes "wf_spec q" and "0 \<le> entry" and "fits entry"
    and "tq_activation q = TA_PROFIT_PERCENT"
  shows "\<exists>p. resolve_activation_price q s entry = Inr (Some p) \<and> tighter_eq s entry p
    \<and> (is_activation_reached s b (Some p) \<longrightarrow> tighter_eq s b b' \<longrightarrow> is_activation_reached s b' (Some p))"
proof -
  obtain pct where pct: "tq_activation_pct q = Some pct" "0 < pct" "pct < 100"
    using wf_spec_activation(2) [OF assms(1,4)] by auto
  let ?r = "ddiv_nz pct 100"
  have r: "0 \<le> ?r" using pct by (simp add: ddiv_nz_nonneg)
  have "ctx_round 1 \<le> dadd 1 ?r" unfolding dadd_def using r by (intro ctx_round_mono) simp
  moreover have "dsub 1 ?r \<le> ctx_round 1" unfolding dsub_def using r by (intro ctx_round_mono) simp
  ultimately have f: "1 \<le> dadd 1 ?r" "dsub 1 ?r \<le> 1" by (simp_all add: ctx_round_eval)
  have "ctx_round entry \<le> dmul entry (dadd 1 ?r)" "dmul entry (dsub 1 ?r) \<le> ctx_round entry"
    unfolding dmul_def using f assms(2) by (auto intro!: ctx_round_mono simp: mult_left_le mult_le_cancel_left1)
  then have "tighter_eq s entry (profit_percent_activation_price entry s pct)"
    using assms(3) by (simp add: profit_percent_activation_price_def tighter_eq_def ctx_round_fits Let_def)
  then show ?thesis
    using assms(4) pct(1) by (auto simp: resolve_activation_price_def is_activation_reached_def tighter_eq_def)
qed

theorem activation_side_witness:
  "\<exists>p. resolve_activation_price (percent_spec\<lparr>tq_activation := TA_PROFIT_PERCENT, tq_activation_pct := Some 5\<rparr>)
     BUY 100 = Inr (Some p) \<and> 100 \<le> p"
proof -
  have "wf_spec (percent_spec\<lparr>tq_activation := TA_PROFIT_PERCENT, tq_activation_pct := Some 5\<rparr>)" by code_simp
  from activation_side [OF this, of 100 BUY] show ?thesis
    by (auto simp: fits_numeral tighter_eq_def is_long_def)
qed

end
