(* ===== verification/UTE_Adapter.thy ===== *)
theory UTE_Adapter
  imports UTE_Trailing_Types
begin

text \<open>
  The adapter contract, \<^verbatim>\<open>core/adapter/__init__.py\<close>: the capability records a venue reports and
  the operations the core calls on it. A venue is outside the repository, so the operations are a
  parameter of the model: \<open>'v\<close> is the venue's own state, and every call returns the value or the
  exception together with the venue's next state.
\<close>

subsection \<open>Capabilities\<close>

record rate_limits =
  rl_requests :: int
  rl_interval :: rat
  rl_remaining :: int
  rl_reset_at :: instant

record protection_capability =
  pc_supported :: bool
  pc_set_stop :: bool
  pc_set_tp :: bool
  pc_clear_stop :: bool
  pc_clear_tp :: bool
  pc_preserves :: bool
  pc_triggers :: "trailing_basis set"
  pc_min_interval :: rat
  pc_reprice_gap :: bool

record trailing_capability =
  nc_supported :: bool
  nc_offsets :: "trailing_offset_type set"
  nc_bases :: "trailing_basis set"
  nc_activations :: "trailing_activation set"
  nc_step :: bool
  nc_initial_stop :: bool
  nc_take_profit :: bool
  nc_position_scoped :: bool
  nc_min_interval :: rat

record market_capability =
  mc_bases :: "trailing_basis set"
  mc_min_interval :: rat
  mc_timeframes :: "candle_timeframe set"
  mc_streaming :: bool

text \<open>What an adapter that overrides nothing reports.\<close>

definition default_protection_capability :: protection_capability where
  "default_protection_capability = \<lparr>pc_supported = False, pc_set_stop = False, pc_set_tp = False,
     pc_clear_stop = False, pc_clear_tp = False, pc_preserves = False, pc_triggers = {},
     pc_min_interval = 0, pc_reprice_gap = False\<rparr>"

definition default_trailing_capability :: trailing_capability where
  "default_trailing_capability = \<lparr>nc_supported = False, nc_offsets = {}, nc_bases = {},
     nc_activations = {}, nc_step = False, nc_initial_stop = False, nc_take_profit = False,
     nc_position_scoped = False, nc_min_interval = 0\<rparr>"

definition default_market_capability :: market_capability where
  "default_market_capability = \<lparr>mc_bases = {}, mc_min_interval = 0, mc_timeframes = {},
     mc_streaming = False\<rparr>"

subsection \<open>Operations\<close>

text \<open>
  One field per method the core calls. A method an adapter does not implement is a field that
  returns \<open>PyNotImplementedError\<close>, which is what the base class raises.
\<close>

record 'v adapter =
  ad_platform :: string
  ad_account :: string
  ad_is_connected :: "'v \<Rightarrow> bool"
  ad_connect :: "('v, unit) eff"
  ad_disconnect :: "('v, unit) eff"
  ad_order_types :: "order_type set"
  ad_place_order :: "unified_order \<Rightarrow> ('v, order_result) eff"
  ad_modify_order :: "order_modification \<Rightarrow> ('v, order_result) eff"
  ad_cancel_order :: "string \<Rightarrow> ('v, order_result) eff"
  ad_get_order :: "string \<Rightarrow> ('v, order_result option) eff"
  ad_fetch_spec :: "instrument \<Rightarrow> ('v, instrument_spec) eff"
  ad_protection_cap :: "instrument \<Rightarrow> protection_capability"
  ad_trailing_cap :: "instrument \<Rightarrow> trailing_capability"
  ad_market_cap :: "instrument \<Rightarrow> market_capability"
  ad_rate_limits :: "('v, rate_limits) eff"
  ad_fetch_ticker :: "instrument \<Rightarrow> ('v, ticker option) eff"
  ad_fetch_candles :: "instrument \<Rightarrow> candle_timeframe \<Rightarrow> int \<Rightarrow> ('v, candle list) eff"
  ad_modify_tpsl :: "instrument \<Rightarrow> string \<Rightarrow> tpsl option \<Rightarrow> tpsl option \<Rightarrow> trailing_basis option
                     \<Rightarrow> ('v, unit) eff"
  ad_get_tpsl :: "instrument \<Rightarrow> string \<Rightarrow> ('v, (tpsl option \<times> tpsl option) option) eff"
  ad_clear_tpsl :: "instrument \<Rightarrow> string \<Rightarrow> bool \<Rightarrow> bool \<Rightarrow> ('v, unit) eff"
  ad_place_trailing :: "native_request \<Rightarrow> ('v, native_result) eff"
  ad_cancel_trailing :: "string \<Rightarrow> instrument \<Rightarrow> ('v, unit) eff"
  ad_get_trailing :: "string \<Rightarrow> instrument \<Rightarrow> ('v, native_result option) eff"
  ad_get_position_trailing :: "instrument \<Rightarrow> string \<Rightarrow> ('v, native_result option) eff"
  ad_fetch_positions :: "('v, position list) eff"
  ad_fetch_balances :: "('v, (string, balance) dict) eff"
  ad_fetch_open_orders :: "('v, (string, order_record) dict) eff"
  ad_fetch_fills :: "instant option \<Rightarrow> ('v, (string, fill_record list) dict) eff"
  ad_reconcile_intent :: "('v, unit) eff"

end
