(* ===== verification/UTE_Routing.thy ===== *)
theory UTE_Routing
  imports UTE_Trailing_Math UTE_Adapter
begin

text \<open>
  The decisions of \<^verbatim>\<open>core/trailing/manager.py\<close> that need no state: the lifecycle graph, the
  routing of a request to native or synthetic execution, the choice of the position leg and of the
  price basis, and the identity checks used on recovery and for fills.
\<close>

subsection \<open>The lifecycle graph\<close>

fun ALLOWED_TRAILING_TRANSITIONS :: "trailing_phase \<Rightarrow> trailing_phase set" where
  "ALLOWED_TRAILING_TRANSITIONS ARMING = {ARMED, DEGRADED, FAILED, TR_CANCELLED, DONE}"
| "ALLOWED_TRAILING_TRANSITIONS ARMED = {TRIGGERED, DEGRADED, TR_CANCELLED, DONE, FAILED}"
| "ALLOWED_TRAILING_TRANSITIONS TRIGGERED = {DEGRADED, TR_CANCELLED, DONE, FAILED}"
| "ALLOWED_TRAILING_TRANSITIONS DEGRADED = {ARMED, TR_CANCELLED, DONE, FAILED}"
| "ALLOWED_TRAILING_TRANSITIONS DONE = {}"
| "ALLOWED_TRAILING_TRANSITIONS TR_CANCELLED = {}"
| "ALLOWED_TRAILING_TRANSITIONS FAILED = {}"

definition ensure_transition_allowed :: "trailing_phase \<Rightarrow> trailing_phase \<Rightarrow> unit result" where
  "ensure_transition_allowed current target =
     guard_exn (target \<notin> ALLOWED_TRAILING_TRANSITIONS current) TrailingStateError
       ''invalid trailing transition''"

subsection \<open>Routing\<close>

fun native_label :: "string \<Rightarrow> string" where
  "native_label code =
     (if code = ''native_unsupported'' then ''native trailing''
      else if code = ''native_unsupported_offset_type'' then ''offset type''
      else if code = ''native_unsupported_atr'' then ''ATR offset''
      else if code = ''native_unsupported_basis'' then ''basis''
      else if code = ''native_unsupported_activation'' then ''activation''
      else if code = ''native_unsupported_step'' then ''step''
      else if code = ''native_unsupported_initial_stop'' then ''initial stop''
      else if code = ''native_unsupported_take_profit'' then ''take profit''
      else if code = ''native_unsupported_atr_data'' then ''ATR candles for the take profit''
      else code)"

fun synthetic_label :: "string \<Rightarrow> string" where
  "synthetic_label code =
     (if code = ''synthetic_unsupported_protection'' then ''position protection''
      else if code = ''synthetic_unsupported_stop'' then ''stop placement''
      else if code = ''synthetic_unsupported_merge'' then ''unmentioned protection side preservation''
      else if code = ''synthetic_unsupported_ticker'' then ''ticker data''
      else if code = ''synthetic_unsupported_take_profit'' then ''take profit''
      else if code = ''synthetic_unsupported_atr_data'' then ''ATR candles''
      else code)"

definition timeframe_missing :: "trailing_spec \<Rightarrow> market_capability \<Rightarrow> bool" where
  \<comment> \<open>\<^verbatim>\<open>spec.atr_timeframe not in market_data.candle_timeframes\<close>\<close>
  "timeframe_missing q md =
     (case tq_atr_timeframe q of None \<Rightarrow> True | Some tf \<Rightarrow> tf \<notin> mc_timeframes md)"

definition native_blockers ::
    "trailing_spec \<Rightarrow> trailing_capability \<Rightarrow> protection_capability \<Rightarrow> market_capability \<Rightarrow> string list" where
  "native_blockers q nc pc md =
     (if \<not> nc_supported nc then [''native_unsupported'']
      else
        (if tq_offset_type q = OT_ATR then [''native_unsupported_atr'']
         else if tq_offset_type q \<notin> nc_offsets nc then [''native_unsupported_offset_type''] else [])
        @ (case tq_basis q of None \<Rightarrow> []
           | Some b \<Rightarrow> if b \<notin> nc_bases nc then [''native_unsupported_basis''] else [])
        @ (if (if tq_activation q = TA_PROFIT_PERCENT then TA_PRICE else tq_activation q)
              \<notin> nc_activations nc
           then [''native_unsupported_activation''] else [])
        @ (if tq_step q \<noteq> None \<and> \<not> nc_step nc then [''native_unsupported_step''] else [])
        @ (case tq_initial_stop q of None \<Rightarrow> []
           | Some l \<Rightarrow> if \<not> nc_initial_stop nc \<or> pl_type l = LT_ATR
                       then [''native_unsupported_initial_stop''] else [])
        @ (if tq_take_profit q \<noteq> None \<and> \<not> pc_set_tp pc then [''native_unsupported_take_profit''] else [])
        @ (case tq_take_profit q of None \<Rightarrow> []
           | Some l \<Rightarrow> if pl_type l = LT_ATR \<and> timeframe_missing q md
                       then [''native_unsupported_atr_data''] else []))"

definition synthetic_blockers ::
    "trailing_spec \<Rightarrow> protection_capability \<Rightarrow> market_capability \<Rightarrow> string list" where
  "synthetic_blockers q pc md =
     (if \<not> pc_supported pc then [''synthetic_unsupported_protection'']
      else if \<not> pc_set_stop pc then [''synthetic_unsupported_stop'']
      else if \<not> pc_preserves pc then [''synthetic_unsupported_merge''] else [])
     @ (if mc_bases md = {} then [''synthetic_unsupported_ticker''] else [])
     @ (if tq_take_profit q \<noteq> None \<and> \<not> pc_set_tp pc then [''synthetic_unsupported_take_profit''] else [])
     @ (if uses_atr q \<and> timeframe_missing q md then [''synthetic_unsupported_atr_data''] else [])"

definition resolve_routing ::
    "trailing_request \<Rightarrow> protection_capability \<Rightarrow> trailing_capability \<Rightarrow> market_capability
     \<Rightarrow> (trailing_mode \<times> string) result" where
  "resolve_routing req pc nc md =
     (let q = rq_spec req in
      if (case tq_basis q of None \<Rightarrow> False | Some b \<Rightarrow> b \<notin> mc_bases md)
      then raise_exn TrailingNotSupportedError ''basis cannot be sampled''
      else
        let nb = native_blockers q nc pc md in
        if rq_mode req = TM_NATIVE then
          (if nb \<noteq> []
           then raise_exn TrailingNotSupportedError (join_comma (map native_label nb))
           else Inr (TM_NATIVE, ''native_exact''))
        else
          let sb = synthetic_blockers q pc md in
          if rq_mode req = TM_SYNTHETIC then
            (if sb \<noteq> []
             then raise_exn TrailingNotSupportedError (join_comma (map synthetic_label sb))
             else Inr (TM_SYNTHETIC, ''synthetic_mode_requested''))
          else if nb = [] then Inr (TM_NATIVE, ''native_exact'')
          else if sb = [] then Inr (TM_SYNTHETIC, hd nb)
          else raise_exn TrailingNotSupportedError
                 (''native ('' @ join_comma (map native_label nb) @ ''); synthetic (''
                  @ join_comma (map synthetic_label sb) @ '')''))"

subsection \<open>Position legs\<close>

definition resolve_position_leg :: "position list \<Rightarrow> string option \<Rightarrow> (position \<times> string) result" where
  "resolve_position_leg legs pid =
     (case pid of
        Some i \<Rightarrow>
          (case filter (\<lambda>l. po_id l = Some i) legs of
             [] \<Rightarrow> raise_exn InvalidOrderError ''no open position''
           | [l] \<Rightarrow> if po_quantity l = 0 then raise_exn InvalidOrderError ''position is closed''
                    else Inr (l, i)
           | _ \<Rightarrow> raise_exn TrailingStateError ''position id matches several legs'')
      | None \<Rightarrow>
          (let open_legs = filter (\<lambda>l. po_quantity l \<noteq> 0) legs in
           if open_legs = [] then raise_exn InvalidOrderError ''no open position''
           else if list_ex (\<lambda>l. po_id l = None) open_legs
           then raise_exn TrailingStateError ''a leg without a platform position_id''
           else (case open_legs of
                   [l] \<Rightarrow> Inr (l, the (po_id l))
                 | _ \<Rightarrow> raise_exn TrailingStateError ''several open positions'')))"

definition open_leg :: "position option \<Rightarrow> position option" where
  "open_leg p = (case p of None \<Rightarrow> None | Some l \<Rightarrow> if po_quantity l = 0 then None else Some l)"

definition leg_side :: "position \<Rightarrow> order_side" where
  "leg_side l = (if 0 < po_quantity l then BUY else SELL)"

definition recovery_identity :: "trailing_state \<Rightarrow> position \<Rightarrow> decimal \<Rightarrow> string option \<times> bool" where
  "recovery_identity t l tick =
     (if leg_side l \<noteq> ts_side t then (Some ''position_replaced'', True)
      else case (ts_opened_at t, po_opened_at l) of
        (Some p, Some c) \<Rightarrow>
          if 1000000 < \<bar>p - c\<bar> then (Some ''position_replaced'', False) else (None, False)
      | _ \<Rightarrow>
          if tick < dabs (dsub (po_entry l) (ts_entry t)) then (Some ''position_replaced'', False)
          else (Some ''position_identity_unverified'', False))"

definition after_last_colon :: "string \<Rightarrow> string" where
  \<comment> \<open>\<^verbatim>\<open>s.rsplit(":", 1)[-1]\<close>\<close>
  "after_last_colon s = rev (takeWhile (\<lambda>c. c \<noteq> CHR 0x3A) (rev s))"

definition fill_matches_position :: "string option \<Rightarrow> string \<Rightarrow> bool" where
  "fill_matches_position f p =
     (case f of None \<Rightarrow> True | Some i \<Rightarrow> if i = p then True else after_last_colon p = i)"

subsection \<open>Price bases\<close>

definition preferred_bases :: "order_side \<Rightarrow> trailing_basis list" where
  "preferred_bases s =
     [TB_LAST, if s = BUY then TB_BID else TB_ASK, if s = BUY then TB_ASK else TB_BID, TB_MARK, TB_MID]"

definition resolve_bases ::
    "trailing_spec \<Rightarrow> trailing_mode \<Rightarrow> protection_capability \<Rightarrow> market_capability \<Rightarrow> order_side
     \<Rightarrow> trailing_basis option \<times> trailing_basis option" where
  "resolve_bases q m pc md s =
     (let b = (case tq_basis q of
                 Some x \<Rightarrow> Some x
               | None \<Rightarrow>
                   if m = TM_NATIVE then Some TB_LAST
                   else let triggerable = mc_bases md \<inter> pc_triggers pc;
                            pool = (if triggerable \<noteq> {} then triggerable else mc_bases md)
                        in List.find (\<lambda>x. x \<in> pool) (preferred_bases s))
      in (b, case b of None \<Rightarrow> None | Some x \<Rightarrow> if x \<in> pc_triggers pc then Some x else None))"

definition basis_price :: "ticker \<Rightarrow> trailing_basis \<Rightarrow> decimal option" where
  "basis_price t b =
     (case b of
        TB_LAST \<Rightarrow> ti_last t | TB_BID \<Rightarrow> ti_bid t | TB_ASK \<Rightarrow> ti_ask t | TB_MARK \<Rightarrow> ti_mark t
      | TB_MID \<Rightarrow> (case (ti_bid t, ti_ask t) of
                     (Some x, Some y) \<Rightarrow> Some (ddiv_nz (dadd x y) 2) | _ \<Rightarrow> None))"

definition attachment_matches :: "tpsl option \<Rightarrow> decimal option \<Rightarrow> decimal \<Rightarrow> bool" where
  "attachment_matches actual requested tick =
     (case requested of None \<Rightarrow> True
      | Some r \<Rightarrow> (case actual of None \<Rightarrow> False | Some a \<Rightarrow> dabs (dsub (tp_trigger a) r) \<le> tick))"

definition stop_is_tighter :: "order_side \<Rightarrow> decimal \<Rightarrow> decimal \<Rightarrow> bool" where
  "stop_is_tighter s candidate reference = (if s = BUY then reference < candidate else candidate < reference)"

lemma preferred_bases_all: "x \<in> set (preferred_bases s)"
  by (cases x) (simp_all add: preferred_bases_def)

lemma find_preferred_total:
  assumes "pool \<noteq> {}"
  shows "\<exists>x \<in> pool. List.find (\<lambda>x. x \<in> pool) (preferred_bases s) = Some x"
  by (metis (no_types, lifting) assms all_not_in_conv find_NoneD find_SomeD option.exhaust preferred_bases_all)

subsection \<open>Lifecycle\<close>

text \<open>One lifecycle step, and what can follow what.\<close>

inductive phase_step :: "trailing_phase \<Rightarrow> trailing_phase \<Rightarrow> bool" where
  edge: "q \<in> ALLOWED_TRAILING_TRANSITIONS p \<Longrightarrow> phase_step p q"

inductive_cases phase_stepE: "phase_step p q"
inductive_simps phase_step_iff: "phase_step p q"

abbreviation phase_reach :: "trailing_phase \<Rightarrow> trailing_phase \<Rightarrow> bool" where
  "phase_reach \<equiv> phase_step\<^sup>*\<^sup>*"

lemma ensure_transition_Inr: "ensure_transition_allowed p q = Inr u \<longleftrightarrow> phase_step p q"
  by (simp add: ensure_transition_allowed_def phase_step_iff)

lemma phase_step_facts:
  assumes "phase_step p q"
  shows "p \<notin> TERMINAL_TRAILING_PHASES" "q \<noteq> ARMING" "q = TRIGGERED \<Longrightarrow> p = ARMED" "p \<noteq> q"
proof -
  have q: "q \<in> ALLOWED_TRAILING_TRANSITIONS p" using assms by (simp only: phase_step_iff)
  show "p \<notin> TERMINAL_TRAILING_PHASES" "q \<noteq> ARMING" "q = TRIGGERED \<Longrightarrow> p = ARMED" "p \<noteq> q"
    using q by (cases p, auto simp: TERMINAL_TRAILING_PHASES_def)+
qed

text \<open>
  The lifecycle. A terminal phase is final and a state never becomes arming again; a stop
  triggers only from an armed state; and from every other phase the state can still be cancelled, closed or
  failed in one step, so no reachable phase is a trap.
\<close>

theorem lifecycle_graph:
  assumes "phase_reach p q"
  shows "(p \<in> TERMINAL_TRAILING_PHASES \<longrightarrow> q = p) \<and> (q = ARMING \<longrightarrow> p = ARMING)
    \<and> (q = TRIGGERED \<longrightarrow> p \<in> {ARMING, ARMED, TRIGGERED, DEGRADED})
    \<and> (q \<notin> TERMINAL_TRAILING_PHASES \<longrightarrow>
         is_ok (ensure_transition_allowed q TR_CANCELLED) \<and> is_ok (ensure_transition_allowed q DONE)
         \<and> is_ok (ensure_transition_allowed q FAILED))"
proof -
  have "(p \<in> TERMINAL_TRAILING_PHASES \<longrightarrow> q = p) \<and> (q = ARMING \<longrightarrow> p = ARMING)"
    using assms
  proof (induction rule: rtranclp_induct)
    case (step y z)
    with phase_step_facts(1,2) [OF step.hyps(2)] show ?case by blast
  qed simp
  moreover have "q \<notin> TERMINAL_TRAILING_PHASES \<longrightarrow>
      is_ok (ensure_transition_allowed q TR_CANCELLED) \<and> is_ok (ensure_transition_allowed q DONE)
      \<and> is_ok (ensure_transition_allowed q FAILED)"
    by (cases q) (simp_all add: ensure_transition_allowed_def guard_exn_def TERMINAL_TRAILING_PHASES_def)
  moreover have "q = TRIGGERED \<longrightarrow> p \<in> {ARMING, ARMED, TRIGGERED, DEGRADED}"
    using calculation(1) by (cases p) (simp_all add: TERMINAL_TRAILING_PHASES_def)
  ultimately show ?thesis by blast
qed

theorem lifecycle_graph_witness:
  "is_ok (ensure_transition_allowed TRIGGERED DONE)"
proof -
  have "phase_reach ARMING TRIGGERED"
    by (rule converse_rtranclp_into_rtranclp [of _ ARMING ARMED]) (auto simp: phase_step_iff)
  from lifecycle_graph [OF this] show ?thesis by (simp add: TERMINAL_TRAILING_PHASES_def)
qed

subsection \<open>Routing\<close>

text \<open>
  Routing. A request is routed exactly when some mode it admits has no blocker and its named
  basis can be sampled; native execution is chosen whenever it is admitted and unblocked,
  synthetic execution otherwise, with the first native blocker recorded as the reason of an
  automatic fallback. The resolved mode is never AUTO and every refusal is a not-supported error.
\<close>

theorem routing_decision:
  "(resolve_routing req pc nc md = Inr (m, r) \<longleftrightarrow>
     (case tq_basis (rq_spec req) of None \<Rightarrow> True | Some b \<Rightarrow> b \<in> mc_bases md)
     \<and> (m = TM_NATIVE \<and> r = ''native_exact'' \<and> rq_mode req \<noteq> TM_SYNTHETIC
           \<and> native_blockers (rq_spec req) nc pc md = []
        \<or> m = TM_SYNTHETIC \<and> synthetic_blockers (rq_spec req) pc md = []
           \<and> (rq_mode req = TM_SYNTHETIC \<and> r = ''synthetic_mode_requested''
              \<or> rq_mode req = TM_AUTO \<and> native_blockers (rq_spec req) nc pc md \<noteq> []
                 \<and> r = hd (native_blockers (rq_spec req) nc pc md))))
   \<and> (is_ok (resolve_routing req pc nc md)
      \<or> fails_with (resolve_routing req pc nc md) TrailingNotSupportedError)"
proof -
  define nb where "nb = native_blockers (rq_spec req) nc pc md"
  define sb where "sb = synthetic_blockers (rq_spec req) pc md"
  show ?thesis
    unfolding resolve_routing_def Let_def nb_def [symmetric] sb_def [symmetric]
    by (cases "rq_mode req"; cases "tq_basis (rq_spec req)"; cases nb; cases sb) auto
qed

lemma filter_singleton: "filter P xs = [x] \<Longrightarrow> x \<in> set xs \<and> P x \<and> (\<forall>y \<in> set xs. P y \<longrightarrow> y = x)"
proof -
  assume "filter P xs = [x]"
  then have "set (filter P xs) = {x}" by simp
  then show ?thesis by auto
qed

text \<open>
  Leg selection. A resolved leg is one of the listed legs, it is open, it carries the returned
  identifier, and it is the only candidate: the only listed leg with the requested identifier, or
  the only open leg when none was requested.
\<close>

theorem position_leg_unique:
  assumes "resolve_position_leg legs pid = Inr (l, i)"
  shows "l \<in> set legs \<and> po_quantity l \<noteq> 0 \<and> po_id l = Some i
    \<and> (case pid of Some j \<Rightarrow> j = i \<and> (\<forall>k \<in> set legs. po_id k = Some i \<longrightarrow> k = l)
       | None \<Rightarrow> (\<forall>k \<in> set legs. po_quantity k \<noteq> 0 \<longrightarrow> k = l))"
proof (cases pid)
  case None
  with assms have "filter (\<lambda>l. po_quantity l \<noteq> 0) legs = [l] \<and> po_id l \<noteq> None \<and> i = the (po_id l)"
    by (auto simp: resolve_position_leg_def Let_def split: if_splits list.splits)
  with filter_singleton [of "\<lambda>l. po_quantity l \<noteq> 0" legs l] None show ?thesis by auto
next
  case (Some j)
  with assms have "filter (\<lambda>l. po_id l = Some j) legs = [l] \<and> po_quantity l \<noteq> 0 \<and> i = j"
    by (auto simp: resolve_position_leg_def split: if_splits list.splits)
  with filter_singleton [of "\<lambda>l. po_id l = Some j" legs l] Some show ?thesis by auto
qed

definition long_leg :: position where
  "long_leg = \<lparr>po_instrument = btc_spot, po_quantity = 1, po_entry = 100, po_updated_at = 0,
     po_id = Some ''p'', po_opened_at = None\<rparr>"

theorem position_leg_unique_witness: "po_id long_leg = Some ''p''"
proof -
  have "resolve_position_leg [long_leg] None = Inr (long_leg, ''p'')"
    by (simp add: resolve_position_leg_def long_leg_def)
  from position_leg_unique [OF this] show ?thesis by simp
qed

text \<open>
  The sampled basis. A synthetic request that passed routing always gets a basis the venue can
  sample; a basis recorded as the venue trigger is one the venue declares as trigger, and it is the
  sampled basis; and when the request names none, a basis that can both be sampled and trigger is
  preferred whenever there is one.
\<close>

theorem synthetic_basis:
  assumes "resolve_routing req pc nc md = Inr (TM_SYNTHETIC, r)"
  shows "\<exists>b t. resolve_bases (rq_spec req) TM_SYNTHETIC pc md s = (Some b, t) \<and> b \<in> mc_bases md
    \<and> (t = None \<or> t = Some b \<and> b \<in> pc_triggers pc)
    \<and> (tq_basis (rq_spec req) = None \<and> mc_bases md \<inter> pc_triggers pc \<noteq> {} \<longrightarrow> t = Some b)"
proof -
  have sampled: "tq_basis (rq_spec req) = Some b \<longrightarrow> b \<in> mc_bases md" for b
    using assms by (auto simp: resolve_routing_def Let_def split: if_splits option.splits)
  have "synthetic_blockers (rq_spec req) pc md = []"
    using assms by (auto simp: resolve_routing_def Let_def split: if_splits)
  then have ne: "mc_bases md \<noteq> {}" by (auto simp: synthetic_blockers_def split: if_splits)
  show ?thesis
  proof (cases "tq_basis (rq_spec req)")
    case (Some b)
    with sampled [of b] show ?thesis by (simp add: resolve_bases_def Let_def)
  next
    case None
    let ?tr = "mc_bases md \<inter> pc_triggers pc"
    define pool where "pool = (if ?tr \<noteq> {} then ?tr else mc_bases md)"
    have "pool \<noteq> {}" using ne by (simp add: pool_def)
    then obtain x where x: "x \<in> pool" "List.find (\<lambda>x. x \<in> pool) (preferred_bases s) = Some x"
      using find_preferred_total [of pool s] by blast
    then have "resolve_bases (rq_spec req) TM_SYNTHETIC pc md s
        = (Some x, if x \<in> pc_triggers pc then Some x else None)"
      using None by (simp add: resolve_bases_def Let_def flip: pool_def)
    with x(1) None show ?thesis by (auto simp: pool_def split: if_splits)
  qed
qed

definition full_protection :: protection_capability where
  "full_protection = default_protection_capability\<lparr>pc_supported := True, pc_set_stop := True,
     pc_set_tp := True, pc_preserves := True, pc_triggers := {TB_LAST}\<rparr>"

definition ticker_market :: market_capability where
  "ticker_market = default_market_capability\<lparr>mc_bases := {TB_LAST, TB_BID, TB_ASK}\<rparr>"

definition auto_request :: trailing_request where
  "auto_request = \<lparr>rq_instrument = btc_spot, rq_spec = percent_spec, rq_position_id = None,
     rq_mode = TM_AUTO, rq_take_over = False\<rparr>"

theorem synthetic_basis_witness:
  "fst (resolve_bases percent_spec TM_SYNTHETIC full_protection ticker_market BUY) = Some TB_LAST"
proof -
  have "resolve_routing auto_request full_protection default_trailing_capability ticker_market
      = Inr (TM_SYNTHETIC, ''native_unsupported'')"
    by code_simp
  from synthetic_basis [OF this, of BUY] obtain b t where
    "resolve_bases percent_spec TM_SYNTHETIC full_protection ticker_market BUY = (Some b, t)"
    and "mc_bases ticker_market \<inter> pc_triggers full_protection \<noteq> {} \<longrightarrow> t = Some b"
    and "t = None \<or> t = Some b \<and> b \<in> pc_triggers full_protection"
    by (auto simp: auto_request_def percent_spec_def)
  then show ?thesis by (auto simp: ticker_market_def full_protection_def)
qed

end
