(* ===== verification/UTE_Trailing_World.thy ===== *)
theory UTE_Trailing_World
  imports UTE_Routing UTE_Store
begin

text \<open>
  The state of the trailing manager, \<^verbatim>\<open>TrailingManager\<close> in \<^verbatim>\<open>core/trailing/manager.py\<close>, and the
  private operations its handlers share: publishing, auditing, degrading, clearing protection,
  closing a state and confirming what the venue holds. A handler runs to its end under the lock of
  its state, so it is one operation on the world; what other parties do meanwhile is in the venue
  operations, which are parameters.
\<close>

subsection \<open>World and environment\<close>

record 'v tworld =
  tw_venue :: 'v
  tw_store :: store
  tw_events :: "event list"
  tw_halts :: halt_machine
  tw_fetch_failures :: "(string, int) dict"
  tw_atr_failures :: "(string, int) dict"
  tw_specs :: "(instrument, instrument_spec) dict"
  tw_rehydrated :: "bool option"

text \<open>
  The collaborators the manager is constructed with: the adapter, the configuration, the clock, the
  id factory and the engine's rate-limit callback. The last three are callables, so they act on the
  outside world \<open>'v\<close> and return a value.
\<close>

record 'v tenv =
  te_adapter :: "'v adapter"
  te_config :: trailing_config
  te_clock :: "'v \<Rightarrow> instant \<times> 'v"
  te_new_id :: "'v \<Rightarrow> string \<times> 'v"
  te_reserve :: "'v \<Rightarrow> bool \<times> 'v"

type_synonym ('v, 'a) top = "('v tworld, 'a) eff"

definition venue :: "('v, 'a) eff \<Rightarrow> ('v, 'a) top" where
  "venue f = (\<lambda>w. case f (tw_venue w) of (r, v) \<Rightarrow> (r, w\<lparr>tw_venue := v\<rparr>))"

definition outside :: "('v \<Rightarrow> 'a \<times> 'v) \<Rightarrow> ('v, 'a) top" where
  "outside f = (\<lambda>w. case f (tw_venue w) of (a, v) \<Rightarrow> (Inr a, w\<lparr>tw_venue := v\<rparr>))"

definition in_store :: "(store, 'a) eff \<Rightarrow> ('v, 'a) top" where
  "in_store f = (\<lambda>w. case f (tw_store w) of (r, s) \<Rightarrow> (r, w\<lparr>tw_store := s\<rparr>))"

definition clock :: "'v tenv \<Rightarrow> ('v, instant) top" where
  "clock env = outside (te_clock env)"

definition new_id :: "'v tenv \<Rightarrow> ('v, string) top" where
  "new_id env = outside (te_new_id env)"

definition reserve :: "'v tenv \<Rightarrow> ('v, bool) top" where
  "reserve env = outside (te_reserve env)"

definition save :: "trailing_state \<Rightarrow> ('v, unit) top" where
  "save t = in_store (upsert_trailing_state t)"

definition load :: "string \<Rightarrow> ('v, trailing_state option) top" where
  "load tid = in_store (get_trailing_state tid)"

definition may_reduce :: "instrument \<Rightarrow> ('v, bool) top" where
  \<comment> \<open>\<^verbatim>\<open>self._halt_machine.can_place_order(instrument, reduce_only=True)\<close>\<close>
  "may_reduce i = eget (\<lambda>w. can_place_order (tw_halts w) i True)"

subsection \<open>Publishing and auditing\<close>

definition require_ready :: "'v tenv \<Rightarrow> ('v, unit) top" where
  "require_ready env =
     ebind (eget (\<lambda>w. ad_is_connected (te_adapter env) (tw_venue w))) (\<lambda>up.
     eguard (\<not> up) PlatformConnectionError ''trailing manager requires a connected engine'')"

definition emit :: "'v tenv \<Rightarrow> string option \<Rightarrow> event_body \<Rightarrow> ('v, unit) top" where
  "emit env corr body =
     ebind (new_id env) (\<lambda>i.
     ebind (clock env) (\<lambda>now.
     eupd (\<lambda>w. w\<lparr>tw_events := tw_events w @
       [\<lparr>ev_id = i, ev_time = now, ev_adapter = ad_platform (te_adapter env),
         ev_account = ad_account (te_adapter env), ev_correlation = corr, ev_body = body\<rparr>]\<rparr>)))"

definition publish_state ::
    "'v tenv \<Rightarrow> trailing_state \<Rightarrow> trailing_phase \<Rightarrow> string option \<Rightarrow> ('v, unit) top" where
  "publish_state env t previous reason =
     emit env (Some (ts_id t)) (TrailingStateEvent
       \<lparr>tn_id = ts_id t, tn_instrument = ts_instrument t, tn_position_id = ts_position_id t,
        tn_previous = previous, tn_phase = ts_phase t, tn_mode = ts_mode t, tn_stop = ts_stop t,
        tn_reason = reason\<rparr>)"

definition publish_ticker_event :: "'v tenv \<Rightarrow> instrument \<Rightarrow> ticker \<Rightarrow> ('v, unit) top" where
  "publish_ticker_event env i tk = emit env None (TickerEvent i tk)"

definition mode_text :: "trailing_mode \<Rightarrow> string" where
  "mode_text m = (case m of TM_AUTO \<Rightarrow> ''auto'' | TM_NATIVE \<Rightarrow> ''native'' | TM_SYNTHETIC \<Rightarrow> ''synthetic'')"

definition audit ::
    "'v tenv \<Rightarrow> string \<Rightarrow> trailing_state \<Rightarrow> decimal option \<Rightarrow> decimal option \<Rightarrow> string option
     \<Rightarrow> (string \<times> payload_value) list \<Rightarrow> ('v, unit) top" where
  "audit env kind t prev cur reason extra =
     ebind (new_id env) (\<lambda>i.
     ebind (clock env) (\<lambda>now.
     in_store (write_audit_event
       \<lparr>au_id = i, au_time = now, au_adapter = ad_platform (te_adapter env),
        au_account = ad_account (te_adapter env), au_correlation = ts_id t, au_type = kind,
        au_payload = [(''trailing_id'', PV_text (ts_id t)), (''position_id'', PV_text (ts_position_id t)),
          (''mode'', PV_text (mode_text (ts_mode t))), (''previous_stop'', pv_dec prev),
          (''current_stop'', pv_dec cur), (''reason'', pv_text reason)] @ extra\<rparr>)))"

subsection \<open>Error prefixes\<close>

definition FETCH_PREFIX :: string where
  "FETCH_PREFIX = ''fetch: ''"

definition PROTECTION_PREFIX :: string where
  "PROTECTION_PREFIX = ''protection: ''"

definition ATR_PREFIX :: string where
  "ATR_PREFIX = ''atr_stale: ''"

definition error_has :: "string \<Rightarrow> trailing_state \<Rightarrow> bool" where
  \<comment> \<open>\<^verbatim>\<open>(state.last_error or "").startswith(prefix)\<close>\<close>
  "error_has p t = starts_with (case ts_error t of None \<Rightarrow> [] | Some e \<Rightarrow> e) p"

subsection \<open>Specifications, ATR and first levels\<close>

definition cached_spec :: "'v tenv \<Rightarrow> instrument \<Rightarrow> ('v, instrument_spec) top" where
  "cached_spec env i =
     ebind (eget (\<lambda>w. dict_get (tw_specs w) (inst_id i))) (\<lambda>c.
     case c of
       Some s \<Rightarrow> eret s
     | None \<Rightarrow>
         ebind (venue (ad_fetch_spec (te_adapter env) i)) (\<lambda>s.
         ebind (eupd (\<lambda>w. w\<lparr>tw_specs := dict_set (inst_id i) s (tw_specs w)\<rparr>)) (\<lambda>_. eret s)))"

definition load_atr :: "'v tenv \<Rightarrow> trailing_spec \<Rightarrow> instrument \<Rightarrow> ('v, decimal option) top" where
  "load_atr env q i =
     (if \<not> uses_atr q then eret None
      else case (tq_atr_period q, tq_atr_timeframe q) of
        (Some n, Some tf) \<Rightarrow>
          ebind (venue (ad_fetch_candles (te_adapter env) i tf (n + 1))) (\<lambda>cs.
          ebind (elift (wilder_atr cs n)) (\<lambda>a. eret (Some a)))
      | _ \<Rightarrow> eraise TrailingNotSupportedError ''ATR values require a period and timeframe'')"

definition first_stop ::
    "trailing_spec \<Rightarrow> order_side \<Rightarrow> decimal \<Rightarrow> decimal \<Rightarrow> decimal option \<Rightarrow> instrument_spec \<Rightarrow> bool
     \<Rightarrow> decimal option result" where
  "first_stop q s entry basis atr spec activated =
     (let finish = (\<lambda>raw.
        rbind (quantize_stop raw (sp_tick_size spec) s) (\<lambda>stop.
        rbind (guard_exn (stop \<le> 0) TrailingNotSupportedError ''initial stop must be > 0'') (\<lambda>_.
        rbind (validate_level_direction s ROLE_INITIAL_STOP stop basis) (\<lambda>_.
        rbind (guard_exn (\<not> respects_min_stop_distance s stop basis (sp_min_stop_distance spec))
                TrailingNotSupportedError ''initial stop violates the minimum stop distance'') (\<lambda>_.
        Inr (Some stop))))))
      in case tq_initial_stop q of
           Some l \<Rightarrow>
             rbind (guard_exn (pl_type l = LT_PERCENT \<and> 100 \<le> pl_value l) TrailingNotSupportedError
                     ''percent initial stop must be below 100'') (\<lambda>_.
             rbind (initial_stop_price l s entry atr) finish)
         | None \<Rightarrow> if activated then rbind (candidate_stop s basis q atr) finish else Inr None)"

definition first_take_profit ::
    "trailing_spec \<Rightarrow> order_side \<Rightarrow> decimal \<Rightarrow> decimal option \<Rightarrow> instrument_spec \<Rightarrow> decimal option result" where
  "first_take_profit q s entry atr spec =
     (case tq_take_profit q of
        None \<Rightarrow> Inr None
      | Some l \<Rightarrow>
          rbind (take_profit_price l s entry atr) (\<lambda>raw.
          rbind (quantize_take_profit raw (sp_tick_size spec) s) (\<lambda>price.
          rbind (guard_exn (price \<le> 0) TrailingNotSupportedError ''take profit must be > 0'') (\<lambda>_.
          rbind (validate_level_direction s ROLE_TAKE_PROFIT price entry) (\<lambda>_.
          Inr (Some price))))))"

definition trigger :: "decimal \<Rightarrow> tpsl" where
  "trigger p = \<lparr>tp_trigger = p, tp_limit = None\<rparr>"

definition modify_protection ::
    "'v tenv \<Rightarrow> instrument \<Rightarrow> string \<Rightarrow> decimal option \<Rightarrow> decimal option \<Rightarrow> trailing_basis option
     \<Rightarrow> ('v, unit) top" where
  \<comment> \<open>each level becomes an attachment, whose constructor refuses a price that is not positive\<close>
  "modify_protection env i pid tp sl basis =
     ebind (elift (case tp of None \<Rightarrow> Inr None | Some p \<Rightarrow> rbind (tpsl_post_init (trigger p)) (\<lambda>a. Inr (Some a)))) (\<lambda>tpa.
     ebind (elift (case sl of None \<Rightarrow> Inr None | Some p \<Rightarrow> rbind (tpsl_post_init (trigger p)) (\<lambda>a. Inr (Some a)))) (\<lambda>sla.
     venue (ad_modify_tpsl (te_adapter env) i pid tpa sla basis)))"

definition native_request_of :: "trailing_state \<Rightarrow> position \<Rightarrow> native_request result" where
  "native_request_of t leg =
     rbind (case ts_activation_price t of
              Some p \<Rightarrow> Inr (Some p)
            | None \<Rightarrow> resolve_activation_price (ts_spec t) (ts_side t) (po_entry leg)) (\<lambda>ap.
     Inr \<lparr>nr_instrument = ts_instrument t, nr_position_id = ts_position_id t, nr_side = ts_side t,
          nr_quantity = dabs (po_quantity leg), nr_offset = tq_offset (ts_spec t),
          nr_offset_type = tq_offset_type (ts_spec t), nr_basis = ts_basis t,
          nr_activation_price = ap, nr_client_id = ts_id t\<rparr>)"

subsection \<open>Failures and degradation\<close>

definition degrade_attach :: "'v tenv \<Rightarrow> trailing_state \<Rightarrow> string \<Rightarrow> ('v, trailing_state) top" where
  "degrade_attach env t reason =
     ebind (clock env) (\<lambda>now.
     let d = t\<lparr>ts_phase := DEGRADED, ts_error := Some reason, ts_failures := ts_failures t + 1,
               ts_updated_at := now\<rparr> in
     ebind (save d) (\<lambda>_.
     ebind (publish_state env d (ts_phase t) (Some reason)) (\<lambda>_.
     ebind (audit env ''trailing.degraded'' d (ts_prev_stop t) (ts_stop d) (Some reason) []) (\<lambda>_.
     eret d))))"

definition attach_failed :: "'v tenv \<Rightarrow> trailing_state \<Rightarrow> exn \<Rightarrow> ('v, unit) top" where
  "attach_failed env t e =
     ebind (clock env) (\<lambda>now.
     let f = t\<lparr>ts_phase := FAILED, ts_error := Some (exn_text e), ts_failures := ts_failures t + 1,
               ts_updated_at := now\<rparr> in
     ebind (save f) (\<lambda>_.
     ebind (publish_state env f ARMING (Some (exn_text e))) (\<lambda>_.
     audit env ''trailing.failed'' f (ts_prev_stop t) None (Some (exn_text e)) [])))"

definition record_fetch_failure :: "'v tenv \<Rightarrow> trailing_state \<Rightarrow> string \<Rightarrow> ('v, trailing_state) top" where
  "record_fetch_failure env t reason =
     ebind (eget (\<lambda>w. (case dict_get (tw_fetch_failures w) (ts_id t) of None \<Rightarrow> 0 | Some n \<Rightarrow> n) + 1)) (\<lambda>count.
     ebind (eupd (\<lambda>w. w\<lparr>tw_fetch_failures := dict_set (ts_id t) count (tw_fetch_failures w)\<rparr>)) (\<lambda>_.
     if count < tc_fetch_threshold (te_config env) then eret t
     else if ts_phase t = DEGRADED then eret t
     else
       ebind (clock env) (\<lambda>now.
       let d = t\<lparr>ts_phase := DEGRADED, ts_error := Some (FETCH_PREFIX @ reason), ts_updated_at := now\<rparr> in
       ebind (save d) (\<lambda>_.
       ebind (publish_state env d (ts_phase t) (Some reason)) (\<lambda>_.
       ebind (audit env ''trailing.degraded'' d (ts_stop t) (ts_stop t) (Some reason) []) (\<lambda>_.
       eret d))))))"

definition record_protection_failure :: "'v tenv \<Rightarrow> trailing_state \<Rightarrow> string \<Rightarrow> ('v, trailing_state) top" where
  "record_protection_failure env t reason =
     ebind (clock env) (\<lambda>now.
     let t1 = t\<lparr>ts_failures := ts_failures t + 1, ts_error := Some (PROTECTION_PREFIX @ reason),
                ts_updated_at := now\<rparr> in
     if ts_phase t \<noteq> DEGRADED \<and> ts_failures t + 1 < tc_protection_threshold (te_config env)
     then ebind (save t1) (\<lambda>_. eret t1)
     else if ts_phase t \<noteq> DEGRADED then
       ebind (elift (ensure_transition_allowed (ts_phase t) DEGRADED)) (\<lambda>_.
       let d = t1\<lparr>ts_phase := DEGRADED\<rparr> in
       ebind (save d) (\<lambda>_.
       ebind (publish_state env d (ts_phase t) (Some reason)) (\<lambda>_.
       ebind (audit env ''trailing.degraded'' d (ts_stop t) (ts_stop t) (Some reason) []) (\<lambda>_.
       eret d))))
     else ebind (save t1) (\<lambda>_. eret t1))"

definition degrade_now :: "'v tenv \<Rightarrow> trailing_state \<Rightarrow> string \<Rightarrow> ('v, trailing_state) top" where
  "degrade_now env t reason =
     ebind (elift (if ts_phase t \<noteq> DEGRADED then ensure_transition_allowed (ts_phase t) DEGRADED
                   else Inr ())) (\<lambda>_.
     ebind (clock env) (\<lambda>now.
     let d = t\<lparr>ts_phase := DEGRADED, ts_failures := ts_failures t + 1,
               ts_error := Some (PROTECTION_PREFIX @ reason), ts_updated_at := now\<rparr> in
     ebind (save d) (\<lambda>_.
     ebind (ewhen (ts_phase t \<noteq> DEGRADED)
       (ebind (publish_state env d (ts_phase t) (Some reason)) (\<lambda>_.
        audit env ''trailing.degraded'' d (ts_stop t) (ts_stop t) (Some reason) []))) (\<lambda>_.
     eret d))))"

definition protection_confirmed ::
    "trailing_state \<Rightarrow> decimal option \<Rightarrow> decimal option \<Rightarrow> instant \<Rightarrow> trailing_state \<times> bool" where
  "protection_confirmed t stop tp now =
     (let had = error_has PROTECTION_PREFIX t; recovered = (ts_phase t = DEGRADED \<and> had)
      in (t\<lparr>ts_phase := (if recovered then ARMED else ts_phase t),
            ts_stop := (if stop \<noteq> None then stop else ts_stop t),
            ts_take_profit := (if tp \<noteq> None then tp else ts_take_profit t),
            ts_failures := 0, ts_error := (if had then None else ts_error t), ts_updated_at := now\<rparr>,
          recovered))"

subsection \<open>Confirmation\<close>

text \<open>Two attempts to read back what was written; each records why it did not match.\<close>

definition read_levels :: "'v tenv \<Rightarrow> trailing_state \<Rightarrow> ('v, (tpsl option \<times> tpsl option) option result) top" where
  "read_levels env t = eattempt (venue (ad_get_tpsl (te_adapter env) (ts_instrument t) (ts_position_id t)))"

fun confirm_levels_loop ::
    "nat \<Rightarrow> 'v tenv \<Rightarrow> trailing_state \<Rightarrow> decimal option \<Rightarrow> decimal option \<Rightarrow> decimal \<Rightarrow> string option
     \<Rightarrow> ('v, decimal option \<times> decimal option \<times> string option) top" where
  "confirm_levels_loop 0 env t stop tp tick detail = eret (None, None, detail)"
| "confirm_levels_loop (Suc n) env t stop tp tick detail =
     ebind (read_levels env t) (\<lambda>r.
     case r of
       Inl e \<Rightarrow> confirm_levels_loop n env t stop tp tick (Some (exn_text e))
     | Inr None \<Rightarrow> confirm_levels_loop n env t stop tp tick (Some ''position protection not found'')
     | Inr (Some (atp, asl)) \<Rightarrow>
         if attachment_matches asl stop tick \<and> attachment_matches atp tp tick
         then eret (if stop \<noteq> None then map_option tp_trigger asl else None,
                    if tp \<noteq> None then map_option tp_trigger atp else None, None)
         else confirm_levels_loop n env t stop tp tick (Some ''levels differ from the expected ones''))"

definition confirm_levels ::
    "'v tenv \<Rightarrow> trailing_state \<Rightarrow> decimal option \<Rightarrow> decimal option \<Rightarrow> decimal
     \<Rightarrow> ('v, decimal option \<times> decimal option \<times> string option) top" where
  "confirm_levels env t stop tp tick = confirm_levels_loop 2 env t stop tp tick None"

fun confirm_stop_loop ::
    "nat \<Rightarrow> 'v tenv \<Rightarrow> trailing_state \<Rightarrow> decimal \<Rightarrow> decimal \<Rightarrow> string option
     \<Rightarrow> ('v, decimal option \<times> string option) top" where
  "confirm_stop_loop 0 env t expected tick detail = eret (None, detail)"
| "confirm_stop_loop (Suc n) env t expected tick detail =
     ebind (read_levels env t) (\<lambda>r.
     case r of
       Inl e \<Rightarrow> confirm_stop_loop n env t expected tick (Some (exn_text e))
     | Inr None \<Rightarrow> confirm_stop_loop n env t expected tick (Some ''position protection not found'')
     | Inr (Some (_, asl)) \<Rightarrow>
         (case asl of
            Some a \<Rightarrow>
              if dabs (dsub (tp_trigger a) expected) \<le> tick then eret (Some (tp_trigger a), None)
              else confirm_stop_loop n env t expected tick (Some ''expected another stop'')
          | None \<Rightarrow> confirm_stop_loop n env t expected tick (Some ''expected a stop, got none'')))"

definition confirm_stop ::
    "'v tenv \<Rightarrow> trailing_state \<Rightarrow> decimal \<Rightarrow> decimal \<Rightarrow> ('v, decimal option \<times> string option) top" where
  "confirm_stop env t expected tick = confirm_stop_loop 2 env t expected tick None"

fun confirm_protection_loop ::
    "nat \<Rightarrow> 'v tenv \<Rightarrow> trailing_state \<Rightarrow> decimal option \<Rightarrow> decimal option \<Rightarrow> decimal \<Rightarrow> exn
     \<Rightarrow> ('v, exn option) top" where
  "confirm_protection_loop 0 env t stop tp tick err = eret (Some err)"
| "confirm_protection_loop (Suc n) env t stop tp tick err =
     ebind (read_levels env t) (\<lambda>r.
     case r of
       Inl e \<Rightarrow> confirm_protection_loop n env t stop tp tick e
     | Inr levels \<Rightarrow>
         (if (case levels of None \<Rightarrow> False
              | Some (atp, asl) \<Rightarrow> attachment_matches asl stop tick \<and> attachment_matches atp tp tick)
          then eret None
          else confirm_protection_loop n env t stop tp tick
                 (Exn TrailingStateError ''the venue did not confirm the requested protection'')))"

definition confirm_protection ::
    "'v tenv \<Rightarrow> trailing_state \<Rightarrow> decimal option \<Rightarrow> decimal option \<Rightarrow> decimal \<Rightarrow> ('v, unit) top" where
  "confirm_protection env t stop tp tick =
     ebind (confirm_protection_loop 2 env t stop tp tick (Exn TrailingStateError ''confirmation mismatch'')) (\<lambda>r.
     case r of
       None \<Rightarrow> eret ()
     | Some e \<Rightarrow>
         ebind (degrade_now env t (exn_msg e)) (\<lambda>_.
         eraise TrailingStateError (''could not confirm protection: '' @ exn_msg e)))"

subsection \<open>Clearing and closing\<close>

definition join_notes :: "string list \<Rightarrow> string option" where
  \<comment> \<open>\<^verbatim>\<open>", ".join(dict.fromkeys(notes)) or None\<close>\<close>
  "join_notes notes = (let j = join_comma (dedupe notes) in if j = [] then None else Some j)"

definition side_matches :: "tpsl option \<Rightarrow> decimal option \<Rightarrow> bool" where
  "side_matches actual expected =
     (case actual of None \<Rightarrow> True
      | Some a \<Rightarrow> (case expected of None \<Rightarrow> False | Some x \<Rightarrow> tp_trigger a = x))"

definition clear_owned_protection :: "'v tenv \<Rightarrow> trailing_state \<Rightarrow> ('v, string option \<times> bool) top" where
  "clear_owned_protection env t =
     (if \<not> ts_stop_owned t \<and> \<not> ts_tp_owned t then eret (None, False)
      else
        ebind (may_reduce (ts_instrument t)) (\<lambda>ok.
        if \<not> ok then eret (Some ''halted: protection left in place'', False)
        else
          ebind (read_levels env t) (\<lambda>r.
          case r of
            Inl e \<Rightarrow> eret (Some (exn_text e), False)
          | Inr levels \<Rightarrow>
              (case (case levels of None \<Rightarrow> (None, None) | Some p \<Rightarrow> p) of (atp, asl) \<Rightarrow>
               let clear_tp = (ts_tp_owned t \<and> side_matches atp (ts_take_profit t));
                   clear_sl = (ts_stop_owned t \<and> side_matches asl (ts_stop t));
                   note = join_notes
                     ((if ts_tp_owned t \<and> \<not> side_matches atp (ts_take_profit t)
                       then [''protection_changed_externally''] else [])
                      @ (if ts_stop_owned t \<and> \<not> side_matches asl (ts_stop t)
                         then [''protection_changed_externally''] else []))
               in if \<not> clear_tp \<and> \<not> clear_sl then eret (note, False)
                  else
                    ebind (reserve env) (\<lambda>go.
                    if \<not> go then eret (Some ''rate limit budget exhausted; protection left in place'', False)
                    else
                      ebind (eattempt (venue (ad_clear_tpsl (te_adapter env) (ts_instrument t)
                               (ts_position_id t) clear_tp clear_sl))) (\<lambda>c.
                      case c of
                        Inl e \<Rightarrow> eret (Some (exn_text e), False)
                      | Inr _ \<Rightarrow> eret (note, True)))))))"

definition cancel_native_trail :: "'v tenv \<Rightarrow> trailing_state \<Rightarrow> ('v, string option \<times> bool) top" where
  "cancel_native_trail env t =
     (case ts_native_id t of
        None \<Rightarrow> eret (None, False)
      | Some nid \<Rightarrow>
          if ts_mode t \<noteq> TM_NATIVE then eret (None, False)
          else
            ebind (may_reduce (ts_instrument t)) (\<lambda>ok.
            if \<not> ok then eret (Some ''halted: native trail left in place'', False)
            else
              ebind (reserve env) (\<lambda>go.
              if \<not> go then eret (Some ''rate limit budget exhausted; native trail left in place'', False)
              else
                ebind (eattempt (ebind (venue (ad_cancel_trailing (te_adapter env) nid (ts_instrument t))) (\<lambda>_.
                         venue (ad_get_trailing (te_adapter env) nid (ts_instrument t))))) (\<lambda>r.
                case r of
                  Inl e \<Rightarrow> eret (Some (exn_text e), False)
                | Inr remaining \<Rightarrow>
                    if remaining \<noteq> None then eret (Some ''native trailing stop still present after cancel'', False)
                    else eret (None, True)))))"

definition clear_for_replacement ::
    "'v tenv \<Rightarrow> trailing_state \<Rightarrow> bool \<Rightarrow> ('v, string option \<times> bool) top" where
  "clear_for_replacement env t static =
     ebind (if ts_mode t = TM_NATIVE then cancel_native_trail env t else eret (None, False)) (\<lambda>nat_res.
     ebind (if static \<and> (ts_stop_owned t \<or> ts_tp_owned t) then clear_owned_protection env t
            else eret (None, False)) (\<lambda>stat_res.
     eret (join_notes ((case fst nat_res of None \<Rightarrow> [] | Some n \<Rightarrow> [n])
                       @ (case fst stat_res of None \<Rightarrow> [] | Some n \<Rightarrow> [n])),
           snd nat_res \<or> snd stat_res)))"

definition or_text :: "string option \<Rightarrow> string \<Rightarrow> string" where
  \<comment> \<open>\<^verbatim>\<open>x or default\<close> for an optional text: an empty text is falsy\<close>
  "or_text x d = (case x of None \<Rightarrow> d | Some s \<Rightarrow> if s = [] then d else s)"

definition complete_position_close ::
    "'v tenv \<Rightarrow> trailing_state \<Rightarrow> string \<Rightarrow> instant \<Rightarrow> ('v, trailing_state) top" where
  "complete_position_close env t reason now =
     ebind (clear_owned_protection env t) (\<lambda>(note, cleared).
     if note \<noteq> None \<and> \<not> cleared \<and> note \<noteq> Some ''protection_changed_externally'' then
       ebind (elift (ensure_transition_allowed (ts_phase t) FAILED)) (\<lambda>_.
       let f = t\<lparr>ts_phase := FAILED, ts_quantity := 0, ts_error := note,
                 ts_failures := ts_failures t + 1, ts_updated_at := now\<rparr> in
       ebind (save f) (\<lambda>_.
       ebind (publish_state env f (ts_phase t) (Some reason)) (\<lambda>_.
       ebind (audit env ''trailing.failed'' f (ts_stop t) (ts_stop f) note []) (\<lambda>_.
       eret f))))
     else
       ebind (elift (ensure_transition_allowed (ts_phase t) DONE)) (\<lambda>_.
       let d = t\<lparr>ts_phase := DONE, ts_quantity := 0, ts_error := note, ts_updated_at := now\<rparr> in
       ebind (save d) (\<lambda>_.
       ebind (publish_state env d (ts_phase t) (Some reason)) (\<lambda>_.
       ebind (audit env ''trailing.done'' d (ts_stop t) (ts_stop d) (Some reason) []) (\<lambda>_.
       ebind (ewhen cleared
         (audit env ''trailing.clear'' d (ts_stop t) (ts_stop d) (Some (or_text note ''cleared'')) [])) (\<lambda>_.
       eret d))))))"

end
