(* ===== verification/UTE_Trailing_Handlers.thy ===== *)
theory UTE_Trailing_Handlers
  imports UTE_Trailing_World
begin

text \<open>
  The handlers of the trailing manager that the worker and the engine call while a state is live:
  tickers and their failures, ATR refreshes, position updates, the integrity check, cancellation,
  and the classification of fills (\<^verbatim>\<open>on_ticker\<close> to \<^verbatim>\<open>integrity_pass\<close>, \<^verbatim>\<open>cancel\<close> and \<^verbatim>\<open>classify_fill\<close>
  in \<^verbatim>\<open>core/trailing/manager.py\<close>).
\<close>

subsection \<open>Tickers\<close>

definition recover_fetch_degraded :: "'v tenv \<Rightarrow> trailing_state \<Rightarrow> instant \<Rightarrow> ('v, trailing_state) top" where
  "recover_fetch_degraded env t now =
     (if ts_phase t \<noteq> DEGRADED then eret t
      else if \<not> error_has FETCH_PREFIX t then eret t
      else
        let r = t\<lparr>ts_phase := ARMED, ts_error := None, ts_updated_at := now\<rparr> in
        ebind (save r) (\<lambda>_.
        ebind (publish_state env r DEGRADED (Some ''ticker_recovered'')) (\<lambda>_.
        ebind (audit env ''trailing.recovered'' r (ts_stop r) (ts_stop r) (Some ''ticker_recovered'') []) (\<lambda>_.
        eret r))))"

definition audit_gap :: "'v tenv \<Rightarrow> bool \<Rightarrow> trailing_state \<Rightarrow> decimal option \<Rightarrow> decimal option \<Rightarrow> string \<Rightarrow> ('v, unit) top" where
  "audit_gap env gap t prev cur reason =
     ewhen gap (audit env ''trailing.reprice_gap'' t prev cur (Some reason) [])"

definition candidate_level :: "trailing_state \<Rightarrow> decimal \<Rightarrow> decimal option \<Rightarrow> decimal \<Rightarrow> decimal result" where
  "candidate_level t best atr tick =
     rbind (candidate_stop (ts_side t) best (ts_spec t) atr) (\<lambda>c. quantize_stop c tick (ts_side t))"

text \<open>The venue write of a reprice, its confirmation, and what is persisted after it.\<close>

definition reprice ::
    "'v tenv \<Rightarrow> trailing_state \<Rightarrow> decimal option \<Rightarrow> instrument_spec \<Rightarrow> decimal \<Rightarrow> instant
     \<Rightarrow> ('v, trailing_state) top" where
  "reprice env t act_price spec candidate now =
     (let cap = ad_protection_cap (te_adapter env) (ts_instrument t);
          att = t\<lparr>ts_last_reprice := Some now, ts_updated_at := now\<rparr> in
      ebind (audit_gap env (pc_reprice_gap cap) att (ts_stop t) (ts_stop t) ''gap_start'') (\<lambda>_.
      ebind (eattempt (modify_protection env (ts_instrument t) (ts_position_id t) None (Some candidate)
               (ts_trigger_basis t))) (\<lambda>wr.
      case wr of
        Inl e \<Rightarrow>
          ebind (audit_gap env (pc_reprice_gap cap) att (ts_stop t) (ts_stop t) ''gap_end_failed'') (\<lambda>_.
          record_protection_failure env att (''write: '' @ exn_text e))
      | Inr _ \<Rightarrow>
          ebind (confirm_stop env att candidate (sp_tick_size spec)) (\<lambda>(confirmed, err).
          case confirmed of
            None \<Rightarrow>
              ebind (audit_gap env (pc_reprice_gap cap) att (ts_stop att) (ts_stop att) ''gap_end_failed'') (\<lambda>_.
              record_protection_failure env att (''confirm: '' @ or_text err ''mismatch''))
          | Some c \<Rightarrow>
              let fin = att\<lparr>ts_phase := (if error_has PROTECTION_PREFIX att then ARMED else ts_phase att),
                            ts_stop := Some c, ts_activation_price := act_price, ts_activated := True,
                            ts_stop_owned := True, ts_reprices := ts_reprices att + 1,
                            ts_failures := 0, ts_error := None, ts_updated_at := now\<rparr> in
              ebind (save fin) (\<lambda>_.
              ebind (publish_state env fin (ts_phase t) (Some ''repriced'')) (\<lambda>_.
              ebind (audit_gap env (pc_reprice_gap cap) fin (ts_stop t) (ts_stop fin) ''gap_end'') (\<lambda>_.
              ebind (audit env ''trailing.reprice'' fin (ts_stop t) (ts_stop fin) (Some ''repriced'') []) (\<lambda>_.
              eret fin))))))))"

text \<open>Everything after the activation check: the candidate and the conditions for sending it.\<close>

definition try_reprice ::
    "'v tenv \<Rightarrow> trailing_state \<Rightarrow> decimal \<Rightarrow> decimal \<Rightarrow> decimal option \<Rightarrow> instant \<Rightarrow> ('v, trailing_state) top" where
  "try_reprice env t best basis act_price now =
     ebind (cached_spec env (ts_instrument t)) (\<lambda>spec.
     case candidate_level t best (ts_atr t) (sp_tick_size spec) of
       Inl e \<Rightarrow> record_protection_failure env t (''candidate: '' @ exn_text e)
     | Inr candidate \<Rightarrow>
         if candidate \<le> 0 then eret t
         else if \<not> respects_min_stop_distance (ts_side t) candidate basis (sp_min_stop_distance spec) then eret t
         else if \<not> ratchet_accepts (ts_side t) (ts_stop t) candidate (tq_step (ts_spec t)) then eret t
         else if (case ts_last_reprice t of None \<Rightarrow> False
                  | Some r \<Rightarrow> of_int (now - r) / 1000000
                      < pc_min_interval (ad_protection_cap (te_adapter env) (ts_instrument t))) then eret t
         else
           ebind (may_reduce (ts_instrument t)) (\<lambda>ok.
           if \<not> ok then eret t
           else
             ebind (reserve env) (\<lambda>go.
             if \<not> go then eret t else reprice env t act_price spec candidate now)))"

definition track_best :: "trailing_state \<Rightarrow> decimal \<Rightarrow> instant \<Rightarrow> ('v, trailing_state) top" where
  "track_best t basis now =
     (let best = update_best_basis (ts_side t) (ts_best t) basis in
      if Some best \<noteq> ts_best t then
        let u = t\<lparr>ts_best := Some best, ts_updated_at := now\<rparr> in ebind (save u) (\<lambda>_. eret u)
      else eret t)"

definition track_activation :: "trailing_state \<Rightarrow> instant \<Rightarrow> ('v, trailing_state) top" where
  "track_activation t now =
     ebind (elift (resolve_activation_price (ts_spec t) (ts_side t) (ts_entry t))) (\<lambda>ap.
     if ap \<noteq> ts_activation_price t then
       let u = t\<lparr>ts_activation_price := ap, ts_updated_at := now\<rparr> in ebind (save u) (\<lambda>_. eret u)
     else eret t)"

definition apply_ticker :: "'v tenv \<Rightarrow> trailing_state \<Rightarrow> decimal \<Rightarrow> instant \<Rightarrow> ('v, trailing_state) top" where
  "apply_ticker env t0 basis now =
     ebind (recover_fetch_degraded env t0 now) (\<lambda>t1.
     ebind (track_best t1 basis now) (\<lambda>t2.
     ebind (track_activation t2 now) (\<lambda>t.
     if \<not> is_activation_reached (ts_side t) basis (ts_activation_price t) then eret t
     else if \<not> ts_activated t \<and> ts_stop t \<noteq> None then
       let u = t\<lparr>ts_activated := True, ts_updated_at := now\<rparr> in
       ebind (save u) (\<lambda>_.
       ebind (publish_state env u (ts_phase t) (Some ''activated'')) (\<lambda>_.
       ebind (audit env ''trailing.activated'' u (ts_stop u) (ts_stop u) (Some ''activation_reached'') []) (\<lambda>_.
       eret u)))
     else try_reprice env t (update_best_basis (ts_side t1) (ts_best t1) basis) basis (ts_activation_price t) now)))"

definition on_ticker :: "'v tenv \<Rightarrow> string \<Rightarrow> ticker \<Rightarrow> ('v, trailing_state option) top" where
  "on_ticker env tid tk =
     ebind (require_ready env) (\<lambda>_.
     ebind (load tid) (\<lambda>row.
     case row of
       None \<Rightarrow> eret None
     | Some t \<Rightarrow>
         if ts_mode t \<noteq> TM_SYNTHETIC then eret (Some t)
         else if ts_phase t \<notin> {ARMED, DEGRADED} then eret (Some t)
         else
           (case (case ts_basis t of None \<Rightarrow> None | Some b \<Rightarrow> basis_price tk b) of
              None \<Rightarrow>
                ebind (record_fetch_failure env t ''ticker has no price of the resolved basis'') (\<lambda>_.
                load tid)
            | Some basis \<Rightarrow>
                ebind (eupd (\<lambda>w. w\<lparr>tw_fetch_failures := dict_set tid 0 (tw_fetch_failures w)\<rparr>)) (\<lambda>_.
                ebind (clock env) (\<lambda>now.
                ebind (apply_ticker env t basis now) (\<lambda>u. eret (Some u)))))))"

definition on_ticker_failure :: "'v tenv \<Rightarrow> string \<Rightarrow> string \<Rightarrow> ('v, trailing_state option) top" where
  "on_ticker_failure env tid reason =
     ebind (require_ready env) (\<lambda>_.
     ebind (load tid) (\<lambda>row.
     case row of
       None \<Rightarrow> eret None
     | Some t \<Rightarrow>
         if ts_mode t \<noteq> TM_SYNTHETIC then eret (Some t)
         else if ts_phase t \<notin> {ARMED, DEGRADED} then eret (Some t)
         else ebind (record_fetch_failure env t reason) (\<lambda>u. eret (Some u))))"

subsection \<open>ATR refreshes\<close>

definition on_atr :: "'v tenv \<Rightarrow> string \<Rightarrow> decimal \<Rightarrow> instant \<Rightarrow> ('v, trailing_state option) top" where
  "on_atr env tid atr as_of =
     ebind (require_ready env) (\<lambda>_.
     ebind (load tid) (\<lambda>row.
     case row of
       None \<Rightarrow> eret None
     | Some t \<Rightarrow>
         if ts_mode t \<noteq> TM_SYNTHETIC then eret (Some t)
         else if \<not> uses_atr (ts_spec t) then eret (Some t)
         else if ts_phase t \<notin> {ARMED, DEGRADED} then eret (Some t)
         else
           ebind (eupd (\<lambda>w. w\<lparr>tw_atr_failures := dict_set tid 0 (tw_atr_failures w)\<rparr>)) (\<lambda>_.
           let recover = (ts_phase t = DEGRADED \<and> error_has ATR_PREFIX t) in
           ebind (clock env) (\<lambda>now.
           let u = t\<lparr>ts_phase := (if recover then ARMED else ts_phase t), ts_atr := Some atr,
                     ts_atr_as_of := Some as_of, ts_error := (if recover then None else ts_error t),
                     ts_updated_at := now\<rparr> in
           ebind (save u) (\<lambda>_.
           ebind (ewhen recover
             (ebind (publish_state env u DEGRADED (Some ''atr_refreshed'')) (\<lambda>_.
              audit env ''trailing.recovered'' u (ts_stop u) (ts_stop u) (Some ''atr_refreshed'') []))) (\<lambda>_.
           eret (Some u)))))))"

definition on_atr_failure :: "'v tenv \<Rightarrow> string \<Rightarrow> string \<Rightarrow> ('v, trailing_state option) top" where
  "on_atr_failure env tid reason =
     ebind (require_ready env) (\<lambda>_.
     ebind (load tid) (\<lambda>row.
     case row of
       None \<Rightarrow> eret None
     | Some t \<Rightarrow>
         if ts_mode t \<noteq> TM_SYNTHETIC then eret (Some t)
         else if \<not> uses_atr (ts_spec t) then eret (Some t)
         else if ts_phase t \<notin> {ARMED, DEGRADED} then eret (Some t)
         else
           ebind (eget (\<lambda>w. (case dict_get (tw_atr_failures w) tid of None \<Rightarrow> 0 | Some n \<Rightarrow> n) + 1)) (\<lambda>count.
           ebind (eupd (\<lambda>w. w\<lparr>tw_atr_failures := dict_set tid count (tw_atr_failures w)\<rparr>)) (\<lambda>_.
           if count < tc_stale_candles (te_config env) then eret (Some t)
           else if ts_phase t = DEGRADED \<and> \<not> error_has ATR_PREFIX t then eret (Some t)
           else
             ebind (clock env) (\<lambda>now.
             if ts_phase t = DEGRADED then
               let u = t\<lparr>ts_error := Some (ATR_PREFIX @ reason), ts_updated_at := now\<rparr> in
               ebind (save u) (\<lambda>_. eret (Some u))
             else
               let d = t\<lparr>ts_phase := DEGRADED, ts_error := Some (ATR_PREFIX @ reason), ts_updated_at := now\<rparr> in
               ebind (save d) (\<lambda>_.
               ebind (publish_state env d (ts_phase t) (Some ''atr_stale'')) (\<lambda>_.
               ebind (audit env ''trailing.degraded'' d (ts_stop t) (ts_stop t) (Some ''atr_stale'') []) (\<lambda>_.
               eret (Some d)))))))))"

subsection \<open>Position updates\<close>

definition resize_required :: "'v tenv \<Rightarrow> trailing_state \<Rightarrow> bool" where
  "resize_required env t \<longleftrightarrow> (ts_stop_owned t \<or> ts_tp_owned t)
     \<and> pc_reprice_gap (ad_protection_cap (te_adapter env) (ts_instrument t))"

definition resize_protection :: "'v tenv \<Rightarrow> trailing_state \<Rightarrow> ('v, trailing_state) top" where
  "resize_protection env t =
     (let stop = (if ts_stop_owned t then ts_stop t else None);
          tp = (if ts_tp_owned t then ts_take_profit t else None) in
      if stop = None \<and> tp = None then eret t
      else
        ebind (may_reduce (ts_instrument t)) (\<lambda>ok.
        if \<not> ok then degrade_now env t ''halted: protection not resized''
        else
          ebind (reserve env) (\<lambda>go.
          if \<not> go then degrade_now env t ''rate limit budget exhausted: protection not resized''
          else
            ebind (eattempt (modify_protection env (ts_instrument t) (ts_position_id t) tp stop
                     (ts_trigger_basis t))) (\<lambda>wr.
            case wr of
              Inl e \<Rightarrow> degrade_now env t (''resize: '' @ exn_text e)
            | Inr _ \<Rightarrow>
                ebind (cached_spec env (ts_instrument t)) (\<lambda>spec.
                ebind (confirm_levels env t stop tp (sp_tick_size spec)) (\<lambda>(cstop, ctp, detail).
                case detail of
                  Some d \<Rightarrow> degrade_now env t (''resize confirm: '' @ d)
                | None \<Rightarrow>
                    ebind (clock env) (\<lambda>now.
                    case protection_confirmed t cstop ctp now of (fin, recovered) \<Rightarrow>
                    ebind (save fin) (\<lambda>_.
                    ebind (ewhen recovered (publish_state env fin DEGRADED (Some ''quantity_change''))) (\<lambda>_.
                    ebind (audit env ''trailing.reprice'' fin (ts_stop t) (ts_stop fin)
                             (Some ''quantity_change'') []) (\<lambda>_.
                    eret fin))))))))))"

definition apply_position ::
    "'v tenv \<Rightarrow> trailing_state \<Rightarrow> position \<Rightarrow> instant \<Rightarrow> ('v, trailing_state) top" where
  "apply_position env t pos now =
     (if po_quantity pos = 0 then complete_position_close env t ''position_closed'' now
      else if leg_side pos \<noteq> ts_side t then
        ebind (clear_for_replacement env t True) (\<lambda>(note, cleared).
        let c = t\<lparr>ts_phase := TR_CANCELLED, ts_error := note, ts_updated_at := now\<rparr> in
        ebind (save c) (\<lambda>_.
        ebind (publish_state env c (ts_phase t) (Some ''position_side_flipped'')) (\<lambda>_.
        ebind (audit env ''trailing.cancelled'' c (ts_stop t) (ts_stop c) (Some ''position_side_flipped'') []) (\<lambda>_.
        ebind (ewhen cleared
          (audit env ''trailing.clear'' c (ts_stop t) (ts_stop c) (Some (or_text note ''cleared'')) [])) (\<lambda>_.
        eret c)))))
      else
        let qty = dabs (po_quantity pos) in
        ebind (if ts_quantity t < qty then
                 ebind (elift (resolve_activation_price (ts_spec t) (ts_side t) (po_entry pos))) (\<lambda>ap.
                 eret (t\<lparr>ts_quantity := qty, ts_entry := po_entry pos, ts_activation_price := ap,
                         ts_updated_at := now\<rparr>))
               else eret (t\<lparr>ts_quantity := qty, ts_updated_at := now\<rparr>)) (\<lambda>u.
        ebind (save u) (\<lambda>_.
        if qty \<noteq> ts_quantity t \<and> ts_mode u = TM_SYNTHETIC \<and> resize_required env u
        then resize_protection env u else eret u)))"

definition on_position_update :: "'v tenv \<Rightarrow> position \<Rightarrow> ('v, trailing_state option) top" where
  "on_position_update env pos =
     ebind (require_ready env) (\<lambda>_.
     case po_id pos of
       None \<Rightarrow> eret None
     | Some pid \<Rightarrow>
         ebind (in_store (list_trailing_states (Some (po_instrument pos)) (Some ACTIVE_TRAILING_PHASES))) (\<lambda>states.
         case List.find (\<lambda>t. ts_position_id t = pid) states of
           None \<Rightarrow> eret None
         | Some m \<Rightarrow>
             ebind (load (ts_id m)) (\<lambda>row.
             case row of
               None \<Rightarrow> eret None
             | Some t \<Rightarrow>
                 if ts_phase t \<notin> ACTIVE_TRAILING_PHASES then eret (Some t)
                 else
                   ebind (clock env) (\<lambda>now.
                   ebind (apply_position env t pos now) (\<lambda>u. eret (Some u))))))"

subsection \<open>Cancellation\<close>

definition cancel_state :: "'v tenv \<Rightarrow> string \<Rightarrow> bool \<Rightarrow> string option \<Rightarrow> ('v, trailing_state) top" where
  "cancel_state env tid clear_protection reason =
     ebind (require_ready env) (\<lambda>_.
     ebind (load tid) (\<lambda>row.
     case row of
       None \<Rightarrow> eraise TrailingStateError ''unknown trailing state''
     | Some t \<Rightarrow>
         ebind (elift (ensure_transition_allowed (ts_phase t) TR_CANCELLED)) (\<lambda>_.
         ebind (clear_for_replacement env t clear_protection) (\<lambda>(note, cleared).
         ebind (clock env) (\<lambda>now.
         let u = t\<lparr>ts_phase := TR_CANCELLED,
                   ts_error := (if note \<noteq> None then note else if reason \<noteq> None then reason else ts_error t),
                   ts_updated_at := now\<rparr>;
             why = or_text note (or_text reason ''cancelled'') in
         ebind (save u) (\<lambda>_.
         ebind (publish_state env u (ts_phase t) (Some why)) (\<lambda>_.
         ebind (audit env ''trailing.cancelled'' u (ts_stop t) (ts_stop u) (Some why) []) (\<lambda>_.
         ebind (ewhen cleared
           (audit env ''trailing.clear'' u (ts_stop t) (ts_stop u) (Some (or_text note ''cleared'')) [])) (\<lambda>_.
         eret u)))))))))"

subsection \<open>Reads and fills\<close>

definition get_state :: "'v tenv \<Rightarrow> string \<Rightarrow> ('v, trailing_state option) top" where
  "get_state env tid = ebind (require_ready env) (\<lambda>_. load tid)"

definition list_states :: "'v tenv \<Rightarrow> instrument option \<Rightarrow> bool \<Rightarrow> ('v, trailing_state list) top" where
  "list_states env i active_only =
     ebind (require_ready env) (\<lambda>_.
     in_store (list_trailing_states i (if active_only then Some ACTIVE_TRAILING_PHASES else None)))"

definition trailing_exit_of :: "fill_record \<Rightarrow> trailing_state \<Rightarrow> bool" where
  \<comment> \<open>the fill is the exit of this synthetic state's stop\<close>
  "trailing_exit_of f t \<longleftrightarrow>
     ts_mode t = TM_SYNTHETIC \<and> ts_stop_owned t
     \<and> fill_matches_position (fl_position_id f) (ts_position_id t)
     \<and> ts_created_at t \<le> fl_timestamp f
     \<and> (ts_phase t = DONE \<longrightarrow> \<bar>fl_timestamp f - ts_updated_at t\<bar> \<le> 120000000)"

definition classify_fill :: "fill_record \<Rightarrow> ('v, fill_record) top" where
  "classify_fill f =
     (if fl_reason f \<noteq> Some FR_STOP_LOSS \<or> fl_entry f \<noteq> Some FE_OUT then eret f
      else
        ebind (in_store (list_trailing_states (Some (fl_instrument f)) (Some (ACTIVE_TRAILING_PHASES \<union> {DONE})))) (\<lambda>states.
        if list_ex (trailing_exit_of f) states then eret (f\<lparr>fl_reason := Some FR_TRAILING_STOP\<rparr>) else eret f))"

end
