(* ===== verification/UTE_Trailing_Recovery.thy ===== *)
theory UTE_Trailing_Recovery
  imports UTE_Trailing_Handlers
begin

text \<open>
  The integrity check of live states and the rehydration of persisted ones after a reconnect
  (\<^verbatim>\<open>check_integrity\<close> to \<^verbatim>\<open>integrity_pass\<close> and \<^verbatim>\<open>rehydrate\<close> to \<^verbatim>\<open>_rehydrate_degraded\<close> in
  \<^verbatim>\<open>core/trailing/manager.py\<close>). An early return in the middle of a long handler is a stage that ends
  with \<open>Inl\<close> of the state returned.
\<close>

definition stage :: "('v, trailing_state + 'a) top \<Rightarrow> ('a \<Rightarrow> ('v, trailing_state) top) \<Rightarrow> ('v, trailing_state) top" where
  "stage m f = ebind m (\<lambda>r. case r of Inl t \<Rightarrow> eret t | Inr a \<Rightarrow> f a)"

subsection \<open>Integrity of synthetic protection\<close>

text \<open>Level to write, level to adopt from the venue, reasons, and whether the protection is intact.\<close>

definition stop_plan ::
    "trailing_state \<Rightarrow> tpsl option \<Rightarrow> decimal \<Rightarrow> decimal option \<times> decimal option \<times> string list \<times> bool" where
  "stop_plan t asl tick =
     (case ts_stop t of
        None \<Rightarrow> (None, None, [], True)
      | Some x \<Rightarrow>
          (case asl of
             None \<Rightarrow> (Some x, None, [''missing_stop''], False)
           | Some a \<Rightarrow>
               if tick < dabs (dsub (tp_trigger a) x) then
                 if stop_is_tighter (ts_side t) (tp_trigger a) x
                 then (None, Some (tp_trigger a), [''adopted_tighter_stop''], True)
                 else (Some x, None, [''protection_changed_externally''], False)
               else (None, None, [], True)))"

definition tp_plan :: "trailing_state \<Rightarrow> tpsl option \<Rightarrow> decimal option \<times> string list \<times> bool" where
  "tp_plan t atp =
     (let expected = (if ts_tp_owned t then ts_take_profit t else None)
      in if expected \<noteq> None \<and> atp = None then (expected, [''missing_take_profit''], False)
         else (None, [], True))"

definition persist_confirmed ::
    "'v tenv \<Rightarrow> trailing_state \<Rightarrow> decimal option \<Rightarrow> decimal option \<Rightarrow> instant \<Rightarrow> bool \<Rightarrow> string
     \<Rightarrow> ('v, trailing_state) top" where
  \<comment> \<open>persist the confirmed levels, publish a recovery, and audit always or only on recovery\<close>
  "persist_confirmed env t stop tp now always reason =
     (case protection_confirmed t stop tp now of (fin, recovered) \<Rightarrow>
      ebind (save fin) (\<lambda>_.
      ebind (ewhen recovered (publish_state env fin DEGRADED (Some ''integrity_restore''))) (\<lambda>_.
      ebind (ewhen (always \<or> recovered)
        (audit env ''trailing.integrity_restore'' fin (ts_stop t) (ts_stop fin) (Some reason) [])) (\<lambda>_.
      eret fin))))"

definition check_synthetic_integrity :: "'v tenv \<Rightarrow> trailing_state \<Rightarrow> ('v, trailing_state) top" where
  "check_synthetic_integrity env t =
     ebind (read_levels env t) (\<lambda>r.
     case r of
       Inl e \<Rightarrow> record_protection_failure env t (''integrity read: '' @ exn_text e)
     | Inr levels \<Rightarrow>
         ebind (clock env) (\<lambda>now.
         case levels of
           None \<Rightarrow> complete_position_close env t ''position_closed'' now
         | Some (atp, asl) \<Rightarrow>
             ebind (cached_spec env (ts_instrument t)) (\<lambda>spec.
             case stop_plan t asl (sp_tick_size spec) of (wstop, adopted, sreasons, sok) \<Rightarrow>
             case tp_plan t atp of (wtp, treasons, tok) \<Rightarrow>
             let reasons = join_comma (sreasons @ treasons) in
             if wstop \<noteq> None \<or> wtp \<noteq> None then
               ebind (may_reduce (ts_instrument t)) (\<lambda>ok.
               if \<not> ok then record_protection_failure env t ''integrity: halted''
               else
                 ebind (reserve env) (\<lambda>go.
                 if \<not> go then eret t
                 else
                   ebind (eattempt (modify_protection env (ts_instrument t) (ts_position_id t) wtp wstop
                            (ts_trigger_basis t))) (\<lambda>wr.
                   case wr of
                     Inl e \<Rightarrow> record_protection_failure env t (''integrity: '' @ exn_text e)
                   | Inr _ \<Rightarrow>
                       ebind (confirm_levels env t wstop wtp (sp_tick_size spec)) (\<lambda>(cstop, ctp, detail).
                       case detail of
                         Some d \<Rightarrow> record_protection_failure env t (''integrity confirm: '' @ d)
                       | None \<Rightarrow>
                           persist_confirmed env t (if cstop \<noteq> None then cstop else adopted) ctp now True
                             reasons))))
             else if adopted \<noteq> None then persist_confirmed env t adopted None now True reasons
             else if \<not> (sok \<and> tok) then eret t
             else if \<not> error_has PROTECTION_PREFIX t \<and> ts_failures t = 0 then eret t
             else persist_confirmed env t None None now False ''protection_confirmed'')))"

subsection \<open>Integrity of native trails\<close>

definition target_phase_of :: "trailing_state \<Rightarrow> trailing_phase" where
  "target_phase_of t = (if ts_phase t = TRIGGERED then TRIGGERED else ARMED)"

definition adopt_native ::
    "'v tenv \<Rightarrow> trailing_state \<Rightarrow> native_result \<Rightarrow> instant \<Rightarrow> ('v, trailing_state) top" where
  "adopt_native env t res now =
     (let recovered = (ts_phase t = DEGRADED \<and> error_has PROTECTION_PREFIX t) in
      if \<not> recovered \<and> nt_current_stop res = ts_stop t then eret t
      else
        let fin = t\<lparr>ts_phase := (if ts_phase t = TRIGGERED then TRIGGERED
                                  else if recovered then ARMED else ts_phase t),
                    ts_stop := nt_current_stop res,
                    ts_failures := (if recovered then 0 else ts_failures t),
                    ts_error := (if recovered then None else ts_error t), ts_updated_at := now\<rparr> in
        ebind (save fin) (\<lambda>_.
        ebind (ewhen recovered
          (ebind (publish_state env fin DEGRADED (Some ''integrity_restore'')) (\<lambda>_.
           audit env ''trailing.recovered'' fin (ts_stop t) (ts_stop fin) (Some ''integrity_restore'') []))) (\<lambda>_.
        eret fin)))"

definition rearm_native ::
    "'v tenv \<Rightarrow> trailing_state \<Rightarrow> position \<Rightarrow> instant \<Rightarrow> ('v, trailing_state) top" where
  "rearm_native env t leg now =
     ebind (may_reduce (ts_instrument t)) (\<lambda>ok.
     if \<not> ok then degrade_now env t ''halted: native trail missing''
     else
       ebind (reserve env) (\<lambda>go.
       if \<not> go then eret t
       else
         ebind (eattempt (ebind (elift (native_request_of t leg)) (\<lambda>req.
                          venue (ad_place_trailing (te_adapter env) req)))) (\<lambda>r.
         case r of
           Inl e \<Rightarrow> degrade_now env t (''integrity: native rearm: '' @ exn_text e)
         | Inr res \<Rightarrow>
             let fin = t\<lparr>ts_phase := target_phase_of t, ts_native_id := Some (nt_native_id res),
                         ts_stop := nt_current_stop res, ts_activated := True, ts_failures := 0,
                         ts_error := None, ts_updated_at := now\<rparr> in
             ebind (save fin) (\<lambda>_.
             ebind (ewhen (ts_phase t \<noteq> target_phase_of t)
               (publish_state env fin (ts_phase t) (Some ''integrity_restore''))) (\<lambda>_.
             ebind (audit env ''trailing.integrity_restore'' fin (ts_stop t) (ts_stop fin)
                      (Some ''native_rearmed'') []) (\<lambda>_.
             eret fin))))))"

definition check_native_integrity :: "'v tenv \<Rightarrow> trailing_state \<Rightarrow> ('v, trailing_state) top" where
  "check_native_integrity env t =
     (if ts_phase t \<notin> {ARMED, DEGRADED, TRIGGERED} then eret t
      else
        ebind (in_store (get_positions (ts_instrument t))) (\<lambda>legs.
        ebind (clock env) (\<lambda>now.
        case open_leg (List.find (\<lambda>l. po_id l = Some (ts_position_id t)) legs) of
          None \<Rightarrow> complete_position_close env t ''position_closed'' now
        | Some leg \<Rightarrow>
            ebind (eattempt (cached_spec env (ts_instrument t))) (\<lambda>sr.
            case sr of
              Inl e \<Rightarrow> record_protection_failure env t (''integrity: instrument spec: '' @ exn_text e)
            | Inr spec \<Rightarrow>
                (case fst (recovery_identity t leg (sp_tick_size spec)) of
                   Some identity \<Rightarrow> degrade_now env t identity
                 | None \<Rightarrow>
                     (case ts_native_id t of
                        None \<Rightarrow> rearm_native env t leg now
                      | Some nid \<Rightarrow>
                          ebind (eattempt (venue (ad_get_trailing (te_adapter env) nid (ts_instrument t)))) (\<lambda>r.
                          case r of
                            Inl e \<Rightarrow> record_protection_failure env t (''integrity: native read: '' @ exn_text e)
                          | Inr None \<Rightarrow> rearm_native env t leg now
                          | Inr (Some res) \<Rightarrow> adopt_native env t res now))))))) "

definition check_integrity :: "'v tenv \<Rightarrow> string \<Rightarrow> ('v, trailing_state option) top" where
  "check_integrity env tid =
     ebind (require_ready env) (\<lambda>_.
     ebind (load tid) (\<lambda>row.
     case row of
       None \<Rightarrow> eret None
     | Some t \<Rightarrow>
         if ts_mode t = TM_NATIVE then ebind (check_native_integrity env t) (\<lambda>u. eret (Some u))
         else if ts_mode t \<noteq> TM_SYNTHETIC then eret (Some t)
         else if ts_phase t \<notin> {ARMED, DEGRADED, TRIGGERED} then eret (Some t)
         else ebind (check_synthetic_integrity env t) (\<lambda>u. eret (Some u))))"

definition integrity_pass :: "'v tenv \<Rightarrow> ('v, unit) top" where
  "integrity_pass env =
     ebind (require_ready env) (\<lambda>_.
     ebind (list_states env None True) (\<lambda>states.
     efor states (\<lambda>t. etry (ebind (check_integrity env (ts_id t)) (\<lambda>_. eret ())) (\<lambda>_. eret ()))))"

subsection \<open>Rehydration\<close>

definition rehydrate_degraded ::
    "'v tenv \<Rightarrow> trailing_state \<Rightarrow> string \<Rightarrow> instant \<Rightarrow> ('v, trailing_state) top" where
  "rehydrate_degraded env t reason now =
     ebind (elift (if ts_phase t \<noteq> DEGRADED then ensure_transition_allowed (ts_phase t) DEGRADED
                   else Inr ())) (\<lambda>_.
     let d = t\<lparr>ts_phase := DEGRADED, ts_failures := ts_failures t + 1, ts_error := Some reason,
               ts_updated_at := now\<rparr> in
     ebind (save d) (\<lambda>_.
     ebind (ewhen (ts_phase t \<noteq> DEGRADED)
       (ebind (publish_state env d (ts_phase t) (Some reason)) (\<lambda>_.
        audit env ''trailing.degraded'' d (ts_stop t) (ts_stop d) (Some reason) []))) (\<lambda>_.
     eret d)))"

definition stop_here :: "'v tenv \<Rightarrow> trailing_state \<Rightarrow> string \<Rightarrow> instant \<Rightarrow> ('v, trailing_state + 'a) top" where
  "stop_here env t reason now = ebind (rehydrate_degraded env t reason now) (\<lambda>d. eret (Inl d))"

text \<open>What the venue holds against what the state owns: the expected stop, the stop to write, reasons.\<close>

definition rehydrate_stop_plan ::
    "trailing_state \<Rightarrow> tpsl option \<Rightarrow> decimal \<Rightarrow> decimal option \<times> decimal option \<times> string list" where
  "rehydrate_stop_plan t asl tick =
     (if \<not> ts_stop_owned t then (ts_stop t, None, [])
      else case (ts_stop t, asl) of
        (None, Some a) \<Rightarrow> (Some (tp_trigger a), None, [''adopted_venue_stop''])
      | (None, None) \<Rightarrow> (None, None, [])
      | (Some x, None) \<Rightarrow> (Some x, Some x, [''missing_stop''])
      | (Some x, Some a) \<Rightarrow>
          if tick < dabs (dsub (tp_trigger a) x) then
            if stop_is_tighter (ts_side t) (tp_trigger a) x
            then (Some (tp_trigger a), None, [''adopted_tighter_stop''])
            else (Some x, Some x, [''protection_changed_externally''])
          else (Some x, None, []))"

definition restore_levels ::
    "'v tenv \<Rightarrow> trailing_state \<Rightarrow> decimal \<Rightarrow> instant
     \<Rightarrow> ('v, trailing_state + (decimal option \<times> decimal option \<times> string list)) top" where
  "restore_levels env t tick now =
     ebind (read_levels env t) (\<lambda>r.
     case r of
       Inl e \<Rightarrow> stop_here env t (''protection: rehydrate read: '' @ exn_text e) now
     | Inr levels \<Rightarrow>
         (case (case levels of None \<Rightarrow> (None, None) | Some p \<Rightarrow> p) of (atp, asl) \<Rightarrow>
          case rehydrate_stop_plan t asl tick of (estop, wstop, sreasons) \<Rightarrow>
          let etp = (if ts_tp_owned t then ts_take_profit t else None);
              wtp = (if etp \<noteq> None \<and> atp = None then etp else None);
              reasons = sreasons @ (if wtp \<noteq> None then [''missing_take_profit''] else []);
              adopt_tp = (\<lambda>x. if x = None \<and> ts_tp_owned t then map_option tp_trigger atp else x)
          in if wstop \<noteq> None \<or> wtp \<noteq> None then
               ebind (may_reduce (ts_instrument t)) (\<lambda>ok.
               if \<not> ok then stop_here env t ''halted: rehydrate protection'' now
               else
                 ebind (reserve env) (\<lambda>go.
                 if \<not> go then stop_here env t ''rate limit budget exhausted: rehydrate protection'' now
                 else
                   ebind (eattempt (modify_protection env (ts_instrument t) (ts_position_id t) wtp wstop
                            (ts_trigger_basis t))) (\<lambda>wr.
                   case wr of
                     Inl e \<Rightarrow> stop_here env t (''protection: rehydrate write: '' @ exn_text e) now
                   | Inr _ \<Rightarrow>
                       ebind (confirm_levels env t wstop wtp tick) (\<lambda>(cstop, ctp, detail).
                       case detail of
                         Some d \<Rightarrow> stop_here env t (''protection: rehydrate confirm: '' @ d) now
                       | None \<Rightarrow>
                           eret (Inr (if cstop \<noteq> None then cstop else estop,
                                      adopt_tp (if ctp \<noteq> None then ctp else etp), reasons))))))
             else eret (Inr (if ts_stop_owned t \<and> asl \<noteq> None then map_option tp_trigger asl else estop,
                             adopt_tp etp, reasons))))"

definition sample_market ::
    "'v tenv \<Rightarrow> trailing_state \<Rightarrow> instant \<Rightarrow> ('v, trailing_state + (decimal option \<times> instant option \<times> decimal)) top" where
  "sample_market env b now =
     ebind (if uses_atr (ts_spec b)
            then ebind (eattempt (load_atr env (ts_spec b) (ts_instrument b))) (\<lambda>r.
                 eret (case r of Inl e \<Rightarrow> Inl e | Inr a \<Rightarrow> Inr (a, Some now)))
            else eret (Inr (ts_atr b, ts_atr_as_of b))) (\<lambda>ar.
     case ar of
       Inl e \<Rightarrow> stop_here env b (''atr_stale: '' @ exn_text e) now
     | Inr (atr, as_of) \<Rightarrow>
         (case ts_basis b of
            None \<Rightarrow> stop_here env b ''fetch: no sampling basis'' now
          | Some bas \<Rightarrow>
              ebind (eattempt (venue (ad_fetch_ticker (te_adapter env) (ts_instrument b)))) (\<lambda>tr.
              case tr of
                Inl e \<Rightarrow> stop_here env b (''fetch: '' @ exn_text e) now
              | Inr tk \<Rightarrow>
                  (case (case tk of None \<Rightarrow> None | Some k \<Rightarrow> basis_price k bas) of
                     None \<Rightarrow> stop_here env b ''fetch: ticker has no resolved basis'' now
                   | Some price \<Rightarrow> eret (Inr (atr, as_of, price))))))"

definition rehydrate_first_stop ::
    "'v tenv \<Rightarrow> trailing_state \<Rightarrow> decimal \<Rightarrow> decimal option \<Rightarrow> bool \<Rightarrow> decimal \<Rightarrow> instant
     \<Rightarrow> ('v, trailing_state + (trailing_state \<times> string list)) top" where
  "rehydrate_first_stop env b basis atr activated tick now =
     (if \<not> (ts_stop b = None \<and> (activated \<or> tq_initial_stop (ts_spec b) \<noteq> None)) then eret (Inr (b, []))
      else
        ebind (eattempt (ebind (cached_spec env (ts_instrument b)) (\<lambda>spec.
                 elift (first_stop (ts_spec b) (ts_side b) (ts_entry b) basis atr spec activated)))) (\<lambda>fr.
        case fr of
          Inl e \<Rightarrow> stop_here env b (''protection: rehydrate stop: '' @ exn_text e) now
        | Inr None \<Rightarrow> eret (Inr (b, []))
        | Inr (Some stop) \<Rightarrow>
            ebind (may_reduce (ts_instrument b)) (\<lambda>ok.
            if \<not> ok then stop_here env b ''halted: rehydrate first stop'' now
            else
              ebind (reserve env) (\<lambda>go.
              if \<not> go then stop_here env b ''rate limit budget exhausted: rehydrate first stop'' now
              else
                ebind (eattempt (modify_protection env (ts_instrument b) (ts_position_id b) None (Some stop)
                         (ts_trigger_basis b))) (\<lambda>wr.
                case wr of
                  Inl e \<Rightarrow> stop_here env b (''protection: rehydrate first stop: '' @ exn_text e) now
                | Inr _ \<Rightarrow>
                    ebind (confirm_stop env b stop tick) (\<lambda>(confirmed, detail).
                    case confirmed of
                      None \<Rightarrow> stop_here env b
                        (''protection: rehydrate first stop confirm: '' @ or_text detail ''mismatch'') now
                    | Some c \<Rightarrow>
                        eret (Inr (b\<lparr>ts_stop := Some c, ts_stop_owned := True, ts_updated_at := now\<rparr>,
                                   [''rehydrate_stop''])))))))) "

definition rehydrate_reprice ::
    "'v tenv \<Rightarrow> decimal option \<Rightarrow> trailing_state \<Rightarrow> decimal \<Rightarrow> decimal \<Rightarrow> decimal option \<Rightarrow> decimal option
     \<Rightarrow> decimal \<Rightarrow> instant \<Rightarrow> ('v, trailing_state + (trailing_state \<times> string list)) top" where
  "rehydrate_reprice env prev_stop b best basis atr act_price tick now =
     (case candidate_level b best atr tick of
        Inl e \<Rightarrow> stop_here env b (''candidate: rehydrate: '' @ exn_text e) now
      | Inr candidate \<Rightarrow>
          ebind (cached_spec env (ts_instrument b)) (\<lambda>spec.
          let cap = ad_protection_cap (te_adapter env) (ts_instrument b);
              due = (case ts_last_reprice b of None \<Rightarrow> True
                     | Some r \<Rightarrow> pc_min_interval cap \<le> of_int (now - r) / 1000000);
              wanted = (0 < candidate
                \<and> respects_min_stop_distance (ts_side b) candidate basis (sp_min_stop_distance spec)
                \<and> ratchet_accepts (ts_side b) (ts_stop b) candidate (tq_step (ts_spec b)) \<and> due) in
          ebind (may_reduce (ts_instrument b)) (\<lambda>ok.
          ebind (if wanted \<and> ok then reserve env else eret False) (\<lambda>go.
          if \<not> go then eret (Inr (b, []))
          else
            ebind (audit_gap env (pc_reprice_gap cap) b (ts_stop b) (ts_stop b) ''gap_start'') (\<lambda>_.
            ebind (eattempt (modify_protection env (ts_instrument b) (ts_position_id b) None
                     (Some candidate) (ts_trigger_basis b))) (\<lambda>wr.
            case wr of
              Inl e \<Rightarrow>
                ebind (audit_gap env (pc_reprice_gap cap) b (ts_stop b) (ts_stop b) ''gap_end_failed'') (\<lambda>_.
                stop_here env b (''protection: rehydrate reprice: '' @ exn_text e) now)
            | Inr _ \<Rightarrow>
                ebind (confirm_stop env b candidate tick) (\<lambda>(confirmed, detail).
                case confirmed of
                  None \<Rightarrow>
                    ebind (audit_gap env (pc_reprice_gap cap) b (ts_stop b) (ts_stop b) ''gap_end_failed'') (\<lambda>_.
                    stop_here env b
                      (''protection: rehydrate reprice confirm: '' @ or_text detail ''mismatch'') now)
                | Some c \<Rightarrow>
                    let u = b\<lparr>ts_stop := Some c, ts_activation_price := act_price, ts_activated := True,
                              ts_stop_owned := True, ts_last_reprice := Some now,
                              ts_reprices := ts_reprices b + 1, ts_updated_at := now\<rparr> in
                    ebind (audit_gap env (pc_reprice_gap cap) u prev_stop (ts_stop u) ''gap_end'') (\<lambda>_.
                    eret (Inr (u, [''rehydrate_reprice''])))))))))) "

definition rehydrate_synthetic ::
    "'v tenv \<Rightarrow> trailing_state \<Rightarrow> decimal \<Rightarrow> instant \<Rightarrow> ('v, trailing_state) top" where
  "rehydrate_synthetic env t tick now =
     stage (restore_levels env t tick now) (\<lambda>(estop, etp, reasons1).
     let b1 = t\<lparr>ts_stop := estop, ts_take_profit := etp, ts_updated_at := now\<rparr> in
     stage (sample_market env b1 now) (\<lambda>(atr, as_of, basis).
     let best = update_best_basis (ts_side b1) (ts_best b1) basis in
     ebind (elift (resolve_activation_price (ts_spec b1) (ts_side b1) (ts_entry b1))) (\<lambda>ap.
     let activated = (ts_activated b1 \<or> is_activation_reached (ts_side b1) basis ap);
         b2 = b1\<lparr>ts_best := Some best, ts_activation_price := ap, ts_updated_at := now\<rparr> in
     stage (rehydrate_first_stop env b2 basis atr activated tick now) (\<lambda>(b3, reasons2).
     stage (if activated \<and> ts_stop_owned b3 \<and> ts_stop b3 \<noteq> None
            then rehydrate_reprice env (ts_stop t) b3 best basis atr ap tick now
            else eret (Inr (b3, []))) (\<lambda>(b4, reasons3).
     let fin = b4\<lparr>ts_phase := target_phase_of t, ts_activated := activated \<or> ts_activated b4,
                  ts_atr := atr, ts_atr_as_of := as_of, ts_failures := 0, ts_error := None,
                  ts_updated_at := now\<rparr>;
         reasons = reasons1 @ reasons2 @ reasons3 in
     ebind (save fin) (\<lambda>_.
     ebind (ewhen (ts_phase t \<noteq> target_phase_of t)
       (ebind (publish_state env fin (ts_phase t) (Some ''rehydrated'')) (\<lambda>_.
        audit env ''trailing.recovered'' fin (ts_stop t) (ts_stop fin) (Some ''rehydrated'') []))) (\<lambda>_.
     ebind (ewhen (reasons \<noteq> [])
       (audit env ''trailing.integrity_restore'' fin (ts_stop t) (ts_stop fin)
          (Some (join_comma (dedupe reasons))) [])) (\<lambda>_.
     eret fin))))))))"

definition read_native ::
    "'v tenv \<Rightarrow> trailing_state \<Rightarrow> instant \<Rightarrow> ('v, trailing_state + native_result option) top" where
  "read_native env t now =
     (case ts_native_id t of
        None \<Rightarrow> eret (Inr None)
      | Some nid \<Rightarrow>
          ebind (eattempt (venue (ad_get_trailing (te_adapter env) nid (ts_instrument t)))) (\<lambda>r.
          case r of
            Inl e \<Rightarrow> stop_here env t (''fetch: native trail: '' @ exn_text e) now
          | Inr res \<Rightarrow> eret (Inr res)))"

definition replace_native ::
    "'v tenv \<Rightarrow> trailing_state \<Rightarrow> position \<Rightarrow> instant \<Rightarrow> ('v, trailing_state + native_result) top" where
  "replace_native env t leg now =
     ebind (may_reduce (ts_instrument t)) (\<lambda>ok.
     if \<not> ok then stop_here env t ''halted: native rearm'' now
     else
       ebind (reserve env) (\<lambda>go.
       if \<not> go then stop_here env t ''rate limit budget exhausted: native rearm'' now
       else
         ebind (eattempt (ebind (elift (native_request_of t leg)) (\<lambda>req.
                          venue (ad_place_trailing (te_adapter env) req)))) (\<lambda>r.
         case r of
           Inl e \<Rightarrow> stop_here env t (''protection: native rearm: '' @ exn_text e) now
         | Inr res \<Rightarrow> eret (Inr res))))"

definition rehydrate_native ::
    "'v tenv \<Rightarrow> trailing_state \<Rightarrow> position \<Rightarrow> instant \<Rightarrow> ('v, trailing_state) top" where
  "rehydrate_native env t leg now =
     stage (read_native env t now) (\<lambda>found.
     stage (case found of Some res \<Rightarrow> eret (Inr res) | None \<Rightarrow> replace_native env t leg now) (\<lambda>res.
     let fin = t\<lparr>ts_phase := target_phase_of t, ts_native_id := Some (nt_native_id res),
                 ts_stop := nt_current_stop res, ts_activated := True, ts_failures := 0,
                 ts_error := None, ts_updated_at := now\<rparr> in
     ebind (save fin) (\<lambda>_.
     ebind (ewhen (ts_phase t \<noteq> target_phase_of t)
       (ebind (publish_state env fin (ts_phase t) (Some ''rehydrated'')) (\<lambda>_.
        audit env ''trailing.recovered'' fin (ts_stop t) (ts_stop fin) (Some ''rehydrated'') []))) (\<lambda>_.
     ebind (ewhen (found = None)
       (audit env ''trailing.integrity_restore'' fin (ts_stop t) (ts_stop fin) (Some ''native_rearmed'') [])) (\<lambda>_.
     eret fin)))))"

definition same_position :: "position \<Rightarrow> position \<Rightarrow> bool" where
  "same_position p q \<longleftrightarrow>
     p\<lparr>po_instrument := inst_id (po_instrument p)\<rparr> = q\<lparr>po_instrument := inst_id (po_instrument q)\<rparr>"

definition rehydrate_identity ::
    "'v tenv \<Rightarrow> trailing_state \<Rightarrow> string \<Rightarrow> bool \<Rightarrow> instant \<Rightarrow> ('v, unit) top" where
  "rehydrate_identity env t identity side_changed now =
     ebind (if side_changed then clear_for_replacement env t True else eret (None, False)) (\<lambda>(note, cleared).
     ebind (rehydrate_degraded env t
       (case note of None \<Rightarrow> identity | Some n \<Rightarrow> identity @ '': '' @ n) now) (\<lambda>d.
     ewhen cleared
       (audit env ''trailing.clear'' d (ts_stop t) (ts_stop d) (Some (or_text note ''cleared'')) [])))"

definition rehydrate_leg ::
    "'v tenv \<Rightarrow> trailing_state \<Rightarrow> position \<Rightarrow> position \<Rightarrow> instant \<Rightarrow> ('v, unit) top" where
  "rehydrate_leg env t snap mir now =
     ebind (ewhen (\<not> same_position snap mir) (in_store (upsert_position snap))) (\<lambda>_.
     ebind (eattempt (cached_spec env (ts_instrument t))) (\<lambda>sr.
     case sr of
       Inl e \<Rightarrow>
         ebind (rehydrate_degraded env t (''fetch: instrument spec: '' @ exn_text e) now) (\<lambda>_. eret ())
     | Inr spec \<Rightarrow>
         (case recovery_identity t snap (sp_tick_size spec) of
            (Some identity, side_changed) \<Rightarrow> rehydrate_identity env t identity side_changed now
          | (None, _) \<Rightarrow>
              if \<not> tc_rearm (te_config env) then
                ebind (rehydrate_degraded env t ''rearm_disabled'' now) (\<lambda>_. eret ())
              else
                ebind (elift (resolve_activation_price (ts_spec t) (ts_side t) (po_entry snap))) (\<lambda>ap.
                let u = t\<lparr>ts_quantity := dabs (po_quantity snap), ts_entry := po_entry snap,
                          ts_opened_at := (if po_opened_at snap \<noteq> None then po_opened_at snap else ts_opened_at t),
                          ts_activation_price := ap, ts_updated_at := now\<rparr> in
                ebind (if ts_mode u = TM_SYNTHETIC then rehydrate_synthetic env u (sp_tick_size spec) now
                       else rehydrate_native env u snap now) (\<lambda>_. eret ())))))"

definition rehydrate_state ::
    "'v tenv \<Rightarrow> string \<Rightarrow> position option \<Rightarrow> position option \<Rightarrow> ('v, unit) top" where
  "rehydrate_state env tid snapshot_leg mirror_leg =
     ebind (load tid) (\<lambda>row.
     case row of
       None \<Rightarrow> eret ()
     | Some t \<Rightarrow>
         if ts_phase t \<notin> ACTIVE_TRAILING_PHASES then eret ()
         else
           ebind (clock env) (\<lambda>now.
           case (open_leg snapshot_leg, open_leg mirror_leg) of
             (None, None) \<Rightarrow>
               ebind (complete_position_close env t ''position_closed_while_offline'' now) (\<lambda>_. eret ())
           | (Some snap, Some mir) \<Rightarrow>
               if dabs (po_quantity snap) \<noteq> dabs (po_quantity mir)
                  \<or> (0 < po_quantity snap) \<noteq> (0 < po_quantity mir)
               then ebind (rehydrate_degraded env t ''position_dataset_inconsistent'' now) (\<lambda>_. eret ())
               else rehydrate_leg env t snap mir now
           | _ \<Rightarrow> ebind (rehydrate_degraded env t ''position_dataset_inconsistent'' now) (\<lambda>_. eret ())))"

definition legs_with_id :: "position list \<Rightarrow> (leg_key, position) dict" where
  "legs_with_id ps = by_leg (filter (\<lambda>p. po_id p \<noteq> None) ps)"

definition rehydrate :: "'v tenv \<Rightarrow> position list option \<Rightarrow> ('v, unit) top" where
  "rehydrate env positions =
     ebind (require_ready env) (\<lambda>_.
     ebind (eupd (\<lambda>w. w\<lparr>tw_rehydrated := Some False\<rparr>)) (\<lambda>_.
     ebind (in_store (list_trailing_states None (Some ACTIVE_TRAILING_PHASES))) (\<lambda>states.
     ebind (case positions of Some ps \<Rightarrow> eret ps | None \<Rightarrow> venue (ad_fetch_positions (te_adapter env))) (\<lambda>snapshot.
     ebind (in_store (query_positions None 100000)) (\<lambda>mirror.
     let snap = legs_with_id snapshot; mir = legs_with_id mirror in
     ebind (efor states (\<lambda>t.
       let key = (inst_id (ts_instrument t), Some (ts_position_id t)) in
       etry (rehydrate_state env (ts_id t) (dict_get snap key) (dict_get mir key)) (\<lambda>_. eret ()))) (\<lambda>_.
     eupd (\<lambda>w. w\<lparr>tw_rehydrated := Some True\<rparr>)))))))"

definition require_rehydrated :: "('v, unit) top" where
  "require_rehydrated =
     ebind (eget tw_rehydrated) (\<lambda>done.
     if done = Some True then eret ()
     else
       ebind (in_store (list_trailing_states None (Some ACTIVE_TRAILING_PHASES))) (\<lambda>active.
       ebind (eguard (active \<noteq> [] \<or> done = Some False) TrailingStateError
                ''trailing rehydration has not completed; attach is not available'') (\<lambda>_.
       eupd (\<lambda>w. w\<lparr>tw_rehydrated := Some True\<rparr>))))"

end
