(* ===== verification/UTE_Trailing_Attach.thy ===== *)
theory UTE_Trailing_Attach
  imports UTE_Trailing_Recovery
begin

text \<open>
  Attaching a trailing state to a position leg, \<^verbatim>\<open>attach\<close>, \<^verbatim>\<open>_attach_synthetic\<close> and
  \<^verbatim>\<open>_attach_native\<close> in \<^verbatim>\<open>core/trailing/manager.py\<close>.
\<close>

definition trigger_of :: "tpsl option \<Rightarrow> decimal option" where
  "trigger_of a = map_option tp_trigger a"

definition arming_state ::
    "string \<Rightarrow> trailing_request \<Rightarrow> position \<Rightarrow> string \<Rightarrow> trailing_mode \<Rightarrow> string \<Rightarrow> trailing_basis option
     \<Rightarrow> trailing_basis option \<Rightarrow> tpsl option \<times> tpsl option \<Rightarrow> decimal option \<Rightarrow> decimal option \<Rightarrow> instant
     \<Rightarrow> trailing_state" where
  "arming_state tid req leg pid m reason basis trig existing act_price atr now =
     \<lparr>ts_id = tid, ts_instrument = rq_instrument req, ts_position_id = pid, ts_mode = m,
      ts_phase = ARMING, ts_spec = rq_spec req, ts_side = leg_side leg, ts_entry = po_entry leg,
      ts_quantity = dabs (po_quantity leg), ts_created_at = now, ts_updated_at = now,
      ts_opened_at = po_opened_at leg, ts_routing = Some reason, ts_basis = basis,
      ts_trigger_basis = trig, ts_stop = None, ts_take_profit = None, ts_stop_owned = False,
      ts_tp_owned = False, ts_prev_stop = trigger_of (snd existing), ts_prev_tp = trigger_of (fst existing),
      ts_best = None, ts_activation_price = act_price, ts_activated = False, ts_atr = atr,
      ts_atr_as_of = (if atr \<noteq> None then Some now else None), ts_native_id = None,
      ts_last_reprice = None, ts_reprices = 0, ts_error = None, ts_failures = 0\<rparr>"

text \<open>The takeover rule: protection already on the leg is only replaced when the request says so.\<close>

definition takeover_checks ::
    "trailing_request \<Rightarrow> decimal option \<Rightarrow> (tpsl option \<times> tpsl option) option
     \<Rightarrow> (tpsl option \<times> tpsl option) result" where
  "takeover_checks req take_profit existing =
     (case existing of
        None \<Rightarrow> raise_exn InvalidOrderError ''no open position''
      | Some (ptp, psl) \<Rightarrow>
          rbind (guard_exn (psl \<noteq> None \<and> \<not> rq_take_over req) TrailingStateError
                  ''position already has a stop; pass take_over_existing_protection=True'') (\<lambda>_.
          rbind (guard_exn (ptp \<noteq> None \<and> take_profit \<noteq> None \<and> \<not> rq_take_over req) TrailingStateError
                  ''position already has a take profit; pass take_over_existing_protection=True'') (\<lambda>_.
          Inr (ptp, psl))))"

definition attach_synthetic ::
    "'v tenv \<Rightarrow> trailing_request \<Rightarrow> position \<Rightarrow> string \<Rightarrow> string \<Rightarrow> ('v, trailing_state) top" where
  "attach_synthetic env req leg pid reason =
     (let ad = te_adapter env; q = rq_spec req; i = rq_instrument req; s = leg_side leg; entry = po_entry leg;
          bases = resolve_bases q TM_SYNTHETIC (ad_protection_cap ad i) (ad_market_cap ad i) s in
      ebind (cached_spec env i) (\<lambda>spec.
      ebind (load_atr env q i) (\<lambda>atr.
      case fst bases of
        None \<Rightarrow> eraise TrailingNotSupportedError ''no sampling basis is available''
      | Some b \<Rightarrow>
          ebind (venue (ad_fetch_ticker ad i)) (\<lambda>tk.
          case tk of
            None \<Rightarrow> eraise TrailingNotSupportedError ''no ticker available''
          | Some k \<Rightarrow>
              (case basis_price k b of
                 None \<Rightarrow> eraise TrailingNotSupportedError ''ticker has no price of the basis''
               | Some basis \<Rightarrow>
                   ebind (elift (resolve_activation_price q s entry)) (\<lambda>ap.
                   let activated = is_activation_reached s basis ap in
                   ebind (elift (first_stop q s entry basis atr spec activated)) (\<lambda>stop.
                   ebind (elift (first_take_profit q s entry atr spec)) (\<lambda>tp.
                   ebind (venue (ad_get_tpsl ad i pid)) (\<lambda>found.
                   ebind (elift (takeover_checks req tp found)) (\<lambda>existing.
                   let will_write = (stop \<noteq> None \<or> tp \<noteq> None) in
                   ebind (may_reduce i) (\<lambda>ok.
                   ebind (eguard (\<not> ok) InstrumentHaltedError ''instrument or account is halted'') (\<lambda>_.
                   ebind (if will_write then reserve env else eret True) (\<lambda>go.
                   ebind (eguard (\<not> go) RateLimitError ''rate limit budget exhausted'') (\<lambda>_.
                   ebind (clock env) (\<lambda>now.
                   ebind (new_id env) (\<lambda>tid.
                   let arming = (arming_state tid req leg pid TM_SYNTHETIC reason (Some b) (snd bases)
                                  existing ap atr now)
                                  \<lparr>ts_best := Some basis, ts_stop_owned := stop \<noteq> None, ts_tp_owned := tp \<noteq> None\<rparr> in
                   ebind (save arming) (\<lambda>_.
                   ebind (ewhen will_write
                     (ebind (etry (modify_protection env i pid tp stop (snd bases))
                               (\<lambda>e. ebind (attach_failed env arming e) (\<lambda>_. elift (Inl e)))) (\<lambda>_.
                      confirm_protection env arming stop tp (sp_tick_size spec)))) (\<lambda>_.
                   let fin = arming\<lparr>ts_phase := ARMED, ts_stop := stop, ts_take_profit := tp,
                                    ts_activated := activated,
                                    ts_last_reprice := (if stop \<noteq> None then Some now else None),
                                    ts_updated_at := now\<rparr> in
                   ebind (save fin) (\<lambda>_.
                   ebind (publish_state env fin ARMING (Some ''attached'')) (\<lambda>_.
                   ebind (audit env ''trailing.attached'' fin (ts_prev_stop arming) (ts_stop fin) (Some ''attached'') []) (\<lambda>_.
                   ebind (ewhen (rq_take_over req \<and> (ts_prev_stop arming \<noteq> None \<or> ts_prev_tp arming \<noteq> None))
                     (audit env ''trailing.takeover'' fin (ts_prev_stop arming) (ts_stop fin) (Some ''takeover'') [])) (\<lambda>_.
                   eret fin)))))))))))))))))))))) "

text \<open>The take profit of a native attach, written after the venue trail is armed.\<close>

definition native_take_profit ::
    "'v tenv \<Rightarrow> trailing_state \<Rightarrow> decimal option \<Rightarrow> decimal \<Rightarrow> ('v, bool) top" where
  "native_take_profit env armed tp tick =
     (case tp of
        None \<Rightarrow> eret False
      | Some _ \<Rightarrow>
          ebind (may_reduce (ts_instrument armed)) (\<lambda>ok.
          if \<not> ok then
            ebind (degrade_attach env armed ''protection: native take profit: the instrument or account is halted'') (\<lambda>_.
            eraise InstrumentHaltedError ''native trail is armed but the instrument or account is halted'')
          else
            ebind (reserve env) (\<lambda>go.
            if \<not> go then
              ebind (degrade_attach env armed ''protection: native take profit: the rate limit budget is exhausted'') (\<lambda>_.
              eraise RateLimitError ''native trail is armed but the rate limit budget is exhausted'')
            else
              ebind (etry (modify_protection env (ts_instrument armed) (ts_position_id armed) tp None
                       (ts_trigger_basis armed))
                 (\<lambda>e. ebind (degrade_attach env armed (''protection: native take profit: '' @ exn_text e)) (\<lambda>_.
                      eraise TrailingStateError
                        (''native trail is armed but the take profit could not be written: '' @ exn_text e)))) (\<lambda>_.
              ebind (confirm_protection env armed None tp tick) (\<lambda>_. eret True)))))"

definition confirm_native ::
    "'v tenv \<Rightarrow> trailing_state \<Rightarrow> string \<Rightarrow> ('v, native_result) top" where
  "confirm_native env armed nid =
     ebind (eattempt (venue (ad_get_trailing (te_adapter env) nid (ts_instrument armed)))) (\<lambda>r.
     case r of
       Inl e \<Rightarrow>
         ebind (degrade_attach env armed (''protection: native confirm: '' @ exn_text e)) (\<lambda>_. elift (Inl e))
     | Inr None \<Rightarrow>
         ebind (degrade_attach env armed
           ''protection: native confirm: the venue did not confirm the native trailing stop'') (\<lambda>_.
         eraise TrailingStateError ''the venue did not confirm the native trailing stop'')
     | Inr (Some res) \<Rightarrow> eret res)"

definition attach_native ::
    "'v tenv \<Rightarrow> trailing_request \<Rightarrow> position \<Rightarrow> string \<Rightarrow> string \<Rightarrow> ('v, trailing_state) top" where
  "attach_native env req leg pid reason =
     (let ad = te_adapter env; q = rq_spec req; i = rq_instrument req; s = leg_side leg; entry = po_entry leg;
          bases = resolve_bases q TM_NATIVE (ad_protection_cap ad i) (ad_market_cap ad i) s in
      ebind (cached_spec env i) (\<lambda>spec.
      ebind (load_atr env q i) (\<lambda>atr.
      ebind (elift (resolve_activation_price q s entry)) (\<lambda>ap.
      ebind (elift (first_take_profit q s entry atr spec)) (\<lambda>tp.
      ebind (venue (ad_get_tpsl ad i pid)) (\<lambda>found.
      ebind (elift (takeover_checks req tp found)) (\<lambda>existing.
      ebind (etry (venue (ad_get_position_trailing ad i pid))
               (\<lambda>e. if exn_is (exn_cls e) PyNotImplementedError
                    then eraise TrailingNotSupportedError ''native attach requires position-scoped detection''
                    else elift (Inl e))) (\<lambda>previous.
      ebind (eguard (previous \<noteq> None \<and> \<not> rq_take_over req) TrailingStateError
               ''position already has a native trailing stop; pass take_over_existing_protection=True'') (\<lambda>_.
      ebind (may_reduce i) (\<lambda>ok.
      ebind (eguard (\<not> ok) InstrumentHaltedError ''instrument or account is halted'') (\<lambda>_.
      ebind (reserve env) (\<lambda>go.
      ebind (eguard (\<not> go) RateLimitError ''rate limit budget exhausted'') (\<lambda>_.
      ebind (clock env) (\<lambda>now.
      ebind (new_id env) (\<lambda>tid.
      let arming = arming_state tid req leg pid TM_NATIVE reason (fst bases) (snd bases) existing ap atr now in
      ebind (save arming) (\<lambda>_.
      ebind (etry (ebind (elift (native_request_of arming leg)) (\<lambda>nreq. venue (ad_place_trailing ad nreq)))
               (\<lambda>e. ebind (attach_failed env arming e) (\<lambda>_. elift (Inl e)))) (\<lambda>res.
      let placed = arming\<lparr>ts_native_id := Some (nt_native_id res), ts_stop := nt_current_stop res,
                          ts_activated := True, ts_updated_at := now\<rparr> in
      ebind (save placed) (\<lambda>_.
      ebind (confirm_native env placed (nt_native_id res)) (\<lambda>confirmed.
      let armed = placed\<lparr>ts_native_id := Some (nt_native_id confirmed),
                         ts_stop := nt_current_stop confirmed, ts_updated_at := now\<rparr> in
      ebind (save armed) (\<lambda>_.
      ebind (native_take_profit env armed tp (sp_tick_size spec)) (\<lambda>tp_owned.
      ebind (clock env) (\<lambda>later.
      let fin = armed\<lparr>ts_phase := ARMED, ts_take_profit := tp, ts_tp_owned := tp_owned,
                      ts_updated_at := later\<rparr> in
      ebind (save fin) (\<lambda>_.
      ebind (publish_state env fin ARMING (Some ''attached'')) (\<lambda>_.
      ebind (audit env ''trailing.attached'' fin (ts_prev_stop arming) (ts_stop fin) (Some ''attached'') []) (\<lambda>_.
      ebind (ewhen (rq_take_over req \<and> (ts_prev_stop arming \<noteq> None \<or> ts_prev_tp arming \<noteq> None \<or> previous \<noteq> None))
        (audit env ''trailing.takeover'' fin (ts_prev_stop arming) (ts_stop fin) (Some ''takeover'')
           (case previous of None \<Rightarrow> []
            | Some p \<Rightarrow> [(''previous_native_offset'', pv_dec (nt_confirmed_offset p)),
                         (''previous_native_stop'', pv_dec (nt_current_stop p))]))) (\<lambda>_.
      eret fin))))))))))))))))))))))))))"

definition attach :: "'v tenv \<Rightarrow> trailing_request \<Rightarrow> ('v, trailing_state) top" where
  "attach env req =
     (let ad = te_adapter env; i = rq_instrument req in
      ebind (require_ready env) (\<lambda>_.
      ebind require_rehydrated (\<lambda>_.
      ebind (in_store (get_positions i)) (\<lambda>legs.
      ebind (elift (resolve_position_leg legs (rq_position_id req))) (\<lambda>(leg, pid).
      ebind (in_store (list_trailing_states (Some i) (Some ACTIVE_TRAILING_PHASES))) (\<lambda>active.
      ebind (eguard (list_ex (\<lambda>t. ts_position_id t = pid) active) TrailingStateError
               ''an active trailing state is already attached to the position'') (\<lambda>_.
      ebind (elift (resolve_routing req (ad_protection_cap ad i) (ad_trailing_cap ad i) (ad_market_cap ad i)))
        (\<lambda>(m, reason).
      ebind (if m = TM_SYNTHETIC then attach_synthetic env req leg pid reason
             else attach_native env req leg pid reason) (\<lambda>fin.
      ebind (audit env ''trailing.routing'' fin (ts_prev_stop fin) (ts_stop fin) (Some reason) []) (\<lambda>_.
      eret fin))))))))))"

end
