(* ===== verification/UTE_Trailing_Safety.thy ===== *)
theory UTE_Trailing_Safety
  imports UTE_Trailing_Attach
begin

text \<open>
  What every operation of the trailing manager keeps, whatever the venue, the clock and the rate
  limiter answer and also when it raises. A policy is a relation on persisted rows that
  contains \<open>row_step\<close> after itself: the row's identity and specification stay, its phase follows the
  lifecycle, its reprice count does not fall, and a terminal row is not written at all. The locale
  proves for every operation that a row stays related to the row it was, that the table keeps its
  indexes, and that events and audit rows are only appended.
\<close>

subsection \<open>One write of a row\<close>

definition row_step :: "trailing_state \<Rightarrow> trailing_state \<Rightarrow> bool" where
  "row_step t u \<longleftrightarrow> ts_id u = ts_id t \<and> ts_instrument u = ts_instrument t
     \<and> ts_position_id u = ts_position_id t \<and> ts_mode u = ts_mode t \<and> ts_spec u = ts_spec t
     \<and> ts_side u = ts_side t \<and> ts_created_at u = ts_created_at t \<and> ts_reprices t \<le> ts_reprices u
     \<and> ts_phase t \<in> ACTIVE_TRAILING_PHASES
     \<and> (ts_phase u = ts_phase t \<or> phase_step (ts_phase t) (ts_phase u))"

lemma phase_step_active: "phase_step p q \<Longrightarrow> p \<in> ACTIVE_TRAILING_PHASES"
  by (cases p) (auto simp: phase_step_iff ACTIVE_TRAILING_PHASES_def)

lemma phase_step_to:
  "p \<in> {ARMED, TRIGGERED, ARMING} \<Longrightarrow> phase_step p DEGRADED"
  "p \<in> {ARMING, DEGRADED} \<Longrightarrow> phase_step p ARMED"
  "p \<in> ACTIVE_TRAILING_PHASES \<Longrightarrow> phase_step p TR_CANCELLED"
  "p = ARMING \<Longrightarrow> phase_step p FAILED"
  by (auto simp: phase_step_iff ACTIVE_TRAILING_PHASES_def)

lemma active_phases [simp]:
  "ARMING \<in> ACTIVE_TRAILING_PHASES" "ARMED \<in> ACTIVE_TRAILING_PHASES"
  "TRIGGERED \<in> ACTIVE_TRAILING_PHASES" "DEGRADED \<in> ACTIVE_TRAILING_PHASES"
  by (simp_all add: ACTIVE_TRAILING_PHASES_def)

lemmas row_simps = row_step_def phase_step_to ensure_transition_Inr

definition extends :: "'a list \<Rightarrow> 'a list \<Rightarrow> bool" where
  "extends a b \<longleftrightarrow> take (length a) b = a"

lemma extends_append [simp]: "extends a b \<Longrightarrow> extends a (b @ c)"
  unfolding extends_def by (metis append_eq_conv_conj append_take_drop_id append.assoc)

lemma extends_refl [simp]: "extends a a"
  by (simp add: extends_def)

definition logs_extend :: "event list \<Rightarrow> audit_event list \<Rightarrow> 'v tworld \<Rightarrow> bool" where
  "logs_extend es au w \<longleftrightarrow> extends es (tw_events w) \<and> extends au (so_audit (tw_store w))"

text \<open>What is pinned: a row under its identifier, the logs as they were, and what is known of the halts.\<close>

record pinned =
  pin_id :: string
  pin_row :: trailing_state
  pin_events :: "event list"
  pin_audit :: "audit_event list"
  pin_halts :: "halt_machine \<Rightarrow> bool"

locale row_policy =
  fixes R :: "trailing_state \<Rightarrow> trailing_state \<Rightarrow> bool"
  assumes R_refl: "R t t"
    and R_step: "R t u \<Longrightarrow> row_step u v \<Longrightarrow> R t v"
begin

definition kept :: "pinned \<Rightarrow> 'v tworld \<Rightarrow> bool" where
  "kept pin w \<longleftrightarrow> (\<exists>t. trailing_row (pin_id pin) (tw_store w) = Some t \<and> R (pin_row pin) t)
     \<and> wf_trailing_table (tw_store w) \<and> logs_extend (pin_events pin) (pin_audit pin) w
     \<and> pin_halts pin (tw_halts w)"

text \<open>A state in hand: if it is the pinned row it is under the policy.\<close>

definition ok :: "pinned \<Rightarrow> trailing_state \<Rightarrow> bool" where
  "ok pin t \<longleftrightarrow> (ts_id t = pin_id pin \<longrightarrow> R (pin_row pin) t)"

definition active_ok :: "pinned \<Rightarrow> trailing_state \<Rightarrow> bool" where
  "active_ok pin t \<longleftrightarrow> ok pin t \<and> ts_phase t \<in> ACTIVE_TRAILING_PHASES"

definition live_ok :: "pinned \<Rightarrow> trailing_state \<Rightarrow> bool" where
  "live_ok pin t \<longleftrightarrow> ok pin t \<and> ts_phase t \<in> {ARMED, DEGRADED}"

definition found_ok :: "pinned \<Rightarrow> trailing_state option \<Rightarrow> bool" where
  "found_ok pin r \<longleftrightarrow> (\<forall>t. r = Some t \<longrightarrow> ok pin t)"

definition staged_ok :: "pinned \<Rightarrow> ('a \<Rightarrow> bool) \<Rightarrow> trailing_state + 'a \<Rightarrow> bool" where
  "staged_ok pin K r \<longleftrightarrow> (case r of Inl t \<Rightarrow> ok pin t | Inr a \<Rightarrow> K a)"

lemma ok_step: "ok pin t \<Longrightarrow> row_step t u \<Longrightarrow> ok pin u"
  using R_step by (auto simp: ok_def row_step_def)

lemma ok_other: "ts_id t \<noteq> pin_id pin \<Longrightarrow> ok pin t"
  by (simp add: ok_def)

lemma found_simps [simp]: "found_ok pin None" "found_ok pin (Some t) \<longleftrightarrow> ok pin t"
  by (simp_all add: found_ok_def)

lemma staged_simps [simp]: "staged_ok pin K (Inl t) \<longleftrightarrow> ok pin t" "staged_ok pin K (Inr a) \<longleftrightarrow> K a"
  by (simp_all add: staged_ok_def)

lemma liveD: "live_ok pin t \<Longrightarrow> active_ok pin t" "live_ok pin t \<Longrightarrow> ok pin t" "active_ok pin t \<Longrightarrow> ok pin t"
  by (auto simp: live_ok_def active_ok_def ACTIVE_TRAILING_PHASES_def)

lemma kept_store:
  assumes "so_trailing s = so_trailing (tw_store w)" and "extends (pin_audit pin) (so_audit s)" and "(kept pin) w"
  shows "(kept pin) (w\<lparr>tw_store := s\<rparr>)"
proof -
  have "trailing_row (pin_id pin) s = trailing_row (pin_id pin) (tw_store w)" by (simp only: trailing_row_def assms(1))
  moreover have "wf_trailing_table s = wf_trailing_table (tw_store w)"
    by (simp only: wf_trailing_table_def assms(1))
  ultimately show ?thesis using assms(2,3) by (simp add: kept_def logs_extend_def)
qed

lemma kept_audit: "(kept pin) w \<Longrightarrow> extends (pin_audit pin) (so_audit (tw_store w))"
  by (simp add: kept_def logs_extend_def)

subsection \<open>Primitive operations\<close>

lemma safe_venue: "safe (kept pin) (venue f) (\<lambda>_. True)"
  by (auto simp: safe_def venue_def kept_def logs_extend_def split: prod.splits sum.splits)

lemma safe_outside: "safe (kept pin) (outside f) (\<lambda>_. True)"
  by (auto simp: safe_def outside_def kept_def logs_extend_def split: prod.splits)

lemma safe_clock: "safe (kept pin) (clock env) (\<lambda>_. True)"
  and safe_new_id: "safe (kept pin) (new_id env) (\<lambda>_. True)"
  and safe_reserve: "safe (kept pin) (reserve env) (\<lambda>_. True)"
  by (simp_all add: clock_def new_id_def reserve_def safe_outside)

lemma safe_may_reduce: "safe (kept pin) (may_reduce i) (\<lambda>_. True)"
  by (simp add: may_reduce_def safe_eget)

lemma safe_save: "ok pin t \<Longrightarrow> safe (kept pin) (save t) (\<lambda>_. True)"
proof (rule safeI)
  fix w :: "'v tworld" and r w'
  assume o: "ok pin t" and k: "(kept pin) w" and run: "save t w = (r, w')"
  from run obtain s' where st: "upsert_trailing_state t (tw_store w) = (r, s')" and w': "w' = w\<lparr>tw_store := s'\<rparr>"
    by (auto simp: save_def in_store_def split: prod.splits)
  from k obtain t0 where "trailing_row (pin_id pin) (tw_store w) = Some t0" "R (pin_row pin) t0" by (auto simp: kept_def)
  with o trailing.read_after [OF st, of "pin_id pin"]
  have row: "\<exists>t. trailing_row (pin_id pin) s' = Some t \<and> R (pin_row pin) t" by (auto simp: ok_def)
  have wf: "wf_trailing_table s'" using k upsert_trailing_wf [OF _ st] by (simp add: kept_def)
  have "so_audit s' = so_audit (tw_store w)"
    using st by (auto simp: upsert_trailing_state_cases Let_def split: if_splits)
  with k row wf show "(kept pin) w' \<and> (\<forall>a. r = Inr a \<longrightarrow> True)" by (simp add: kept_def w' logs_extend_def)
qed

lemma safe_load: "safe (kept pin) (load x) (\<lambda>r. found_ok pin r \<and> (\<forall>t. r = Some t \<longrightarrow> ts_id t = x))"
proof (rule safeI)
  fix w :: "'v tworld" and r w'
  assume k: "(kept pin) w" and run: "load x w = (r, w')"
  then have r: "r = Inr (trailing_row x (tw_store w))" and w': "w' = w"
    by (auto simp: load_def in_store_def get_trailing_state_run)
  have "ok pin t \<and> ts_id t = x" if "trailing_row x (tw_store w) = Some t" for t
  proof -
    from that have "ts_id t = x" unfolding trailing_row_def by (blast dest: find_SomeD)
    moreover from k obtain u where "trailing_row (pin_id pin) (tw_store w) = Some u" "R (pin_row pin) u" by (auto simp: kept_def)
    ultimately show ?thesis using that by (auto simp: ok_def)
  qed
  with k w' show "(kept pin) w' \<and> (\<forall>a. r = Inr a \<longrightarrow> found_ok pin a \<and> (\<forall>t. a = Some t \<longrightarrow> ts_id t = x))"
    unfolding r by (auto simp: found_ok_def)
qed

lemma safe_in_store:
  assumes "\<And>s. so_trailing (snd (f s)) = so_trailing s"
    and "\<And>s. extends (pin_audit pin) (so_audit s) \<Longrightarrow> extends (pin_audit pin) (so_audit (snd (f s)))"
  shows "safe (kept pin) (in_store f) (\<lambda>_. True)"
proof (rule safeI)
  fix w :: "'v tworld" and r w'
  assume k: "(kept pin) w" and run: "in_store f w = (r, w')"
  from run obtain s' where st: "f (tw_store w) = (r, s')" and w': "w' = w\<lparr>tw_store := s'\<rparr>"
    by (auto simp: in_store_def split: prod.splits)
  with assms(1) [of "tw_store w"] assms(2) [OF kept_audit [OF k]] k
  show "(kept pin) w' \<and> (\<forall>a. r = Inr a \<longrightarrow> True)" by (simp add: kept_store)
qed

lemmas store_op_defs = write_audit_event_def upsert_position_def get_positions_def query_positions_def
  list_trailing_states_def eget_def eupd_def ebind_def eguard_def guard_exn_def elift_def

lemma safe_store_ops:
  "safe (kept pin) (in_store (write_audit_event a)) (\<lambda>_. True)"
  "safe (kept pin) (in_store (upsert_position p)) (\<lambda>_. True)"
  "safe (kept pin) (in_store (get_positions i)) (\<lambda>_. True)"
  "safe (kept pin) (in_store (query_positions j n)) (\<lambda>_. True)"
  "safe (kept pin) (in_store (list_trailing_states k ps)) (\<lambda>_. True)"
  by (rule safe_in_store; simp add: store_op_defs split: option.splits)+

lemma safe_eupd_world:
  "safe (kept pin) (eupd (\<lambda>w. w\<lparr>tw_events := tw_events w @ f w\<rparr>)) (\<lambda>_. True)"
  "safe (kept pin) (eupd (\<lambda>w. w\<lparr>tw_fetch_failures := g w\<rparr>)) (\<lambda>_. True)"
  "safe (kept pin) (eupd (\<lambda>w. w\<lparr>tw_atr_failures := h w\<rparr>)) (\<lambda>_. True)"
  "safe (kept pin) (eupd (\<lambda>w. w\<lparr>tw_specs := k w\<rparr>)) (\<lambda>_. True)"
  "safe (kept pin) (eupd (\<lambda>w. w\<lparr>tw_rehydrated := l w\<rparr>)) (\<lambda>_. True)"
  by (simp_all add: safe_def eupd_def kept_def logs_extend_def)

lemmas safe_base = safe_venue safe_clock safe_reserve safe_may_reduce safe_store_ops
  safe_eupd_world

lemmas safe_base_walk = safe_base [THEN safe_bind_any] safe_base safe_load [THEN safe_ebind]
  safe_save [THEN safe_bind_any] safe_save TrueI

subsection \<open>Publishing, auditing, specifications\<close>

lemma safe_emit: "safe (kept pin) (emit env c b) (\<lambda>_. True)"
  unfolding emit_def by (intro safe_walk safe_base_walk safe_bind_any [OF safe_new_id])

lemma safe_publish_state: "safe (kept pin) (publish_state env t p r) (\<lambda>_. True)"
  by (simp add: publish_state_def safe_emit)

lemma safe_audit: "safe (kept pin) (audit env k t p c r x) (\<lambda>_. True)"
  unfolding audit_def by (intro safe_walk safe_base_walk safe_bind_any [OF safe_new_id])

lemma safe_audit_gap: "safe (kept pin) (audit_gap env g t p c r) (\<lambda>_. True)"
  unfolding audit_gap_def by (intro safe_ewhen safe_audit)

lemma safe_require_ready: "safe (kept pin) (require_ready env) (\<lambda>_. True)"
  unfolding require_ready_def by (intro safe_bind_eget safe_any [OF safe_eguard])

lemma safe_cached_spec: "safe (kept pin) (cached_spec env i) (\<lambda>_. True)"
  unfolding cached_spec_def by (intro safe_walk safe_base_walk)

lemma safe_elift_any: "safe (kept pin) (elift r) (\<lambda>_. True)"
  by (rule safe_any [OF safe_elift])

lemma safe_load_atr: "safe (kept pin) (load_atr env q i) (\<lambda>_. True)"
  unfolding load_atr_def
  by (auto intro!: safe_eret safe_eraise safe_bind_any [OF safe_venue] safe_bind_elift split: option.splits)

lemma safe_modify: "safe (kept pin) (modify_protection env i p a b c) (\<lambda>_. True)"
  unfolding modify_protection_def by (intro safe_walk safe_base_walk)

lemma safe_read_levels: "safe (kept pin) (read_levels env t) (\<lambda>_. True)"
  unfolding read_levels_def by (rule safe_any [OF safe_eattempt [OF safe_venue]])

lemmas safe_notes = safe_emit safe_publish_state safe_audit safe_audit_gap safe_require_ready
  safe_cached_spec safe_load_atr safe_modify safe_read_levels

lemmas safe_notes_walk = safe_walk safe_base_walk safe_notes [THEN safe_bind_any] safe_notes

subsection \<open>Confirmation and clearing\<close>

lemma safe_confirm_levels: "safe (kept pin) (confirm_levels env t s p k) (\<lambda>_. True)"
proof -
  have "safe (kept pin) (confirm_levels_loop n env t s p k d) (\<lambda>_. True)" for n d
    by (induction n arbitrary: d)
      (auto intro!: safe_eret safe_bind_any [OF safe_read_levels] split: sum.splits option.splits)
  then show ?thesis by (simp add: confirm_levels_def)
qed

lemma safe_confirm_stop: "safe (kept pin) (confirm_stop env t e k) (\<lambda>_. True)"
proof -
  have "safe (kept pin) (confirm_stop_loop n env t e k d) (\<lambda>_. True)" for n d
    by (induction n arbitrary: d)
      (auto intro!: safe_eret safe_bind_any [OF safe_read_levels] split: sum.splits option.splits)
  then show ?thesis by (simp add: confirm_stop_def)
qed

lemma safe_confirm_loop: "safe (kept pin) (confirm_protection_loop n env t s p k e) (\<lambda>_. True)"
  by (induction n arbitrary: e)
    (auto intro!: safe_eret safe_bind_any [OF safe_read_levels] split: sum.splits)

lemma safe_clear_owned: "safe (kept pin) (clear_owned_protection env t) (\<lambda>_. True)"
  unfolding clear_owned_protection_def Let_def by (intro safe_notes_walk)

lemma safe_cancel_native: "safe (kept pin) (cancel_native_trail env t) (\<lambda>_. True)"
  unfolding cancel_native_trail_def by (intro safe_notes_walk)

lemmas safe_clearing = safe_confirm_levels safe_confirm_stop safe_confirm_loop safe_clear_owned
  safe_cancel_native

lemma safe_clear_for: "safe (kept pin) (clear_for_replacement env t b) (\<lambda>_. True)"
  unfolding clear_for_replacement_def
  by (intro safe_notes_walk safe_clearing [THEN safe_bind_any])

lemmas world_walk = safe_notes_walk safe_clearing [THEN safe_bind_any] safe_clearing
  safe_clear_for [THEN safe_bind_any]

end

end
