(* ===== verification/UTE_Trailing_Kept.thy ===== *)
theory UTE_Trailing_Kept
  imports UTE_Trailing_Safety
begin

text \<open>
  The failure paths, tickers, ATR refreshes, position updates, cancellation and the integrity check
  of the trailing manager under a row policy.
\<close>

context row_policy
begin

subsection \<open>Failures and closing\<close>

lemma active_okI: "ok pin t \<Longrightarrow> ts_phase t \<in> ACTIVE_TRAILING_PHASES \<Longrightarrow> active_ok pin t"
  and live_okI: "ok pin t \<Longrightarrow> ts_phase t \<in> {ARMED, DEGRADED} \<Longrightarrow> live_ok pin t"
  by (simp_all add: active_ok_def live_ok_def)

lemma ok_upd:
  assumes "ok pin t" and "ts_id u = ts_id t" and "ts_instrument u = ts_instrument t"
    and "ts_position_id u = ts_position_id t" and "ts_mode u = ts_mode t" and "ts_spec u = ts_spec t"
    and "ts_side u = ts_side t" and "ts_created_at u = ts_created_at t" and "ts_reprices t \<le> ts_reprices u"
    and "ts_phase t \<in> ACTIVE_TRAILING_PHASES"
    and "ts_phase u = ts_phase t \<or> phase_step (ts_phase t) (ts_phase u)"
  shows "ok pin u"
  using assms(1) by (rule ok_step) (use assms in \<open>simp add: row_step_def\<close>)

lemma safe_degrade_now: "ok pin t \<Longrightarrow> safe (kept pin) (degrade_now env t r) (live_ok pin)"
  unfolding degrade_now_def
  by (intro world_walk live_okI; (rule ok_upd, assumption)?; force simp: row_simps dest: phase_step_active split: if_splits)

lemma safe_degrade_attach: "ok pin t \<Longrightarrow> ts_phase t = ARMING \<Longrightarrow> safe (kept pin) (degrade_attach env t r) (live_ok pin)"
  unfolding degrade_attach_def
  by (intro world_walk live_okI; (rule ok_upd, assumption)?; force simp: row_simps dest: phase_step_active)

lemma safe_attach_failed: "ok pin t \<Longrightarrow> ts_phase t = ARMING \<Longrightarrow> safe (kept pin) (attach_failed env t e) (\<lambda>_. True)"
  unfolding attach_failed_def
  by (intro world_walk; (rule ok_upd, assumption)?; force simp: row_simps dest: phase_step_active)

lemma safe_fetch_failure: "live_ok pin t \<Longrightarrow> safe (kept pin) (record_fetch_failure env t r) (live_ok pin)"
  unfolding record_fetch_failure_def
  by (intro world_walk live_okI; (rule ok_upd, erule liveD)?; force simp: row_simps live_ok_def dest: phase_step_active)

lemma safe_protection_failure: "active_ok pin t \<Longrightarrow> safe (kept pin) (record_protection_failure env t r) (ok pin)"
  unfolding record_protection_failure_def
  by (intro world_walk; rule ok_upd, erule liveD; force simp: row_simps active_ok_def dest: phase_step_active)

lemma safe_confirm_protection:
  "ok pin t \<Longrightarrow> safe (kept pin) (confirm_protection env t s p k) (\<lambda>_. True)"
  unfolding confirm_protection_def
  by (intro world_walk safe_degrade_now [THEN safe_ebind])

lemma ok_confirmed:
  "active_ok pin t \<Longrightarrow> protection_confirmed t s p now = (u, b) \<Longrightarrow> active_ok pin u"
  unfolding active_ok_def
  by (auto simp: protection_confirmed_def Let_def row_step_def phase_step_to elim!: ok_step)

lemma safe_close: "ok pin t \<Longrightarrow> safe (kept pin) (complete_position_close env t r now) (ok pin)"
  unfolding complete_position_close_def
  by (intro world_walk; rule ok_upd, assumption; force simp: row_simps dest: phase_step_active)

lemmas fail_walk =
  safe_degrade_now [THEN safe_ebind] safe_degrade_now [THEN safe_weaken, OF _ liveD(2)]
  safe_fetch_failure [THEN safe_ebind] safe_fetch_failure [THEN safe_weaken, OF _ liveD(2)]
  safe_protection_failure safe_protection_failure [THEN safe_ebind]
  safe_close safe_close [THEN safe_ebind]

subsection \<open>Tickers and ATR refreshes\<close>

lemma safe_recover: "live_ok pin t \<Longrightarrow> safe (kept pin) (recover_fetch_degraded env t now) (live_ok pin)"
  unfolding recover_fetch_degraded_def
  by (intro world_walk live_okI; (rule ok_upd, erule liveD)?; force simp: row_simps live_ok_def)

lemma safe_track_best: "live_ok pin t \<Longrightarrow> safe (kept pin) (track_best t b now) (live_ok pin)"
  unfolding track_best_def
  by (intro world_walk live_okI; (rule ok_upd, erule liveD)?; force simp: row_simps live_ok_def)

lemma safe_track_activation: "live_ok pin t \<Longrightarrow> safe (kept pin) (track_activation t now) (live_ok pin)"
  unfolding track_activation_def
  by (intro world_walk live_okI; (rule ok_upd, erule liveD)?; force simp: row_simps live_ok_def)

lemma ok_live_upd:
  "live_ok pin t \<Longrightarrow> row_step t u \<Longrightarrow> ts_phase u \<in> {ARMED, DEGRADED} \<Longrightarrow> live_ok pin u"
  by (auto simp: live_ok_def intro: ok_step)

lemma safe_reprice: "live_ok pin t \<Longrightarrow> safe (kept pin) (reprice env t p s c now) (ok pin)"
  unfolding reprice_def
  by (intro world_walk fail_walk active_okI; (rule ok_upd, erule liveD)?; force simp: row_simps live_ok_def)

lemma safe_try_reprice: "live_ok pin t \<Longrightarrow> safe (kept pin) (try_reprice env t b k p now) (ok pin)"
  unfolding try_reprice_def
  by (intro world_walk fail_walk safe_reprice) (auto dest: liveD)

lemma safe_apply_ticker: "live_ok pin t \<Longrightarrow> safe (kept pin) (apply_ticker env t b now) (ok pin)"
  unfolding apply_ticker_def
  by (intro world_walk safe_try_reprice safe_recover [THEN safe_ebind] safe_track_best [THEN safe_ebind]
      safe_track_activation [THEN safe_ebind]; (rule ok_upd, erule liveD)?; force simp: row_simps live_ok_def)

lemma safe_load_row:
  "safe (kept pin) m Q \<Longrightarrow> (\<And>t. ok pin t \<Longrightarrow> ts_id t = x \<Longrightarrow> safe (kept pin) (g t) Q)
   \<Longrightarrow> safe (kept pin) (ebind (load x) (\<lambda>r. case r of None \<Rightarrow> m | Some t \<Rightarrow> g t)) Q"
  by (rule safe_ebind [OF safe_load]) (auto split: option.splits)

lemma found_okI: "found_ok pin None" "ok pin t \<Longrightarrow> found_ok pin (Some t)"
  by simp_all

lemma live_ok_in: "ok pin t \<Longrightarrow> \<not> ts_phase t \<notin> {ARMED, DEGRADED} \<Longrightarrow> live_ok pin t"
  by (simp add: live_ok_def)

lemma safe_load_found: "safe (kept pin) (load x) (found_ok pin)"
  by (rule safe_weaken [OF safe_load]) simp

lemmas row_walk = safe_load_row world_walk fail_walk found_okI safe_load_found

lemma safe_on_ticker: "safe (kept pin) (on_ticker env x tk) (found_ok pin)"
  unfolding on_ticker_def
  by (intro row_walk safe_apply_ticker [THEN safe_ebind]; (assumption | erule live_ok_in, assumption))

lemma safe_on_ticker_failure: "safe (kept pin) (on_ticker_failure env x r) (found_ok pin)"
  unfolding on_ticker_failure_def
  by (intro row_walk; (assumption | (erule live_ok_in, assumption) | (erule liveD)))

lemma safe_on_atr: "safe (kept pin) (on_atr env x a as_of) (found_ok pin)"
  unfolding on_atr_def
  by (intro row_walk; assumption?; (rule ok_upd, assumption)?; auto simp: row_simps)

lemma safe_on_atr_failure: "safe (kept pin) (on_atr_failure env x r) (found_ok pin)"
  unfolding on_atr_failure_def
  by (intro row_walk; assumption?; (rule ok_upd, assumption)?; auto simp: row_simps)

subsection \<open>Positions and cancellation\<close>

lemma safe_resize: "active_ok pin t \<Longrightarrow> safe (kept pin) (resize_protection env t) (ok pin)"
  unfolding resize_protection_def
  by (intro world_walk fail_walk; (assumption | erule liveD | (rule liveD(3), rule ok_confirmed, assumption, assumption)))

lemma safe_apply_position: "active_ok pin t \<Longrightarrow> safe (kept pin) (apply_position env t p now) (ok pin)"
  unfolding apply_position_def
  by (intro world_walk fail_walk safe_resize active_okI; (erule liveD)?; (rule ok_upd, erule liveD)?;
      auto simp: row_simps active_ok_def)

lemma safe_on_position: "safe (kept pin) (on_position_update env p) (found_ok pin)"
  unfolding on_position_update_def
  by (intro row_walk safe_apply_position [THEN safe_ebind] active_okI; auto)

lemma safe_cancel: "safe (kept pin) (cancel_state env x c r) (ok pin)"
  unfolding cancel_state_def
  by (intro row_walk; assumption?; (rule ok_upd, assumption)?; auto simp: row_simps dest: phase_step_active)

end

end
