(* ===== verification/UTE_Paper_Venue.thy ===== *)
theory UTE_Paper_Venue
  imports UTE_Trailing_World
begin

text \<open>
  A one-leg venue on which the properties of the trailing manager are applied at concrete inputs:
  it holds the protection of one position and a clock that advances by one second per reading. It
  models no source file; methods it does not have raise, as an adapter that does not override them.
\<close>

record paper =
  pv_stop :: "tpsl option"
  pv_tp :: "tpsl option"
  pv_now :: instant

definition paper_spec :: instrument_spec where
  "paper_spec = \<lparr>sp_tick_size = 1, sp_lot_size = 1, sp_min_qty = 1, sp_max_qty = 100, sp_min_notional = 0,
     sp_price_precision = 0, sp_qty_precision = 0, sp_max_leverage = None, sp_min_stop_distance = None\<rparr>"

definition not_implemented :: "('v, 'a) eff" where
  "not_implemented = eraise PyNotImplementedError ''not implemented''"

definition paper_modify :: "tpsl option \<Rightarrow> tpsl option \<Rightarrow> (paper, unit) eff" where
  "paper_modify tp sl = eupd (\<lambda>p. p\<lparr>pv_tp := (if tp = None then pv_tp p else tp),
                                    pv_stop := (if sl = None then pv_stop p else sl)\<rparr>)"

definition paper_adapter :: "paper adapter" where
  "paper_adapter = \<lparr>ad_platform = ''paper'', ad_account = ''demo'', ad_is_connected = (\<lambda>_. True),
     ad_connect = eret (), ad_disconnect = eret (), ad_order_types = {},
     ad_place_order = (\<lambda>_. not_implemented), ad_modify_order = (\<lambda>_. not_implemented),
     ad_cancel_order = (\<lambda>_. not_implemented), ad_get_order = (\<lambda>_. not_implemented),
     ad_fetch_spec = (\<lambda>_. eret paper_spec), ad_protection_cap = (\<lambda>_. default_protection_capability),
     ad_trailing_cap = (\<lambda>_. default_trailing_capability), ad_market_cap = (\<lambda>_. default_market_capability),
     ad_rate_limits = not_implemented, ad_fetch_ticker = (\<lambda>_. eret None),
     ad_fetch_candles = (\<lambda>_ _ _. not_implemented),
     ad_modify_tpsl = (\<lambda>_ _ tp sl _. paper_modify tp sl),
     ad_get_tpsl = (\<lambda>_ _. eget (\<lambda>p. Some (pv_tp p, pv_stop p))),
     ad_clear_tpsl = (\<lambda>_ _ tp sl. eupd (\<lambda>p. p\<lparr>pv_tp := (if tp then None else pv_tp p),
                                              pv_stop := (if sl then None else pv_stop p)\<rparr>)),
     ad_place_trailing = (\<lambda>_. not_implemented), ad_cancel_trailing = (\<lambda>_ _. not_implemented),
     ad_get_trailing = (\<lambda>_ _. not_implemented), ad_get_position_trailing = (\<lambda>_ _. not_implemented),
     ad_fetch_positions = eret [], ad_fetch_balances = eret [], ad_fetch_open_orders = eret [],
     ad_fetch_fills = (\<lambda>_. eret []), ad_reconcile_intent = eret ()\<rparr>"

definition paper_env :: "paper tenv" where
  "paper_env = \<lparr>te_adapter = paper_adapter, te_config = default_trailing_config,
     te_clock = (\<lambda>p. (pv_now p, p\<lparr>pv_now := pv_now p + 1000000\<rparr>)),
     te_new_id = (\<lambda>p. (''fresh'', p)), te_reserve = (\<lambda>p. (True, p))\<rparr>"

text \<open>A world with one armed synthetic state, \<open>row_template\<close>: long 1 at 100, stop at 99.\<close>

definition paper_world :: "halt_machine \<Rightarrow> paper tworld" where
  "paper_world h = \<lparr>tw_venue = \<lparr>pv_stop = Some \<lparr>tp_trigger = 99, tp_limit = None\<rparr>, pv_tp = None, pv_now = 1\<rparr>,
     tw_store = empty_store\<lparr>so_trailing := [row_template]\<rparr>, tw_events = [], tw_halts = h,
     tw_fetch_failures = [], tw_atr_failures = [], tw_specs = [], tw_rehydrated = Some True\<rparr>"

lemma paper_world_row:
  "trailing_row ''t'' (tw_store (paper_world h)) = Some row_template"
  "wf_trailing_table (tw_store (paper_world h))"
  by (simp_all add: paper_world_def trailing_row_def wf_trailing_table_def empty_store_def row_template_def)

end
