(* ===== verification/UTE_Trailing_Lifecycle.thy ===== *)
theory UTE_Trailing_Lifecycle
  imports UTE_Trailing_Kept UTE_Paper_Venue
begin

text \<open>
  The integrity check, rehydration and attachment under a row policy, and the lifecycle theorem:
  whatever sequence of calls the engine and the worker make, a persisted state only moves along the
  lifecycle, a terminal row is frozen, and events and audit rows are only appended.
\<close>

context row_policy
begin

subsection \<open>Integrity\<close>

lemma safe_persist: "active_ok pin t \<Longrightarrow> safe (kept pin) (persist_confirmed env t s p now b r) (ok pin)"
  unfolding persist_confirmed_def
  by (intro world_walk; (rule liveD(3), erule ok_confirmed, assumption))

lemma safe_synthetic_integrity: "active_ok pin t \<Longrightarrow> safe (kept pin) (check_synthetic_integrity env t) (ok pin)"
  unfolding check_synthetic_integrity_def
  by (intro world_walk fail_walk safe_persist; (assumption | erule liveD))

lemma safe_adopt: "active_ok pin t \<Longrightarrow> safe (kept pin) (adopt_native env t res now) (ok pin)"
  unfolding adopt_native_def
  by (intro world_walk fail_walk; (erule liveD)?; (rule ok_upd, erule liveD)?; auto simp: row_simps active_ok_def)

lemma target_phase:
  "p \<in> ACTIVE_TRAILING_PHASES \<Longrightarrow> p = ts_phase t
   \<Longrightarrow> target_phase_of t = p \<or> phase_step p (target_phase_of t)"
  by (auto simp: target_phase_of_def ACTIVE_TRAILING_PHASES_def phase_step_to)

lemma ok_target:
  "active_ok pin t \<Longrightarrow> u = t\<lparr>ts_phase := target_phase_of t, ts_native_id := n, ts_stop := s, ts_activated := a,
     ts_failures := f, ts_error := e, ts_updated_at := now\<rparr> \<Longrightarrow> ok pin u"
  using target_phase [of "ts_phase t" t] unfolding active_ok_def
  by (elim conjE) (rule ok_upd, assumption, auto)

lemma safe_rearm: "active_ok pin t \<Longrightarrow> safe (kept pin) (rearm_native env t leg now) (ok pin)"
  unfolding rearm_native_def
  by (intro world_walk fail_walk; (assumption | erule liveD | (erule ok_target, assumption)))

lemma safe_native_integrity: "ok pin t \<Longrightarrow> safe (kept pin) (check_native_integrity env t) (ok pin)"
  unfolding check_native_integrity_def
  by (intro world_walk fail_walk safe_rearm safe_adopt; (assumption | (rule active_okI, assumption, force)))

lemma safe_check_integrity: "safe (kept pin) (check_integrity env x) (found_ok pin)"
  unfolding check_integrity_def
  by (intro row_walk safe_native_integrity [THEN safe_ebind] safe_synthetic_integrity [THEN safe_ebind];
      (assumption | (rule active_okI, assumption, force)))

lemma safe_list_states: "safe (kept pin) (list_states env i b) (\<lambda>_. True)"
  unfolding list_states_def by (intro row_walk)

lemma safe_integrity_pass: "safe (kept pin) (integrity_pass env) (\<lambda>_. True)"
  unfolding integrity_pass_def
  by (intro row_walk safe_list_states [THEN safe_bind_any] safe_efor safe_etry
      safe_check_integrity [THEN safe_ebind])

subsection \<open>Rehydration\<close>

lemma safe_rehydrate_degraded: "ok pin t \<Longrightarrow> safe (kept pin) (rehydrate_degraded env t r now) (ok pin)"
  unfolding rehydrate_degraded_def
  by (intro world_walk; (rule ok_upd, assumption)?; force simp: row_simps dest: phase_step_active split: if_splits)

lemma safe_stop_here: "ok pin t \<Longrightarrow> safe (kept pin) (stop_here env t r now) (staged_ok pin K)"
  unfolding stop_here_def
  by (intro world_walk safe_rehydrate_degraded [THEN safe_ebind]) simp_all

lemma safe_stage:
  "safe (kept pin) m (staged_ok pin K) \<Longrightarrow> (\<And>a. K a \<Longrightarrow> safe (kept pin) (f a) (ok pin)) \<Longrightarrow> safe (kept pin) (stage m f) (ok pin)"
  unfolding stage_def
  by (erule safe_ebind) (auto simp: staged_ok_def intro: safe_eret split: sum.splits)

lemma safe_restore: "ok pin t \<Longrightarrow> safe (kept pin) (restore_levels env t k now) (staged_ok pin (\<lambda>_. True))"
  unfolding restore_levels_def Let_def
  by (intro world_walk safe_stop_here; simp)

lemma safe_sample: "ok pin t \<Longrightarrow> safe (kept pin) (sample_market env t now) (staged_ok pin (\<lambda>_. True))"
  unfolding sample_market_def
  by (intro world_walk safe_stop_here; simp)

definition same_phase :: "pinned \<Rightarrow> trailing_phase \<Rightarrow> trailing_state \<times> 'a \<Rightarrow> bool" where
  "same_phase pin p r \<longleftrightarrow> (ok pin) (fst r) \<and> ts_phase (fst r) = p"

lemma safe_first_stop:
  "active_ok pin b \<Longrightarrow>
   safe (kept pin) (rehydrate_first_stop env b basis atr a k now) (staged_ok pin (same_phase pin (ts_phase b)))"
  unfolding rehydrate_first_stop_def
  by (intro world_walk safe_elift_any safe_stop_here; (erule liveD)?; (auto simp: same_phase_def row_simps active_ok_def intro: ok_step))

lemma safe_rehydrate_reprice:
  "active_ok pin b \<Longrightarrow>
   safe (kept pin) (rehydrate_reprice env p b best basis atr a k now) (staged_ok pin (same_phase pin (ts_phase b)))"
  unfolding rehydrate_reprice_def
  by (intro world_walk safe_stop_here; (erule liveD)?; (auto simp: same_phase_def row_simps active_ok_def intro: ok_step))

lemma safe_rehydrate_native: "active_ok pin t \<Longrightarrow> safe (kept pin) (rehydrate_native env t leg now) (ok pin)"
  unfolding rehydrate_native_def read_native_def replace_native_def
  by (intro safe_stage [where K = "\<lambda>_. True"] world_walk safe_stop_here;
      ((erule ok_target, assumption) | erule liveD | simp))

lemma active_upd:
  "active_ok pin t \<Longrightarrow> row_step t u \<Longrightarrow> ts_phase u = ts_phase t \<Longrightarrow> active_ok pin u"
  by (auto simp: active_ok_def intro: ok_step)

lemma rehydrate_steps:
  assumes "active_ok pin t" and "b1 = t\<lparr>ts_stop := x, ts_take_profit := y, ts_updated_at := now\<rparr>"
  shows "ok pin b1"
    and "b2 = b1\<lparr>ts_best := v, ts_activation_price := w, ts_updated_at := now\<rparr> \<Longrightarrow> active_ok pin b2"
    and "b2 = b1\<lparr>ts_best := v, ts_activation_price := w, ts_updated_at := now\<rparr> \<Longrightarrow> ts_phase b2 = ts_phase t"
proof -
  have act: "ts_phase t \<in> ACTIVE_TRAILING_PHASES" using assms(1) by (simp add: active_ok_def)
  have "active_ok pin b1" by (rule active_upd [OF assms(1)]) (simp_all add: row_step_def act assms(2))
  then show "ok pin b1" by (rule liveD)
  show "b2 = b1\<lparr>ts_best := v, ts_activation_price := w, ts_updated_at := now\<rparr> \<Longrightarrow> active_ok pin b2"
    by (rule active_upd [OF \<open>active_ok pin b1\<close>]) (simp_all add: row_step_def act assms(2))
  show "b2 = b1\<lparr>ts_best := v, ts_activation_price := w, ts_updated_at := now\<rparr> \<Longrightarrow> ts_phase b2 = ts_phase t"
    by (simp add: assms(2))
qed

lemma ok_rehydrated:
  "active_ok pin t \<Longrightarrow> same_phase pin (ts_phase t) r \<Longrightarrow> r = (b, rs) \<Longrightarrow>
   u = b\<lparr>ts_phase := target_phase_of t, ts_activated := a, ts_atr := m, ts_atr_as_of := s,
     ts_failures := f, ts_error := e, ts_updated_at := now\<rparr> \<Longrightarrow> ok pin u"
  using target_phase [of "ts_phase t" t] unfolding active_ok_def same_phase_def
  by (elim conjE) (rule ok_upd [where t = b], auto)

lemma safe_first_stop_stage:
  "active_ok pin b \<Longrightarrow> ts_phase b = p \<Longrightarrow>
   safe (kept pin) (rehydrate_first_stop env b basis atr a k now) (staged_ok pin (same_phase pin p))"
  using safe_first_stop by blast

lemma safe_reprice_stage:
  "active_ok pin t \<Longrightarrow> same_phase pin (ts_phase t) r \<Longrightarrow> r = (b3, rs) \<Longrightarrow>
   safe (kept pin) (if c then rehydrate_reprice env p b3 best basis atr a k now else eret (Inr (b3, [])))
     (staged_ok pin (same_phase pin (ts_phase t)))"
  using safe_rehydrate_reprice [where b = b3 and pin = pin] by (auto simp: same_phase_def active_ok_def intro: safe_eret)

lemma safe_rehydrate_synthetic: "active_ok pin t \<Longrightarrow> safe (kept pin) (rehydrate_synthetic env t k now) (ok pin)"
  unfolding rehydrate_synthetic_def
  by (intro safe_stage [OF safe_restore] safe_stage [OF safe_sample]
      safe_stage [where K = "same_phase pin (ts_phase t)"] safe_first_stop_stage safe_reprice_stage world_walk;
      (assumption | erule liveD | (rule rehydrate_steps, assumption, assumption)
       | (rule rehydrate_steps, assumption, assumption, assumption)
       | (erule ok_rehydrated; assumption)))

lemma active_same:
  assumes "active_ok pin t" and "ts_id u = ts_id t" and "ts_instrument u = ts_instrument t"
    and "ts_position_id u = ts_position_id t" and "ts_mode u = ts_mode t" and "ts_spec u = ts_spec t"
    and "ts_side u = ts_side t" and "ts_created_at u = ts_created_at t" and "ts_reprices u = ts_reprices t"
    and "ts_phase u = ts_phase t"
  shows "active_ok pin u"
  using assms by (intro active_upd [OF assms(1)]) (simp_all add: row_step_def active_ok_def)

lemma safe_identity: "ok pin t \<Longrightarrow> safe (kept pin) (rehydrate_identity env t i c now) (\<lambda>_. True)"
  unfolding rehydrate_identity_def
  by (intro world_walk safe_rehydrate_degraded [THEN safe_ebind])

lemma safe_rehydrate_leg: "active_ok pin t \<Longrightarrow> safe (kept pin) (rehydrate_leg env t snap mir now) (\<lambda>_. True)"
  unfolding rehydrate_leg_def
  by (intro world_walk safe_identity safe_rehydrate_degraded [THEN safe_ebind]
      safe_rehydrate_synthetic [THEN safe_ebind] safe_rehydrate_native [THEN safe_ebind];
      (erule liveD | (erule active_same; simp)))

lemma safe_rehydrate_state: "safe (kept pin) (rehydrate_state env x a b) (\<lambda>_. True)"
  unfolding rehydrate_state_def
  by (intro row_walk safe_rehydrate_leg safe_rehydrate_degraded [THEN safe_ebind] active_okI;
      (assumption | blast))

lemma safe_rehydrate: "safe (kept pin) (rehydrate env ps) (\<lambda>_. True)"
  unfolding rehydrate_def
  by (intro row_walk safe_etry safe_rehydrate_state)

subsection \<open>Attachment\<close>

lemma safe_fresh_id: "(\<forall>v. fst (te_new_id env v) \<noteq> pin_id pin) \<Longrightarrow> safe (kept pin) (new_id env) (\<lambda>i. i \<noteq> pin_id pin)"
  by (auto simp: safe_def new_id_def outside_def kept_def logs_extend_def split: prod.splits) (metis fst_conv)

lemma safe_require_rehydrated: "safe (kept pin) require_rehydrated (\<lambda>_. True)"
  unfolding require_rehydrated_def by (intro row_walk)

lemma arming_simps [simp]:
  "ts_id (arming_state i req leg pid m r b g e p a now) = i"
  "ts_phase (arming_state i req leg pid m r b g e p a now) = ARMING"
  by (simp_all add: arming_state_def)

lemmas attach_walk = row_walk safe_attach_failed [THEN safe_bind_any] safe_degrade_attach [THEN safe_ebind]
  safe_confirm_protection safe_confirm_protection [THEN safe_bind_any]

lemma safe_attach_synthetic:
  assumes "\<forall>v. fst (te_new_id env v) \<noteq> pin_id pin"
  shows "safe (kept pin) (attach_synthetic env req leg pid r) (ok pin)"
  unfolding attach_synthetic_def
  by (intro attach_walk safe_ebind [OF safe_fresh_id [OF assms]]; simp add: ok_other)

lemma safe_native_tp:
  "ok pin t \<Longrightarrow> ts_phase t = ARMING \<Longrightarrow> safe (kept pin) (native_take_profit env t tp k) (\<lambda>_. True)"
  unfolding native_take_profit_def
  by (intro attach_walk)

lemma safe_confirm_native:
  "ok pin t \<Longrightarrow> ts_phase t = ARMING \<Longrightarrow> safe (kept pin) (confirm_native env t n) (\<lambda>_. True)"
  unfolding confirm_native_def
  by (intro attach_walk)

lemma safe_attach_native:
  assumes "\<forall>v. fst (te_new_id env v) \<noteq> pin_id pin"
  shows "safe (kept pin) (attach_native env req leg pid r) (ok pin)"
  unfolding attach_native_def
  by (intro attach_walk safe_ebind [OF safe_fresh_id [OF assms]] safe_confirm_native [THEN safe_bind_any]
      safe_native_tp [THEN safe_bind_any]; simp add: ok_other)

lemma safe_attach:
  assumes "\<forall>v. fst (te_new_id env v) \<noteq> pin_id pin"
  shows "safe (kept pin) (attach env req) (ok pin)"
  unfolding attach_def Let_def
  by (intro attach_walk safe_attach_synthetic [OF assms, THEN safe_ebind]
      safe_attach_native [OF assms, THEN safe_ebind] safe_require_rehydrated [THEN safe_bind_any])

end

subsection \<open>Sequences of calls\<close>

text \<open>
  The calls the engine, its dispatcher and the trailing worker make. \<open>C_elsewhere\<close> is whatever
  happens between two calls outside the manager: the venue moves on and the halts change.
\<close>

datatype 'v tcall =
    C_attach trailing_request
  | C_ticker string ticker
  | C_ticker_failed string string
  | C_atr string decimal instant
  | C_atr_failed string string
  | C_position position
  | C_cancel string bool "string option"
  | C_integrity string
  | C_integrity_pass
  | C_rehydrate "position list option"
  | C_elsewhere "'v" halt_machine

definition edrop :: "('w, 'a) eff \<Rightarrow> ('w, unit) eff" where
  "edrop m = ebind m (\<lambda>_. eret ())"

fun run_call :: "'v tenv \<Rightarrow> 'v tcall \<Rightarrow> ('v, unit) top" where
  "run_call env (C_attach r) = edrop (attach env r)"
| "run_call env (C_ticker x k) = edrop (on_ticker env x k)"
| "run_call env (C_ticker_failed x r) = edrop (on_ticker_failure env x r)"
| "run_call env (C_atr x a as_of) = edrop (on_atr env x a as_of)"
| "run_call env (C_atr_failed x r) = edrop (on_atr_failure env x r)"
| "run_call env (C_position p) = edrop (on_position_update env p)"
| "run_call env (C_cancel x c r) = edrop (cancel_state env x c r)"
| "run_call env (C_integrity x) = edrop (check_integrity env x)"
| "run_call env C_integrity_pass = integrity_pass env"
| "run_call env (C_rehydrate ps) = rehydrate env ps"
| "run_call env (C_elsewhere v h) = eupd (\<lambda>w. w\<lparr>tw_venue := v, tw_halts := h\<rparr>)"

text \<open>A call that raises leaves the effects it had; the caller goes on with the next one.\<close>

primrec run_calls :: "'v tenv \<Rightarrow> 'v tcall list \<Rightarrow> 'v tworld \<Rightarrow> 'v tworld" where
  "run_calls env [] w = w"
| "run_calls env (c # cs) w = run_calls env cs (snd (run_call env c w))"

context row_policy
begin

lemma safe_edrop: "safe (kept pin) m Q \<Longrightarrow> safe (kept pin) (edrop m) (\<lambda>_. True)"
  unfolding edrop_def by (erule safe_ebind) (simp add: safe_eret)

definition halts_as_pinned :: "pinned \<Rightarrow> 'v tcall \<Rightarrow> bool" where
  "halts_as_pinned pin c = (case c of C_elsewhere _ h \<Rightarrow> pin_halts pin h | _ \<Rightarrow> True)"

lemma safe_elsewhere:
  "pin_halts pin h \<Longrightarrow> safe (kept pin) (eupd (\<lambda>w. w\<lparr>tw_venue := v, tw_halts := h\<rparr>)) (\<lambda>_. True)"
  by (simp add: safe_def eupd_def kept_def logs_extend_def)

lemma safe_run_call:
  assumes "\<forall>v. fst (te_new_id env v) \<noteq> pin_id pin" and "halts_as_pinned pin c"
  shows "safe (kept pin) (run_call env c) (\<lambda>_. True)"
  using assms(2)
  by (cases c)
    (simp_all add: halts_as_pinned_def safe_edrop [OF safe_attach [OF assms(1)]] safe_edrop [OF safe_on_ticker]
      safe_edrop [OF safe_on_ticker_failure] safe_edrop [OF safe_on_atr] safe_edrop [OF safe_on_atr_failure]
      safe_edrop [OF safe_on_position] safe_edrop [OF safe_cancel] safe_edrop [OF safe_check_integrity]
      safe_integrity_pass safe_rehydrate safe_elsewhere)

lemma kept_run_calls:
  assumes "\<forall>v. fst (te_new_id env v) \<noteq> pin_id pin"
  shows "list_all (halts_as_pinned pin) cs \<Longrightarrow> (kept pin) w \<Longrightarrow> (kept pin) (run_calls env cs w)"
proof (induction cs arbitrary: w)
  case (Cons c cs)
  then have "(kept pin) (snd (run_call env c w))"
    using safeD [OF safe_run_call [OF assms, of c] _ prod.collapse [symmetric]] by simp
  with Cons show ?case by simp
qed simp

end

text \<open>The policy of the rows reachable from a given one, with the logs of a given world.\<close>

interpretation life: row_policy "row_step\<^sup>*\<^sup>*"
  by unfold_locales (auto intro: rtranclp.rtrancl_into_rtrancl)

lemma row_steps_facts:
  assumes "row_step\<^sup>*\<^sup>* t u"
  shows "ts_id u = ts_id t \<and> ts_instrument u = ts_instrument t \<and> ts_position_id u = ts_position_id t
    \<and> ts_mode u = ts_mode t \<and> ts_spec u = ts_spec t \<and> ts_side u = ts_side t
    \<and> ts_created_at u = ts_created_at t \<and> ts_reprices t \<le> ts_reprices u
    \<and> phase_reach (ts_phase t) (ts_phase u)"
  using assms
  by (induction rule: rtranclp_induct) (auto simp: row_step_def intro: rtranclp.rtrancl_into_rtrancl)

lemma row_steps_terminal: "row_step\<^sup>*\<^sup>* t u \<Longrightarrow> ts_phase t \<in> TERMINAL_TRAILING_PHASES \<Longrightarrow> u = t"
  by (erule converse_rtranclpE) (auto simp: row_step_def ACTIVE_TRAILING_PHASES_def TERMINAL_TRAILING_PHASES_def)

text \<open>
  C2. The trailing lifecycle. Take any persisted trailing state and any sequence of manager calls,
  interleaved with anything the venue and the halts do, whether calls return or raise: the state is
  still persisted under its identifier, with the instrument, leg, mode, specification, side and
  creation time it was attached with; its phase was reached along the lifecycle; its reprice count
  did not fall; if it was terminal its row is untouched. The table keeps one row per identifier and
  one active row per leg, and no event or audit row is lost or reordered.
\<close>

theorem trailing_lifecycle:
  assumes row: "trailing_row tid (tw_store w) = Some t" and wf: "wf_trailing_table (tw_store w)"
    and fresh: "\<forall>v. fst (te_new_id env v) \<noteq> tid"
  shows "\<exists>u. trailing_row tid (tw_store (run_calls env cs w)) = Some u
    \<and> ts_id u = ts_id t \<and> ts_instrument u = ts_instrument t \<and> ts_position_id u = ts_position_id t
    \<and> ts_mode u = ts_mode t \<and> ts_spec u = ts_spec t \<and> ts_side u = ts_side t
    \<and> ts_created_at u = ts_created_at t \<and> ts_reprices t \<le> ts_reprices u
    \<and> phase_reach (ts_phase t) (ts_phase u)
    \<and> (ts_phase t \<in> TERMINAL_TRAILING_PHASES \<longrightarrow> u = t)
    \<and> wf_trailing_table (tw_store (run_calls env cs w))
    \<and> extends (tw_events w) (tw_events (run_calls env cs w))
    \<and> extends (so_audit (tw_store w)) (so_audit (tw_store (run_calls env cs w)))"
proof -
  let ?pin = "\<lparr>pin_id = tid, pin_row = t, pin_events = tw_events w, pin_audit = so_audit (tw_store w),
      pin_halts = (\<lambda>_. True)\<rparr>"
  have halts: "list_all (life.halts_as_pinned ?pin) cs"
    by (simp add: list_all_iff life.halts_as_pinned_def split: tcall.split)
  have k: "life.kept ?pin w" using row wf by (simp add: life.kept_def logs_extend_def)
  have "\<forall>v. fst (te_new_id env v) \<noteq> pin_id ?pin" using fresh by simp
  from life.kept_run_calls [OF this halts k] obtain u
    where u: "trailing_row tid (tw_store (run_calls env cs w)) = Some u" and st: "row_step\<^sup>*\<^sup>* t u"
      and rest: "wf_trailing_table (tw_store (run_calls env cs w))"
        "extends (tw_events w) (tw_events (run_calls env cs w))"
        "extends (so_audit (tw_store w)) (so_audit (tw_store (run_calls env cs w)))"
    by (auto simp: life.kept_def logs_extend_def)
  show ?thesis
    by (rule exI [of _ u]) (intro conjI impI u rest row_steps_terminal [OF st]; simp add: row_steps_facts [OF st])
qed

theorem trailing_lifecycle_witness:
  "\<exists>u. trailing_row ''t'' (tw_store (run_calls paper_env
        [C_ticker ''t'' \<lparr>ti_bid = Some 104, ti_ask = Some 105, ti_last = Some 105, ti_mark = None\<rparr>,
         C_cancel ''t'' True None, C_integrity_pass] (paper_world (halt_init None)))) = Some u
     \<and> phase_reach ARMED (ts_phase u)"
  using trailing_lifecycle [of "''t''" "paper_world (halt_init None)" row_template paper_env]
    paper_world_row [of "halt_init None"]
  by (fastforce simp: paper_env_def row_template_def)

end
