(* ===== verification/UTE_Trailing_Halted.thy ===== *)
theory UTE_Trailing_Halted
  imports UTE_Trailing_Lifecycle
begin

text \<open>
  While the account is halted without permission to close positions, no call of the trailing manager
  writes to the venue: every write is behind the reduce-only check of the halt machine. What the
  venue holds is any projection \<open>book\<close> of the outside world that queries, the clock, the id factory
  and the rate limiter leave alone.
\<close>

definition reads_only :: "'v tenv \<Rightarrow> ('v \<Rightarrow> 'b) \<Rightarrow> bool" where
  "reads_only env book \<longleftrightarrow> (\<forall>v.
     book (snd (te_clock env v)) = book v \<and> book (snd (te_new_id env v)) = book v
     \<and> book (snd (te_reserve env v)) = book v
     \<and> (\<forall>i. book (snd (ad_fetch_spec (te_adapter env) i v)) = book v)
     \<and> (\<forall>i. book (snd (ad_fetch_ticker (te_adapter env) i v)) = book v)
     \<and> (\<forall>i tf n. book (snd (ad_fetch_candles (te_adapter env) i tf n v)) = book v)
     \<and> (\<forall>i p. book (snd (ad_get_tpsl (te_adapter env) i p v)) = book v)
     \<and> (\<forall>i n. book (snd (ad_get_trailing (te_adapter env) n i v)) = book v)
     \<and> (\<forall>i p. book (snd (ad_get_position_trailing (te_adapter env) i p v)) = book v)
     \<and> book (snd (ad_fetch_positions (te_adapter env) v)) = book v)"

definition silent :: "('v \<Rightarrow> 'b) \<Rightarrow> 'b \<Rightarrow> halt_machine \<Rightarrow> 'v tworld \<Rightarrow> bool" where
  "silent book b h w \<longleftrightarrow> book (tw_venue w) = b \<and> tw_halts w = h
     \<and> is_account_halted h \<and> \<not> hc_closing (hm_config h)"

subsection \<open>Primitive operations\<close>

lemma silent_venue:
  "(\<And>v. book (snd (f v)) = book v) \<Longrightarrow> safe (silent book b h) (venue f) (\<lambda>_. True)"
  by (auto simp: safe_def venue_def silent_def split: prod.splits sum.splits) (metis snd_conv)+

lemma silent_outside:
  "(\<And>v. book (snd (f v)) = book v) \<Longrightarrow> safe (silent book b h) (outside f) (\<lambda>_. True)"
  by (auto simp: safe_def outside_def silent_def split: prod.splits) (metis snd_conv)

lemma silent_reads:
  assumes "reads_only env book"
  shows "safe (silent book b h) (clock env) (\<lambda>_. True)"
    and "safe (silent book b h) (new_id env) (\<lambda>_. True)"
    and "safe (silent book b h) (reserve env) (\<lambda>_. True)"
    and "safe (silent book b h) (venue (ad_fetch_spec (te_adapter env) i)) (\<lambda>_. True)"
    and "safe (silent book b h) (venue (ad_fetch_ticker (te_adapter env) i)) (\<lambda>_. True)"
    and "safe (silent book b h) (venue (ad_fetch_candles (te_adapter env) i tf n)) (\<lambda>_. True)"
    and "safe (silent book b h) (venue (ad_get_tpsl (te_adapter env) i p)) (\<lambda>_. True)"
    and "safe (silent book b h) (venue (ad_get_trailing (te_adapter env) nid i)) (\<lambda>_. True)"
    and "safe (silent book b h) (venue (ad_get_position_trailing (te_adapter env) i p)) (\<lambda>_. True)"
    and "safe (silent book b h) (venue (ad_fetch_positions (te_adapter env))) (\<lambda>_. True)"
  unfolding clock_def new_id_def reserve_def
  by ((rule silent_outside | rule silent_venue), insert assms, simp add: reads_only_def)+

lemma silent_may_reduce: "safe (silent book b h) (may_reduce i) (\<lambda>y. \<not> y)"
  unfolding may_reduce_def
  by (rule safe_eget) (auto simp: silent_def can_place_order_def is_halted_def is_account_halted_def)

lemma silent_in_store: "safe (silent book b h) (in_store f) (\<lambda>_. True)"
  by (auto simp: safe_def in_store_def silent_def split: prod.splits sum.splits)

lemma silent_store:
  "safe (silent book b h) (save t) (\<lambda>_. True)" "safe (silent book b h) (load x) (\<lambda>_. True)"
  by (simp_all add: save_def load_def silent_in_store)

lemma silent_eupd:
  "(\<And>w. tw_venue (g w) = tw_venue w \<and> tw_halts (g w) = tw_halts w)
   \<Longrightarrow> safe (silent book b h) (eupd g) (\<lambda>_. True)"
  by (simp add: safe_def eupd_def silent_def)

lemma silent_eupds:
  "safe (silent book b h) (eupd (\<lambda>w. w\<lparr>tw_events := f w\<rparr>)) (\<lambda>_. True)"
  "safe (silent book b h) (eupd (\<lambda>w. w\<lparr>tw_fetch_failures := g w\<rparr>)) (\<lambda>_. True)"
  "safe (silent book b h) (eupd (\<lambda>w. w\<lparr>tw_atr_failures := k w\<rparr>)) (\<lambda>_. True)"
  "safe (silent book b h) (eupd (\<lambda>w. w\<lparr>tw_specs := l w\<rparr>)) (\<lambda>_. True)"
  "safe (silent book b h) (eupd (\<lambda>w. w\<lparr>tw_rehydrated := m w\<rparr>)) (\<lambda>_. True)"
  by (rule silent_eupd, simp)+

lemma silent_elift: "safe (silent book b h) (elift r) (\<lambda>_. True)"
  by (rule safe_any [OF safe_elift])

lemmas silent_prims = silent_reads silent_store silent_in_store silent_eupds

lemmas silent_walk = safe_walk silent_elift silent_may_reduce [THEN safe_ebind]
  silent_prims [THEN safe_bind_any] silent_prims TrueI

lemma silent_ops:
  assumes r: "reads_only env book"
  shows "safe (silent book b h) (emit env c body) (\<lambda>_. True)"
    and "safe (silent book b h) (audit env k t p d s x) (\<lambda>_. True)"
    and "safe (silent book b h) (require_ready env) (\<lambda>_. True)"
    and "safe (silent book b h) (cached_spec env i) (\<lambda>_. True)"
    and "safe (silent book b h) (load_atr env q i) (\<lambda>_. True)"
    and "safe (silent book b h) (read_levels env t) (\<lambda>_. True)"
  subgoal unfolding emit_def by (intro silent_walk; rule r)
  subgoal unfolding audit_def by (intro silent_walk; rule r)
  subgoal unfolding require_ready_def by (intro silent_walk safe_any [OF safe_eguard])
  subgoal unfolding cached_spec_def by (intro silent_walk; rule r)
  subgoal unfolding load_atr_def
    by (auto intro!: safe_eret safe_eraise safe_bind_any [OF silent_reads(6) [OF r]] safe_bind_elift
        split: option.splits)
  subgoal unfolding read_levels_def
    by (rule safe_any [OF safe_eattempt [OF silent_reads(7) [OF r]]])
  done

subsection \<open>Shared operations\<close>

lemma silent_publish:
  "reads_only env book \<Longrightarrow> safe (silent book b h) (publish_state env t p r) (\<lambda>_. True)"
  by (simp add: publish_state_def silent_ops)

lemma silent_gap:
  "reads_only env book \<Longrightarrow> safe (silent book b h) (audit_gap env g t p c r) (\<lambda>_. True)"
  by (simp add: audit_gap_def silent_ops safe_ewhen)

lemma silent_confirm:
  assumes r: "reads_only env book"
  shows "safe (silent book b h) (confirm_levels_loop n env t s p k d) (\<lambda>_. True)"
    and "safe (silent book b h) (confirm_stop_loop n env t e k d) (\<lambda>_. True)"
    and "safe (silent book b h) (confirm_protection_loop n env t s p k x) (\<lambda>_. True)"
  by (induction n arbitrary: d x)
    (auto intro!: safe_eret safe_bind_any [OF silent_ops(6) [OF r]] split: sum.splits option.splits)

lemmas silent_shared = silent_ops silent_publish silent_gap silent_confirm

lemmas silent_deep = silent_walk silent_shared [THEN safe_bind_any] silent_shared

lemma silent_clear_owned:
  "reads_only env book \<Longrightarrow> safe (silent book b h) (clear_owned_protection env t) (\<lambda>_. True)"
  unfolding clear_owned_protection_def Let_def
  by (intro silent_deep; simp)

lemma silent_cancel_native:
  "reads_only env book \<Longrightarrow> safe (silent book b h) (cancel_native_trail env t) (\<lambda>_. True)"
  unfolding cancel_native_trail_def
  by (intro silent_deep; simp)

lemma silent_degrade_now:
  "reads_only env book \<Longrightarrow> safe (silent book b h) (degrade_now env t r) (\<lambda>_. True)"
  unfolding degrade_now_def
  by (intro silent_deep; simp)

lemma silent_degrade_attach:
  "reads_only env book \<Longrightarrow> safe (silent book b h) (degrade_attach env t r) (\<lambda>_. True)"
  unfolding degrade_attach_def
  by (intro silent_deep; simp)

lemma silent_attach_failed:
  "reads_only env book \<Longrightarrow> safe (silent book b h) (attach_failed env t e) (\<lambda>_. True)"
  unfolding attach_failed_def
  by (intro silent_deep; simp)

lemma silent_fetch_failure:
  "reads_only env book \<Longrightarrow> safe (silent book b h) (record_fetch_failure env t r) (\<lambda>_. True)"
  unfolding record_fetch_failure_def
  by (intro silent_deep; simp)

lemma silent_protection_failure:
  "reads_only env book \<Longrightarrow> safe (silent book b h) (record_protection_failure env t r) (\<lambda>_. True)"
  unfolding record_protection_failure_def
  by (intro silent_deep; simp)

lemmas silent_failing = silent_clear_owned silent_cancel_native silent_degrade_now silent_degrade_attach
  silent_attach_failed silent_fetch_failure silent_protection_failure

lemmas silent_all = silent_failing [THEN safe_bind_any] silent_failing silent_deep

lemma silent_clear_for:
  "reads_only env book \<Longrightarrow> safe (silent book b h) (clear_for_replacement env t c) (\<lambda>_. True)"
  unfolding clear_for_replacement_def
  by (intro silent_all; simp)

lemma silent_close:
  "reads_only env book \<Longrightarrow> safe (silent book b h) (complete_position_close env t r now) (\<lambda>_. True)"
  unfolding complete_position_close_def
  by (intro silent_all; simp)

lemma silent_confirm_protection:
  "reads_only env book \<Longrightarrow> safe (silent book b h) (confirm_protection env t s p k) (\<lambda>_. True)"
  unfolding confirm_protection_def
  by (intro silent_all; simp)

subsection \<open>Handlers\<close>

lemma silent_recover:
  "reads_only env book \<Longrightarrow> safe (silent book b h) (recover_fetch_degraded env t now) (\<lambda>_. True)"
  unfolding recover_fetch_degraded_def
  by (intro silent_all; simp)

lemma silent_track_best:
  "safe (silent book b h) (track_best t v now) (\<lambda>_. True)"
  unfolding track_best_def
  by (intro silent_all; simp)

lemma silent_track_activation:
  "safe (silent book b h) (track_activation t now) (\<lambda>_. True)"
  unfolding track_activation_def
  by (intro silent_all; simp)

lemma silent_try_reprice:
  "reads_only env book \<Longrightarrow> safe (silent book b h) (try_reprice env t v p a now) (\<lambda>_. True)"
  unfolding try_reprice_def
  by (intro silent_all; simp)

lemmas silent_ticks = silent_recover silent_track_best silent_track_activation silent_try_reprice
  silent_close silent_clear_for silent_confirm_protection

lemmas silent_most = silent_ticks [THEN safe_bind_any] silent_ticks silent_all

lemma silent_apply_ticker:
  "reads_only env book \<Longrightarrow> safe (silent book b h) (apply_ticker env t p now) (\<lambda>_. True)"
  unfolding apply_ticker_def
  by (intro silent_most; simp)

lemma silent_resize:
  "reads_only env book \<Longrightarrow> safe (silent book b h) (resize_protection env t) (\<lambda>_. True)"
  unfolding resize_protection_def
  by (intro silent_most; simp)

lemma silent_rearm:
  "reads_only env book \<Longrightarrow> safe (silent book b h) (rearm_native env t leg now) (\<lambda>_. True)"
  unfolding rearm_native_def
  by (intro silent_most; simp)

lemma silent_adopt:
  "reads_only env book \<Longrightarrow> safe (silent book b h) (adopt_native env t n now) (\<lambda>_. True)"
  unfolding adopt_native_def
  by (intro silent_most; simp)

lemma silent_persist:
  "reads_only env book \<Longrightarrow> safe (silent book b h) (persist_confirmed env t s p now c r) (\<lambda>_. True)"
  unfolding persist_confirmed_def
  by (intro silent_most; simp)

lemma silent_synthetic_integrity:
  "reads_only env book \<Longrightarrow> safe (silent book b h) (check_synthetic_integrity env t) (\<lambda>_. True)"
  unfolding check_synthetic_integrity_def
  by (intro silent_persist silent_most; simp)

lemma silent_apply_position:
  "reads_only env book \<Longrightarrow> safe (silent book b h) (apply_position env t p now) (\<lambda>_. True)"
  unfolding apply_position_def
  by (intro silent_resize silent_most; simp)

lemmas silent_handling = silent_apply_ticker silent_resize silent_apply_position silent_rearm silent_adopt silent_persist
  silent_synthetic_integrity

lemmas silent_handler_walk = silent_handling [THEN safe_bind_any] silent_handling silent_most

lemma silent_native_integrity:
  "reads_only env book \<Longrightarrow> safe (silent book b h) (check_native_integrity env t) (\<lambda>_. True)"
  unfolding check_native_integrity_def
  by (intro silent_handler_walk; simp)

lemma silent_check_integrity:
  "reads_only env book \<Longrightarrow> safe (silent book b h) (check_integrity env x) (\<lambda>_. True)"
  unfolding check_integrity_def
  by (intro silent_native_integrity [THEN safe_bind_any] silent_handler_walk; simp)

lemma silent_list_states:
  "reads_only env book \<Longrightarrow> safe (silent book b h) (list_states env i c) (\<lambda>_. True)"
  unfolding list_states_def
  by (intro silent_handler_walk; simp)

lemma silent_integrity_pass:
  "reads_only env book \<Longrightarrow> safe (silent book b h) (integrity_pass env) (\<lambda>_. True)"
  unfolding integrity_pass_def
  by (intro silent_check_integrity [THEN safe_bind_any] silent_list_states [THEN safe_bind_any] safe_efor safe_etry silent_handler_walk; simp)

lemma silent_on_ticker:
  "reads_only env book \<Longrightarrow> safe (silent book b h) (on_ticker env x k) (\<lambda>_. True)"
  unfolding on_ticker_def
  by (intro silent_handler_walk; simp)

lemma silent_on_ticker_failure:
  "reads_only env book \<Longrightarrow> safe (silent book b h) (on_ticker_failure env x r) (\<lambda>_. True)"
  unfolding on_ticker_failure_def
  by (intro silent_handler_walk; simp)

lemma silent_on_atr:
  "reads_only env book \<Longrightarrow> safe (silent book b h) (on_atr env x a as_of) (\<lambda>_. True)"
  unfolding on_atr_def
  by (intro silent_handler_walk; simp)

lemma silent_on_atr_failure:
  "reads_only env book \<Longrightarrow> safe (silent book b h) (on_atr_failure env x r) (\<lambda>_. True)"
  unfolding on_atr_failure_def
  by (intro silent_handler_walk; simp)

lemma silent_on_position:
  "reads_only env book \<Longrightarrow> safe (silent book b h) (on_position_update env p) (\<lambda>_. True)"
  unfolding on_position_update_def
  by (intro silent_handler_walk; simp)

lemma silent_cancel:
  "reads_only env book \<Longrightarrow> safe (silent book b h) (cancel_state env x c r) (\<lambda>_. True)"
  unfolding cancel_state_def
  by (intro silent_handler_walk; simp)

subsection \<open>Rehydration and attachment\<close>

lemma silent_rehydrate_degraded:
  "reads_only env book \<Longrightarrow> safe (silent book b h) (rehydrate_degraded env t r now) (\<lambda>_. True)"
  unfolding rehydrate_degraded_def
  by (intro silent_handler_walk; simp)

lemma silent_stop_here:
  "reads_only env book \<Longrightarrow> safe (silent book b h) (stop_here env t r now) (\<lambda>_. True)"
  unfolding stop_here_def
  by (intro silent_rehydrate_degraded [THEN safe_bind_any] silent_handler_walk; simp)

lemma silent_stage:
  "safe (silent book b h) m (\<lambda>_. True) \<Longrightarrow> (\<And>a. safe (silent book b h) (f a) (\<lambda>_. True))
   \<Longrightarrow> safe (silent book b h) (stage m f) (\<lambda>_. True)"
  unfolding stage_def by (intro safe_bind_any safe_case_sum safe_eret TrueI)

lemma silent_restore:
  "reads_only env book \<Longrightarrow> safe (silent book b h) (restore_levels env t k now) (\<lambda>_. True)"
  unfolding restore_levels_def Let_def
  by (intro silent_stop_here silent_handler_walk; simp)

lemma silent_sample:
  "reads_only env book \<Longrightarrow> safe (silent book b h) (sample_market env t now) (\<lambda>_. True)"
  unfolding sample_market_def
  by (intro silent_stop_here silent_handler_walk; simp)

lemma silent_first_stop:
  "reads_only env book \<Longrightarrow> safe (silent book b h) (rehydrate_first_stop env t p a c k now) (\<lambda>_. True)"
  unfolding rehydrate_first_stop_def
  by (intro silent_stop_here silent_handler_walk; simp)

lemma silent_rehydrate_reprice:
  "reads_only env book \<Longrightarrow> safe (silent book b h) (rehydrate_reprice env p t v u a c k now) (\<lambda>_. True)"
  unfolding rehydrate_reprice_def
  by (intro silent_stop_here silent_handler_walk; simp)

lemma silent_rehydrate_synthetic:
  "reads_only env book \<Longrightarrow> safe (silent book b h) (rehydrate_synthetic env t k now) (\<lambda>_. True)"
  unfolding rehydrate_synthetic_def
  by (intro silent_stage silent_restore silent_sample silent_first_stop silent_rehydrate_reprice silent_stop_here silent_handler_walk; simp)

lemma silent_rehydrate_native:
  "reads_only env book \<Longrightarrow> safe (silent book b h) (rehydrate_native env t leg now) (\<lambda>_. True)"
  unfolding rehydrate_native_def read_native_def replace_native_def
  by (intro silent_stage silent_stop_here silent_handler_walk; simp)

lemma silent_rehydrate_leg:
  "reads_only env book \<Longrightarrow> safe (silent book b h) (rehydrate_leg env t p q now) (\<lambda>_. True)"
  unfolding rehydrate_leg_def rehydrate_identity_def
  by (intro silent_clear_for [THEN safe_bind_any] silent_rehydrate_degraded [THEN safe_bind_any] silent_rehydrate_synthetic [THEN safe_bind_any] silent_rehydrate_native [THEN safe_bind_any] silent_stop_here silent_handler_walk; simp)

lemma silent_rehydrate_state:
  "reads_only env book \<Longrightarrow> safe (silent book b h) (rehydrate_state env x p q) (\<lambda>_. True)"
  unfolding rehydrate_state_def
  by (intro silent_rehydrate_leg silent_rehydrate_degraded [THEN safe_bind_any] silent_stop_here silent_handler_walk; simp)

lemma silent_rehydrate:
  "reads_only env book \<Longrightarrow> safe (silent book b h) (rehydrate env ps) (\<lambda>_. True)"
  unfolding rehydrate_def
  by (intro safe_etry silent_rehydrate_state silent_stop_here silent_handler_walk; simp)

lemma silent_native_tp:
  "reads_only env book \<Longrightarrow> safe (silent book b h) (native_take_profit env t p k) (\<lambda>_. True)"
  unfolding native_take_profit_def
  by (intro silent_stop_here silent_handler_walk; simp)

lemma silent_confirm_native:
  "reads_only env book \<Longrightarrow> safe (silent book b h) (confirm_native env t n) (\<lambda>_. True)"
  unfolding confirm_native_def
  by (intro silent_stop_here silent_handler_walk; simp)

lemma silent_attach_synthetic:
  "reads_only env book \<Longrightarrow> safe (silent book b h) (attach_synthetic env req leg p r) (\<lambda>_. True)"
  unfolding attach_synthetic_def Let_def
  by (intro silent_native_tp [THEN safe_bind_any] silent_confirm_native [THEN safe_bind_any] silent_stop_here silent_handler_walk; simp)

lemma silent_attach_native:
  "reads_only env book \<Longrightarrow> safe (silent book b h) (attach_native env req leg p r) (\<lambda>_. True)"
  unfolding attach_native_def Let_def
  by (intro silent_native_tp [THEN safe_bind_any] silent_confirm_native [THEN safe_bind_any] silent_stop_here silent_handler_walk; simp)

lemma silent_attach:
  "reads_only env book \<Longrightarrow> safe (silent book b h) (attach env req) (\<lambda>_. True)"
  unfolding attach_def require_rehydrated_def Let_def
  by (intro silent_attach_synthetic [THEN safe_bind_any] silent_attach_native [THEN safe_bind_any] silent_stop_here silent_handler_walk; simp)

subsection \<open>Any sequence of calls\<close>

lemma silent_edrop: "safe (silent book b h) m (\<lambda>_. True) \<Longrightarrow> safe (silent book b h) (edrop m) (\<lambda>_. True)"
  unfolding edrop_def by (erule safe_ebind) (simp add: safe_eret)

definition within_manager :: "'v tcall \<Rightarrow> bool" where
  "within_manager c = (case c of C_elsewhere _ _ \<Rightarrow> False | _ \<Rightarrow> True)"

lemma silent_run_call:
  assumes "reads_only env book" and "within_manager c"
  shows "safe (silent book b h) (run_call env c) (\<lambda>_. True)"
  using assms
  by (cases c)
    (simp_all add: within_manager_def silent_edrop silent_attach silent_on_ticker silent_on_ticker_failure
      silent_on_atr silent_on_atr_failure silent_on_position silent_cancel silent_check_integrity
      silent_integrity_pass silent_rehydrate)

lemma silent_run_calls:
  assumes "reads_only env book"
  shows "list_all within_manager cs \<Longrightarrow> silent book b h w \<Longrightarrow> silent book b h (run_calls env cs w)"
proof (induction cs arbitrary: w)
  case (Cons c cs)
  then have "silent book b h (snd (run_call env c w))"
    using safeD [OF silent_run_call [OF assms] _ prod.collapse [symmetric]] by auto
  with Cons show ?case by simp
qed simp

text \<open>
  C4. A halt stops the trailing manager. While the account is halted and closing is not allowed, no
  sequence of manager calls changes what the venue holds: no protection is written, moved, cleared,
  placed or cancelled, whether by a ticker, an integrity check, a resize, a cancellation, an
  attachment or a rehydration. Nor does the manager itself lift the halt.
\<close>

theorem halt_stops_trailing:
  assumes "reads_only env book" and "is_account_halted (tw_halts w)"
    and "\<not> hc_closing (hm_config (tw_halts w))" and "list_all within_manager cs"
  shows "book (tw_venue (run_calls env cs w)) = book (tw_venue w)
    \<and> tw_halts (run_calls env cs w) = tw_halts w"
proof -
  have "silent book (book (tw_venue w)) (tw_halts w) w" using assms by (simp add: silent_def)
  from silent_run_calls [OF assms(1) assms(4) this] show ?thesis by (simp add: silent_def)
qed

definition frozen :: halt_machine where
  "frozen = \<lparr>hm_config = \<lparr>hc_auto = True, hc_closing = False, hc_mode = MANUAL\<rparr>, hm_instruments = [],
     hm_account = Some \<lparr>he_scope = SC_ACCOUNT, he_instrument = None, he_reason = ''drawdown'', he_detail = []\<rparr>\<rparr>"

theorem halt_stops_trailing_witness:
  "pv_stop (tw_venue (run_calls paper_env
     [C_ticker ''t'' \<lparr>ti_bid = None, ti_ask = None, ti_last = Some 105, ti_mark = None\<rparr>,
      C_integrity_pass, C_cancel ''t'' True None] (paper_world frozen)))
   = Some \<lparr>tp_trigger = 99, tp_limit = None\<rparr>"
proof -
  have "reads_only paper_env pv_stop"
    by (simp add: reads_only_def paper_env_def paper_adapter_def not_implemented_def elift_def eret_def eget_def)
  moreover have "is_account_halted (tw_halts (paper_world frozen))"
    and "\<not> hc_closing (hm_config (tw_halts (paper_world frozen)))"
    and "pv_stop (tw_venue (paper_world frozen)) = Some \<lparr>tp_trigger = 99, tp_limit = None\<rparr>"
    by (simp_all add: paper_world_def frozen_def is_account_halted_def)
  moreover have "list_all within_manager [C_ticker ''t'' k, C_integrity_pass, C_cancel ''t'' True None]" for k
    by (simp add: within_manager_def)
  ultimately show ?thesis using halt_stops_trailing [of paper_env pv_stop "paper_world frozen"] by metis
qed


end
