(* ===== verification/UTE_Trailing_Ratchet.thy ===== *)
theory UTE_Trailing_Ratchet
  imports UTE_Trailing_Halted
begin

text \<open>
  What a ticker does to the stop of a synthetic state: it stays as it is, or it becomes the level
  the venue confirmed for a candidate that passed every check of the reprice path. Where only the
  values matter the rules are those of the prelude with the trivial invariant; the write and its
  confirmation are followed as a chain of calls at the venue.
\<close>

subsection \<open>Calls as chains of venue states\<close>

text \<open>
  What the trailing manager did at the venue during a call, as a chain of venue states. A quiet step
  is a query, a clock reading, an identifier or a question to the rate limiter. \<open>replied f a P\<close> holds
  of a venue state left by the call \<open>f\<close> that answered \<open>a\<close>, made a few quiet steps after a state in
  \<open>P\<close>; nesting it writes down the calls in their order. \<open>ends\<close> is the rule system for the world in
  which an operation returns.
\<close>

subsection \<open>Quiet steps\<close>

inductive quiet :: "'v tenv \<Rightarrow> 'v \<Rightarrow> 'v \<Rightarrow> bool" for env where
  quiet_none: "quiet env v v"
| quiet_clock: "quiet env v u \<Longrightarrow> quiet env v (snd (te_clock env u))"
| quiet_new_id: "quiet env v u \<Longrightarrow> quiet env v (snd (te_new_id env u))"
| quiet_reserve: "quiet env v u \<Longrightarrow> quiet env v (snd (te_reserve env u))"
| quiet_spec: "quiet env v u \<Longrightarrow> quiet env v (snd (ad_fetch_spec (te_adapter env) i u))"
| quiet_ticker: "quiet env v u \<Longrightarrow> quiet env v (snd (ad_fetch_ticker (te_adapter env) i u))"
| quiet_candles: "quiet env v u \<Longrightarrow> quiet env v (snd (ad_fetch_candles (te_adapter env) i tf n u))"
| quiet_levels: "quiet env v u \<Longrightarrow> quiet env v (snd (ad_get_tpsl (te_adapter env) i p u))"
| quiet_trail: "quiet env v u \<Longrightarrow> quiet env v (snd (ad_get_trailing (te_adapter env) nid i u))"
| quiet_leg_trail: "quiet env v u \<Longrightarrow> quiet env v (snd (ad_get_position_trailing (te_adapter env) i p u))"

text \<open>A projection that the queries leave alone is the same after any number of quiet steps.\<close>

lemma quiet_book: "quiet env v u \<Longrightarrow> reads_only env book \<Longrightarrow> book u = book v"
  by (induction rule: quiet.induct) (simp_all add: reads_only_def)

lemma quiet_trans: "quiet env u x \<Longrightarrow> quiet env v u \<Longrightarrow> quiet env v x"
  by (induction rule: quiet.induct) (auto intro: quiet.intros)

definition after_quiet :: "'v tenv \<Rightarrow> ('v \<Rightarrow> bool) \<Rightarrow> 'v \<Rightarrow> bool" where
  "after_quiet env P u \<longleftrightarrow> (\<exists>v. P v \<and> quiet env v u)"

definition replied :: "'v tenv \<Rightarrow> ('v, 'a) eff \<Rightarrow> 'a \<Rightarrow> ('v \<Rightarrow> bool) \<Rightarrow> 'v \<Rightarrow> bool" where
  "replied env f a P v \<longleftrightarrow> (\<exists>u. after_quiet env P u \<and> f u = (Inr a, v))"

definition tracked :: "'v tenv \<Rightarrow> ('v \<Rightarrow> bool) \<Rightarrow> (instrument, instrument_spec) dict \<Rightarrow> 'v tworld \<Rightarrow> bool" where
  "tracked env P S w \<longleftrightarrow> after_quiet env P (tw_venue w) \<and> tw_specs w = S"

lemma after_quietI: "P v \<Longrightarrow> after_quiet env P v"
  by (auto simp: after_quiet_def intro: quiet.quiet_none)

lemma after_quiet_step: "after_quiet env P u \<Longrightarrow> quiet env u v \<Longrightarrow> after_quiet env P v"
  by (auto simp: after_quiet_def intro: quiet_trans)

lemma tracked_start: "tracked env (\<lambda>v. v = tw_venue w) (tw_specs w) w"
  by (simp add: tracked_def after_quietI)

lemma quiet_calls:
  "quiet env v (snd (te_clock env v))" "quiet env v (snd (te_new_id env v))" "quiet env v (snd (te_reserve env v))"
  "quiet env v (snd (ad_fetch_spec (te_adapter env) i v))" "quiet env v (snd (ad_fetch_ticker (te_adapter env) i v))"
  "quiet env v (snd (ad_fetch_candles (te_adapter env) i tf n v))" "quiet env v (snd (ad_get_tpsl (te_adapter env) i p v))"
  "quiet env v (snd (ad_get_trailing (te_adapter env) nid i v))"
  "quiet env v (snd (ad_get_position_trailing (te_adapter env) i p v))"
  by (intro quiet.intros)+

subsection \<open>Operations made of quiet steps\<close>

lemma tracked_venue:
  "(\<And>v. quiet env v (snd (f v))) \<Longrightarrow> safe (tracked env P S) (venue f) (\<lambda>_. True)"
  by (auto simp: safe_def venue_def tracked_def split: prod.splits sum.splits) (metis after_quiet_step snd_conv)+

lemma tracked_outside:
  "(\<And>v. quiet env v (snd (f v))) \<Longrightarrow> safe (tracked env P S) (outside f) (\<lambda>_. True)"
  by (auto simp: safe_def outside_def tracked_def split: prod.splits) (metis after_quiet_step snd_conv)

lemma tracked_in_store: "safe (tracked env P S) (in_store f) (\<lambda>_. True)"
  by (auto simp: safe_def in_store_def tracked_def split: prod.splits sum.splits)

lemma tracked_eupd:
  "(\<And>w. tw_venue (g w) = tw_venue w \<and> tw_specs (g w) = tw_specs w) \<Longrightarrow> safe (tracked env P S) (eupd g) (\<lambda>_. True)"
  by (simp add: safe_def eupd_def tracked_def)

lemma tracked_prims:
  "safe (tracked env P S) (clock env) (\<lambda>_. True)" "safe (tracked env P S) (new_id env) (\<lambda>_. True)"
  "safe (tracked env P S) (reserve env) (\<lambda>_. True)"
  "safe (tracked env P S) (venue (ad_fetch_ticker (te_adapter env) i)) (\<lambda>_. True)"
  "safe (tracked env P S) (venue (ad_fetch_candles (te_adapter env) i tf n)) (\<lambda>_. True)"
  "safe (tracked env P S) (venue (ad_get_tpsl (te_adapter env) i p)) (\<lambda>_. True)"
  "safe (tracked env P S) (venue (ad_get_position_trailing (te_adapter env) i p)) (\<lambda>_. True)"
  "safe (tracked env P S) (eupd (\<lambda>w. w\<lparr>tw_events := e w\<rparr>)) (\<lambda>_. True)"
  "safe (tracked env P S) (eupd (\<lambda>w. w\<lparr>tw_fetch_failures := h w\<rparr>)) (\<lambda>_. True)"
  "safe (tracked env P S) (eupd (\<lambda>w. w\<lparr>tw_rehydrated := k w\<rparr>)) (\<lambda>_. True)"
  "safe (tracked env P S) (save t) (\<lambda>_. True)" "safe (tracked env P S) (load x) (\<lambda>_. True)"
  "safe (tracked env P S) (may_reduce j) (\<lambda>_. True)"
  unfolding clock_def new_id_def reserve_def save_def load_def may_reduce_def
  by (rule tracked_outside tracked_venue tracked_in_store tracked_eupd safe_eget quiet_calls | simp)+

lemmas tracked_steps = tracked_prims tracked_in_store safe_any [OF safe_elift]

lemmas tracked_walk = safe_walk tracked_steps [THEN safe_bind_any] tracked_steps TrueI

lemma tracked_ops:
  "safe (tracked env P S) (emit env c body) (\<lambda>_. True)"
  "safe (tracked env P S) (audit env k t p d s x) (\<lambda>_. True)"
  "safe (tracked env P S) (require_ready env) (\<lambda>_. True)"
  "safe (tracked env P S) require_rehydrated (\<lambda>_. True)"
  "safe (tracked env P S) (publish_state env t ph r) (\<lambda>_. True)"
  "safe (tracked env P S) (audit_gap env g t p d z) (\<lambda>_. True)"
proof -
  show e: "safe (tracked env P S) (emit env c body) (\<lambda>_. True)" for c body
    unfolding emit_def by (intro tracked_walk)
  show a: "safe (tracked env P S) (audit env k t p d s x) (\<lambda>_. True)" for k p d s x
    unfolding audit_def by (intro tracked_walk)
  show "safe (tracked env P S) (require_ready env) (\<lambda>_. True)"
    unfolding require_ready_def by (intro tracked_walk safe_any [OF safe_eguard])
  show "safe (tracked env P S) require_rehydrated (\<lambda>_. True)"
    unfolding require_rehydrated_def by (intro tracked_walk safe_any [OF safe_eguard])
  show "safe (tracked env P S) (publish_state env t ph r) (\<lambda>_. True)"
    unfolding publish_state_def by (rule e)
  show "safe (tracked env P S) (audit_gap env g t p d z) (\<lambda>_. True)"
    unfolding audit_gap_def by (intro safe_ewhen a)
qed

lemma tracked_atr: "safe (tracked env P S) (load_atr env q i) (\<lambda>_. True)"
  unfolding load_atr_def
  by (auto intro!: safe_eret safe_eraise safe_bind_any [OF tracked_prims(5)] safe_bind_elift split: option.splits)

lemmas tracked_deep = tracked_walk tracked_ops [THEN safe_bind_any] tracked_ops

lemma tracked_failure: "safe (tracked env P S) (record_protection_failure env t r) (\<lambda>_. True)"
  unfolding record_protection_failure_def by (intro tracked_deep)

lemma tracked_ticks:
  "safe (tracked env P S) (recover_fetch_degraded env t now) (\<lambda>_. True)"
  "safe (tracked env P S) (track_best t v now) (\<lambda>_. True)"
  "safe (tracked env P S) (track_activation t now) (\<lambda>_. True)"
  unfolding recover_fetch_degraded_def track_best_def track_activation_def by (intro tracked_deep)+

subsection \<open>The world an operation returns in\<close>

definition ends :: "('w \<Rightarrow> bool) \<Rightarrow> ('w, 'a) eff \<Rightarrow> ('a \<Rightarrow> 'w \<Rightarrow> bool) \<Rightarrow> bool" where
  "ends I m Q \<longleftrightarrow> (\<forall>w a w'. I w \<longrightarrow> m w = (Inr a, w') \<longrightarrow> Q a w')"

lemma endsD: "ends I m Q \<Longrightarrow> I w \<Longrightarrow> m w = (Inr a, w') \<Longrightarrow> Q a w'"
  by (auto simp: ends_def)

lemma ends_weaken: "ends I m R \<Longrightarrow> (\<And>a w. R a w \<Longrightarrow> Q a w) \<Longrightarrow> ends I m Q"
  by (auto simp: ends_def)

lemma ends_from: "(\<And>w. I w \<Longrightarrow> J w) \<Longrightarrow> ends J m Q \<Longrightarrow> ends I m Q"
  by (auto simp: ends_def)

lemma ends_safe: "safe I m V \<Longrightarrow> (\<And>a w. V a \<Longrightarrow> I w \<Longrightarrow> Q a w) \<Longrightarrow> ends I m Q"
  unfolding ends_def using safeD [of I m V] safe_valueD [of I m V] by blast

lemma ends_eret: "(\<And>w. I w \<Longrightarrow> Q a w) \<Longrightarrow> ends I (eret a) Q"
  by (simp add: ends_def eret_def)

lemma ends_raise: "ends I (elift (Inl e)) Q"
  by (simp add: ends_def elift_def)

lemma ends_bind: "ends I m R \<Longrightarrow> (\<And>a. ends (R a) (f a) Q) \<Longrightarrow> ends I (ebind m f) Q"
  by (fastforce simp: ends_def ebind_eq)

lemma ends_keep: "safe I m V \<Longrightarrow> (\<And>a. V a \<Longrightarrow> ends I (f a) Q) \<Longrightarrow> ends I (ebind m f) Q"
  by (rule ends_bind [where R = "\<lambda>a w. V a \<and> I w"], erule ends_safe) (auto simp: ends_def)

lemma ends_skip: "safe I m (\<lambda>_. True) \<Longrightarrow> (\<And>a. ends I (f a) Q) \<Longrightarrow> ends I (ebind m f) Q"
  by (rule ends_keep)

lemma ends_bind_elift: "(\<And>a. r = Inr a \<Longrightarrow> ends I (f a) Q) \<Longrightarrow> ends I (ebind (elift r) f) Q"
  by (rule ends_keep [OF safe_elift])

lemma ends_bind_eguard: "(\<not> b \<Longrightarrow> ends I (f ()) Q) \<Longrightarrow> ends I (ebind (eguard b c m) f) Q"
  by (rule ends_keep [OF safe_eguard]) simp

lemma ends_bind_attempt:
  "ends I m R \<Longrightarrow> (\<And>a. ends (R a) (f (Inr a)) Q) \<Longrightarrow> (\<And>e. ends (\<lambda>_. True) (f (Inl e)) Q)
   \<Longrightarrow> ends I (ebind (eattempt m) f) Q"
  unfolding ends_def ebind_eattempt by (auto split: prod.splits) (metis sum.exhaust)

lemma ends_bind_try:
  "ends I m R \<Longrightarrow> (\<And>e. ends (\<lambda>_. True) (h e) (\<lambda>_ _. False)) \<Longrightarrow> (\<And>a. ends (R a) (f a) Q)
   \<Longrightarrow> ends I (ebind (etry m h) f) Q"
  unfolding ends_def ebind_eq etry_def by (auto split: prod.splits sum.splits)

lemma ends_if: "(b \<Longrightarrow> ends I m Q) \<Longrightarrow> (\<not> b \<Longrightarrow> ends I n Q) \<Longrightarrow> ends I (if b then m else n) Q"
  by simp

lemma ends_case_option:
  "(v = None \<Longrightarrow> ends I m Q) \<Longrightarrow> (\<And>x. v = Some x \<Longrightarrow> ends I (f x) Q)
   \<Longrightarrow> ends I (case v of None \<Rightarrow> m | Some x \<Rightarrow> f x) Q"
  by (cases v) simp_all

lemma ends_case_sum:
  "(\<And>x. v = Inl x \<Longrightarrow> ends I (f x) Q) \<Longrightarrow> (\<And>x. v = Inr x \<Longrightarrow> ends I (g x) Q)
   \<Longrightarrow> ends I (case v of Inl x \<Rightarrow> f x | Inr x \<Rightarrow> g x) Q"
  by (cases v) simp_all

lemma ends_case_prod:
  "(\<And>x y. p = (x, y) \<Longrightarrow> ends I (f x y) Q) \<Longrightarrow> ends I (case p of (x, y) \<Rightarrow> f x y) Q"
  by (cases p) simp

lemma ends_bind_ewhen_quiet:
  "safe I m (\<lambda>_. True) \<Longrightarrow> ends I (f ()) Q \<Longrightarrow> ends I (ebind (ewhen b m) f) Q"
  by (rule ends_skip [OF safe_ewhen]) simp_all

lemma ends_ex: "(\<And>x. ends (I x) m Q) \<Longrightarrow> ends (\<lambda>w. \<exists>x. I x w) m Q"
  by (auto simp: ends_def)

lemma ends_fact: "(b \<Longrightarrow> ends I m Q) \<Longrightarrow> ends (\<lambda>w. b \<and> I w) m Q"
  by (auto simp: ends_def)

lemmas ends_walk = ends_bind_elift ends_bind_eguard ends_raise ends_if ends_case_option ends_case_sum ends_case_prod

lemmas ends_quiet = tracked_prims(1-3) [THEN ends_skip] tracked_prims(8-13) [THEN ends_skip]
  tracked_in_store [THEN ends_skip] tracked_ops [THEN ends_skip] tracked_atr [THEN ends_skip]
  tracked_ops(2) [THEN ends_bind_ewhen_quiet]

subsection \<open>Calls at the venue\<close>

lemma ends_venue: "ends (tracked env P S) (venue f) (\<lambda>a. tracked env (replied env f a P) S)"
  unfolding ends_def venue_def tracked_def
  by (auto split: prod.splits intro!: after_quietI) (auto simp: replied_def)

definition write_levels :: "'v tenv \<Rightarrow> instrument \<Rightarrow> string \<Rightarrow> decimal option \<Rightarrow> decimal option \<Rightarrow> trailing_basis option
    \<Rightarrow> ('v, unit) eff" where
  \<comment> \<open>the write of the given levels, each a trigger price without a limit\<close>
  "write_levels env i pid tp sl basis =
     ad_modify_tpsl (te_adapter env) i pid (map_option trigger tp) (map_option trigger sl) basis"

lemma ends_modify:
  "ends (tracked env P S) (modify_protection env i pid tp sl b)
     (\<lambda>_. tracked env (replied env (write_levels env i pid tp sl b) () P) S)"
proof -
  have lv: "(case l of None \<Rightarrow> Inr None | Some p \<Rightarrow> rbind (tpsl_post_init (trigger p)) (\<lambda>a. Inr (Some a))) = Inr a
      \<Longrightarrow> a = map_option trigger l" for l a
    by (auto simp: tpsl_post_init_def rbind_eq_Inr split: option.splits)
  show ?thesis
    unfolding modify_protection_def write_levels_def
    by (intro ends_walk, drule lv, drule lv, simp, rule ends_weaken [OF ends_venue], simp)
qed

text \<open>The levels read back: the answer of the last read, which was made after everything in \<open>P\<close>.\<close>

definition read_back :: "'v tenv \<Rightarrow> instrument \<Rightarrow> string \<Rightarrow> tpsl option \<Rightarrow> tpsl option \<Rightarrow> ('v \<Rightarrow> bool) \<Rightarrow> 'v \<Rightarrow> bool" where
  "read_back env i pid tp sl = replied env (ad_get_tpsl (te_adapter env) i pid) (Some (tp, sl))"

lemma ends_read_levels:
  "ends (tracked env P S) (read_levels env t) (\<lambda>r w. tracked env P S w
     \<and> (\<forall>tp sl. r = Inr (Some (tp, sl)) \<longrightarrow> tracked env (read_back env (ts_instrument t) (ts_position_id t) tp sl P) S w))"
  (is "ends ?I ?m ?Q")
proof -
  have "safe ?I ?m (\<lambda>_. True)"
    unfolding read_levels_def by (rule safe_any [OF safe_eattempt [OF tracked_prims(6)]])
  moreover have "ends ?I ?m (\<lambda>r w. \<forall>a. r = Inr a \<longrightarrow>
      tracked env (replied env (ad_get_tpsl (te_adapter env) (ts_instrument t) (ts_position_id t)) a P) S w)"
    unfolding read_levels_def using ends_venue [of env P S]
    by (fastforce simp: ends_def eattempt_def split: prod.splits)
  ultimately show ?thesis
    unfolding ends_def read_back_def by (metis safeD)
qed

lemma ends_confirm_stop:
  "ends (tracked env P S) (confirm_stop env t e k) (\<lambda>r w. case fst r of None \<Rightarrow> True
     | Some c \<Rightarrow> dabs (dsub c e) \<le> k \<and> (\<exists>tp l. tp_trigger l = c
         \<and> tracked env (read_back env (ts_instrument t) (ts_position_id t) tp (Some l) P) S w))"
proof -
  let ?Q = "\<lambda>r w. \<forall>c. fst r = Some c \<longrightarrow>
     dabs (dsub c e) \<le> k \<and> (\<exists>tp l. tp_trigger l = c
       \<and> tracked env (read_back env (ts_instrument t) (ts_position_id t) tp (Some l) P) S w)"
  have "ends (tracked env P S) (confirm_stop_loop n env t e k d) ?Q" for n d
  proof (induction n arbitrary: d)
    case (Suc n)
    show ?case
      unfolding confirm_stop_loop.simps
      by (rule ends_bind [OF ends_read_levels])
        (auto intro!: ends_eret ends_from [OF _ Suc.IH] split: sum.splits option.splits, blast)
  qed (simp add: ends_eret)
  then show ?thesis
    unfolding confirm_stop_def by (rule ends_weaken) (simp split: option.splits)
qed

lemma ends_confirm_protection:
  "ends (tracked env P S) (confirm_protection env t stop tp k) (\<lambda>_ w. \<exists>atp asl.
     attachment_matches asl stop k \<and> attachment_matches atp tp k
     \<and> tracked env (read_back env (ts_instrument t) (ts_position_id t) atp asl P) S w)"
proof -
  let ?Q = "\<lambda>w. \<exists>atp asl. attachment_matches asl stop k \<and> attachment_matches atp tp k
     \<and> tracked env (read_back env (ts_instrument t) (ts_position_id t) atp asl P) S w"
  have "ends (tracked env P S) (confirm_protection_loop n env t stop tp k e) (\<lambda>r w. r = None \<longrightarrow> ?Q w)" for n e
  proof (induction n arbitrary: e)
    case (Suc n)
    show ?case
      unfolding confirm_protection_loop.simps
      by (rule ends_bind [OF ends_read_levels])
        (auto intro!: ends_eret ends_from [OF _ Suc.IH] split: sum.splits option.splits)
  qed (simp add: ends_eret)
  then show ?thesis
    unfolding confirm_protection_def
    by (rule ends_bind) (auto intro!: ends_eret ends_walk ends_bind [where R = "\<lambda>_ _. True"] simp: ends_def [of _ _ "\<lambda>_ _. True"])
qed

text \<open>The specification in hand is the cached one or the venue's answer, and it is cached afterwards.\<close>

definition known_spec :: "'v tenv \<Rightarrow> ('v \<Rightarrow> bool) \<Rightarrow> instrument \<Rightarrow> (instrument, instrument_spec) dict
    \<Rightarrow> (instrument, instrument_spec) dict \<Rightarrow> instrument_spec \<Rightarrow> bool" where
  "known_spec env P i S S' sp \<longleftrightarrow> dict_get S' (inst_id i) = Some sp
     \<and> (case dict_get S (inst_id i) of
          Some s \<Rightarrow> sp = s
        | None \<Rightarrow> (\<exists>v. replied env (ad_fetch_spec (te_adapter env) i) sp P v))"

lemma ends_cached_spec:
  "ends (tracked env P S) (cached_spec env i) (\<lambda>sp w. \<exists>S'. known_spec env P i S S' sp \<and> tracked env P S' w)"
proof -
  have q: "after_quiet env P (snd (ad_fetch_spec (te_adapter env) i v))" if "after_quiet env P v" for v
    by (rule after_quiet_step [OF that quiet_calls(4)])
  show ?thesis
    unfolding ends_def
  proof (intro allI impI)
    fix w :: "'a tworld" and sp w'
    assume t: "tracked env P S w" and run: "cached_spec env i w = (Inr sp, w')"
    have "known_spec env P i S (tw_specs w') sp \<and> tracked env P (tw_specs w') w'"
    proof (cases "dict_get S (inst_id i)")
      case (Some s)
      with t run show ?thesis
        by (auto simp: cached_spec_def ebind_eget tracked_def known_spec_def eret_def)
    next
      case None
      with t run obtain v where v: "ad_fetch_spec (te_adapter env) i (tw_venue w) = (Inr sp, v)"
          "w' = w\<lparr>tw_venue := v, tw_specs := dict_set (inst_id i) sp S\<rparr>"
        by (auto simp: cached_spec_def ebind_eget tracked_def venue_def ebind_eq eupd_def eret_def split: prod.splits)
      moreover from this t have "replied env (ad_fetch_spec (te_adapter env) i) sp P v"
        by (auto simp: tracked_def replied_def)
      ultimately show ?thesis
        using t None q [of "tw_venue w"] by (auto simp: tracked_def known_spec_def)
    qed
    then show "\<exists>S'. known_spec env P i S S' sp \<and> tracked env P S' w'" by blast
  qed
qed

subsection \<open>Tickers\<close>

definition anyw :: "'w \<Rightarrow> bool" where
  "anyw w \<longleftrightarrow> True"

lemma anyw_any: "safe anyw m (\<lambda>_. True)"
  by (simp add: safe_def anyw_def split: sum.splits)

lemma ends_value: "safe anyw m V \<Longrightarrow> (\<And>a w. V a \<Longrightarrow> Q a w) \<Longrightarrow> ends I m Q"
  by (rule ends_from [where J = anyw, OF _ ends_safe [where V = V]]) (simp_all add: anyw_def)

text \<open>The parts of a state the candidate and its write depend on.\<close>

definition same_core :: "trailing_state \<Rightarrow> trailing_state \<Rightarrow> bool" where
  "same_core t u \<longleftrightarrow> ts_side u = ts_side t \<and> ts_spec u = ts_spec t \<and> ts_atr u = ts_atr t
     \<and> ts_stop u = ts_stop t \<and> ts_entry u = ts_entry t \<and> ts_reprices u = ts_reprices t
     \<and> ts_instrument u = ts_instrument t \<and> ts_position_id u = ts_position_id t
     \<and> ts_trigger_basis u = ts_trigger_basis t"

definition unmoved :: "trailing_state \<Rightarrow> trailing_state \<Rightarrow> bool" where
  "unmoved t u \<longleftrightarrow> ts_stop u = ts_stop t \<and> ts_reprices u = ts_reprices t"

text \<open>
  The only write since \<open>P\<close> was that of the stop \<open>candidate\<close> of the state's leg, it succeeded, and the
  last read of the leg's levels after it gave the stop \<open>c\<close>.
\<close>

definition confirmed_stop :: "'v tenv \<Rightarrow> ('v \<Rightarrow> bool) \<Rightarrow> trailing_state \<Rightarrow> decimal \<Rightarrow> decimal \<Rightarrow> 'v \<Rightarrow> bool" where
  "confirmed_stop env P t candidate c v \<longleftrightarrow> (\<exists>tp l. tp_trigger l = c
     \<and> after_quiet env
         (read_back env (ts_instrument t) (ts_position_id t) tp (Some l)
           (replied env (write_levels env (ts_instrument t) (ts_position_id t) None (Some candidate) (ts_trigger_basis t)) ()
             P)) v)"

definition moved_stop :: "'v tenv \<Rightarrow> ('v \<Rightarrow> bool) \<Rightarrow> (instrument, instrument_spec) dict \<Rightarrow> trailing_state \<Rightarrow> decimal
    \<Rightarrow> decimal \<Rightarrow> trailing_state \<Rightarrow> 'v tworld \<Rightarrow> bool" where
  \<comment> \<open>the stop of \<open>u\<close> is the confirmed level of a candidate for \<open>t\<close> at the best and current basis\<close>
  "moved_stop env P S t best p u w \<longleftrightarrow> (\<exists>sp candidate c.
     ts_stop u = Some c \<and> candidate_level t best (ts_atr t) (sp_tick_size sp) = Inr candidate
     \<and> 0 < candidate \<and> ratchet_accepts (ts_side t) (ts_stop t) candidate (tq_step (ts_spec t))
     \<and> respects_min_stop_distance (ts_side t) candidate p (sp_min_stop_distance sp)
     \<and> dabs (dsub c candidate) \<le> sp_tick_size sp \<and> ts_reprices u = ts_reprices t + 1
     \<and> known_spec env P (ts_instrument t) S (tw_specs w) sp \<and> confirmed_stop env P t candidate c (tw_venue w))"

lemma moved_core: "same_core t t' \<Longrightarrow> moved_stop env P S t' best p u w \<Longrightarrow> moved_stop env P S t best p u w"
  by (simp add: moved_stop_def same_core_def candidate_level_def confirmed_stop_def)

lemma unmoved_core: "same_core t t' \<Longrightarrow> unmoved t' u \<Longrightarrow> unmoved t u"
  by (simp add: same_core_def unmoved_def)

lemmas value_walk = safe_walk anyw_any [THEN safe_bind_any]

lemma safe_both: "safe I m (\<lambda>_. True) \<Longrightarrow> safe anyw m V \<Longrightarrow> safe I m V"
  by (auto simp: safe_def anyw_def)

lemma value_degraded: "safe anyw (record_protection_failure env t r) (unmoved t)"
  unfolding record_protection_failure_def
  by (intro value_walk) (simp_all add: unmoved_def)

lemma ends_confirmed:
  assumes "r = (Some c, x)"
    and "\<And>tp l. tp_trigger l = c \<Longrightarrow> dabs (dsub c e) \<le> k \<Longrightarrow> ends (tracked env (R tp (Some l) P) S) m Q"
  shows "ends (\<lambda>w. case fst r of None \<Rightarrow> True
      | Some c \<Rightarrow> dabs (dsub c e) \<le> k \<and> (\<exists>tp l. tp_trigger l = c \<and> tracked env (R tp (Some l) P) S w)) m Q"
  using assms by (auto simp: ends_def)

lemma ends_reprice:
  "ends (tracked env P S) (reprice env t a sp candidate now)
     (\<lambda>u w. unmoved t u
        \<or> (\<exists>c. ts_stop u = Some c \<and> dabs (dsub c candidate) \<le> sp_tick_size sp \<and> ts_reprices u = ts_reprices t + 1
              \<and> tw_specs w = S \<and> confirmed_stop env P t candidate c (tw_venue w)))"
  (is "ends _ _ ?Q")
proof -
  let ?att = "t\<lparr>ts_last_reprice := Some now, ts_updated_at := now\<rparr>"
  have f: "safe anyw (record_protection_failure env ?att r) (unmoved t)" for r
    by (rule safe_weaken [OF value_degraded]) (simp add: unmoved_def)
  have failing: "ends I (ebind (audit_gap env g t1 s1 s2 z) (\<lambda>_. record_protection_failure env ?att r)) ?Q"
    for I g t1 s1 s2 z r
    by (rule ends_value [where V = "unmoved t"]) (intro value_walk f, simp)
  show ?thesis
    unfolding reprice_def Let_def
  proof (intro ends_quiet ends_bind_attempt [OF ends_modify], goal_cases)
    case 1
    show ?case
    proof (simp only: sum.case, rule ends_bind [OF ends_confirm_stop], intro ends_case_prod ends_case_option failing,
        goal_cases)
      case (1 r confirmed err c)
      have att: "ts_instrument ?att = ts_instrument t" "ts_position_id ?att = ts_position_id t" by simp_all
      show ?case
        unfolding att
        by (rule ends_confirmed [where c = c and x = err and R = "read_back env (ts_instrument t) (ts_position_id t)"])
          (use 1 in \<open>simp_all only: fst_conv\<close>, intro ends_quiet ends_eret disjI2 exI [of _ c],
            auto simp: tracked_def confirmed_stop_def)
    qed
  next
    case 2
    then show ?case by (simp add: failing)
  qed
qed

lemma ends_try_reprice:
  "ends (tracked env P S) (try_reprice env t best p a now) (\<lambda>u w. unmoved t u \<or> moved_stop env P S t best p u w)"
  unfolding try_reprice_def
proof (rule ends_bind [OF ends_cached_spec], intro ends_ex ends_fact, goal_cases)
  case (1 sp S')
  show ?case
    by (intro ends_walk ends_quiet ends_value [OF value_degraded] ends_weaken [OF ends_reprice] ends_eret)
      (use 1 in \<open>auto simp: unmoved_def moved_stop_def\<close>)
qed

lemma value_recover: "safe anyw (recover_fetch_degraded env t now) (\<lambda>u. same_core t u \<and> ts_best u = ts_best t)"
  unfolding recover_fetch_degraded_def
  by (intro value_walk) (simp_all add: same_core_def)

lemma value_track_best: "safe anyw (track_best t p now) (same_core t)"
  unfolding track_best_def
  by (intro value_walk) (simp_all add: same_core_def)

lemma value_track_activation:
  "safe anyw (track_activation t now)
     (\<lambda>u. same_core t u \<and> resolve_activation_price (ts_spec t) (ts_side t) (ts_entry t) = Inr (ts_activation_price u))"
  unfolding track_activation_def
  by (intro value_walk) (simp_all add: same_core_def)

lemma core_trans: "same_core t u \<Longrightarrow> same_core u v \<Longrightarrow> same_core t v"
  by (simp add: same_core_def)

lemmas ends_ticks = tracked_ticks(1) [THEN safe_both, OF value_recover, THEN ends_keep]
  tracked_ticks(2) [THEN safe_both, OF value_track_best, THEN ends_keep]
  tracked_ticks(3) [THEN safe_both, OF value_track_activation, THEN ends_keep]

lemma ends_apply_ticker:
  "ends (tracked env P S) (apply_ticker env t p now)
     (\<lambda>u w. unmoved t u
        \<or> moved_stop env P S t (update_best_basis (ts_side t) (ts_best t) p) p u w
          \<and> (\<exists>a. resolve_activation_price (ts_spec t) (ts_side t) (ts_entry t) = Inr a
                 \<and> is_activation_reached (ts_side t) p a))"
  unfolding apply_ticker_def
proof (intro ends_ticks, elim conjE, goal_cases)
  case (1 t1 t2 t3)
  then have c: "same_core t t3" using core_trans by blast
  have side: "ts_side t1 = ts_side t" "ts_side t3 = ts_side t" using 1 c by (simp_all add: same_core_def)
  have act: "resolve_activation_price (ts_spec t) (ts_side t) (ts_entry t) = Inr (ts_activation_price t3)"
    using 1 by (simp add: same_core_def)
  have best: "ts_best t1 = ts_best t" using 1 by simp
  have quiet: "unmoved t t3" using c by (simp add: same_core_def unmoved_def)
  show ?case
    unfolding Let_def side best
    by (intro ends_if ends_weaken [OF ends_try_reprice] ends_quiet ends_eret)
      (use c act quiet in \<open>auto simp: side dest: moved_core [OF c] unmoved_core [OF c], auto simp: unmoved_def\<close>)
qed

lemma on_ticker_priced:
  assumes row: "trailing_row tid (tw_store w) = Some t"
    and price: "ts_basis t = Some b" "basis_price tk b = Some p"
    and live: "ts_mode t = TM_SYNTHETIC" "ts_phase t \<in> {ARMED, DEGRADED}"
    and run: "on_ticker env tid tk w = (Inr r, w')"
  obtains u v now where "r = Some u" and "apply_ticker env t p now v = (Inr u, w')"
    and "tracked env (\<lambda>v. v = tw_venue w) (tw_specs w) v"
proof -
  have load: "load tid w = (Inr (Some t), w)"
    by (simp add: load_def in_store_def get_trailing_state_run row)
  have ready: "require_ready env w = (if ad_is_connected (te_adapter env) (tw_venue w) then (Inr (), w)
      else (raise_exn PlatformConnectionError ''trailing manager requires a connected engine'', w))"
    by (simp add: require_ready_def ebind_def eget_def eguard_def guard_exn_def elift_def)
  have rest: "ebind (eupd (\<lambda>w. w\<lparr>tw_fetch_failures := dict_set tid 0 (tw_fetch_failures w)\<rparr>)) (\<lambda>_.
      ebind (clock env) (\<lambda>now. ebind (apply_ticker env t p now) (\<lambda>u. eret (Some u)))) w = (Inr r, w')"
    using run live
    by (auto simp: on_ticker_def ebind_def ready load price split: if_splits prod.splits sum.splits)
  let ?v = "w\<lparr>tw_fetch_failures := dict_set tid 0 (tw_fetch_failures w)\<rparr>"
  have v1: "tracked env (\<lambda>v. v = tw_venue w) (tw_specs w) ?v" by (simp add: tracked_def after_quietI)
  from rest have "ebind (clock env) (\<lambda>now. ebind (apply_ticker env t p now) (\<lambda>u. eret (Some u))) ?v = (Inr r, w')"
    by (simp add: ebind_eupd)
  then obtain now v where "clock env ?v = (Inr now, v)" "ebind (apply_ticker env t p now) (\<lambda>u. eret (Some u)) v = (Inr r, w')"
    by (auto simp: ebind_eq)
  with safeD [OF tracked_prims(1) v1] show ?thesis by (auto simp: ebind_eq eret_def intro: that)
qed

text \<open>
  C3. A ticker only ratchets. When a ticker with a usable price is handled for a live synthetic
  state and the call returns, either the state's stop and its count of reprices are what they were, or
  the stop is a level the venue confirmed. Then one write was made at the venue in the call: the stop
  of the leg, at a candidate that lies on the tight side of the previous stop, is positive, keeps the
  minimum distance to the price, was computed from the best basis seen so far, and was sent after the
  activation level was reached. The write succeeded, a read of the leg's levels after it gave the new
  stop, which is within one tick of the candidate, and nothing but queries followed. The tick is that
  of the specification the manager had cached or fetched, and the reprice is counted once.
\<close>

theorem ticker_ratchets:
  assumes row: "trailing_row tid (tw_store w) = Some t"
    and price: "ts_basis t = Some b" "basis_price tk b = Some p"
    and live: "ts_mode t = TM_SYNTHETIC" "ts_phase t \<in> {ARMED, DEGRADED}"
    and run: "on_ticker env tid tk w = (Inr r, w')"
  shows "\<exists>u. r = Some u \<and> (ts_stop u = ts_stop t \<and> ts_reprices u = ts_reprices t \<or>
    (\<exists>sp candidate c a.
       ts_stop u = Some c \<and> dabs (dsub c candidate) \<le> sp_tick_size sp
       \<and> candidate_level t (update_best_basis (ts_side t) (ts_best t) p) (ts_atr t) (sp_tick_size sp) = Inr candidate
       \<and> (\<forall>s. ts_stop t = Some s \<longrightarrow> candidate \<noteq> s \<and> tighter_eq (ts_side t) s candidate)
       \<and> 0 < candidate
       \<and> respects_min_stop_distance (ts_side t) candidate p (sp_min_stop_distance sp)
       \<and> resolve_activation_price (ts_spec t) (ts_side t) (ts_entry t) = Inr a
       \<and> is_activation_reached (ts_side t) p a
       \<and> ts_reprices u = ts_reprices t + 1
       \<and> known_spec env (\<lambda>v. v = tw_venue w) (ts_instrument t) (tw_specs w) (tw_specs w') sp
       \<and> confirmed_stop env (\<lambda>v. v = tw_venue w) t candidate c (tw_venue w')))"
proof -
  obtain u v now where r: "r = Some u" and ap: "apply_ticker env t p now v = (Inr u, w')"
    and v: "tracked env (\<lambda>v. v = tw_venue w) (tw_specs w) v"
    using on_ticker_priced [OF row price live run] .
  have tight: "ratchet_accepts s (Some x) c st \<Longrightarrow> c \<noteq> x \<and> tighter_eq s x c" for s x c st
    by (auto simp: ratchet_accepts_def tighter_eq_def split: if_splits)
  show ?thesis
    using endsD [OF ends_apply_ticker v ap] tight unfolding r moved_stop_def unmoved_def
    by (intro exI [of _ u]) (elim disjE conjE exE; force)
qed

definition ticker_105 :: ticker where
  "ticker_105 = \<lparr>ti_bid = None, ti_ask = None, ti_last = Some 105, ti_mark = None\<rparr>"

lemma ticker_105_run:
  "(case fst (on_ticker paper_env ''t'' ticker_105 (paper_world (halt_init None))) of
      Inr (Some u) \<Rightarrow> (ts_stop u, ts_reprices u, ts_phase u) | _ \<Rightarrow> (None, 0, DONE)) = (Some 103, 1, ARMED)"
  by code_simp

theorem ticker_ratchets_witness:
  "\<exists>u candidate. fst (on_ticker paper_env ''t'' ticker_105 (paper_world (halt_init None))) = Inr (Some u)
     \<and> ts_stop u = Some 103 \<and> 99 < candidate \<and> tighter_eq BUY 99 candidate"
proof -
  let ?w = "paper_world (halt_init None)"
  obtain u w' where run: "on_ticker paper_env ''t'' ticker_105 ?w = (Inr (Some u), w')" and u: "ts_stop u = Some 103"
    using ticker_105_run
    by (cases "on_ticker paper_env ''t'' ticker_105 ?w") (auto split: sum.splits option.splits)
  have t: "ts_basis row_template = Some TB_LAST" "basis_price ticker_105 TB_LAST = Some 105"
    "ts_mode row_template = TM_SYNTHETIC" "ts_phase row_template \<in> {ARMED, DEGRADED}"
    "ts_stop row_template = Some 99" "ts_side row_template = BUY"
    by (simp_all add: row_template_def basis_price_def ticker_105_def)
  from ticker_ratchets [OF paper_world_row(1) t(1-4) run] obtain c where "c \<noteq> 99" "tighter_eq BUY 99 c"
    using u t(5,6) by auto
  with run u show ?thesis by (intro exI [of _ u] exI [of _ c]) (auto simp: tighter_eq_def is_long_def)
qed

end
