(* ===== verification/UTE_Trailing_Attached.thy ===== *)
theory UTE_Trailing_Attached
  imports UTE_Trailing_Ratchet
begin

text \<open>
  What a successful attachment has established, for both modes: the leg it belongs to, the levels it
  carries, and the calls at the venue they rest on.
\<close>

lemma first_stop_sound:
  assumes "first_stop q s entry basis atr sp activated = Inr (Some x)"
  shows "0 < x" and "if is_long s then x < basis else basis < x"
    and "respects_min_stop_distance s x basis (sp_min_stop_distance sp)"
  using assms
  by (auto simp: first_stop_def Let_def rbind_eq_Inr validate_level_direction_def split: option.splits if_splits)

lemma first_take_profit_sound:
  assumes "first_take_profit q s entry atr sp = Inr (Some x)"
  shows "0 < x" and "if is_long s then entry < x else x < entry"
  using assms
  by (auto simp: first_take_profit_def rbind_eq_Inr validate_level_direction_def split: option.splits if_splits)

definition attached_to :: "trailing_request \<Rightarrow> position \<Rightarrow> string \<Rightarrow> trailing_mode \<Rightarrow> trailing_state \<Rightarrow> bool" where
  "attached_to req leg pid m t \<longleftrightarrow> ts_phase t = ARMED \<and> ts_instrument t = rq_instrument req
     \<and> ts_spec t = rq_spec req \<and> ts_position_id t = pid \<and> ts_mode t = m \<and> ts_side t = leg_side leg
     \<and> ts_entry t = po_entry leg \<and> ts_quantity t = dabs (po_quantity leg)"

definition profitable_side :: "order_side \<Rightarrow> decimal \<Rightarrow> decimal option \<Rightarrow> bool" where
  "profitable_side s ref l = (case l of None \<Rightarrow> True | Some x \<Rightarrow> 0 < x \<and> (if is_long s then ref < x else x < ref))"

definition protective_side :: "order_side \<Rightarrow> decimal \<Rightarrow> decimal option \<Rightarrow> bool" where
  "protective_side s ref l = (case l of None \<Rightarrow> True | Some x \<Rightarrow> 0 < x \<and> (if is_long s then x < ref else ref < x))"

definition distant_enough :: "order_side \<Rightarrow> decimal \<Rightarrow> instrument_spec \<Rightarrow> decimal option \<Rightarrow> bool" where
  "distant_enough s ref sp l =
     (case l of None \<Rightarrow> True | Some x \<Rightarrow> respects_min_stop_distance s x ref (sp_min_stop_distance sp))"

lemma first_levels_sound:
  "first_stop q s entry basis atr sp activated = Inr l \<Longrightarrow> protective_side s basis l \<and> distant_enough s basis sp l"
  "first_take_profit q s entry atr sp = Inr l \<Longrightarrow> profitable_side s entry l"
  by (cases l; simp add: protective_side_def distant_enough_def profitable_side_def first_stop_sound first_take_profit_sound)+

subsection \<open>The calls at the venue\<close>

text \<open>
  Levels held by the venue: nothing when there is none to write; otherwise they were written, the write
  succeeded, and the last read of the leg's levels after it matches each of them to one tick.
\<close>

definition levels_held :: "'v tenv \<Rightarrow> instrument \<Rightarrow> string \<Rightarrow> decimal option \<Rightarrow> decimal option \<Rightarrow> trailing_basis option
    \<Rightarrow> decimal \<Rightarrow> ('v \<Rightarrow> bool) \<Rightarrow> 'v \<Rightarrow> bool" where
  "levels_held env i pid tp sl basis tick P =
     (if tp = None \<and> sl = None then P
      else (\<lambda>v. \<exists>atp asl. attachment_matches asl sl tick \<and> attachment_matches atp tp tick
             \<and> read_back env i pid atp asl (replied env (write_levels env i pid tp sl basis) () P) v))"

text \<open>The protection the leg had: it is remembered, and none of it was replaced without leave.\<close>

definition taken_over :: "trailing_request \<Rightarrow> trailing_state \<Rightarrow> (tpsl option \<times> tpsl option) option \<Rightarrow> bool" where
  "taken_over req t found \<longleftrightarrow> (\<exists>tp sl. found = Some (tp, sl)
     \<and> ts_prev_tp t = map_option tp_trigger tp \<and> ts_prev_stop t = map_option tp_trigger sl
     \<and> (sl \<noteq> None \<longrightarrow> rq_take_over req) \<and> (tp \<noteq> None \<and> ts_take_profit t \<noteq> None \<longrightarrow> rq_take_over req))"

text \<open>A synthetic attachment samples the price, reads the leg's levels, and writes its own.\<close>

definition synthetic_calls :: "'v tenv \<Rightarrow> ('v \<Rightarrow> bool) \<Rightarrow> (instrument, instrument_spec) dict \<Rightarrow> trailing_request
    \<Rightarrow> trailing_state \<Rightarrow> 'v tworld \<Rightarrow> bool" where
  "synthetic_calls env P S req t w \<longleftrightarrow> (\<exists>sp k b x found.
     known_spec env P (ts_instrument t) S (tw_specs w) sp
     \<and> ts_basis t = Some b \<and> basis_price k b = Some x \<and> ts_best t = Some x
     \<and> protective_side (ts_side t) x (ts_stop t) \<and> distant_enough (ts_side t) x sp (ts_stop t)
     \<and> taken_over req t found
     \<and> after_quiet env
         (levels_held env (ts_instrument t) (ts_position_id t) (ts_take_profit t) (ts_stop t) (ts_trigger_basis t)
            (sp_tick_size sp)
           (replied env (ad_get_tpsl (te_adapter env) (ts_instrument t) (ts_position_id t)) found
             (replied env (ad_fetch_ticker (te_adapter env) (ts_instrument t)) (Some k) P)))
         (tw_venue w))"

text \<open>
  A native attachment reads the leg's levels and its trailing order, places the trailing order of the
  state, is told by the venue that it is there, and then writes the take profit.
\<close>

definition trail_request :: "trailing_state \<Rightarrow> native_request" where
  "trail_request t = \<lparr>nr_instrument = ts_instrument t, nr_position_id = ts_position_id t, nr_side = ts_side t,
     nr_quantity = ts_quantity t, nr_offset = tq_offset (ts_spec t), nr_offset_type = tq_offset_type (ts_spec t),
     nr_basis = ts_basis t, nr_activation_price = ts_activation_price t, nr_client_id = ts_id t\<rparr>"

definition native_calls :: "'v tenv \<Rightarrow> ('v \<Rightarrow> bool) \<Rightarrow> (instrument, instrument_spec) dict \<Rightarrow> trailing_request
    \<Rightarrow> trailing_state \<Rightarrow> 'v tworld \<Rightarrow> bool" where
  "native_calls env P S req t w \<longleftrightarrow> (\<exists>sp found previous placed confirmed.
     known_spec env P (ts_instrument t) S (tw_specs w) sp
     \<and> taken_over req t found \<and> (previous \<noteq> None \<longrightarrow> rq_take_over req)
     \<and> ts_native_id t = Some (nt_native_id confirmed) \<and> ts_stop t = nt_current_stop confirmed
     \<and> after_quiet env
         (levels_held env (ts_instrument t) (ts_position_id t) (ts_take_profit t) None (ts_trigger_basis t)
            (sp_tick_size sp)
           (replied env (ad_get_trailing (te_adapter env) (nt_native_id placed) (ts_instrument t)) (Some confirmed)
             (replied env (ad_place_trailing (te_adapter env) (trail_request t)) placed
               (replied env (ad_get_position_trailing (te_adapter env) (ts_instrument t) (ts_position_id t)) previous
                 (replied env (ad_get_tpsl (te_adapter env) (ts_instrument t) (ts_position_id t)) found P)))))
         (tw_venue w))"

subsection \<open>Following the calls\<close>

lemma tracked_held:
  "attachment_matches asl sl k \<Longrightarrow> attachment_matches atp tp k \<Longrightarrow> tp \<noteq> None \<or> sl \<noteq> None
   \<Longrightarrow> tracked env (read_back env i pid atp asl (replied env (write_levels env i pid tp sl b) () P)) S w
   \<Longrightarrow> tracked env (levels_held env i pid tp sl b k P) S w"
  by (auto simp: tracked_def after_quiet_def levels_held_def)

lemma ends_never: "ends I (ebind m (\<lambda>_. elift (Inl e))) Q"
  by (rule ends_bind [where R = "\<lambda>_ _. True"]) (simp_all add: ends_raise ends_def [of _ _ "\<lambda>_ _. True"])

lemma ends_write_confirm:
  assumes "tp \<noteq> None \<or> sl \<noteq> None" and "ts_instrument t = i" and "ts_position_id t = pid"
    and "\<And>e. ends (\<lambda>_. True) (h e) (\<lambda>_ _. False)"
  shows "ends (tracked env P S) (ebind (etry (modify_protection env i pid tp sl b) h) (\<lambda>_. confirm_protection env t sl tp k))
     (\<lambda>_. tracked env (levels_held env i pid tp sl b k P) S)"
proof (rule ends_bind_try [OF ends_modify assms(4)])
  show "ends (tracked env (replied env (write_levels env i pid tp sl b) () P) S) (confirm_protection env t sl tp k)
     (\<lambda>_. tracked env (levels_held env i pid tp sl b k P) S)"
    by (rule ends_weaken [OF ends_confirm_protection]) (use assms(1-3) in \<open>auto intro: tracked_held\<close>)
qed

lemma ends_bind_ewhen:
  "(b \<Longrightarrow> ends I m (\<lambda>_. J)) \<Longrightarrow> (\<And>w. \<not> b \<Longrightarrow> I w \<Longrightarrow> J w) \<Longrightarrow> ends J (f ()) Q
   \<Longrightarrow> ends I (ebind (ewhen b m) f) Q"
  by (rule ends_bind [where R = "\<lambda>_. J"]) (auto simp: ends_def ewhen_def eret_def)

lemma ends_native_tp:
  assumes "ts_instrument t = i" and "ts_position_id t = pid" and "ts_trigger_basis t = b"
  shows "ends (tracked env P S) (native_take_profit env t tp k)
     (\<lambda>owned w. (owned \<longleftrightarrow> tp \<noteq> None) \<and> tracked env (levels_held env i pid tp None b k P) S w)"
  unfolding native_take_profit_def assms
proof (intro ends_case_option ends_if ends_quiet ends_never, goal_cases)
  case 1
  then show ?case by (simp add: ends_eret levels_held_def)
next
  case (2 x)
  then show ?case
    unfolding ebind_assoc [symmetric] using assms
    by (intro ends_bind [OF ends_write_confirm] ends_never ends_eret) auto
qed

lemma ends_confirm_native:
  "ends (tracked env P S) (confirm_native env t nid)
     (\<lambda>c. tracked env (replied env (ad_get_trailing (te_adapter env) nid (ts_instrument t)) (Some c) P) S)"
  unfolding confirm_native_def
  by (rule ends_bind_attempt [OF ends_venue]) (auto intro: ends_never ends_eret split: option.splits)

lemma tracked_reserve: "safe (tracked env P S) (if b then reserve env else eret True) (\<lambda>_. True)"
  by (simp add: tracked_prims(3) safe_eret)

lemma takeover_checks_Inr:
  "takeover_checks req tp found = Inr (ptp, psl) \<longleftrightarrow> found = Some (ptp, psl)
     \<and> (psl \<noteq> None \<longrightarrow> rq_take_over req) \<and> (ptp \<noteq> None \<and> tp \<noteq> None \<longrightarrow> rq_take_over req)"
  by (auto simp: takeover_checks_def rbind_eq_Inr split: option.splits)

lemma taken_overI:
  assumes "takeover_checks req tp found = Inr existing" and "ts_take_profit t = tp"
    and "ts_prev_tp t = trigger_of (fst existing)" and "ts_prev_stop t = trigger_of (snd existing)"
  shows "taken_over req t found"
  using assms by (cases existing) (simp add: takeover_checks_Inr taken_over_def trigger_of_def)

lemma ends_attach_synthetic:
  "ends (tracked env P S) (attach_synthetic env req leg pid r)
     (\<lambda>t w. attached_to req leg pid TM_SYNTHETIC t
        \<and> profitable_side (leg_side leg) (po_entry leg) (ts_take_profit t)
        \<and> (ts_stop_owned t \<longleftrightarrow> ts_stop t \<noteq> None) \<and> (ts_tp_owned t \<longleftrightarrow> ts_take_profit t \<noteq> None)
        \<and> synthetic_calls env P S req t w)"
  unfolding attach_synthetic_def Let_def
proof (rule ends_bind [OF ends_cached_spec], intro ends_ex ends_fact ends_quiet ends_walk, goal_cases)
  case (1 sp S' atr b)
  note spec = 1(1)
  show ?case
  proof (rule ends_bind [OF ends_venue], intro ends_walk, goal_cases)
    case (1 tk k x ap stop tp)
    note first = first_levels_sound(1) [OF 1(4)] first_levels_sound(2) [OF 1(5)] and sampled = 1(1,2)
    show ?case
    proof (rule ends_bind [OF ends_venue], intro ends_bind_elift ends_quiet ends_bind_eguard
        ends_skip [OF tracked_reserve], goal_cases)
      case (1 found existing ok go now tid)
      note take = 1(1)
      show ?case
      proof (rule ends_bind_ewhen [where J = "tracked env (levels_held env (rq_instrument req) pid tp stop
            (snd (resolve_bases (rq_spec req) TM_SYNTHETIC (ad_protection_cap (te_adapter env) (rq_instrument req))
              (ad_market_cap (te_adapter env) (rq_instrument req)) (leg_side leg))) (sp_tick_size sp)
            (replied env (ad_get_tpsl (te_adapter env) (rq_instrument req) pid) found
              (replied env (ad_fetch_ticker (te_adapter env) (rq_instrument req)) tk P))) S'"],
          goal_cases)
        case 1
        then show ?case by (intro ends_write_confirm ends_never) (auto simp: arming_state_def)
      next
        case (2 w)
        then show ?case by (simp add: levels_held_def)
      next
        case 3
        show ?case
        proof (intro ends_quiet ends_eret, goal_cases)
          case (1 w)
          with spec first sampled show ?case
            unfolding synthetic_calls_def
            by (intro conjI exI [of _ sp] exI [of _ k] exI [of _ b] exI [of _ x] exI [of _ found] taken_overI [OF take])
              (simp_all add: attached_to_def arming_state_def tracked_def)
        qed
      qed
    qed
  qed
qed

lemma native_request_Inr:
  assumes "native_request_of t leg = Inr n" and "ts_entry t = po_entry leg" and "ts_quantity t = dabs (po_quantity leg)"
    and "resolve_activation_price (ts_spec t) (ts_side t) (ts_entry t) = Inr (ts_activation_price t)"
  shows "n = trail_request t"
  using assms by (auto simp: native_request_of_def trail_request_def rbind_eq_Inr split: option.splits)

lemma ends_place:
  "ends (tracked env P S) (ebind (elift (native_request_of t leg)) (\<lambda>n. venue (ad_place_trailing (te_adapter env) n)))
     (\<lambda>res w. \<exists>n. native_request_of t leg = Inr n
        \<and> tracked env (replied env (ad_place_trailing (te_adapter env) n) res P) S w)"
  by (intro ends_bind_elift ends_weaken [OF ends_venue]) auto

lemma ends_attach_native:
  "ends (tracked env P S) (attach_native env req leg pid r)
     (\<lambda>t w. attached_to req leg pid TM_NATIVE t
        \<and> profitable_side (leg_side leg) (po_entry leg) (ts_take_profit t)
        \<and> (ts_tp_owned t \<longleftrightarrow> ts_take_profit t \<noteq> None) \<and> \<not> ts_stop_owned t \<and> ts_activated t
        \<and> native_calls env P S req t w)"
  unfolding attach_native_def Let_def
proof (rule ends_bind [OF ends_cached_spec], intro ends_ex ends_fact ends_quiet ends_bind_elift, goal_cases)
  case (1 sp S' atr ap tp)
  note spec = 1(1) and ap = 1(2) and first = first_levels_sound(2) [OF 1(3)]
  show ?case
  proof (rule ends_bind [OF ends_venue], intro ends_bind_elift ends_bind_try [OF ends_venue] ends_if ends_raise
      ends_quiet ends_bind_eguard, goal_cases)
    case (1 found existing previous ok go now tid)
    note take = 1(1) and prev = 1(2)
    show ?case
    proof (intro ends_bind_try [OF ends_place] ends_never ends_ex ends_fact ends_quiet, goal_cases)
      case (1 res n)
      note request = native_request_Inr [OF 1]
      show ?case
      proof (rule ends_bind [OF ends_confirm_native], intro ends_quiet, rule ends_bind [OF ends_native_tp [OF refl refl refl]],
          intro ends_fact ends_quiet ends_eret, goal_cases)
        case (1 confirmed owned later w)
        have both: "R a b \<Longrightarrow> \<exists>x y. R x y" for R :: "native_result \<Rightarrow> native_result \<Rightarrow> bool" and a b by blast
        from 1 spec first prev request ap show ?case
          unfolding native_calls_def
          by (intro conjI exI [of _ sp] exI [of _ found] exI [of _ previous] both [of _ res confirmed]
              taken_overI [OF take])
            (simp_all add: attached_to_def arming_state_def tracked_def trail_request_def, auto)
      qed
    qed
  qed
qed

subsection \<open>The leg\<close>

definition stored_legs :: "instrument \<Rightarrow> store \<Rightarrow> position list" where
  "stored_legs i s = map (\<lambda>p. p\<lparr>po_instrument := i\<rparr>) (filter (\<lambda>p. sql_key (po_instrument p) = sql_key i) (so_positions s))"

text \<open>
  The leg a request selects among the legs of its instrument: it is open and carries the identifier,
  and it is the only one with the identifier asked for, or the only open one when none was asked for.
\<close>

definition selected_leg :: "trailing_request \<Rightarrow> position list \<Rightarrow> position \<Rightarrow> string \<Rightarrow> bool" where
  "selected_leg req legs leg pid \<longleftrightarrow> leg \<in> set legs \<and> po_quantity leg \<noteq> 0 \<and> po_id leg = Some pid
     \<and> (case rq_position_id req of
          Some j \<Rightarrow> j = pid \<and> (\<forall>k \<in> set legs. po_id k = Some pid \<longrightarrow> k = leg)
        | None \<Rightarrow> (\<forall>k \<in> set legs. po_quantity k \<noteq> 0 \<longrightarrow> k = leg))"

definition unattached :: "instrument \<Rightarrow> string \<Rightarrow> store \<Rightarrow> bool" where
  \<comment> \<open>no active state of the instrument is on the leg\<close>
  "unattached i pid s \<longleftrightarrow> (\<forall>t \<in> set (so_trailing s). sql_key (ts_instrument t) = sql_key i
     \<longrightarrow> ts_phase t \<in> ACTIVE_TRAILING_PHASES \<longrightarrow> ts_position_id t \<noteq> pid)"

definition attach_to :: "'v tenv \<Rightarrow> trailing_request \<Rightarrow> position \<Rightarrow> string \<Rightarrow> trailing_mode \<Rightarrow> string
    \<Rightarrow> ('v, trailing_state) top" where
  \<comment> \<open>what follows the checks of an attachment\<close>
  "attach_to env req leg pid m r =
     ebind (if m = TM_SYNTHETIC then attach_synthetic env req leg pid r else attach_native env req leg pid r) (\<lambda>fin.
     ebind (audit env ''trailing.routing'' fin (ts_prev_stop fin) (ts_stop fin) (Some r) []) (\<lambda>_.
     eret fin))"

lemma attach_checks:
  "attach env req =
     (let ad = te_adapter env; i = rq_instrument req in
      ebind (require_ready env) (\<lambda>_.
      ebind require_rehydrated (\<lambda>_.
      ebind (in_store (get_positions i)) (\<lambda>legs.
      ebind (elift (resolve_position_leg legs (rq_position_id req))) (\<lambda>(leg, pid).
      ebind (in_store (list_trailing_states (Some i) (Some ACTIVE_TRAILING_PHASES))) (\<lambda>active.
      ebind (eguard (list_ex (\<lambda>t. ts_position_id t = pid) active) TrailingStateError
               ''an active trailing state is already attached to the position'') (\<lambda>_.
      ebind (elift (resolve_routing req (ad_protection_cap ad i) (ad_trailing_cap ad i) (ad_market_cap ad i)))
        (\<lambda>(m, r). attach_to env req leg pid m r))))))))"
  unfolding attach_def attach_to_def Let_def ..

lemma attach_leg:
  assumes "attach env req w = (Inr t, w')"
  obtains leg pid m r v where "selected_leg req (stored_legs (rq_instrument req) (tw_store w)) leg pid"
    and "unattached (rq_instrument req) pid (tw_store w)"
    and "tw_venue v = tw_venue w" and "tw_specs v = tw_specs w"
    and "attach_to env req leg pid m r v = (Inr t, w')"
proof -
  have ready: "require_rehydrated u = (Inr x, u') \<Longrightarrow> u' = u \<or> u' = u\<lparr>tw_rehydrated := Some True\<rparr>" for u u' :: "'a tworld" and x
    by (auto simp: require_rehydrated_def ebind_eq eget_def eret_def eupd_def eguard_def elift_def guard_exn_def
        in_store_def list_trailing_states_def split: if_splits)
  from assms obtain u leg pid m r x where u: "require_rehydrated w = (Inr x, u)"
    and leg: "resolve_position_leg (stored_legs (rq_instrument req) (tw_store u)) (rq_position_id req) = Inr (leg, pid)"
    and unattached: "unattached (rq_instrument req) pid (tw_store u)"
    and rest: "attach_to env req leg pid m r u = (Inr t, w')"
    unfolding attach_checks Let_def unattached_def
    by (auto simp: require_ready_def ebind_eq eget_def eguard_def elift_def guard_exn_def in_store_def get_positions_def
        list_trailing_states_def stored_legs_def newest_def list_ex_iff split: if_splits prod.splits sum.splits) blast
  from ready [OF u] have same: "tw_venue u = tw_venue w" "tw_specs u = tw_specs w" "tw_store u = tw_store w" by auto
  have "selected_leg req (stored_legs (rq_instrument req) (tw_store w)) leg pid"
    using position_leg_unique [OF leg] unfolding selected_leg_def same .
  from that [OF this _ same(1,2) rest] unattached show ?thesis by (simp add: same)
qed

lemma after_quiet_from: "after_quiet env P u \<Longrightarrow> after_quiet env (\<lambda>v. v = u) v \<Longrightarrow> after_quiet env P v"
  by (auto simp: after_quiet_def intro: quiet_trans)

lemma calls_later:
  assumes "tracked env (\<lambda>v. v = tw_venue w) (tw_specs w) w'"
  shows "synthetic_calls env P S req t w \<Longrightarrow> synthetic_calls env P S req t w'"
    and "native_calls env P S req t w \<Longrightarrow> native_calls env P S req t w'"
  using assms after_quiet_from [of env _ "tw_venue w" "tw_venue w'"]
  unfolding synthetic_calls_def native_calls_def tracked_def by metis+

text \<open>
  C27. A successful attachment. When attach returns a state, the state is armed and belongs to a leg of
  the requested instrument in the store: the open leg the request selects, on which no state was
  active, and whose identifier, side, entry and absolute quantity it carries, with the requested
  specification. Its take profit, if any, is owned, positive and on the profitable side of the entry.
  A synthetic state has sampled a basis from a ticker of the venue, and its stop, if any, is owned,
  positive, on the protective side of that basis and at the minimum distance from it; its levels were
  written after the ticker and the levels of the leg were read, the write succeeded, and a read of the
  leg's levels after it matched each of them to one tick. A native state owns no static stop and is
  activated; the trailing order placed was that of the state, the venue was then asked for the order it
  had placed and gave it, and the state carries the identifier and the stop of that answer; its take
  profit was written and read back like the levels of a synthetic state. In both modes protection the
  leg had, static or native, was replaced only when the request takes it over, and nothing else was
  written at the venue.
\<close>

theorem attach_contract:
  assumes "attach env req w = (Inr t, w')"
  shows "ts_phase t = ARMED \<and> ts_instrument t = rq_instrument req \<and> ts_spec t = rq_spec req
    \<and> (\<exists>leg. selected_leg req (stored_legs (rq_instrument req) (tw_store w)) leg (ts_position_id t)
         \<and> ts_side t = leg_side leg \<and> ts_entry t = po_entry leg \<and> ts_quantity t = dabs (po_quantity leg)
         \<and> profitable_side (leg_side leg) (po_entry leg) (ts_take_profit t))
    \<and> unattached (rq_instrument req) (ts_position_id t) (tw_store w)
    \<and> (ts_tp_owned t \<longleftrightarrow> ts_take_profit t \<noteq> None)
    \<and> (if ts_mode t = TM_SYNTHETIC
       then (ts_stop_owned t \<longleftrightarrow> ts_stop t \<noteq> None)
         \<and> (\<exists>basis. ts_best t = Some basis \<and> protective_side (ts_side t) basis (ts_stop t))
         \<and> synthetic_calls env (\<lambda>v. v = tw_venue w) (tw_specs w) req t w'
       else ts_mode t = TM_NATIVE \<and> \<not> ts_stop_owned t \<and> ts_native_id t \<noteq> None \<and> ts_activated t
         \<and> native_calls env (\<lambda>v. v = tw_venue w) (tw_specs w) req t w')"
proof -
  obtain leg pid m r v where leg: "selected_leg req (stored_legs (rq_instrument req) (tw_store w)) leg pid"
    and free: "unattached (rq_instrument req) pid (tw_store w)"
    and same: "tw_venue v = tw_venue w" "tw_specs v = tw_specs w" and run: "attach_to env req leg pid m r v = (Inr t, w')"
    by (rule attach_leg [OF assms])
  from run obtain v1 where
    1: "(if m = TM_SYNTHETIC then attach_synthetic env req leg pid r else attach_native env req leg pid r) v = (Inr t, v1)"
    and 2: "audit env ''trailing.routing'' t (ts_prev_stop t) (ts_stop t) (Some r) [] v1 = (Inr (), w')"
    by (auto simp: attach_to_def ebind_eq eret_def)
  note later = calls_later [OF safeD [OF tracked_ops(2) tracked_start 2]]
  have start: "tracked env (\<lambda>v. v = tw_venue w) (tw_specs w) v" by (simp add: tracked_def after_quietI same)
  show ?thesis
  proof (cases "m = TM_SYNTHETIC")
    case True
    with endsD [OF ends_attach_synthetic start] 1 have "attached_to req leg pid TM_SYNTHETIC t"
      "profitable_side (leg_side leg) (po_entry leg) (ts_take_profit t)" "ts_stop_owned t \<longleftrightarrow> ts_stop t \<noteq> None"
      "ts_tp_owned t \<longleftrightarrow> ts_take_profit t \<noteq> None"
      "synthetic_calls env (\<lambda>v. v = tw_venue w) (tw_specs w) req t v1" by auto
    moreover from this(5) obtain x where "ts_best t = Some x" "protective_side (ts_side t) x (ts_stop t)"
      unfolding synthetic_calls_def by blast
    ultimately show ?thesis using leg free later(1) by (auto simp: attached_to_def)
  next
    case False
    with endsD [OF ends_attach_native start] 1 have "attached_to req leg pid TM_NATIVE t"
      "profitable_side (leg_side leg) (po_entry leg) (ts_take_profit t)" "ts_tp_owned t \<longleftrightarrow> ts_take_profit t \<noteq> None"
      "\<not> ts_stop_owned t" "ts_activated t"
      "native_calls env (\<lambda>v. v = tw_venue w) (tw_specs w) req t v1" by auto
    moreover from this(6) have "ts_native_id t \<noteq> None" unfolding native_calls_def by blast
    ultimately show ?thesis using leg free later(2) by (auto simp: attached_to_def)
  qed
qed

text \<open>The one-leg venue with a ticker and distinct identifiers, and a long leg of two at 100.\<close>

definition market_env :: "paper tenv" where
  "market_env = paper_env\<lparr>te_clock := (\<lambda>p. (pv_now p, p\<lparr>pv_now := pv_now p + 1\<rparr>)),
     te_new_id := (\<lambda>p. (replicate (nat (pv_now p)) (CHR ''x''), p\<lparr>pv_now := pv_now p + 1\<rparr>)),
     te_adapter := paper_adapter\<lparr>ad_protection_cap := (\<lambda>_. full_protection),
     ad_market_cap := (\<lambda>_. ticker_market), ad_fetch_ticker := (\<lambda>_. eret (Some ticker_105)),
     ad_get_tpsl := (\<lambda>_ _. eget (\<lambda>p. Some (pv_tp p, pv_stop p)))\<rparr>\<rparr>"

definition market_world :: "paper tworld" where
  "market_world = (paper_world (halt_init None))
     \<lparr>tw_venue := \<lparr>pv_stop = None, pv_tp = None, pv_now = 1\<rparr>,
      tw_store := empty_store\<lparr>so_positions := [\<lparr>po_instrument = btc_spot, po_quantity = 2, po_entry = 100,
        po_updated_at = 0, po_id = Some ''leg'', po_opened_at = None\<rparr>]\<rparr>\<rparr>"

lemma market_attach_run:
  "(case fst (attach market_env auto_request market_world) of
      Inr u \<Rightarrow> (ts_mode u, ts_stop u, ts_quantity u) | _ \<Rightarrow> (TM_AUTO, None, 0)) = (TM_SYNTHETIC, Some 103, 2)"
  by code_simp

theorem attach_contract_witness:
  "\<exists>t. fst (attach market_env auto_request market_world) = Inr t \<and> ts_phase t = ARMED
     \<and> ts_stop_owned t \<and> ts_spec t = percent_spec
     \<and> (\<exists>basis. ts_best t = Some basis \<and> protective_side (ts_side t) basis (Some 103))"
proof -
  obtain t w' where run: "attach market_env auto_request market_world = (Inr t, w')"
    and m: "ts_mode t = TM_SYNTHETIC" "ts_stop t = Some 103"
    using market_attach_run by (cases "attach market_env auto_request market_world") (auto split: sum.splits)
  from attach_contract [OF run] m run show ?thesis by (auto simp: auto_request_def)
qed

end
