(* ===== verification/UTE_Trailing_Recoveries.thy ===== *)
theory UTE_Trailing_Recoveries
  imports UTE_Trailing_Ratchet
begin

text \<open>
  Degradation and recovery of live states: what an ATR refresh restores, what a reprice does to a
  state degraded for a stale ATR, and the classification of exit fills.
\<close>

subsection \<open>ATR refreshes\<close>

lemma load_row: "trailing_row x (tw_store w) = Some t \<Longrightarrow> load x w = (Inr (Some t), w)"
  by (simp add: load_def in_store_def get_trailing_state_run)

lemma require_ready_run:
  "require_ready env w = (if ad_is_connected (te_adapter env) (tw_venue w) then Inr ()
     else raise_exn PlatformConnectionError ''trailing manager requires a connected engine'', w)"
  by (simp add: require_ready_def ebind_def eget_def eguard_def guard_exn_def elift_def)

definition refreshed :: "trailing_state \<Rightarrow> decimal \<Rightarrow> instant \<Rightarrow> trailing_state \<Rightarrow> bool" where
  "refreshed t a as_of u \<longleftrightarrow>
     (\<exists>now. u = t\<lparr>ts_phase := (if ts_phase t = DEGRADED \<and> error_has ATR_PREFIX t then ARMED else ts_phase t),
       ts_atr := Some a, ts_atr_as_of := Some as_of,
       ts_error := (if ts_phase t = DEGRADED \<and> error_has ATR_PREFIX t then None else ts_error t),
       ts_updated_at := now\<rparr>)"

text \<open>
  An ATR refresh. For a live synthetic state whose specification uses the ATR, a refresh that
  returns has stored the value and its time and touched nothing else but the update time, except
  that a state degraded for a stale ATR is armed again with its error cleared; a state degraded for
  any other reason stays degraded.
\<close>

theorem atr_refresh:
  assumes row: "trailing_row tid (tw_store w) = Some t"
    and live: "ts_mode t = TM_SYNTHETIC" "uses_atr (ts_spec t)" "ts_phase t \<in> {ARMED, DEGRADED}"
    and run: "on_atr env tid a as_of w = (Inr r, w')"
  shows "\<exists>u. r = Some u \<and> refreshed t a as_of u"
proof -
  let ?m = "ebind (eupd (\<lambda>w. w\<lparr>tw_atr_failures := dict_set tid 0 (tw_atr_failures w)\<rparr>)) (\<lambda>_.
           let recover = (ts_phase t = DEGRADED \<and> error_has ATR_PREFIX t) in
           ebind (clock env) (\<lambda>now.
           let u = t\<lparr>ts_phase := (if recover then ARMED else ts_phase t), ts_atr := Some a,
                     ts_atr_as_of := Some as_of, ts_error := (if recover then None else ts_error t),
                     ts_updated_at := now\<rparr> in
           ebind (save u) (\<lambda>_.
           ebind (ewhen recover
             (ebind (publish_state env u DEGRADED (Some ''atr_refreshed'')) (\<lambda>_.
              audit env ''trailing.recovered'' u (ts_stop u) (ts_stop u) (Some ''atr_refreshed'') []))) (\<lambda>_.
           eret (Some u)))))"
  have m: "?m w = (Inr r, w')"
    using run live
    by (auto simp: on_atr_def ebind_def require_ready_run load_row [OF row] split: if_splits prod.splits sum.splits)
  have "safe anyw ?m (\<lambda>r. \<exists>u. r = Some u \<and> refreshed t a as_of u)"
    by (intro value_walk) (auto simp: refreshed_def)
  from safe_valueD [OF this _ m] show ?thesis by (simp add: anyw_def)
qed

text \<open>A state that was degraded for a stale ATR, on the one-leg venue.\<close>

definition stale_row :: trailing_state where
  "stale_row = row_template\<lparr>ts_phase := DEGRADED, ts_error := Some ''atr_stale: timeout'', ts_atr := Some 1,
     ts_spec := (ts_spec row_template)\<lparr>tq_offset_type := OT_ATR, tq_offset := 2\<rparr>\<rparr>"

definition stale_world :: "paper tworld" where
  "stale_world = (paper_world (halt_init None))\<lparr>tw_store := empty_store\<lparr>so_trailing := [stale_row]\<rparr>\<rparr>"

lemma stale_world_row:
  "trailing_row ''t'' (tw_store stale_world) = Some stale_row"
  "ts_basis stale_row = Some TB_LAST" "basis_price ticker_105 TB_LAST = Some 105"
  "ts_mode stale_row = TM_SYNTHETIC" "ts_phase stale_row = DEGRADED" "error_has ATR_PREFIX stale_row"
  "uses_atr (ts_spec stale_row)" "ts_reprices stale_row = 0"
  by (simp_all add: stale_world_def stale_row_def trailing_row_def row_template_def basis_price_def
      ticker_105_def error_has_def ATR_PREFIX_def starts_with_def uses_atr_def)

lemma stale_runs:
  "(case fst (on_ticker paper_env ''t'' ticker_105 stale_world) of
      Inr (Some u) \<Rightarrow> ts_reprices u | _ \<Rightarrow> 0) = 1"
  "(case fst (on_atr paper_env ''t'' 3 7 stale_world) of Inr _ \<Rightarrow> True | _ \<Rightarrow> False)"
  by code_simp+

theorem atr_refresh_witness:
  "\<exists>u. fst (on_atr paper_env ''t'' 3 7 stale_world) = Inr (Some u)
     \<and> ts_phase u = ARMED \<and> ts_error u = None \<and> ts_atr u = Some 3"
proof -
  obtain r w' where run: "on_atr paper_env ''t'' 3 7 stale_world = (Inr r, w')"
    using stale_runs(2) by (cases "on_atr paper_env ''t'' 3 7 stale_world") (auto split: sum.splits)
  have "ts_phase stale_row \<in> {ARMED, DEGRADED}" by (simp add: stale_world_row)
  from atr_refresh [OF stale_world_row(1,4,7) this run] show ?thesis
    using stale_world_row(5,6) run by (auto simp: refreshed_def)
qed

subsection \<open>Reprices of degraded states\<close>

lemma ATR_not_protection: "error_has ATR_PREFIX t \<Longrightarrow> \<not> error_has PROTECTION_PREFIX t \<and> \<not> error_has FETCH_PREFIX t"
  by (auto simp: error_has_def ATR_PREFIX_def PROTECTION_PREFIX_def FETCH_PREFIX_def starts_with_iff)

definition stuck_after :: "trailing_state \<Rightarrow> trailing_state \<Rightarrow> bool" where
  "stuck_after t u \<longleftrightarrow> (ts_reprices u \<noteq> ts_reprices t \<longrightarrow> ts_phase u = DEGRADED \<and> ts_error u = None)"

lemma stuck_fetch: "safe anyw (record_protection_failure env t r) (stuck_after t)"
  unfolding record_protection_failure_def
  by (intro value_walk) (simp_all add: stuck_after_def)

lemma stuck_reprice:
  assumes "ts_phase t = DEGRADED" and "error_has ATR_PREFIX t"
  shows "safe anyw (reprice env t a sp candidate now) (stuck_after t)"
proof -
  let ?att = "t\<lparr>ts_last_reprice := Some now, ts_updated_at := now\<rparr>"
  have f: "safe anyw (record_protection_failure env ?att r) (stuck_after t)" for r
    using stuck_fetch [of env ?att r] by (rule safe_weaken) (simp add: stuck_after_def)
  have p: "\<not> error_has PROTECTION_PREFIX ?att"
    using ATR_not_protection [OF assms(2)] by (simp add: error_has_def)
  show ?thesis
    unfolding reprice_def Let_def
    by (intro f value_walk) (use assms(1) p in \<open>auto simp: stuck_after_def\<close>)
qed

lemma stuck_apply_ticker:
  assumes "ts_phase t = DEGRADED" and "error_has ATR_PREFIX t"
  shows "safe anyw (apply_ticker env t p now) (stuck_after t)"
proof -
  have rec: "recover_fetch_degraded env t now = eret t"
    using assms ATR_not_protection [OF assms(2)] by (simp add: recover_fetch_degraded_def)
  have best: "safe anyw (track_best t p now)
      (\<lambda>u. ts_phase u = DEGRADED \<and> error_has ATR_PREFIX u \<and> ts_reprices u = ts_reprices t)"
    unfolding track_best_def by (intro value_walk) (use assms in \<open>simp_all add: error_has_def\<close>)
  have act: "safe anyw (track_activation v now)
      (\<lambda>u. ts_phase u = DEGRADED \<and> error_has ATR_PREFIX u \<and> ts_reprices u = ts_reprices t)"
    if "ts_phase v = DEGRADED \<and> error_has ATR_PREFIX v \<and> ts_reprices v = ts_reprices t" for v
    unfolding track_activation_def by (intro value_walk) (use that in \<open>simp_all add: error_has_def\<close>)
  have tr: "safe anyw (try_reprice env v best q a now) (stuck_after t)"
    if "ts_phase v = DEGRADED \<and> error_has ATR_PREFIX v \<and> ts_reprices v = ts_reprices t" for v best q a
    unfolding try_reprice_def
    by (intro safe_weaken [OF stuck_fetch] safe_weaken [OF stuck_reprice] value_walk)
      (use that in \<open>auto simp: stuck_after_def\<close>)
  show ?thesis
    unfolding apply_ticker_def rec
    by (simp, intro safe_ebind [OF best] safe_ebind [OF act] value_walk tr; simp add: stuck_after_def)
qed

text \<open>
  A reprice hides a stale ATR. When a ticker moves the stop of a state that was degraded for a
  stale ATR, the state is still degraded but its error is cleared; the next ATR refresh therefore
  finds no ATR error and leaves the state degraded.
\<close>

theorem reprice_hides_stale_atr:
  assumes row: "trailing_row tid (tw_store w) = Some t"
    and price: "ts_basis t = Some b" "basis_price tk b = Some p"
    and live: "ts_mode t = TM_SYNTHETIC" "ts_phase t = DEGRADED" "error_has ATR_PREFIX t"
    and run: "on_ticker env tid tk w = (Inr (Some u), w')" and moved: "ts_reprices u \<noteq> ts_reprices t"
  shows "ts_phase u = DEGRADED \<and> ts_error u = None
    \<and> (refreshed u a as_of v \<longrightarrow> ts_phase v = DEGRADED \<and> ts_error v = None)"
proof -
  have "ts_phase t \<in> {ARMED, DEGRADED}" using live by simp
  then obtain x y now where ap: "apply_ticker env t p now x = (Inr u, y)"
    using on_ticker_priced [OF row price live(1) _ run] by (metis option.inject)
  from safe_valueD [OF stuck_apply_ticker [OF live(2,3)] _ ap] moved
  have "ts_phase u = DEGRADED" "ts_error u = None" by (simp_all add: anyw_def stuck_after_def)
  then show ?thesis by (auto simp: refreshed_def error_has_def ATR_PREFIX_def starts_with_def)
qed

theorem reprice_hides_stale_atr_witness:
  "\<exists>u. fst (on_ticker paper_env ''t'' ticker_105 stale_world) = Inr (Some u)
     \<and> ts_phase u = DEGRADED \<and> ts_error u = None"
proof -
  obtain u w' where run: "on_ticker paper_env ''t'' ticker_105 stale_world = (Inr (Some u), w')"
    and m: "ts_reprices u = 1"
    using stale_runs(1)
    by (cases "on_ticker paper_env ''t'' ticker_105 stale_world") (auto split: sum.splits option.splits)
  have "ts_reprices u \<noteq> ts_reprices stale_row" using m by (simp add: stale_world_row)
  from reprice_hides_stale_atr [OF stale_world_row(1-6) run this, of _ _ u] show ?thesis using run by simp
qed

subsection \<open>Fills\<close>

text \<open>
  Classifying a fill is conservative. The venue is not asked and the store is not changed; the
  fill comes back as it is, except that the reason of a stop-loss exit becomes a trailing stop,
  which happens only when some active or completed synthetic state owns the stop of the fill's
  position, was created before the fill and, if completed, was updated within two minutes of it.
\<close>

theorem fill_classification:
  "\<exists>g. classify_fill f w = (Inr g, w)
     \<and> (g = f \<or> (g = f\<lparr>fl_reason := Some FR_TRAILING_STOP\<rparr> \<and> fl_reason f = Some FR_STOP_LOSS
          \<and> fl_entry f = Some FE_OUT
          \<and> (\<exists>t \<in> set (so_trailing (tw_store w)). trailing_exit_of f t
               \<and> sql_key (ts_instrument t) = sql_key (fl_instrument f)
               \<and> ts_phase t \<in> ACTIVE_TRAILING_PHASES \<union> {DONE})))"
proof -
  let ?hits = "newest ts_updated_at (filter (\<lambda>t. sql_key (ts_instrument t) = sql_key (fl_instrument f)
      \<and> ts_phase t \<in> ACTIVE_TRAILING_PHASES \<union> {DONE}) (so_trailing (tw_store w)))"
  have ne: "Some (ACTIVE_TRAILING_PHASES \<union> {DONE}) \<noteq> Some {}" by simp
  have list: "in_store (list_trailing_states (Some (fl_instrument f)) (Some (ACTIVE_TRAILING_PHASES \<union> {DONE}))) w
      = (Inr ?hits, w)"
    using ne by (simp add: in_store_def list_trailing_states_def eget_def)
  have hits: "set ?hits \<subseteq> {t \<in> set (so_trailing (tw_store w)).
      sql_key (ts_instrument t) = sql_key (fl_instrument f) \<and> ts_phase t \<in> ACTIVE_TRAILING_PHASES \<union> {DONE}}"
    by (auto simp: newest_def)
  show ?thesis
  proof (cases "fl_reason f \<noteq> Some FR_STOP_LOSS \<or> fl_entry f \<noteq> Some FE_OUT")
    case True
    then show ?thesis by (simp add: classify_fill_def eret_def)
  next
    case False
    have run: "classify_fill f w = (if list_ex (trailing_exit_of f) ?hits
        then (Inr (f\<lparr>fl_reason := Some FR_TRAILING_STOP\<rparr>), w) else (Inr f, w))"
      using False unfolding classify_fill_def by (simp add: ebind_def list eret_def del: Un_insert_right)
    show ?thesis
    proof (cases "list_ex (trailing_exit_of f) ?hits")
      case True
      then obtain t where "t \<in> set ?hits" "trailing_exit_of f t" by (auto simp: list_ex_iff)
      with hits False True show ?thesis unfolding run by auto
    next
      case False
      then show ?thesis unfolding run by (simp del: Un_insert_right)
    qed
  qed
qed

end
