(* ===== verification/UTE_Dispatch.thy ===== *)
theory UTE_Dispatch
  imports UTE_Risk UTE_Trailing_World
begin

text \<open>
  The order pipelines of \<^verbatim>\<open>core/dispatch/__init__.py\<close>. They act on the venue, the store, the event
  log and the halt machine, which are the fields of the world \<open>'v tworld\<close>, and they take the adapter,
  the clock and the id factory from the environment of type \<open>'v tenv\<close>; the other fields of both are
  not used here. \<^verbatim>\<open>dispatch_place_order\<close> assigns the generated client id to the caller's order
  object, and the engine reads it after a timeout, so the model returns the order together with the
  outcome.
\<close>

definition status_text :: "order_status \<Rightarrow> string" where
  "status_text s = (case s of PENDING \<Rightarrow> ''PENDING'' | OPEN \<Rightarrow> ''OPEN''
     | PARTIALLY_FILLED \<Rightarrow> ''PARTIALLY_FILLED'' | FILLED \<Rightarrow> ''FILLED'' | CANCELLED \<Rightarrow> ''CANCELLED''
     | REJECTED \<Rightarrow> ''REJECTED'' | EXPIRED \<Rightarrow> ''EXPIRED'')"

definition write_audit ::
    "'v tenv \<Rightarrow> string \<Rightarrow> string \<Rightarrow> (string \<times> payload_value) list \<Rightarrow> ('v, unit) top" where
  "write_audit env corr kind payload =
     ebind (new_id env) (\<lambda>i.
     ebind (clock env) (\<lambda>now.
     in_store (write_audit_event
       \<lparr>au_id = i, au_time = now, au_adapter = ad_platform (te_adapter env),
        au_account = ad_account (te_adapter env), au_correlation = corr, au_type = kind,
        au_payload = payload\<rparr>)))"

subsection \<open>Records\<close>

text \<open>The constructor of an order record refuses a timestamp without a time zone.\<close>

definition record_expiry :: "py_datetime option \<Rightarrow> instant option result" where
  "record_expiry e =
     (case e of
        None \<Rightarrow> Inr None
      | Some (Aware t) \<Rightarrow> Inr (Some t)
      | Some (Naive _) \<Rightarrow> raise_exn PyValueError ''expire_at must be timezone-aware (UTC)'')"

definition placed_record :: "unified_order \<Rightarrow> order_result \<Rightarrow> string \<Rightarrow> order_record result" where
  "placed_record u r corr =
     rbind (record_expiry (uo_expire_at u)) (\<lambda>ex.
     Inr \<lparr>or_instrument = uo_instrument u, or_type = uo_type u, or_side = uo_side u,
          or_quantity = uo_quantity u, or_tif = uo_tif u, or_client_id = re_client_id r,
          or_price = uo_price u, or_stop_price = uo_stop_price u, or_reduce_only = uo_reduce_only u,
          or_client_tag = uo_client_tag u, or_take_profit = uo_take_profit u,
          or_stop_loss = uo_stop_loss u, or_platform_id = re_platform_id r, or_status = re_status r,
          or_filled = re_filled r, or_avg_price = re_avg_price r, or_correlation_id = corr,
          or_created_at = re_created_at r, or_updated_at = re_updated_at r, or_expire_at = ex\<rparr>)"

definition or_else :: "'a option \<Rightarrow> 'a option \<Rightarrow> 'a option" where
  \<comment> \<open>\<^verbatim>\<open>x if x is not None else y\<close>\<close>
  "or_else x y = (case x of None \<Rightarrow> y | Some a \<Rightarrow> Some a)"

definition modified_quantity :: "order_record \<Rightarrow> order_modification \<Rightarrow> decimal" where
  "modified_quantity ex m = (case mo_quantity m of None \<Rightarrow> or_quantity ex | Some q \<Rightarrow> q)"

text \<open>The order as it would be: rebuilt without its expiry and without its position id.\<close>

definition would_be :: "order_record \<Rightarrow> order_modification \<Rightarrow> unified_order" where
  "would_be ex m = \<lparr>uo_instrument = or_instrument ex, uo_type = or_type ex, uo_side = or_side ex,
     uo_quantity = modified_quantity ex m, uo_tif = or_tif ex, uo_client_id = Some (or_client_id ex),
     uo_price = or_else (mo_price m) (or_price ex),
     uo_stop_price = or_else (mo_stop_price m) (or_stop_price ex),
     uo_reduce_only = or_reduce_only ex, uo_client_tag = or_client_tag ex,
     uo_take_profit = or_else (mo_take_profit m) (or_take_profit ex),
     uo_stop_loss = or_else (mo_stop_loss m) (or_stop_loss ex),
     uo_position_id = None, uo_expire_at = None\<rparr>"

definition with_result :: "order_record \<Rightarrow> order_result \<Rightarrow> order_record" where
  "with_result ex r = ex\<lparr>or_platform_id := re_platform_id r, or_status := re_status r,
     or_filled := re_filled r, or_avg_price := re_avg_price r, or_updated_at := re_updated_at r\<rparr>"

definition modified_record :: "order_record \<Rightarrow> order_modification \<Rightarrow> order_result \<Rightarrow> order_record" where
  "modified_record ex m r =
     (with_result ex r)\<lparr>or_quantity := modified_quantity ex m,
       or_price := or_else (mo_price m) (or_price ex),
       or_stop_price := or_else (mo_stop_price m) (or_stop_price ex),
       or_take_profit := or_else (mo_take_profit m) (or_take_profit ex),
       or_stop_loss := or_else (mo_stop_loss m) (or_stop_loss ex)\<rparr>"

subsection \<open>Pipelines\<close>

definition check_order_type :: "'v adapter \<Rightarrow> order_type \<Rightarrow> unit result" where
  "check_order_type ad t =
     guard_exn (t \<notin> ad_order_types ad) UnsupportedOrderTypeError ''order type is not supported''"

definition check_halt :: "instrument \<Rightarrow> bool \<Rightarrow> ('v, unit) top" where
  "check_halt i reduce_only =
     ebind (eget (\<lambda>w. can_place_order (tw_halts w) i reduce_only)) (\<lambda>ok.
     eguard (\<not> ok) InstrumentHaltedError ''instrument or account is halted'')"

definition assign_client_id :: "'v tenv \<Rightarrow> unified_order \<Rightarrow> ('v, unified_order) top" where
  "assign_client_id env ord =
     (if uo_client_id ord = None
      then ebind (new_id env) (\<lambda>i. eret (ord\<lparr>uo_client_id := Some i\<rparr>))
      else eret ord)"

definition submit_order ::
    "'v tenv \<Rightarrow> risk_config \<Rightarrow> instrument_spec \<Rightarrow> decimal option \<Rightarrow> string set \<Rightarrow> int \<Rightarrow> unified_order
     \<Rightarrow> ('v, order_result) top" where
  "submit_order env cfg spec reference known budget ord =
     ebind (new_id env) (\<lambda>corr.
     ebind (elift (run_risk_checks ord (Some spec) reference known budget (Some cfg))) (\<lambda>_.
     ebind (check_halt (uo_instrument ord) (uo_reduce_only ord)) (\<lambda>_.
     ebind (venue (ad_place_order (te_adapter env) ord)) (\<lambda>r.
     ebind (elift (placed_record ord r corr)) (\<lambda>rec.
     ebind (in_store (upsert_order rec)) (\<lambda>_.
     ebind (emit env (Some corr) (OrderPlacedEvent rec)) (\<lambda>_.
     ebind (write_audit env corr ''order.placed''
       [(''client_order_id'', PV_text (re_client_id r)),
        (''platform_order_id'', pv_text (re_platform_id r)),
        (''status'', PV_text (status_text (re_status r)))]) (\<lambda>_.
     eret r))))))))"

definition dispatch_place_order ::
    "'v tenv \<Rightarrow> risk_config \<Rightarrow> instrument_spec \<Rightarrow> decimal option \<Rightarrow> string set \<Rightarrow> int \<Rightarrow> unified_order
     \<Rightarrow> ('v, unified_order \<times> order_result result) top" where
  "dispatch_place_order env cfg spec reference known budget ord =
     (case check_order_type (te_adapter env) (uo_type ord) of
        Inl e \<Rightarrow> eret (ord, Inl e)
      | Inr _ \<Rightarrow>
          ebind (assign_client_id env ord) (\<lambda>ord'.
          ebind (eattempt (submit_order env cfg spec reference known budget ord')) (\<lambda>r.
          eret (ord', r))))"

definition existing_order :: "string \<Rightarrow> ('v, order_record) top" where
  "existing_order cid =
     ebind (in_store (get_order cid)) (\<lambda>ex.
     case ex of None \<Rightarrow> eraise OrderNotFoundError cid | Some r \<Rightarrow> eret r)"

text \<open>The constructor of the rebuilt order reads the clock only past the missing expiry.\<close>

definition dispatch_modify_order ::
    "'v tenv \<Rightarrow> risk_config \<Rightarrow> (instrument \<Rightarrow> ('v, instrument_spec) top) \<Rightarrow> decimal option \<Rightarrow> string set \<Rightarrow> int
     \<Rightarrow> order_modification \<Rightarrow> ('v, order_result) top" where
  "dispatch_modify_order env cfg get_spec reference known budget m =
     ebind (existing_order (mo_client_id m)) (\<lambda>ex.
     ebind (new_id env) (\<lambda>corr.
     ebind (elift (unified_order_post_init 0 (would_be ex m))) (\<lambda>u.
     ebind (elift (check_order_type (te_adapter env) (uo_type u))) (\<lambda>_.
     ebind (get_spec (uo_instrument u)) (\<lambda>spec.
     ebind (elift (run_risk_checks u (Some spec) reference known budget (Some cfg))) (\<lambda>_.
     ebind (check_halt (uo_instrument u) (uo_reduce_only u)) (\<lambda>_.
     ebind (venue (ad_modify_order (te_adapter env) m)) (\<lambda>r.
     let updated = modified_record ex m r in
     ebind (in_store (upsert_order updated)) (\<lambda>_.
     ebind (emit env (Some corr) (OrderModifiedEvent updated ex)) (\<lambda>_.
     ebind (write_audit env corr ''order.modified''
       [(''client_order_id'', PV_text (mo_client_id m))]) (\<lambda>_.
     eret r)))))))))))"

definition dispatch_cancel_order :: "'v tenv \<Rightarrow> string \<Rightarrow> ('v, order_result) top" where
  "dispatch_cancel_order env cid =
     ebind (new_id env) (\<lambda>corr.
     ebind (existing_order cid) (\<lambda>ex.
     ebind (venue (ad_cancel_order (te_adapter env) cid)) (\<lambda>r.
     let updated = with_result ex r in
     ebind (in_store (upsert_order updated)) (\<lambda>_.
     ebind (emit env (Some corr) (OrderCancelledEvent cid (or_instrument ex))) (\<lambda>_.
     ebind (write_audit env corr ''order.cancelled'' [(''client_order_id'', PV_text cid)]) (\<lambda>_.
     eret r))))))"

end
