(* ===== verification/UTE_Engine.thy ===== *)
theory UTE_Engine
  imports UTE_Dispatch UTE_Trailing_Lifecycle
begin

text \<open>
  The state of the engine, \<^verbatim>\<open>core/engine.py\<close>, its rate-limit budget, its event subscriptions and
  its order operations. The trailing manager calls back into the engine's budget while it holds the
  world, so the budget and the queue of scheduled tasks live beside the venue in a \<open>hub\<close>, and the
  manager runs on the world \<open>'v hub tworld\<close> with an adapter lifted to the hub.

  An operation is one step: what other tasks do while it awaits is not interleaved with it. A
  coroutine handed to the loop is a value in the task queue and runs as a step of its own
  (\<open>UTE_Engine_Life\<close>). The store is the one the caller supplies; deriving its path is not modelled.
\<close>

subsection \<open>The hub\<close>

datatype task =
    T_refresh_limits
  | T_persist_fill fill_record
  | T_persist_order order_record
  | T_persist_position position
  | T_forward_position position
  | T_persist_balance balance
  | T_sync_worker
  | T_account_change instant string
  | T_reconnect

record 'v hub =
  hb_venue :: 'v
  hb_budget :: int
  hb_reset_at :: "instant option"
  hb_pending :: bool
  hb_tasks :: "task list"

definition hub_lift :: "('v, 'a) eff \<Rightarrow> ('v hub, 'a) eff" where
  "hub_lift f = (\<lambda>h. case f (hb_venue h) of (r, v) \<Rightarrow> (r, h\<lparr>hb_venue := v\<rparr>))"

definition hub_outside :: "('v \<Rightarrow> 'a \<times> 'v) \<Rightarrow> 'v hub \<Rightarrow> 'a \<times> 'v hub" where
  "hub_outside f = (\<lambda>h. case f (hb_venue h) of (a, v) \<Rightarrow> (a, h\<lparr>hb_venue := v\<rparr>))"

definition lift_adapter :: "'v adapter \<Rightarrow> 'v hub adapter" where
  "lift_adapter ad = \<lparr>ad_platform = ad_platform ad, ad_account = ad_account ad,
     ad_is_connected = (\<lambda>h. ad_is_connected ad (hb_venue h)),
     ad_connect = hub_lift (ad_connect ad), ad_disconnect = hub_lift (ad_disconnect ad),
     ad_order_types = ad_order_types ad,
     ad_place_order = (\<lambda>u. hub_lift (ad_place_order ad u)),
     ad_modify_order = (\<lambda>m. hub_lift (ad_modify_order ad m)),
     ad_cancel_order = (\<lambda>c. hub_lift (ad_cancel_order ad c)),
     ad_get_order = (\<lambda>c. hub_lift (ad_get_order ad c)),
     ad_fetch_spec = (\<lambda>i. hub_lift (ad_fetch_spec ad i)),
     ad_protection_cap = ad_protection_cap ad, ad_trailing_cap = ad_trailing_cap ad,
     ad_market_cap = ad_market_cap ad, ad_rate_limits = hub_lift (ad_rate_limits ad),
     ad_fetch_ticker = (\<lambda>i. hub_lift (ad_fetch_ticker ad i)),
     ad_fetch_candles = (\<lambda>i tf n. hub_lift (ad_fetch_candles ad i tf n)),
     ad_modify_tpsl = (\<lambda>i p a b t. hub_lift (ad_modify_tpsl ad i p a b t)),
     ad_get_tpsl = (\<lambda>i p. hub_lift (ad_get_tpsl ad i p)),
     ad_clear_tpsl = (\<lambda>i p a b. hub_lift (ad_clear_tpsl ad i p a b)),
     ad_place_trailing = (\<lambda>q. hub_lift (ad_place_trailing ad q)),
     ad_cancel_trailing = (\<lambda>n i. hub_lift (ad_cancel_trailing ad n i)),
     ad_get_trailing = (\<lambda>n i. hub_lift (ad_get_trailing ad n i)),
     ad_get_position_trailing = (\<lambda>i p. hub_lift (ad_get_position_trailing ad i p)),
     ad_fetch_positions = hub_lift (ad_fetch_positions ad),
     ad_fetch_balances = hub_lift (ad_fetch_balances ad),
     ad_fetch_open_orders = hub_lift (ad_fetch_open_orders ad),
     ad_fetch_fills = (\<lambda>t. hub_lift (ad_fetch_fills ad t)),
     ad_reconcile_intent = hub_lift (ad_reconcile_intent ad)\<rparr>"

subsection \<open>Environment and state\<close>

text \<open>
  The reference-price callback belongs to the caller and may raise. Settle lag and instants are in
  microseconds. \<open>ee_detail\<close> is the text of a mismatch, whose formatting is not modelled.
\<close>

record 'v eenv =
  ee_adapter :: "'v adapter"
  ee_risk :: risk_config
  ee_trailing :: trailing_config
  ee_reference :: "(instrument \<Rightarrow> ('v, decimal option) eff) option"
  ee_settle_lag :: int
  ee_reconcile_loop :: bool
  ee_clock :: "'v \<Rightarrow> instant \<times> 'v"
  ee_monotonic :: "'v \<Rightarrow> rat \<times> 'v"
  ee_new_id :: "'v \<Rightarrow> string \<times> 'v"
  ee_detail :: "mismatch \<Rightarrow> string"

record 'v engine =
  en_core :: "'v hub tworld"
  en_shutdown :: bool
  en_known :: "string set"
  en_last_connected :: "bool option"
  en_reconnecting :: bool
  en_manager :: bool
  en_ready :: bool
  en_worker :: bool
  en_loops :: "bool \<times> bool"
  en_seen :: nat

type_synonym ('v, 'a) eop = "('v engine, 'a) eff"

definition core :: "('v hub tworld, 'a) eff \<Rightarrow> ('v, 'a) eop" where
  "core f = (\<lambda>s. case f (en_core s) of (r, c) \<Rightarrow> (r, s\<lparr>en_core := c\<rparr>))"

definition at_store :: "(store, 'a) eff \<Rightarrow> ('v, 'a) eop" where
  "at_store f = core (in_store f)"

definition at_venue :: "('v, 'a) eff \<Rightarrow> ('v, 'a) eop" where
  "at_venue f = core (venue (hub_lift f))"

definition at_outside :: "('v \<Rightarrow> 'a \<times> 'v) \<Rightarrow> ('v, 'a) eop" where
  "at_outside f = core (outside (hub_outside f))"

definition hub_of :: "'v engine \<Rightarrow> 'v hub" where
  "hub_of s = tw_venue (en_core s)"

definition set_hub :: "'v hub \<Rightarrow> 'v engine \<Rightarrow> 'v engine" where
  "set_hub h s = s\<lparr>en_core := (en_core s)\<lparr>tw_venue := h\<rparr>\<rparr>"

definition get_hub :: "('v hub \<Rightarrow> 'a) \<Rightarrow> ('v, 'a) eop" where
  "get_hub f = eget (\<lambda>s. f (hub_of s))"

definition upd_hub :: "('v hub \<Rightarrow> 'v hub) \<Rightarrow> ('v, unit) eop" where
  "upd_hub f = eupd (\<lambda>s. set_hub (f (hub_of s)) s)"

definition now_utc :: "'v eenv \<Rightarrow> ('v, instant) eop" where
  "now_utc env = at_outside (ee_clock env)"

definition fresh_id :: "'v eenv \<Rightarrow> ('v, string) eop" where
  "fresh_id env = at_outside (ee_new_id env)"

definition connected :: "'v eenv \<Rightarrow> ('v, bool) eop" where
  "connected env = get_hub (\<lambda>h. ad_is_connected (ee_adapter env) (hb_venue h))"

definition publish_at ::
    "'v eenv \<Rightarrow> instant \<Rightarrow> string option \<Rightarrow> event_body \<Rightarrow> ('v, unit) eop" where
  "publish_at env now corr body =
     ebind (fresh_id env) (\<lambda>i.
     core (eupd (\<lambda>w. w\<lparr>tw_events := tw_events w @
       [\<lparr>ev_id = i, ev_time = now, ev_adapter = ad_platform (ee_adapter env),
         ev_account = ad_account (ee_adapter env), ev_correlation = corr, ev_body = body\<rparr>]\<rparr>)))"

subsection \<open>The rate-limit budget\<close>

definition schedule :: "task \<Rightarrow> 'v hub \<Rightarrow> 'v hub" where
  "schedule t h = h\<lparr>hb_tasks := hb_tasks h @ [t]\<rparr>"

definition schedule_refresh :: "'v hub \<Rightarrow> 'v hub" where
  "schedule_refresh h =
     (if hb_pending h then h else schedule T_refresh_limits (h\<lparr>hb_pending := True\<rparr>))"

definition effective_budget :: "'v eenv \<Rightarrow> 'v hub \<Rightarrow> int" where
  "effective_budget env h =
     (case rc_budget_override (ee_risk env) of Some b \<Rightarrow> b | None \<Rightarrow> hb_budget h)"

definition reserve_rate_limit :: "'v eenv \<Rightarrow> 'v hub \<Rightarrow> bool \<times> 'v hub" where
  "reserve_rate_limit env h =
     (if rc_budget_override (ee_risk env) \<noteq> None then (0 < effective_budget env h, h)
      else case hb_reset_at h of
        None \<Rightarrow> (False, schedule_refresh h)
      | Some reset \<Rightarrow>
          (case hub_outside (ee_clock env) h of (now, h1) \<Rightarrow>
           if reset \<le> now then (False, schedule_refresh h1)
           else if effective_budget env h1 \<le> 0 then (False, h1)
           else (True, h1\<lparr>hb_budget := hb_budget h1 - 1\<rparr>)))"

definition refresh_rate_limits :: "'v eenv \<Rightarrow> ('v, unit) eop" where
  "refresh_rate_limits env =
     etry (ebind (at_venue (ad_rate_limits (ee_adapter env))) (\<lambda>rl.
           upd_hub (\<lambda>h. h\<lparr>hb_budget := rl_remaining rl, hb_reset_at := Some (rl_reset_at rl)\<rparr>)))
       (\<lambda>_. eret ())"

definition refresh_rate_limits_if_stale :: "'v eenv \<Rightarrow> ('v, unit) eop" where
  "refresh_rate_limits_if_stale env =
     ebind (get_hub hb_reset_at) (\<lambda>reset.
     case reset of
       None \<Rightarrow> refresh_rate_limits env
     | Some t \<Rightarrow>
         ebind (get_hub hb_budget) (\<lambda>b.
         if 0 < b then eret ()
         else ebind (now_utc env) (\<lambda>now. ewhen (t \<le> now) (refresh_rate_limits env))))"

definition refresh_rate_limits_pending :: "'v eenv \<Rightarrow> ('v, unit) eop" where
  "refresh_rate_limits_pending env =
     ebind (refresh_rate_limits env) (\<lambda>_. upd_hub (\<lambda>h. h\<lparr>hb_pending := False\<rparr>))"

definition eng_env :: "'v eenv \<Rightarrow> 'v hub tenv" where
  "eng_env env = \<lparr>te_adapter = lift_adapter (ee_adapter env), te_config = ee_trailing env,
     te_clock = hub_outside (ee_clock env), te_new_id = hub_outside (ee_new_id env),
     te_reserve = reserve_rate_limit env\<rparr>"

subsection \<open>Subscriptions\<close>

text \<open>
  The constructor subscribes seven callbacks. Each is synchronous, reads flags no operation of the
  trailing manager changes, and only enters the account halt or schedules tasks; so the events a
  manager call has published may be delivered when the call returns, in their order.
\<close>

datatype callback = CB_fill | CB_order_status | CB_position | CB_balance | CB_connection | CB_account | CB_trailing

definition engine_bus :: "callback bus" where
  "engine_bus =
     subscribe ET_TrailingState CB_trailing (subscribe ET_AccountChanged CB_account
     (subscribe ET_ConnectionState CB_connection (subscribe ET_BalanceUpdate CB_balance
     (subscribe ET_PositionUpdate CB_position (subscribe ET_OrderStatus CB_order_status
     (subscribe ET_Fill CB_fill []))))))"

definition schedule_task :: "task \<Rightarrow> 'v engine \<Rightarrow> 'v engine" where
  "schedule_task t s = set_hub (schedule t (hub_of s)) s"

definition on_position_event :: "position \<Rightarrow> 'v engine \<Rightarrow> 'v engine" where
  "on_position_event p s =
     (let s1 = schedule_task (T_persist_position p) s
      in if en_ready s \<and> en_manager s then schedule_task (T_forward_position p) s1 else s1)"

definition on_connection_state :: "bool \<Rightarrow> 'v engine \<Rightarrow> 'v engine" where
  "on_connection_state up s =
     (if en_shutdown s then s
      else let s1 = (if up \<and> en_last_connected s = Some False \<and> \<not> en_reconnecting s
                     then (schedule_task T_reconnect s)\<lparr>en_reconnecting := True\<rparr> else s)
           in s1\<lparr>en_last_connected := Some up\<rparr>)"

definition on_account_changed :: "instant \<Rightarrow> string \<Rightarrow> 'v engine \<Rightarrow> 'v engine" where
  "on_account_changed t detail s =
     schedule_task (T_account_change t detail)
       (s\<lparr>en_core := (en_core s)\<lparr>tw_halts :=
          (case enter_halt SC_ACCOUNT None ''account_changed'' detail (tw_halts (en_core s)) of
             Inl _ \<Rightarrow> tw_halts (en_core s) | Inr (_, m) \<Rightarrow> m)\<rparr>\<rparr>)"

definition on_trailing_state :: "trailing_note \<Rightarrow> 'v engine \<Rightarrow> 'v engine" where
  "on_trailing_state n s =
     (if en_shutdown s \<or> \<not> en_ready s \<or> \<not> en_manager s then s
      else if tn_mode n \<noteq> TM_SYNTHETIC then s
      else if tn_phase n = tn_previous n then s
      else schedule_task T_sync_worker s)"

fun run_callback :: "callback \<Rightarrow> event \<Rightarrow> 'v engine \<Rightarrow> 'v engine" where
  "run_callback CB_fill e s = (case ev_body e of FillEvent f \<Rightarrow> schedule_task (T_persist_fill f) s | _ \<Rightarrow> s)"
| "run_callback CB_order_status e s =
     (case ev_body e of OrderStatusEvent r \<Rightarrow> schedule_task (T_persist_order r) s | _ \<Rightarrow> s)"
| "run_callback CB_position e s = (case ev_body e of PositionUpdateEvent p \<Rightarrow> on_position_event p s | _ \<Rightarrow> s)"
| "run_callback CB_balance e s =
     (case ev_body e of BalanceUpdateEvent b \<Rightarrow> schedule_task (T_persist_balance b) s | _ \<Rightarrow> s)"
| "run_callback CB_connection e s = (case ev_body e of ConnectionStateEvent up \<Rightarrow> on_connection_state up s | _ \<Rightarrow> s)"
| "run_callback CB_account e s =
     (case ev_body e of AccountChangedEvent d _ \<Rightarrow> on_account_changed (ev_time e) d s | _ \<Rightarrow> s)"
| "run_callback CB_trailing e s = (case ev_body e of TrailingStateEvent n \<Rightarrow> on_trailing_state n s | _ \<Rightarrow> s)"

definition deliver_event :: "event \<Rightarrow> 'v engine \<Rightarrow> 'v engine" where
  "deliver_event e s = fold (\<lambda>c. run_callback c e) (matching engine_bus e) s"

definition deliver :: "'v engine \<Rightarrow> 'v engine" where
  "deliver s =
     (let s1 = fold deliver_event (drop (en_seen s) (tw_events (en_core s))) s
      in s1\<lparr>en_seen := length (tw_events (en_core s))\<rparr>)"

text \<open>A call of the trailing manager, with the delivery of what it published.\<close>

definition managed :: "('v hub tworld, 'a) eff \<Rightarrow> ('v, 'a) eop" where
  "managed f = (\<lambda>s. case core f s of (r, s1) \<Rightarrow> (r, deliver s1))"

text \<open>An adapter publishes an event.\<close>

definition adapter_publishes :: "event \<Rightarrow> 'v engine \<Rightarrow> 'v engine" where
  "adapter_publishes e s =
     deliver (s\<lparr>en_core := (en_core s)\<lparr>tw_events := tw_events (en_core s) @ [e]\<rparr>\<rparr>)"

subsection \<open>Orders\<close>

definition check_not_shutdown :: "('v, unit) eop" where
  "check_not_shutdown =
     ebind (eget en_shutdown) (\<lambda>b. eguard b EngineShutdownError ''Engine has been shut down'')"

definition resolve_reference_price :: "'v eenv \<Rightarrow> instrument \<Rightarrow> ('v, decimal option) eop" where
  "resolve_reference_price env i =
     (case ee_reference env of None \<Rightarrow> eret None | Some f \<Rightarrow> at_venue (f i))"

text \<open>Each position of the filled instrument is written; one that cannot be is logged.\<close>

definition seed_position_after_fill :: "'v eenv \<Rightarrow> instrument \<Rightarrow> ('v, unit) eop" where
  "seed_position_after_fill env i =
     ebind (eattempt (at_venue (ad_fetch_positions (ee_adapter env)))) (\<lambda>r.
     case r of
       Inl _ \<Rightarrow> eret ()
     | Inr ps \<Rightarrow>
         efor ps (\<lambda>p. ewhen (same_instrument (po_instrument p) i)
           (etry (at_store (upsert_position p)) (\<lambda>_. eret ()))))"

definition spend_one :: "('v, unit) eop" where
  "spend_one = upd_hub (\<lambda>h. h\<lparr>hb_budget := hb_budget h - 1\<rparr>)"

definition know :: "string \<Rightarrow> ('v, unit) eop" where
  "know cid = eupd (\<lambda>s. s\<lparr>en_known := insert cid (en_known s)\<rparr>)"

definition lookup_id :: "string option \<Rightarrow> string option \<Rightarrow> string option" where
  \<comment> \<open>\<^verbatim>\<open>order.client_order_id or client_order_id\<close>: an empty id is falsy\<close>
  "lookup_id after before = (case after of None \<Rightarrow> before | Some i \<Rightarrow> if i = [] then before else Some i)"

definition resolve_timeout ::
    "'v eenv \<Rightarrow> string option \<Rightarrow> exn \<Rightarrow> ('v, order_result) eop" where
  "resolve_timeout env cid e =
     (case cid of
        None \<Rightarrow> elift (Inl e)
      | Some c \<Rightarrow>
          ebind (at_venue (ad_get_order (ee_adapter env) c)) (\<lambda>found.
          case found of
            None \<Rightarrow> elift (Inl e)
          | Some r \<Rightarrow> ebind (know (re_client_id r)) (\<lambda>_. eret r)))"

definition place_order :: "'v eenv \<Rightarrow> unified_order \<Rightarrow> ('v, order_result) eop" where
  "place_order env ord =
     ebind check_not_shutdown (\<lambda>_.
     ebind (at_venue (ad_fetch_spec (ee_adapter env) (uo_instrument ord))) (\<lambda>spec.
     ebind (resolve_reference_price env (uo_instrument ord)) (\<lambda>reference.
     ebind (refresh_rate_limits_if_stale env) (\<lambda>_.
     ebind (eget en_known) (\<lambda>known.
     ebind (get_hub (effective_budget env)) (\<lambda>budget.
     ebind (core (dispatch_place_order (eng_env env) (ee_risk env) spec reference known budget ord)) (\<lambda>(ord', res).
     case res of
       Inl e \<Rightarrow>
         if exn_is (exn_cls e) PyTimeoutError
         then resolve_timeout env (lookup_id (uo_client_id ord') (uo_client_id ord)) e
         else elift (Inl e)
     | Inr r \<Rightarrow>
         ebind (know (re_client_id r)) (\<lambda>_.
         ebind spend_one (\<lambda>_.
         ebind (ewhen (0 < re_filled r) (seed_position_after_fill env (uo_instrument ord))) (\<lambda>_.
         eret r))))))))))"

definition modify_order :: "'v eenv \<Rightarrow> order_modification \<Rightarrow> ('v, order_result) eop" where
  "modify_order env m =
     ebind check_not_shutdown (\<lambda>_.
     ebind (core (existing_order (mo_client_id m))) (\<lambda>ex.
     ebind (resolve_reference_price env (or_instrument ex)) (\<lambda>reference.
     ebind (refresh_rate_limits_if_stale env) (\<lambda>_.
     ebind (eget (\<lambda>s. en_known s - {mo_client_id m})) (\<lambda>known.
     ebind (get_hub (effective_budget env)) (\<lambda>budget.
     ebind (core (dispatch_modify_order (eng_env env) (ee_risk env)
              (\<lambda>i. venue (hub_lift (ad_fetch_spec (ee_adapter env) i))) reference known budget m)) (\<lambda>r.
     ebind spend_one (\<lambda>_.
     eret r))))))))"

definition cancel_order :: "'v eenv \<Rightarrow> string \<Rightarrow> ('v, order_result) eop" where
  "cancel_order env cid =
     ebind check_not_shutdown (\<lambda>_. core (dispatch_cancel_order (eng_env env) cid))"

definition engine_get_order :: "'v eenv \<Rightarrow> string \<Rightarrow> ('v, order_result option) eop" where
  "engine_get_order env cid =
     ebind check_not_shutdown (\<lambda>_. at_venue (ad_get_order (ee_adapter env) cid))"

definition engine_fetch_spec :: "'v eenv \<Rightarrow> instrument \<Rightarrow> ('v, instrument_spec) eop" where
  "engine_fetch_spec env i =
     ebind check_not_shutdown (\<lambda>_. at_venue (ad_fetch_spec (ee_adapter env) i))"

end
