(* ===== verification/UTE_Engine_Reconcile.thy ===== *)
theory UTE_Engine_Reconcile
  imports UTE_Engine UTE_Trailing_Halted
begin

text \<open>
  The reconciliation pass of the engine, \<^verbatim>\<open>Engine.reconcile\<close> and its helpers in
  \<^verbatim>\<open>core/engine.py\<close>: gathering both snapshots, applying the resolution of every mismatch, moving
  the watermark, and entering, clearing and persisting halts.
\<close>

subsection \<open>Snapshots\<close>

record reconcile_context =
  cx_window_start :: instant
  cx_compare_end :: instant
  cx_local_positions :: "position list"
  cx_local_balances :: "(string, balance) dict"
  cx_local_orders :: "(string, order_record) dict"
  cx_local_fills :: "(string, fill_record list) dict"
  cx_positions :: "position list option"
  cx_balances :: "(string, balance) dict option"
  cx_orders :: "(string, order_record) dict option"
  cx_fills :: "(string, fill_record list) dict option"

definition gather_local_positions :: "('v, position list) eop" where
  "gather_local_positions = at_store (query_positions None 100000)"

text \<open>The newest row of a currency counts.\<close>

definition first_by_currency :: "balance list \<Rightarrow> (string, balance) dict" where
  "first_by_currency bs =
     foldl (\<lambda>d b. if dict_has d (ba_currency b) then d else dict_set (ba_currency b) b d) [] bs"

definition gather_local_balances :: "('v, (string, balance) dict) eop" where
  "gather_local_balances =
     ebind (at_store (query_balances None None None 100000)) (\<lambda>bs. eret (first_by_currency bs))"

definition orders_by_id :: "order_record list \<Rightarrow> (string, order_record) dict" where
  "orders_by_id rs = foldl (\<lambda>d r. dict_set (or_client_id r) r d) [] rs"

definition fills_by_id :: "fill_record list \<Rightarrow> (string, fill_record list) dict" where
  "fills_by_id fs =
     foldl (\<lambda>d f. dict_set (fl_client_id f)
       ((case dict_get d (fl_client_id f) of None \<Rightarrow> [] | Some gs \<Rightarrow> gs) @ [f]) d) [] fs"

definition settled_fills ::
    "instant \<Rightarrow> (string, fill_record list) dict \<Rightarrow> (string, fill_record list) dict" where
  "settled_fills fin d =
     filter (\<lambda>(_, fs). fs \<noteq> []) (map (\<lambda>(c, fs). (c, filter (\<lambda>f. fl_timestamp f \<le> fin) fs)) d)"

text \<open>
  A dataset the adapter does not implement is \<open>None\<close>; any other failure aborts the pass.
\<close>

definition fetch_tri :: "('v, 'a) eff \<Rightarrow> string \<Rightarrow> ('v, 'a option) eop" where
  "fetch_tri f what =
     ebind (eattempt (at_venue f)) (\<lambda>r.
     case r of
       Inr a \<Rightarrow> eret (Some a)
     | Inl e \<Rightarrow>
         if exn_is (exn_cls e) PyNotImplementedError then eret None
         else eraise ReconciliationError (''Failed to fetch platform '' @ what @ '': '' @ exn_msg e))"

definition gather_local :: "instant \<Rightarrow> instant \<Rightarrow> ('v, reconcile_context) eop" where
  "gather_local start fin =
     ebind gather_local_positions (\<lambda>ps.
     ebind gather_local_balances (\<lambda>bs.
     ebind (at_store (query_open_orders 100000)) (\<lambda>os.
     ebind (at_store (query_fills None None (Some start) (Some fin) 100000)) (\<lambda>fs.
     eret \<lparr>cx_window_start = start, cx_compare_end = fin, cx_local_positions = ps,
           cx_local_balances = bs, cx_local_orders = orders_by_id os, cx_local_fills = fills_by_id fs,
           cx_positions = None, cx_balances = None, cx_orders = None, cx_fills = None\<rparr>))))"

definition gather_platform :: "'v eenv \<Rightarrow> reconcile_context \<Rightarrow> ('v, reconcile_context) eop" where
  "gather_platform env cx =
     (let ad = ee_adapter env in
      ebind (fetch_tri (ad_fetch_positions ad) ''positions'') (\<lambda>ps.
      ebind (fetch_tri (ad_fetch_balances ad) ''balances'') (\<lambda>bs.
      ebind (fetch_tri (ad_fetch_open_orders ad) ''open orders'') (\<lambda>os.
      ebind (fetch_tri (ad_fetch_fills ad (Some (cx_window_start cx))) ''fills'') (\<lambda>fs.
      eret (cx\<lparr>cx_positions := ps, cx_balances := bs, cx_orders := os,
               cx_fills := map_option (settled_fills (cx_compare_end cx)) fs\<rparr>))))))"

definition compare_snapshots :: "reconcile_context \<Rightarrow> reconciliation_result" where
  "compare_snapshots cx =
     reconcile (cx_local_positions cx) (cx_positions cx) (cx_local_balances cx) (cx_balances cx)
       (cx_local_orders cx) (cx_orders cx) (cx_local_fills cx) (cx_fills cx)"

subsection \<open>Fills and the trailing manager\<close>

definition classify_trailing_fill :: "fill_record \<Rightarrow> ('v, fill_record) eop" where
  "classify_trailing_fill f =
     ebind (eget (\<lambda>s. en_manager s \<and> en_ready s)) (\<lambda>go.
     if \<not> go then eret f else etry (managed (classify_fill f)) (\<lambda>_. eret f))"

definition stamp_fill_correlation :: "fill_record \<Rightarrow> ('v, fill_record) eop" where
  "stamp_fill_correlation f =
     (if fl_client_id f = [] then classify_trailing_fill f
      else
        ebind (eattempt (at_store (get_order (fl_client_id f)))) (\<lambda>r.
        classify_trailing_fill
          (case r of
             Inr (Some ord) \<Rightarrow> f\<lparr>fl_correlation_id := or_correlation_id ord\<rparr>
           | _ \<Rightarrow> f)))"

subsection \<open>Resolution\<close>

definition logged :: "('v, unit) eop \<Rightarrow> ('v, unit) eop" where
  \<comment> \<open>\<^verbatim>\<open>except Exception: logger.exception(...)\<close>\<close>
  "logged m = etry m (\<lambda>_. eret ())"

definition drop_absent :: "position list \<Rightarrow> position \<Rightarrow> ('v, unit) eop" where
  \<comment> \<open>a local leg the platform does not report is closed\<close>
  "drop_absent platform_ps p =
     (case po_id p of
        None \<Rightarrow> eret ()
      | Some pid \<Rightarrow> ewhen (leg_key p \<notin> leg_key ` set platform_ps) (at_store (delete_position (po_instrument p) pid)))"

definition sync_positions :: "position list \<Rightarrow> position list \<Rightarrow> ('v, unit) eop" where
  "sync_positions platform_ps local_ps =
     logged (ebind (efor platform_ps (\<lambda>p. at_store (upsert_position p))) (\<lambda>_.
       efor local_ps (drop_absent platform_ps)))"

definition zero_balance :: "string \<Rightarrow> instant \<Rightarrow> balance" where
  "zero_balance cur now = \<lparr>ba_currency = cur, ba_free = 0, ba_used = 0, ba_total = 0, ba_updated_at = now\<rparr>"

definition sync_balances ::
    "'v eenv \<Rightarrow> (string, balance) dict \<Rightarrow> (string, balance) dict \<Rightarrow> ('v, unit) eop" where
  "sync_balances env platform_bs local_bs =
     logged (ebind (efor (map snd platform_bs) (\<lambda>b. at_store (upsert_balance b))) (\<lambda>_.
       efor (map fst local_bs) (\<lambda>cur.
         ewhen (\<not> dict_has platform_bs cur)
           (ebind (now_utc env) (\<lambda>now. at_store (upsert_balance (zero_balance cur now)))))))"

definition import_orphans :: "order_record list \<Rightarrow> ('v, unit) eop" where
  "import_orphans rs = efor rs (\<lambda>r. logged (at_store (upsert_order r)))"

definition expired_by :: "instant \<Rightarrow> order_record \<Rightarrow> bool" where
  "expired_by now r \<longleftrightarrow> or_tif r = GTD \<and> (case or_expire_at r of None \<Rightarrow> False | Some t \<Rightarrow> t \<le> now)"

definition remove_orphans ::
    "'v eenv \<Rightarrow> (string, order_record) dict \<Rightarrow> string list \<Rightarrow> ('v, unit) eop" where
  "remove_orphans env local_os cids =
     ewhen (cids \<noteq> [])
       (ebind (now_utc env) (\<lambda>now.
        ebind (efor cids (\<lambda>cid.
          case dict_get local_os cid of
            None \<Rightarrow> eret ()
          | Some r \<Rightarrow> ewhen (expired_by now r)
              (logged (at_store (upsert_order (r\<lparr>or_status := EXPIRED, or_updated_at := now\<rparr>)))))) (\<lambda>_.
        logged (at_store (delete_orders_by_client_ids cids)))))"

definition fill_discrepant_ids ::
    "(string, fill_record list) dict \<Rightarrow> (string, fill_record list) dict \<Rightarrow> string list" where
  \<comment> \<open>a set of ids, here in the order of first occurrence\<close>
  "fill_discrepant_ids l p = filter (\<lambda>k. filled_total l k \<noteq> filled_total p k) (keys_union l p)"

definition correct_fills ::
    "reconcile_context \<Rightarrow> (string, fill_record list) dict \<Rightarrow> string \<Rightarrow> ('v, unit) eop" where
  "correct_fills cx platform_fs cid =
     logged (ebind (at_store (delete_fills_by_client_ids [cid] (Some (cx_window_start cx)) (Some (cx_compare_end cx)))) (\<lambda>_.
       efor (case dict_get platform_fs cid of None \<Rightarrow> [] | Some fs \<Rightarrow> fs) (\<lambda>f.
         ebind (stamp_fill_correlation f) (\<lambda>g. at_store (upsert_fill g)))))"

definition apply_reconciliation_result ::
    "'v eenv \<Rightarrow> reconciliation_result \<Rightarrow> reconcile_context \<Rightarrow> ('v, unit) eop" where
  "apply_reconciliation_result env r cx =
     ebind (case cx_positions cx of
              None \<Rightarrow> eret ()
            | Some ps \<Rightarrow> ewhen (rr_positions r \<noteq> []) (sync_positions ps (cx_local_positions cx))) (\<lambda>_.
     ebind (case cx_balances cx of
              None \<Rightarrow> eret ()
            | Some bs \<Rightarrow> ewhen (rr_balances r \<noteq> []) (sync_balances env bs (cx_local_balances cx))) (\<lambda>_.
     ebind (import_orphans (rr_orphans_platform r)) (\<lambda>_.
     ebind (remove_orphans env (cx_local_orders cx) (rr_orphans_local r)) (\<lambda>_.
     case cx_fills cx of
       None \<Rightarrow> eret ()
     | Some fs \<Rightarrow> ewhen (rr_fills r \<noteq> [])
         (efor (fill_discrepant_ids (cx_local_fills cx) fs) (correct_fills cx fs))))))"

subsection \<open>Halts\<close>

definition mismatch_type :: "mismatch_kind \<Rightarrow> string" where
  "mismatch_type k = (case k of MK_position \<Rightarrow> ''position_quantity'' | MK_balance \<Rightarrow> ''balance''
     | MK_orphan_platform \<Rightarrow> ''orphan_on_platform'' | MK_orphan_local \<Rightarrow> ''orphan_in_local''
     | MK_fill \<Rightarrow> ''partial_fill'')"

definition persist_halt :: "halt_scope \<Rightarrow> instrument option \<Rightarrow> string \<Rightarrow> string \<Rightarrow> ('v, unit) eop" where
  "persist_halt sc i reason detail = logged (at_store (upsert_halt sc i reason detail))"

definition persist_halt_clear :: "halt_scope \<Rightarrow> instrument option \<Rightarrow> ('v, unit) eop" where
  "persist_halt_clear sc i = logged (at_store (delete_halt sc i))"

definition write_halt ::
    "'v eenv \<Rightarrow> instant \<Rightarrow> string option \<Rightarrow> halt_action \<Rightarrow> halt_scope \<Rightarrow> instrument option \<Rightarrow> string \<Rightarrow> string
     \<Rightarrow> halt_clear_mode option \<Rightarrow> ('v, unit) eop" where
  "write_halt env now corr act sc i reason detail by_mode =
     ebind (fresh_id env) (\<lambda>eid.
     at_store (write_halt_event
       \<lparr>hv_id = eid, hv_time = now, hv_adapter = ad_platform (ee_adapter env),
        hv_account = ad_account (ee_adapter env), hv_correlation = corr, hv_action = act, hv_scope = sc,
        hv_instrument = i, hv_reason = reason, hv_detail = detail, hv_cleared_by = by_mode\<rparr>))"

definition set_halts :: "halt_machine \<Rightarrow> ('v, unit) eop" where
  "set_halts m = core (eupd (\<lambda>w. w\<lparr>tw_halts := m\<rparr>))"

definition machine :: "'v engine \<Rightarrow> halt_machine" where
  "machine s = tw_halts (en_core s)"

definition try_clear ::
    "halt_scope \<Rightarrow> instrument option \<Rightarrow> bool \<Rightarrow> bool \<Rightarrow> ('v, bool) eop" where
  "try_clear sc i clean manual =
     ebind (eget machine) (\<lambda>m.
     case try_clear_halt sc i clean manual m of (done, m') \<Rightarrow> ebind (set_halts m') (\<lambda>_. eret done))"

definition announce_clear ::
    "'v eenv \<Rightarrow> halt_scope \<Rightarrow> instrument option \<Rightarrow> string \<Rightarrow> instant \<Rightarrow> string \<Rightarrow> halt_clear_mode
     \<Rightarrow> ('v, unit) eop" where
  "announce_clear env sc i corr now reason by_mode =
     ebind (publish_at env now (Some corr) (HaltClearedEvent sc i by_mode)) (\<lambda>_.
     ebind (write_halt env now (Some corr) HA_CLEARED sc i reason [] (Some by_mode)) (\<lambda>_.
     persist_halt_clear sc i))"

definition engine_clear_halt ::
    "'v eenv \<Rightarrow> halt_scope \<Rightarrow> instrument option \<Rightarrow> string \<Rightarrow> instant \<Rightarrow> ('v, bool) eop" where
  "engine_clear_halt env sc i corr now =
     ebind (try_clear sc i True False) (\<lambda>done.
     ebind (ewhen done (announce_clear env sc i corr now ''reconciliation_clean'' AUTOMATIC)) (\<lambda>_.
     eret done))"

definition engine_enter_halt ::
    "'v eenv \<Rightarrow> halt_scope \<Rightarrow> instrument option \<Rightarrow> string \<Rightarrow> string \<Rightarrow> string \<Rightarrow> instant \<Rightarrow> ('v, unit) eop" where
  "engine_enter_halt env sc i reason detail corr now =
     ebind (eget machine) (\<lambda>m.
     ebind (elift (enter_halt sc i reason detail m)) (\<lambda>(entered, m').
     ebind (set_halts m') (\<lambda>_.
     ewhen entered
       (ebind (publish_at env now (Some corr) (HaltEnteredEvent sc i reason detail)) (\<lambda>_.
        ebind (write_halt env now (Some corr) HA_ENTERED sc i reason detail None) (\<lambda>_.
        persist_halt sc i reason detail))))))"

definition mismatched :: "reconciliation_result \<Rightarrow> instrument set" where
  "mismatched r = inst_id ` set (concat (map (opt_list \<circ> mm_instrument) (rr_positions r)))"

definition release_reconciled ::
    "'v eenv \<Rightarrow> reconciliation_result \<Rightarrow> string \<Rightarrow> instant \<Rightarrow> halt_entry \<Rightarrow> ('v, unit) eop" where
  "release_reconciled env r corr now e =
     (case he_instrument e of
        None \<Rightarrow> eret ()
      | Some i \<Rightarrow>
          ewhen (he_scope e = SC_INSTRUMENT \<and> inst_id i \<notin> mismatched r)
            (ebind (engine_clear_halt env (he_scope e) (he_instrument e) corr now) (\<lambda>_. eret ())))"

definition halt_mismatch :: "'v eenv \<Rightarrow> string \<Rightarrow> instant \<Rightarrow> mismatch \<Rightarrow> ('v, unit) eop" where
  "halt_mismatch env corr now mm =
     (case mm_instrument mm of
        None \<Rightarrow> eret ()
      | Some i \<Rightarrow> engine_enter_halt env SC_INSTRUMENT (Some i) (mismatch_type (mm_kind mm)) (ee_detail env mm)
                    corr now)"

definition manage_halt_state ::
    "'v eenv \<Rightarrow> reconciliation_result \<Rightarrow> string \<Rightarrow> instant \<Rightarrow> ('v, unit) eop" where
  "manage_halt_state env r corr now =
     ebind (eget (\<lambda>s. active_halts (machine s))) (\<lambda>active.
     ebind (efor active (release_reconciled env r corr now)) (\<lambda>_.
     ebind (efor (rr_positions r) (halt_mismatch env corr now)) (\<lambda>_.
     ewhen (rr_is_clean r)
       (ebind (eget (\<lambda>s. active_halts (machine s))) (\<lambda>rest.
        efor rest (\<lambda>e.
          ebind (engine_clear_halt env (he_scope e) (he_instrument e) corr now) (\<lambda>_. eret ())))))))"

definition clear_halt :: "'v eenv \<Rightarrow> halt_scope \<Rightarrow> instrument option \<Rightarrow> ('v, bool) eop" where
  "clear_halt env sc i =
     ebind check_not_shutdown (\<lambda>_.
     ebind (try_clear sc i True True) (\<lambda>done.
     ebind (ewhen done
       (ebind (fresh_id env) (\<lambda>corr.
        ebind (now_utc env) (\<lambda>now.
        announce_clear env sc i corr now ''manual_clear'' MANUAL)))) (\<lambda>_.
     eret done)))"

subsection \<open>The pass\<close>

definition sync_trailing_worker :: "'v eenv \<Rightarrow> ('v, unit) eop" where
  "sync_trailing_worker env =
     ebind (eget (\<lambda>s. en_shutdown s \<or> \<not> en_ready s \<or> \<not> en_manager s)) (\<lambda>skip.
     if skip then eret ()
     else
       ebind (eattempt (managed (list_states (eng_env env) None True))) (\<lambda>r.
       case r of
         Inl _ \<Rightarrow> eret ()
       | Inr active \<Rightarrow> eupd (\<lambda>s. s\<lparr>en_worker := list_ex (\<lambda>t. ts_mode t = TM_SYNTHETIC) active\<rparr>)))"

definition rehydrate_trailing :: "'v eenv \<Rightarrow> ('v, unit) eop" where
  "rehydrate_trailing env =
     ebind (eattempt (at_venue (ad_fetch_positions (ee_adapter env)))) (\<lambda>r.
     case r of
       Inl _ \<Rightarrow> eret ()
     | Inr snapshot \<Rightarrow>
         ebind (eattempt (managed (rehydrate (eng_env env) (Some snapshot)))) (\<lambda>r.
         case r of
           Inl _ \<Rightarrow> eret ()
         | Inr _ \<Rightarrow>
             ebind (eupd (\<lambda>s. s\<lparr>en_ready := True\<rparr>)) (\<lambda>_.
             sync_trailing_worker env)))"

definition publish_reconciliation ::
    "'v eenv \<Rightarrow> reconciliation_result \<Rightarrow> rat \<Rightarrow> ('v, string \<times> instant) eop" where
  "publish_reconciliation env r duration =
     ebind (fresh_id env) (\<lambda>corr.
     ebind (now_utc env) (\<lambda>now.
     ebind (publish_at env now (Some corr) (ReconciliationCompleteEvent (all_mismatches r))) (\<lambda>_.
     ebind (fresh_id env) (\<lambda>eid.
     ebind (at_store (write_reconciliation_event
       \<lparr>re_event_id = eid, re_time = now, re_adapter = ad_platform (ee_adapter env),
        re_account = ad_account (ee_adapter env), re_correlation = Some corr,
        re_mismatches = all_mismatches r, re_duration = duration\<rparr>)) (\<lambda>_.
     eret (corr, now))))))"

definition trailing_after_reconcile :: "'v eenv \<Rightarrow> ('v, unit) eop" where
  "trailing_after_reconcile env =
     ebind (eget (\<lambda>s. (en_manager s, en_ready s))) (\<lambda>(manager, ready).
     if \<not> manager then eret ()
     else if \<not> ready then logged (rehydrate_trailing env)
     else logged (managed (integrity_pass (eng_env env))))"

definition reconcile_locked :: "'v eenv \<Rightarrow> ('v, reconciliation_result) eop" where
  "reconcile_locked env =
     ebind (at_outside (ee_monotonic env)) (\<lambda>t0.
     ebind (now_utc env) (\<lambda>now.
     ebind (at_store get_reconcile_watermark) (\<lambda>watermark.
     let start = (case watermark of None \<Rightarrow> now | Some t \<Rightarrow> t); fin = now - ee_settle_lag env in
     ebind (gather_local start fin) (\<lambda>cx0.
     ebind (gather_platform env cx0) (\<lambda>cx.
     let r = compare_snapshots cx in
     ebind (at_outside (ee_monotonic env)) (\<lambda>t1.
     ebind (apply_reconciliation_result env r cx) (\<lambda>_.
     ebind (ewhen (rr_is_clean r) (at_store (set_reconcile_watermark fin))) (\<lambda>_.
     ebind (publish_reconciliation env r ((t1 - t0) * 1000)) (\<lambda>(corr, ts).
     ebind (manage_halt_state env r corr ts) (\<lambda>_.
     ebind (at_venue (ad_reconcile_intent (ee_adapter env))) (\<lambda>_.
     ebind (trailing_after_reconcile env) (\<lambda>_.
     eret r))))))))))))"

definition engine_reconcile :: "'v eenv \<Rightarrow> ('v, reconciliation_result) eop" where
  "engine_reconcile env = ebind check_not_shutdown (\<lambda>_. reconcile_locked env)"

end
