(* ===== verification/UTE_Engine_Life.thy ===== *)
theory UTE_Engine_Life
  imports UTE_Engine_Reconcile
begin

text \<open>
  Connecting, the scheduled tasks, the periodic loops, the accessors and the shutdown of
  \<^verbatim>\<open>core/engine.py\<close>, and the steps an engine takes: the calls of its public interface, the calls on
  its trailing manager, the events its adapter publishes, one turn of a loop, and one scheduled task.
  A store that has been closed is not distinguished from an open one.
\<close>

subsection \<open>Scheduled tasks\<close>

definition persist_fill :: "fill_record \<Rightarrow> ('v, unit) eop" where
  "persist_fill f = logged (ebind (stamp_fill_correlation f) (\<lambda>g. at_store (upsert_fill g)))"

definition persist_order_status :: "order_record \<Rightarrow> ('v, unit) eop" where
  "persist_order_status ord =
     logged (ebind (at_store (get_order (or_client_id ord))) (\<lambda>ex.
       at_store (upsert_order
         (case ex of
            None \<Rightarrow> ord
          | Some e \<Rightarrow> if or_correlation_id e \<noteq> [] then ord\<lparr>or_correlation_id := or_correlation_id e\<rparr> else ord))))"

definition persist_position :: "position \<Rightarrow> ('v, unit) eop" where
  "persist_position p =
     logged (case po_id p of
       Some pid \<Rightarrow> if po_quantity p = 0 then at_store (delete_position (po_instrument p) pid)
                   else at_store (upsert_position p)
     | None \<Rightarrow> at_store (upsert_position p))"

definition forward_trailing_position :: "'v eenv \<Rightarrow> position \<Rightarrow> ('v, unit) eop" where
  "forward_trailing_position env p =
     ebind (eget (\<lambda>s. en_manager s \<and> en_ready s)) (\<lambda>go.
     ewhen go (logged (ebind (managed (on_position_update (eng_env env) p)) (\<lambda>_. eret ()))))"

definition persist_balance :: "balance \<Rightarrow> ('v, unit) eop" where
  "persist_balance b = logged (at_store (upsert_balance b))"

definition persist_account_change :: "'v eenv \<Rightarrow> instant \<Rightarrow> string \<Rightarrow> ('v, unit) eop" where
  "persist_account_change env t detail =
     logged
       (ebind (publish_at env t None (HaltEnteredEvent SC_ACCOUNT None ''account_changed'' detail)) (\<lambda>_.
        ebind (write_halt env t None HA_ENTERED SC_ACCOUNT None ''account_changed'' detail None) (\<lambda>_.
        at_store (upsert_halt SC_ACCOUNT None ''account_changed'' detail))))"

definition reconcile_on_reconnect :: "'v eenv \<Rightarrow> ('v, unit) eop" where
  "reconcile_on_reconnect env =
     ebind (eattempt (engine_reconcile env)) (\<lambda>r.
     case r of
       Inl _ \<Rightarrow> eret ()
     | Inr _ \<Rightarrow>
         ebind (eget (\<lambda>s. en_manager s \<and> \<not> en_ready s)) (\<lambda>retry.
         ewhen retry (logged (rehydrate_trailing env))))"

fun run_task :: "'v eenv \<Rightarrow> task \<Rightarrow> ('v, unit) eop" where
  "run_task env T_refresh_limits = refresh_rate_limits_pending env"
| "run_task env (T_persist_fill f) = persist_fill f"
| "run_task env (T_persist_order r) = persist_order_status r"
| "run_task env (T_persist_position p) = persist_position p"
| "run_task env (T_forward_position p) = forward_trailing_position env p"
| "run_task env (T_persist_balance b) = persist_balance b"
| "run_task env T_sync_worker = sync_trailing_worker env"
| "run_task env (T_account_change t d) = persist_account_change env t d"
| "run_task env T_reconnect =
     ebind (reconcile_on_reconnect env) (\<lambda>_. eupd (\<lambda>s. s\<lparr>en_reconnecting := False\<rparr>))"

text \<open>The loop starts the scheduled coroutines in the order in which they were scheduled.\<close>

definition next_task :: "'v eenv \<Rightarrow> ('v, unit) eop" where
  "next_task env =
     ebind (get_hub hb_tasks) (\<lambda>ts.
     case ts of
       [] \<Rightarrow> eret ()
     | t # rest \<Rightarrow> ebind (upd_hub (\<lambda>h. h\<lparr>hb_tasks := rest\<rparr>)) (\<lambda>_. run_task env t))"

subsection \<open>Connecting\<close>

definition seed_local_mirror :: "'v eenv \<Rightarrow> ('v, unit) eop" where
  "seed_local_mirror env =
     ebind (eattempt (at_venue (ad_fetch_positions (ee_adapter env)))) (\<lambda>ps.
     ebind (case ps of Inl _ \<Rightarrow> eret () | Inr xs \<Rightarrow> efor xs (\<lambda>p. logged (at_store (upsert_position p)))) (\<lambda>_.
     ebind (eattempt (at_venue (ad_fetch_balances (ee_adapter env)))) (\<lambda>bs.
     case bs of Inl _ \<Rightarrow> eret () | Inr d \<Rightarrow> efor (map snd d) (\<lambda>b. logged (at_store (upsert_balance b))))))"

definition seed_known_ids :: "('v, unit) eop" where
  "seed_known_ids =
     logged (ebind (at_store (query_orders None None None 100000)) (\<lambda>rs.
       eupd (\<lambda>s. s\<lparr>en_known := set (map or_client_id rs)\<rparr>)))"

definition restore_one :: "halt_row \<Rightarrow> ('v, unit) eop" where
  "restore_one h =
     logged (ebind (eget machine) (\<lambda>m.
       ebind (elift (restore_halt (hr_scope h) (hr_instrument h) (hr_reason h) (hr_detail h) m)) (\<lambda>(_, m').
       set_halts m')))"

definition restore_halts_from_store :: "('v, unit) eop" where
  "restore_halts_from_store =
     ebind (eattempt (at_store get_active_halts)) (\<lambda>r.
     case r of Inl _ \<Rightarrow> eret () | Inr rows \<Rightarrow> efor rows restore_one)"

definition start_trailing :: "'v eenv \<Rightarrow> ('v, unit) eop" where
  "start_trailing env =
     ebind (eupd (\<lambda>s. s\<lparr>en_manager := True\<rparr>)) (\<lambda>_.
     ebind (managed (list_states (eng_env env) None True)) (\<lambda>active.
     if active = [] then
       ebind (managed (rehydrate (eng_env env) (Some []))) (\<lambda>_.
       ebind (eupd (\<lambda>s. s\<lparr>en_ready := True\<rparr>)) (\<lambda>_.
       sync_trailing_worker env))
     else
       ebind (eattempt (engine_reconcile env)) (\<lambda>r.
       case r of
         Inl _ \<Rightarrow> eret ()
       | Inr _ \<Rightarrow> ebind (eget en_ready) (\<lambda>ready. ewhen (\<not> ready) (rehydrate_trailing env)))))"

definition engine_connect :: "'v eenv \<Rightarrow> ('v, unit) eop" where
  "engine_connect env =
     ebind (at_venue (ad_connect (ee_adapter env))) (\<lambda>_.
     ebind (seed_local_mirror env) (\<lambda>_.
     ebind seed_known_ids (\<lambda>_.
     ebind restore_halts_from_store (\<lambda>_.
     ebind (refresh_rate_limits env) (\<lambda>_.
     ebind (start_trailing env) (\<lambda>_.
     eupd (\<lambda>s. s\<lparr>en_loops := (ee_reconcile_loop env, True)\<rparr>)))))))"

text \<open>One turn of each periodic loop, after its sleep.\<close>

definition reconcile_loop_turn :: "'v eenv \<Rightarrow> ('v, unit) eop" where
  "reconcile_loop_turn env =
     ebind (eget (\<lambda>s. fst (en_loops s) \<and> \<not> en_shutdown s)) (\<lambda>running.
     ewhen running
       (ebind (connected env) (\<lambda>up.
        ewhen up (logged (ebind (engine_reconcile env) (\<lambda>_. eret ()))))))"

definition run_trailing_integrity_once :: "'v eenv \<Rightarrow> ('v, unit) eop" where
  "run_trailing_integrity_once env =
     ebind (eget (\<lambda>s. en_manager s \<and> en_ready s)) (\<lambda>go.
     ewhen go
       (ebind (connected env) (\<lambda>up.
        ewhen up (logged (managed (integrity_pass (eng_env env)))))))"

definition integrity_loop_turn :: "'v eenv \<Rightarrow> ('v, unit) eop" where
  "integrity_loop_turn env =
     ebind (eget (\<lambda>s. snd (en_loops s) \<and> \<not> en_shutdown s)) (\<lambda>running.
     ewhen running (run_trailing_integrity_once env))"

subsection \<open>Disconnecting and shutting down\<close>

definition stop_trailing_worker :: "('v, unit) eop" where
  "stop_trailing_worker = eupd (\<lambda>s. s\<lparr>en_ready := False, en_worker := False\<rparr>)"

definition engine_disconnect :: "'v eenv \<Rightarrow> ('v, unit) eop" where
  "engine_disconnect env = ebind stop_trailing_worker (\<lambda>_. at_venue (ad_disconnect (ee_adapter env)))"

text \<open>
  The reconnect reconciliation and the loops are cancelled; the persistence tasks already scheduled
  are not.
\<close>

definition cancel_loops :: "('v, unit) eop" where
  "cancel_loops =
     ebind (eupd (\<lambda>s. s\<lparr>en_loops := (False, False), en_reconnecting := False\<rparr>)) (\<lambda>_.
     upd_hub (\<lambda>h. h\<lparr>hb_tasks := filter (\<lambda>t. t \<noteq> T_reconnect) (hb_tasks h)\<rparr>))"

definition ashutdown :: "'v eenv \<Rightarrow> ('v, unit) eop" where
  "ashutdown env =
     ebind (eget en_shutdown) (\<lambda>dead.
     if dead then eret ()
     else
       ebind (eupd (\<lambda>s. s\<lparr>en_shutdown := True\<rparr>)) (\<lambda>_.
       ebind (logged stop_trailing_worker) (\<lambda>_.
       ebind (logged (at_venue (ad_disconnect (ee_adapter env)))) (\<lambda>_.
       cancel_loops))))"

subsection \<open>Accessors\<close>

definition engine_positions :: "instrument \<Rightarrow> ('v, position list) eop" where
  "engine_positions i = at_store (get_positions i)"

definition engine_net_position :: "instrument \<Rightarrow> ('v, position option) eop" where
  "engine_net_position i = at_store (get_net_position i)"

definition engine_balance :: "string \<Rightarrow> ('v, balance option) eop" where
  "engine_balance cur = at_store (get_balance cur)"

definition order_history ::
    "instrument option \<Rightarrow> instant option \<Rightarrow> instant option \<Rightarrow> ('v, order_record list) eop" where
  "order_history i start fin = at_store (query_orders i start fin 1000)"

definition fill_history ::
    "instrument option \<Rightarrow> string option \<Rightarrow> instant option \<Rightarrow> instant option \<Rightarrow> ('v, fill_record list) eop" where
  "fill_history i pid start fin = at_store (query_fills i pid start fin 1000)"

definition balance_history ::
    "string option \<Rightarrow> instant option \<Rightarrow> instant option \<Rightarrow> ('v, balance list) eop" where
  "balance_history cur start fin = at_store (query_balances cur start fin 1000)"

definition reconciliation_events ::
    "instant option \<Rightarrow> instant option \<Rightarrow> ('v, reconciliation_event list) eop" where
  "reconciliation_events start fin = at_store (query_reconciliation_events start fin 1000)"

definition halt_events :: "instant option \<Rightarrow> instant option \<Rightarrow> ('v, halt_event list) eop" where
  "halt_events start fin = at_store (query_halt_events start fin 1000)"

definition audit_events :: "instant option \<Rightarrow> instant option \<Rightarrow> ('v, audit_event list) eop" where
  "audit_events start fin = at_store (query_audit_events start fin 1000)"

definition trailing_call :: "'v eenv \<Rightarrow> 'v hub tcall \<Rightarrow> ('v, unit) eop" where
  \<comment> \<open>a call on \<^verbatim>\<open>engine.trailing\<close>, by the user or by the worker\<close>
  "trailing_call env c =
     ebind (eget en_manager) (\<lambda>there.
     ebind (eguard (\<not> there) PlatformConnectionError ''Trailing is not available before connect()'') (\<lambda>_.
     managed (run_call (eng_env env) c)))"

subsection \<open>Construction\<close>

text \<open>
  The configured interval and settle lag are checked; nothing is read from the venue. The capability
  to react to events exists from here on.
\<close>

definition engine_init ::
    "'v \<Rightarrow> store \<Rightarrow> halt_config option \<Rightarrow> rat option \<Rightarrow> rat \<Rightarrow> 'v engine result" where
  "engine_init v st hc interval lag =
     rbind (guard_exn (case interval of None \<Rightarrow> False | Some x \<Rightarrow> x \<le> 0)
              PyValueError ''reconcile_interval_seconds must be > 0 or None'') (\<lambda>_.
     rbind (guard_exn (lag < 0) PyValueError ''fill_settle_lag_seconds must be >= 0'') (\<lambda>_.
     Inr \<lparr>en_core = \<lparr>tw_venue = \<lparr>hb_venue = v, hb_budget = 0, hb_reset_at = None, hb_pending = False,
                                  hb_tasks = []\<rparr>,
            tw_store = st, tw_events = [], tw_halts = halt_init hc, tw_fetch_failures = [],
            tw_atr_failures = [], tw_specs = [], tw_rehydrated = None\<rparr>,
          en_shutdown = False, en_known = {}, en_last_connected = None, en_reconnecting = False,
          en_manager = False, en_ready = False, en_worker = False, en_loops = (False, False),
          en_seen = 0\<rparr>))"

subsection \<open>Steps\<close>

datatype engine_call =
    EC_connect | EC_disconnect | EC_shutdown
  | EC_place unified_order | EC_modify order_modification | EC_cancel string
  | EC_get_order string | EC_fetch_spec instrument
  | EC_reconcile | EC_clear_halt halt_scope "instrument option"
  | EC_task | EC_reconcile_turn | EC_integrity_turn

primrec run_engine_call :: "'v eenv \<Rightarrow> engine_call \<Rightarrow> ('v, unit) eop" where
  "run_engine_call env EC_connect = engine_connect env"
| "run_engine_call env EC_disconnect = engine_disconnect env"
| "run_engine_call env EC_shutdown = ashutdown env"
| "run_engine_call env (EC_place u) = edrop (place_order env u)"
| "run_engine_call env (EC_modify m) = edrop (modify_order env m)"
| "run_engine_call env (EC_cancel c) = edrop (cancel_order env c)"
| "run_engine_call env (EC_get_order c) = edrop (engine_get_order env c)"
| "run_engine_call env (EC_fetch_spec i) = edrop (engine_fetch_spec env i)"
| "run_engine_call env EC_reconcile = edrop (engine_reconcile env)"
| "run_engine_call env (EC_clear_halt sc i) = edrop (clear_halt env sc i)"
| "run_engine_call env EC_task = next_task env"
| "run_engine_call env EC_reconcile_turn = reconcile_loop_turn env"
| "run_engine_call env EC_integrity_turn = integrity_loop_turn env"

text \<open>
  One step of the engine in its surroundings: a call or a loop turn, which may raise; a call on the
  trailing manager; an event published by the adapter; and anything the venue does on its own.
\<close>

inductive engine_step :: "'v eenv \<Rightarrow> 'v engine \<Rightarrow> 'v engine \<Rightarrow> bool" for env where
  called: "engine_step env s (snd (run_engine_call env c s))"
| managed: "within_manager c \<Longrightarrow> engine_step env s (snd (trailing_call env c s))"
| published: "engine_step env s (adapter_publishes e s)"
| elsewhere: "engine_step env s (set_hub ((hub_of s)\<lparr>hb_venue := v\<rparr>) s)"

end
