(* ===== verification/UTE_Paper_Desk.thy ===== *)
theory UTE_Paper_Desk
  imports UTE_Engine_Life
begin

text \<open>
  A small exchange on which the properties of the order pipelines and of the engine are applied at
  concrete inputs: it fills every order at once, lists the positions and balances it is given, and
  counts up its clock and its identifiers. It models no source file.
\<close>

record desk =
  dk_now :: instant
  dk_next :: nat
  dk_placed :: "unified_order list"
  dk_positions :: "position list"
  dk_up :: bool

definition desk_fill :: "unified_order \<Rightarrow> (desk, order_result) eff" where
  "desk_fill u =
     ebind (eupd (\<lambda>d. d\<lparr>dk_placed := dk_placed d @ [u]\<rparr>)) (\<lambda>_.
     eret \<lparr>re_client_id = (case uo_client_id u of None \<Rightarrow> [] | Some c \<Rightarrow> c), re_platform_id = Some ''p1'',
           re_status = FILLED, re_filled = uo_quantity u, re_avg_price = Some 100, re_created_at = 5,
           re_updated_at = 5\<rparr>)"

definition desk_adapter :: "desk adapter" where
  "desk_adapter = \<lparr>ad_platform = ''desk'', ad_account = ''demo'', ad_is_connected = dk_up,
     ad_connect = eupd (\<lambda>d. d\<lparr>dk_up := True\<rparr>), ad_disconnect = eupd (\<lambda>d. d\<lparr>dk_up := False\<rparr>),
     ad_order_types = {MARKET, LIMIT},
     ad_place_order = desk_fill, ad_modify_order = (\<lambda>_. not_implemented),
     ad_cancel_order = (\<lambda>_. not_implemented), ad_get_order = (\<lambda>_. not_implemented),
     ad_fetch_spec = (\<lambda>_. eret paper_spec), ad_protection_cap = (\<lambda>_. default_protection_capability),
     ad_trailing_cap = (\<lambda>_. default_trailing_capability), ad_market_cap = (\<lambda>_. default_market_capability),
     ad_rate_limits = eget (\<lambda>d. \<lparr>rl_requests = 10, rl_interval = 1, rl_remaining = 10, rl_reset_at = dk_now d + 1000\<rparr>),
     ad_fetch_ticker = (\<lambda>_. eret None), ad_fetch_candles = (\<lambda>_ _ _. not_implemented),
     ad_modify_tpsl = (\<lambda>_ _ _ _ _. not_implemented), ad_get_tpsl = (\<lambda>_ _. not_implemented),
     ad_clear_tpsl = (\<lambda>_ _ _ _. not_implemented),
     ad_place_trailing = (\<lambda>_. not_implemented), ad_cancel_trailing = (\<lambda>_ _. not_implemented),
     ad_get_trailing = (\<lambda>_ _. not_implemented), ad_get_position_trailing = (\<lambda>_ _. not_implemented),
     ad_fetch_positions = eget dk_positions, ad_fetch_balances = not_implemented,
     ad_fetch_open_orders = eret [], ad_fetch_fills = (\<lambda>_. eret []), ad_reconcile_intent = eret ()\<rparr>"

definition desk_clock :: "desk \<Rightarrow> instant \<times> desk" where
  "desk_clock d = (dk_now d, d\<lparr>dk_now := dk_now d + 1\<rparr>)"

definition desk_id :: "desk \<Rightarrow> string \<times> desk" where
  "desk_id d = (CHR ''#'' # replicate (dk_next d) (CHR ''i''), d\<lparr>dk_next := dk_next d + 1\<rparr>)"

definition desk_env :: "desk eenv" where
  "desk_env = \<lparr>ee_adapter = desk_adapter, ee_risk = default_risk_config, ee_trailing = default_trailing_config,
     ee_reference = None, ee_settle_lag = 5000000, ee_reconcile_loop = True, ee_clock = desk_clock,
     ee_monotonic = (\<lambda>d. (0, d)), ee_new_id = desk_id, ee_detail = (\<lambda>_. ''differs'')\<rparr>"

definition desk_tenv :: "desk tenv" where
  "desk_tenv = \<lparr>te_adapter = desk_adapter, te_config = default_trailing_config, te_clock = desk_clock,
     te_new_id = desk_id, te_reserve = (\<lambda>d. (True, d))\<rparr>"

definition open_desk :: desk where
  "open_desk = \<lparr>dk_now = 10, dk_next = 0, dk_placed = [],
     dk_positions = [\<lparr>po_instrument = btc_spot, po_quantity = 2, po_entry = 100, po_updated_at = 3,
                      po_id = Some ''p'', po_opened_at = None\<rparr>], dk_up = True\<rparr>"

definition desk_world :: "halt_machine \<Rightarrow> desk tworld" where
  "desk_world h = \<lparr>tw_venue = open_desk, tw_store = empty_store, tw_events = [], tw_halts = h,
     tw_fetch_failures = [], tw_atr_failures = [], tw_specs = [], tw_rehydrated = None\<rparr>"

text \<open>An engine over the desk, with one armed trailing state in its store.\<close>

definition desk_engine :: "halt_machine \<Rightarrow> desk engine" where
  "desk_engine h = \<lparr>en_core = \<lparr>tw_venue = \<lparr>hb_venue = open_desk, hb_budget = 3, hb_reset_at = Some 1000,
        hb_pending = False, hb_tasks = []\<rparr>,
      tw_store = empty_store\<lparr>so_trailing := [row_template]\<rparr>, tw_events = [], tw_halts = h,
      tw_fetch_failures = [], tw_atr_failures = [], tw_specs = [], tw_rehydrated = Some True\<rparr>,
     en_shutdown = False, en_known = {}, en_last_connected = Some True, en_reconnecting = False,
     en_manager = True, en_ready = True, en_worker = False, en_loops = (True, True), en_seen = 0\<rparr>"

definition buy_market :: unified_order where
  "buy_market = \<lparr>uo_instrument = btc_spot, uo_type = MARKET, uo_side = BUY, uo_quantity = 2, uo_tif = GTC,
     uo_client_id = None, uo_price = None, uo_stop_price = None, uo_reduce_only = False,
     uo_client_tag = None, uo_take_profit = None, uo_stop_loss = None, uo_position_id = None,
     uo_expire_at = None\<rparr>"

lemma desk_engine_row:
  "trailing_row ''t'' (tw_store (en_core (desk_engine h))) = Some row_template"
  "wf_trailing_table (tw_store (en_core (desk_engine h)))"
  "machine (desk_engine h) = h"
  by (simp_all add: desk_engine_def machine_def trailing_row_def wf_trailing_table_def empty_store_def row_template_def)

lemma desk_fresh: "\<forall>v. fst (ee_new_id desk_env v) \<noteq> ''t''"
  by (simp add: desk_env_def desk_id_def)

end
