(* ===== verification/UTE_Engine_Safety.thy ===== *)
theory UTE_Engine_Safety
  imports UTE_Paper_Desk
begin

text \<open>
  What every step of the engine keeps: the policy on trailing rows of \<open>UTE_Trailing_Safety\<close> with its
  append-only logs, the well-formedness of the halt machine, and the finality of the shutdown. The
  operations are walked once for all of them.
\<close>

context row_policy
begin

definition engine_kept :: "pinned \<Rightarrow> bool \<Rightarrow> 'v engine \<Rightarrow> bool" where
  "engine_kept pin dead s \<longleftrightarrow> kept pin (en_core s) \<and> pin_halts pin = wf_halts \<and> (dead \<longrightarrow> en_shutdown s)"

subsection \<open>Parts of the state\<close>

lemma kept_hub: "kept pin (w\<lparr>tw_venue := h\<rparr>) = kept pin w"
  by (simp add: kept_def logs_extend_def)

lemma kept_halts: "kept pin w \<Longrightarrow> pin_halts pin m \<Longrightarrow> kept pin (w\<lparr>tw_halts := m\<rparr>)"
  by (simp add: kept_def logs_extend_def)

lemma ek_core: "safe (kept pin) f Q \<Longrightarrow> safe (engine_kept pin dead) (core f) Q"
proof (rule safeI)
  fix s :: "'a engine" and r s'
  assume f: "safe (kept pin) f Q" and k: "engine_kept pin dead s" and run: "core f s = (r, s')"
  from run obtain c where c: "f (en_core s) = (r, c)" and s': "s' = s\<lparr>en_core := c\<rparr>"
    by (auto simp: core_def split: prod.splits)
  have "kept pin (en_core s)" using k by (simp add: engine_kept_def)
  with safeD [OF f this c] safe_valueD [OF f this] c k
  show "engine_kept pin dead s' \<and> (\<forall>a. r = Inr a \<longrightarrow> Q a)" by (auto simp: engine_kept_def s')
qed

lemma ek_hub: "engine_kept pin dead (set_hub h s) = engine_kept pin dead s"
  by (simp add: engine_kept_def set_hub_def kept_hub)

lemma ek_upd_hub: "safe (engine_kept pin dead) (upd_hub f) (\<lambda>_. True)"
  unfolding upd_hub_def by (rule safe_eupd) (simp add: ek_hub)

lemma ek_get_hub: "safe (engine_kept pin dead) (get_hub f) (\<lambda>_. True)"
  unfolding get_hub_def by (rule safe_eget) simp

lemma ek_venue: "safe (engine_kept pin dead) (at_venue f) (\<lambda>_. True)"
  unfolding at_venue_def by (rule ek_core [OF safe_venue])

lemma ek_outside: "safe (engine_kept pin dead) (at_outside f) (\<lambda>_. True)"
  unfolding at_outside_def by (rule ek_core [OF safe_outside])

lemma ek_in_store:
  assumes "\<And>s. so_trailing (snd (f s)) = so_trailing s" and "\<And>s. so_audit (snd (f s)) = so_audit s"
  shows "safe (engine_kept pin dead) (at_store f) (\<lambda>_. True)"
  unfolding at_store_def by (rule ek_core [OF safe_in_store]) (simp_all add: assms)

lemmas engine_store_defs = upsert_position_def delete_position_def upsert_balance_def upsert_order_def
  get_order_def query_orders_def query_open_orders_def query_positions_def query_balances_def
  query_fills_def delete_orders_by_client_ids_def upsert_fill_def delete_fills_by_client_ids_def
  get_reconcile_watermark_def set_reconcile_watermark_def write_reconciliation_event_def
  write_halt_event_def get_active_halts_def upsert_halt_def delete_halt_def

lemma ek_store:
  "safe (engine_kept pin dead) (at_store (upsert_position p)) (\<lambda>_. True)"
  "safe (engine_kept pin dead) (at_store (delete_position i x)) (\<lambda>_. True)"
  "safe (engine_kept pin dead) (at_store (upsert_balance b)) (\<lambda>_. True)"
  "safe (engine_kept pin dead) (at_store (upsert_order r)) (\<lambda>_. True)"
  "safe (engine_kept pin dead) (at_store (get_order x)) (\<lambda>_. True)"
  "safe (engine_kept pin dead) (at_store (query_orders oi t0 t1 n)) (\<lambda>_. True)"
  "safe (engine_kept pin dead) (at_store (query_open_orders n)) (\<lambda>_. True)"
  "safe (engine_kept pin dead) (at_store (query_positions oi n)) (\<lambda>_. True)"
  "safe (engine_kept pin dead) (at_store (query_balances ox t0 t1 n)) (\<lambda>_. True)"
  "safe (engine_kept pin dead) (at_store (query_fills oi ox t0 t1 n)) (\<lambda>_. True)"
  "safe (engine_kept pin dead) (at_store (delete_orders_by_client_ids xs)) (\<lambda>_. True)"
  "safe (engine_kept pin dead) (at_store (upsert_fill f)) (\<lambda>_. True)"
  "safe (engine_kept pin dead) (at_store (delete_fills_by_client_ids xs t0 t1)) (\<lambda>_. True)"
  "safe (engine_kept pin dead) (at_store get_reconcile_watermark) (\<lambda>_. True)"
  "safe (engine_kept pin dead) (at_store (set_reconcile_watermark t)) (\<lambda>_. True)"
  "safe (engine_kept pin dead) (at_store (write_reconciliation_event re)) (\<lambda>_. True)"
  "safe (engine_kept pin dead) (at_store (write_halt_event he)) (\<lambda>_. True)"
  "safe (engine_kept pin dead) (at_store get_active_halts) (\<lambda>_. True)"
  "safe (engine_kept pin dead) (at_store (upsert_halt sc oi x y)) (\<lambda>_. True)"
  "safe (engine_kept pin dead) (at_store (delete_halt sc oi)) (\<lambda>_. True)"
  by (rule ek_in_store;
      simp add: engine_store_defs eupd_def eget_def eguard_def guard_exn_def elift_def ebind_def split: option.splits)+

lemma ek_flags:
  "safe (engine_kept pin dead) (eupd (\<lambda>s. s\<lparr>en_known := a s\<rparr>)) (\<lambda>_. True)"
  "safe (engine_kept pin dead) (eupd (\<lambda>s. s\<lparr>en_manager := b\<rparr>)) (\<lambda>_. True)"
  "safe (engine_kept pin dead) (eupd (\<lambda>s. s\<lparr>en_ready := b\<rparr>)) (\<lambda>_. True)"
  "safe (engine_kept pin dead) (eupd (\<lambda>s. s\<lparr>en_worker := b\<rparr>)) (\<lambda>_. True)"
  "safe (engine_kept pin dead) (eupd (\<lambda>s. s\<lparr>en_ready := b, en_worker := c\<rparr>)) (\<lambda>_. True)"
  "safe (engine_kept pin dead) (eupd (\<lambda>s. s\<lparr>en_loops := l\<rparr>)) (\<lambda>_. True)"
  "safe (engine_kept pin dead) (eupd (\<lambda>s. s\<lparr>en_loops := l, en_reconnecting := b\<rparr>)) (\<lambda>_. True)"
  "safe (engine_kept pin dead) (eupd (\<lambda>s. s\<lparr>en_reconnecting := b\<rparr>)) (\<lambda>_. True)"
  "safe (engine_kept pin dead) (eupd (\<lambda>s. s\<lparr>en_shutdown := True\<rparr>)) (\<lambda>_. True)"
  by (rule safe_eupd, simp add: engine_kept_def)+

lemma ek_set_halts: "wf_halts m \<Longrightarrow> safe (engine_kept pin dead) (set_halts m) (\<lambda>_. True)"
  unfolding set_halts_def
  by (auto simp: safe_def engine_kept_def core_def eupd_def kept_halts)

lemma ek_get_machine: "safe (engine_kept pin dead) (eget machine) wf_halts"
  by (rule safe_eget) (auto simp: engine_kept_def kept_def machine_def)

subsection \<open>Delivery\<close>

lemma ek_schedule: "engine_kept pin dead (schedule_task t s) = engine_kept pin dead s"
  by (simp add: schedule_task_def ek_hub)

lemma ek_account:
  assumes "engine_kept pin dead s"
  shows "engine_kept pin dead (on_account_changed t d s)"
proof -
  have wf: "wf_halts (tw_halts (en_core s))" and p: "pin_halts pin = wf_halts"
    using assms by (auto simp: engine_kept_def kept_def)
  then have "pin_halts pin (case enter_halt SC_ACCOUNT None ''account_changed'' d (tw_halts (en_core s)) of
      Inl _ \<Rightarrow> tw_halts (en_core s) | Inr (_, m) \<Rightarrow> m)"
    by (auto dest: enter_halt_wf [OF wf] split: sum.splits)
  with assms show ?thesis
    unfolding on_account_changed_def ek_schedule by (simp add: engine_kept_def kept_halts)
qed

lemma ek_marks:
  "engine_kept pin dead (s\<lparr>en_reconnecting := b\<rparr>) = engine_kept pin dead s"
  "engine_kept pin dead (s\<lparr>en_last_connected := l\<rparr>) = engine_kept pin dead s"
  by (simp_all add: engine_kept_def)

lemma ek_callback: "engine_kept pin dead s \<Longrightarrow> engine_kept pin dead (run_callback c e s)"
  by (cases c; cases "ev_body e")
    (auto simp: ek_schedule ek_account ek_marks on_position_event_def on_trailing_state_def
      on_connection_state_def Let_def)

lemma ek_fold: "(\<And>x s. engine_kept pin dead s \<Longrightarrow> engine_kept pin dead (f x s))
    \<Longrightarrow> engine_kept pin dead s \<Longrightarrow> engine_kept pin dead (fold f xs s)"
  by (induction xs arbitrary: s) simp_all

lemma ek_deliver: "engine_kept pin dead s \<Longrightarrow> engine_kept pin dead (deliver s)"
proof -
  assume "engine_kept pin dead s"
  then have "engine_kept pin dead (fold deliver_event (drop (en_seen s) (tw_events (en_core s))) s)"
    unfolding deliver_event_def by (intro ek_fold ek_callback)
  then show ?thesis by (simp add: deliver_def Let_def engine_kept_def)
qed

lemma ek_managed: "safe (kept pin) f Q \<Longrightarrow> safe (engine_kept pin dead) (managed f) Q"
proof (rule safeI)
  fix s :: "'a engine" and r s'
  assume f: "safe (kept pin) f Q" and k: "engine_kept pin dead s" and run: "managed f s = (r, s')"
  from run obtain s1 where c: "core f s = (r, s1)" and s': "s' = deliver s1"
    by (auto simp: managed_def split: prod.splits)
  from safeD [OF ek_core [OF f] k c] safe_valueD [OF ek_core [OF f] k] c
  show "engine_kept pin dead s' \<and> (\<forall>a. r = Inr a \<longrightarrow> Q a)" by (auto simp: s' intro: ek_deliver)
qed

lemma ek_publishes:
  assumes "engine_kept pin dead s"
  shows "engine_kept pin dead (adapter_publishes e s)"
  unfolding adapter_publishes_def
  by (rule ek_deliver) (use assms in \<open>auto simp: engine_kept_def kept_def logs_extend_def\<close>)

lemma ek_publish_at: "safe (engine_kept pin dead) (publish_at env now c b) (\<lambda>_. True)"
  unfolding publish_at_def fresh_id_def
  by (intro safe_bind_any [OF ek_outside] ek_core) (auto intro: safe_any [OF safe_eupd_world(1)])

subsection \<open>Orders\<close>

lemma kept_order_store:
  "safe (kept pin) (in_store (get_order x)) (\<lambda>_. True)"
  "safe (kept pin) (in_store (upsert_order r)) (\<lambda>_. True)"
  by (rule safe_in_store; simp add: get_order_def upsert_order_def eget_def eupd_def)+

lemma kept_existing: "safe (kept pin) (existing_order x) (\<lambda>_. True)"
  unfolding existing_order_def by (intro safe_notes_walk kept_order_store [THEN safe_bind_any])

lemma kept_write_audit: "safe (kept pin) (write_audit env c k p) (\<lambda>_. True)"
  unfolding write_audit_def by (intro safe_notes_walk safe_new_id [THEN safe_bind_any])

lemma kept_check_halt: "safe (kept pin) (check_halt i b) (\<lambda>_. True)"
  unfolding check_halt_def by (intro safe_walk safe_any [OF safe_eguard])

lemmas kept_order_walk = safe_notes_walk safe_new_id [THEN safe_bind_any] kept_order_store [THEN safe_bind_any]
  kept_existing [THEN safe_bind_any] kept_write_audit [THEN safe_bind_any] kept_check_halt [THEN safe_bind_any]

lemma kept_submit: "safe (kept pin) (submit_order env cfg spec ref known b u) (\<lambda>_. True)"
  unfolding submit_order_def by (intro kept_order_walk)

lemma kept_place: "safe (kept pin) (dispatch_place_order env cfg spec ref known b u) (\<lambda>_. True)"
  unfolding dispatch_place_order_def assign_client_id_def
  by (intro kept_order_walk kept_submit)

lemma kept_modify:
  assumes "\<And>i. safe (kept pin) (get_spec i) (\<lambda>_. True)"
  shows "safe (kept pin) (dispatch_modify_order env cfg get_spec ref known b m) (\<lambda>_. True)"
  unfolding dispatch_modify_order_def
  by (intro kept_order_walk assms [THEN safe_bind_any])

lemma kept_cancel: "safe (kept pin) (dispatch_cancel_order env c) (\<lambda>_. True)"
  unfolding dispatch_cancel_order_def by (intro kept_order_walk)

lemma ek_now: "safe (engine_kept pin dead) (now_utc env) (\<lambda>_. True)"
  and ek_id: "safe (engine_kept pin dead) (fresh_id env) (\<lambda>_. True)"
  and ek_connected: "safe (engine_kept pin dead) (connected env) (\<lambda>_. True)"
  and ek_alive: "safe (engine_kept pin dead) check_not_shutdown (\<lambda>_. True)"
  and ek_spend: "safe (engine_kept pin dead) spend_one (\<lambda>_. True)"
  and ek_know: "safe (engine_kept pin dead) (know c) (\<lambda>_. True)"
  unfolding now_utc_def fresh_id_def connected_def check_not_shutdown_def spend_one_def know_def
  by (intro ek_outside ek_get_hub ek_upd_hub ek_flags safe_bind_eget safe_any [OF safe_eguard])+

lemmas ek_prims = ek_venue ek_outside ek_get_hub ek_upd_hub ek_store ek_flags ek_publish_at ek_now ek_id
  ek_connected ek_alive ek_spend ek_know

lemmas ek_walk = safe_walk ek_prims [THEN safe_bind_any] ek_prims TrueI

lemma ek_refresh: "safe (engine_kept pin dead) (refresh_rate_limits env) (\<lambda>_. True)"
  unfolding refresh_rate_limits_def by (intro safe_etry ek_walk)

lemma ek_refresh_stale: "safe (engine_kept pin dead) (refresh_rate_limits_if_stale env) (\<lambda>_. True)"
  unfolding refresh_rate_limits_if_stale_def by (intro ek_walk ek_refresh)

lemma ek_reference: "safe (engine_kept pin dead) (resolve_reference_price env i) (\<lambda>_. True)"
  unfolding resolve_reference_price_def by (intro ek_walk)

lemma ek_seed: "safe (engine_kept pin dead) (seed_position_after_fill env i) (\<lambda>_. True)"
  unfolding seed_position_after_fill_def by (intro ek_walk safe_efor safe_etry)

lemma ek_timeout: "safe (engine_kept pin dead) (resolve_timeout env c e) (\<lambda>_. True)"
  unfolding resolve_timeout_def by (intro ek_walk safe_any [OF safe_elift])

lemmas ek_order_walk = ek_walk ek_refresh_stale [THEN safe_bind_any] ek_reference [THEN safe_bind_any]
  kept_place [THEN ek_core, THEN safe_bind_any] kept_existing [THEN ek_core, THEN safe_bind_any]

lemma ek_place: "safe (engine_kept pin dead) (place_order env u) (\<lambda>_. True)"
  unfolding place_order_def by (intro ek_order_walk ek_timeout ek_seed)

lemma ek_modify: "safe (engine_kept pin dead) (modify_order env m) (\<lambda>_. True)"
  unfolding modify_order_def
  by (intro ek_order_walk kept_modify [OF safe_venue, THEN ek_core, THEN safe_bind_any])

lemma ek_cancel: "safe (engine_kept pin dead) (cancel_order env c) (\<lambda>_. True)"
  unfolding cancel_order_def by (intro ek_order_walk kept_cancel [THEN ek_core])

subsection \<open>Reconciliation\<close>

lemma ek_logged: "safe (engine_kept pin dead) m (\<lambda>_. True) \<Longrightarrow> safe (engine_kept pin dead) (logged m) (\<lambda>_. True)"
  unfolding logged_def by (intro safe_etry safe_eret TrueI)

lemma ek_gather_local: "safe (engine_kept pin dead) (gather_local a b) (\<lambda>_. True)"
  unfolding gather_local_def gather_local_positions_def gather_local_balances_def by (intro ek_walk)

lemma ek_fetch_tri: "safe (engine_kept pin dead) (fetch_tri f x) (\<lambda>_. True)"
  unfolding fetch_tri_def by (intro ek_walk)

lemma ek_gather_platform: "safe (engine_kept pin dead) (gather_platform env cx) (\<lambda>_. True)"
  unfolding gather_platform_def Let_def by (intro ek_walk ek_fetch_tri [THEN safe_bind_any])

lemma kept_classify: "safe (kept pin) (classify_fill f) (\<lambda>_. True)"
  unfolding classify_fill_def by (intro safe_notes_walk)

lemma ek_classify: "safe (engine_kept pin dead) (classify_trailing_fill f) (\<lambda>_. True)"
  unfolding classify_trailing_fill_def by (intro ek_walk safe_etry ek_managed kept_classify)

lemma ek_stamp: "safe (engine_kept pin dead) (stamp_fill_correlation f) (\<lambda>_. True)"
  unfolding stamp_fill_correlation_def by (intro ek_walk ek_classify)

lemma ek_apply: "safe (engine_kept pin dead) (apply_reconciliation_result env r cx) (\<lambda>_. True)"
  unfolding apply_reconciliation_result_def sync_positions_def drop_absent_def sync_balances_def import_orphans_def
    remove_orphans_def correct_fills_def
  by (intro ek_walk ek_logged safe_efor safe_bind_any [OF ek_stamp]
      safe_bind_any [OF safe_ewhen [OF ek_logged]] safe_bind_any [OF ek_logged])

lemma ek_write_halt: "safe (engine_kept pin dead) (write_halt env now c a sc i x y z) (\<lambda>_. True)"
  unfolding write_halt_def by (intro ek_walk)

lemma ek_try_clear: "safe (engine_kept pin dead) (try_clear sc i a b) (\<lambda>_. True)"
proof -
  have "safe (engine_kept pin dead)
      (case try_clear_halt sc i a b m of (done, m') \<Rightarrow> ebind (set_halts m') (\<lambda>_. eret done)) (\<lambda>_. True)"
    if "wf_halts m" for m
    using try_clear_halt_wf [OF that, of sc i a b]
    by (cases "try_clear_halt sc i a b m") (auto intro!: ek_set_halts [THEN safe_bind_any] safe_eret)
  then show ?thesis unfolding try_clear_def by (rule safe_ebind [OF ek_get_machine])
qed

lemma ek_announce: "safe (engine_kept pin dead) (announce_clear env sc i c now x y) (\<lambda>_. True)"
  unfolding announce_clear_def persist_halt_clear_def
  by (intro ek_walk ek_write_halt [THEN safe_bind_any] ek_logged)

lemma ek_clear: "safe (engine_kept pin dead) (engine_clear_halt env sc i c now) (\<lambda>_. True)"
  unfolding engine_clear_halt_def
  by (intro ek_walk ek_try_clear [THEN safe_bind_any] ek_announce)

lemma ek_enter: "safe (engine_kept pin dead) (engine_enter_halt env sc i x y c now) (\<lambda>_. True)"
  unfolding engine_enter_halt_def persist_halt_def
proof (rule safe_ebind [OF ek_get_machine], rule safe_bind_elift)
  fix m a
  assume "wf_halts m" and e: "enter_halt sc i x y m = Inr a"
  then have "wf_halts (snd a)" using enter_halt_wf [of m sc i x y "fst a" "snd a"] by simp
  then show "safe (engine_kept pin dead) (case a of (entered, m') \<Rightarrow> ebind (set_halts m') (\<lambda>_. ewhen entered
      (ebind (publish_at env now (Some c) (HaltEnteredEvent sc i x y)) (\<lambda>_.
       ebind (write_halt env now (Some c) HA_ENTERED sc i x y None) (\<lambda>_.
       logged (at_store (upsert_halt sc i x y))))))) (\<lambda>_. True)"
    by (cases a) (auto intro!: ek_set_halts [THEN safe_bind_any] ek_walk ek_write_halt [THEN safe_bind_any] ek_logged)
qed

lemma ek_manage: "safe (engine_kept pin dead) (manage_halt_state env r c now) (\<lambda>_. True)"
  unfolding manage_halt_state_def release_reconciled_def halt_mismatch_def
  by (intro ek_walk ek_clear [THEN safe_bind_any] ek_enter safe_efor)

lemma ek_clear_halt: "safe (engine_kept pin dead) (clear_halt env sc i) (\<lambda>_. True)"
  unfolding clear_halt_def by (intro ek_walk ek_try_clear [THEN safe_bind_any] ek_announce)

lemma ek_sync_worker: "safe (engine_kept pin dead) (sync_trailing_worker env) (\<lambda>_. True)"
  unfolding sync_trailing_worker_def by (intro ek_walk safe_list_states [THEN ek_managed])

lemma ek_rehydrate: "safe (engine_kept pin dead) (rehydrate_trailing env) (\<lambda>_. True)"
  unfolding rehydrate_trailing_def
  by (intro ek_walk safe_rehydrate [THEN ek_managed] ek_sync_worker)

lemma ek_publish_rec: "safe (engine_kept pin dead) (publish_reconciliation env r d) (\<lambda>_. True)"
  unfolding publish_reconciliation_def by (intro ek_walk)

lemma ek_trailing_after: "safe (engine_kept pin dead) (trailing_after_reconcile env) (\<lambda>_. True)"
  unfolding trailing_after_reconcile_def
  by (intro ek_walk ek_logged ek_rehydrate safe_integrity_pass [THEN ek_managed])

lemma ek_reconcile_locked: "safe (engine_kept pin dead) (reconcile_locked env) (\<lambda>_. True)"
  unfolding reconcile_locked_def Let_def
  by (intro ek_walk ek_gather_local [THEN safe_bind_any] ek_gather_platform [THEN safe_bind_any]
      ek_apply [THEN safe_bind_any] ek_publish_rec [THEN safe_bind_any] ek_manage [THEN safe_bind_any]
      ek_trailing_after [THEN safe_bind_any])

lemma ek_reconcile: "safe (engine_kept pin dead) (engine_reconcile env) (\<lambda>_. True)"
  unfolding engine_reconcile_def by (intro ek_walk ek_reconcile_locked)

subsection \<open>Tasks, loops and the life of the engine\<close>

lemma ek_drop: "safe (engine_kept pin dead) m (\<lambda>_. True) \<Longrightarrow> safe (engine_kept pin dead) (edrop m) (\<lambda>_. True)"
  unfolding edrop_def by (erule safe_bind_any) (simp add: safe_eret)

lemma ek_reconnect: "safe (engine_kept pin dead) (reconcile_on_reconnect env) (\<lambda>_. True)"
  unfolding reconcile_on_reconnect_def by (intro ek_walk ek_reconcile ek_logged ek_rehydrate)

lemma ek_run_task: "safe (engine_kept pin dead) (run_task env t) (\<lambda>_. True)"
  by (cases t)
    (simp_all add: refresh_rate_limits_pending_def persist_fill_def persist_order_status_def persist_position_def
      forward_trailing_position_def persist_balance_def persist_account_change_def,
     (intro ek_walk ek_refresh [THEN safe_bind_any] ek_logged ek_stamp [THEN safe_bind_any]
      safe_on_position [THEN ek_managed, THEN safe_ebind] ek_sync_worker
      ek_write_halt [THEN safe_bind_any] ek_reconnect [THEN safe_bind_any])+)

lemma ek_next_task: "safe (engine_kept pin dead) (next_task env) (\<lambda>_. True)"
  unfolding next_task_def
  by (rule safe_bind_any [OF ek_get_hub]) (auto intro!: ek_walk ek_run_task split: list.split)

lemma ek_seed_mirror: "safe (engine_kept pin dead) (seed_local_mirror env) (\<lambda>_. True)"
  unfolding seed_local_mirror_def by (intro ek_walk ek_logged safe_efor)

lemma ek_seed_known: "safe (engine_kept pin dead) seed_known_ids (\<lambda>_. True)"
  unfolding seed_known_ids_def by (intro ek_walk ek_logged)

lemma ek_restore_one: "safe (engine_kept pin dead) (restore_one h) (\<lambda>_. True)"
  unfolding restore_one_def
proof (intro ek_logged, rule safe_ebind [OF ek_get_machine], rule safe_bind_elift)
  fix m a
  assume "wf_halts m" and "restore_halt (hr_scope h) (hr_instrument h) (hr_reason h) (hr_detail h) m = Inr a"
  then have "wf_halts (snd a)" by (metis prod.collapse restore_halt_wf)
  then show "safe (engine_kept pin dead) (case a of (_, m') \<Rightarrow> set_halts m') (\<lambda>_. True)"
    by (cases a) (simp add: ek_set_halts)
qed

lemma ek_restore: "safe (engine_kept pin dead) restore_halts_from_store (\<lambda>_. True)"
  unfolding restore_halts_from_store_def by (intro ek_walk safe_efor ek_restore_one)

lemma ek_start: "safe (engine_kept pin dead) (start_trailing env) (\<lambda>_. True)"
  unfolding start_trailing_def
  by (intro ek_walk safe_list_states [THEN ek_managed, THEN safe_bind_any]
      safe_rehydrate [THEN ek_managed, THEN safe_bind_any] ek_sync_worker ek_reconcile ek_rehydrate)

lemma ek_connect: "safe (engine_kept pin dead) (engine_connect env) (\<lambda>_. True)"
  unfolding engine_connect_def
  by (intro ek_walk ek_seed_mirror [THEN safe_bind_any] ek_seed_known [THEN safe_bind_any]
      ek_restore [THEN safe_bind_any] ek_refresh [THEN safe_bind_any] ek_start [THEN safe_bind_any])

lemma ek_stop: "safe (engine_kept pin dead) stop_trailing_worker (\<lambda>_. True)"
  unfolding stop_trailing_worker_def by (rule ek_flags)

lemma ek_disconnect: "safe (engine_kept pin dead) (engine_disconnect env) (\<lambda>_. True)"
  unfolding engine_disconnect_def by (intro ek_walk ek_stop [THEN safe_bind_any])

lemma ek_shutdown: "safe (engine_kept pin dead) (ashutdown env) (\<lambda>_. True)"
  unfolding ashutdown_def cancel_loops_def
  by (intro ek_walk ek_stop ek_logged [THEN safe_bind_any])

lemma ek_turns:
  "safe (engine_kept pin dead) (reconcile_loop_turn env) (\<lambda>_. True)"
  "safe (engine_kept pin dead) (integrity_loop_turn env) (\<lambda>_. True)"
  unfolding reconcile_loop_turn_def integrity_loop_turn_def run_trailing_integrity_once_def
  by (intro ek_walk ek_logged ek_reconcile [THEN safe_bind_any] safe_integrity_pass [THEN ek_managed])+

lemma ek_run_call: "safe (engine_kept pin dead) (run_engine_call env c) (\<lambda>_. True)"
  by (cases c)
    (simp_all add: ek_connect ek_disconnect ek_shutdown ek_drop ek_place ek_modify ek_cancel ek_reconcile
      ek_clear_halt ek_next_task ek_turns,
     (intro ek_drop; simp add: engine_get_order_def engine_fetch_spec_def; intro ek_walk)+)

lemma ek_trailing_call:
  assumes "\<forall>v. fst (ee_new_id env v) \<noteq> pin_id pin" and "within_manager c"
  shows "safe (engine_kept pin dead) (trailing_call env c) (\<lambda>_. True)"
proof -
  have "\<forall>v. fst (te_new_id (eng_env env) v) \<noteq> pin_id pin"
    using assms(1) by (simp add: eng_env_def hub_outside_def split: prod.splits) (metis fst_conv)
  moreover have "halts_as_pinned pin c"
    using assms(2) by (simp add: halts_as_pinned_def within_manager_def split: tcall.splits)
  ultimately show ?thesis
    unfolding trailing_call_def by (intro ek_walk ek_managed safe_run_call)
qed

lemma ek_step:
  assumes "\<forall>v. fst (ee_new_id env v) \<noteq> pin_id pin" and "engine_step env s s'"
  shows "engine_kept pin dead s \<Longrightarrow> engine_kept pin dead s'"
  using assms(2)
proof (cases rule: engine_step.cases)
  case (called c)
  then show "engine_kept pin dead s \<Longrightarrow> engine_kept pin dead s'"
    using safeD [OF ek_run_call _ prod.collapse [symmetric]] by blast
next
  case (managed c)
  then show "engine_kept pin dead s \<Longrightarrow> engine_kept pin dead s'"
    using safeD [OF ek_trailing_call [OF assms(1)] _ prod.collapse [symmetric]] by blast
qed (simp_all add: ek_publishes ek_hub)

lemma ek_steps:
  assumes "\<forall>v. fst (ee_new_id env v) \<noteq> pin_id pin" and "(engine_step env)\<^sup>*\<^sup>* s s'"
  shows "engine_kept pin dead s \<Longrightarrow> engine_kept pin dead s'"
  using assms(2) by (induction rule: rtranclp_induct) (auto dest: ek_step [OF assms(1)])

end

subsection \<open>The theorem\<close>

text \<open>
  C1. The engine's invariants. Whatever the engine, its loops and tasks, the callers of the trailing
  manager, the adapter's events and the venue do, in any order: a persisted trailing state stays
  persisted, moves only along the lifecycle, and is frozen once terminal; the table of states keeps
  its indexes; no event and no audit row is lost; the halt machine stays well-formed, so that its
  listing can be used to clear and to restore it; and an engine that has shut down stays shut down.
\<close>

theorem engine_invariants:
  assumes "(engine_step env)\<^sup>*\<^sup>* s s'"
    and row: "trailing_row tid (tw_store (en_core s)) = Some t"
    and wf: "wf_trailing_table (tw_store (en_core s))" "wf_halts (machine s)"
    and fresh: "\<forall>v. fst (ee_new_id env v) \<noteq> tid"
  shows "(\<exists>u. trailing_row tid (tw_store (en_core s')) = Some u
      \<and> ts_instrument u = ts_instrument t \<and> ts_position_id u = ts_position_id t
      \<and> ts_mode u = ts_mode t \<and> ts_spec u = ts_spec t \<and> ts_side u = ts_side t
      \<and> phase_reach (ts_phase t) (ts_phase u)
      \<and> (ts_phase t \<in> TERMINAL_TRAILING_PHASES \<longrightarrow> u = t))
    \<and> wf_trailing_table (tw_store (en_core s'))
    \<and> extends (tw_events (en_core s)) (tw_events (en_core s'))
    \<and> extends (so_audit (tw_store (en_core s))) (so_audit (tw_store (en_core s')))
    \<and> wf_halts (machine s')
    \<and> (en_shutdown s \<longrightarrow> en_shutdown s')"
proof -
  let ?pin = "\<lparr>pin_id = tid, pin_row = t, pin_events = tw_events (en_core s),
      pin_audit = so_audit (tw_store (en_core s)), pin_halts = wf_halts\<rparr>"
  have "life.engine_kept ?pin (en_shutdown s) s"
    using row wf by (simp add: life.engine_kept_def life.kept_def logs_extend_def machine_def)
  then have "life.engine_kept ?pin (en_shutdown s) s'"
    using life.ek_steps [OF _ assms(1), of ?pin] fresh by simp
  then obtain u where u: "trailing_row tid (tw_store (en_core s')) = Some u" "row_step\<^sup>*\<^sup>* t u"
    and rest: "wf_trailing_table (tw_store (en_core s'))"
      "extends (tw_events (en_core s)) (tw_events (en_core s'))"
      "extends (so_audit (tw_store (en_core s))) (so_audit (tw_store (en_core s')))"
      "wf_halts (machine s')" "en_shutdown s \<longrightarrow> en_shutdown s'"
    by (auto simp: life.engine_kept_def life.kept_def logs_extend_def machine_def)
  have "\<exists>u. trailing_row tid (tw_store (en_core s')) = Some u
      \<and> ts_instrument u = ts_instrument t \<and> ts_position_id u = ts_position_id t
      \<and> ts_mode u = ts_mode t \<and> ts_spec u = ts_spec t \<and> ts_side u = ts_side t
      \<and> phase_reach (ts_phase t) (ts_phase u) \<and> (ts_phase t \<in> TERMINAL_TRAILING_PHASES \<longrightarrow> u = t)"
    by (rule exI [of _ u]) (intro conjI impI u(1) row_steps_terminal [OF u(2)]; simp add: row_steps_facts [OF u(2)])
  with rest show ?thesis by blast
qed

text \<open>The account changes, the scheduled task persists the halt, a ticker arrives, the engine stops.\<close>

theorem engine_invariants_witness:
  "\<exists>s'. (engine_step desk_env)\<^sup>*\<^sup>* (desk_engine (halt_init None)) s' \<and> wf_halts (machine s')
     \<and> (\<exists>u. trailing_row ''t'' (tw_store (en_core s')) = Some u \<and> phase_reach ARMED (ts_phase u))"
proof -
  let ?s0 = "desk_engine (halt_init None)"
  let ?s1 = "adapter_publishes (fill_note\<lparr>ev_body := AccountChangedEvent ''other account'' None\<rparr>) ?s0"
  let ?s2 = "snd (run_engine_call desk_env EC_task ?s1)"
  let ?s3 = "snd (trailing_call desk_env
      (C_ticker ''t'' \<lparr>ti_bid = None, ti_ask = None, ti_last = Some 105, ti_mark = None\<rparr>) ?s2)"
  let ?s4 = "snd (run_engine_call desk_env EC_shutdown ?s3)"
  have "engine_step desk_env ?s0 ?s1" "engine_step desk_env ?s1 ?s2" "engine_step desk_env ?s3 ?s4"
    by (rule engine_step.intros)+
  moreover have "engine_step desk_env ?s2 ?s3" by (rule engine_step.managed) (simp add: within_manager_def)
  ultimately have steps: "(engine_step desk_env)\<^sup>*\<^sup>* ?s0 ?s4"
    by (meson rtranclp.rtrancl_into_rtrancl rtranclp.rtrancl_refl)
  have "phase_reach ARMED (ts_phase u)" if "phase_reach (ts_phase row_template) (ts_phase u)" for u :: trailing_state
    using that by (simp add: row_template_def)
  with engine_invariants [OF steps desk_engine_row(1,2) _ desk_fresh] steps show ?thesis
    by (auto simp: desk_engine_row wf_halts_init)
qed

end
