(* ===== verification/UTE_Placement.thy ===== *)
theory UTE_Placement
  imports UTE_Paper_Desk
begin

text \<open>
  What the order pipelines guarantee: an order reaches the adapter only past the order-type check, the
  risk chain and the halt check, a refused one leaves no trace, and an accepted one is recorded as
  placed; and an order with an expiry cannot be modified.
\<close>

subsection \<open>Runs of the pieces\<close>

lemma outside_run: "outside f w = (Inr (fst (f (tw_venue w))), w\<lparr>tw_venue := snd (f (tw_venue w))\<rparr>)"
  by (simp add: outside_def split: prod.splits)

lemma emit_run:
  "\<exists>v i t. emit env c b w = (Inr (), w\<lparr>tw_venue := v, tw_events := tw_events w @
      [\<lparr>ev_id = i, ev_time = t, ev_adapter = ad_platform (te_adapter env),
        ev_account = ad_account (te_adapter env), ev_correlation = c, ev_body = b\<rparr>]\<rparr>)"
  unfolding emit_def new_id_def clock_def by (simp add: ebind_def outside_run eupd_def) blast

lemma write_audit_run:
  "\<exists>r w'. write_audit env c k p w = (r, w') \<and> tw_events w' = tw_events w \<and> tw_halts w' = tw_halts w
     \<and> so_orders (tw_store w') = so_orders (tw_store w)
     \<and> so_order_history (tw_store w') = so_order_history (tw_store w)
     \<and> (r = Inr () \<or> (\<exists>m. r = raise_exn SqlIntegrityError m))"
  unfolding write_audit_def new_id_def clock_def
  by (simp add: ebind_def outside_run in_store_def write_audit_event_def eget_def eguard_def
      guard_exn_def elift_def eupd_def split: prod.splits)

subsection \<open>The gate\<close>

definition admitted ::
    "'v tenv \<Rightarrow> risk_config \<Rightarrow> instrument_spec \<Rightarrow> decimal option \<Rightarrow> string set \<Rightarrow> int \<Rightarrow> halt_machine
     \<Rightarrow> unified_order \<Rightarrow> bool" where
  "admitted env cfg spec reference known budget h ord \<longleftrightarrow>
     uo_type ord \<in> ad_order_types (te_adapter env)
     \<and> run_risk_checks ord (Some spec) reference known budget (Some cfg) = Inr ()
     \<and> can_place_order h (uo_instrument ord) (uo_reduce_only ord)"

definition recorded :: "'v tworld \<Rightarrow> order_record \<Rightarrow> 'v tworld \<Rightarrow> bool" where
  \<comment> \<open>the record is the stored row of its id, is appended to the history, and is announced once\<close>
  "recorded w rec w' \<longleftrightarrow>
     so_orders (tw_store w') = filter (\<lambda>x. or_client_id x \<noteq> or_client_id rec) (so_orders (tw_store w)) @ [stored_order rec]
     \<and> so_order_history (tw_store w') = so_order_history (tw_store w) @ [stored_order rec]
     \<and> (\<exists>e. tw_events w' = tw_events w @ [e] \<and> ev_body e = OrderPlacedEvent rec
            \<and> ev_correlation e = Some (or_correlation_id rec))"

definition untouched :: "'v tworld \<Rightarrow> 'v tworld \<Rightarrow> bool" where
  "untouched w w' \<longleftrightarrow> tw_store w' = tw_store w \<and> tw_events w' = tw_events w \<and> tw_halts w' = tw_halts w"

lemma record_tail:
  assumes "ebind (in_store (upsert_order rec)) (\<lambda>_.
     ebind (emit env (Some (or_correlation_id rec)) (OrderPlacedEvent rec)) (\<lambda>_.
     ebind (write_audit env c k p) (\<lambda>_. eret r))) w = (out, w')"
  shows "recorded w rec w' \<and> tw_halts w' = tw_halts w \<and> (out = Inr r \<or> fails_with out SqlIntegrityError)"
proof -
  let ?w1 = "w\<lparr>tw_store := snd (upsert_order rec (tw_store w))\<rparr>"
  have s1: "in_store (upsert_order rec) w = (Inr (), ?w1)"
    by (simp add: in_store_def upsert_order_def eupd_def)
  obtain v i t where s2: "emit env (Some (or_correlation_id rec)) (OrderPlacedEvent rec) ?w1 =
      (Inr (), ?w1\<lparr>tw_venue := v, tw_events := tw_events ?w1 @
      [\<lparr>ev_id = i, ev_time = t, ev_adapter = ad_platform (te_adapter env),
        ev_account = ad_account (te_adapter env), ev_correlation = Some (or_correlation_id rec),
        ev_body = OrderPlacedEvent rec\<rparr>]\<rparr>)" (is "_ = (_, ?w2)")
    using emit_run [of env "Some (or_correlation_id rec)" "OrderPlacedEvent rec" ?w1] by blast
  obtain x w3 where s3: "write_audit env c k p ?w2 = (x, w3)" and f: "tw_events w3 = tw_events ?w2"
      "tw_halts w3 = tw_halts ?w2" "so_orders (tw_store w3) = so_orders (tw_store ?w2)"
      "so_order_history (tw_store w3) = so_order_history (tw_store ?w2)"
      "x = Inr () \<or> (\<exists>m. x = raise_exn SqlIntegrityError m)"
    using write_audit_run [of env c k p ?w2] by blast
  from assms have "ebind (write_audit env c k p) (\<lambda>_. eret r) ?w2 = (out, w')"
    by (simp only: eff_run(6) s1 s2)
  with s3 have "w' = w3 \<and> out = (case x of Inl e \<Rightarrow> Inl e | Inr _ \<Rightarrow> Inr r)"
    by (auto simp: ebind_eq eret_def)
  with f show ?thesis
    by (auto simp: recorded_def upsert_order_def eupd_def)
qed

lemma submit_order_cases:
  assumes "submit_order env cfg spec reference known b ord w = (out, w')"
  defines "w1 \<equiv> w\<lparr>tw_venue := snd (te_new_id env (tw_venue w))\<rparr>"
  shows "(\<not> (run_risk_checks ord (Some spec) reference known b (Some cfg) = Inr ()
             \<and> can_place_order (tw_halts w) (uo_instrument ord) (uo_reduce_only ord))
          \<and> w' = w1 \<and> (\<exists>e. out = Inl e))
    \<or> (run_risk_checks ord (Some spec) reference known b (Some cfg) = Inr ()
        \<and> can_place_order (tw_halts w) (uo_instrument ord) (uo_reduce_only ord)
        \<and> (\<exists>res v. ad_place_order (te_adapter env) ord (tw_venue w1) = (res, v) \<and>
            (case rbind res (\<lambda>r. placed_record ord r (fst (te_new_id env (tw_venue w)))) of
               Inl e \<Rightarrow> out = Inl e \<and> w' = w1\<lparr>tw_venue := v\<rparr>
             | Inr rec \<Rightarrow> (\<exists>r. res = Inr r \<and> recorded w rec w' \<and> tw_halts w' = tw_halts w
                 \<and> (out = Inr r \<or> fails_with out SqlIntegrityError)))))"
proof (cases "run_risk_checks ord (Some spec) reference known b (Some cfg)")
  case (Inl e)
  with assms show ?thesis
    by (auto simp: submit_order_def new_id_def ebind_def outside_run elift_def)
next
  case risk: (Inr u)
  show ?thesis
  proof (cases "can_place_order (tw_halts w) (uo_instrument ord) (uo_reduce_only ord)")
    case False
    with risk assms show ?thesis
      by (auto simp: submit_order_def new_id_def ebind_def outside_run elift_def check_halt_def eget_def)
  next
    case True
    obtain res v where p: "ad_place_order (te_adapter env) ord (tw_venue w1) = (res, v)" by force
    let ?corr = "fst (te_new_id env (tw_venue w))"
    have ch: "check_halt (uo_instrument ord) (uo_reduce_only ord) w1 = (Inr (), w1)"
      using True by (simp add: check_halt_def ebind_def eget_def eguard_def guard_exn_def elift_def w1_def)
    have run: "ebind (venue (ad_place_order (te_adapter env) ord)) (\<lambda>r.
        ebind (elift (placed_record ord r ?corr)) (\<lambda>rec.
        ebind (in_store (upsert_order rec)) (\<lambda>_.
        ebind (emit env (Some ?corr) (OrderPlacedEvent rec)) (\<lambda>_.
        ebind (write_audit env ?corr ''order.placed''
          [(''client_order_id'', PV_text (re_client_id r)),
           (''platform_order_id'', pv_text (re_platform_id r)),
           (''status'', PV_text (status_text (re_status r)))]) (\<lambda>_. eret r))))) w1 = (out, w')"
      using assms(1) True risk
      by (simp add: submit_order_def new_id_def eff_run(6) outside_run ch [unfolded w1_def] w1_def)
    show ?thesis
    proof (cases "rbind res (\<lambda>r. placed_record ord r ?corr)")
      case (Inl e)
      with run p True risk show ?thesis
        by (auto simp: rbind_eq_Inl ebind_def venue_def elift_def)
    next
      case (Inr rec)
      then obtain r where r: "res = Inr r" and rec: "placed_record ord r ?corr = Inr rec"
        by (auto simp: rbind_eq_Inr)
      have vr: "venue (ad_place_order (te_adapter env) ord) w1 = (Inr r, w1\<lparr>tw_venue := v\<rparr>)"
        using p r by (simp add: venue_def)
      have c: "or_correlation_id rec = ?corr" using rec by (auto simp: placed_record_def rbind_eq_Inr)
      from run p r rec have "ebind (in_store (upsert_order rec)) (\<lambda>_.
        ebind (emit env (Some (or_correlation_id rec)) (OrderPlacedEvent rec)) (\<lambda>_.
        ebind (write_audit env ?corr ''order.placed''
          [(''client_order_id'', PV_text (re_client_id r)),
           (''platform_order_id'', pv_text (re_platform_id r)),
           (''status'', PV_text (status_text (re_status r)))]) (\<lambda>_. eret r))) (w1\<lparr>tw_venue := v\<rparr>) = (out, w')"
        using vr by (simp add: eff_run(6) c)
      from record_tail [OF this] have "recorded w rec w' \<and> tw_halts w' = tw_halts w
          \<and> (out = Inr r \<or> fails_with out SqlIntegrityError)"
        by (simp add: recorded_def w1_def)
      with p r Inr True risk show ?thesis by auto
    qed
  qed
qed

definition with_id :: "'v tenv \<Rightarrow> unified_order \<Rightarrow> 'v tworld \<Rightarrow> unified_order" where
  "with_id env ord w =
     (if uo_client_id ord = None then ord\<lparr>uo_client_id := Some (fst (te_new_id env (tw_venue w)))\<rparr> else ord)"

lemma dispatch_place_cases:
  assumes "dispatch_place_order env cfg spec reference known b ord w = (out, w')"
  shows "(uo_type ord \<notin> ad_order_types (te_adapter env) \<and> w' = w \<and> (\<exists>e. out = Inr (ord, Inl e)))
    \<or> (uo_type ord \<in> ad_order_types (te_adapter env)
        \<and> (\<exists>r. out = Inr (with_id env ord w, r)
             \<and> submit_order env cfg spec reference known b (with_id env ord w)
                 (if uo_client_id ord = None then w\<lparr>tw_venue := snd (te_new_id env (tw_venue w))\<rparr> else w)
               = (r, w')))"
proof (cases "uo_type ord \<in> ad_order_types (te_adapter env)")
  case False
  with assms show ?thesis
    by (auto simp: dispatch_place_order_def check_order_type_def guard_exn_def eret_def)
next
  case True
  obtain w0 where
    w0: "w0 = (if uo_client_id ord = None then w\<lparr>tw_venue := snd (te_new_id env (tw_venue w))\<rparr> else w)"
    by blast
  have a: "assign_client_id env ord w = (Inr (with_id env ord w), w0)"
    by (auto simp: w0 assign_client_id_def with_id_def new_id_def ebind_def outside_run eret_def)
  obtain r w2 where sub: "submit_order env cfg spec reference known b (with_id env ord w) w0 = (r, w2)" by force
  have "dispatch_place_order env cfg spec reference known b ord w = (Inr (with_id env ord w, r), w2)"
    using True by (simp add: dispatch_place_order_def check_order_type_def guard_exn_def eff_run(6) a)
      (simp add: ebind_def eattempt_def sub eret_def)
  with assms True sub show ?thesis unfolding w0 by auto
qed

text \<open>
  C8. The placement gate. Let \<open>idle\<close> be any condition on the venue that reading the clock and drawing
  identifiers keep. Placing an order never raises out of the pipeline; it returns the order,
  which is the given one except that a missing client id is filled with one drawn for it, and an
  outcome. Either the order was refused: then the venue is still idle, so the adapter
  was not called, and store, events and halts are untouched. Or it passed the order-type check, the
  risk chain and the halt check: then the adapter was called on it from an idle state, and either that
  call or the record of its result failed, with no trace in the store, or exactly that record became
  the stored order of its id, was appended to the history and was announced by one event. The halts do
  not change.
\<close>

theorem placement_gate:
  assumes idle: "\<forall>v. idle v \<longrightarrow> idle (snd (te_new_id env v))" "idle (tw_venue w)"
    and run: "dispatch_place_order env cfg spec reference known b ord w = (out, w')"
  shows "\<exists>u r. out = Inr (u, r)
    \<and> (u = ord \<or> uo_client_id ord = None \<and> u = ord\<lparr>uo_client_id := Some (fst (te_new_id env (tw_venue w)))\<rparr>)
    \<and> (\<not> admitted env cfg spec reference known b (tw_halts w) u
        \<and> idle (tw_venue w') \<and> untouched w w' \<and> (\<exists>e. r = Inl e)
      \<or> admitted env cfg spec reference known b (tw_halts w) u \<and> uo_client_id u \<noteq> None \<and> tw_halts w' = tw_halts w
        \<and> (\<exists>v corr. idle v \<and>
             (case rbind (fst (ad_place_order (te_adapter env) u v)) (\<lambda>res. placed_record u res corr) of
                Inl e \<Rightarrow> r = Inl e \<and> untouched w w' \<and> tw_venue w' = snd (ad_place_order (te_adapter env) u v)
              | Inr rec \<Rightarrow> recorded w rec w'
                  \<and> (r = fst (ad_place_order (te_adapter env) u v) \<or> fails_with r SqlIntegrityError))))"
proof -
  from dispatch_place_cases [OF run] show ?thesis
  proof (elim disjE conjE exE)
    fix e
    assume "uo_type ord \<notin> ad_order_types (te_adapter env)" "w' = w" "out = Inr (ord, Inl e)"
    with idle(2) show ?thesis by (auto simp: admitted_def untouched_def)
  next
    fix r
    let ?u = "with_id env ord w"
    let ?w0 = "if uo_client_id ord = None then w\<lparr>tw_venue := snd (te_new_id env (tw_venue w))\<rparr> else w"
    let ?w1 = "?w0\<lparr>tw_venue := snd (te_new_id env (tw_venue ?w0))\<rparr>"
    assume ty: "uo_type ord \<in> ad_order_types (te_adapter env)" and out: "out = Inr (?u, r)"
      and sub: "submit_order env cfg spec reference known b ?u ?w0 = (r, w')"
    have ty': "uo_type ?u \<in> ad_order_types (te_adapter env)" using ty by (simp add: with_id_def)
    have iw: "idle (tw_venue ?w1)" using idle by simp
    have given: "(?u = ord \<or> uo_client_id ord = None \<and> ?u = ord\<lparr>uo_client_id := Some (fst (te_new_id env (tw_venue w)))\<rparr>)
        \<and> uo_client_id ?u \<noteq> None"
      by (simp add: with_id_def)
    have same: "tw_store ?w1 = tw_store w" "tw_events ?w1 = tw_events w" "tw_halts ?w1 = tw_halts w"
        "tw_halts ?w0 = tw_halts w" "tw_store ?w0 = tw_store w" "tw_events ?w0 = tw_events w" by auto
    have rec0: "recorded ?w0 rec w' = recorded w rec w'" for rec by (simp only: recorded_def same)
    from submit_order_cases [OF sub] show ?thesis
    proof (elim disjE conjE exE)
      assume "\<not> (run_risk_checks ?u (Some spec) reference known b (Some cfg) = Inr ()
             \<and> can_place_order (tw_halts ?w0) (uo_instrument ?u) (uo_reduce_only ?u))"
      then have "\<not> admitted env cfg spec reference known b (tw_halts w) ?u"
        by (simp add: admitted_def same)
      moreover fix e assume "w' = ?w1" "r = Inl e"
      ultimately have "\<not> admitted env cfg spec reference known b (tw_halts w) ?u \<and> idle (tw_venue w')
          \<and> untouched w w' \<and> (\<exists>e. r = Inl e)"
        using iw same by (auto simp: untouched_def)
      with given out show ?thesis by blast
    next
      assume "run_risk_checks ?u (Some spec) reference known b (Some cfg) = Inr ()"
        "can_place_order (tw_halts ?w0) (uo_instrument ?u) (uo_reduce_only ?u)"
      then have adm: "admitted env cfg spec reference known b (tw_halts w) ?u"
        using ty' by (simp add: admitted_def same)
      fix res v
      assume p: "ad_place_order (te_adapter env) ?u (tw_venue ?w1) = (res, v)"
        and k: "case rbind res (\<lambda>r. placed_record ?u r (fst (te_new_id env (tw_venue ?w0)))) of
               Inl e \<Rightarrow> r = Inl e \<and> w' = ?w1\<lparr>tw_venue := v\<rparr>
             | Inr rec \<Rightarrow> (\<exists>r'. res = Inr r' \<and> recorded ?w0 rec w' \<and> tw_halts w' = tw_halts ?w0
                 \<and> (r = Inr r' \<or> fails_with r SqlIntegrityError))"
      have h: "tw_halts w' = tw_halts w" using k same by (auto split: sum.splits)
      have "case rbind (fst (ad_place_order (te_adapter env) ?u (tw_venue ?w1)))
             (\<lambda>res. placed_record ?u res (fst (te_new_id env (tw_venue ?w0)))) of
                Inl e \<Rightarrow> r = Inl e \<and> untouched w w' \<and> tw_venue w' = snd (ad_place_order (te_adapter env) ?u (tw_venue ?w1))
              | Inr rec \<Rightarrow> recorded w rec w'
                  \<and> (r = fst (ad_place_order (te_adapter env) ?u (tw_venue ?w1)) \<or> fails_with r SqlIntegrityError)"
        using k same unfolding p rec0 by (auto simp: untouched_def split: sum.splits)
      with given out adm h iw show ?thesis by blast
    qed
  qed
qed

text \<open>A frozen account: nothing reaches the desk.\<close>

theorem placement_gate_witness:
  "dk_placed (tw_venue (snd (dispatch_place_order desk_tenv default_risk_config paper_spec None {} 3
      buy_market (desk_world frozen)))) = []"
proof -
  obtain out w' where
    run: "dispatch_place_order desk_tenv default_risk_config paper_spec None {} 3 buy_market (desk_world frozen) = (out, w')"
    by force
  have idle: "\<forall>v. dk_placed v = [] \<longrightarrow> dk_placed (snd (te_new_id desk_tenv v)) = []"
    "dk_placed (tw_venue (desk_world frozen)) = []"
    by (simp_all add: desk_tenv_def desk_id_def desk_world_def open_desk_def)
  have "\<not> admitted desk_tenv default_risk_config paper_spec None {} 3 (tw_halts (desk_world frozen)) u"
    for u :: unified_order
    by (simp add: admitted_def desk_world_def frozen_def can_place_order_def is_halted_def)
  with placement_gate [OF idle run] show ?thesis unfolding run by auto
qed

lemma desk_admits:
  "admitted desk_tenv default_risk_config paper_spec None {} 3 (halt_init None) (buy_market\<lparr>uo_client_id := Some ''c''\<rparr>)"
proof -
  have "dmod 2 1 = Inr 0" using dmod_tick_zero [of 2 0] by simp
  then show ?thesis
    by (simp add: admitted_def desk_tenv_def desk_adapter_def buy_market_def run_risk_checks_def
        validate_symbol_validity_def validate_order_size_def qty_tick_value paper_spec_def
        default_risk_config_def notional_checks_def validate_price_sanity_def validate_no_duplicate_def
        validate_rate_limit_def can_place_order_def is_halted_def halt_init_def guard_exn_def)
qed

subsection \<open>Modifying an order with an expiry\<close>

lemma would_be_gtd: "or_tif ex = GTD \<Longrightarrow> unified_order_post_init now (would_be ex m) = Inr u \<Longrightarrow> False"
  by (auto simp: unified_order_post_init_def rbind_eq_Inr would_be_def gtd_check_def)

text \<open>
  The rebuilt order has no expiry, so its constructor refuses it: the adapter is never asked to
  modify a good-till-date order.
\<close>

lemma modify_gtd_fails:
  assumes "List.find (\<lambda>r. or_client_id r = mo_client_id m) (so_orders (tw_store w)) = Some ex" and "or_tif ex = GTD"
  shows "\<exists>e. dispatch_modify_order env cfg get_spec reference known b m w
      = (Inl e, w\<lparr>tw_venue := snd (te_new_id env (tw_venue w))\<rparr>) \<and> exn_cls e = PyValueError"
proof -
  have ex: "existing_order (mo_client_id m) w = (Inr ex, w)"
    by (simp add: existing_order_def in_store_def get_order_def eget_def ebind_def eret_def assms(1))
  obtain e where e: "unified_order_post_init 0 (would_be ex m) = Inl e"
    using would_be_gtd [OF assms(2)] by (cases "unified_order_post_init 0 (would_be ex m)") auto
  then have "exn_cls e = PyValueError"
    by (auto simp: unified_order_post_init_def rbind_eq_Inl guard_exn_Inl gtd_check_def
        split: if_splits option.splits py_datetime.splits)
  then show ?thesis
    unfolding dispatch_modify_order_def
    by (simp add: eff_run(6) ex new_id_def outside_run e) (simp add: elift_def)
qed

end
