(* ===== verification/UTE_Engine_Passes.thy ===== *)
theory UTE_Engine_Passes
  imports UTE_Paper_Desk
begin

text \<open>
  What a reconciliation pass of the engine achieves: a failed fetch aborts it before anything is
  changed, the mirror of the positions becomes the platform's, and the halts in effect afterwards are
  those of the instruments that disagreed; and how far the rate-limit budget can be drawn.
\<close>

subsection \<open>The budget\<close>

text \<open>A run of reservations, as the trailing manager makes them, with the number granted.\<close>

primrec reservations :: "'v eenv \<Rightarrow> nat \<Rightarrow> 'v hub \<Rightarrow> nat \<times> 'v hub" where
  "reservations env 0 h = (0, h)"
| "reservations env (Suc n) h =
     (case reserve_rate_limit env h of (ok, h1) \<Rightarrow>
      case reservations env n h1 of (k, h2) \<Rightarrow> ((if ok then 1 else 0) + k, h2))"

lemma schedule_refresh_facts [simp]:
  "hb_budget (schedule_refresh h) = hb_budget h" "hb_reset_at (schedule_refresh h) = hb_reset_at h"
  "hb_pending (schedule_refresh h)"
  "hb_pending h \<Longrightarrow> hb_tasks (schedule_refresh h) = hb_tasks h"
  "\<not> hb_pending h \<Longrightarrow> hb_tasks (schedule_refresh h) = hb_tasks h @ [T_refresh_limits]"
  by (simp_all add: schedule_refresh_def schedule_def)

lemma reserve_step:
  assumes "rc_budget_override (ee_risk env) = None" and "reserve_rate_limit env h = (ok, h')"
  shows "(if ok then 0 < hb_budget h \<and> hb_budget h' = hb_budget h - 1 \<and> hb_tasks h' = hb_tasks h
              \<and> hb_pending h' = hb_pending h
          else hb_budget h' = hb_budget h
              \<and> (hb_tasks h' = hb_tasks h \<and> hb_pending h' = hb_pending h
                 \<or> hb_pending h' \<and> hb_tasks h' = hb_tasks h @ (if hb_pending h then [] else [T_refresh_limits])))
         \<and> (hb_reset_at h = None \<longrightarrow> \<not> ok)"
proof -
  have keep: "hb_budget (snd (hub_outside f g)) = hb_budget g" "hb_tasks (snd (hub_outside f g)) = hb_tasks g"
    "hb_pending (snd (hub_outside f g)) = hb_pending g" for f :: "'a \<Rightarrow> instant \<times> 'a" and g
    by (simp_all add: hub_outside_def split: prod.splits)
  show ?thesis
  proof (cases "hb_reset_at h")
    case None
    with assms show ?thesis by (cases "hb_pending h") (auto simp: reserve_rate_limit_def)
  next
    case (Some t)
    obtain now h1 where o: "hub_outside (ee_clock env) h = (now, h1)" by force
    with keep [of "ee_clock env" h]
    have h1: "hb_budget h1 = hb_budget h" "hb_tasks h1 = hb_tasks h" "hb_pending h1 = hb_pending h" by simp_all
    show ?thesis
      using assms Some o h1
      by (cases "hb_pending h1") (auto simp: reserve_rate_limit_def effective_budget_def split: if_splits)
  qed
qed

text \<open>What one reservation leaves of the reset time, and what it grants while the limits are fresh.\<close>

lemma reserve_reset: "reserve_rate_limit env h = (ok, h') \<Longrightarrow> hb_reset_at h' = hb_reset_at h"
  by (auto simp: reserve_rate_limit_def hub_outside_def split: if_splits option.splits prod.splits)

lemma reserve_fresh:
  assumes "rc_budget_override (ee_risk env) = None" and "reserve_rate_limit env h = (ok, h')"
    and "hb_reset_at h = Some t" and "\<And>v. fst (ee_clock env v) < t"
  shows "ok \<longleftrightarrow> 0 < hb_budget h"
  using assms(1-3) assms(4) [of "hb_venue h"]
  by (auto simp: reserve_rate_limit_def effective_budget_def hub_outside_def split: if_splits prod.splits)

lemma reservations_override:
  "rc_budget_override (ee_risk env) = Some b \<Longrightarrow> reservations env n h = (if 0 < b then n else 0, h)"
  by (induction n) (simp_all add: reserve_rate_limit_def effective_budget_def)

lemma reservations_drawn:
  assumes "rc_budget_override (ee_risk env) = None" and "reservations env n h = (k, h')"
  shows "int k \<le> max 0 (hb_budget h) \<and> hb_budget h' = hb_budget h - int k
    \<and> (\<exists>ts. hb_tasks h' = hb_tasks h @ ts \<and> set ts \<subseteq> {T_refresh_limits}
          \<and> length ts \<le> (if hb_pending h then 0 else 1))"
  using assms(2)
proof (induction n arbitrary: h k h')
  case 0
  then show ?case by auto
next
  case (Suc n)
  obtain ok h1 where r: "reserve_rate_limit env h = (ok, h1)" by force
  obtain k1 h2 where rest: "reservations env n h1 = (k1, h2)" by force
  have k: "k = (if ok then 1 else 0) + k1" "h' = h2" using Suc.prems r rest by simp_all
  from Suc.IH [OF rest] obtain ts where ih: "int k1 \<le> max 0 (hb_budget h1)" "hb_budget h2 = hb_budget h1 - int k1"
      "hb_tasks h2 = hb_tasks h1 @ ts" "set ts \<subseteq> {T_refresh_limits}"
      "length ts \<le> (if hb_pending h1 then 0 else 1)" by blast
  show ?case
  proof (cases ok)
    case True
    with reserve_step [OF assms(1) r] ih k show ?thesis by auto
  next
    case False
    with reserve_step [OF assms(1) r] have b: "hb_budget h1 = hb_budget h" and
      t: "hb_tasks h1 = hb_tasks h \<and> hb_pending h1 = hb_pending h
          \<or> hb_pending h1 \<and> hb_tasks h1 = hb_tasks h @ (if hb_pending h then [] else [T_refresh_limits])" by auto
    from t show ?thesis
    proof
      assume "hb_tasks h1 = hb_tasks h \<and> hb_pending h1 = hb_pending h"
      with ih b k False show ?thesis by auto
    next
      assume t: "hb_pending h1 \<and> hb_tasks h1 = hb_tasks h @ (if hb_pending h then [] else [T_refresh_limits])"
      then have "ts = []" using ih(5) by simp
      with t ih b k False show ?thesis by (cases "hb_pending h") auto
    qed
  qed
qed

lemma reservations_unknown:
  assumes "rc_budget_override (ee_risk env) = None"
  shows "reservations env n h = (k, h') \<Longrightarrow> hb_reset_at h = None \<Longrightarrow> k = 0"
proof (induction n arbitrary: h k)
  case (Suc n)
  obtain ok h1 where r: "reserve_rate_limit env h = (ok, h1)" by force
  with Suc reserve_step [OF assms r] reserve_reset [OF r] show ?case by (auto split: prod.splits)
qed simp

lemma reservations_fresh:
  assumes "rc_budget_override (ee_risk env) = None" and "\<And>v. fst (ee_clock env v) < t"
  shows "reservations env n h = (k, h') \<Longrightarrow> hb_reset_at h = Some t \<Longrightarrow> int k = min (int n) (max 0 (hb_budget h))"
proof (induction n arbitrary: h k)
  case (Suc n)
  obtain ok h1 where r: "reserve_rate_limit env h = (ok, h1)" by force
  obtain k1 where rest: "reservations env n h1 = (k1, h')" and k: "k = (if ok then 1 else 0) + k1"
    using Suc.prems(1) r by (auto split: prod.splits)
  have "int k1 = min (int n) (max 0 (hb_budget h1))"
    by (rule Suc.IH [OF rest]) (simp add: reserve_reset [OF r] Suc.prems(2))
  with k reserve_step [OF assms(1) r] reserve_fresh [OF assms(1) r Suc.prems(2) assms(2)] show ?case
    by (cases ok) auto
qed simp

text \<open>
  C26. The budget bound. Under a configured override the fetched budget plays no part: every reservation
  is granted when the override is positive and none when it is not, and nothing is drawn and no refresh
  is scheduled. Without one, between two refreshes, however many reservations are made, no more are
  granted than the budget allows, the budget is drawn by exactly the number granted and is never drawn
  below zero, and at most one background refresh is scheduled, and none when one is already pending.
  With no limits fetched yet nothing is granted; while the fetched limits have not expired, exactly as
  many are granted as the budget covers.
\<close>

theorem budget_bound:
  assumes "reservations env n h = (k, h')"
  shows "case rc_budget_override (ee_risk env) of
      Some b \<Rightarrow> k = (if 0 < b then n else 0) \<and> h' = h
    | None \<Rightarrow> int k \<le> max 0 (hb_budget h) \<and> hb_budget h' = hb_budget h - int k
        \<and> min 0 (hb_budget h) \<le> hb_budget h'
        \<and> (\<exists>ts. hb_tasks h' = hb_tasks h @ ts \<and> set ts \<subseteq> {T_refresh_limits}
              \<and> length ts \<le> (if hb_pending h then 0 else 1))
        \<and> (case hb_reset_at h of
             None \<Rightarrow> k = 0
           | Some t \<Rightarrow> (\<forall>v. fst (ee_clock env v) < t) \<longrightarrow> int k = min (int n) (max 0 (hb_budget h)))"
proof (cases "rc_budget_override (ee_risk env)")
  case None
  note d = reservations_drawn [OF None assms]
  have "case hb_reset_at h of None \<Rightarrow> k = 0
      | Some t \<Rightarrow> (\<forall>v. fst (ee_clock env v) < t) \<longrightarrow> int k = min (int n) (max 0 (hb_budget h))"
    using reservations_unknown [OF None assms] reservations_fresh [OF None _ assms] by (auto split: option.splits)
  moreover from d have "min 0 (hb_budget h) \<le> hb_budget h'" by linarith
  ultimately show ?thesis using d None by simp
next
  case (Some b)
  with assms reservations_override [OF Some, of n h] show ?thesis by simp
qed

theorem budget_bound_witness:
  "fst (reservations desk_env 5 (hub_of (desk_engine (halt_init None)))) = 3
   \<and> hb_budget (snd (reservations desk_env 5 (hub_of (desk_engine (halt_init None))))) = 0"
proof -
  obtain k h' where run: "reservations desk_env 5 (hub_of (desk_engine (halt_init None))) = (k, h')" by force
  have "k = 3"
    using arg_cong [OF run, of fst]
    by (simp add: numeral_eq_Suc desk_engine_def hub_of_def reserve_rate_limit_def desk_env_def
        default_risk_config_def effective_budget_def hub_outside_def desk_clock_def open_desk_def)
  with budget_bound [OF run] run show ?thesis
    by (simp add: desk_env_def default_risk_config_def desk_engine_def hub_of_def)
qed

subsection \<open>Halts after a pass\<close>

lemma still_store: "safe (\<lambda>s. machine s = h) (at_store f) (\<lambda>_. True)"
  and still_outside: "safe (\<lambda>s. machine s = h) (at_outside g) (\<lambda>_. True)"
  and still_venue: "safe (\<lambda>s. machine s = h) (at_venue k) (\<lambda>_. True)"
  by (auto simp: safe_def at_store_def at_outside_def at_venue_def core_def in_store_def outside_def venue_def
      machine_def split: prod.splits sum.splits)

lemma still_publish: "safe (\<lambda>s. machine s = h) (publish_at env now c b) (\<lambda>_. True)"
  unfolding publish_at_def fresh_id_def
  by (intro safe_bind_any [OF still_outside]) (auto simp: safe_def core_def eupd_def machine_def)

lemma still_write: "safe (\<lambda>s. machine s = h) (write_halt env now c a sc i x y z) (\<lambda>_. True)"
  unfolding write_halt_def fresh_id_def by (intro safe_bind_any [OF still_outside] still_store)

lemma still_logged: "safe I m (\<lambda>_. True) \<Longrightarrow> safe I (logged m) (\<lambda>_. True)"
  unfolding logged_def by (intro safe_etry safe_eret TrueI)

lemma still_announce: "safe (\<lambda>s. machine s = h) (announce_clear env sc i c now x y) (\<lambda>_. True)"
  unfolding announce_clear_def persist_halt_clear_def
  by (intro safe_bind_any [OF still_publish] safe_bind_any [OF still_write] still_logged still_store)

lemma set_halts_run: "set_halts m s = (Inr (), s\<lparr>en_core := (en_core s)\<lparr>tw_halts := m\<rparr>\<rparr>)"
  by (simp add: set_halts_def core_def eupd_def)

lemma try_clear_run:
  "try_clear sc i a b s = (Inr (fst (try_clear_halt sc i a b (machine s))),
     s\<lparr>en_core := (en_core s)\<lparr>tw_halts := snd (try_clear_halt sc i a b (machine s))\<rparr>\<rparr>)"
  by (cases "try_clear_halt sc i a b (machine s)") (simp add: try_clear_def ebind_def eget_def set_halts_run eret_def)

lemma clear_machine:
  "machine (snd (engine_clear_halt env sc i c now s)) = snd (try_clear_halt sc i True False (machine s))"
proof -
  let ?s1 = "s\<lparr>en_core := (en_core s)\<lparr>tw_halts := snd (try_clear_halt sc i True False (machine s))\<rparr>\<rparr>"
  have "safe (\<lambda>s. machine s = machine ?s1)
      (ebind (ewhen d (announce_clear env sc i c now ''reconciliation_clean'' AUTOMATIC)) (\<lambda>_. eret d)) (\<lambda>_. True)" for d
    by (intro safe_walk still_announce TrueI)
  from safeD [OF this refl prod.collapse [symmetric]]
  show ?thesis
    unfolding engine_clear_halt_def
    by (simp add: eff_run(6) try_clear_run) (simp add: machine_def)
qed

lemma enter_machine:
  assumes "engine_enter_halt env sc i x y c now s = (r, s')"
  shows "(case enter_halt sc i x y (machine s) of Inl e \<Rightarrow> r = Inl e \<and> s' = s | Inr (b, m) \<Rightarrow> machine s' = m)"
proof (cases "enter_halt sc i x y (machine s)")
  case (Inl e)
  with assms show ?thesis by (simp add: engine_enter_halt_def ebind_def eget_def elift_def)
next
  case (Inr p)
  obtain b m where p: "p = (b, m)" by (cases p)
  let ?s1 = "s\<lparr>en_core := (en_core s)\<lparr>tw_halts := m\<rparr>\<rparr>"
  have keep: "safe (\<lambda>s. machine s = m)
      (ewhen b (ebind (publish_at env now (Some c) (HaltEnteredEvent sc i x y)) (\<lambda>_.
        ebind (write_halt env now (Some c) HA_ENTERED sc i x y None) (\<lambda>_.
        persist_halt sc i x y)))) (\<lambda>_. True)"
    unfolding persist_halt_def
    by (intro safe_ewhen safe_bind_any [OF still_publish] safe_bind_any [OF still_write] still_logged still_store)
  have run: "ewhen b (ebind (publish_at env now (Some c) (HaltEnteredEvent sc i x y)) (\<lambda>_.
        ebind (write_halt env now (Some c) HA_ENTERED sc i x y None) (\<lambda>_.
        persist_halt sc i x y))) ?s1 = (r, s')"
    using assms Inr p
    by (simp add: engine_enter_halt_def ebind_eget ebind_def [of "set_halts m"] set_halts_run)
  have "machine ?s1 = m" by (simp add: machine_def)
  then have "machine s' = m" by (rule safeD [OF keep _ run])
  with Inr p show ?thesis by simp
qed

lemma try_clear_keys:
  assumes "hc_mode (hm_config m) = AUTOMATIC" and "sc = SC_ACCOUNT \<or> i \<noteq> None"
  shows "halted_keys (snd (try_clear_halt sc i True mc m)) = halted_keys m - {scope_key sc i}"
    and "hm_config (snd (try_clear_halt sc i True mc m)) = hm_config m"
  using assms
  by (cases sc; cases i; auto simp: try_clear_halt_def Let_def halted_keys_def scope_key_def dom_def)+

text \<open>The halts a list of operations leaves, when each of them acts on the keys by a function.\<close>

definition automatic :: "'v engine \<Rightarrow> bool" where
  "automatic s \<longleftrightarrow> wf_halts (machine s) \<and> hm_config (machine s) = \<lparr>hc_auto = True,
     hc_closing = hc_closing (hm_config (machine s)), hc_mode = AUTOMATIC\<rparr>"

lemma efor_keys:
  assumes "\<And>x s s'. x \<in> set xs \<Longrightarrow> automatic s \<Longrightarrow> f x s = (Inr (), s')
      \<Longrightarrow> automatic s' \<and> halted_keys (machine s') = g x (halted_keys (machine s))"
  shows "efor xs f s = (Inr (), s') \<Longrightarrow> automatic s
      \<Longrightarrow> automatic s' \<and> halted_keys (machine s') = fold g xs (halted_keys (machine s))"
  using assms
proof (induction xs arbitrary: s)
  case (Cons x xs)
  from Cons.prems(1) obtain s1 where 1: "f x s = (Inr (), s1)" and 2: "efor xs f s1 = (Inr (), s')"
    by (auto simp: ebind_eq)
  from Cons.prems(3) [OF _ Cons.prems(2) 1]
  have "automatic s1" "halted_keys (machine s1) = g x (halted_keys (machine s))" by auto
  then show ?case using Cons.IH [OF 2] Cons.prems(3) by (metis fold_simps(2) list.set_intros(2))
qed (simp add: eret_def)

lemma automatic_try_clear:
  assumes "automatic s" and "machine s' = snd (try_clear_halt sc i True b (machine s))"
    and "sc = SC_ACCOUNT \<or> i \<noteq> None"
  shows "automatic s' \<and> halted_keys (machine s') = halted_keys (machine s) - {scope_key sc i}"
proof -
  have m: "hc_mode (hm_config (machine s)) = AUTOMATIC" using assms(1) by (metis automatic_def halt_config.select_convs(3))
  have "wf_halts (machine s')" using assms(1,2) try_clear_halt_wf by (auto simp: automatic_def)
  moreover have "hm_config (machine s') = hm_config (machine s)"
    unfolding assms(2) by (rule try_clear_keys(2) [OF m assms(3)])
  ultimately show ?thesis
    using assms(1) try_clear_keys(1) [OF m assms(3), of b] by (simp add: automatic_def assms(2))
qed

lemma clear_entry_keys:
  assumes "automatic s" and "he_scope e = SC_ACCOUNT \<or> he_instrument e \<noteq> None"
    and "ebind (engine_clear_halt env (he_scope e) (he_instrument e) c now) (\<lambda>_. eret ()) s = (r, s')"
  shows "automatic s' \<and> halted_keys (machine s') = halted_keys (machine s) - {scope_key (he_scope e) (he_instrument e)}"
proof -
  have "s' = snd (engine_clear_halt env (he_scope e) (he_instrument e) c now s)"
    using assms(3) by (auto simp: ebind_eq eret_def)
  with automatic_try_clear [OF assms(1) _ assms(2)] clear_machine show ?thesis by blast
qed

definition reconciled_entry :: "reconciliation_result \<Rightarrow> halt_entry \<Rightarrow> bool" where
  "reconciled_entry r e \<longleftrightarrow> he_scope e = SC_INSTRUMENT
     \<and> (\<exists>i. he_instrument e = Some i \<and> inst_id i \<notin> mismatched r)"

lemma release_keys:
  assumes "automatic s" and "release_reconciled env r c now e s = (Inr (), s')"
  shows "automatic s' \<and> halted_keys (machine s') =
    (if reconciled_entry r e then halted_keys (machine s) - {scope_key (he_scope e) (he_instrument e)}
     else halted_keys (machine s))"
proof (cases "reconciled_entry r e")
  case True
  then obtain i where i: "he_scope e = SC_INSTRUMENT" "he_instrument e = Some i" "inst_id i \<notin> mismatched r"
    by (auto simp: reconciled_entry_def)
  with assms(2) have "ebind (engine_clear_halt env (he_scope e) (he_instrument e) c now) (\<lambda>_. eret ()) s = (Inr (), s')"
    by (simp add: release_reconciled_def)
  from clear_entry_keys [OF assms(1) _ this] i True show ?thesis by simp
next
  case False
  with assms show ?thesis
    by (auto simp: release_reconciled_def reconciled_entry_def ewhen_def eret_def split: option.splits if_splits)
qed

lemma halt_mismatch_keys:
  assumes "automatic s" and "halt_mismatch env c now mm s = (Inr (), s')"
  shows "automatic s' \<and> halted_keys (machine s') = Some ` inst_id ` set_option (mm_instrument mm) \<union> halted_keys (machine s)"
proof (cases "mm_instrument mm")
  case None
  with assms show ?thesis by (simp add: halt_mismatch_def eret_def)
next
  case (Some i)
  have auto: "hc_auto (hm_config (machine s))" using assms(1) by (metis automatic_def halt_config.select_convs(1))
  let ?e = "enter_halt SC_INSTRUMENT (Some i) (mismatch_type (mm_kind mm)) (ee_detail env mm) (machine s)"
  obtain b m where e: "?e = Inr (b, m)"
    using restore_halt_total [of SC_INSTRUMENT "Some i" "mismatch_type (mm_kind mm)" "ee_detail env mm" "machine s"] auto
    by (auto simp: enter_halt_eq)
  with assms(2) Some enter_machine [of env SC_INSTRUMENT "Some i" "mismatch_type (mm_kind mm)"
      "ee_detail env mm" c now s "Inr ()" s']
  have m: "machine s' = m" by (auto simp: halt_mismatch_def)
  from e auto have r: "restore_halt SC_INSTRUMENT (Some i) (mismatch_type (mm_kind mm)) (ee_detail env mm) (machine s) = Inr (b, m)"
    by (simp add: enter_halt_eq)
  have "wf_halts m" using assms(1) restore_halt_wf [OF _ r] by (simp add: automatic_def)
  with restore_halt_keys [OF r] assms(1) Some m show ?thesis
    by (auto simp: automatic_def scope_key_def)
qed

subsection \<open>The halts after a pass\<close>

lemma fold_release:
  "fold (\<lambda>e K. if P e then K - {k e} else K) es K = K - k ` {e \<in> set es. P e}"
  by (induction es arbitrary: K) auto

lemma fold_clear: "fold (\<lambda>e K. K - {k e}) es K = K - k ` set es"
  by (induction es arbitrary: K) auto

lemma fold_enter: "fold (\<lambda>mm K. A mm \<union> K) ms K = \<Union> (A ` set ms) \<union> K"
  by (induction ms arbitrary: K) auto

lemma mismatched_keys: "\<Union> ((\<lambda>mm. Some ` inst_id ` set_option (mm_instrument mm)) ` set (rr_positions r)) = Some ` mismatched r"
  by (auto simp: mismatched_def)

lemma active_scoped: "wf_halts m \<Longrightarrow> e \<in> set (active_halts m) \<Longrightarrow> he_scope e = SC_ACCOUNT \<or> he_instrument e \<noteq> None"
  by (auto simp: active_halts_def wf_halts_def split: option.splits)

lemma released_keys:
  assumes "wf_halts m"
  shows "(\<lambda>e. scope_key (he_scope e) (he_instrument e)) ` {e \<in> set (active_halts m). reconciled_entry r e}
    = {Some i | i. Some i \<in> halted_keys m \<and> i \<notin> mismatched r}" (is "?f ` ?A = ?B")
proof
  show "?f ` ?A \<subseteq> ?B"
  proof
    fix k assume "k \<in> ?f ` ?A"
    then obtain e where e: "e \<in> set (active_halts m)" "reconciled_entry r e" "k = ?f e" by blast
    then have "k \<in> halted_keys m" using active_halts_keys [OF assms] by blast
    with e(2,3) show "k \<in> ?B" by (auto simp: reconciled_entry_def scope_key_def)
  qed
  show "?B \<subseteq> ?f ` ?A"
  proof
    fix k assume "k \<in> ?B"
    then obtain i where i: "k = Some i" "Some i \<in> halted_keys m" "i \<notin> mismatched r" by blast
    have "Some i \<in> ?f ` set (active_halts m)" unfolding active_halts_keys [OF assms] by (rule i(2))
    then obtain e where e: "Some i = ?f e" "e \<in> set (active_halts m)" by (rule imageE)
    then have "reconciled_entry r e"
      using i(3) active_scoped [OF assms e(2)] by (cases "he_scope e") (auto simp: reconciled_entry_def scope_key_def)
    with e(2) have "e \<in> ?A" by simp
    then have "?f e \<in> ?f ` ?A" by (rule imageI)
    with e(1) i(1) show "k \<in> ?f ` ?A" by simp
  qed
qed

text \<open>
  C23. The halts after a pass. With automatic halting and automatic clearing, when the halt management
  of a pass completes, the halts in effect are exactly those of the instruments whose positions
  disagreed in this pass, together with the account halt if it was in effect and the pass was not
  clean. In particular a halted instrument that agrees again is released whatever else disagreed, and
  a clean pass leaves nothing halted.
\<close>

theorem halts_after_pass:
  assumes "automatic s" and "manage_halt_state env r corr now s = (Inr (), s')"
  shows "halted_keys (machine s') =
      Some ` mismatched r \<union> (if rr_is_clean r then {} else halted_keys (machine s) \<inter> {None})
    \<and> automatic s'"
proof -
  let ?key = "\<lambda>e. scope_key (he_scope e) (he_instrument e)"
  let ?clear = "\<lambda>e. ebind (engine_clear_halt env (he_scope e) (he_instrument e) corr now) (\<lambda>_. eret ())"
  have wf: "wf_halts (machine s)" using assms(1) by (simp add: automatic_def)
  from assms(2) obtain s1 s2 where
    1: "efor (active_halts (machine s)) (release_reconciled env r corr now) s = (Inr (), s1)" and
    2: "efor (rr_positions r) (halt_mismatch env corr now) s1 = (Inr (), s2)" and
    3: "ewhen (rr_is_clean r) (ebind (eget (\<lambda>s. active_halts (machine s))) (\<lambda>rest. efor rest ?clear)) s2 = (Inr (), s')"
    unfolding manage_halt_state_def ebind_eget by (auto simp: ebind_eq)
  have "automatic s1 \<and> halted_keys (machine s1) =
      fold (\<lambda>e K. if reconciled_entry r e then K - {?key e} else K) (active_halts (machine s)) (halted_keys (machine s))"
    by (rule efor_keys [OF _ 1 assms(1)]) (rule release_keys)
  then have a1: "automatic s1" and k1: "halted_keys (machine s1) =
      halted_keys (machine s) - {Some i | i. Some i \<in> halted_keys (machine s) \<and> i \<notin> mismatched r}"
    by (simp_all add: fold_release released_keys [OF wf])
  have "automatic s2 \<and> halted_keys (machine s2) =
      fold (\<lambda>mm K. Some ` inst_id ` set_option (mm_instrument mm) \<union> K) (rr_positions r) (halted_keys (machine s1))"
    by (rule efor_keys [OF _ 2 a1]) (rule halt_mismatch_keys)
  then have a2: "automatic s2" and k2: "halted_keys (machine s2) = Some ` mismatched r \<union> halted_keys (machine s1)"
    by (simp_all add: fold_enter mismatched_keys)
  have k: "halted_keys (machine s2) = Some ` mismatched r \<union> (halted_keys (machine s) \<inter> {None})"
  proof (rule set_eqI)
    fix x
    show "x \<in> halted_keys (machine s2) \<longleftrightarrow> x \<in> Some ` mismatched r \<union> (halted_keys (machine s) \<inter> {None})"
      unfolding k2 k1 by (cases x) auto
  qed
  show ?thesis
  proof (cases "rr_is_clean r")
    case False
    with 3 a2 k show ?thesis by (simp add: eret_def)
  next
    case True
    have wf2: "wf_halts (machine s2)" using a2 by (simp add: automatic_def)
    from 3 True have c: "efor (active_halts (machine s2)) ?clear s2 = (Inr (), s')" by (simp add: ebind_eget)
    have "automatic s' \<and> halted_keys (machine s') =
        fold (\<lambda>e K. K - {?key e}) (active_halts (machine s2)) (halted_keys (machine s2))"
      by (rule efor_keys [OF _ c a2]) (rule clear_entry_keys [OF _ active_scoped [OF wf2]])
    then have "automatic s'" "halted_keys (machine s') = halted_keys (machine s2) - ?key ` set (active_halts (machine s2))"
      by (simp_all add: fold_clear)
    moreover have "mismatched r = {}" using True by (simp add: rr_is_clean_def mismatched_def)
    ultimately show ?thesis using active_halts_keys [OF wf2] True by simp
  qed
qed

definition one_mismatch :: reconciliation_result where
  "one_mismatch = \<lparr>rr_positions = [\<lparr>mm_kind = MK_position, mm_instrument = Some btc_spot,
      mm_local = MV_absent, mm_platform = MV_absent\<rparr>],
     rr_balances = [], rr_orphans_platform = [], rr_orphans_local = [], rr_fills = []\<rparr>"

lemma desk_automatic: "automatic (desk_engine (halt_init None))"
  by (simp add: automatic_def desk_engine_row wf_halts_init) (simp add: halt_init_def default_halt_config_def)

theorem halts_after_pass_witness:
  "Some btc_spot \<in> halted_keys (machine (snd (manage_halt_state desk_env one_mismatch ''c'' 1 (desk_engine (halt_init None)))))"
proof -
  have "fst (manage_halt_state desk_env one_mismatch ''c'' 1 (desk_engine (halt_init None))) = Inr ()" by code_simp
  then obtain s' where run: "manage_halt_state desk_env one_mismatch ''c'' 1 (desk_engine (halt_init None)) = (Inr (), s')"
    by (metis prod.collapse)
  have "btc_spot \<in> mismatched one_mismatch"
    by (simp add: mismatched_def one_mismatch_def opt_list_def inst_id_def btc_spot_def)
  with halts_after_pass [OF desk_automatic run] run show ?thesis by simp
qed

subsection \<open>The mirror becomes the platform's\<close>

definition same_row :: "position \<Rightarrow> position \<Rightarrow> bool" where
  "same_row p q \<longleftrightarrow> sql_key (po_instrument p) = sql_key (po_instrument q) \<and> po_id p = po_id q"

definition faithful :: "position list \<Rightarrow> bool" where
  \<comment> \<open>legs that share a row of the table are the same leg, and every leg has an id\<close>
  "faithful ps \<longleftrightarrow> (\<forall>p \<in> set ps. po_id p \<noteq> None) \<and> (\<forall>p \<in> set ps. \<forall>q \<in> set ps. same_row p q \<longrightarrow> leg_key p = leg_key q)"

definition mirror :: "'v engine \<Rightarrow> leg_key \<Rightarrow> decimal" where
  "mirror s = leg_quantity (so_positions (tw_store (en_core s)))"

lemma same_row_key: "leg_key p = leg_key q \<Longrightarrow> same_row p q"
  by (cases "po_instrument p"; cases "po_instrument q")
    (auto simp: leg_key_def same_row_def inst_id_def sql_key_def)

lemma leg_quantity_snoc:
  "leg_quantity (ps @ [p]) k = (if leg_key p = k then po_quantity p else leg_quantity ps k)"
  by (simp add: leg_quantity_def)

lemma find_filter: "(\<And>x. x \<in> set xs \<Longrightarrow> Q x \<Longrightarrow> P x) \<Longrightarrow> List.find Q (filter P xs) = List.find Q xs"
  by (induction xs) auto

lemma leg_quantity_filter:
  assumes "\<And>x. x \<in> set ps \<Longrightarrow> leg_key x = k \<Longrightarrow> P x"
  shows "leg_quantity (filter P ps) k = leg_quantity ps k"
proof -
  have "List.find (\<lambda>p. leg_key p = k) (filter P (rev ps)) = List.find (\<lambda>p. leg_key p = k) (rev ps)"
    by (rule find_filter) (use assms in auto)
  then show ?thesis by (simp add: leg_quantity_def rev_filter)
qed

lemma row_is_same: "po_id p = Some i \<Longrightarrow> position_row_is (po_instrument p) i q = same_row q p"
  by (auto simp: position_row_is_def same_row_def)

lemma upsert_rows:
  assumes "po_id p \<noteq> None"
  shows "upsert_position p st = (Inr (), st\<lparr>so_positions := filter (\<lambda>q. \<not> same_row q p) (so_positions st) @ [p]\<rparr>)"
  using assms by (auto simp: upsert_position_def eupd_def row_is_same)

text \<open>Writing the legs one after the other overrides the mirror with them.\<close>

fun override_legs :: "position list \<Rightarrow> (leg_key \<Rightarrow> decimal) \<Rightarrow> leg_key \<Rightarrow> decimal" where
  "override_legs [] f = f"
| "override_legs (p # ps) f = override_legs ps (f(leg_key p := po_quantity p))"

lemma override_legs_snoc: "override_legs (ps @ [p]) f = (override_legs ps f)(leg_key p := po_quantity p)"
  by (induction ps arbitrary: f) simp_all

lemma override_legs_quantity:
  "override_legs ps f k = (if k \<in> leg_key ` set ps then leg_quantity ps k else f k)"
  by (induction ps rule: rev_induct) (auto simp: override_legs_snoc leg_quantity_snoc)

lemma leg_quantity_absent: "k \<notin> leg_key ` set ps \<Longrightarrow> leg_quantity ps k = 0"
  by (auto simp: leg_quantity_def dest: find_SomeD split: option.splits)

lemma at_store_run: "f (tw_store (en_core s)) = (r, st) \<Longrightarrow>
    at_store f s = (r, s\<lparr>en_core := (en_core s)\<lparr>tw_store := st\<rparr>\<rparr>)"
  by (simp add: at_store_def core_def in_store_def)

definition rows :: "'v engine \<Rightarrow> position list" where
  "rows s = so_positions (tw_store (en_core s))"

lemma upsert_mirror:
  assumes "faithful (p # rows s)"
  shows "\<exists>s'. at_store (upsert_position p) s = (Inr (), s') \<and> mirror s' = (mirror s)(leg_key p := po_quantity p)
    \<and> set (rows s') \<subseteq> insert p (set (rows s))"
proof -
  have id: "po_id p \<noteq> None" using assms by (simp add: faithful_def)
  let ?s' = "s\<lparr>en_core := (en_core s)\<lparr>tw_store := (tw_store (en_core s))\<lparr>so_positions :=
      filter (\<lambda>q. \<not> same_row q p) (rows s) @ [p]\<rparr>\<rparr>\<rparr>"
  have run: "at_store (upsert_position p) s = (Inr (), ?s')"
    by (rule at_store_run) (simp add: upsert_rows [OF id] rows_def)
  have "mirror ?s' k = ((mirror s)(leg_key p := po_quantity p)) k" for k
  proof (cases "leg_key p = k")
    case False
    have "leg_quantity (filter (\<lambda>q. \<not> same_row q p) (rows s)) k = leg_quantity (rows s) k"
      using assms False by (intro leg_quantity_filter) (auto simp: faithful_def)
    with False show ?thesis by (simp add: mirror_def leg_quantity_snoc rows_def)
  qed (simp add: mirror_def leg_quantity_snoc)
  with run show ?thesis by (intro exI [of _ ?s']) (auto simp: rows_def)
qed

lemma faithful_subset: "faithful ps \<Longrightarrow> set qs \<subseteq> set ps \<Longrightarrow> faithful qs"
  unfolding faithful_def by blast

lemma upserts_mirror:
  assumes "faithful (ps @ rows s)"
  shows "\<exists>s'. efor ps (\<lambda>p. at_store (upsert_position p)) s = (Inr (), s') \<and> mirror s' = override_legs ps (mirror s)
    \<and> set (rows s') \<subseteq> set ps \<union> set (rows s)"
  using assms
proof (induction ps arbitrary: s)
  case (Cons p ps)
  have "faithful (p # rows s)" using Cons.prems by (rule faithful_subset) auto
  from upsert_mirror [OF this] obtain s1 where
    1: "at_store (upsert_position p) s = (Inr (), s1)" "mirror s1 = (mirror s)(leg_key p := po_quantity p)"
       "set (rows s1) \<subseteq> insert p (set (rows s))" by blast
  have "faithful (ps @ rows s1)" using Cons.prems by (rule faithful_subset) (use 1(3) in auto)
  from Cons.IH [OF this] obtain s' where
    "efor ps (\<lambda>p. at_store (upsert_position p)) s1 = (Inr (), s')" "mirror s' = override_legs ps (mirror s1)"
    "set (rows s') \<subseteq> set ps \<union> set (rows s1)" by blast
  with 1 show ?case by (intro exI [of _ s']) (auto simp: eff_run(6))
qed (simp add: eret_def)

lemma delete_mirror:
  assumes "faithful (p # rows s)" and "po_id p = Some i"
  shows "\<exists>s'. at_store (delete_position (po_instrument p) i) s = (Inr (), s') \<and> mirror s' = (mirror s)(leg_key p := 0)
    \<and> set (rows s') \<subseteq> set (rows s)"
proof -
  let ?s' = "s\<lparr>en_core := (en_core s)\<lparr>tw_store := (tw_store (en_core s))\<lparr>so_positions :=
      filter (\<lambda>q. \<not> same_row q p) (rows s)\<rparr>\<rparr>\<rparr>"
  have run: "at_store (delete_position (po_instrument p) i) s = (Inr (), ?s')"
    by (rule at_store_run) (simp add: delete_position_def eupd_def rows_def row_is_same [OF assms(2)])
  have "mirror ?s' k = ((mirror s)(leg_key p := 0)) k" for k
  proof (cases "leg_key p = k")
    case True
    then have "leg_quantity (filter (\<lambda>q. \<not> same_row q p) (rows s)) k = 0"
      by (intro leg_quantity_absent) (auto simp: image_iff; metis same_row_key)
    with True show ?thesis by (simp add: mirror_def)
  next
    case False
    have "leg_quantity (filter (\<lambda>q. \<not> same_row q p) (rows s)) k = leg_quantity (rows s) k"
      using assms(1) False by (intro leg_quantity_filter) (auto simp: faithful_def)
    with False show ?thesis by (simp add: mirror_def rows_def)
  qed
  with run show ?thesis by (intro exI [of _ ?s']) (auto simp: rows_def)
qed

lemma drops_mirror:
  assumes "faithful (ls @ rows s)"
  shows "\<exists>s'. efor ls (drop_absent ps) s = (Inr (), s') \<and>
    mirror s' = (\<lambda>k. if k \<in> leg_key ` set ls - leg_key ` set ps then 0 else mirror s k)"
  using assms
proof (induction ls arbitrary: s)
  case (Cons p ls)
  obtain i where i: "po_id p = Some i" using Cons.prems by (auto simp: faithful_def)
  have f: "faithful (p # rows s)" using Cons.prems by (rule faithful_subset) auto
  obtain s1 where 1: "drop_absent ps p s = (Inr (), s1)" "set (rows s1) \<subseteq> set (rows s)"
    "mirror s1 = (if leg_key p \<in> leg_key ` set ps then mirror s else (mirror s)(leg_key p := 0))"
    using delete_mirror [OF f i] i by (cases "leg_key p \<in> leg_key ` set ps") (auto simp: drop_absent_def eret_def)
  have "faithful (ls @ rows s1)" using Cons.prems by (rule faithful_subset) (use 1(2) in auto)
  from Cons.IH [OF this] obtain s' where
    "efor ls (drop_absent ps) s1 = (Inr (), s')"
    "mirror s' = (\<lambda>k. if k \<in> leg_key ` set ls - leg_key ` set ps then 0 else mirror s1 k)" by blast
  moreover from this(2) 1(3) have "mirror s' k = (if k \<in> leg_key ` set (p # ls) - leg_key ` set ps then 0 else mirror s k)" for k
    by (cases "k = leg_key p"; cases "leg_key p \<in> leg_key ` set ps") simp_all
  ultimately show ?case using 1(1) by (intro exI [of _ s']) (simp add: eff_run(6) fun_eq_iff)
qed (simp add: eret_def)

text \<open>
  C24. The mirror becomes the platform's. The abstract state of the position mirror is the quantity of
  each leg; syncing it is the assignment of the platform's. When the legs of the platform and of the
  mirror have ids and no two different legs share a row of the table, the sync of the positions the
  engine gathered completes without a logged failure, afterwards every leg of the mirror has the
  platform's quantity, legs the platform does not report included, and a comparison with the same
  snapshot reports nothing any more.
\<close>

theorem mirror_sync:
  assumes "faithful (ps @ local_ps @ rows s)" and "set (rows s) \<subseteq> set local_ps"
    and "sync_positions ps local_ps s = (r, s')"
  shows "r = Inr () \<and> mirror s' = leg_quantity ps \<and> position_mismatches (rows s') ps = []"
proof -
  have "faithful (ps @ rows s)" using assms(1) by (rule faithful_subset) auto
  from upserts_mirror [OF this] obtain s1 where
    1: "efor ps (\<lambda>p. at_store (upsert_position p)) s = (Inr (), s1)" "mirror s1 = override_legs ps (mirror s)"
       "set (rows s1) \<subseteq> set ps \<union> set (rows s)" by blast
  have "faithful (local_ps @ rows s1)" using assms(1) by (rule faithful_subset) (use 1(3) in auto)
  from drops_mirror [OF this] obtain s2 where
    2: "efor local_ps (drop_absent ps) s1 = (Inr (), s2)"
       "mirror s2 = (\<lambda>k. if k \<in> leg_key ` set local_ps - leg_key ` set ps then 0 else mirror s1 k)" by blast
  have run: "r = Inr ()" "s' = s2"
    using assms(3) 1(1) 2(1)
    by (simp_all add: sync_positions_def logged_def etry_def eff_run(6))
  have "mirror s2 k = leg_quantity ps k" for k
  proof (cases "k \<in> leg_key ` set ps")
    case False
    then have "leg_quantity ps k = 0" by (rule leg_quantity_absent)
    moreover have "mirror s k = 0" if "k \<notin> leg_key ` set local_ps"
      unfolding mirror_def rows_def [symmetric] by (rule leg_quantity_absent) (use that assms(2) in auto)
    ultimately show ?thesis using False by (simp add: 2(2) 1(2) override_legs_quantity)
  qed (simp add: 2(2) 1(2) override_legs_quantity)
  then have m: "mirror s2 = leg_quantity ps" by (rule ext)
  then have "position_mismatches (rows s2) ps = []"
    unfolding position_mismatches_Nil by (metis mirror_def rows_def)
  with m run show ?thesis by simp
qed

theorem mirror_sync_witness:
  "mirror (snd (sync_positions (dk_positions open_desk) [] (desk_engine (halt_init None)))) (inst_id btc_spot, Some ''p'') = 2"
proof -
  obtain r s' where run: "sync_positions (dk_positions open_desk) [] (desk_engine (halt_init None)) = (r, s')" by force
  have none: "rows (desk_engine (halt_init None)) = []"
    by (simp add: rows_def desk_engine_def empty_store_def)
  have "faithful (dk_positions open_desk @ [] @ rows (desk_engine (halt_init None)))"
    by (simp add: none faithful_def open_desk_def)
  from mirror_sync [OF this _ run] have "mirror s' = leg_quantity (dk_positions open_desk)" by (simp add: none)
  moreover have "leg_quantity (dk_positions open_desk) (inst_id btc_spot, Some ''p'') = 2"
    by (simp add: open_desk_def leg_quantity_def leg_key_def)
  ultimately show ?thesis by (simp only: run snd_conv)
qed

subsection \<open>A failed fetch\<close>

text \<open>
  \<open>fetching m bad\<close>: \<open>m\<close> changes nothing but the outside world, raises only the error of the pass, and
  returns only when \<open>bad\<close> does not hold.
\<close>

definition moved :: "'v \<Rightarrow> 'v engine \<Rightarrow> 'v engine" where
  "moved v s = set_hub ((hub_of s)\<lparr>hb_venue := v\<rparr>) s"

definition fetching :: "('v, 'a) eop \<Rightarrow> bool \<Rightarrow> bool" where
  "fetching m bad \<longleftrightarrow> (\<forall>s. (\<exists>h. snd (m s) = moved h s)
     \<and> (case fst (m s) of Inl e \<Rightarrow> exn_cls e = ReconciliationError | Inr _ \<Rightarrow> \<not> bad))"

lemma moved_simps [simp]: "moved h (moved g s) = moved h s" "moved (hb_venue (hub_of s)) s = s"
  by (simp_all add: moved_def set_hub_def hub_of_def)

lemma fetching_bind:
  assumes "fetching m a" and "\<And>x. fetching (f x) b"
  shows "fetching (ebind m f) (a \<or> b)"
  unfolding fetching_def
proof (intro allI)
  fix s
  obtain r s1 where m: "m s = (r, s1)" by force
  with assms(1) obtain h where h: "s1 = moved h s" and v: "case r of Inl e \<Rightarrow> exn_cls e = ReconciliationError | Inr _ \<Rightarrow> \<not> a"
    unfolding fetching_def by (metis fst_conv snd_conv)
  show "(\<exists>h. snd (ebind m f s) = moved h s)
     \<and> (case fst (ebind m f s) of Inl e \<Rightarrow> exn_cls e = ReconciliationError | Inr _ \<Rightarrow> \<not> (a \<or> b))"
  proof (cases r)
    case (Inl e)
    with m h v show ?thesis by (auto simp: ebind_def)
  next
    case (Inr x)
    have "\<exists>h'. snd (f x s1) = moved h' s1"
      "case fst (f x s1) of Inl e \<Rightarrow> exn_cls e = ReconciliationError | Inr _ \<Rightarrow> \<not> b"
      using assms(2) [of x] unfolding fetching_def by blast+
    with m h v Inr show ?thesis by (auto simp: ebind_def split: sum.splits)
  qed
qed

lemma fetching_prefix: "fetching m True \<Longrightarrow> fetching (ebind m f) True"
  by (auto simp: fetching_def ebind_def split: prod.splits sum.splits) (metis fst_conv snd_conv sum.simps(5,6))+

lemma moved_same: "\<exists>h. s = moved h s"
  by (metis moved_simps(2))

lemma fetching_pure: "fetching (eret a) False"
  by (simp add: fetching_def eret_def moved_same)

lemma fetching_query: "fetching (at_store (eget q)) False"
  by (simp add: fetching_def at_store_def core_def in_store_def eget_def moved_same)

lemma fetching_outside: "fetching (at_outside g) False"
  by (auto simp: fetching_def at_outside_def core_def outside_def hub_outside_def moved_def set_hub_def hub_of_def split: prod.splits)

definition always_fails :: "('v, 'a) eff \<Rightarrow> bool" where
  "always_fails f \<longleftrightarrow> (\<forall>v. case fst (f v) of Inl e \<Rightarrow> \<not> exn_is (exn_cls e) PyNotImplementedError | Inr _ \<Rightarrow> False)"

lemma fetching_tri: "fetching (fetch_tri f what) (always_fails f)"
proof -
  have v: "\<exists>h. at_venue f s = (fst (f (hb_venue (hub_of s))), moved h s)" for s
    by (cases "f (hb_venue (hub_of s))")
      (auto simp: at_venue_def core_def venue_def hub_lift_def moved_def set_hub_def hub_of_def)
  show ?thesis
    unfolding fetching_def
  proof (intro allI)
    fix s
    obtain h where h: "at_venue f s = (fst (f (hb_venue (hub_of s))), moved h s)" using v by blast
    then show "(\<exists>h. snd (fetch_tri f what s) = moved h s)
     \<and> (case fst (fetch_tri f what s) of Inl e \<Rightarrow> exn_cls e = ReconciliationError | Inr _ \<Rightarrow> \<not> always_fails f)"
    proof (cases "fst (f (hb_venue (hub_of s)))")
      case (Inl e)
      then have "always_fails f \<Longrightarrow> \<not> exn_is (exn_cls e) PyNotImplementedError"
        by (auto simp: always_fails_def dest: spec [of _ "hb_venue (hub_of s)"])
      with h Inl show ?thesis
        by (cases "exn_is (exn_cls e) PyNotImplementedError")
          (auto simp: fetch_tri_def ebind_def eattempt_def eret_def elift_def)
    next
      case (Inr a)
      then have "\<not> always_fails f" by (auto simp: always_fails_def intro!: exI [of _ "hb_venue (hub_of s)"])
      with h Inr show ?thesis by (auto simp: fetch_tri_def ebind_def eattempt_def eret_def)
    qed
  qed
qed

lemma fetching_weaken: "fetching m b \<Longrightarrow> b = c \<Longrightarrow> fetching m c"
  by simp

lemma fetching_local: "fetching (gather_local a b) False"
  unfolding gather_local_def gather_local_positions_def gather_local_balances_def
    query_positions_def query_balances_def query_open_orders_def query_fills_def ebind_assoc
  by (rule fetching_weaken, (rule fetching_bind fetching_query fetching_pure)+, simp)

lemma fetching_platform:
  "fetching (gather_platform env cx)
     (always_fails (ad_fetch_positions (ee_adapter env)) \<or> always_fails (ad_fetch_balances (ee_adapter env))
      \<or> always_fails (ad_fetch_open_orders (ee_adapter env))
      \<or> always_fails (ad_fetch_fills (ee_adapter env) (Some (cx_window_start cx))))"
  unfolding gather_platform_def Let_def
  by (rule fetching_weaken, (rule fetching_bind fetching_tri fetching_pure)+, simp)

text \<open>
  C25. A failed fetch aborts the pass. When one of the four datasets fails with anything but "not
  implemented", whatever the state of the venue, a reconciliation of a running engine raises the
  reconciliation error, and apart from what the calls did to the outside world it changes nothing: not
  the mirror, not the watermark, not the halts, not the audit trail or the events, and no task is
  scheduled by it.
\<close>

theorem reconcile_abort:
  assumes "\<not> en_shutdown s"
    and "always_fails (ad_fetch_positions (ee_adapter env)) \<or> always_fails (ad_fetch_balances (ee_adapter env))
      \<or> always_fails (ad_fetch_open_orders (ee_adapter env))
      \<or> (\<forall>t. always_fails (ad_fetch_fills (ee_adapter env) (Some t)))"
  shows "fails_with (fst (engine_reconcile env s)) ReconciliationError
    \<and> (\<exists>h. snd (engine_reconcile env s) = moved h s)"
proof -
  have "fetching (gather_platform env cx) True" for cx
    using fetching_platform [of env cx] assms(2) by (auto intro: fetching_weaken)
  then have "fetching (ebind (gather_platform env cx) k) True" for cx k by (rule fetching_prefix)
  then have "fetching (ebind (gather_local a b) (\<lambda>cx0. ebind (gather_platform env cx0) k)) (False \<or> True)" for a b k
    by (rule fetching_bind [OF fetching_local])
  then have "fetching (reconcile_locked env) (False \<or> (False \<or> (False \<or> (False \<or> True))))"
    unfolding reconcile_locked_def now_utc_def get_reconcile_watermark_def Let_def
    by (intro fetching_bind [OF fetching_outside] fetching_bind [OF fetching_query]) simp
  then have "(\<exists>h. snd (reconcile_locked env s) = moved h s)
      \<and> (case fst (reconcile_locked env s) of
           Inl e \<Rightarrow> exn_cls e = ReconciliationError | Inr _ \<Rightarrow> \<not> (False \<or> (False \<or> (False \<or> (False \<or> True)))))"
    unfolding fetching_def by blast
  then have f: "\<exists>h. snd (reconcile_locked env s) = moved h s"
      "case fst (reconcile_locked env s) of Inl e \<Rightarrow> exn_cls e = ReconciliationError | Inr _ \<Rightarrow> False"
    by (auto split: sum.splits)
  have "check_not_shutdown s = (Inr (), s)"
    using assms(1) by (simp add: check_not_shutdown_def ebind_eget eret_def)
  then have "engine_reconcile env s = reconcile_locked env s"
    by (simp add: engine_reconcile_def eff_run(6))
  with f show ?thesis by (auto simp: fails_with_def split: sum.splits)
qed

definition dark_env :: "desk eenv" where
  "dark_env = desk_env\<lparr>ee_adapter := desk_adapter\<lparr>ad_fetch_balances := eraise PlatformConnectionError ''down''\<rparr>\<rparr>"

theorem reconcile_abort_witness:
  "fails_with (fst (engine_reconcile dark_env (desk_engine (halt_init None)))) ReconciliationError"
proof -
  have "always_fails (ad_fetch_balances (ee_adapter dark_env))"
    by (simp add: always_fails_def dark_env_def elift_def exn_is_def numeral_eq_Suc)
  moreover have "\<not> en_shutdown (desk_engine (halt_init None))" by (simp add: desk_engine_def)
  ultimately show ?thesis using reconcile_abort by blast
qed

end
