(* ===== verification/UTE_Engine_Edges.thy ===== *)
theory UTE_Engine_Edges
  imports UTE_Engine_Passes
begin

text \<open>
  The edges of the engine: what a stopped engine refuses, what a placement that timed out leaves
  behind, and what an account change persists when automatic halting is disabled.
\<close>

subsection \<open>After the shutdown\<close>

lemma dead_check: "en_shutdown s \<Longrightarrow> check_not_shutdown s = (raise_exn EngineShutdownError ''Engine has been shut down'', s)"
  by (simp add: check_not_shutdown_def ebind_eget elift_def)

lemma dead_engine_rejects:
  assumes "en_shutdown s"
  defines "dead \<equiv> Exn EngineShutdownError ''Engine has been shut down''"
  shows "place_order env u s = (Inl dead, s)" "modify_order env m s = (Inl dead, s)"
    "cancel_order env c s = (Inl dead, s)" "engine_get_order env c s = (Inl dead, s)"
    "engine_fetch_spec env i s = (Inl dead, s)" "engine_reconcile env s = (Inl dead, s)"
    "clear_halt env sc oi s = (Inl dead, s)" "ashutdown env s = (Inr (), s)"
  unfolding dead_def place_order_def modify_order_def cancel_order_def engine_get_order_def
    engine_fetch_spec_def engine_reconcile_def clear_halt_def ashutdown_def
  by (simp_all add: eff_run(5) dead_check [OF assms(1)] ebind_eget assms(1) eret_def)

subsection \<open>A timeout taken for a success\<close>

text \<open>
  The order the venue knows is returned and its id is remembered, but no record is stored: until a
  reconciliation imports it, cancelling it through the engine fails.
\<close>

lemma timeout_unrecorded:
  assumes "resolve_timeout env (Some c) e s = (Inr r, s')"
  shows "tw_store (en_core s') = tw_store (en_core s) \<and> tw_events (en_core s') = tw_events (en_core s)
    \<and> en_known s' = insert (re_client_id r) (en_known s) \<and> hb_budget (hub_of s') = hb_budget (hub_of s)"
  using assms
  by (auto simp: resolve_timeout_def ebind_eq know_def eupd_def eret_def elift_def at_venue_def core_def
      venue_def hub_lift_def hub_of_def split: option.splits prod.splits)

lemma cancel_unrecorded:
  assumes "\<not> en_shutdown s" and "List.find (\<lambda>r. or_client_id r = c) (so_orders (tw_store (en_core s))) = None"
  shows "fails_with (fst (cancel_order env c s)) OrderNotFoundError"
proof -
  have "check_not_shutdown s = (Inr (), s)" using assms(1) by (simp add: check_not_shutdown_def ebind_eget eret_def)
  then have "cancel_order env c s = core (dispatch_cancel_order (eng_env env) c) s"
    by (simp add: cancel_order_def eff_run(6))
  then show ?thesis
    using assms(2)
    by (simp add: core_def dispatch_cancel_order_def existing_order_def new_id_def outside_def ebind_def
        in_store_def get_order_def eget_def elift_def fails_with_def split: prod.splits)
qed

subsection \<open>An account change without automatic halting\<close>

text \<open>
  The callback asks the machine, which refuses; the scheduled task does not ask again and stores the
  halt, so the next start restores a halt that was never in effect.
\<close>

lemma at_outside_run:
  "at_outside g s = (Inr (fst (g (hb_venue (hub_of s)))), moved (snd (g (hb_venue (hub_of s)))) s)"
  by (cases "g (hb_venue (hub_of s))")
    (simp add: at_outside_def core_def outside_def hub_outside_def moved_def set_hub_def hub_of_def)

lemma moved_parts [simp]: "tw_store (en_core (moved v s)) = tw_store (en_core s)" "machine (moved v s) = machine s"
  by (simp_all add: moved_def set_hub_def machine_def)

lemma publish_at_run:
  "\<exists>s1. publish_at env t c b s = (Inr (), s1) \<and> tw_store (en_core s1) = tw_store (en_core s) \<and> machine s1 = machine s"
  unfolding publish_at_def fresh_id_def
  by (simp add: eff_run(6) at_outside_run) (simp add: core_def eupd_def machine_def moved_def set_hub_def)

lemma write_halt_run:
  assumes "\<forall>v. fst (ee_new_id env v) \<notin> hv_id ` set (so_halt_events (tw_store (en_core s)))"
  shows "\<exists>s1. write_halt env t c a sc i x y z s = (Inr (), s1) \<and> machine s1 = machine s"
proof -
  have n: "fst (ee_new_id env (hb_venue (hub_of s))) \<notin> set (map hv_id (so_halt_events (tw_store (en_core s))))"
    using assms by simp
  show ?thesis
    unfolding write_halt_def fresh_id_def
    using n by (simp add: eff_run(6) at_outside_run)
      (simp add: at_store_def core_def in_store_def write_halt_event_def ebind_eget eupd_def machine_def moved_def set_hub_def)
qed

lemma unentered_halt_persists:
  assumes "\<not> hc_auto (hm_config (machine s))" and "\<not> is_account_halted (machine s)"
    and "run_task env (T_account_change t d) (on_account_changed t d s) = (r, s')"
    and "\<forall>v. fst (ee_new_id env v) \<notin> hv_id ` set (so_halt_events (tw_store (en_core s)))"
  shows "machine s' = machine s
    \<and> \<lparr>hr_scope = SC_ACCOUNT, hr_instrument = None, hr_reason = ''account_changed'', hr_detail = d\<rparr>
        \<in> set (so_halts (tw_store (en_core s')))"
proof -
  let ?s1 = "on_account_changed t d s"
  have s1: "machine ?s1 = machine s" "tw_store (en_core ?s1) = tw_store (en_core s)"
    using assms(1)
    by (simp_all add: on_account_changed_def enter_halt_def schedule_task_def set_hub_def machine_def)
  obtain s2 where 2: "publish_at env t None (HaltEnteredEvent SC_ACCOUNT None ''account_changed'' d) ?s1 = (Inr (), s2)"
    "tw_store (en_core s2) = tw_store (en_core ?s1)" "machine s2 = machine ?s1"
    using publish_at_run by blast
  have "\<forall>v. fst (ee_new_id env v) \<notin> hv_id ` set (so_halt_events (tw_store (en_core s2)))"
    using assms(4) s1 2 by simp
  then obtain s3 where 3: "write_halt env t None HA_ENTERED SC_ACCOUNT None ''account_changed'' d None s2 = (Inr (), s3)"
    "machine s3 = machine s2"
    using write_halt_run by blast
  obtain st where 4: "upsert_halt SC_ACCOUNT None ''account_changed'' d (tw_store (en_core s3)) = (Inr (), st)"
    and row: "\<lparr>hr_scope = SC_ACCOUNT, hr_instrument = None, hr_reason = ''account_changed'', hr_detail = d\<rparr> \<in> set (so_halts st)"
    by (simp add: upsert_halt_def eupd_def)
  have 5: "at_store (upsert_halt SC_ACCOUNT None ''account_changed'' d) s3 = (Inr (), s3\<lparr>en_core := (en_core s3)\<lparr>tw_store := st\<rparr>\<rparr>)"
    by (rule at_store_run) (rule 4)
  have "s' = s3\<lparr>en_core := (en_core s3)\<lparr>tw_store := st\<rparr>\<rparr>"
    using assms(3) by (simp add: persist_account_change_def logged_def etry_def eff_run(6) 2(1) 3(1) 5)
  then have "machine s' = machine ?s1 \<and> \<lparr>hr_scope = SC_ACCOUNT, hr_instrument = None,
        hr_reason = ''account_changed'', hr_detail = d\<rparr> \<in> set (so_halts (tw_store (en_core s')))"
    using row 2(3) 3(2) by (simp add: machine_def)
  with s1 show ?thesis by simp
qed

end
