(* ===== verification/UTE_Worker.thy ===== *)
theory UTE_Worker
  imports UTE_Trailing_Lifecycle
begin

text \<open>
  The polling worker of \<^verbatim>\<open>core/trailing/worker.py\<close>: one cycle samples each due instrument once and
  refreshes the ATR of a group after a candle has closed, and hands both to the trailing manager.
  Monotonic times are rationals in seconds (their floating-point rounding is not modelled), instants integers in microseconds. The coroutines of a
  \<^verbatim>\<open>gather\<close> run one after the other: all of them run, and the first exception is raised at the end.
\<close>

subsection \<open>State\<close>

record 'v worker =
  wk_world :: "'v tworld"
  wk_last_fetch :: "(instrument, rat) dict"
  wk_backoff_until :: "(instrument, rat) dict"
  wk_backoff_attempts :: "(instrument, int) dict"
  wk_next_atr :: "(instrument \<times> candle_timeframe, instant) dict"
  wk_running :: bool

record 'v wenv =
  we_tenv :: "'v tenv"
  we_monotonic :: "'v \<Rightarrow> rat \<times> 'v"

type_synonym ('v, 'a) wop = "('v worker, 'a) eff"

definition in_world :: "('v, 'a) top \<Rightarrow> ('v, 'a) wop" where
  "in_world f = (\<lambda>s. case f (wk_world s) of (r, w) \<Rightarrow> (r, s\<lparr>wk_world := w\<rparr>))"

definition start_worker :: "('v, unit) wop" where
  "start_worker = eupd (\<lambda>s. s\<lparr>wk_running := True\<rparr>)"

definition stop_worker :: "('v, unit) wop" where
  "stop_worker = eupd (\<lambda>s. s\<lparr>wk_running := False\<rparr>)"

subsection \<open>Times\<close>

fun timeframe_seconds :: "candle_timeframe \<Rightarrow> int" where
  "timeframe_seconds TF_M1 = 60"
| "timeframe_seconds TF_M5 = 300"
| "timeframe_seconds TF_M15 = 900"
| "timeframe_seconds TF_M30 = 1800"
| "timeframe_seconds TF_H1 = 3600"
| "timeframe_seconds TF_H4 = 14400"
| "timeframe_seconds TF_H8 = 28800"
| "timeframe_seconds TF_H12 = 43200"
| "timeframe_seconds TF_D1 = 86400"

fun finite_part :: "py_float \<Rightarrow> rat" where
  \<comment> \<open>the configuration's constructor refuses non-finite values\<close>
  "finite_part (PF x) = x"
| "finite_part PF_nonfinite = 0"

definition micros :: "rat \<Rightarrow> int" where
  \<comment> \<open>\<^verbatim>\<open>timedelta(seconds=x)\<close>, rounded to microseconds\<close>
  "micros x = round_half_even (x * 1000000)"

definition next_candle_close :: "instant \<Rightarrow> candle_timeframe \<Rightarrow> rat \<Rightarrow> instant" where
  "next_candle_close as_of tf settle =
     (let seconds = timeframe_seconds tf;
          epoch = (trunc_int (of_int as_of / 1000000) div seconds + 1) * seconds
      in epoch * 1000000 + micros settle)"

definition MAX_BACKOFF_SECONDS :: rat where
  "MAX_BACKOFF_SECONDS = 60"

definition backoff_delay :: "trailing_config \<Rightarrow> int \<Rightarrow> rat" where
  "backoff_delay c attempt =
     min (max (finite_part (tc_poll_interval c)) 1 * 2 ^ nat (min attempt 6)) MAX_BACKOFF_SECONDS"

definition due :: "'v wenv \<Rightarrow> 'v worker \<Rightarrow> instrument \<Rightarrow> rat \<Rightarrow> bool" where
  "due env s i now =
     (let k = inst_id i in
      if (case dict_get (wk_backoff_until s) k of None \<Rightarrow> False | Some t \<Rightarrow> now < t) then False
      else
        let interval = max (finite_part (tc_poll_interval (te_config (we_tenv env))))
                           (mc_min_interval (ad_market_cap (te_adapter (we_tenv env)) i))
        in case dict_get (wk_last_fetch s) k of None \<Rightarrow> True | Some t \<Rightarrow> interval \<le> now - t)"

subsection \<open>Groups\<close>

definition group_by :: "('a \<Rightarrow> 'k) \<Rightarrow> 'a list \<Rightarrow> ('k, 'a list) dict" where
  \<comment> \<open>a \<^verbatim>\<open>defaultdict(list)\<close> filled in order\<close>
  "group_by f xs =
     foldl (\<lambda>d x. dict_set (f x) ((case dict_get d (f x) of None \<Rightarrow> [] | Some ys \<Rightarrow> ys) @ [x]) d) [] xs"

fun egather :: "('w, unit) eff list \<Rightarrow> ('w, unit) eff" where
  "egather [] = eret ()"
| "egather (m # ms) =
     ebind (eattempt m) (\<lambda>r.
     ebind (eattempt (egather ms)) (\<lambda>q.
     elift (case r of Inl e \<Rightarrow> Inl e | Inr _ \<Rightarrow> q)))"

subsection \<open>One instrument\<close>

definition note_fetch :: "instrument \<Rightarrow> rat \<Rightarrow> 'v worker \<Rightarrow> 'v worker" where
  "note_fetch i now s = s\<lparr>wk_last_fetch := dict_set (inst_id i) now (wk_last_fetch s)\<rparr>"

definition back_off :: "trailing_config \<Rightarrow> instrument \<Rightarrow> rat \<Rightarrow> 'v worker \<Rightarrow> 'v worker" where
  "back_off c i now s =
     (let attempt = (case dict_get (wk_backoff_attempts s) (inst_id i) of None \<Rightarrow> 0 | Some n \<Rightarrow> n) + 1
      in s\<lparr>wk_backoff_attempts := dict_set (inst_id i) attempt (wk_backoff_attempts s),
           wk_backoff_until := dict_set (inst_id i) (now + backoff_delay c attempt) (wk_backoff_until s)\<rparr>)"

definition forget_backoff :: "instrument \<Rightarrow> 'v worker \<Rightarrow> 'v worker" where
  "forget_backoff i s = s\<lparr>wk_backoff_attempts := dict_del (inst_id i) (wk_backoff_attempts s),
     wk_backoff_until := dict_del (inst_id i) (wk_backoff_until s)\<rparr>"

definition fail_states :: "'v wenv \<Rightarrow> trailing_state list \<Rightarrow> string \<Rightarrow> ('v, unit) wop" where
  "fail_states env ts reason =
     efor ts (\<lambda>t. in_world (edrop (on_ticker_failure (we_tenv env) (ts_id t) reason)))"

definition poll_instrument ::
    "'v wenv \<Rightarrow> rat \<Rightarrow> instrument \<Rightarrow> trailing_state list \<Rightarrow> ('v, unit) wop" where
  "poll_instrument env now i ts =
     (let te = we_tenv env in
      ebind (eupd (note_fetch i now)) (\<lambda>_.
      ebind (eattempt (in_world (venue (ad_fetch_ticker (te_adapter te) i)))) (\<lambda>r.
      case r of
        Inl e \<Rightarrow>
          if exn_is (exn_cls e) RateLimitError then eupd (back_off (te_config te) i now)
          else fail_states env ts (exn_text e)
      | Inr tk \<Rightarrow>
          ebind (eupd (forget_backoff i)) (\<lambda>_.
          case tk of
            None \<Rightarrow> fail_states env ts ''no ticker available''
          | Some k \<Rightarrow>
              ebind (ewhen (tc_publish_tickers (te_config te)) (in_world (publish_ticker_event te i k))) (\<lambda>_.
              efor ts (\<lambda>t. in_world (edrop (on_ticker te (ts_id t) k))))))))"

subsection \<open>ATR groups\<close>

definition first_refresh :: "trailing_state list \<Rightarrow> instant \<Rightarrow> instant" where
  "first_refresh ts wall =
     Max (set (map (\<lambda>t. case ts_atr_as_of t of None \<Rightarrow> wall | Some a \<Rightarrow> a) ts))"

definition set_next_atr :: "instrument \<times> candle_timeframe \<Rightarrow> instant \<Rightarrow> ('v, unit) wop" where
  "set_next_atr k t = eupd (\<lambda>s. s\<lparr>wk_next_atr := dict_set k t (wk_next_atr s)\<rparr>)"

definition atr_failed :: "'v wenv \<Rightarrow> trailing_state list \<Rightarrow> string \<Rightarrow> ('v, unit) wop" where
  "atr_failed env ts reason =
     efor ts (\<lambda>t. in_world (edrop (on_atr_failure (we_tenv env) (ts_id t) reason)))"

definition refresh_period ::
    "'v wenv \<Rightarrow> candle list \<Rightarrow> instant \<Rightarrow> int \<times> trailing_state list \<Rightarrow> ('v, unit) wop" where
  "refresh_period env candles wall p =
     (case wilder_atr candles (fst p) of
        Inl e \<Rightarrow> atr_failed env (snd p) (exn_text e)
      | Inr a \<Rightarrow> efor (snd p) (\<lambda>t. in_world (edrop (on_atr (we_tenv env) (ts_id t) a wall))))"

definition period_of :: "trailing_state \<Rightarrow> int" where
  "period_of t = (case tq_atr_period (ts_spec t) of None \<Rightarrow> 0 | Some n \<Rightarrow> n)"

definition with_period :: "trailing_state list \<Rightarrow> trailing_state list" where
  "with_period ts = filter (\<lambda>t. tq_atr_period (ts_spec t) \<noteq> None) ts"

definition settle_seconds :: "'v wenv \<Rightarrow> rat" where
  "settle_seconds env = finite_part (tc_settle (te_config (we_tenv env)))"

definition apply_candles ::
    "'v wenv \<Rightarrow> instant \<Rightarrow> instrument \<times> candle_timeframe \<Rightarrow> trailing_state list \<Rightarrow> candle list result
     \<Rightarrow> ('v, unit) wop" where
  "apply_candles env wall k ts r =
     (let again = set_next_atr k (next_candle_close wall (snd k) (settle_seconds env)) in
      case r of
        Inl e \<Rightarrow> ebind (atr_failed env ts (exn_text e)) (\<lambda>_. again)
      | Inr candles \<Rightarrow>
          ebind (efor (group_by period_of (with_period ts)) (refresh_period env candles wall)) (\<lambda>_. again))"

definition fetch_group ::
    "'v wenv \<Rightarrow> instant \<Rightarrow> instrument \<times> candle_timeframe \<Rightarrow> trailing_state list \<Rightarrow> instant \<Rightarrow> ('v, unit) wop" where
  "fetch_group env wall k ts next_refresh =
     (if wall < next_refresh then eret ()
      else if with_period ts = [] then eret ()
      else
        ebind (eattempt (in_world (venue (ad_fetch_candles (te_adapter (we_tenv env)) (ts_instrument (hd ts)) (snd k)
                 (Max (set (map period_of (with_period ts))) + 1)))))
          (apply_candles env wall k ts))"

definition refresh_atr_group ::
    "'v wenv \<Rightarrow> instant \<Rightarrow> (instrument \<times> candle_timeframe) \<times> trailing_state list \<Rightarrow> ('v, unit) wop" where
  "refresh_atr_group env wall g =
     ebind (eget (\<lambda>s. dict_get (wk_next_atr s) (fst g))) (\<lambda>known.
     case known of
       Some t \<Rightarrow> fetch_group env wall (fst g) (snd g) t
     | None \<Rightarrow>
         let t = next_candle_close (first_refresh (snd g) wall) (snd (fst g)) (settle_seconds env) in
         ebind (set_next_atr (fst g) t) (\<lambda>_. fetch_group env wall (fst g) (snd g) t))"

definition atr_key :: "trailing_state \<Rightarrow> instrument \<times> candle_timeframe" where
  "atr_key t = (inst_id (ts_instrument t),
     (case tq_atr_timeframe (ts_spec t) of None \<Rightarrow> TF_M1 | Some tf \<Rightarrow> tf))"

definition refresh_atr :: "'v wenv \<Rightarrow> trailing_state list \<Rightarrow> instant \<Rightarrow> ('v, unit) wop" where
  "refresh_atr env ts wall =
     egather (map (refresh_atr_group env wall)
       (group_by atr_key
         (filter (\<lambda>t. tq_atr_timeframe (ts_spec t) \<noteq> None \<and> tq_atr_period (ts_spec t) \<noteq> None) ts)))"

subsection \<open>The cycle\<close>

definition polled :: "trailing_state \<Rightarrow> bool" where
  "polled t \<longleftrightarrow> ts_mode t = TM_SYNTHETIC \<and> ts_phase t \<in> {ARMED, DEGRADED}"

definition run_once :: "'v wenv \<Rightarrow> rat option \<Rightarrow> ('v, unit) wop" where
  "run_once env given =
     (let te = we_tenv env in
      ebind (case given of Some t \<Rightarrow> eret t | None \<Rightarrow> in_world (outside (we_monotonic env))) (\<lambda>now.
      ebind (in_world (list_states te None True)) (\<lambda>all.
      let states = filter polled all; atr_states = filter (\<lambda>t. uses_atr (ts_spec t)) states in
      if states = [] then eret ()
      else
        ebind (ewhen (atr_states \<noteq> [])
                 (ebind (in_world (clock te)) (\<lambda>wall. refresh_atr env atr_states wall))) (\<lambda>_.
        ebind (eget (\<lambda>s. filter (\<lambda>(_, ts). due env s (ts_instrument (hd ts)) now)
                           (group_by (\<lambda>t. inst_id (ts_instrument t)) states))) (\<lambda>groups.
        egather (map (\<lambda>(_, ts). poll_instrument env now (ts_instrument (hd ts)) ts) groups))))))"

text \<open>One turn of the loop: a failed cycle is logged; the loop ends when the stop event is set.\<close>

definition worker_turn :: "'v wenv \<Rightarrow> ('v, unit) wop" where
  "worker_turn env =
     ebind (eget wk_running) (\<lambda>go. ewhen go (etry (run_once env None) (\<lambda>_. eret ())))"

end
