(* ===== verification/UTE_Worker_Pacing.thy ===== *)
theory UTE_Worker_Pacing
  imports UTE_Worker
begin

text \<open>
  How often the worker asks the venue: at most once per interval and instrument for a ticker, later
  after a rate-limit error, and at most once per closed candle for the ATR of a group.
\<close>

definition pace :: "'v worker \<Rightarrow> (instrument, rat) dict \<times> (instrument, rat) dict \<times> (instrument, int) dict
    \<times> (instrument \<times> candle_timeframe, instant) dict" where
  "pace s = (wk_last_fetch s, wk_backoff_until s, wk_backoff_attempts s, wk_next_atr s)"

lemma pace_in_world: "safe (\<lambda>s. pace s = p) (in_world f) (\<lambda>_. True)"
  by (auto simp: safe_def in_world_def pace_def split: prod.splits sum.splits)

lemma pace_efor_world: "safe (\<lambda>s. pace s = p) (efor xs (\<lambda>x. in_world (f x))) (\<lambda>_. True)"
  by (intro safe_efor pace_in_world)

lemma pace_failed:
  "safe (\<lambda>s. pace s = p) (fail_states env ts x) (\<lambda>_. True)"
  "safe (\<lambda>s. pace s = p) (atr_failed env ts x) (\<lambda>_. True)"
  by (simp_all add: fail_states_def atr_failed_def pace_efor_world)

lemma pace_D: "safe (\<lambda>s. pace s = p) m (\<lambda>_. True) \<Longrightarrow> pace s = p \<Longrightarrow> m s = (r, s') \<Longrightarrow> pace s' = p"
  by (erule safeD)

subsection \<open>Tickers\<close>

lemma backoff_delay_mono: "0 \<le> m \<Longrightarrow> m \<le> n \<Longrightarrow> backoff_delay c m \<le> backoff_delay c n"
proof -
  assume m: "0 \<le> m" "m \<le> n"
  then have "(2 :: rat) ^ nat (min m 6) \<le> 2 ^ nat (min n 6)" by (intro power_increasing nat_mono) auto
  then show ?thesis
    unfolding backoff_delay_def by (intro min.mono mult_left_mono order.refl) auto
qed

lemma backoff_delay_bounds: "1 \<le> n \<Longrightarrow> 2 \<le> backoff_delay c n \<and> backoff_delay c n \<le> 60"
proof -
  assume "1 \<le> n"
  then have "(2 :: rat) ^ 1 \<le> 2 ^ nat (min n 6)" by (intro power_increasing) auto
  then have "1 * 2 \<le> max (finite_part (tc_poll_interval c)) 1 * 2 ^ nat (min n 6)"
    by (intro mult_mono) auto
  then show ?thesis by (simp add: backoff_delay_def MAX_BACKOFF_SECONDS_def)
qed

definition poll_gap :: "'v wenv \<Rightarrow> instrument \<Rightarrow> rat" where
  "poll_gap env i = max (finite_part (tc_poll_interval (te_config (we_tenv env))))
     (mc_min_interval (ad_market_cap (te_adapter (we_tenv env)) i))"

definition attempts :: "'v worker \<Rightarrow> instrument \<Rightarrow> int" where
  "attempts s i = (case dict_get (wk_backoff_attempts s) (inst_id i) of None \<Rightarrow> 0 | Some n \<Rightarrow> n)"

lemma due_gap: "dict_get (wk_last_fetch s) (inst_id i) = Some now \<Longrightarrow> due env s i t \<Longrightarrow> poll_gap env i \<le> t - now"
  by (auto simp: due_def poll_gap_def Let_def split: if_splits option.splits)

text \<open>
  Pacing of the ticker polls. Once an instrument has been polled, at whatever outcome, it is not
  due again before the larger of the poll interval and the venue's own minimum has passed. After a
  rate-limit error it is not due either before the back-off has passed, which is between two seconds
  and a minute and never shorter than the previous one, and no trailing state is touched; a ticker
  ends the back-off.
\<close>

theorem poll_pacing:
  assumes run: "poll_instrument env now i ts s = (r, s')" and nonneg: "0 \<le> attempts s i"
  defines "out \<equiv> fst (ad_fetch_ticker (te_adapter (we_tenv env)) i (tw_venue (wk_world s)))"
  defines "pause \<equiv> backoff_delay (te_config (we_tenv env)) (attempts s i + 1)"
  shows "(\<forall>t. due env s' i t \<longrightarrow> poll_gap env i \<le> t - now)
    \<and> (fails_with out RateLimitError \<longrightarrow> r = Inr () \<and> tw_store (wk_world s') = tw_store (wk_world s)
        \<and> attempts s' i = attempts s i + 1 \<and> (\<forall>t. due env s' i t \<longrightarrow> pause \<le> t - now)
        \<and> 2 \<le> pause \<and> pause \<le> 60 \<and> backoff_delay (te_config (we_tenv env)) (attempts s i) \<le> pause)
    \<and> (is_ok out \<longrightarrow> attempts s' i = 0 \<and> dict_get (wk_backoff_until s') (inst_id i) = None)"
proof -
  let ?te = "we_tenv env"
  let ?s1 = "note_fetch i now s"
  obtain w where w: "in_world (venue (ad_fetch_ticker (te_adapter ?te) i)) ?s1 = (out, ?s1\<lparr>wk_world := w\<rparr>)"
    and ws: "tw_store w = tw_store (wk_world s)"
    by (cases "ad_fetch_ticker (te_adapter ?te) i (tw_venue (wk_world s))")
      (simp add: in_world_def venue_def note_fetch_def out_def)
  let ?s2 = "?s1\<lparr>wk_world := w\<rparr>"
  have last2: "dict_get (wk_last_fetch ?s2) (inst_id i) = Some now" by (simp add: note_fetch_def)
  have go: "(case out of
        Inl e \<Rightarrow> if exn_is (exn_cls e) RateLimitError then eupd (back_off (te_config ?te) i now)
                 else fail_states env ts (exn_text e)
      | Inr tk \<Rightarrow> ebind (eupd (forget_backoff i)) (\<lambda>_.
          case tk of None \<Rightarrow> fail_states env ts ''no ticker available''
          | Some k \<Rightarrow> ebind (ewhen (tc_publish_tickers (te_config ?te)) (in_world (publish_ticker_event ?te i k))) (\<lambda>_.
              efor ts (\<lambda>t. in_world (edrop (on_ticker ?te (ts_id t) k)))))) ?s2 = (r, s')"
    using run by (simp add: poll_instrument_def Let_def ebind_eupd [of "note_fetch i now"] ebind_eattempt w)
  show ?thesis
  proof (cases out)
    case (Inl e)
    show ?thesis
    proof (cases "exn_is (exn_cls e) RateLimitError")
      case True
      with go Inl have s': "s' = back_off (te_config ?te) i now ?s2" "r = Inr ()" by (simp_all add: eupd_def)
      have l: "dict_get (wk_last_fetch s') (inst_id i) = Some now" using last2 by (simp add: s'(1) back_off_def Let_def)
      have u: "dict_get (wk_backoff_until s') (inst_id i) = Some (now + pause)"
        by (simp add: s'(1) back_off_def Let_def note_fetch_def pause_def attempts_def)
      have "pause \<le> t - now" if "due env s' i t" for t
        using that u by (auto simp: due_def Let_def split: if_splits)
      moreover have "attempts s' i = attempts s i + 1"
        by (simp add: s'(1) back_off_def Let_def attempts_def note_fetch_def)
      moreover have "tw_store (wk_world s') = tw_store (wk_world s)" using ws by (simp add: s'(1) back_off_def Let_def)
      moreover have "2 \<le> pause \<and> pause \<le> 60"
        unfolding pause_def by (rule backoff_delay_bounds) (use nonneg in simp)
      moreover have "backoff_delay (te_config ?te) (attempts s i) \<le> pause"
        unfolding pause_def by (rule backoff_delay_mono) (use nonneg in simp_all)
      ultimately show ?thesis using due_gap [OF l] Inl s'(2) by (auto simp: is_ok_def)
    next
      case False
      with go Inl have "fail_states env ts (exn_text e) ?s2 = (r, s')" by simp
      from pace_D [OF pace_failed(1) refl this] have "wk_last_fetch s' = wk_last_fetch ?s2" by (simp add: pace_def)
      then have l: "dict_get (wk_last_fetch s') (inst_id i) = Some now" using last2 by simp
      have "\<not> fails_with out RateLimitError" using Inl False by (auto simp: fails_with_def)
      with due_gap [OF l] Inl show ?thesis by (auto simp: is_ok_def)
    qed
  next
    case (Inr tk)
    let ?s3 = "forget_backoff i ?s2"
    have "safe (\<lambda>s. pace s = pace ?s3) (case tk of None \<Rightarrow> fail_states env ts ''no ticker available''
          | Some k \<Rightarrow> ebind (ewhen (tc_publish_tickers (te_config ?te)) (in_world (publish_ticker_event ?te i k))) (\<lambda>_.
              efor ts (\<lambda>t. in_world (edrop (on_ticker ?te (ts_id t) k))))) (\<lambda>_. True)"
      by (intro safe_case_option pace_failed safe_bind_ewhen pace_in_world pace_efor_world)
    moreover have "(case tk of None \<Rightarrow> fail_states env ts ''no ticker available''
          | Some k \<Rightarrow> ebind (ewhen (tc_publish_tickers (te_config ?te)) (in_world (publish_ticker_event ?te i k))) (\<lambda>_.
              efor ts (\<lambda>t. in_world (edrop (on_ticker ?te (ts_id t) k))))) ?s3 = (r, s')"
      using go Inr by (simp add: ebind_eupd)
    ultimately have p: "pace s' = pace ?s3" by (blast intro: pace_D)
    then have l: "dict_get (wk_last_fetch s') (inst_id i) = Some now"
      using last2 by (simp add: pace_def forget_backoff_def)
    have "attempts s' i = 0 \<and> dict_get (wk_backoff_until s') (inst_id i) = None"
      using p by (simp add: pace_def forget_backoff_def attempts_def)
    with due_gap [OF l] Inr show ?thesis by (simp add: fails_with_def)
  qed
qed

text \<open>A venue that limits every ticker: two seconds after the poll the instrument is due again, not earlier.\<close>

definition limited_env :: "paper wenv" where
  "limited_env = \<lparr>we_tenv = paper_env\<lparr>te_adapter := paper_adapter
       \<lparr>ad_fetch_ticker := (\<lambda>_. eraise RateLimitError ''429'')\<rparr>\<rparr>, we_monotonic = (\<lambda>p. (0, p))\<rparr>"

definition idle_worker :: "paper worker" where
  "idle_worker = \<lparr>wk_world = paper_world (halt_init None), wk_last_fetch = [], wk_backoff_until = [],
     wk_backoff_attempts = [], wk_next_atr = [], wk_running = True\<rparr>"

theorem poll_pacing_witness:
  "\<not> due limited_env (snd (poll_instrument limited_env 100 btc_spot [row_template] idle_worker)) btc_spot 101"
proof -
  obtain r s' where run: "poll_instrument limited_env 100 btc_spot [row_template] idle_worker = (r, s')" by force
  have "0 \<le> attempts idle_worker btc_spot" by (simp add: attempts_def idle_worker_def)
  moreover have "fails_with (fst (ad_fetch_ticker (te_adapter (we_tenv limited_env)) btc_spot (tw_venue (wk_world idle_worker)))) RateLimitError"
    by (simp add: limited_env_def elift_def)
  ultimately have "2 \<le> t - 100" if "due limited_env s' btc_spot t" for t
    using poll_pacing [OF run] that by force
  from this [of 101] show ?thesis by (auto simp: run)
qed

subsection \<open>Candles\<close>

lemma next_close:
  assumes "0 \<le> t" and "n = next_candle_close t tf settle - micros settle" and "m = timeframe_seconds tf * 1000000"
  shows "t < n \<and> n \<le> t + m \<and> n mod m = 0"
proof -
  have pos: "0 < timeframe_seconds tf" by (cases tf) simp_all
  have "trunc_int (of_int t / 1000000) = t div 1000000"
    using assms(1) floor_divide_of_int_eq [of t 1000000, where ?'a = rat] by (simp add: trunc_int_def)
  then have n: "n = (t div 1000000 div timeframe_seconds tf + 1) * m"
    by (simp add: assms(2,3) next_candle_close_def Let_def)
  also have "t div 1000000 div timeframe_seconds tf = t div m"
    using pos by (simp add: assms(3) zdiv_zmult2_eq [symmetric] mult.commute)
  finally have n: "n = t div m * m + m" by (simp add: algebra_simps)
  have "0 < m" using pos by (simp add: assms(3))
  then have "0 \<le> t mod m" "t mod m < m" "t = t div m * m + t mod m" by simp_all
  with n have "t < n" "n \<le> t + m" by linarith+
  then show ?thesis by (simp add: n)
qed

lemma micros_nonneg: "0 \<le> x \<Longrightarrow> 0 \<le> micros x"
  unfolding micros_def using round_half_even_mono [of 0 "x * 1000000"] round_half_even_of_int [of 0] by simp

lemma pace_period: "safe (\<lambda>s. pace s = p) (refresh_period env cs wall x) (\<lambda>_. True)"
  unfolding refresh_period_def by (intro safe_case_sum pace_failed pace_efor_world)

definition next_refresh :: "'v wenv \<Rightarrow> 'v worker \<Rightarrow> instant \<Rightarrow> instrument \<times> candle_timeframe \<Rightarrow> trailing_state list \<Rightarrow> instant" where
  "next_refresh env s wall k ts =
     (case dict_get (wk_next_atr s) k of Some t \<Rightarrow> t
      | None \<Rightarrow> next_candle_close (first_refresh ts wall) (snd k) (settle_seconds env))"

text \<open>
  The candle schedule. Before its next refresh time a group asks the venue for nothing and its
  states are not touched. At or after that time, whether the candles arrive, are too few or the fetch
  fails, a pass in which the manager raises nothing schedules the next refresh strictly later, at the
  first close of a candle of the group's timeframe after the present, plus the settle time: at most
  one fetch per candle.
\<close>

theorem candle_schedule:
  assumes run: "refresh_atr_group env wall (k, ts) s = (Inr (), s')" and wall: "0 \<le> wall"
    and settle: "0 \<le> settle_seconds env" and period: "with_period ts \<noteq> []"
  defines "lag \<equiv> micros (settle_seconds env)"
    and "candle \<equiv> timeframe_seconds (snd k) * 1000000"
  shows "(wall < next_refresh env s wall k ts \<longrightarrow> wk_world s' = wk_world s
        \<and> dict_get (wk_next_atr s') k = Some (next_refresh env s wall k ts))
    \<and> (next_refresh env s wall k ts \<le> wall \<longrightarrow>
        (\<exists>n. dict_get (wk_next_atr s') k = Some n \<and> wall < n \<and> n \<le> wall + candle + lag
           \<and> (n - lag) mod candle = 0))"
proof -
  let ?next = "next_refresh env s wall k ts" and ?close = "next_candle_close wall (snd k) (settle_seconds env)"
  let ?s1 = "s\<lparr>wk_next_atr := dict_set k ?next (wk_next_atr s)\<rparr>"
  obtain s1 where s1: "wk_world s1 = wk_world s" "dict_get (wk_next_atr s1) k = Some ?next"
    and go: "fetch_group env wall k ts ?next s1 = (Inr (), s')"
  proof (cases "dict_get (wk_next_atr s) k")
    case None
    with run that [of ?s1] show ?thesis
      by (simp add: refresh_atr_group_def Let_def ebind_eget set_next_atr_def ebind_eupd next_refresh_def)
  next
    case (Some t)
    with run that [of s] show ?thesis by (simp add: refresh_atr_group_def ebind_eget next_refresh_def)
  qed
  have late: "dict_get (wk_next_atr s') k = Some ?close" if "\<not> wall < ?next"
  proof -
    from go that period obtain r s2 where "apply_candles env wall k ts r s2 = (Inr (), s')"
      by (auto simp: fetch_group_def ebind_eattempt split: prod.splits)
    then show ?thesis
      by (auto simp: apply_candles_def Let_def ebind_eq set_next_atr_def eupd_def split: sum.splits)
  qed
  have c: "wall < ?close - lag \<and> ?close - lag \<le> wall + candle \<and> (?close - lag) mod candle = 0"
    using next_close [OF wall, of "?close - lag" "snd k" "settle_seconds env" candle] by (simp add: lag_def candle_def)
  have "0 \<le> lag" unfolding lag_def by (rule micros_nonneg [OF settle])
  with c have "wall < ?close" "?close \<le> wall + candle + lag" by auto
  with late c have "?next \<le> wall \<longrightarrow> (\<exists>n. dict_get (wk_next_atr s') k = Some n \<and> wall < n \<and> n \<le> wall + candle + lag
           \<and> (n - lag) mod candle = 0)" by auto
  moreover have "wall < ?next \<longrightarrow> wk_world s' = wk_world s \<and> dict_get (wk_next_atr s') k = Some ?next"
    using go s1 by (auto simp: fetch_group_def eret_def)
  ultimately show ?thesis by blast
qed

definition atr_state :: trailing_state where
  "atr_state = row_template\<lparr>ts_spec := (ts_spec row_template)\<lparr>tq_atr_period := Some 14, tq_atr_timeframe := Some TF_H1\<rparr>\<rparr>"

definition one_group :: "(instrument \<times> candle_timeframe) \<times> trailing_state list" where
  "one_group = ((btc_spot, TF_H1), [atr_state])"

theorem candle_schedule_witness:
  "\<exists>s' n. refresh_atr_group limited_env 3600000000 one_group (idle_worker\<lparr>wk_next_atr := [((btc_spot, TF_H1), 5)]\<rparr>)
      = (Inr (), s') \<and> dict_get (wk_next_atr s') (btc_spot, TF_H1) = Some n \<and> 3600000000 < n \<and> n \<le> 7202000000"
proof -
  let ?s = "idle_worker\<lparr>wk_next_atr := [((btc_spot, TF_H1), 5)]\<rparr>"
  have "fst (refresh_atr_group limited_env 3600000000 one_group ?s) = Inr ()" by code_simp
  then obtain s' where run: "refresh_atr_group limited_env 3600000000 one_group ?s = (Inr (), s')"
    by (metis prod.collapse)
  have settle: "settle_seconds limited_env = 2"
    by (simp add: settle_seconds_def limited_env_def paper_env_def default_trailing_config_def)
  have "with_period [atr_state] \<noteq> []" by (simp add: with_period_def atr_state_def)
  moreover have "next_refresh limited_env ?s 3600000000 (btc_spot, TF_H1) [atr_state] = 5" by (simp add: next_refresh_def)
  moreover have "micros 2 = 2000000" using round_half_even_of_int [of 2000000] by (simp add: micros_def)
  ultimately have "\<exists>n. dict_get (wk_next_atr s') (btc_spot, TF_H1) = Some n \<and> 3600000000 < n \<and> n \<le> 7202000000"
    using candle_schedule [OF run [unfolded one_group_def]] settle by force
  with run show ?thesis by blast
qed

end
