(* ===== verification/UTE_Comments.thy ===== *)
theory UTE_Comments
  imports UTE_Prelude "HOL-Library.Word"
begin

text \<open>
  \<^verbatim>\<open>mt5/comments.py\<close> of the MetaTrader adapter: a client order id that is a canonical UUID is packed
  into an order comment as \<^verbatim>\<open>U:\<close> and 22 base62 characters, and recovered from it. What the code uses
  of Python's \<^verbatim>\<open>uuid\<close> and \<^verbatim>\<open>int\<close> is modelled here too: sixteen bytes are a list of \<open>8 word\<close>.
\<close>

subsection \<open>Positional notation\<close>

definition value_be :: "nat \<Rightarrow> nat list \<Rightarrow> nat" where
  "value_be b ds = foldl (\<lambda>v d. v * b + d) 0 ds"

fun digits_be :: "nat \<Rightarrow> nat \<Rightarrow> nat \<Rightarrow> nat list" where
  \<comment> \<open>the last \<open>w\<close> digits\<close>
  "digits_be b 0 n = []"
| "digits_be b (Suc w) n = digits_be b w (n div b) @ [n mod b]"

lemma length_digits [simp]: "length (digits_be b w n) = w"
  by (induction b w n rule: digits_be.induct) simp_all

lemma value_snoc [simp]: "value_be b (ds @ [d]) = value_be b ds * b + d"
  by (simp add: value_be_def)

lemma value_Nil [simp]: "value_be b [] = 0"
  by (simp add: value_be_def)

lemma digits_below: "0 < b \<Longrightarrow> d \<in> set (digits_be b w n) \<Longrightarrow> d < b"
  by (induction b w n rule: digits_be.induct) auto

lemma value_digits: "0 < b \<Longrightarrow> n < b ^ w \<Longrightarrow> value_be b (digits_be b w n) = n"
proof (induction b w n rule: digits_be.induct)
  case (2 b w n)
  then have "n div b < b ^ w" by (simp add: less_mult_imp_div_less mult.commute)
  with 2 show ?case by simp
qed simp

lemma digits_value:
  "0 < b \<Longrightarrow> \<forall>d \<in> set ds. d < b \<Longrightarrow> digits_be b (length ds) (value_be b ds) = ds"
  by (induction ds rule: rev_induct) simp_all

lemma value_below: "0 < b \<Longrightarrow> \<forall>d \<in> set ds. d < b \<Longrightarrow> value_be b ds < b ^ length ds"
proof (induction ds rule: rev_induct)
  case (snoc d ds)
  then have "value_be b ds + 1 \<le> b ^ length ds" "d < b" by auto
  then have "(value_be b ds + 1) * b \<le> b ^ length ds * b" by (intro mult_le_mono1)
  with \<open>d < b\<close> show ?case by (simp add: algebra_simps)
qed simp

subsection \<open>Characters\<close>

definition hex_alphabet :: string where
  "hex_alphabet = ''0123456789abcdef''"

definition ALPHABET :: string where
  "ALPHABET = ''0123456789ABCDEFGHIJKLMNOPQRSTUVWXYZabcdefghijklmnopqrstuvwxyz''"

fun index_in :: "string \<Rightarrow> char \<Rightarrow> nat option" where
  "index_in [] c = None"
| "index_in (a # as) c = (if a = c then Some 0 else map_option Suc (index_in as c))"

lemma index_in_Some: "index_in as c = Some n \<Longrightarrow> n < length as \<and> as ! n = c"
  by (induction as c arbitrary: n rule: index_in.induct) (auto split: if_splits)

lemma index_in_nth: "distinct as \<Longrightarrow> n < length as \<Longrightarrow> index_in as (as ! n) = Some n"
  by (induction as arbitrary: n) (auto simp: nth_Cons nth_mem split: nat.splits)

lemma index_in_None: "index_in as c = None \<longleftrightarrow> c \<notin> set as"
  by (induction as) auto

lemma alphabets:
  "length hex_alphabet = 16" "distinct hex_alphabet" "length ALPHABET = 62" "distinct ALPHABET"
  by (simp_all add: hex_alphabet_def ALPHABET_def)

definition digits_in :: "string \<Rightarrow> string \<Rightarrow> nat list" where
  \<comment> \<open>the values of characters that all belong to the alphabet\<close>
  "digits_in as s = map (\<lambda>c. the (index_in as c)) s"

definition spell :: "string \<Rightarrow> nat list \<Rightarrow> string" where
  "spell as ds = map (\<lambda>d. as ! d) ds"

lemma digits_spell: "distinct as \<Longrightarrow> \<forall>d \<in> set ds. d < length as \<Longrightarrow> digits_in as (spell as ds) = ds"
  by (induction ds) (simp_all add: digits_in_def spell_def index_in_nth)

lemma spell_digits: "set s \<subseteq> set as \<Longrightarrow> spell as (digits_in as s) = s"
proof (induction s)
  case (Cons c s)
  then obtain n where "index_in as c = Some n" by (metis index_in_None insert_subset list.set(2) option.exhaust)
  with Cons index_in_Some [OF this] show ?case by (simp add: digits_in_def spell_def)
qed (simp add: digits_in_def spell_def)

lemma digits_in_below: "set s \<subseteq> set as \<Longrightarrow> \<forall>d \<in> set (digits_in as s). d < length as"
proof
  fix d assume s: "set s \<subseteq> set as" and "d \<in> set (digits_in as s)"
  then obtain c where c: "c \<in> set s" "d = the (index_in as c)" by (auto simp: digits_in_def)
  with s obtain n where "index_in as c = Some n" by (metis index_in_None option.exhaust subsetD)
  with c index_in_Some [OF this] show "d < length as" by simp
qed

lemma spell_below: "\<forall>d \<in> set ds. d < length as \<Longrightarrow> set (spell as ds) \<subseteq> set as"
  by (auto simp: spell_def)

subsection \<open>UUIDs and bytes\<close>

definition from_bytes :: "8 word list \<Rightarrow> nat" where
  \<comment> \<open>\<^verbatim>\<open>int.from_bytes(data, "big")\<close>\<close>
  "from_bytes bs = value_be 256 (map unat bs)"

definition to_bytes :: "nat \<Rightarrow> nat \<Rightarrow> 8 word list result" where
  \<comment> \<open>\<^verbatim>\<open>value.to_bytes(n, "big")\<close>; the overflow is re-raised as a value error\<close>
  "to_bytes n v = (if v < 256 ^ n then Inr (map of_nat (digits_be 256 n v))
                   else raise_exn PyValueError ''payload does not fit'')"

definition group_dashes :: "string \<Rightarrow> string" where
  "group_dashes h = take 8 h @ ''-'' @ take 4 (drop 8 h) @ ''-'' @ take 4 (drop 12 h) @ ''-''
     @ take 4 (drop 16 h) @ ''-'' @ drop 20 h"

definition strip_dashes :: "string \<Rightarrow> string" where
  "strip_dashes s = filter (\<lambda>c. c \<noteq> CHR ''-'') s"

definition canonical_uuid :: "string \<Rightarrow> bool" where
  \<comment> \<open>\<^verbatim>\<open>_CANONICAL_UUID_RE.fullmatch\<close>\<close>
  "canonical_uuid s \<longleftrightarrow> length s = 36 \<and> s = group_dashes (strip_dashes s)
     \<and> length (strip_dashes s) = 32 \<and> set (strip_dashes s) \<subseteq> set hex_alphabet"

definition uuid_bytes :: "string \<Rightarrow> 8 word list" where
  \<comment> \<open>\<^verbatim>\<open>uuid.UUID(s).bytes\<close>\<close>
  "uuid_bytes s = map of_nat (digits_be 256 16 (value_be 16 (digits_in hex_alphabet (strip_dashes s))))"

definition uuid_text :: "8 word list \<Rightarrow> string" where
  \<comment> \<open>\<^verbatim>\<open>str(uuid.UUID(bytes=data))\<close>\<close>
  "uuid_text bs = group_dashes (spell hex_alphabet (digits_be 16 32 (from_bytes bs)))"

subsection \<open>The codec\<close>

function base62_loop :: "nat \<Rightarrow> string" where
  \<comment> \<open>the characters in the order the loop appends them\<close>
  "base62_loop v = (if v = 0 then [] else ALPHABET ! (v mod 62) # base62_loop (v div 62))"
  by pat_completeness auto
termination by (relation "measure id") auto

declare base62_loop.simps [simp del]

definition encode_fixed_base62 :: "8 word list \<Rightarrow> nat \<Rightarrow> string" where
  "encode_fixed_base62 bs width =
     (let encoded = rev (base62_loop (from_bytes bs))
      in replicate (width - length encoded) (ALPHABET ! 0) @ encoded)"

fun base62_value :: "nat \<Rightarrow> string \<Rightarrow> nat result" where
  "base62_value v [] = Inr v"
| "base62_value v (c # cs) =
     (case index_in ALPHABET c of
        None \<Rightarrow> raise_exn PyValueError ''invalid base62 character''
      | Some d \<Rightarrow> base62_value (v * 62 + d) cs)"

definition decode_fixed_base62 :: "string \<Rightarrow> nat \<Rightarrow> 8 word list result" where
  "decode_fixed_base62 payload n = rbind (base62_value 0 payload) (to_bytes n)"

definition COMMENT_MAX_LENGTH :: nat where
  "COMMENT_MAX_LENGTH = 29"

definition UUID_PREFIX :: string where
  "UUID_PREFIX = ''U:''"

definition UUID_PAYLOAD_LENGTH :: nat where
  "UUID_PAYLOAD_LENGTH = 22"

definition encode_client_order_id :: "string \<Rightarrow> string option" where
  "encode_client_order_id cid =
     (if \<not> canonical_uuid cid then None
      else let comment = UUID_PREFIX @ encode_fixed_base62 (uuid_bytes cid) UUID_PAYLOAD_LENGTH
           in if COMMENT_MAX_LENGTH < length comment then None else Some comment)"

text \<open>A comment that is not a string is \<open>None\<close>.\<close>

definition decode_comment :: "string option \<Rightarrow> string option" where
  "decode_comment comment =
     (case comment of
        None \<Rightarrow> None
      | Some c \<Rightarrow>
          if \<not> starts_with c UUID_PREFIX then None
          else let payload = drop (length UUID_PREFIX) c
               in if length payload \<noteq> UUID_PAYLOAD_LENGTH then None
                  else case decode_fixed_base62 payload 16 of
                         Inl _ \<Rightarrow> None
                       | Inr bs \<Rightarrow> Some (uuid_text bs))"

subsection \<open>Correctness\<close>

lemma loop_digits:
  "v < 62 ^ w \<Longrightarrow> replicate (w - length (base62_loop v)) (ALPHABET ! 0) @ rev (base62_loop v)
     = spell ALPHABET (digits_be 62 w v) \<and> length (base62_loop v) \<le> w"
proof (induction w arbitrary: v)
  case 0
  then show ?case by (simp add: base62_loop.simps spell_def)
next
  case (Suc w)
  show ?case
  proof (cases "v = 0")
    case True
    then have "digits_be 62 n v = replicate n 0" for n
      by (induction n) (simp_all add: replicate_append_same)
    with True show ?thesis
      by (simp add: base62_loop.simps spell_def) (metis map_replicate replicate_Suc replicate_append_same)
  next
    case False
    have "v div 62 < 62 ^ w" using Suc.prems by (simp add: less_mult_imp_div_less mult.commute)
    from Suc.IH [OF this] False show ?thesis
      by (subst (1 2 3) base62_loop.simps) (simp add: spell_def)
  qed
qed

lemma base62_value_eq:
  "base62_value v s = Inr n \<longleftrightarrow> set s \<subseteq> set ALPHABET \<and> n = foldl (\<lambda>v d. v * 62 + d) v (digits_in ALPHABET s)"
  by (induction v s rule: base62_value.induct)
    (auto simp: digits_in_def index_in_None split: option.splits; metis index_in_None option.distinct(1))+

lemma from_to_bytes: "v < 256 ^ n \<Longrightarrow> from_bytes (map of_nat (digits_be 256 n v)) = v"
proof -
  assume v: "v < 256 ^ n"
  have "map unat (map of_nat (digits_be 256 n v) :: 8 word list) = map (\<lambda>d. d) (digits_be 256 n v)"
    unfolding map_map
    by (rule map_cong [OF refl]) (use digits_below [of 256 _ n v] in \<open>auto simp: unat_of_nat\<close>)
  then have "map unat (map of_nat (digits_be 256 n v) :: 8 word list) = digits_be 256 n v" by simp
  with v show ?thesis unfolding from_bytes_def by (simp only: value_digits)
qed

lemma powers: "(16::nat) ^ 32 = 256 ^ 16" "(256::nat) ^ 16 < 62 ^ 22"
  by simp_all

lemma of_nat_unat_bytes [simp]: "map of_nat (map unat bs) = (bs :: 8 word list)"
  by (simp add: map_idI)

lemma unat_below_256: "\<forall>d \<in> set (map unat (bs :: 8 word list)). d < 256"
proof
  fix d assume "d \<in> set (map unat bs)"
  then obtain b :: "8 word" where "d = unat b" by auto
  then show "d < 256" using unsigned_less [of b] by simp
qed

lemma to_from_bytes: "map of_nat (digits_be 256 (length bs) (from_bytes bs)) = (bs :: 8 word list)"
  using digits_value [OF _ unat_below_256 [of bs]] by (simp add: from_bytes_def del: map_map)

lemma strip_group: "length h = 32 \<Longrightarrow> CHR ''-'' \<notin> set h \<Longrightarrow> strip_dashes (group_dashes h) = h"
proof -
  assume h: "length h = 32" "CHR ''-'' \<notin> set h"
  have same: "filter (\<lambda>c. c \<noteq> CHR ''-'') xs = xs" if "set xs \<subseteq> set h" for xs
    using that h(2) by (auto simp: filter_id_conv)
  have "set (take n (drop m h)) \<subseteq> set h" for n m by (meson set_drop_subset set_take_subset subset_trans)
  then have mid: "filter (\<lambda>c. c \<noteq> CHR ''-'') (take n (drop m h)) = take n (drop m h)" for n m
    by (rule same)
  note keep = mid [of 4] mid [of 8 0, simplified] same [OF set_take_subset] same [OF set_drop_subset]
  have "strip_dashes (group_dashes h)
      = take 8 h @ take 4 (drop 8 h) @ take 4 (drop 12 h) @ take 4 (drop 16 h) @ drop 20 h"
    unfolding strip_dashes_def group_dashes_def filter_append filter.simps keep by simp
  also have "take 4 (drop 16 h) @ drop 20 h = drop 16 h"
    using append_take_drop_id [of 4 "drop 16 h"] by simp
  also have "take 4 (drop 12 h) @ drop 16 h = drop 12 h"
    using append_take_drop_id [of 4 "drop 12 h"] by simp
  also have "take 4 (drop 8 h) @ drop 12 h = drop 8 h"
    using append_take_drop_id [of 4 "drop 8 h"] by simp
  finally show ?thesis by simp
qed

lemma hex_text:
  "length (spell hex_alphabet (digits_be 16 32 n)) = 32"
  "set (spell hex_alphabet (digits_be 16 32 n)) \<subseteq> set hex_alphabet"
proof -
  have "\<forall>d \<in> set (digits_be 16 32 n). d < length hex_alphabet"
    using digits_below [of 16 _ 32 n] by (simp add: alphabets)
  then show "set (spell hex_alphabet (digits_be 16 32 n)) \<subseteq> set hex_alphabet" by (rule spell_below)
qed (simp add: spell_def)

lemma no_dash: "set h \<subseteq> set hex_alphabet \<Longrightarrow> CHR ''-'' \<notin> set h"
  by (auto simp: hex_alphabet_def)

lemma strip_uuid_text: "strip_dashes (uuid_text bs) = spell hex_alphabet (digits_be 16 32 (from_bytes bs))"
  unfolding uuid_text_def by (rule strip_group [OF hex_text(1) no_dash [OF hex_text(2)]])

lemma canonical_uuid_text: "canonical_uuid (uuid_text bs)"
  unfolding canonical_uuid_def strip_uuid_text
  by (simp add: hex_text) (simp add: uuid_text_def group_dashes_def hex_text)

lemma from_uuid_bytes:
  assumes "canonical_uuid s"
  shows "from_bytes (uuid_bytes s) = value_be 16 (digits_in hex_alphabet (strip_dashes s))"
    and "value_be 16 (digits_in hex_alphabet (strip_dashes s)) < 256 ^ 16"
proof -
  let ?ds = "digits_in hex_alphabet (strip_dashes s)"
  from assms have "\<forall>d \<in> set ?ds. d < 16" and n: "length ?ds = 32"
    using digits_in_below [of "strip_dashes s" hex_alphabet]
    by (auto simp: canonical_uuid_def alphabets digits_in_def)
  then have "value_be 16 ?ds < 16 ^ 32" using value_below [of 16 ?ds] by simp
  then show v: "value_be 16 ?ds < 256 ^ 16" by (simp only: powers)
  show "from_bytes (uuid_bytes s) = value_be 16 ?ds"
    unfolding uuid_bytes_def by (rule from_to_bytes [OF v])
qed

lemma uuid_text_bytes: "canonical_uuid s \<Longrightarrow> uuid_text (uuid_bytes s) = s"
proof -
  assume s: "canonical_uuid s"
  let ?ds = "digits_in hex_alphabet (strip_dashes s)"
  have "\<forall>d \<in> set ?ds. d < 16" and n: "length ?ds = 32"
    using s digits_in_below [of "strip_dashes s" hex_alphabet]
    by (auto simp: canonical_uuid_def alphabets digits_in_def)
  with digits_value [of 16 ?ds] have "digits_be 16 32 (value_be 16 ?ds) = ?ds" by simp
  with s show ?thesis
    unfolding uuid_text_def from_uuid_bytes(1) [OF s]
    by (simp add: spell_digits canonical_uuid_def)
qed

lemma uuid_bytes_text: "length bs = 16 \<Longrightarrow> uuid_bytes (uuid_text bs) = bs"
proof -
  assume n: "length bs = 16"
  then have "from_bytes bs < 16 ^ 32"
    using value_below [OF _ unat_below_256 [of bs]] unfolding powers from_bytes_def by simp
  then have v: "value_be 16 (digits_be 16 32 (from_bytes bs)) = from_bytes bs" by (simp only: value_digits)
  have "digits_in hex_alphabet (strip_dashes (uuid_text bs)) = digits_be 16 32 (from_bytes bs)"
    unfolding strip_uuid_text
    by (rule digits_spell) (simp add: alphabets, use digits_below [of 16 _ 32] in \<open>simp add: alphabets\<close>)
  then show ?thesis unfolding uuid_bytes_def v using to_from_bytes [of bs] n by (simp add: v)
qed

lemma encode_fixed_digits:
  assumes "from_bytes bs < 62 ^ w"
  shows "encode_fixed_base62 bs w = spell ALPHABET (digits_be 62 w (from_bytes bs))"
  using loop_digits [OF assms] by (simp add: encode_fixed_base62_def)

lemma digits_62: "\<forall>d \<in> set (digits_be 62 w n). d < length ALPHABET"
  using digits_below [of 62 _ w n] by (simp add: alphabets)

lemma value_62: "base62_value 0 s = Inr n \<longleftrightarrow> set s \<subseteq> set ALPHABET \<and> n = value_be 62 (digits_in ALPHABET s)"
  by (simp add: base62_value_eq value_be_def)

lemma encode_Some:
  "encode_client_order_id s = Some c \<longleftrightarrow> canonical_uuid s
     \<and> c = UUID_PREFIX @ spell ALPHABET (digits_be 62 22 (from_bytes (uuid_bytes s)))"
proof (cases "canonical_uuid s")
  case True
  then have "from_bytes (uuid_bytes s) < 62 ^ 22"
    using from_uuid_bytes [OF True] powers(2) by (metis order.strict_trans)
  with True show ?thesis
    by (auto simp: encode_client_order_id_def encode_fixed_digits UUID_PAYLOAD_LENGTH_def Let_def
        COMMENT_MAX_LENGTH_def UUID_PREFIX_def spell_def)
qed (simp add: encode_client_order_id_def)

lemma decode_fixed_Inr:
  "decode_fixed_base62 p w = Inr bs \<longleftrightarrow>
     (\<exists>n. base62_value 0 p = Inr n \<and> n < 256 ^ w \<and> bs = map of_nat (digits_be 256 w n))"
  by (cases "base62_value 0 p") (auto simp: decode_fixed_base62_def to_bytes_def)

lemma decode_Some:
  "decode_comment (Some c) = Some s \<longleftrightarrow>
     (\<exists>p n. c = UUID_PREFIX @ p \<and> length p = 22 \<and> base62_value 0 p = Inr n \<and> n < 256 ^ 16
        \<and> s = uuid_text (map of_nat (digits_be 256 16 n)))"
proof (cases "starts_with c UUID_PREFIX")
  case True
  then have "c = UUID_PREFIX @ drop (length UUID_PREFIX) c"
    unfolding starts_with_def by (metis append_take_drop_id)
  then obtain p where "c = UUID_PREFIX @ p" by blast
  then have "decode_comment (Some c) = Some s
      \<longleftrightarrow> length p = 22 \<and> (\<exists>bs. decode_fixed_base62 p 16 = Inr bs \<and> s = uuid_text bs)"
    by (auto simp: decode_comment_def starts_with_def UUID_PAYLOAD_LENGTH_def split: sum.splits)
  with \<open>c = UUID_PREFIX @ p\<close> show ?thesis unfolding decode_fixed_Inr by blast
next
  case False
  then show ?thesis by (auto simp: decode_comment_def starts_with_def)
qed

text \<open>
  An order comment decodes to a client order id exactly when it is the encoding of that id, so
  no foreign or damaged comment is ever taken for an order of the engine, and no two ids share a
  comment; precisely the canonical UUIDs are encoded, always into 24 characters.
\<close>
theorem comment_roundtrip:
  "(decode_comment (Some c) = Some s \<longleftrightarrow> encode_client_order_id s = Some c)
   \<and> map_option length (encode_client_order_id s) = (if canonical_uuid s then Some 24 else None)
   \<and> decode_comment None = None"
proof (intro conjI iffI)
  assume "decode_comment (Some c) = Some s"
  then obtain p n where c: "c = UUID_PREFIX @ p" "length p = 22" "set p \<subseteq> set ALPHABET"
      "n = value_be 62 (digits_in ALPHABET p)" "n < 256 ^ 16"
      "s = uuid_text (map of_nat (digits_be 256 16 n))"
    unfolding decode_Some value_62 by blast
  have "\<forall>d \<in> set (digits_in ALPHABET p). d < 62" "length (digits_in ALPHABET p) = 22"
    using digits_in_below [OF c(3)] c(2) by (simp_all add: alphabets digits_in_def)
  with digits_value [of 62 "digits_in ALPHABET p"] c(4)
  have "digits_be 62 22 n = digits_in ALPHABET p" by simp
  moreover have "from_bytes (uuid_bytes s) = n"
    unfolding c(6) using c(5) by (simp add: uuid_bytes_text from_to_bytes)
  ultimately show "encode_client_order_id s = Some c"
    using c canonical_uuid_text by (simp add: encode_Some spell_digits)
next
  assume "encode_client_order_id s = Some c"
  then have s: "canonical_uuid s" and c: "c = UUID_PREFIX @ spell ALPHABET (digits_be 62 22 (from_bytes (uuid_bytes s)))"
    by (simp_all add: encode_Some)
  note v = from_uuid_bytes [OF s]
  have "value_be 62 (digits_be 62 22 (from_bytes (uuid_bytes s))) = from_bytes (uuid_bytes s)"
    by (rule value_digits) (simp, rule order.strict_trans [OF v(2) [folded v(1)] powers(2)])
  then have "base62_value 0 (spell ALPHABET (digits_be 62 22 (from_bytes (uuid_bytes s))))
      = Inr (from_bytes (uuid_bytes s))"
    unfolding value_62 using spell_below [OF digits_62] digits_spell [OF alphabets(4) digits_62] by simp
  moreover have "map of_nat (digits_be 256 16 (from_bytes (uuid_bytes s))) = uuid_bytes s"
    unfolding v(1) by (simp add: uuid_bytes_def)
  moreover have "from_bytes (uuid_bytes s) < 256 ^ 16" using v by simp
  moreover have "length (spell ALPHABET (digits_be 62 22 (from_bytes (uuid_bytes s)))) = 22"
    by (simp add: spell_def)
  ultimately show "decode_comment (Some c) = Some s"
    unfolding decode_Some c using uuid_text_bytes [OF s, symmetric] by metis
next
  show "map_option length (encode_client_order_id s) = (if canonical_uuid s then Some 24 else None)"
  proof (cases "canonical_uuid s")
    case True
    then have "encode_client_order_id s
        = Some (UUID_PREFIX @ spell ALPHABET (digits_be 62 22 (from_bytes (uuid_bytes s))))"
      unfolding encode_Some by blast
    with True show ?thesis by (simp add: UUID_PREFIX_def spell_def)
  qed (simp add: encode_client_order_id_def)
qed (simp add: decode_comment_def)

end
