(* ===== verification/UTE_Mock.thy ===== *)
theory UTE_Mock
  imports UTE_Adapter UTE_Events
begin

text \<open>
  The mock venue the library ships for its integrators, \<^verbatim>\<open>core/testing/__init__.py\<close>: an in-memory
  adapter with scripted responses, one-shot errors, seeded positions, protection and native trails.
  The four capability tables are fixed when the adapter is handed to the engine. The clock and the
  source of fresh ids belong to the outside world \<open>'o\<close>; published events are kept in order.
\<close>

subsection \<open>State\<close>

record protection_write =
  pw_instrument :: instrument
  pw_position_id :: string
  pw_side :: order_side
  pw_take_profit :: "tpsl option"
  pw_stop_loss :: "tpsl option"
  pw_cleared_tp :: bool
  pw_cleared_sl :: bool
  pw_basis :: "trailing_basis option"

type_synonym protection_levels = "tpsl option \<times> tpsl option"

record 'o mock =
  mk_connected :: bool
  mk_orders :: "(string, order_record) dict"
  mk_place_queue :: "order_result result list"
  mk_modify_queue :: "order_result result list"
  mk_cancel_queue :: "order_result result list"
  mk_get_queue :: "order_result option result list"
  mk_specs :: "(instrument, instrument_spec) dict"
  mk_positions :: "position list"
  mk_balances :: "(string, balance) dict"
  mk_fills :: "fill_record list"
  mk_rate_limits :: rate_limits
  mk_error :: "exn option"
  mk_ticker_queue :: "ticker option result list"
  mk_tickers :: "(instrument, ticker) dict"
  mk_candle_queue :: "candle list result list"
  mk_protection :: "(instrument \<times> string, protection_levels) dict"
  mk_writes :: "protection_write list"
  mk_trails :: "(instrument \<times> string, native_request \<times> native_result) dict"
  mk_requests :: "native_request list"
  mk_ticker_error :: "exn option"
  mk_candle_error :: "exn option"
  mk_set_error :: "exn option"
  mk_clear_error :: "exn option"
  mk_native_error :: "exn option"
  mk_published :: "event list"
  mk_outside :: 'o

record 'o menv =
  me_platform :: string
  me_account :: string
  me_order_types :: "order_type set"
  me_protection_caps :: "(instrument, protection_capability) dict"
  me_trailing_caps :: "(instrument, trailing_capability) dict"
  me_market_caps :: "(instrument, market_capability) dict"
  me_clock :: "'o \<Rightarrow> instant \<times> 'o"
  me_new_id :: "'o \<Rightarrow> string \<times> 'o"

type_synonym ('o, 'a) mop = "('o mock, 'a) eff"

definition mock_init :: "rate_limits \<Rightarrow> 'o \<Rightarrow> 'o mock" where
  "mock_init rl o' = \<lparr>mk_connected = False, mk_orders = [], mk_place_queue = [], mk_modify_queue = [],
     mk_cancel_queue = [], mk_get_queue = [], mk_specs = [], mk_positions = [], mk_balances = [],
     mk_fills = [], mk_rate_limits = rl, mk_error = None, mk_ticker_queue = [], mk_tickers = [],
     mk_candle_queue = [], mk_protection = [], mk_writes = [], mk_trails = [], mk_requests = [],
     mk_ticker_error = None, mk_candle_error = None, mk_set_error = None, mk_clear_error = None,
     mk_native_error = None, mk_published = [], mk_outside = o'\<rparr>"

definition mock_order_types :: "order_type set" where
  "mock_order_types = {MARKET, LIMIT, STOP, STOP_LIMIT}"

definition mock_rates :: "instant \<Rightarrow> rate_limits" where
  "mock_rates now = \<lparr>rl_requests = 100, rl_interval = 60, rl_remaining = 100, rl_reset_at = now\<rparr>"

definition m_outside :: "('o \<Rightarrow> 'a \<times> 'o) \<Rightarrow> ('o, 'a) mop" where
  "m_outside f = (\<lambda>m. case f (mk_outside m) of (a, o') \<Rightarrow> (Inr a, m\<lparr>mk_outside := o'\<rparr>))"

definition m_now :: "'o menv \<Rightarrow> ('o, instant) mop" where
  "m_now env = m_outside (me_clock env)"

definition m_id :: "'o menv \<Rightarrow> ('o, string) mop" where
  "m_id env = m_outside (me_new_id env)"

subsection \<open>Errors and scripted responses\<close>

definition raise_opt :: "exn option \<Rightarrow> ('o, unit) mop" where
  "raise_opt e = (case e of None \<Rightarrow> eret () | Some x \<Rightarrow> elift (Inl x))"

definition consume_error :: "('o, unit) mop" where
  "consume_error = ebind (eget mk_error) (\<lambda>e. ebind (eupd (\<lambda>m. m\<lparr>mk_error := None\<rparr>)) (\<lambda>_. raise_opt e))"

definition consume_slot :: "('o mock \<Rightarrow> exn option) \<Rightarrow> ('o mock \<Rightarrow> 'o mock) \<Rightarrow> ('o, unit) mop" where
  \<comment> \<open>the error slot of one method: raised once and cleared\<close>
  "consume_slot slot clear = ebind (eget slot) (\<lambda>e.
     case e of None \<Rightarrow> eret () | Some x \<Rightarrow> ebind (eupd clear) (\<lambda>_. elift (Inl x)))"

definition scripted ::
    "('o mock \<Rightarrow> 'a result list) \<Rightarrow> ('a result list \<Rightarrow> 'o mock \<Rightarrow> 'o mock) \<Rightarrow> ('o, 'a) mop \<Rightarrow> ('o, 'a) mop" where
  \<comment> \<open>the next queued response, an exception being raised, or the default when the queue is empty\<close>
  "scripted queue set_queue dflt = ebind (eget queue) (\<lambda>q.
     case q of [] \<Rightarrow> dflt | r # rest \<Rightarrow> ebind (eupd (set_queue rest)) (\<lambda>_. elift r))"

subsection \<open>Seeding and injection\<close>

definition set_next_error :: "exn option \<Rightarrow> 'o mock \<Rightarrow> 'o mock" where
  "set_next_error e m = m\<lparr>mk_error := e\<rparr>"

definition set_next_ticker_error :: "exn option \<Rightarrow> 'o mock \<Rightarrow> 'o mock" where
  "set_next_ticker_error e m = m\<lparr>mk_ticker_error := e\<rparr>"

definition set_next_candle_error :: "exn option \<Rightarrow> 'o mock \<Rightarrow> 'o mock" where
  "set_next_candle_error e m = m\<lparr>mk_candle_error := e\<rparr>"

definition set_next_set_protection_error :: "exn option \<Rightarrow> 'o mock \<Rightarrow> 'o mock" where
  "set_next_set_protection_error e m = m\<lparr>mk_set_error := e\<rparr>"

definition set_next_clear_protection_error :: "exn option \<Rightarrow> 'o mock \<Rightarrow> 'o mock" where
  "set_next_clear_protection_error e m = m\<lparr>mk_clear_error := e\<rparr>"

definition set_next_native_error :: "exn option \<Rightarrow> 'o mock \<Rightarrow> 'o mock" where
  "set_next_native_error e m = m\<lparr>mk_native_error := e\<rparr>"

definition queue_place_order_response :: "order_result result \<Rightarrow> 'o mock \<Rightarrow> 'o mock" where
  "queue_place_order_response r m = m\<lparr>mk_place_queue := mk_place_queue m @ [r]\<rparr>"

definition queue_modify_order_response :: "order_result result \<Rightarrow> 'o mock \<Rightarrow> 'o mock" where
  "queue_modify_order_response r m = m\<lparr>mk_modify_queue := mk_modify_queue m @ [r]\<rparr>"

definition queue_cancel_order_response :: "order_result result \<Rightarrow> 'o mock \<Rightarrow> 'o mock" where
  "queue_cancel_order_response r m = m\<lparr>mk_cancel_queue := mk_cancel_queue m @ [r]\<rparr>"

definition queue_get_order_response :: "order_result option result \<Rightarrow> 'o mock \<Rightarrow> 'o mock" where
  "queue_get_order_response r m = m\<lparr>mk_get_queue := mk_get_queue m @ [r]\<rparr>"

definition queue_ticker_response :: "ticker option result \<Rightarrow> 'o mock \<Rightarrow> 'o mock" where
  "queue_ticker_response r m = m\<lparr>mk_ticker_queue := mk_ticker_queue m @ [r]\<rparr>"

definition set_ticker :: "instrument \<Rightarrow> ticker \<Rightarrow> 'o mock \<Rightarrow> 'o mock" where
  "set_ticker i k m = m\<lparr>mk_tickers := dict_set (inst_id i) k (mk_tickers m)\<rparr>"

definition queue_candles_response :: "candle list result \<Rightarrow> 'o mock \<Rightarrow> 'o mock" where
  "queue_candles_response r m = m\<lparr>mk_candle_queue := mk_candle_queue m @ [r]\<rparr>"

definition inject :: "'o menv \<Rightarrow> string option \<Rightarrow> event_body \<Rightarrow> ('o, unit) mop" where
  "inject env corr body =
     ebind (m_id env) (\<lambda>i.
     ebind (m_now env) (\<lambda>now.
     eupd (\<lambda>m. m\<lparr>mk_published := mk_published m @
       [\<lparr>ev_id = i, ev_time = now, ev_adapter = me_platform env, ev_account = me_account env,
         ev_correlation = corr, ev_body = body\<rparr>]\<rparr>)))"

definition inject_fill :: "'o menv \<Rightarrow> fill_record \<Rightarrow> ('o, unit) mop" where
  "inject_fill env f = inject env (Some (fl_correlation_id f)) (FillEvent f)"

definition inject_position_update :: "'o menv \<Rightarrow> position \<Rightarrow> ('o, unit) mop" where
  "inject_position_update env p = inject env None (PositionUpdateEvent p)"

definition inject_balance_update :: "'o menv \<Rightarrow> balance \<Rightarrow> ('o, unit) mop" where
  "inject_balance_update env b = inject env None (BalanceUpdateEvent b)"

definition inject_order_status :: "'o menv \<Rightarrow> order_record \<Rightarrow> ('o, unit) mop" where
  "inject_order_status env r =
     inject env (if or_client_id r = [] then None else Some (or_client_id r)) (OrderStatusEvent r)"

definition add_instrument_spec :: "instrument \<Rightarrow> instrument_spec \<Rightarrow> 'o mock \<Rightarrow> 'o mock" where
  "add_instrument_spec i sp m = m\<lparr>mk_specs := dict_set (inst_id i) sp (mk_specs m)\<rparr>"

definition set_rate_limits :: "rate_limits \<Rightarrow> 'o mock \<Rightarrow> 'o mock" where
  "set_rate_limits rl m = m\<lparr>mk_rate_limits := rl\<rparr>"

definition set_supported_order_types :: "order_type set \<Rightarrow> 'o menv \<Rightarrow> 'o menv" where
  "set_supported_order_types ts env = env\<lparr>me_order_types := ts\<rparr>"

definition set_protection_capability :: "instrument \<Rightarrow> protection_capability \<Rightarrow> 'o menv \<Rightarrow> 'o menv" where
  "set_protection_capability i c env =
     env\<lparr>me_protection_caps := dict_set (inst_id i) c (me_protection_caps env)\<rparr>"

definition set_trailing_capability :: "instrument \<Rightarrow> trailing_capability \<Rightarrow> 'o menv \<Rightarrow> 'o menv" where
  "set_trailing_capability i c env =
     env\<lparr>me_trailing_caps := dict_set (inst_id i) c (me_trailing_caps env)\<rparr>"

definition set_market_capability :: "instrument \<Rightarrow> market_capability \<Rightarrow> 'o menv \<Rightarrow> 'o menv" where
  "set_market_capability i c env =
     env\<lparr>me_market_caps := dict_set (inst_id i) c (me_market_caps env)\<rparr>"

definition seed_protection ::
    "instrument \<Rightarrow> string \<Rightarrow> tpsl option \<Rightarrow> tpsl option \<Rightarrow> 'o mock \<Rightarrow> 'o mock" where
  "seed_protection i pid tp sl m = m\<lparr>mk_protection := dict_set (inst_id i, pid) (tp, sl) (mk_protection m)\<rparr>"

definition seed_order :: "order_record \<Rightarrow> 'o mock \<Rightarrow> 'o mock" where
  "seed_order r m = m\<lparr>mk_orders := dict_set (or_client_id r) r (mk_orders m)\<rparr>"

definition set_connected :: "bool \<Rightarrow> 'o mock \<Rightarrow> 'o mock" where
  "set_connected b m = m\<lparr>mk_connected := b\<rparr>"

definition seed_position :: "position \<Rightarrow> 'o mock \<Rightarrow> 'o mock" where
  "seed_position p m = m\<lparr>mk_positions := mk_positions m @ [p]\<rparr>"

definition seed_balance :: "balance \<Rightarrow> 'o mock \<Rightarrow> 'o mock" where
  "seed_balance b m = m\<lparr>mk_balances := dict_set (ba_currency b) b (mk_balances m)\<rparr>"

definition seed_fill :: "fill_record \<Rightarrow> 'o mock \<Rightarrow> 'o mock" where
  "seed_fill f m = m\<lparr>mk_fills := mk_fills m @ [f]\<rparr>"

subsection \<open>Positions and native trails\<close>

definition is_leg :: "instrument \<Rightarrow> string option \<Rightarrow> position \<Rightarrow> bool" where
  "is_leg i pid p \<longleftrightarrow> same_instrument (po_instrument p) i \<and> po_id p = pid"

definition open_position :: "'o mock \<Rightarrow> instrument \<Rightarrow> string \<Rightarrow> position option" where
  "open_position m i pid = List.find (\<lambda>p. is_leg i (Some pid) p \<and> po_quantity p \<noteq> 0) (mk_positions m)"

definition trail_of :: "instrument \<Rightarrow> string option \<Rightarrow> native_request \<Rightarrow> bool" where
  "trail_of i pid q \<longleftrightarrow> same_instrument (nr_instrument q) i \<and> Some (nr_position_id q) = pid"

definition drop_trails :: "instrument \<Rightarrow> string option \<Rightarrow> 'o mock \<Rightarrow> 'o mock" where
  "drop_trails i pid m = m\<lparr>mk_trails := filter (\<lambda>(_, q, _). \<not> trail_of i pid q) (mk_trails m)\<rparr>"

definition side_of_quantity :: "position \<Rightarrow> order_side" where
  "side_of_quantity p = (if 0 < po_quantity p then BUY else SELL)"

definition seed_native_trail ::
    "instrument \<Rightarrow> string \<Rightarrow> decimal \<Rightarrow> string option \<Rightarrow> decimal option \<Rightarrow> bool \<Rightarrow> ('o, native_result) mop" where
  "seed_native_trail i pid offset nid stop activated =
     ebind (eget (\<lambda>m. open_position m i pid)) (\<lambda>p.
     let known = (case nid of None \<Rightarrow> ''native-'' @ pid | Some n \<Rightarrow> if n = [] then ''native-'' @ pid else n);
         q = \<lparr>nr_instrument = i, nr_position_id = pid,
              nr_side = (case p of None \<Rightarrow> BUY | Some x \<Rightarrow> side_of_quantity x),
              nr_quantity = (case p of None \<Rightarrow> 0 | Some x \<Rightarrow> dabs (po_quantity x)),
              nr_offset = offset, nr_offset_type = OT_PRICE, nr_basis = None, nr_activation_price = None,
              nr_client_id = known\<rparr>;
         res = \<lparr>nt_native_id = known, nt_confirmed_offset = Some offset, nt_current_stop = stop,
                nt_activated = activated, nt_position_scoped = True\<rparr>
     in ebind (eupd (drop_trails i (Some pid))) (\<lambda>_.
        ebind (eupd (\<lambda>m. m\<lparr>mk_trails := dict_set (inst_id i, known) (q, res) (mk_trails m)\<rparr>)) (\<lambda>_.
        eret res)))"

fun replace_leg :: "position \<Rightarrow> position list \<Rightarrow> position list" where
  \<comment> \<open>the loop with its \<^verbatim>\<open>else\<close>: the first leg of the same identity, or a new one at the end\<close>
  "replace_leg p [] = [p]"
| "replace_leg p (x # xs) = (if is_leg (po_instrument p) (po_id p) x then p # xs else x # replace_leg p xs)"

definition forget_leg :: "position \<Rightarrow> 'o mock \<Rightarrow> 'o mock" where
  "forget_leg p m =
     drop_trails (po_instrument p) (po_id p)
       (case po_id p of None \<Rightarrow> m
        | Some pid \<Rightarrow> m\<lparr>mk_protection := dict_del (inst_id (po_instrument p), pid) (mk_protection m)\<rparr>)"

definition update_position :: "'o menv \<Rightarrow> position \<Rightarrow> bool \<Rightarrow> ('o, unit) mop" where
  "update_position env p publishes =
     ebind (eupd (\<lambda>m. m\<lparr>mk_positions := replace_leg p (mk_positions m)\<rparr>)) (\<lambda>_.
     ebind (ewhen (po_quantity p = 0) (eupd (forget_leg p))) (\<lambda>_.
     ewhen publishes (inject_position_update env p)))"

subsection \<open>Connection\<close>

definition mock_set_connection :: "'o menv \<Rightarrow> bool \<Rightarrow> ('o, unit) mop" where
  "mock_set_connection env up =
     ebind consume_error (\<lambda>_.
     ebind (eupd (\<lambda>m. m\<lparr>mk_connected := up\<rparr>)) (\<lambda>_.
     inject env None (ConnectionStateEvent up)))"

definition mock_connect :: "'o menv \<Rightarrow> ('o, unit) mop" where
  "mock_connect env = mock_set_connection env True"

definition mock_disconnect :: "'o menv \<Rightarrow> ('o, unit) mop" where
  "mock_disconnect env = mock_set_connection env False"

subsection \<open>Orders\<close>

definition result_of_record :: "order_record \<Rightarrow> order_result" where
  "result_of_record r = \<lparr>re_client_id = or_client_id r, re_platform_id = or_platform_id r,
     re_status = or_status r, re_filled = or_filled r, re_avg_price = or_avg_price r,
     re_created_at = or_created_at r, re_updated_at = or_updated_at r\<rparr>"

definition order_request_to_record :: "string \<Rightarrow> unified_order \<Rightarrow> order_result \<Rightarrow> order_record result" where
  "order_request_to_record corr ord res =
     rbind (opt_aware ''expire_at'' (uo_expire_at ord)) (\<lambda>expiry. Inr
     \<lparr>or_instrument = uo_instrument ord, or_type = uo_type ord, or_side = uo_side ord,
      or_quantity = uo_quantity ord, or_tif = uo_tif ord, or_client_id = re_client_id res,
      or_price = uo_price ord, or_stop_price = uo_stop_price ord, or_reduce_only = uo_reduce_only ord,
      or_client_tag = uo_client_tag ord, or_take_profit = uo_take_profit ord,
      or_stop_loss = uo_stop_loss ord, or_platform_id = re_platform_id res, or_status = re_status res,
      or_filled = re_filled res, or_avg_price = re_avg_price res, or_correlation_id = corr,
      or_created_at = re_created_at res, or_updated_at = re_updated_at res,
      or_expire_at = expiry\<rparr>)"

definition stub_result :: "'o menv \<Rightarrow> unified_order \<Rightarrow> ('o, order_result) mop" where
  \<comment> \<open>the default response: accepted and open\<close>
  "stub_result env ord =
     ebind (m_now env) (\<lambda>now.
     ebind (case uo_client_id ord of
              Some c \<Rightarrow> if c = [] then m_id env else eret c
            | None \<Rightarrow> m_id env) (\<lambda>cid.
     ebind (m_id env) (\<lambda>u.
     eret \<lparr>re_client_id = cid, re_platform_id = Some (''mock-'' @ take 8 u), re_status = OPEN,
            re_filled = 0, re_avg_price = None, re_created_at = now, re_updated_at = now\<rparr>)))"

definition mock_place_order :: "'o menv \<Rightarrow> unified_order \<Rightarrow> ('o, order_result) mop" where
  "mock_place_order env ord =
     ebind consume_error (\<lambda>_.
     ebind (scripted mk_place_queue (\<lambda>q m. m\<lparr>mk_place_queue := q\<rparr>) (stub_result env ord)) (\<lambda>res.
     ebind (m_id env) (\<lambda>u.
     ebind (elift (order_request_to_record (''mock-'' @ take 8 u) ord res)) (\<lambda>r.
     ebind (eupd (\<lambda>m. m\<lparr>mk_orders := dict_set (re_client_id res) r (mk_orders m)\<rparr>)) (\<lambda>_.
     eret res)))))"

definition change_order ::
    "'o menv \<Rightarrow> string \<Rightarrow> (order_record \<Rightarrow> order_record) \<Rightarrow> ('o, order_result) mop" where
  \<comment> \<open>the default response of a modification or cancellation\<close>
  "change_order env cid f =
     ebind (eget (\<lambda>m. dict_get (mk_orders m) cid)) (\<lambda>found.
     case found of
       None \<Rightarrow> eraise OrderNotFoundError cid
     | Some existing \<Rightarrow>
         ebind (m_now env) (\<lambda>now.
         let r = (f existing)\<lparr>or_updated_at := now\<rparr> in
         ebind (eupd (seed_order r)) (\<lambda>_. eret (result_of_record r))))"

definition modify_record :: "order_modification \<Rightarrow> order_record \<Rightarrow> order_record" where
  "modify_record d r = r\<lparr>
     or_quantity := (case mo_quantity d of None \<Rightarrow> or_quantity r | Some q \<Rightarrow> q),
     or_price := (if mo_price d \<noteq> None then mo_price d else or_price r),
     or_stop_price := (if mo_stop_price d \<noteq> None then mo_stop_price d else or_stop_price r),
     or_take_profit := (if mo_take_profit d \<noteq> None then mo_take_profit d else or_take_profit r),
     or_stop_loss := (if mo_stop_loss d \<noteq> None then mo_stop_loss d else or_stop_loss r)\<rparr>"

definition mock_modify_order :: "'o menv \<Rightarrow> order_modification \<Rightarrow> ('o, order_result) mop" where
  "mock_modify_order env d =
     ebind consume_error (\<lambda>_.
     scripted mk_modify_queue (\<lambda>q m. m\<lparr>mk_modify_queue := q\<rparr>)
       (change_order env (mo_client_id d) (modify_record d)))"

definition mock_cancel_order :: "'o menv \<Rightarrow> string \<Rightarrow> ('o, order_result) mop" where
  "mock_cancel_order env cid =
     ebind consume_error (\<lambda>_.
     scripted mk_cancel_queue (\<lambda>q m. m\<lparr>mk_cancel_queue := q\<rparr>)
       (change_order env cid (\<lambda>r. r\<lparr>or_status := CANCELLED\<rparr>)))"

definition mock_get_order :: "string \<Rightarrow> ('o, order_result option) mop" where
  "mock_get_order cid =
     ebind consume_error (\<lambda>_.
     scripted mk_get_queue (\<lambda>q m. m\<lparr>mk_get_queue := q\<rparr>)
       (eget (\<lambda>m. map_option result_of_record (dict_get (mk_orders m) cid))))"

subsection \<open>Metadata and market data\<close>

definition mock_fetch_spec :: "instrument \<Rightarrow> ('o, instrument_spec) mop" where
  "mock_fetch_spec i =
     ebind consume_error (\<lambda>_.
     ebind (eget (\<lambda>m. dict_get (mk_specs m) (inst_id i))) (\<lambda>found.
     case found of None \<Rightarrow> eraise InvalidSymbolError ''No spec seeded'' | Some sp \<Rightarrow> eret sp))"

definition cap_or :: "(instrument, 'c) dict \<Rightarrow> 'c \<Rightarrow> instrument \<Rightarrow> 'c" where
  "cap_or d c i = (case dict_get d (inst_id i) of None \<Rightarrow> c | Some x \<Rightarrow> x)"

definition mock_rate_limits :: "('o, rate_limits) mop" where
  "mock_rate_limits = ebind consume_error (\<lambda>_. eget mk_rate_limits)"

definition mock_fetch_ticker :: "instrument \<Rightarrow> ('o, ticker option) mop" where
  "mock_fetch_ticker i =
     ebind consume_error (\<lambda>_.
     ebind (consume_slot mk_ticker_error (set_next_ticker_error None)) (\<lambda>_.
     scripted mk_ticker_queue (\<lambda>q m. m\<lparr>mk_ticker_queue := q\<rparr>)
       (eget (\<lambda>m. dict_get (mk_tickers m) (inst_id i)))))"

definition mock_fetch_candles :: "instrument \<Rightarrow> candle_timeframe \<Rightarrow> int \<Rightarrow> ('o, candle list) mop" where
  "mock_fetch_candles i tf limit =
     ebind consume_error (\<lambda>_.
     ebind (consume_slot mk_candle_error (set_next_candle_error None)) (\<lambda>_.
     scripted mk_candle_queue (\<lambda>q m. m\<lparr>mk_candle_queue := q\<rparr>) (eret [])))"

subsection \<open>Position protection\<close>

definition levels_at :: "'o mock \<Rightarrow> instrument \<Rightarrow> string \<Rightarrow> protection_levels" where
  "levels_at m i pid = (case dict_get (mk_protection m) (inst_id i, pid) of None \<Rightarrow> (None, None) | Some l \<Rightarrow> l)"

definition write_levels :: "protection_write \<Rightarrow> 'o mock \<Rightarrow> 'o mock" where
  "write_levels w m = m\<lparr>mk_protection :=
       dict_set (inst_id (pw_instrument w), pw_position_id w) (pw_take_profit w, pw_stop_loss w) (mk_protection m),
     mk_writes := mk_writes m @ [w]\<rparr>"

definition mock_modify_tpsl ::
    "instrument \<Rightarrow> string \<Rightarrow> tpsl option \<Rightarrow> tpsl option \<Rightarrow> trailing_basis option \<Rightarrow> ('o, unit) mop" where
  "mock_modify_tpsl i pid tp sl basis =
     ebind consume_error (\<lambda>_.
     ebind (consume_slot mk_set_error (set_next_set_protection_error None)) (\<lambda>_.
     ebind (eguard (tp = None \<and> sl = None) PyValueError
              ''at least one of take_profit or stop_loss is required'') (\<lambda>_.
     ebind (eget (\<lambda>m. (open_position m i pid, levels_at m i pid))) (\<lambda>(found, ctp, csl).
     case found of
       None \<Rightarrow> eraise OrderNotFoundError ''no open position''
     | Some p \<Rightarrow>
         eupd (write_levels \<lparr>pw_instrument = i, pw_position_id = pid, pw_side = side_of_quantity p,
           pw_take_profit = (if tp \<noteq> None then tp else ctp), pw_stop_loss = (if sl \<noteq> None then sl else csl),
           pw_cleared_tp = False, pw_cleared_sl = False, pw_basis = basis\<rparr>)))))"

definition mock_get_tpsl :: "instrument \<Rightarrow> string \<Rightarrow> ('o, protection_levels option) mop" where
  "mock_get_tpsl i pid =
     ebind consume_error (\<lambda>_.
     eget (\<lambda>m. if open_position m i pid = None then None else Some (levels_at m i pid)))"

definition mock_clear_tpsl :: "instrument \<Rightarrow> string \<Rightarrow> bool \<Rightarrow> bool \<Rightarrow> ('o, unit) mop" where
  "mock_clear_tpsl i pid tp sl =
     ebind consume_error (\<lambda>_.
     ebind (consume_slot mk_clear_error (set_next_clear_protection_error None)) (\<lambda>_.
     ebind (eguard (\<not> tp \<and> \<not> sl) PyValueError ''at least one of take_profit or stop_loss must be true'') (\<lambda>_.
     ebind (eget (\<lambda>m. (open_position m i pid, levels_at m i pid))) (\<lambda>(found, ctp, csl).
     case found of
       None \<Rightarrow> eupd (\<lambda>m. m\<lparr>mk_protection := dict_del (inst_id i, pid) (mk_protection m)\<rparr>)
     | Some p \<Rightarrow>
         eupd (write_levels \<lparr>pw_instrument = i, pw_position_id = pid, pw_side = side_of_quantity p,
           pw_take_profit = (if tp then None else ctp), pw_stop_loss = (if sl then None else csl),
           pw_cleared_tp = tp, pw_cleared_sl = sl, pw_basis = None\<rparr>)))))"

subsection \<open>Native trailing\<close>

definition native_errors :: "('o, unit) mop" where
  "native_errors =
     ebind consume_error (\<lambda>_. consume_slot mk_native_error (set_next_native_error None))"

definition mock_place_trailing :: "'o menv \<Rightarrow> native_request \<Rightarrow> ('o, native_result) mop" where
  "mock_place_trailing env q =
     ebind native_errors (\<lambda>_.
     ebind (eget (\<lambda>m. open_position m (nr_instrument q) (nr_position_id q))) (\<lambda>found.
     ebind (eguard (found = None) OrderNotFoundError ''no open position'') (\<lambda>_.
     ebind (m_id env) (\<lambda>u.
     let res = \<lparr>nt_native_id = ''native-'' @ take 8 u, nt_confirmed_offset = Some (nr_offset q),
                nt_current_stop = None, nt_activated = False, nt_position_scoped = True\<rparr>
     in ebind (eupd (drop_trails (nr_instrument q) (Some (nr_position_id q)))) (\<lambda>_.
        ebind (eupd (\<lambda>m. m\<lparr>mk_trails := dict_set (inst_id (nr_instrument q), nt_native_id res) (q, res) (mk_trails m),
                           mk_requests := mk_requests m @ [q]\<rparr>)) (\<lambda>_.
        eret res))))))"

definition mock_cancel_trailing :: "string \<Rightarrow> instrument \<Rightarrow> ('o, unit) mop" where
  "mock_cancel_trailing nid i =
     ebind native_errors (\<lambda>_.
     ebind (eget (\<lambda>m. dict_get (mk_trails m) (inst_id i, nid))) (\<lambda>found.
     ebind (eguard (found = None) OrderNotFoundError nid) (\<lambda>_.
     eupd (\<lambda>m. m\<lparr>mk_trails := dict_del (inst_id i, nid) (mk_trails m)\<rparr>))))"

definition mock_get_trailing :: "string \<Rightarrow> instrument \<Rightarrow> ('o, native_result option) mop" where
  "mock_get_trailing nid i =
     ebind native_errors (\<lambda>_. eget (\<lambda>m. map_option snd (dict_get (mk_trails m) (inst_id i, nid))))"

definition mock_get_position_trailing :: "instrument \<Rightarrow> string \<Rightarrow> ('o, native_result option) mop" where
  "mock_get_position_trailing i pid =
     ebind native_errors (\<lambda>_. eget (\<lambda>m. map_option (snd o snd)
       (List.find (\<lambda>((ti, _), q, _). ti = inst_id i \<and> nr_position_id q = pid) (mk_trails m))))"

subsection \<open>Reconciliation data\<close>

definition mock_fetch_positions :: "('o, position list) mop" where
  "mock_fetch_positions = ebind consume_error (\<lambda>_. eget mk_positions)"

definition mock_fetch_balances :: "('o, (string, balance) dict) mop" where
  "mock_fetch_balances = ebind consume_error (\<lambda>_. eget mk_balances)"

definition mock_fetch_open_orders :: "('o, (string, order_record) dict) mop" where
  "mock_fetch_open_orders = ebind consume_error (\<lambda>_.
     eget (\<lambda>m. filter (\<lambda>(_, r). or_status r \<in> {OPEN, PARTIALLY_FILLED}) (mk_orders m)))"

fun fills_by_order :: "instant option \<Rightarrow> fill_record list \<Rightarrow> (string, fill_record list) dict \<Rightarrow> (string, fill_record list) dict" where
  "fills_by_order since [] d = d"
| "fills_by_order since (f # fs) d =
     fills_by_order since fs
       (if (case since of None \<Rightarrow> False | Some t \<Rightarrow> fl_timestamp f < t) then d
        else dict_set (fl_client_id f)
               ((case dict_get d (fl_client_id f) of None \<Rightarrow> [] | Some xs \<Rightarrow> xs) @ [f]) d)"

definition mock_fetch_fills :: "instant option \<Rightarrow> ('o, (string, fill_record list) dict) mop" where
  "mock_fetch_fills since = ebind consume_error (\<lambda>_. eget (\<lambda>m. fills_by_order since (mk_fills m) []))"

subsection \<open>The adapter\<close>

text \<open>The mock does not override the hook that prepares a reconciliation, which does nothing in the base class.\<close>

definition mock_adapter :: "'o menv \<Rightarrow> 'o mock adapter" where
  "mock_adapter env = \<lparr>ad_platform = me_platform env, ad_account = me_account env,
     ad_is_connected = mk_connected, ad_connect = mock_connect env, ad_disconnect = mock_disconnect env,
     ad_order_types = me_order_types env, ad_place_order = mock_place_order env,
     ad_modify_order = mock_modify_order env, ad_cancel_order = mock_cancel_order env,
     ad_get_order = mock_get_order, ad_fetch_spec = mock_fetch_spec,
     ad_protection_cap = cap_or (me_protection_caps env) default_protection_capability,
     ad_trailing_cap = cap_or (me_trailing_caps env) default_trailing_capability,
     ad_market_cap = cap_or (me_market_caps env) default_market_capability,
     ad_rate_limits = mock_rate_limits, ad_fetch_ticker = mock_fetch_ticker,
     ad_fetch_candles = mock_fetch_candles, ad_modify_tpsl = mock_modify_tpsl,
     ad_get_tpsl = mock_get_tpsl, ad_clear_tpsl = mock_clear_tpsl,
     ad_place_trailing = mock_place_trailing env, ad_cancel_trailing = mock_cancel_trailing,
     ad_get_trailing = mock_get_trailing, ad_get_position_trailing = mock_get_position_trailing,
     ad_fetch_positions = mock_fetch_positions, ad_fetch_balances = mock_fetch_balances,
     ad_fetch_open_orders = mock_fetch_open_orders, ad_fetch_fills = mock_fetch_fills,
     ad_reconcile_intent = eret ()\<rparr>"

end
