(* ===== verification/UTE_Attach_Live.thy ===== *)
theory UTE_Attach_Live
  imports UTE_Trailing_Attached UTE_Mock
begin

text \<open>
  Attaching succeeds when nothing stands in its way. The venue is an interface: its protection reads
  return what it holds, a write replaces the sides it names, and the ids it is given are fresh. Over
  it a synthetic attachment that passes its checks ends armed, with its levels at the venue and its
  row in the store. The mock venue provides the interface.
\<close>

subsection \<open>Total correctness of effects\<close>

definition reaches :: "('w \<Rightarrow> bool) \<Rightarrow> ('w, 'a) eff \<Rightarrow> ('a \<Rightarrow> 'w \<Rightarrow> bool) \<Rightarrow> bool" where
  "reaches P m Q \<longleftrightarrow> (\<forall>w. P w \<longrightarrow> (\<exists>a w'. m w = (Inr a, w') \<and> Q a w'))"

lemma reachesI: "(\<And>w. P w \<Longrightarrow> \<exists>a w'. m w = (Inr a, w') \<and> Q a w') \<Longrightarrow> reaches P m Q"
  by (simp add: reaches_def)

lemma reachesD: "reaches P m Q \<Longrightarrow> P w \<Longrightarrow> \<exists>a w'. m w = (Inr a, w') \<and> Q a w'"
  by (simp add: reaches_def)

lemma reaches_eret: "(\<And>w. P w \<Longrightarrow> Q a w) \<Longrightarrow> reaches P (eret a) Q"
  by (simp add: reaches_def eret_def)

lemma reaches_bind: "reaches P m R \<Longrightarrow> (\<And>a. reaches (R a) (f a) Q) \<Longrightarrow> reaches P (ebind m f) Q"
  by (fastforce simp: reaches_def ebind_eq)

lemma reaches_bind_elift: "r = Inr a \<Longrightarrow> reaches P (f a) Q \<Longrightarrow> reaches P (ebind (elift r) f) Q"
  by (simp add: reaches_def ebind_def elift_def)

lemma reaches_bind_eguard: "\<not> b \<Longrightarrow> reaches P (f ()) Q \<Longrightarrow> reaches P (ebind (eguard b c x) f) Q"
  by simp

lemma reaches_bind_eget:
  "(\<And>w. P w \<Longrightarrow> g w = a) \<Longrightarrow> reaches P (f a) Q \<Longrightarrow> reaches P (ebind (eget g) f) Q"
  by (simp add: reaches_def ebind_eget)

lemma reaches_bind_value:
  "reaches P m (\<lambda>a w. a = v \<and> R w) \<Longrightarrow> reaches R (f v) Q \<Longrightarrow> reaches P (ebind m f) Q"
  by (erule reaches_bind) (auto simp: reaches_def)

lemma reaches_bind_etry:
  "reaches P m (\<lambda>a w. a = v \<and> R w) \<Longrightarrow> reaches R (f v) Q \<Longrightarrow> reaches P (ebind (etry m h) f) Q"
  by (rule reaches_bind_value [where R = R]) (fastforce simp: reaches_def etry_def)

lemma reaches_if: "(b \<Longrightarrow> reaches P m Q) \<Longrightarrow> (\<not> b \<Longrightarrow> reaches P n Q) \<Longrightarrow> reaches P (if b then m else n) Q"
  by simp

lemma reaches_pure: "(b \<Longrightarrow> reaches P m Q) \<Longrightarrow> reaches (\<lambda>w. P w \<and> b) m Q"
  by (auto simp: reaches_def)

lemma reaches_bind_unit: "reaches P m (\<lambda>_. R) \<Longrightarrow> reaches R (f ()) Q \<Longrightarrow> reaches P (ebind m f) Q"
  by (rule reaches_bind_value [where v = "()" and R = R]) simp_all

lemma reaches_ewhen:
  "(b \<Longrightarrow> reaches P m (\<lambda>_. R)) \<Longrightarrow> (\<And>w. \<not> b \<Longrightarrow> P w \<Longrightarrow> R w) \<Longrightarrow> reaches P (ewhen b m) (\<lambda>_. R)"
  by (auto simp: reaches_def ewhen_def eret_def)

lemma reaches_weaken: "reaches P m R \<Longrightarrow> (\<And>a w. R a w \<Longrightarrow> Q a w) \<Longrightarrow> reaches P m Q"
  by (fastforce simp: reaches_def)

lemma reaches_venue:
  "(\<And>w. P w \<Longrightarrow> \<exists>a v. m (tw_venue w) = (Inr a, v) \<and> Q a (w\<lparr>tw_venue := v\<rparr>)) \<Longrightarrow> reaches P (venue m) Q"
  by (fastforce simp: reaches_def venue_def)

lemma reaches_outside:
  "(\<And>w. P w \<Longrightarrow> Q (fst (f (tw_venue w))) (w\<lparr>tw_venue := snd (f (tw_venue w))\<rparr>)) \<Longrightarrow> reaches P (outside f) Q"
  by (simp add: reaches_def outside_def case_prod_beta)

lemma find_fresh: "f t = k \<Longrightarrow> k \<notin> f ` set xs \<Longrightarrow> List.find (\<lambda>x. f x = k) (xs @ [t]) = Some t"
  by (induction xs) auto

subsection \<open>The interface of a venue\<close>

locale protection_venue =
  fixes ad :: "'v adapter"
    and calm :: "'v \<Rightarrow> bool"
    and held :: "'v \<Rightarrow> instrument \<Rightarrow> string \<Rightarrow> protection_levels option"
  assumes reads: "calm v \<Longrightarrow> \<exists>v'. ad_get_tpsl ad i pid v = (Inr (held v i pid), v') \<and> calm v' \<and> held v' = held v"
    and writes: "calm v \<Longrightarrow> held v i pid = Some (ctp, csl) \<Longrightarrow> tp \<noteq> None \<or> sl \<noteq> None
      \<Longrightarrow> \<exists>v'. ad_modify_tpsl ad i pid tp sl b v = (Inr (), v') \<and> calm v'
           \<and> held v' i pid = Some (if tp \<noteq> None then tp else ctp, if sl \<noteq> None then sl else csl)"
begin

lemma write_then_read:
  assumes "calm v" and "held v i pid = Some (ctp, csl)" and "tp \<noteq> None \<or> sl \<noteq> None"
  obtains v' v'' where "ad_modify_tpsl ad i pid tp sl b v = (Inr (), v')"
    and "ad_get_tpsl ad i pid v' = (Inr (Some (if tp \<noteq> None then tp else ctp, if sl \<noteq> None then sl else csl)), v'')"
  using writes [OF assms] reads by metis

end

locale quiet_venue = protection_venue ad calm held for ad :: "'v adapter" and calm held +
  fixes env :: "'v tenv" and used :: "'v \<Rightarrow> string set"
    and quotes :: "instrument \<Rightarrow> ticker option" and specs :: "instrument \<Rightarrow> instrument_spec option"
  assumes the_adapter: "te_adapter env = ad"
    and connected: "calm v \<Longrightarrow> ad_is_connected ad v"
    and quoted: "calm v \<Longrightarrow> \<exists>v'. ad_fetch_ticker ad i v = (Inr (quotes i), v') \<and> calm v' \<and> held v' = held v \<and> used v \<subseteq> used v'"
    and specified: "calm v \<Longrightarrow> specs i = Some sp
      \<Longrightarrow> \<exists>v'. ad_fetch_spec ad i v = (Inr sp, v') \<and> calm v' \<and> held v' = held v \<and> used v \<subseteq> used v'"
    and reads_used: "calm v \<Longrightarrow> used v \<subseteq> used (snd (ad_get_tpsl ad i pid v))"
    and writes_used: "calm v \<Longrightarrow> used v \<subseteq> used (snd (ad_modify_tpsl ad i pid tp sl b v))"
    and clock_quiet: "calm v \<Longrightarrow> calm (snd (te_clock env v)) \<and> held (snd (te_clock env v)) = held v
      \<and> used v \<subseteq> used (snd (te_clock env v))"
    and id_fresh: "calm v \<Longrightarrow> calm (snd (te_new_id env v)) \<and> held (snd (te_new_id env v)) = held v
      \<and> fst (te_new_id env v) \<notin> used v \<and> insert (fst (te_new_id env v)) (used v) \<subseteq> used (snd (te_new_id env v))"
    and reserve_quiet: "calm v \<Longrightarrow> fst (te_reserve env v) \<and> calm (snd (te_reserve env v))
      \<and> held (snd (te_reserve env v)) = held v \<and> used v \<subseteq> used (snd (te_reserve env v))"
begin

definition settled :: "instrument \<Rightarrow> string \<Rightarrow> protection_levels \<Rightarrow> trailing_state list \<Rightarrow> string set \<Rightarrow> 'v tworld \<Rightarrow> bool" where
  "settled i pid lv rows ids w \<longleftrightarrow> calm (tw_venue w) \<and> held (tw_venue w) i pid = Some lv
     \<and> so_trailing (tw_store w) = rows \<and> ids \<subseteq> used (tw_venue w)
     \<and> ts_id ` set rows \<union> au_id ` set (so_audit (tw_store w)) \<subseteq> used (tw_venue w)
     \<and> can_place_order (tw_halts w) i True
     \<and> (\<forall>sp. dict_get (tw_specs w) (inst_id i) = Some sp \<longrightarrow> specs i = Some sp)"

lemma settled_moved:
  assumes "settled i pid lv rows ids w" and "calm v" and "held v i pid = Some lv'" and "used (tw_venue w) \<subseteq> used v"
  shows "settled i pid lv' rows ids (w\<lparr>tw_venue := v\<rparr>)"
  using assms by (auto simp: settled_def)

lemma settled_parts: "settled i pid lv rows ids w \<Longrightarrow> calm (tw_venue w) \<and> held (tw_venue w) i pid = Some lv"
  by (simp add: settled_def)

lemma settled_clock: "reaches (settled i pid lv rows ids) (clock env) (\<lambda>_. settled i pid lv rows ids)"
  unfolding clock_def
  by (rule reaches_outside, rule settled_moved) (simp_all add: settled_parts clock_quiet [OF settled_parts [THEN conjunct1]])

lemma settled_reserve:
  "reaches (settled i pid lv rows ids) (reserve env) (\<lambda>a w. a = True \<and> settled i pid lv rows ids w)"
  unfolding reserve_def
  by (rule reaches_outside, intro conjI settled_moved) (simp_all add: settled_parts reserve_quiet [OF settled_parts [THEN conjunct1]])

lemma settled_new_id:
  "reaches (settled i pid lv rows ids) (new_id env)
     (\<lambda>x w. settled i pid lv rows (insert x ids) w \<and> x \<notin> ids \<and> x \<notin> ts_id ` set rows
        \<and> x \<notin> au_id ` set (so_audit (tw_store w)))"
  unfolding new_id_def
proof (rule reaches_outside)
  fix w assume w: "settled i pid lv rows ids w"
  let ?x = "fst (te_new_id env (tw_venue w))"
  have "?x \<notin> used (tw_venue w)" using id_fresh w by (simp add: settled_def)
  with w have "?x \<notin> ids" "?x \<notin> ts_id ` set rows" "?x \<notin> au_id ` set (so_audit (tw_store w))"
    unfolding settled_def by blast+
  then show "settled i pid lv rows (insert ?x ids) (w\<lparr>tw_venue := snd (te_new_id env (tw_venue w))\<rparr>)
      \<and> ?x \<notin> ids \<and> ?x \<notin> ts_id ` set rows
      \<and> ?x \<notin> au_id ` set (so_audit (tw_store (w\<lparr>tw_venue := snd (te_new_id env (tw_venue w))\<rparr>)))"
    using w id_fresh [of "tw_venue w"] by (auto simp: settled_def)
qed

lemma settled_fresh:
  "reaches (settled i pid lv rows {}) (new_id env) (\<lambda>x w. settled i pid lv rows {x} w \<and> x \<notin> ts_id ` set rows)"
  by (rule reaches_weaken [OF settled_new_id]) simp

lemma settled_events: "settled i pid lv rows ids (w\<lparr>tw_events := es\<rparr>) = settled i pid lv rows ids w"
  by (simp add: settled_def)

lemma settled_drop: "settled i pid lv rows (insert x ids) w \<Longrightarrow> settled i pid lv rows ids w"
  by (simp add: settled_def)

lemma settled_emit: "reaches (settled i pid lv rows ids) (emit env corr body) (\<lambda>_. settled i pid lv rows ids)"
proof (rule reachesI)
  fix w assume "settled i pid lv rows ids w"
  from reachesD [OF settled_new_id this] obtain x w1
    where id: "new_id env w = (Inr x, w1)" and w1: "settled i pid lv rows (insert x ids) w1" by blast
  from reachesD [OF settled_clock settled_drop [OF w1]] obtain t w2
    where t: "clock env w1 = (Inr t, w2)" and w2: "settled i pid lv rows ids w2" by blast
  show "\<exists>a w'. emit env corr body w = (Inr a, w') \<and> settled i pid lv rows ids w'"
    unfolding emit_def by (simp add: eff_run(6) id t eupd_def settled_events w2)
qed

lemma settled_audit:
  "reaches (settled i pid lv rows ids) (audit env kind t prev cur reason extra) (\<lambda>_. settled i pid lv rows ids)"
proof (rule reachesI)
  fix w assume "settled i pid lv rows ids w"
  from reachesD [OF settled_new_id this] obtain x w1
    where id: "new_id env w = (Inr x, w1)" and w1: "settled i pid lv rows (insert x ids) w1"
      and x: "x \<notin> au_id ` set (so_audit (tw_store w1))" by blast
  from reachesD [OF settled_clock w1] obtain n w2
    where n: "clock env w1 = (Inr n, w2)" and w2: "settled i pid lv rows (insert x ids) w2" by blast
  have "tw_store w2 = tw_store w1" using n by (auto simp: clock_def outside_def split: prod.splits)
  with x w2 show "\<exists>a w'. audit env kind t prev cur reason extra w = (Inr a, w') \<and> settled i pid lv rows ids w'"
    unfolding audit_def
    by (auto simp: eff_run(6) id n in_store_def write_audit_event_def ebind_eget eupd_def settled_def)
qed

lemma settled_save:
  assumes "ts_id t \<in> ids"
    and "active_key t = None \<or> active_key t \<notin> active_key ` {u \<in> set rows. ts_id u \<noteq> ts_id t}"
  shows "reaches (settled i pid lv rows ids) (save t)
     (\<lambda>_. settled i pid lv (filter (\<lambda>u. ts_id u \<noteq> ts_id t) rows @ [t]) ids)"
proof (rule reachesI)
  fix w assume w: "settled i pid lv rows ids w"
  let ?s = "(tw_store w)\<lparr>so_trailing := filter (\<lambda>u. ts_id u \<noteq> ts_id t) rows @ [t]\<rparr>"
  have "save t w = (Inr (), w\<lparr>tw_store := ?s\<rparr>)"
    using w assms(2) by (auto simp: save_def in_store_def upsert_trailing_state_cases Let_def settled_def)
  moreover have "settled i pid lv (filter (\<lambda>u. ts_id u \<noteq> ts_id t) rows @ [t]) ids (w\<lparr>tw_store := ?s\<rparr>)"
    using w assms(1) by (auto simp: settled_def)
  ultimately show "\<exists>a w'. save t w = (Inr a, w')
      \<and> settled i pid lv (filter (\<lambda>u. ts_id u \<noteq> ts_id t) rows @ [t]) ids w'" by blast
qed

lemma settled_save_last:
  assumes "filter (\<lambda>u. ts_id u \<noteq> ts_id t) all = rows" and "ts_id t \<in> ids"
    and "active_key t = None \<or> active_key t \<notin> active_key ` set rows"
  shows "reaches (settled i pid lv all ids) (save t) (\<lambda>_. settled i pid lv (rows @ [t]) ids)"
  using settled_save [of t ids all i pid lv] assms by auto

lemma settled_read:
  "reaches (settled i pid lv rows ids) (venue (ad_get_tpsl ad i pid))
     (\<lambda>a w. a = Some lv \<and> settled i pid lv rows ids w)"
proof (rule reaches_venue)
  fix w assume w: "settled i pid lv rows ids w"
  then obtain v' where "ad_get_tpsl ad i pid (tw_venue w) = (Inr (Some lv), v')" "calm v'" "held v' = held (tw_venue w)"
    using reads [of "tw_venue w" i pid] by (auto simp: settled_def)
  moreover from this w have "used (tw_venue w) \<subseteq> used v'" using reads_used by (metis settled_def snd_conv)
  ultimately show "\<exists>a v. ad_get_tpsl ad i pid (tw_venue w) = (Inr a, v) \<and> a = Some lv
      \<and> settled i pid lv rows ids (w\<lparr>tw_venue := v\<rparr>)"
    using settled_moved [OF w] settled_parts [OF w] by auto
qed

lemma settled_write:
  assumes tp: "\<forall>p. tp = Some p \<longrightarrow> 0 < p" and sl: "\<forall>p. sl = Some p \<longrightarrow> 0 < p" and "tp \<noteq> None \<or> sl \<noteq> None"
  shows "reaches (settled i pid (ctp, csl) rows ids) (modify_protection env i pid tp sl b)
     (\<lambda>a w. a = () \<and> settled i pid (if tp \<noteq> None then map_option trigger tp else ctp,
        if sl \<noteq> None then map_option trigger sl else csl) rows ids w)"
proof -
  have fits: "(case l of None \<Rightarrow> Inr None | Some p \<Rightarrow> rbind (tpsl_post_init (trigger p)) (\<lambda>a. Inr (Some a)))
      = Inr (map_option trigger l)" if "\<forall>p. l = Some p \<longrightarrow> 0 < p" for l
    using that by (auto simp: tpsl_post_init_def trigger_def guard_exn_def split: option.splits)
  have "reaches (settled i pid (ctp, csl) rows ids)
      (venue (ad_modify_tpsl ad i pid (map_option trigger tp) (map_option trigger sl) b))
      (\<lambda>a w. a = () \<and> settled i pid (if tp \<noteq> None then map_option trigger tp else ctp,
        if sl \<noteq> None then map_option trigger sl else csl) rows ids w)"
  proof (rule reaches_venue)
    fix w assume w: "settled i pid (ctp, csl) rows ids w"
    then have c: "calm (tw_venue w)" "held (tw_venue w) i pid = Some (ctp, csl)" by (auto simp: settled_def)
    from writes [OF c, of "map_option trigger tp" "map_option trigger sl" b] assms(3)
    obtain v' where v: "ad_modify_tpsl ad i pid (map_option trigger tp) (map_option trigger sl) b (tw_venue w) = (Inr (), v')"
      and v': "calm v'" "held v' i pid = Some (if tp \<noteq> None then map_option trigger tp else ctp,
        if sl \<noteq> None then map_option trigger sl else csl)" by auto
    have "used (tw_venue w) \<subseteq> used v'" using writes_used [OF c(1)] v by (metis snd_conv)
    with v v' w show "\<exists>a v. ad_modify_tpsl ad i pid (map_option trigger tp) (map_option trigger sl) b (tw_venue w) = (Inr a, v)
      \<and> a = () \<and> settled i pid (if tp \<noteq> None then map_option trigger tp else ctp,
        if sl \<noteq> None then map_option trigger sl else csl) rows ids (w\<lparr>tw_venue := v\<rparr>)"
      using settled_moved [OF w v'] by auto
  qed
  then show ?thesis
    unfolding modify_protection_def fits [OF tp] fits [OF sl]
    by (intro reaches_bind_elift [OF refl]) (simp add: the_adapter)
qed

lemma settled_confirm:
  assumes "attachment_matches (snd lv) stop tick" and "attachment_matches (fst lv) tp tick"
    and "ts_instrument t = i" and "ts_position_id t = pid"
  shows "reaches (settled i pid lv rows ids) (confirm_protection env t stop tp tick)
     (\<lambda>_. settled i pid lv rows ids)"
proof (rule reachesI)
  fix w assume "settled i pid lv rows ids w"
  from reachesD [OF settled_read this] obtain w'
    where r: "venue (ad_get_tpsl ad i pid) w = (Inr (Some lv), w')" and w': "settled i pid lv rows ids w'" by blast
  have "confirm_protection_loop (Suc n) env t stop tp tick e w = (Inr None, w')" for n e
    using assms r
    by (cases lv) (simp add: read_levels_def the_adapter ebind_eattempt eret_def)
  from this [of 1] w' show "\<exists>a w'. confirm_protection env t stop tp tick w = (Inr a, w') \<and> settled i pid lv rows ids w'"
    by (simp add: confirm_protection_def eff_run(6) eret_def numeral_2_eq_2)
qed

lemma settled_spec:
  assumes "specs i = Some sp"
  shows "reaches (settled i pid lv rows ids) (cached_spec env i) (\<lambda>a w. a = sp \<and> settled i pid lv rows ids w)"
proof (rule reachesI)
  fix w assume w: "settled i pid lv rows ids w"
  show "\<exists>a w'. cached_spec env i w = (Inr a, w') \<and> a = sp \<and> settled i pid lv rows ids w'"
  proof (cases "dict_get (tw_specs w) (inst_id i)")
    case None
    from w obtain v where v: "ad_fetch_spec ad i (tw_venue w) = (Inr sp, v)" "calm v"
        "held v = held (tw_venue w)" "used (tw_venue w) \<subseteq> used v"
      using specified [OF _ assms, of "tw_venue w"] by (auto simp: settled_def)
    then have "cached_spec env i w = (Inr sp, w\<lparr>tw_venue := v, tw_specs := dict_set (inst_id i) sp (tw_specs w)\<rparr>)"
      using None by (simp add: cached_spec_def ebind_eget, simp add: ebind_def venue_def the_adapter eupd_def eret_def)
    with v w assms show ?thesis by (auto simp: settled_def)
  next
    case (Some sp')
    with w assms have "sp' = sp" by (auto simp: settled_def)
    with Some w show ?thesis by (simp add: cached_spec_def ebind_eget eret_def)
  qed
qed

lemma settled_ticker:
  "reaches (settled i pid lv rows ids) (venue (ad_fetch_ticker ad i)) (\<lambda>a w. a = quotes i \<and> settled i pid lv rows ids w)"
proof (rule reaches_venue)
  fix w assume w: "settled i pid lv rows ids w"
  then obtain v where "ad_fetch_ticker ad i (tw_venue w) = (Inr (quotes i), v)" "calm v"
      "held v = held (tw_venue w)" "used (tw_venue w) \<subseteq> used v"
    using quoted [of "tw_venue w" i] by (auto simp: settled_def)
  with w show "\<exists>a v. ad_fetch_ticker ad i (tw_venue w) = (Inr a, v) \<and> a = quotes i
      \<and> settled i pid lv rows ids (w\<lparr>tw_venue := v\<rparr>)" by (auto simp: settled_def)
qed

definition armed_with ::
    "instrument \<Rightarrow> string \<Rightarrow> decimal option \<Rightarrow> decimal option \<Rightarrow> protection_levels \<Rightarrow> trailing_state list
     \<Rightarrow> trailing_state \<Rightarrow> 'v tworld \<Rightarrow> bool" where
  "armed_with i pid stop tp lv rows t w \<longleftrightarrow> ts_phase t = ARMED \<and> ts_instrument t = i \<and> ts_position_id t = pid
     \<and> ts_stop t = stop \<and> ts_take_profit t = tp \<and> ts_id t \<notin> ts_id ` set rows
     \<and> settled i pid (if tp \<noteq> None then map_option trigger tp else fst lv,
                      if stop \<noteq> None then map_option trigger stop else snd lv) (rows @ [t]) {ts_id t} w"

lemma matches_written:
  "0 \<le> tick \<Longrightarrow> attachment_matches (if l \<noteq> None then map_option trigger l else x) l tick"
  by (cases l) (simp_all add: attachment_matches_def trigger_def dsub_def dabs_def)

text \<open>The end of an attachment: the state saved, its levels written and confirmed, the armed state saved.\<close>

lemma arming_tail:
  assumes tid: "ts_id t = tid" and pos: "\<forall>p. stop = Some p \<longrightarrow> 0 < p" "\<forall>p. tp = Some p \<longrightarrow> 0 < p" and tick: "0 \<le> tick"
    and t: "ts_instrument t = i" "ts_position_id t = pid"
    and u: "ts_phase u = ARMED" "ts_instrument u = i" "ts_position_id u = pid" "ts_stop u = stop"
      "ts_take_profit u = tp" "ts_id u = tid"
    and fresh: "tid \<notin> ts_id ` set rows"
    and free: "\<forall>x \<in> set rows. active_key x \<noteq> Some (sql_key i, pid)"
  shows "reaches (settled i pid lv rows {tid})
    (ebind (save t) (\<lambda>_.
     ebind (ewhen (stop \<noteq> None \<or> tp \<noteq> None)
       (ebind (etry (modify_protection env i pid tp stop tb) h) (\<lambda>_. confirm_protection env t stop tp tick))) (\<lambda>_.
     ebind (save u) (\<lambda>_.
     ebind (publish_state env u ARMING note) (\<lambda>_.
     ebind (audit env ''trailing.attached'' u a1 a2 note []) (\<lambda>_.
     ebind (ewhen x (audit env ''trailing.takeover'' u b1 b2 c [])) (\<lambda>_. eret u)))))))
    (armed_with i pid stop tp lv rows)"
proof -
  let ?lv = "(if tp \<noteq> None then map_option trigger tp else fst lv, if stop \<noteq> None then map_option trigger stop else snd lv)"
  have key: "active_key y = None \<or> active_key y \<notin> active_key ` set rows"
    if "ts_instrument y = i" "ts_position_id y = pid" for y
    using that free by (cases "active_key y") (auto simp: active_key_def split: if_splits)
  have others: "filter (\<lambda>v. ts_id v \<noteq> tid) rows = rows" using fresh by (induction rows) auto
  have first: "reaches (settled i pid lv rows {tid}) (save t) (\<lambda>_. settled i pid lv (rows @ [t]) {tid})"
    by (rule settled_save_last) (simp_all add: others key t tid)
  have written: "reaches (settled i pid lv (rows @ [t]) {tid}) (ewhen (stop \<noteq> None \<or> tp \<noteq> None)
      (ebind (etry (modify_protection env i pid tp stop tb) h) (\<lambda>_. confirm_protection env t stop tp tick)))
      (\<lambda>_. settled i pid ?lv (rows @ [t]) {tid})"
  proof (rule reaches_ewhen)
    assume "stop \<noteq> None \<or> tp \<noteq> None"
    then have "reaches (settled i pid (fst lv, snd lv) (rows @ [t]) {tid}) (modify_protection env i pid tp stop tb)
        (\<lambda>a w. a = () \<and> settled i pid ?lv (rows @ [t]) {tid} w)"
      by (intro settled_write pos) auto
    then show "reaches (settled i pid lv (rows @ [t]) {tid})
        (ebind (etry (modify_protection env i pid tp stop tb) h) (\<lambda>_. confirm_protection env t stop tp tick))
        (\<lambda>_. settled i pid ?lv (rows @ [t]) {tid})"
      by (intro reaches_bind_etry [where v = "()" and R = "settled i pid ?lv (rows @ [t]) {tid}"]
          settled_confirm t) (simp_all only: fst_conv snd_conv prod.collapse matches_written tick)
  qed auto
  have second: "reaches (settled i pid ?lv (rows @ [t]) {tid}) (save u) (\<lambda>_. settled i pid ?lv (rows @ [u]) {tid})"
    by (rule settled_save_last) (simp_all add: others key u tid)
  show ?thesis
    unfolding publish_state_def
    by (rule reaches_bind_unit [OF first], rule reaches_bind_unit [OF written], rule reaches_bind_unit [OF second],
        rule reaches_bind_unit [OF settled_emit], rule reaches_bind_unit [OF settled_audit],
        rule reaches_bind_unit [OF reaches_ewhen [OF settled_audit]], simp, rule reaches_eret)
      (use u fresh in \<open>simp add: armed_with_def\<close>)
qed

lemma attach_synthetic_arms:
  fixes req :: trailing_request and leg :: position
  defines "i \<equiv> rq_instrument req" and "q \<equiv> rq_spec req" and "s \<equiv> leg_side leg"
  assumes bases: "resolve_bases q TM_SYNTHETIC (ad_protection_cap ad i) (ad_market_cap ad i) s = (Some b, tb)"
    and spec: "specs i = Some sp" "0 \<le> sp_tick_size sp" and atr: "\<not> uses_atr q"
    and quote: "quotes i = Some k" "basis_price k b = Some basis"
    and act: "resolve_activation_price q s (po_entry leg) = Inr ap"
    and stop: "first_stop q s (po_entry leg) basis None sp (is_activation_reached s basis ap) = Inr stop"
    and tp: "first_take_profit q s (po_entry leg) None sp = Inr tp"
    and over: "takeover_checks req tp (Some lv) = Inr lv"
    and free: "\<forall>u \<in> set rows. active_key u \<noteq> Some (sql_key i, pid)"
  shows "reaches (settled i pid lv rows {}) (attach_synthetic env req leg pid reason)
    (armed_with i pid stop tp lv rows)"
proof -
  have pos: "\<forall>p. stop = Some p \<longrightarrow> 0 < p" "\<forall>p. tp = Some p \<longrightarrow> 0 < p"
    using first_stop_sound(1) first_take_profit_sound(1) stop tp by blast+
  let ?lv = "(if tp \<noteq> None then map_option trigger tp else fst lv, if stop \<noteq> None then map_option trigger stop else snd lv)"
  note defs = i_def [symmetric] q_def [symmetric] s_def [symmetric]
  show ?thesis
    unfolding attach_synthetic_def Let_def the_adapter defs bases load_atr_def
    apply (rule reaches_bind_value [OF settled_spec [OF spec(1)]])
    apply (simp only: atr not_False_eq_True if_True ebind_simps fst_conv snd_conv option.case)
    apply (rule reaches_bind_value [OF settled_ticker])
    apply (simp only: quote option.case)
    apply (rule reaches_bind_elift [OF act])
    apply (rule reaches_bind_elift [OF stop])
    apply (rule reaches_bind_elift [OF tp])
    apply (rule reaches_bind_value [OF settled_read])
    apply (rule reaches_bind_elift [OF over])
    apply (unfold may_reduce_def)
    apply (rule reaches_bind_eget [where a = True], simp add: settled_def)
    apply (rule reaches_bind_eguard, simp)
    apply (rule reaches_bind_value [where v = True and R = "settled i pid lv rows {}"])
     apply (rule reaches_if, rule settled_reserve, rule reaches_eret, simp)
    apply (rule reaches_bind_eguard, simp)
    apply (rule reaches_bind [OF settled_clock])
    apply (rule reaches_bind [OF settled_fresh])
    apply (rule reaches_pure [where b = "_ \<notin> ts_id ` set rows"])
    apply (rule arming_tail [OF _ pos spec(2)])
    apply (simp_all add: arming_state_def i_def [symmetric] free)
    done
qed

text \<open>What must hold for a synthetic attachment to pass its checks.\<close>

definition attachable ::
    "trailing_request \<Rightarrow> position \<Rightarrow> string \<Rightarrow> string \<Rightarrow> protection_levels \<Rightarrow> decimal option \<Rightarrow> decimal option \<Rightarrow> 'v tworld \<Rightarrow> bool" where
  "attachable req leg pid reason lv stop tp w \<longleftrightarrow>
     (let i = rq_instrument req; q = rq_spec req; s = leg_side leg in
      settled i pid lv (so_trailing (tw_store w)) {} w
      \<and> tw_rehydrated w = Some True
      \<and> (\<exists>legs. fst (get_positions i (tw_store w)) = Inr legs \<and> resolve_position_leg legs (rq_position_id req) = Inr (leg, pid))
      \<and> (\<forall>u \<in> set (so_trailing (tw_store w)). ts_phase u \<in> ACTIVE_TRAILING_PHASES
            \<longrightarrow> sql_key (ts_instrument u) = sql_key i \<longrightarrow> ts_position_id u \<noteq> pid)
      \<and> resolve_routing req (ad_protection_cap ad i) (ad_trailing_cap ad i) (ad_market_cap ad i) = Inr (TM_SYNTHETIC, reason)
      \<and> \<not> uses_atr q
      \<and> (\<exists>b tb sp k basis ap.
           resolve_bases q TM_SYNTHETIC (ad_protection_cap ad i) (ad_market_cap ad i) s = (Some b, tb)
         \<and> specs i = Some sp \<and> 0 \<le> sp_tick_size sp \<and> quotes i = Some k \<and> basis_price k b = Some basis
         \<and> resolve_activation_price q s (po_entry leg) = Inr ap
         \<and> first_stop q s (po_entry leg) basis None sp (is_activation_reached s basis ap) = Inr stop
         \<and> first_take_profit q s (po_entry leg) None sp = Inr tp)
      \<and> takeover_checks req tp (Some lv) = Inr lv)"

lemma attach_arms:
  assumes "attachable req leg pid reason lv stop tp w"
  shows "\<exists>t w'. attach env req w = (Inr t, w') \<and> ts_phase t = ARMED \<and> ts_stop t = stop \<and> ts_take_profit t = tp
    \<and> trailing_row (ts_id t) (tw_store w') = Some t
    \<and> held (tw_venue w') (rq_instrument req) pid =
        Some (if tp \<noteq> None then map_option trigger tp else fst lv,
              if stop \<noteq> None then map_option trigger stop else snd lv)"
proof -
  let ?i = "rq_instrument req" and ?rows = "so_trailing (tw_store w)"
  from assms have w: "settled ?i pid lv ?rows {} w" and free: "\<forall>u \<in> set ?rows. ts_phase u \<in> ACTIVE_TRAILING_PHASES
      \<longrightarrow> sql_key (ts_instrument u) = sql_key ?i \<longrightarrow> ts_position_id u \<noteq> pid"
    by (simp_all add: attachable_def Let_def)
  from free have "\<forall>u \<in> set ?rows. active_key u \<noteq> Some (sql_key ?i, pid)" by (auto simp: active_key_def)
  with assms have "reaches (settled ?i pid lv ?rows {}) (attach_synthetic env req leg pid reason)
      (armed_with ?i pid stop tp lv ?rows)"
    unfolding attachable_def Let_def by (elim conjE exE) (rule attach_synthetic_arms)
  from reachesD [OF this w] obtain t w1 where run: "attach_synthetic env req leg pid reason w = (Inr t, w1)"
    and t: "armed_with ?i pid stop tp lv ?rows t w1" by blast
  let ?lv = "(if tp \<noteq> None then map_option trigger tp else fst lv, if stop \<noteq> None then map_option trigger stop else snd lv)"
  from t have "settled ?i pid ?lv (?rows @ [t]) {ts_id t} w1" by (simp add: armed_with_def)
  from reachesD [OF settled_audit [where kind = "''trailing.routing''" and t = t and prev = "ts_prev_stop t"
      and cur = "ts_stop t" and reason = "Some reason" and extra = "[]"] this]
  obtain w2 where audit: "audit env ''trailing.routing'' t (ts_prev_stop t) (ts_stop t) (Some reason) [] w1 = (Inr (), w2)"
      and w2: "settled ?i pid ?lv (?rows @ [t]) {ts_id t} w2" by auto
  obtain legs where legs: "in_store (get_positions ?i) w = (Inr legs, w)"
      "resolve_position_leg legs (rq_position_id req) = Inr (leg, pid)"
    using assms by (auto simp: attachable_def Let_def in_store_def get_positions_def eget_def)
  have active: "in_store (list_trailing_states (Some ?i) (Some ACTIVE_TRAILING_PHASES)) w = (Inr (newest ts_updated_at
      (filter (\<lambda>u. sql_key (ts_instrument u) = sql_key ?i \<and> ts_phase u \<in> ACTIVE_TRAILING_PHASES) ?rows)), w)"
    by (simp add: in_store_def list_trailing_states_def eget_def ACTIVE_TRAILING_PHASES_def)
  from free have none: "\<not> list_ex (\<lambda>u. ts_position_id u = pid) (newest ts_updated_at
      (filter (\<lambda>u. sql_key (ts_instrument u) = sql_key ?i \<and> ts_phase u \<in> ACTIVE_TRAILING_PHASES) ?rows))"
    by (auto simp: list_ex_iff newest_def)
  have ready: "require_ready env w = (Inr (), w)" "require_rehydrated w = (Inr (), w)"
    using connected [of "tw_venue w"] w assms
    by (simp_all add: require_ready_def require_rehydrated_def ebind_eget the_adapter settled_def attachable_def Let_def)
      (simp_all add: eret_def)
  have routed: "resolve_routing req (ad_protection_cap ad ?i) (ad_trailing_cap ad ?i) (ad_market_cap ad ?i)
      = Inr (TM_SYNTHETIC, reason)"
    using assms by (simp add: attachable_def Let_def)
  have "attach env req w = (Inr t, w2)"
    unfolding attach_def Let_def the_adapter
    by (simp add: eff_run(6) ready legs active none routed run audit) (simp add: eret_def)
  with t w2 show ?thesis
    by (auto simp: armed_with_def settled_def trailing_row_def find_fresh)
qed

end

subsection \<open>The mock venue provides the interface\<close>

text \<open>Its outside world counts: readings of the clock and fresh ids.\<close>

definition counted :: "nat menv \<Rightarrow> nat menv" where
  "counted env = env\<lparr>me_clock := (\<lambda>n. (int n, Suc n)), me_new_id := (\<lambda>n. (replicate n CHR ''u'', Suc n))\<rparr>"

definition mock_tenv :: "nat menv \<Rightarrow> trailing_config \<Rightarrow> nat mock tenv" where
  "mock_tenv env c = \<lparr>te_adapter = mock_adapter (counted env), te_config = c,
     te_clock = (\<lambda>m. (int (mk_outside m), m\<lparr>mk_outside := Suc (mk_outside m)\<rparr>)),
     te_new_id = (\<lambda>m. (replicate (mk_outside m) CHR ''u'', m\<lparr>mk_outside := Suc (mk_outside m)\<rparr>)),
     te_reserve = (\<lambda>m. (True, m))\<rparr>"

definition mock_calm ::
    "(instrument \<Rightarrow> ticker option) \<Rightarrow> (instrument \<Rightarrow> instrument_spec option) \<Rightarrow> nat mock \<Rightarrow> bool" where
  \<comment> \<open>connected, nothing scripted, no error armed\<close>
  "mock_calm quotes specs m \<longleftrightarrow> mk_connected m \<and> mk_error m = None \<and> mk_ticker_error m = None
     \<and> mk_set_error m = None \<and> mk_ticker_queue m = []
     \<and> (\<forall>i. dict_get (mk_tickers m) (inst_id i) = quotes i) \<and> (\<forall>i. dict_get (mk_specs m) (inst_id i) = specs i)"

definition mock_held :: "nat mock \<Rightarrow> instrument \<Rightarrow> string \<Rightarrow> protection_levels option" where
  "mock_held m i pid = (if open_position m i pid = None then None else Some (levels_at m i pid))"

definition mock_used :: "nat mock \<Rightarrow> string set" where
  "mock_used m = (\<lambda>n. replicate n CHR ''u'') ` {..<mk_outside m}"

lemma consume_calm: "mk_error m = None \<Longrightarrow> consume_error m = (Inr (), m)"
  by (simp add: consume_error_def ebind_eget ebind_eupd raise_opt_def eret_def)

lemma slot_calm: "slot m = None \<Longrightarrow> consume_slot slot clear m = (Inr (), m)"
  by (simp add: consume_slot_def ebind_eget eret_def)

lemma mock_reads: "mk_error m = None \<Longrightarrow> mock_get_tpsl i pid m = (Inr (mock_held m i pid), m)"
  by (simp add: mock_get_tpsl_def mock_held_def eff_run(6) consume_calm eget_def)

lemma mock_writes:
  assumes "mk_error m = None" "mk_set_error m = None" "tp \<noteq> None \<or> sl \<noteq> None" "open_position m i pid = Some p"
  shows "mock_modify_tpsl i pid tp sl b m = (Inr (), write_levels
    \<lparr>pw_instrument = i, pw_position_id = pid, pw_side = side_of_quantity p,
     pw_take_profit = (if tp \<noteq> None then tp else fst (levels_at m i pid)),
     pw_stop_loss = (if sl \<noteq> None then sl else snd (levels_at m i pid)),
     pw_cleared_tp = False, pw_cleared_sl = False, pw_basis = b\<rparr> m)"
  using assms
  by (cases "levels_at m i pid")
    (auto simp: mock_modify_tpsl_def eff_run(6) consume_calm slot_calm ebind_eget eupd_def)

lemma write_levels_read:
  "open_position (write_levels x m) j q = open_position m j q"
  "levels_at (write_levels x m) (pw_instrument x) (pw_position_id x) = (pw_take_profit x, pw_stop_loss x)"
  by (simp_all add: write_levels_def open_position_def levels_at_def)

lemma mock_modify_used: "mk_outside (snd (mock_modify_tpsl i pid tp sl b m)) = mk_outside m"
  by (auto simp: mock_modify_tpsl_def consume_error_def consume_slot_def raise_opt_def ebind_def eget_def eupd_def
      eret_def elift_def eguard_def guard_exn_def set_next_set_protection_error_def write_levels_def
      split: option.splits prod.splits sum.splits if_splits)

interpretation mock: quiet_venue "mock_adapter (counted env)" "mock_calm quotes specs" mock_held
    "mock_tenv env c" mock_used quotes specs for env c quotes specs
proof
  fix v i pid assume v: "mock_calm quotes specs v"
  then have run: "ad_get_tpsl (mock_adapter (counted env)) i pid v = (Inr (mock_held v i pid), v)"
    by (simp add: mock_adapter_def mock_calm_def mock_reads)
  then show "\<exists>v'. ad_get_tpsl (mock_adapter (counted env)) i pid v = (Inr (mock_held v i pid), v')
      \<and> mock_calm quotes specs v' \<and> mock_held v' = mock_held v" using v by blast
  show "mock_used v \<subseteq> mock_used (snd (ad_get_tpsl (mock_adapter (counted env)) i pid v))" by (simp add: run)
next
  fix v :: "nat mock" and i pid ctp csl and tp sl :: "tpsl option" and b :: "trailing_basis option"
  assume v: "mock_calm quotes specs v" and held: "mock_held v i pid = Some (ctp, csl)" and some: "tp \<noteq> None \<or> sl \<noteq> None"
  then obtain p where p: "open_position v i pid = Some p" "levels_at v i pid = (ctp, csl)"
    by (auto simp: mock_held_def split: if_splits)
  let ?x = "\<lparr>pw_instrument = i, pw_position_id = pid, pw_side = side_of_quantity p,
     pw_take_profit = (if tp \<noteq> None then tp else ctp), pw_stop_loss = (if sl \<noteq> None then sl else csl),
     pw_cleared_tp = False, pw_cleared_sl = False, pw_basis = b\<rparr>"
  have "ad_modify_tpsl (mock_adapter (counted env)) i pid tp sl b v = (Inr (), write_levels ?x v)"
    using mock_writes [OF _ _ some p(1), of b] v p(2) by (simp add: mock_adapter_def mock_calm_def)
  moreover have "mock_calm quotes specs (write_levels ?x v)" using v by (simp add: mock_calm_def write_levels_def)
  moreover have "mock_held (write_levels ?x v) i pid = Some (if tp \<noteq> None then tp else ctp, if sl \<noteq> None then sl else csl)"
    using p(1) write_levels_read(2) [of ?x v] by (simp add: mock_held_def write_levels_read(1))
  ultimately show "\<exists>v'. ad_modify_tpsl (mock_adapter (counted env)) i pid tp sl b v = (Inr (), v') \<and> mock_calm quotes specs v'
      \<and> mock_held v' i pid = Some (if tp \<noteq> None then tp else ctp, if sl \<noteq> None then sl else csl)" by blast
next
  fix v :: "nat mock" and i pid tp sl b
  show "mock_used v \<subseteq> mock_used (snd (ad_modify_tpsl (mock_adapter (counted env)) i pid tp sl b v))"
    by (simp add: mock_adapter_def mock_used_def mock_modify_used)
qed (auto simp: mock_tenv_def mock_adapter_def mock_calm_def mock_held_def mock_used_def open_position_def levels_at_def
      mock_fetch_ticker_def mock_fetch_spec_def scripted_def fun_eq_iff eff_run(6) consume_calm slot_calm ebind_eget eget_def eret_def
      lessThan_Suc)

subsection \<open>Attaching on the mock venue\<close>

definition mock_quiet :: "nat mock \<Rightarrow> bool" where
  \<comment> \<open>connected, no error armed, no ticker scripted\<close>
  "mock_quiet m \<longleftrightarrow> mk_connected m \<and> mk_error m = None \<and> mk_ticker_error m = None \<and> mk_set_error m = None
     \<and> mk_ticker_queue m = []"

definition mock_world_ready :: "instrument \<Rightarrow> nat mock tworld \<Rightarrow> bool" where
  \<comment> \<open>besides: rehydrated, the instrument not halted for reductions, its cached specification the
      venue's, and every id in the store one the venue has given out\<close>
  "mock_world_ready i w \<longleftrightarrow> mock_quiet (tw_venue w) \<and> tw_rehydrated w = Some True
     \<and> can_place_order (tw_halts w) i True
     \<and> dict_get (tw_specs w) (inst_id i) \<in> {None, dict_get (mk_specs (tw_venue w)) (inst_id i)}
     \<and> ts_id ` set (so_trailing (tw_store w)) \<union> au_id ` set (so_audit (tw_store w)) \<subseteq> mock_used (tw_venue w)"

text \<open>
  C7. An attachment that passes its checks succeeds. On the mock venue, with no error scripted, a
  synthetic request whose routing, leg, price of the sampling basis, first levels and takeover rule
  are in order, on a leg without an active trailing state, ends with a state that is armed with these
  levels, stored, and confirmed at the venue, which keeps the sides the request does not set.
\<close>
theorem attach_succeeds:
  fixes env :: "nat menv" and req :: trailing_request and w :: "nat mock tworld" and leg :: position
  defines "i \<equiv> rq_instrument req" and "q \<equiv> rq_spec req" and "m \<equiv> tw_venue w" and "s \<equiv> leg_side leg"
    and "pc \<equiv> cap_or (me_protection_caps env) default_protection_capability (rq_instrument req)"
    and "md \<equiv> cap_or (me_market_caps env) default_market_capability (rq_instrument req)"
  assumes ready: "mock_world_ready i w"
    and leg: "fst (get_positions i (tw_store w)) = Inr legs" "resolve_position_leg legs (rq_position_id req) = Inr (leg, pid)"
    and free: "\<forall>u \<in> set (so_trailing (tw_store w)). ts_phase u \<in> ACTIVE_TRAILING_PHASES
      \<longrightarrow> sql_key (ts_instrument u) = sql_key i \<longrightarrow> ts_position_id u \<noteq> pid"
    and routing: "resolve_routing req pc (cap_or (me_trailing_caps env) default_trailing_capability i) md = Inr (TM_SYNTHETIC, reason)"
    and market: "resolve_bases q TM_SYNTHETIC pc md s = (Some b, tb)" "dict_get (mk_tickers m) (inst_id i) = Some k"
      "basis_price k b = Some basis" "dict_get (mk_specs m) (inst_id i) = Some sp" "0 \<le> sp_tick_size sp" "\<not> uses_atr q"
    and levels: "resolve_activation_price q s (po_entry leg) = Inr ap"
      "first_stop q s (po_entry leg) basis None sp (is_activation_reached s basis ap) = Inr stop"
      "first_take_profit q s (po_entry leg) None sp = Inr tp"
    and over: "open_position m i pid \<noteq> None" "takeover_checks req tp (Some (levels_at m i pid)) = Inr (levels_at m i pid)"
  shows "\<exists>t w'. attach (mock_tenv env c) req w = (Inr t, w') \<and> ts_phase t = ARMED \<and> ts_stop t = stop \<and> ts_take_profit t = tp
    \<and> trailing_row (ts_id t) (tw_store w') = Some t
    \<and> mock_held (tw_venue w') i pid = Some (if tp \<noteq> None then map_option trigger tp else fst (levels_at m i pid),
         if stop \<noteq> None then map_option trigger stop else snd (levels_at m i pid))"
proof -
  let ?quotes = "\<lambda>i. dict_get (mk_tickers m) (inst_id i)" and ?specs = "\<lambda>i. dict_get (mk_specs m) (inst_id i)"
  have caps: "ad_protection_cap (mock_adapter (counted env)) i = pc" "ad_market_cap (mock_adapter (counted env)) i = md"
    "ad_trailing_cap (mock_adapter (counted env)) i = cap_or (me_trailing_caps env) default_trailing_capability i"
    by (simp_all add: mock_adapter_def counted_def pc_def md_def i_def)
  have settled: "mock.settled ?quotes ?specs i pid (levels_at m i pid) (so_trailing (tw_store w)) {} w"
    using ready over(1) unfolding mock.settled_def
    by (auto simp: mock_world_ready_def mock_quiet_def mock_calm_def mock_held_def m_def)
  have "mock.attachable env ?quotes ?specs req leg pid reason (levels_at m i pid) stop tp w"
    unfolding mock.attachable_def Let_def i_def [symmetric] q_def [symmetric] s_def [symmetric] caps
    using settled ready leg free routing market levels over(2)
    by (intro conjI; (simp add: mock_world_ready_def; fail)?; blast)
  from mock.attach_arms [OF this, of c] show ?thesis by (simp add: i_def)
qed

text \<open>A mock with one long leg of two at 100 and a ticker at 105.\<close>

definition demo_leg :: position where
  "demo_leg = \<lparr>po_instrument = btc_spot, po_quantity = 2, po_entry = 100, po_updated_at = 0,
     po_id = Some ''leg'', po_opened_at = None\<rparr>"

definition demo_menv :: "nat menv" where
  "demo_menv = set_market_capability btc_spot ticker_market
     (set_protection_capability btc_spot full_protection
       \<lparr>me_platform = ''mock'', me_account = ''mock-account'', me_order_types = mock_order_types,
        me_protection_caps = [], me_trailing_caps = [], me_market_caps = [],
        me_clock = (\<lambda>n. (int n, n)), me_new_id = (\<lambda>n. (''id'', n))\<rparr>)"

definition demo_mock :: "nat mock" where
  "demo_mock = set_connected True (seed_position demo_leg (add_instrument_spec btc_spot paper_spec
     (set_ticker btc_spot ticker_105 (mock_init (mock_rates 0) 0))))"

definition demo_world :: "nat mock tworld" where
  "demo_world = \<lparr>tw_venue = demo_mock, tw_store = empty_store\<lparr>so_positions := [demo_leg]\<rparr>, tw_events = [],
     tw_halts = halt_init None, tw_fetch_failures = [], tw_atr_failures = [], tw_specs = [],
     tw_rehydrated = Some True\<rparr>"

lemma demo_ready: "mock_world_ready btc_spot demo_world"
  by code_simp

lemma demo_position:
  "fst (get_positions btc_spot (tw_store demo_world)) = Inr [demo_leg]"
  "resolve_position_leg [demo_leg] None = Inr (demo_leg, ''leg'')"
  by (code_simp, simp add: resolve_position_leg_def demo_leg_def)

lemma demo_routing:
  "resolve_routing auto_request (cap_or (me_protection_caps demo_menv) default_protection_capability btc_spot)
     (cap_or (me_trailing_caps demo_menv) default_trailing_capability btc_spot)
     (cap_or (me_market_caps demo_menv) default_market_capability btc_spot) = Inr (TM_SYNTHETIC, ''native_unsupported'')"
  by code_simp

lemma demo_bases:
  "resolve_bases percent_spec TM_SYNTHETIC (cap_or (me_protection_caps demo_menv) default_protection_capability btc_spot)
     (cap_or (me_market_caps demo_menv) default_market_capability btc_spot) BUY = (Some TB_LAST, Some TB_LAST)"
  by code_simp

lemma demo_stop: "first_stop percent_spec BUY 100 105 None paper_spec True = Inr (Some 103)"
  by (simp add: first_stop_def candidate_stop_def percent_spec_def paper_spec_def quantize_stop_def quantize_price_def
      is_long_def ddiv_nz_def ddiv_def dsub_def dmul_def ctx_round_eval to_integral_def trunc_int_def
      validate_level_direction_def respects_min_stop_distance_def guard_exn_def)

lemmas demo_facts = demo_ready demo_position demo_routing demo_bases demo_stop

theorem attach_succeeds_witness:
  "\<exists>t w'. attach (mock_tenv demo_menv default_trailing_config) auto_request demo_world = (Inr t, w')
     \<and> ts_phase t = ARMED \<and> mock_held (tw_venue w') btc_spot ''leg'' = Some (None, Some (trigger 103))"
proof -
  have request: "rq_instrument auto_request = btc_spot" "rq_spec auto_request = percent_spec" "rq_position_id auto_request = None"
    by (simp_all add: auto_request_def)
  have leg: "leg_side demo_leg = BUY" "po_entry demo_leg = 100" by (simp_all add: demo_leg_def leg_side_def)
  have venue: "dict_get (mk_tickers (tw_venue demo_world)) (inst_id btc_spot) = Some ticker_105"
      "dict_get (mk_specs (tw_venue demo_world)) (inst_id btc_spot) = Some paper_spec"
      "levels_at (tw_venue demo_world) btc_spot ''leg'' = (None, None)"
      "open_position (tw_venue demo_world) btc_spot ''leg'' \<noteq> None" "so_trailing (tw_store demo_world) = []"
    by (simp_all add: demo_world_def demo_mock_def set_connected_def seed_position_def add_instrument_spec_def
        set_ticker_def mock_init_def levels_at_def open_position_def demo_leg_def is_leg_def empty_store_def)
  have "basis_price ticker_105 TB_LAST = Some 105" "\<not> uses_atr percent_spec"
      "resolve_activation_price percent_spec BUY 100 = Inr None"
      "is_activation_reached BUY 105 None" "first_take_profit percent_spec BUY 100 None paper_spec = Inr None"
      "takeover_checks auto_request None (Some (None, None)) = Inr (None, None)" "0 \<le> sp_tick_size paper_spec"
    by code_simp+
  then show ?thesis
    using attach_succeeds [of auto_request demo_world "[demo_leg]" demo_leg "''leg''" demo_menv "''native_unsupported''"
        TB_LAST "Some TB_LAST" ticker_105 105 paper_spec None "Some 103" None default_trailing_config]
      demo_facts venue by (simp add: request leg) blast
qed

end
