(* ===== verification/UTE_Rates.thy ===== *)
theory UTE_Rates
  imports UTE_Decimal
begin

text \<open>
  \<^verbatim>\<open>hyperliquid/rates.py\<close>: the weights of the calls of the Hyperliquid adapter and the sliding window
  of what was spent. The lock makes each operation one step; the reading of the monotonic clock is
  an argument, in seconds.
\<close>

subsection \<open>Weights\<close>

definition IP_WEIGHT_BUDGET_PER_MINUTE :: int where
  "IP_WEIGHT_BUDGET_PER_MINUTE = 1200"

definition IP_WEIGHT_WINDOW_SECONDS :: rat where
  "IP_WEIGHT_WINDOW_SECONDS = 60"

definition CONNECT_WEIGHT :: int where
  "CONNECT_WEIGHT = 120"

definition UNKNOWN_WEIGHT :: int where
  "UNKNOWN_WEIGHT = 20"

definition INFO_WEIGHTS :: "(string, int) dict" where
  "INFO_WEIGHTS = [(''l2_snapshot'', 2), (''all_mids'', 2), (''user_state'', 2), (''spot_user_state'', 2),
     (''query_order_by_cloid'', 2), (''user_role'', 60)]"

definition EXCHANGE_SINGLES :: "string list" where
  "EXCHANGE_SINGLES = [''order'', ''modify_order'', ''cancel_by_cloid'', ''update_leverage'',
     ''update_isolated_margin'']"

definition SURCHARGED_METHODS :: "string list" where
  "SURCHARGED_METHODS = [''user_fills'', ''user_fills_by_time'', ''funding_history'',
     ''user_funding_history'', ''historical_orders'']"

definition SURCHARGED_60_METHODS :: "string list" where
  "SURCHARGED_60_METHODS = [''candles_snapshot'']"

definition request_weight :: "string \<Rightarrow> int \<Rightarrow> int" where
  "request_weight name batch =
     (if name = ''bulk_orders'' then 1 + max batch 1 div 40
      else if name \<in> set EXCHANGE_SINGLES then 1
      else case dict_get INFO_WEIGHTS name of None \<Rightarrow> UNKNOWN_WEIGHT | Some w \<Rightarrow> w)"

text \<open>A response is given by its length when it is a list.\<close>

definition surcharge_weight :: "string \<Rightarrow> int option \<Rightarrow> int" where
  "surcharge_weight name response =
     (case response of
        None \<Rightarrow> 0
      | Some n \<Rightarrow>
          if name \<in> set SURCHARGED_60_METHODS then n div 60
          else if name \<in> set SURCHARGED_METHODS then n div 20
          else 0)"

text \<open>
  A callable is given by its \<^verbatim>\<open>__name__\<close> when it is a string, its arguments by the lengths of those
  that are sized.
\<close>

definition describe_call :: "string option \<Rightarrow> int option list \<Rightarrow> string \<times> int" where
  "describe_call name args =
     (case name of
        None \<Rightarrow> ('''', 1)
      | Some n \<Rightarrow>
          if n = '''' then ('''', 1)
          else (n, if n = ''bulk_orders'' \<and> args \<noteq> []
                   then (case hd args of None \<Rightarrow> 1 | Some k \<Rightarrow> max k 1) else 1))"

subsection \<open>The sliding window\<close>

record rate_budget =
  rb_budget :: int
  rb_window :: rat
  rb_entries :: "(rat \<times> int) list"

definition budget_init :: "int \<Rightarrow> rat \<Rightarrow> rate_budget" where
  "budget_init b w = \<lparr>rb_budget = b, rb_window = w, rb_entries = []\<rparr>"

definition prune :: "rat \<Rightarrow> rate_budget \<Rightarrow> rate_budget" where
  "prune now b = b\<lparr>rb_entries := filter (\<lambda>(t, _). now - rb_window b < t) (rb_entries b)\<rparr>"

definition record_spend :: "rat \<Rightarrow> int \<Rightarrow> rate_budget \<Rightarrow> rate_budget" where
  "record_spend now weight b =
     (if weight \<le> 0 then b
      else let p = prune now b in p\<lparr>rb_entries := rb_entries p @ [(now, weight)]\<rparr>)"

definition spent :: "rat \<Rightarrow> rate_budget \<Rightarrow> int \<times> rate_budget" where
  "spent now b = (let p = prune now b in (sum_list (map snd (rb_entries p)), p))"

definition remaining :: "rat \<Rightarrow> rate_budget \<Rightarrow> int \<times> rate_budget" where
  "remaining now b = (case spent now b of (s, p) \<Rightarrow> (max 0 (rb_budget b - s), p))"

definition resets_in :: "rat \<Rightarrow> rate_budget \<Rightarrow> rat \<times> rate_budget" where
  "resets_in now b =
     (let p = prune now b in
      if rb_entries p = [] then (0, p)
      else (max 0 (Min (set (map fst (rb_entries p))) + rb_window b - now), p))"

subsection \<open>Correctness\<close>

text \<open>
  The specification keeps everything that was ever recorded and prunes nothing: what counts at a
  time is the positive weight recorded inside the window before it.
\<close>

datatype budget_call = BC_record rat int | BC_spent rat | BC_remaining rat | BC_resets rat

fun call_time :: "budget_call \<Rightarrow> rat" where
  "call_time (BC_record t _) = t"
| "call_time (BC_spent t) = t"
| "call_time (BC_remaining t) = t"
| "call_time (BC_resets t) = t"

fun run_budget_call :: "budget_call \<Rightarrow> rate_budget \<Rightarrow> rate_budget" where
  "run_budget_call (BC_record t w) b = record_spend t w b"
| "run_budget_call (BC_spent t) b = snd (spent t b)"
| "run_budget_call (BC_remaining t) b = snd (remaining t b)"
| "run_budget_call (BC_resets t) b = snd (resets_in t b)"

definition run_budget :: "budget_call list \<Rightarrow> rate_budget \<Rightarrow> rate_budget" where
  "run_budget cs b = fold run_budget_call cs b"

fun ledger :: "budget_call list \<Rightarrow> (rat \<times> int) list" where
  "ledger [] = []"
| "ledger (BC_record t w # cs) = (if 0 < w then (t, w) # ledger cs else ledger cs)"
| "ledger (_ # cs) = ledger cs"

definition live :: "rat \<Rightarrow> (rat \<times> int) list \<Rightarrow> (rat \<times> int) list" where
  "live cutoff es = filter (\<lambda>(t, _). cutoff < t) es"

lemma live_live: "c \<le> c' \<Longrightarrow> live c' (live c es) = live c' es"
  by (induction es) (auto simp: live_def)

lemma live_append: "live c (es @ fs) = live c es @ live c fs"
  by (simp add: live_def)

lemma prune_facts [simp]:
  "rb_entries (prune now b) = live (now - rb_window b) (rb_entries b)"
  "rb_window (prune now b) = rb_window b" "rb_budget (prune now b) = rb_budget b"
  by (simp_all add: prune_def live_def)

lemma call_same [simp]:
  "rb_window (run_budget_call c b) = rb_window b" "rb_budget (run_budget_call c b) = rb_budget b"
  by (cases c; simp add: record_spend_def spent_def remaining_def resets_in_def Let_def)+

lemma live_Nil [simp]: "live c [] = []"
  by (simp add: live_def)

lemma reads_prune [simp]:
  "snd (spent t b) = prune t b" "snd (remaining t b) = prune t b" "snd (resets_in t b) = prune t b"
  by (simp_all add: spent_def remaining_def resets_in_def Let_def)

lemma call_entries:
  assumes "call_time c \<le> now"
  shows "live (now - rb_window b) (rb_entries (run_budget_call c b))
    = live (now - rb_window b) (rb_entries b @ ledger [c])"
  using assms
  by (cases c) (auto simp: record_spend_def Let_def live_append live_live)

lemma run_entries:
  "\<forall>c \<in> set cs. call_time c \<le> now \<Longrightarrow>
    live (now - rb_window b) (rb_entries (run_budget cs b)) = live (now - rb_window b) (rb_entries b @ ledger cs)
    \<and> rb_window (run_budget cs b) = rb_window b \<and> rb_budget (run_budget cs b) = rb_budget b"
proof (induction cs arbitrary: b)
  case (Cons c cs)
  have split: "ledger (c # cs) = ledger [c] @ ledger cs" by (cases c) simp_all
  from Cons.IH [of "run_budget_call c b"] Cons.prems call_entries [of c now b] show ?case
    by (simp add: run_budget_def split live_append del: ledger.simps)
qed (simp add: run_budget_def)

lemma min_live:
  fixes now win :: rat
  assumes "es \<noteq> []" and "\<forall>(t, w) \<in> set es. now - win < t"
  shows "0 < Min (set (map fst es)) + win - now"
proof -
  have "Min (set (map fst es)) \<in> set (map fst es)" using assms(1) by (intro Min_in) auto
  then obtain w where "(Min (set (map fst es)), w) \<in> set es" by auto
  with assms(2) have "now - win < Min (set (map fst es))" by blast
  then show ?thesis by linarith
qed

text \<open>
  The budget of the last window. Whatever was recorded and read before, the spend reported at a
  time is the sum of the positive weights recorded inside the window up to that time, so pruning
  never forgets a call that still counts; the remaining budget is what that leaves, never below
  zero; and the reset time is positive exactly while something counts, at most the window when no
  call lies in the future, and when it has passed the oldest call no longer counts.
\<close>
theorem sliding_window:
  fixes cap :: int and window :: rat
  assumes past: "\<forall>c \<in> set cs. call_time c \<le> now"
  defines "b \<equiv> run_budget cs (budget_init cap window)"
    and "counted \<equiv> live (now - window) (ledger cs)"
  shows "fst (spent now b) = sum_list (map snd counted)
    \<and> fst (remaining now b) = max 0 (cap - sum_list (map snd counted))
    \<and> (0 < fst (resets_in now b) \<longleftrightarrow> counted \<noteq> [])
    \<and> fst (resets_in now b) \<le> max 0 window
    \<and> (counted \<noteq> [] \<longrightarrow> length (live (now + fst (resets_in now b) - window) (ledger cs)) < length counted)"
proof -
  have b: "live (now - window) (rb_entries b) = counted" "rb_window b = window" "rb_budget b = cap"
    using run_entries [OF past, of "budget_init cap window"] by (simp_all add: b_def budget_init_def counted_def)
  have times: "\<forall>(t, w) \<in> set counted. now - window < t" by (auto simp: counted_def live_def)
  have "\<forall>(t, w) \<in> set (ledger cs). t \<le> now" using past
    by (induction cs rule: ledger.induct) auto
  then have early: "\<forall>(t, w) \<in> set counted. t \<le> now" by (auto simp: counted_def live_def)
  have spent: "fst (spent now b) = sum_list (map snd counted)"
    "fst (remaining now b) = max 0 (cap - sum_list (map snd counted))"
    by (simp_all add: spent_def remaining_def Let_def b)
  show ?thesis
  proof (cases "counted = []")
    case True
    with spent show ?thesis by (simp add: resets_in_def Let_def b)
  next
    case False
    let ?m = "Min (set (map fst counted))"
    have pos: "0 < ?m + window - now" using min_live [OF False times] .
    then have r: "fst (resets_in now b) = ?m + window - now" using False by (simp add: resets_in_def Let_def b)
    have "?m \<in> set (map fst counted)" using False by (intro Min_in) auto
    then obtain w where m: "(?m, w) \<in> set counted" by auto
    with early have "?m \<le> now" by auto
    moreover have "live (now + fst (resets_in now b) - window) (ledger cs) = live ?m counted"
      using r m times by (auto simp: counted_def live_live)
    moreover have "length (live ?m counted) < length counted"
      unfolding live_def using m by (intro length_filter_less [of "(?m, w)"]) auto
    ultimately show ?thesis using spent False pos r by simp
  qed
qed

theorem sliding_window_witness:
  "fst (remaining 70 (run_budget [BC_record 5 1000, BC_spent 30, BC_record 40 150] (budget_init 1200 60))) = 1050"
proof -
  have "\<forall>c \<in> set [BC_record 5 1000, BC_spent 30, BC_record 40 150]. call_time c \<le> 70" by simp
  from sliding_window [OF this, of 1200 60] show ?thesis by (simp add: live_def)
qed

end
