(* ===== verification/UTE_Python.thy ===== *)
theory UTE_Python
  imports UTE_Types
begin

text \<open>
  Values of the Python runtime as the venue adapters receive them: what \<^verbatim>\<open>json\<close> decodes, the texts
  of the values, and the parsers \<^verbatim>\<open>int()\<close>, \<^verbatim>\<open>Decimal()\<close> and \<^verbatim>\<open>datetime.fromtimestamp\<close> applied to them.
  A float stands for the text of its \<^verbatim>\<open>repr\<close>, an object of another kind for the text of its \<^verbatim>\<open>str\<close>.
  Strings are ASCII. A date is the number of its day, counted from 1970-01-01.
\<close>

subsection \<open>Python values\<close>

datatype py_object =
    Py_None | Py_Bool bool | Py_Int int | Py_Float string | Py_Str string | Py_List "py_object list"
  | Py_Map "(string \<times> py_object) list" | Py_Other string

definition lower_char :: "char \<Rightarrow> char" where
  "lower_char c = (let n = of_char c :: nat in if 65 \<le> n \<and> n \<le> 90 then char_of (n + 32) else c)"

definition lower :: "string \<Rightarrow> string" where
  "lower s = map lower_char s"

definition strip :: "string \<Rightarrow> string" where
  "strip s = rev (dropWhile py_space (rev (dropWhile py_space s)))"

definition is_digit :: "char \<Rightarrow> bool" where
  "is_digit c \<longleftrightarrow> 48 \<le> (of_char c :: nat) \<and> (of_char c :: nat) \<le> 57"

definition digits_value :: "string \<Rightarrow> int" where
  "digits_value s = foldl (\<lambda>v c. 10 * v + (of_char c - 48)) 0 s"

text \<open>
  A text \<^verbatim>\<open>int()\<close> accepts and prints back unchanged, and not negative: digits without a leading zero,
  at most the 4300 the interpreter converts.
\<close>

definition canonical_digits :: "string \<Rightarrow> bool" where
  "canonical_digits s \<longleftrightarrow> s \<noteq> [] \<and> list_all is_digit s \<and> (hd s \<noteq> CHR ''0'' \<or> length s = 1) \<and> length s \<le> 4300"

fun nonnegative_int :: "py_object \<Rightarrow> int option" where
  "nonnegative_int (Py_Int n) = (if 0 \<le> n then Some n else None)"
| "nonnegative_int (Py_Str s) = (let t = strip s in if canonical_digits t then Some (digits_value t) else None)"
| "nonnegative_int _ = None"

definition positive_int :: "py_object \<Rightarrow> int option" where
  "positive_int x = (case nonnegative_int x of None \<Rightarrow> None | Some n \<Rightarrow> if n = 0 then None else Some n)"

text \<open>\<^verbatim>\<open>Decimal(text)\<close> for finite values; a value outside the exponents of the module is refused.\<close>

fun signed :: "string \<Rightarrow> int \<times> string" where
  "signed (c # cs) = (if c = CHR ''-'' then (-1, cs) else if c = CHR ''+'' then (1, cs) else (1, c # cs))"
| "signed [] = (1, [])"

definition exponent_of :: "string \<Rightarrow> int option" where
  "exponent_of e =
     (case e of
        [] \<Rightarrow> Some 0
      | _ # x \<Rightarrow>
          (case signed x of (s, ds) \<Rightarrow> if ds \<noteq> [] \<and> list_all is_digit ds then Some (s * digits_value ds) else None))"

definition MAX_EMAX :: int where
  "MAX_EMAX = 999999999999999999"

definition decimal_of_text :: "string \<Rightarrow> rat option" where
  "decimal_of_text text =
     (case signed (filter (\<lambda>c. c \<noteq> CHR ''_'') (strip text)) of (s, body) \<Rightarrow>
      let mantissa = takeWhile (\<lambda>c. c \<noteq> CHR ''e'' \<and> c \<noteq> CHR ''E'') body;
          whole = takeWhile (\<lambda>c. c \<noteq> CHR ''.'') mantissa;
          frac = drop (length whole + 1) mantissa;
          n = digits_value (whole @ frac)
      in case exponent_of (drop (length mantissa) body) of
           None \<Rightarrow> None
         | Some e \<Rightarrow>
             if whole @ frac = [] \<or> \<not> list_all is_digit (whole @ frac) then None
             else if n = 0 then Some 0
             else let ex = e - int (length frac); adjusted = ex + int (dec_len (nat n)) - 1 in
                  if MAX_EMAX < \<bar>adjusted\<bar> then None
                  else Some (of_int s * of_int n * 10 powi ex))"

subsection \<open>Texts\<close>

definition digit_char :: "nat \<Rightarrow> char" where
  "digit_char d = char_of (48 + d)"

fun nat_text :: "nat \<Rightarrow> string" where
  "nat_text n = (if n < 10 then [digit_char n] else nat_text (n div 10) @ [digit_char (n mod 10)])"

declare nat_text.simps [simp del]

definition int_text :: "int \<Rightarrow> string" where
  \<comment> \<open>\<^verbatim>\<open>str(n)\<close>\<close>
  "int_text n = (if n < 0 then CHR ''-'' # nat_text (nat (- n)) else nat_text (nat n))"

definition repr_char :: "char \<Rightarrow> char \<Rightarrow> string" where
  "repr_char q c =
     (let n = of_char c :: nat; hex = (\<lambda>d. ''0123456789abcdef'' ! d) in
      if c = q \<or> n = 92 then [char_of (92 :: nat), c]
      else if n = 10 then [char_of (92 :: nat), CHR ''n'']
      else if n = 13 then [char_of (92 :: nat), CHR ''r'']
      else if n = 9 then [char_of (92 :: nat), CHR ''t'']
      else if n < 32 \<or> n = 127 then [char_of (92 :: nat), CHR ''x'', hex (n div 16), hex (n mod 16)]
      else [c])"

definition repr_str :: "string \<Rightarrow> string" where
  "repr_str s =
     (let one = char_of (39 :: nat); two = char_of (34 :: nat);
          q = (if one \<in> set s \<and> two \<notin> set s then two else one)
      in q # concat (map (repr_char q) s) @ [q])"

fun py_repr :: "py_object \<Rightarrow> string" where
  "py_repr Py_None = ''None''"
| "py_repr (Py_Bool b) = (if b then ''True'' else ''False'')"
| "py_repr (Py_Int n) = int_text n"
| "py_repr (Py_Float r) = r"
| "py_repr (Py_Str s) = repr_str s"
| "py_repr (Py_List xs) = ''['' @ join_comma (map py_repr xs) @ '']''"
| "py_repr (Py_Map d) = ''{'' @ join_comma (map (\<lambda>(k, v). repr_str k @ '': '' @ py_repr v) d) @ ''}''"
| "py_repr (Py_Other t) = t"

definition py_text :: "py_object \<Rightarrow> string" where
  \<comment> \<open>\<^verbatim>\<open>str(x)\<close>\<close>
  "py_text x = (case x of Py_Str s \<Rightarrow> s | _ \<Rightarrow> py_repr x)"

definition or_text :: "string \<Rightarrow> string \<Rightarrow> string" where
  \<comment> \<open>\<^verbatim>\<open>s or t\<close>\<close>
  "or_text s t = (if s = [] then t else s)"

subsection \<open>Dictionaries with string keys\<close>

definition field :: "(string \<times> py_object) list \<Rightarrow> string \<Rightarrow> py_object" where
  "field d k = (case dict_get d k of None \<Rightarrow> Py_None | Some x \<Rightarrow> x)"

definition field_or :: "(string \<times> py_object) list \<Rightarrow> string \<Rightarrow> py_object \<Rightarrow> py_object" where
  \<comment> \<open>\<^verbatim>\<open>entry.get(k, default)\<close>\<close>
  "field_or d k x = (case dict_get d k of None \<Rightarrow> x | Some y \<Rightarrow> y)"

definition truthy :: "py_object \<Rightarrow> bool" where
  "truthy x =
     (case x of Py_None \<Rightarrow> False | Py_Bool b \<Rightarrow> b | Py_Int n \<Rightarrow> n \<noteq> 0 | Py_Float r \<Rightarrow> decimal_of_text r \<noteq> Some 0
      | Py_Str s \<Rightarrow> s \<noteq> [] | Py_List xs \<Rightarrow> xs \<noteq> [] | Py_Map d \<Rightarrow> d \<noteq> [] | Py_Other _ \<Rightarrow> True)"

subsection \<open>Integers\<close>

text \<open>
  \<^verbatim>\<open>int(text)\<close>: surrounding space, a sign, digits with single underscores between them, at most the
  4300 digits the interpreter converts.
\<close>

fun digit_groups :: "string \<Rightarrow> bool" where
  "digit_groups [] = False"
| "digit_groups [c] = is_digit c"
| "digit_groups (c # d # cs) =
     (is_digit c \<and> (if d = CHR ''_'' then digit_groups cs else digit_groups (d # cs)))"

definition int_of_text :: "string \<Rightarrow> int option" where
  "int_of_text text =
     (case signed (strip text) of (s, body) \<Rightarrow>
      let ds = filter (\<lambda>c. c \<noteq> CHR ''_'') body in
      if digit_groups body \<and> length ds \<le> 4300 then Some (s * digits_value ds) else None)"

subsection \<open>Decimals\<close>

definition dec_of_object :: "py_object \<Rightarrow> rat option" where
  \<comment> \<open>\<^verbatim>\<open>Decimal(str(x))\<close> when it is a finite number\<close>
  "dec_of_object x = (case x of Py_Int n \<Rightarrow> Some (of_int n) | _ \<Rightarrow> decimal_of_text (py_text x))"

subsection \<open>Dates\<close>

definition MIN_EPOCH_SECONDS :: int where
  "MIN_EPOCH_SECONDS = -62135596800"

definition MAX_EPOCH_SECONDS :: int where
  "MAX_EPOCH_SECONDS = 253402300799"

definition instant_of_ms :: "int \<Rightarrow> instant option" where
  \<comment> \<open>\<^verbatim>\<open>datetime.fromtimestamp(ms // 1000, tz=UTC)\<close> with the milliseconds added; years 1 to 9999\<close>
  "instant_of_ms ms =
     (if MIN_EPOCH_SECONDS \<le> ms div 1000 \<and> ms div 1000 \<le> MAX_EPOCH_SECONDS then Some (ms * 1000) else None)"

definition civil_of_day :: "int \<Rightarrow> int \<times> int \<times> int" where
  \<comment> \<open>year, month and day of a date of the Gregorian calendar; the years are counted from March\<close>
  "civil_of_day d =
     (let z = d + 719468; era = z div 146097; doe = z mod 146097;
          yoe = (doe - doe div 1460 + doe div 36524 - doe div 146096) div 365;
          doy = doe - (365 * yoe + yoe div 4 - yoe div 100); mp = (5 * doy + 2) div 153;
          m = (if mp < 10 then mp + 3 else mp - 9)
      in (yoe + era * 400 + (if m \<le> 2 then 1 else 0), m, doy - (153 * mp + 2) div 5 + 1))"

definition two_digits :: "int \<Rightarrow> string" where
  "two_digits n = [digit_char (nat (n div 10 mod 10)), digit_char (nat (n mod 10))]"

definition yymmdd :: "int \<Rightarrow> string" where
  \<comment> \<open>\<^verbatim>\<open>f"{date:%y%m%d}"\<close>\<close>
  "yymmdd d = (case civil_of_day d of (y, m, dd) \<Rightarrow> two_digits (y mod 100) @ two_digits m @ two_digits dd)"

subsection \<open>Requests\<close>

text \<open>
  A parameter of a request is a text, an integer, or the plain rendering of a decimal; the latter
  stands for the decimal it renders. Header names match without case.
\<close>

datatype wire = W_text string | W_dec decimal | W_int int

type_synonym params = "(string, wire) dict"

definition header_value :: "(string, string) dict \<Rightarrow> string \<Rightarrow> string option" where
  "header_value hs k =
     (case dict_get hs k of
        Some v \<Rightarrow> Some v
      | None \<Rightarrow> map_option snd (List.find (\<lambda>(n, _). lower n = lower k) hs))"

subsection \<open>Reading back\<close>

lemma digits_value_nonneg: "list_all is_digit s \<Longrightarrow> 0 \<le> digits_value s"
proof -
  have "list_all is_digit s \<Longrightarrow> 0 \<le> v \<Longrightarrow> 0 \<le> foldl (\<lambda>v c. 10 * v + (of_char c - 48 :: int)) v s" for v
  proof (induction s arbitrary: v)
    case (Cons c s)
    then have "48 \<le> (of_char c :: nat)" by (simp add: is_digit_def)
    then have "(48 :: int) \<le> of_char c" by (metis of_nat_le_iff of_nat_numeral of_nat_of_char)
    with Cons show ?case by simp
  qed simp
  then show "list_all is_digit s \<Longrightarrow> 0 \<le> digits_value s" by (simp add: digits_value_def)
qed

lemma positive_int_pos: "positive_int x = Some n \<Longrightarrow> 1 \<le> n"
proof -
  assume n: "positive_int x = Some n"
  then have m: "nonnegative_int x = Some n" "n \<noteq> 0" by (auto simp: positive_int_def split: option.splits if_splits)
  have "0 \<le> n"
    using m(1) by (cases x rule: nonnegative_int.cases)
      (auto simp: Let_def canonical_digits_def digits_value_nonneg split: if_splits)
  with m(2) show "1 \<le> n" by simp
qed

end
