(* ===== verification/UTE_Binance_Symbols.thy ===== *)
theory UTE_Binance_Symbols
  imports UTE_Python
begin

text \<open>
  \<^verbatim>\<open>binance/symbols.py\<close> and \<^verbatim>\<open>binance/enums.py\<close>: which product an instrument trades on, the symbols of the
  exchange-info catalogs, and the trading rules in their filters.
\<close>

subsection \<open>Products\<close>

datatype binance_product = BP_SPOT | BP_USD_M | BP_COIN_M

type_synonym metadata = "(string \<times> py_object) list"

definition PERPETUAL_TYPES :: "string list" where
  "PERPETUAL_TYPES = [''PERPETUAL'', ''TRADIFI_PERPETUAL'']"

definition DELIVERY_TYPES :: "string list" where
  "DELIVERY_TYPES = [''CURRENT_WEEK'', ''NEXT_WEEK'', ''CURRENT_MONTH'', ''NEXT_MONTH'', ''CURRENT_QUARTER'',
     ''NEXT_QUARTER'', ''CURRENT_QUARTER_DELIVERING'', ''NEXT_QUARTER_DELIVERING'', ''PERPETUAL_DELIVERING'']"

definition product_for_instrument :: "instrument \<Rightarrow> binance_product result" where
  "product_for_instrument i =
     (if in_asset_class i = SPOT then
        (if in_expiry i \<noteq> None then raise_exn InvalidSymbolError ''Binance Spot instruments cannot have an expiry''
         else Inr BP_SPOT)
      else if in_asset_class i \<noteq> FUTURES then raise_exn InvalidSymbolError ''asset class is not supported by Binance''
      else
        (case in_quote i of
           None \<Rightarrow> raise_exn InvalidSymbolError ''Binance Futures instruments require quote_currency''
         | Some q \<Rightarrow>
             if in_currency i = Some q then Inr BP_USD_M
             else if q = ''USD'' \<and> in_currency i = Some (in_symbol i) then Inr BP_COIN_M
             else raise_exn InvalidSymbolError ''Cannot resolve Binance Futures product''))"

definition to_binance_symbol :: "instrument \<Rightarrow> binance_product option \<Rightarrow> string result" where
  "to_binance_symbol i product =
     rbind (product_for_instrument i) (\<lambda>p.
     rbind (guard_exn (product \<noteq> None \<and> product \<noteq> Some p) InvalidSymbolError ''Instrument resolves to another product'') (\<lambda>_.
     (case in_platform_symbol i of
        Some s \<Rightarrow>
          if blank s \<or> s \<noteq> strip s
          then raise_exn InvalidSymbolError ''platform_symbol must be non-empty without surrounding whitespace''
          else Inr s
      | None \<Rightarrow>
          (case in_quote i of
             None \<Rightarrow> raise_exn InvalidSymbolError ''Instrument has no quote_currency for Binance''
           | Some q \<Rightarrow>
               (let pair = in_symbol i @ q in
                case in_expiry i of
                  Some d \<Rightarrow> Inr (pair @ ''_'' @ yymmdd d)
                | None \<Rightarrow> if p \<noteq> BP_COIN_M then Inr pair else Inr (pair @ ''_PERP''))))))"

subsection \<open>Catalog rows\<close>

definition required_string :: "metadata \<Rightarrow> string \<Rightarrow> string result" where
  "required_string d k =
     (case field d k of
        Py_Str s \<Rightarrow>
          if blank s \<or> s \<noteq> strip s then raise_exn InvalidSymbolError ''exchange-info row has an invalid field'' else Inr s
      | _ \<Rightarrow> raise_exn InvalidSymbolError ''exchange-info row has an invalid field'')"

definition delivery_date :: "metadata \<Rightarrow> int result" where
  "delivery_date d =
     (case (case field d ''deliveryDate'' of
              Py_Int n \<Rightarrow> Some n | Py_Str s \<Rightarrow> int_of_text s | _ \<Rightarrow> None) of
        Some ms \<Rightarrow>
          if 0 < ms \<and> ms div 1000 \<le> MAX_EPOCH_SECONDS then Inr (ms div 86400000)
          else raise_exn InvalidSymbolError ''delivery contract has an invalid deliveryDate''
      | None \<Rightarrow> raise_exn InvalidSymbolError ''delivery contract has an invalid deliveryDate'')"

definition contract_size :: "metadata \<Rightarrow> int result" where
  "contract_size d =
     (case (case field d ''contractSize'' of
              Py_Int n \<Rightarrow> Some n | Py_Str s \<Rightarrow> int_of_text s | _ \<Rightarrow> None) of
        None \<Rightarrow> raise_exn InvalidSymbolError ''COIN-M symbol has an invalid contractSize''
      | Some n \<Rightarrow>
          if n \<le> 0 then raise_exn InvalidSymbolError ''COIN-M symbol has a non-positive contractSize'' else Inr n)"

definition contract_expiry :: "metadata \<Rightarrow> string \<Rightarrow> int option result" where
  "contract_expiry d contract_type =
     (let normalized = map (\<lambda>c. if c = CHR '' '' then CHR ''_'' else c) contract_type in
      if normalized \<in> set PERPETUAL_TYPES then Inr None
      else if normalized \<in> set DELIVERY_TYPES then rbind (delivery_date d) (\<lambda>x. Inr (Some x))
      else raise_exn InvalidSymbolError ''Unsupported Binance Futures contract type'')"

definition futures_multiplier :: "metadata \<Rightarrow> binance_product \<Rightarrow> string \<Rightarrow> string \<Rightarrow> string \<Rightarrow> int result" where
  "futures_multiplier d p base quote margin =
     (if p = BP_USD_M then
        rbind (guard_exn (margin \<noteq> quote) InvalidSymbolError ''USD-M symbol is not margined in its quote asset'') (\<lambda>_. Inr 1)
      else
        rbind (guard_exn (quote \<noteq> ''USD'' \<or> margin \<noteq> base) InvalidSymbolError
                 ''COIN-M symbol must be USD-quoted and margined in its base asset'') (\<lambda>_. contract_size d))"

definition from_binance_symbol :: "metadata \<Rightarrow> binance_product \<Rightarrow> instrument result" where
  "from_binance_symbol d p =
     rbind (required_string d ''symbol'') (\<lambda>symbol.
     rbind (required_string d ''baseAsset'') (\<lambda>base.
     rbind (required_string d ''quoteAsset'') (\<lambda>quote.
     if p = BP_SPOT then
       instrument_post_init
         \<lparr>in_symbol = base, in_asset_class = SPOT, in_quote = Some quote, in_exchange = None,
          in_currency = None, in_expiry = None, in_strike = None, in_right = None, in_multiplier = None,
          in_platform_symbol = Some symbol\<rparr>
     else
       rbind (required_string d ''contractType'') (\<lambda>contract_type.
       rbind (contract_expiry d contract_type) (\<lambda>expiry.
       rbind (required_string d ''marginAsset'') (\<lambda>margin.
       rbind (futures_multiplier d p base quote margin) (\<lambda>multiplier.
       instrument_post_init
         \<lparr>in_symbol = base, in_asset_class = FUTURES, in_quote = Some quote, in_exchange = None,
          in_currency = Some margin, in_expiry = expiry, in_strike = None, in_right = None,
          in_multiplier = Some multiplier, in_platform_symbol = Some symbol\<rparr>)))))))"

subsection \<open>Resolution\<close>

definition same_contract :: "instrument \<Rightarrow> instrument \<Rightarrow> bool" where
  "same_contract l r \<longleftrightarrow> in_symbol l = in_symbol r \<and> in_quote l = in_quote r
     \<and> in_asset_class l = in_asset_class r \<and> in_currency l = in_currency r \<and> in_expiry l = in_expiry r"

definition row_match :: "instrument \<Rightarrow> binance_product \<Rightarrow> metadata \<Rightarrow> (string \<times> metadata) option result" where
  \<comment> \<open>one turn of the loop: the match it appends, if any\<close>
  "row_match i p d =
     (case from_binance_symbol d p of
        Inl e \<Rightarrow> if exn_is (exn_cls e) InvalidSymbolError then Inr None else Inl e
      | Inr c \<Rightarrow>
          if \<not> same_contract c i then Inr None
          else if in_platform_symbol i \<noteq> None \<and> field d ''symbol'' \<noteq> Py_Str (the (in_platform_symbol i)) then Inr None
          else (case field d ''symbol'' of Py_Str s \<Rightarrow> Inr (Some (s, d)) | _ \<Rightarrow> Inr None))"

fun row_matches :: "instrument \<Rightarrow> binance_product \<Rightarrow> py_object list \<Rightarrow> (string \<times> metadata) list result" where
  "row_matches i p [] = Inr []"
| "row_matches i p (Py_Map d # es) =
     rbind (row_match i p d) (\<lambda>m.
     rbind (row_matches i p es) (\<lambda>ms. Inr (case m of None \<Rightarrow> ms | Some x \<Rightarrow> x # ms)))"
| "row_matches i p (_ # es) = raise_exn PlatformError ''Malformed Binance exchange-info symbols entry''"

definition resolve_binance_symbol ::
    "instrument \<Rightarrow> binance_product \<Rightarrow> py_object list \<Rightarrow> (string \<times> metadata) result" where
  "resolve_binance_symbol i p entries =
     rbind (product_for_instrument i) (\<lambda>q.
     rbind (guard_exn (q \<noteq> p) InvalidSymbolError ''Instrument does not belong to the product'') (\<lambda>_.
     rbind (row_matches i p entries) (\<lambda>ms.
     (case ms of
        [] \<Rightarrow> raise_exn InvalidSymbolError ''No Binance symbol matches''
      | [m] \<Rightarrow> Inr m
      | _ \<Rightarrow> raise_exn InvalidSymbolError ''Binance instrument is ambiguous; set platform_symbol explicitly''))))"

subsection \<open>Trading rules\<close>

fun collect_filters :: "(string, metadata) dict \<Rightarrow> py_object list \<Rightarrow> (string, metadata) dict result" where
  "collect_filters fs [] = Inr fs"
| "collect_filters fs (Py_Map f # rest) =
     (case field f ''filterType'' of
        Py_Str ty \<Rightarrow>
          if dict_has fs ty then raise_exn PlatformError ''Duplicate Binance filter''
          else collect_filters (dict_set ty f fs) rest
      | _ \<Rightarrow> raise_exn PlatformError ''Binance filter has no filterType'')"
| "collect_filters fs (_ # rest) = raise_exn PlatformError ''Malformed Binance filter''"

definition required_filter :: "(string, metadata) dict \<Rightarrow> string \<Rightarrow> metadata result" where
  "required_filter fs ty =
     (case dict_get fs ty of None \<Rightarrow> raise_exn PlatformError ''Binance filter is missing'' | Some f \<Rightarrow> Inr f)"

definition metadata_decimal :: "metadata \<Rightarrow> string \<Rightarrow> decimal result" where
  "metadata_decimal d k =
     (case (case field d k of
              Py_Str s \<Rightarrow> dec_of_object (Py_Str s) | Py_Int n \<Rightarrow> dec_of_object (Py_Int n) | _ \<Rightarrow> None) of
        None \<Rightarrow> raise_exn PlatformError ''Binance filter value is missing, malformed or not finite''
      | Some x \<Rightarrow> Inr x)"

definition positive_decimal :: "metadata \<Rightarrow> string \<Rightarrow> decimal result" where
  "positive_decimal d k =
     rbind (metadata_decimal d k) (\<lambda>x.
     rbind (guard_exn (x \<le> 0) PlatformError ''Binance filter value must be positive'') (\<lambda>_. Inr x))"

definition non_negative_decimal :: "metadata \<Rightarrow> string \<Rightarrow> decimal result" where
  "non_negative_decimal d k =
     rbind (metadata_decimal d k) (\<lambda>x.
     rbind (guard_exn (x < 0) PlatformError ''Binance filter value must not be negative'') (\<lambda>_. Inr x))"

definition min_notional_of :: "(string, metadata) dict \<Rightarrow> string \<Rightarrow> decimal list result" where
  \<comment> \<open>one turn of the loop over the notional filters\<close>
  "min_notional_of fs ty =
     (case dict_get fs ty of
        None \<Rightarrow> Inr []
      | Some f \<Rightarrow>
          if dict_has f ''minNotional'' then rbind (non_negative_decimal f ''minNotional'') (\<lambda>x. Inr [x])
          else if ty = ''MIN_NOTIONAL'' \<and> dict_has f ''notional''
          then rbind (non_negative_decimal f ''notional'') (\<lambda>x. Inr [x])
          else raise_exn PlatformError ''Binance notional filter has no minimum notional'')"

text \<open>
  The places a decimal needs: the least power of ten that its denominator divides. Every step takes
  the factors two and five off the denominator once; a denominator with another factor belongs to no
  decimal.
\<close>

function places_of :: "nat \<Rightarrow> nat" where
  "places_of d = (if d \<le> 1 \<or> gcd d 10 = 1 then 0 else Suc (places_of (d div gcd d 10)))"
  by pat_completeness auto
termination
proof (relation "measure id")
  fix d :: nat
  assume "\<not> (d \<le> 1 \<or> gcd d 10 = 1)"
  then have "1 < gcd d 10" "0 < d" by (auto simp: nat_neq_iff)
  then show "(d div gcd d 10, d) \<in> measure id" by simp
qed simp

declare places_of.simps [simp del]

definition decimal_places :: "decimal \<Rightarrow> int" where
  "decimal_places x = int (places_of (nat (snd (quotient_of x))))"

definition parse_instrument_spec :: "metadata \<Rightarrow> instrument_spec result" where
  "parse_instrument_spec d =
     rbind (required_string d ''symbol'') (\<lambda>_.
     rbind (case field d ''filters'' of
              Py_List xs \<Rightarrow> collect_filters [] xs | _ \<Rightarrow> raise_exn PlatformError ''Malformed Binance filters'') (\<lambda>fs.
     rbind (required_filter fs ''PRICE_FILTER'') (\<lambda>price_filter.
     rbind (required_filter fs ''LOT_SIZE'') (\<lambda>lot_filter.
     rbind (positive_decimal price_filter ''tickSize'') (\<lambda>tick.
     rbind (positive_decimal lot_filter ''stepSize'') (\<lambda>lot.
     rbind (non_negative_decimal lot_filter ''minQty'') (\<lambda>min_qty.
     rbind (positive_decimal lot_filter ''maxQty'') (\<lambda>max_qty.
     rbind (guard_exn (max_qty < min_qty) PlatformError ''Binance LOT_SIZE minQty exceeds maxQty'') (\<lambda>_.
     rbind (min_notional_of fs ''MIN_NOTIONAL'') (\<lambda>m1.
     rbind (min_notional_of fs ''NOTIONAL'') (\<lambda>m2.
     Inr \<lparr>sp_tick_size = tick, sp_lot_size = lot, sp_min_qty = min_qty, sp_max_qty = max_qty,
          sp_min_notional = (if m1 @ m2 = [] then 0 else Max (set (m1 @ m2))),
          sp_price_precision = decimal_places tick, sp_qty_precision = decimal_places lot,
          sp_max_leverage = None, sp_min_stop_distance = None\<rparr>)))))))))))"

end
