(* ===== verification/UTE_Binance_Rates.thy ===== *)
theory UTE_Binance_Rates
  imports UTE_Adapter UTE_Halt UTE_Binance_Symbols
begin

text \<open>
  \<^verbatim>\<open>binance/rate_limits.py\<close>: the budget observed from the headers and error codes of Binance REST
  responses. Instants are microseconds; the floating-point rounding of a fractional delay is not
  modelled. The products of a snapshot are visited in the order of their first appearance, where the
  code iterates over a set: of several equally tight candidates another one may be reported.
\<close>

subsection \<open>Definitions and observations\<close>

record limit_definition =
  ld_type :: string
  ld_num :: int
  ld_letter :: char
  ld_limit :: int

type_synonym limit_key = "string \<times> int \<times> char"

record usage =
  us_used :: "int option"
  us_at :: instant

record candidate =
  ca_limit :: int
  ca_remaining :: int
  ca_interval :: rat
  ca_reset :: instant

definition MAX_RETRY_AFTER_SECONDS :: int where
  "MAX_RETRY_AFTER_SECONDS = 3 * 24 * 60 * 60"

definition UNKNOWN_LIMIT_INTERVAL_SECONDS :: int where
  "UNKNOWN_LIMIT_INTERVAL_SECONDS = 60"

definition interval_letters :: "(string, char) dict" where
  "interval_letters = [(''SECOND'', CHR ''S''), (''MINUTE'', CHR ''M''), (''HOUR'', CHR ''H''), (''DAY'', CHR ''D'')]"

definition letter_seconds :: "(char, int) dict" where
  "letter_seconds = [(CHR ''S'', 1), (CHR ''M'', 60), (CHR ''H'', 60 * 60), (CHR ''D'', 24 * 60 * 60)]"

definition seconds_of :: "char \<Rightarrow> int" where
  "seconds_of c = (case dict_get letter_seconds c of None \<Rightarrow> 60 | Some n \<Rightarrow> n)"

definition ld_key :: "limit_definition \<Rightarrow> limit_key" where
  "ld_key d = (ld_type d, ld_num d, ld_letter d)"

definition ld_seconds :: "limit_definition \<Rightarrow> int" where
  "ld_seconds d = ld_num d * seconds_of (ld_letter d)"

definition observed_types :: "string list" where
  "observed_types = [''REQUEST_WEIGHT'', ''ORDERS'', ''RAW_REQUESTS'']"

definition parse_definition :: "py_object \<Rightarrow> limit_definition option result" where
  \<comment> \<open>one entry; \<open>None\<close> for a type that is not observed\<close>
  "parse_definition raw =
     (case raw of
        Py_Map d \<Rightarrow>
          (case field d ''rateLimitType'' of
             Py_Str ty \<Rightarrow>
               if ty \<notin> set observed_types then Inr None
               else
                 rbind (case field d ''interval'' of
                          Py_Str iv \<Rightarrow>
                            (case dict_get interval_letters (upper iv) of
                               Some c \<Rightarrow> Inr c
                             | None \<Rightarrow> raise_exn PlatformError ''invalid rate-limit interval'')
                        | _ \<Rightarrow> raise_exn PlatformError ''invalid rate-limit interval'') (\<lambda>c.
                 (case (positive_int (field d ''intervalNum''), positive_int (field d ''limit'')) of
                    (Some n, Some l) \<Rightarrow>
                      rbind (guard_exn (MAX_RETRY_AFTER_SECONDS div seconds_of c < n) PlatformError
                               ''excessive interval'') (\<lambda>_.
                      Inr (Some \<lparr>ld_type = ty, ld_num = n, ld_letter = c, ld_limit = l\<rparr>))
                  | _ \<Rightarrow> raise_exn PlatformError ''invalid rate-limit value''))
           | _ \<Rightarrow> raise_exn PlatformError ''malformed rate-limit type'')
      | _ \<Rightarrow> raise_exn PlatformError ''malformed rate-limit entry'')"

fun parse_entries :: "py_object list \<Rightarrow> limit_definition list result" where
  "parse_entries [] = Inr []"
| "parse_entries (x # xs) =
     rbind (parse_definition x) (\<lambda>d.
     rbind (parse_entries xs) (\<lambda>ds.
     Inr (case d of None \<Rightarrow> ds | Some y \<Rightarrow> y # ds)))"

definition parse_definitions :: "py_object \<Rightarrow> limit_definition list result" where
  "parse_definitions raw = (case raw of Py_List xs \<Rightarrow> parse_entries xs | _ \<Rightarrow> Inr [])"

subsection \<open>The tracker\<close>

type_synonym 'a per_product = "(binance_product, (limit_key, 'a) dict) dict"

record tracker =
  bt_definitions :: "limit_definition per_product"
  bt_usage :: "usage per_product"
  bt_raw :: "usage per_product"
  bt_unparseable :: "(binance_product, instant) dict"
  bt_blocked :: "instant option"

definition tracker_init :: tracker where
  "tracker_init = \<lparr>bt_definitions = [], bt_usage = [], bt_raw = [], bt_unparseable = [], bt_blocked = None\<rparr>"

definition dict_or_empty :: "'a per_product \<Rightarrow> binance_product \<Rightarrow> (limit_key, 'a) dict" where
  "dict_or_empty d p = (case dict_get d p of None \<Rightarrow> [] | Some x \<Rightarrow> x)"

definition timedelta_micros :: "rat \<Rightarrow> int" where
  \<comment> \<open>\<^verbatim>\<open>timedelta(seconds=x)\<close>\<close>
  "timedelta_micros x = round_half_even (x * 1000000)"

definition longest_interval :: "(limit_key, limit_definition) dict \<Rightarrow> int" where
  \<comment> \<open>\<^verbatim>\<open>max(..., default=60)\<close>\<close>
  "longest_interval ds =
     (if ds = [] then UNKNOWN_LIMIT_INTERVAL_SECONDS else Max (set (map (ld_seconds o snd) ds)))"

definition fail_closed ::
    "binance_product \<Rightarrow> instant \<Rightarrow> (limit_key, limit_definition) dict \<Rightarrow> tracker \<Rightarrow> tracker" where
  "fail_closed p now ds b =
     (let reset_at = now + longest_interval ds * 1000000 in
      if (case dict_get (bt_unparseable b) p of None \<Rightarrow> True | Some t \<Rightarrow> t < reset_at)
      then b\<lparr>bt_unparseable := dict_set p reset_at (bt_unparseable b)\<rparr> else b)"

definition count_raw :: "instant \<Rightarrow> limit_definition \<Rightarrow> (limit_key, usage) dict \<Rightarrow> (limit_key, usage) dict" where
  "count_raw now d raws =
     (if ld_type d \<noteq> ''RAW_REQUESTS'' then raws
      else dict_set (ld_key d)
        (case dict_get raws (ld_key d) of
           None \<Rightarrow> \<lparr>us_used = Some 1, us_at = now\<rparr>
         | Some u \<Rightarrow>
             if us_at u + ld_seconds d * 1000000 \<le> now then \<lparr>us_used = Some 1, us_at = now\<rparr>
             else \<lparr>us_used = Some ((case us_used u of None \<Rightarrow> 0 | Some n \<Rightarrow> n) + 1), us_at = us_at u\<rparr>) raws)"

text \<open>\<^verbatim>\<open>x-mbx-(used-weight|order-count)-(digits)(letter)\<close>: the type, the digits and the letter in upper case.\<close>

definition header_prefixes :: "(string \<times> string) list" where
  "header_prefixes = [(''x-mbx-used-weight-'', ''REQUEST_WEIGHT''), (''x-mbx-order-count-'', ''ORDERS'')]"

definition header_family :: "string \<Rightarrow> (string \<times> string) option" where
  "header_family name = map_option (\<lambda>(p, ty). (ty, drop (length p) name))
     (List.find (\<lambda>(p, _). starts_with name p) header_prefixes)"

definition header_interval :: "string \<Rightarrow> (string \<times> char) option" where
  "header_interval rest =
     (if 2 \<le> length rest \<and> list_all is_digit (butlast rest) \<and> last rest \<in> set ''smhd''
      then Some (butlast rest, upper_char (last rest)) else None)"

definition note_header ::
    "binance_product \<Rightarrow> instant \<Rightarrow> (limit_key, limit_definition) dict \<Rightarrow> string \<times> string \<Rightarrow> tracker \<Rightarrow> tracker" where
  "note_header p now ds h b =
     (case header_family (lower (fst h)) of
        None \<Rightarrow> b
      | Some (ty, rest) \<Rightarrow>
          (case header_interval rest of
             None \<Rightarrow> fail_closed p now ds b
           | Some (digits, c) \<Rightarrow>
               (case positive_int (Py_Str digits) of
                  None \<Rightarrow> fail_closed p now ds b
                | Some n \<Rightarrow>
                    if MAX_RETRY_AFTER_SECONDS div seconds_of c < n then fail_closed p now ds b
                    else b\<lparr>bt_usage := dict_set p
                       (dict_set (ty, n, c) \<lparr>us_used = nonnegative_int (Py_Str (snd h)), us_at = now\<rparr>
                          (dict_or_empty (bt_usage b) p)) (bt_usage b)\<rparr>)))"

definition retry_after_seconds :: "string option \<Rightarrow> rat option" where
  "retry_after_seconds raw =
     (case raw of
        None \<Rightarrow> None
      | Some text \<Rightarrow>
          (case decimal_of_text text of
             None \<Rightarrow> None
           | Some s \<Rightarrow> if s < 0 then None else Some (min s (of_int MAX_RETRY_AFTER_SECONDS))))"

definition ban_seconds :: "int \<Rightarrow> (string, string) dict \<Rightarrow> (limit_key, limit_definition) dict \<Rightarrow> rat" where
  "ban_seconds status hs ds =
     (case retry_after_seconds (header_value hs ''Retry-After'') of
        Some s \<Rightarrow> s
      | None \<Rightarrow> of_int (if status = 418 then MAX_RETRY_AFTER_SECONDS else longest_interval ds))"

definition block_until :: "instant \<Rightarrow> tracker \<Rightarrow> tracker" where
  "block_until t b = (if (case bt_blocked b of None \<Rightarrow> True | Some u \<Rightarrow> u < t) then b\<lparr>bt_blocked := Some t\<rparr> else b)"

definition install_definitions :: "binance_product \<Rightarrow> limit_definition list \<Rightarrow> tracker \<Rightarrow> tracker" where
  "install_definitions p ds b =
     (if ds = [] then b
      else b\<lparr>bt_definitions := dict_set p (foldl (\<lambda>d x. dict_set (ld_key x) x d) [] ds) (bt_definitions b)\<rparr>)"

definition observe ::
    "binance_product \<Rightarrow> (string, string) dict \<Rightarrow> int option \<Rightarrow> instant \<Rightarrow> tracker \<Rightarrow> tracker" where
  \<comment> \<open>the part of \<^verbatim>\<open>update\<close> after the definitions\<close>
  "observe p hs status now b =
     (let ds = dict_or_empty (bt_definitions b) p;
          b1 = b\<lparr>bt_raw := dict_set p (fold (\<lambda>(_, d). count_raw now d) ds (dict_or_empty (bt_raw b) p)) (bt_raw b)\<rparr>;
          b2 = b1\<lparr>bt_usage := dict_set p (dict_or_empty (bt_usage b1) p) (bt_usage b1)\<rparr>;
          b3 = fold (note_header p now ds) hs b2
      in case status of
           None \<Rightarrow> b3
         | Some s \<Rightarrow> if s = 418 \<or> s = 429 then block_until (now + timedelta_micros (ban_seconds s hs ds)) b3 else b3)"

definition update_tracker ::
    "binance_product \<Rightarrow> (string, string) dict option \<Rightarrow> py_object \<Rightarrow> int option \<Rightarrow> instant \<Rightarrow> (tracker, unit) eff" where
  "update_tracker p headers rate_limits status now =
     ebind (elift (if rate_limits = Py_None then Inr [] else parse_definitions rate_limits)) (\<lambda>ds.
     eupd (\<lambda>b. observe p (case headers of None \<Rightarrow> [] | Some hs \<Rightarrow> hs) status now (install_definitions p ds b)))"

subsection \<open>The snapshot\<close>

definition bucket_of :: "instant \<Rightarrow> limit_definition \<Rightarrow> usage \<Rightarrow> candidate" where
  "bucket_of now d u =
     (let stop = us_at u + ld_seconds d * 1000000 in
      if stop \<le> now then
        \<lparr>ca_limit = ld_limit d, ca_remaining = ld_limit d, ca_interval = of_int (ld_seconds d),
         ca_reset = now + ld_seconds d * 1000000\<rparr>
      else
        \<lparr>ca_limit = ld_limit d,
         ca_remaining = (case us_used u of None \<Rightarrow> 0 | Some n \<Rightarrow> max (ld_limit d - n) 0),
         ca_interval = of_int (ld_seconds d), ca_reset = stop\<rparr>)"

definition usage_for :: "(limit_key, usage) dict \<Rightarrow> (limit_key, usage) dict \<Rightarrow> limit_definition \<Rightarrow> usage option" where
  "usage_for uses raws d =
     (if ld_type d = ''RAW_REQUESTS'' then dict_get raws (ld_key d)
      else if ld_type d = ''REQUEST_WEIGHT'' \<or> ld_type d = ''ORDERS'' then dict_get uses (ld_key d)
      else None)"

definition closed_candidate :: "rat \<Rightarrow> instant \<Rightarrow> candidate" where
  "closed_candidate interval reset = \<lparr>ca_limit = 1, ca_remaining = 0, ca_interval = interval, ca_reset = reset\<rparr>"

definition opt_candidate :: "instant \<Rightarrow> instant option \<Rightarrow> candidate list" where
  "opt_candidate now t =
     (case t of None \<Rightarrow> []
      | Some u \<Rightarrow> if now < u then [closed_candidate (of_int (u - now) / 1000000) u] else [])"

definition undefined_candidate :: "limit_key \<times> usage \<Rightarrow> candidate" where
  \<comment> \<open>a counter without a definition\<close>
  "undefined_candidate = (\<lambda>((_, n, c), u).
     closed_candidate (of_int (n * seconds_of c)) (us_at u + n * seconds_of c * 1000000))"

definition product_candidates :: "instant \<Rightarrow> tracker \<Rightarrow> binance_product \<Rightarrow> candidate list" where
  "product_candidates now b p =
     (let ds = dict_or_empty (bt_definitions b) p; uses = dict_or_empty (bt_usage b) p;
          raws = dict_or_empty (bt_raw b) p
      in concat (map (\<lambda>(_, d). case usage_for uses raws d of None \<Rightarrow> [] | Some u \<Rightarrow> [bucket_of now d u]) ds)
         @ map undefined_candidate (filter (\<lambda>(k, _). \<not> dict_has ds k) uses)
         @ opt_candidate now (dict_get (bt_unparseable b) p))"

definition tighter_candidate :: "candidate \<Rightarrow> candidate \<Rightarrow> bool" where
  \<comment> \<open>\<^verbatim>\<open>key=(remaining, -interval_seconds)\<close> is smaller\<close>
  "tighter_candidate x y \<longleftrightarrow>
     ca_remaining x < ca_remaining y \<or> ca_remaining x = ca_remaining y \<and> ca_interval y < ca_interval x"

fun tightest :: "candidate \<Rightarrow> candidate list \<Rightarrow> candidate" where
  "tightest best [] = best"
| "tightest best (x # xs) = tightest (if tighter_candidate x best then x else best) xs"

definition all_candidates :: "instant \<Rightarrow> tracker \<Rightarrow> candidate list" where
  "all_candidates now b =
     concat (map (product_candidates now b) (dedupe (map fst (bt_definitions b) @ map fst (bt_usage b))))
     @ opt_candidate now (bt_blocked b)"

definition snapshot :: "instant \<Rightarrow> tracker \<Rightarrow> rate_limits" where
  "snapshot now b =
     (case all_candidates now b of
        [] \<Rightarrow> \<lparr>rl_requests = 1, rl_interval = of_int UNKNOWN_LIMIT_INTERVAL_SECONDS, rl_remaining = 0, rl_reset_at = now\<rparr>
      | c # cs \<Rightarrow>
          (let x = tightest c cs in
           \<lparr>rl_requests = max (ca_limit x) 1, rl_interval = ca_interval x, rl_remaining = ca_remaining x,
            rl_reset_at = ca_reset x\<rparr>))"

subsection \<open>Correctness\<close>

record rest_response =
  rr_product :: binance_product
  rr_headers :: "(string, string) dict option"
  rr_limits :: py_object
  rr_status :: "int option"
  rr_time :: instant

definition respond :: "rest_response \<Rightarrow> tracker \<Rightarrow> tracker" where
  \<comment> \<open>one response; a malformed list of limits raises and changes nothing\<close>
  "respond r b = snd (update_tracker (rr_product r) (rr_headers r) (rr_limits r) (rr_status r) (rr_time r) b)"

definition responses :: "rest_response list \<Rightarrow> tracker \<Rightarrow> tracker" where
  "responses rs b = fold respond rs b"

definition wf_limit :: "limit_definition \<Rightarrow> bool" where
  "wf_limit d \<longleftrightarrow> 1 \<le> ld_limit d \<and> 1 \<le> ld_num d"

lemma parse_definition_wf: "parse_definition raw = Inr (Some d) \<Longrightarrow> wf_limit d"
  by (auto simp: parse_definition_def rbind_eq_Inr wf_limit_def positive_int_pos
      split: py_object.splits if_splits option.splits)

lemma parse_entries_wf: "parse_entries xs = Inr ds \<Longrightarrow> list_all wf_limit ds"
  by (induction xs arbitrary: ds)
    (auto simp: rbind_eq_Inr parse_definition_wf split: option.splits)

definition wf_tracker :: "tracker \<Rightarrow> bool" where
  "wf_tracker b \<longleftrightarrow> (\<forall>(p, ds) \<in> set (bt_definitions b). \<forall>(k, d) \<in> set ds. wf_limit d)"

lemma fail_closed_keeps [simp]:
  "bt_definitions (fail_closed p t ds b) = bt_definitions b" "bt_blocked (fail_closed p t ds b) = bt_blocked b"
  by (simp_all add: fail_closed_def Let_def)

lemma note_header_keeps [simp]:
  "bt_definitions (note_header p t ds h b) = bt_definitions b" "bt_blocked (note_header p t ds h b) = bt_blocked b"
  by (auto simp: note_header_def split: option.splits)

lemma note_headers_keep [simp]:
  "bt_definitions (fold (note_header p t ds) hs b) = bt_definitions b"
  "bt_blocked (fold (note_header p t ds) hs b) = bt_blocked b"
  by (induction hs arbitrary: b) simp_all

definition blocked_to :: "instant \<Rightarrow> tracker \<Rightarrow> bool" where
  "blocked_to t b \<longleftrightarrow> (\<exists>u. bt_blocked b = Some u \<and> t \<le> u)"

lemma block_until_facts:
  "blocked_to t (block_until t b)" "blocked_to u b \<Longrightarrow> blocked_to u (block_until t b)"
  "bt_definitions (block_until t b) = bt_definitions b"
  by (auto simp: blocked_to_def block_until_def split: option.splits)

lemma observe_keeps:
  "bt_definitions (observe p hs st t b) = bt_definitions b"
  "blocked_to u b \<Longrightarrow> blocked_to u (observe p hs st t b)"
  by (auto simp: observe_def Let_def block_until_facts blocked_to_def split: option.splits
      intro: block_until_facts(2) [unfolded blocked_to_def])

lemma install_keeps: "blocked_to u (install_definitions p ds b) = blocked_to u b"
  by (simp add: install_definitions_def blocked_to_def)

lemma parse_definitions_wf:
  "(if raw = Py_None then Inr [] else parse_definitions raw) = Inr ds \<Longrightarrow> list_all wf_limit ds"
  by (auto simp: parse_definitions_def parse_entries_wf split: py_object.splits if_splits)

lemma update_cases:
  "update_tracker p hs raw st t b = (r, b') \<Longrightarrow>
    (\<exists>e. r = Inl e \<and> b' = b) \<or> (\<exists>ds. r = Inr () \<and> list_all wf_limit ds
      \<and> b' = observe p (case hs of None \<Rightarrow> [] | Some x \<Rightarrow> x) st t (install_definitions p ds b))"
proof (cases "if raw = Py_None then Inr [] else parse_definitions raw")
  case (Inr ds)
  assume "update_tracker p hs raw st t b = (r, b')"
  with Inr parse_definitions_wf [OF Inr] show ?thesis
    unfolding update_tracker_def Inr by (auto simp: eupd_def)
qed (auto simp: update_tracker_def ebind_def elift_def)

lemma collect_wf:
  "list_all wf_limit ds \<Longrightarrow> \<forall>(k, d) \<in> set m. wf_limit d
   \<Longrightarrow> \<forall>(k, d) \<in> set (foldl (\<lambda>d x. dict_set (ld_key x) x d) m ds). wf_limit d"
proof (induction ds arbitrary: m)
  case (Cons x ds)
  have "\<forall>(k, d) \<in> set (dict_set (ld_key x) x m). wf_limit d"
    using Cons.prems set_dict_set_subset [of "ld_key x" x m] by auto
  with Cons show ?case by simp
qed simp

lemma install_wf: "list_all wf_limit ds \<Longrightarrow> wf_tracker b \<Longrightarrow> wf_tracker (install_definitions p ds b)"
  using collect_wf [of ds "[]"] set_dict_set_subset
  by (fastforce simp: install_definitions_def wf_tracker_def)

lemma observe_wf: "wf_tracker (observe p hs st t b) = wf_tracker b"
  by (simp add: wf_tracker_def observe_keeps(1))

lemma respond_keeps:
  assumes "wf_tracker b"
  shows "wf_tracker (respond r b)" and "blocked_to t b \<Longrightarrow> blocked_to t (respond r b)"
proof -
  obtain x b' where u: "update_tracker (rr_product r) (rr_headers r) (rr_limits r) (rr_status r) (rr_time r) b = (x, b')"
    by force
  from update_cases [OF u] assms show "wf_tracker (respond r b)"
    by (auto simp: respond_def u observe_wf install_wf)
  from update_cases [OF u] show "blocked_to t (respond r b)" if "blocked_to t b"
    using that by (auto simp: respond_def u install_keeps intro: observe_keeps(2))
qed

lemma responses_keep:
  "wf_tracker b \<Longrightarrow> wf_tracker (responses rs b) \<and> (blocked_to t b \<longrightarrow> blocked_to t (responses rs b))"
  by (induction rs arbitrary: b) (simp_all add: responses_def respond_keeps)

lemma wf_reachable: "wf_tracker (responses rs tracker_init)"
  by (rule responses_keep [THEN conjunct1]) (simp add: wf_tracker_def tracker_init_def)

lemma tightest_mem: "tightest c cs \<in> set (c # cs)"
  by (induction c cs rule: tightest.induct) auto

lemma tightest_le: "ca_remaining (tightest c cs) \<le> ca_remaining c"
proof (induction c cs rule: tightest.induct)
  case (2 best y ys)
  then show ?case by (cases "tighter_candidate y best") (auto simp: tighter_candidate_def)
qed simp

lemma tightest_least: "x \<in> set cs \<Longrightarrow> ca_remaining (tightest c cs) \<le> ca_remaining x"
proof (induction c cs rule: tightest.induct)
  case (2 best y ys)
  let ?m = "if tighter_candidate y best then y else best"
  have "ca_remaining ?m \<le> ca_remaining y" by (auto simp: tighter_candidate_def)
  with tightest_le [of ?m ys] have "ca_remaining (tightest ?m ys) \<le> ca_remaining y" by linarith
  with 2 show ?case by auto
qed simp

lemma closed_remaining [simp]: "ca_remaining (closed_candidate i t) = 0"
  by (simp add: closed_candidate_def)

lemma dict_or_empty_wf:
  assumes "wf_tracker b" and "(k, d) \<in> set (dict_or_empty (bt_definitions b) p)"
  shows "wf_limit d"
proof -
  from assms(2) obtain ds where "dict_get (bt_definitions b) p = Some ds" "(k, d) \<in> set ds"
    by (cases "dict_get (bt_definitions b) p") (auto simp: dict_or_empty_def)
  then show ?thesis using assms(1) unfolding wf_tracker_def by (blast dest: map_of_SomeD)
qed

lemma zero_candidates [simp]:
  "ca_remaining (undefined_candidate x) = 0"
  "c \<in> set (opt_candidate now t) \<Longrightarrow> ca_remaining c = 0"
  by (simp add: undefined_candidate_def split: prod.splits) (cases t, auto simp: opt_candidate_def split: if_splits)

lemma bucket_nonneg: "wf_limit d \<Longrightarrow> 0 \<le> ca_remaining (bucket_of now d u)"
  by (simp add: bucket_of_def Let_def wf_limit_def split: option.splits)

lemma product_candidate_cases:
  "c \<in> set (product_candidates now b p) \<Longrightarrow>
    (\<exists>k d u. (k, d) \<in> set (dict_or_empty (bt_definitions b) p) \<and> c = bucket_of now d u) \<or> ca_remaining c = 0"
  by (auto simp: product_candidates_def Let_def split: option.splits) blast

lemma candidates_nonneg: "wf_tracker b \<Longrightarrow> c \<in> set (all_candidates now b) \<Longrightarrow> 0 \<le> ca_remaining c"
  by (auto simp: all_candidates_def bucket_nonneg dict_or_empty_wf dest!: product_candidate_cases)

lemma snapshot_remaining:
  "rl_remaining (snapshot now b) = (if all_candidates now b = [] then 0
     else ca_remaining (tightest (hd (all_candidates now b)) (tl (all_candidates now b))))"
  "1 \<le> rl_requests (snapshot now b)"
  by (simp_all add: snapshot_def Let_def split: list.splits)

lemma snapshot_le: "c \<in> set (all_candidates now b) \<Longrightarrow> rl_remaining (snapshot now b) \<le> ca_remaining c"
  by (cases "all_candidates now b") (auto simp: snapshot_remaining tightest_le tightest_least)

lemma snapshot_nonneg: "wf_tracker b \<Longrightarrow> 0 \<le> rl_remaining (snapshot now b)"
  using tightest_mem [of "hd (all_candidates now b)" "tl (all_candidates now b)"]
  by (cases "all_candidates now b") (auto simp: snapshot_remaining intro: candidates_nonneg [of b _ now])

lemma blocked_closes: "blocked_to t b \<Longrightarrow> now < t \<Longrightarrow> rl_remaining (snapshot now b) \<le> 0"
proof -
  assume "blocked_to t b" and now: "now < t"
  then obtain u where u: "bt_blocked b = Some u" "now < u" by (auto simp: blocked_to_def)
  let ?c = "closed_candidate (of_int (u - now) / 1000000) u"
  have "?c \<in> set (all_candidates now b)" using u by (simp add: all_candidates_def opt_candidate_def)
  from snapshot_le [OF this] show ?thesis by simp
qed

text \<open>
  C28. A ban is respected. After a response with status 418 or 429 no later response, whatever it
  carries, reopens the budget early: until the announced delay has passed every snapshot reports
  nothing remaining. The announced delay is what \<open>ban_seconds\<close> reads from the headers of the response.
\<close>
theorem ban_respected:
  assumes reach: "b = responses earlier tracker_init" and status: "status = 418 \<or> status = 429"
    and run: "update_tracker p headers raw (Some status) t b = (Inr (), b')"
    and later: "now < t + timedelta_micros (ban_seconds status (case headers of None \<Rightarrow> [] | Some h \<Rightarrow> h)
                  (dict_or_empty (bt_definitions b') p))"
  shows "rl_remaining (snapshot now (responses rs b')) = 0"
proof -
  have wf: "wf_tracker b" unfolding reach by (rule wf_reachable)
  from update_cases [OF run] obtain ds where ds: "list_all wf_limit ds"
    and b': "b' = observe p (case headers of None \<Rightarrow> [] | Some x \<Rightarrow> x) (Some status) t (install_definitions p ds b)"
    by auto
  let ?until = "t + timedelta_micros (ban_seconds status (case headers of None \<Rightarrow> [] | Some h \<Rightarrow> h)
    (dict_or_empty (bt_definitions b') p))"
  have "bt_definitions b' = bt_definitions (install_definitions p ds b)" by (simp add: b' observe_keeps)
  then have "blocked_to ?until b'" using status by (auto simp: b' observe_def Let_def block_until_facts(1))
  moreover have "wf_tracker b'" using wf ds by (simp add: b' observe_wf install_wf)
  ultimately have "wf_tracker (responses rs b')" "blocked_to ?until (responses rs b')"
    using responses_keep by blast+
  with blocked_closes [OF _ later] snapshot_nonneg show ?thesis by (metis order_antisym)
qed

definition limited_headers :: "(string, string) dict" where
  "limited_headers = [(''Content-Type'', ''json''), (''retry-after'', '' 30'')]"

definition plain_response :: "instant \<Rightarrow> rest_response" where
  "plain_response t = \<lparr>rr_product = BP_SPOT, rr_headers = Some [(''X-MBX-USED-WEIGHT-1M'', ''7'')],
     rr_limits = Py_None, rr_status = Some 200, rr_time = t\<rparr>"

theorem ban_respected_witness:
  "rl_remaining (snapshot 29000000 (responses [plain_response 10000000]
     (snd (update_tracker BP_SPOT (Some limited_headers) Py_None (Some 429) 0 tracker_init)))) = 0"
proof -
  obtain b' where run: "update_tracker BP_SPOT (Some limited_headers) Py_None (Some 429) 0 tracker_init = (Inr (), b')"
    by (simp add: update_tracker_def eupd_def)
  have "header_value limited_headers ''Retry-After'' = Some '' 30''" by code_simp
  moreover have "decimal_of_text '' 30'' = Some 30"
    by (simp add: decimal_of_text_def strip_def py_space_def is_digit_def digits_value_def exponent_of_def Let_def
        MAX_EMAX_def of_char_def dec_len.simps)
  ultimately have "retry_after_seconds (header_value limited_headers ''Retry-After'') = Some 30"
    by (simp add: retry_after_seconds_def MAX_RETRY_AFTER_SECONDS_def)
  moreover have "timedelta_micros 30 = 30000000"
    using round_half_even_of_int [of 30000000] by (simp add: timedelta_micros_def)
  ultimately have "29000000 < 0 + timedelta_micros (ban_seconds 429 (case Some limited_headers of None \<Rightarrow> [] | Some h \<Rightarrow> h)
      (dict_or_empty (bt_definitions b') BP_SPOT))"
    by (simp add: ban_seconds_def)
  from ban_respected [OF _ _ run this, of "[]" "[plain_response 10000000]"] show ?thesis
    by (simp add: run responses_def)
qed

text \<open>
  The snapshot is the tightest observed budget. After any responses, for every defined bucket
  with a counter the reported remaining budget is at most what that bucket leaves at the time, it
  is never negative, one of the candidates reaches it unless it is zero, and it is zero when nothing
  was observed and while a counter that could not be read is inside its interval.
\<close>
theorem snapshot_tightest:
  fixes now :: instant
  assumes reach: "b = responses rs tracker_init"
  defines "left \<equiv> rl_remaining (snapshot now b)"
  shows "0 \<le> left \<and> (left = 0 \<or> left \<in> ca_remaining ` set (all_candidates now b))
    \<and> (all_candidates now b = [] \<longrightarrow> left = 0)
    \<and> (\<forall>p ds k d u. dict_get (bt_definitions b) p = Some ds \<longrightarrow> (k, d) \<in> set ds
         \<longrightarrow> usage_for (dict_or_empty (bt_usage b) p) (dict_or_empty (bt_raw b) p) d = Some u
         \<longrightarrow> left \<le> ca_remaining (bucket_of now d u))
    \<and> (\<forall>p ds k d u. dict_get (bt_definitions b) p = Some ds \<longrightarrow> (k, d) \<in> set ds
         \<longrightarrow> usage_for (dict_or_empty (bt_usage b) p) (dict_or_empty (bt_raw b) p) d = Some u
         \<longrightarrow> us_used u = None \<longrightarrow> now < us_at u + ld_seconds d * 1000000 \<longrightarrow> left = 0)"
proof -
  have nonneg: "0 \<le> left"
    unfolding left_def reach by (rule snapshot_nonneg [OF wf_reachable])
  have mem: "left = 0 \<or> left \<in> ca_remaining ` set (all_candidates now b)"
    using tightest_mem [of "hd (all_candidates now b)" "tl (all_candidates now b)"]
    by (cases "all_candidates now b") (auto simp: left_def snapshot_remaining)
  have bucket: "left \<le> ca_remaining (bucket_of now d u)"
    if "dict_get (bt_definitions b) p = Some ds" "(k, d) \<in> set ds"
      "usage_for (dict_or_empty (bt_usage b) p) (dict_or_empty (bt_raw b) p) d = Some u" for p ds k d u
  proof -
    have "bucket_of now d u \<in> set (product_candidates now b p)"
      using that unfolding product_candidates_def Let_def dict_or_empty_def [of "bt_definitions b"]
      by (simp, intro disjI1 bexI [of _ "(k, d)"]) (simp_all, metis prod.collapse)
    moreover have "p \<in> set (map fst (bt_definitions b))" using that(1) by (force dest: map_of_SomeD)
    ultimately have "bucket_of now d u \<in> set (all_candidates now b)" by (auto simp: all_candidates_def)
    then show ?thesis unfolding left_def by (rule snapshot_le)
  qed
  have "ca_remaining (bucket_of now d u) = 0" if "us_used u = None" "now < us_at u + ld_seconds d * 1000000" for d u
    using that by (simp add: bucket_of_def Let_def)
  with bucket nonneg mem show ?thesis by (fastforce simp: left_def snapshot_remaining)
qed

definition weight_limits :: py_object where
  "weight_limits = Py_List [Py_Map [(''rateLimitType'', Py_Str ''REQUEST_WEIGHT''), (''interval'', Py_Str ''MINUTE''),
     (''intervalNum'', Py_Int 1), (''limit'', Py_Int 1200)]]"

definition busy_tracker :: tracker where
  "busy_tracker = responses [(plain_response 0)\<lparr>rr_headers := Some [(''X-MBX-USED-WEIGHT-1M'', ''1100'')],
     rr_limits := weight_limits\<rparr>] tracker_init"

theorem snapshot_tightest_witness: "rl_remaining (snapshot 1000000 busy_tracker) \<le> 100"
proof -
  let ?key = "(''REQUEST_WEIGHT'', 1, CHR ''M'')"
  let ?d = "\<lparr>ld_type = ''REQUEST_WEIGHT'', ld_num = 1, ld_letter = CHR ''M'', ld_limit = 1200\<rparr>"
  let ?u = "\<lparr>us_used = Some 1100, us_at = 0\<rparr>"
  have "dict_get (bt_definitions busy_tracker) BP_SPOT = Some [(?key, ?d)]" by code_simp
  moreover have "usage_for (dict_or_empty (bt_usage busy_tracker) BP_SPOT) (dict_or_empty (bt_raw busy_tracker) BP_SPOT) ?d = Some ?u"
    by code_simp
  moreover have "ca_remaining (bucket_of 1000000 ?d ?u) = 100" by code_simp
  ultimately show ?thesis
    using snapshot_tightest [OF busy_tracker_def, of 1000000] by fastforce
qed

end
