(* ===== verification/UTE_Binance_Orders.thy ===== *)
theory UTE_Binance_Orders
  imports UTE_Binance_Symbols
begin

text \<open>
  \<^verbatim>\<open>binance/orders.py\<close>: unified orders as the parameters of Binance requests, and Binance order
  responses as unified results. A parameter is a text, or the plain rendering of a decimal; the
  latter stands for the decimal it renders.
\<close>

subsection \<open>Tables\<close>

definition tif_names :: "(time_in_force, string) dict" where
  "tif_names = [(GTC, ''GTC''), (IOC, ''IOC''), (FOK, ''FOK'')]"

definition status_names :: "(string, order_status) dict" where
  "status_names = [(''NEW'', OPEN), (''PENDING_CANCEL'', OPEN), (''PARTIALLY_FILLED'', PARTIALLY_FILLED),
     (''FILLED'', FILLED), (''CANCELED'', CANCELLED), (''CANCELLED'', CANCELLED), (''REJECTED'', REJECTED),
     (''EXPIRED'', EXPIRED), (''EXPIRED_IN_MATCH'', EXPIRED)]"

definition ALGO_OPEN_STATUSES :: "string list" where
  "ALGO_OPEN_STATUSES = [''TRIGGERING'', ''TRIGGERED'']"

definition client_id_char :: "char \<Rightarrow> bool" where
  "client_id_char c \<longleftrightarrow>
     c \<in> set ''abcdefghijklmnopqrstuvwxyzABCDEFGHIJKLMNOPQRSTUVWXYZ0123456789-_.:/''"

record order_reference =
  rf_product :: binance_product
  rf_symbol :: string
  rf_conditional :: bool
  rf_type :: order_type
  rf_platform_id :: "string option"

subsection \<open>Requests\<close>

definition to_binance_client_order_id :: "string \<Rightarrow> string result" where
  "to_binance_client_order_id s =
     rbind (guard_exn (s = [] \<or> 36 < length s \<or> list_ex (\<lambda>c. \<not> client_id_char c) s) InvalidOrderError
              ''Binance client_order_id must be 1-36 characters of the allowed alphabet'') (\<lambda>_. Inr s)"

definition decimal_string :: "decimal option \<Rightarrow> wire result" where
  "decimal_string v =
     (case v of None \<Rightarrow> raise_exn InvalidOrderError ''Binance order payload requires a decimal price value''
      | Some d \<Rightarrow> Inr (W_dec d))"

definition binance_type :: "binance_product \<Rightarrow> order_type \<Rightarrow> string result" where
  "binance_type p t =
     (if t = MARKET then Inr ''MARKET''
      else if t = LIMIT then Inr ''LIMIT''
      else if p = BP_SPOT \<and> t = STOP then Inr ''STOP_LOSS''
      else if p = BP_SPOT \<and> t = STOP_LIMIT then Inr ''STOP_LOSS_LIMIT''
      else if p = BP_USD_M \<and> t = STOP then Inr ''STOP_MARKET''
      else if p = BP_USD_M \<and> t = STOP_LIMIT then Inr ''STOP''
      else raise_exn UnsupportedOrderTypeError ''Binance product does not support the order type'')"

definition tif_name :: "time_in_force \<Rightarrow> string result" where
  "tif_name t =
     (case dict_get tif_names t of None \<Rightarrow> raise_exn PyException ''KeyError'' | Some s \<Rightarrow> Inr s)"

definition place_order_checks :: "unified_order \<Rightarrow> binance_product \<Rightarrow> unit result" where
  \<comment> \<open>the guards before the type is chosen\<close>
  "place_order_checks u p =
     rbind (guard_exn (uo_take_profit u \<noteq> None \<or> uo_stop_loss u \<noteq> None) UnsupportedOrderTypeError
              ''Binance order-level take_profit/stop_loss attachments are not supported'') (\<lambda>_.
     rbind (guard_exn (uo_position_id u \<noteq> None) UnsupportedOrderTypeError
              ''Binance order placement cannot target a position_id'') (\<lambda>_.
     rbind (guard_exn (p = BP_SPOT \<and> uo_reduce_only u) UnsupportedOrderTypeError
              ''Binance Spot does not support reduce_only orders'') (\<lambda>_.
     rbind (guard_exn (uo_type u \<in> {STOP, STOP_LIMIT} \<and> p = BP_COIN_M) UnsupportedOrderTypeError
              ''COIN-M conditional orders are not supported'') (\<lambda>_.
     rbind (guard_exn (\<not> dict_has tif_names (uo_tif u)) UnsupportedOrderTypeError
              ''Binance does not support the time_in_force'') (\<lambda>_.
     guard_exn (uo_type u \<in> {MARKET, STOP} \<and> uo_tif u \<noteq> GTC) UnsupportedOrderTypeError
       ''Binance market and stop orders do not accept a time-in-force parameter'')))))"

definition put_price :: "unified_order \<Rightarrow> params \<Rightarrow> params result" where
  "put_price u d =
     (if uo_type u \<in> {LIMIT, STOP_LIMIT} then
        rbind (decimal_string (uo_price u)) (\<lambda>x.
        rbind (tif_name (uo_tif u)) (\<lambda>t.
        Inr (dict_set ''timeInForce'' (W_text t) (dict_set ''price'' x d))))
      else Inr d)"

definition put_stop :: "unified_order \<Rightarrow> params \<Rightarrow> params result" where
  "put_stop u d =
     (if uo_type u \<in> {STOP, STOP_LIMIT} then
        rbind (decimal_string (uo_stop_price u)) (\<lambda>x. Inr (dict_set ''stopPrice'' x d))
      else Inr d)"

definition build_place_order_payload ::
    "unified_order \<Rightarrow> binance_product \<Rightarrow> string \<Rightarrow> string \<Rightarrow> (params \<times> bool) result" where
  "build_place_order_payload u p symbol cid =
     rbind (place_order_checks u p) (\<lambda>_.
     rbind (binance_type p (uo_type u)) (\<lambda>ty.
     rbind (decimal_string (Some (uo_quantity u))) (\<lambda>qty.
     let conditional = (uo_type u \<in> {STOP, STOP_LIMIT} \<and> p = BP_USD_M);
         base = dict_set (if conditional then ''clientAlgoId'' else ''newClientOrderId'') (W_text cid)
           [(''symbol'', W_text symbol), (''side'', W_text (if uo_side u = BUY then ''BUY'' else ''SELL'')),
            (''type'', W_text ty), (''quantity'', qty)]
     in
     rbind (put_price u base) (\<lambda>d1.
     rbind (put_stop u d1) (\<lambda>d2.
     let d3 = (if uo_reduce_only u then dict_set ''reduceOnly'' (W_text ''true'') d2 else d2);
         d4 = (if \<not> conditional then dict_set ''newOrderRespType'' (W_text ''RESULT'') d3 else d3)
     in Inr (d4, conditional))))))"

definition build_modify_order_payload ::
    "string \<Rightarrow> string \<Rightarrow> decimal option \<Rightarrow> decimal option \<Rightarrow> params result" where
  "build_modify_order_payload symbol cid price quantity =
     (let d = [(''symbol'', W_text symbol), (''origClientOrderId'', W_text cid)] in
      rbind (if price = None then Inr d
             else rbind (decimal_string price) (\<lambda>x. Inr (dict_set ''price'' x d))) (\<lambda>d1.
      if quantity = None then Inr d1
      else rbind (decimal_string quantity) (\<lambda>x. Inr (dict_set ''quantity'' x d1))))"

subsection \<open>Responses\<close>

definition map_order_status :: "py_object \<Rightarrow> bool \<Rightarrow> order_status result" where
  "map_order_status raw conditional =
     (case raw of
        Py_Str s \<Rightarrow>
          if conditional \<and> upper s \<in> set ALGO_OPEN_STATUSES then Inr OPEN
          else (case dict_get status_names (upper s) of
                  None \<Rightarrow> raise_exn PlatformError ''Unknown Binance order status''
                | Some st \<Rightarrow> Inr st)
      | _ \<Rightarrow> raise_exn PlatformError ''Binance order response has an invalid status'')"

definition order_decimal :: "py_object \<Rightarrow> decimal result" where
  "order_decimal v =
     (if v = Py_None then raise_exn PlatformError ''Binance order response is missing a value''
      else case dec_of_object v of
             None \<Rightarrow> raise_exn PlatformError ''Binance order response has an invalid value''
           | Some x \<Rightarrow> rbind (guard_exn (x < 0) PlatformError ''Binance order response has an invalid value'') (\<lambda>_. Inr x))"

definition optional_decimal :: "py_object \<Rightarrow> decimal option result" where
  "optional_decimal v =
     (if v = Py_None \<or> v = Py_Str [] then Inr None
      else rbind (order_decimal v) (\<lambda>x. Inr (if 0 < x then Some x else None)))"

definition order_timestamp :: "py_object \<Rightarrow> py_object \<Rightarrow> instant result" where
  "order_timestamp v fallback =
     (let raw = (if v \<noteq> Py_None then v else fallback) in
      if raw = Py_None then raise_exn PlatformError ''Binance order response is missing a timestamp''
      else (case int_of_text (py_text raw) of
              None \<Rightarrow> raise_exn PlatformError ''Binance order response has an invalid timestamp''
            | Some ms \<Rightarrow>
                (case instant_of_ms ms of
                   None \<Rightarrow> raise_exn PlatformError ''Binance order response has an invalid timestamp''
                 | Some t \<Rightarrow> Inr t)))"

definition parse_order_id :: "(string \<times> py_object) list \<Rightarrow> bool \<Rightarrow> py_object" where
  "parse_order_id d conditional =
     (if field d ''orderId'' = Py_None \<and> conditional then field d ''algoId'' else field d ''orderId'')"

definition parse_filled :: "(string \<times> py_object) list \<Rightarrow> bool \<Rightarrow> decimal result" where
  "parse_filled d conditional =
     (let raw = field_or d ''executedQty'' (field_or d ''cumQty'' (field d ''actualQty'')) in
      if raw = Py_None then
        (if conditional then order_decimal (Py_Str ''0'')
         else raise_exn PlatformError ''Binance order response is missing executedQty'')
      else order_decimal raw)"

definition parse_status :: "(string \<times> py_object) list \<Rightarrow> bool \<Rightarrow> decimal \<Rightarrow> order_status result" where
  "parse_status d conditional filled =
     (let raw = (if conditional then field d ''algoStatus'' else field d ''status'') in
      case (if conditional then raw else Py_None) of
        Py_Str s \<Rightarrow>
          if upper s = ''FINISHED'' then
            rbind (optional_decimal (field d ''quantity'')) (\<lambda>q.
            Inr (case q of None \<Rightarrow> CANCELLED | Some o_qty \<Rightarrow> if o_qty \<le> filled then FILLED else CANCELLED))
          else map_order_status raw conditional
      | _ \<Rightarrow> map_order_status raw conditional)"

definition parse_average :: "(string \<times> py_object) list \<Rightarrow> decimal \<Rightarrow> decimal option result" where
  "parse_average d filled =
     rbind (optional_decimal (field_or d ''avgPrice'' (field d ''actualPrice''))) (\<lambda>avg.
     rbind (if avg = None \<and> 0 < filled
            then rbind (optional_decimal (field d ''cummulativeQuoteQty'')) (\<lambda>q.
                   Inr (map_option (\<lambda>x. ddiv_nz x filled) q))
            else Inr avg) (\<lambda>a.
     rbind (guard_exn (0 < filled \<and> a = None) MissingAverageFillPriceError
              ''Binance order response is missing average fill price'') (\<lambda>_. Inr a)))"

definition parse_times :: "(string \<times> py_object) list \<Rightarrow> (instant \<times> instant) result" where
  "parse_times d =
     rbind (order_timestamp (field_or d ''time'' (field_or d ''transactTime'' (field d ''createTime'')))
              (field d ''updateTime'')) (\<lambda>created.
     let raw = field_or d ''updateTime'' (field d ''transactTime'') in
     if raw = Py_None then Inr (created, created)
     else rbind (order_timestamp raw Py_None) (\<lambda>u. Inr (created, u)))"

definition parse_order_result :: "(string \<times> py_object) list \<Rightarrow> string \<Rightarrow> bool \<Rightarrow> order_result result" where
  "parse_order_result d cid conditional =
     (let order_id = parse_order_id d conditional;
          raw_status = (if conditional then field d ''algoStatus'' else field d ''status'')
      in
      rbind (guard_exn (order_id = Py_None) PlatformError ''Binance order response is missing orderId/algoId'') (\<lambda>_.
      rbind (guard_exn (raw_status = Py_None) PlatformError ''Binance order response is missing its status'') (\<lambda>_.
      rbind (parse_filled d conditional) (\<lambda>filled.
      rbind (parse_status d conditional filled) (\<lambda>status.
      rbind (parse_average d filled) (\<lambda>avg.
      rbind (parse_times d) (\<lambda>(created, updated).
      Inr \<lparr>re_client_id = cid, re_platform_id = Some (py_text order_id), re_status = status,
           re_filled = filled, re_avg_price = avg, re_created_at = created, re_updated_at = updated\<rparr>)))))))"

end
