(* ===== verification/UTE_Binance_Errors.thy ===== *)
theory UTE_Binance_Errors
  imports UTE_Binance_Symbols
begin

text \<open>
  \<^verbatim>\<open>binance/errors.py\<close>: exceptions of the Binance SDK and of its transport as exceptions of the core.
  An SDK exception is the attributes the code reads of it; an attribute it lacks is \<open>Py_None\<close>. The
  result pairs the core exception with the \<^verbatim>\<open>platform_error\<close> it carries.
\<close>

datatype sdk_kind = SK_Timeout | SK_Transport | SK_Api | SK_Order | SK_Request | SK_Other

record sdk_error =
  se_kind :: sdk_kind
  se_name :: string
  se_message :: py_object
  se_text :: string
  se_code :: py_object
  se_http :: py_object
  se_status :: py_object

type_synonym mapped_error = "exn \<times> metadata option"

definition BINANCE_CODE_MAP :: "(int \<times> exn_class) list" where
  "BINANCE_CODE_MAP =
    [(-1000, PlatformConnectionError), (-1001, PlatformConnectionError), (-1002, PlatformError),
     (-1003, RateLimitError), (-1006, PlatformConnectionError), (-1007, PlatformConnectionError),
     (-1014, InvalidOrderError), (-1013, InvalidOrderError), (-1015, RateLimitError),
     (-1016, PlatformConnectionError), (-1021, PlatformError), (-1022, PlatformError),
     (-1034, RateLimitError), (-1100, InvalidOrderError), (-1101, InvalidOrderError),
     (-1102, InvalidOrderError), (-1103, InvalidOrderError), (-1104, InvalidOrderError),
     (-1105, InvalidOrderError), (-1106, InvalidOrderError), (-1108, InvalidOrderError),
     (-1111, InvalidOrderError), (-1114, InvalidOrderError), (-1115, InvalidOrderError),
     (-1116, InvalidOrderError), (-1117, InvalidOrderError), (-1118, InvalidOrderError),
     (-1119, InvalidOrderError), (-1121, InvalidSymbolError), (-1122, InvalidSymbolError),
     (-1125, PlatformError), (-1128, InvalidOrderError), (-1130, InvalidOrderError),
     (-1010, InvalidOrderError), (-4000, InvalidOrderError), (-4001, InvalidOrderError),
     (-4002, InvalidOrderError), (-4003, InvalidOrderError), (-4004, InvalidOrderError),
     (-4005, InvalidOrderError), (-4006, InvalidOrderError), (-4007, InvalidOrderError),
     (-4008, InvalidOrderError), (-4009, InvalidOrderError), (-4010, InvalidOrderError),
     (-4011, InvalidOrderError), (-4012, InvalidOrderError), (-4013, InvalidOrderError),
     (-4014, InvalidOrderError), (-4015, InvalidOrderError), (-4016, InvalidOrderError),
     (-4017, InvalidOrderError), (-4018, InvalidOrderError), (-4019, InvalidOrderError),
     (-4020, InvalidOrderError), (-4022, InvalidOrderError), (-4023, InvalidOrderError),
     (-4024, InvalidOrderError), (-4025, InvalidOrderError), (-4028, InvalidOrderError),
     (-4029, InvalidOrderError), (-4030, InvalidOrderError), (-4031, InvalidOrderError),
     (-4032, InvalidOrderError), (-4045, InvalidOrderError), (-4050, InsufficientBalanceError),
     (-4051, InsufficientBalanceError), (-4060, InvalidOrderError), (-4061, InvalidOrderError),
     (-4062, InvalidOrderError), (-4105, InvalidOrderError), (-4106, InvalidOrderError),
     (-4107, InvalidOrderError), (-4114, InvalidOrderError), (-4111, InvalidOrderError),
     (-4110, InvalidOrderError), (-4112, InvalidOrderError), (-4113, InvalidOrderError),
     (-2016, PlatformError), (-2018, InsufficientBalanceError), (-2010, InvalidOrderError),
     (-2011, InvalidOrderError), (-2013, OrderNotFoundError), (-2014, PlatformError),
     (-2015, PlatformError), (-2019, InsufficientBalanceError), (-2020, InvalidOrderError),
     (-2021, InvalidOrderError), (-2022, InvalidOrderError), (-2024, InvalidOrderError),
     (-2025, InvalidOrderError), (-2026, InvalidOrderError), (-2027, InvalidOrderError),
     (-2028, InsufficientBalanceError), (-2038, InvalidOrderError), (-2039, InvalidOrderError),
     (-2043, InvalidOrderError), (-5021, InvalidOrderError), (-4115, InvalidOrderError),
     (-4116, DuplicateOrderIdError), (-4117, InvalidOrderError), (-4118, InvalidOrderError),
     (-4120, InvalidOrderError), (-4131, InvalidOrderError), (-4135, InvalidOrderError),
     (-4137, InvalidOrderError), (-4138, InvalidOrderError), (-4139, InvalidOrderError),
     (-4140, MarketClosedError), (-4141, MarketClosedError), (-4142, InvalidOrderError),
     (-4144, InvalidSymbolError), (-4164, InvalidOrderError)]"

fun as_int :: "py_object \<Rightarrow> int option" where
  "as_int (Py_Int n) = Some n"
| "as_int (Py_Str s) = int_of_text s"
| "as_int _ = None"

definition error_message :: "sdk_error \<Rightarrow> string" where
  "error_message e =
     (case se_message e of
        Py_Str m \<Rightarrow> if m \<noteq> [] then m else or_text (se_text e) (se_name e)
      | _ \<Rightarrow> or_text (se_text e) (se_name e))"

definition platform_context :: "sdk_error \<Rightarrow> int option \<Rightarrow> int option \<Rightarrow> string \<Rightarrow> metadata" where
  "platform_context e code http m =
     [(''exception'', Py_Str (se_name e)), (''message'', Py_Str m)]
     @ (case code of None \<Rightarrow> [] | Some c \<Rightarrow> [(''code'', Py_Int c)])
     @ (case http of None \<Rightarrow> [] | Some h \<Rightarrow> [(''http_status'', Py_Int h)])"

fun contains :: "string \<Rightarrow> string \<Rightarrow> bool" where
  \<comment> \<open>\<^verbatim>\<open>p in s\<close>\<close>
  "contains p [] = (p = [])"
| "contains p (c # s) = (starts_with (c # s) p \<or> contains p s)"

definition map_rejection :: "int \<Rightarrow> string \<Rightarrow> exn" where
  "map_rejection code m =
     (let l = lower m in
      if contains ''insufficient balance'' l then Exn InsufficientBalanceError m
      else if contains ''market is closed'' l then Exn MarketClosedError m
      else if contains ''unknown order'' l then Exn OrderNotFoundError m
      else if contains ''duplicate order'' l then Exn DuplicateOrderIdError m
      else Exn InvalidOrderError (or_text m ''Binance order rejection''))"

definition map_server_busy :: "string \<Rightarrow> exn" where
  "map_server_busy m = (if contains ''throttl'' (lower m) then Exn RateLimitError m else Exn PlatformConnectionError m)"

definition with_context :: "sdk_error \<Rightarrow> int option \<Rightarrow> int option \<Rightarrow> string \<Rightarrow> mapped_error" where
  "with_context e code http m = (Exn PlatformError m, Some (platform_context e code http m))"

definition map_code :: "sdk_error \<Rightarrow> int \<Rightarrow> int option \<Rightarrow> string \<Rightarrow> mapped_error option" where
  "map_code e c http m =
     (case dict_get BINANCE_CODE_MAP c of
        None \<Rightarrow> None
      | Some k \<Rightarrow>
          Some (if c \<in> {-1010, -2010, -2011, -2038} then (map_rejection c m, None)
                else if k = PlatformError then with_context e (Some c) http (or_text m ''Binance error'')
                else (Exn k (or_text m ''Binance error''), None)))"

definition map_api_error :: "sdk_error \<Rightarrow> binance_product option \<Rightarrow> string \<Rightarrow> mapped_error" where
  \<comment> \<open>the branch of \<^verbatim>\<open>BinanceAPIException\<close> and \<^verbatim>\<open>BinanceOrderException\<close>\<close>
  "map_api_error e product m =
     (let code = as_int (se_code e); http = as_int (se_http e);
          unknown = with_context e code http (or_text m ''Unknown Binance API error'')
      in
      if http \<in> {Some 418, Some 429} then (Exn RateLimitError m, None)
      else if http \<in> {Some 401, Some 403} then with_context e code http m
      else if code = Some (-1008) then (map_server_busy m, None)
      else if code = Some (-2026) then
        (if product \<in> {Some BP_USD_M, Some BP_COIN_M} then (Exn InvalidOrderError m, None)
         else with_context e code http m)
      else if (case http of None \<Rightarrow> False | Some h \<Rightarrow> 500 \<le> h \<and> h < 600) then (Exn PlatformConnectionError m, None)
      else (case code of
              None \<Rightarrow> unknown
            | Some c \<Rightarrow> (case map_code e c http m of None \<Rightarrow> unknown | Some x \<Rightarrow> x)))"

definition map_binance_error :: "sdk_error \<Rightarrow> binance_product option \<Rightarrow> mapped_error" where
  "map_binance_error e product =
     (let m = error_message e in
      case se_kind e of
        SK_Timeout \<Rightarrow> (Exn PlatformConnectionError ''Binance request timed out'', None)
      | SK_Transport \<Rightarrow> (Exn PlatformConnectionError ''Binance transport failure'', None)
      | SK_Api \<Rightarrow> map_api_error e product m
      | SK_Order \<Rightarrow> map_api_error e product m
      | SK_Request \<Rightarrow> with_context e None None m
      | SK_Other \<Rightarrow> (Exn PlatformError ''Unexpected Binance error'', Some [(''exception'', Py_Str (se_name e))]))"

end
