(* ===== verification/UTE_Binance_Adapter.thy ===== *)
theory UTE_Binance_Adapter
  imports UTE_Binance_Rates UTE_Binance_Orders UTE_Binance_Errors UTE_Events
begin

text \<open>
  \<^verbatim>\<open>binance/adapter.py\<close> and \<^verbatim>\<open>binance/config.py\<close>: the adapter's state, its connection lifecycle, its
  orders, the instrument metadata it caches and the operations it leaves unimplemented. The SDK, the
  clock, the sleep and the id factory are parameters that act on the outside world \<open>'v\<close>; the digest of
  the API key is one too. The cancellation of a \<^verbatim>\<open>connect\<close> under way is not modelled.
\<close>

subsection \<open>Configuration\<close>

record binance_config =
  bc_api_key :: py_object
  bc_api_secret :: py_object
  bc_testnet :: py_object
  bc_demo :: py_object
  bc_account :: "py_object"
  bc_ttl :: "rat option"

definition validate_non_empty_string :: "py_object \<Rightarrow> unit result" where
  "validate_non_empty_string v =
     (case v of
        Py_Str s \<Rightarrow>
          rbind (guard_exn (blank s) PyValueError ''must be a non-empty string'') (\<lambda>_.
          guard_exn (s \<noteq> strip s) PyValueError ''must not contain surrounding whitespace'')
      | _ \<Rightarrow> raise_exn PyValueError ''must be a non-empty string'')"

definition is_bool :: "py_object \<Rightarrow> bool" where
  "is_bool v = (case v of Py_Bool _ \<Rightarrow> True | _ \<Rightarrow> False)"

definition binance_config_post_init :: "binance_config \<Rightarrow> binance_config result" where
  "binance_config_post_init c =
     rbind (validate_non_empty_string (bc_api_key c)) (\<lambda>_.
     rbind (validate_non_empty_string (bc_api_secret c)) (\<lambda>_.
     rbind (guard_exn (\<not> is_bool (bc_testnet c)) PyTypeError ''testnet must be a bool'') (\<lambda>_.
     rbind (guard_exn (\<not> is_bool (bc_demo c)) PyTypeError ''demo must be a bool'') (\<lambda>_.
     rbind (guard_exn (bc_testnet c = Py_Bool True \<and> bc_demo c = Py_Bool True) PyValueError
              ''testnet and demo are mutually exclusive'') (\<lambda>_.
     rbind (if bc_account c = Py_None then Inr () else validate_non_empty_string (bc_account c)) (\<lambda>_.
     rbind (guard_exn (case bc_ttl c of None \<Rightarrow> False | Some t \<Rightarrow> t \<le> 0) PyValueError
              ''instrument_spec_cache_ttl must be > 0 or None'') (\<lambda>_. Inr c)))))))"

subsection \<open>The SDK\<close>

text \<open>
  A client is what the adapter inspects of it: the environment flags and what its three URL builders
  return for \<^verbatim>\<open>ping\<close>, absent when they cannot be called. A refused request carries the headers of the
  response attached to the exception; the outer option tells whether there is a response.
\<close>

record client =
  cl_testnet :: py_object
  cl_demo :: py_object
  cl_urls :: "(py_object \<times> py_object \<times> py_object) option"

type_synonym headers = "(string, string) dict option"

datatype creation = Created client | Not_created sdk_error

datatype reply = Reply py_object | Refused sdk_error "headers option"

record 'v sdk =
  sk_create :: "binance_config \<Rightarrow> 'v \<Rightarrow> creation \<times> 'v"
  sk_close :: "client \<Rightarrow> 'v \<Rightarrow> sdk_error option \<times> 'v"
  sk_request :: "string \<Rightarrow> params \<Rightarrow> 'v \<Rightarrow> reply \<times> 'v"
  sk_headers :: "'v \<Rightarrow> headers option"
  sk_clock :: "'v \<Rightarrow> instant \<times> 'v"
  sk_new_id :: "'v \<Rightarrow> string \<times> 'v"
  sk_sleep :: "rat \<Rightarrow> 'v \<Rightarrow> 'v"
  sk_digest :: "py_object \<Rightarrow> string"

subsection \<open>State\<close>

type_synonym spec_key = "instrument \<times> string option"

record 'v bworld =
  bw_venue :: 'v
  bw_connected :: bool
  bw_client :: "client option"
  bw_refs :: "(string, order_reference) dict"
  bw_specs :: "(spec_key, instrument_spec \<times> instant) dict"
  bw_catalogs :: "(binance_product, py_object list) dict"
  bw_tracker :: tracker
  bw_events :: "event list"

record 'v benv =
  be_sdk :: "'v sdk"
  be_config :: binance_config

type_synonym ('v, 'a) bop = "('v bworld, 'a) eff"

definition binance_init :: "'v \<Rightarrow> 'v bworld" where
  "binance_init v = \<lparr>bw_venue = v, bw_connected = False, bw_client = None, bw_refs = [], bw_specs = [],
     bw_catalogs = [], bw_tracker = tracker_init, bw_events = []\<rparr>"

definition bside :: "('v \<Rightarrow> 'a \<times> 'v) \<Rightarrow> ('v, 'a) bop" where
  \<comment> \<open>a call outside the adapter\<close>
  "bside f = (\<lambda>w. case f (bw_venue w) of (a, v) \<Rightarrow> (Inr a, w\<lparr>bw_venue := v\<rparr>))"

definition platform_name :: string where
  "platform_name = ''binance''"

definition binance_account_id :: "'v benv \<Rightarrow> string" where
  "binance_account_id env =
     (if bc_account (be_config env) \<noteq> Py_None then py_text (bc_account (be_config env))
      else ''binance-'' @ take 16 (sk_digest (be_sdk env) (bc_api_key (be_config env))))"

definition raw_exn :: "sdk_error \<Rightarrow> exn" where
  \<comment> \<open>an SDK exception that is not translated\<close>
  "raw_exn e = Exn (if se_kind e = SK_Timeout then PyTimeoutError else PyException) (se_text e)"

definition translated :: "sdk_error \<Rightarrow> binance_product option \<Rightarrow> exn" where
  \<comment> \<open>\<^verbatim>\<open>except (BinanceAPIException, ..., TimeoutError) as exc: raise map_binance_error(exc)\<close>\<close>
  "translated e p = (if se_kind e = SK_Other then raw_exn e else fst (map_binance_error e p))"

subsection \<open>Connection lifecycle\<close>

definition EXPECTED_REST_PING_URLS :: "(string, string \<times> string \<times> string) dict" where
  "EXPECTED_REST_PING_URLS =
     [(''production'', ''https://api.binance.com/api/v3/ping'', ''https://fapi.binance.com/fapi/v1/ping'',
         ''https://dapi.binance.com/dapi/v1/ping''),
      (''testnet'', ''https://testnet.binance.vision/api/v3/ping'',
         ''https://testnet.binancefuture.com/fapi/v1/ping'', ''https://testnet.binancefuture.com/dapi/v1/ping''),
      (''demo'', ''https://demo-api.binance.com/api/v3/ping'', ''https://demo-fapi.binance.com/fapi/v1/ping'',
         ''https://demo-dapi.binance.com/dapi/v1/ping'')]"

definition environment :: "binance_config \<Rightarrow> string" where
  "environment c =
     (if bc_testnet c = Py_Bool True then ''testnet'' else if bc_demo c = Py_Bool True then ''demo'' else ''production'')"

definition expected_urls :: "binance_config \<Rightarrow> string \<times> string \<times> string" where
  "expected_urls c = the (dict_get EXPECTED_REST_PING_URLS (environment c))"

definition validate_client_urls :: "binance_config \<Rightarrow> client \<Rightarrow> unit result" where
  "validate_client_urls c k =
     rbind (guard_exn (cl_testnet k \<noteq> bc_testnet c \<or> cl_demo k \<noteq> bc_demo c) PlatformConnectionError
              ''Binance SDK environment flags do not match the configured environment'') (\<lambda>_.
     (case cl_urls k of
        None \<Rightarrow> raise_exn PlatformConnectionError ''Binance SDK does not expose the expected REST URL builders''
      | Some (spot, usdm, coinm) \<Rightarrow>
          (case expected_urls c of (x, y, z) \<Rightarrow>
           rbind (guard_exn (spot \<noteq> Py_Str x) PlatformConnectionError ''Spot REST endpoint does not match'') (\<lambda>_.
           rbind (guard_exn (usdm \<noteq> Py_Str y) PlatformConnectionError ''USD-M REST endpoint does not match'') (\<lambda>_.
           guard_exn (coinm \<noteq> Py_Str z) PlatformConnectionError ''COIN-M REST endpoint does not match'')))))"

definition publish_connection_state :: "'v benv \<Rightarrow> bool \<Rightarrow> ('v, unit) bop" where
  "publish_connection_state env up =
     ebind (bside (sk_new_id (be_sdk env))) (\<lambda>i.
     ebind (bside (sk_clock (be_sdk env))) (\<lambda>now.
     eupd (\<lambda>w. w\<lparr>bw_events := bw_events w @
       [\<lparr>ev_id = i, ev_time = now, ev_adapter = platform_name, ev_account = binance_account_id env,
         ev_correlation = None, ev_body = ConnectionStateEvent up\<rparr>]\<rparr>)))"

definition binance_connect :: "'v benv \<Rightarrow> ('v, unit) bop" where
  "binance_connect env =
     ebind (eget bw_connected) (\<lambda>up.
     if up then eret ()
     else
       ebind (eget bw_client) (\<lambda>old.
       ebind (eguard (old \<noteq> None) PlatformConnectionError ''Binance adapter has an unclosed client'') (\<lambda>_.
       ebind (bside (sk_create (be_sdk env) (be_config env))) (\<lambda>made.
       (case made of
          Not_created e \<Rightarrow> elift (Inl (translated e None))
        | Created k \<Rightarrow>
            (case validate_client_urls (be_config env) k of
               Inl e \<Rightarrow> ebind (bside (sk_close (be_sdk env) k)) (\<lambda>_. elift (Inl e))
             | Inr _ \<Rightarrow>
                 ebind (eupd (\<lambda>w. w\<lparr>bw_client := Some k, bw_connected := True\<rparr>)) (\<lambda>_.
                 publish_connection_state env True)))))))"

definition binance_disconnect :: "'v benv \<Rightarrow> ('v, unit) bop" where
  "binance_disconnect env =
     ebind (eget (\<lambda>w. (bw_client w, bw_connected w))) (\<lambda>(k, up).
     (case k of
        None \<Rightarrow> eguard up PlatformConnectionError ''connected without an active REST client''
      | Some c \<Rightarrow>
          ebind (bside (sk_close (be_sdk env) c)) (\<lambda>failed.
          (case failed of
             Some e \<Rightarrow> elift (Inl (translated e None))
           | None \<Rightarrow>
               ebind (eupd (\<lambda>w. w\<lparr>bw_client := None, bw_connected := False\<rparr>)) (\<lambda>_.
               ewhen up (publish_connection_state env False))))))"

definition require_client :: "('v, unit) bop" where
  "require_client =
     ebind (eget (\<lambda>w. bw_connected w \<and> bw_client w \<noteq> None)) (\<lambda>up.
     eguard (\<not> up) PlatformConnectionError ''Binance adapter is not connected'')"

subsection \<open>Requests\<close>

definition record_rate_limit_response ::
    "'v benv \<Rightarrow> binance_product \<Rightarrow> headers option \<Rightarrow> py_object \<Rightarrow> int option \<Rightarrow> ('v, unit) bop" where
  "record_rate_limit_response env p response payload status =
     ebind (bside (sk_clock (be_sdk env))) (\<lambda>now.
     let hs = (case response of None \<Rightarrow> None | Some h \<Rightarrow> h);
         limits = (case payload of Py_Map d \<Rightarrow> field d ''rateLimits'' | _ \<Rightarrow> Py_None)
     in (\<lambda>w. case update_tracker p hs limits status now (bw_tracker w) of
               (r, b) \<Rightarrow> (r, w\<lparr>bw_tracker := b\<rparr>)))"

definition status_code :: "sdk_error \<Rightarrow> int option" where
  "status_code e = (case se_http e of Py_Int n \<Rightarrow> Some n | _ \<Rightarrow> None)"

definition run_order_request :: "'v benv \<Rightarrow> binance_product \<Rightarrow> string \<Rightarrow> params \<Rightarrow> ('v, py_object) bop" where
  "run_order_request env p name ps =
     ebind require_client (\<lambda>_.
     ebind (bside (sk_request (be_sdk env) name ps)) (\<lambda>r.
     (case r of
        Refused e response \<Rightarrow>
          if se_kind e = SK_Timeout \<or> se_kind e = SK_Other then elift (Inl (raw_exn e))
          else
            ebind (record_rate_limit_response env p response Py_None (status_code e)) (\<lambda>_.
            elift (Inl (fst (map_binance_error e (Some p)))))
      | Reply x \<Rightarrow>
          ebind (eget (\<lambda>w. sk_headers (be_sdk env) (bw_venue w))) (\<lambda>response.
          ebind (record_rate_limit_response env p response x None) (\<lambda>_. eret x)))))"

definition order_response :: "py_object \<Rightarrow> metadata result" where
  "order_response x =
     (case x of Py_Map d \<Rightarrow> Inr d
      | _ \<Rightarrow> raise_exn PlatformError ''Binance order endpoint returned a non-object response'')"

subsection \<open>Instrument metadata\<close>

definition catalog_method :: "binance_product \<Rightarrow> string" where
  "catalog_method p = (case p of BP_SPOT \<Rightarrow> ''get_exchange_info'' | BP_USD_M \<Rightarrow> ''futures_exchange_info''
     | BP_COIN_M \<Rightarrow> ''futures_coin_exchange_info'')"

definition fetch_catalog :: "'v benv \<Rightarrow> binance_product \<Rightarrow> ('v, py_object list) bop" where
  \<comment> \<open>the catalog of a product that is not cached yet\<close>
  "fetch_catalog env p =
     ebind (bside (sk_request (be_sdk env) (catalog_method p) [])) (\<lambda>r.
     ebind (eget (\<lambda>w. sk_headers (be_sdk env) (bw_venue w))) (\<lambda>last_response.
     (case r of
        Refused e response \<Rightarrow>
          if se_kind e = SK_Other then elift (Inl (raw_exn e))
          else
            ebind (record_rate_limit_response env p
                     (if response = None \<and> se_kind e = SK_Request then last_response else response)
                     Py_None (status_code e)) (\<lambda>_.
            elift (Inl (fst (map_binance_error e (Some p)))))
      | Reply x \<Rightarrow>
          ebind (record_rate_limit_response env p last_response x None) (\<lambda>_.
          (case x of
             Py_Map d \<Rightarrow>
               (case field d ''symbols'' of
                  Py_List es \<Rightarrow>
                    ebind (eupd (\<lambda>w. w\<lparr>bw_catalogs := dict_set p es (bw_catalogs w)\<rparr>)) (\<lambda>_. eret es)
                | _ \<Rightarrow> eraise PlatformError ''exchange-info response has no symbols list'')
           | _ \<Rightarrow> eraise PlatformError ''exchange-info response is not an object'')))))"

definition spec_key_of :: "instrument \<Rightarrow> spec_key" where
  "spec_key_of i = (inst_id i, in_platform_symbol i)"

definition cached_spec :: "'v benv \<Rightarrow> instrument \<Rightarrow> ('v, instrument_spec option) bop" where
  \<comment> \<open>the cache lookup; an entry that has outlived its time is dropped\<close>
  "cached_spec env i =
     ebind (eget (\<lambda>w. dict_get (bw_specs w) (spec_key_of i))) (\<lambda>hit.
     (case hit of
        None \<Rightarrow> eret None
      | Some (spec, fetched) \<Rightarrow>
          (case bc_ttl (be_config env) of
             None \<Rightarrow> eret (Some spec)
           | Some ttl \<Rightarrow>
               ebind (bside (sk_clock (be_sdk env))) (\<lambda>now.
               if of_int (now - fetched) / 1000000 < ttl then eret (Some spec)
               else ebind (eupd (\<lambda>w. w\<lparr>bw_specs := dict_del (spec_key_of i) (bw_specs w)\<rparr>)) (\<lambda>_. eret None)))))"

definition listing_status :: "metadata \<Rightarrow> py_object" where
  "listing_status d = (if field d ''status'' = Py_None then field d ''contractStatus'' else field d ''status'')"

definition catalog :: "'v benv \<Rightarrow> binance_product \<Rightarrow> ('v, py_object list) bop" where
  "catalog env p =
     ebind (eget (\<lambda>w. dict_get (bw_catalogs w) p)) (\<lambda>hit.
     (case hit of Some es \<Rightarrow> eret es | None \<Rightarrow> fetch_catalog env p))"

definition binance_fetch_spec :: "'v benv \<Rightarrow> instrument \<Rightarrow> ('v, instrument_spec) bop" where
  "binance_fetch_spec env i =
     ebind (elift (product_for_instrument i)) (\<lambda>p.
     ebind (cached_spec env i) (\<lambda>hit.
     (case hit of
        Some spec \<Rightarrow> eret spec
      | None \<Rightarrow>
          ebind (eget bw_client) (\<lambda>k.
          ebind (eguard (k = None) PlatformConnectionError ''must be connected before fetching instrument metadata'') (\<lambda>_.
          ebind (catalog env p) (\<lambda>es.
          ebind (elift (resolve_binance_symbol i p es)) (\<lambda>(symbol, d).
          ebind (eguard (listing_status d \<noteq> Py_Str ''TRADING'') InvalidSymbolError ''Binance symbol is not trading'') (\<lambda>_.
          ebind (elift (parse_instrument_spec d)) (\<lambda>spec.
          ebind (bside (sk_clock (be_sdk env))) (\<lambda>now.
          ebind (eupd (\<lambda>w. w\<lparr>bw_specs := dict_set (spec_key_of i) (spec, now) (bw_specs w)\<rparr>)) (\<lambda>_.
          eret spec)))))))))))"

definition resolve_order_symbol :: "'v benv \<Rightarrow> instrument \<Rightarrow> binance_product \<Rightarrow> ('v, string) bop" where
  "resolve_order_symbol env i p =
     ebind (binance_fetch_spec env i) (\<lambda>_.
     ebind (eget (\<lambda>w. dict_get (bw_catalogs w) p)) (\<lambda>hit.
     (case hit of
        None \<Rightarrow> eraise PlatformError ''exchange-info cache was not populated''
      | Some es \<Rightarrow> ebind (elift (resolve_binance_symbol i p es)) (\<lambda>(symbol, _). eret symbol))))"

end
