(* ===== verification/UTE_Binance_Trading.thy ===== *)
theory UTE_Binance_Trading
  imports UTE_Binance_Adapter
begin

text \<open>
  The order operations of \<^verbatim>\<open>binance/adapter.py\<close> and the record of operations the core calls. The
  waiting loop of a cancellation takes its eight attempts as the argument of its recursion.
\<close>

subsection \<open>Looking an order up\<close>

definition lookup_params :: "order_reference \<Rightarrow> string \<Rightarrow> params" where
  "lookup_params ref cid =
     (''symbol'', W_text (rf_symbol ref))
     # (case rf_platform_id ref of
          None \<Rightarrow> [(if rf_conditional ref then ''clientAlgoId'' else ''origClientOrderId'', W_text cid)]
        | Some i \<Rightarrow> [(if rf_conditional ref then ''algoId'' else ''orderId'', W_text i)])"

definition query_method :: "binance_product \<Rightarrow> string" where
  "query_method p = (case p of BP_SPOT \<Rightarrow> ''get_order'' | BP_USD_M \<Rightarrow> ''futures_get_order''
     | BP_COIN_M \<Rightarrow> ''futures_coin_get_order'')"

definition history_methods :: "(binance_product \<times> bool, string) dict" where
  "history_methods = [((BP_SPOT, False), ''get_all_orders''), ((BP_USD_M, False), ''futures_get_all_orders''),
     ((BP_USD_M, True), ''futures_get_all_algo_orders''), ((BP_COIN_M, False), ''futures_coin_get_all_orders'')]"

definition history_entry :: "order_reference \<Rightarrow> string \<Rightarrow> py_object \<Rightarrow> bool" where
  \<comment> \<open>whether an entry of the history is the order\<close>
  "history_entry ref cid x =
     (case x of
        Py_Map d \<Rightarrow>
          (case rf_platform_id ref of
             Some i \<Rightarrow> py_text (field d (if rf_conditional ref then ''algoId'' else ''orderId'')) = i
           | None \<Rightarrow> field d (if rf_conditional ref then ''clientAlgoId'' else ''clientOrderId'') = Py_Str cid)
      | _ \<Rightarrow> False)"

definition is_map :: "py_object \<Rightarrow> bool" where
  "is_map x = (case x of Py_Map _ \<Rightarrow> True | _ \<Rightarrow> False)"

definition find_in_history :: "'v benv \<Rightarrow> order_reference \<Rightarrow> string \<Rightarrow> ('v, py_object option) bop" where
  "find_in_history env ref cid =
     (case dict_get history_methods (rf_product ref, rf_conditional ref) of
        None \<Rightarrow> eret None
      | Some name \<Rightarrow>
          ebind (run_order_request env (rf_product ref) name [(''symbol'', W_text (rf_symbol ref))]) (\<lambda>history.
          (case history of
             Py_List xs \<Rightarrow>
               ebind (eguard (list_ex (\<lambda>x. \<not> is_map x) xs) PlatformError ''order history contains a non-object entry'') (\<lambda>_.
               eret (List.find (history_entry ref cid) xs))
           | _ \<Rightarrow> eraise PlatformError ''order history response is not a list'')))"

definition on_not_found :: "('v, 'a) bop \<Rightarrow> ('v, 'a) bop \<Rightarrow> ('v, 'a) bop" where
  \<comment> \<open>\<^verbatim>\<open>try: m except OrderNotFoundError: h\<close>\<close>
  "on_not_found m h = etry m (\<lambda>e. if exn_is (exn_cls e) OrderNotFoundError then h else elift (Inl e))"

definition resolve_conditional_actual_order ::
    "'v benv \<Rightarrow> order_reference \<Rightarrow> metadata \<Rightarrow> string \<Rightarrow> ('v, order_result option) bop" where
  "resolve_conditional_actual_order env ref d cid =
     (if (case field d ''algoStatus'' of Py_Str s \<Rightarrow> upper s \<noteq> ''FINISHED'' | _ \<Rightarrow> True)
         \<or> field d ''actualOrderId'' = Py_None \<or> field d ''actualOrderId'' = Py_Str []
      then eret None
      else
        ebind (on_not_found
          (ebind (run_order_request env (rf_product ref) ''futures_get_order''
                    [(''symbol'', W_text (rf_symbol ref)), (''orderId'', W_text (py_text (field d ''actualOrderId'')))])
             (\<lambda>x. eret (Some x)))
          (eret None)) (\<lambda>response.
        (case response of
           None \<Rightarrow> eret None
         | Some x \<Rightarrow>
             ebind (elift (order_response x)) (\<lambda>entry.
             ebind (elift (parse_order_result entry cid False)) (\<lambda>r.
             eret (Some
               (if truthy (field d ''algoId'') then r\<lparr>re_platform_id := Some (py_text (field d ''algoId''))\<rparr>
                else case rf_platform_id ref of None \<Rightarrow> r | Some i \<Rightarrow> r\<lparr>re_platform_id := Some i\<rparr>)))))))"

definition binance_get_order :: "'v benv \<Rightarrow> string \<Rightarrow> ('v, order_result option) bop" where
  "binance_get_order env cid =
     ebind require_client (\<lambda>_.
     ebind (eget (\<lambda>w. dict_get (bw_refs w) cid)) (\<lambda>known.
     (case known of
        None \<Rightarrow> eraise PlatformError ''Cannot resolve Binance product and symbol for order''
      | Some ref \<Rightarrow>
          ebind (on_not_found
            (ebind (run_order_request env (rf_product ref) (query_method (rf_product ref)) (lookup_params ref cid))
               (\<lambda>x. eret (Some x)))
            (find_in_history env ref cid)) (\<lambda>response.
          (case response of
             None \<Rightarrow> eret None
           | Some x \<Rightarrow>
               ebind (elift (order_response x)) (\<lambda>d.
               ebind (if rf_conditional ref then resolve_conditional_actual_order env ref d cid else eret None) (\<lambda>resolved.
               (case resolved of
                  Some r \<Rightarrow> eret (Some r)
                | None \<Rightarrow>
                    ebind (elift (parse_order_result d cid (rf_conditional ref))) (\<lambda>r. eret (Some r))))))))))"

subsection \<open>Placing\<close>

definition create_method :: "binance_product \<Rightarrow> string" where
  "create_method p = (case p of BP_SPOT \<Rightarrow> ''create_order'' | BP_USD_M \<Rightarrow> ''futures_create_order''
     | BP_COIN_M \<Rightarrow> ''futures_coin_create_order'')"

definition retain :: "string \<Rightarrow> order_reference \<Rightarrow> ('v, unit) bop" where
  "retain cid ref = eupd (\<lambda>w. w\<lparr>bw_refs := dict_set cid ref (bw_refs w)\<rparr>)"

definition query_average :: "'v benv \<Rightarrow> string \<Rightarrow> order_reference \<Rightarrow> metadata \<Rightarrow> exn \<Rightarrow> ('v, order_result) bop" where
  \<comment> \<open>the handler of a filled placement without its price\<close>
  "query_average env cid ref d e =
     (let pid = parse_order_id d (rf_conditional ref) in
      if pid = Py_None then elift (Inl e)
      else
        ebind (retain cid (ref\<lparr>rf_platform_id := Some (py_text pid)\<rparr>)) (\<lambda>_.
        ebind (etry (binance_get_order env cid) (\<lambda>e2.
                 if exn_is (exn_cls e2) MissingAverageFillPriceError
                 then eraise PlatformError ''filled order has no average fill price''
                 else elift (Inl e2))) (\<lambda>queried.
        (case queried of
           None \<Rightarrow> eraise PlatformError ''filled order could not be queried''
         | Some r \<Rightarrow> eret r))))"

definition binance_place_order :: "'v benv \<Rightarrow> unified_order \<Rightarrow> ('v, order_result) bop" where
  "binance_place_order env u =
     ebind require_client (\<lambda>_.
     ebind (elift (product_for_instrument (uo_instrument u))) (\<lambda>p.
     ebind (resolve_order_symbol env (uo_instrument u) p) (\<lambda>symbol.
     (case uo_client_id u of
        None \<Rightarrow> eraise PlatformError ''Core must assign client_order_id before Binance order placement''
      | Some cid \<Rightarrow>
          ebind (elift (to_binance_client_order_id cid)) (\<lambda>bid.
          ebind (elift (build_place_order_payload u p symbol bid)) (\<lambda>(payload, conditional).
          let ref = \<lparr>rf_product = p, rf_symbol = symbol, rf_conditional = conditional, rf_type = uo_type u,
                     rf_platform_id = None\<rparr>
          in
          ebind (retain cid ref) (\<lambda>_.
          ebind (run_order_request env p (create_method p) payload) (\<lambda>response.
          ebind (elift (order_response response)) (\<lambda>d.
          ebind (case parse_order_result d cid conditional of
                   Inr r \<Rightarrow> eret r
                 | Inl e \<Rightarrow>
                     if exn_is (exn_cls e) MissingAverageFillPriceError then query_average env cid ref d e
                     else elift (Inl e)) (\<lambda>r.
          ebind (retain cid (ref\<lparr>rf_platform_id := re_platform_id r\<rparr>)) (\<lambda>_.
          eret r)))))))))))"

subsection \<open>Modifying\<close>

definition modify_checks :: "order_reference \<Rightarrow> order_modification \<Rightarrow> unit result" where
  "modify_checks ref m =
     rbind (guard_exn (rf_product ref = BP_SPOT) UnsupportedOrderTypeError ''Spot order modification is not supported'') (\<lambda>_.
     rbind (guard_exn (rf_conditional ref \<or> rf_type ref \<noteq> LIMIT) UnsupportedOrderTypeError
              ''Binance Futures modification is supported only for ordinary LIMIT orders'') (\<lambda>_.
     guard_exn (mo_stop_price m \<noteq> None \<or> mo_take_profit m \<noteq> None \<or> mo_stop_loss m \<noteq> None)
       UnsupportedOrderTypeError ''Binance order modification supports price and quantity only''))"

definition binance_modify_order :: "'v benv \<Rightarrow> order_modification \<Rightarrow> ('v, order_result) bop" where
  "binance_modify_order env m =
     ebind require_client (\<lambda>_.
     ebind (eget (\<lambda>w. dict_get (bw_refs w) (mo_client_id m))) (\<lambda>known.
     (case known of
        None \<Rightarrow> eraise OrderNotFoundError ''order is not known to this Binance adapter''
      | Some ref \<Rightarrow>
          ebind (elift (modify_checks ref m)) (\<lambda>_.
          ebind (elift (build_modify_order_payload (rf_symbol ref) (mo_client_id m) (mo_price m) (mo_quantity m))) (\<lambda>payload.
          ebind (run_order_request env (rf_product ref)
                   (if rf_product ref = BP_USD_M then ''futures_modify_order'' else ''futures_coin_v1_put_order'')
                   payload) (\<lambda>response.
          ebind (elift (order_response response)) (\<lambda>d.
          (case parse_order_result d (mo_client_id m) False of
             Inr r \<Rightarrow> eret r
           | Inl e \<Rightarrow>
               if exn_is (exn_cls e) MissingAverageFillPriceError then
                 ebind (binance_get_order env (mo_client_id m)) (\<lambda>queried.
                 (case queried of
                    None \<Rightarrow> eraise PlatformError ''modified order could not be queried''
                  | Some r \<Rightarrow> eret r))
               else elift (Inl e))))))))) "

subsection \<open>Cancelling\<close>

definition cancel_method :: "binance_product \<Rightarrow> string" where
  "cancel_method p = (case p of BP_SPOT \<Rightarrow> ''cancel_order'' | BP_USD_M \<Rightarrow> ''futures_cancel_order''
     | BP_COIN_M \<Rightarrow> ''futures_coin_cancel_order'')"

definition TERMINAL_STATUSES :: "order_status list" where
  "TERMINAL_STATUSES = [FILLED, CANCELLED, REJECTED, EXPIRED]"

definition terminal_result :: "order_result option \<Rightarrow> bool" where
  "terminal_result r = (case r of None \<Rightarrow> False | Some x \<Rightarrow> re_status x \<in> set TERMINAL_STATUSES)"

fun wait_terminal :: "nat \<Rightarrow> 'v benv \<Rightarrow> string \<Rightarrow> ('v, order_result option) bop" where
  \<comment> \<open>the attempts left; the pause follows every attempt but the last\<close>
  "wait_terminal 0 env cid = eret None"
| "wait_terminal (Suc n) env cid =
     ebind (binance_get_order env cid) (\<lambda>current.
     if terminal_result current then eret current
     else
       ebind (if 0 < n then bside (\<lambda>v. ((), sk_sleep (be_sdk env) (1 / 4) v)) else eret ()) (\<lambda>_.
       wait_terminal n env cid))"

definition wait_for_conditional_terminal_order :: "'v benv \<Rightarrow> string \<Rightarrow> ('v, order_result option) bop" where
  "wait_for_conditional_terminal_order env cid = wait_terminal 8 env cid"

definition cancel_conditional :: "'v benv \<Rightarrow> order_reference \<Rightarrow> string \<Rightarrow> ('v, order_result) bop" where
  "cancel_conditional env ref cid =
     ebind (eattempt (run_order_request env (rf_product ref) (cancel_method (rf_product ref)) (lookup_params ref cid))) (\<lambda>outcome.
     (case outcome of
        Inl e \<Rightarrow>
          if exn_is (exn_cls e) OrderNotFoundError then
            ebind (wait_for_conditional_terminal_order env cid) (\<lambda>current.
            (case current of None \<Rightarrow> elift (Inl e) | Some r \<Rightarrow> eret r))
          else elift (Inl e)
      | Inr _ \<Rightarrow>
          ebind (wait_for_conditional_terminal_order env cid) (\<lambda>current.
          (case current of
             None \<Rightarrow> eraise PlatformError ''terminal state of the cancelled order could not be verified''
           | Some r \<Rightarrow> eret r))))"

definition binance_cancel_order :: "'v benv \<Rightarrow> string \<Rightarrow> ('v, order_result) bop" where
  "binance_cancel_order env cid =
     ebind require_client (\<lambda>_.
     ebind (eget (\<lambda>w. dict_get (bw_refs w) cid)) (\<lambda>known.
     (case known of
        None \<Rightarrow> eraise OrderNotFoundError ''order is not known to this adapter''
      | Some ref \<Rightarrow>
          if rf_conditional ref then cancel_conditional env ref cid
          else
            ebind (run_order_request env (rf_product ref) (cancel_method (rf_product ref)) (lookup_params ref cid)) (\<lambda>response.
            ebind (elift (order_response response)) (\<lambda>d.
            elift (parse_order_result d cid (rf_conditional ref)))))))"

subsection \<open>The rest of the contract\<close>

definition binance_get_rate_limits :: "'v benv \<Rightarrow> ('v, rate_limits) bop" where
  "binance_get_rate_limits env =
     ebind (bside (sk_clock (be_sdk env))) (\<lambda>now. eget (\<lambda>w. snapshot now (bw_tracker w)))"

definition binance_order_types :: "order_type set" where
  "binance_order_types = {MARKET, LIMIT, STOP, STOP_LIMIT}"

definition unimplemented :: "('v, 'a) bop" where
  "unimplemented = eraise PyNotImplementedError ''Binance adapter scaffold: not implemented''"

definition binance_clear_tpsl :: "bool \<Rightarrow> bool \<Rightarrow> ('v, unit) bop" where
  "binance_clear_tpsl take_profit stop_loss =
     ebind (eguard (\<not> take_profit \<and> \<not> stop_loss) PyValueError ''at least one of take_profit or stop_loss must be true'')
       (\<lambda>_. unimplemented)"

definition binance_adapter :: "'v benv \<Rightarrow> 'v bworld adapter" where
  "binance_adapter env = \<lparr>
     ad_platform = platform_name, ad_account = binance_account_id env, ad_is_connected = bw_connected,
     ad_connect = binance_connect env, ad_disconnect = binance_disconnect env,
     ad_order_types = binance_order_types, ad_place_order = binance_place_order env,
     ad_modify_order = binance_modify_order env, ad_cancel_order = binance_cancel_order env,
     ad_get_order = binance_get_order env, ad_fetch_spec = binance_fetch_spec env,
     ad_protection_cap = (\<lambda>_. default_protection_capability),
     ad_trailing_cap = (\<lambda>_. default_trailing_capability), ad_market_cap = (\<lambda>_. default_market_capability),
     ad_rate_limits = binance_get_rate_limits env, ad_fetch_ticker = (\<lambda>_. unimplemented),
     ad_fetch_candles = (\<lambda>_ _ _. unimplemented), ad_modify_tpsl = (\<lambda>_ _ _ _ _. unimplemented),
     ad_get_tpsl = (\<lambda>_ _. unimplemented), ad_clear_tpsl = (\<lambda>_ _. binance_clear_tpsl),
     ad_place_trailing = (\<lambda>_. unimplemented), ad_cancel_trailing = (\<lambda>_ _. unimplemented),
     ad_get_trailing = (\<lambda>_ _. unimplemented), ad_get_position_trailing = (\<lambda>_ _. unimplemented),
     ad_fetch_positions = unimplemented, ad_fetch_balances = unimplemented,
     ad_fetch_open_orders = unimplemented, ad_fetch_fills = (\<lambda>_. unimplemented),
     ad_reconcile_intent = unimplemented\<rparr>"

end
