(* ===== verification/UTE_Binance_Listing.thy ===== *)
theory UTE_Binance_Listing
  imports UTE_Binance_Symbols
begin

text \<open>
  Correctness of the Binance catalogs: a row gives an instrument that leads back to its product and
  symbol, resolution is the search for exactly one row, and the trading rules read from the filters
  are consistent.
\<close>

subsection \<open>Rows\<close>

lemma py_space_upper [simp]: "py_space (upper_char c) = py_space c"
proof (cases "97 \<le> (of_char c :: nat) \<and> (of_char c :: nat) \<le> 122")
  case True
  then have "(of_char c - 32 :: nat) mod 256 = of_char c - 32" by (intro mod_less) arith
  with True show ?thesis by (auto simp: upper_char_def py_space_def Let_def)
qed (auto simp: upper_char_def Let_def)

lemma blank_upper [simp]: "blank (upper s) = blank s"
  by (simp add: blank_def upper_def list.pred_map comp_def)

lemma blank_Nil [simp]: "blank []"
  by (simp add: blank_def)

lemma required_string_Inr:
  "required_string d k = Inr s \<longleftrightarrow> field d k = Py_Str s \<and> \<not> blank s \<and> s = strip s"
  by (auto simp: required_string_def split: py_object.splits)

lemma required_string_Inl: "required_string d k = Inl e \<Longrightarrow> exn_cls e = InvalidSymbolError"
  by (auto simp: required_string_def split: py_object.splits if_splits)

text \<open>The instrument a row describes: its assets are present, so its constructor accepts it.\<close>

definition row_instrument ::
    "string \<Rightarrow> asset_class \<Rightarrow> string \<Rightarrow> string option \<Rightarrow> int option \<Rightarrow> int option \<Rightarrow> string \<Rightarrow> instrument" where
  "row_instrument base cls quote currency expiry multiplier symbol =
     \<lparr>in_symbol = upper base, in_asset_class = cls, in_quote = Some (upper quote), in_exchange = None,
      in_currency = map_option upper currency, in_expiry = expiry, in_strike = None, in_right = None,
      in_multiplier = multiplier, in_platform_symbol = Some symbol\<rparr>"

lemma post_init_row:
  assumes "\<not> blank b" "\<not> blank q" "\<forall>m. cur = Some m \<longrightarrow> \<not> blank m" "cls \<noteq> OPTION"
    "cls = FUTURES \<longrightarrow> mult \<noteq> None"
  shows "instrument_post_init
      \<lparr>in_symbol = b, in_asset_class = cls, in_quote = Some q, in_exchange = None, in_currency = cur,
       in_expiry = ex, in_strike = None, in_right = None, in_multiplier = mult, in_platform_symbol = Some s\<rparr>
    = Inr (row_instrument b cls q cur ex mult s)"
proof -
  have "upper q \<noteq> []" using assms(2) by (metis blank_Nil blank_upper)
  then show ?thesis
    using assms by (cases cur)
      (auto simp: instrument_post_init_Inr instrument_normalise_def row_instrument_def instrument_checks_Inr
        missing_pair_currency_def)
qed

lemma futures_multiplier_Inr:
  "futures_multiplier d p b q m = Inr x \<Longrightarrow> (if p = BP_USD_M then m = q else q = ''USD'' \<and> m = b)"
  by (auto simp: futures_multiplier_def rbind_eq_Inr split: if_splits)

lemma from_row_Inr:
  assumes "from_binance_symbol d p = Inr i"
  obtains s b q where "field d ''symbol'' = Py_Str s" "\<not> blank s" "s = strip s" "p = BP_SPOT"
      "i = row_instrument b SPOT q None None None s" "\<not> blank b" "\<not> blank q"
  | s b q m ex mult where "field d ''symbol'' = Py_Str s" "\<not> blank s" "s = strip s" "p \<noteq> BP_SPOT"
      "i = row_instrument b FUTURES q (Some m) ex (Some mult) s" "\<not> blank b" "\<not> blank q" "\<not> blank m"
      "p = BP_USD_M \<Longrightarrow> m = q" "p = BP_COIN_M \<Longrightarrow> q = ''USD'' \<and> m = b"
proof -
  from assms obtain s b q
    where s: "field d ''symbol'' = Py_Str s" "\<not> blank s" "s = strip s" and b: "\<not> blank b" and q: "\<not> blank q"
      and rest: "(if p = BP_SPOT then
         instrument_post_init
           \<lparr>in_symbol = b, in_asset_class = SPOT, in_quote = Some q, in_exchange = None,
            in_currency = None, in_expiry = None, in_strike = None, in_right = None, in_multiplier = None,
            in_platform_symbol = Some s\<rparr>
       else
         rbind (required_string d ''contractType'') (\<lambda>contract_type.
         rbind (contract_expiry d contract_type) (\<lambda>expiry.
         rbind (required_string d ''marginAsset'') (\<lambda>margin.
         rbind (futures_multiplier d p b q margin) (\<lambda>multiplier.
         instrument_post_init
           \<lparr>in_symbol = b, in_asset_class = FUTURES, in_quote = Some q, in_exchange = None,
            in_currency = Some margin, in_expiry = expiry, in_strike = None, in_right = None,
            in_multiplier = Some multiplier, in_platform_symbol = Some s\<rparr>))))) = Inr i"
    unfolding from_binance_symbol_def rbind_eq_Inr required_string_Inr by blast
  show thesis
  proof (cases "p = BP_SPOT")
    case True
    with rest b q have "i = row_instrument b SPOT q None None None s" by (simp add: post_init_row)
    with that(1) [of s b q] True s b q show thesis by blast
  next
    case False
    with rest obtain m ex mult where m: "\<not> blank m" and mult: "futures_multiplier d p b q m = Inr mult"
      and i: "instrument_post_init
           \<lparr>in_symbol = b, in_asset_class = FUTURES, in_quote = Some q, in_exchange = None,
            in_currency = Some m, in_expiry = ex, in_strike = None, in_right = None,
            in_multiplier = Some mult, in_platform_symbol = Some s\<rparr> = Inr i"
      unfolding if_not_P [OF False] rbind_eq_Inr required_string_Inr by blast
    from i b q m have "i = row_instrument b FUTURES q (Some m) ex (Some mult) s" by (simp add: post_init_row)
    with that(2) [of s b q m ex mult] s b q m False futures_multiplier_Inr [OF mult] show thesis
      by (cases p) auto
  qed
qed

lemma contract_expiry_Inl: "contract_expiry d t = Inl e \<Longrightarrow> exn_cls e = InvalidSymbolError"
  by (auto simp: contract_expiry_def delivery_date_def Let_def rbind_eq_Inl split: if_splits option.splits)

lemma futures_multiplier_Inl: "futures_multiplier d p b q m = Inl e \<Longrightarrow> exn_cls e = InvalidSymbolError"
  by (auto simp: futures_multiplier_def contract_size_def rbind_eq_Inl guard_exn_Inl split: if_splits option.splits)

lemma from_row_Inl:
  assumes "from_binance_symbol d p = Inl e"
  shows "exn_cls e = InvalidSymbolError"
  using assms unfolding from_binance_symbol_def rbind_eq_Inl required_string_Inr
  by (auto simp: rbind_eq_Inl required_string_Inr post_init_row split: if_splits
      dest: required_string_Inl contract_expiry_Inl futures_multiplier_Inl)

lemma symbol_of_platform_symbol:
  assumes "product_for_instrument i = Inr p" "in_platform_symbol i = Some s" "\<not> blank s" "s = strip s"
  shows "to_binance_symbol i (Some p) = Inr s \<and> to_binance_symbol i None = Inr s"
  using assms(1-3) assms(4) [symmetric] by (simp add: to_binance_symbol_def guard_exn_def)

text \<open>
  C36. A catalog row of a Binance product leads back to itself: the instrument built from it is a valid
  one, it is routed to the product whose catalog the row is from, and its symbol at that product is
  the symbol of the row. (A COIN-M row whose base asset is the dollar itself is the exception: its
  margin asset is then its quote asset, and the routing takes it for a USD-M contract.)
\<close>

theorem row_routed:
  assumes "from_binance_symbol d p = Inr i" and "p = BP_COIN_M \<Longrightarrow> in_symbol i \<noteq> ''USD''"
  shows "wf_instrument i \<and> product_for_instrument i = Inr p
    \<and> (\<exists>s. field d ''symbol'' = Py_Str s \<and> to_binance_symbol i (Some p) = Inr s
         \<and> to_binance_symbol i None = Inr s)"
  using assms(1)
proof (cases rule: from_row_Inr)
  case (1 s b q)
  have "wf_instrument i"
    using post_init_row [of b q None SPOT None None s] 1(5-7) instrument_post_init_idem by (simp add: wf_instrument_def)
  moreover have "product_for_instrument i = Inr p"
    by (simp add: 1(4,5) row_instrument_def product_for_instrument_def)
  ultimately show ?thesis
    using symbol_of_platform_symbol [of i p s] 1(1-3) by (simp add: 1(5) row_instrument_def)
next
  case (2 s b q m ex mult)
  have "wf_instrument i"
    using post_init_row [of b q "Some m" FUTURES "Some mult" ex s] 2(5-8) instrument_post_init_idem
    by (simp add: wf_instrument_def)
  moreover have "product_for_instrument i = Inr p"
    using 2(4,5,9,10) assms(2) by (cases p) (auto simp: row_instrument_def product_for_instrument_def upper_def upper_char_def)
  ultimately show ?thesis
    using symbol_of_platform_symbol [of i p s] 2(1-3) by (simp add: 2(5) row_instrument_def)
qed

subsection \<open>Resolution\<close>

definition listed :: "instrument \<Rightarrow> binance_product \<Rightarrow> metadata \<Rightarrow> bool" where
  \<comment> \<open>whether a row lists the instrument\<close>
  "listed i p d \<longleftrightarrow>
     (case from_binance_symbol d p of
        Inl _ \<Rightarrow> False
      | Inr c \<Rightarrow> same_contract c i
          \<and> (\<forall>s. in_platform_symbol i = Some s \<longrightarrow> field d ''symbol'' = Py_Str s))"

definition listing :: "metadata \<Rightarrow> string \<times> metadata" where
  "listing d = (case field d ''symbol'' of Py_Str s \<Rightarrow> (s, d) | _ \<Rightarrow> ([], d))"

lemma row_symbol: "from_binance_symbol d p = Inr i \<Longrightarrow> \<exists>s. field d ''symbol'' = Py_Str s"
  by (erule from_row_Inr) blast+

lemma row_match_eq: "row_match i p d = Inr (if listed i p d then Some (listing d) else None)"
proof (cases "from_binance_symbol d p")
  case (Inl e)
  with from_row_Inl [OF this] show ?thesis by (simp add: row_match_def listed_def)
next
  case (Inr c)
  with row_symbol [OF this] show ?thesis
    by (cases "in_platform_symbol i") (auto simp: row_match_def listed_def listing_def)
qed

lemma row_matches_eq: "row_matches i p (map Py_Map rows) = Inr (map listing (filter (listed i p) rows))"
  by (induction rows) (simp_all add: row_match_eq)

lemma one_match:
  "(case ms of [] \<Rightarrow> raise_exn c a | [m] \<Rightarrow> Inr m | _ # _ # _ \<Rightarrow> raise_exn c' b) = Inr x \<longleftrightarrow> ms = [x]"
  by (cases ms; cases "tl ms") auto

lemma row_matches_malformed: "\<exists>x \<in> set es. \<forall>d. x \<noteq> Py_Map d \<Longrightarrow> row_matches i p es \<noteq> Inr ms"
  by (induction i p es arbitrary: ms rule: row_matches.induct) (auto simp: rbind_eq_Inr row_match_eq)

lemma all_maps: "\<forall>x \<in> set es. \<exists>d. x = Py_Map d \<Longrightarrow> \<exists>rows. es = map Py_Map rows"
  by (metis ex_map_conv)

text \<open>
  C38. Resolution finds a symbol exactly when the instrument belongs to the product, the catalog holds
  objects only, and exactly one of its rows lists the instrument; the result is that row and its
  symbol. A missing and an ambiguous instrument are both refused.
\<close>

theorem catalog_resolution:
  "resolve_binance_symbol i p es = Inr (s, d) \<longleftrightarrow>
     product_for_instrument i = Inr p \<and> field d ''symbol'' = Py_Str s
     \<and> (\<exists>rows. es = map Py_Map rows \<and> filter (listed i p) rows = [d])"
proof -
  have "resolve_binance_symbol i p es = Inr (s, d) \<longleftrightarrow>
      product_for_instrument i = Inr p \<and> row_matches i p es = Inr [(s, d)]"
    by (auto simp: resolve_binance_symbol_def rbind_eq_Inr one_match)
  also have "row_matches i p es = Inr [(s, d)] \<longleftrightarrow>
      (\<exists>rows. es = map Py_Map rows \<and> map listing (filter (listed i p) rows) = [(s, d)])"
  proof
    assume m: "row_matches i p es = Inr [(s, d)]"
    then have "\<forall>x \<in> set es. \<exists>d. x = Py_Map d" using row_matches_malformed by blast
    then obtain rows where "es = map Py_Map rows" using all_maps by blast
    with m show "\<exists>rows. es = map Py_Map rows \<and> map listing (filter (listed i p) rows) = [(s, d)]"
      by (auto simp: row_matches_eq)
  qed (auto simp: row_matches_eq)
  also have "(\<exists>rows. es = map Py_Map rows \<and> map listing (filter (listed i p) rows) = [(s, d)]) \<longleftrightarrow>
      field d ''symbol'' = Py_Str s \<and> (\<exists>rows. es = map Py_Map rows \<and> filter (listed i p) rows = [d])"
  proof -
    have "map listing xs = [(s, d)] \<and> (\<forall>x \<in> set xs. listed i p x) \<longleftrightarrow>
        field d ''symbol'' = Py_Str s \<and> xs = [d] \<and> (\<forall>x \<in> set xs. listed i p x)" for xs
      by (cases xs; cases "tl xs")
        (auto simp: listing_def listed_def split: py_object.splits sum.splits dest: row_symbol)
    then show ?thesis by (metis (no_types, lifting) mem_Collect_eq set_filter)
  qed
  finally show ?thesis by blast
qed

subsection \<open>Trading rules\<close>

lemma gcd_step:
  fixes d :: nat
  assumes "d dvd 10 ^ Suc k"
  shows "d div gcd d 10 dvd 10 ^ k"
proof -
  let ?g = "gcd d 10"
  have g: "0 < ?g" "?g * (d div ?g) = d" "?g * (10 div ?g) = 10" by simp_all
  have "?g * (10 div ?g * 10 ^ k) = 10 ^ Suc k" using g(3) by (metis mult.assoc power_Suc)
  with assms g(2) have "?g * (d div ?g) dvd ?g * (10 div ?g * 10 ^ k)" by argo
  then have "d div ?g dvd 10 div ?g * 10 ^ k" using nat_mult_dvd_cancel1 [OF g(1)] by blast
  moreover have "coprime (d div ?g) (10 div ?g)" by (rule div_gcd_coprime) simp
  ultimately show ?thesis by (simp add: coprime_dvd_mult_right_iff)
qed

lemma dvd_power_ten_gcd:
  fixes d :: nat
  assumes "d dvd 10 ^ k" and "1 < d"
  shows "gcd d 10 \<noteq> 1"
proof
  assume "gcd d 10 = 1"
  then have "coprime d 10" by (simp only: coprime_iff_gcd_eq_1)
  then have "coprime d (10 ^ k)" by simp
  with assms(1) have "is_unit d" by (metis coprime_common_divisor dvd_refl)
  with assms(2) show False by simp
qed

lemma places_of_dvd: "d dvd 10 ^ k \<Longrightarrow> d dvd 10 ^ places_of d \<and> places_of d \<le> k"
proof (induction d arbitrary: k rule: places_of.induct)
  case (1 d)
  show ?case
  proof (cases "1 < d")
    case False
    have "d \<noteq> 0" using 1(2) by (metis dvd_0_left power_not_zero zero_neq_numeral)
    with False show ?thesis by (simp add: places_of.simps)
  next
    case True
    have g: "gcd d 10 \<noteq> 1" using dvd_power_ten_gcd [OF 1(2) True] .
    from True 1(2) obtain n where k: "k = Suc n" by (cases k) auto
    have ih: "d div gcd d 10 dvd 10 ^ places_of (d div gcd d 10) \<and> places_of (d div gcd d 10) \<le> n"
      using 1 True g gcd_step [of d n] by (simp add: k)
    have "gcd d 10 * (d div gcd d 10) dvd 10 * 10 ^ places_of (d div gcd d 10)"
      using ih by (intro mult_dvd_mono) simp_all
    with ih True g show ?thesis by (simp add: places_of.simps [of d] k)
  qed
qed

definition is_decimal :: "rat \<Rightarrow> bool" where
  "is_decimal x \<longleftrightarrow> (\<exists>k. x * 10 ^ k \<in> \<int>)"

lemma scaled_int: "x * 10 ^ k \<in> \<int> \<longleftrightarrow> nat (snd (quotient_of x)) dvd 10 ^ k"
proof -
  obtain a b where q: "quotient_of x = (a, b)" by fastforce
  then have b: "0 < b" "coprime a b" "x = of_int a / of_int b"
    using quotient_of_denom_pos quotient_of_coprime quotient_of_div by blast+
  have "x * 10 ^ k \<in> \<int> \<longleftrightarrow> b dvd a * 10 ^ k"
  proof
    assume "x * 10 ^ k \<in> \<int>"
    then obtain n where "x * 10 ^ k = of_int n" by (elim Ints_cases)
    then have "of_int (a * 10 ^ k) = (of_int (n * b) :: rat)" using b by (simp add: field_simps)
    then have "a * 10 ^ k = n * b" by (simp only: of_int_eq_iff)
    then show "b dvd a * 10 ^ k" by simp
  next
    assume "b dvd a * 10 ^ k"
    then obtain n where "a * 10 ^ k = b * n" by blast
    then have "of_int a * 10 ^ k = (of_int b * of_int n :: rat)" by (metis of_int_mult of_int_numeral of_int_power)
    then have "x * 10 ^ k = of_int n" unfolding b(3) using b(1) by (simp add: divide_simps mult.commute)
    then show "x * 10 ^ k \<in> \<int>" by simp
  qed
  also have "\<dots> \<longleftrightarrow> b dvd 10 ^ k" using b(2) by (simp add: coprime_dvd_mult_right_iff coprime_commute)
  also have "\<dots> \<longleftrightarrow> nat b dvd 10 ^ k"
    using b(1) by (metis int_nat_eq less_imp_le of_nat_dvd_iff of_nat_numeral of_nat_power)
  finally show ?thesis by (simp add: q)
qed

lemma decimal_places_exact:
  assumes "is_decimal x"
  shows "x * 10 ^ nat (decimal_places x) \<in> \<int>" and "x * 10 ^ k \<in> \<int> \<Longrightarrow> decimal_places x \<le> int k"
  using assms places_of_dvd by (auto simp: is_decimal_def scaled_int decimal_places_def)

lemma is_decimal_power: "is_decimal (of_int s * of_int n * 10 powi e)"
proof (cases "0 \<le> e")
  case True
  then have "of_int s * of_int n * 10 powi e = (of_int (s * n * 10 ^ nat e) :: rat)" by (simp add: power_int_def)
  then show ?thesis unfolding is_decimal_def by (metis Ints_of_int mult.right_neutral power_0)
next
  case False
  then have "of_int s * of_int n * 10 powi e * 10 ^ nat (- e) = (of_int (s * n) :: rat)"
    by (simp add: power_int_def power_mult_distrib [symmetric])
  then show ?thesis unfolding is_decimal_def by (metis Ints_of_int)
qed

lemma is_decimal_int: "is_decimal (of_int n)"
  using is_decimal_power [of n 1 0] by simp

lemma decimal_of_text_decimal: "decimal_of_text s = Some x \<Longrightarrow> is_decimal x"
  using is_decimal_int [of 0]
  by (auto simp: decimal_of_text_def Let_def is_decimal_power split: prod.splits option.splits if_splits)

lemma metadata_decimal_decimal: "metadata_decimal d k = Inr x \<Longrightarrow> is_decimal x"
  by (auto simp: metadata_decimal_def dec_of_object_def is_decimal_int split: py_object.splits option.splits
      dest: decimal_of_text_decimal)

lemma min_notional_nonneg: "min_notional_of fs ty = Inr xs \<Longrightarrow> x \<in> set xs \<Longrightarrow> 0 \<le> x"
  by (auto simp: min_notional_of_def non_negative_decimal_def rbind_eq_Inr split: option.splits if_splits)

text \<open>
  Trading rules that parse are usable: the tick, the lot and the greatest quantity are positive, the
  quantity bounds are ordered, no minimum is negative, and the two precisions are exact - the tick (the
  lot) is a whole number of units at its precision and at no coarser one.
\<close>

theorem spec_from_filters:
  assumes "parse_instrument_spec d = Inr sp"
  shows "0 < sp_tick_size sp \<and> 0 < sp_lot_size sp \<and> 0 < sp_max_qty sp
    \<and> 0 \<le> sp_min_qty sp \<and> sp_min_qty sp \<le> sp_max_qty sp \<and> 0 \<le> sp_min_notional sp
    \<and> (\<forall>k. sp_tick_size sp * 10 ^ k \<in> \<int> \<longleftrightarrow> sp_price_precision sp \<le> int k)
    \<and> (\<forall>k. sp_lot_size sp * 10 ^ k \<in> \<int> \<longleftrightarrow> sp_qty_precision sp \<le> int k)"
proof -
  from assms obtain fs pf lf m1 m2
    where tick: "positive_decimal pf ''tickSize'' = Inr (sp_tick_size sp)"
      and lot: "positive_decimal lf ''stepSize'' = Inr (sp_lot_size sp)"
      and mn: "non_negative_decimal lf ''minQty'' = Inr (sp_min_qty sp)"
      and mx: "positive_decimal lf ''maxQty'' = Inr (sp_max_qty sp)"
      and ord: "\<not> sp_max_qty sp < sp_min_qty sp"
      and m: "min_notional_of fs ''MIN_NOTIONAL'' = Inr m1" "min_notional_of fs ''NOTIONAL'' = Inr m2"
        "sp_min_notional sp = (if m1 @ m2 = [] then 0 else Max (set (m1 @ m2)))"
      and prec: "sp_price_precision sp = decimal_places (sp_tick_size sp)"
        "sp_qty_precision sp = decimal_places (sp_lot_size sp)"
    unfolding parse_instrument_spec_def rbind_eq_Inr guard_exn_Inr by fastforce
  have "0 \<le> sp_min_notional sp"
  proof (cases "m1 @ m2 = []")
    case False
    then have "Max (set (m1 @ m2)) \<in> set (m1 @ m2)" by (intro Max_in) auto
    then show ?thesis unfolding m(3) using False m(1,2) by (auto dest: min_notional_nonneg)
  qed (simp add: m)
  moreover have "is_decimal (sp_tick_size sp)" "is_decimal (sp_lot_size sp)"
    using tick lot by (auto simp: positive_decimal_def rbind_eq_Inr dest: metadata_decimal_decimal)
  moreover have "x * 10 ^ k \<in> \<int> \<longleftrightarrow> decimal_places x \<le> int k" if "is_decimal x" for x :: rat and k
  proof
    assume le: "decimal_places x \<le> int k"
    then have "x * 10 ^ k = x * 10 ^ nat (decimal_places x) * of_int (10 ^ (k - nat (decimal_places x)))"
      by (simp add: power_add [symmetric])
    also have "\<dots> \<in> \<int>" by (rule Ints_mult [OF decimal_places_exact(1) [OF that] Ints_of_int])
    finally show "x * 10 ^ k \<in> \<int>" .
  qed (rule decimal_places_exact(2) [OF that])
  ultimately show ?thesis
    using tick lot mn mx ord by (auto simp: prec positive_decimal_def non_negative_decimal_def rbind_eq_Inr)
qed

subsection \<open>The rows the properties are applied to\<close>

definition perp_row :: metadata where
  "perp_row =
     [(''symbol'', Py_Str ''BTCUSDT''), (''baseAsset'', Py_Str ''BTC''), (''quoteAsset'', Py_Str ''USDT''),
      (''marginAsset'', Py_Str ''USDT''), (''contractType'', Py_Str ''PERPETUAL''), (''status'', Py_Str ''TRADING''),
      (''filters'', Py_List
        [Py_Map [(''filterType'', Py_Str ''PRICE_FILTER''), (''tickSize'', Py_Str ''0.10'')],
         Py_Map [(''filterType'', Py_Str ''LOT_SIZE''), (''stepSize'', Py_Str ''0.001''),
                 (''minQty'', Py_Str ''0.001''), (''maxQty'', Py_Int 1000)],
         Py_Map [(''filterType'', Py_Str ''MIN_NOTIONAL''), (''notional'', Py_Str ''5'')]])]"

definition btc_perp :: instrument where
  "btc_perp = row_instrument ''BTC'' FUTURES ''USDT'' (Some ''USDT'') None (Some 1) ''BTCUSDT''"

lemma perp_row_instrument: "from_binance_symbol perp_row BP_USD_M = Inr btc_perp"
  by code_simp

theorem row_routed_witness:
  "wf_instrument btc_perp \<and> product_for_instrument btc_perp = Inr BP_USD_M
    \<and> (\<exists>s. field perp_row ''symbol'' = Py_Str s \<and> to_binance_symbol btc_perp (Some BP_USD_M) = Inr s
         \<and> to_binance_symbol btc_perp None = Inr s)"
  by (rule row_routed [OF perp_row_instrument]) simp

definition perp_spec :: instrument_spec where
  "perp_spec = \<lparr>sp_tick_size = 1 / 10, sp_lot_size = 1 / 1000, sp_min_qty = 1 / 1000, sp_max_qty = 1000,
     sp_min_notional = 5, sp_price_precision = 1, sp_qty_precision = 3, sp_max_leverage = None,
     sp_min_stop_distance = None\<rparr>"

lemma perp_row_spec: "parse_instrument_spec perp_row = Inr perp_spec"
  by code_simp

theorem spec_from_filters_witness:
  "0 < sp_tick_size perp_spec \<and> sp_min_qty perp_spec \<le> sp_max_qty perp_spec
    \<and> sp_tick_size perp_spec * 10 ^ 1 \<in> \<int> \<and> sp_tick_size perp_spec * 10 ^ 0 \<notin> \<int>"
proof -
  note f = spec_from_filters [OF perp_row_spec]
  have "sp_price_precision perp_spec = 1" by (simp add: perp_spec_def)
  with f show ?thesis by (metis le_numeral_extra(4) not_one_le_zero of_nat_0 of_nat_1)
qed

end
