(* ===== verification/UTE_Wp.thy ===== *)
theory UTE_Wp
  imports UTE_Prelude
begin

text \<open>
  Weakest preconditions of operations with effects: \<open>wp m Q E w\<close> says that \<open>m\<close> started in \<open>w\<close> ends in a
  world that satisfies \<open>Q\<close> with the value returned, or \<open>E\<close> with the exception raised. The equations
  push it through a program; \<open>wp_mono\<close> uses what is known of a part.
\<close>

definition wp :: "('w, 'a) eff \<Rightarrow> ('a \<Rightarrow> 'w \<Rightarrow> bool) \<Rightarrow> (exn \<Rightarrow> 'w \<Rightarrow> bool) \<Rightarrow> 'w \<Rightarrow> bool" where
  "wp m Q E w = (case m w of (Inl e, w') \<Rightarrow> E e w' | (Inr a, w') \<Rightarrow> Q a w')"

lemma wp_eret [simp]: "wp (eret a) Q E w = Q a w"
  by (simp add: wp_def eret_def)

lemma wp_elift: "wp (elift r) Q E w = (case r of Inl e \<Rightarrow> E e w | Inr a \<Rightarrow> Q a w)"
  by (simp add: wp_def elift_def)

lemma wp_elift_simps [simp]:
  "wp (elift (Inl e)) Q E w = E e w"
  "wp (elift (Inr a)) Q E w = Q a w"
  by (simp_all add: wp_elift)

lemma wp_eget [simp]: "wp (eget f) Q E w = Q (f w) w"
  by (simp add: wp_def eget_def)

lemma wp_eupd [simp]: "wp (eupd f) Q E w = Q () (f w)"
  by (simp add: wp_def eupd_def)

lemma wp_eguard [simp]: "wp (eguard b c m) Q E w = (if b then E (Exn c m) w else Q () w)"
  by (simp add: eguard_def wp_elift guard_exn_def)

lemma wp_ebind [simp]: "wp (ebind m f) Q E w = wp m (\<lambda>a. wp (f a) Q E) E w"
  by (simp add: wp_def ebind_def split: prod.splits sum.splits)

lemma wp_etry [simp]: "wp (etry m h) Q E w = wp m Q (\<lambda>e. wp (h e) Q E) w"
  by (simp add: wp_def etry_def split: prod.splits sum.splits)

lemma wp_eattempt [simp]: "wp (eattempt m) Q E w = wp m (\<lambda>a. Q (Inr a)) (\<lambda>e. Q (Inl e)) w"
  by (simp add: wp_def eattempt_def split: prod.splits sum.splits)

lemma wp_if [simp]: "wp (if b then m else n) Q E w = (if b then wp m Q E w else wp n Q E w)"
  by simp

lemma wp_ewhen [simp]: "wp (ewhen b m) Q E w = (if b then wp m Q E w else Q () w)"
  by (simp add: ewhen_def)

lemma wp_case_option [simp]:
  "wp (case v of None \<Rightarrow> m | Some x \<Rightarrow> f x) Q E w = (case v of None \<Rightarrow> wp m Q E w | Some x \<Rightarrow> wp (f x) Q E w)"
  by (cases v) simp_all

lemma wp_case_sum [simp]:
  "wp (case v of Inl x \<Rightarrow> m x | Inr x \<Rightarrow> f x) Q E w = (case v of Inl x \<Rightarrow> wp (m x) Q E w | Inr x \<Rightarrow> wp (f x) Q E w)"
  by (cases v) simp_all

lemma wp_case_prod [simp]:
  "wp (case p of (x, y) \<Rightarrow> f x y) Q E w = (case p of (x, y) \<Rightarrow> wp (f x y) Q E w)"
  by (cases p) simp

lemmas wp_funs = wp_eret [abs_def] wp_elift_simps [abs_def] wp_ebind [abs_def] wp_ewhen [abs_def]

lemma wp_mono:
  "wp m Q E w \<Longrightarrow> (\<And>a w'. Q a w' \<Longrightarrow> Q' a w') \<Longrightarrow> (\<And>e w'. E e w' \<Longrightarrow> E' e w') \<Longrightarrow> wp m Q' E' w"
  by (auto simp: wp_def split: prod.splits sum.splits)

lemma wp_conj: "wp m Q E w \<Longrightarrow> wp m Q' E' w \<Longrightarrow> wp m (\<lambda>a w. Q a w \<and> Q' a w) (\<lambda>e w. E e w \<and> E' e w) w"
  by (auto simp: wp_def split: prod.splits sum.splits)

lemma wp_run: "wp m Q E w \<Longrightarrow> m w = (r, w') \<Longrightarrow> (case r of Inl e \<Rightarrow> E e w' | Inr a \<Rightarrow> Q a w')"
  by (simp add: wp_def split: sum.splits)

lemma wp_runI: "(\<And>r w'. m w = (r, w') \<Longrightarrow> case r of Inl e \<Rightarrow> E e w' | Inr a \<Rightarrow> Q a w') \<Longrightarrow> wp m Q E w"
  by (auto simp: wp_def split: prod.splits sum.splits)

lemma wp_value: "wp m Q E w \<Longrightarrow> m w = (Inr a, w') \<Longrightarrow> Q a w'"
  by (simp add: wp_def)

lemma wp_error: "wp m Q E w \<Longrightarrow> m w = (Inl e, w') \<Longrightarrow> E e w'"
  by (simp add: wp_def)

lemma safe_wpI: "(\<And>w. I w \<Longrightarrow> wp m (\<lambda>_. I) (\<lambda>_. I) w) \<Longrightarrow> safe I m (\<lambda>_. True)"
  by (rule safeI) (metis (no_types, lifting) sum.case_eq_if wp_run)

lemma safe_wp: "safe I m (\<lambda>_. True) \<Longrightarrow> I w \<Longrightarrow> (\<And>a w'. I w' \<Longrightarrow> Q a w') \<Longrightarrow> (\<And>e w'. I w' \<Longrightarrow> E e w') \<Longrightarrow> wp m Q E w"
  by (rule wp_runI) (auto dest: safeD split: sum.splits)

lemma safe_case_list:
  "(v = [] \<Longrightarrow> safe I m Q) \<Longrightarrow> (\<And>x xs. v = x # xs \<Longrightarrow> safe I (f x xs) Q)
   \<Longrightarrow> safe I (case v of [] \<Rightarrow> m | x # xs \<Rightarrow> f x xs) Q"
  by (cases v) simp_all

lemma safe_elifted: "safe I (elift r) (\<lambda>_. True)"
  by (rule safe_elift [THEN safe_any])

lemma safe_eguarded: "safe I (eguard b c m) (\<lambda>_. True)"
  by (rule safe_eguard [THEN safe_any])

lemma safe_egot: "safe I (eget f) (\<lambda>_. True)"
  by (rule safe_eget) simp

end
