(* ===== verification/UTE_Binance_Desk.thy ===== *)
theory UTE_Binance_Desk
  imports UTE_Binance_Trading UTE_Binance_Listing UTE_Wp
begin

text \<open>
  What every operation of the Binance adapter keeps. The locale \<open>binance_policy\<close> lists the changes of
  state the adapter makes; a predicate that survives each of them survives every operation. It is
  interpreted for the well-formedness of the state and for the trading rules once read.
\<close>

subsection \<open>Walking through operations\<close>

lemma safe_case_reply:
  "(\<And>x. v = Reply x \<Longrightarrow> safe I (f x) Q) \<Longrightarrow> (\<And>e h. v = Refused e h \<Longrightarrow> safe I (g e h) Q)
   \<Longrightarrow> safe I (case v of Reply x \<Rightarrow> f x | Refused e h \<Rightarrow> g e h) Q"
  by (cases v) simp_all

lemma safe_case_creation:
  "(\<And>k. v = Created k \<Longrightarrow> safe I (f k) Q) \<Longrightarrow> (\<And>e. v = Not_created e \<Longrightarrow> safe I (g e) Q)
   \<Longrightarrow> safe I (case v of Created k \<Rightarrow> f k | Not_created e \<Rightarrow> g e) Q"
  by (cases v) simp_all

lemma safe_case_object:
  "\<lbrakk>safe I a Q; \<And>x. safe I (b x) Q; \<And>x. safe I (c x) Q; \<And>x. safe I (d x) Q; \<And>x. safe I (e x) Q;
    \<And>x. safe I (f x) Q; \<And>x. safe I (g x) Q; \<And>x. safe I (h x) Q\<rbrakk>
   \<Longrightarrow> safe I (case v of Py_None \<Rightarrow> a | Py_Bool x \<Rightarrow> b x | Py_Int x \<Rightarrow> c x | Py_Float x \<Rightarrow> d x | Py_Str x \<Rightarrow> e x
        | Py_List x \<Rightarrow> f x | Py_Map x \<Rightarrow> g x | Py_Other x \<Rightarrow> h x) Q"
  by (cases v) simp_all

lemma safe_on_not_found:
  "safe I m (\<lambda>_. True) \<Longrightarrow> safe I h (\<lambda>_. True) \<Longrightarrow> safe I (on_not_found m h) (\<lambda>_. True)"
  unfolding on_not_found_def by (intro safe_etry safe_if safe_eraise)

lemma wp_bside [simp]:
  "wp (bside f) Q E w = (case f (bw_venue w) of (a, v) \<Rightarrow> Q a (w\<lparr>bw_venue := v\<rparr>))"
  by (simp add: wp_def bside_def split: prod.splits)

lemma payload_conditional: "build_place_order_payload u p s cid = Inr (d, c) \<Longrightarrow> c \<Longrightarrow> p = BP_USD_M"
  by (auto simp: build_place_order_payload_def rbind_eq_Inr Let_def)

lemma record_frame:
  "record_rate_limit_response env p h x st w = (r, w') \<Longrightarrow> \<exists>v b. w' = w\<lparr>bw_venue := v, bw_tracker := b\<rparr>"
  by (auto simp: record_rate_limit_response_def ebind_def bside_def Let_def split: prod.splits) blast

subsection \<open>Policies\<close>

text \<open>
  The changes come in layers: a query changes nothing but the venue and the rate-limit tracker, the
  metadata operations fill the caches, and the rest opens, closes and retains references.
\<close>

locale binance_quiet =
  fixes env :: "'v benv" and I :: "'v bworld \<Rightarrow> bool"
  assumes outside: "I w \<Longrightarrow> I (w\<lparr>bw_venue := v\<rparr>)"
    and tracked: "I w \<Longrightarrow> I (w\<lparr>bw_tracker := b\<rparr>)"
begin

lemma safe_bside: "safe I (bside f) (\<lambda>_. True)"
  by (rule safeI) (auto simp: bside_def outside split: prod.splits)

lemma safe_record: "safe I (record_rate_limit_response env p h x st) (\<lambda>_. True)"
proof -
  have "safe I (\<lambda>w. case update_tracker p hs ls st now (bw_tracker w) of (r, b) \<Rightarrow> (r, w\<lparr>bw_tracker := b\<rparr>)) (\<lambda>_. True)"
    for hs ls now
    by (rule safeI) (auto simp: tracked split: prod.splits)
  then show ?thesis
    unfolding record_rate_limit_response_def by (intro safe_bside [THEN safe_bind_any] safe_let)
qed

lemma safe_request: "safe I (run_order_request env p name ps) (\<lambda>_. True)"
  unfolding run_order_request_def require_client_def
  by (intro safe_walk safe_bside [THEN safe_bind_any] safe_record [THEN safe_bind_any] safe_case_reply TrueI)

lemma safe_history: "safe I (find_in_history env ref cid) (\<lambda>_. True)"
  unfolding find_in_history_def
  by (intro safe_walk safe_request [THEN safe_bind_any] safe_case_object TrueI)

lemma safe_actual: "safe I (resolve_conditional_actual_order env ref d cid) (\<lambda>_. True)"
  unfolding resolve_conditional_actual_order_def
  by (intro safe_walk safe_request [THEN safe_bind_any] safe_on_not_found [THEN safe_bind_any] TrueI)

lemma safe_get_order: "safe I (binance_get_order env cid) (\<lambda>_. True)"
  unfolding binance_get_order_def require_client_def
  by (intro safe_walk safe_request [THEN safe_bind_any] safe_on_not_found [THEN safe_bind_any] safe_history
      safe_actual [THEN safe_bind_any] TrueI)

lemma safe_modify_order: "safe I (binance_modify_order env m) (\<lambda>_. True)"
  unfolding binance_modify_order_def require_client_def
  by (intro safe_walk safe_request [THEN safe_bind_any] safe_get_order [THEN safe_bind_any] TrueI)

lemma safe_wait: "safe I (wait_terminal n env cid) (\<lambda>_. True)"
  by (induction n) (auto intro!: safe_walk safe_get_order [THEN safe_bind_any] safe_bside [THEN safe_bind_any])

lemma safe_cancel_order: "safe I (binance_cancel_order env cid) (\<lambda>_. True)"
  unfolding binance_cancel_order_def require_client_def cancel_conditional_def wait_for_conditional_terminal_order_def
  by (intro safe_walk safe_request safe_request [THEN safe_bind_any] safe_wait [THEN safe_bind_any]
      safe_elift [THEN safe_any] TrueI)

end

locale binance_metadata = binance_quiet +
  assumes catalogued: "I w \<Longrightarrow> dict_get (bw_catalogs w) p = None
      \<Longrightarrow> I (w\<lparr>bw_catalogs := dict_set p rows (bw_catalogs w)\<rparr>)"
    and cached: "I w \<Longrightarrow> product_for_instrument i = Inr p \<Longrightarrow> dict_get (bw_catalogs w) p = Some rows
      \<Longrightarrow> resolve_binance_symbol i p rows = Inr (s, d) \<Longrightarrow> parse_instrument_spec d = Inr sp
      \<Longrightarrow> I (w\<lparr>bw_specs := dict_set (spec_key_of i) (sp, t) (bw_specs w)\<rparr>)"
    and expired: "I w \<Longrightarrow> I (w\<lparr>bw_specs := dict_del key (bw_specs w)\<rparr>)"
begin

lemma cached_later:
  "I w \<Longrightarrow> product_for_instrument i = Inr p \<Longrightarrow> dict_get (bw_catalogs w) p = Some rows
   \<Longrightarrow> resolve_binance_symbol i p rows = Inr (s, d) \<Longrightarrow> parse_instrument_spec d = Inr sp
   \<Longrightarrow> I (w\<lparr>bw_venue := v, bw_specs := dict_set (spec_key_of i) (sp, t) (bw_specs w)\<rparr>)"
  using cached [OF outside [of w v], of i p rows s d sp t] by simp

lemma wp_record:
  assumes "I w" "\<And>r w'. I w' \<Longrightarrow> bw_catalogs w = bw_catalogs w' \<Longrightarrow> Q r w'"
    "\<And>e w'. I w' \<Longrightarrow> E e w'"
  shows "wp (record_rate_limit_response env p h x st) Q E w"
  using assms record_frame [of env p h x st w]
  by (auto intro!: wp_runI simp: outside tracked split: sum.splits)

lemma wp_fetch_catalog:
  assumes "I w" and "dict_get (bw_catalogs w) p = None"
    and "\<And>rows w'. I w' \<Longrightarrow> dict_get (bw_catalogs w') p = Some rows \<Longrightarrow> Q rows w'"
    and "\<And>e w'. I w' \<Longrightarrow> E e w'"
  shows "wp (fetch_catalog env p) Q E w"
  using assms unfolding fetch_catalog_def
  by (auto intro!: wp_record simp: outside catalogued split: prod.splits reply.splits py_object.splits)

lemma wp_catalog:
  assumes "I w"
    and "\<And>rows w'. I w' \<Longrightarrow> dict_get (bw_catalogs w') p = Some rows \<Longrightarrow> Q rows w'"
    and "\<And>e w'. I w' \<Longrightarrow> E e w'"
  shows "wp (catalog env p) Q E w"
  using assms unfolding catalog_def by (auto intro!: wp_fetch_catalog split: option.splits)

lemma safe_cached_spec: "safe I (cached_spec env i) (\<lambda>_. True)"
  unfolding cached_spec_def
  by (intro safe_walk safe_bside [THEN safe_bind_any] safe_eupd [THEN safe_bind_any] expired TrueI)

lemma safe_fetch_spec: "safe I (binance_fetch_spec env i) (\<lambda>_. True)"
proof (rule safe_wpI)
  fix w
  assume "I w"
  then show "wp (binance_fetch_spec env i) (\<lambda>_. I) (\<lambda>_. I) w"
    unfolding binance_fetch_spec_def
    by (auto simp: wp_elift intro!: safe_wp [OF safe_cached_spec] wp_catalog simp: outside
        split: sum.splits option.splits prod.splits) (erule cached_later, assumption+)
qed

lemma safe_resolve: "safe I (resolve_order_symbol env i p) (\<lambda>_. True)"
  unfolding resolve_order_symbol_def
  by (intro safe_walk safe_fetch_spec [THEN safe_bind_any] TrueI)

end

locale binance_policy = binance_metadata +
  assumes noted: "I w \<Longrightarrow> I (w\<lparr>bw_events := es\<rparr>)"
    and opened: "I w \<Longrightarrow> validate_client_urls (be_config env) k = Inr ()
      \<Longrightarrow> I (w\<lparr>bw_client := Some k, bw_connected := True\<rparr>)"
    and closed: "I w \<Longrightarrow> I (w\<lparr>bw_client := None, bw_connected := False\<rparr>)"
    and retained: "I w \<Longrightarrow> (rf_conditional ref \<Longrightarrow> rf_product ref = BP_USD_M)
      \<Longrightarrow> I (w\<lparr>bw_refs := dict_set cid ref (bw_refs w)\<rparr>)"
begin

lemma safe_publish: "safe I (publish_connection_state env up) (\<lambda>_. True)"
  unfolding publish_connection_state_def
  by (intro safe_walk safe_bside [THEN safe_bind_any] safe_eupd noted)

lemma safe_connect: "safe I (binance_connect env) (\<lambda>_. True)"
  unfolding binance_connect_def
  by (intro safe_walk safe_bside [THEN safe_bind_any] safe_case_creation safe_publish
      safe_eupd [THEN safe_bind_any] opened TrueI) auto

lemma safe_disconnect: "safe I (binance_disconnect env) (\<lambda>_. True)"
  unfolding binance_disconnect_def eguard_def
  by (intro safe_walk safe_elift [THEN safe_any] safe_bside [THEN safe_bind_any] safe_publish
      safe_eupd [THEN safe_bind_any] closed TrueI)

lemma safe_retain: "(rf_conditional ref \<Longrightarrow> rf_product ref = BP_USD_M) \<Longrightarrow> safe I (retain cid ref) (\<lambda>_. True)"
  unfolding retain_def by (intro safe_eupd retained)

lemma safe_query_average:
  "(rf_conditional ref \<Longrightarrow> rf_product ref = BP_USD_M) \<Longrightarrow> safe I (query_average env cid ref d e) (\<lambda>_. True)"
  unfolding query_average_def
  by (intro safe_walk safe_retain [THEN safe_bind_any] safe_get_order TrueI) auto

lemma safe_place_order: "safe I (binance_place_order env u) (\<lambda>_. True)"
  unfolding binance_place_order_def require_client_def
  by (intro safe_walk safe_resolve [THEN safe_bind_any] safe_retain [THEN safe_bind_any]
      safe_request [THEN safe_bind_any] safe_query_average [THEN safe_bind_any] TrueI)
    (auto dest: payload_conditional)

lemma safe_rate_limits: "safe I (binance_get_rate_limits env) (\<lambda>_. True)"
  unfolding binance_get_rate_limits_def by (intro safe_bside [THEN safe_bind_any] safe_eget TrueI)

end

end
