(* ===== verification/UTE_Binance_Safety.thy ===== *)
theory UTE_Binance_Safety
  imports UTE_Binance_Desk
begin

text \<open>
  What holds of a Binance adapter after any sequence of calls: the connection is to the configured
  environment, references and caches are well formed, and trading rules once read do not change.
\<close>

subsection \<open>Calls\<close>

datatype binance_call =
    BC_connect | BC_disconnect | BC_place unified_order | BC_modify order_modification
  | BC_cancel string | BC_query string | BC_spec instrument | BC_rates

fun call_effect :: "'v benv \<Rightarrow> binance_call \<Rightarrow> 'v bworld \<Rightarrow> 'v bworld" where
  "call_effect env BC_connect w = snd (binance_connect env w)"
| "call_effect env BC_disconnect w = snd (binance_disconnect env w)"
| "call_effect env (BC_place u) w = snd (binance_place_order env u w)"
| "call_effect env (BC_modify m) w = snd (binance_modify_order env m w)"
| "call_effect env (BC_cancel cid) w = snd (binance_cancel_order env cid w)"
| "call_effect env (BC_query cid) w = snd (binance_get_order env cid w)"
| "call_effect env (BC_spec i) w = snd (binance_fetch_spec env i w)"
| "call_effect env BC_rates w = snd (binance_get_rate_limits env w)"

definition after_calls :: "'v benv \<Rightarrow> binance_call list \<Rightarrow> 'v bworld \<Rightarrow> 'v bworld" where
  "after_calls env cs w = fold (call_effect env) cs w"

context binance_policy
begin

lemma call_keeps: "I w \<Longrightarrow> I (call_effect env c w)"
  by (cases c)
    (auto intro: safeD [OF safe_connect _ surjective_pairing] safeD [OF safe_disconnect _ surjective_pairing]
      safeD [OF safe_place_order _ surjective_pairing] safeD [OF safe_modify_order _ surjective_pairing]
      safeD [OF safe_cancel_order _ surjective_pairing] safeD [OF safe_get_order _ surjective_pairing]
      safeD [OF safe_fetch_spec _ surjective_pairing] safeD [OF safe_rate_limits _ surjective_pairing])

lemma calls_keep: "I w \<Longrightarrow> I (after_calls env cs w)"
  by (induction cs arbitrary: w) (simp_all add: after_calls_def call_keeps)

end

subsection \<open>The invariant\<close>

definition spec_listed :: "(binance_product, py_object list) dict \<Rightarrow> instrument \<Rightarrow> instrument_spec \<Rightarrow> bool" where
  \<comment> \<open>the trading rules of the row that the cached catalog has for the instrument\<close>
  "spec_listed catalogs i sp \<longleftrightarrow>
     (case product_for_instrument i of
        Inl _ \<Rightarrow> False
      | Inr p \<Rightarrow>
          (case dict_get catalogs p of
             None \<Rightarrow> False
           | Some rows \<Rightarrow>
               (case resolve_binance_symbol i p rows of
                  Inl _ \<Rightarrow> False
                | Inr (_, d) \<Rightarrow> parse_instrument_spec d = Inr sp)))"

definition connection_valid :: "'v benv \<Rightarrow> client option \<Rightarrow> bool \<Rightarrow> bool" where
  "connection_valid env handle up \<longleftrightarrow>
     (case handle of
        None \<Rightarrow> \<not> up
      | Some k \<Rightarrow> up \<and> validate_client_urls (be_config env) k = Inr ())"

definition binance_inv :: "'v benv \<Rightarrow> 'v bworld \<Rightarrow> bool" where
  "binance_inv env w \<longleftrightarrow> connection_valid env (bw_client w) (bw_connected w)
     \<and> (\<forall>cid ref. dict_get (bw_refs w) cid = Some ref \<longrightarrow> rf_conditional ref \<longrightarrow> rf_product ref = BP_USD_M)
     \<and> (\<forall>i sp t. dict_get (bw_specs w) (spec_key_of i) = Some (sp, t) \<longrightarrow> spec_listed (bw_catalogs w) i sp)"

lemma spec_key_inj [simp]: "spec_key_of i = spec_key_of j \<longleftrightarrow> i = j"
  by (cases i; cases j) (auto simp: spec_key_of_def inst_id_def)

lemma spec_listed_catalogued:
  "spec_listed cs i sp \<Longrightarrow> dict_get cs p = None \<Longrightarrow> spec_listed (dict_set p rows cs) i sp"
  by (auto simp: spec_listed_def split: sum.splits option.splits prod.splits)

lemma binance_inv_init: "binance_inv env (binance_init v)"
  by (simp add: binance_inv_def connection_valid_def binance_init_def)

interpretation inv: binance_policy env "binance_inv env" for env :: "'v benv"
proof
  fix w :: "'v bworld"
  assume w: "binance_inv env w"
  show "binance_inv env (w\<lparr>bw_venue := v\<rparr>)" for v using w by (simp add: binance_inv_def connection_valid_def)
  show "binance_inv env (w\<lparr>bw_tracker := b\<rparr>)" for b using w by (simp add: binance_inv_def connection_valid_def)
  show "binance_inv env (w\<lparr>bw_events := es\<rparr>)" for es using w by (simp add: binance_inv_def connection_valid_def)
  show "binance_inv env (w\<lparr>bw_client := None, bw_connected := False\<rparr>)"
    using w by (simp add: binance_inv_def connection_valid_def)
  show "binance_inv env (w\<lparr>bw_client := Some k, bw_connected := True\<rparr>)"
    if "validate_client_urls (be_config env) k = Inr ()" for k
    using w that by (simp add: binance_inv_def connection_valid_def)
  show "binance_inv env (w\<lparr>bw_specs := dict_del key (bw_specs w)\<rparr>)" for key
    using w by (auto simp: binance_inv_def connection_valid_def)
  show "binance_inv env (w\<lparr>bw_refs := dict_set cid ref (bw_refs w)\<rparr>)"
    if "rf_conditional ref \<Longrightarrow> rf_product ref = BP_USD_M" for ref cid
    using w that by (auto simp: binance_inv_def connection_valid_def)
next
  fix w :: "'v bworld" and p rows
  assume "binance_inv env w" "dict_get (bw_catalogs w) p = None"
  then show "binance_inv env (w\<lparr>bw_catalogs := dict_set p rows (bw_catalogs w)\<rparr>)"
    by (auto simp: binance_inv_def connection_valid_def intro: spec_listed_catalogued)
next
  fix w :: "'v bworld" and i p rows s d sp t
  assume w: "binance_inv env w" and new: "product_for_instrument i = Inr p" "dict_get (bw_catalogs w) p = Some rows"
    "resolve_binance_symbol i p rows = Inr (s, d)" "parse_instrument_spec d = Inr sp"
  have "spec_listed (bw_catalogs w) i sp" using new by (simp add: spec_listed_def)
  with w show "binance_inv env (w\<lparr>bw_specs := dict_set (spec_key_of i) (sp, t) (bw_specs w)\<rparr>)"
    by (auto simp: binance_inv_def connection_valid_def)
qed


subsection \<open>What every reachable adapter satisfies\<close>

definition served_by :: "binance_config \<Rightarrow> client \<Rightarrow> bool" where
  \<comment> \<open>the client talks to the environment of the configuration\<close>
  "served_by c k \<longleftrightarrow> cl_testnet k = bc_testnet c \<and> cl_demo k = bc_demo c
     \<and> (case expected_urls c of (x, y, z) \<Rightarrow> cl_urls k = Some (Py_Str x, Py_Str y, Py_Str z))"

lemma validate_client_urls_Inr: "validate_client_urls c k = Inr () \<longleftrightarrow> served_by c k"
  by (auto simp: validate_client_urls_def served_by_def rbind_eq_Inr split: option.splits prod.splits)

definition reached :: "'v benv \<Rightarrow> binance_call list \<Rightarrow> 'v \<Rightarrow> 'v bworld" where
  \<comment> \<open>a new adapter after a sequence of calls\<close>
  "reached env cs v = after_calls env cs (binance_init v)"

text \<open>
  C9. After any sequence of calls on a new adapter: it is connected exactly when it holds a client, and
  that client talks to the configured environment on all three products - an adapter configured for a
  sandbox never sends anything to production; a reference to a conditional order belongs to the only
  product that has them; and trading rules that are cached are those of the row the cached catalog has
  for the instrument, so the catalog they came from is present.
\<close>

theorem binance_reachable:
  "(bw_connected (reached env cs v) \<longleftrightarrow> bw_client (reached env cs v) \<noteq> None)
    \<and> (\<forall>k. bw_client (reached env cs v) = Some k \<longrightarrow> served_by (be_config env) k)
    \<and> (\<forall>cid ref. dict_get (bw_refs (reached env cs v)) cid = Some ref
         \<longrightarrow> rf_conditional ref \<longrightarrow> rf_product ref = BP_USD_M)
    \<and> (\<forall>i sp t. dict_get (bw_specs (reached env cs v)) (spec_key_of i) = Some (sp, t)
         \<longrightarrow> spec_listed (bw_catalogs (reached env cs v)) i sp)"
proof -
  have "binance_inv env (reached env cs v)"
    unfolding reached_def by (rule inv.calls_keep) (rule binance_inv_init)
  then show ?thesis
    by (auto simp: binance_inv_def connection_valid_def validate_client_urls_Inr split: option.splits)
qed

subsection \<open>Trading rules do not change\<close>

text \<open>A catalog that has been read is read no more.\<close>

definition has_rows :: "binance_product \<Rightarrow> py_object list \<Rightarrow> 'v bworld \<Rightarrow> bool" where
  "has_rows p rows w \<longleftrightarrow> dict_get (bw_catalogs w) p = Some rows"

interpretation rows: binance_policy env "has_rows p rows" for env :: "'v benv" and p rows
  by standard (auto simp: has_rows_def)

lemma wp_inv_catalog:
  assumes "binance_inv env w"
  shows "wp (catalog env p) (\<lambda>rows w'. dict_get (bw_catalogs w') p = Some rows) (\<lambda>_ _. True) w"
  using assms by (rule inv.wp_catalog) auto

lemma wp_cached_spec:
  assumes "binance_inv env w"
  shows "wp (cached_spec env i)
    (\<lambda>hit w'. binance_inv env w' \<and> (\<forall>sp. hit = Some sp \<longrightarrow> spec_listed (bw_catalogs w') i sp)) (\<lambda>_ _. True) w"
proof -
  have "spec_listed (bw_catalogs w) i sp" if "dict_get (bw_specs w) (spec_key_of i) = Some (sp, t)" for sp t
    using assms that by (auto simp: binance_inv_def)
  then show ?thesis
    using assms inv.outside [OF assms] inv.expired [OF inv.outside [OF assms]]
    by (auto simp: cached_spec_def split: option.splits prod.splits)
qed

lemma wp_fetch_spec_listed:
  assumes "binance_inv env w"
  shows "wp (binance_fetch_spec env i) (\<lambda>sp w'. spec_listed (bw_catalogs w') i sp) (\<lambda>_ _. True) w"
  unfolding binance_fetch_spec_def
  by (auto simp: wp_elift spec_listed_def intro!: wp_mono [OF wp_cached_spec [OF assms]] wp_mono [OF wp_inv_catalog]
      split: sum.splits option.splits prod.splits)

text \<open>
  The trading rules of an instrument are read once per adapter: whatever is called between two
  successful reads, and however much time passes, the second read gives the rules of the first. The
  time-to-live of the specification cache bounds how long a parsed specification is kept, but a later
  read parses the same cached catalog again.
\<close>

theorem specs_never_change:
  assumes "binance_fetch_spec env i (reached env cs v) = (Inr sp, w1)"
    and "binance_fetch_spec env i (after_calls env cs' w1) = (Inr sp', w2)"
  shows "sp' = sp"
proof -
  have i0: "binance_inv env (reached env cs v)"
    unfolding reached_def by (rule inv.calls_keep) (rule binance_inv_init)
  then have i1: "binance_inv env w1" by (rule safeD [OF inv.safe_fetch_spec _ assms(1)])
  then have i2: "binance_inv env (after_calls env cs' w1)" by (rule inv.calls_keep)
  from wp_value [OF wp_fetch_spec_listed [OF i0] assms(1)]
  obtain p rows where p: "product_for_instrument i = Inr p" "has_rows p rows w1"
    and sp: "spec_listed (bw_catalogs w1) i sp"
    by (auto simp: spec_listed_def has_rows_def split: sum.splits option.splits)
  have "has_rows p rows (after_calls env cs' w1)" by (rule rows.calls_keep [OF p(2)])
  then have "has_rows p rows w2" by (rule safeD [OF rows.safe_fetch_spec _ assms(2)])
  with wp_value [OF wp_fetch_spec_listed [OF i2] assms(2)] p sp show ?thesis
    by (auto simp: spec_listed_def has_rows_def split: sum.splits prod.splits)
qed

end
