(* ===== verification/UTE_Sending.thy ===== *)
theory UTE_Sending
  imports UTE_Wp
begin

text \<open>
  What an operation adds to a log of the world, such as the list of the requests sent so far:
  \<open>adds lg K P n m\<close> says that \<open>m\<close> only appends to the log \<open>lg\<close>, that what it appends satisfies \<open>P\<close>, and
  that at most \<open>n\<close> of the entries it appends are of the kind \<open>K\<close>. The rules follow the structure of an
  operation; the counts of its parts add up.
\<close>

definition adds :: "('w \<Rightarrow> 'r list) \<Rightarrow> ('r \<Rightarrow> bool) \<Rightarrow> ('r \<Rightarrow> bool) \<Rightarrow> nat \<Rightarrow> ('w, 'a) eff \<Rightarrow> bool" where
  "adds lg K P n m \<longleftrightarrow>
     (\<forall>w. \<exists>new. lg (snd (m w)) = lg w @ new \<and> length (filter K new) \<le> n \<and> list_all P new)"

lemma addsD:
  "adds lg K P n m \<Longrightarrow> m w = (r, w')
   \<Longrightarrow> \<exists>new. lg w' = lg w @ new \<and> length (filter K new) \<le> n \<and> list_all P new"
  by (metis adds_def snd_conv)

lemma addsI:
  "(\<And>w r w'. m w = (r, w') \<Longrightarrow> \<exists>new. lg w' = lg w @ new \<and> length (filter K new) \<le> n \<and> list_all P new)
   \<Longrightarrow> adds lg K P n m"
  unfolding adds_def by (metis prod.collapse)

lemma adds_mono: "adds lg K P n m \<Longrightarrow> n \<le> k \<Longrightarrow> adds lg K P k m"
  unfolding adds_def by (meson order_trans)

lemma adds_silent: "(\<And>w. lg (snd (m w)) = lg w) \<Longrightarrow> adds lg K P n m"
  by (simp add: adds_def)

lemma adds_eret: "adds lg K P n (eret a)"
  by (rule adds_silent) (simp add: eret_def)

lemma adds_elift: "adds lg K P n (elift r)"
  by (rule adds_silent) (simp add: elift_def)

lemma adds_eguard: "adds lg K P n (eguard b c m)"
  unfolding eguard_def by (rule adds_elift)

lemma adds_eget: "adds lg K P n (eget f)"
  by (rule adds_silent) (simp add: eget_def)

lemma adds_eupd: "(\<And>w. lg (f w) = lg w) \<Longrightarrow> adds lg K P n (eupd f)"
  by (rule adds_silent) (simp add: eupd_def)

lemma adds_append:
  assumes "adds lg K P n m" "m w = (r, v)" "adds lg K P k m'" "m' v = (r', w')"
  shows "\<exists>new. lg w' = lg w @ new \<and> length (filter K new) \<le> n + k \<and> list_all P new"
proof -
  obtain x where "lg v = lg w @ x" "length (filter K x) \<le> n" "list_all P x" using addsD [OF assms(1,2)] by blast
  moreover obtain y where "lg w' = lg v @ y" "length (filter K y) \<le> k" "list_all P y" using addsD [OF assms(3,4)] by blast
  ultimately show ?thesis by (intro exI [of _ "x @ y"]) auto
qed

lemma adds_weaken:
  assumes "adds lg K P n m" "m w = (r, w')"
  shows "\<exists>new. lg w' = lg w @ new \<and> length (filter K new) \<le> n + k \<and> list_all P new"
  using addsD [OF assms] by (meson trans_le_add1)

lemma adds_bind: "adds lg K P n m \<Longrightarrow> (\<And>a. adds lg K P k (f a)) \<Longrightarrow> adds lg K P (n + k) (ebind m f)"
  by (rule addsI) (auto simp: ebind_eq intro: adds_weaken adds_append [where m = m and m' = "f a" for a])

lemma adds_etry: "adds lg K P n m \<Longrightarrow> (\<And>e. adds lg K P k (h e)) \<Longrightarrow> adds lg K P (n + k) (etry m h)"
  by (rule addsI) (auto simp: etry_def split: prod.splits sum.splits intro: adds_weaken
      adds_append [where m = m and m' = "h e" for e])

lemma adds_bind0: "adds lg K P 0 m \<Longrightarrow> (\<And>a. adds lg K P k (f a)) \<Longrightarrow> adds lg K P k (ebind m f)"
  using adds_bind [of lg K P 0 m k f] by simp

lemma adds_one: "adds lg K P (Suc 0) m \<Longrightarrow> (\<And>a. adds lg K P k (f a)) \<Longrightarrow> adds lg K P (Suc k) (ebind m f)"
  using adds_bind [of lg K P "Suc 0" m k f] by simp

lemma adds_etry0: "adds lg K P 0 m \<Longrightarrow> (\<And>e. adds lg K P k (h e)) \<Longrightarrow> adds lg K P k (etry m h)"
  using adds_etry [of lg K P 0 m k h] by simp

lemma adds_eattempt: "adds lg K P n m \<Longrightarrow> adds lg K P n (eattempt m)"
  by (rule addsI) (auto simp: eattempt_def split: prod.splits dest!: addsD)

lemma adds_ewhen: "(b \<Longrightarrow> adds lg K P n m) \<Longrightarrow> adds lg K P n (ewhen b m)"
  by (cases b) (simp_all add: adds_eret)

lemma adds_efor: "(\<And>x. x \<in> set xs \<Longrightarrow> adds lg K P 0 (f x)) \<Longrightarrow> adds lg K P 0 (efor xs f)"
  by (induction xs) (auto intro: adds_eret adds_bind0)

lemma adds_if: "(b \<Longrightarrow> adds lg K P n m) \<Longrightarrow> (\<not> b \<Longrightarrow> adds lg K P n m') \<Longrightarrow> adds lg K P n (if b then m else m')"
  by simp

lemma adds_case_option:
  "adds lg K P n m \<Longrightarrow> (\<And>x. adds lg K P n (f x)) \<Longrightarrow> adds lg K P n (case v of None \<Rightarrow> m | Some x \<Rightarrow> f x)"
  by (cases v) simp_all

lemma adds_case_sum:
  "(\<And>x. adds lg K P n (f x)) \<Longrightarrow> (\<And>x. adds lg K P n (g x)) \<Longrightarrow> adds lg K P n (case v of Inl x \<Rightarrow> f x | Inr x \<Rightarrow> g x)"
  by (cases v) simp_all

lemma adds_case_prod: "(\<And>x y. adds lg K P n (f x y)) \<Longrightarrow> adds lg K P n (case p of (x, y) \<Rightarrow> f x y)"
  by (cases p) simp

lemma adds_case_list:
  "adds lg K P n a \<Longrightarrow> (\<And>x xs. adds lg K P n (f x xs)) \<Longrightarrow> adds lg K P n (case v of [] \<Rightarrow> a | x # xs \<Rightarrow> f x xs)"
  by (cases v) simp_all

lemmas adds_walk = adds_eret adds_elift adds_eguard adds_eget adds_if adds_case_option adds_case_sum adds_case_prod
  adds_case_list

lemmas adds_binds = adds_bind0 [OF adds_eret] adds_bind0 [OF adds_elift] adds_bind0 [OF adds_eguard] adds_bind0 [OF adds_eget]

lemma adds_bind_eupd: "(\<And>w. lg (g w) = lg w) \<Longrightarrow> (\<And>a. adds lg K P k (f a)) \<Longrightarrow> adds lg K P k (ebind (eupd g) f)"
  by (rule adds_bind0 [OF adds_eupd])

subsection \<open>Keeping a record beside an outside world\<close>

type_synonym ('v, 'r) recorded = "'v \<times> 'r list"

definition beside :: "('v \<Rightarrow> 'a \<times> 'v) \<Rightarrow> ('v, 'r) recorded \<Rightarrow> 'a \<times> ('v, 'r) recorded" where
  \<comment> \<open>an action of the outside world that leaves the record alone\<close>
  "beside f = (\<lambda>(v, l). case f v of (a, v') \<Rightarrow> (a, v', l))"

definition noting :: "'r \<Rightarrow> ('v \<Rightarrow> 'a \<times> 'v) \<Rightarrow> ('v, 'r) recorded \<Rightarrow> 'a \<times> ('v, 'r) recorded" where
  \<comment> \<open>an action that is recorded\<close>
  "noting r f = (\<lambda>(v, l). case f v of (a, v') \<Rightarrow> (a, v', l @ [r]))"

lemma snd_beside [simp]: "snd (snd (beside f v)) = snd v"
  by (simp add: beside_def split: prod.splits)

lemma snd_noting [simp]: "snd (snd (noting r f v)) = snd v @ [r]"
  by (simp add: noting_def split: prod.splits)

lemma fst_beside [simp]: "fst (beside f v) = fst (f (fst v))" "fst (snd (beside f v)) = snd (f (fst v))"
  by (simp_all add: beside_def split: prod.splits)

end
