(* ===== verification/UTE_Binance_Requests.thy ===== *)
theory UTE_Binance_Requests
  imports UTE_Binance_Safety UTE_Sending
begin

text \<open>
  The requests an operation of the Binance adapter sends. \<open>recording\<close> turns any SDK into one that also
  keeps the list of requests; \<open>emits P n m\<close>, an instance of \<open>adds\<close>, bounds the requests of an operation and restricts their
  methods.
\<close>

subsection \<open>Recording\<close>

type_synonym 'v recorded = "'v \<times> (string \<times> params) list"

definition through :: "('v \<Rightarrow> 'a \<times> 'v) \<Rightarrow> 'v recorded \<Rightarrow> 'a \<times> 'v recorded" where
  "through f = (\<lambda>(v, l). case f v of (a, v') \<Rightarrow> (a, v', l))"

definition recording :: "'v sdk \<Rightarrow> 'v recorded sdk" where
  "recording k = \<lparr>sk_create = (\<lambda>c. through (sk_create k c)), sk_close = (\<lambda>c. through (sk_close k c)),
     sk_request = (\<lambda>name ps (v, l). case sk_request k name ps v of (r, v') \<Rightarrow> (r, v', l @ [(name, ps)])),
     sk_headers = (\<lambda>(v, _). sk_headers k v), sk_clock = through (sk_clock k), sk_new_id = through (sk_new_id k),
     sk_sleep = (\<lambda>t (v, l). (sk_sleep k t v, l)), sk_digest = sk_digest k\<rparr>"

definition recorded :: "'v benv \<Rightarrow> 'v recorded benv" where
  "recorded env = \<lparr>be_sdk = recording (be_sdk env), be_config = be_config env\<rparr>"

definition sent :: "'v recorded bworld \<Rightarrow> (string \<times> params) list" where
  "sent w = snd (bw_venue w)"

abbreviation emits :: "(string \<times> params \<Rightarrow> bool) \<Rightarrow> nat \<Rightarrow> ('v recorded, 'a) bop \<Rightarrow> bool" where
  "emits P n m \<equiv> adds sent (\<lambda>_. True) P n m"

lemma sent_updates [simp]:
  "sent (w\<lparr>bw_client := a\<rparr>) = sent w" "sent (w\<lparr>bw_connected := b\<rparr>) = sent w" "sent (w\<lparr>bw_tracker := c\<rparr>) = sent w"
  "sent (w\<lparr>bw_events := d\<rparr>) = sent w" "sent (w\<lparr>bw_specs := e\<rparr>) = sent w" "sent (w\<lparr>bw_catalogs := f\<rparr>) = sent w"
  "sent (w\<lparr>bw_refs := g\<rparr>) = sent w"
  by (simp_all add: sent_def)

lemma emits_case_reply:
  "(\<And>x. emits P n (f x)) \<Longrightarrow> (\<And>e h. emits P n (g e h)) \<Longrightarrow> emits P n (case v of Reply x \<Rightarrow> f x | Refused e h \<Rightarrow> g e h)"
  by (cases v) simp_all

lemma emits_case_creation:
  "(\<And>x. emits P n (f x)) \<Longrightarrow> (\<And>e. emits P n (g e)) \<Longrightarrow> emits P n (case v of Created x \<Rightarrow> f x | Not_created e \<Rightarrow> g e)"
  by (cases v) simp_all

lemma emits_case_object:
  "\<lbrakk>emits P n a; \<And>x. emits P n (b x); \<And>x. emits P n (c x); \<And>x. emits P n (d x); \<And>x. emits P n (e x);
    \<And>x. emits P n (f x); \<And>x. emits P n (g x); \<And>x. emits P n (h x)\<rbrakk>
   \<Longrightarrow> emits P n (case v of Py_None \<Rightarrow> a | Py_Bool x \<Rightarrow> b x | Py_Int x \<Rightarrow> c x | Py_Float x \<Rightarrow> d x | Py_Str x \<Rightarrow> e x
        | Py_List x \<Rightarrow> f x | Py_Map x \<Rightarrow> g x | Py_Other x \<Rightarrow> h x)"
  by (cases v) simp_all

lemma emits_through: "emits P n (bside (through f))"
  by (rule adds_silent) (auto simp: bside_def through_def sent_def split: prod.splits)

lemmas emits_walk = adds_eret adds_elift adds_eguard adds_eget adds_eupd emits_through adds_if adds_case_option
  adds_case_sum adds_case_prod emits_case_reply emits_case_creation emits_case_object

subsection \<open>Requests of the operations\<close>

lemma recorded_sdk [simp]: "be_sdk (recorded env) = recording (be_sdk env)" "be_config (recorded env) = be_config env"
  by (simp_all add: recorded_def)

lemma recording_sdk [simp]:
  "sk_create (recording k) = (\<lambda>c. through (sk_create k c))" "sk_close (recording k) = (\<lambda>c. through (sk_close k c))"
  "sk_clock (recording k) = through (sk_clock k)" "sk_new_id (recording k) = through (sk_new_id k)"
  "sk_headers (recording k) = (\<lambda>(v, _). sk_headers k v)"
  by (simp_all add: recording_def)

lemma emits_record: "emits P n (record_rate_limit_response (recorded env) p h x st)"
proof -
  have "emits P n (\<lambda>w. case update_tracker p hs ls st now (bw_tracker w) of (r, b) \<Rightarrow> (r, w\<lparr>bw_tracker := b\<rparr>))"
    for hs ls now
    by (rule adds_silent) (simp add: sent_def split: prod.splits)
  then show ?thesis
    unfolding record_rate_limit_response_def Let_def recorded_sdk recording_sdk
    by (rule adds_bind0 [OF emits_through])
qed

lemma emits_send: "P (name, ps) \<Longrightarrow> emits P (Suc 0) (bside (sk_request (recording k) name ps))"
  by (rule addsI) (auto simp: bside_def recording_def sent_def split: prod.splits)

lemma emits_require: "emits P n require_client"
  unfolding require_client_def by (intro adds_bind0 [OF adds_eget] adds_eguard)

lemmas emits_binds = adds_bind0 [OF emits_require] adds_bind0 [OF adds_eret] adds_bind0 [OF adds_elift] adds_bind0 [OF adds_eguard]
  adds_bind0 [OF adds_eget] adds_bind0 [OF emits_through] adds_bind0 [OF emits_record] adds_bind_eupd

lemma emits_request: "P (name, ps) \<Longrightarrow> emits P (Suc 0) (run_order_request (recorded env) p name ps)"
  unfolding run_order_request_def recorded_sdk
  by (intro emits_binds adds_one [OF emits_send] emits_walk)

definition is_create :: "string \<Rightarrow> bool" where
  "is_create name \<longleftrightarrow> name \<in> {''create_order'', ''futures_create_order'', ''futures_coin_create_order''}"

abbreviation harmless :: "string \<times> params \<Rightarrow> bool" where
  "harmless x \<equiv> \<not> is_create (fst x)"

lemma harmless_methods [simp]:
  "\<not> is_create (catalog_method p)" "\<not> is_create (query_method p)" "\<not> is_create (cancel_method p)"
  "\<not> is_create ''futures_get_order''" "\<not> is_create ''futures_modify_order''"
  "\<not> is_create ''futures_coin_v1_put_order''" "is_create (create_method p)"
  by (cases p; simp add: is_create_def catalog_method_def query_method_def cancel_method_def create_method_def)+

lemma harmless_history: "dict_get history_methods k = Some name \<Longrightarrow> \<not> is_create name"
  by (auto simp: history_methods_def is_create_def split: if_splits)

lemma emits_fetch_catalog: "emits harmless 1 (fetch_catalog (recorded env) p)"
  unfolding fetch_catalog_def recorded_sdk One_nat_def
  by (intro adds_one [OF emits_send] emits_binds emits_walk) simp_all

lemma emits_fetch_spec: "emits harmless 1 (binance_fetch_spec (recorded env) i)"
proof -
  have c: "emits harmless 0 (cached_spec (recorded env) i)"
    unfolding cached_spec_def recorded_sdk recording_sdk
    by (intro emits_binds emits_walk) simp_all
  have "emits harmless 1 (catalog (recorded env) p)" for p
    unfolding catalog_def by (intro emits_binds emits_walk emits_fetch_catalog)
  then show ?thesis
    unfolding binance_fetch_spec_def recorded_sdk recording_sdk One_nat_def
    by (intro emits_binds emits_walk adds_bind0 [OF c] adds_one) simp_all
qed

lemma emits_resolve: "emits harmless 1 (resolve_order_symbol (recorded env) i p)"
  unfolding resolve_order_symbol_def One_nat_def
  by (intro adds_one emits_fetch_spec [unfolded One_nat_def] emits_binds emits_walk)

lemma emits_history: "emits harmless 1 (find_in_history (recorded env) ref cid)"
proof (cases "dict_get history_methods (rf_product ref, rf_conditional ref)")
  case None
  then show ?thesis by (simp add: find_in_history_def adds_eret)
next
  case (Some name)
  then show ?thesis
    unfolding find_in_history_def Some option.case One_nat_def
    by (intro adds_one emits_request emits_binds emits_walk) (simp add: harmless_history [OF Some])
qed

lemma emits_on_not_found:
  "emits P n m \<Longrightarrow> emits P k h \<Longrightarrow> emits P (n + k) (on_not_found m h)"
  unfolding on_not_found_def by (intro adds_etry adds_if) (auto intro: adds_elift)

lemma emits_actual: "emits harmless 1 (resolve_conditional_actual_order (recorded env) ref d cid)"
proof -
  have "emits harmless (Suc 0 + 0) (on_not_found
      (ebind (run_order_request (recorded env) p ''futures_get_order'' ps) (\<lambda>x. eret (Some x))) (eret None))" for p ps
    by (intro emits_on_not_found adds_one emits_request emits_walk) simp
  then show ?thesis
    unfolding resolve_conditional_actual_order_def One_nat_def
    by (intro emits_walk adds_one emits_binds) simp_all
qed

lemma emits_get_order: "emits harmless 3 (binance_get_order (recorded env) cid)"
proof -
  have "emits harmless (Suc 0 + 1) (on_not_found
      (ebind (run_order_request (recorded env) p (query_method p) ps) (\<lambda>x. eret (Some x)))
      (find_in_history (recorded env) ref cid))" for p ps ref
    by (intro emits_on_not_found adds_one emits_request emits_walk emits_history) simp
  then have q: "emits harmless 2 (on_not_found
      (ebind (run_order_request (recorded env) p (query_method p) ps) (\<lambda>x. eret (Some x)))
      (find_in_history (recorded env) ref cid))" for p ps ref
    by (simp add: numeral_2_eq_2)
  have a: "emits harmless (Suc 0) (if b then resolve_conditional_actual_order (recorded env) ref d cid else eret None)" for b ref d
    by (intro adds_if emits_actual [unfolded One_nat_def] adds_eret)
  have "emits harmless (2 + Suc 0) (binance_get_order (recorded env) cid)"
    unfolding binance_get_order_def
    by (intro emits_binds emits_walk adds_bind [OF q] adds_one [OF a])
  then show ?thesis by simp
qed


lemma emits_modify_order: "emits harmless 4 (binance_modify_order (recorded env) m)"
proof -
  have "emits harmless (Suc 3) (binance_modify_order (recorded env) m)"
    unfolding binance_modify_order_def
    by (intro emits_binds emits_walk adds_one [OF emits_request] adds_bind [OF emits_get_order, of 0, simplified])
      simp_all
  then show ?thesis by simp
qed

lemma emits_wait: "emits harmless (3 * n) (wait_terminal n (recorded env) cid)"
proof (induction n)
  case (Suc n)
  have s: "emits harmless 0 (bside (\<lambda>v. ((), sk_sleep (recording (be_sdk env)) t v)))" for t
    by (rule adds_silent) (auto simp: bside_def recording_def sent_def split: prod.splits)
  have "emits harmless (3 + 3 * n) (wait_terminal (Suc n) (recorded env) cid)"
    unfolding wait_terminal.simps recorded_sdk
    by (intro adds_bind [OF emits_get_order] emits_walk adds_bind0 Suc.IH s)
  then show ?case by simp
qed (simp add: adds_eret)

lemma emits_wait_eight: "emits harmless 24 (wait_for_conditional_terminal_order (recorded env) cid)"
  unfolding wait_for_conditional_terminal_order_def using emits_wait [of 8 env cid] by simp

lemma emits_cancel_order: "emits harmless 25 (binance_cancel_order (recorded env) cid)"
proof -
  have "emits harmless (Suc 24) (binance_cancel_order (recorded env) cid)"
    unfolding binance_cancel_order_def cancel_conditional_def
    by (intro emits_binds emits_walk adds_one [OF adds_eattempt [OF emits_request]] adds_one [OF emits_request]
        adds_bind [OF emits_wait_eight, of 0, simplified]) simp_all
  then show ?thesis by simp
qed

lemma emits_connect: "emits P 0 (binance_connect (recorded env))"
  unfolding binance_connect_def publish_connection_state_def recorded_sdk recording_sdk
  by (intro emits_binds emits_walk) simp_all

lemma emits_disconnect: "emits P 0 (binance_disconnect (recorded env))"
  unfolding binance_disconnect_def publish_connection_state_def recorded_sdk recording_sdk ewhen_def
  by (intro emits_binds emits_walk) simp_all

lemma emits_rates: "emits P 0 (binance_get_rate_limits (recorded env))"
  unfolding binance_get_rate_limits_def recorded_sdk recording_sdk
  by (intro emits_binds emits_walk)

subsection \<open>Placing once\<close>

definition creates :: "(string \<times> params) list \<Rightarrow> (string \<times> params) list" where
  "creates l = filter (is_create o fst) l"

lemma creates_harmless: "list_all harmless l \<Longrightarrow> creates l = []"
  by (induction l) (auto simp: creates_def)

lemma creates_append [simp]: "creates (l @ m) = creates l @ creates m"
  by (simp add: creates_def)

definition grown :: "'v recorded bworld \<Rightarrow> nat \<Rightarrow> (string \<times> params) list \<Rightarrow> 'v recorded bworld \<Rightarrow> bool" where
  \<comment> \<open>since \<open>w\<close>, at most \<open>n\<close> requests were sent; \<open>cs\<close> are the creations among them\<close>
  "grown w n cs w' \<longleftrightarrow> (\<exists>new. sent w' = sent w @ new \<and> length new \<le> n \<and> creates new = cs)"

lemma grown_refl: "grown w 0 [] w"
  by (simp add: grown_def creates_def)

lemma grown_mono: "grown w n cs v \<Longrightarrow> n \<le> k \<Longrightarrow> grown w k cs v"
  by (auto simp: grown_def)

lemma grown_trans: "grown w n cs v \<Longrightarrow> grown v k ds w' \<Longrightarrow> grown w (n + k) (cs @ ds) w'"
  by (force simp: grown_def)

lemma grown_emits: "emits harmless k m \<Longrightarrow> m v = (r, w') \<Longrightarrow> grown v k [] w'"
  by (auto simp: grown_def creates_harmless dest!: addsD)

lemma wp_emits:
  assumes "emits harmless k m" "grown w n cs v" "n + k \<le> l"
    and "\<And>a w'. grown w l cs w' \<Longrightarrow> Q a w'" "\<And>e w'. grown w l cs w' \<Longrightarrow> E e w'"
  shows "wp m Q E v"
proof (rule wp_runI)
  fix r w'
  assume run: "m v = (r, w')"
  from grown_trans [OF assms(2) grown_emits [OF assms(1) run]] assms(3) have "grown w l cs w'"
    by (force simp: grown_def)
  with assms(4,5) show "case r of Inl e \<Rightarrow> E e w' | Inr a \<Rightarrow> Q a w'" by (cases r) auto
qed

definition kept_reference :: "string \<Rightarrow> order_reference \<Rightarrow> 'v bworld \<Rightarrow> bool" where
  \<comment> \<open>the order is known, up to the id the venue gave it\<close>
  "kept_reference cid ref w \<longleftrightarrow>
     (\<exists>i. dict_get (bw_refs w) cid = Some (ref\<lparr>rf_platform_id := i\<rparr>))"

interpretation kept: binance_quiet env "kept_reference cid ref" for env :: "'v benv" and cid ref
  by standard (simp_all add: kept_reference_def)

lemma kept_retain: "safe (kept_reference cid ref) (retain cid (ref\<lparr>rf_platform_id := i\<rparr>)) (\<lambda>_. True)"
  unfolding retain_def by (rule safe_eupd) (auto simp: kept_reference_def)

lemma kept_query_average: "safe (kept_reference cid ref) (query_average env cid ref d e) (\<lambda>_. True)"
  unfolding query_average_def Let_def
  by (intro safe_walk kept_retain [THEN safe_bind_any] kept.safe_get_order TrueI)

lemma emits_query_average: "emits harmless 3 (query_average (recorded env) cid ref d e)"
proof -
  have "emits harmless (3 + 0) (etry (binance_get_order (recorded env) cid) h)" if "\<And>e. emits harmless 0 (h e)" for h
    by (rule adds_etry [OF emits_get_order that])
  then have t: "emits harmless 3 (etry (binance_get_order (recorded env) cid) (\<lambda>e2.
                 if exn_is (exn_cls e2) MissingAverageFillPriceError
                 then eraise PlatformError ''filled order has no average fill price''
                 else elift (Inl e2)))"
    by (simp add: adds_elift)
  show ?thesis
    unfolding query_average_def Let_def retain_def
    by (intro emits_binds emits_walk adds_bind [OF t, of 0, simplified]) simp_all
qed

definition placed ::
    "unified_order \<Rightarrow> 'v recorded bworld \<Rightarrow> nat \<Rightarrow> 'v recorded bworld \<Rightarrow> bool" where
  \<comment> \<open>one creation was sent for the order, and the order is known\<close>
  "placed u w n w' \<longleftrightarrow>
     (\<exists>p symbol cid payload conditional.
        product_for_instrument (uo_instrument u) = Inr p \<and> uo_client_id u = Some cid
        \<and> build_place_order_payload u p symbol cid = Inr (payload, conditional)
        \<and> grown w n [(create_method p, payload)] w'
        \<and> kept_reference cid \<lparr>rf_product = p, rf_symbol = symbol, rf_conditional = conditional,
             rf_type = uo_type u, rf_platform_id = None\<rparr> w')"

lemma grown_sent:
  "grown w n [] v \<Longrightarrow> is_create name \<Longrightarrow> sk_request (recording k) name ps (bw_venue v) = (r, x)
   \<Longrightarrow> grown w (Suc n) [(name, ps)] (v\<lparr>bw_venue := x\<rparr>)"
  by (auto simp: grown_def sent_def recording_def creates_def split: prod.splits)

lemma wp_record_grown:
  assumes "grown w n cs v" and "\<And>a w'. grown w n cs w' \<Longrightarrow> Q a w'" "\<And>e w'. grown w n cs w' \<Longrightarrow> E e w'"
  shows "wp (record_rate_limit_response (recorded env) p h x st) Q E v"
  by (rule wp_emits [OF emits_record [of _ 0] assms(1), where l = n]) (simp_all add: assms)

lemma create_request:
  assumes "grown w n [] v" "is_create name"
    and "\<And>r w'. grown w (Suc n) [(name, ps)] w' \<Longrightarrow> Q r w'"
    and "\<And>e w'. grown w (Suc n) [] w' \<or> grown w (Suc n) [(name, ps)] w' \<Longrightarrow> E e w'"
  shows "wp (run_order_request (recorded env) p name ps) Q E v"
proof -
  have "grown w (Suc n) [] v" using assms(1) by (rule grown_mono) simp
  moreover note step = grown_sent [OF assms(1,2)]
  ultimately show ?thesis
    using assms(3,4) unfolding run_order_request_def require_client_def recorded_sdk
    by (auto intro!: wp_record_grown dest!: step split: prod.splits reply.splits)
qed

lemma wp_kept:
  assumes "safe (kept_reference cid ref) m (\<lambda>_. True)" "kept_reference cid ref v" "wp m Q E v"
  shows "wp m (\<lambda>a w'. Q a w' \<and> kept_reference cid ref w') (\<lambda>e w'. E e w' \<and> kept_reference cid ref w') v"
  by (rule wp_conj [OF assms(3)]) (rule safe_wp [OF assms(1,2)])

lemma grown_retain: "retain cid ref v = (r, w') \<Longrightarrow> grown w n cs v \<Longrightarrow> grown w n cs w'"
  by (auto simp: retain_def eupd_def grown_def sent_def)

definition place_tail :: "'v benv \<Rightarrow> string \<Rightarrow> order_reference \<Rightarrow> py_object \<Rightarrow> ('v, order_result) bop" where
  \<comment> \<open>what follows the request\<close>
  "place_tail env cid ref response =
     ebind (elift (order_response response)) (\<lambda>d.
     ebind (case parse_order_result d cid (rf_conditional ref) of
              Inr r \<Rightarrow> eret r
            | Inl e \<Rightarrow>
                if exn_is (exn_cls e) MissingAverageFillPriceError then query_average env cid ref d e
                else elift (Inl e)) (\<lambda>r.
     ebind (retain cid (ref\<lparr>rf_platform_id := re_platform_id r\<rparr>)) (\<lambda>_.
     eret r)))"

lemma place_tail_facts:
  "emits harmless 3 (place_tail (recorded env) cid ref response)"
  "safe (kept_reference cid ref) (place_tail env cid ref response) (\<lambda>_. True)"
proof -
  have e: "emits harmless 3 (case parse_order_result d cid (rf_conditional ref) of
      Inr r \<Rightarrow> eret r
    | Inl e \<Rightarrow> if exn_is (exn_cls e) MissingAverageFillPriceError then query_average (recorded env) cid ref d e
               else elift (Inl e))" for d
    by (intro adds_case_sum adds_if emits_query_average emits_walk)
  show "emits harmless 3 (place_tail (recorded env) cid ref response)"
    unfolding place_tail_def retain_def
    by (intro emits_binds adds_bind [OF e, of 0, simplified] emits_walk) simp_all
  show "safe (kept_reference cid ref) (place_tail env cid ref response) (\<lambda>_. True)"
    unfolding place_tail_def
    by (intro safe_walk kept_query_average [THEN safe_bind_any] kept_retain [THEN safe_bind_any] TrueI)
qed

lemma place_order_split:
  "binance_place_order env u =
     ebind require_client (\<lambda>_.
     ebind (elift (product_for_instrument (uo_instrument u))) (\<lambda>p.
     ebind (resolve_order_symbol env (uo_instrument u) p) (\<lambda>symbol.
     (case uo_client_id u of
        None \<Rightarrow> eraise PlatformError ''Core must assign client_order_id before Binance order placement''
      | Some cid \<Rightarrow>
          ebind (elift (to_binance_client_order_id cid)) (\<lambda>bid.
          ebind (elift (build_place_order_payload u p symbol bid)) (\<lambda>(payload, conditional).
          ebind (retain cid \<lparr>rf_product = p, rf_symbol = symbol, rf_conditional = conditional, rf_type = uo_type u,
                             rf_platform_id = None\<rparr>) (\<lambda>_.
          ebind (run_order_request env p (create_method p) payload) (\<lambda>response.
          place_tail env cid \<lparr>rf_product = p, rf_symbol = symbol, rf_conditional = conditional,
             rf_type = uo_type u, rf_platform_id = None\<rparr> response))))))))"
  unfolding binance_place_order_def place_tail_def Let_def order_reference.simps by (rule refl)

lemma to_client_id_same: "to_binance_client_order_id cid = Inr bid \<Longrightarrow> bid = cid"
  by (auto simp: to_binance_client_order_id_def rbind_eq_Inr)

definition after_placing :: "unified_order \<Rightarrow> 'v recorded bworld \<Rightarrow> 'v recorded bworld \<Rightarrow> bool" where
  \<comment> \<open>how a placement that raises leaves the adapter\<close>
  "after_placing u w w' \<longleftrightarrow> placed u w 5 w' \<or> grown w 5 [] w'"

lemma after_placing_unsent: "grown w n [] w' \<Longrightarrow> n \<le> 5 \<Longrightarrow> after_placing u w w'"
  using grown_mono [of w n "[]" w' 5] by (simp add: after_placing_def)

lemma wp_place_sent:
  assumes v: "grown w (Suc 0) [] v" and p: "product_for_instrument (uo_instrument u) = Inr p"
    and c: "uo_client_id u = Some cid"
    and b: "build_place_order_payload u p symbol cid = Inr (payload, conditional)"
    and ref: "ref = \<lparr>rf_product = p, rf_symbol = symbol, rf_conditional = conditional, rf_type = uo_type u,
      rf_platform_id = None\<rparr>"
  shows "wp (ebind (retain cid ref) (\<lambda>_.
      ebind (run_order_request (recorded env) p (create_method p) payload) (place_tail (recorded env) cid ref)))
    (\<lambda>_. placed u w 5) (\<lambda>_. after_placing u w) v"
proof -
  let ?v = "v\<lparr>bw_refs := dict_set cid ref (bw_refs v)\<rparr>"
  let ?C = "\<lambda>n w'. grown w n [(create_method p, payload)] w'"
  have grown: "grown w (Suc 0) [] ?v" using v by (simp add: grown_def sent_def)
  have kept: "kept_reference cid ref ?v" by (simp add: kept_reference_def ref)
  have R: "placed u w 5 w'" if "?C n w'" "n \<le> 5" "kept_reference cid ref w'" for n w'
    using grown_mono [OF that(1,2)] that(3) p c b unfolding placed_def ref by blast
  have last: "wp (place_tail (recorded env) cid ref x) (\<lambda>_. placed u w 5) (\<lambda>_. after_placing u w) v'"
    if "?C 2 v'" "kept_reference cid ref v'" for x v'
  proof -
    have "wp (place_tail (recorded env) cid ref x) (\<lambda>_. ?C 5) (\<lambda>_. ?C 5) v'"
      by (rule wp_emits [OF place_tail_facts(1) that(1)]) simp_all
    from wp_kept [OF place_tail_facts(2) that(2) this] show ?thesis
      by (rule wp_mono) (auto simp: after_placing_def intro: R)
  qed
  have "wp (run_order_request (recorded env) p (create_method p) payload) (\<lambda>_. ?C 2)
      (\<lambda>_ w'. grown w 2 [] w' \<or> ?C 2 w') ?v"
    by (rule create_request [OF grown]) (simp_all add: numeral_2_eq_2)
  from wp_kept [OF kept.safe_request kept this]
  have "wp (run_order_request (recorded env) p (create_method p) payload)
      (\<lambda>x. wp (place_tail (recorded env) cid ref x) (\<lambda>_. placed u w 5) (\<lambda>_. after_placing u w))
      (\<lambda>_. after_placing u w) ?v"
    by (rule wp_mono) (auto simp: after_placing_def intro: R [of 2] grown_mono last)
  then show ?thesis by (simp add: retain_def)
qed

lemma wp_place_order:
  "wp (binance_place_order (recorded env) u) (\<lambda>_. placed u w 5) (\<lambda>_. after_placing u w) w"
proof -
  have rest: "wp (elift (product_for_instrument (uo_instrument u))) (\<lambda>p.
      wp (resolve_order_symbol (recorded env) (uo_instrument u) p) (\<lambda>symbol. wp
       (case uo_client_id u of
        None \<Rightarrow> eraise PlatformError ''Core must assign client_order_id before Binance order placement''
      | Some cid \<Rightarrow>
          ebind (elift (to_binance_client_order_id cid)) (\<lambda>bid.
          ebind (elift (build_place_order_payload u p symbol bid)) (\<lambda>(payload, conditional).
          ebind (retain cid \<lparr>rf_product = p, rf_symbol = symbol, rf_conditional = conditional, rf_type = uo_type u,
                             rf_platform_id = None\<rparr>) (\<lambda>_.
          ebind (run_order_request (recorded env) p (create_method p) payload) (\<lambda>response.
          place_tail (recorded env) cid \<lparr>rf_product = p, rf_symbol = symbol, rf_conditional = conditional,
             rf_type = uo_type u, rf_platform_id = None\<rparr> response)))))
         (\<lambda>_. placed u w 5) (\<lambda>_. after_placing u w)) (\<lambda>_. after_placing u w)) (\<lambda>_. after_placing u w) v"
    if v: "grown w 0 [] v" for v
  proof (cases "product_for_instrument (uo_instrument u)")
    case (Inl e)
    with v show ?thesis by (simp add: after_placing_unsent)
  next
    case (Inr p)
    show ?thesis unfolding Inr wp_elift_simps
      by (rule wp_emits [OF emits_resolve v, where l = "Suc 0"])
        (auto simp: wp_elift after_placing_unsent dest!: to_client_id_same split: option.splits sum.splits,
          drule (2) wp_place_sent [OF _ Inr _ _ refl, of _ _ _ _ _ _ env], simp)
  qed
  show ?thesis
    unfolding place_order_split wp_ebind
    by (rule wp_emits [OF emits_require [of _ 0] grown_refl, where l = 0]) (simp_all add: rest after_placing_unsent)
qed


text \<open>
  C5. A placement sends at most five requests, and at most one of them creates an order - the one its
  translation prescribes. Whenever that request has been sent, whatever the answer, a timeout
  included, the adapter knows the order: the reference under its client id holds the product, the
  symbol and the endpoint family, so that the order can be queried and cancelled. A placement that
  returns a result has sent it.
\<close>

theorem placed_once:
  assumes "binance_place_order (recorded env) u w = (r, w')"
  shows "placed u w 5 w' \<or> grown w 5 [] w' \<and> \<not> is_ok r"
  using wp_run [OF wp_place_order assms] by (cases r) (auto simp: after_placing_def)

subsection \<open>Bounded work\<close>

lemma grown_creates_le: "placed u w n w' \<Longrightarrow> \<exists>new. sent w' = sent w @ new \<and> length new \<le> n \<and> length (creates new) \<le> 1"
  by (auto simp: placed_def grown_def)

lemma place_bounded:
  "\<exists>new. sent (snd (binance_place_order (recorded env) u w)) = sent w @ new \<and> length new \<le> 5 \<and> length (creates new) \<le> 1"
proof -
  obtain r w' where run: "binance_place_order (recorded env) u w = (r, w')" by fastforce
  from wp_run [OF wp_place_order run] grown_creates_le [of u w 5 w'] show ?thesis
    by (cases r) (auto simp: run grown_def after_placing_def)
qed

text \<open>
  C39. No call of the adapter sends more than twenty-five requests - the cancellation of a conditional
  order, which waits for the venue to confirm it, sends the most - and only a placement creates an
  order, one at most. So every waiting loop ends, and no retry places an order twice.
\<close>

theorem requests_bounded:
  "\<exists>new. sent (call_effect (recorded env) c w) = sent w @ new \<and> length new \<le> 25 \<and> length (creates new) \<le> 1
     \<and> (creates new = [] \<or> (\<exists>u. c = BC_place u))"
proof (cases "\<exists>u. c = BC_place u")
  case True
  then obtain u where u: "c = BC_place u" by blast
  from place_bounded [of env u w] obtain new
    where "sent (snd (binance_place_order (recorded env) u w)) = sent w @ new" "length new \<le> 5" "length (creates new) \<le> 1"
    by blast
  then show ?thesis unfolding u by (intro exI [of _ new]) simp
next
  case False
  have "\<exists>new. sent (snd (m w)) = sent w @ new \<and> length new \<le> 25 \<and> creates new = []"
    if "emits harmless n m" "n \<le> 25" for m :: "('a recorded, 'b) bop" and n
    using addsD [OF that(1) surjective_pairing, of w] that(2) creates_harmless by fastforce
  note b = this
  show ?thesis
    using False b [OF emits_connect] b [OF emits_disconnect] b [OF emits_modify_order] b [OF emits_cancel_order]
      b [OF emits_get_order] b [OF emits_fetch_spec] b [OF emits_rates]
    by (cases c) fastforce+
qed

end
