(* ===== verification/UTE_Binance_Wire.thy ===== *)
theory UTE_Binance_Wire
  imports UTE_Binance_Orders
begin

text \<open>
  Correctness of the Binance order translation: the parameters of a placement say what the order
  says, and a response that parses is consistent.
\<close>

subsection \<open>Placement\<close>

text \<open>What the venue reads from the parameters of a placement.\<close>

record sent_order =
  so_symbol :: string
  so_client :: string
  so_type :: order_type
  so_side :: order_side
  so_quantity :: decimal
  so_price :: "decimal option"
  so_stop :: "decimal option"
  so_tif :: "string option"
  so_reduce_only :: bool

definition text_of :: "params \<Rightarrow> string \<Rightarrow> string option" where
  "text_of d k = (case dict_get d k of Some (W_text s) \<Rightarrow> Some s | _ \<Rightarrow> None)"

definition dec_of :: "params \<Rightarrow> string \<Rightarrow> decimal option" where
  "dec_of d k = (case dict_get d k of Some (W_dec x) \<Rightarrow> Some x | _ \<Rightarrow> None)"

definition type_table :: "((binance_product \<times> string) \<times> order_type) list" where
  "type_table =
     [((BP_SPOT, ''MARKET''), MARKET), ((BP_SPOT, ''LIMIT''), LIMIT), ((BP_SPOT, ''STOP_LOSS''), STOP),
      ((BP_SPOT, ''STOP_LOSS_LIMIT''), STOP_LIMIT), ((BP_USD_M, ''MARKET''), MARKET), ((BP_USD_M, ''LIMIT''), LIMIT),
      ((BP_USD_M, ''STOP_MARKET''), STOP), ((BP_USD_M, ''STOP''), STOP_LIMIT), ((BP_COIN_M, ''MARKET''), MARKET),
      ((BP_COIN_M, ''LIMIT''), LIMIT)]"

definition side_of :: "string \<Rightarrow> order_side option" where
  "side_of s = (if s = ''BUY'' then Some BUY else if s = ''SELL'' then Some SELL else None)"

definition read_payload :: "binance_product \<Rightarrow> params \<Rightarrow> sent_order option" where
  "read_payload p d =
     (let cid = (case text_of d ''clientAlgoId'' of None \<Rightarrow> text_of d ''newClientOrderId'' | Some i \<Rightarrow> Some i) in
      case (text_of d ''symbol'', cid, text_of d ''type'', text_of d ''side'', dec_of d ''quantity'') of
        (Some s, Some i, Some ty, Some sd, Some q) \<Rightarrow>
          (case (dict_get type_table (p, ty), side_of sd) of
             (Some t, Some side) \<Rightarrow>
               Some \<lparr>so_symbol = s, so_client = i, so_type = t, so_side = side, so_quantity = q,
                     so_price = dec_of d ''price'', so_stop = dec_of d ''stopPrice'', so_tif = text_of d ''timeInForce'',
                     so_reduce_only = (text_of d ''reduceOnly'' = Some ''true'')\<rparr>
           | _ \<Rightarrow> None)
      | _ \<Rightarrow> None)"

definition expressible :: "unified_order \<Rightarrow> binance_product \<Rightarrow> bool" where
  \<comment> \<open>what Binance can express of an order\<close>
  "expressible u p \<longleftrightarrow> uo_take_profit u = None \<and> uo_stop_loss u = None \<and> uo_position_id u = None
     \<and> \<not> (p = BP_SPOT \<and> uo_reduce_only u) \<and> \<not> (uo_type u \<in> {STOP, STOP_LIMIT} \<and> p = BP_COIN_M)
     \<and> uo_tif u \<in> {GTC, IOC, FOK} \<and> (uo_type u \<in> {MARKET, STOP} \<longrightarrow> uo_tif u = GTC)"

definition has_limit :: "unified_order \<Rightarrow> bool" where
  "has_limit u \<longleftrightarrow> uo_type u \<in> {LIMIT, STOP_LIMIT}"

definition has_stop :: "unified_order \<Rightarrow> bool" where
  "has_stop u \<longleftrightarrow> uo_type u \<in> {STOP, STOP_LIMIT}"

lemma place_order_checks_Inr: "place_order_checks u p = Inr () \<longleftrightarrow> expressible u p"
  by (cases "uo_tif u") (auto simp: place_order_checks_def expressible_def rbind_eq_Inr tif_names_def)

lemma place_order_checks_Inl: "place_order_checks u p = Inl e \<Longrightarrow> exn_cls e = UnsupportedOrderTypeError"
  by (auto simp: place_order_checks_def rbind_eq_Inl guard_exn_Inl)

lemma binance_type_table: "binance_type p t = Inr ty \<Longrightarrow> dict_get type_table (p, ty) = Some t"
  by (cases p; cases t) (auto simp: binance_type_def type_table_def)

lemma expressible_type: "expressible u p \<Longrightarrow> \<exists>ty. binance_type p (uo_type u) = Inr ty"
  by (cases p; cases "uo_type u") (simp_all add: binance_type_def expressible_def)

lemma side_of_name: "side_of (if s = BUY then ''BUY'' else ''SELL'') = Some s"
  by (cases s) (simp_all add: side_of_def)

text \<open>
  C33. A valid order is translated exactly when Binance can express it, and refused with
  \<open>UnsupportedOrderTypeError\<close> otherwise, nothing being dropped or approximated: what the venue reads from
  the parameters is the order - symbol, client id, type, side, quantity, the limit price with its
  time-in-force when the type has one, the stop price when it has one, and the reduce-only flag. The
  order goes to the conditional endpoint exactly when it is a USD-M stop.
\<close>

theorem payload_faithful:
  assumes "wf_order u"
  shows "case build_place_order_payload u p symbol cid of
      Inl e \<Rightarrow> \<not> expressible u p \<and> exn_cls e = UnsupportedOrderTypeError
    | Inr (d, conditional) \<Rightarrow> expressible u p
        \<and> (conditional \<longleftrightarrow> has_stop u \<and> p = BP_USD_M)
        \<and> read_payload p d = Some
            \<lparr>so_symbol = symbol, so_client = cid, so_type = uo_type u, so_side = uo_side u,
             so_quantity = uo_quantity u, so_price = (if has_limit u then uo_price u else None),
             so_stop = (if has_stop u then uo_stop_price u else None),
             so_tif = (if has_limit u then dict_get tif_names (uo_tif u) else None),
             so_reduce_only = uo_reduce_only u\<rparr>"
proof (cases "expressible u p")
  case False
  then obtain e where "place_order_checks u p = Inl e"
    using place_order_checks_Inr [of u p] by (cases "place_order_checks u p") auto
  with False place_order_checks_Inl [OF this] show ?thesis by (simp add: build_place_order_payload_def)
next
  case True
  then have ok: "place_order_checks u p = Inr ()" by (simp add: place_order_checks_Inr)
  obtain t where tif: "dict_get tif_names (uo_tif u) = Some t"
    using True by (auto simp: expressible_def tif_names_def)
  have price: "has_limit u \<Longrightarrow> \<exists>x. uo_price u = Some x" and stop: "has_stop u \<Longrightarrow> \<exists>x. uo_stop_price u = Some x"
    using assms by (auto simp: wf_order_def has_limit_def has_stop_def)
  obtain ty where ty: "binance_type p (uo_type u) = Inr ty" using expressible_type [OF True] by blast
  note tt = binance_type_table [OF ty]
  note run = build_place_order_payload_def Let_def decimal_string_def put_price_def put_stop_def tif_name_def tif
  note read = read_payload_def text_of_def dec_of_def side_of_name has_limit_def has_stop_def
  show ?thesis
  proof (cases "uo_type u")
    case MARKET
    with True ok ty tt show ?thesis by (simp add: run read)
  next
    case LIMIT
    moreover obtain x where "uo_price u = Some x" using price LIMIT by (auto simp: has_limit_def)
    ultimately show ?thesis using True ok ty tt by (simp add: run read)
  next
    case STOP
    moreover obtain y where "uo_stop_price u = Some y" using stop STOP by (auto simp: has_stop_def)
    ultimately show ?thesis using True ok ty tt by (cases "p = BP_USD_M") (simp_all add: run read)
  next
    case STOP_LIMIT
    moreover obtain x where "uo_price u = Some x" using price STOP_LIMIT by (auto simp: has_limit_def)
    moreover obtain y where "uo_stop_price u = Some y" using stop STOP_LIMIT by (auto simp: has_stop_def)
    ultimately show ?thesis using True ok ty tt by (cases "p = BP_USD_M") (simp_all add: run read)
  qed
qed

subsection \<open>Responses\<close>

lemma order_decimal_Inr: "order_decimal v = Inr x \<Longrightarrow> 0 \<le> x"
  by (auto simp: order_decimal_def rbind_eq_Inr split: if_splits option.splits)

lemma optional_decimal_pos: "optional_decimal v = Inr (Some x) \<Longrightarrow> 0 < x"
  by (auto simp: optional_decimal_def rbind_eq_Inr split: if_splits)

lemma response_errors:
  "order_decimal v = Inl e \<Longrightarrow> exn_cls e = PlatformError"
  "optional_decimal v = Inl e \<Longrightarrow> exn_cls e = PlatformError"
  "order_timestamp v f = Inl e \<Longrightarrow> exn_cls e = PlatformError"
  "map_order_status v c = Inl e \<Longrightarrow> exn_cls e = PlatformError"
  by (auto simp: order_decimal_def optional_decimal_def order_timestamp_def map_order_status_def Let_def
      rbind_eq_Inl guard_exn_Inl split: if_splits option.splits py_object.splits)

lemma parse_filled_facts:
  "parse_filled d c = Inr x \<Longrightarrow> 0 \<le> x"
  "parse_filled d c = Inl e \<Longrightarrow> exn_cls e = PlatformError"
  by (auto simp: parse_filled_def Let_def split: if_splits dest: order_decimal_Inr response_errors)

lemma parse_status_Inl: "parse_status d c f = Inl e \<Longrightarrow> exn_cls e = PlatformError"
  by (auto simp: parse_status_def Let_def rbind_eq_Inl split: if_splits py_object.splits dest: response_errors)

lemma parse_times_Inl: "parse_times d = Inl e \<Longrightarrow> exn_cls e = PlatformError"
  by (auto simp: parse_times_def Let_def rbind_eq_Inl split: if_splits dest: response_errors)

lemma parse_average_Inl:
  "parse_average d f = Inl e \<Longrightarrow> exn_cls e = PlatformError \<or> exn_cls e = MissingAverageFillPriceError \<and> 0 < f"
  by (auto simp: parse_average_def rbind_eq_Inl guard_exn_Inl split: if_splits dest: response_errors)


lemma parse_average_Inr:
  assumes "parse_average d f = Inr a"
  shows "0 < f \<Longrightarrow> a \<noteq> None" and "a = Some x \<Longrightarrow> 0 < x"
proof -
  obtain avg where avg: "optional_decimal (field_or d ''avgPrice'' (field d ''actualPrice'')) = Inr avg"
    and g: "\<not> (0 < f \<and> a = None)"
    and a: "(if avg = None \<and> 0 < f
            then rbind (optional_decimal (field d ''cummulativeQuoteQty'')) (\<lambda>q. Inr (map_option (\<lambda>x. ddiv_nz x f) q))
            else Inr avg) = Inr a"
    using assms unfolding parse_average_def rbind_eq_Inr guard_exn_Inr by blast
  show "a \<noteq> None" if "0 < f" using g that by simp
  show "0 < x" if x: "a = Some x"
  proof (cases "avg = None \<and> 0 < f")
    case True
    with a x obtain y where "optional_decimal (field d ''cummulativeQuoteQty'') = Inr (Some y)" "x = ddiv_nz y f"
      by (auto simp: rbind_eq_Inr)
    with True optional_decimal_pos [of _ y] ctx_round_pos [of "y / f"] show ?thesis by (simp add: ddiv_nz_def)
  next
    case False
    with a x avg show ?thesis by (auto dest: optional_decimal_pos)
  qed
qed

lemma parse_order_result_Inl:
  "parse_order_result d cid c = Inl e \<Longrightarrow> exn_cls e = PlatformError \<or> exn_cls e = MissingAverageFillPriceError"
  by (auto simp: parse_order_result_def Let_def rbind_eq_Inl guard_exn_Inl
      dest: parse_filled_facts parse_status_Inl parse_average_Inl parse_times_Inl)

definition finished :: "metadata \<Rightarrow> bool" where
  "finished d \<longleftrightarrow> (case field d ''algoStatus'' of Py_Str s \<Rightarrow> upper s = ''FINISHED'' | _ \<Rightarrow> False)"

definition fully_executed :: "metadata \<Rightarrow> decimal \<Rightarrow> bool" where
  "fully_executed d filled \<longleftrightarrow>
     (case optional_decimal (field d ''quantity'') of Inr (Some q) \<Rightarrow> q \<le> filled | _ \<Rightarrow> False)"

lemma parse_status_finished:
  "parse_status d True f = Inr s \<Longrightarrow> finished d \<Longrightarrow> s = (if fully_executed d f then FILLED else CANCELLED)"
  by (auto simp: parse_status_def finished_def fully_executed_def rbind_eq_Inr split: py_object.splits option.splits)

text \<open>
  A response that parses is consistent: the result carries the caller's id and the id of the venue,
  the executed quantity is not negative, an executed quantity has an average price, and a price that is
  reported is positive. A conditional order that is \<open>FINISHED\<close> is filled exactly when the whole ordered
  quantity was executed, and cancelled otherwise.
\<close>

theorem response_consistent:
  assumes "parse_order_result d cid c = Inr r"
  shows "re_client_id r = cid \<and> re_platform_id r = Some (py_text (parse_order_id d c))
    \<and> 0 \<le> re_filled r \<and> (0 < re_filled r \<longrightarrow> re_avg_price r \<noteq> None)
    \<and> (\<forall>a. re_avg_price r = Some a \<longrightarrow> 0 < a)
    \<and> (c \<and> finished d \<longrightarrow> re_status r = (if fully_executed d (re_filled r) then FILLED else CANCELLED))"
proof -
  from assms obtain f s a t u where f: "parse_filled d c = Inr f" and s: "parse_status d c f = Inr s"
    and a: "parse_average d f = Inr a"
    and r: "r = \<lparr>re_client_id = cid, re_platform_id = Some (py_text (parse_order_id d c)), re_status = s,
      re_filled = f, re_avg_price = a, re_created_at = t, re_updated_at = u\<rparr>"
    by (auto simp: parse_order_result_def Let_def rbind_eq_Inr)
  show ?thesis
    using parse_filled_facts(1) [OF f] parse_average_Inr [OF a] parse_status_finished [of d f s] s
    by (auto simp: r)
qed

definition algo_response :: metadata where
  "algo_response =
     [(''algoId'', Py_Int 77), (''algoStatus'', Py_Str ''FINISHED''), (''quantity'', Py_Str ''2''),
      (''actualQty'', Py_Str ''2''), (''actualPrice'', Py_Str ''101.5''), (''createTime'', Py_Int 1000)]"

theorem response_consistent_witness:
  "\<exists>r. parse_order_result algo_response ''id'' True = Inr r \<and> re_status r = FILLED \<and> 0 < re_filled r
     \<and> re_avg_price r \<noteq> None"
proof -
  let ?r = "\<lparr>re_client_id = ''id'', re_platform_id = Some ''77'', re_status = FILLED, re_filled = 2,
       re_avg_price = Some (203 / 2), re_created_at = 1000000, re_updated_at = 1000000\<rparr>"
  have r: "parse_order_result algo_response ''id'' True = Inr ?r" by code_simp
  have "finished algo_response" "fully_executed algo_response 2" by code_simp+
  with response_consistent [OF r] have "re_status ?r = FILLED \<and> 0 < re_filled ?r \<and> re_avg_price ?r \<noteq> None" by simp
  with r show ?thesis by blast
qed

definition stop_order :: unified_order where
  "stop_order = \<lparr>uo_instrument = btc_spot, uo_type = STOP_LIMIT, uo_side = SELL, uo_quantity = 2, uo_tif = GTC,
     uo_client_id = Some ''id'', uo_price = Some 99, uo_stop_price = Some 100, uo_reduce_only = False,
     uo_client_tag = None, uo_take_profit = None, uo_stop_loss = None, uo_position_id = None,
     uo_expire_at = None\<rparr>"

theorem payload_faithful_witness:
  "\<exists>d. build_place_order_payload stop_order BP_SPOT ''BTCUSDT'' ''id'' = Inr (d, False)
     \<and> map_option so_stop (read_payload BP_SPOT d) = Some (Some 100)"
proof -
  have "wf_order stop_order" by (simp add: wf_order_def stop_order_def)
  note f = payload_faithful [OF this, of BP_SPOT "''BTCUSDT''" "''id''"]
  have "expressible stop_order BP_SPOT" by (simp add: expressible_def stop_order_def)
  with f show ?thesis
    by (auto simp: has_stop_def stop_order_def split: sum.splits)
qed

end
