(* ===== verification/UTE_Binance_Answers.thy ===== *)
theory UTE_Binance_Answers
  imports UTE_Binance_Requests UTE_Binance_Wire
begin

text \<open>
  What the answers of the Binance adapter mean: the classes of translated errors, confirmed absence,
  confirmed cancellation, and a cancellation that is reported as failed although the venue accepted it.
  A scripted SDK is the venue the properties are applied to.
\<close>

subsection \<open>A scripted venue\<close>

text \<open>The venue is the list of the replies it will give; without one it times out.\<close>

definition timeout_error :: sdk_error where
  "timeout_error = \<lparr>se_kind = SK_Timeout, se_name = ''TimeoutError'', se_message = Py_None, se_text = [],
     se_code = Py_None, se_http = Py_None, se_status = Py_None\<rparr>"

definition api_error :: "int \<Rightarrow> int \<Rightarrow> sdk_error" where
  "api_error code http = \<lparr>se_kind = SK_Api, se_name = ''BinanceAPIException'', se_message = Py_Str ''refused'',
     se_text = ''refused'', se_code = Py_Int code, se_http = Py_Int http, se_status = Py_None\<rparr>"

definition scripted_config :: binance_config where
  "scripted_config = \<lparr>bc_api_key = Py_Str ''key'', bc_api_secret = Py_Str ''secret'', bc_testnet = Py_Bool True,
     bc_demo = Py_Bool False, bc_account = Py_Str ''desk'', bc_ttl = Some 60\<rparr>"

definition scripted_client :: client where
  "scripted_client = \<lparr>cl_testnet = Py_Bool True, cl_demo = Py_Bool False,
     cl_urls = (case expected_urls scripted_config of (x, y, z) \<Rightarrow> Some (Py_Str x, Py_Str y, Py_Str z))\<rparr>"

definition scripted :: "reply list benv" where
  "scripted = \<lparr>be_sdk = \<lparr>
     sk_create = (\<lambda>_ v. (Created scripted_client, v)), sk_close = (\<lambda>_ v. (None, v)),
     sk_request = (\<lambda>_ _ v. case v of [] \<Rightarrow> (Refused timeout_error None, []) | r # rs \<Rightarrow> (r, rs)),
     sk_headers = (\<lambda>_. None), sk_clock = (\<lambda>v. (0, v)), sk_new_id = (\<lambda>v. (''id'', v)), sk_sleep = (\<lambda>_ v. v),
     sk_digest = (\<lambda>_. ''0123456789abcdef'')\<rparr>, be_config = scripted_config\<rparr>"

definition linked :: "'v \<Rightarrow> (string, order_reference) dict \<Rightarrow> 'v bworld" where
  \<comment> \<open>a connected adapter that knows some orders\<close>
  "linked v refs = (binance_init v)\<lparr>bw_connected := True, bw_client := Some scripted_client, bw_refs := refs\<rparr>"

subsection \<open>Errors\<close>

lemma code_map_classes:
  "dict_get BINANCE_CODE_MAP c = Some k \<Longrightarrow> exn_is k UteError \<and> k \<noteq> UteError"
proof -
  have "list_all (\<lambda>(c, k). exn_is k UteError \<and> k \<noteq> UteError) BINANCE_CODE_MAP" by code_simp
  then show "dict_get BINANCE_CODE_MAP c = Some k \<Longrightarrow> ?thesis"
    by (auto simp: list_all_iff dest!: map_of_SomeD)
qed

definition classified :: "mapped_error \<Rightarrow> bool" where
  \<comment> \<open>a core exception, with a context exactly when it is an unspecific one\<close>
  "classified x \<longleftrightarrow>
     (case x of (e, context) \<Rightarrow>
        exn_is (exn_cls e) UteError \<and> exn_cls e \<noteq> UteError
        \<and> (case context of
             None \<Rightarrow> exn_cls e \<noteq> PlatformError
           | Some d \<Rightarrow> exn_cls e = PlatformError
               \<and> set (map fst d) \<subseteq> {''exception'', ''message'', ''code'', ''http_status''}))"

lemma core_classes [simp]:
  "exn_is RateLimitError UteError" "exn_is PlatformError UteError" "exn_is PlatformConnectionError UteError"
  "exn_is InvalidOrderError UteError" "exn_is InsufficientBalanceError UteError" "exn_is MarketClosedError UteError"
  "exn_is OrderNotFoundError UteError" "exn_is DuplicateOrderIdError UteError"
  by (simp_all add: exn_is_def numeral_eq_Suc)

lemma classified_context: "classified (with_context e code http m)"
  by (auto simp: classified_def with_context_def platform_context_def split: option.splits)

lemma classified_plain: "exn_is c UteError \<Longrightarrow> c \<noteq> UteError \<Longrightarrow> c \<noteq> PlatformError \<Longrightarrow> classified (Exn c m, None)"
  by (simp add: classified_def)

lemma classified_rejection: "classified (map_rejection c m, None)"
  by (simp add: map_rejection_def Let_def classified_plain)

lemma classified_busy: "classified (map_server_busy m, None)"
  by (simp add: map_server_busy_def classified_plain)

lemma classified_code: "map_code e c http m = Some x \<Longrightarrow> classified x"
  by (auto simp: map_code_def classified_context classified_rejection classified_plain split: option.splits if_splits
      dest: code_map_classes)

lemma classified_api: "classified (map_api_error e product m)"
  by (auto simp: map_api_error_def Let_def classified_context classified_busy classified_plain classified_code
      split: option.splits)

text \<open>
  Whatever exception the SDK raises, the translation is a core exception of a definite class; it
  carries a platform context exactly when the class is the unspecific \<open>PlatformError\<close>, and the context
  holds nothing but the exception's name, its message, its code and the HTTP status - no request and no
  signature. A ban or a rate-limit status is a \<open>RateLimitError\<close> whatever the code says, and a timeout or a
  transport failure is a connection error.
\<close>

theorem error_classes:
  "classified (map_binance_error e product)
   \<and> (se_kind e \<in> {SK_Api, SK_Order} \<and> as_int (se_http e) \<in> {Some 418, Some 429}
        \<longrightarrow> exn_cls (fst (map_binance_error e product)) = RateLimitError)
   \<and> (se_kind e \<in> {SK_Timeout, SK_Transport}
        \<longrightarrow> exn_cls (fst (map_binance_error e product)) = PlatformConnectionError)"
proof -
  have "classified (map_binance_error e product)"
    by (auto simp: map_binance_error_def Let_def classified_context classified_plain classified_api
        split: sdk_kind.splits) (simp add: classified_def)
  then show ?thesis
    by (cases "se_kind e") (auto simp: map_binance_error_def Let_def map_api_error_def)
qed

subsection \<open>Absence\<close>

text \<open>
  C29. An order is reported absent only when its absence is confirmed: the venue refused the query of a
  known order as not found, and the history of its symbol was then read and holds objects none of which
  is the order.
\<close>

theorem absence_confirmed:
  assumes "binance_get_order env cid w = (Inr None, w')" and "binance_inv env w"
  shows "\<exists>ref e w1 name xs. dict_get (bw_refs w) cid = Some ref
    \<and> run_order_request env (rf_product ref) (query_method (rf_product ref)) (lookup_params ref cid) w = (Inl e, w1)
    \<and> exn_is (exn_cls e) OrderNotFoundError
    \<and> dict_get history_methods (rf_product ref, rf_conditional ref) = Some name
    \<and> run_order_request env (rf_product ref) name [(''symbol'', W_text (rf_symbol ref))] w1 = (Inr (Py_List xs), w')
    \<and> list_all (\<lambda>x. is_map x \<and> \<not> history_entry ref cid x) xs"
proof -
  from assms(1) obtain ref where ref: "dict_get (bw_refs w) cid = Some ref"
    and run: "on_not_found
        (ebind (run_order_request env (rf_product ref) (query_method (rf_product ref)) (lookup_params ref cid))
           (\<lambda>x. eret (Some x)))
        (find_in_history env ref cid) w = (Inr None, w')"
    by (auto simp: binance_get_order_def require_client_def ebind_eq eget_def eguard_def elift_def eret_def
        split: option.splits if_splits)
  have "\<exists>name. dict_get history_methods (rf_product ref, rf_conditional ref) = Some name"
    using assms(2) ref by (cases "rf_product ref"; cases "rf_conditional ref")
      (auto simp: binance_inv_def history_methods_def)
  then obtain name where name: "dict_get history_methods (rf_product ref, rf_conditional ref) = Some name" by blast
  from run obtain e w1
    where q: "run_order_request env (rf_product ref) (query_method (rf_product ref)) (lookup_params ref cid) w = (Inl e, w1)"
      and nf: "exn_is (exn_cls e) OrderNotFoundError" and h: "find_in_history env ref cid w1 = (Inr None, w')"
    by (auto simp: on_not_found_def etry_def ebind_def eret_def elift_def split: prod.splits sum.splits if_splits)
  from h obtain a v
    where a: "run_order_request env (rf_product ref) name [(''symbol'', W_text (rf_symbol ref))] w1 = (Inr a, v)"
      and rest: "(case a of
           Py_List xs \<Rightarrow>
             ebind (eguard (list_ex (\<lambda>x. \<not> is_map x) xs) PlatformError ''order history contains a non-object entry'') (\<lambda>_.
             eret (List.find (history_entry ref cid) xs))
         | _ \<Rightarrow> eraise PlatformError ''order history response is not a list'') v = (Inr None, w')"
    by (auto simp: find_in_history_def name ebind_eq)
  from rest obtain xs where "a = Py_List xs" "list_all is_map xs" "List.find (history_entry ref cid) xs = None" "v = w'"
    by (cases a) (auto simp: ebind_eq eguard_def guard_exn_def elift_def eret_def list_ex_iff list_all_iff split: if_splits)
  then show ?thesis using a ref q nf name find_NoneD [of "history_entry ref cid" xs] by (auto simp: list_all_iff)
qed


subsection \<open>Cancellation\<close>

text \<open>
  Polling: the order was queried \<open>n\<close> times from \<open>v\<close>, each answer was not final and was followed by the
  pause, and the world is now \<open>u\<close>.
\<close>

definition paused :: "'v benv \<Rightarrow> 'v bworld \<Rightarrow> 'v bworld" where
  "paused env w = w\<lparr>bw_venue := sk_sleep (be_sdk env) (1 / 4) (bw_venue w)\<rparr>"

primrec polled :: "'v benv \<Rightarrow> string \<Rightarrow> nat \<Rightarrow> 'v bworld \<Rightarrow> 'v bworld \<Rightarrow> bool" where
  "polled env cid 0 v u \<longleftrightarrow> u = v"
| "polled env cid (Suc n) v u \<longleftrightarrow> (\<exists>c x. binance_get_order env cid v = (Inr c, x)
     \<and> pred_option (\<lambda>r. re_status r \<notin> {FILLED, CANCELLED, REJECTED, EXPIRED}) c \<and> polled env cid n (paused env x) u)"

lemma terminal_result_Some: "terminal_result c \<longleftrightarrow> (\<exists>r. c = Some r \<and> re_status r \<in> {FILLED, CANCELLED, REJECTED, EXPIRED})"
  by (auto simp: terminal_result_def TERMINAL_STATUSES_def split: option.splits)

lemma wait_terminal_value:
  "wait_terminal n env cid w = (Inr (Some r), w') \<Longrightarrow>
     re_status r \<in> {FILLED, CANCELLED, REJECTED, EXPIRED}
     \<and> (\<exists>k u. k < n \<and> polled env cid k w u \<and> binance_get_order env cid u = (Inr (Some r), w'))"
proof (induction n arbitrary: w)
  case (Suc n)
  then obtain c v where c: "binance_get_order env cid w = (Inr c, v)"
    and rest: "(if terminal_result c then eret c
       else ebind (if 0 < n then bside (\<lambda>v. ((), sk_sleep (be_sdk env) (1 / 4) v)) else eret ())
              (\<lambda>_. wait_terminal n env cid)) v = (Inr (Some r), w')"
    by (auto simp: ebind_eq)
  show ?case
  proof (cases "terminal_result c")
    case True
    with rest c show ?thesis
      by (auto simp: eret_def terminal_result_Some intro!: exI [of _ "0 :: nat"] exI [of _ w])
  next
    case False
    with rest have "0 < n" by (cases n) (auto simp: eret_def ebind_def)
    with rest False have "wait_terminal n env cid (paused env v) = (Inr (Some r), w')"
      by (simp add: ebind_def bside_def paused_def)
    from Suc.IH [OF this] obtain k u where k: "k < n" "polled env cid k (paused env v) u"
        "binance_get_order env cid u = (Inr (Some r), w')" "re_status r \<in> {FILLED, CANCELLED, REJECTED, EXPIRED}"
      by blast
    from c k(2) False have "polled env cid (Suc k) w u"
      by (cases c) (auto simp: terminal_result_Some)
    with k show ?thesis by (intro conjI exI [of _ "Suc k"] exI [of _ u]) auto
  qed
qed (simp add: eret_def)

text \<open>
  C30. The cancellation of a conditional order returns only what the venue has confirmed. The cancel
  request of the order's product is sent first, and it was accepted or refused because the order was
  no longer there; then the order is queried, at most eight times with a pause after every answer that
  is not final; and the result is the answer to the last of these queries, whose status is a final one.
\<close>

theorem cancel_confirmed:
  assumes "binance_cancel_order env cid w = (Inr r, w')" and "dict_get (bw_refs w) cid = Some ref"
    and "rf_conditional ref"
  shows "re_status r \<in> {FILLED, CANCELLED, REJECTED, EXPIRED}
    \<and> (\<exists>x v n u. run_order_request env (rf_product ref) (cancel_method (rf_product ref)) (lookup_params ref cid) w = (x, v)
         \<and> (case x of Inl e \<Rightarrow> exn_is (exn_cls e) OrderNotFoundError | Inr _ \<Rightarrow> True)
         \<and> n < 8 \<and> polled env cid n v u \<and> binance_get_order env cid u = (Inr (Some r), w'))"
proof -
  from assms have "cancel_conditional env ref cid w = (Inr r, w')"
    by (auto simp: binance_cancel_order_def require_client_def ebind_eq eget_def eguard_def elift_def guard_exn_def
        split: if_splits)
  moreover obtain x v where run:
    "run_order_request env (rf_product ref) (cancel_method (rf_product ref)) (lookup_params ref cid) w = (x, v)"
    by fastforce
  ultimately have "wait_terminal 8 env cid v = (Inr (Some r), w')
      \<and> (case x of Inl e \<Rightarrow> exn_is (exn_cls e) OrderNotFoundError | Inr _ \<Rightarrow> True)"
    by (cases x) (auto simp: cancel_conditional_def wait_for_conditional_terminal_order_def ebind_eq eattempt_def
        elift_def eret_def split: if_splits option.splits)
  with wait_terminal_value [of 8 env cid v r w'] run show ?thesis by blast
qed

text \<open>
  A plain cancellation that the venue accepted is reported as an error when the response carries an
  executed quantity without a price: where a placement and a modification query the order for its
  price, a cancellation raises. The one request has been sent and no query follows.
\<close>

theorem cancel_without_price:
  assumes "bw_connected w" "bw_client w \<noteq> None" "dict_get (bw_refs w) cid = Some ref" "\<not> rf_conditional ref"
    and reply: "sk_request (be_sdk env) (cancel_method (rf_product ref)) (lookup_params ref cid) (fst (bw_venue w))
      = (Reply (Py_Map d), v)"
    and "field d ''rateLimits'' = Py_None" and "parse_order_result d cid False = Inl e"
    and "exn_cls e = MissingAverageFillPriceError"
  shows "\<exists>w'. binance_cancel_order (recorded env) cid w = (Inl e, w')
    \<and> sent w' = sent w @ [(cancel_method (rf_product ref), lookup_params ref cid)]"
proof -
  obtain u l where u: "bw_venue w = (u, l)" by fastforce
  have req: "sk_request (recording (be_sdk env)) (cancel_method (rf_product ref)) (lookup_params ref cid) (u, l)
      = (Reply (Py_Map d), v, l @ [(cancel_method (rf_product ref), lookup_params ref cid)])"
    using reply u by (simp add: recording_def)
  have rec: "\<exists>w'. record_rate_limit_response (recorded env) p h (Py_Map d) None x = (Inr (), w') \<and> sent w' = sent x"
    for p h and x :: "'a recorded bworld"
    using assms(6)
    by (simp add: record_rate_limit_response_def ebind_def bside_def Let_def through_def sent_def update_tracker_def
        elift_def eupd_def split: prod.splits)
  let ?w = "w\<lparr>bw_venue := (v, l @ [(cancel_method (rf_product ref), lookup_params ref cid)])\<rparr>"
  obtain w' where "record_rate_limit_response (recorded env) (rf_product ref) (sk_headers (be_sdk env) v) (Py_Map d) None ?w
      = (Inr (), w')" "sent w' = sent ?w"
    using rec by blast
  then show ?thesis
    using assms(1-4,7) req u
    by (auto simp: binance_cancel_order_def run_order_request_def require_client_def ebind_def bside_def eget_def
        eguard_def guard_exn_def elift_def eret_def order_response_def sent_def split: prod.splits sum.splits)
qed

subsection \<open>Applications\<close>

definition plain_ref :: order_reference where
  "plain_ref = \<lparr>rf_product = BP_USD_M, rf_symbol = ''BTCUSDT'', rf_conditional = False, rf_type = LIMIT,
     rf_platform_id = Some ''7''\<rparr>"

definition algo_ref :: order_reference where
  "algo_ref = \<lparr>rf_product = BP_USD_M, rf_symbol = ''BTCUSDT'', rf_conditional = True, rf_type = STOP,
     rf_platform_id = None\<rparr>"

definition partial_cancel :: metadata where
  \<comment> \<open>the answer to the cancellation of a partially executed order, without its price\<close>
  "partial_cancel = [(''orderId'', Py_Int 7), (''status'', Py_Str ''CANCELED''), (''executedQty'', Py_Str ''1''),
     (''updateTime'', Py_Int 1000)]"

definition absent_world :: "reply list bworld" where
  "absent_world = linked [Refused (api_error (-2013) 400) None, Reply (Py_List [])] [(''a'', plain_ref)]"

definition algo_world :: "reply list bworld" where
  "algo_world = linked [Reply Py_None, Reply (Py_Map [(''algoId'', Py_Int 5), (''algoStatus'', Py_Str ''CANCELED''),
     (''createTime'', Py_Int 1000)])] [(''a'', algo_ref)]"

definition partial_world :: "reply list recorded bworld" where
  "partial_world = linked ([Reply (Py_Map partial_cancel)], []) [(''a'', plain_ref)]"

lemma linked_inv:
  "(\<forall>cid ref. dict_get refs cid = Some ref \<longrightarrow> rf_conditional ref \<longrightarrow> rf_product ref = BP_USD_M)
   \<Longrightarrow> binance_inv scripted (linked v refs)"
  by (simp add: binance_inv_def linked_def binance_init_def connection_valid_def validate_client_urls_Inr served_by_def
      scripted_def scripted_client_def scripted_config_def split: prod.splits)

theorem absence_confirmed_witness:
  "\<exists>e w1. run_order_request scripted BP_USD_M ''futures_get_order'' (lookup_params plain_ref ''a'') absent_world = (Inl e, w1)
     \<and> exn_is (exn_cls e) OrderNotFoundError"
proof -
  have "fst (binance_get_order scripted ''a'' absent_world) = Inr None" by code_simp
  then obtain w' where run: "binance_get_order scripted ''a'' absent_world = (Inr None, w')" by (metis prod.collapse)
  have "binance_inv scripted absent_world"
    unfolding absent_world_def by (rule linked_inv) (simp add: plain_ref_def)
  from absence_confirmed [OF run this] show ?thesis
    by (auto simp: absent_world_def linked_def plain_ref_def query_method_def)
qed

theorem cancel_confirmed_witness:
  "\<exists>r v n u w'. binance_cancel_order scripted ''a'' algo_world = (Inr r, w') \<and> re_status r \<in> {FILLED, CANCELLED, REJECTED, EXPIRED}
     \<and> run_order_request scripted BP_USD_M ''futures_cancel_order'' (lookup_params algo_ref ''a'') algo_world = (Inr Py_None, v)
     \<and> polled scripted ''a'' n v u \<and> binance_get_order scripted ''a'' u = (Inr (Some r), w')"
proof -
  have "is_ok (fst (binance_cancel_order scripted ''a'' algo_world))" by code_simp
  then obtain r w' where run: "binance_cancel_order scripted ''a'' algo_world = (Inr r, w')"
    by (cases "binance_cancel_order scripted ''a'' algo_world"; cases "fst (binance_cancel_order scripted ''a'' algo_world)") auto
  have ref: "dict_get (bw_refs algo_world) ''a'' = Some algo_ref" "rf_conditional algo_ref" "rf_product algo_ref = BP_USD_M"
    by (simp_all add: algo_world_def linked_def algo_ref_def)
  have "fst (run_order_request scripted BP_USD_M ''futures_cancel_order'' (lookup_params algo_ref ''a'') algo_world) = Inr Py_None"
    by code_simp
  with cancel_confirmed [OF run ref(1,2)] run show ?thesis
    unfolding ref(3) cancel_method_def binance_product.case by fastforce
qed

theorem cancel_without_price_witness:
  "\<exists>e w'. binance_cancel_order (recorded scripted) ''a'' partial_world = (Inl e, w') \<and> length (sent w') = 1"
proof -
  have w: "bw_connected partial_world" "bw_client partial_world \<noteq> None" "dict_get (bw_refs partial_world) ''a'' = Some plain_ref"
      "\<not> rf_conditional plain_ref" "sent partial_world = []"
      "sk_request (be_sdk scripted) (cancel_method (rf_product plain_ref)) (lookup_params plain_ref ''a'') (fst (bw_venue partial_world))
        = (Reply (Py_Map partial_cancel), [])" "field partial_cancel ''rateLimits'' = Py_None"
    by (simp_all add: partial_world_def linked_def binance_init_def plain_ref_def scripted_def sent_def partial_cancel_def field_def)
  have "fails_with (parse_order_result partial_cancel ''a'' False) MissingAverageFillPriceError" by code_simp
  then obtain e where e: "parse_order_result partial_cancel ''a'' False = Inl e" "exn_cls e = MissingAverageFillPriceError"
    by (auto simp: fails_with_def split: sum.splits)
  from cancel_without_price [OF w(1-4,6,7) e] w(5) show ?thesis by auto
qed

theorem specs_never_change_witness:
  "\<exists>w1 w2. binance_fetch_spec scripted btc_perp (reached scripted [BC_connect]
        [Reply (Py_Map [(''symbols'', Py_List [Py_Map perp_row])])]) = (Inr perp_spec, w1)
     \<and> binance_fetch_spec scripted btc_perp (after_calls scripted [BC_disconnect, BC_connect] w1) = (Inr perp_spec, w2)"
proof -
  let ?w = "reached scripted [BC_connect] [Reply (Py_Map [(''symbols'', Py_List [Py_Map perp_row])])]"
  have "fst (binance_fetch_spec scripted btc_perp ?w) = Inr perp_spec" by code_simp
  then obtain w1 where w1: "binance_fetch_spec scripted btc_perp ?w = (Inr perp_spec, w1)" by (metis prod.collapse)
  have "is_ok (fst (binance_fetch_spec scripted btc_perp (after_calls scripted [BC_disconnect, BC_connect]
      (snd (binance_fetch_spec scripted btc_perp ?w)))))"
    by code_simp
  then obtain sp w2 where w2: "binance_fetch_spec scripted btc_perp (after_calls scripted [BC_disconnect, BC_connect] w1) = (Inr sp, w2)"
    by (cases "fst (binance_fetch_spec scripted btc_perp (after_calls scripted [BC_disconnect, BC_connect] w1))")
      (auto simp: w1 prod_eq_iff)
  from specs_never_change [OF w1 w2] w1 w2 show ?thesis by blast
qed

theorem binance_reachable_witness:
  "served_by scripted_config scripted_client"
proof -
  have "bw_client (reached scripted [BC_connect] []) = Some scripted_client" by code_simp
  moreover have "be_config scripted = scripted_config" by (simp add: scripted_def)
  ultimately show ?thesis using binance_reachable [of scripted "[BC_connect]" "[]"] by metis
qed

definition limit_order :: unified_order where
  "limit_order = stop_order\<lparr>uo_type := LIMIT, uo_instrument := btc_perp\<rparr>"

definition desk_world :: "reply list recorded bworld" where
  \<comment> \<open>connected; the venue serves its catalog and then times out\<close>
  "desk_world = reached (recorded scripted) [BC_connect] ([Reply (Py_Map [(''symbols'', Py_List [Py_Map perp_row])])], [])"

theorem placed_once_witness:
  "\<exists>w'. placed limit_order desk_world 5 w'"
proof -
  obtain r w' where run: "binance_place_order (recorded scripted) limit_order desk_world = (r, w')" by fastforce
  have "creates (sent (snd (binance_place_order (recorded scripted) limit_order desk_world))) \<noteq> []" by code_simp
  moreover have "sent desk_world = []" by code_simp
  ultimately have "\<not> grown desk_world 5 [] w'" by (auto simp: run grown_def)
  with placed_once [OF run] show ?thesis by blast
qed

definition banned_error :: sdk_error where
  \<comment> \<open>an unknown code under a ban status\<close>
  "banned_error = \<lparr>se_kind = SK_Api, se_name = ''BinanceAPIException'', se_message = Py_Str ''Way too much'',
     se_text = ''Way too much'', se_code = Py_Int (- 1), se_http = Py_Int 418, se_status = Py_None\<rparr>"

theorem error_classes_witness:
  "exn_cls (fst (map_binance_error banned_error None)) = RateLimitError
   \<and> snd (map_binance_error banned_error None) = None"
proof -
  note f = error_classes [of banned_error None]
  have "exn_cls (fst (map_binance_error banned_error None)) = RateLimitError"
    using f by (simp add: banned_error_def)
  with f show ?thesis
    by (auto simp: classified_def split: prod.splits option.splits)
qed

end
