(* ===== verification/UTE_Bybit_Symbols.thy ===== *)
theory UTE_Bybit_Symbols
  imports UTE_Python
begin

text \<open>
  \<^verbatim>\<open>bybit/symbols.py\<close>, \<^verbatim>\<open>bybit/enums.py\<close> and the category of an instrument: canonical instruments and
  the symbols of the venue, whose categories are \<^verbatim>\<open>spot\<close>, \<^verbatim>\<open>linear\<close> and \<^verbatim>\<open>inverse\<close>.
\<close>

datatype margin_mode = MM_CROSS | MM_ISOLATED
datatype position_mode = PM_ONE_WAY | PM_HEDGE

definition margin_mode_value :: "margin_mode \<Rightarrow> string" where
  "margin_mode_value m = (case m of MM_CROSS \<Rightarrow> ''cross'' | MM_ISOLATED \<Rightarrow> ''isolated'')"

definition position_mode_value :: "position_mode \<Rightarrow> string" where
  "position_mode_value m = (case m of PM_ONE_WAY \<Rightarrow> ''one_way'' | PM_HEDGE \<Rightarrow> ''hedge'')"

definition position_mode_of :: "string \<Rightarrow> position_mode result" where
  \<comment> \<open>\<^verbatim>\<open>PositionMode(value)\<close>\<close>
  "position_mode_of s =
     (if s = ''one_way'' then Inr PM_ONE_WAY else if s = ''hedge'' then Inr PM_HEDGE
      else raise_exn PyValueError ''not a valid PositionMode'')"

definition CATEGORY_CLASS :: "(string, asset_class) dict" where
  "CATEGORY_CLASS = [(''spot'', SPOT), (''linear'', FUTURES), (''inverse'', FUTURES)]"

definition to_bybit_symbol :: "instrument \<Rightarrow> string result" where
  "to_bybit_symbol i =
     (case in_platform_symbol i of
        Some s \<Rightarrow> Inr s
      | None \<Rightarrow>
          rbind (guard_exn (in_asset_class i \<notin> {SPOT, FUTURES}) InvalidSymbolError
                   ''Asset class is not supported by Bybit'') (\<lambda>_.
          (case in_quote i of
             None \<Rightarrow> raise_exn InvalidSymbolError ''Instrument has no quote_currency''
           | Some q \<Rightarrow> Inr (in_symbol i @ q))))"

definition bybit_instrument :: "string \<Rightarrow> string \<Rightarrow> asset_class \<Rightarrow> string option \<Rightarrow> int option \<Rightarrow> instrument" where
  "bybit_instrument b q c currency multiplier =
     \<lparr>in_symbol = b, in_asset_class = c, in_quote = Some q, in_exchange = None, in_currency = currency,
      in_expiry = None, in_strike = None, in_right = None, in_multiplier = multiplier, in_platform_symbol = None\<rparr>"

definition from_bybit_symbol :: "string \<Rightarrow> string \<Rightarrow> string \<Rightarrow> string \<Rightarrow> bool \<Rightarrow> instrument result" where
  "from_bybit_symbol symbol b q category is_perpetual =
     (case dict_get CATEGORY_CLASS category of
        None \<Rightarrow> raise_exn InvalidSymbolError ''Unknown Bybit category''
      | Some c \<Rightarrow>
          rbind (guard_exn (symbol \<noteq> b @ q) InvalidSymbolError ''Bybit symbol does not match base_coin and quote_coin'') (\<lambda>_.
          if c = FUTURES then
            rbind (guard_exn (\<not> is_perpetual) InvalidSymbolError ''Dated futures are not yet supported'') (\<lambda>_.
            instrument_post_init
              (bybit_instrument b q FUTURES (Some (if category = ''inverse'' then b else q)) (Some 1)))
          else if c = SPOT then instrument_post_init (bybit_instrument b q SPOT None None)
          else raise_exn InvalidSymbolError ''Unsupported asset class''))"

definition instrument_to_category :: "instrument \<Rightarrow> string result" where
  "instrument_to_category i =
     (if in_asset_class i = SPOT then Inr ''spot''
      else if in_asset_class i = FUTURES then
        (if in_currency i = in_quote i then Inr ''linear'' else Inr ''inverse'')
      else raise_exn InvalidSymbolError ''Asset class is not supported by Bybit'')"

subsection \<open>Listings and instruments\<close>

lemma from_bybit_symbol_cases:
  assumes "from_bybit_symbol symbol b q category True = Inr i"
  obtains (spot) "category = ''spot''" "instrument_post_init (bybit_instrument b q SPOT None None) = Inr i"
  | (linear) "category = ''linear''" "instrument_post_init (bybit_instrument b q FUTURES (Some q) (Some 1)) = Inr i"
  | (inverse) "category = ''inverse''" "instrument_post_init (bybit_instrument b q FUTURES (Some b) (Some 1)) = Inr i"
  using assms
  by (auto simp: from_bybit_symbol_def CATEGORY_CLASS_def rbind_eq_Inr split: option.splits if_splits)

lemma from_bybit_symbol_name: "from_bybit_symbol symbol b q category is_perpetual = Inr i \<Longrightarrow> symbol = b @ q"
  by (auto simp: from_bybit_symbol_def rbind_eq_Inr split: option.splits)

text \<open>
  A listing of the venue whose coins are upper-case leads to an instrument that belongs to the category
  of the listing and is spelled as the listing is - the inverse contract of a coin on itself excepted,
  whose margin and quote currencies agree, so that it is taken for a linear one.
\<close>

lemma listing_routed:
  assumes i: "from_bybit_symbol symbol b q category True = Inr i"
    and case_: "upper b = b" "upper q = q" and inv: "category = ''inverse'' \<longrightarrow> b \<noteq> q"
  shows "instrument_to_category i = Inr category \<and> to_bybit_symbol i = Inr symbol \<and> wf_instrument i"
proof -
  have wf: "wf_instrument i"
    using i by (cases rule: from_bybit_symbol_cases) (auto simp: wf_instrument_def instrument_post_init_idem)
  have "to_bybit_symbol i = Inr (b @ q) \<and> instrument_to_category i = Inr category"
    using i case_ inv
    by (cases rule: from_bybit_symbol_cases)
      (simp_all add: instrument_post_init_Inr instrument_normalise_def bybit_instrument_def
        to_bybit_symbol_def instrument_to_category_def guard_exn_def)
  with wf from_bybit_symbol_name [OF i] show ?thesis by simp
qed

end
