(* ===== verification/UTE_Bybit_Orders.thy ===== *)
theory UTE_Bybit_Orders
  imports UTE_Bybit_Symbols UTE_Trailing_Types
begin

text \<open>
  \<^verbatim>\<open>bybit/orders.py\<close>: unified orders, modifications, protection and trailing requests as the parameters
  of Bybit requests, and Bybit order entries as unified results. A text the venue sends for a number is
  malformed when it spells an infinity or NaN.
\<close>

subsection \<open>Readings of venue values\<close>

definition to_decimal :: "py_object \<Rightarrow> decimal result" where
  \<comment> \<open>\<^verbatim>\<open>Decimal(str(x))\<close>\<close>
  "to_decimal x =
     (case dec_of_object x of None \<Rightarrow> raise_exn PyDecimalInvalidOperation ''ConversionSyntax'' | Some d \<Rightarrow> Inr d)"

definition to_int :: "py_object \<Rightarrow> int result" where
  \<comment> \<open>\<^verbatim>\<open>int(str(x))\<close>\<close>
  "to_int x =
     (case int_of_text (py_text x) of None \<Rightarrow> raise_exn PyValueError ''invalid literal for int()'' | Some n \<Rightarrow> Inr n)"

definition epoch_instant :: "int \<Rightarrow> instant result" where
  \<comment> \<open>\<^verbatim>\<open>datetime.fromtimestamp\<close> of milliseconds\<close>
  "epoch_instant ms =
     (case instant_of_ms ms of
        None \<Rightarrow> raise_exn (if 2 ^ 63 \<le> \<bar>ms div 1000\<bar> then PyArithmeticError else PyValueError) ''timestamp out of range''
      | Some t \<Rightarrow> Inr t)"

definition to_instant :: "py_object \<Rightarrow> instant result" where
  \<comment> \<open>milliseconds since the epoch, as a number or a text\<close>
  "to_instant x = rbind (to_int x) epoch_instant"

definition is_missing :: "py_object \<Rightarrow> bool" where
  \<comment> \<open>\<^verbatim>\<open>raw is None or raw == ""\<close>\<close>
  "is_missing x \<longleftrightarrow> x = Py_None \<or> x = Py_Str []"

subsection \<open>Tables\<close>

definition BYBIT_ORDER_TYPE :: "(order_type, string) dict" where
  "BYBIT_ORDER_TYPE = [(MARKET, ''Market''), (LIMIT, ''Limit''), (STOP, ''Market''), (STOP_LIMIT, ''Limit'')]"

definition BYBIT_TIME_IN_FORCE :: "(time_in_force, string) dict" where
  "BYBIT_TIME_IN_FORCE = [(GTC, ''GTC''), (IOC, ''IOC''), (FOK, ''FOK'')]"

definition TRIGGER_BASIS :: "(trailing_basis, string) dict" where
  "TRIGGER_BASIS = [(TB_LAST, ''LastPrice''), (TB_MARK, ''MarkPrice'')]"

definition BYBIT_ORDER_STATUS :: "(string, order_status) dict" where
  "BYBIT_ORDER_STATUS = [(''New'', OPEN), (''PartiallyFilled'', PARTIALLY_FILLED), (''Untriggered'', OPEN),
     (''Triggered'', OPEN), (''Filled'', FILLED), (''Cancelled'', CANCELLED), (''Canceled'', CANCELLED),
     (''Deactivated'', CANCELLED), (''Rejected'', REJECTED)]"

subsection \<open>Placements\<close>

definition str_dec :: "decimal option \<Rightarrow> wire" where
  \<comment> \<open>\<^verbatim>\<open>str(x)\<close> of an optional decimal\<close>
  "str_dec x = (case x of None \<Rightarrow> W_text ''None'' | Some d \<Rightarrow> W_dec d)"

definition bybit_order_checks :: "unified_order \<Rightarrow> string \<Rightarrow> unit result" where
  "bybit_order_checks u category =
     rbind (guard_exn (\<not> dict_has BYBIT_ORDER_TYPE (uo_type u)) UnsupportedOrderTypeError
              ''Order type is not supported by Bybit'') (\<lambda>_.
     rbind (guard_exn (uo_tif u = DAY) UnsupportedOrderTypeError ''time_in_force=DAY is not supported by Bybit'') (\<lambda>_.
     rbind (guard_exn (uo_type u \<in> {STOP, STOP_LIMIT} \<and> category = ''spot'') UnsupportedOrderTypeError
              ''conditional orders are not supported for spot on Bybit'') (\<lambda>_.
     rbind (guard_exn (category = ''spot'' \<and> uo_reduce_only u) UnsupportedOrderTypeError
              ''reduce_only is not supported for spot orders on Bybit'') (\<lambda>_.
     rbind (guard_exn (uo_reduce_only u \<and> (uo_take_profit u \<noteq> None \<or> uo_stop_loss u \<noteq> None)) UnsupportedOrderTypeError
              ''reduce_only cannot be combined with take_profit/stop_loss on Bybit'') (\<lambda>_.
     guard_exn (category = ''spot'' \<and> uo_type u \<noteq> LIMIT \<and> (uo_take_profit u \<noteq> None \<or> uo_stop_loss u \<noteq> None))
       UnsupportedOrderTypeError ''take_profit/stop_loss on spot orders is only supported for LIMIT orders'')))))"

definition has_limit_price :: "tpsl option \<Rightarrow> bool" where
  "has_limit_price a \<longleftrightarrow> (case a of None \<Rightarrow> False | Some x \<Rightarrow> tp_limit x \<noteq> None)"

definition leg_mode :: "tpsl option \<Rightarrow> tpsl option \<Rightarrow> wire" where
  "leg_mode tp sl = W_text (if has_limit_price tp \<or> has_limit_price sl then ''Partial'' else ''Full'')"

definition put_leg :: "string \<Rightarrow> string \<Rightarrow> tpsl option \<Rightarrow> params \<Rightarrow> params" where
  \<comment> \<open>one side of the protection: its trigger, the type of its order and the limit price if it has one\<close>
  "put_leg kind prefix a d =
     (case a of
        None \<Rightarrow> d
      | Some x \<Rightarrow>
          let d1 = dict_set kind (W_dec (tp_trigger x)) d in
          (case tp_limit x of
             Some l \<Rightarrow> dict_set (prefix @ ''LimitPrice'') (W_dec l) (dict_set (prefix @ ''OrderType'') (W_text ''Limit'') d1)
           | None \<Rightarrow> dict_set (prefix @ ''OrderType'') (W_text ''Market'') d1))"

definition attach_tp_sl :: "unified_order \<Rightarrow> string \<Rightarrow> params \<Rightarrow> params" where
  "attach_tp_sl u category d =
     (if uo_take_profit u = None \<and> uo_stop_loss u = None then d
      else
        let d1 = (if category \<noteq> ''spot'' then dict_set ''tpslMode'' (leg_mode (uo_take_profit u) (uo_stop_loss u)) d else d)
        in put_leg ''stopLoss'' ''sl'' (uo_stop_loss u) (put_leg ''takeProfit'' ''tp'' (uo_take_profit u) d1))"

definition put_limit :: "unified_order \<Rightarrow> params \<Rightarrow> params result" where
  "put_limit u d =
     (if uo_type u \<in> {LIMIT, STOP_LIMIT} then
        (case dict_get BYBIT_TIME_IN_FORCE (uo_tif u) of
           None \<Rightarrow> raise_exn PyException ''KeyError''
         | Some t \<Rightarrow> Inr (dict_set ''timeInForce'' (W_text t) (dict_set ''price'' (str_dec (uo_price u)) d)))
      else Inr d)"

definition put_trigger :: "unified_order \<Rightarrow> params \<Rightarrow> params" where
  "put_trigger u d =
     (if uo_type u \<in> {STOP, STOP_LIMIT} then
        dict_set ''triggerDirection'' (W_int (if uo_side u = BUY then 1 else 2))
          (dict_set ''triggerPrice'' (str_dec (uo_stop_price u)) d)
      else d)"

definition bybit_order_payload :: "unified_order \<Rightarrow> string \<Rightarrow> string \<Rightarrow> string \<Rightarrow> int option \<Rightarrow> params result" where
  "bybit_order_payload u category symbol cid idx =
     rbind (bybit_order_checks u category) (\<lambda>_.
     let d0 = [(''category'', W_text category), (''symbol'', W_text symbol),
               (''side'', W_text (if uo_side u = BUY then ''Buy'' else ''Sell'')),
               (''orderType'', W_text (the (dict_get BYBIT_ORDER_TYPE (uo_type u)))),
               (''qty'', W_dec (uo_quantity u)), (''orderLinkId'', W_text cid)];
         d1 = (if category = ''spot'' \<and> uo_type u = MARKET then dict_set ''marketUnit'' (W_text ''baseCoin'') d0 else d0)
     in rbind (put_limit u d1) (\<lambda>d2.
        let d3 = put_trigger u d2;
            d4 = (if uo_reduce_only u \<and> category \<noteq> ''spot'' then dict_set ''reduceOnly'' (W_text ''true'') d3 else d3);
            d5 = (case idx of None \<Rightarrow> d4
                  | Some n \<Rightarrow> if category \<noteq> ''spot'' then dict_set ''positionIdx'' (W_int n) d4 else d4)
        in Inr (attach_tp_sl u category d5)))"

subsection \<open>Modifications and cancellations\<close>

definition put_leg_amend :: "string \<Rightarrow> string \<Rightarrow> tpsl option \<Rightarrow> params \<Rightarrow> params" where
  "put_leg_amend kind prefix a d =
     (case a of
        None \<Rightarrow> d
      | Some x \<Rightarrow>
          let d1 = dict_set kind (W_dec (tp_trigger x)) d in
          (case tp_limit x of
             Some l \<Rightarrow> dict_set ''tpslMode'' (W_text ''Partial'') (dict_set (prefix @ ''LimitPrice'') (W_dec l) d1)
           | None \<Rightarrow> if dict_has d1 ''tpslMode'' then d1 else dict_set ''tpslMode'' (W_text ''Full'') d1))"

definition put_dec :: "string \<Rightarrow> decimal option \<Rightarrow> params \<Rightarrow> params" where
  "put_dec k x d = (case x of None \<Rightarrow> d | Some v \<Rightarrow> dict_set k (W_dec v) d)"

definition bybit_amend_payload :: "order_modification \<Rightarrow> string \<Rightarrow> string \<Rightarrow> params result" where
  "bybit_amend_payload m category symbol =
     rbind (guard_exn (category = ''spot'' \<and> (mo_take_profit m \<noteq> None \<or> mo_stop_loss m \<noteq> None)) UnsupportedOrderTypeError
              ''take_profit/stop_loss modification is not supported for spot orders on Bybit'') (\<lambda>_.
     Inr (put_leg_amend ''stopLoss'' ''sl'' (mo_stop_loss m)
           (put_leg_amend ''takeProfit'' ''tp'' (mo_take_profit m)
             (put_dec ''triggerPrice'' (mo_stop_price m) (put_dec ''price'' (mo_price m) (put_dec ''qty'' (mo_quantity m)
               [(''category'', W_text category), (''symbol'', W_text symbol), (''orderLinkId'', W_text (mo_client_id m))]))))))"

definition bybit_cancel_payload :: "string \<Rightarrow> string \<Rightarrow> string \<Rightarrow> params" where
  "bybit_cancel_payload cid category symbol =
     [(''category'', W_text category), (''symbol'', W_text symbol), (''orderLinkId'', W_text cid)]"

subsection \<open>Position protection and trailing\<close>

definition position_params :: "string \<Rightarrow> string \<Rightarrow> int \<Rightarrow> params" where
  "position_params category symbol idx =
     [(''category'', W_text category), (''symbol'', W_text symbol), (''positionIdx'', W_int idx)]"

definition trigger_by :: "trailing_basis option \<Rightarrow> string option" where
  "trigger_by b = (case b of None \<Rightarrow> None | Some x \<Rightarrow> dict_get TRIGGER_BASIS x)"

definition put_text_if :: "bool \<Rightarrow> string \<Rightarrow> string option \<Rightarrow> params \<Rightarrow> params" where
  "put_text_if b k x d = (case x of None \<Rightarrow> d | Some s \<Rightarrow> if b then dict_set k (W_text s) d else d)"

definition set_trading_stop_payload ::
    "string \<Rightarrow> string \<Rightarrow> int \<Rightarrow> tpsl option \<Rightarrow> tpsl option \<Rightarrow> trailing_basis option \<Rightarrow> params result" where
  "set_trading_stop_payload category symbol idx tp sl basis =
     rbind (guard_exn (tp = None \<and> sl = None) PyValueError ''at least one of take_profit or stop_loss is required'') (\<lambda>_.
     let d = dict_set ''tpslMode'' (leg_mode tp sl) (position_params category symbol idx);
         d1 = put_leg ''stopLoss'' ''sl'' sl (put_leg ''takeProfit'' ''tp'' tp d)
     in Inr (put_text_if (sl \<noteq> None) ''slTriggerBy'' (trigger_by basis)
              (put_text_if (tp \<noteq> None) ''tpTriggerBy'' (trigger_by basis) d1)))"

definition clear_trading_stop_payload :: "string \<Rightarrow> string \<Rightarrow> int \<Rightarrow> bool \<Rightarrow> bool \<Rightarrow> params result" where
  "clear_trading_stop_payload category symbol idx tp sl =
     rbind (guard_exn (\<not> tp \<and> \<not> sl) PyValueError ''at least one of take_profit or stop_loss must be true'') (\<lambda>_.
     let d = dict_set ''tpslMode'' (W_text ''Full'') (position_params category symbol idx);
         d1 = (if tp then dict_set ''takeProfit'' (W_text ''0'') d else d)
     in Inr (if sl then dict_set ''stopLoss'' (W_text ''0'') d1 else d1))"

definition native_trailing_payload :: "native_request \<Rightarrow> string \<Rightarrow> string \<Rightarrow> int \<Rightarrow> params result" where
  "native_trailing_payload r category symbol idx =
     rbind (guard_exn (nr_offset_type r \<noteq> OT_PRICE) UnsupportedOrderTypeError
              ''Bybit native trailing supports price offsets only'') (\<lambda>_.
     Inr (put_text_if True ''slTriggerBy'' (trigger_by (nr_basis r))
           (put_dec ''activePrice'' (nr_activation_price r)
             (dict_set ''trailingStop'' (W_dec (nr_offset r)) (position_params category symbol idx)))))"

definition cancel_trailing_payload :: "string \<Rightarrow> string \<Rightarrow> int \<Rightarrow> params" where
  "cancel_trailing_payload category symbol idx = position_params category symbol idx @ [(''trailingStop'', W_text ''0'')]"

subsection \<open>Order entries\<close>

definition bybit_order_status :: "py_object \<Rightarrow> order_status result" where
  "bybit_order_status raw =
     (case raw of
        Py_Str s \<Rightarrow>
          (case dict_get BYBIT_ORDER_STATUS s of
             None \<Rightarrow> raise_exn PlatformError ''Unknown Bybit order status'' | Some st \<Rightarrow> Inr st)
      | Py_List _ \<Rightarrow> raise_exn PyTypeError ''unhashable type''
      | Py_Map _ \<Rightarrow> raise_exn PyTypeError ''unhashable type''
      | _ \<Rightarrow> raise_exn PlatformError ''Unknown Bybit order status'')"

definition py_or :: "py_object \<Rightarrow> py_object \<Rightarrow> py_object" where
  \<comment> \<open>\<^verbatim>\<open>x or y\<close>\<close>
  "py_or x y = (if truthy x then x else y)"

definition decimal_or_zero :: "py_object \<Rightarrow> decimal result" where
  "decimal_or_zero x = (if is_missing x then Inr 0 else to_decimal x)"

definition decimal_or_none :: "py_object \<Rightarrow> decimal option result" where
  "decimal_or_none x =
     (if is_missing x then Inr None else rbind (to_decimal x) (\<lambda>v. Inr (if v = 0 then None else Some v)))"

definition parse_ms_timestamp :: "py_object \<Rightarrow> instant result" where
  "parse_ms_timestamp x =
     rbind (guard_exn (is_missing x) PlatformError ''Bybit order response is missing a required timestamp'') (\<lambda>_. to_instant x)"

definition bybit_order_result :: "(string \<times> py_object) list \<Rightarrow> string \<Rightarrow> order_result result" where
  \<comment> \<open>an id of another type than a text stands for its text\<close>
  "bybit_order_result d cid =
     rbind (guard_exn (field d ''orderId'' = Py_None) PlatformError ''Bybit order response is missing orderId'') (\<lambda>_.
     rbind (bybit_order_status (py_or (field d ''orderStatus'') (Py_Str []))) (\<lambda>status.
     rbind (decimal_or_zero (field d ''cumExecQty'')) (\<lambda>filled.
     rbind (decimal_or_none (field d ''avgPrice'')) (\<lambda>avg.
     rbind (parse_ms_timestamp (field d ''createdTime'')) (\<lambda>created.
     rbind (parse_ms_timestamp (field d ''updatedTime'')) (\<lambda>updated.
     Inr \<lparr>re_client_id = cid, re_platform_id = Some (py_text (field d ''orderId'')), re_status = status,
          re_filled = filled, re_avg_price = avg, re_created_at = created, re_updated_at = updated\<rparr>))))))"

end
