(* ===== verification/UTE_Bybit_Streams.thy ===== *)
theory UTE_Bybit_Streams
  imports UTE_Bybit_Orders
begin

text \<open>
  \<^verbatim>\<open>bybit/streams.py\<close>: entries of the private streams, and of the listings of the same shape, as the
  core's fills, positions, balances, orders and protection levels.
\<close>

subsection \<open>Tables\<close>

definition BYBIT_TO_SIDE :: "(string, order_side) dict" where
  "BYBIT_TO_SIDE = [(''Buy'', BUY), (''Sell'', SELL)]"

definition BYBIT_TO_ORDER_TYPE :: "(string, order_type) dict" where
  "BYBIT_TO_ORDER_TYPE = [(''Market'', MARKET), (''Limit'', LIMIT)]"

definition BYBIT_TO_TIME_IN_FORCE :: "(string, time_in_force) dict" where
  "BYBIT_TO_TIME_IN_FORCE = [(''GTC'', GTC), (''IOC'', IOC), (''FOK'', FOK), (''DAY'', DAY)]"

definition CREATE_TYPE_REASON :: "(string, fill_reason) dict" where
  "CREATE_TYPE_REASON = [(''CreateByTakeProfit'', FR_TAKE_PROFIT), (''CreateByPartialTakeProfit'', FR_TAKE_PROFIT),
     (''CreateByStopLoss'', FR_STOP_LOSS), (''CreateByPartialStopLoss'', FR_STOP_LOSS),
     (''CreateByTrailingStop'', FR_TRAILING_STOP)]"

definition STOP_ORDER_TYPE_REASON :: "(string, fill_reason) dict" where
  "STOP_ORDER_TYPE_REASON = [(''TakeProfit'', FR_TAKE_PROFIT), (''PartialTakeProfit'', FR_TAKE_PROFIT),
     (''StopLoss'', FR_STOP_LOSS), (''PartialStopLoss'', FR_STOP_LOSS), (''TrailingStop'', FR_TRAILING_STOP)]"

definition TERMINAL_ORDER_STATUSES :: "order_status list" where
  "TERMINAL_ORDER_STATUSES = [CANCELLED, REJECTED, EXPIRED]"

definition FINAL_ORDER_STATUSES :: "order_status list" where
  "FINAL_ORDER_STATUSES = TERMINAL_ORDER_STATUSES @ [FILLED]"

subsection \<open>Readings of fields\<close>

definition in_empty :: "py_object \<Rightarrow> bool result" where
  \<comment> \<open>\<^verbatim>\<open>x in frozenset({None, ""})\<close>\<close>
  "in_empty x =
     (case x of
        Py_List _ \<Rightarrow> raise_exn PyTypeError ''unhashable type''
      | Py_Map _ \<Rightarrow> raise_exn PyTypeError ''unhashable type''
      | _ \<Rightarrow> Inr (is_missing x))"

definition stream_string :: "(string \<times> py_object) list \<Rightarrow> string \<Rightarrow> string result" where
  "stream_string d k =
     rbind (guard_exn (is_missing (field d k)) PlatformError ''Bybit stream message is missing a required field'') (\<lambda>_.
     Inr (py_text (field d k)))"

definition optional_string :: "(string \<times> py_object) list \<Rightarrow> string \<Rightarrow> string option" where
  "optional_string d k = (if is_missing (field d k) then None else Some (py_text (field d k)))"

definition stream_decimal :: "py_object \<Rightarrow> decimal result" where
  "stream_decimal x =
     rbind (guard_exn (is_missing x) PlatformError ''Bybit stream message is missing a required field'') (\<lambda>_. to_decimal x)"

definition stream_optional_decimal :: "py_object \<Rightarrow> decimal option result" where
  "stream_optional_decimal x =
     (if is_missing x \<or> x = Py_Str ''0'' then Inr None else rbind (to_decimal x) (\<lambda>v. Inr (Some v)))"

definition parse_ms :: "py_object \<Rightarrow> instant result" where
  "parse_ms x =
     rbind (guard_exn (is_missing x) PlatformError ''Bybit stream message is missing a timestamp'') (\<lambda>_. to_instant x)"

definition parse_optional_ms :: "py_object \<Rightarrow> instant option result" where
  "parse_optional_ms x = (if is_missing x then Inr None else rbind (parse_ms x) (\<lambda>t. Inr (Some t)))"

definition parse_fee :: "py_object \<Rightarrow> decimal option result" where
  "parse_fee x = (if is_missing x then Inr None else rbind (to_decimal x) (\<lambda>v. Inr (Some v)))"

definition text_get :: "(string, 'a) dict \<Rightarrow> py_object \<Rightarrow> 'a option" where
  \<comment> \<open>\<^verbatim>\<open>table.get(x) if isinstance(x, str) else None\<close>\<close>
  "text_get t x = (case x of Py_Str s \<Rightarrow> dict_get t s | _ \<Rightarrow> None)"

subsection \<open>Fills\<close>

definition close_reason :: "(string \<times> py_object) list \<Rightarrow> fill_reason option" where
  "close_reason d =
     (case text_get CREATE_TYPE_REASON (field d ''createType'') of
        Some r \<Rightarrow> Some r
      | None \<Rightarrow> text_get STOP_ORDER_TYPE_REASON (field d ''stopOrderType''))"

definition translate_fill :: "(string \<times> py_object) list \<Rightarrow> instrument \<Rightarrow> string \<Rightarrow> fill_record result" where
  "translate_fill d i cid =
     (let reason = close_reason d in
      rbind (stream_string d ''execId'') (\<lambda>fid.
      rbind (stream_decimal (field d ''execQty'')) (\<lambda>qty.
      rbind (stream_decimal (field d ''execPrice'')) (\<lambda>price.
      rbind (parse_ms (field d ''execTime'')) (\<lambda>t.
      rbind (parse_fee (field d ''execFee'')) (\<lambda>fee.
      rbind (in_empty (field d ''positionIdx'')) (\<lambda>unset.
      fill_post_init
        \<lparr>fl_client_id = cid, fl_fill_id = fid, fl_instrument = i, fl_quantity = qty, fl_price = price,
         fl_timestamp = t, fl_fee_currency = optional_string d ''feeCurrency'', fl_fee_amount = fee,
         fl_correlation_id = cid,
         fl_position_id = (if unset then None else Some (py_text (field d ''positionIdx''))),
         fl_reason = reason, fl_entry = (if reason \<noteq> None then Some FE_OUT else None)\<rparr>)))))))"

subsection \<open>Positions\<close>

definition signed_size :: "py_object \<Rightarrow> decimal \<Rightarrow> decimal" where
  "signed_size side qty =
     (if side = Py_Str ''Buy'' then qty else if side = Py_Str ''Sell'' then dsub 0 qty else 0)"

definition entry_price :: "(string \<times> py_object) list \<Rightarrow> decimal result" where
  "entry_price d =
     rbind (stream_optional_decimal (field d ''entryPrice'')) (\<lambda>a.
     rbind (if a = None then stream_optional_decimal (field d ''avgPrice'') else Inr a) (\<lambda>b.
     Inr (case b of None \<Rightarrow> 0 | Some x \<Rightarrow> x)))"

definition position_leg_id :: "string \<Rightarrow> string \<Rightarrow> string" where
  "position_leg_id symbol idx = symbol @ '':'' @ idx"

definition translate_position :: "(string \<times> py_object) list \<Rightarrow> instrument \<Rightarrow> position result" where
  "translate_position d i =
     rbind (stream_decimal (field d ''size'')) (\<lambda>qty.
     rbind (to_bybit_symbol i) (\<lambda>symbol.
     rbind (entry_price d) (\<lambda>entry.
     rbind (parse_ms (field d ''updatedTime'')) (\<lambda>updated.
     rbind (parse_optional_ms (field d ''createdTime'')) (\<lambda>opened.
     Inr \<lparr>po_instrument = i, po_quantity = signed_size (field d ''side'') qty, po_entry = entry,
          po_updated_at = updated,
          po_id = Some (position_leg_id symbol (py_text (field_or d ''positionIdx'' (Py_Int 0)))),
          po_opened_at = opened\<rparr>)))))"

subsection \<open>Balances\<close>

definition seq_of :: "py_object \<Rightarrow> py_object list result" where
  \<comment> \<open>iterating over \<^verbatim>\<open>x or []\<close>, where the elements are read as dictionaries: of the other values that can be
    iterated none has such elements\<close>
  "seq_of x =
     (case py_or x (Py_List []) of
        Py_List xs \<Rightarrow> Inr xs
      | _ \<Rightarrow> raise_exn PyException ''not a list of objects'')"

definition as_map :: "py_object \<Rightarrow> (string \<times> py_object) list result" where
  \<comment> \<open>what \<^verbatim>\<open>x.get\<close> is called on\<close>
  "as_map x = (case x of Py_Map d \<Rightarrow> Inr d | _ \<Rightarrow> raise_exn PyException ''object has no attribute get'')"

definition USED_FIELDS :: "string list" where
  "USED_FIELDS = [''totalOrderIM'', ''totalPositionIM'', ''locked'', ''bonus'']"

fun used_amount :: "string list \<Rightarrow> (string \<times> py_object) list \<Rightarrow> decimal \<Rightarrow> decimal result" where
  "used_amount [] d u = Inr u"
| "used_amount (k # ks) d u =
     rbind (stream_optional_decimal (field d k)) (\<lambda>v.
     used_amount ks d (case v of None \<Rightarrow> u | Some x \<Rightarrow> dadd u x))"

definition coin_balance :: "(string \<times> py_object) list \<Rightarrow> instant \<Rightarrow> balance option result" where
  \<comment> \<open>\<open>None\<close> for a coin without a name\<close>
  "coin_balance d t =
     (if \<not> truthy (field d ''coin'') then Inr None
      else
        rbind (stream_decimal (field d ''walletBalance'')) (\<lambda>whole.
        rbind (used_amount USED_FIELDS d 0) (\<lambda>used.
        let free = (if dsub whole used < 0 then 0 else dsub whole used) in
        rbind (balance_post_init
                 \<lparr>ba_currency = py_text (field d ''coin''), ba_free = free, ba_used = used,
                  ba_total = dadd free used, ba_updated_at = t\<rparr>) (\<lambda>b. Inr (Some b)))))"

fun coin_balances :: "py_object list \<Rightarrow> instant \<Rightarrow> balance list result" where
  "coin_balances [] t = Inr []"
| "coin_balances (x # xs) t =
     rbind (as_map x) (\<lambda>d.
     rbind (coin_balance d t) (\<lambda>b.
     rbind (coin_balances xs t) (\<lambda>bs.
     Inr (case b of None \<Rightarrow> bs | Some y \<Rightarrow> y # bs))))"

definition translate_wallet_member :: "py_object \<Rightarrow> instant \<Rightarrow> balance list result" where
  "translate_wallet_member x t =
     rbind (as_map x) (\<lambda>d. rbind (seq_of (field d ''coin'')) (\<lambda>coins. coin_balances coins t))"

subsection \<open>Orders\<close>

definition translate_tp_sl :: "py_object \<Rightarrow> py_object \<Rightarrow> tpsl option result" where
  "translate_tp_sl trigger limit =
     rbind (in_empty trigger) (\<lambda>unset.
     if unset then Inr None
     else
       rbind (stream_decimal trigger) (\<lambda>x.
       if x = 0 then Inr None
       else
         rbind (stream_optional_decimal limit) (\<lambda>l.
         rbind (tpsl_post_init \<lparr>tp_trigger = x, tp_limit = l\<rparr>) (\<lambda>a. Inr (Some a)))))"

definition entry_side :: "(string \<times> py_object) list \<Rightarrow> order_side result" where
  "entry_side d =
     (case text_get BYBIT_TO_SIDE (field d ''side'') of
        None \<Rightarrow> raise_exn PlatformError ''Unknown Bybit order side'' | Some s \<Rightarrow> Inr s)"

definition entry_type :: "(string \<times> py_object) list \<Rightarrow> order_type result" where
  "entry_type d =
     (case text_get BYBIT_TO_ORDER_TYPE (field d ''orderType'') of
        None \<Rightarrow> raise_exn PlatformError ''Unknown Bybit order type''
      | Some t \<Rightarrow>
          rbind (in_empty (field d ''stopOrderType'')) (\<lambda>unset.
          Inr (if \<not> unset \<and> field d ''stopOrderType'' \<noteq> Py_Str ''UNKNOWN''
               then (if field d ''orderType'' = Py_Str ''Limit'' then STOP_LIMIT else STOP) else t)))"

definition entry_tif :: "(string \<times> py_object) list \<Rightarrow> time_in_force result" where
  "entry_tif d =
     (case py_or (field d ''timeInForce'') (Py_Str ''GTC'') of
        Py_Str s \<Rightarrow>
          (case dict_get BYBIT_TO_TIME_IN_FORCE s of
             None \<Rightarrow> raise_exn PlatformError ''Unknown Bybit timeInForce'' | Some t \<Rightarrow> Inr t)
      | Py_List _ \<Rightarrow> raise_exn PyTypeError ''unhashable type''
      | Py_Map _ \<Rightarrow> raise_exn PyTypeError ''unhashable type''
      | _ \<Rightarrow> raise_exn PlatformError ''Unknown Bybit timeInForce'')"

definition link_id :: "(string \<times> py_object) list \<Rightarrow> string" where
  \<comment> \<open>\<^verbatim>\<open>entry.get("orderLinkId") or ""\<close>; an id of another type stands for its text\<close>
  "link_id d = py_text (py_or (field d ''orderLinkId'') (Py_Str []))"

definition translate_order_entry :: "(string \<times> py_object) list \<Rightarrow> instrument \<Rightarrow> order_record result" where
  "translate_order_entry d i =
     rbind (entry_side d) (\<lambda>side.
     rbind (entry_type d) (\<lambda>ty.
     rbind (entry_tif d) (\<lambda>tif.
     rbind (stream_string d ''orderId'') (\<lambda>pid.
     rbind (stream_decimal (field d ''qty'')) (\<lambda>qty.
     rbind (stream_optional_decimal (field d ''price'')) (\<lambda>price.
     rbind (stream_optional_decimal (field d ''triggerPrice'')) (\<lambda>stop.
     rbind (translate_tp_sl (field d ''takeProfit'') (field d ''tpLimitPrice'')) (\<lambda>tp.
     rbind (translate_tp_sl (field d ''stopLoss'') (field d ''slLimitPrice'')) (\<lambda>sl.
     rbind (rbind (stream_string d ''orderStatus'') (\<lambda>s. bybit_order_status (Py_Str s))) (\<lambda>status.
     rbind (stream_decimal (py_or (field d ''cumExecQty'') (Py_Str ''0''))) (\<lambda>filled.
     rbind (stream_optional_decimal (field d ''avgPrice'')) (\<lambda>avg.
     rbind (parse_ms (field d ''createdTime'')) (\<lambda>created.
     rbind (parse_ms (field d ''updatedTime'')) (\<lambda>updated.
     Inr \<lparr>or_instrument = i, or_type = ty, or_side = side, or_quantity = qty, or_tif = tif,
          or_client_id = link_id d, or_price = price, or_stop_price = stop,
          or_reduce_only = truthy (field d ''reduceOnly''), or_client_tag = None, or_take_profit = tp,
          or_stop_loss = sl, or_platform_id = Some pid, or_status = status, or_filled = filled,
          or_avg_price = avg, or_correlation_id = link_id d, or_created_at = created,
          or_updated_at = updated, or_expire_at = None\<rparr>))))))))))))))"

definition is_terminal_order_status :: "order_status \<Rightarrow> bool" where
  "is_terminal_order_status s \<longleftrightarrow> s \<in> set TERMINAL_ORDER_STATUSES"

definition is_final_order_status :: "order_status \<Rightarrow> bool" where
  "is_final_order_status s \<longleftrightarrow> s \<in> set FINAL_ORDER_STATUSES"

end
