(* ===== verification/UTE_Bybit_Errors.thy ===== *)
theory UTE_Bybit_Errors
  imports UTE_Python
begin

text \<open>
  \<^verbatim>\<open>bybit/errors.py\<close>: return codes and HTTP statuses as core exceptions, paired with the
  \<^verbatim>\<open>platform_error\<close> the exception carries.
\<close>

definition RET_CODE_MAP :: "(int \<times> exn_class) list" where
  "RET_CODE_MAP =
     [(10006, RateLimitError), (10018, RateLimitError), (10429, RateLimitError), (20003, RateLimitError),
      (30035, RateLimitError), (170005, RateLimitError), (170222, RateLimitError),
      (10029, InvalidSymbolError), (110050, InvalidSymbolError), (170121, InvalidSymbolError),
      (170221, InvalidSymbolError),
      (10032, InvalidOrderError), (10033, InvalidOrderError), (10042, InvalidOrderError),
      (110004, InsufficientBalanceError), (110006, InsufficientBalanceError), (110007, InsufficientBalanceError),
      (110012, InsufficientBalanceError), (110044, InsufficientBalanceError), (110045, InsufficientBalanceError),
      (110051, InsufficientBalanceError), (110052, InsufficientBalanceError), (110053, InsufficientBalanceError),
      (110131, InsufficientBalanceError), (30256, InsufficientBalanceError), (170033, InsufficientBalanceError),
      (170131, InsufficientBalanceError),
      (110043, LeverageNotModifiedError), (110026, MarginModeNotModifiedError),
      (110025, PositionModeNotModifiedError),
      (110001, OrderNotFoundError), (170143, OrderNotFoundError), (170213, OrderNotFoundError),
      (10000, PlatformConnectionError), (10016, PlatformConnectionError), (10019, PlatformConnectionError),
      (110079, PlatformConnectionError), (110118, PlatformConnectionError), (170001, PlatformConnectionError),
      (170007, PlatformConnectionError), (170032, PlatformConnectionError), (170146, PlatformConnectionError),
      (170147, PlatformConnectionError), (170191, PlatformConnectionError), (170234, PlatformConnectionError),
      (170310, PlatformConnectionError), (3400214, PlatformConnectionError)]"

type_synonym error_context = "(string, int) dict option"

definition platform_error_context :: "int option \<Rightarrow> int option \<Rightarrow> error_context" where
  "platform_error_context code http =
     (let d = (case code of None \<Rightarrow> [] | Some c \<Rightarrow> [(''ret_code'', c)])
              @ (case http of None \<Rightarrow> [] | Some h \<Rightarrow> [(''http_status'', h)])
      in if d = [] then None else Some d)"

definition map_http_status :: "string \<Rightarrow> int \<Rightarrow> (exn \<times> error_context) option" where
  "map_http_status m h =
     (if h = 429 then Some (Exn RateLimitError (or_text m ''rate limit exceeded''), None)
      else if h = 403 then Some (Exn PlatformError (or_text m ''permission denied''), platform_error_context None (Some h))
      else if 500 \<le> h \<and> h < 600 then Some (Exn PlatformConnectionError (or_text m ''HTTP server error''), None)
      else if 400 \<le> h then Some (Exn PlatformError (or_text m ''HTTP error''), platform_error_context None (Some h))
      else None)"

definition map_ret_code :: "string \<Rightarrow> int \<Rightarrow> exn \<times> error_context" where
  "map_ret_code m c =
     (case dict_get RET_CODE_MAP c of
        Some k \<Rightarrow> (Exn k (or_text m ''Bybit error''), None)
      | None \<Rightarrow> (Exn PlatformError (or_text m ''unmapped Bybit error''), platform_error_context (Some c) None))"

definition map_bybit_error :: "int option \<Rightarrow> string \<Rightarrow> int option \<Rightarrow> exn \<times> error_context" where
  "map_bybit_error code m http =
     (case (case http of None \<Rightarrow> None | Some h \<Rightarrow> map_http_status m h) of
        Some e \<Rightarrow> e
      | None \<Rightarrow>
          (case code of
             Some c \<Rightarrow> map_ret_code m c
           | None \<Rightarrow> (Exn PlatformError (or_text m ''unknown Bybit error''), None)))"

end
