(* ===== verification/UTE_Bybit_Adapter.thy ===== *)
theory UTE_Bybit_Adapter
  imports UTE_Bybit_Streams UTE_Bybit_Errors UTE_Events UTE_Store UTE_Adapter
begin

text \<open>
  \<^verbatim>\<open>bybit/config.py\<close>, \<^verbatim>\<open>bybit/events.py\<close>, \<^verbatim>\<open>bybit/websocket.py\<close> and the foundation of
  \<^verbatim>\<open>bybit/adapter.py\<close>: the adapter's state, its requests with their retries, the rate limits, the registry
  of instruments and the cached trading rules. The SDK, the clocks, the sleep, the id factory and the
  faults of the state store's database are parameters that act on the outside world \<open>'v\<close>. Callbacks of
  the socket schedule work on the event loop; the queue of that work is part of the state.
\<close>

subsection \<open>Configuration\<close>

datatype margin_arg = MA_Mode margin_mode | MA_Text string

record bybit_config =
  yc_api_key :: string
  yc_testnet :: bool
  yc_demo :: bool
  yc_margin :: margin_arg
  yc_platform :: string
  yc_account :: "string option"
  yc_ttl :: "rat option"

definition margin_mode_of :: "margin_arg \<Rightarrow> margin_mode result" where
  \<comment> \<open>\<^verbatim>\<open>MarginMode(value)\<close>\<close>
  "margin_mode_of a =
     (case a of
        MA_Mode m \<Rightarrow> Inr m
      | MA_Text s \<Rightarrow>
          if s = ''cross'' then Inr MM_CROSS else if s = ''isolated'' then Inr MM_ISOLATED
          else raise_exn PyValueError ''margin_mode must be one of the modes'')"

definition bybit_config_post_init :: "bybit_config \<Rightarrow> bybit_config result" where
  "bybit_config_post_init c =
     rbind (guard_exn (case yc_ttl c of None \<Rightarrow> False | Some t \<Rightarrow> t \<le> 0) PyValueError
              ''instrument_spec_cache_ttl must be > 0 or None'') (\<lambda>_.
     rbind (margin_mode_of (yc_margin c)) (\<lambda>m. Inr (c\<lparr>yc_margin := MA_Mode m\<rparr>)))"

subsection \<open>Events of the adapter\<close>

datatype drift_action = DA_REAPPLIED | DA_NOTIFIED | DA_HALTED

definition drift_action_name :: "drift_action \<Rightarrow> string" where
  "drift_action_name a = (case a of DA_REAPPLIED \<Rightarrow> ''reapplied'' | DA_NOTIFIED \<Rightarrow> ''notified'' | DA_HALTED \<Rightarrow> ''halted'')"

datatype bybit_body =
    Core event_body
  | LeverageAppliedEvent instrument int int
  | LeverageApplyFailedEvent instrument int int string
  | LeverageDriftEvent instrument "int \<times> int" "int \<times> int" drift_action
  | MarginModeChangedEvent "margin_mode option" margin_mode
  | PositionModeAppliedEvent instrument position_mode
  | PositionModeApplyFailedEvent instrument position_mode string
  | PositionModeDriftEvent instrument position_mode position_mode drift_action

record bybit_event =
  yv_id :: string
  yv_time :: instant
  yv_adapter :: string
  yv_account :: string
  yv_correlation :: "string option"
  yv_body :: bybit_body

subsection \<open>The SDK\<close>

text \<open>
  A request returns the decoded body with the headers, or raises: \<open>PB_Failed\<close> with an HTTP status,
  \<open>PB_Invalid\<close> with a return code, a timeout, a transport error, or an exception of another kind.
\<close>

type_synonym headers = "(string, string) dict"

datatype pybit_reply =
    PB_Reply "(string \<times> py_object) list" headers
  | PB_Failed "int option" string
  | PB_Invalid "int option" string
  | PB_Timeout string
  | PB_Transport string
  | PB_Other exn

datatype ws_error = WE_Unauthorized string | WE_Channel string | WE_Socket string | WE_Os string | WE_Other exn

record 'v pybit =
  pb_request :: "string \<Rightarrow> params \<Rightarrow> 'v \<Rightarrow> pybit_reply \<times> 'v"
  pb_ws_open :: "'v \<Rightarrow> ws_error option \<times> 'v"
  pb_ws_exit :: "'v \<Rightarrow> exn option \<times> 'v"
  pb_ws_alive :: "'v \<Rightarrow> bool result \<times> 'v"
  pb_ws_stream :: "string \<Rightarrow> 'v \<Rightarrow> exn option \<times> 'v"
  pb_store_fault :: "'v \<Rightarrow> exn option \<times> 'v"
  pb_clock :: "'v \<Rightarrow> instant \<times> 'v"
  pb_monotonic :: "'v \<Rightarrow> rat \<times> 'v"
  pb_new_id :: "'v \<Rightarrow> string \<times> 'v"
  pb_sleep :: "rat \<Rightarrow> 'v \<Rightarrow> 'v"
  pb_digest :: "string \<Rightarrow> string"

subsection \<open>State\<close>

datatype scheduled = S_Publish bybit_event | S_Invalidate instrument

record 'v yworld =
  yw_venue :: 'v
  yw_connected :: bool
  yw_ws :: bool
  yw_monitor :: bool
  yw_loop :: bool
  yw_limits :: rate_limits
  yw_refs :: "(string, string \<times> string) dict"
  yw_account :: "string option"
  yw_instruments :: "(string \<times> string, instrument) dict"
  yw_specs :: "(instrument, instrument_spec \<times> rat) dict"
  yw_open :: "string set"
  yw_final :: "string list"
  yw_bus :: bool
  yw_events :: "bybit_event list"
  yw_halts :: "halt_machine option"
  yw_store :: "store option"
  yw_scheduled :: "scheduled list"

record 'v yenv =
  ye_sdk :: "'v pybit"
  ye_config :: bybit_config
  ye_pages :: nat \<comment> \<open>a bound on the pages of a listing, see \<open>pages\<close>\<close>

type_synonym ('v, 'a) yop = "('v yworld, 'a) eff"

definition yside :: "('v \<Rightarrow> 'a \<times> 'v) \<Rightarrow> ('v, 'a) yop" where
  \<comment> \<open>a call outside the adapter\<close>
  "yside f = (\<lambda>w. case f (yw_venue w) of (a, v) \<Rightarrow> (Inr a, w\<lparr>yw_venue := v\<rparr>))"

definition yfault :: "('v \<Rightarrow> exn option \<times> 'v) \<Rightarrow> ('v, unit) yop" where
  \<comment> \<open>a call outside the adapter that may raise\<close>
  "yfault f = ebind (yside f) (\<lambda>e. case e of None \<Rightarrow> eret () | Some x \<Rightarrow> elift (Inl x))"

definition ystore :: "'v yenv \<Rightarrow> (store, 'a) eff \<Rightarrow> ('v, 'a) yop" where
  \<comment> \<open>a call of the state store, whose database may fail\<close>
  "ystore env m =
     ebind (yfault (pb_store_fault (ye_sdk env))) (\<lambda>_.
     (\<lambda>w. case yw_store w of
            None \<Rightarrow> (raise_exn PyException ''no state store'', w)
          | Some s \<Rightarrow> (case m s of (r, s') \<Rightarrow> (r, w\<lparr>yw_store := Some s'\<rparr>))))"

subsection \<open>Identity and publication\<close>

definition api_key_identity :: "'v yenv \<Rightarrow> string" where
  "api_key_identity env = ''bybit-'' @ take 16 (pb_digest (ye_sdk env) (yc_api_key (ye_config env)))"

definition bybit_account_id :: "'v yenv \<Rightarrow> 'v yworld \<Rightarrow> string" where
  "bybit_account_id env w =
     (case yw_account w of
        Some a \<Rightarrow> a
      | None \<Rightarrow>
          (case yc_account (ye_config env) of
             Some a \<Rightarrow> if a \<noteq> [] then a else api_key_identity env
           | None \<Rightarrow> api_key_identity env))"

definition bybit_event_of :: "'v yenv \<Rightarrow> string option \<Rightarrow> bybit_body \<Rightarrow> ('v, bybit_event) yop" where
  "bybit_event_of env correlation body =
     ebind (yside (pb_new_id (ye_sdk env))) (\<lambda>i.
     ebind (yside (pb_clock (ye_sdk env))) (\<lambda>now.
     eget (\<lambda>w. \<lparr>yv_id = i, yv_time = now, yv_adapter = yc_platform (ye_config env),
       yv_account = bybit_account_id env w, yv_correlation = correlation, yv_body = body\<rparr>)))"

definition bybit_publish :: "bybit_event \<Rightarrow> ('v, unit) yop" where
  "bybit_publish e =
     ebind (eget yw_bus) (\<lambda>wired.
     ebind (eguard (\<not> wired) PyRuntimeError ''event_bus not wired'') (\<lambda>_.
     eupd (\<lambda>w. w\<lparr>yw_events := yw_events w @ [e]\<rparr>)))"

definition emit :: "'v yenv \<Rightarrow> bybit_body \<Rightarrow> ('v, unit) yop" where
  "emit env body = ebind (bybit_event_of env None body) bybit_publish"

definition bybit_connection_state :: "'v yenv \<Rightarrow> bool \<Rightarrow> ('v, unit) yop" where
  "bybit_connection_state env up = emit env (Core (ConnectionStateEvent up))"

definition publish_from_ws :: "bybit_event \<Rightarrow> ('v, unit) yop" where
  "publish_from_ws e =
     ebind (eget yw_loop) (\<lambda>loop.
     ebind (eguard (\<not> loop) PlatformError ''Bybit adapter is not connected to an event loop'') (\<lambda>_.
     eupd (\<lambda>w. w\<lparr>yw_scheduled := yw_scheduled w @ [S_Publish e]\<rparr>)))"

subsection \<open>Rate limits\<close>

definition MAX_GLOBAL_RESERVE :: int where
  "MAX_GLOBAL_RESERVE = 10"

definition RATE_LIMIT_HEADERS :: "string list" where
  "RATE_LIMIT_HEADERS = [''X-Bapi-Limit'', ''X-Bapi-Limit-Status'', ''X-Bapi-Limit-Reset-Timestamp'']"

definition safe_header_int :: "headers \<Rightarrow> string \<Rightarrow> int \<Rightarrow> int" where
  "safe_header_int hs k x =
     (case header_value hs k of
        None \<Rightarrow> x
      | Some raw \<Rightarrow> (case int_of_text raw of None \<Rightarrow> x | Some n \<Rightarrow> n))"

definition has_rate_limit_headers :: "headers \<Rightarrow> bool" where
  "has_rate_limit_headers hs \<longleftrightarrow> list_ex (\<lambda>k. header_value hs k \<noteq> None) RATE_LIMIT_HEADERS"

definition parse_rate_limits :: "headers \<Rightarrow> instant \<Rightarrow> rate_limits result" where
  "parse_rate_limits hs now =
     (let limit = max (safe_header_int hs ''X-Bapi-Limit'' MAX_GLOBAL_RESERVE) 1;
          remaining = min (max (safe_header_int hs ''X-Bapi-Limit-Status'' limit) 0) MAX_GLOBAL_RESERVE;
          reset = safe_header_int hs ''X-Bapi-Limit-Reset-Timestamp'' 0
      in rbind (if 0 < reset then epoch_instant reset else Inr now) (\<lambda>observed.
         Inr \<lparr>rl_requests = limit, rl_interval = 1, rl_remaining = remaining,
              rl_reset_at = (if now < observed then observed else now + 1000000)\<rparr>))"

definition update_rate_limits :: "'v yenv \<Rightarrow> headers \<Rightarrow> ('v, unit) yop" where
  "update_rate_limits env hs =
     ewhen (has_rate_limit_headers hs)
       (ebind (yside (pb_clock (ye_sdk env))) (\<lambda>now.
        ebind (elift (parse_rate_limits hs now)) (\<lambda>r.
        eupd (\<lambda>w. w\<lparr>yw_limits := r\<rparr>))))"

definition bybit_get_rate_limits :: "'v yenv \<Rightarrow> ('v, rate_limits) yop" where
  "bybit_get_rate_limits env =
     ebind (yside (pb_clock (ye_sdk env))) (\<lambda>now.
     ebind (eget yw_limits) (\<lambda>r.
     eret (if now < rl_reset_at r then r
           else r\<lparr>rl_remaining := min (rl_requests r) MAX_GLOBAL_RESERVE, rl_reset_at := now + 1000000\<rparr>)))"

subsection \<open>Requests\<close>

text \<open>
  \<open>attempts\<close> is the loop of \<^verbatim>\<open>_run_request\<close>: the last argument counts the attempts that are left. A
  mutation has one, a read has three, and only a read tries again.
\<close>

fun attempts :: "'v yenv \<Rightarrow> bool \<Rightarrow> string \<Rightarrow> params \<Rightarrow> nat \<Rightarrow> nat \<Rightarrow> ('v, (string \<times> py_object) list) yop" where
  "attempts env read name ps i 0 = eraise PlatformConnectionError ''Bybit request failed after retries''"
| "attempts env read name ps i (Suc left) =
     ebind (yside (pb_request (ye_sdk env) name ps)) (\<lambda>reply.
     (let again = ebind (eupd (\<lambda>w. w\<lparr>yw_venue := pb_sleep (ye_sdk env) (of_nat (i + 1) / 2) (yw_venue w)\<rparr>)) (\<lambda>_.
                  attempts env read name ps (i + 1) left);
          retry = read \<and> left \<noteq> 0
      in (case reply of
            PB_Failed status m \<Rightarrow>
              if retry \<and> exn_is (exn_cls (fst (map_bybit_error None m status))) PlatformConnectionError then again
              else elift (Inl (fst (map_bybit_error None m status)))
          | PB_Invalid code m \<Rightarrow> elift (Inl (fst (map_bybit_error code m None)))
          | PB_Timeout m \<Rightarrow> if retry then again else eraise PyTimeoutError m
          | PB_Transport m \<Rightarrow> if retry then again else eraise PlatformConnectionError m
          | PB_Other e \<Rightarrow> elift (Inl e)
          | PB_Reply d hs \<Rightarrow> ebind (update_rate_limits env hs) (\<lambda>_. eret d))))"

definition READ_RETRIES :: nat where
  "READ_RETRIES = 3"

definition bybit_read :: "'v yenv \<Rightarrow> string \<Rightarrow> params \<Rightarrow> ('v, (string \<times> py_object) list) yop" where
  \<comment> \<open>\<^verbatim>\<open>_run_request(..., read=True)\<close>\<close>
  "bybit_read env name ps = attempts env True name ps 0 READ_RETRIES"

definition bybit_write :: "'v yenv \<Rightarrow> string \<Rightarrow> params \<Rightarrow> ('v, unit) yop" where
  \<comment> \<open>\<^verbatim>\<open>_run_request(...)\<close> of a mutation, whose reply is not looked at\<close>
  "bybit_write env name ps = ebind (attempts env False name ps 0 1) (\<lambda>_. eret ())"

definition result_map :: "(string \<times> py_object) list \<Rightarrow> (string \<times> py_object) list result" where
  \<comment> \<open>\<^verbatim>\<open>data.get("result") or {}\<close>\<close>
  "result_map d = as_map (py_or (field d ''result'') (Py_Map []))"

definition result_list :: "(string \<times> py_object) list \<Rightarrow> py_object list result" where
  \<comment> \<open>\<^verbatim>\<open>(data.get("result") or {}).get("list") or []\<close>\<close>
  "result_list d = rbind (result_map d) (\<lambda>r. seq_of (field r ''list''))"

subsection \<open>Cursor-paginated listings\<close>

text \<open>
  The loop over the pages of a listing goes on as long as the venue sends a cursor, which nothing in
  the code bounds. The last argument is the number of pages that may still be read; running out of it
  is an exception of its own, so that a statement about a listing that was read says that its pages
  ended, and \<open>pages_enough\<close> shows that a larger bound changes nothing then.
\<close>

definition pages_exhausted :: exn where
  "pages_exhausted = Exn PyException ''the pages of the listing did not end within the bound''"

fun efold :: "('a \<Rightarrow> 'b \<Rightarrow> ('w, 'b) eff) \<Rightarrow> 'a list \<Rightarrow> 'b \<Rightarrow> ('w, 'b) eff" where
  \<comment> \<open>\<^verbatim>\<open>for x in xs\<close> over what the loop has gathered so far\<close>
  "efold f [] b = eret b"
| "efold f (x # xs) b = ebind (f x b) (\<lambda>c. efold f xs c)"

fun pages ::
    "'v yenv \<Rightarrow> string \<Rightarrow> params \<Rightarrow> (py_object \<Rightarrow> 'b \<Rightarrow> ('v, 'b) yop) \<Rightarrow> params \<Rightarrow> nat \<Rightarrow> 'b \<Rightarrow> ('v, 'b) yop" where
  "pages env name ps each cursor 0 b = elift (Inl pages_exhausted)"
| "pages env name ps each cursor (Suc n) b =
     ebind (bybit_read env name (ps @ cursor)) (\<lambda>d.
     ebind (elift (result_map d)) (\<lambda>r.
     ebind (elift (seq_of (field r ''list''))) (\<lambda>xs.
     ebind (efold each xs b) (\<lambda>c.
     if truthy (field r ''nextPageCursor'')
     then pages env name ps each [(''cursor'', W_text (py_text (field r ''nextPageCursor'')))] n c
     else eret c))))"

definition paged_results ::
    "'v yenv \<Rightarrow> string \<Rightarrow> params \<Rightarrow> (py_object \<Rightarrow> 'b \<Rightarrow> ('v, 'b) yop) \<Rightarrow> 'b \<Rightarrow> ('v, 'b) yop" where
  "paged_results env name ps each b = pages env name ps each [] (ye_pages env) b"

subsection \<open>The registry of instruments\<close>

definition ORDER_CATEGORIES :: "string list" where
  "ORDER_CATEGORIES = [''spot'', ''linear'', ''inverse'']"

definition invalidate_instrument_spec :: "instrument \<Rightarrow> ('v, unit) yop" where
  "invalidate_instrument_spec i = eupd (\<lambda>w. w\<lparr>yw_specs := dict_del (inst_id i) (yw_specs w)\<rparr>)"

definition invalidate_spec_from_ws :: "instrument \<Rightarrow> ('v, unit) yop" where
  "invalidate_spec_from_ws i =
     ebind (eget yw_loop) (\<lambda>loop.
     ebind (eguard (\<not> loop) PlatformError ''Bybit adapter is not connected to an event loop'') (\<lambda>_.
     eupd (\<lambda>w. w\<lparr>yw_scheduled := yw_scheduled w @ [S_Invalidate i]\<rparr>)))"

definition listing_instrument :: "string \<Rightarrow> (string \<times> py_object) list \<Rightarrow> (string \<times> instrument) option result" where
  \<comment> \<open>\<open>None\<close> for a listing that is skipped; a coin that is not a text has no upper case to normalise to\<close>
  "listing_instrument category d =
     (if \<not> truthy (field d ''symbol'') \<or> \<not> truthy (field d ''baseCoin'') \<or> \<not> truthy (field d ''quoteCoin'') then Inr None
      else
        (case (field d ''symbol'', field d ''baseCoin'', field d ''quoteCoin'') of
           (Py_Str s, Py_Str b, Py_Str q) \<Rightarrow>
             (case from_bybit_symbol s b q category True of
                Inr i \<Rightarrow> Inr (Some (s, i))
              | Inl e \<Rightarrow> if exn_is (exn_cls e) InvalidSymbolError then Inr None else Inl e)
         | (Py_Str s, x, y) \<Rightarrow>
             if s = py_text x @ py_text y then raise_exn PyException ''object has no attribute strip'' else Inr None
         | _ \<Rightarrow> Inr None))"

definition register_listing :: "string \<Rightarrow> py_object \<Rightarrow> ('v, unit) yop" where
  "register_listing category x =
     ebind (elift (as_map x)) (\<lambda>d.
     ebind (elift (listing_instrument category d)) (\<lambda>found.
     (case found of
        None \<Rightarrow> eret ()
      | Some (s, i) \<Rightarrow>
          ebind (eupd (\<lambda>w. w\<lparr>yw_instruments := dict_set (category, s) i (yw_instruments w)\<rparr>)) (\<lambda>_.
          ewhen (field d ''status'' \<noteq> Py_Str ''Trading'') (invalidate_instrument_spec i)))))"

definition refresh_instrument_registry :: "'v yenv \<Rightarrow> ('v, unit) yop" where
  "refresh_instrument_registry env =
     efor ORDER_CATEGORIES (\<lambda>category.
       paged_results env ''get_instruments_info'' [(''category'', W_text category)]
         (\<lambda>x _. register_listing category x) ())"

definition resolve_instrument :: "string \<Rightarrow> string \<Rightarrow> ('v, instrument) yop" where
  "resolve_instrument symbol category =
     ebind (eget (\<lambda>w. dict_get (yw_instruments w) (category, symbol))) (\<lambda>found.
     (case found of
        None \<Rightarrow> eraise PlatformError ''Unknown Bybit instrument in stream update''
      | Some i \<Rightarrow> eret i))"

subsection \<open>Trading rules\<close>

definition dec_exponent :: "py_object \<Rightarrow> int" where
  \<comment> \<open>\<^verbatim>\<open>Decimal(str(x)).as_tuple().exponent\<close> of a text that is a finite number\<close>
  "dec_exponent x =
     (case signed (filter (\<lambda>c. c \<noteq> CHR ''_'') (strip (py_text x))) of (_, body) \<Rightarrow>
      let mantissa = takeWhile (\<lambda>c. c \<noteq> CHR ''e'' \<and> c \<noteq> CHR ''E'') body;
          whole = takeWhile (\<lambda>c. c \<noteq> CHR ''.'') mantissa;
          frac = drop (length whole + 1) mantissa
      in (case exponent_of (drop (length mantissa) body) of None \<Rightarrow> 0 | Some e \<Rightarrow> e) - int (length frac))"

definition parse_bybit_spec :: "string \<Rightarrow> (string \<times> py_object) list \<Rightarrow> instrument_spec result" where
  "parse_bybit_spec category d =
     (let spot = (category = ''spot'');
          number = (\<lambda>f k x. rbind (as_map f) (\<lambda>m. to_decimal (field_or m k (Py_Str x))));
          text = (\<lambda>f k x. rbind (as_map f) (\<lambda>m. Inr (field_or m k (Py_Str x))));
          lot = field_or d ''lotSizeFilter'' (Py_Map []);
          price = field_or d ''priceFilter'' (Py_Map [])
      in
      rbind (text price ''tickSize'' ''1'') (\<lambda>tick_raw.
      rbind (to_decimal tick_raw) (\<lambda>tick.
      rbind (as_map (py_or (field d ''leverageFilter'') (Py_Map []))) (\<lambda>lev.
      rbind (if truthy (field lev ''maxLeverage'') then rbind (to_decimal (field lev ''maxLeverage'')) (\<lambda>x. Inr (Some x))
             else Inr None) (\<lambda>max_leverage.
      rbind (text lot (if spot then ''basePrecision'' else ''qtyStep'') ''1'') (\<lambda>step_raw.
      rbind (to_decimal step_raw) (\<lambda>step.
      rbind (text lot (if spot then ''minOrderAmt'' else ''minNotionalValue'') ''0'') (\<lambda>notional_raw.
      rbind (number lot ''minOrderQty'' ''0'') (\<lambda>raw_min.
      rbind (if category = ''inverse'' then rbind (to_decimal notional_raw) (\<lambda>n. Inr (max raw_min n)) else Inr raw_min) (\<lambda>min_qty.
      rbind (number lot ''maxOrderQty'' ''0'') (\<lambda>max_qty.
      rbind (to_decimal notional_raw) (\<lambda>min_notional.
      Inr \<lparr>sp_tick_size = tick, sp_lot_size = step, sp_min_qty = min_qty, sp_max_qty = max_qty,
           sp_min_notional = min_notional, sp_price_precision = - dec_exponent tick_raw,
           sp_qty_precision = - dec_exponent step_raw, sp_max_leverage = max_leverage,
           sp_min_stop_distance = Some tick\<rparr>))))))))))))"

definition bybit_cached_spec :: "'v yenv \<Rightarrow> instrument \<Rightarrow> ('v, instrument_spec option) yop" where
  "bybit_cached_spec env i =
     ebind (eget (\<lambda>w. dict_get (yw_specs w) (inst_id i))) (\<lambda>hit.
     (case hit of
        None \<Rightarrow> eret None
      | Some (spec, fetched) \<Rightarrow>
          (case yc_ttl (ye_config env) of
             None \<Rightarrow> eret (Some spec)
           | Some ttl \<Rightarrow>
               ebind (yside (pb_monotonic (ye_sdk env))) (\<lambda>now.
               if now - fetched < ttl then eret (Some spec)
               else ebind (invalidate_instrument_spec i) (\<lambda>_. eret None)))))"

definition bybit_fetch_spec :: "'v yenv \<Rightarrow> instrument \<Rightarrow> ('v, instrument_spec) yop" where
  "bybit_fetch_spec env i =
     ebind (bybit_cached_spec env i) (\<lambda>hit.
     (case hit of
        Some spec \<Rightarrow> eret spec
      | None \<Rightarrow>
          ebind (elift (to_bybit_symbol i)) (\<lambda>symbol.
          ebind (elift (instrument_to_category i)) (\<lambda>category.
          ebind (bybit_read env ''get_instruments_info''
                   [(''category'', W_text category), (''symbol'', W_text symbol)]) (\<lambda>d.
          ebind (elift (result_list d)) (\<lambda>listings.
          (case listings of
             [] \<Rightarrow> elift (Inl (fst (map_bybit_error None ''No instrument spec found'' None)))
           | x # _ \<Rightarrow>
               ebind (elift (as_map x)) (\<lambda>entry.
               if field entry ''status'' \<noteq> Py_Str ''Trading''
               then elift (Inl (fst (map_bybit_error None ''Instrument is not tradable'' None)))
               else
                 ebind (elift (parse_bybit_spec category entry)) (\<lambda>spec.
                 ebind (yside (pb_monotonic (ye_sdk env))) (\<lambda>now.
                 ebind (eupd (\<lambda>w. w\<lparr>yw_specs := dict_set (inst_id i) (spec, now) (yw_specs w)\<rparr>)) (\<lambda>_.
                 eret spec)))))))))))"

end
