(* ===== verification/UTE_Bybit_Intent.thy ===== *)
theory UTE_Bybit_Intent
  imports UTE_Bybit_Adapter
begin

text \<open>
  The leverage, position-mode and margin-mode part of \<^verbatim>\<open>bybit/adapter.py\<close>: what the user wants of an
  instrument is kept in the adapter's rows of the state store, applied to the platform, checked before
  every order, reconciled, and applied again on every connect. What differs is a drift, handled by the
  policy stored for the instrument.
\<close>

subsection \<open>Rows of the state store\<close>

definition symbol_key :: "string \<Rightarrow> instrument \<Rightarrow> string result" where
  "symbol_key p i = rbind (to_bybit_symbol i) (\<lambda>s. Inr (p @ s))"

definition leverage_buy_key :: "instrument \<Rightarrow> string result" where
  "leverage_buy_key = symbol_key ''leverage.buy:''"

definition leverage_sell_key :: "instrument \<Rightarrow> string result" where
  "leverage_sell_key = symbol_key ''leverage.sell:''"

definition leverage_policy_key :: "string \<Rightarrow> instrument \<Rightarrow> string result" where
  "leverage_policy_key knob = symbol_key (''leverage.policy.'' @ knob @ '':'')"

definition position_mode_key :: "instrument \<Rightarrow> string result" where
  "position_mode_key = symbol_key ''position_mode.''"

definition position_mode_policy_key :: "string \<Rightarrow> instrument \<Rightarrow> string result" where
  "position_mode_policy_key knob = symbol_key (''position_mode.policy.'' @ knob @ '':'')"

definition ON_DRIFT :: string where "ON_DRIFT = ''on_drift''"
definition STRICT_CHECK :: string where "STRICT_CHECK = ''strict_check''"
definition BLOCK_ON_OPEN :: string where "BLOCK_ON_OPEN = ''block_on_open''"
definition AUTO_APPLY :: string where "AUTO_APPLY = ''auto_apply''"

definition DEFAULT_ON_DRIFT :: string where "DEFAULT_ON_DRIFT = ''reapply''"

definition get_row :: "'v yenv \<Rightarrow> string result \<Rightarrow> ('v, string option) yop" where
  "get_row env k = ebind (elift k) (\<lambda>key. ystore env (get_adapter_config key))"

definition set_row :: "'v yenv \<Rightarrow> string result \<Rightarrow> string \<Rightarrow> ('v, unit) yop" where
  "set_row env k v = ebind (elift k) (\<lambda>key. ystore env (set_adapter_config key v))"

definition delete_row :: "'v yenv \<Rightarrow> string result \<Rightarrow> ('v, unit) yop" where
  "delete_row env k = ebind (elift k) (\<lambda>key. ystore env (delete_adapter_config key))"

definition has_store :: "('v, bool) yop" where
  "has_store = eget (\<lambda>w. yw_store w \<noteq> None)"

definition require_store :: "('v, unit) yop" where
  "require_store = ebind has_store (\<lambda>b. eguard (\<not> b) PlatformError ''BybitAdapter was constructed without a state_store'')"

definition read_knob :: "'v yenv \<Rightarrow> string result \<Rightarrow> ('v, string option) yop" where
  \<comment> \<open>a knob that cannot be read counts as unset\<close>
  "read_knob env k =
     ebind has_store (\<lambda>b. if b then etry (get_row env k) (\<lambda>_. eret None) else eret None)"

definition policy_knob :: "'v yenv \<Rightarrow> instrument \<Rightarrow> string \<Rightarrow> ('v, string option) yop" where
  "policy_knob env i knob = read_knob env (leverage_policy_key knob i)"

definition position_mode_policy_knob :: "'v yenv \<Rightarrow> instrument \<Rightarrow> string \<Rightarrow> ('v, string option) yop" where
  "position_mode_policy_knob env i knob = read_knob env (position_mode_policy_key knob i)"

subsection \<open>Positions of one symbol\<close>

definition position_entries :: "'v yenv \<Rightarrow> instrument \<Rightarrow> string \<Rightarrow> ('v, py_object list) yop" where
  "position_entries env i category =
     ebind (elift (to_bybit_symbol i)) (\<lambda>s.
     ebind (bybit_read env ''get_positions'' [(''category'', W_text category), (''symbol'', W_text s)]) (\<lambda>d.
     elift (result_list d)))"

definition leg_index :: "(string \<times> py_object) list \<Rightarrow> int result" where
  "leg_index d = to_int (py_or (field d ''positionIdx'') (Py_Str ''0''))"

definition leg_size :: "(string \<times> py_object) list \<Rightarrow> decimal result" where
  "leg_size d = to_decimal (py_or (field d ''size'') (Py_Str ''0''))"

subsection \<open>Leverage\<close>

definition validate_leverage :: "'v yenv \<Rightarrow> instrument \<Rightarrow> int \<Rightarrow> ('v, unit) yop" where
  "validate_leverage env i leverage =
     ebind (elift (instrument_to_category i)) (\<lambda>category.
     ebind (eguard (category = ''spot'') InvalidSymbolError ''Spot instrument has no leverage'') (\<lambda>_.
     ebind (bybit_fetch_spec env i) (\<lambda>spec.
     eguard (case sp_max_leverage spec of None \<Rightarrow> False | Some m \<Rightarrow> trunc_int m < leverage)
       LeverageExceedsMaxError ''Leverage exceeds max'')))"

fun any_open :: "py_object list \<Rightarrow> bool result" where
  "any_open [] = Inr False"
| "any_open (x # xs) =
     rbind (as_map x) (\<lambda>d. rbind (leg_size d) (\<lambda>n. if n \<noteq> 0 then Inr True else any_open xs))"

definition block_on_open_position :: "'v yenv \<Rightarrow> instrument \<Rightarrow> ('v, unit) yop" where
  "block_on_open_position env i =
     ebind (policy_knob env i BLOCK_ON_OPEN) (\<lambda>raw.
     if \<not> (case raw of None \<Rightarrow> True | Some v \<Rightarrow> v = ''1'') then eret ()
     else
       ebind (elift (instrument_to_category i)) (\<lambda>category.
       if category = ''spot'' then eret ()
       else
         ebind (position_entries env i category) (\<lambda>xs.
         ebind (elift (any_open xs)) (\<lambda>open.
         eguard open PlatformError ''Cannot change leverage with open position''))))"

definition applied_quietly :: "exn_class \<Rightarrow> ('v, unit) yop \<Rightarrow> ('v, unit) yop" where
  \<comment> \<open>the platform reporting that nothing had to change counts as success\<close>
  "applied_quietly c m = etry m (\<lambda>e. if exn_is (exn_cls e) c then eret () else elift (Inl e))"

definition apply_leverage_values :: "'v yenv \<Rightarrow> instrument \<Rightarrow> int \<Rightarrow> int \<Rightarrow> ('v, unit) yop" where
  "apply_leverage_values env i buy sell =
     ebind (elift (to_bybit_symbol i)) (\<lambda>s.
     ebind (elift (instrument_to_category i)) (\<lambda>category.
     applied_quietly LeverageNotModifiedError
       (bybit_write env ''set_leverage''
          [(''category'', W_text category), (''symbol'', W_text s),
           (''buyLeverage'', W_text (int_text buy)), (''sellLeverage'', W_text (int_text sell))])))"

definition flag_text :: "bool \<Rightarrow> string" where
  "flag_text b = (if b then ''1'' else ''0'')"

definition bybit_set_leverage ::
    "'v yenv \<Rightarrow> instrument \<Rightarrow> int \<Rightarrow> int option \<Rightarrow> string \<Rightarrow> bool \<Rightarrow> bool \<Rightarrow> bool \<Rightarrow> ('v, unit) yop" where
  "bybit_set_leverage env i buy sell_arg on_drift strict block auto =
     (let sell = (case sell_arg of None \<Rightarrow> buy | Some n \<Rightarrow> n) in
      ebind (elift (to_bybit_symbol i)) (\<lambda>_.
      ebind (eguard (buy \<noteq> sell) AsymmetricLeverageError ''Asymmetric leverage requires hedge mode'') (\<lambda>_.
      ebind (validate_leverage env i buy) (\<lambda>_.
      ebind (block_on_open_position env i) (\<lambda>_.
      ebind (apply_leverage_values env i buy sell) (\<lambda>_.
      ebind require_store (\<lambda>_.
      ebind (set_row env (leverage_buy_key i) (int_text buy)) (\<lambda>_.
      ebind (set_row env (leverage_sell_key i) (int_text sell)) (\<lambda>_.
      ebind (set_row env (leverage_policy_key ON_DRIFT i) on_drift) (\<lambda>_.
      ebind (set_row env (leverage_policy_key STRICT_CHECK i) (flag_text strict)) (\<lambda>_.
      ebind (set_row env (leverage_policy_key BLOCK_ON_OPEN i) (flag_text block)) (\<lambda>_.
      set_row env (leverage_policy_key AUTO_APPLY i) (flag_text auto)))))))))))))"

fun leverage_of :: "py_object list \<Rightarrow> int option \<Rightarrow> int option \<Rightarrow> (int option \<times> int option) result" where
  "leverage_of [] buy sell = Inr (buy, sell)"
| "leverage_of (x # xs) buy sell =
     rbind (as_map x) (\<lambda>d.
     if field d ''leverage'' = Py_None then leverage_of xs buy sell
     else
       rbind (to_int (field d ''leverage'')) (\<lambda>n.
       rbind (leg_index d) (\<lambda>k.
       if k = 0 then leverage_of xs (Some n) (Some n)
       else if k = 1 then leverage_of xs (Some n) sell
       else if k = 2 then leverage_of xs buy (Some n)
       else leverage_of xs buy sell)))"

definition both_sides :: "int option \<times> int option \<Rightarrow> (int \<times> int) option" where
  \<comment> \<open>a missing side takes the value of the other\<close>
  "both_sides p =
     (case p of (None, None) \<Rightarrow> None | (Some b, Some s) \<Rightarrow> Some (b, s) | (Some b, None) \<Rightarrow> Some (b, b)
      | (None, Some s) \<Rightarrow> Some (s, s))"

definition bybit_get_leverage :: "'v yenv \<Rightarrow> instrument \<Rightarrow> ('v, (int \<times> int) option) yop" where
  "bybit_get_leverage env i =
     ebind (elift (instrument_to_category i)) (\<lambda>category.
     if category = ''spot'' then eret None
     else
       ebind (position_entries env i category) (\<lambda>xs.
       ebind (elift (leverage_of xs None None)) (\<lambda>p. eret (both_sides p))))"

definition bybit_remove_leverage :: "'v yenv \<Rightarrow> instrument \<Rightarrow> ('v, unit) yop" where
  "bybit_remove_leverage env i =
     ebind require_store (\<lambda>_.
     ebind (delete_row env (leverage_buy_key i)) (\<lambda>_. delete_row env (leverage_sell_key i)))"

subsection \<open>Position mode\<close>

datatype mode_arg = PA_Mode position_mode | PA_Text string

definition coerce_position_mode :: "mode_arg \<Rightarrow> position_mode result" where
  "coerce_position_mode a = (case a of PA_Mode m \<Rightarrow> Inr m | PA_Text s \<Rightarrow> position_mode_of s)"

definition position_mode_int :: "position_mode \<Rightarrow> int" where
  "position_mode_int m = (case m of PM_ONE_WAY \<Rightarrow> 0 | PM_HEDGE \<Rightarrow> 3)"

definition apply_position_mode :: "'v yenv \<Rightarrow> instrument \<Rightarrow> position_mode \<Rightarrow> ('v, unit) yop" where
  "apply_position_mode env i m =
     ebind (elift (to_bybit_symbol i)) (\<lambda>s.
     ebind (elift (instrument_to_category i)) (\<lambda>category.
     applied_quietly PositionModeNotModifiedError
       (bybit_write env ''switch_position_mode''
          [(''category'', W_text category), (''symbol'', W_text s), (''mode'', W_int (position_mode_int m))])))"

definition bybit_set_position_mode :: "'v yenv \<Rightarrow> instrument \<Rightarrow> mode_arg \<Rightarrow> string \<Rightarrow> bool \<Rightarrow> ('v, unit) yop" where
  "bybit_set_position_mode env i a on_drift auto =
     ebind (elift (coerce_position_mode a)) (\<lambda>m.
     ebind (elift (to_bybit_symbol i)) (\<lambda>_.
     ebind (elift (instrument_to_category i)) (\<lambda>category.
     ebind (eguard (category = ''spot'') InvalidSymbolError ''Position mode is not supported for spot'') (\<lambda>_.
     ebind (apply_position_mode env i m) (\<lambda>_.
     ebind require_store (\<lambda>_.
     ebind (set_row env (position_mode_key i) (position_mode_value m)) (\<lambda>_.
     ebind (set_row env (position_mode_policy_key ON_DRIFT i) on_drift) (\<lambda>_.
     set_row env (position_mode_policy_key AUTO_APPLY i) (flag_text auto)))))))))"

definition bybit_get_position_mode :: "'v yenv \<Rightarrow> instrument \<Rightarrow> ('v, position_mode option) yop" where
  "bybit_get_position_mode env i =
     ebind (elift (instrument_to_category i)) (\<lambda>category.
     if category = ''spot'' then eret None
     else
       ebind (position_entries env i category) (\<lambda>xs.
       (case xs of
          [] \<Rightarrow> eret None
        | x # _ \<Rightarrow>
            ebind (elift (rbind (as_map x) leg_index)) (\<lambda>k.
            eret (if k = 0 then Some PM_ONE_WAY else if k \<in> {1, 2} then Some PM_HEDGE else None)))))"

definition bybit_remove_position_mode :: "'v yenv \<Rightarrow> instrument \<Rightarrow> ('v, unit) yop" where
  "bybit_remove_position_mode env i =
     ebind require_store (\<lambda>_.
     ebind (delete_row env (position_mode_key i)) (\<lambda>_.
     ebind (delete_row env (position_mode_policy_key ON_DRIFT i)) (\<lambda>_.
     delete_row env (position_mode_policy_key AUTO_APPLY i))))"

definition bybit_set_position_mode_for_coin :: "'v yenv \<Rightarrow> string \<Rightarrow> string \<Rightarrow> mode_arg \<Rightarrow> ('v, unit) yop" where
  "bybit_set_position_mode_for_coin env coin category a =
     ebind (elift (coerce_position_mode a)) (\<lambda>m.
     bybit_write env ''switch_position_mode''
       [(''category'', W_text category), (''coin'', W_text coin), (''mode'', W_int (position_mode_int m))])"

definition stored_mode :: "string option \<Rightarrow> position_mode" where
  "stored_mode raw =
     (case raw of None \<Rightarrow> PM_ONE_WAY
      | Some s \<Rightarrow> (case position_mode_of s of Inl _ \<Rightarrow> PM_ONE_WAY | Inr m \<Rightarrow> m))"

definition leg_of :: "position_mode \<Rightarrow> order_side \<Rightarrow> bool \<Rightarrow> int" where
  \<comment> \<open>the leg an order addresses: in hedge mode a reduce-only order addresses the one it closes\<close>
  "leg_of m side reduce_only =
     (if m = PM_ONE_WAY then 0 else if (side = BUY) \<noteq> reduce_only then 1 else 2)"

definition resolve_position_idx :: "'v yenv \<Rightarrow> instrument \<Rightarrow> order_side \<Rightarrow> bool \<Rightarrow> ('v, int option) yop" where
  "resolve_position_idx env i side reduce_only =
     ebind (elift (instrument_to_category i)) (\<lambda>category.
     if category = ''spot'' then eret None
     else
       ebind has_store (\<lambda>b.
       if \<not> b then eret (Some 0)
       else
         ebind (get_row env (position_mode_key i)) (\<lambda>raw.
         eret (Some (leg_of (stored_mode raw) side reduce_only)))))"

subsection \<open>Margin mode\<close>

definition margin_target :: "margin_mode \<Rightarrow> string" where
  "margin_target m = (if m = MM_ISOLATED then ''ISOLATED_MARGIN'' else ''REGULAR_MARGIN'')"

definition bybit_set_margin_mode :: "'v yenv \<Rightarrow> margin_mode \<Rightarrow> ('v, unit) yop" where
  "bybit_set_margin_mode env m =
     applied_quietly MarginModeNotModifiedError
       (bybit_write env ''set_margin_mode'' [(''setMarginMode'', W_text (margin_target m))])"

definition bybit_get_margin_mode :: "'v yenv \<Rightarrow> ('v, margin_mode option) yop" where
  "bybit_get_margin_mode env =
     ebind (bybit_read env ''get_account_info'' []) (\<lambda>d.
     ebind (elift (result_map d)) (\<lambda>r.
     eret (if field r ''marginMode'' = Py_Str ''ISOLATED_MARGIN'' then Some MM_ISOLATED
           else if field r ''marginMode'' = Py_Str ''REGULAR_MARGIN'' then Some MM_CROSS else None)))"

subsection \<open>The audit trail and the halts\<close>

definition write_leverage_audit :: "'v yenv \<Rightarrow> string \<Rightarrow> instrument option \<Rightarrow> (string \<times> payload_value) list \<Rightarrow> ('v, unit) yop" where
  "write_leverage_audit env ty i payload =
     ebind has_store (\<lambda>b.
     if \<not> b then eret ()
     else
       ebind (elift (case i of None \<Rightarrow> Inr [] | Some j \<Rightarrow> rbind (to_bybit_symbol j) (\<lambda>s. Inr [(''symbol'', PV_text s)]))) (\<lambda>symbol.
       etry
         (ebind (yside (pb_new_id (ye_sdk env))) (\<lambda>n.
          ebind (yside (pb_clock (ye_sdk env))) (\<lambda>now.
          ebind (eget (bybit_account_id env)) (\<lambda>account.
          ystore env (write_audit_event
            \<lparr>au_id = n, au_time = now, au_adapter = yc_platform (ye_config env), au_account = account,
             au_correlation = [], au_type = ty, au_payload = symbol @ payload\<rparr>)))))
         (\<lambda>_. eret ())))"

definition write_halt_audit :: "'v yenv \<Rightarrow> halt_action \<Rightarrow> instrument \<Rightarrow> string \<Rightarrow> string \<Rightarrow> ('v, unit) yop" where
  "write_halt_audit env action i reason detail =
     ebind has_store (\<lambda>b.
     if \<not> b then eret ()
     else
       etry
         (ebind (yside (pb_new_id (ye_sdk env))) (\<lambda>n.
          ebind (yside (pb_clock (ye_sdk env))) (\<lambda>now.
          ebind (eget (bybit_account_id env)) (\<lambda>account.
          ystore env (write_halt_event
            \<lparr>hv_id = n, hv_time = now, hv_adapter = yc_platform (ye_config env), hv_account = account,
             hv_correlation = None, hv_action = action, hv_scope = SC_INSTRUMENT, hv_instrument = Some i,
             hv_reason = reason, hv_detail = detail,
             hv_cleared_by = (if action = HA_CLEARED then Some AUTOMATIC else None)\<rparr>)))))
         (\<lambda>_. eret ()))"

definition enter_instrument_halt :: "'v yenv \<Rightarrow> instrument \<Rightarrow> string \<Rightarrow> string \<Rightarrow> ('v, unit) yop" where
  "enter_instrument_halt env i reason detail =
     ebind (eget yw_halts) (\<lambda>h.
     (case h of
        None \<Rightarrow> eret ()
      | Some m \<Rightarrow>
          ebind (elift (enter_halt SC_INSTRUMENT (Some i) reason detail m)) (\<lambda>(entered, m').
          ebind (eupd (\<lambda>w. w\<lparr>yw_halts := Some m'\<rparr>)) (\<lambda>_.
          ewhen entered
            (ebind (emit env (Core (HaltEnteredEvent SC_INSTRUMENT (Some i) reason detail))) (\<lambda>_.
             write_halt_audit env HA_ENTERED i reason detail))))))"

definition try_clear_recovered_halt :: "'v yenv \<Rightarrow> instrument \<Rightarrow> ('v, unit) yop" where
  "try_clear_recovered_halt env i =
     ebind (eget yw_halts) (\<lambda>h.
     (case h of
        None \<Rightarrow> eret ()
      | Some m \<Rightarrow>
          (case try_clear_halt SC_INSTRUMENT (Some i) True False m of
             (cleared, m') \<Rightarrow>
               ebind (eupd (\<lambda>w. w\<lparr>yw_halts := Some m'\<rparr>)) (\<lambda>_.
               ewhen cleared
                 (ebind (emit env (Core (HaltClearedEvent SC_INSTRUMENT (Some i) AUTOMATIC))) (\<lambda>_.
                  write_halt_audit env HA_CLEARED i ''leverage_drift_recovered''
                    ''Platform leverage matches stored intent''))))))"

subsection \<open>Drift\<close>

definition emit_drift_event ::
    "'v yenv \<Rightarrow> instrument \<Rightarrow> int \<times> int \<Rightarrow> int \<times> int \<Rightarrow> drift_action \<Rightarrow> ('v, unit) yop" where
  "emit_drift_event env i stored platform action =
     ebind (emit env (LeverageDriftEvent i stored platform action)) (\<lambda>_.
     write_leverage_audit env ''bybit.leverage.drift'' (Some i)
       [(''stored_buy'', PV_int (fst stored)), (''stored_sell'', PV_int (snd stored)),
        (''platform_buy'', PV_int (fst platform)), (''platform_sell'', PV_int (snd platform)),
        (''action_taken'', PV_text (drift_action_name action))])"

definition drift_policy :: "string option \<Rightarrow> string" where
  "drift_policy raw = (case raw of None \<Rightarrow> DEFAULT_ON_DRIFT | Some s \<Rightarrow> s)"

definition handle_leverage_drift ::
    "'v yenv \<Rightarrow> instrument \<Rightarrow> int \<times> int \<Rightarrow> int \<times> int \<Rightarrow> string \<Rightarrow> ('v, unit) yop" where
  "handle_leverage_drift env i stored platform context =
     ebind (policy_knob env i ON_DRIFT) (\<lambda>raw.
     if drift_policy raw = ''reapply'' then
       ebind (apply_leverage_values env i (fst stored) (snd stored)) (\<lambda>_.
       emit_drift_event env i stored platform DA_REAPPLIED)
     else if drift_policy raw = ''notify'' then emit_drift_event env i stored platform DA_NOTIFIED
     else
       ebind (emit_drift_event env i stored platform DA_HALTED) (\<lambda>_.
       enter_instrument_halt env i ''leverage_drift'' context))"

definition emit_position_mode_drift_event ::
    "'v yenv \<Rightarrow> instrument \<Rightarrow> position_mode \<Rightarrow> position_mode \<Rightarrow> drift_action \<Rightarrow> ('v, unit) yop" where
  "emit_position_mode_drift_event env i stored platform action =
     ebind (emit env (PositionModeDriftEvent i stored platform action)) (\<lambda>_.
     write_leverage_audit env ''bybit.position_mode.drift'' (Some i)
       [(''stored'', PV_text (position_mode_value stored)), (''platform'', PV_text (position_mode_value platform)),
        (''action_taken'', PV_text (drift_action_name action))])"

definition handle_position_mode_drift ::
    "'v yenv \<Rightarrow> instrument \<Rightarrow> position_mode \<Rightarrow> position_mode \<Rightarrow> string \<Rightarrow> ('v, unit) yop" where
  "handle_position_mode_drift env i stored platform context =
     ebind (position_mode_policy_knob env i ON_DRIFT) (\<lambda>raw.
     if drift_policy raw = ''reapply'' then
       ebind (apply_position_mode env i stored) (\<lambda>_.
       emit_position_mode_drift_event env i stored platform DA_REAPPLIED)
     else if drift_policy raw = ''notify'' then emit_position_mode_drift_event env i stored platform DA_NOTIFIED
     else
       ebind (emit_position_mode_drift_event env i stored platform DA_HALTED) (\<lambda>_.
       enter_instrument_halt env i ''position_mode_drift'' context))"

subsection \<open>The check before an order\<close>

definition parsed_leverage :: "string option \<Rightarrow> string option \<Rightarrow> (int \<times> int) option" where
  "parsed_leverage buy sell =
     (case (buy, sell) of
        (None, None) \<Rightarrow> None
      | (Some b, Some s) \<Rightarrow>
          (case (int_of_text b, int_of_text s) of (Some m, Some n) \<Rightarrow> Some (m, n) | _ \<Rightarrow> None)
      | (Some b, None) \<Rightarrow> map_option (\<lambda>n. (n, n)) (int_of_text b)
      | (None, Some s) \<Rightarrow> map_option (\<lambda>n. (n, n)) (int_of_text s))"

definition stored_leverage :: "'v yenv \<Rightarrow> instrument \<Rightarrow> ('v, (int \<times> int) option) yop" where
  "stored_leverage env i =
     ebind has_store (\<lambda>b.
     if \<not> b then eret None
     else
       ebind (eattempt
         (ebind (get_row env (leverage_buy_key i)) (\<lambda>buy.
          ebind (get_row env (leverage_sell_key i)) (\<lambda>sell. eret (buy, sell))))) (\<lambda>r.
       eret (case r of Inl _ \<Rightarrow> None | Inr (buy, sell) \<Rightarrow> parsed_leverage buy sell)))"

definition DEFAULT_LEVERAGE :: int where "DEFAULT_LEVERAGE = 1"

definition intent_leverage :: "'v yenv \<Rightarrow> instrument \<Rightarrow> ('v, int \<times> int) yop" where
  "intent_leverage env i =
     ebind (stored_leverage env i) (\<lambda>s.
     eret (case s of None \<Rightarrow> (DEFAULT_LEVERAGE, DEFAULT_LEVERAGE) | Some p \<Rightarrow> p))"

definition strict_check_leverage :: "'v yenv \<Rightarrow> instrument \<Rightarrow> ('v, unit) yop" where
  "strict_check_leverage env i =
     ebind (policy_knob env i STRICT_CHECK) (\<lambda>strict.
     if strict = Some ''0'' then eret ()
     else
       ebind (intent_leverage env i) (\<lambda>intent.
       ebind (bybit_get_leverage env i) (\<lambda>platform.
       (case platform of
          None \<Rightarrow> eret ()
        | Some p \<Rightarrow>
            if p = intent then eret ()
            else
              ebind (handle_leverage_drift env i intent p ''pre-order strict check'') (\<lambda>_.
              ebind (policy_knob env i ON_DRIFT) (\<lambda>raw.
              eguard (drift_policy raw \<noteq> ''reapply'') LeverageDriftError ''Platform leverage differs from intent''))))))"

subsection \<open>Reconciliation of the intent\<close>

definition without_prefix :: "string \<Rightarrow> string \<Rightarrow> string" where
  \<comment> \<open>\<^verbatim>\<open>s.removeprefix(p)\<close>\<close>
  "without_prefix p s = (if starts_with s p then drop (length p) s else s)"

definition side_row :: "string \<times> string \<Rightarrow> (string \<times> bool \<times> int) option" where
  \<comment> \<open>the symbol, whether it is the buy side, and the value of a row of a leverage side\<close>
  "side_row r =
     (case int_of_text (snd r) of
        None \<Rightarrow> None
      | Some n \<Rightarrow>
          (let body = without_prefix ''leverage.'' (fst r) in
           if starts_with body ''buy:'' then Some (drop 4 body, True, n)
           else if starts_with body ''sell:'' then Some (drop 5 body, False, n) else None))"

type_synonym leverage_sides = "(string, int option \<times> int option) dict"

definition add_side :: "leverage_sides \<Rightarrow> string \<times> string \<Rightarrow> leverage_sides" where
  "add_side g r =
     (case side_row r of
        None \<Rightarrow> g
      | Some (s, is_buy, n) \<Rightarrow>
          (let old = (case dict_get g s of None \<Rightarrow> (None, None) | Some p \<Rightarrow> p)
           in dict_set s (if is_buy then (Some n, snd old) else (fst old, Some n)) g))"

definition group_leverage_rows :: "(string, string) dict \<Rightarrow> leverage_sides" where
  "group_leverage_rows rows = foldl add_side [] rows"

fun by_symbol :: "instrument list \<Rightarrow> (string, instrument) dict result" where
  \<comment> \<open>\<^verbatim>\<open>{to_bybit_symbol(i): i for i in instruments}\<close>, the later entry winning\<close>
  "by_symbol [] = Inr []"
| "by_symbol (i # xs) =
     rbind (to_bybit_symbol i) (\<lambda>s.
     rbind (by_symbol xs) (\<lambda>d. Inr (if dict_has d s then d else (s, i) # d)))"

definition known_instruments :: "('v, (string, instrument) dict) yop" where
  "known_instruments = ebind (eget (\<lambda>w. map snd (yw_instruments w))) (\<lambda>xs. elift (by_symbol xs))"

definition reconcile_leverage :: "'v yenv \<Rightarrow> (string, instrument) dict \<Rightarrow> string \<times> int option \<times> int option \<Rightarrow> ('v, unit) yop" where
  "reconcile_leverage env known row =
     (case (dict_get known (fst row), snd row) of
        (Some i, (Some b, Some s)) \<Rightarrow>
          ebind (bybit_get_leverage env i) (\<lambda>platform.
          (case platform of
             None \<Rightarrow> eret ()
           | Some p \<Rightarrow>
               if p = (b, s) then try_clear_recovered_halt env i
               else etry (handle_leverage_drift env i (b, s) p ''reconciliation'') (\<lambda>_. eret ())))
      | _ \<Rightarrow> eret ())"

definition mode_row :: "(string, instrument) dict \<Rightarrow> string \<times> string \<Rightarrow> (string \<times> instrument \<times> position_mode) option" where
  \<comment> \<open>the symbol, its instrument and the mode of a row of the position modes; policy rows have a dot\<close>
  "mode_row known row =
     (let s = without_prefix ''position_mode.'' (fst row) in
      if CHR ''.'' \<in> set s then None
      else (case (dict_get known s, position_mode_of (snd row)) of
              (Some i, Inr m) \<Rightarrow> Some (s, i, m)
            | _ \<Rightarrow> None))"

definition reconcile_position_mode :: "'v yenv \<Rightarrow> (string, instrument) dict \<Rightarrow> string \<times> string \<Rightarrow> ('v, unit) yop" where
  "reconcile_position_mode env known row =
     (case mode_row known row of
        None \<Rightarrow> eret ()
      | Some (_, i, m) \<Rightarrow>
          ebind (bybit_get_position_mode env i) (\<lambda>platform.
          (case platform of
             None \<Rightarrow> eret ()
           | Some p \<Rightarrow>
               if p = m then try_clear_recovered_halt env i
               else etry (handle_position_mode_drift env i m p ''reconciliation'') (\<lambda>_. eret ()))))"

definition bybit_reconcile_intent :: "'v yenv \<Rightarrow> ('v, unit) yop" where
  "bybit_reconcile_intent env =
     ebind has_store (\<lambda>b.
     if \<not> b then eret ()
     else
       ebind known_instruments (\<lambda>known.
       ebind (ystore env (list_adapter_config ''leverage.'')) (\<lambda>rows.
       ebind (efor (group_leverage_rows rows) (reconcile_leverage env known)) (\<lambda>_.
       ebind (ystore env (list_adapter_config ''position_mode.'')) (\<lambda>modes.
       efor modes (reconcile_position_mode env known))))))"

subsection \<open>Applying the intent on connect\<close>

definition apply_configured_margin_mode :: "'v yenv \<Rightarrow> ('v, unit) yop" where
  "apply_configured_margin_mode env =
     ebind (elift (margin_mode_of (yc_margin (ye_config env)))) (\<lambda>m.
     ebind (eattempt (ebind (bybit_get_margin_mode env) (\<lambda>previous.
              ebind (bybit_set_margin_mode env m) (\<lambda>_. eret previous)))) (\<lambda>r.
     (case r of
        Inl _ \<Rightarrow> eret ()
      | Inr previous \<Rightarrow>
          if previous = Some m then eret ()
          else
            ebind (emit env (MarginModeChangedEvent previous m)) (\<lambda>_.
            write_leverage_audit env ''bybit.margin_mode.changed'' None
              [(''previous'', pv_text (map_option margin_mode_value previous)),
               (''current'', PV_text (margin_mode_value m)), (''context'', PV_text ''connect'')]))))"

definition reapply_leverage :: "'v yenv \<Rightarrow> (string, instrument) dict \<Rightarrow> string \<times> int option \<times> int option \<Rightarrow> ('v, unit) yop" where
  "reapply_leverage env known row =
     (case (snd row, dict_get known (fst row)) of
        ((Some b, Some s), Some i) \<Rightarrow>
          ebind (policy_knob env i AUTO_APPLY) (\<lambda>raw.
          if \<not> (case raw of None \<Rightarrow> True | Some v \<Rightarrow> v = ''1'') then eret ()
          else
            etry
              (ebind (bybit_set_leverage env i b (Some s) DEFAULT_ON_DRIFT True True True) (\<lambda>_.
               ebind (emit env (LeverageAppliedEvent i b s)) (\<lambda>_.
               write_leverage_audit env ''bybit.leverage.applied'' (Some i)
                 [(''buy_leverage'', PV_int b), (''sell_leverage'', PV_int s)])))
              (\<lambda>e.
               ebind (emit env (LeverageApplyFailedEvent i b s (exn_msg e))) (\<lambda>_.
               write_leverage_audit env ''bybit.leverage.apply_failed'' (Some i)
                 [(''buy_leverage'', PV_int b), (''sell_leverage'', PV_int s), (''reason'', PV_text (exn_msg e))])))
      | _ \<Rightarrow> eret ())"

definition reapply_position_mode ::
    "'v yenv \<Rightarrow> (string, instrument) dict \<Rightarrow> (string, string) dict \<Rightarrow> string \<times> string \<Rightarrow> ('v, unit) yop" where
  "reapply_position_mode env known rows row =
     (case mode_row known row of
        None \<Rightarrow> eret ()
      | Some (s, i, m) \<Rightarrow>
          if \<not> (case dict_get rows (''position_mode.policy.'' @ AUTO_APPLY @ '':'' @ s) of None \<Rightarrow> True | Some v \<Rightarrow> v = ''1'')
          then eret ()
          else
            etry
              (ebind (apply_position_mode env i m) (\<lambda>_.
               ebind (emit env (PositionModeAppliedEvent i m)) (\<lambda>_.
               write_leverage_audit env ''bybit.position_mode.applied'' (Some i)
                 [(''mode'', PV_text (position_mode_value m))])))
              (\<lambda>e.
               ebind (emit env (PositionModeApplyFailedEvent i m (exn_msg e))) (\<lambda>_.
               write_leverage_audit env ''bybit.position_mode.apply_failed'' (Some i)
                 [(''mode'', PV_text (position_mode_value m)), (''reason'', PV_text (exn_msg e))])))"

definition reapply_stored_intent :: "'v yenv \<Rightarrow> ('v, unit) yop" where
  "reapply_stored_intent env =
     ebind has_store (\<lambda>b.
     if \<not> b then eret ()
     else
       ebind known_instruments (\<lambda>known.
       ebind (ystore env (list_adapter_config ''leverage.'')) (\<lambda>rows.
       ebind (efor (group_leverage_rows rows) (reapply_leverage env known)) (\<lambda>_.
       ebind (ystore env (list_adapter_config ''position_mode.'')) (\<lambda>modes.
       efor modes (reapply_position_mode env known modes))))))"

end
