(* ===== verification/UTE_Bybit_Trading.thy ===== *)
theory UTE_Bybit_Trading
  imports UTE_Bybit_Intent
begin

text \<open>
  The rest of \<^verbatim>\<open>bybit/adapter.py\<close>: the connection, orders, position protection and native trailing,
  market data, the snapshots of reconciliation, the callbacks of the private streams with the work
  they schedule on the event loop, and the adapter as the core sees it.
\<close>

subsection \<open>Connection\<close>

definition ws_exn :: "ws_error \<Rightarrow> exn" where
  \<comment> \<open>\<^verbatim>\<open>BybitWebSocket.connect\<close>\<close>
  "ws_exn e =
     (case e of
        WE_Unauthorized m \<Rightarrow> Exn PlatformError m
      | WE_Channel m \<Rightarrow> Exn PlatformError m
      | WE_Socket m \<Rightarrow> Exn PlatformConnectionError m
      | WE_Os m \<Rightarrow> Exn PlatformConnectionError m
      | WE_Other x \<Rightarrow> x)"

definition ws_connect :: "'v yenv \<Rightarrow> ('v, unit) yop" where
  "ws_connect env =
     ebind (yside (pb_ws_open (ye_sdk env))) (\<lambda>e.
     (case e of
        Some x \<Rightarrow> elift (Inl (ws_exn x))
      | None \<Rightarrow> eupd (\<lambda>w. w\<lparr>yw_ws := True\<rparr>)))"

definition ws_is_connected :: "'v yenv \<Rightarrow> ('v, bool) yop" where
  "ws_is_connected env =
     ebind (eget yw_ws) (\<lambda>b.
     if \<not> b then eret False
     else ebind (yside (pb_ws_alive (ye_sdk env))) (\<lambda>r. eret (case r of Inl _ \<Rightarrow> False | Inr up \<Rightarrow> up)))"

definition STREAMS :: "string list" where
  "STREAMS = [''order'', ''execution'', ''position'', ''wallet'']"

definition bybit_connect :: "'v yenv \<Rightarrow> ('v, unit) yop" where
  "bybit_connect env =
     ebind (eget yw_connected) (\<lambda>up.
     if up then eret ()
     else
       ebind (eupd (\<lambda>w. w\<lparr>yw_monitor := False, yw_loop := True\<rparr>)) (\<lambda>_.
       ebind (refresh_instrument_registry env) (\<lambda>_.
       ebind (ws_connect env) (\<lambda>_.
       ebind (efor STREAMS (\<lambda>s. yfault (pb_ws_stream (ye_sdk env) s))) (\<lambda>_.
       ebind (eupd (\<lambda>w. w\<lparr>yw_connected := True\<rparr>)) (\<lambda>_.
       ebind (bybit_connection_state env True) (\<lambda>_.
       ebind (eupd (\<lambda>w. w\<lparr>yw_monitor := True\<rparr>)) (\<lambda>_.
       ebind (apply_configured_margin_mode env) (\<lambda>_.
       reapply_stored_intent env)))))))))"

definition bybit_disconnect :: "'v yenv \<Rightarrow> ('v, unit) yop" where
  "bybit_disconnect env =
     ebind (eget (\<lambda>w. (yw_ws w, yw_connected w))) (\<lambda>(ws, up).
     if \<not> ws \<and> \<not> up then eret ()
     else
       ebind (eupd (\<lambda>w. w\<lparr>yw_monitor := False\<rparr>)) (\<lambda>_.
       ebind (ewhen ws (ebind (yfault (pb_ws_exit (ye_sdk env))) (\<lambda>_. eupd (\<lambda>w. w\<lparr>yw_ws := False\<rparr>)))) (\<lambda>_.
       ebind (eupd (\<lambda>w. w\<lparr>yw_connected := False, yw_refs := []\<rparr>)) (\<lambda>_.
       bybit_connection_state env False))))"

definition monitor_turn :: "'v yenv \<Rightarrow> ('v, unit) yop" where
  \<comment> \<open>one turn of the loop of \<^verbatim>\<open>_monitor_connection\<close>\<close>
  "monitor_turn env =
     ebind (eupd (\<lambda>w. w\<lparr>yw_venue := pb_sleep (ye_sdk env) 5 (yw_venue w)\<rparr>)) (\<lambda>_.
     ebind (ws_is_connected env) (\<lambda>up.
     ebind (eget yw_connected) (\<lambda>was.
     ewhen (up \<noteq> was)
       (ebind (eupd (\<lambda>w. w\<lparr>yw_connected := up\<rparr>)) (\<lambda>_.
        ebind (ewhen (up \<and> \<not> was) (etry (refresh_instrument_registry env) (\<lambda>_. eret ()))) (\<lambda>_.
        bybit_connection_state env up))))))"

definition bybit_resolve_account_id :: "'v yenv \<Rightarrow> ('v, string) yop" where
  "bybit_resolve_account_id env =
     ebind (eget yw_account) (\<lambda>known.
     (case (known, yc_account (ye_config env)) of
        (Some a, _) \<Rightarrow> eret a
      | (None, Some (c # cs)) \<Rightarrow> ebind (eupd (\<lambda>w. w\<lparr>yw_account := Some (c # cs)\<rparr>)) (\<lambda>_. eret (c # cs))
      | _ \<Rightarrow>
          ebind (bybit_read env ''get_api_key_information'' []) (\<lambda>d.
          ebind (elift (result_map d)) (\<lambda>r.
          ebind (eguard (is_missing (field r ''userID'')) PlatformConnectionError ''query-api returned no userID'') (\<lambda>_.
          ebind (eupd (\<lambda>w. w\<lparr>yw_account := Some (py_text (field r ''userID''))\<rparr>)) (\<lambda>_.
          eret (py_text (field r ''userID''))))))))"

subsection \<open>Queries of one order\<close>

fun find_entry_in :: "py_object list \<Rightarrow> string \<Rightarrow> (string \<times> py_object) list option result" where
  "find_entry_in [] cid = Inr None"
| "find_entry_in (x # xs) cid =
     rbind (as_map x) (\<lambda>d. if field d ''orderLinkId'' = Py_Str cid then Inr (Some d) else find_entry_in xs cid)"

definition query_orders_at :: "'v yenv \<Rightarrow> string \<Rightarrow> string \<Rightarrow> params \<Rightarrow> ('v, (string \<times> py_object) list option) yop" where
  \<comment> \<open>\<^verbatim>\<open>_query_realtime\<close> and \<^verbatim>\<open>_query_history\<close>\<close>
  "query_orders_at env name cid ps =
     ebind (eattempt (bybit_read env name ps)) (\<lambda>r.
     (case r of
        Inl e \<Rightarrow> if exn_is (exn_cls e) OrderNotFoundError then eret None else elift (Inl e)
      | Inr d \<Rightarrow> elift (rbind (result_list d) (\<lambda>xs. find_entry_in xs cid))))"

definition query_order_entry ::
    "'v yenv \<Rightarrow> string \<Rightarrow> string \<Rightarrow> string option \<Rightarrow> ('v, (string \<times> py_object) list option) yop" where
  "query_order_entry env cid category symbol =
     (let ps = [(''category'', W_text category), (''orderLinkId'', W_text cid)]
               @ (case symbol of None \<Rightarrow> [] | Some s \<Rightarrow> [(''symbol'', W_text s)])
      in
      ebind (query_orders_at env ''get_open_orders'' cid ps) (\<lambda>found.
      if found \<noteq> None then eret found else query_orders_at env ''get_order_history'' cid ps))"

type_synonym found_order = "string \<times> string \<times> (string \<times> py_object) list"

definition entry_symbol :: "(string \<times> py_object) list \<Rightarrow> string result" where
  "entry_symbol d =
     (case dict_get d ''symbol'' of None \<Rightarrow> raise_exn PyException ''KeyError'' | Some x \<Rightarrow> Inr (py_text x))"

fun scan_categories :: "'v yenv \<Rightarrow> string \<Rightarrow> string list \<Rightarrow> ('v, found_order option) yop" where
  "scan_categories env cid [] = eret None"
| "scan_categories env cid (c # cs) =
     ebind (query_order_entry env cid c None) (\<lambda>e.
     (case e of
        None \<Rightarrow> scan_categories env cid cs
      | Some d \<Rightarrow> ebind (elift (entry_symbol d)) (\<lambda>s. eret (Some (c, s, d)))))"

definition find_order :: "'v yenv \<Rightarrow> string \<Rightarrow> ('v, found_order option) yop" where
  "find_order env cid =
     ebind (eget (\<lambda>w. dict_get (yw_refs w) cid)) (\<lambda>ref.
     (case ref of
        Some (c, s) \<Rightarrow>
          ebind (query_order_entry env cid c (Some s)) (\<lambda>e.
          eret (case e of None \<Rightarrow> None | Some d \<Rightarrow> Some (c, s, d)))
      | None \<Rightarrow> scan_categories env cid ORDER_CATEGORIES))"

definition remember_order :: "string \<Rightarrow> string \<Rightarrow> string \<Rightarrow> ('v, unit) yop" where
  "remember_order cid c s = eupd (\<lambda>w. w\<lparr>yw_refs := dict_set cid (c, s) (yw_refs w)\<rparr>)"

definition resolve_order_ref :: "'v yenv \<Rightarrow> string \<Rightarrow> ('v, string \<times> string) yop" where
  "resolve_order_ref env cid =
     ebind (find_order env cid) (\<lambda>found.
     (case found of
        None \<Rightarrow> eraise OrderNotFoundError ''Order not found on Bybit''
      | Some (c, s, _) \<Rightarrow> ebind (remember_order cid c s) (\<lambda>_. eret (c, s))))"

definition bybit_get_order :: "'v yenv \<Rightarrow> string \<Rightarrow> ('v, order_result option) yop" where
  "bybit_get_order env cid =
     ebind (find_order env cid) (\<lambda>found.
     (case found of
        None \<Rightarrow> eret None
      | Some (c, s, d) \<Rightarrow>
          ebind (remember_order cid c s) (\<lambda>_.
          ebind (elift (bybit_order_result d cid)) (\<lambda>r. eret (Some r)))))"

definition require_order_result :: "'v yenv \<Rightarrow> string \<Rightarrow> ('v, order_result) yop" where
  "require_order_result env cid =
     ebind (bybit_get_order env cid) (\<lambda>r.
     (case r of None \<Rightarrow> eraise OrderNotFoundError ''Order could not be re-queried'' | Some x \<Rightarrow> eret x))"

subsection \<open>Orders\<close>

definition invalidating :: "('v, unit) yop \<Rightarrow> ('v, unit) yop \<Rightarrow> ('v, unit) yop" where
  \<comment> \<open>\<^verbatim>\<open>except UteError\<close>: drop the cached rules and raise again\<close>
  "invalidating forget m = etry m (\<lambda>e. ebind (ewhen (exn_is (exn_cls e) UteError) forget) (\<lambda>_. elift (Inl e)))"

definition bybit_place_order :: "'v yenv \<Rightarrow> unified_order \<Rightarrow> ('v, order_result) yop" where
  "bybit_place_order env u =
     ebind (strict_check_leverage env (uo_instrument u)) (\<lambda>_.
     ebind (elift (instrument_to_category (uo_instrument u))) (\<lambda>category.
     ebind (elift (to_bybit_symbol (uo_instrument u))) (\<lambda>symbol.
     ebind (case uo_client_id u of
              Some (c # cs) \<Rightarrow> eret (c # cs)
            | _ \<Rightarrow> yside (pb_new_id (ye_sdk env))) (\<lambda>cid.
     ebind (resolve_position_idx env (uo_instrument u) (uo_side u) (uo_reduce_only u)) (\<lambda>idx.
     ebind (elift (bybit_order_payload u category symbol cid idx)) (\<lambda>ps.
     ebind (invalidating (invalidate_instrument_spec (uo_instrument u)) (bybit_write env ''place_order'' ps)) (\<lambda>_.
     ebind (remember_order cid category symbol) (\<lambda>_.
     require_order_result env cid))))))))"

definition bybit_modify_order :: "'v yenv \<Rightarrow> order_modification \<Rightarrow> ('v, order_result) yop" where
  "bybit_modify_order env m =
     ebind (resolve_order_ref env (mo_client_id m)) (\<lambda>(category, symbol).
     ebind (elift (bybit_amend_payload m category symbol)) (\<lambda>ps.
     ebind (invalidating
              (ebind (eget (\<lambda>w. dict_get (yw_instruments w) (category, symbol))) (\<lambda>i.
                 case i of None \<Rightarrow> eret () | Some j \<Rightarrow> invalidate_instrument_spec j))
              (bybit_write env ''amend_order'' ps)) (\<lambda>_.
     require_order_result env (mo_client_id m))))"

definition bybit_cancel_order :: "'v yenv \<Rightarrow> string \<Rightarrow> ('v, order_result) yop" where
  "bybit_cancel_order env cid =
     ebind (resolve_order_ref env cid) (\<lambda>(category, symbol).
     ebind (bybit_write env ''cancel_order'' (bybit_cancel_payload cid category symbol)) (\<lambda>_.
     require_order_result env cid))"

subsection \<open>Position protection\<close>

definition int_or :: "string \<Rightarrow> string \<Rightarrow> int result" where
  \<comment> \<open>\<^verbatim>\<open>int(idx)\<close>, a malformed one raising \<open>ValueError\<close> with another message\<close>
  "int_or s m = (case int_of_text s of None \<Rightarrow> raise_exn PyValueError m | Some n \<Rightarrow> Inr n)"

definition leg_part :: "string \<Rightarrow> string \<Rightarrow> string result" where
  \<comment> \<open>the index of a leg id, whose symbol must be the given one when there is one\<close>
  "leg_part symbol s =
     (if starts_with s (symbol @ '':'') then Inr (drop (length symbol + 1) s)
      else if CHR '':'' \<in> set s then raise_exn PyValueError ''venue symbol does not match the instrument''
      else Inr s)"

definition parse_position_idx :: "instrument \<Rightarrow> string \<Rightarrow> int result" where
  "parse_position_idx i pid =
     rbind (to_bybit_symbol i) (\<lambda>symbol.
     rbind (leg_part symbol pid) (\<lambda>idx. int_or idx ''position_id must be a Bybit positionIdx''))"

fun leg_entry :: "py_object list \<Rightarrow> int \<Rightarrow> (string \<times> py_object) list option result" where
  "leg_entry [] k = Inr None"
| "leg_entry (x # xs) k =
     rbind (as_map x) (\<lambda>d. rbind (leg_index d) (\<lambda>n. if n = k then Inr (Some d) else leg_entry xs k))"

definition read_leg :: "'v yenv \<Rightarrow> instrument \<Rightarrow> string \<Rightarrow> int \<Rightarrow> ('v, (string \<times> py_object) list option) yop" where
  "read_leg env i category idx =
     ebind (position_entries env i category) (\<lambda>xs. elift (leg_entry xs idx))"

definition bybit_modify_tpsl ::
    "'v yenv \<Rightarrow> instrument \<Rightarrow> string \<Rightarrow> tpsl option \<Rightarrow> tpsl option \<Rightarrow> trailing_basis option \<Rightarrow> ('v, unit) yop" where
  "bybit_modify_tpsl env i pid tp sl basis =
     ebind (eguard (tp = None \<and> sl = None) PyValueError ''at least one of take_profit or stop_loss is required'') (\<lambda>_.
     ebind (elift (instrument_to_category i)) (\<lambda>category.
     ebind (eguard (category = ''spot'') UnsupportedOrderTypeError ''position TP/SL modification is not supported for spot'') (\<lambda>_.
     ebind (elift (parse_position_idx i pid)) (\<lambda>idx.
     ebind (elift (to_bybit_symbol i)) (\<lambda>symbol.
     ebind (elift (set_trading_stop_payload category symbol idx tp sl basis)) (\<lambda>ps.
     bybit_write env ''set_trading_stop'' ps))))))"

definition bybit_get_tpsl :: "'v yenv \<Rightarrow> instrument \<Rightarrow> string \<Rightarrow> ('v, (tpsl option \<times> tpsl option) option) yop" where
  "bybit_get_tpsl env i pid =
     ebind (elift (instrument_to_category i)) (\<lambda>category.
     if category = ''spot'' then eret None
     else
       ebind (elift (parse_position_idx i pid)) (\<lambda>idx.
       ebind (read_leg env i category idx) (\<lambda>e.
       (case e of
          None \<Rightarrow> eret None
        | Some d \<Rightarrow>
            elift (rbind (translate_tp_sl (field d ''takeProfit'') (field d ''tpLimitPrice'')) (\<lambda>tp.
                   rbind (translate_tp_sl (field d ''stopLoss'') (field d ''slLimitPrice'')) (\<lambda>sl.
                   Inr (Some (tp, sl)))))))))"

definition bybit_clear_tpsl :: "'v yenv \<Rightarrow> instrument \<Rightarrow> string \<Rightarrow> bool \<Rightarrow> bool \<Rightarrow> ('v, unit) yop" where
  "bybit_clear_tpsl env i pid tp sl =
     ebind (eguard (\<not> tp \<and> \<not> sl) PyValueError ''at least one of take_profit or stop_loss must be true'') (\<lambda>_.
     ebind (elift (instrument_to_category i)) (\<lambda>category.
     ebind (eguard (category = ''spot'') UnsupportedOrderTypeError ''position TP/SL clearing is not supported for spot'') (\<lambda>_.
     ebind (elift (parse_position_idx i pid)) (\<lambda>idx.
     ebind (elift (to_bybit_symbol i)) (\<lambda>symbol.
     ebind (read_leg env i category idx) (\<lambda>e.
     (case e of
        None \<Rightarrow> eret ()
      | Some d \<Rightarrow>
          ebind (elift (leg_size d)) (\<lambda>n.
          if n = 0 then eret ()
          else
            ebind (elift (clear_trading_stop_payload category symbol idx tp sl)) (\<lambda>ps.
            bybit_write env ''set_trading_stop'' ps)))))))))"

subsection \<open>Native trailing\<close>

definition TRAILING_SUFFIX :: string where "TRAILING_SUFFIX = '':trailing''"

definition native_trailing_id :: "instrument \<Rightarrow> int \<Rightarrow> string result" where
  "native_trailing_id i idx = rbind (to_bybit_symbol i) (\<lambda>s. Inr (position_leg_id s (int_text idx) @ TRAILING_SUFFIX))"

definition parse_native_trailing_id :: "instrument \<Rightarrow> string \<Rightarrow> int result" where
  "parse_native_trailing_id i nid =
     rbind (to_bybit_symbol i) (\<lambda>symbol.
     let n = length nid - length TRAILING_SUFFIX in
     if length nid < length TRAILING_SUFFIX \<or> drop n nid \<noteq> TRAILING_SUFFIX then raise_exn PyValueError ''invalid Bybit native trailing id''
     else rbind (leg_part symbol (take n nid)) (\<lambda>idx. int_or idx ''invalid Bybit native trailing id''))"

definition trailing_result_of :: "(string \<times> py_object) list \<Rightarrow> string \<Rightarrow> native_result option result" where
  "trailing_result_of d nid =
     rbind (stream_optional_decimal (field d ''trailingStop'')) (\<lambda>offset.
     rbind (stream_optional_decimal (field d ''activePrice'')) (\<lambda>active.
     Inr (if offset = None \<and> active = None then None
          else Some \<lparr>nt_native_id = nid, nt_confirmed_offset = offset, nt_current_stop = None,
                     nt_activated = (offset \<noteq> None), nt_position_scoped = True\<rparr>)))"

definition bybit_place_trailing :: "'v yenv \<Rightarrow> native_request \<Rightarrow> ('v, native_result) yop" where
  "bybit_place_trailing env r =
     ebind (elift (instrument_to_category (nr_instrument r))) (\<lambda>category.
     ebind (eguard (category = ''spot'') UnsupportedOrderTypeError ''native trailing is not supported for spot'') (\<lambda>_.
     ebind (elift (parse_position_idx (nr_instrument r) (nr_position_id r))) (\<lambda>idx.
     ebind (elift (to_bybit_symbol (nr_instrument r))) (\<lambda>symbol.
     ebind (elift (native_trailing_payload r category symbol idx)) (\<lambda>ps.
     ebind (bybit_write env ''set_trading_stop'' ps) (\<lambda>_.
     ebind (elift (native_trailing_id (nr_instrument r) idx)) (\<lambda>nid.
     eret \<lparr>nt_native_id = nid, nt_confirmed_offset = Some (nr_offset r), nt_current_stop = None,
           nt_activated = True, nt_position_scoped = True\<rparr>)))))))"

definition bybit_get_trailing :: "'v yenv \<Rightarrow> string \<Rightarrow> instrument \<Rightarrow> ('v, native_result option) yop" where
  "bybit_get_trailing env nid i =
     ebind (elift (instrument_to_category i)) (\<lambda>category.
     if category = ''spot'' then eret None
     else
       ebind (elift (parse_native_trailing_id i nid)) (\<lambda>idx.
       ebind (read_leg env i category idx) (\<lambda>e.
       (case e of None \<Rightarrow> eret None | Some d \<Rightarrow> elift (trailing_result_of d nid)))))"

definition bybit_get_position_trailing :: "'v yenv \<Rightarrow> instrument \<Rightarrow> string \<Rightarrow> ('v, native_result option) yop" where
  "bybit_get_position_trailing env i pid =
     ebind (elift (instrument_to_category i)) (\<lambda>category.
     if category = ''spot'' then eret None
     else
       ebind (elift (parse_position_idx i pid)) (\<lambda>idx.
       ebind (read_leg env i category idx) (\<lambda>e.
       (case e of
          None \<Rightarrow> eret None
        | Some d \<Rightarrow> elift (rbind (native_trailing_id i idx) (trailing_result_of d))))))"

definition bybit_cancel_trailing :: "'v yenv \<Rightarrow> string \<Rightarrow> instrument \<Rightarrow> ('v, unit) yop" where
  "bybit_cancel_trailing env nid i =
     ebind (elift (instrument_to_category i)) (\<lambda>category.
     ebind (eguard (category = ''spot'') UnsupportedOrderTypeError ''native trailing is not supported for spot'') (\<lambda>_.
     ebind (elift (parse_native_trailing_id i nid)) (\<lambda>idx.
     ebind (elift (to_bybit_symbol i)) (\<lambda>symbol.
     ebind (bybit_write env ''set_trading_stop'' (cancel_trailing_payload category symbol idx)) (\<lambda>_.
     ebind (bybit_get_trailing env nid i) (\<lambda>remaining.
     eguard (remaining \<noteq> None) PlatformError ''native trailing stop is still present after cancel''))))))"

end
