(* ===== verification/UTE_Bybit_Market.thy ===== *)
theory UTE_Bybit_Market
  imports UTE_Bybit_Trading
begin

text \<open>
  Market data, the snapshots of reconciliation, the callbacks of the private streams with the event
  loop that runs what they schedule, the capabilities, and the Bybit adapter as the core sees it.
\<close>

subsection \<open>Market data\<close>

definition bybit_fetch_ticker :: "'v yenv \<Rightarrow> instrument \<Rightarrow> ('v, ticker option) yop" where
  "bybit_fetch_ticker env i =
     ebind (elift (instrument_to_category i)) (\<lambda>category.
     ebind (elift (to_bybit_symbol i)) (\<lambda>symbol.
     ebind (bybit_read env ''get_tickers'' [(''category'', W_text category), (''symbol'', W_text symbol)]) (\<lambda>d.
     ebind (elift (result_list d)) (\<lambda>xs.
     (case xs of
        [] \<Rightarrow> eret None
      | x # _ \<Rightarrow>
          elift (rbind (as_map x) (\<lambda>e.
                 rbind (stream_optional_decimal (field e ''bid1Price'')) (\<lambda>bid.
                 rbind (stream_optional_decimal (field e ''ask1Price'')) (\<lambda>ask.
                 rbind (stream_optional_decimal (field e ''lastPrice'')) (\<lambda>last.
                 rbind (stream_optional_decimal (field e ''markPrice'')) (\<lambda>mark.
                 Inr (Some \<lparr>ti_bid = bid, ti_ask = ask, ti_last = last, ti_mark = mark\<rparr>))))))))))))"

definition KLINE_INTERVAL :: "(candle_timeframe, string) dict" where
  "KLINE_INTERVAL = [(TF_M1, ''1''), (TF_M5, ''5''), (TF_M15, ''15''), (TF_M30, ''30''), (TF_H1, ''60''),
     (TF_H4, ''240''), (TF_H12, ''720''), (TF_D1, ''D'')]"

definition CANDLE_SECONDS :: "(candle_timeframe, int) dict" where
  "CANDLE_SECONDS = [(TF_M1, 60), (TF_M5, 300), (TF_M15, 900), (TF_M30, 1800), (TF_H1, 3600),
     (TF_H4, 14400), (TF_H12, 43200), (TF_D1, 86400)]"

definition MAX_KLINE_LIMIT :: int where "MAX_KLINE_LIMIT = 1000"

definition kline_int :: "py_object \<Rightarrow> int result" where
  \<comment> \<open>\<^verbatim>\<open>int(x)\<close>\<close>
  "kline_int x =
     (case x of
        Py_Int n \<Rightarrow> Inr n
      | Py_Bool b \<Rightarrow> Inr (if b then 1 else 0)
      | Py_Str s \<Rightarrow> (case int_of_text s of None \<Rightarrow> raise_exn PyValueError ''invalid literal for int()'' | Some n \<Rightarrow> Inr n)
      | Py_Float r \<Rightarrow> (case decimal_of_text r of None \<Rightarrow> raise_exn PyValueError ''cannot convert float to integer'' | Some q \<Rightarrow> Inr (trunc_int q))
      | _ \<Rightarrow> raise_exn PyTypeError ''int() argument must be a string or a number'')"

definition kline_fields :: "py_object \<Rightarrow> (py_object \<times> py_object \<times> py_object \<times> py_object \<times> py_object) option" where
  \<comment> \<open>start, open, high, low and close of an entry; \<open>None\<close> where looking one up raises\<close>
  "kline_fields x =
     (case x of
        Py_Map d \<Rightarrow>
          (case (dict_get d ''startTime'', dict_get d ''openPrice'', dict_get d ''highPrice'', dict_get d ''lowPrice'', dict_get d ''closePrice'') of
             (Some a, Some b, Some c, Some e, Some f) \<Rightarrow> Some (a, b, c, e, f) | _ \<Rightarrow> None)
      | Py_List (a # b # c # e # f # _) \<Rightarrow> Some (a, b, c, e, f)
      | Py_Str (a # b # c # e # f # _) \<Rightarrow> Some (Py_Str [a], Py_Str [b], Py_Str [c], Py_Str [e], Py_Str [f])
      | _ \<Rightarrow> None)"

definition skips :: "exn \<Rightarrow> bool" where
  \<comment> \<open>\<^verbatim>\<open>except (KeyError, IndexError, TypeError, ValueError)\<close>, the first two being answered by \<open>kline_fields\<close>\<close>
  "skips e \<longleftrightarrow> exn_is (exn_cls e) PyValueError \<or> exn_is (exn_cls e) PyTypeError"

definition parse_candle :: "py_object \<times> py_object \<times> py_object \<times> py_object \<times> py_object \<Rightarrow> int \<Rightarrow> instant \<Rightarrow> candle option result" where
  "parse_candle p seconds now =
     (case p of (start, op, hi, lo, cl) \<Rightarrow>
      rbind (kline_int start) (\<lambda>ms.
      rbind (epoch_instant ms) (\<lambda>t.
      let close_time = t + seconds * 1000000 in
      rbind (guard_exn (MAX_EPOCH_SECONDS < close_time div 1000000) PyArithmeticError ''date value out of range'') (\<lambda>_.
      if now < close_time then Inr None
      else
        rbind (to_decimal op) (\<lambda>a.
        rbind (to_decimal hi) (\<lambda>b.
        rbind (to_decimal lo) (\<lambda>c.
        rbind (to_decimal cl) (\<lambda>d.
        rbind (candle_post_init (Aware t) (Aware close_time) a b c d) (\<lambda>x. Inr (Some x))))))))))"

definition parse_candle_entry :: "py_object \<Rightarrow> candle_timeframe \<Rightarrow> instant \<Rightarrow> candle option result" where
  "parse_candle_entry x tf now =
     (case kline_fields x of
        None \<Rightarrow> Inr None
      | Some p \<Rightarrow>
          (case parse_candle p (the (dict_get CANDLE_SECONDS tf)) now of
             Inl e \<Rightarrow> if skips e then Inr None else Inl e
           | Inr c \<Rightarrow> Inr c))"

fun parse_candles :: "py_object list \<Rightarrow> candle_timeframe \<Rightarrow> instant \<Rightarrow> candle list result" where
  "parse_candles [] tf now = Inr []"
| "parse_candles (x # xs) tf now =
     rbind (parse_candle_entry x tf now) (\<lambda>c.
     rbind (parse_candles xs tf now) (\<lambda>cs.
     Inr (case c of None \<Rightarrow> cs | Some y \<Rightarrow> y # cs)))"

definition bybit_fetch_candles :: "'v yenv \<Rightarrow> instrument \<Rightarrow> candle_timeframe \<Rightarrow> int \<Rightarrow> ('v, candle list) yop" where
  "bybit_fetch_candles env i tf limit =
     ebind (eguard (limit < 1) PyValueError ''limit must be at least 1'') (\<lambda>_.
     (case dict_get KLINE_INTERVAL tf of
        None \<Rightarrow> eraise UnsupportedOrderTypeError ''Bybit does not support the candle timeframe''
      | Some interval \<Rightarrow>
          ebind (elift (instrument_to_category i)) (\<lambda>category.
          ebind (elift (to_bybit_symbol i)) (\<lambda>symbol.
          ebind (bybit_read env ''get_kline''
                   [(''category'', W_text category), (''symbol'', W_text symbol), (''interval'', W_text interval),
                    (''limit'', W_int (min (limit + 1) MAX_KLINE_LIMIT))]) (\<lambda>d.
          ebind (elift (result_list d)) (\<lambda>xs.
          ebind (yside (pb_clock (ye_sdk env))) (\<lambda>now.
          ebind (elift (parse_candles (rev xs) tf now)) (\<lambda>cs.
          eret (drop (length cs - nat limit) cs)))))))))"

subsection \<open>Capabilities\<close>

definition derivative :: "instrument \<Rightarrow> bool" where
  "derivative i \<longleftrightarrow> (case instrument_to_category i of Inl _ \<Rightarrow> False | Inr c \<Rightarrow> c \<in> {''linear'', ''inverse''})"

definition bybit_protection_capability :: "instrument \<Rightarrow> protection_capability" where
  "bybit_protection_capability i =
     (if \<not> derivative i then default_protection_capability
      else \<lparr>pc_supported = True, pc_set_stop = True, pc_set_tp = True, pc_clear_stop = True, pc_clear_tp = True,
            pc_preserves = True, pc_triggers = {TB_LAST, TB_MARK}, pc_min_interval = 0, pc_reprice_gap = False\<rparr>)"

definition bybit_market_capability :: "instrument \<Rightarrow> market_capability" where
  "bybit_market_capability i =
     (case instrument_to_category i of
        Inl _ \<Rightarrow> default_market_capability
      | Inr c \<Rightarrow>
          \<lparr>mc_bases = {TB_LAST, TB_BID, TB_ASK} \<union> (if c \<in> {''linear'', ''inverse''} then {TB_MARK} else {}),
           mc_min_interval = 2, mc_timeframes = set (map fst KLINE_INTERVAL), mc_streaming = False\<rparr>)"

definition bybit_trailing_capability :: "instrument \<Rightarrow> trailing_capability" where
  "bybit_trailing_capability i =
     (if \<not> derivative i then default_trailing_capability
      else \<lparr>nc_supported = True, nc_offsets = {OT_PRICE}, nc_bases = {TB_LAST, TB_MARK},
            nc_activations = {TA_IMMEDIATE, TA_PRICE}, nc_step = False, nc_initial_stop = False,
            nc_take_profit = False, nc_position_scoped = True, nc_min_interval = 0\<rparr>)"

definition bybit_order_types :: "order_type set" where
  "bybit_order_types = {MARKET, LIMIT, STOP, STOP_LIMIT}"

subsection \<open>Snapshots for reconciliation\<close>

definition PROTECTION_CREATE_TYPES :: "string list" where
  "PROTECTION_CREATE_TYPES = [''CreateByTakeProfit'', ''CreateByStopLoss'', ''CreateByPartialStopLoss'',
     ''CreateByPartialTakeProfit'', ''CreateByTrailingStop'']"

definition PROTECTION_STOP_TYPES :: "string list" where
  "PROTECTION_STOP_TYPES = [''TakeProfit'', ''StopLoss'', ''PartialTakeProfit'', ''PartialStopLoss'', ''TrailingStop'']"

definition in_texts :: "string list \<Rightarrow> py_object \<Rightarrow> bool result" where
  \<comment> \<open>\<^verbatim>\<open>x in frozenset(texts)\<close>\<close>
  "in_texts ts x =
     (case x of
        Py_Str s \<Rightarrow> Inr (s \<in> set ts)
      | Py_List _ \<Rightarrow> raise_exn PyTypeError ''unhashable type''
      | Py_Map _ \<Rightarrow> raise_exn PyTypeError ''unhashable type''
      | _ \<Rightarrow> Inr False)"

definition is_protection_entry :: "(string \<times> py_object) list \<Rightarrow> bool result" where
  "is_protection_entry d =
     rbind (in_texts PROTECTION_CREATE_TYPES (field d ''createType'')) (\<lambda>b.
     if b then Inr True else in_texts PROTECTION_STOP_TYPES (field d ''stopOrderType''))"

definition execution_client_key :: "(string \<times> py_object) list \<Rightarrow> string option result" where
  "execution_client_key d =
     (if truthy (field d ''orderLinkId'') then Inr (Some (link_id d))
      else if \<not> truthy (field d ''orderId'') then Inr None
      else rbind (is_protection_entry d) (\<lambda>b.
           Inr (Some (if b then ''bybit-tpsl-'' @ py_text (field d ''orderId'') else py_text (field d ''orderId'')))))"

definition registered :: "(string \<times> py_object) list \<Rightarrow> py_object \<Rightarrow> ('v, instrument) yop" where
  \<comment> \<open>\<^verbatim>\<open>_resolve_instrument(entry.get("symbol") or "", category)\<close>; only texts are keys of the registry\<close>
  "registered d category =
     (case (py_or (field d ''symbol'') (Py_Str []), category) of
        (Py_Str s, Py_Str c) \<Rightarrow> resolve_instrument s c
      | _ \<Rightarrow> eraise PlatformError ''Unknown Bybit instrument in stream update'')"

definition own_category :: "(string \<times> py_object) list \<Rightarrow> py_object" where
  "own_category d = py_or (field d ''category'') (Py_Str [])"

definition attempt_entry :: "py_object \<Rightarrow> ((string \<times> py_object) list \<Rightarrow> ('v, 'a) yop) \<Rightarrow> ('v, 'a option) yop" where
  \<comment> \<open>the translation of an entry, one that raises being logged and skipped\<close>
  "attempt_entry x f =
     ebind (eattempt (ebind (elift (as_map x)) f)) (\<lambda>r. eret (case r of Inl _ \<Rightarrow> None | Inr a \<Rightarrow> Some a))"

definition add_position :: "position \<Rightarrow> position list \<Rightarrow> position list" where
  \<comment> \<open>one position per instrument and leg id\<close>
  "add_position p ps =
     (if list_ex (\<lambda>q. inst_id (po_instrument q) = inst_id (po_instrument p) \<and> po_id q = po_id p) ps then ps else ps @ [p])"

definition collect_position :: "string \<Rightarrow> py_object \<Rightarrow> position list \<Rightarrow> ('v, position list) yop" where
  "collect_position category x acc =
     ebind (attempt_entry x (\<lambda>d.
       ebind (registered d (Py_Str category)) (\<lambda>i. elift (translate_position d i)))) (\<lambda>p.
     eret (case p of None \<Rightarrow> acc | Some q \<Rightarrow> if po_quantity q \<noteq> 0 then add_position q acc else acc))"

definition settle :: "string \<Rightarrow> params" where
  "settle coin = [(''category'', W_text ''linear''), (''settleCoin'', W_text coin)]"

definition bybit_fetch_positions :: "'v yenv \<Rightarrow> ('v, position list) yop" where
  "bybit_fetch_positions env =
     ebind (efold (\<lambda>coin acc. paged_results env ''get_positions'' (settle coin) (collect_position ''linear'') acc)
              [''USDT'', ''USDC''] []) (\<lambda>ps.
     paged_results env ''get_positions'' [(''category'', W_text ''inverse'')] (collect_position ''inverse'') ps)"

definition bybit_fetch_balances :: "'v yenv \<Rightarrow> ('v, (string, balance) dict) yop" where
  "bybit_fetch_balances env =
     ebind (bybit_read env ''get_wallet_balance'' [(''accountType'', W_text ''UNIFIED'')]) (\<lambda>d.
     ebind (elift (result_list d)) (\<lambda>members.
     ebind (yside (pb_clock (ye_sdk env))) (\<lambda>now.
     efold (\<lambda>m acc. ebind (elift (translate_wallet_member m now)) (\<lambda>bs.
              eret (foldl (\<lambda>a b. dict_set (ba_currency b) b a) acc bs))) members [])))"

definition collect_order :: "string \<Rightarrow> py_object \<Rightarrow> (string, order_record) dict \<Rightarrow> ('v, (string, order_record) dict) yop" where
  "collect_order category x acc =
     ebind (elift (rbind (as_map x) is_protection_entry)) (\<lambda>protection.
     if protection then eret acc
     else
       ebind (attempt_entry x (\<lambda>d.
         ebind (registered d (Py_Str category)) (\<lambda>i. elift (translate_order_entry d i)))) (\<lambda>o_rec.
       eret (case o_rec of
               None \<Rightarrow> acc
             | Some r \<Rightarrow>
                 (let key = (if or_client_id r \<noteq> [] then or_client_id r else case or_platform_id r of None \<Rightarrow> [] | Some p \<Rightarrow> p)
                  in if key = [] then acc else dict_set key r acc))))"

definition bybit_fetch_open_orders :: "'v yenv \<Rightarrow> ('v, (string, order_record) dict) yop" where
  "bybit_fetch_open_orders env =
     ebind (efold (\<lambda>c acc. paged_results env ''get_open_orders'' [(''category'', W_text c)] (collect_order c) acc)
              [''spot'', ''inverse''] []) (\<lambda>d.
     efold (\<lambda>coin acc. paged_results env ''get_open_orders'' (settle coin) (collect_order ''linear'') acc)
       [''USDT'', ''USDC''] d)"

definition collect_fill ::
    "string \<Rightarrow> instant option \<Rightarrow> py_object \<Rightarrow> (string, fill_record list) dict \<Rightarrow> ('v, (string, fill_record list) dict) yop" where
  "collect_fill category since x acc =
     ebind (elift (as_map x)) (\<lambda>d.
     if field d ''execType'' \<noteq> Py_Str ''Trade'' then eret acc
     else
       ebind (elift (execution_client_key d)) (\<lambda>key.
       (case key of
          None \<Rightarrow> eret acc
        | Some cid \<Rightarrow>
            ebind (attempt_entry x (\<lambda>d.
              ebind (registered d (Py_Str category)) (\<lambda>i. elift (translate_fill d i cid)))) (\<lambda>f.
            eret (case f of
                    None \<Rightarrow> acc
                  | Some r \<Rightarrow>
                      if (case since of None \<Rightarrow> False | Some t \<Rightarrow> fl_timestamp r < t) then acc
                      else dict_set cid ((case dict_get acc cid of None \<Rightarrow> [] | Some fs \<Rightarrow> fs) @ [r]) acc)))))"

definition since_params :: "instant option \<Rightarrow> params" where
  "since_params since = (case since of None \<Rightarrow> [] | Some t \<Rightarrow> [(''startTime'', W_int (t div 1000))])"

definition bybit_fetch_fills :: "'v yenv \<Rightarrow> instant option \<Rightarrow> ('v, (string, fill_record list) dict) yop" where
  "bybit_fetch_fills env since =
     efold (\<lambda>c acc. paged_results env ''get_executions'' ((''category'', W_text c) # since_params since) (collect_fill c since) acc)
       ORDER_CATEGORIES []"

subsection \<open>The private streams\<close>

definition MAX_TRACKED_FINAL_ORDER_IDS :: nat where "MAX_TRACKED_FINAL_ORDER_IDS = 10000"

definition retire :: "string \<Rightarrow> string list \<Rightarrow> string list" where
  \<comment> \<open>the recently used ids with this one last, the oldest dropped beyond the bound\<close>
  "retire p ids =
     (let xs = filter (\<lambda>q. q \<noteq> p) ids @ [p] in drop (length xs - MAX_TRACKED_FINAL_ORDER_IDS) xs)"

definition move_to_final :: "string \<Rightarrow> ('v, unit) yop" where
  "move_to_final p = eupd (\<lambda>w. w\<lparr>yw_open := yw_open w - {p}, yw_final := retire p (yw_final w)\<rparr>)"

definition schedule_event :: "'v yenv \<Rightarrow> string option \<Rightarrow> event_body \<Rightarrow> ('v, unit) yop" where
  "schedule_event env correlation body = ebind (bybit_event_of env correlation (Core body)) publish_from_ws"

definition or_none :: "string \<Rightarrow> string option" where
  "or_none s = (if s = [] then None else Some s)"

definition order_sighting :: "'v yenv \<Rightarrow> order_record \<Rightarrow> string \<Rightarrow> ('v, unit) yop" where
  \<comment> \<open>the bookkeeping of the seen orders, under their lock\<close>
  "order_sighting env r p =
     ebind (eget (\<lambda>w. (p \<in> set (yw_final w), p \<in> yw_open w))) (\<lambda>(final, live).
     if final then eret ()
     else if live then
       (if is_terminal_order_status (or_status r) then
          ebind (move_to_final p) (\<lambda>_.
          schedule_event env (or_none (or_client_id r)) (OrderCancelledEvent (or_client_id r) (or_instrument r)))
        else
          ebind (schedule_event env (or_none (or_client_id r)) (OrderStatusEvent r)) (\<lambda>_.
          ewhen (is_final_order_status (or_status r)) (move_to_final p)))
     else
       ebind (schedule_event env (or_none (or_client_id r)) (OrderPlacedEvent r)) (\<lambda>_.
       if is_final_order_status (or_status r) then move_to_final p
       else eupd (\<lambda>w. w\<lparr>yw_open := insert p (yw_open w)\<rparr>)))"

definition on_order_entry :: "'v yenv \<Rightarrow> py_object \<Rightarrow> ('v, unit) yop" where
  "on_order_entry env x =
     ebind (elift (rbind (as_map x) is_protection_entry)) (\<lambda>protection.
     if protection then eret ()
     else
       ebind (attempt_entry x (\<lambda>d.
         ebind (registered d (own_category d)) (\<lambda>i.
         elift (translate_order_entry d i)))) (\<lambda>o_rec.
       (case o_rec of
          None \<Rightarrow> eret ()
        | Some r \<Rightarrow>
            ebind (ewhen (or_status r = REJECTED) (invalidate_spec_from_ws (or_instrument r))) (\<lambda>_.
            (case or_platform_id r of
               Some (c # cs) \<Rightarrow> order_sighting env r (c # cs)
             | _ \<Rightarrow> eret ())))))"

definition message_entries :: "(string \<times> py_object) list \<Rightarrow> py_object list result" where
  \<comment> \<open>\<^verbatim>\<open>message.get("data") or []\<close>\<close>
  "message_entries m = seq_of (field m ''data'')"

definition on_order_message :: "'v yenv \<Rightarrow> (string \<times> py_object) list \<Rightarrow> ('v, unit) yop" where
  "on_order_message env m = ebind (elift (message_entries m)) (\<lambda>xs. efor xs (on_order_entry env))"

definition on_execution_entry :: "'v yenv \<Rightarrow> py_object \<Rightarrow> ('v, unit) yop" where
  "on_execution_entry env x =
     ebind (elift (as_map x)) (\<lambda>d.
     if field d ''execType'' \<noteq> Py_Str ''Trade'' then eret ()
     else
       ebind (elift (execution_client_key d)) (\<lambda>key.
       (case key of
          None \<Rightarrow> eret ()
        | Some cid \<Rightarrow>
            ebind (attempt_entry x (\<lambda>d.
              ebind (registered d (own_category d)) (\<lambda>i.
              elift (translate_fill d i cid)))) (\<lambda>f.
            (case f of None \<Rightarrow> eret () | Some r \<Rightarrow> schedule_event env (or_none cid) (FillEvent r))))))"

definition on_execution_message :: "'v yenv \<Rightarrow> (string \<times> py_object) list \<Rightarrow> ('v, unit) yop" where
  "on_execution_message env m = ebind (elift (message_entries m)) (\<lambda>xs. efor xs (on_execution_entry env))"

definition on_position_message :: "'v yenv \<Rightarrow> (string \<times> py_object) list \<Rightarrow> ('v, unit) yop" where
  "on_position_message env m =
     ebind (elift (message_entries m)) (\<lambda>xs.
     efor xs (\<lambda>x.
       ebind (attempt_entry x (\<lambda>d.
         ebind (registered d (own_category d)) (\<lambda>i.
         elift (translate_position d i)))) (\<lambda>p.
       (case p of None \<Rightarrow> eret () | Some q \<Rightarrow> schedule_event env None (PositionUpdateEvent q)))))"

definition on_wallet_message :: "'v yenv \<Rightarrow> (string \<times> py_object) list \<Rightarrow> ('v, unit) yop" where
  "on_wallet_message env m =
     ebind (yside (pb_clock (ye_sdk env))) (\<lambda>now.
     (case (if truthy (field m ''creationTime'') then to_instant (field m ''creationTime'') else Inr now) of
        Inl _ \<Rightarrow> eret ()
      | Inr t \<Rightarrow>
          ebind (elift (message_entries m)) (\<lambda>members.
          efor members (\<lambda>x.
            ebind (elift (translate_wallet_member x t)) (\<lambda>bs.
            efor bs (\<lambda>b. schedule_event env None (BalanceUpdateEvent b)))))))"

definition loop_turn :: "('v, unit) yop" where
  \<comment> \<open>the event loop runs the oldest scheduled call; what it raises is logged\<close>
  "loop_turn =
     ebind (eget yw_scheduled) (\<lambda>q.
     (case q of
        [] \<Rightarrow> eret ()
      | s # rest \<Rightarrow>
          ebind (eupd (\<lambda>w. w\<lparr>yw_scheduled := rest\<rparr>)) (\<lambda>_.
          etry (case s of S_Publish e \<Rightarrow> bybit_publish e | S_Invalidate i \<Rightarrow> invalidate_instrument_spec i)
            (\<lambda>_. eret ()))))"

subsection \<open>The adapter\<close>

definition bybit_init :: "'v \<Rightarrow> rate_limits \<Rightarrow> bool \<Rightarrow> store option \<Rightarrow> 'v yworld" where
  \<comment> \<open>the constructor; \<open>limits\<close> is \<^verbatim>\<open>_parse_rate_limits({})\<close> at its clock reading\<close>
  "bybit_init v limits bus s = \<lparr>yw_venue = v, yw_connected = False, yw_ws = False, yw_monitor = False, yw_loop = False,
     yw_limits = limits, yw_refs = [], yw_account = None, yw_instruments = [], yw_specs = [], yw_open = {},
     yw_final = [], yw_bus = bus, yw_events = [], yw_halts = None, yw_store = s, yw_scheduled = []\<rparr>"

definition attach_halt_machine :: "halt_machine option \<Rightarrow> ('v, unit) yop" where
  "attach_halt_machine h = eupd (\<lambda>w. w\<lparr>yw_halts := h\<rparr>)"

definition attach_event_bus :: "('v, unit) yop" where
  "attach_event_bus = eupd (\<lambda>w. w\<lparr>yw_bus := True\<rparr>)"

definition attach_state_store :: "store \<Rightarrow> ('v, unit) yop" where
  "attach_state_store s = eupd (\<lambda>w. w\<lparr>yw_store := Some s\<rparr>)"

definition bybit_adapter :: "'v yenv \<Rightarrow> string \<Rightarrow> 'v yworld adapter" where
  \<comment> \<open>\<open>account\<close> is the identity the adapter has resolved\<close>
  "bybit_adapter env account =
     \<lparr>ad_platform = yc_platform (ye_config env), ad_account = account, ad_is_connected = yw_connected,
      ad_connect = bybit_connect env, ad_disconnect = bybit_disconnect env, ad_order_types = bybit_order_types,
      ad_place_order = bybit_place_order env, ad_modify_order = bybit_modify_order env,
      ad_cancel_order = bybit_cancel_order env, ad_get_order = bybit_get_order env,
      ad_fetch_spec = bybit_fetch_spec env, ad_protection_cap = bybit_protection_capability,
      ad_trailing_cap = bybit_trailing_capability, ad_market_cap = bybit_market_capability,
      ad_rate_limits = bybit_get_rate_limits env, ad_fetch_ticker = bybit_fetch_ticker env,
      ad_fetch_candles = bybit_fetch_candles env, ad_modify_tpsl = bybit_modify_tpsl env,
      ad_get_tpsl = bybit_get_tpsl env, ad_clear_tpsl = bybit_clear_tpsl env,
      ad_place_trailing = bybit_place_trailing env, ad_cancel_trailing = bybit_cancel_trailing env,
      ad_get_trailing = bybit_get_trailing env, ad_get_position_trailing = bybit_get_position_trailing env,
      ad_fetch_positions = bybit_fetch_positions env, ad_fetch_balances = bybit_fetch_balances env,
      ad_fetch_open_orders = bybit_fetch_open_orders env, ad_fetch_fills = bybit_fetch_fills env,
      ad_reconcile_intent = bybit_reconcile_intent env\<rparr>"

end
