(* ===== verification/UTE_Bybit_Desk.thy ===== *)
theory UTE_Bybit_Desk
  imports UTE_Bybit_Market UTE_Wp
begin

text \<open>
  What the operations of the Bybit adapter keep. A predicate on the adapter's world that survives the
  calls of the SDK and the updates the adapter makes survives every operation: \<open>bybit_queries\<close> covers the
  operations that only read from the venue, \<open>bybit_intent\<close> those that also change settings there,
  \<open>bybit_stream\<close> the registry and the callbacks of the streams, \<open>bybit_link\<close> the connection,
  \<open>bybit_orders\<close> the requests that trade, and \<open>bybit_policy\<close> all of them. The operations are walked through once, here.
\<close>

lemma safe_efold: "(\<And>x b. safe I (f x b) (\<lambda>_. True)) \<Longrightarrow> safe I (efold f xs b) (\<lambda>_. True)"
  by (induction xs arbitrary: b) (auto intro: safe_eret safe_bind_any)

lemma safe_bind_efold:
  "(\<And>x b. safe I (g x b) (\<lambda>_. True)) \<Longrightarrow> (\<And>a. safe I (f a) Q) \<Longrightarrow> safe I (ebind (efold g xs b) f) Q"
  by (rule safe_bind_any [OF safe_efold])

lemma safe_attempt_entry:
  "(\<And>d. safe I (f d) (\<lambda>_. True)) \<Longrightarrow> safe I (attempt_entry x f) (\<lambda>_. True)"
  unfolding attempt_entry_def by (intro safe_walk TrueI)

lemma safe_case_pybit:
  "\<lbrakk>\<And>d h. safe I (a d h) Q; \<And>s m. safe I (b s m) Q; \<And>c m. safe I (g c m) Q; \<And>m. safe I (t m) Q;
    \<And>m. safe I (n m) Q; \<And>e. safe I (o' e) Q\<rbrakk>
   \<Longrightarrow> safe I (case v of PB_Reply d h \<Rightarrow> a d h | PB_Failed s m \<Rightarrow> b s m | PB_Invalid c m \<Rightarrow> g c m
        | PB_Timeout m \<Rightarrow> t m | PB_Transport m \<Rightarrow> n m | PB_Other e \<Rightarrow> o' e) Q"
  by (cases v) simp_all

lemma safe_yside:
  "(\<And>w. I w \<Longrightarrow> I (w\<lparr>yw_venue := snd (f (yw_venue w))\<rparr>)) \<Longrightarrow> safe I (yside f) (\<lambda>_. True)"
  by (simp add: safe_def yside_def case_prod_beta)

lemmas safe_more = safe_case_list safe_elifted safe_eguarded safe_egot safe_efor safe_bind_efold safe_efold
  safe_etry TrueI

subsection \<open>Operations that read\<close>

definition is_read :: "string \<Rightarrow> bool" where
  "is_read name \<longleftrightarrow> starts_with name ''get_''"

lemma is_read_names [simp]:
  "is_read ''get_instruments_info''" "is_read ''get_positions''" "is_read ''get_account_info''"
  "is_read ''get_api_key_information''" "is_read ''get_open_orders''" "is_read ''get_order_history''"
  "is_read ''get_tickers''" "is_read ''get_kline''" "is_read ''get_wallet_balance''" "is_read ''get_executions''"
  by (simp_all add: is_read_def starts_with_def)

locale bybit_queries =
  fixes env :: "'v yenv" and I :: "'v yworld \<Rightarrow> bool"
  assumes asked: "I w \<Longrightarrow> is_read name \<Longrightarrow> I (w\<lparr>yw_venue := snd (pb_request (ye_sdk env) name ps (yw_venue w))\<rparr>)"
    and clocked: "I w \<Longrightarrow> I (w\<lparr>yw_venue := snd (pb_clock (ye_sdk env) (yw_venue w))\<rparr>)"
    and ticked: "I w \<Longrightarrow> I (w\<lparr>yw_venue := snd (pb_monotonic (ye_sdk env) (yw_venue w))\<rparr>)"
    and named: "I w \<Longrightarrow> I (w\<lparr>yw_venue := snd (pb_new_id (ye_sdk env) (yw_venue w))\<rparr>)"
    and faulted: "I w \<Longrightarrow> I (w\<lparr>yw_venue := snd (pb_store_fault (ye_sdk env) (yw_venue w))\<rparr>)"
    and slept: "I w \<Longrightarrow> I (w\<lparr>yw_venue := pb_sleep (ye_sdk env) t (yw_venue w)\<rparr>)"
    and limited: "I w \<Longrightarrow> parse_rate_limits hs now = Inr r \<Longrightarrow> I (w\<lparr>yw_limits := r\<rparr>)"
    and referred: "I w \<Longrightarrow> I (w\<lparr>yw_refs := dict_set cid ref (yw_refs w)\<rparr>)"
    and specified: "I w \<Longrightarrow> I (w\<lparr>yw_specs := sp\<rparr>)"
    and identified: "I w \<Longrightarrow> I (w\<lparr>yw_account := a\<rparr>)"
begin

lemma safe_clock: "safe I (yside (pb_clock (ye_sdk env))) (\<lambda>_. True)"
  by (rule safe_yside) (rule clocked)

lemma safe_monotonic: "safe I (yside (pb_monotonic (ye_sdk env))) (\<lambda>_. True)"
  by (rule safe_yside) (rule ticked)

lemma safe_new_id: "safe I (yside (pb_new_id (ye_sdk env))) (\<lambda>_. True)"
  by (rule safe_yside) (rule named)

lemma safe_fault: "safe I (yfault (pb_store_fault (ye_sdk env))) (\<lambda>_. True)"
proof -
  have "safe I (yside (pb_store_fault (ye_sdk env))) (\<lambda>_. True)"
    by (rule safe_yside) (rule faulted)
  then show ?thesis unfolding yfault_def by (intro safe_walk safe_more safe_bind_any)
qed

lemmas safe_asides = safe_clock [THEN safe_bind_any] safe_monotonic [THEN safe_bind_any] safe_new_id [THEN safe_bind_any]

lemma safe_limits: "safe I (update_rate_limits env hs) (\<lambda>_. True)"
  unfolding update_rate_limits_def by (intro safe_walk safe_asides safe_eupd limited)

lemma safe_sleep: "safe I (eupd (\<lambda>w. w\<lparr>yw_venue := pb_sleep (ye_sdk env) t (yw_venue w)\<rparr>)) (\<lambda>_. True)"
  by (rule safe_eupd) (rule slept)

lemma safe_attempts:
  assumes "safe I (yside (pb_request (ye_sdk env) name ps)) (\<lambda>_. True)"
  shows "safe I (attempts env read name ps i n) (\<lambda>_. True)"
proof (induction n arbitrary: i)
  case (Suc n)
  show ?case
    unfolding attempts.simps Let_def
    by (intro safe_bind_any [OF assms] safe_case_pybit safe_walk safe_more Suc.IH safe_sleep [THEN safe_bind_any]
        safe_limits [THEN safe_bind_any])
qed (simp add: safe_eraise)

lemma safe_read: "is_read name \<Longrightarrow> safe I (bybit_read env name ps) (\<lambda>_. True)"
  unfolding bybit_read_def
  by (intro safe_attempts safe_yside asked)

lemma safe_pages:
  assumes "is_read name" and "\<And>x b. safe I (each x b) (\<lambda>_. True)"
  shows "safe I (pages env name ps each cursor n b) (\<lambda>_. True)"
proof (induction n arbitrary: cursor b)
  case (Suc n)
  show ?case
    unfolding pages.simps
    by (intro safe_walk safe_more safe_read [OF assms(1), THEN safe_bind_any] assms(2) Suc.IH)
qed (simp add: safe_eraise)

lemma safe_paged:
  "is_read name \<Longrightarrow> (\<And>x b. safe I (each x b) (\<lambda>_. True)) \<Longrightarrow> safe I (paged_results env name ps each b) (\<lambda>_. True)"
  unfolding paged_results_def by (rule safe_pages)

lemma safe_invalidate: "safe I (invalidate_instrument_spec i) (\<lambda>_. True)"
  unfolding invalidate_instrument_spec_def by (rule safe_eupd) (rule specified)

lemma safe_spec: "safe I (bybit_fetch_spec env i) (\<lambda>_. True)"
proof -
  have "safe I (bybit_cached_spec env i) (\<lambda>_. True)"
    unfolding bybit_cached_spec_def
    by (intro safe_walk safe_more safe_asides safe_invalidate [THEN safe_bind_any])
  then show ?thesis
    unfolding bybit_fetch_spec_def
    by (intro safe_bind_any [of I "bybit_cached_spec env i"] safe_walk safe_more safe_asides safe_read [THEN safe_bind_any]
        safe_bind_any [OF safe_eupd] specified) simp_all
qed

lemma safe_entries: "safe I (position_entries env i c) (\<lambda>_. True)"
  unfolding position_entries_def by (intro safe_walk safe_more safe_read [THEN safe_bind_any]) simp

lemma safe_rates: "safe I (bybit_get_rate_limits env) (\<lambda>_. True)"
  unfolding bybit_get_rate_limits_def by (intro safe_walk safe_more safe_asides)

lemma safe_get_leverage: "safe I (bybit_get_leverage env i) (\<lambda>_. True)"
  unfolding bybit_get_leverage_def by (intro safe_walk safe_more safe_entries [THEN safe_bind_any])

lemma safe_get_mode: "safe I (bybit_get_position_mode env i) (\<lambda>_. True)"
  unfolding bybit_get_position_mode_def by (intro safe_walk safe_more safe_entries [THEN safe_bind_any])

lemma safe_get_margin: "safe I (bybit_get_margin_mode env) (\<lambda>_. True)"
  unfolding bybit_get_margin_mode_def by (intro safe_walk safe_more safe_read [THEN safe_bind_any]) simp

lemma safe_account: "safe I (bybit_resolve_account_id env) (\<lambda>_. True)"
proof -
  have a: "safe I (eupd (\<lambda>w. w\<lparr>yw_account := a\<rparr>)) (\<lambda>_. True)" for a by (rule safe_eupd) (rule identified)
  have q: "safe I (ebind (bybit_read env ''get_api_key_information'' []) (\<lambda>d.
          ebind (elift (result_map d)) (\<lambda>r.
          ebind (eguard (is_missing (field r ''userID'')) PlatformConnectionError ''query-api returned no userID'') (\<lambda>_.
          ebind (eupd (\<lambda>w. w\<lparr>yw_account := Some (py_text (field r ''userID''))\<rparr>)) (\<lambda>_.
          eret (py_text (field r ''userID''))))))) (\<lambda>_. True)"
    by (intro safe_walk safe_more safe_read [THEN safe_bind_any] a [THEN safe_bind_any]) simp
  have s: "safe I (ebind (eupd (\<lambda>w. w\<lparr>yw_account := Some (c # cs)\<rparr>)) (\<lambda>_. eret (c # cs))) (\<lambda>_. True)" for c cs
    by (intro safe_walk safe_more a [THEN safe_bind_any])
  show ?thesis
    unfolding bybit_resolve_account_id_def
    by (intro safe_bind_eget) (auto split: option.splits list.splits intro: q s safe_eret)
qed

lemma safe_orders_at: "is_read name \<Longrightarrow> safe I (query_orders_at env name cid ps) (\<lambda>_. True)"
  unfolding query_orders_at_def by (intro safe_walk safe_more safe_read)

lemma safe_entry: "safe I (query_order_entry env cid c s) (\<lambda>_. True)"
  unfolding query_order_entry_def
  by (intro safe_let safe_walk safe_more safe_orders_at safe_orders_at [THEN safe_bind_any]) simp_all

lemma safe_find_order: "safe I (find_order env cid) (\<lambda>_. True)"
proof -
  have "safe I (scan_categories env cid cs) (\<lambda>_. True)" for cs
    by (induction cs) (auto intro!: safe_walk safe_entry [THEN safe_bind_any])
  then show ?thesis
    unfolding find_order_def by (intro safe_walk safe_more safe_entry [THEN safe_bind_any])
qed

lemma safe_remember: "safe I (remember_order cid c s) (\<lambda>_. True)"
  unfolding remember_order_def by (rule safe_eupd) (rule referred)

lemma safe_order_ref: "safe I (resolve_order_ref env cid) (\<lambda>_. True)"
  unfolding resolve_order_ref_def
  by (intro safe_walk safe_more safe_find_order [THEN safe_bind_any] safe_remember [THEN safe_bind_any])

lemma safe_get_order: "safe I (bybit_get_order env cid) (\<lambda>_. True)"
  unfolding bybit_get_order_def
  by (intro safe_walk safe_more safe_find_order [THEN safe_bind_any] safe_remember [THEN safe_bind_any])

lemma safe_require_order: "safe I (require_order_result env cid) (\<lambda>_. True)"
  unfolding require_order_result_def by (intro safe_walk safe_more safe_get_order [THEN safe_bind_any])

lemma safe_leg: "safe I (read_leg env i c idx) (\<lambda>_. True)"
  unfolding read_leg_def by (intro safe_walk safe_more safe_entries [THEN safe_bind_any])

lemma safe_tpsl: "safe I (bybit_get_tpsl env i pid) (\<lambda>_. True)"
  unfolding bybit_get_tpsl_def by (intro safe_walk safe_more safe_leg [THEN safe_bind_any])

lemma safe_trailing: "safe I (bybit_get_trailing env nid i) (\<lambda>_. True)"
  unfolding bybit_get_trailing_def by (intro safe_walk safe_more safe_leg [THEN safe_bind_any])

lemma safe_position_trailing: "safe I (bybit_get_position_trailing env i pid) (\<lambda>_. True)"
  unfolding bybit_get_position_trailing_def by (intro safe_walk safe_more safe_leg [THEN safe_bind_any])

lemma safe_ticker: "safe I (bybit_fetch_ticker env i) (\<lambda>_. True)"
  unfolding bybit_fetch_ticker_def by (intro safe_walk safe_more safe_read [THEN safe_bind_any]) simp

lemma safe_candles: "safe I (bybit_fetch_candles env i tf n) (\<lambda>_. True)"
  unfolding bybit_fetch_candles_def by (intro safe_walk safe_more safe_asides safe_read [THEN safe_bind_any]) simp

lemma safe_registered: "safe I (registered d c) (\<lambda>_. True)"
proof -
  have "safe I (resolve_instrument s c) (\<lambda>_. True)" for s c
    unfolding resolve_instrument_def by (intro safe_walk safe_more)
  then show ?thesis
    unfolding registered_def by (auto split: py_object.splits intro: safe_eraise)
qed

lemmas safe_entry_of = safe_attempt_entry [THEN safe_bind_any] safe_registered [THEN safe_bind_any]

lemma safe_positions: "safe I (bybit_fetch_positions env) (\<lambda>_. True)"
  unfolding bybit_fetch_positions_def collect_position_def
  by (intro safe_walk safe_more safe_paged safe_entry_of) simp_all

lemma safe_balances: "safe I (bybit_fetch_balances env) (\<lambda>_. True)"
  unfolding bybit_fetch_balances_def
  by (intro safe_walk safe_more safe_asides safe_read [THEN safe_bind_any]) simp_all

lemma safe_open_orders: "safe I (bybit_fetch_open_orders env) (\<lambda>_. True)"
  unfolding bybit_fetch_open_orders_def collect_order_def
  by (intro safe_walk safe_more safe_paged safe_entry_of) simp_all

lemma safe_fills: "safe I (bybit_fetch_fills env since) (\<lambda>_. True)"
  unfolding bybit_fetch_fills_def collect_fill_def
  by (intro safe_walk safe_more safe_paged safe_entry_of) simp_all

end

subsection \<open>Operations that change settings\<close>

definition is_setting :: "string \<Rightarrow> bool" where
  "is_setting name \<longleftrightarrow> name \<in> {''set_leverage'', ''switch_position_mode'', ''set_margin_mode''}"

lemma is_setting_names [simp]:
  "is_setting ''set_leverage''" "is_setting ''switch_position_mode''" "is_setting ''set_margin_mode''"
  by (simp_all add: is_setting_def)

locale bybit_intent = bybit_queries +
  assumes set_up: "I w \<Longrightarrow> is_setting name
      \<Longrightarrow> I (w\<lparr>yw_venue := snd (pb_request (ye_sdk env) name ps (yw_venue w))\<rparr>)"
    and published: "I w \<Longrightarrow> I (w\<lparr>yw_events := es\<rparr>)"
    and stored: "I w \<Longrightarrow> I (w\<lparr>yw_store := Some st\<rparr>)"
    and halted: "I w \<Longrightarrow> I (w\<lparr>yw_halts := h\<rparr>)"
begin

lemma safe_setting: "is_setting name \<Longrightarrow> safe I (bybit_write env name ps) (\<lambda>_. True)"
  unfolding bybit_write_def by (intro safe_walk safe_more safe_attempts [THEN safe_bind_any] safe_yside set_up)

lemma safe_store: "safe I (ystore env m) (\<lambda>_. True)"
proof -
  have "safe I (\<lambda>w. case yw_store w of
            None \<Rightarrow> (raise_exn PyException ''no state store'', w)
          | Some s \<Rightarrow> (case m s of (r, s') \<Rightarrow> (r, w\<lparr>yw_store := Some s'\<rparr>))) (\<lambda>_. True)"
    by (rule safeI) (auto simp: stored split: option.splits prod.splits)
  then show ?thesis unfolding ystore_def by (intro safe_fault [THEN safe_bind_any])
qed

lemma safe_rows:
  "safe I (get_row env k) (\<lambda>_. True)" "safe I (set_row env k v) (\<lambda>_. True)" "safe I (delete_row env k) (\<lambda>_. True)"
  unfolding get_row_def set_row_def delete_row_def by (intro safe_walk safe_store)+

lemma safe_has_store: "safe I has_store (\<lambda>_. True)"
  unfolding has_store_def by (rule safe_egot)

lemma safe_require_store: "safe I require_store (\<lambda>_. True)"
  unfolding require_store_def by (intro safe_has_store [THEN safe_bind_any] safe_eguarded)

lemma safe_knob: "safe I (read_knob env k) (\<lambda>_. True)"
  unfolding read_knob_def by (intro safe_has_store [THEN safe_bind_any] safe_walk safe_more safe_rows)

lemma safe_policy: "safe I (policy_knob env i k) (\<lambda>_. True)" "safe I (position_mode_policy_knob env i k) (\<lambda>_. True)"
  unfolding policy_knob_def position_mode_policy_knob_def by (rule safe_knob)+

lemmas safe_store_binds = safe_rows [THEN safe_bind_any] safe_has_store [THEN safe_bind_any]
  safe_require_store [THEN safe_bind_any] safe_policy [THEN safe_bind_any] safe_store [THEN safe_bind_any]

lemma safe_event: "safe I (bybit_event_of env c body) (\<lambda>_. True)"
  unfolding bybit_event_of_def by (intro safe_asides safe_more)

lemma safe_publish: "safe I (bybit_publish e) (\<lambda>_. True)"
  unfolding bybit_publish_def by (intro safe_walk safe_more safe_eupd published)

lemma safe_emit: "safe I (emit env body) (\<lambda>_. True)"
  unfolding emit_def by (intro safe_event [THEN safe_bind_any] safe_publish)

lemma safe_state_event: "safe I (bybit_connection_state env up) (\<lambda>_. True)"
  unfolding bybit_connection_state_def by (rule safe_emit)

lemma safe_audits:
  "safe I (write_leverage_audit env ty j payload) (\<lambda>_. True)" "safe I (write_halt_audit env a i reason detail) (\<lambda>_. True)"
  unfolding write_leverage_audit_def write_halt_audit_def
  by (intro safe_store_binds safe_walk safe_more safe_asides safe_store)+

lemmas safe_report = safe_emit [THEN safe_bind_any] safe_audits [THEN safe_bind_any] safe_audits

lemma safe_set_halts: "safe I (eupd (\<lambda>w. w\<lparr>yw_halts := h\<rparr>)) (\<lambda>_. True)"
  by (rule safe_eupd) (rule halted)

lemma safe_halting: "safe I (enter_instrument_halt env i reason detail) (\<lambda>_. True)"
  unfolding enter_instrument_halt_def
  by (intro safe_walk safe_more safe_set_halts [THEN safe_bind_any] safe_report)

lemma safe_recovering: "safe I (try_clear_recovered_halt env i) (\<lambda>_. True)"
  unfolding try_clear_recovered_halt_def
  by (intro safe_walk safe_more safe_set_halts [THEN safe_bind_any] safe_report)

lemma safe_apply:
  "safe I (apply_leverage_values env i b s) (\<lambda>_. True)" "safe I (apply_position_mode env i m) (\<lambda>_. True)"
  unfolding apply_leverage_values_def apply_position_mode_def applied_quietly_def
  by (intro safe_walk safe_more safe_setting is_setting_names)+

lemmas safe_apply_binds = safe_apply [THEN safe_bind_any]

lemma safe_drifting:
  "safe I (handle_leverage_drift env i p q c) (\<lambda>_. True)" "safe I (handle_position_mode_drift env i m n c) (\<lambda>_. True)"
  unfolding handle_leverage_drift_def emit_drift_event_def handle_position_mode_drift_def emit_position_mode_drift_event_def
  by (intro safe_store_binds safe_apply_binds safe_walk safe_report safe_halting)+

lemma safe_validate_leverage: "safe I (validate_leverage env i n) (\<lambda>_. True)"
  unfolding validate_leverage_def by (intro safe_walk safe_more safe_spec [THEN safe_bind_any])

lemma safe_block: "safe I (block_on_open_position env i) (\<lambda>_. True)"
  unfolding block_on_open_position_def
  by (intro safe_store_binds safe_walk safe_more safe_entries [THEN safe_bind_any])

lemma safe_set_leverage: "safe I (bybit_set_leverage env i b s d st bl au) (\<lambda>_. True)"
  unfolding bybit_set_leverage_def
  by (intro safe_let safe_walk safe_store_binds safe_apply_binds safe_validate_leverage [THEN safe_bind_any]
      safe_block [THEN safe_bind_any] safe_rows)

lemma safe_remove:
  "safe I (bybit_remove_leverage env i) (\<lambda>_. True)" "safe I (bybit_remove_position_mode env i) (\<lambda>_. True)"
  unfolding bybit_remove_leverage_def bybit_remove_position_mode_def by (intro safe_store_binds safe_rows)+

lemma safe_set_mode: "safe I (bybit_set_position_mode env i a d au) (\<lambda>_. True)"
  unfolding bybit_set_position_mode_def by (intro safe_walk safe_store_binds safe_apply_binds safe_rows)

lemma safe_coin_mode: "safe I (bybit_set_position_mode_for_coin env coin c a) (\<lambda>_. True)"
  unfolding bybit_set_position_mode_for_coin_def by (intro safe_walk safe_setting is_setting_names)

lemma safe_set_margin: "safe I (bybit_set_margin_mode env m) (\<lambda>_. True)"
  unfolding bybit_set_margin_mode_def applied_quietly_def by (intro safe_more safe_walk safe_setting is_setting_names)

lemma safe_strict_check: "safe I (strict_check_leverage env i) (\<lambda>_. True)"
proof -
  have "safe I (intent_leverage env i) (\<lambda>_. True)"
    unfolding intent_leverage_def stored_leverage_def by (intro safe_walk safe_more safe_store_binds)
  then show ?thesis
    unfolding strict_check_leverage_def
    by (intro safe_store_binds safe_walk safe_more safe_bind_any [of I "intent_leverage env i"]
        safe_get_leverage [THEN safe_bind_any] safe_drifting [THEN safe_bind_any])
qed

lemma safe_position_idx: "safe I (resolve_position_idx env i s r) (\<lambda>_. True)"
  unfolding resolve_position_idx_def by (intro safe_walk safe_more safe_store_binds)

lemma safe_client_id:
  "safe I (case c of Some (x # xs) \<Rightarrow> eret (x # xs) | _ \<Rightarrow> yside (pb_new_id (ye_sdk env))) (\<lambda>_. True)"
  by (auto split: option.splits list.splits intro: safe_new_id safe_eret)

lemma safe_known: "safe I known_instruments (\<lambda>_. True)"
  unfolding known_instruments_def by (intro safe_walk safe_more)

lemma safe_reconcile_row:
  "safe I (reconcile_leverage env known row) (\<lambda>_. True)" "safe I (reconcile_position_mode env known r) (\<lambda>_. True)"
proof -
  have "safe I (ebind (bybit_get_leverage env i) (\<lambda>platform. (case platform of
             None \<Rightarrow> eret ()
           | Some p \<Rightarrow>
               if p = (b, s) then try_clear_recovered_halt env i
               else etry (handle_leverage_drift env i (b, s) p ''reconciliation'') (\<lambda>_. eret ())))) (\<lambda>_. True)" for i b s
    by (intro safe_get_leverage [THEN safe_bind_any] safe_walk safe_more safe_recovering safe_drifting)
  then show "safe I (reconcile_leverage env known row) (\<lambda>_. True)"
    by (auto simp: reconcile_leverage_def split: option.splits prod.splits intro: safe_eret)
  show "safe I (reconcile_position_mode env known r) (\<lambda>_. True)"
    unfolding reconcile_position_mode_def
    by (intro safe_walk safe_more safe_get_mode [THEN safe_bind_any] safe_recovering safe_drifting)
qed

lemma safe_reconcile: "safe I (bybit_reconcile_intent env) (\<lambda>_. True)"
  unfolding bybit_reconcile_intent_def
  by (intro safe_store_binds safe_walk safe_more safe_known [THEN safe_bind_any] safe_reconcile_row)

lemma safe_apply_margin: "safe I (apply_configured_margin_mode env) (\<lambda>_. True)"
  unfolding apply_configured_margin_mode_def
  by (intro safe_walk safe_more safe_get_margin [THEN safe_bind_any] safe_set_margin [THEN safe_bind_any] safe_report)

lemma safe_reapply_row:
  "safe I (reapply_leverage env known row) (\<lambda>_. True)" "safe I (reapply_position_mode env known rows r) (\<lambda>_. True)"
proof -
  have "safe I (ebind (policy_knob env i AUTO_APPLY) (\<lambda>raw.
          if \<not> (case raw of None \<Rightarrow> True | Some v \<Rightarrow> v = ''1'') then eret ()
          else
            etry
              (ebind (bybit_set_leverage env i b (Some s) DEFAULT_ON_DRIFT True True True) (\<lambda>_.
               ebind (emit env (LeverageAppliedEvent i b s)) (\<lambda>_.
               write_leverage_audit env ''bybit.leverage.applied'' (Some i)
                 [(''buy_leverage'', PV_int b), (''sell_leverage'', PV_int s)])))
              (\<lambda>e.
               ebind (emit env (LeverageApplyFailedEvent i b s (exn_msg e))) (\<lambda>_.
               write_leverage_audit env ''bybit.leverage.apply_failed'' (Some i)
                 [(''buy_leverage'', PV_int b), (''sell_leverage'', PV_int s), (''reason'', PV_text (exn_msg e))])))) (\<lambda>_. True)"
    for i b s
    by (intro safe_store_binds safe_walk safe_more safe_set_leverage [THEN safe_bind_any] safe_report)
  then show "safe I (reapply_leverage env known row) (\<lambda>_. True)"
    by (auto simp: reapply_leverage_def split: option.splits prod.splits intro: safe_eret)
  show "safe I (reapply_position_mode env known rows r) (\<lambda>_. True)"
    unfolding reapply_position_mode_def by (intro safe_walk safe_more safe_apply_binds safe_report)
qed

lemma safe_reapply: "safe I (reapply_stored_intent env) (\<lambda>_. True)"
  unfolding reapply_stored_intent_def
  by (intro safe_store_binds safe_walk safe_more safe_known [THEN safe_bind_any] safe_reapply_row)

end

subsection \<open>The registry, the streams and the event loop\<close>

locale bybit_stream = bybit_intent +
  assumes enrolled: "I w \<Longrightarrow> c \<in> set ORDER_CATEGORIES \<Longrightarrow> from_bybit_symbol s b q c True = Inr i
      \<Longrightarrow> I (w\<lparr>yw_instruments := dict_set (c, s) i (yw_instruments w)\<rparr>)"
    and scheduled_more: "I w \<Longrightarrow> I (w\<lparr>yw_scheduled := xs\<rparr>)"
    and retired: "I w \<Longrightarrow> I (w\<lparr>yw_open := yw_open w - {p}, yw_final := retire p (yw_final w)\<rparr>)"
    and sighted: "I w \<Longrightarrow> p \<notin> set (yw_final w) \<Longrightarrow> I (w\<lparr>yw_open := insert p (yw_open w)\<rparr>)"
begin

lemma listing_enrolled:
  "listing_instrument c d = Inr (Some (s, i)) \<Longrightarrow> \<exists>b q. from_bybit_symbol s b q c True = Inr i"
  by (auto simp: listing_instrument_def split: if_splits py_object.splits sum.splits)

lemma safe_register: "c \<in> set ORDER_CATEGORIES \<Longrightarrow> safe I (register_listing c x) (\<lambda>_. True)"
  unfolding register_listing_def
  by (intro safe_walk safe_more safe_bind_any [OF safe_eupd] safe_invalidate)
    (auto dest!: listing_enrolled intro: enrolled)

lemma safe_refresh: "safe I (refresh_instrument_registry env) (\<lambda>_. True)"
  unfolding refresh_instrument_registry_def by (intro safe_more safe_paged safe_register) simp_all

lemma safe_schedule_body: "safe I (eupd (\<lambda>w. w\<lparr>yw_scheduled := yw_scheduled w @ [x]\<rparr>)) (\<lambda>_. True)"
  by (rule safe_eupd) (rule scheduled_more)

lemma safe_schedule: "safe I (schedule_event env c body) (\<lambda>_. True)"
  unfolding schedule_event_def publish_from_ws_def
  by (intro safe_event [THEN safe_bind_any] safe_walk safe_schedule_body)

lemma safe_retire: "safe I (move_to_final p) (\<lambda>_. True)"
  unfolding move_to_final_def by (rule safe_eupd) (rule retired)

lemma sighting_state:
  "schedule_event env c body w = (r, w') \<Longrightarrow> yw_final w' = yw_final w \<and> yw_open w' = yw_open w"
  by (auto simp: schedule_event_def bybit_event_of_def publish_from_ws_def ebind_eq eget_def yside_def eguard_def
      guard_exn_def elift_def eupd_def split: prod.splits if_splits)

lemma safe_sighting: "safe I (order_sighting env r p) (\<lambda>_. True)"
proof (rule safeI)
  fix w x w' assume w: "I w" and run: "order_sighting env r p w = (x, w')"
  show "I w' \<and> (\<forall>a. x = Inr a \<longrightarrow> True)"
  proof (cases "p \<in> set (yw_final w) \<or> p \<in> yw_open w \<or> is_final_order_status (or_status r)")
    case True
    let ?m = "if p \<in> set (yw_final w) then eret ()
     else if p \<in> yw_open w then
       (if is_terminal_order_status (or_status r) then
          ebind (move_to_final p) (\<lambda>_.
          schedule_event env (or_none (or_client_id r)) (OrderCancelledEvent (or_client_id r) (or_instrument r)))
        else
          ebind (schedule_event env (or_none (or_client_id r)) (OrderStatusEvent r)) (\<lambda>_.
          ewhen (is_final_order_status (or_status r)) (move_to_final p)))
     else
       ebind (schedule_event env (or_none (or_client_id r)) (OrderPlacedEvent r)) (\<lambda>_. move_to_final p)"
    have kept: "safe I ?m (\<lambda>_. True)"
      by (intro safe_walk safe_more safe_retire safe_retire [THEN safe_bind_any] safe_schedule
          safe_schedule [THEN safe_bind_any])
    have "?m w = (x, w')" using run True by (auto simp: order_sighting_def ebind_eget split: if_splits)
    from safeD [OF kept w this] show ?thesis by simp
  next
    case False
    let ?s = "schedule_event env (or_none (or_client_id r)) (OrderPlacedEvent r)"
    from run False have "ebind ?s (\<lambda>_. eupd (\<lambda>w. w\<lparr>yw_open := insert p (yw_open w)\<rparr>)) w = (x, w')"
      by (simp add: order_sighting_def ebind_eget)
    then consider e where "?s w = (Inl e, w')"
      | v where "?s w = (Inr (), v)" "w' = v\<lparr>yw_open := insert p (yw_open v)\<rparr>"
      by (auto simp: ebind_eq eupd_def)
    then show ?thesis
      using False sighted safeD [OF safe_schedule w] sighting_state by cases (simp, metis)
  qed
qed

lemma safe_order_entry: "safe I (on_order_entry env x) (\<lambda>_. True)"
  unfolding on_order_entry_def invalidate_spec_from_ws_def
  by (intro safe_walk safe_more safe_entry_of safe_schedule_body safe_sighting)

lemma safe_streams:
  "safe I (on_order_message env m) (\<lambda>_. True)" "safe I (on_execution_message env m) (\<lambda>_. True)"
  "safe I (on_position_message env m) (\<lambda>_. True)" "safe I (on_wallet_message env m) (\<lambda>_. True)"
  unfolding on_order_message_def on_execution_message_def on_execution_entry_def on_position_message_def on_wallet_message_def
  by (intro safe_walk safe_more safe_entry_of safe_order_entry safe_schedule safe_asides)+

lemma safe_loop_turn: "safe I loop_turn (\<lambda>_. True)"
proof -
  have "safe I (case s of S_Publish e \<Rightarrow> bybit_publish e | S_Invalidate i \<Rightarrow> invalidate_instrument_spec i) (\<lambda>_. True)" for s
    by (cases s) (simp_all add: safe_publish safe_invalidate)
  then show ?thesis
    unfolding loop_turn_def
    by (intro safe_walk safe_more safe_bind_any [OF safe_eupd] scheduled_more)
qed

end

subsection \<open>The connection\<close>

locale bybit_link = bybit_stream +
  assumes socket_opened: "I w \<Longrightarrow> I (w\<lparr>yw_venue := snd (pb_ws_open (ye_sdk env) (yw_venue w))\<rparr>)"
    and socket_closed: "I w \<Longrightarrow> I (w\<lparr>yw_venue := snd (pb_ws_exit (ye_sdk env) (yw_venue w))\<rparr>)"
    and socket_checked: "I w \<Longrightarrow> I (w\<lparr>yw_venue := snd (pb_ws_alive (ye_sdk env) (yw_venue w))\<rparr>)"
    and subscribed: "I w \<Longrightarrow> I (w\<lparr>yw_venue := snd (pb_ws_stream (ye_sdk env) s (yw_venue w))\<rparr>)"
    and socketed: "I w \<Longrightarrow> I (w\<lparr>yw_ws := b\<rparr>)"
    and switched: "I w \<Longrightarrow> I (w\<lparr>yw_connected := b\<rparr>)"
    and monitored: "I w \<Longrightarrow> I (w\<lparr>yw_monitor := b\<rparr>)"
    and looped: "I w \<Longrightarrow> I (w\<lparr>yw_loop := b\<rparr>)"
    and forgotten: "I w \<Longrightarrow> I (w\<lparr>yw_refs := []\<rparr>)"
begin

lemma safe_yfault:
  "(\<And>w. I w \<Longrightarrow> I (w\<lparr>yw_venue := snd (f (yw_venue w))\<rparr>)) \<Longrightarrow> safe I (yfault f) (\<lambda>_. True)"
  unfolding yfault_def by (intro safe_yside [THEN safe_bind_any] safe_walk safe_more)

lemma safe_connect: "safe I (bybit_connect env) (\<lambda>_. True)"
proof -
  have "safe I (ws_connect env) (\<lambda>_. True)"
    unfolding ws_connect_def by (intro safe_yside [THEN safe_bind_any] safe_walk safe_eupd socketed socket_opened)
  then show ?thesis
    unfolding bybit_connect_def
    by (intro safe_walk safe_more safe_refresh [THEN safe_bind_any] safe_yfault subscribed
        safe_bind_any [of I "ws_connect env"] safe_bind_any [of I "eupd f" for f] safe_eupd switched monitored looped
        safe_state_event [THEN safe_bind_any] safe_apply_margin [THEN safe_bind_any] safe_reapply)
qed

lemma safe_disconnect: "safe I (bybit_disconnect env) (\<lambda>_. True)"
  unfolding bybit_disconnect_def
  by (intro safe_walk safe_more safe_yfault [THEN safe_bind_any] safe_bind_any [of I "eupd f" for f] safe_eupd monitored
      socketed socket_closed switched forgotten safe_state_event)

lemma safe_monitor: "safe I (monitor_turn env) (\<lambda>_. True)"
proof -
  have "safe I (ws_is_connected env) (\<lambda>_. True)"
    unfolding ws_is_connected_def by (intro safe_walk safe_more safe_yside [THEN safe_bind_any] socket_checked)
  then show ?thesis
    unfolding monitor_turn_def
    by (intro safe_walk safe_more safe_bind_any [of I "ws_is_connected env"] safe_bind_any [of I "eupd f" for f]
        safe_eupd slept switched safe_state_event safe_refresh)
qed

end

subsection \<open>Operations that trade\<close>

locale bybit_orders = bybit_intent +
  assumes told: "I w \<Longrightarrow> I (w\<lparr>yw_venue := snd (pb_request (ye_sdk env) name ps (yw_venue w))\<rparr>)"
begin

lemma safe_write: "safe I (bybit_write env name ps) (\<lambda>_. True)"
  unfolding bybit_write_def by (intro safe_walk safe_more safe_attempts [THEN safe_bind_any] safe_yside told)

lemma safe_invalidating: "safe I m (\<lambda>_. True) \<Longrightarrow> safe I f (\<lambda>_. True) \<Longrightarrow> safe I (invalidating f m) (\<lambda>_. True)"
  unfolding invalidating_def by (intro safe_walk safe_more)

lemma safe_place_order: "safe I (bybit_place_order env u) (\<lambda>_. True)"
  unfolding bybit_place_order_def
  by (rule safe_strict_check [THEN safe_bind_any], rule safe_bind_elift, rule safe_bind_elift,
      rule safe_client_id [THEN safe_bind_any])
    (intro safe_walk safe_position_idx [THEN safe_bind_any]
      safe_invalidating [OF safe_write safe_invalidate, THEN safe_bind_any] safe_remember [THEN safe_bind_any]
      safe_require_order)

lemma safe_modify_order: "safe I (bybit_modify_order env m) (\<lambda>_. True)"
  unfolding bybit_modify_order_def invalidating_def
  by (intro safe_order_ref [THEN safe_bind_any] safe_walk safe_more safe_write safe_invalidate safe_require_order)

lemma safe_cancel_order: "safe I (bybit_cancel_order env cid) (\<lambda>_. True)"
  unfolding bybit_cancel_order_def
  by (intro safe_order_ref [THEN safe_bind_any] safe_walk safe_write [THEN safe_bind_any] safe_require_order)

lemma safe_protect:
  "safe I (bybit_modify_tpsl env i pid tp sl b) (\<lambda>_. True)" "safe I (bybit_clear_tpsl env i pid x y) (\<lambda>_. True)"
  unfolding bybit_modify_tpsl_def bybit_clear_tpsl_def
  by (intro safe_walk safe_more safe_write safe_leg [THEN safe_bind_any])+

lemma safe_trail:
  "safe I (bybit_place_trailing env r) (\<lambda>_. True)" "safe I (bybit_cancel_trailing env nid i) (\<lambda>_. True)"
  unfolding bybit_place_trailing_def bybit_cancel_trailing_def
  by (intro safe_walk safe_more safe_write [THEN safe_bind_any] safe_trailing [THEN safe_bind_any])+

end

locale bybit_desk = bybit_stream + bybit_orders

locale bybit_policy = bybit_link + bybit_orders

sublocale bybit_policy \<subseteq> bybit_desk ..

end
