(* ===== verification/UTE_Bybit_Safety.thy ===== *)
theory UTE_Bybit_Safety
  imports UTE_Bybit_Desk
begin

text \<open>
  What holds of a Bybit adapter after any sequence of calls by the core and the user, callbacks of the
  socket, turns of the event loop and turns of the connection monitor.
\<close>

subsection \<open>Everything that can happen to an adapter\<close>

datatype bybit_call =
    YC_connect | YC_disconnect | YC_monitor | YC_loop
  | YC_orders "(string \<times> py_object) list" | YC_executions "(string \<times> py_object) list"
  | YC_position_updates "(string \<times> py_object) list" | YC_wallets "(string \<times> py_object) list"
  | YC_place unified_order | YC_modify order_modification | YC_cancel string | YC_query string
  | YC_spec instrument | YC_rates | YC_account | YC_ticker instrument | YC_candles instrument candle_timeframe int
  | YC_protect instrument string "tpsl option" "tpsl option" "trailing_basis option"
  | YC_clear instrument string bool bool | YC_protection instrument string
  | YC_trail native_request | YC_untrail string instrument | YC_trailing string instrument
  | YC_position_trailing instrument string
  | YC_positions | YC_balances | YC_open_orders | YC_fills "instant option" | YC_reconcile
  | YC_set_leverage instrument int "int option" string bool bool bool | YC_get_leverage instrument
  | YC_remove_leverage instrument | YC_set_mode instrument mode_arg string bool | YC_get_mode instrument
  | YC_remove_mode instrument | YC_coin_mode string string mode_arg | YC_set_margin margin_mode | YC_get_margin

fun bybit_call_effect :: "'v yenv \<Rightarrow> bybit_call \<Rightarrow> 'v yworld \<Rightarrow> 'v yworld" where
  "bybit_call_effect env YC_connect w = snd (bybit_connect env w)"
| "bybit_call_effect env YC_disconnect w = snd (bybit_disconnect env w)"
| "bybit_call_effect env YC_monitor w = snd (monitor_turn env w)"
| "bybit_call_effect env YC_loop w = snd (loop_turn w)"
| "bybit_call_effect env (YC_orders m) w = snd (on_order_message env m w)"
| "bybit_call_effect env (YC_executions m) w = snd (on_execution_message env m w)"
| "bybit_call_effect env (YC_position_updates m) w = snd (on_position_message env m w)"
| "bybit_call_effect env (YC_wallets m) w = snd (on_wallet_message env m w)"
| "bybit_call_effect env (YC_place u) w = snd (bybit_place_order env u w)"
| "bybit_call_effect env (YC_modify m) w = snd (bybit_modify_order env m w)"
| "bybit_call_effect env (YC_cancel cid) w = snd (bybit_cancel_order env cid w)"
| "bybit_call_effect env (YC_query cid) w = snd (bybit_get_order env cid w)"
| "bybit_call_effect env (YC_spec i) w = snd (bybit_fetch_spec env i w)"
| "bybit_call_effect env YC_rates w = snd (bybit_get_rate_limits env w)"
| "bybit_call_effect env YC_account w = snd (bybit_resolve_account_id env w)"
| "bybit_call_effect env (YC_ticker i) w = snd (bybit_fetch_ticker env i w)"
| "bybit_call_effect env (YC_candles i tf n) w = snd (bybit_fetch_candles env i tf n w)"
| "bybit_call_effect env (YC_protect i pid tp sl b) w = snd (bybit_modify_tpsl env i pid tp sl b w)"
| "bybit_call_effect env (YC_clear i pid tp sl) w = snd (bybit_clear_tpsl env i pid tp sl w)"
| "bybit_call_effect env (YC_protection i pid) w = snd (bybit_get_tpsl env i pid w)"
| "bybit_call_effect env (YC_trail r) w = snd (bybit_place_trailing env r w)"
| "bybit_call_effect env (YC_untrail nid i) w = snd (bybit_cancel_trailing env nid i w)"
| "bybit_call_effect env (YC_trailing nid i) w = snd (bybit_get_trailing env nid i w)"
| "bybit_call_effect env (YC_position_trailing i pid) w = snd (bybit_get_position_trailing env i pid w)"
| "bybit_call_effect env YC_positions w = snd (bybit_fetch_positions env w)"
| "bybit_call_effect env YC_balances w = snd (bybit_fetch_balances env w)"
| "bybit_call_effect env YC_open_orders w = snd (bybit_fetch_open_orders env w)"
| "bybit_call_effect env (YC_fills since) w = snd (bybit_fetch_fills env since w)"
| "bybit_call_effect env YC_reconcile w = snd (bybit_reconcile_intent env w)"
| "bybit_call_effect env (YC_set_leverage i b s d st bl au) w = snd (bybit_set_leverage env i b s d st bl au w)"
| "bybit_call_effect env (YC_get_leverage i) w = snd (bybit_get_leverage env i w)"
| "bybit_call_effect env (YC_remove_leverage i) w = snd (bybit_remove_leverage env i w)"
| "bybit_call_effect env (YC_set_mode i a d au) w = snd (bybit_set_position_mode env i a d au w)"
| "bybit_call_effect env (YC_get_mode i) w = snd (bybit_get_position_mode env i w)"
| "bybit_call_effect env (YC_remove_mode i) w = snd (bybit_remove_position_mode env i w)"
| "bybit_call_effect env (YC_coin_mode coin c a) w = snd (bybit_set_position_mode_for_coin env coin c a w)"
| "bybit_call_effect env (YC_set_margin m) w = snd (bybit_set_margin_mode env m w)"
| "bybit_call_effect env YC_get_margin w = snd (bybit_get_margin_mode env w)"

abbreviation connecting :: "bybit_call \<Rightarrow> bool" where
  "connecting c \<equiv> c = YC_connect \<or> c = YC_disconnect \<or> c = YC_monitor"

context bybit_desk
begin

lemmas safe_calls = safe_loop_turn safe_streams safe_place_order safe_modify_order safe_cancel_order safe_get_order
  safe_spec safe_rates safe_account safe_ticker safe_candles safe_protect safe_tpsl safe_trail safe_trailing
  safe_position_trailing safe_positions safe_balances safe_open_orders safe_fills safe_reconcile safe_set_leverage
  safe_get_leverage safe_remove safe_set_mode safe_get_mode safe_coin_mode safe_set_margin safe_get_margin

lemma unconnected_keeps: "I w \<Longrightarrow> \<not> connecting c \<Longrightarrow> I (bybit_call_effect env c w)"
  by (cases c) (simp_all add: safe_calls [THEN safeD, OF _ surjective_pairing])

end

context bybit_policy
begin

lemma call_keeps: "I w \<Longrightarrow> I (bybit_call_effect env c w)"
  using safeD [OF safe_connect _ surjective_pairing] safeD [OF safe_disconnect _ surjective_pairing]
    safeD [OF safe_monitor _ surjective_pairing] unconnected_keeps
  by (cases "connecting c") auto

end

definition after_bybit_calls :: "'v yenv \<Rightarrow> bybit_call list \<Rightarrow> 'v yworld \<Rightarrow> 'v yworld" where
  "after_bybit_calls env cs w = fold (bybit_call_effect env) cs w"

lemma calls_induct:
  "(\<And>c w. I w \<Longrightarrow> I (bybit_call_effect env c w)) \<Longrightarrow> I w \<Longrightarrow> I (after_bybit_calls env cs w)"
  by (induction cs arbitrary: w) (simp_all add: after_bybit_calls_def)

subsection \<open>The books of the adapter\<close>

definition limits_ok :: "rate_limits \<Rightarrow> bool" where
  "limits_ok r \<longleftrightarrow> 1 \<le> rl_requests r \<and> rl_interval r = 1 \<and> 0 \<le> rl_remaining r \<and> rl_remaining r \<le> MAX_GLOBAL_RESERVE"

lemma parsed_limits_ok: "parse_rate_limits hs now = Inr r \<Longrightarrow> limits_ok r"
  by (auto simp: parse_rate_limits_def limits_ok_def MAX_GLOBAL_RESERVE_def Let_def rbind_eq_Inr)

definition enrolled_as :: "string \<Rightarrow> string \<Rightarrow> instrument \<Rightarrow> bool" where
  \<comment> \<open>the instrument of a listing of the category with this symbol\<close>
  "enrolled_as c s i \<longleftrightarrow> c \<in> set ORDER_CATEGORIES \<and> (\<exists>b q. from_bybit_symbol s b q c True = Inr i)"

definition bybit_books :: "'v yworld \<Rightarrow> bool" where
  "bybit_books w \<longleftrightarrow> limits_ok (yw_limits w)
     \<and> yw_open w \<inter> set (yw_final w) = {} \<and> distinct (yw_final w) \<and> length (yw_final w) \<le> MAX_TRACKED_FINAL_ORDER_IDS
     \<and> (\<forall>c s i. dict_get (yw_instruments w) (c, s) = Some i \<longrightarrow> enrolled_as c s i)"

lemma retire_facts: "set (retire p ids) \<subseteq> insert p (set ids)" "length (retire p ids) \<le> MAX_TRACKED_FINAL_ORDER_IDS"
  by (auto simp: retire_def Let_def dest!: in_set_dropD)

lemma retire_distinct: "distinct ids \<Longrightarrow> distinct (retire p ids)"
  unfolding retire_def Let_def by (rule distinct_drop) simp

interpretation books: bybit_policy env bybit_books for env :: "'v yenv"
proof
  fix w :: "'v yworld"
  assume w: "bybit_books w"
  show "bybit_books (w\<lparr>yw_limits := r\<rparr>)" if "parse_rate_limits hs now = Inr r" for hs now r
    using w parsed_limits_ok [OF that] by (simp add: bybit_books_def)
  show "bybit_books (w\<lparr>yw_instruments := dict_set (c, s) i (yw_instruments w)\<rparr>)"
    if "c \<in> set ORDER_CATEGORIES" "from_bybit_symbol s b q c True = Inr i" for c s b q i
    using w that by (auto simp: bybit_books_def enrolled_as_def)
  show "bybit_books (w\<lparr>yw_open := yw_open w - {p}, yw_final := retire p (yw_final w)\<rparr>)" for p
    using w retire_facts [of p "yw_final w"] retire_distinct [of "yw_final w" p]
    by (simp add: bybit_books_def) blast
  show "bybit_books (w\<lparr>yw_open := insert p (yw_open w)\<rparr>)" if "p \<notin> set (yw_final w)" for p
    using w that by (simp add: bybit_books_def)
qed (simp_all add: bybit_books_def)

subsection \<open>The connection\<close>

definition link_of :: "'v yworld \<Rightarrow> bool \<times> bool \<times> bool" where
  "link_of w = (yw_connected w, yw_ws w, yw_loop w)"

definition linked :: "bool \<times> bool \<times> bool \<Rightarrow> bool" where
  \<comment> \<open>connected only with a socket, holding a socket only with the event loop\<close>
  "linked s \<longleftrightarrow> (case s of (up, ws, loop) \<Rightarrow> (\<not> up \<or> ws) \<and> (\<not> ws \<or> loop))"

interpretation link: bybit_desk env "\<lambda>w. link_of w = s" for env :: "'v yenv" and s
  by standard (auto simp: link_of_def)

lemma wp_link:
  assumes "safe (\<lambda>w. link_of w = link_of v) m (\<lambda>_. True)"
    and "\<And>a w. link_of w = link_of v \<Longrightarrow> Q a w" "\<And>e w. link_of w = link_of v \<Longrightarrow> E e w"
  shows "wp m Q E v"
  by (rule wp_runI) (use safeD [OF assms(1) refl] assms(2,3) in \<open>auto split: sum.splits\<close>)

lemmas wp_links = wp_link [OF link.safe_refresh] wp_link [OF link.safe_state_event] wp_link [OF link.safe_apply_margin]
  wp_link [OF link.safe_reapply]

lemma wp_yfault_link:
  "(\<And>w. link_of w = link_of v \<Longrightarrow> Q () w) \<Longrightarrow> (\<And>e w. link_of w = link_of v \<Longrightarrow> E e w) \<Longrightarrow> wp (yfault f) Q E v"
  by (simp add: yfault_def wp_def yside_def link_of_def ebind_def eret_def elift_def split: prod.splits option.splits)

lemma wp_streams_link:
  "(\<And>w. link_of w = link_of v \<Longrightarrow> Q () w) \<Longrightarrow> (\<And>e w. link_of w = link_of v \<Longrightarrow> E e w)
   \<Longrightarrow> wp (efor xs (\<lambda>s. yfault (f s))) Q E v"
  by (induction xs arbitrary: v) (auto intro!: wp_yfault_link)

lemma wp_yside [simp]: "wp (yside f) Q E w = Q (fst (f (yw_venue w))) (w\<lparr>yw_venue := snd (f (yw_venue w))\<rparr>)"
  by (simp add: wp_def yside_def case_prod_beta)

lemma link_of_updates [simp]:
  "link_of (w\<lparr>yw_venue := v\<rparr>) = link_of w" "link_of (w\<lparr>yw_monitor := b\<rparr>) = link_of w" "link_of (w\<lparr>yw_refs := d\<rparr>) = link_of w"
  "link_of (w\<lparr>yw_connected := b\<rparr>) = (b, snd (link_of w))"
  "link_of (w\<lparr>yw_ws := b\<rparr>) = (fst (link_of w), b, snd (snd (link_of w)))"
  "link_of (w\<lparr>yw_loop := b\<rparr>) = (fst (link_of w), fst (snd (link_of w)), b)"
  by (simp_all add: link_of_def)

abbreviation keeps_link :: "('v, unit) yop \<Rightarrow> 'v yworld \<Rightarrow> bool" where
  "keeps_link m \<equiv> wp m (\<lambda>_ w. linked (link_of w)) (\<lambda>_ w. linked (link_of w))"

lemma linked_connect: "linked (link_of w) \<Longrightarrow> keeps_link (bybit_connect env) w"
  unfolding bybit_connect_def ws_connect_def
  by (auto simp: linked_def intro!: wp_links wp_streams_link split: option.splits)

lemma linked_disconnect: "linked (link_of w) \<Longrightarrow> keeps_link (bybit_disconnect env) w"
  unfolding bybit_disconnect_def
  by (auto simp: linked_def intro!: wp_links wp_yfault_link)

lemma linked_monitor: "linked (link_of w) \<Longrightarrow> keeps_link (monitor_turn env) w"
  unfolding monitor_turn_def ws_is_connected_def
  by (auto simp: linked_def link_of_def intro!: wp_links split: sum.splits)

lemma keeps_linkD: "keeps_link m w \<Longrightarrow> linked (link_of (snd (m w)))"
  by (auto simp: wp_def split: prod.splits sum.splits)

lemma linked_call:
  assumes "linked (link_of w)"
  shows "linked (link_of (bybit_call_effect env c w))"
proof (cases "connecting c")
  case True
  with keeps_linkD [OF linked_connect [OF assms]] keeps_linkD [OF linked_disconnect [OF assms]]
    keeps_linkD [OF linked_monitor [OF assms]]
  show ?thesis by auto
next
  case False
  with link.unconnected_keeps [OF refl False, of env w] assms show ?thesis by simp
qed

subsection \<open>Reachable adapters\<close>

definition fresh_limits :: "instant \<Rightarrow> rate_limits" where
  "fresh_limits now = \<lparr>rl_requests = 10, rl_interval = 1, rl_remaining = 10, rl_reset_at = now + 1000000\<rparr>"

lemma fresh_limits: "parse_rate_limits [] now = Inr (fresh_limits now)"
  by (simp add: parse_rate_limits_def fresh_limits_def safe_header_int_def header_value_def MAX_GLOBAL_RESERVE_def)

definition bybit_reached :: "'v yenv \<Rightarrow> bybit_call list \<Rightarrow> 'v \<Rightarrow> instant \<Rightarrow> bool \<Rightarrow> store option \<Rightarrow> 'v yworld" where
  \<comment> \<open>a new adapter, constructed at an instant with an event bus and a store or without, after what happened to it\<close>
  "bybit_reached env cs v now bus st = after_bybit_calls env cs (bybit_init v (fresh_limits now) bus st)"

lemma reached_books: "bybit_books (bybit_reached env cs v now bus st)"
  unfolding bybit_reached_def
  by (rule calls_induct, rule books.call_keeps)
    (simp_all add: bybit_init_def bybit_books_def fresh_limits_def limits_ok_def MAX_GLOBAL_RESERVE_def)

lemma reached_linked: "linked (link_of (bybit_reached env cs v now bus st))"
  unfolding bybit_reached_def
  by (rule calls_induct [where I = "\<lambda>w. linked (link_of w)"], erule linked_call)
    (simp add: bybit_init_def link_of_def linked_def)

lemma upper_append: "upper (b @ q) = b @ q \<longleftrightarrow> upper b = b \<and> upper q = q"
  by (simp add: upper_def)

lemma enrolled_routed:
  assumes e: "enrolled_as c s i" and "upper s = s" "in_quote i \<noteq> Some (in_symbol i)"
  shows "instrument_to_category i = Inr c \<and> to_bybit_symbol i = Inr s"
proof -
  from e obtain b q where i: "from_bybit_symbol s b q c True = Inr i" by (auto simp: enrolled_as_def)
  from from_bybit_symbol_name [OF i] assms(2) have up: "upper b = b" "upper q = q" by (auto simp: upper_append)
  have "c = ''inverse'' \<longrightarrow> b \<noteq> q"
    using i up assms(3)
    by (cases rule: from_bybit_symbol_cases)
      (auto simp: instrument_post_init_Inr instrument_normalise_def bybit_instrument_def)
  from listing_routed [OF i up this] show ?thesis by simp
qed

lemma enrolled_wf: "enrolled_as c s i \<Longrightarrow> wf_instrument i"
  by (auto simp: enrolled_as_def wf_instrument_def instrument_post_init_idem elim!: from_bybit_symbol_cases)

text \<open>
  C10. Whatever calls, stream callbacks, loop turns and monitor turns an adapter has gone through, in any
  order and with any answers of the venue: it calls itself connected only while it holds a socket and
  knows the event loop; an order id is never tracked as open and final at once, and at most ten thousand
  final ids are kept, each once; the rate limits it reports never exceed the reserve; and every
  instrument of its registry is well formed, spelled as the venue spells it, and routed back to the
  category and symbol it is registered under - the inverse contract of a coin on itself excepted.
\<close>

theorem bybit_reachable:
  assumes w: "w = bybit_reached env cs v now bus st"
  shows "(yw_connected w \<longrightarrow> yw_ws w \<and> yw_loop w)
    \<and> yw_open w \<inter> set (yw_final w) = {} \<and> distinct (yw_final w) \<and> length (yw_final w) \<le> 10000
    \<and> 1 \<le> rl_requests (yw_limits w) \<and> 0 \<le> rl_remaining (yw_limits w) \<and> rl_remaining (yw_limits w) \<le> 10
    \<and> (\<forall>c s i. dict_get (yw_instruments w) (c, s) = Some i \<longrightarrow> wf_instrument i
         \<and> (upper s = s \<and> in_quote i \<noteq> Some (in_symbol i)
            \<longrightarrow> instrument_to_category i = Inr c \<and> to_bybit_symbol i = Inr s))"
proof -
  have books: "bybit_books w" unfolding w by (rule reached_books)
  moreover have "linked (link_of w)" unfolding w by (rule reached_linked)
  moreover have "enrolled_as c s i" if "dict_get (yw_instruments w) (c, s) = Some i" for c s i
    using books that by (simp add: bybit_books_def)
  ultimately show ?thesis
    using enrolled_wf enrolled_routed
    by (simp add: bybit_books_def limits_ok_def MAX_GLOBAL_RESERVE_def MAX_TRACKED_FINAL_ORDER_IDS_def linked_def
        link_of_def) blast
qed

subsection \<open>A venue that answers from a script\<close>

definition scripted :: "(string \<Rightarrow> params \<Rightarrow> pybit_reply) \<Rightarrow> unit yenv" where
  \<comment> \<open>no clock moves, no id differs and no store fails\<close>
  "scripted answer =
     \<lparr>ye_sdk = \<lparr>pb_request = (\<lambda>name ps v. (answer name ps, v)), pb_ws_open = Pair None, pb_ws_exit = Pair None,
        pb_ws_alive = Pair (Inr True), pb_ws_stream = (\<lambda>s. Pair None), pb_store_fault = Pair None,
        pb_clock = Pair 1700000000000000, pb_monotonic = Pair 0, pb_new_id = Pair ''id'', pb_sleep = (\<lambda>t v. v),
        pb_digest = (\<lambda>s. ''0123456789abcdef'')\<rparr>,
      ye_config = \<lparr>yc_api_key = ''key'', yc_testnet = True, yc_demo = False, yc_margin = MA_Mode MM_CROSS,
        yc_platform = ''bybit'', yc_account = None, yc_ttl = None\<rparr>,
      ye_pages = 2\<rparr>"

definition listed :: "py_object list \<Rightarrow> pybit_reply" where
  "listed xs = PB_Reply [(''result'', Py_Map [(''list'', Py_List xs)])] []"

definition market_script :: "string \<Rightarrow> params \<Rightarrow> pybit_reply" where
  \<comment> \<open>one linear contract is listed\<close>
  "market_script name ps =
     (if name = ''get_instruments_info'' \<and> dict_get ps ''category'' = Some (W_text ''linear'') then
        listed [Py_Map [(''symbol'', Py_Str ''BTCUSDT''), (''baseCoin'', Py_Str ''BTC''), (''quoteCoin'', Py_Str ''USDT''),
                        (''status'', Py_Str ''Trading'')]]
      else if name = ''get_account_info'' then
        PB_Reply [(''result'', Py_Map [(''marginMode'', Py_Str ''REGULAR_MARGIN'')])] []
      else listed [])"

definition btc_perpetual :: instrument where
  "btc_perpetual = (bybit_instrument ''BTC'' ''USDT'' FUTURES (Some ''USDT'') (Some 1))"

lemma scripted_connect:
  "(let w = bybit_reached (scripted market_script) [YC_connect] () 0 True None
    in (yw_connected w, yw_instruments w)) = (True, [((''linear'', ''BTCUSDT''), btc_perpetual)])"
  by code_simp

theorem bybit_reachable_witness:
  "yw_connected (bybit_reached (scripted market_script) [YC_connect] () 0 True None)
   \<and> yw_ws (bybit_reached (scripted market_script) [YC_connect] () 0 True None)
   \<and> instrument_to_category btc_perpetual = Inr ''linear'' \<and> to_bybit_symbol btc_perpetual = Inr ''BTCUSDT''"
proof -
  let ?w = "bybit_reached (scripted market_script) [YC_connect] () 0 True None"
  have c: "yw_connected ?w" "dict_get (yw_instruments ?w) (''linear'', ''BTCUSDT'') = Some btc_perpetual"
    using scripted_connect by (simp_all add: Let_def)
  have "upper ''BTCUSDT'' = ''BTCUSDT'' \<and> in_quote btc_perpetual \<noteq> Some (in_symbol btc_perpetual)" by code_simp
  with bybit_reachable [OF refl, of "scripted market_script" "[YC_connect]" "()" 0 True None] c show ?thesis by blast
qed

end
