(* ===== verification/UTE_Bybit_Leverage.thy ===== *)
theory UTE_Bybit_Leverage
  imports UTE_Bybit_Safety
begin

text \<open>
  The leverage intent: what setting it stores is what the check before an order reads, a drift is handled
  by the stored policy, and what happens to policies and halts along the way.
\<close>

subsection \<open>Numbers as texts\<close>

lemma digit_char_digit [simp]: "d < 10 \<Longrightarrow> is_digit (digit_char d)"
  by (simp add: is_digit_def digit_char_def of_char_of)

lemma digit_char_value: "d < 10 \<Longrightarrow> (of_char (digit_char d) :: int) = 48 + int d"
proof -
  assume "d < 10"
  then have "(of_char (digit_char d) :: nat) = 48 + d" by (simp add: digit_char_def of_char_of)
  then show ?thesis by (metis of_nat_add of_nat_numeral of_nat_of_char)
qed

lemma digits_value_snoc: "digits_value (s @ [c]) = 10 * digits_value s + (of_char c - 48)"
  by (simp add: digits_value_def)

lemma nat_text_facts:
  "list_all is_digit (nat_text n) \<and> nat_text n \<noteq> [] \<and> digits_value (nat_text n) = int n"
proof (induction n rule: nat_text.induct)
  case (1 n)
  show ?case
  proof (cases "n < 10")
    case True
    then show ?thesis by (simp add: nat_text.simps [of n] digits_value_def digit_char_value)
  next
    case False
    with 1 show ?thesis
      by (simp add: nat_text.simps [of n] digits_value_snoc digit_char_value) presburger
  qed
qed

lemma length_nat_text: "n < 10 ^ k \<Longrightarrow> 0 < k \<Longrightarrow> length (nat_text n) \<le> k"
proof (induction n arbitrary: k rule: nat_text.induct)
  case (1 n)
  show ?case
  proof (cases "n < 10")
    case True
    with 1 show ?thesis by (simp add: nat_text.simps [of n])
  next
    case False
    with 1(2) obtain j where k: "k = Suc j" "0 < j" by (cases k; cases "k - 1"; auto)
    with 1(2) have "n div 10 < 10 ^ j" by (simp add: less_mult_imp_div_less)
    with 1(1) [OF False, of j] k False show ?thesis by (simp add: nat_text.simps [of n])
  qed
qed

lemma digit_no_space: "is_digit c \<Longrightarrow> \<not> py_space c \<and> c \<noteq> CHR ''_'' \<and> c \<noteq> CHR ''-'' \<and> c \<noteq> CHR ''+''"
  by (auto simp: is_digit_def py_space_def)

lemma digit_groups_digits: "list_all is_digit s \<Longrightarrow> s \<noteq> [] \<Longrightarrow> digit_groups s"
  by (induction s rule: digit_groups.induct) (auto dest: digit_no_space)

lemma strip_same: "s \<noteq> [] \<Longrightarrow> \<not> py_space (hd s) \<Longrightarrow> \<not> py_space (last s) \<Longrightarrow> strip s = s"
  by (metis dropWhile_eq_self_iff hd_rev rev_rev_ident strip_def)

lemma digits_kept: "list_all is_digit s \<Longrightarrow> filter (\<lambda>c. c \<noteq> CHR ''_'') s = s"
  by (induction s) (auto dest: digit_no_space)

lemma digits_signed: "list_all is_digit s \<Longrightarrow> signed s = (1, s)"
  by (cases s) (auto dest: digit_no_space)

lemma int_text_read:
  assumes "\<bar>n\<bar> < 10 ^ k" "0 < k" "k \<le> 4300"
  shows "int_of_text (int_text n) = Some n"
proof -
  let ?s = "nat_text (nat \<bar>n\<bar>)"
  have d: "list_all is_digit ?s" "?s \<noteq> []" "digits_value ?s = \<bar>n\<bar>" using nat_text_facts [of "nat \<bar>n\<bar>"] by auto
  have "nat \<bar>n\<bar> < 10 ^ k" using assms(1) by (simp add: nat_less_iff)
  from length_nat_text [OF this assms(2)] assms(3) have len: "length ?s \<le> 4300" by simp
  have "is_digit (hd ?s)" "is_digit (last ?s)" using d by (simp_all add: list_all_iff)
  then have s: "strip ?s = ?s" "strip (CHR ''-'' # ?s) = CHR ''-'' # ?s"
    using d(2) digit_no_space by (auto intro!: strip_same simp: py_space_def)
  have f: "filter (\<lambda>c. c \<noteq> CHR ''_'') ?s = ?s" "digit_groups ?s" "signed ?s = (1, ?s)"
    using d by (simp_all add: digits_kept digit_groups_digits digits_signed)
  show ?thesis
  proof (cases "n < 0")
    case True
    then have t: "int_text n = CHR ''-'' # ?s" by (simp add: int_text_def)
    show ?thesis unfolding int_of_text_def t s using f len d(3) True by (simp add: Let_def)
  next
    case False
    then have t: "int_text n = ?s" by (simp add: int_text_def)
    show ?thesis unfolding int_of_text_def t s using f len d(3) False by (simp add: Let_def)
  qed
qed

subsection \<open>The rows of the intent\<close>

definition rows_of :: "'v yworld \<Rightarrow> string \<Rightarrow> string option" where
  "rows_of w = (case yw_store w of None \<Rightarrow> Map.empty | Some s \<Rightarrow> dict_get (so_config s))"

definition core :: "'v yworld \<Rightarrow> bool \<times> halt_machine option \<times> bool \<times> (string \<Rightarrow> string option)" where
  \<comment> \<open>the bus, the halts, whether there is a store, and its rows\<close>
  "core w = (yw_bus w, yw_halts w, yw_store w = None, rows_of w)"

interpretation core: bybit_queries env "\<lambda>w. core w = t" for env :: "'v yenv" and t
  by standard (simp_all add: core_def rows_of_def)

lemma core_updates [simp]:
  "core (w\<lparr>yw_venue := v\<rparr>) = core w" "core (w\<lparr>yw_events := es\<rparr>) = core w" "core (w\<lparr>yw_refs := d\<rparr>) = core w"
  "yw_store w = Some s \<Longrightarrow> so_config s' = so_config s \<Longrightarrow> core (w\<lparr>yw_venue := v, yw_store := Some s'\<rparr>) = core w"
  by (simp_all add: core_def rows_of_def)

lemma wp_ystore:
  assumes "\<And>e v. E e (w\<lparr>yw_venue := v\<rparr>)"
    and "\<And>v s e s'. yw_store w = Some s \<Longrightarrow> m s = (Inl e, s') \<Longrightarrow> E e (w\<lparr>yw_venue := v, yw_store := Some s'\<rparr>)"
    and "\<And>v s a s'. yw_store w = Some s \<Longrightarrow> m s = (Inr a, s') \<Longrightarrow> Q a (w\<lparr>yw_venue := v, yw_store := Some s'\<rparr>)"
  shows "wp (ystore env m) Q E w"
  using assms unfolding ystore_def yfault_def
  by (auto simp: wp_def yside_def ebind_def eret_def elift_def split: prod.splits option.splits sum.splits)

definition quiet_store :: "'v yenv \<Rightarrow> bool" where
  \<comment> \<open>the database does not fail\<close>
  "quiet_store env \<longleftrightarrow> (\<forall>v. fst (pb_store_fault (ye_sdk env) v) = None)"

lemma wp_ystore_quiet:
  assumes "quiet_store env" "yw_store w = Some s"
    and "\<And>v. case m s of (Inl e, s') \<Rightarrow> E e (w\<lparr>yw_venue := v, yw_store := Some s'\<rparr>)
          | (Inr a, s') \<Rightarrow> Q a (w\<lparr>yw_venue := v, yw_store := Some s'\<rparr>)"
  shows "wp (ystore env m) Q E w"
proof -
  obtain v where "pb_store_fault (ye_sdk env) (yw_venue w) = (None, v)"
    using assms(1) by (metis quiet_store_def prod.collapse)
  with assms(2) assms(3) [of v] show ?thesis
    by (simp add: ystore_def yfault_def wp_def yside_def ebind_def eret_def split: prod.splits sum.splits)
qed

lemma wp_get_row:
  assumes "quiet_store env" "yw_store w \<noteq> None" "k = Inr x" "\<And>w'. core w' = core w \<Longrightarrow> Q (rows_of w x) w'"
  shows "wp (get_row env k) Q E w"
proof -
  from assms(2) obtain s where s: "yw_store w = Some s" by blast
  have "Q (rows_of w x) (w\<lparr>yw_venue := v, yw_store := Some s\<rparr>)" for v
    by (rule assms(4)) (simp add: core_def rows_of_def s)
  then show ?thesis
    unfolding get_row_def assms(3)
    by (simp, intro wp_ystore_quiet [OF assms(1) s]) (simp add: get_adapter_config_def eget_def rows_of_def s)
qed

lemma dict_get_replaced: "dict_get (dict_del k d @ [(k, v)]) = (dict_get d)(k \<mapsto> v)"
  by (rule ext) (auto simp: map_add_def split: option.splits)

lemma wp_set_row:
  assumes "yw_store w \<noteq> None" "\<And>w'. yw_store w' \<noteq> None \<Longrightarrow> rows_of w' = (rows_of w)(x \<mapsto> v) \<Longrightarrow> Q () w'" "\<And>e w'. E e w'"
  shows "wp (set_row env (Inr x) v) Q E w"
proof -
  obtain s where s: "yw_store w = Some s" using assms(1) by blast
  let ?s = "s\<lparr>so_config := dict_del x (so_config s) @ [(x, v)]\<rparr>"
  have "Q () (w\<lparr>yw_venue := u, yw_store := Some ?s\<rparr>)" for u
    by (rule assms(2)) (simp_all add: rows_of_def s dict_get_replaced del: map_of_append)
  then show ?thesis
    unfolding set_row_def using assms(3) by (simp, intro wp_ystore) (auto simp: set_adapter_config_def eupd_def s)
qed

subsection \<open>Setting leverage\<close>

definition leverage_rows :: "string \<Rightarrow> int \<Rightarrow> string \<Rightarrow> bool \<Rightarrow> bool \<Rightarrow> bool \<Rightarrow> (string \<Rightarrow> string option) \<Rightarrow> bool" where
  \<comment> \<open>the rows that hold an intent for a symbol\<close>
  "leverage_rows symbol n on_drift strict block auto rows \<longleftrightarrow>
     rows (''leverage.buy:'' @ symbol) = Some (int_text n) \<and> rows (''leverage.sell:'' @ symbol) = Some (int_text n)
     \<and> rows (''leverage.policy.on_drift:'' @ symbol) = Some on_drift
     \<and> rows (''leverage.policy.strict_check:'' @ symbol) = Some (flag_text strict)
     \<and> rows (''leverage.policy.block_on_open:'' @ symbol) = Some (flag_text block)
     \<and> rows (''leverage.policy.auto_apply:'' @ symbol) = Some (flag_text auto)"

lemma wp_partial: "(\<And>a w'. Q a w') \<Longrightarrow> wp m Q (\<lambda>_ _. True) w"
  by (simp add: wp_def split: prod.splits sum.splits)

lemmas key_defs = leverage_buy_key_def leverage_sell_key_def leverage_policy_key_def symbol_key_def ON_DRIFT_def
  STRICT_CHECK_def BLOCK_ON_OPEN_def AUTO_APPLY_def

lemma wp_store_rows:
  assumes "to_bybit_symbol i = Inr symbol"
  shows "wp (ebind require_store (\<lambda>_.
      ebind (set_row env (leverage_buy_key i) (int_text n)) (\<lambda>_.
      ebind (set_row env (leverage_sell_key i) (int_text n)) (\<lambda>_.
      ebind (set_row env (leverage_policy_key ON_DRIFT i) d) (\<lambda>_.
      ebind (set_row env (leverage_policy_key STRICT_CHECK i) (flag_text strict)) (\<lambda>_.
      ebind (set_row env (leverage_policy_key BLOCK_ON_OPEN i) (flag_text block)) (\<lambda>_.
      set_row env (leverage_policy_key AUTO_APPLY i) (flag_text auto))))))))
    (\<lambda>_ w'. leverage_rows symbol n d strict block auto (rows_of w')) (\<lambda>_ _. True) w"
  using assms
  by (auto simp: require_store_def has_store_def key_defs leverage_rows_def intro!: wp_set_row)

lemma wp_set_leverage:
  assumes "to_bybit_symbol i = Inr symbol"
  shows "wp (bybit_set_leverage env i buy sell d strict block auto)
    (\<lambda>_ w'. sell \<in> {None, Some buy} \<and> leverage_rows symbol buy d strict block auto (rows_of w')) (\<lambda>_ _. True) w"
proof (cases "sell \<in> {None, Some buy}")
  case True
  then have s: "(case sell of None \<Rightarrow> buy | Some n \<Rightarrow> n) = buy" by auto
  show ?thesis
    unfolding bybit_set_leverage_def Let_def s
    using True
    by (simp add: assms del: wp_ebind) (subst wp_ebind, rule wp_partial, subst wp_ebind, rule wp_partial, subst wp_ebind,
        rule wp_partial, rule wp_store_rows [OF assms])
next
  case False
  then show ?thesis by (auto simp: bybit_set_leverage_def Let_def assms split: option.splits)
qed

lemma core_rows: "core w' = core w \<Longrightarrow> rows_of w' = rows_of w \<and> (yw_store w' = None \<longleftrightarrow> yw_store w = None)"
  by (simp add: core_def)

lemma wp_stored_leverage:
  fixes env :: "'v yenv"
  assumes "quiet_store env" "yw_store w \<noteq> None" "to_bybit_symbol i = Inr symbol"
    and "\<And>w'. core w' = core w \<Longrightarrow>
      Q (parsed_leverage (rows_of w (''leverage.buy:'' @ symbol)) (rows_of w (''leverage.sell:'' @ symbol))) w'"
  shows "wp (stored_leverage env i) Q E w"
proof -
  have k: "leverage_buy_key i = Inr (''leverage.buy:'' @ symbol)" "leverage_sell_key i = Inr (''leverage.sell:'' @ symbol)"
    by (simp_all add: key_defs assms(3))
  have "wp (get_row env (leverage_buy_key i))
      (\<lambda>b. wp (get_row env (leverage_sell_key i)) (\<lambda>s. Q (parsed_leverage b s)) (\<lambda>e. Q None)) (\<lambda>e. Q None) w"
  proof (rule wp_get_row [OF assms(1,2) k(1)])
    fix w' :: "'v yworld" assume w': "core w' = core w"
    with core_rows [OF this] assms(2)
    show "wp (get_row env (leverage_sell_key i)) (\<lambda>s. Q (parsed_leverage (rows_of w (''leverage.buy:'' @ symbol)) s)) (\<lambda>e. Q None) w'"
      using assms(4) by (auto intro!: wp_get_row [OF assms(1) _ k(2)] simp del: append_Cons)
  qed
  with assms(2) show ?thesis
    unfolding stored_leverage_def has_store_def
    by (auto simp: wp_funs)
qed

lemma wp_policy_knob:
  assumes "quiet_store env" "yw_store w \<noteq> None" "to_bybit_symbol i = Inr symbol"
    and "\<And>w'. core w' = core w \<Longrightarrow> Q (rows_of w (''leverage.policy.'' @ knob @ '':'' @ symbol)) w'"
  shows "wp (policy_knob env i knob) Q E w"
proof -
  have k: "leverage_policy_key knob i = Inr (''leverage.policy.'' @ knob @ '':'' @ symbol)"
    by (simp add: key_defs assms(3))
  show ?thesis
    unfolding policy_knob_def read_knob_def has_store_def using assms(2)
    by simp (rule wp_get_row [OF assms(1,2) k], rule assms(4))
qed

text \<open>
  C22. Leverage that was set is the leverage that is kept: after a successful call the two sides agree,
  the rows of the symbol hold the value and the four policies as given, and as long as the database
  answers, the intent the check before an order reads is that value and the drift policy the one given.
  The value is taken below 10^18, far below the 4300 digits beyond which Python refuses to read an
  integer back.
\<close>

theorem leverage_roundtrip:
  assumes run: "bybit_set_leverage env i buy sell on_drift strict block auto w = (Inr (), w')"
    and n: "\<bar>buy\<bar> < 10 ^ 18" and quiet: "quiet_store env"
  shows "sell \<in> {None, Some buy}
    \<and> (\<exists>symbol. to_bybit_symbol i = Inr symbol \<and> leverage_rows symbol buy on_drift strict block auto (rows_of w'))
    \<and> fst (intent_leverage env i w') = Inr (buy, buy)
    \<and> fst (policy_knob env i ON_DRIFT w') = Inr (Some on_drift)
    \<and> fst (policy_knob env i STRICT_CHECK w') = Inr (Some (flag_text strict))"
proof -
  from run obtain symbol where sym: "to_bybit_symbol i = Inr symbol"
    by (cases "to_bybit_symbol i") (auto simp: bybit_set_leverage_def Let_def ebind_def elift_def)
  from wp_value [OF wp_set_leverage [OF sym] run]
  have rows: "sell \<in> {None, Some buy}" "leverage_rows symbol buy on_drift strict block auto (rows_of w')" by auto
  then have st: "yw_store w' \<noteq> None" by (cases "yw_store w'") (simp_all add: leverage_rows_def rows_of_def)
  have "int_of_text (int_text buy) = Some buy" by (rule int_text_read [OF n]) simp_all
  then have "wp (intent_leverage env i) (\<lambda>p _. p = (buy, buy)) (\<lambda>_ _. False) w'"
    unfolding intent_leverage_def using rows(2)
    by (simp, intro wp_stored_leverage [OF quiet st sym]) (simp add: leverage_rows_def parsed_leverage_def)
  moreover have "wp (policy_knob env i ON_DRIFT) (\<lambda>p _. p = Some on_drift) (\<lambda>_ _. False) w'"
    "wp (policy_knob env i STRICT_CHECK) (\<lambda>p _. p = Some (flag_text strict)) (\<lambda>_ _. False) w'"
    using rows(2) by (auto intro!: wp_policy_knob [OF quiet st sym] simp: leverage_rows_def ON_DRIFT_def STRICT_CHECK_def)
  ultimately show ?thesis
    using rows sym by (auto simp: wp_def split: prod.splits sum.splits)
qed

end
