(* ===== verification/UTE_Bybit_Requests.thy ===== *)
theory UTE_Bybit_Requests
  imports UTE_Bybit_Safety UTE_Sending
begin

text \<open>
  The requests the Bybit adapter sends. \<open>logging\<close> turns any SDK into one that also keeps the list of
  requests; a read is tried three times at most, a mutation is sent once.
\<close>

subsection \<open>Keeping the requests\<close>

type_synonym 'v logged = "('v, string \<times> params) recorded"

definition logging :: "'v pybit \<Rightarrow> 'v logged pybit" where
  "logging k = \<lparr>pb_request = (\<lambda>name ps (v, l). case pb_request k name ps v of (r, v') \<Rightarrow> (r, v', l @ [(name, ps)])),
     pb_ws_open = beside (pb_ws_open k), pb_ws_exit = beside (pb_ws_exit k), pb_ws_alive = beside (pb_ws_alive k),
     pb_ws_stream = (\<lambda>s. beside (pb_ws_stream k s)), pb_store_fault = beside (pb_store_fault k),
     pb_clock = beside (pb_clock k), pb_monotonic = beside (pb_monotonic k), pb_new_id = beside (pb_new_id k),
     pb_sleep = (\<lambda>t (v, l). (pb_sleep k t v, l)), pb_digest = pb_digest k\<rparr>"

definition logged :: "'v yenv \<Rightarrow> 'v logged yenv" where
  "logged env = \<lparr>ye_sdk = logging (ye_sdk env), ye_config = ye_config env, ye_pages = ye_pages env\<rparr>"

definition requests :: "'v logged yworld \<Rightarrow> (string \<times> params) list" where
  "requests w = snd (yw_venue w)"

lemma logged_sdk [simp]:
  "ye_sdk (logged env) = logging (ye_sdk env)" "ye_config (logged env) = ye_config env" "ye_pages (logged env) = ye_pages env"
  by (simp_all add: logged_def)

lemma logging_sdk [simp]:
  "pb_ws_open (logging k) = beside (pb_ws_open k)" "pb_ws_exit (logging k) = beside (pb_ws_exit k)"
  "pb_ws_alive (logging k) = beside (pb_ws_alive k)" "pb_ws_stream (logging k) s = beside (pb_ws_stream k s)"
  "pb_store_fault (logging k) = beside (pb_store_fault k)" "pb_clock (logging k) = beside (pb_clock k)"
  "pb_monotonic (logging k) = beside (pb_monotonic k)" "pb_new_id (logging k) = beside (pb_new_id k)"
  "snd (pb_sleep (logging k) t v) = snd v"
  "snd (snd (pb_request (logging k) name ps v)) = snd v @ [(name, ps)]"
  by (simp_all add: logging_def split: prod.splits)

subsection \<open>Requests that matter for orders and positions\<close>

definition is_trade :: "string \<Rightarrow> bool" where
  \<comment> \<open>a request that creates, changes or cancels an order or the protection of a position\<close>
  "is_trade name \<longleftrightarrow> name \<in> {''place_order'', ''amend_order'', ''cancel_order'', ''set_trading_stop''}"

definition trades :: "(string \<times> params) list \<Rightarrow> (string \<times> params) list" where
  "trades l = filter (\<lambda>x. is_trade (fst x)) l"

lemma trades_append [simp]: "trades (l @ m) = trades l @ trades m"
  by (simp add: trades_def)

lemma read_no_trade [simp]: "is_read name \<Longrightarrow> trades [(name, ps)] = []"
  by (auto simp: trades_def is_trade_def is_read_def starts_with_def)

lemma setting_no_trade [simp]: "is_setting name \<Longrightarrow> trades [(name, ps)] = []"
  by (auto simp: trades_def is_trade_def is_setting_def)

definition since :: "'v logged yworld \<Rightarrow> (string \<times> params) list \<Rightarrow> 'v logged yworld \<Rightarrow> bool" where
  \<comment> \<open>the trade requests sent since \<open>w\<close>\<close>
  "since w ts w' \<longleftrightarrow> (\<exists>new. requests w' = requests w @ new \<and> trades new = ts)"

lemma since_refl: "since w [] w"
  by (simp add: since_def trades_def)

lemma since_same: "requests v' = requests v \<Longrightarrow> since w ts v' = since w ts v"
  by (simp add: since_def)

lemma since_sent: "since w ts v \<Longrightarrow> requests v' = requests v @ [x] \<Longrightarrow> since w (ts @ trades [x]) v'"
  by (auto simp: since_def)

lemma requests_updates [simp]:
  "requests (w\<lparr>yw_limits := a\<rparr>) = requests w" "requests (w\<lparr>yw_refs := b\<rparr>) = requests w" "requests (w\<lparr>yw_specs := c\<rparr>) = requests w"
  "requests (w\<lparr>yw_account := d\<rparr>) = requests w" "requests (w\<lparr>yw_events := e\<rparr>) = requests w" "requests (w\<lparr>yw_store := f\<rparr>) = requests w"
  "requests (w\<lparr>yw_halts := g\<rparr>) = requests w" "requests (w\<lparr>yw_instruments := h\<rparr>) = requests w"
  "requests (w\<lparr>yw_scheduled := i\<rparr>) = requests w" "requests (w\<lparr>yw_open := j\<rparr>) = requests w" "requests (w\<lparr>yw_final := k\<rparr>) = requests w"
  "requests (w\<lparr>yw_ws := l\<rparr>) = requests w" "requests (w\<lparr>yw_connected := m\<rparr>) = requests w" "requests (w\<lparr>yw_monitor := n\<rparr>) = requests w"
  "requests (w\<lparr>yw_loop := o'\<rparr>) = requests w" "requests (w\<lparr>yw_venue := v\<rparr>) = snd v"
  by (simp_all add: requests_def)

interpretation quiet: bybit_link "logged env" "since w ts" for env :: "'v yenv" and w :: "'v logged yworld" and ts
proof
  fix v :: "'v logged yworld" and name ps
  let ?v = "v\<lparr>yw_venue := snd (pb_request (ye_sdk (logged env)) name ps (yw_venue v))\<rparr>"
  assume "since w ts v"
  from since_sent [OF this, of ?v "(name, ps)"] have v: "since w (ts @ trades [(name, ps)]) ?v" by (simp add: requests_def)
  from v show "since w ts ?v" if "is_read name" using that by simp
  from v show "since w ts ?v" if "is_setting name" using that by simp
qed (simp_all add: since_def requests_def)

subsection \<open>One request per call\<close>

lemmas wp_quiet = safe_wp [where I = "since w ts" for w ts]

lemma wp_write_once:
  assumes v: "since w [] v" and name: "is_trade name"
    and Q: "\<And>w'. since w [(name, ps)] w' \<Longrightarrow> Q () w'" and E: "\<And>e w'. since w [(name, ps)] w' \<Longrightarrow> E e w'"
  shows "wp (bybit_write (logged env) name ps) Q E v"
proof -
  let ?v = "v\<lparr>yw_venue := snd (pb_request (ye_sdk (logged env)) name ps (yw_venue v))\<rparr>"
  have sent: "since w [(name, ps)] ?v"
    using since_sent [OF v, of ?v "(name, ps)"] name by (simp add: requests_def trades_def)
  have l: "wp (update_rate_limits (logged env) hs) (\<lambda>_. wp (eret d) (\<lambda>_. wp (eret ()) Q E) E) E ?v"
    for hs and d :: "(string \<times> py_object) list"
    unfolding wp_eret by (rule wp_quiet [OF quiet.safe_limits sent]) (rule Q E, assumption)+
  show ?thesis
    unfolding bybit_write_def using E [OF sent] l
    by (simp add: Let_def split: pybit_reply.splits)
qed

definition trade_name :: "bybit_call \<Rightarrow> string option" where
  \<comment> \<open>the trade request a call may send\<close>
  "trade_name c =
     (case c of
        YC_place _ \<Rightarrow> Some ''place_order''
      | YC_modify _ \<Rightarrow> Some ''amend_order''
      | YC_cancel _ \<Rightarrow> Some ''cancel_order''
      | YC_protect _ _ _ _ _ \<Rightarrow> Some ''set_trading_stop''
      | YC_clear _ _ _ _ \<Rightarrow> Some ''set_trading_stop''
      | YC_trail _ \<Rightarrow> Some ''set_trading_stop''
      | YC_untrail _ _ \<Rightarrow> Some ''set_trading_stop''
      | _ \<Rightarrow> None)"

definition once :: "string \<Rightarrow> 'v logged yworld \<Rightarrow> 'v logged yworld \<Rightarrow> bool" where
  \<comment> \<open>at most one trade request since \<open>w\<close>, of this name\<close>
  "once name w w' \<longleftrightarrow> since w [] w' \<or> (\<exists>ps. since w [(name, ps)] w')"

abbreviation sends_once :: "string \<Rightarrow> ('v logged, 'a) yop \<Rightarrow> 'v logged yworld \<Rightarrow> 'v logged yworld \<Rightarrow> bool" where
  "sends_once name m w v \<equiv> wp m (\<lambda>_. once name w) (\<lambda>_. once name w) v"

lemma onceI: "since w [] w' \<Longrightarrow> once name w w'" "since w [(name, ps)] w' \<Longrightarrow> once name w w'"
  by (auto simp: once_def)

lemma once_after:
  assumes "\<And>ts. safe (since w ts) m (\<lambda>_. True)" "once name w v"
  shows "sends_once name m w v"
proof -
  have "sends_once name m w v" if "since w ts v" "\<And>w'. since w ts w' \<Longrightarrow> once name w w'" for ts
    by (rule wp_quiet [OF assms(1) that(1)]) (rule that(2), assumption)+
  with assms(2) show ?thesis unfolding once_def [of name w v] using onceI by blast
qed

lemma once_write_then:
  "\<lbrakk>is_trade name; since w [] v; \<And>x w'. once name w w' \<Longrightarrow> sends_once name (f x) w w'\<rbrakk>
   \<Longrightarrow> sends_once name (ebind (bybit_write (logged env) name ps) f) w v"
  by (simp, rule wp_write_once) (auto intro: onceI)

lemma once_quiet_then:
  "\<lbrakk>safe (since w []) m (\<lambda>_. True); since w [] v; \<And>x w'. since w [] w' \<Longrightarrow> sends_once name (f x) w w'\<rbrakk>
   \<Longrightarrow> sends_once name (ebind m f) w v"
  by (simp, rule wp_quiet) (auto intro: onceI)

lemma once_write: "is_trade name \<Longrightarrow> since w [] v \<Longrightarrow> sends_once name (bybit_write (logged env) name ps) w v"
  by (rule wp_write_once) (auto intro: onceI)

lemma is_trade_names [simp]:
  "is_trade ''place_order''" "is_trade ''amend_order''" "is_trade ''cancel_order''" "is_trade ''set_trading_stop''"
  by (simp_all add: is_trade_def)

lemma once_walk:
  "since w [] v \<Longrightarrow> (\<And>a. r = Inr a \<Longrightarrow> sends_once name (g a) w v) \<Longrightarrow> sends_once name (ebind (elift r) g) w v"
  "since w [] v \<Longrightarrow> (\<not> b \<Longrightarrow> sends_once name (f ()) w v) \<Longrightarrow> sends_once name (ebind (eguard b c x) f) w v"
  by (auto simp: wp_elift onceI split: sum.splits)

lemma once_cases:
  "sends_once name m w v \<Longrightarrow> (\<And>x. sends_once name (g x) w v)
   \<Longrightarrow> sends_once name (case y of None \<Rightarrow> m | Some x \<Rightarrow> g x) w v"
  "(\<And>x y. sends_once name (h x y) w v) \<Longrightarrow> sends_once name (case p of (x, y) \<Rightarrow> h x y) w v"
  "sends_once name m w v \<Longrightarrow> sends_once name m' w v \<Longrightarrow> sends_once name (if b then m else m') w v"
  "since w [] v \<Longrightarrow> sends_once name (eret a) w v"
  by (auto simp: onceI split: option.splits prod.splits)

lemma once_invalidating:
  assumes "is_trade name" "since w [] v" "\<And>ts. safe (since w ts) forget (\<lambda>_. True)"
    and "\<And>x w'. once name w w' \<Longrightarrow> sends_once name (f x) w w'"
  shows "sends_once name (ebind (invalidating forget (bybit_write (logged env) name ps)) f) w v"
proof -
  have e: "wp (ewhen b forget) (\<lambda>_. wp (elift (Inl e)) Q (\<lambda>_. once name w)) (\<lambda>_. once name w) v'"
    if "once name w v'" for b e v' and Q :: "unit \<Rightarrow> 'a logged yworld \<Rightarrow> bool"
    unfolding wp_funs using once_after [OF assms(3) that] that by simp
  show ?thesis
    unfolding invalidating_def wp_ebind wp_etry
    by (rule wp_write_once [OF assms(2,1)]; drule onceI(2)) (rule assms(4), assumption, rule e, assumption)
qed

lemma once_place: "sends_once ''place_order'' (bybit_place_order (logged env) u) w w"
  unfolding bybit_place_order_def
  by (rule once_quiet_then [OF quiet.safe_strict_check since_refl], rule once_walk, assumption, rule once_walk, assumption,
      rule once_quiet_then [OF quiet.safe_client_id], assumption,
      rule once_quiet_then [OF quiet.safe_position_idx], assumption, rule once_walk, assumption,
      rule once_invalidating [OF _ _ quiet.safe_invalidate], simp, assumption, rule once_after)
    (intro quiet.safe_remember [THEN safe_bind_any] quiet.safe_require_order)

lemma once_modify: "sends_once ''amend_order'' (bybit_modify_order (logged env) m) w w"
proof -
  have f: "safe (since w ts) (ebind (eget (\<lambda>w. dict_get (yw_instruments w) k))
      (\<lambda>i. case i of None \<Rightarrow> eret () | Some j \<Rightarrow> invalidate_instrument_spec j)) (\<lambda>_. True)" for ts k
    by (intro safe_walk safe_more quiet.safe_invalidate)
  show ?thesis
    unfolding bybit_modify_order_def
    by (rule once_quiet_then [OF quiet.safe_order_ref since_refl], rule once_cases, rule once_walk, assumption,
        rule once_invalidating [OF _ _ f], simp, assumption, rule once_after)
      (rule quiet.safe_require_order)
qed

lemma once_cancel: "sends_once ''cancel_order'' (bybit_cancel_order (logged env) cid) w w"
  unfolding bybit_cancel_order_def
  by (rule once_quiet_then [OF quiet.safe_order_ref since_refl], rule once_cases, rule once_write_then, simp, assumption,
      rule once_after)
    (rule quiet.safe_require_order)

lemma once_protect: "sends_once ''set_trading_stop'' (bybit_modify_tpsl (logged env) i pid tp sl b) w w"
  unfolding bybit_modify_tpsl_def
  by (intro once_walk once_write since_refl is_trade_names)

lemma once_clear: "sends_once ''set_trading_stop'' (bybit_clear_tpsl (logged env) i pid tp sl) w w"
  unfolding bybit_clear_tpsl_def
  by (intro once_walk since_refl once_quiet_then [OF quiet.safe_leg] once_cases once_write is_trade_names)

lemma once_trail: "sends_once ''set_trading_stop'' (bybit_place_trailing (logged env) r) w w"
  unfolding bybit_place_trailing_def
  by (rule once_walk, rule since_refl, rule once_walk, rule since_refl, rule once_walk, rule since_refl,
      rule once_walk, rule since_refl, rule once_walk, rule since_refl, rule once_write_then, simp, rule since_refl)
    (simp add: wp_elift split: sum.splits)

lemma once_untrail: "sends_once ''set_trading_stop'' (bybit_cancel_trailing (logged env) nid i) w w"
proof -
  have "safe (since w ts) (ebind (bybit_get_trailing (logged env) nid i) (\<lambda>x. eguard (x \<noteq> None) c m)) (\<lambda>_. True)" for ts c m
    by (intro quiet.safe_trailing [THEN safe_bind_any] safe_more)
  then show ?thesis
    unfolding bybit_cancel_trailing_def
    by (intro once_walk since_refl once_write_then is_trade_names) (rule once_after)
qed

lemma untraded: "trade_name c = None \<Longrightarrow> since w [] (bybit_call_effect (logged env) c w)"
proof -
  assume c: "trade_name c = None"
  note quiet.safe_connect quiet.safe_disconnect quiet.safe_monitor quiet.safe_loop_turn quiet.safe_streams quiet.safe_get_order
    quiet.safe_spec quiet.safe_rates quiet.safe_account quiet.safe_ticker quiet.safe_candles quiet.safe_tpsl
    quiet.safe_trailing quiet.safe_position_trailing quiet.safe_positions quiet.safe_balances quiet.safe_open_orders
    quiet.safe_fills quiet.safe_reconcile quiet.safe_set_leverage quiet.safe_get_leverage quiet.safe_remove
    quiet.safe_set_mode quiet.safe_get_mode quiet.safe_coin_mode quiet.safe_set_margin quiet.safe_get_margin
  note [THEN safeD, OF since_refl surjective_pairing] = this
  then show ?thesis using c by (cases c) (simp_all add: trade_name_def)
qed

text \<open>
  C6. A call of the adapter sends at most one request that creates, changes or cancels an order or the
  protection of a position, whatever the venue answers and however often the reads around it are tried
  again, and only the call whose purpose it is sends it: no mutation is ever repeated, and connecting,
  reconciling, applying leverage and every query leave orders and positions alone.
\<close>

theorem bybit_trades_once:
  "case trade_name c of
     None \<Rightarrow> since w [] (bybit_call_effect (logged env) c w)
   | Some name \<Rightarrow> since w [] (bybit_call_effect (logged env) c w)
       \<or> (\<exists>ps. since w [(name, ps)] (bybit_call_effect (logged env) c w))"
proof (cases "trade_name c")
  case None
  then show ?thesis by (simp add: untraded)
next
  case (Some name)
  have post: "once name w (snd (m w))" if "sends_once name m w w" for name and m :: "('a logged, 'b) yop"
    using that by (auto simp: wp_def split: prod.splits sum.splits)
  from Some post [OF once_place] post [OF once_modify] post [OF once_cancel] post [OF once_protect] post [OF once_clear]
    post [OF once_trail] post [OF once_untrail]
  show ?thesis by (cases c) (auto simp: trade_name_def once_def)
qed

subsection \<open>What a placement sends\<close>

definition bybit_sent :: "unified_order \<Rightarrow> string \<Rightarrow> 'v logged yworld \<Rightarrow> 'v logged yworld \<Rightarrow> bool" where
  \<comment> \<open>since \<open>w\<close> the order was sent once, translated, under this client id\<close>
  "bybit_sent u cid w w' \<longleftrightarrow>
     (\<exists>category symbol idx ps. instrument_to_category (uo_instrument u) = Inr category
        \<and> to_bybit_symbol (uo_instrument u) = Inr symbol
        \<and> (idx = None \<longleftrightarrow> category = ''spot'')
        \<and> (\<forall>x xs. uo_client_id u = Some (x # xs) \<longrightarrow> cid = x # xs)
        \<and> bybit_order_payload u category symbol cid idx = Inr ps
        \<and> since w [(''place_order'', ps)] w')"

definition known_order :: "string \<Rightarrow> 'v yworld \<Rightarrow> bool" where
  "known_order cid w \<longleftrightarrow> dict_get (yw_refs w) cid \<noteq> None"

interpretation known: bybit_queries env "known_order cid" for env :: "'v yenv" and cid
  by standard (auto simp: known_order_def)

lemma sent_quiet:
  "safe (\<lambda>v. bybit_sent u cid w v) m (\<lambda>_. True)" if "\<And>ts. safe (since w ts) m (\<lambda>_. True)"
proof (rule safeI)
  fix v r w' assume v: "bybit_sent u cid w v" and run: "m v = (r, w')"
  have "since w ts w'" if "since w ts v" for ts by (rule safeD [OF \<open>\<And>ts. safe (since w ts) m (\<lambda>_. True)\<close> that run])
  with v show "bybit_sent u cid w w' \<and> (\<forall>a. r = Inr a \<longrightarrow> True)" by (auto simp: bybit_sent_def) blast
qed

lemma wp_position_idx:
  assumes "since w [] v" "instrument_to_category i = Inr c"
    and "\<And>idx w'. since w [] w' \<Longrightarrow> (idx = None \<longleftrightarrow> c = ''spot'') \<Longrightarrow> Q idx w'" "\<And>e w'. since w [] w' \<Longrightarrow> E e w'"
  shows "wp (resolve_position_idx (logged env) i side reduce_only) Q E v"
proof -
  have "wp (resolve_position_idx (logged env) i side reduce_only) (\<lambda>idx _. idx = None \<longleftrightarrow> c = ''spot'') (\<lambda>_ _. True) v"
    using assms(2) by (simp add: resolve_position_idx_def has_store_def) (auto simp: wp_def eret_def split: prod.splits sum.splits)
  moreover have "wp (resolve_position_idx (logged env) i side reduce_only) (\<lambda>_. since w []) (\<lambda>_. since w []) v"
    by (rule wp_quiet [OF quiet.safe_position_idx assms(1)])
  ultimately show ?thesis
    by (rule wp_mono [OF wp_conj]) (auto intro: assms(3,4))
qed

lemma order_result_id: "bybit_order_result d cid = Inr r \<Longrightarrow> re_client_id r = cid"
  by (auto simp: bybit_order_result_def rbind_eq_Inr)

lemma require_order_id: "wp (require_order_result env cid) (\<lambda>r _. re_client_id r = cid) (\<lambda>_ _. True) v"
  unfolding require_order_result_def bybit_get_order_def
  by (rule wp_runI)
    (auto simp: ebind_eq eret_def elift_def split: option.splits prod.splits sum.splits, erule order_result_id)

lemma wp_client_id:
  assumes "since w [] v" and "\<And>x w'. since w [] w' \<Longrightarrow> (\<forall>y ys. c = Some (y # ys) \<longrightarrow> x = y # ys) \<Longrightarrow> Q x w'"
  shows "wp (case c of Some (y # ys) \<Rightarrow> eret (y # ys) | _ \<Rightarrow> yside (pb_new_id (ye_sdk (logged env)))) Q E v"
proof -
  have "since w [] (v\<lparr>yw_venue := snd (pb_new_id (ye_sdk (logged env)) (yw_venue v))\<rparr>)"
    using assms(1) by (simp add: since_def requests_def)
  with assms show ?thesis by (auto split: option.splits list.splits)
qed

definition unsent_or_sent :: "unified_order \<Rightarrow> 'v logged yworld \<Rightarrow> 'v logged yworld \<Rightarrow> bool" where
  "unsent_or_sent u w w' \<longleftrightarrow> since w [] w' \<or> (\<exists>cid. bybit_sent u cid w w')"

abbreviation places ::
    "unified_order \<Rightarrow> 'v logged yworld \<Rightarrow> ('v logged, order_result) yop \<Rightarrow> 'v logged yworld \<Rightarrow> bool" where
  "places u w m \<equiv> wp m (\<lambda>r w'. bybit_sent u (re_client_id r) w w' \<and> known_order (re_client_id r) w')
     (\<lambda>_. unsent_or_sent u w)"

lemma places_confirm:
  assumes v: "bybit_sent u cid w v"
  shows "places u w (ebind (remember_order cid c s) (\<lambda>_. require_order_result (logged env) cid)) v"
proof -
  let ?v = "v\<lparr>yw_refs := dict_set cid (c, s) (yw_refs v)\<rparr>"
  have v': "bybit_sent u cid w ?v" "known_order cid ?v"
    using v by (simp_all add: bybit_sent_def known_order_def since_def)
  have "wp (require_order_result (logged env) cid) (\<lambda>r w'. re_client_id r = cid \<and> bybit_sent u cid w w' \<and> known_order cid w')
      (\<lambda>_ w'. True \<and> bybit_sent u cid w w' \<and> known_order cid w') ?v"
    by (intro wp_conj require_order_id safe_wp [OF sent_quiet [OF quiet.safe_require_order] v'(1)]
        safe_wp [OF known.safe_require_order v'(2)])
  then show ?thesis
    unfolding remember_order_def by simp (erule wp_mono, auto simp: unsent_or_sent_def)
qed

lemma places_write:
  assumes v: "since w [] v" and s: "\<And>w'. since w [(''place_order'', ps)] w' \<Longrightarrow> bybit_sent u cid w w'"
  shows "places u w (ebind (invalidating (invalidate_instrument_spec i) (bybit_write (logged env) ''place_order'' ps))
      (\<lambda>_. ebind (remember_order cid c t) (\<lambda>_. require_order_result (logged env) cid))) v"
proof -
  have e: "wp (ewhen b (invalidate_instrument_spec i)) (\<lambda>_. wp (elift (Inl e)) Q (\<lambda>_. unsent_or_sent u w))
      (\<lambda>_. unsent_or_sent u w) v'" if "bybit_sent u cid w v'" for b e v' and Q :: "unit \<Rightarrow> 'a logged yworld \<Rightarrow> bool"
  proof (cases b)
    case True
    show ?thesis
      unfolding wp_funs using True
      by simp (rule safe_wp [OF sent_quiet [OF quiet.safe_invalidate] that], auto simp: unsent_or_sent_def)
  next
    case False
    with that show ?thesis by (auto simp: unsent_or_sent_def)
  qed
  show ?thesis
    unfolding invalidating_def wp_ebind [where m = "etry m h" for m h] wp_etry wp_ebind [where m = "ewhen b m" for b m]
    by (rule wp_write_once [OF v is_trade_names(1)]; drule s) (erule places_confirm, erule e)
qed

lemma unsent: "since w [] v \<Longrightarrow> unsent_or_sent u w v"
  by (simp add: unsent_or_sent_def)

lemma places_quiet_then:
  "\<lbrakk>safe (since w []) m (\<lambda>_. True); since w [] v; \<And>x w'. since w [] w' \<Longrightarrow> places u w (f x) w'\<rbrakk> \<Longrightarrow> places u w (ebind m f) v"
  unfolding wp_ebind by (rule wp_quiet) (assumption | rule unsent | blast)+

lemma places_elift:
  "since w [] v \<Longrightarrow> (\<And>a. r = Inr a \<Longrightarrow> places u w (f a) v) \<Longrightarrow> places u w (ebind (elift r) f) v"
  by (cases r) (simp_all add: unsent)

lemma wp_placement: "places u w (bybit_place_order (logged env) u) w"
proof -
  have sent: "bybit_sent u cid w w'"
    if "instrument_to_category (uo_instrument u) = Inr c" "to_bybit_symbol (uo_instrument u) = Inr s"
      "idx = None \<longleftrightarrow> c = ''spot''" "\<forall>y ys. uo_client_id u = Some (y # ys) \<longrightarrow> cid = y # ys"
      "bybit_order_payload u c s cid idx = Inr ps" "since w [(''place_order'', ps)] w'" for c s idx cid ps w'
    using that unfolding bybit_sent_def by blast
  show ?thesis
    unfolding bybit_place_order_def
    by (rule places_quiet_then [OF quiet.safe_strict_check since_refl], rule places_elift, assumption, rule places_elift,
        assumption, subst wp_ebind, rule wp_client_id, assumption, subst wp_ebind, rule wp_position_idx, assumption,
        assumption, rule places_elift, assumption, rule places_write, assumption, rule sent, assumption+)
      (rule unsent, assumption)
qed

text \<open>
  C11. Placing an order sends one creating request, the translation of the order for its category, symbol,
  client id and - on a derivative - the leg it addresses; a placement that returns has sent it, answers
  with the client id it was sent under, and the adapter knows that order. One that raises has sent that
  request or nothing.
\<close>

theorem bybit_placed_once:
  assumes "bybit_place_order (logged env) u w = (r, w')"
  shows "case r of
      Inr a \<Rightarrow> bybit_sent u (re_client_id a) w w' \<and> known_order (re_client_id a) w'
    | Inl e \<Rightarrow> since w [] w' \<or> (\<exists>cid. bybit_sent u cid w w')"
  using wp_run [OF wp_placement assms] by (cases r) (auto simp: unsent_or_sent_def)

subsection \<open>A placement that is answered\<close>

definition order_script :: "string \<Rightarrow> params \<Rightarrow> pybit_reply" where
  \<comment> \<open>the order is accepted and reported open\<close>
  "order_script name ps =
     (if name = ''get_open_orders'' then
        listed [Py_Map [(''orderLinkId'', Py_Str ''c1''), (''orderId'', Py_Str ''77''), (''orderStatus'', Py_Str ''New''),
                        (''symbol'', Py_Str ''BTCUSDT''), (''createdTime'', Py_Str ''1700000000000''),
                        (''updatedTime'', Py_Str ''1700000000000'')]]
      else listed [])"

definition limit_buy :: unified_order where
  "limit_buy = \<lparr>uo_instrument = btc_perpetual, uo_type = LIMIT, uo_side = BUY, uo_quantity = 2, uo_tif = GTC,
     uo_client_id = Some ''c1'', uo_price = Some 30000, uo_stop_price = None, uo_reduce_only = False, uo_client_tag = None,
     uo_take_profit = None, uo_stop_loss = None, uo_position_id = None, uo_expire_at = None\<rparr>"

definition empty_desk :: "unit logged yworld" where
  "empty_desk = bybit_init ((), []) (fresh_limits 0) True None"

lemma limit_buy_answered:
  "(case bybit_place_order (logged (scripted order_script)) limit_buy empty_desk of
      (r, w') \<Rightarrow> (case r of Inl _ \<Rightarrow> None | Inr a \<Rightarrow> Some (re_client_id a), map fst (requests w')))
   = (Some ''c1'', [''get_positions'', ''place_order'', ''get_open_orders''])"
  by code_simp

theorem bybit_placed_once_witness:
  "\<exists>a w'. bybit_place_order (logged (scripted order_script)) limit_buy empty_desk = (Inr a, w')
     \<and> re_client_id a = ''c1'' \<and> bybit_sent limit_buy ''c1'' empty_desk w' \<and> known_order ''c1'' w'"
proof -
  obtain r w' where run: "bybit_place_order (logged (scripted order_script)) limit_buy empty_desk = (r, w')" by fastforce
  with limit_buy_answered obtain a where "r = Inr a" "re_client_id a = ''c1''" by (auto split: sum.splits)
  with run bybit_placed_once [OF run] show ?thesis by simp
qed

end
