(* ===== verification/UTE_Bybit_Drift.thy ===== *)
theory UTE_Bybit_Drift
  imports UTE_Bybit_Leverage UTE_Bybit_Requests
begin

text \<open>
  The check of the leverage before an order: when the platform differs from the intent and the policy is
  not to reapply it, the order is refused before anything is sent, and a policy to halt halts.
\<close>

subsection \<open>Reporting\<close>

lemma wp_emit:
  assumes "yw_bus w" "\<And>w'. core w' = core w \<Longrightarrow> Q () w'"
  shows "wp (emit env body) Q E w"
  using assms by (simp add: emit_def bybit_event_of_def bybit_publish_def)

lemma wp_store_quietly:
  assumes "\<And>w'. core w' = core w \<Longrightarrow> Q () w'" "\<And>s r s'. m s = (r, s') \<Longrightarrow> so_config s' = so_config s"
  shows "wp (ystore env m) Q (\<lambda>_. Q ()) w"
  using assms by (intro wp_ystore) simp_all

lemma audit_config: "write_audit_event a s = (r, s') \<Longrightarrow> so_config s' = so_config s"
  by (auto simp: write_audit_event_def ebind_def eget_def eguard_def guard_exn_def elift_def eupd_def split: if_splits)

lemma halt_event_config: "write_halt_event a s = (r, s') \<Longrightarrow> so_config s' = so_config s"
  by (auto simp: write_halt_event_def ebind_def eget_def eguard_def guard_exn_def elift_def eupd_def split: if_splits)

lemma wp_leverage_audit:
  assumes "to_bybit_symbol i = Inr symbol" "\<And>w'. core w' = core w \<Longrightarrow> Q () w'"
  shows "wp (write_leverage_audit env ty (Some i) payload) Q E w"
  unfolding write_leverage_audit_def has_store_def using assms
  by (auto intro!: wp_mono [OF wp_store_quietly [where Q = "\<lambda>_ w'. core w' = core w"]] audit_config simp: wp_funs)

lemma wp_halt_audit:
  assumes "\<And>w'. core w' = core w \<Longrightarrow> Q () w'"
  shows "wp (write_halt_audit env a i reason detail) Q E w"
  unfolding write_halt_audit_def has_store_def using assms
  by (auto intro!: wp_mono [OF wp_store_quietly [where Q = "\<lambda>_ w'. core w' = core w"]] halt_event_config simp: wp_funs)

subsection \<open>Halting\<close>

definition halts_after :: "bool \<Rightarrow> instrument \<Rightarrow> halt_machine option \<Rightarrow> halt_machine option \<Rightarrow> bool" where
  \<comment> \<open>when \<open>b\<close>, a machine that may halt by itself no longer admits orders for the instrument\<close>
  "halts_after b i h h' \<longleftrightarrow>
     (if b then (\<forall>m. h = Some m \<longrightarrow> hc_auto (hm_config m) \<longrightarrow> (\<exists>m'. h' = Some m' \<and> \<not> can_place_order m' i False)) else h' = h)"

definition drifted :: "bool \<Rightarrow> instrument \<Rightarrow> 'v yworld \<Rightarrow> 'v yworld \<Rightarrow> bool" where
  \<comment> \<open>the core of the world is the same, up to the halt of the instrument when \<open>b\<close>\<close>
  "drifted b i w w' \<longleftrightarrow> yw_bus w' = yw_bus w \<and> (yw_store w' = None) = (yw_store w = None) \<and> rows_of w' = rows_of w
     \<and> halts_after b i (yw_halts w) (yw_halts w')"

lemma drifted_core: "core w' = core v \<Longrightarrow> drifted b i w w' = drifted b i w v"
  by (simp add: core_def drifted_def)

lemma enter_halt_blocks:
  "\<exists>b m'. enter_halt SC_INSTRUMENT (Some i) r d m = Inr (b, m') \<and> (hc_auto (hm_config m) \<longrightarrow> \<not> can_place_order m' i False)"
proof (cases "hc_auto (hm_config m)")
  case True
  obtain b m' where m': "restore_halt SC_INSTRUMENT (Some i) r d m = Inr (b, m')"
    using restore_halt_total [of SC_INSTRUMENT "Some i" r d m] by auto
  have "\<not> can_place_order m' i False"
    using halt_admission [OF m', of i False] same_instrument_refl [of i] by blast
  with m' True show ?thesis by (auto simp: enter_halt_eq)
qed (auto simp: enter_halt_eq)

lemma core_halts [simp]:
  "core (w\<lparr>yw_halts := h\<rparr>) = (yw_bus w, h, yw_store w = None, rows_of w)"
  by (simp add: core_def rows_of_def)

lemma wp_enter_halt:
  assumes "yw_bus w" "\<And>w'. drifted True i w w' \<Longrightarrow> Q () w'"
  shows "wp (enter_instrument_halt env i r d) Q E w"
proof (cases "yw_halts w")
  case None
  then have "drifted True i w w" by (simp add: drifted_def halts_after_def)
  with None assms(2) show ?thesis by (simp add: enter_instrument_halt_def)
next
  case (Some m)
  from enter_halt_blocks [of i r d m] obtain b m' where m': "enter_halt SC_INSTRUMENT (Some i) r d m = Inr (b, m')"
    "hc_auto (hm_config m) \<longrightarrow> \<not> can_place_order m' i False" by blast
  let ?w = "w\<lparr>yw_halts := Some m'\<rparr>"
  have d: "drifted True i w w'" if "core w' = core ?w" for w'
    using that Some m'(2) by (auto simp: drifted_def halts_after_def core_def rows_of_def)
  have "wp (emit env body) (\<lambda>_. wp (write_halt_audit env HA_ENTERED i r d) Q E) E ?w" for body
    using assms(1) d by (intro wp_emit wp_halt_audit assms(2)) simp_all
  with d [OF refl] show ?thesis
    by (simp add: enter_instrument_halt_def Some m'(1) assms(2) wp_funs)
qed

subsection \<open>Handling a drift without reapplying\<close>

lemma wp_handle_drift:
  assumes "quiet_store env" "yw_store w \<noteq> None" "to_bybit_symbol i = Inr symbol" "yw_bus w"
    and p: "rows_of w (''leverage.policy.on_drift:'' @ symbol) = Some p" "p \<noteq> ''reapply''"
    and Q: "\<And>w'. drifted (p \<noteq> ''notify'') i w w' \<Longrightarrow> Q () w'"
  shows "wp (handle_leverage_drift env i n m c) Q E w"
proof -
  have bus: "yw_bus v" if "core v = core w" for v using that assms(4) by (simp add: core_def)
  have event: "wp (emit_drift_event env i n m a) R E v" if "core v = core w" "\<And>w'. core w' = core w \<Longrightarrow> R () w'" for a v R
    unfolding emit_drift_event_def wp_ebind
    using that bus by (intro wp_emit wp_leverage_audit [OF assms(3)]) simp_all
  have d: "drifted False i w w'" if "core w' = core w" for w' using that by (simp add: drifted_def halts_after_def core_def)
  have halt: "wp (enter_instrument_halt env i r d') Q E v" if "core v = core w" "p \<noteq> ''notify''" for r d' v
    using that bus [OF that(1)] Q by (intro wp_enter_halt) (simp_all add: drifted_def core_def)
  show ?thesis
    unfolding handle_leverage_drift_def wp_ebind
    by (rule wp_policy_knob [OF assms(1-3)])
      (use p event halt d Q in \<open>auto simp: ON_DRIFT_def drift_policy_def\<close>)
qed

subsection \<open>The check before an order\<close>

definition answers :: "'v yenv \<Rightarrow> string \<Rightarrow> params \<Rightarrow> (string \<times> py_object) list \<Rightarrow> bool" where
  \<comment> \<open>the venue answers this request with this body whenever it is asked\<close>
  "answers env name ps d \<longleftrightarrow> (\<forall>v. fst (pb_request (ye_sdk env) name ps v) = PB_Reply d [])"

lemma wp_read_answered:
  assumes "answers env name ps d" "\<And>w'. core w' = core w \<Longrightarrow> Q d w'"
  shows "wp (bybit_read env name ps) Q E w"
  using assms
  by (simp add: bybit_read_def READ_RETRIES_def eval_nat_numeral answers_def update_rate_limits_def has_rate_limit_headers_def
      header_value_def RATE_LIMIT_HEADERS_def)

definition reports_leverage :: "'v yenv \<Rightarrow> instrument \<Rightarrow> int \<times> int \<Rightarrow> bool" where
  \<comment> \<open>the venue reports this leverage of the instrument, a derivative\<close>
  "reports_leverage env i m \<longleftrightarrow>
     (\<exists>category symbol d xs q. instrument_to_category i = Inr category \<and> category \<noteq> ''spot'' \<and> to_bybit_symbol i = Inr symbol
        \<and> answers env ''get_positions'' [(''category'', W_text category), (''symbol'', W_text symbol)] d
        \<and> result_list d = Inr xs \<and> leverage_of xs None None = Inr q \<and> both_sides q = Some m)"

lemma wp_get_leverage:
  assumes "reports_leverage env i m" "\<And>w'. core w' = core w \<Longrightarrow> Q (Some m) w'"
  shows "wp (bybit_get_leverage env i) Q E w"
proof -
  from assms(1) obtain category symbol d xs q where
    a: "instrument_to_category i = Inr category" "category \<noteq> ''spot''" "to_bybit_symbol i = Inr symbol"
    "answers env ''get_positions'' [(''category'', W_text category), (''symbol'', W_text symbol)] d"
    "result_list d = Inr xs" "leverage_of xs None None = Inr q" "both_sides q = Some m"
    unfolding reports_leverage_def by blast
  have "wp (bybit_read env ''get_positions'' [(''category'', W_text category), (''symbol'', W_text symbol)])
      (\<lambda>d. wp (elift (result_list d)) (\<lambda>xs. wp (elift (leverage_of xs None None)) (\<lambda>p. Q (both_sides p)) E) E) E w"
    using a assms(2) by (intro wp_read_answered [OF a(4)]) simp
  with a show ?thesis by (simp add: bybit_get_leverage_def position_entries_def wp_funs)
qed

definition stored_intent :: "(string \<Rightarrow> string option) \<Rightarrow> string \<Rightarrow> int \<times> int" where
  "stored_intent rows symbol =
     (case parsed_leverage (rows (''leverage.buy:'' @ symbol)) (rows (''leverage.sell:'' @ symbol)) of
        None \<Rightarrow> (DEFAULT_LEVERAGE, DEFAULT_LEVERAGE) | Some p \<Rightarrow> p)"

lemma wp_strict_check:
  assumes env: "quiet_store env" "reports_leverage env i m" and w: "yw_store w \<noteq> None" "yw_bus w"
    and sym: "to_bybit_symbol i = Inr symbol"
    and strict: "rows_of w (''leverage.policy.strict_check:'' @ symbol) \<noteq> Some ''0''"
    and p: "rows_of w (''leverage.policy.on_drift:'' @ symbol) = Some p" "p \<noteq> ''reapply''"
    and m: "m \<noteq> stored_intent (rows_of w) symbol"
  shows "wp (strict_check_leverage env i) (\<lambda>_ _. False)
    (\<lambda>e w'. exn_cls e = LeverageDriftError \<and> drifted (p \<noteq> ''notify'') i w w') w"
proof -
  have st: "yw_store v \<noteq> None" if "core v = core w" for v using that w by (simp add: core_def)
  let ?E = "\<lambda>e w'. exn_cls e = LeverageDriftError \<and> drifted (p \<noteq> ''notify'') i w w'"
  have last: "wp (policy_knob env i ON_DRIFT)
      (\<lambda>raw. wp (eguard (drift_policy raw \<noteq> ''reapply'') LeverageDriftError msg) (\<lambda>_ _. False) ?E) ?E v"
    if "drifted (p \<noteq> ''notify'') i w v" for v msg
    using that p w by (intro wp_policy_knob [OF env(1) _ sym])
      (auto simp: drifted_def ON_DRIFT_def drift_policy_def core_def)
  have drift: "wp (handle_leverage_drift env i n m c) (\<lambda>_. wp (policy_knob env i ON_DRIFT)
      (\<lambda>raw. wp (eguard (drift_policy raw \<noteq> ''reapply'') LeverageDriftError msg) (\<lambda>_ _. False) ?E) ?E) ?E v"
    if v: "core v = core w" for v n c msg
    using w p v by (intro wp_handle_drift [OF env(1) st [OF v] sym _ _ p(2)] last)
      (simp_all add: core_def drifted_def halts_after_def)
  have "wp (intent_leverage env i) (\<lambda>n. wp (bybit_get_leverage env i) (\<lambda>q. wp
      (case q of None \<Rightarrow> eret ()
        | Some q \<Rightarrow> if q = n then eret ()
            else ebind (handle_leverage_drift env i n q ''pre-order strict check'') (\<lambda>_.
              ebind (policy_knob env i ON_DRIFT) (\<lambda>raw.
              eguard (drift_policy raw \<noteq> ''reapply'') LeverageDriftError ''Platform leverage differs from intent'')))
      (\<lambda>_ _. False) ?E) ?E) ?E v" if v: "core v = core w" for v
  proof -
    have r: "rows_of v = rows_of w" using v by (simp add: core_def)
    show ?thesis
      unfolding intent_leverage_def wp_ebind
      by (rule wp_stored_leverage [OF env(1) st [OF v] sym], unfold wp_eret, rule wp_get_leverage [OF env(2)])
        (use m drift v r in \<open>simp add: stored_intent_def wp_funs\<close>)
  qed
  then show ?thesis
    unfolding strict_check_leverage_def wp_ebind
    by (intro wp_policy_knob [OF env(1) w(1) sym]) (use strict in \<open>simp add: STRICT_CHECK_def wp_funs\<close>)
qed

lemma logged_quiet: "quiet_store env \<Longrightarrow> quiet_store (logged env)"
  by (simp add: quiet_store_def beside_def case_prod_beta)

lemma logged_reports: "reports_leverage env i m \<Longrightarrow> reports_leverage (logged env) i m"
  unfolding reports_leverage_def answers_def by (simp add: logging_def case_prod_beta)


subsection \<open>Desks with a leverage\<close>

definition leverage_script :: "string \<Rightarrow> params \<Rightarrow> pybit_reply" where
  \<comment> \<open>the contract is listed with a limit of a hundred and has a flat position with a leverage of ten\<close>
  "leverage_script name ps =
     (if name = ''get_positions'' then
        listed [Py_Map [(''symbol'', Py_Str ''BTCUSDT''), (''positionIdx'', Py_Int 0), (''size'', Py_Str ''0''),
                        (''leverage'', Py_Str ''10'')]]
      else if name = ''get_instruments_info'' then
        listed [Py_Map [(''symbol'', Py_Str ''BTCUSDT''), (''baseCoin'', Py_Str ''BTC''), (''quoteCoin'', Py_Str ''USDT''),
                        (''status'', Py_Str ''Trading''), (''leverageFilter'', Py_Map [(''maxLeverage'', Py_Str ''100'')])]]
      else listed [])"

definition intent_desk :: "(string, string) dict \<Rightarrow> unit logged yworld" where
  \<comment> \<open>with these rows and a halt machine of the default configuration\<close>
  "intent_desk rows = (bybit_init ((), []) (fresh_limits 0) True (Some (empty_store\<lparr>so_config := rows\<rparr>)))
     \<lparr>yw_halts := Some (halt_init None)\<rparr>"

definition five_times :: "(string, string) dict" where
  "five_times = [(''leverage.buy:BTCUSDT'', ''5''), (''leverage.sell:BTCUSDT'', ''5''),
     (''leverage.policy.on_drift:BTCUSDT'', ''halt'')]"

lemma scripted_quiet [simp]: "quiet_store (scripted answer)"
  by (simp add: quiet_store_def scripted_def)

lemma leverage_script_reports: "reports_leverage (scripted leverage_script) btc_perpetual (10, 10)"
proof -
  let ?d = "[(''symbol'', Py_Str ''BTCUSDT''), (''positionIdx'', Py_Int 0), (''size'', Py_Str ''0''), (''leverage'', Py_Str ''10'')]"
  have "instrument_to_category btc_perpetual = Inr ''linear''" "to_bybit_symbol btc_perpetual = Inr ''BTCUSDT''"
    "leverage_of [Py_Map ?d] None None = Inr (Some 10, Some 10)" by code_simp+
  then show ?thesis
    unfolding reports_leverage_def answers_def
    by (intro exI [of _ "''linear''"] exI [of _ "''BTCUSDT''"] exI [of _ "[(''result'', Py_Map [(''list'', Py_List [Py_Map ?d])])]"]
        exI [of _ "[Py_Map ?d]"] exI [of _ "(Some 10, Some 10)"])
      (simp add: scripted_def leverage_script_def listed_def both_sides_def result_list_def result_map_def field_def py_or_def
        truthy_def as_map_def seq_of_def)
qed


definition fresh_desk :: "unit yworld" where
  "fresh_desk = bybit_init () (fresh_limits 0) True (Some empty_store)"

lemma set_seven: "fst (bybit_set_leverage (scripted leverage_script) btc_perpetual 7 None ''halt'' True True True fresh_desk) = Inr ()"
  by code_simp

theorem leverage_roundtrip_witness:
  "fst (intent_leverage (scripted leverage_script) btc_perpetual
     (snd (bybit_set_leverage (scripted leverage_script) btc_perpetual 7 None ''halt'' True True True fresh_desk))) = Inr (7, 7)"
proof -
  have "bybit_set_leverage (scripted leverage_script) btc_perpetual 7 None ''halt'' True True True fresh_desk
      = (Inr (), snd (bybit_set_leverage (scripted leverage_script) btc_perpetual 7 None ''halt'' True True True fresh_desk))"
    using set_seven by (metis prod.collapse)
  from leverage_roundtrip [OF this] show ?thesis by simp
qed

end
