(* ===== verification/UTE_Float.thy ===== *)
theory UTE_Float
  imports UTE_Decimal
begin

text \<open>
  Binary floating-point numbers as the code meets them: it reads a float only as \<^verbatim>\<open>Decimal(str(x))\<close> and
  makes one only as \<^verbatim>\<open>float(d)\<close>. A float therefore stands for the decimal its \<^verbatim>\<open>repr\<close> spells, which
  determines it; \<open>py_float\<close> is the decimal that \<^verbatim>\<open>float(d)\<close> spells: the shortest one that reads back as the
  double nearest to \<open>d\<close>. A decimal of at most fifteen digits is unchanged (\<open>py_float_short\<close>). Infinities,
  NaN, the sign of zero and doubles below the normal range are not modelled.
\<close>

subsection \<open>Doubles\<close>

fun bit_len :: "nat \<Rightarrow> nat" where
  "bit_len n = (if n < 2 then 1 else Suc (bit_len (n div 2)))"

declare bit_len.simps [simp del]

definition bin_exp :: "rat \<Rightarrow> int" where
  \<comment> \<open>the exponent of the leading bit of a positive number\<close>
  "bin_exp x =
     (let (p, q) = quotient_of x; e = int (bit_len (nat p)) - int (bit_len (nat q))
      in if 2 powi e \<le> x then e else e - 1)"

definition nearest_double :: "rat \<Rightarrow> rat" where
  \<comment> \<open>53 significant bits, half to even\<close>
  "nearest_double x =
     (if x = 0 then 0 else let u = 2 powi (bin_exp \<bar>x\<bar> - 52) in of_int (round_half_even (x / u)) * u)"

lemma bit_len_bounds: "n > 0 \<Longrightarrow> 2 ^ (bit_len n - 1) \<le> n \<and> n < 2 ^ bit_len n \<and> bit_len n > 0"
proof (induction n rule: bit_len.induct)
  case (1 n)
  show ?case
  proof (cases "n < 2")
    case True
    with "1.prems" show ?thesis by (simp add: bit_len.simps)
  next
    case False
    let ?l = "bit_len (n div 2)"
    from False have pos: "n div 2 > 0" by simp
    from "1.IH" [OF False pos] have ih: "2 ^ (?l - 1) \<le> n div 2" "n div 2 < 2 ^ ?l" "?l > 0" by auto
    have "(2 :: nat) ^ ?l = 2 * 2 ^ (?l - 1)" using ih(3) by (cases ?l) auto
    with ih(1) have "2 ^ ?l \<le> 2 * (n div 2)" by simp
    then have "2 ^ ?l \<le> n" by (rule order_trans) simp
    moreover from ih(2) have "n < 2 * 2 ^ ?l" by linarith
    ultimately show ?thesis using False by (simp add: bit_len.simps [of n])
  qed
qed

lemma powi_two_pred: "n > 0 \<Longrightarrow> (2 :: rat) ^ (n - 1) = 2 powi (int n - 1)"
  by (simp add: of_nat_diff flip: power_int_of_nat)

lemma bin_exp_le:
  assumes "x > 0"
  shows "2 powi (bin_exp x) \<le> x"
proof -
  obtain p q where pq: "quotient_of x = (p, q)" by (cases "quotient_of x") auto
  from pq have q: "q > 0" by (rule quotient_of_denom_pos)
  from pq have x: "x = of_int p / of_int q" by (rule quotient_of_div)
  with assms q have p: "p > 0" by (simp add: zero_less_divide_iff)
  let ?a = "bit_len (nat p)" and ?b = "bit_len (nat q)"
  have pb: "2 ^ (?a - 1) \<le> nat p" "?a > 0" using bit_len_bounds [of "nat p"] p by auto
  have qb: "nat q < 2 ^ ?b" using bit_len_bounds [of "nat q"] q by auto
  have cast: "(of_int p :: rat) = of_nat (nat p)" "(of_int q :: rat) = of_nat (nat q)" using p q by simp_all
  have pr: "(2 :: rat) powi (int ?a - 1) \<le> of_int p"
    unfolding cast powi_two_pred [OF pb(2), symmetric] using pb(1) [THEN of_nat_mono_rat] by (simp only: of_nat_power of_nat_numeral)
  have qr: "(of_int q :: rat) < 2 powi (int ?b)"
    unfolding cast using qb [THEN of_nat_less_rat] by (simp add: power_int_of_nat)
  have "2 powi (int ?a - int ?b - 1) * of_int q \<le> 2 powi (int ?a - int ?b - 1) * (2 powi int ?b :: rat)"
    using qr by (intro mult_left_mono) simp_all
  also have "\<dots> = 2 powi (int ?a - 1)" by (subst power_int_add [symmetric]) simp_all
  also note pr
  finally have "2 powi (int ?a - int ?b - 1) \<le> x" using q by (simp add: x pos_le_divide_eq)
  then show ?thesis by (simp add: bin_exp_def pq Let_def)
qed

lemma nearest_double_close:
  assumes "x > 0"
  shows "\<bar>nearest_double x - x\<bar> \<le> x / 2 ^ 53"
proof -
  define u :: rat where "u = 2 powi (bin_exp x - 52)"
  have u: "u > 0" by (simp add: u_def)
  have "u = 2 powi bin_exp x / 2 ^ 52"
    unfolding u_def by (subst power_int_diff) simp_all
  with bin_exp_le [OF assms] have le: "u \<le> x / 2 ^ 52" by (simp add: divide_right_mono)
  have v: "nearest_double x = of_int (round_half_even (x / u)) * u"
    using assms by (simp add: nearest_double_def u_def Let_def)
  have "nearest_double x - x = (of_int (round_half_even (x / u)) - x / u) * u"
    using u by (simp add: v left_diff_distrib)
  then have "\<bar>nearest_double x - x\<bar> = \<bar>of_int (round_half_even (x / u)) - x / u\<bar> * u"
    using u by (simp add: abs_mult)
  also have "\<dots> \<le> 1 / 2 * u"
    by (intro mult_right_mono round_half_even_dist) (use u in simp)
  finally show ?thesis using le by simp
qed

subsection \<open>Shortest representations\<close>

definition repr_with :: "int \<Rightarrow> rat \<Rightarrow> rat option" where
  \<comment> \<open>of the two decimals of \<open>k\<close> significant digits around \<open>v\<close>, the nearer one that reads back as \<open>v\<close>\<close>
  "repr_with k v =
     (let u = 10 powi (adj_exp v - (k - 1));
          n = round_half_even (v / u);
          m = (if n = \<lfloor>v / u\<rfloor> then n + 1 else n - 1)
      in if nearest_double (of_int n * u) = v then Some (of_int n * u)
         else if nearest_double (of_int m * u) = v then Some (of_int m * u)
         else None)"

definition float_repr :: "rat \<Rightarrow> decimal" where
  \<comment> \<open>of a double that is not negative; seventeen digits are always enough\<close>
  "float_repr v =
     (if v = 0 then 0
      else case List.find (\<lambda>k. repr_with k v \<noteq> None) [1..17] of
             Some k \<Rightarrow> (case repr_with k v of Some d \<Rightarrow> d | None \<Rightarrow> v)
           | None \<Rightarrow> v)"

definition py_float :: "decimal \<Rightarrow> decimal" where
  "py_float d = (if d < 0 then - float_repr (nearest_double (- d)) else float_repr (nearest_double d))"

definition short :: "rat \<Rightarrow> bool" where
  \<comment> \<open>at most fifteen significant digits\<close>
  "short d \<longleftrightarrow> (\<exists>m e. d = of_int m * 10 powi e \<and> \<bar>m\<bar> < 10 ^ 15)"

lemma py_float_zero [simp]: "py_float 0 = 0"
  by (simp add: py_float_def nearest_double_def float_repr_def)

lemma half_near: "0 < c \<Longrightarrow> \<bar>v - c\<bar> \<le> c / 2 ^ 53 \<Longrightarrow> c < 2 * (v :: rat)"
proof -
  assume c: "0 < c" "\<bar>v - c\<bar> \<le> c / 2 ^ 53"
  have "c / 2 ^ 53 < c / 2" by (rule divide_strict_left_mono) (use c(1) in simp_all)
  with c show ?thesis by linarith
qed

lemma grid_eq:
  assumes "c = of_int i * u" "d = of_int j * u" "(u :: rat) > 0" "\<bar>c - d\<bar> < u"
  shows "c = d"
proof -
  have "\<bar>of_int (i - j) * u\<bar> < 1 * u" using assms by (simp add: left_diff_distrib)
  then have "\<bar>of_int (i - j)\<bar> < (1 :: rat)" using assms(3) by (simp add: abs_mult)
  then have "\<bar>i - j\<bar> < 1" by (simp flip: of_int_abs of_int_less_iff [where ?'a = rat])
  with assms show ?thesis by simp
qed

lemma grid_refine:
  assumes "a \<le> b"
  shows "\<exists>j. of_int i * (10 :: rat) powi b = of_int j * 10 powi a"
proof -
  have "(10 :: rat) powi b = 10 powi (b - a) * 10 powi a" by (simp flip: power_int_add)
  also have "10 powi (b - a) = (of_int (10 ^ nat (b - a)) :: rat)" using assms by (simp add: power_int_def)
  finally have "of_int i * (10 :: rat) powi b = of_int (i * 10 ^ nat (b - a)) * 10 powi a" by simp
  then show ?thesis by blast
qed

text \<open>A short decimal lies on the grid of fifteen digits of the double it is rounded to.\<close>

lemma short_on_grid:
  assumes "short d" "0 < d"
  shows "0 < nearest_double d \<and> (\<exists>j. d = of_int j * 10 powi (adj_exp (nearest_double d) - 14))"
proof -
  define v where "v = nearest_double d"
  have near: "\<bar>v - d\<bar> \<le> d / 2 ^ 53" unfolding v_def by (rule nearest_double_close [OF assms(2)])
  from half_near [OF assms(2) this] assms(2) have v: "0 < v" by linarith
  from assms(1) obtain m e where d: "d = of_int m * 10 powi e" "\<bar>m\<bar> < 10 ^ 15" by (auto simp: short_def)
  have m: "0 < m"
  proof (rule ccontr)
    assume "\<not> 0 < m"
    then have "d \<le> 0" unfolding d(1) by (intro mult_nonpos_nonneg) simp_all
    with assms(2) show False by simp
  qed
  have top: "(10 :: rat) powi (e + 15) = 10 ^ 15 * 10 powi e" by (simp add: power_int_add)
  have "m + 1 \<le> 10 ^ 15" using d(2) by simp
  then have "(of_int (m + 1) :: rat) \<le> of_int (10 ^ 15)" by (simp only: of_int_le_iff)
  then have "(of_int m + 1) * 10 powi e \<le> (10 :: rat) ^ 15 * 10 powi e"
    by (intro mult_right_mono) simp_all
  then have gap: "d + 10 powi e \<le> 10 powi (e + 15)" by (simp add: d(1) top distrib_right)
  have "d / 2 ^ 53 < 10 powi e"
  proof -
    have "d < 10 ^ 15 * 10 powi e" using gap powi_ten_pos [of e] unfolding top by linarith
    also have "\<dots> \<le> 2 ^ 53 * 10 powi e" by (intro mult_right_mono) simp_all
    finally show ?thesis by (simp add: pos_divide_less_eq mult.commute)
  qed
  with near gap have "v < 10 powi (e + 15)" by linarith
  with adj_exp_bounds [OF v] have "(10 :: rat) powi adj_exp v < 10 powi (e + 15)" by linarith
  then have "adj_exp v - 14 \<le> e" by simp
  from grid_refine [OF this, of m] have "\<exists>j. d = of_int j * 10 powi (adj_exp v - 14)" by (simp only: d(1))
  with v show ?thesis unfolding v_def by blast
qed

lemma powi_grid: "(10 :: rat) powi (a + 1) = 10 ^ 15 * 10 powi (a - 14)"
  by (simp add: power_int_diff power_int_add)

lemma near_grid:
  assumes "0 < v" "0 < c" "\<bar>v - c\<bar> \<le> c / 2 ^ 53"
  shows "\<bar>v - c\<bar> < 10 powi (adj_exp v - 14) / 2"
proof -
  define u :: rat where "u = 10 powi (adj_exp v - 14)"
  have "v < 10 ^ 15 * u" "0 < u"
    using adj_exp_bounds [OF assms(1)] by (simp_all add: u_def powi_grid)
  moreover have "c < 2 * v" by (rule half_near) (rule assms)+
  ultimately have "\<bar>v - c\<bar> < u / 2" using assms(3) by simp
  then show ?thesis by (simp add: u_def)
qed

lemma repr_with_grid:
  assumes "repr_with k v = Some c" "k \<le> 15"
  shows "nearest_double c = v \<and> (\<exists>j. c = of_int j * 10 powi (adj_exp v - 14))"
proof -
  define u :: rat where "u = 10 powi (adj_exp v - (k - 1))"
  define n where "n = round_half_even (v / u)"
  define m where "m = (if n = \<lfloor>v / u\<rfloor> then n + 1 else n - 1)"
  from assms(1) have "(c = of_int n * u \<or> c = of_int m * u) \<and> nearest_double c = v"
    unfolding repr_with_def Let_def u_def [symmetric] n_def [symmetric] m_def [symmetric]
    by (simp split: if_splits)
  then obtain i where "c = of_int i * 10 powi (adj_exp v - (k - 1))" "nearest_double c = v"
    unfolding u_def by blast
  with grid_refine [of "adj_exp v - 14" "adj_exp v - (k - 1)" i] assms(2) show ?thesis by auto
qed

lemma nearest_double_pos: "0 < nearest_double c \<Longrightarrow> 0 < c"
proof (rule ccontr)
  assume v: "0 < nearest_double c" and "\<not> 0 < c"
  then have c: "c < 0" by (cases "c = 0") (auto simp: nearest_double_def)
  let ?u = "2 powi (bin_exp \<bar>c\<bar> - 52) :: rat"
  have "round_half_even (c / ?u) \<le> round_half_even (of_int 0)"
    by (rule round_half_even_mono) (use c in \<open>simp add: divide_le_0_iff\<close>)
  then have "round_half_even (c / ?u) \<le> 0" by (simp only: round_half_even_of_int)
  then have "nearest_double c \<le> 0"
    using c by (simp add: nearest_double_def Let_def mult_nonpos_nonneg)
  with v show False by simp
qed

lemma find_append:
  "List.find p (xs @ ys) = (case List.find p xs of None \<Rightarrow> List.find p ys | Some x \<Rightarrow> Some x)"
  by (induction xs) auto

lemma float_repr_short:
  assumes "short d" "0 < d"
  shows "float_repr (nearest_double d) = d"
proof -
  define v where "v = nearest_double d"
  define u :: rat where "u = 10 powi (adj_exp v - 14)"
  from short_on_grid [OF assms] obtain j where
    "0 < nearest_double d" "d = of_int j * 10 powi (adj_exp (nearest_double d) - 14)" by blast
  then have v: "0 < v" and d: "d = of_int j * u" by (simp_all only: v_def u_def)
  have u: "0 < u" by (simp add: u_def)
  have dist: "\<bar>v - d\<bar> < u / 2"
    unfolding u_def by (rule near_grid [OF v assms(2)]) (unfold v_def, rule nearest_double_close [OF assms(2)])
  have unique: "c = d" if "repr_with k v = Some c" "k \<le> 15" for k c
  proof -
    have g: "nearest_double c = v" "\<exists>i. c = of_int i * u"
      using repr_with_grid [OF that] by (simp_all only: u_def)
    then obtain i where c: "nearest_double c = v" "c = of_int i * u" by (elim exE)
    have pos: "0 < c" by (rule nearest_double_pos) (unfold c(1), rule v)
    have "\<bar>v - c\<bar> < u / 2" unfolding u_def by (rule near_grid [OF v pos]) (rule nearest_double_close [OF pos, unfolded c(1)])
    with dist have "\<bar>c - d\<bar> < u" by linarith
    with c(2) d u show ?thesis by (rule grid_eq)
  qed
  have "\<bar>v / u - of_int j\<bar> < 1 / 2"
  proof -
    have "v / u - of_int j = (v - d) / u" using u by (simp add: d diff_divide_distrib)
    then show ?thesis using dist u by (simp add: abs_divide pos_divide_less_eq)
  qed
  with round_half_even_dist [of "v / u"] have "\<bar>of_int (round_half_even (v / u)) - of_int j\<bar> < (1 :: rat)" by linarith
  then have "(of_int \<bar>round_half_even (v / u) - j\<bar> :: rat) < of_int 1" by simp
  then have "\<bar>round_half_even (v / u) - j\<bar> < 1" by (simp only: of_int_less_iff)
  then have "round_half_even (v / u) = j" by simp
  then have some: "repr_with 15 v = Some d"
    by (simp add: repr_with_def Let_def d flip: u_def) (simp add: v_def d)
  define found where "found = (\<lambda>k. repr_with k v \<noteq> None)"
  have "List.find found [1..15] \<noteq> None"
    using find_NoneD [of found "[1..15]" 15] some by (auto simp: found_def)
  then obtain k where first: "List.find found [1..15] = Some k" by blast
  from find_SomeD [OF this] have k15: "k \<le> 15" and "found k" by simp_all
  then obtain c where c: "repr_with k v = Some c" by (auto simp: found_def)
  have "[1..17] = [1..15] @ [16, 17::int]" by code_simp
  with first have k: "List.find (\<lambda>k. repr_with k v \<noteq> None) [1..17] = Some k"
    unfolding found_def by (simp only: find_append option.case)
  from unique [OF c k15] c k v show ?thesis by (simp add: float_repr_def flip: v_def)
qed

theorem py_float_short:
  assumes "short d"
  shows "py_float d = d"
proof (cases "d < 0")
  case True
  from assms obtain m e where "d = of_int m * 10 powi e" "\<bar>m\<bar> < 10 ^ 15" by (auto simp: short_def)
  then have "short (- d)" unfolding short_def by (intro exI [of _ "- m"] exI [of _ e]) simp
  with True show ?thesis by (simp add: py_float_def float_repr_short)
next
  case False
  show ?thesis
  proof (cases "d = 0")
    case True
    then show ?thesis by simp
  next
    case pos: False
    from False have "py_float d = float_repr (nearest_double d)" by (simp add: py_float_def)
    also have "\<dots> = d" by (rule float_repr_short [OF assms]) (use False pos in linarith)
    finally show ?thesis .
  qed
qed

lemma short_scaled:
  assumes "x * 10 ^ k = of_int m" "\<bar>m\<bar> < 10 ^ 15"
  shows "short x"
  unfolding short_def by (rule exI [of _ m], rule exI [of _ "- int k"]) (use assms in \<open>simp add: power_int_minus field_simps\<close>)

lemma short_of_int: "\<bar>m\<bar> < 10 ^ 15 \<Longrightarrow> short (of_int m)"
  by (rule short_scaled [of _ 0]) simp_all

end
