(* ===== verification/UTE_MT5_Orders.thy ===== *)
theory UTE_MT5_Orders
  imports UTE_Python UTE_Float "HOL-Library.Word"
begin

text \<open>
  \<^verbatim>\<open>mt5/symbols.py\<close>, \<^verbatim>\<open>mt5/errors.py\<close>, \<^verbatim>\<open>mt5/config.py\<close> and \<^verbatim>\<open>mt5/orders.py\<close>: symbols, the translation of error
  codes, the configuration, and the requests and rows of the terminal. The named tuples of the terminal
  are records; the constants of its module are a function from their names. A float stands for the
  decimal of its \<^verbatim>\<open>repr\<close>, which is how the code reads it.
\<close>

subsection \<open>Symbols\<close>

definition to_mt5_symbol :: "instrument \<Rightarrow> string result" where
  "to_mt5_symbol i =
     (case in_platform_symbol i of
        None \<Rightarrow> raise_exn PyValueError ''Instrument has no platform_symbol''
      | Some s \<Rightarrow> Inr s)"

subsection \<open>Errors\<close>

definition TRADE_RETCODE_MAP :: "(int, exn_class) dict" where
  "TRADE_RETCODE_MAP =
     [(10004, PlatformConnectionError), (10007, PlatformConnectionError), (10012, PlatformConnectionError),
      (10020, PlatformConnectionError), (10021, MarketClosedError), (10028, PlatformConnectionError),
      (10031, PlatformConnectionError), (10013, InvalidOrderError), (10014, InvalidOrderError),
      (10015, InvalidOrderError), (10016, InvalidOrderError), (10022, InvalidOrderError),
      (10034, InvalidOrderError), (10018, MarketClosedError), (10019, InsufficientBalanceError),
      (10017, InstrumentHaltedError), (10029, InstrumentHaltedError), (10024, RateLimitError),
      (10033, RateLimitError), (10035, OrderNotFoundError), (10006, PlatformError), (10011, PlatformError),
      (10023, PlatformError), (10026, PlatformConnectionError), (10027, PlatformConnectionError),
      (10030, PlatformError), (10032, PlatformError)]"

type_synonym mt5_consts = "string \<Rightarrow> int"

definition non_trade_error_map :: "mt5_consts \<Rightarrow> (int, exn_class) dict" where
  \<comment> \<open>a dictionary display: a later entry replaces an earlier one with the same key\<close>
  "non_trade_error_map c =
     foldl (\<lambda>d (k, x). dict_set (c k) x d) []
       [(''RES_E_FAIL'', PlatformError), (''RES_E_INVALID_PARAMS'', PlatformError), (''RES_E_NO_MEMORY'', PlatformError),
        (''RES_E_NOT_FOUND'', PlatformError), (''RES_E_INVALID_VERSION'', PlatformError),
        (''RES_E_AUTH_FAILED'', PlatformConnectionError), (''RES_E_UNSUPPORTED'', PlatformError),
        (''RES_E_AUTO_TRADING_DISABLED'', PlatformConnectionError), (''RES_E_INTERNAL_FAIL'', PlatformConnectionError),
        (''RES_E_INTERNAL_FAIL_SEND'', PlatformConnectionError), (''RES_E_INTERNAL_FAIL_RECEIVE'', PlatformConnectionError),
        (''RES_E_INTERNAL_FAIL_INIT'', PlatformConnectionError), (''RES_E_INTERNAL_FAIL_CONNECT'', PlatformConnectionError),
        (''RES_E_INTERNAL_FAIL_TIMEOUT'', PlatformConnectionError)]"

definition SYMBOL_ERROR_MAP :: "(int, exn_class) dict" where
  "SYMBOL_ERROR_MAP =
     [(4301, InvalidSymbolError), (4302, PlatformError), (4303, PlatformError), (5040, InvalidSymbolError)]"

definition map_mt5_error :: "mt5_consts \<Rightarrow> int \<Rightarrow> string \<Rightarrow> exn \<times> (int \<times> string) option" where
  \<comment> \<open>with the \<^verbatim>\<open>platform_error\<close> context of an unmapped code\<close>
  "map_mt5_error c code desc =
     (let found = (case dict_get TRADE_RETCODE_MAP code of
                     Some x \<Rightarrow> Some x
                   | None \<Rightarrow> (case dict_get SYMBOL_ERROR_MAP code of
                                Some x \<Rightarrow> Some x
                              | None \<Rightarrow> dict_get (non_trade_error_map c) code))
      in case found of
           Some x \<Rightarrow> (Exn x (or_text desc ''MT5 error''), None)
         | None \<Rightarrow> (Exn PlatformError (or_text desc ''unmapped MT5 error''), Some (code, desc)))"

subsection \<open>Configuration\<close>

record mt5_config =
  xc_login :: int
  xc_password :: string
  xc_server :: string
  xc_path :: "string option"
  xc_poll_interval :: rat
  xc_ttl :: "rat option"
  xc_balance_poll :: bool
  xc_balance_interval :: rat
  xc_class_map :: "(string, asset_class) dict option"

definition mt5_config_post_init :: "mt5_config \<Rightarrow> mt5_config result" where
  "mt5_config_post_init c =
     rbind (guard_exn (xc_poll_interval c \<le> 0) PyValueError ''poll_interval_seconds must be > 0'') (\<lambda>_.
     rbind (guard_exn (case xc_ttl c of None \<Rightarrow> False | Some t \<Rightarrow> t \<le> 0) PyValueError
              ''instrument_spec_cache_ttl must be > 0 or None'') (\<lambda>_.
     rbind (guard_exn (xc_balance_interval c \<le> 0) PyValueError ''balance_poll_interval_seconds must be > 0'') (\<lambda>_.
     Inr c)))"

subsection \<open>Rows of the terminal\<close>

record mt5_order =
  xo_ticket :: "int option"
  xo_symbol :: string
  xo_type :: int
  xo_state :: int
  xo_type_time :: int
  xo_volume_initial :: decimal
  xo_volume_current :: decimal
  xo_price_open :: "decimal option"
  xo_price_stoplimit :: "decimal option"
  xo_tp :: "decimal option"
  xo_sl :: "decimal option"
  xo_time_setup :: int
  xo_time_done :: int
  xo_time_expiration :: int
  xo_comment :: "string option"

record mt5_result =
  xr_retcode :: int
  xr_deal :: int
  xr_order :: "int option"
  xr_volume :: decimal
  xr_price :: "decimal option"
  xr_comment :: string

datatype mt5_value = MV_int int | MV_float decimal | MV_text string

type_synonym mt5_request = "(string, mt5_value) dict"

subsection \<open>Codes of the terminal\<close>

fun order_type_code :: "order_type \<Rightarrow> order_side \<Rightarrow> int" where
  "order_type_code MARKET BUY = 0"
| "order_type_code MARKET SELL = 1"
| "order_type_code LIMIT BUY = 2"
| "order_type_code LIMIT SELL = 3"
| "order_type_code STOP BUY = 4"
| "order_type_code STOP SELL = 5"
| "order_type_code STOP_LIMIT BUY = 6"
| "order_type_code STOP_LIMIT SELL = 7"

definition unified_type_of :: "int \<Rightarrow> (order_type \<times> order_side) option" where
  "unified_type_of n =
     List.find (\<lambda>(t, s). order_type_code t s = n)
       [(MARKET, BUY), (MARKET, SELL), (LIMIT, BUY), (LIMIT, SELL), (STOP, BUY), (STOP, SELL), (STOP_LIMIT, BUY), (STOP_LIMIT, SELL)]"

definition RETCODE_STATUS_MAP :: "(int, order_status) dict" where
  "RETCODE_STATUS_MAP = [(10008, OPEN), (10009, FILLED), (10010, PARTIALLY_FILLED), (10025, OPEN)]"

definition ORDER_STATE_STATUS_MAP :: "(int, order_status) dict" where
  "ORDER_STATE_STATUS_MAP =
     [(0, OPEN), (1, OPEN), (2, CANCELLED), (3, PARTIALLY_FILLED), (4, FILLED), (5, REJECTED), (6, EXPIRED),
      (7, OPEN), (8, OPEN), (9, OPEN)]"

definition ORDER_TIME_TIF_MAP :: "(int, time_in_force) dict" where
  "ORDER_TIME_TIF_MAP = [(0, GTC), (1, DAY), (2, GTD), (3, GTD)]"

fun ideal_filling :: "time_in_force \<Rightarrow> nat" where
  "ideal_filling FOK = 0"
| "ideal_filling IOC = 1"
| "ideal_filling GTC = 2"
| "ideal_filling DAY = 2"
| "ideal_filling GTD = 2"

definition filling_fallback :: "nat \<Rightarrow> nat list" where
  "filling_fallback n = (if n = 0 then [0, 1, 2] else if n = 1 then [1, 0, 2] else [2, 1, 0])"

definition select_filling :: "int \<Rightarrow> time_in_force \<Rightarrow> int result" where
  \<comment> \<open>the mode whose bit is set in the symbol's \<^verbatim>\<open>filling_mode\<close>\<close>
  "select_filling modes tif =
     (case List.find (\<lambda>m. bit modes m) (filling_fallback (ideal_filling tif)) of
        Some m \<Rightarrow> Inr (int m)
      | None \<Rightarrow> raise_exn InvalidSymbolError ''symbol has no filling mode compatible with time_in_force'')"

subsection \<open>Times\<close>

definition trunc_div :: "int \<Rightarrow> int \<Rightarrow> int" where
  \<comment> \<open>\<^verbatim>\<open>int(a / b)\<close> for a positive \<open>b\<close>\<close>
  "trunc_div a b = (if 0 \<le> a then a div b else - (- a div b))"

definition epoch_seconds :: "instant \<Rightarrow> int" where
  \<comment> \<open>\<^verbatim>\<open>int(t.timestamp())\<close>\<close>
  "epoch_seconds t = trunc_div t 1000000"

definition from_mt5_epoch :: "int \<Rightarrow> int \<Rightarrow> instant result" where
  "from_mt5_epoch epoch offset =
     (if MIN_EPOCH_SECONDS \<le> epoch - offset \<and> epoch - offset \<le> MAX_EPOCH_SECONDS
      then Inr ((epoch - offset) * 1000000)
      else raise_exn PyValueError ''year is out of range'')"

subsection \<open>Requests\<close>

definition mt5_int :: "string \<Rightarrow> int result" where
  \<comment> \<open>\<^verbatim>\<open>int(text)\<close>\<close>
  "mt5_int s =
     (case int_of_text s of None \<Rightarrow> raise_exn PyValueError ''invalid literal for int()'' | Some n \<Rightarrow> Inr n)"

definition mt5_float :: "decimal \<Rightarrow> mt5_value" where
  "mt5_float d = MV_float (py_float d)"

definition request_prices :: "unified_order \<Rightarrow> mt5_request result" where
  "request_prices u =
     (case uo_type u of
        MARKET \<Rightarrow> Inr []
      | LIMIT \<Rightarrow>
          (case uo_price u of
             None \<Rightarrow> raise_exn PyValueError ''price is required''
           | Some p \<Rightarrow> Inr [(''price'', mt5_float p)])
      | STOP \<Rightarrow>
          (case uo_stop_price u of
             None \<Rightarrow> raise_exn PyValueError ''stop_price is required''
           | Some p \<Rightarrow> Inr [(''price'', mt5_float p)])
      | STOP_LIMIT \<Rightarrow>
          (case (uo_price u, uo_stop_price u) of
             (Some p, Some s) \<Rightarrow> Inr [(''price'', mt5_float s), (''stoplimit'', mt5_float p)]
           | _ \<Rightarrow> raise_exn PyValueError ''price and stop_price are required''))"

definition level_field :: "string \<Rightarrow> tpsl option \<Rightarrow> mt5_request result" where
  "level_field key a =
     (case a of
        None \<Rightarrow> Inr []
      | Some x \<Rightarrow>
          rbind (guard_exn (tp_limit x \<noteq> None) UnsupportedOrderTypeError ''limit_price is not supported by MT5'') (\<lambda>_.
          Inr [(key, mt5_float (tp_trigger x))]))"

definition expiration_fields :: "mt5_consts \<Rightarrow> int \<Rightarrow> unified_order \<Rightarrow> mt5_request result" where
  \<comment> \<open>the constructor of the order refuses a date without a timezone\<close>
  "expiration_fields c offset u =
     (case uo_tif u of
        DAY \<Rightarrow> Inr [(''type_time'', MV_int (c ''ORDER_TIME_DAY''))]
      | GTD \<Rightarrow>
          (case uo_expire_at u of
             None \<Rightarrow> raise_exn PyValueError ''expire_at is required when time_in_force == GTD''
           | Some (Aware t) \<Rightarrow>
               Inr [(''type_time'', MV_int (c ''ORDER_TIME_SPECIFIED'')), (''expiration'', MV_int (epoch_seconds t + offset))]
           | Some (Naive t) \<Rightarrow> raise_exn PyValueError ''expire_at must be timezone-aware (UTC)'')
      | _ \<Rightarrow> Inr [])"

definition build_mt5_request :: "mt5_consts \<Rightarrow> int \<Rightarrow> unified_order \<Rightarrow> mt5_request result" where
  "build_mt5_request c offset u =
     (let action = (if uo_type u = MARKET then c ''TRADE_ACTION_DEAL'' else c ''TRADE_ACTION_PENDING'') in
      rbind (case uo_position_id u of
               None \<Rightarrow> Inr []
             | Some p \<Rightarrow> rbind (mt5_int p) (\<lambda>n. Inr [(''position'', MV_int n)])) (\<lambda>position.
      rbind (request_prices u) (\<lambda>prices.
      rbind (level_field ''tp'' (uo_take_profit u)) (\<lambda>tp.
      rbind (level_field ''sl'' (uo_stop_loss u)) (\<lambda>sl.
      rbind (expiration_fields c offset u) (\<lambda>expiration.
      Inr ([(''action'', MV_int action), (''type'', MV_int (order_type_code (uo_type u) (uo_side u))),
            (''volume'', mt5_float (uo_quantity u))] @ position @ prices @ tp @ sl @ expiration)))))))"

definition given_or :: "'a option \<Rightarrow> 'a option \<Rightarrow> 'a option" where
  "given_or a b = (case a of Some x \<Rightarrow> Some x | None \<Rightarrow> b)"

definition modify_prices :: "order_modification \<Rightarrow> order_type \<Rightarrow> decimal option \<Rightarrow> decimal option \<Rightarrow> mt5_request result" where
  "modify_prices m t current_price current_stop =
     (let trigger = given_or (mo_stop_price m) current_stop; limit = given_or (mo_price m) current_price in
      case t of
        STOP_LIMIT \<Rightarrow>
          (case (trigger, limit) of
             (Some s, Some p) \<Rightarrow> Inr [(''price'', mt5_float s), (''stoplimit'', mt5_float p)]
           | _ \<Rightarrow> raise_exn PlatformError ''no trigger/limit price available for STOP_LIMIT modify'')
      | STOP \<Rightarrow>
          (case trigger of
             Some s \<Rightarrow> Inr [(''price'', mt5_float s)]
           | None \<Rightarrow> raise_exn PlatformError ''no trigger price available for STOP modify'')
      | _ \<Rightarrow>
          (case limit of
             Some p \<Rightarrow> Inr [(''price'', mt5_float p)]
           | None \<Rightarrow> raise_exn PlatformError ''no price available for LIMIT modify''))"

definition build_mt5_modify_request ::
    "mt5_consts \<Rightarrow> order_modification \<Rightarrow> int \<Rightarrow> order_type \<Rightarrow> decimal option \<Rightarrow> decimal option \<Rightarrow> mt5_request result" where
  "build_mt5_modify_request c m ticket t current_price current_stop =
     rbind (guard_exn (mo_quantity m \<noteq> None) UnsupportedOrderTypeError
              ''quantity modification is not supported by MT5'') (\<lambda>_.
     rbind (level_field ''tp'' (mo_take_profit m)) (\<lambda>tp.
     rbind (level_field ''sl'' (mo_stop_loss m)) (\<lambda>sl.
     rbind (modify_prices m t current_price current_stop) (\<lambda>prices.
     Inr ([(''action'', MV_int (c ''TRADE_ACTION_MODIFY'')), (''order'', MV_int ticket)] @ prices @ tp @ sl)))))"

definition build_mt5_cancel_request :: "mt5_consts \<Rightarrow> int \<Rightarrow> mt5_request" where
  "build_mt5_cancel_request c ticket =
     [(''action'', MV_int (c ''TRADE_ACTION_REMOVE'')), (''order'', MV_int ticket)]"

definition build_mt5_sltp_request :: "mt5_consts \<Rightarrow> string \<Rightarrow> string \<Rightarrow> decimal \<Rightarrow> decimal \<Rightarrow> mt5_request result" where
  "build_mt5_sltp_request c position symbol tp sl =
     rbind (mt5_int position) (\<lambda>n.
     Inr [(''action'', MV_int (c ''TRADE_ACTION_SLTP'')), (''symbol'', MV_text symbol), (''position'', MV_int n),
          (''tp'', MV_float tp), (''sl'', MV_float sl)])"

subsection \<open>Results and records\<close>

definition result_status :: "order_status \<Rightarrow> bool \<Rightarrow> order_status" where
  \<comment> \<open>a request that succeeded filled something exactly when a deal was executed\<close>
  "result_status s executed =
     (let s1 = (if s \<in> {FILLED, PARTIALLY_FILLED} \<and> \<not> executed then OPEN else s)
      in if s1 = OPEN \<and> executed then FILLED else s1)"

definition result_order_id :: "mt5_result \<Rightarrow> string option" where
  "result_order_id r =
     (case xr_order r of
        Some n \<Rightarrow> if n \<noteq> 0 then Some (int_text n)
                  else if xr_deal r \<noteq> 0 then Some (int_text (xr_deal r)) else None
      | None \<Rightarrow> if xr_deal r \<noteq> 0 then Some (int_text (xr_deal r)) else None)"

definition order_result_of :: "mt5_result \<Rightarrow> order_status \<Rightarrow> string \<Rightarrow> instant \<Rightarrow> order_result" where
  "order_result_of r s client now =
     (let status = result_status s (xr_deal r \<noteq> 0); fills = status \<in> {FILLED, PARTIALLY_FILLED} in
      \<lparr>re_client_id = client, re_platform_id = result_order_id r, re_status = status,
       re_filled = (if fills then xr_volume r else 0), re_avg_price = (if fills then xr_price r else None),
       re_created_at = now, re_updated_at = now\<rparr>)"

definition or_int :: "int \<Rightarrow> int \<Rightarrow> int" where
  \<comment> \<open>\<^verbatim>\<open>a or b\<close>\<close>
  "or_int a b = (if a \<noteq> 0 then a else b)"

definition order_state_of :: "mt5_order \<Rightarrow> order_status result" where
  "order_state_of r =
     (case dict_get ORDER_STATE_STATUS_MAP (xo_state r) of
        None \<Rightarrow> raise_exn PlatformError ''Unknown MT5 order state''
      | Some s \<Rightarrow> Inr s)"

definition order_ticket_of :: "mt5_order \<Rightarrow> int result" where
  "order_ticket_of r =
     (case xo_ticket r of None \<Rightarrow> raise_exn PlatformError ''MT5 order record is missing ticket'' | Some n \<Rightarrow> Inr n)"

definition parse_order_record :: "mt5_order \<Rightarrow> string \<Rightarrow> int \<Rightarrow> order_result result" where
  "parse_order_record r client offset =
     rbind (order_state_of r) (\<lambda>status.
     rbind (order_ticket_of r) (\<lambda>ticket.
     rbind (from_mt5_epoch (xo_time_setup r) offset) (\<lambda>created.
     rbind (from_mt5_epoch (or_int (xo_time_done r) (xo_time_setup r)) offset) (\<lambda>updated.
     Inr \<lparr>re_client_id = client, re_platform_id = Some (int_text ticket), re_status = status,
          re_filled = dsub (xo_volume_initial r) (xo_volume_current r), re_avg_price = None,
          re_created_at = created, re_updated_at = updated\<rparr>))))"

definition positive_or_none :: "decimal option \<Rightarrow> decimal option" where
  "positive_or_none x = (case x of None \<Rightarrow> None | Some d \<Rightarrow> if d \<le> 0 then None else Some d)"

definition price_stop_price :: "order_type \<Rightarrow> mt5_order \<Rightarrow> decimal option \<times> decimal option" where
  "price_stop_price t r =
     (case t of
        LIMIT \<Rightarrow> (positive_or_none (xo_price_open r), None)
      | STOP \<Rightarrow> (None, positive_or_none (xo_price_open r))
      | STOP_LIMIT \<Rightarrow> (positive_or_none (xo_price_stoplimit r), positive_or_none (xo_price_open r))
      | MARKET \<Rightarrow> (None, None))"

definition tp_sl_attachment :: "decimal option \<Rightarrow> tpsl option" where
  "tp_sl_attachment x = map_option (\<lambda>d. \<lparr>tp_trigger = d, tp_limit = None\<rparr>) (positive_or_none x)"

definition order_expiry :: "mt5_order \<Rightarrow> time_in_force \<Rightarrow> int \<Rightarrow> instant option result" where
  "order_expiry r tif offset =
     (if tif = GTD \<and> xo_time_expiration r \<noteq> 0
      then rbind (from_mt5_epoch (xo_time_expiration r) offset) (\<lambda>t. Inr (Some t)) else Inr None)"

definition build_order_record :: "mt5_order \<Rightarrow> string \<Rightarrow> instrument \<Rightarrow> int \<Rightarrow> order_record result" where
  "build_order_record r client i offset =
     rbind (order_ticket_of r) (\<lambda>ticket.
     rbind (case unified_type_of (xo_type r) of
              None \<Rightarrow> raise_exn PlatformError ''Unknown MT5 order type'' | Some p \<Rightarrow> Inr p) (\<lambda>p.
     rbind (order_state_of r) (\<lambda>status.
     rbind (case dict_get ORDER_TIME_TIF_MAP (xo_type_time r) of
              None \<Rightarrow> raise_exn PlatformError ''Unknown MT5 order time-in-force'' | Some t \<Rightarrow> Inr t) (\<lambda>tif.
     rbind (order_expiry r tif offset) (\<lambda>expire.
     rbind (from_mt5_epoch (xo_time_setup r) offset) (\<lambda>created.
     rbind (from_mt5_epoch (or_int (xo_time_done r) (xo_time_setup r)) offset) (\<lambda>updated.
     Inr \<lparr>or_instrument = i, or_type = fst p, or_side = snd p, or_quantity = xo_volume_initial r, or_tif = tif,
          or_client_id = client, or_price = fst (price_stop_price (fst p) r),
          or_stop_price = snd (price_stop_price (fst p) r), or_reduce_only = False, or_client_tag = None,
          or_take_profit = tp_sl_attachment (xo_tp r), or_stop_loss = tp_sl_attachment (xo_sl r),
          or_platform_id = Some (int_text ticket), or_status = status,
          or_filled = dsub (xo_volume_initial r) (xo_volume_current r), or_avg_price = None,
          or_correlation_id = client, or_created_at = created, or_updated_at = updated,
          or_expire_at = expire\<rparr>)))))))"

end
