(* ===== verification/UTE_MT5_Adapter.thy ===== *)
theory UTE_MT5_Adapter
  imports UTE_MT5_Orders UTE_Comments UTE_Events UTE_Store UTE_Adapter UTE_Binance_Symbols
begin

text \<open>
  The foundation of \<^verbatim>\<open>mt5/adapter.py\<close>: the adapter's state, the process-wide guard, the reconstruction of
  instruments, the selection of symbols, the offset of the server's clock, the windows of deals and the
  recovery of the order mappings. The terminal, the clocks, the sleep, the id factory, the order in which
  a set of strings is iterated and the faults of the state store's database are parameters that act on the
  outside world \<open>'v\<close>. Any call of the terminal may raise.
\<close>

subsection \<open>The terminal\<close>

record mt5_symbol =
  sy_name :: "string option"
  sy_base :: "string option"
  sy_profit :: "string option"
  sy_path :: string
  sy_calc_mode :: "int option"
  sy_trade_mode :: int
  sy_filling_mode :: int
  sy_tick_size :: decimal
  sy_volume_step :: decimal
  sy_volume_min :: decimal
  sy_volume_max :: decimal
  sy_digits :: int
  sy_point :: "py_object option"
  sy_trade_tick_size :: "py_object option"
  sy_stops_level :: "py_object option"
  sy_spread :: "py_object option"

record mt5_tick =
  tk_bid :: decimal
  tk_ask :: decimal
  tk_last :: "decimal option"
  tk_time_msc :: int

record mt5_account =
  ac_login :: int
  ac_currency :: string
  ac_balance :: decimal
  ac_margin :: decimal
  ac_leverage :: int

record mt5_position =
  xp_ticket :: int
  xp_symbol :: string
  xp_type :: int
  xp_volume :: decimal
  xp_price_open :: decimal
  xp_time :: int
  xp_tp :: "decimal option"
  xp_sl :: "decimal option"

record mt5_deal =
  xd_ticket :: int
  xd_order :: int
  xd_position :: int
  xd_time :: int
  xd_type :: int
  xd_symbol :: string
  xd_volume :: decimal
  xd_price :: decimal
  xd_commission :: decimal
  xd_fee :: decimal
  xd_comment :: "string option"
  xd_reason :: "int option"
  xd_entry :: "int option"

record mt5_bar =
  xb_time :: int
  xb_open :: decimal
  xb_high :: decimal
  xb_low :: decimal
  xb_close :: decimal

type_synonym ('v, 'a) call = "'v \<Rightarrow> 'a result \<times> 'v"

record 'v terminal =
  xt_installed :: bool
  xt_const :: mt5_consts
  xt_initialize :: "int \<Rightarrow> string \<Rightarrow> string \<Rightarrow> string option \<Rightarrow> ('v, bool) call"
  xt_shutdown :: "('v, unit) call"
  xt_last_error :: "'v \<Rightarrow> (int \<times> string) \<times> 'v"
  xt_account_info :: "('v, mt5_account option) call"
  xt_orders_get :: "int option \<Rightarrow> ('v, mt5_order list option) call"
  xt_positions_get :: "int option \<Rightarrow> ('v, mt5_position list option) call"
  xt_deals_get :: "int \<Rightarrow> int \<Rightarrow> ('v, mt5_deal list option) call"
  xt_symbols_get :: "string option \<Rightarrow> ('v, string list option) call"
  xt_symbol_info :: "string \<Rightarrow> ('v, mt5_symbol option) call"
  xt_tick :: "string \<Rightarrow> ('v, mt5_tick option) call"
  xt_select :: "string \<Rightarrow> ('v, bool) call"
  xt_rates :: "string \<Rightarrow> int \<Rightarrow> int \<Rightarrow> ('v, mt5_bar list option) call"
  xt_send :: "mt5_request \<Rightarrow> ('v, mt5_result option) call"
  xt_store_fault :: "'v \<Rightarrow> exn option \<times> 'v"
  xt_clock :: "'v \<Rightarrow> instant \<times> 'v"
  xt_monotonic :: "'v \<Rightarrow> rat \<times> 'v"
  xt_new_id :: "'v \<Rightarrow> string \<times> 'v"
  xt_sleep :: "rat \<Rightarrow> 'v \<Rightarrow> 'v"
  xt_set_order :: "string list \<Rightarrow> string list"

subsection \<open>State\<close>

text \<open>
  \<open>mw_lock\<close> is \<^verbatim>\<open>_connected_lock\<close>, which belongs to the process and not to the adapter. A ticket may be missing
  in a row of the terminal, so the mappings hold optional tickets. \<open>mw_poll\<close> says that the polling task runs.
\<close>

record 'v mworld =
  mw_venue :: 'v
  mw_lock :: bool
  mw_guard :: bool
  mw_connected :: bool
  mw_login :: "int option"
  mw_poll :: bool
  mw_tickets :: "(string, int option) dict"
  mw_clients :: "(int option, string) dict"
  mw_orders :: "(int option, mt5_order) dict"
  mw_positions :: "(instrument \<times> string, position) dict"
  mw_balance :: "balance option"
  mw_balance_poll :: rat
  mw_deal_time :: "int option"
  mw_deal_ticket :: int
  mw_offset :: int
  mw_measured :: bool
  mw_instruments :: "(string, instrument) dict"
  mw_failed :: "string set"
  mw_selected :: "string set"
  mw_specs :: "(instrument, instrument_spec \<times> instant) dict"
  mw_bus :: bool
  mw_events :: "event list"
  mw_store :: "store option"

record 'v menv =
  me_terminal :: "'v terminal"
  me_config :: mt5_config

type_synonym ('v, 'a) mop = "('v mworld, 'a) eff"

definition mt5_init :: "'v \<Rightarrow> bool \<Rightarrow> bool \<Rightarrow> store option \<Rightarrow> 'v mworld" where
  "mt5_init v lock bus store =
     \<lparr>mw_venue = v, mw_lock = lock, mw_guard = False, mw_connected = False, mw_login = None, mw_poll = False,
      mw_tickets = [], mw_clients = [], mw_orders = [], mw_positions = [], mw_balance = None, mw_balance_poll = 0,
      mw_deal_time = None, mw_deal_ticket = 0, mw_offset = 0, mw_measured = False, mw_instruments = [],
      mw_failed = {}, mw_selected = {}, mw_specs = [], mw_bus = bus, mw_events = [], mw_store = store\<rparr>"

definition mt5_attach_bus :: "('v, unit) mop" where
  "mt5_attach_bus = eupd (\<lambda>w. w\<lparr>mw_bus := True\<rparr>)"

definition mt5_attach_store :: "store \<Rightarrow> ('v, unit) mop" where
  "mt5_attach_store s = eupd (\<lambda>w. w\<lparr>mw_store := Some s\<rparr>)"

definition mside :: "('v \<Rightarrow> 'a \<times> 'v) \<Rightarrow> ('v, 'a) mop" where
  "mside f = (\<lambda>w. case f (mw_venue w) of (a, v) \<Rightarrow> (Inr a, w\<lparr>mw_venue := v\<rparr>))"

definition mcall :: "('v, 'a) call \<Rightarrow> ('v, 'a) mop" where
  \<comment> \<open>a call of the terminal\<close>
  "mcall f = (\<lambda>w. case f (mw_venue w) of (r, v) \<Rightarrow> (r, w\<lparr>mw_venue := v\<rparr>))"

definition mstore :: "'v menv \<Rightarrow> (store, 'a) eff \<Rightarrow> ('v, 'a) mop" where
  \<comment> \<open>a call of the state store, whose database may fail\<close>
  "mstore env m =
     ebind (mside (xt_store_fault (me_terminal env))) (\<lambda>e.
     (case e of
        Some x \<Rightarrow> elift (Inl x)
      | None \<Rightarrow>
          (\<lambda>w. case mw_store w of
                 None \<Rightarrow> (raise_exn PyException ''no state store'', w)
               | Some s \<Rightarrow> (case m s of (r, s') \<Rightarrow> (r, w\<lparr>mw_store := Some s'\<rparr>)))))"

definition mt5_now :: "'v menv \<Rightarrow> ('v, instant) mop" where
  "mt5_now env = mside (xt_clock (me_terminal env))"

definition mt5_id :: "'v menv \<Rightarrow> ('v, string) mop" where
  "mt5_id env = mside (xt_new_id (me_terminal env))"

definition mt5_sleep :: "'v menv \<Rightarrow> rat \<Rightarrow> ('v, unit) mop" where
  "mt5_sleep env t = eupd (\<lambda>w. w\<lparr>mw_venue := xt_sleep (me_terminal env) t (mw_venue w)\<rparr>)"

definition get_mt5 :: "'v menv \<Rightarrow> ('v, unit) mop" where
  "get_mt5 env = eguard (\<not> xt_installed (me_terminal env)) PyImportError ''MetaTrader5 package is required for MT5 adapter''"

definition mt5_fail :: "'v menv \<Rightarrow> string \<Rightarrow> ('v, 'a) mop" where
  \<comment> \<open>\<^verbatim>\<open>code, desc = mt5.last_error(); raise map_mt5_error(code, desc or what)\<close>\<close>
  "mt5_fail env what =
     ebind (mside (xt_last_error (me_terminal env))) (\<lambda>(code, desc).
     elift (Inl (fst (map_mt5_error (xt_const (me_terminal env)) code (or_text desc what)))))"

definition check_call_result :: "'v menv \<Rightarrow> string \<Rightarrow> 'a option \<Rightarrow> ('v, 'a) mop" where
  "check_call_result env what r =
     (case r of Some x \<Rightarrow> eret x | None \<Rightarrow> ebind (get_mt5 env) (\<lambda>_. mt5_fail env (what @ ''() returned None'')))"

definition check_mt5_result :: "'v menv \<Rightarrow> 'a list option \<Rightarrow> string \<Rightarrow> ('v, unit) mop" where
  "check_mt5_result env r desc =
     ebind (get_mt5 env) (\<lambda>_.
     ewhen (r = None \<or> r = Some [])
       (ebind (mside (xt_last_error (me_terminal env))) (\<lambda>(code, text).
        if code \<noteq> 0 \<and> code \<noteq> xt_const (me_terminal env) ''RES_S_OK''
        then elift (Inl (fst (map_mt5_error (xt_const (me_terminal env)) code (or_text text desc)))) else eret ())))"

subsection \<open>Identity and publication\<close>

definition mt5_account_id :: "'v menv \<Rightarrow> 'v mworld \<Rightarrow> string" where
  "mt5_account_id env w = (case mw_login w of Some n \<Rightarrow> int_text n | None \<Rightarrow> int_text (xc_login (me_config env)))"

definition mt5_publish :: "event \<Rightarrow> ('v, unit) mop" where
  "mt5_publish e =
     ebind (eget mw_bus) (\<lambda>wired.
     ebind (eguard (\<not> wired) PyRuntimeError ''event_bus not wired'') (\<lambda>_.
     eupd (\<lambda>w. w\<lparr>mw_events := mw_events w @ [e]\<rparr>)))"

definition mt5_emit :: "'v menv \<Rightarrow> string option \<Rightarrow> event_body \<Rightarrow> ('v, unit) mop" where
  "mt5_emit env correlation body =
     ebind (mt5_id env) (\<lambda>i.
     ebind (mt5_now env) (\<lambda>now.
     ebind (eget (mt5_account_id env)) (\<lambda>account.
     mt5_publish \<lparr>ev_id = i, ev_time = now, ev_adapter = ''metatrader'', ev_account = account,
       ev_correlation = correlation, ev_body = body\<rparr>)))"

definition mt5_connection_state :: "'v menv \<Rightarrow> bool \<Rightarrow> ('v, unit) mop" where
  "mt5_connection_state env up = mt5_emit env None (ConnectionStateEvent up)"

definition publish_position :: "'v menv \<Rightarrow> position \<Rightarrow> ('v, unit) mop" where
  "publish_position env p = mt5_emit env None (PositionUpdateEvent p)"

subsection \<open>Asset classes and names\<close>

definition PATH_ASSET_CLASS :: "(string, asset_class) dict" where
  "PATH_ASSET_CLASS =
     [(''FOREX'', MARGIN_FX), (''FX'', MARGIN_FX), (''CURRENCIES'', MARGIN_FX), (''METALS'', MARGIN_FX),
      (''NOBLE'', MARGIN_FX), (''PRECIOUS'', MARGIN_FX), (''COMMODITIES'', CFD), (''ENERGY'', CFD), (''INDICES'', CFD),
      (''INDEX'', CFD), (''STOCKS'', STOCK), (''STOCK'', STOCK), (''EQUITIES'', STOCK), (''EQUITIES_CFD'', STOCK),
      (''SHARES'', STOCK), (''CRYPTOCURRENCIES'', SPOT), (''CRYPTO'', SPOT), (''FUTURES'', FUTURES), (''BONDS'', BOND),
      (''FUNDS'', FUND), (''ETF'', FUND)]"

definition CALC_MODE_ASSET_CLASS :: "(int, asset_class) dict" where
  "CALC_MODE_ASSET_CLASS =
     [(0, MARGIN_FX), (1, FUTURES), (2, CFD), (3, CFD), (4, CFD), (32, STOCK), (33, FUTURES), (64, MARGIN_FX),
      (66, BOND), (67, STOCK), (68, BOND)]"

definition METAL_BASE_CURRENCIES :: "string list" where
  "METAL_BASE_CURRENCIES = [''XAU'', ''XAG'', ''XPT'', ''XPD'']"

definition BROKER_SYMBOL_SUFFIXES :: "string list" where
  "BROKER_SYMBOL_SUFFIXES = [''.PRO'', ''.US'', ''.UK'', ''.DE'', ''_CFD'', ''-CASH'', ''+'']"

definition QUOTE_CURRENCY_SUFFIXES :: "string list" where
  "QUOTE_CURRENCY_SUFFIXES =
     [''USDT'', ''USDC'', ''USD'', ''EUR'', ''GBP'', ''JPY'', ''CHF'', ''AUD'', ''NZD'', ''CAD'', ''TRY'', ''ZAR'']"

definition path_classes :: "mt5_config \<Rightarrow> (string, asset_class) dict" where
  \<comment> \<open>the thesaurus of the constructor\<close>
  "path_classes c =
     foldl (\<lambda>d (k, x). dict_set (upper k) x d) PATH_ASSET_CLASS
       (case xc_class_map c of None \<Rightarrow> [] | Some m \<Rightarrow> m)"

fun split_segments :: "string \<Rightarrow> string \<Rightarrow> string list" where
  \<comment> \<open>the first argument is the segment read so far, reversed\<close>
  "split_segments acc [] = [rev acc]"
| "split_segments acc (c # cs) =
     (if c = CHR 0x5C \<or> c = CHR ''/'' then rev acc # split_segments [] cs else split_segments (c # acc) cs)"

definition path_segments :: "string \<Rightarrow> string list" where
  "path_segments path = map upper (filter (\<lambda>s. s \<noteq> []) (split_segments [] path))"

definition first_hit :: "('a \<Rightarrow> 'b option) \<Rightarrow> 'a list \<Rightarrow> 'b option" where
  \<comment> \<open>a loop that returns the first value found\<close>
  "first_hit f xs = (case List.find (\<lambda>x. f x \<noteq> None) xs of None \<Rightarrow> None | Some x \<Rightarrow> f x)"

definition asset_class_from_path :: "mt5_config \<Rightarrow> string \<Rightarrow> string \<Rightarrow> int option \<Rightarrow> asset_class result" where
  "asset_class_from_path c path base calc_mode =
     (if base \<in> set METAL_BASE_CURRENCIES then Inr MARGIN_FX
      else case first_hit (dict_get (path_classes c)) (path_segments path) of
             Some x \<Rightarrow> Inr x
           | None \<Rightarrow>
               (case calc_mode of
                  None \<Rightarrow> raise_exn PyValueError ''Unrecognized MT5 symbol path''
                | Some m \<Rightarrow>
                    (case dict_get CALC_MODE_ASSET_CLASS m of
                       Some x \<Rightarrow> Inr x
                     | None \<Rightarrow> raise_exn PyValueError ''Unrecognized MT5 symbol path'')))"

definition drop_suffix :: "string list \<Rightarrow> string \<Rightarrow> (string \<times> string) option" where
  \<comment> \<open>what is left of a longer name before the first of the suffixes it ends with, and the suffix\<close>
  "drop_suffix suffixes s =
     (case List.find (\<lambda>x. length x < length s \<and> drop (length s - length x) s = x) suffixes of
        None \<Rightarrow> None
      | Some x \<Rightarrow> Some (take (length s - length x) s, x))"

lemma drop_suffix_shorter:
  assumes "drop_suffix xs s = Some (t, x)"
  shows "t @ x = s \<and> x \<in> set xs \<and> t \<noteq> []"
proof -
  have f: "List.find (\<lambda>x. length x < length s \<and> drop (length s - length x) s = x) xs = Some x"
    and t: "t = take (length s - length x) s"
    using assms by (auto simp: drop_suffix_def split: option.splits)
  from find_SomeD [OF f] have x: "x \<in> set xs" "length x < length s" "drop (length s - length x) s = x" by auto
  have "t @ x = take (length s - length x) s @ drop (length s - length x) s" by (simp only: t x(3))
  with x(1,2) show ?thesis by (auto simp: t)
qed

lemma suffixes_nonempty: "x \<in> set BROKER_SYMBOL_SUFFIXES \<Longrightarrow> x \<noteq> []"
  by (auto simp: BROKER_SYMBOL_SUFFIXES_def)

function clean_name :: "string \<Rightarrow> string" where
  \<comment> \<open>\<^verbatim>\<open>while changed\<close>\<close>
  "clean_name s = (case drop_suffix BROKER_SYMBOL_SUFFIXES s of None \<Rightarrow> s | Some (t, _) \<Rightarrow> clean_name t)"
  by auto
termination
proof (relation "measure length")
  fix s p t x assume p: "drop_suffix BROKER_SYMBOL_SUFFIXES s = Some p" "(t, x) = p"
  then have "t @ x = s" "x \<noteq> []" using drop_suffix_shorter [of BROKER_SYMBOL_SUFFIXES s t x] suffixes_nonempty by auto
  then show "(t, s) \<in> measure length" by auto
qed simp

declare clean_name.simps [simp del]

definition split_symbol_name :: "string \<Rightarrow> string \<times> string option" where
  "split_symbol_name name =
     (let cleaned = clean_name (upper name) in
      case drop_suffix QUOTE_CURRENCY_SUFFIXES cleaned of
        None \<Rightarrow> (cleaned, None)
      | Some (s, q) \<Rightarrow> (s, Some q))"

definition text_or_none :: "string \<Rightarrow> string option" where
  \<comment> \<open>\<^verbatim>\<open>s or None\<close>\<close>
  "text_or_none s = (if s = [] then None else Some s)"

definition text_of :: "string option \<Rightarrow> string" where
  \<comment> \<open>\<^verbatim>\<open>s or ""\<close>\<close>
  "text_of s = (case s of None \<Rightarrow> [] | Some x \<Rightarrow> x)"

definition plain_instrument :: "string \<Rightarrow> asset_class \<Rightarrow> string option \<Rightarrow> string option \<Rightarrow> string \<Rightarrow> instrument result" where
  "plain_instrument symbol cls quote currency platform =
     instrument_post_init
       \<lparr>in_symbol = symbol, in_asset_class = cls, in_quote = quote, in_exchange = None, in_currency = currency,
        in_expiry = None, in_strike = None, in_right = None, in_multiplier = None, in_platform_symbol = Some platform\<rparr>"

definition instrument_from_info :: "mt5_config \<Rightarrow> string \<Rightarrow> mt5_symbol \<Rightarrow> instrument result" where
  "instrument_from_info c mt5_symbol info =
     (let base = upper (text_of (sy_base info)); profit = upper (text_of (sy_profit info)) in
      rbind (asset_class_from_path c (sy_path info) base (sy_calc_mode info)) (\<lambda>cls.
      (let name = or_text (text_of (sy_name info)) mt5_symbol; pair = cls \<in> {SPOT, MARGIN_FX} in
       if base \<noteq> [] \<and> profit \<noteq> [] \<and> base \<noteq> profit then
         (if pair then plain_instrument base cls (Some profit) None mt5_symbol
          else plain_instrument base cls None (Some profit) mt5_symbol)
       else
         (case split_symbol_name name of (symbol, quote) \<Rightarrow>
            if pair then plain_instrument symbol cls (case quote of Some q \<Rightarrow> Some q | None \<Rightarrow> text_or_none profit) None mt5_symbol
            else plain_instrument symbol cls None (text_or_none profit) mt5_symbol))))"

definition identity_matches :: "instrument \<Rightarrow> instrument \<Rightarrow> bool" where
  "identity_matches i j \<longleftrightarrow> in_symbol i = in_symbol j \<and> in_quote i = in_quote j \<and> in_asset_class i = in_asset_class j"

subsection \<open>Symbols of the terminal\<close>

definition record_symbol_mapping :: "instrument \<Rightarrow> ('v, unit) mop" where
  "record_symbol_mapping i =
     (case in_platform_symbol i of
        None \<Rightarrow> eret ()
      | Some s \<Rightarrow>
          eupd (\<lambda>w. if dict_has (mw_instruments w) s then w else w\<lparr>mw_instruments := dict_set s i (mw_instruments w)\<rparr>))"

definition resolve_mt5_symbol :: "instrument \<Rightarrow> ('v, string) mop" where
  "resolve_mt5_symbol i = ebind (record_symbol_mapping i) (\<lambda>_. elift (to_mt5_symbol i))"

definition invalidate_spec_cache :: "instrument \<Rightarrow> ('v, unit) mop" where
  "invalidate_spec_cache i = eupd (\<lambda>w. w\<lparr>mw_specs := dict_del (inst_id i) (mw_specs w)\<rparr>)"

definition symbol_exists :: "'v menv \<Rightarrow> string \<Rightarrow> ('v, bool) mop" where
  "symbol_exists env s =
     etry (ebind (mcall (xt_symbols_get (me_terminal env) (Some s))) (\<lambda>r. eret (r \<noteq> None \<and> r \<noteq> Some [])))
       (\<lambda>_. eret True)"

definition unavailable :: "'v menv \<Rightarrow> string \<Rightarrow> string \<Rightarrow> ('v, 'a) mop" where
  \<comment> \<open>a symbol call failed: is the symbol missing at the broker, or was it the call\<close>
  "unavailable env s what =
     ebind (mside (xt_last_error (me_terminal env))) (\<lambda>(code, desc).
     ebind (symbol_exists env s) (\<lambda>there.
     if \<not> there
     then ebind (eupd (\<lambda>w. w\<lparr>mw_failed := insert s (mw_failed w)\<rparr>)) (\<lambda>_.
          eraise InvalidSymbolError ''symbol is not available on this broker'')
     else elift (Inl (fst (map_mt5_error (xt_const (me_terminal env)) code (or_text desc what))))))"

definition ensure_symbol_selected :: "'v menv \<Rightarrow> string \<Rightarrow> ('v, unit) mop" where
  "ensure_symbol_selected env s =
     ebind (eget (\<lambda>w. s \<in> mw_selected w \<or> s \<in> mw_failed w)) (\<lambda>known.
     if known then eret ()
     else
       ebind (mcall (xt_select (me_terminal env) s)) (\<lambda>ok.
       if \<not> ok then unavailable env s ''symbol_select() failed''
       else eupd (\<lambda>w. w\<lparr>mw_selected := insert s (mw_selected w)\<rparr>)))"

definition mt5_resolve_instrument :: "'v menv \<Rightarrow> string \<Rightarrow> ('v, instrument) mop" where
  "mt5_resolve_instrument env s =
     ebind (eget (\<lambda>w. dict_get (mw_instruments w) s)) (\<lambda>cached.
     (case cached of
        Some i \<Rightarrow> eret i
      | None \<Rightarrow>
          ebind (ensure_symbol_selected env s) (\<lambda>_.
          ebind (mcall (xt_symbol_info (me_terminal env) s)) (\<lambda>info.
          (case info of
             None \<Rightarrow> mt5_fail env ''mt5.symbol_info() returned None''
           | Some x \<Rightarrow>
               ebind (elift (instrument_from_info (me_config env) s x)) (\<lambda>i.
               ebind (eupd (\<lambda>w. w\<lparr>mw_instruments := dict_set s i (mw_instruments w)\<rparr>)) (\<lambda>_. eret i)))))))"

definition poll_instrument :: "'v menv \<Rightarrow> string \<Rightarrow> (string, instrument) dict \<Rightarrow> ('v, (string, instrument) dict) mop" where
  \<comment> \<open>one turn of the loop: a symbol that cannot be resolved is skipped\<close>
  "poll_instrument env s d =
     etry (ebind (mt5_resolve_instrument env s) (\<lambda>i. eret (dict_set s i d)))
       (\<lambda>e. if exn_is (exn_cls e) PyValueError \<or> exn_is (exn_cls e) InvalidSymbolError
            then ebind (eupd (\<lambda>w. w\<lparr>mw_failed := insert s (mw_failed w)\<rparr>)) (\<lambda>_. eret d)
            else if exn_is (exn_cls e) UteError then eret d
            else elift (Inl e))"

fun poll_instruments :: "'v menv \<Rightarrow> string list \<Rightarrow> (string, instrument) dict \<Rightarrow> ('v, (string, instrument) dict) mop" where
  "poll_instruments env [] d = eret d"
| "poll_instruments env (s # ss) d = ebind (poll_instrument env s d) (\<lambda>d'. poll_instruments env ss d')"

definition string_set :: "'v menv \<Rightarrow> string list \<Rightarrow> string list" where
  \<comment> \<open>the elements of a set in the order of its iteration\<close>
  "string_set env ss = xt_set_order (me_terminal env) (dedupe ss)"

definition resolve_poll_instruments :: "'v menv \<Rightarrow> string list \<Rightarrow> string list \<Rightarrow> ('v, (string, instrument) dict) mop" where
  \<comment> \<open>of the symbols of positions and of deals\<close>
  "resolve_poll_instruments env ps ds = poll_instruments env (string_set env (ps @ ds)) []"

subsection \<open>The clock of the server\<close>

definition MAX_OFFSET_PROBE_SYMBOLS :: nat where
  "MAX_OFFSET_PROBE_SYMBOLS = 20"

definition MAX_SERVER_TIME_OFFSET_SECONDS :: int where
  "MAX_SERVER_TIME_OFFSET_SECONDS = 24 * 60 * 60"

fun probe_offset :: "'v menv \<Rightarrow> string list \<Rightarrow> (int \<times> int) option \<Rightarrow> ('v, (int \<times> int) option) mop" where
  "probe_offset env [] best = eret best"
| "probe_offset env (s # ss) best =
     ebind (mcall (xt_tick (me_terminal env) s)) (\<lambda>tick.
     (case tick of
        None \<Rightarrow> probe_offset env ss best
      | Some t \<Rightarrow>
          if tk_time_msc t = 0 then probe_offset env ss best
          else
            ebind (mt5_now env) (\<lambda>now.
            (let offset = trunc_div (tk_time_msc t) 1000 - epoch_seconds now in
             if MAX_SERVER_TIME_OFFSET_SECONDS < \<bar>offset\<bar> then probe_offset env ss best
             else probe_offset env ss
               (case best of
                  None \<Rightarrow> Some (tk_time_msc t, offset)
                | Some b \<Rightarrow> if fst b < tk_time_msc t then Some (tk_time_msc t, offset) else Some b)))))"

definition server_time_offset_seconds :: "'v menv \<Rightarrow> string list \<Rightarrow> ('v, int) mop" where
  "server_time_offset_seconds env candidates =
     ebind (if candidates \<noteq> [] then eret candidates
            else ebind (mcall (xt_symbols_get (me_terminal env) None)) (\<lambda>r.
                 eret (take MAX_OFFSET_PROBE_SYMBOLS (case r of None \<Rightarrow> [] | Some ss \<Rightarrow> ss)))) (\<lambda>probes.
     ebind (probe_offset env probes None) (\<lambda>best.
     ebind (case best of
              None \<Rightarrow> eret ()
            | Some (_, offset) \<Rightarrow> eupd (\<lambda>w. w\<lparr>mw_offset := offset, mw_measured := True\<rparr>)) (\<lambda>_.
     eget mw_offset)))"

definition DEAL_QUERY_BACKLOG_SECONDS :: int where
  "DEAL_QUERY_BACKLOG_SECONDS = 5"

definition DEAL_QUERY_FORWARD_SECONDS :: int where
  "DEAL_QUERY_FORWARD_SECONDS = 10"

definition server_deal_window ::
    "'v menv \<Rightarrow> instant \<Rightarrow> instant option \<Rightarrow> string list \<Rightarrow> int \<Rightarrow> ('v, int \<times> int) mop" where
  "server_deal_window env to_time from_time candidates backlog =
     ebind (server_time_offset_seconds env candidates) (\<lambda>offset.
     ebind (case from_time of
              Some t \<Rightarrow>
                eret (epoch_seconds t + offset + (if t mod 1000000 \<noteq> 0 \<and> backlog = 0 then 1 else 0))
            | None \<Rightarrow>
                ebind (eupd (\<lambda>w. if mw_deal_time w = None then w\<lparr>mw_deal_time := Some (epoch_seconds to_time + offset)\<rparr> else w)) (\<lambda>_.
                eget (\<lambda>w. case mw_deal_time w of Some n \<Rightarrow> n | None \<Rightarrow> 0))) (\<lambda>start.
     eret (start - backlog, epoch_seconds to_time + offset + DEAL_QUERY_FORWARD_SECONDS)))"

subsection \<open>Recovery of the mappings\<close>

definition record_mapping :: "string option \<Rightarrow> int option \<Rightarrow> ('v, unit) mop" where
  "record_mapping client ticket =
     (case client of
        None \<Rightarrow> eret ()
      | Some c \<Rightarrow>
          eupd (\<lambda>w. if dict_has (mw_tickets w) c then w
                    else w\<lparr>mw_tickets := dict_set c ticket (mw_tickets w), mw_clients := dict_set ticket c (mw_clients w)\<rparr>))"

definition seed_symbol_mappings :: "'v menv \<Rightarrow> ('v, unit) mop" where
  "seed_symbol_mappings env =
     ebind (eget (\<lambda>w. mw_store w \<noteq> None)) (\<lambda>attached.
     ewhen attached
       (ebind (etry (mstore env (query_orders None None None 100000)) (\<lambda>_. eret [])) (\<lambda>orders.
        ebind (efor orders (\<lambda>r. record_symbol_mapping (or_instrument r))) (\<lambda>_.
        ebind (etry (mstore env (query_positions None 100000)) (\<lambda>_. eret [])) (\<lambda>positions.
        efor positions (\<lambda>p. record_symbol_mapping (po_instrument p)))))))"

definition seed_order :: "order_record \<Rightarrow> ('v, unit) mop" where
  "seed_order r =
     (if or_client_id r = [] then eret ()
      else case or_platform_id r of
             None \<Rightarrow> eret ()
           | Some p \<Rightarrow>
               (case int_of_text p of
                  None \<Rightarrow> eret ()
                | Some n \<Rightarrow> record_mapping (Some (or_client_id r)) (Some n)))"

definition seed_mappings :: "'v menv \<Rightarrow> ('v, unit) mop" where
  "seed_mappings env =
     ebind (eget (\<lambda>w. mw_store w \<noteq> None)) (\<lambda>attached.
     ewhen attached
       (ebind (etry (mstore env (query_orders None None None 100000)) (\<lambda>_. eret [])) (\<lambda>records.
        efor records seed_order)))"

definition RECOVERY_DEAL_LOOKBACK_SECONDS :: int where
  "RECOVERY_DEAL_LOOKBACK_SECONDS = 24 * 60 * 60"

definition recent_deals :: "'v menv \<Rightarrow> ('v, mt5_deal list option) mop" where
  "recent_deals env =
     ebind (mt5_now env) (\<lambda>upto.
     ebind (mt5_now env) (\<lambda>now.
     ebind (server_deal_window env upto (Some (now - RECOVERY_DEAL_LOOKBACK_SECONDS * 1000000)) []
              DEAL_QUERY_BACKLOG_SECONDS) (\<lambda>(start, stop).
     mcall (xt_deals_get (me_terminal env) start stop))))"

definition recover_order_mappings :: "'v menv \<Rightarrow> ('v, unit) mop" where
  "recover_order_mappings env =
     ebind (etry (mcall (xt_orders_get (me_terminal env) None)) (\<lambda>_. eret None)) (\<lambda>orders.
     ebind (efor (case orders of None \<Rightarrow> [] | Some rs \<Rightarrow> rs) (\<lambda>r. record_mapping (decode_comment (xo_comment r)) (xo_ticket r))) (\<lambda>_.
     ebind (etry (recent_deals env) (\<lambda>_. eret None)) (\<lambda>deals.
     efor (case deals of None \<Rightarrow> [] | Some ds \<Rightarrow> ds)
       (\<lambda>d. record_mapping (decode_comment (xd_comment d)) (Some (or_int (xd_order d) (xd_ticket d)))))))"

subsection \<open>Connection\<close>

definition release_guard :: "('v, unit) mop" where
  "release_guard = eupd (\<lambda>w. if mw_guard w then w\<lparr>mw_guard := False, mw_lock := False\<rparr> else w)"

definition open_terminal :: "'v menv \<Rightarrow> ('v, unit) mop" where
  \<comment> \<open>the body of the \<^verbatim>\<open>try\<close>\<close>
  "open_terminal env =
     (let c = me_config env in
      ebind (get_mt5 env) (\<lambda>_.
      ebind (mcall (xt_initialize (me_terminal env) (xc_login c) (xc_password c) (xc_server c) (xc_path c))) (\<lambda>ok.
      ebind (if ok then eret () else mt5_fail env ''mt5.initialize() failed'') (\<lambda>_.
      ebind (mcall (xt_account_info (me_terminal env))) (\<lambda>info.
      (case info of
         None \<Rightarrow> mt5_fail env ''mt5.account_info() returned None after initialize''
       | Some a \<Rightarrow>
           ebind (eupd (\<lambda>w. w\<lparr>mw_login := Some (ac_login a)\<rparr>)) (\<lambda>_.
           ebind (eguard (ac_login a \<noteq> xc_login c) AccountChangedError ''MT5 terminal is connected to another account'') (\<lambda>_.
           ebind (seed_symbol_mappings env) (\<lambda>_.
           ebind (seed_mappings env) (\<lambda>_.
           ebind (recover_order_mappings env) (\<lambda>_.
           ebind (eupd (\<lambda>w. w\<lparr>mw_connected := True\<rparr>)) (\<lambda>_.
           ebind (mt5_connection_state env True) (\<lambda>_.
           eupd (\<lambda>w. w\<lparr>mw_poll := True\<rparr>))))))))))))))"

definition mt5_connect :: "'v menv \<Rightarrow> ('v, unit) mop" where
  "mt5_connect env =
     ebind (eget mw_connected) (\<lambda>up.
     if up then eret ()
     else
       ebind (eget mw_lock) (\<lambda>taken.
       ebind (eguard taken PlatformConnectionError ''another MT5 adapter is already connected in this process'') (\<lambda>_.
       ebind (eupd (\<lambda>w. w\<lparr>mw_lock := True, mw_guard := True\<rparr>)) (\<lambda>_.
       etry (open_terminal env)
         (\<lambda>e. ebind (eupd (\<lambda>w. w\<lparr>mw_connected := False, mw_login := None, mw_poll := False\<rparr>)) (\<lambda>_.
              ebind release_guard (\<lambda>_.
              if exn_is (exn_cls e) AccountChangedError then elift (Inl e)
              else eraise PlatformConnectionError ''failed to connect to MT5 terminal'')))))))"

definition close_terminal :: "'v menv \<Rightarrow> ('v, unit) mop" where
  \<comment> \<open>\<^verbatim>\<open>try: mt5.shutdown() finally: ...\<close>; an exception of the \<^verbatim>\<open>finally\<close> block replaces the first\<close>
  "close_terminal env =
     ebind (eattempt (ebind (get_mt5 env) (\<lambda>_. mcall (xt_shutdown (me_terminal env))))) (\<lambda>outcome.
     ebind (eupd (\<lambda>w. w\<lparr>mw_connected := False, mw_login := None\<rparr>)) (\<lambda>_.
     ebind release_guard (\<lambda>_.
     ebind (mt5_connection_state env False) (\<lambda>_.
     elift outcome))))"

definition mt5_disconnect :: "'v menv \<Rightarrow> ('v, unit) mop" where
  "mt5_disconnect env =
     ebind (eget mw_connected) (\<lambda>up.
     ewhen up (ebind (eupd (\<lambda>w. w\<lparr>mw_poll := False\<rparr>)) (\<lambda>_. close_terminal env)))"

end
