(* ===== verification/UTE_MT5_Trading.thy ===== *)
theory UTE_MT5_Trading
  imports UTE_MT5_Adapter
begin

text \<open>
  \<^verbatim>\<open>mt5/adapter.py\<close>, orders, position protection, trading rules and market data. What runs inside one
  \<^verbatim>\<open>to_thread\<close> block is one sequence of calls.
\<close>

subsection \<open>Placement\<close>

definition mt5_send :: "'v menv \<Rightarrow> mt5_request \<Rightarrow> ('v, mt5_result option) mop" where
  "mt5_send env request = mcall (xt_send (me_terminal env) request)"

definition parse_mt5_result :: "'v menv \<Rightarrow> mt5_result option \<Rightarrow> string \<Rightarrow> ('v, order_result) mop" where
  "parse_mt5_result env result client =
     (case result of
        None \<Rightarrow> mt5_fail env []
      | Some r \<Rightarrow>
          (case dict_get RETCODE_STATUS_MAP (xr_retcode r) of
             None \<Rightarrow>
               ebind (mside (xt_last_error (me_terminal env))) (\<lambda>(code, desc).
               (let stale = code = 0 \<or> code = xt_const (me_terminal env) ''RES_S_OK'';
                    code' = (if stale then xr_retcode r else code);
                    desc' = (if stale then or_text (xr_comment r) ''MT5 trade retcode'' else desc)
                in elift (Inl (fst (map_mt5_error (xt_const (me_terminal env)) code' (or_text desc' (xr_comment r)))))))
           | Some s \<Rightarrow> ebind (mt5_now env) (\<lambda>now. eret (order_result_of r s client now))))"

definition MARKET_TICK_RETRIES :: nat where
  "MARKET_TICK_RETRIES = 3"

fun wait_for_market_tick :: "'v menv \<Rightarrow> string \<Rightarrow> nat \<Rightarrow> ('v, mt5_tick option) mop" where
  \<comment> \<open>the last argument is the number of attempts left\<close>
  "wait_for_market_tick env s 0 = eret None"
| "wait_for_market_tick env s (Suc n) =
     ebind (mcall (xt_tick (me_terminal env) s)) (\<lambda>tick.
     (case tick of
        Some t \<Rightarrow> eret (Some t)
      | None \<Rightarrow> ebind (mt5_sleep env (1 / 10)) (\<lambda>_. wait_for_market_tick env s n)))"

definition fetch_symbol_info :: "'v menv \<Rightarrow> string \<Rightarrow> ('v, mt5_symbol) mop" where
  "fetch_symbol_info env s =
     ebind (ensure_symbol_selected env s) (\<lambda>_.
     ebind (mcall (xt_symbol_info (me_terminal env) s)) (\<lambda>info.
     (case info of None \<Rightarrow> unavailable env s ''symbol_info() failed'' | Some x \<Rightarrow> eret x)))"

definition corrected_instrument :: "mt5_config \<Rightarrow> string \<Rightarrow> mt5_symbol \<Rightarrow> instrument \<Rightarrow> instrument option" where
  \<comment> \<open>the instrument with the identity the broker reports, when it differs and both construct\<close>
  "corrected_instrument c s info i =
     (case instrument_from_info c s info of
        Inl _ \<Rightarrow> None
      | Inr j \<Rightarrow>
          if identity_matches i j then None
          else (case instrument_post_init (i\<lparr>in_symbol := in_symbol j, in_quote := in_quote j, in_asset_class := in_asset_class j\<rparr>) of
                  Inl _ \<Rightarrow> None | Inr k \<Rightarrow> Some k))"

definition correct_order :: "'v menv \<Rightarrow> string \<Rightarrow> mt5_symbol \<Rightarrow> unified_order \<Rightarrow> ('v, unified_order) mop" where
  "correct_order env s info u =
     (case corrected_instrument (me_config env) s info (uo_instrument u) of
        None \<Rightarrow> eret u
      | Some i \<Rightarrow>
          ebind (eupd (\<lambda>w. w\<lparr>mw_instruments := dict_set s i (mw_instruments w)\<rparr>)) (\<lambda>_.
          eret (u\<lparr>uo_instrument := i\<rparr>)))"

definition commented :: "string \<Rightarrow> mt5_request \<Rightarrow> mt5_request" where
  "commented client request =
     (case encode_client_order_id client of None \<Rightarrow> request | Some c \<Rightarrow> dict_set ''comment'' (MV_text c) request)"

definition quoted :: "'v menv \<Rightarrow> string \<Rightarrow> unified_order \<Rightarrow> mt5_request \<Rightarrow> ('v, mt5_request) mop" where
  "quoted env s u request =
     (if uo_type u \<noteq> MARKET then eret request
      else
        ebind (wait_for_market_tick env s MARKET_TICK_RETRIES) (\<lambda>tick.
        (case tick of
           None \<Rightarrow> mt5_fail env ''no market quote''
         | Some t \<Rightarrow> eret (dict_set ''price'' (MV_float (if uo_side u = BUY then tk_ask t else tk_bid t)) request))))"

definition submit_order :: "'v menv \<Rightarrow> string \<Rightarrow> string \<Rightarrow> mt5_symbol \<Rightarrow> unified_order \<Rightarrow> ('v, order_result) mop" where
  "submit_order env s client info u =
     ebind (server_time_offset_seconds env [s]) (\<lambda>_.
     ebind (eget mw_offset) (\<lambda>offset.
     ebind (elift (build_mt5_request (xt_const (me_terminal env)) offset u)) (\<lambda>request.
     ebind (quoted env s u (commented client (dict_set ''symbol'' (MV_text s) request))) (\<lambda>request'.
     ebind (elift (select_filling (sy_filling_mode info) (uo_tif u))) (\<lambda>filling.
     ebind (mt5_send env (dict_set ''type_filling'' (MV_int filling) request')) (\<lambda>result.
     parse_mt5_result env result client))))))"

definition forgetting :: "instrument \<Rightarrow> ('v, 'a) mop \<Rightarrow> ('v, 'a) mop" where
  \<comment> \<open>\<^verbatim>\<open>except UteError\<close>: drop the cached rules and raise again\<close>
  "forgetting i m =
     etry m (\<lambda>e. ebind (ewhen (exn_is (exn_cls e) UteError) (invalidate_spec_cache i)) (\<lambda>_. elift (Inl e)))"

definition placed_result :: "'v menv \<Rightarrow> string \<Rightarrow> string \<Rightarrow> unified_order \<Rightarrow> ('v, unified_order \<times> order_result) mop" where
  \<comment> \<open>the order as corrected, which is also the order the exception handler sees\<close>
  "placed_result env s client u =
     ebind (forgetting (uo_instrument u) (fetch_symbol_info env s)) (\<lambda>info.
     ebind (correct_order env s info u) (\<lambda>u'.
     ebind (forgetting (uo_instrument u') (submit_order env s client info u')) (\<lambda>result. eret (u', result))))"

definition remember_ticket :: "string \<Rightarrow> order_result \<Rightarrow> ('v, unit) mop" where
  "remember_ticket client r =
     (case re_platform_id r of
        None \<Rightarrow> eret ()
      | Some p \<Rightarrow>
          ebind (elift (mt5_int p)) (\<lambda>n.
          eupd (\<lambda>w. w\<lparr>mw_tickets := dict_set client (Some n) (mw_tickets w), mw_clients := dict_set (Some n) client (mw_clients w)\<rparr>)))"

definition mt5_place :: "'v menv \<Rightarrow> unified_order \<Rightarrow> ('v, unified_order \<times> order_result) mop" where
  "mt5_place env u =
     ebind (resolve_mt5_symbol (uo_instrument u)) (\<lambda>s.
     ebind (if text_of (uo_client_id u) \<noteq> [] then eret (text_of (uo_client_id u)) else mt5_id env) (\<lambda>client.
     ebind (get_mt5 env) (\<lambda>_.
     ebind (placed_result env s client u) (\<lambda>(u', result).
     ebind (remember_ticket client result) (\<lambda>_. eret (u', result))))))"

definition mt5_place_order :: "'v menv \<Rightarrow> unified_order \<Rightarrow> ('v, order_result) mop" where
  "mt5_place_order env u = ebind (mt5_place env u) (\<lambda>(u', result). eret result)"

subsection \<open>Modification, cancellation and lookup\<close>

definition known_ticket :: "'v mworld \<Rightarrow> string \<Rightarrow> int option" where
  "known_ticket w client = (case dict_get (mw_tickets w) client of Some t \<Rightarrow> t | None \<Rightarrow> None)"

definition ticket_for_order :: "string \<Rightarrow> ('v, int) mop" where
  "ticket_for_order client =
     ebind (eget (\<lambda>w. known_ticket w client)) (\<lambda>t.
     (case t of None \<Rightarrow> eraise OrderNotFoundError ''no known MT5 ticket for client_order_id'' | Some n \<Rightarrow> eret n))"

definition mt5_modify_order :: "'v menv \<Rightarrow> order_modification \<Rightarrow> ('v, order_result) mop" where
  "mt5_modify_order env m =
     ebind (ticket_for_order (mo_client_id m)) (\<lambda>ticket.
     ebind (get_mt5 env) (\<lambda>_.
     ebind (mcall (xt_orders_get (me_terminal env) (Some ticket))) (\<lambda>existing.
     (case existing of
        Some (r # _) \<Rightarrow>
          ebind (elift (case unified_type_of (xo_type r) of
                          None \<Rightarrow> raise_exn PlatformError ''Unknown MT5 order type'' | Some p \<Rightarrow> Inr (fst p))) (\<lambda>t.
          (case price_stop_price t r of (price, stop) \<Rightarrow>
             ebind (elift (build_mt5_modify_request (xt_const (me_terminal env)) m ticket t price stop)) (\<lambda>request.
             ebind (mt5_send env request) (\<lambda>result.
             parse_mt5_result env result (mo_client_id m)))))
      | _ \<Rightarrow> mt5_fail env ''order not found for modification''))))"

definition mt5_cancel_order :: "'v menv \<Rightarrow> string \<Rightarrow> ('v, order_result) mop" where
  "mt5_cancel_order env client =
     ebind (ticket_for_order client) (\<lambda>ticket.
     ebind (get_mt5 env) (\<lambda>_.
     ebind (mt5_send env (build_mt5_cancel_request (xt_const (me_terminal env)) ticket)) (\<lambda>result.
     ebind (parse_mt5_result env result client) (\<lambda>parsed.
     eret (parsed\<lparr>re_status := CANCELLED\<rparr>)))))"

definition mt5_get_order :: "'v menv \<Rightarrow> string \<Rightarrow> ('v, order_result option) mop" where
  "mt5_get_order env client =
     ebind (eget (\<lambda>w. known_ticket w client)) (\<lambda>t.
     (case t of
        None \<Rightarrow> eret None
      | Some ticket \<Rightarrow>
          ebind (get_mt5 env) (\<lambda>_.
          ebind (mcall (xt_orders_get (me_terminal env) (Some ticket))) (\<lambda>existing.
          (case existing of
             Some (r # _) \<Rightarrow>
               ebind (server_time_offset_seconds env []) (\<lambda>_.
               ebind (eget mw_offset) (\<lambda>offset.
               ebind (elift (parse_order_record r client offset)) (\<lambda>x. eret (Some x))))
           | _ \<Rightarrow>
               ebind (mside (xt_last_error (me_terminal env))) (\<lambda>(code, desc).
               if code = 0 \<or> code = xt_const (me_terminal env) ''RES_S_OK'' \<or> code = 10035 then eret None
               else elift (Inl (fst (map_mt5_error (xt_const (me_terminal env)) code (or_text desc ''orders_get() failed''))))))))))"

subsection \<open>Position protection\<close>

definition nonzero :: "decimal option \<Rightarrow> decimal option" where
  \<comment> \<open>\<^verbatim>\<open>Decimal(str(x)) if x else None\<close>\<close>
  "nonzero x = (case x of None \<Rightarrow> None | Some d \<Rightarrow> if d = 0 then None else Some d)"

definition read_position_tpsl :: "'v menv \<Rightarrow> string \<Rightarrow> ('v, (decimal option \<times> decimal option) option) mop" where
  "read_position_tpsl env position =
     ebind (elift (mt5_int position)) (\<lambda>n.
     ebind (mcall (xt_positions_get (me_terminal env) (Some n))) (\<lambda>r.
     ebind (check_call_result env ''positions_get'' r) (\<lambda>ps.
     eret (case ps of [] \<Rightarrow> None | p # _ \<Rightarrow> Some (nonzero (xp_tp p), nonzero (xp_sl p))))))"

definition level_value :: "decimal option \<Rightarrow> decimal" where
  \<comment> \<open>\<^verbatim>\<open>float(x) if x is not None else 0.0\<close>\<close>
  "level_value x = (case x of None \<Rightarrow> 0 | Some d \<Rightarrow> py_float d)"

definition send_levels :: "'v menv \<Rightarrow> string \<Rightarrow> string \<Rightarrow> decimal option \<Rightarrow> decimal option \<Rightarrow> ('v, unit) mop" where
  "send_levels env position s tp sl =
     ebind (elift (build_mt5_sltp_request (xt_const (me_terminal env)) position s (level_value tp) (level_value sl))) (\<lambda>request.
     ebind (mt5_send env request) (\<lambda>result.
     ebind (parse_mt5_result env result position) (\<lambda>_. eret ())))"

definition has_limit :: "tpsl option \<Rightarrow> bool" where
  "has_limit a = (case a of None \<Rightarrow> False | Some x \<Rightarrow> tp_limit x \<noteq> None)"

definition mt5_modify_tpsl ::
    "'v menv \<Rightarrow> instrument \<Rightarrow> string \<Rightarrow> tpsl option \<Rightarrow> tpsl option \<Rightarrow> trailing_basis option \<Rightarrow> ('v, unit) mop" where
  "mt5_modify_tpsl env i position tp sl basis =
     ebind (eguard (has_limit tp) UnsupportedOrderTypeError ''take_profit.limit_price is not supported by MT5'') (\<lambda>_.
     ebind (eguard (has_limit sl) UnsupportedOrderTypeError ''stop_loss.limit_price is not supported by MT5'') (\<lambda>_.
     ebind (eguard (tp = None \<and> sl = None) PyValueError ''At least one of take_profit or stop_loss must be provided'') (\<lambda>_.
     ebind (get_mt5 env) (\<lambda>_.
     ebind (resolve_mt5_symbol i) (\<lambda>s.
     ebind (ensure_symbol_selected env s) (\<lambda>_.
     ebind (if tp \<noteq> None \<and> sl \<noteq> None then eret (None, None)
            else ebind (read_position_tpsl env position) (\<lambda>current.
                 (case current of
                    None \<Rightarrow> eraise OrderNotFoundError ''No open MT5 position''
                  | Some p \<Rightarrow> eret p))) (\<lambda>(current_tp, current_sl).
     send_levels env position s
       (case tp of Some x \<Rightarrow> Some (tp_trigger x) | None \<Rightarrow> current_tp)
       (case sl of Some x \<Rightarrow> Some (tp_trigger x) | None \<Rightarrow> current_sl))))))))"

definition attached_level :: "decimal option \<Rightarrow> tpsl option result" where
  \<comment> \<open>\<^verbatim>\<open>TpSlAttachment(trigger_price=x) if x is not None else None\<close>\<close>
  "attached_level x =
     (case x of
        None \<Rightarrow> Inr None
      | Some d \<Rightarrow> rbind (tpsl_post_init \<lparr>tp_trigger = d, tp_limit = None\<rparr>) (\<lambda>a. Inr (Some a)))"

definition mt5_get_tpsl :: "'v menv \<Rightarrow> instrument \<Rightarrow> string \<Rightarrow> ('v, (tpsl option \<times> tpsl option) option) mop" where
  "mt5_get_tpsl env i position =
     ebind (get_mt5 env) (\<lambda>_.
     ebind (read_position_tpsl env position) (\<lambda>current.
     (case current of
        None \<Rightarrow> eret None
      | Some (tp, sl) \<Rightarrow>
          ebind (elift (attached_level tp)) (\<lambda>a.
          ebind (elift (attached_level sl)) (\<lambda>b. eret (Some (a, b)))))))"

definition mt5_clear_tpsl :: "'v menv \<Rightarrow> instrument \<Rightarrow> string \<Rightarrow> bool \<Rightarrow> bool \<Rightarrow> ('v, unit) mop" where
  "mt5_clear_tpsl env i position tp sl =
     ebind (eguard (\<not> tp \<and> \<not> sl) PyValueError ''at least one of take_profit or stop_loss must be true'') (\<lambda>_.
     ebind (get_mt5 env) (\<lambda>_.
     ebind (resolve_mt5_symbol i) (\<lambda>s.
     ebind (ensure_symbol_selected env s) (\<lambda>_.
     ebind (read_position_tpsl env position) (\<lambda>current.
     (case current of
        None \<Rightarrow> eret ()
      | Some (current_tp, current_sl) \<Rightarrow>
          send_levels env position s (if tp then None else current_tp) (if sl then None else current_sl)))))))"

subsection \<open>Trading rules\<close>

definition points_value :: "py_object option \<Rightarrow> decimal" where
  \<comment> \<open>an attribute that is missing counts as zero, as does one that is no number\<close>
  "points_value x =
     (case x of None \<Rightarrow> 0 | Some raw \<Rightarrow> (case dec_of_object raw of None \<Rightarrow> 0 | Some d \<Rightarrow> d))"

definition mt5_min_stop_distance :: "mt5_symbol \<Rightarrow> decimal option" where
  "mt5_min_stop_distance info =
     (let point0 = points_value (sy_point info);
          point = (if point0 \<le> 0 then points_value (sy_trade_tick_size info) else point0);
          stops = points_value (sy_stops_level info); spread = points_value (sy_spread info)
      in if point \<le> 0 \<or> (stops \<le> 0 \<and> spread \<le> 0) then None else Some (dmul (max stops spread) point))"

definition mt5_spec_of :: "mt5_symbol \<Rightarrow> instrument_spec" where
  "mt5_spec_of info =
     \<lparr>sp_tick_size = sy_tick_size info, sp_lot_size = sy_volume_step info, sp_min_qty = sy_volume_min info,
      sp_max_qty = sy_volume_max info, sp_min_notional = 0, sp_price_precision = sy_digits info,
      sp_qty_precision = decimal_places (sy_volume_step info), sp_max_leverage = None,
      sp_min_stop_distance = mt5_min_stop_distance info\<rparr>"

definition mt5_cached_spec :: "'v menv \<Rightarrow> instrument \<Rightarrow> ('v, instrument_spec option) mop" where
  "mt5_cached_spec env i =
     ebind (eget (\<lambda>w. dict_get (mw_specs w) (inst_id i))) (\<lambda>hit.
     (case hit of
        None \<Rightarrow> eret None
      | Some (spec, at_time) \<Rightarrow>
          (case xc_ttl (me_config env) of
             None \<Rightarrow> eret (Some spec)
           | Some ttl \<Rightarrow>
               ebind (mt5_now env) (\<lambda>now.
               if of_int (now - at_time) / 1000000 < ttl then eret (Some spec)
               else ebind (invalidate_spec_cache i) (\<lambda>_. eret None)))))"

definition mt5_fetch_spec :: "'v menv \<Rightarrow> instrument \<Rightarrow> ('v, instrument_spec) mop" where
  "mt5_fetch_spec env i =
     ebind (mt5_cached_spec env i) (\<lambda>hit.
     (case hit of
        Some spec \<Rightarrow> eret spec
      | None \<Rightarrow>
          ebind (resolve_mt5_symbol i) (\<lambda>s.
          ebind (get_mt5 env) (\<lambda>_.
          ebind (ensure_symbol_selected env s) (\<lambda>_.
          ebind (mcall (xt_symbol_info (me_terminal env) s)) (\<lambda>info.
          (case info of
             None \<Rightarrow>
               ebind (mside (xt_last_error (me_terminal env))) (\<lambda>_.
               eraise InvalidSymbolError ''MT5 symbol is not available'')
           | Some x \<Rightarrow>
               ebind (eguard (sy_trade_mode x = 0) InvalidSymbolError ''MT5 symbol is not tradable (trade mode disabled)'') (\<lambda>_.
               ebind (eguard (sy_trade_mode x = 3) MarketClosedError ''MT5 symbol is in close-only mode (market closed)'') (\<lambda>_.
               ebind (mt5_now env) (\<lambda>now.
               ebind (eupd (\<lambda>w. w\<lparr>mw_specs := dict_set (inst_id i) (mt5_spec_of x, now) (mw_specs w)\<rparr>)) (\<lambda>_.
               eret (mt5_spec_of x))))))))))))"

subsection \<open>Market data\<close>

definition nonzero_price :: "decimal \<Rightarrow> decimal option" where
  "nonzero_price d = (if d = 0 then None else Some d)"

definition mt5_fetch_ticker :: "'v menv \<Rightarrow> instrument \<Rightarrow> ('v, ticker option) mop" where
  "mt5_fetch_ticker env i =
     ebind (get_mt5 env) (\<lambda>_.
     ebind (resolve_mt5_symbol i) (\<lambda>s.
     ebind (ensure_symbol_selected env s) (\<lambda>_.
     ebind (wait_for_market_tick env s MARKET_TICK_RETRIES) (\<lambda>tick.
     eret (map_option (\<lambda>t. \<lparr>ti_bid = nonzero_price (tk_bid t), ti_ask = nonzero_price (tk_ask t),
             ti_last = nonzero (tk_last t), ti_mark = None\<rparr>) tick)))))"

fun mt5_timeframe :: "candle_timeframe \<Rightarrow> int" where
  "mt5_timeframe TF_M1 = 1"
| "mt5_timeframe TF_M5 = 5"
| "mt5_timeframe TF_M15 = 15"
| "mt5_timeframe TF_M30 = 30"
| "mt5_timeframe TF_H1 = 16385"
| "mt5_timeframe TF_H4 = 16388"
| "mt5_timeframe TF_H8 = 16392"
| "mt5_timeframe TF_H12 = 16396"
| "mt5_timeframe TF_D1 = 16408"

fun mt5_candle_seconds :: "candle_timeframe \<Rightarrow> int" where
  "mt5_candle_seconds TF_M1 = 60"
| "mt5_candle_seconds TF_M5 = 5 * 60"
| "mt5_candle_seconds TF_M15 = 15 * 60"
| "mt5_candle_seconds TF_M30 = 30 * 60"
| "mt5_candle_seconds TF_H1 = 60 * 60"
| "mt5_candle_seconds TF_H4 = 4 * 60 * 60"
| "mt5_candle_seconds TF_H8 = 8 * 60 * 60"
| "mt5_candle_seconds TF_H12 = 12 * 60 * 60"
| "mt5_candle_seconds TF_D1 = 24 * 60 * 60"

fun bars_to_candles :: "candle_timeframe \<Rightarrow> int \<Rightarrow> bool \<Rightarrow> instant \<Rightarrow> mt5_bar list \<Rightarrow> candle list result" where
  \<comment> \<open>in the order of the bars\<close>
  "bars_to_candles tf offset measured now [] = Inr []"
| "bars_to_candles tf offset measured now (b # bs) =
     rbind (from_mt5_epoch (xb_time b) offset) (\<lambda>open_time.
     (let close_time = open_time + mt5_candle_seconds tf * 1000000 in
      if measured \<and> now < close_time then bars_to_candles tf offset measured now bs
      else
        rbind (candle_post_init (Aware open_time) (Aware close_time) (xb_open b) (xb_high b) (xb_low b) (xb_close b)) (\<lambda>c.
        rbind (bars_to_candles tf offset measured now bs) (\<lambda>cs. Inr (c # cs)))))"

definition mt5_fetch_candles :: "'v menv \<Rightarrow> instrument \<Rightarrow> candle_timeframe \<Rightarrow> int \<Rightarrow> ('v, candle list) mop" where
  "mt5_fetch_candles env i tf limit =
     ebind (eguard (limit < 1) PyValueError ''limit must be at least 1'') (\<lambda>_.
     ebind (get_mt5 env) (\<lambda>_.
     ebind (resolve_mt5_symbol i) (\<lambda>s.
     ebind (ensure_symbol_selected env s) (\<lambda>_.
     ebind (mcall (xt_rates (me_terminal env) s (mt5_timeframe tf) (limit + 1))) (\<lambda>rates.
     (case rates of
        None \<Rightarrow> mt5_fail env ''copy_rates_from_pos() returned None''
      | Some bars \<Rightarrow>
          ebind (server_time_offset_seconds env [s]) (\<lambda>offset.
          ebind (eget mw_measured) (\<lambda>measured.
          ebind (mt5_now env) (\<lambda>now.
          ebind (elift (bars_to_candles tf offset measured now (rev bars))) (\<lambda>candles.
          (let kept = (if measured then candles else butlast candles)
           in eret (drop (length kept - nat limit) kept))))))))))))"

subsection \<open>Capabilities and limits\<close>

definition mt5_order_types :: "order_type set" where
  "mt5_order_types = {MARKET, LIMIT, STOP, STOP_LIMIT}"

definition usable_symbol :: "instrument \<Rightarrow> bool" where
  "usable_symbol i = (case to_mt5_symbol i of Inl _ \<Rightarrow> False | Inr s \<Rightarrow> \<not> blank s)"

definition mt5_protection_capability :: "instrument \<Rightarrow> protection_capability" where
  "mt5_protection_capability i =
     (if \<not> usable_symbol i then default_protection_capability
      else \<lparr>pc_supported = True, pc_set_stop = True, pc_set_tp = True, pc_clear_stop = True, pc_clear_tp = True,
            pc_preserves = True, pc_triggers = {TB_BID, TB_ASK}, pc_min_interval = 1, pc_reprice_gap = False\<rparr>)"

definition mt5_market_capability :: "instrument \<Rightarrow> market_capability" where
  "mt5_market_capability i =
     (if \<not> usable_symbol i then default_market_capability
      else \<lparr>mc_bases = {TB_LAST, TB_BID, TB_ASK}, mc_min_interval = 1,
            mc_timeframes = {TF_M1, TF_M5, TF_M15, TF_M30, TF_H1, TF_H4, TF_H8, TF_H12, TF_D1}, mc_streaming = False\<rparr>)"

definition RATE_LIMIT_REQUESTS_PER_SECOND :: int where
  "RATE_LIMIT_REQUESTS_PER_SECOND = 10"

definition mt5_get_rate_limits :: "'v menv \<Rightarrow> ('v, rate_limits) mop" where
  "mt5_get_rate_limits env =
     ebind (mt5_now env) (\<lambda>now.
     eret \<lparr>rl_requests = RATE_LIMIT_REQUESTS_PER_SECOND, rl_interval = 1, rl_remaining = RATE_LIMIT_REQUESTS_PER_SECOND,
           rl_reset_at = now + 1000000\<rparr>)"

definition mt5_resolve :: "'v menv \<Rightarrow> string \<Rightarrow> ('v, instrument) mop" where
  "mt5_resolve env s = ebind (get_mt5 env) (\<lambda>_. mt5_resolve_instrument env s)"

definition mt5_account_leverage :: "'v menv \<Rightarrow> ('v, int) mop" where
  "mt5_account_leverage env =
     ebind (get_mt5 env) (\<lambda>_.
     ebind (mcall (xt_account_info (me_terminal env))) (\<lambda>r.
     ebind (check_call_result env ''account_info'' r) (\<lambda>a. eret (ac_leverage a))))"

end
