(* ===== verification/UTE_MT5_Polling.thy ===== *)
theory UTE_MT5_Polling
  imports UTE_MT5_Trading
begin

text \<open>
  \<^verbatim>\<open>mt5/adapter.py\<close>, the snapshots for reconciliation and the polling loop: each cycle reads orders,
  positions, the account and the new deals, compares them with what it last saw and publishes the
  differences. A cycle is one step of the model.
\<close>

subsection \<open>Positions\<close>

definition position_leg :: "int \<Rightarrow> bool \<Rightarrow> instant \<Rightarrow> instrument \<Rightarrow> mt5_position \<Rightarrow> position result" where
  "position_leg offset measured now i p =
     rbind (if xp_time p \<noteq> 0 \<and> measured then rbind (from_mt5_epoch (xp_time p) offset) (\<lambda>t. Inr (Some t)) else Inr None) (\<lambda>opened.
     Inr \<lparr>po_instrument = i, po_quantity = (if xp_type p = 0 then xp_volume p else - xp_volume p),
          po_entry = xp_price_open p, po_updated_at = now, po_id = Some (int_text (xp_ticket p)), po_opened_at = opened\<rparr>)"

fun position_legs ::
    "int \<Rightarrow> bool \<Rightarrow> instant \<Rightarrow> (string, instrument) dict \<Rightarrow> mt5_position list \<Rightarrow> (instrument \<times> string, position) dict
     \<Rightarrow> (instrument \<times> string, position) dict result" where
  \<comment> \<open>the last argument is the dictionary built so far, keyed by what equality of instruments sees\<close>
  "position_legs offset measured now instruments [] d = Inr d"
| "position_legs offset measured now instruments (p # ps) d =
     (case dict_get instruments (xp_symbol p) of
        None \<Rightarrow> position_legs offset measured now instruments ps d
      | Some i \<Rightarrow>
          rbind (position_leg offset measured now i p) (\<lambda>leg.
          position_legs offset measured now instruments ps (dict_set (inst_id i, int_text (xp_ticket p)) leg d)))"

definition current_legs ::
    "(string, instrument) dict \<Rightarrow> mt5_position list \<Rightarrow> instant \<Rightarrow> ('v, (instrument \<times> string, position) dict) mop" where
  "current_legs instruments ps now =
     ebind (eget (\<lambda>w. position_legs (mw_offset w) (mw_measured w) now instruments ps [])) elift"

definition mt5_fetch_positions :: "'v menv \<Rightarrow> ('v, position list) mop" where
  "mt5_fetch_positions env =
     ebind (get_mt5 env) (\<lambda>_.
     ebind (mcall (xt_positions_get (me_terminal env) None)) (\<lambda>r.
     ebind (check_call_result env ''positions_get'' r) (\<lambda>ps.
     (let probes = string_set env (map xp_symbol ps) in
      ebind (if probes = [] then eret () else ebind (server_time_offset_seconds env probes) (\<lambda>_. eret ())) (\<lambda>_.
      ebind (resolve_poll_instruments env (map xp_symbol ps) []) (\<lambda>instruments.
      ebind (mt5_now env) (\<lambda>now.
      ebind (current_legs instruments ps now) (\<lambda>legs. eret (map snd legs)))))))))"

definition leg_changed :: "position option \<Rightarrow> position \<Rightarrow> bool" where
  "leg_changed previous p =
     (case previous of
        None \<Rightarrow> True
      | Some q \<Rightarrow> po_quantity q \<noteq> po_quantity p \<or> po_entry q \<noteq> po_entry p)"

definition closed_leg :: "instant \<Rightarrow> string \<Rightarrow> position \<Rightarrow> position" where
  "closed_leg now ticket q =
     \<lparr>po_instrument = po_instrument q, po_quantity = 0, po_entry = po_entry q, po_updated_at = now,
      po_id = Some ticket, po_opened_at = None\<rparr>"

definition process_positions ::
    "'v menv \<Rightarrow> mt5_position list \<Rightarrow> (string, instrument) dict \<Rightarrow> instant \<Rightarrow> ('v, unit) mop" where
  "process_positions env ps instruments now =
     ebind (current_legs instruments ps now) (\<lambda>current.
     ebind (eget mw_positions) (\<lambda>previous.
     ebind (eupd (\<lambda>w. w\<lparr>mw_positions := current\<rparr>)) (\<lambda>_.
     ebind (efor current (\<lambda>(k, p). ewhen (leg_changed (dict_get previous k) p) (publish_position env p))) (\<lambda>_.
     efor previous (\<lambda>(k, q). ewhen (\<not> dict_has current k) (publish_position env (closed_leg now (snd k) q)))))))"

subsection \<open>Balances\<close>

definition build_balance :: "mt5_account \<Rightarrow> instant \<Rightarrow> balance result" where
  "build_balance a now =
     balance_post_init
       \<lparr>ba_currency = ac_currency a, ba_free = dsub (ac_balance a) (ac_margin a), ba_used = ac_margin a,
        ba_total = ac_balance a, ba_updated_at = now\<rparr>"

definition BALANCE_FETCH_RETRIES :: nat where
  "BALANCE_FETCH_RETRIES = 3"

definition read_balance :: "'v menv \<Rightarrow> ('v, balance option) mop" where
  "read_balance env =
     ebind (mcall (xt_account_info (me_terminal env))) (\<lambda>r.
     (case r of
        None \<Rightarrow> eret None
      | Some a \<Rightarrow> ebind (mt5_now env) (\<lambda>now. ebind (elift (build_balance a now)) (\<lambda>b. eret (Some b)))))"

fun balance_attempts :: "'v menv \<Rightarrow> nat \<Rightarrow> ('v, balance option) mop" where
  "balance_attempts env 0 = eret None"
| "balance_attempts env (Suc n) =
     ebind (read_balance env) (\<lambda>b.
     (case b of
        Some x \<Rightarrow> ebind (eupd (\<lambda>w. w\<lparr>mw_balance := Some x\<rparr>)) (\<lambda>_. eret (Some x))
      | None \<Rightarrow> ebind (mt5_sleep env (1 / 10)) (\<lambda>_. balance_attempts env n)))"

definition mt5_fetch_balances :: "'v menv \<Rightarrow> ('v, (string, balance) dict) mop" where
  "mt5_fetch_balances env =
     ebind (get_mt5 env) (\<lambda>_.
     ebind (balance_attempts env BALANCE_FETCH_RETRIES) (\<lambda>b.
     (case b of
        Some x \<Rightarrow> eret [(ba_currency x, x)]
      | None \<Rightarrow>
          ebind (eget mw_balance) (\<lambda>kept.
          (case kept of
             Some x \<Rightarrow> eret [(ba_currency x, x)]
           | None \<Rightarrow> mt5_fail env ''account_info() returned None'')))))"

definition same_amounts :: "balance option \<Rightarrow> balance \<Rightarrow> bool" where
  "same_amounts previous b =
     (case previous of
        None \<Rightarrow> False
      | Some l \<Rightarrow> ba_currency l = ba_currency b \<and> ba_free l = ba_free b \<and> ba_used l = ba_used b \<and> ba_total l = ba_total b)"

definition process_balance :: "'v menv \<Rightarrow> mt5_account \<Rightarrow> instant \<Rightarrow> ('v, unit) mop" where
  "process_balance env a now =
     ebind (elift (build_balance a now)) (\<lambda>b.
     ebind (eget mw_balance) (\<lambda>kept.
     ebind (eupd (\<lambda>w. w\<lparr>mw_balance := Some b\<rparr>)) (\<lambda>_.
     ewhen (\<not> same_amounts kept b) (mt5_emit env None (BalanceUpdateEvent b)))))"

definition maybe_process_balance :: "'v menv \<Rightarrow> mt5_account \<Rightarrow> instant \<Rightarrow> ('v, unit) mop" where
  "maybe_process_balance env a now =
     ewhen (xc_balance_poll (me_config env))
       (ebind (mside (xt_monotonic (me_terminal env))) (\<lambda>t.
        ebind (eget mw_balance_poll) (\<lambda>kept.
        ewhen (\<not> t - kept < xc_balance_interval (me_config env))
          (ebind (mside (xt_monotonic (me_terminal env))) (\<lambda>t'.
           ebind (eupd (\<lambda>w. w\<lparr>mw_balance_poll := t'\<rparr>)) (\<lambda>_.
           process_balance env a now))))))"

subsection \<open>Open orders\<close>

definition client_of_comment :: "string option \<Rightarrow> string option" where
  \<comment> \<open>\<^verbatim>\<open>decode_comment(c) or ...\<close>\<close>
  "client_of_comment c = (case decode_comment c of Some s \<Rightarrow> text_or_none s | None \<Rightarrow> None)"

fun collect_open_orders ::
    "(int option, string) dict \<Rightarrow> int \<Rightarrow> (string, instrument) dict \<Rightarrow> mt5_order list \<Rightarrow> (string, order_record) dict
     \<Rightarrow> (string, order_record) dict result" where
  "collect_open_orders clients offset instruments [] d = Inr d"
| "collect_open_orders clients offset instruments (r # rs) d =
     (case dict_get instruments (xo_symbol r) of
        None \<Rightarrow> collect_open_orders clients offset instruments rs d
      | Some i \<Rightarrow>
          (let client = (case client_of_comment (xo_comment r) of Some c \<Rightarrow> c | None \<Rightarrow> text_of (dict_get clients (xo_ticket r))) in
           rbind (build_order_record r client i offset) (\<lambda>x.
           collect_open_orders clients offset instruments rs
             (dict_set (or_text (or_client_id x) (text_of (or_platform_id x))) x d))))"

definition mt5_fetch_open_orders :: "'v menv \<Rightarrow> ('v, (string, order_record) dict) mop" where
  "mt5_fetch_open_orders env =
     ebind (get_mt5 env) (\<lambda>_.
     ebind (mcall (xt_orders_get (me_terminal env) None)) (\<lambda>r.
     ebind (check_call_result env ''orders_get'' r) (\<lambda>rs.
     ebind (server_time_offset_seconds env []) (\<lambda>_.
     ebind (resolve_poll_instruments env (map xo_symbol rs) []) (\<lambda>instruments.
     ebind (eget (\<lambda>w. collect_open_orders (mw_clients w) (mw_offset w) instruments rs [])) elift)))))"

definition process_orders :: "mt5_order list \<Rightarrow> ('v, unit) mop" where
  "process_orders rs = eupd (\<lambda>w. w\<lparr>mw_orders := foldl (\<lambda>d r. dict_set (xo_ticket r) r d) [] rs\<rparr>)"

subsection \<open>Fills\<close>

definition DEAL_REASON_TO_FILL_REASON :: "(int, fill_reason) dict" where
  "DEAL_REASON_TO_FILL_REASON =
     [(0, FR_CLIENT), (1, FR_CLIENT), (2, FR_CLIENT), (3, FR_EXPERT), (4, FR_STOP_LOSS), (5, FR_TAKE_PROFIT),
      (6, FR_STOP_OUT), (7, FR_ROLLOVER), (8, FR_MARGIN), (9, FR_SPLIT)]"

definition DEAL_ENTRY_TO_FILL_ENTRY :: "(int, fill_entry) dict" where
  "DEAL_ENTRY_TO_FILL_ENTRY = [(0, FE_IN), (1, FE_OUT), (2, FE_INOUT), (3, FE_OUT_BY)]"

definition known_or :: "(int, 'a) dict \<Rightarrow> 'a \<Rightarrow> int option \<Rightarrow> 'a option" where
  \<comment> \<open>\<^verbatim>\<open>d.get(code, unknown) if code is not None else None\<close>\<close>
  "known_or d unknown code =
     (case code of None \<Rightarrow> None | Some n \<Rightarrow> (case dict_get d n of Some x \<Rightarrow> Some x | None \<Rightarrow> Some unknown))"

definition deal_client :: "(int option, string) dict \<Rightarrow> mt5_deal \<Rightarrow> string" where
  "deal_client clients d =
     (case client_of_comment (xd_comment d) of
        Some c \<Rightarrow> c
      | None \<Rightarrow>
          or_text (text_of (dict_get clients (Some (xd_order d))))
            (or_text (text_of (dict_get clients (Some (xd_ticket d)))) (text_of (dict_get clients (Some (xd_position d))))))"

definition mt5_fill ::
    "(int option, string) dict \<Rightarrow> int \<Rightarrow> string \<Rightarrow> instrument \<Rightarrow> mt5_deal \<Rightarrow> fill_record result" where
  "mt5_fill clients offset currency i d =
     (let client = deal_client clients d; fee = dadd (xd_commission d) (xd_fee d) in
      rbind (from_mt5_epoch (xd_time d) offset) (\<lambda>t.
      fill_post_init
        \<lparr>fl_client_id = client, fl_fill_id = int_text (xd_ticket d), fl_instrument = i, fl_quantity = xd_volume d,
         fl_price = xd_price d, fl_timestamp = t, fl_fee_currency = (if fee \<noteq> 0 then Some currency else None),
         fl_fee_amount = (if fee \<noteq> 0 then Some fee else None), fl_correlation_id = client,
         fl_position_id = (if xd_position d \<noteq> 0 then Some (int_text (xd_position d)) else None),
         fl_reason = known_or DEAL_REASON_TO_FILL_REASON FR_UNKNOWN (xd_reason d),
         fl_entry = known_or DEAL_ENTRY_TO_FILL_ENTRY FE_UNKNOWN (xd_entry d)\<rparr>))"

definition build_fill :: "string \<Rightarrow> instrument \<Rightarrow> mt5_deal \<Rightarrow> ('v, fill_record) mop" where
  "build_fill currency i d = ebind (eget (\<lambda>w. mt5_fill (mw_clients w) (mw_offset w) currency i d)) elift"

definition trade_deal :: "(string, instrument) dict \<Rightarrow> mt5_deal \<Rightarrow> bool" where
  \<comment> \<open>a purchase or a sale, of a known symbol, with an amount and a price\<close>
  "trade_deal instruments d \<longleftrightarrow>
     xd_type d \<in> {0, 1} \<and> dict_has instruments (xd_symbol d) \<and> 0 < xd_volume d \<and> 0 < xd_price d"

fun collect_fills ::
    "string \<Rightarrow> (string, instrument) dict \<Rightarrow> mt5_deal list \<Rightarrow> (string, fill_record list) dict
     \<Rightarrow> ('v, (string, fill_record list) dict) mop" where
  "collect_fills currency instruments [] acc = eret acc"
| "collect_fills currency instruments (d # ds) acc =
     (case dict_get instruments (xd_symbol d) of
        Some i \<Rightarrow>
          if trade_deal instruments d
          then ebind (build_fill currency i d) (\<lambda>f.
               collect_fills currency instruments ds
                 (dict_set (fl_client_id f) ((case dict_get acc (fl_client_id f) of None \<Rightarrow> [] | Some fs \<Rightarrow> fs) @ [f]) acc))
          else collect_fills currency instruments ds acc
      | None \<Rightarrow> collect_fills currency instruments ds acc)"

definition mt5_fetch_fills :: "'v menv \<Rightarrow> instant option \<Rightarrow> ('v, (string, fill_record list) dict) mop" where
  "mt5_fetch_fills env since =
     ebind (get_mt5 env) (\<lambda>_.
     ebind (mcall (xt_account_info (me_terminal env))) (\<lambda>r.
     ebind (check_call_result env ''account_info'' r) (\<lambda>account.
     ebind (mt5_now env) (\<lambda>now.
     ebind (server_deal_window env now since [] (if since \<noteq> None then 0 else DEAL_QUERY_BACKLOG_SECONDS)) (\<lambda>(start, stop).
     ebind (mcall (xt_deals_get (me_terminal env) start stop)) (\<lambda>q.
     ebind (check_call_result env ''history_deals_get'' q) (\<lambda>ds.
     ebind (resolve_poll_instruments env [] (map xd_symbol ds)) (\<lambda>instruments.
     collect_fills (ac_currency account) instruments ds []))))))))"

definition new_deal :: "'v mworld \<Rightarrow> mt5_deal \<Rightarrow> bool" where
  \<comment> \<open>not older than the time baseline and beyond the last ticket reported\<close>
  "new_deal w d \<longleftrightarrow>
     (case mw_deal_time w of None \<Rightarrow> True | Some t \<Rightarrow> t \<le> xd_time d) \<and> mw_deal_ticket w < xd_ticket d"

definition commit_deal :: "mt5_deal \<Rightarrow> 'v mworld \<Rightarrow> 'v mworld" where
  "commit_deal d w =
     w\<lparr>mw_deal_ticket := (if mw_deal_ticket w < xd_ticket d then xd_ticket d else mw_deal_ticket w),
       mw_deal_time := (case mw_deal_time w of
                          None \<Rightarrow> Some (xd_time d)
                        | Some t \<Rightarrow> if t < xd_time d then Some (xd_time d) else Some t)\<rparr>"

definition process_deal :: "'v menv \<Rightarrow> string \<Rightarrow> (string, instrument) dict \<Rightarrow> mt5_deal \<Rightarrow> ('v, unit) mop" where
  "process_deal env currency instruments d =
     ebind (eget (\<lambda>w. new_deal w d)) (\<lambda>new.
     (case dict_get instruments (xd_symbol d) of
        Some i \<Rightarrow>
          if new \<and> trade_deal instruments d
          then
            ebind (build_fill currency i d) (\<lambda>f.
            ebind (mt5_emit env (Some (fl_correlation_id f)) (FillEvent f)) (\<lambda>_.
            eupd (commit_deal d)))
          else eret ()
      | None \<Rightarrow> eret ()))"

definition process_fills :: "'v menv \<Rightarrow> string \<Rightarrow> (string, instrument) dict \<Rightarrow> mt5_deal list \<Rightarrow> ('v, unit) mop" where
  "process_fills env currency instruments ds = efor ds (process_deal env currency instruments)"

subsection \<open>A cycle\<close>

definition reset_account_state :: "('v, unit) mop" where
  "reset_account_state =
     eupd (\<lambda>w. w\<lparr>mw_orders := [], mw_positions := [], mw_balance := None, mw_deal_time := None, mw_deal_ticket := 0,
       mw_instruments := [], mw_failed := {}, mw_selected := {}, mw_specs := [], mw_offset := 0, mw_measured := False,
       mw_tickets := [], mw_clients := []\<rparr>)"

definition detect_account_change :: "'v menv \<Rightarrow> mt5_account \<Rightarrow> ('v, unit) mop" where
  "detect_account_change env a =
     ebind (eget mw_login) (\<lambda>login.
     (case login of
        None \<Rightarrow> eret ()
      | Some n \<Rightarrow>
          if ac_login a = n then eret ()
          else
            ebind reset_account_state (\<lambda>_.
            ebind (mt5_id env) (\<lambda>i.
            ebind (mt5_now env) (\<lambda>now.
            ebind (mt5_publish \<lparr>ev_id = i, ev_time = now, ev_adapter = ''metatrader'', ev_account = int_text n,
                     ev_correlation = None,
                     ev_body = AccountChangedEvent ''MT5 account changed mid-session'' (Some (int_text (ac_login a)))\<rparr>) (\<lambda>_.
            eraise AccountChangedError ''MT5 account changed mid-session''))))))"

record snapshot =
  ss_orders :: "mt5_order list"
  ss_positions :: "mt5_position list"
  ss_account :: mt5_account
  ss_deals :: "mt5_deal list"
  ss_instruments :: "(string, instrument) dict"
  ss_now :: instant

definition fetch_snapshot :: "'v menv \<Rightarrow> ('v, snapshot) mop" where
  "fetch_snapshot env =
     ebind (mt5_now env) (\<lambda>now.
     ebind (mcall (xt_orders_get (me_terminal env) None)) (\<lambda>r.
     ebind (check_call_result env ''orders_get'' r) (\<lambda>orders.
     ebind (mcall (xt_positions_get (me_terminal env) None)) (\<lambda>r.
     ebind (check_call_result env ''positions_get'' r) (\<lambda>positions.
     ebind (mcall (xt_account_info (me_terminal env))) (\<lambda>r.
     ebind (check_call_result env ''account_info'' r) (\<lambda>account.
     ebind (server_deal_window env now None (string_set env (map xo_symbol orders @ map xp_symbol positions))
              DEAL_QUERY_BACKLOG_SECONDS) (\<lambda>(start, stop).
     ebind (mcall (xt_deals_get (me_terminal env) start stop)) (\<lambda>r.
     ebind (check_call_result env ''history_deals_get'' r) (\<lambda>deals.
     ebind (resolve_poll_instruments env (map xp_symbol positions) (map xd_symbol deals)) (\<lambda>instruments.
     eret \<lparr>ss_orders = orders, ss_positions = positions, ss_account = account, ss_deals = deals,
           ss_instruments = instruments, ss_now = now\<rparr>)))))))))))"

definition poll_once :: "'v menv \<Rightarrow> ('v, unit) mop" where
  "poll_once env =
     ebind (get_mt5 env) (\<lambda>_.
     ebind (fetch_snapshot env) (\<lambda>s.
     ebind (detect_account_change env (ss_account s)) (\<lambda>_.
     ebind (process_orders (ss_orders s)) (\<lambda>_.
     ebind (process_positions env (ss_positions s) (ss_instruments s) (ss_now s)) (\<lambda>_.
     ebind (maybe_process_balance env (ss_account s) (ss_now s)) (\<lambda>_.
     process_fills env (ac_currency (ss_account s)) (ss_instruments s) (ss_deals s)))))))"

definition teardown_after_account_change :: "'v menv \<Rightarrow> ('v, unit) mop" where
  "teardown_after_account_change env = close_terminal env"

definition poll_turn :: "'v menv \<Rightarrow> ('v, unit) mop" where
  \<comment> \<open>one turn of the polling task; an exception out of the teardown ends the task too\<close>
  "poll_turn env =
     ebind (eget (\<lambda>w. mw_poll w)) (\<lambda>runs.
     ewhen runs
       (ebind (eget mw_connected) (\<lambda>up.
        if \<not> up then eupd (\<lambda>w. w\<lparr>mw_poll := False\<rparr>)
        else
          ebind (eattempt (poll_once env)) (\<lambda>outcome.
          (case outcome of
             Inl e \<Rightarrow>
               if exn_is (exn_cls e) AccountChangedError
               then ebind (eupd (\<lambda>w. w\<lparr>mw_poll := False\<rparr>)) (\<lambda>_. teardown_after_account_change env)
               else mt5_sleep env (xc_poll_interval (me_config env))
           | Inr _ \<Rightarrow> mt5_sleep env (xc_poll_interval (me_config env)))))))"

subsection \<open>The adapter\<close>

definition mt5_adapter :: "'v menv \<Rightarrow> string \<Rightarrow> 'v mworld adapter" where
  \<comment> \<open>\<open>account\<close> is the login the adapter reports; what it does not implement is as in the base class\<close>
  "mt5_adapter env account =
     \<lparr>ad_platform = ''metatrader'', ad_account = account, ad_is_connected = mw_connected,
      ad_connect = mt5_connect env, ad_disconnect = mt5_disconnect env, ad_order_types = mt5_order_types,
      ad_place_order = mt5_place_order env, ad_modify_order = mt5_modify_order env,
      ad_cancel_order = mt5_cancel_order env, ad_get_order = mt5_get_order env,
      ad_fetch_spec = mt5_fetch_spec env, ad_protection_cap = mt5_protection_capability,
      ad_trailing_cap = (\<lambda>_. default_trailing_capability), ad_market_cap = mt5_market_capability,
      ad_rate_limits = mt5_get_rate_limits env, ad_fetch_ticker = mt5_fetch_ticker env,
      ad_fetch_candles = mt5_fetch_candles env, ad_modify_tpsl = mt5_modify_tpsl env,
      ad_get_tpsl = mt5_get_tpsl env, ad_clear_tpsl = mt5_clear_tpsl env,
      ad_place_trailing = (\<lambda>_. eraise PyNotImplementedError []), ad_cancel_trailing = (\<lambda>_ _. eraise PyNotImplementedError []),
      ad_get_trailing = (\<lambda>_ _. eraise PyNotImplementedError []), ad_get_position_trailing = (\<lambda>_ _. eraise PyNotImplementedError []),
      ad_fetch_positions = mt5_fetch_positions env, ad_fetch_balances = mt5_fetch_balances env,
      ad_fetch_open_orders = mt5_fetch_open_orders env, ad_fetch_fills = mt5_fetch_fills env,
      ad_reconcile_intent = eret ()\<rparr>"

end
