(* ===== verification/UTE_MT5_Desk.thy ===== *)
theory UTE_MT5_Desk
  imports UTE_MT5_Polling UTE_Wp
begin

text \<open>
  What the operations of the MetaTrader adapter keep. A predicate on the adapter's world that survives the
  calls of the terminal and the updates the adapter makes survives every operation: \<open>mt5_books\<close> covers the
  operations that only read from the terminal, \<open>mt5_desk\<close> those that send requests too, \<open>mt5_polling\<close>
  a cycle of the polling task and \<open>mt5_session\<close> the connection. The operations are walked through once, here.
\<close>

subsection \<open>Calls that send nothing\<close>

inductive reading :: "'v terminal \<Rightarrow> 'v \<Rightarrow> 'v \<Rightarrow> bool" for t :: "'v terminal" where
  "reading t v (snd (xt_initialize t a b c d v))"
| "reading t v (snd (xt_shutdown t v))"
| "reading t v (snd (xt_last_error t v))"
| "reading t v (snd (xt_account_info t v))"
| "reading t v (snd (xt_orders_get t n v))"
| "reading t v (snd (xt_positions_get t n v))"
| "reading t v (snd (xt_deals_get t i j v))"
| "reading t v (snd (xt_symbols_get t p v))"
| "reading t v (snd (xt_symbol_info t s v))"
| "reading t v (snd (xt_tick t s v))"
| "reading t v (snd (xt_select t s v))"
| "reading t v (snd (xt_rates t s i j v))"
| "reading t v (snd (xt_store_fault t v))"
| "reading t v (snd (xt_clock t v))"
| "reading t v (snd (xt_monotonic t v))"
| "reading t v (snd (xt_new_id t v))"
| "reading t v (xt_sleep t r v)"

locale mt5_books =
  fixes env :: "'v menv" and I :: "'v mworld \<Rightarrow> bool"
  assumes asked: "I w \<Longrightarrow> reading (me_terminal env) (mw_venue w) v \<Longrightarrow> I (w\<lparr>mw_venue := v\<rparr>)"
    and registered: "I w \<Longrightarrow> in_platform_symbol i = Some s \<Longrightarrow> I (w\<lparr>mw_instruments := dict_set s i (mw_instruments w)\<rparr>)"
    and failed: "I w \<Longrightarrow> I (w\<lparr>mw_failed := ss\<rparr>)"
    and selected: "I w \<Longrightarrow> I (w\<lparr>mw_selected := ss\<rparr>)"
    and specified: "I w \<Longrightarrow> I (w\<lparr>mw_specs := sp\<rparr>)"
    and measured: "I w \<Longrightarrow> I (w\<lparr>mw_offset := n, mw_measured := True\<rparr>)"
    and anchored: "I w \<Longrightarrow> mw_deal_time w = None \<Longrightarrow> I (w\<lparr>mw_deal_time := Some n\<rparr>)"
    and mapped: "I w \<Longrightarrow> I (w\<lparr>mw_tickets := a, mw_clients := b\<rparr>)"
    and balanced: "I w \<Longrightarrow> I (w\<lparr>mw_balance := bal\<rparr>)"
    and stored: "I w \<Longrightarrow> I (w\<lparr>mw_store := st\<rparr>)"
begin

lemma safe_side: "(\<And>v. reading (me_terminal env) v (snd (f v))) \<Longrightarrow> safe I (mside f) (\<lambda>_. True)"
  by (simp add: safe_def mside_def case_prod_beta asked)

lemma safe_call: "(\<And>v. reading (me_terminal env) v (snd (f v))) \<Longrightarrow> safe I (mcall f) (\<lambda>_. True)"
  by (simp add: safe_def mcall_def case_prod_beta asked split: sum.splits)

lemma safe_sleep: "safe I (mt5_sleep env t) (\<lambda>_. True)"
  unfolding mt5_sleep_def by (rule safe_eupd) (rule asked, assumption, rule reading.intros)

lemma safe_now: "safe I (mt5_now env) (\<lambda>_. True)"
  unfolding mt5_now_def by (rule safe_side) (rule reading.intros)

lemma safe_id: "safe I (mt5_id env) (\<lambda>_. True)"
  unfolding mt5_id_def by (rule safe_side) (rule reading.intros)

lemma safe_import: "safe I (get_mt5 env) (\<lambda>_. True)"
  unfolding get_mt5_def by (rule safe_eguarded)

lemma safe_last_error: "safe I (mside (xt_last_error (me_terminal env))) (\<lambda>_. True)"
  by (rule safe_side) (rule reading.intros)

lemmas safe_sides = safe_now [THEN safe_bind_any] safe_id [THEN safe_bind_any] safe_import [THEN safe_bind_any]
  safe_last_error [THEN safe_bind_any] safe_sleep [THEN safe_bind_any]

lemma safe_fail: "safe I (mt5_fail env s) Q"
  unfolding mt5_fail_def by (intro safe_walk safe_sides safe_case_prod safe_eraise)

lemma safe_checked: "safe I (check_call_result env s r) (\<lambda>_. True)"
  unfolding check_call_result_def by (intro safe_walk safe_sides safe_fail TrueI)

lemma safe_orders: "safe I (mcall (xt_orders_get (me_terminal env) n)) (\<lambda>_. True)"
  and safe_positions: "safe I (mcall (xt_positions_get (me_terminal env) n)) (\<lambda>_. True)"
  and safe_deals: "safe I (mcall (xt_deals_get (me_terminal env) i j)) (\<lambda>_. True)"
  and safe_account: "safe I (mcall (xt_account_info (me_terminal env))) (\<lambda>_. True)"
  and safe_symbols: "safe I (mcall (xt_symbols_get (me_terminal env) p)) (\<lambda>_. True)"
  and safe_info: "safe I (mcall (xt_symbol_info (me_terminal env) s)) (\<lambda>_. True)"
  and safe_tick: "safe I (mcall (xt_tick (me_terminal env) s)) (\<lambda>_. True)"
  and safe_select: "safe I (mcall (xt_select (me_terminal env) s)) (\<lambda>_. True)"
  and safe_rates: "safe I (mcall (xt_rates (me_terminal env) s i j)) (\<lambda>_. True)"
  by (rule safe_call, rule reading.intros)+

lemmas safe_calls = safe_orders [THEN safe_bind_any] safe_positions [THEN safe_bind_any] safe_deals [THEN safe_bind_any]
  safe_account [THEN safe_bind_any] safe_symbols [THEN safe_bind_any] safe_info [THEN safe_bind_any]
  safe_tick [THEN safe_bind_any] safe_select [THEN safe_bind_any] safe_rates [THEN safe_bind_any] safe_checked [THEN safe_bind_any]

lemmas safe_steps = safe_walk safe_sides safe_calls safe_case_list safe_elifted safe_eguarded safe_egot safe_fail TrueI

subsection \<open>Symbols and instruments\<close>

lemma safe_register: "in_platform_symbol i = Some s \<Longrightarrow> safe I (eupd (\<lambda>w. w\<lparr>mw_instruments := dict_set s i (mw_instruments w)\<rparr>)) (\<lambda>_. True)"
  by (rule safe_eupd) (rule registered)

lemma safe_record_symbol: "safe I (record_symbol_mapping i) (\<lambda>_. True)"
  unfolding record_symbol_mapping_def
  by (cases "in_platform_symbol i") (auto intro!: safe_eret safe_eupd registered)

lemma safe_resolve_symbol: "safe I (resolve_mt5_symbol i) (\<lambda>s. in_platform_symbol i = Some s)"
  unfolding resolve_mt5_symbol_def
  by (rule safe_bind_any [OF safe_record_symbol], rule safe_weaken [OF safe_elift])
    (auto simp: to_mt5_symbol_def split: option.splits)

lemma safe_forget: "safe I (invalidate_spec_cache i) (\<lambda>_. True)"
  unfolding invalidate_spec_cache_def by (rule safe_eupd) (rule specified)

lemma safe_exists: "safe I (symbol_exists env s) (\<lambda>_. True)"
  unfolding symbol_exists_def by (intro safe_etry safe_steps)

lemma safe_fail_symbol: "safe I (eupd (\<lambda>w. w\<lparr>mw_failed := insert s (mw_failed w)\<rparr>)) (\<lambda>_. True)"
  by (rule safe_eupd) (rule failed)

lemma safe_unavailable: "safe I (unavailable env s m) Q"
  unfolding unavailable_def
  by (intro safe_sides safe_case_prod safe_exists [THEN safe_bind_any] safe_if safe_fail_symbol [THEN safe_bind_any] safe_eraise)

lemma safe_ensure: "safe I (ensure_symbol_selected env s) (\<lambda>_. True)"
  unfolding ensure_symbol_selected_def
  by (intro safe_steps safe_unavailable safe_eupd selected)

lemma instrument_post_init_platform: "instrument_post_init i = Inr j \<Longrightarrow> in_platform_symbol j = in_platform_symbol i"
  by (auto simp: instrument_post_init_Inr instrument_normalise_def)

lemma instrument_from_info_platform: "instrument_from_info c s x = Inr i \<Longrightarrow> in_platform_symbol i = Some s"
  unfolding instrument_from_info_def Let_def plain_instrument_def
  by (auto simp: rbind_eq_Inr dest!: instrument_post_init_platform split: if_splits prod.splits)

lemma safe_resolve: "safe I (mt5_resolve_instrument env s) (\<lambda>_. True)"
  unfolding mt5_resolve_instrument_def
  by (intro safe_steps safe_ensure [THEN safe_bind_any] safe_register [THEN safe_bind_any])
    (auto dest: instrument_from_info_platform)

lemma safe_poll_instrument: "safe I (poll_instrument env s d) (\<lambda>_. True)"
  unfolding poll_instrument_def
  by (intro safe_etry safe_steps safe_resolve [THEN safe_bind_any] safe_fail_symbol [THEN safe_bind_any] safe_eraise)

lemma safe_instruments: "safe I (resolve_poll_instruments env ps ds) (\<lambda>_. True)"
proof -
  have "safe I (poll_instruments env ss d) (\<lambda>_. True)" for ss d
    by (induction ss arbitrary: d) (auto intro!: safe_eret safe_bind_any [OF safe_poll_instrument])
  then show ?thesis unfolding resolve_poll_instruments_def .
qed

subsection \<open>Times\<close>

lemma safe_probe: "safe I (probe_offset env ss best) (\<lambda>_. True)"
  by (induction ss arbitrary: best) (auto simp: Let_def intro!: safe_steps)

lemma safe_offset: "safe I (server_time_offset_seconds env ss) (\<lambda>_. True)"
proof -
  have "safe I (if ss \<noteq> [] then eret ss
      else ebind (mcall (xt_symbols_get (me_terminal env) None)) (\<lambda>r.
           eret (take MAX_OFFSET_PROBE_SYMBOLS (case r of None \<Rightarrow> [] | Some ss \<Rightarrow> ss)))) (\<lambda>_. True)"
    by (intro safe_steps)
  moreover have "safe I (case best of None \<Rightarrow> eret ()
      | Some (_, offset) \<Rightarrow> eupd (\<lambda>w. w\<lparr>mw_offset := offset, mw_measured := True\<rparr>)) (\<lambda>_. True)"
    for best :: "(int \<times> int) option"
    by (cases best) (auto intro!: safe_eret safe_eupd measured)
  ultimately show ?thesis
    unfolding server_time_offset_seconds_def
    by (intro safe_bind_any [OF _ safe_bind_any [OF safe_probe safe_bind_any]] safe_egot)
qed

lemma safe_window: "safe I (server_deal_window env t from ss b) (\<lambda>_. True)"
proof -
  have a: "safe I (eupd (\<lambda>w. if mw_deal_time w = None then w\<lparr>mw_deal_time := Some n\<rparr> else w)) (\<lambda>_. True)" for n
    by (rule safe_eupd) (simp add: anchored)
  have c: "safe I (case from of Some t \<Rightarrow> eret (f t) | None \<Rightarrow> ebind (eupd (\<lambda>w. if mw_deal_time w = None then
      w\<lparr>mw_deal_time := Some n\<rparr> else w)) (\<lambda>_. eget g)) (\<lambda>_. True)" for f :: "int \<Rightarrow> int" and n g
    by (cases "from") (simp_all add: safe_eret safe_bind_any [OF a safe_egot])
  show ?thesis
    unfolding server_deal_window_def
    by (rule safe_bind_any [OF safe_offset], rule safe_bind_any [OF c], rule safe_eret, rule TrueI)
qed

subsection \<open>Reading\<close>

lemma safe_wait_tick: "safe I (wait_for_market_tick env s n) (\<lambda>_. True)"
  by (induction n) (auto intro!: safe_steps)

lemma safe_symbol_info: "safe I (fetch_symbol_info env s) (\<lambda>_. True)"
  unfolding fetch_symbol_info_def
  by (intro safe_ensure [THEN safe_bind_any] safe_steps safe_unavailable)

lemma safe_fetch_spec: "safe I (mt5_fetch_spec env i) (\<lambda>_. True)"
proof -
  have c: "safe I (mt5_cached_spec env i) (\<lambda>_. True)"
    unfolding mt5_cached_spec_def by (intro safe_steps safe_forget [THEN safe_bind_any] safe_case_prod)
  have u: "safe I (eupd (\<lambda>w. w\<lparr>mw_specs := f w\<rparr>)) (\<lambda>_. True)" for f
    by (rule safe_eupd) (rule specified)
  show ?thesis
    unfolding mt5_fetch_spec_def
    by (intro safe_bind_any [OF c] safe_steps safe_bind_any [OF safe_resolve_symbol [THEN safe_any]]
        safe_ensure [THEN safe_bind_any] u [THEN safe_bind_any] safe_eraise)
qed

lemma safe_ticker: "safe I (mt5_fetch_ticker env i) (\<lambda>_. True)"
  unfolding mt5_fetch_ticker_def
  by (intro safe_steps safe_bind_any [OF safe_resolve_symbol [THEN safe_any]] safe_ensure [THEN safe_bind_any]
      safe_wait_tick [THEN safe_bind_any])

lemma safe_candles: "safe I (mt5_fetch_candles env i tf n) (\<lambda>_. True)"
  unfolding mt5_fetch_candles_def Let_def
  by (intro safe_steps safe_bind_any [OF safe_resolve_symbol [THEN safe_any]] safe_ensure [THEN safe_bind_any]
      safe_offset [THEN safe_bind_any])

lemma safe_limits: "safe I (mt5_get_rate_limits env) (\<lambda>_. True)"
  unfolding mt5_get_rate_limits_def by (intro safe_steps)

lemma safe_discover: "safe I (mt5_resolve env s) (\<lambda>_. True)"
  unfolding mt5_resolve_def by (intro safe_steps safe_resolve)

lemma safe_leverage: "safe I (mt5_account_leverage env) (\<lambda>_. True)"
  unfolding mt5_account_leverage_def by (intro safe_steps)

lemma safe_get_order: "safe I (mt5_get_order env c) (\<lambda>_. True)"
  unfolding mt5_get_order_def
  by (intro safe_steps safe_offset [THEN safe_bind_any] safe_case_prod safe_eraise)

lemma safe_read_tpsl: "safe I (read_position_tpsl env p) (\<lambda>_. True)"
  unfolding read_position_tpsl_def by (intro safe_steps)

lemma safe_get_tpsl: "safe I (mt5_get_tpsl env i p) (\<lambda>_. True)"
  unfolding mt5_get_tpsl_def by (intro safe_steps safe_read_tpsl [THEN safe_bind_any] safe_case_prod)

lemma safe_legs: "safe I (current_legs is ps now) (\<lambda>_. True)"
  unfolding current_legs_def by (intro safe_steps)

lemma safe_fetch_positions: "safe I (mt5_fetch_positions env) (\<lambda>_. True)"
  unfolding mt5_fetch_positions_def Let_def
  by (intro safe_steps safe_bind_any [OF safe_if] safe_offset [THEN safe_bind_any] safe_instruments [THEN safe_bind_any]
      safe_legs [THEN safe_bind_any])

lemma safe_keep_balance: "safe I (eupd (\<lambda>w. w\<lparr>mw_balance := b\<rparr>)) (\<lambda>_. True)"
  by (rule safe_eupd) (rule balanced)

lemma safe_fetch_balances: "safe I (mt5_fetch_balances env) (\<lambda>_. True)"
proof -
  have r: "safe I (read_balance env) (\<lambda>_. True)" unfolding read_balance_def by (intro safe_steps)
  have a: "safe I (balance_attempts env n) (\<lambda>_. True)" for n
    by (induction n) (auto intro!: safe_bind_any [OF r] safe_steps safe_keep_balance [THEN safe_bind_any])
  show ?thesis unfolding mt5_fetch_balances_def by (intro safe_steps safe_bind_any [OF a])
qed

lemma safe_fetch_open_orders: "safe I (mt5_fetch_open_orders env) (\<lambda>_. True)"
  unfolding mt5_fetch_open_orders_def
  by (intro safe_steps safe_offset [THEN safe_bind_any] safe_instruments [THEN safe_bind_any])

lemma safe_build_fill: "safe I (build_fill c i d) (\<lambda>_. True)"
  unfolding build_fill_def by (intro safe_steps)

lemma safe_fetch_fills: "safe I (mt5_fetch_fills env t) (\<lambda>_. True)"
proof -
  have "safe I (collect_fills c is ds acc) (\<lambda>_. True)" for c "is" ds acc
    by (induction ds arbitrary: acc) (auto intro!: safe_steps safe_build_fill [THEN safe_bind_any])
  then show ?thesis
    unfolding mt5_fetch_fills_def
    by (intro safe_steps safe_window [THEN safe_bind_any] safe_case_prod safe_instruments [THEN safe_bind_any])
qed

subsection \<open>Recovery\<close>

lemma safe_map: "safe I (record_mapping c t) (\<lambda>_. True)"
  unfolding record_mapping_def by (cases c) (auto intro!: safe_eret safe_eupd mapped)

lemma safe_store: "safe I (mstore env m) (\<lambda>_. True)"
proof -
  have "safe I (mside (xt_store_fault (me_terminal env))) (\<lambda>_. True)"
    by (rule safe_side) (rule reading.intros)
  moreover have "safe I (\<lambda>w. case mw_store w of None \<Rightarrow> (raise_exn PyException ''no state store'', w)
      | Some s \<Rightarrow> (case m s of (r, s') \<Rightarrow> (r, w\<lparr>mw_store := Some s'\<rparr>))) (\<lambda>_. True)"
    by (auto simp: safe_def stored split: option.splits prod.splits sum.splits)
  ultimately show ?thesis
    unfolding mstore_def by (intro safe_bind_any [of I "mside (xt_store_fault (me_terminal env))"] safe_steps safe_eraise)
qed

lemma safe_seed_symbols: "safe I (seed_symbol_mappings env) (\<lambda>_. True)"
  unfolding seed_symbol_mappings_def
  by (intro safe_steps safe_bind_any [OF safe_etry] safe_store safe_bind_any [OF safe_efor] safe_efor safe_record_symbol)

lemma safe_seed_order: "safe I (seed_order r) (\<lambda>_. True)"
  unfolding seed_order_def by (intro safe_steps safe_map)

lemma safe_seed: "safe I (seed_mappings env) (\<lambda>_. True)"
  unfolding seed_mappings_def
  by (intro safe_steps safe_bind_any [OF safe_etry] safe_store safe_efor safe_seed_order)

lemma safe_recover: "safe I (recover_order_mappings env) (\<lambda>_. True)"
proof -
  have "safe I (recent_deals env) (\<lambda>_. True)"
    unfolding recent_deals_def by (intro safe_sides safe_window [THEN safe_bind_any] safe_case_prod safe_deals)
  then show ?thesis
    unfolding recover_order_mappings_def
    by (intro safe_bind_any [OF safe_etry] safe_orders safe_steps safe_bind_any [OF safe_efor] safe_efor safe_map)
qed

subsection \<open>Around a request\<close>

lemma safe_parse: "safe I (parse_mt5_result env r c) (\<lambda>_. True)"
  unfolding parse_mt5_result_def Let_def by (intro safe_steps)

lemma safe_quoted: "safe I (quoted env s u q) (\<lambda>_. True)"
  unfolding quoted_def by (intro safe_steps safe_wait_tick [THEN safe_bind_any])

lemma safe_forgetting: "safe I m Q \<Longrightarrow> safe I (forgetting i m) Q"
  unfolding forgetting_def
  by (intro safe_etry safe_bind_any [OF safe_ewhen] safe_forget safe_eraise)

lemma corrected_platform:
  "corrected_instrument c s x i = Some j \<Longrightarrow> in_platform_symbol j = in_platform_symbol i"
  by (auto simp: corrected_instrument_def dest!: instrument_post_init_platform split: sum.splits if_splits)

lemma safe_correct: "in_platform_symbol (uo_instrument u) = Some s \<Longrightarrow> safe I (correct_order env s x u) (\<lambda>_. True)"
  unfolding correct_order_def
  by (cases "corrected_instrument (me_config env) s x (uo_instrument u)")
    (auto intro!: safe_eret safe_register [THEN safe_bind_any] dest: corrected_platform)

lemma safe_ticket: "safe I (ticket_for_order c) (\<lambda>_. True)"
  unfolding ticket_for_order_def by (intro safe_steps)

lemma safe_remember: "safe I (remember_ticket c r) (\<lambda>_. True)"
  unfolding remember_ticket_def by (cases "re_platform_id r") (auto intro!: safe_steps safe_eupd mapped)

end

subsection \<open>Calls that send requests\<close>

locale mt5_desk = mt5_books +
  assumes sent: "I w \<Longrightarrow> I (w\<lparr>mw_venue := snd (xt_send (me_terminal env) q (mw_venue w))\<rparr>)"
begin

lemma safe_send: "safe I (mt5_send env q) (\<lambda>_. True)"
  by (simp add: safe_def mt5_send_def mcall_def case_prod_beta sent split: sum.splits)

lemma safe_submit: "safe I (submit_order env s c x u) (\<lambda>_. True)"
  unfolding submit_order_def
  by (intro safe_steps safe_offset [THEN safe_bind_any] safe_quoted [THEN safe_bind_any] safe_send [THEN safe_bind_any] safe_parse)

lemma safe_place: "safe I (mt5_place env u) (\<lambda>_. True)"
proof -
  have p: "safe I (placed_result env s c u) (\<lambda>_. True)" if "in_platform_symbol (uo_instrument u) = Some s" for s c
    unfolding placed_result_def
    by (intro safe_bind_any [OF safe_forgetting [OF safe_symbol_info]] safe_bind_any [OF safe_correct [OF that]]
        safe_bind_any [OF safe_forgetting [OF safe_submit]] safe_eret TrueI)
  show ?thesis
    unfolding mt5_place_def
  proof (rule safe_ebind [OF safe_resolve_symbol])
    fix s assume s: "in_platform_symbol (uo_instrument u) = Some s"
    show "safe I (ebind (if text_of (uo_client_id u) \<noteq> [] then eret (text_of (uo_client_id u)) else mt5_id env) (\<lambda>client.
       ebind (get_mt5 env) (\<lambda>_. ebind (placed_result env s client u) (\<lambda>(u', result).
       ebind (remember_ticket client result) (\<lambda>_. eret (u', result)))))) (\<lambda>_. True)"
      by (intro safe_bind_any [OF safe_if] safe_id safe_sides safe_bind_any [OF p [OF s]] safe_case_prod
          safe_bind_any [OF safe_remember] safe_eret TrueI)
  qed
qed

lemma safe_place_order: "safe I (mt5_place_order env u) (\<lambda>_. True)"
  unfolding mt5_place_order_def by (intro safe_bind_any [OF safe_place] safe_case_prod safe_eret TrueI)

lemma safe_modify: "safe I (mt5_modify_order env m) (\<lambda>_. True)"
  unfolding mt5_modify_order_def
  by (intro safe_bind_any [OF safe_ticket] safe_steps safe_send [THEN safe_bind_any] safe_parse)

lemma safe_cancel: "safe I (mt5_cancel_order env c) (\<lambda>_. True)"
  unfolding mt5_cancel_order_def
  by (intro safe_bind_any [OF safe_ticket] safe_steps safe_send [THEN safe_bind_any] safe_parse [THEN safe_bind_any])

lemma safe_levels: "safe I (send_levels env p s a b) (\<lambda>_. True)"
  unfolding send_levels_def by (intro safe_steps safe_send [THEN safe_bind_any] safe_parse [THEN safe_bind_any])

lemma safe_modify_tpsl: "safe I (mt5_modify_tpsl env i p tp sl b) (\<lambda>_. True)"
  unfolding mt5_modify_tpsl_def
  by (intro safe_steps safe_bind_any [OF safe_resolve_symbol [THEN safe_any]] safe_ensure [THEN safe_bind_any]
      safe_bind_any [OF safe_if] safe_read_tpsl [THEN safe_bind_any] safe_levels)

lemma safe_clear_tpsl: "safe I (mt5_clear_tpsl env i p a b) (\<lambda>_. True)"
  unfolding mt5_clear_tpsl_def
  by (intro safe_steps safe_bind_any [OF safe_resolve_symbol [THEN safe_any]] safe_ensure [THEN safe_bind_any]
      safe_read_tpsl [THEN safe_bind_any] safe_levels)

end

subsection \<open>The public calls and the polling task\<close>

datatype mt5_call =
    XC_connect | XC_disconnect | XC_poll | XC_attach_bus | XC_attach_store store
  | XC_place unified_order | XC_modify order_modification | XC_cancel string | XC_get_order string
  | XC_modify_tpsl instrument string "tpsl option" "tpsl option" "trailing_basis option"
  | XC_get_tpsl instrument string | XC_clear_tpsl instrument string bool bool
  | XC_spec instrument | XC_ticker instrument | XC_candles instrument candle_timeframe int
  | XC_limits | XC_resolve string | XC_leverage
  | XC_positions | XC_balances | XC_open_orders | XC_fills "instant option"

definition mute :: "('w, 'a) eff \<Rightarrow> ('w, unit) eff" where
  "mute m = ebind m (\<lambda>_. eret ())"

fun mt5_effect :: "'v menv \<Rightarrow> mt5_call \<Rightarrow> ('v, unit) mop" where
  "mt5_effect env XC_connect = mt5_connect env"
| "mt5_effect env XC_disconnect = mt5_disconnect env"
| "mt5_effect env XC_poll = poll_turn env"
| "mt5_effect env XC_attach_bus = mt5_attach_bus"
| "mt5_effect env (XC_attach_store s) = mt5_attach_store s"
| "mt5_effect env (XC_place u) = mute (mt5_place_order env u)"
| "mt5_effect env (XC_modify m) = mute (mt5_modify_order env m)"
| "mt5_effect env (XC_cancel c) = mute (mt5_cancel_order env c)"
| "mt5_effect env (XC_get_order c) = mute (mt5_get_order env c)"
| "mt5_effect env (XC_modify_tpsl i p tp sl b) = mt5_modify_tpsl env i p tp sl b"
| "mt5_effect env (XC_get_tpsl i p) = mute (mt5_get_tpsl env i p)"
| "mt5_effect env (XC_clear_tpsl i p a b) = mt5_clear_tpsl env i p a b"
| "mt5_effect env (XC_spec i) = mute (mt5_fetch_spec env i)"
| "mt5_effect env (XC_ticker i) = mute (mt5_fetch_ticker env i)"
| "mt5_effect env (XC_candles i tf n) = mute (mt5_fetch_candles env i tf n)"
| "mt5_effect env XC_limits = mute (mt5_get_rate_limits env)"
| "mt5_effect env (XC_resolve s) = mute (mt5_resolve env s)"
| "mt5_effect env XC_leverage = mute (mt5_account_leverage env)"
| "mt5_effect env XC_positions = mute (mt5_fetch_positions env)"
| "mt5_effect env XC_balances = mute (mt5_fetch_balances env)"
| "mt5_effect env XC_open_orders = mute (mt5_fetch_open_orders env)"
| "mt5_effect env (XC_fills t) = mute (mt5_fetch_fills env t)"

definition is_session_call :: "mt5_call \<Rightarrow> bool" where
  \<comment> \<open>the calls that open, close or poll the connection or wire the adapter\<close>
  "is_session_call c \<longleftrightarrow> (case c of XC_connect \<Rightarrow> True | XC_disconnect \<Rightarrow> True | XC_poll \<Rightarrow> True | XC_attach_bus \<Rightarrow> True | _ \<Rightarrow> False)"

definition is_trade_call :: "mt5_call \<Rightarrow> bool" where
  \<comment> \<open>the calls that send a request\<close>
  "is_trade_call c \<longleftrightarrow> (case c of XC_place _ \<Rightarrow> True | XC_modify _ \<Rightarrow> True | XC_cancel _ \<Rightarrow> True | XC_modify_tpsl _ _ _ _ _ \<Rightarrow> True
     | XC_clear_tpsl _ _ _ _ \<Rightarrow> True | _ \<Rightarrow> False)"

definition mt5_run :: "'v menv \<Rightarrow> mt5_call list \<Rightarrow> 'v mworld \<Rightarrow> 'v mworld" where
  \<comment> \<open>calls one after the other, whatever they return or raise\<close>
  "mt5_run env cs w = foldl (\<lambda>w c. snd (mt5_effect env c w)) w cs"

lemma safe_mute: "safe I m (\<lambda>_. True) \<Longrightarrow> safe I (mute m) (\<lambda>_. True)"
  unfolding mute_def by (intro safe_bind_any safe_eret TrueI)

context mt5_books
begin

lemma safe_query: "\<not> is_session_call c \<Longrightarrow> \<not> is_trade_call c \<Longrightarrow> safe I (mt5_effect env c) (\<lambda>_. True)"
  by (cases c)
    (simp_all add: is_session_call_def is_trade_call_def mt5_attach_store_def safe_mute safe_get_order safe_get_tpsl safe_fetch_spec
      safe_ticker safe_candles safe_limits safe_discover safe_leverage safe_fetch_positions safe_fetch_balances
      safe_fetch_open_orders safe_fetch_fills safe_eupd stored)

end

context mt5_desk
begin

lemma safe_plain_call: "\<not> is_session_call c \<Longrightarrow> safe I (mt5_effect env c) (\<lambda>_. True)"
proof (cases "is_trade_call c")
  case True
  then show ?thesis
    by (cases c) (simp_all add: is_trade_call_def safe_mute safe_place_order safe_modify safe_cancel safe_modify_tpsl safe_clear_tpsl)
qed (simp add: safe_query)

end

subsection \<open>A polling cycle\<close>

locale mt5_polling = mt5_books +
  assumes announced: "safe I (mt5_connection_state env up) (\<lambda>_. True)"
    and repositioned: "safe I (process_positions env ps is now) (\<lambda>_. True)"
    and rebalanced: "safe I (process_balance env a now) (\<lambda>_. True)"
    and reordered: "I w \<Longrightarrow> I (w\<lparr>mw_orders := d\<rparr>)"
    and throttled: "I w \<Longrightarrow> I (w\<lparr>mw_balance_poll := t\<rparr>)"
    and dealt: "safe I (process_deal env cur is deal) (\<lambda>_. True)"
    and switched: "safe I (detect_account_change env a) (\<lambda>_. True)"
begin

lemma safe_snapshot: "safe I (fetch_snapshot env) (\<lambda>_. True)"
  unfolding fetch_snapshot_def
  by (intro safe_steps safe_window [THEN safe_bind_any] safe_case_prod safe_instruments [THEN safe_bind_any])

lemma safe_maybe_balance: "safe I (maybe_process_balance env a now) (\<lambda>_. True)"
proof -
  have m: "safe I (mside (xt_monotonic (me_terminal env))) (\<lambda>_. True)" by (rule safe_side) (rule reading.intros)
  have t: "safe I (eupd (\<lambda>w. w\<lparr>mw_balance_poll := t\<rparr>)) (\<lambda>_. True)" for t by (rule safe_eupd) (rule throttled)
  show ?thesis
    unfolding maybe_process_balance_def
    by (intro safe_ewhen safe_bind_any [OF m] safe_bind_eget safe_bind_any [OF t] rebalanced)
qed

lemma safe_poll_once: "safe I (poll_once env) (\<lambda>_. True)"
proof -
  have o: "safe I (process_orders rs) (\<lambda>_. True)" for rs
    unfolding process_orders_def by (rule safe_eupd) (rule reordered)
  show ?thesis
    unfolding poll_once_def process_fills_def
    by (intro safe_sides safe_bind_any [OF safe_snapshot] safe_bind_any [OF switched] safe_bind_any [OF o]
        safe_bind_any [OF repositioned] safe_bind_any [OF safe_maybe_balance] safe_efor dealt)
qed

end

subsection \<open>What a polling cycle does not touch\<close>

locale mt5_aside = mt5_books +
  assumes published: "I w \<Longrightarrow> I (w\<lparr>mw_events := es\<rparr>)"
    and positioned: "I w \<Longrightarrow> I (w\<lparr>mw_positions := ps\<rparr>)"
    and snapped: "I w \<Longrightarrow> I (w\<lparr>mw_orders := os\<rparr>)"
    and paced: "I w \<Longrightarrow> I (w\<lparr>mw_balance_poll := t\<rparr>)"
    and committed: "I w \<Longrightarrow> I (w\<lparr>mw_deal_ticket := n, mw_deal_time := m\<rparr>)"
    and dropped: "I w \<Longrightarrow> I (w\<lparr>mw_orders := [], mw_positions := [], mw_balance := None, mw_deal_time := None, mw_deal_ticket := 0,
       mw_instruments := [], mw_failed := {}, mw_selected := {}, mw_specs := [], mw_offset := 0, mw_measured := False,
       mw_tickets := [], mw_clients := []\<rparr>)"
begin

lemma safe_publish: "safe I (mt5_publish e) (\<lambda>_. True)"
  unfolding mt5_publish_def
  by (intro safe_steps safe_eupd published)

lemma safe_emit: "safe I (mt5_emit env c b) (\<lambda>_. True)"
  unfolding mt5_emit_def by (intro safe_sides safe_bind_eget safe_publish)

lemma safe_positions_pass: "safe I (process_positions env ps is now) (\<lambda>_. True)"
proof -
  have "safe I (eupd (\<lambda>w. w\<lparr>mw_positions := d\<rparr>)) (\<lambda>_. True)" for d by (rule safe_eupd) (rule positioned)
  then show ?thesis
    unfolding process_positions_def publish_position_def
    by (intro safe_walk safe_bind_any [OF safe_legs] safe_bind_any [of _ "eupd _"] safe_efor safe_emit TrueI)
qed

lemma safe_commit: "safe I (eupd (commit_deal d)) (\<lambda>_. True)"
  by (rule safe_eupd) (simp add: commit_deal_def committed)

end

sublocale mt5_aside \<subseteq> mt5_polling
proof
  fix up ps "is" now a cur deal
  show "safe I (mt5_connection_state env up) (\<lambda>_. True)" unfolding mt5_connection_state_def by (rule safe_emit)
  show "safe I (process_positions env ps is now) (\<lambda>_. True)" by (rule safe_positions_pass)
  show "safe I (process_balance env a now) (\<lambda>_. True)"
    unfolding process_balance_def by (intro safe_walk safe_bind_any [OF safe_keep_balance] safe_emit TrueI)
  show "safe I (process_deal env cur is deal) (\<lambda>_. True)"
    unfolding process_deal_def
    by (intro safe_walk safe_bind_any [OF safe_build_fill] safe_bind_any [OF safe_emit] safe_commit TrueI)
  have "safe I reset_account_state (\<lambda>_. True)" unfolding reset_account_state_def by (rule safe_eupd) (rule dropped)
  then show "safe I (detect_account_change env a) (\<lambda>_. True)"
    unfolding detect_account_change_def
    by (intro safe_steps safe_bind_any [of _ reset_account_state] safe_bind_any [OF safe_publish])
qed (simp_all add: snapped paced)

subsection \<open>The session\<close>

locale mt5_session = mt5_polling +
  assumes wired: "I w \<Longrightarrow> I (w\<lparr>mw_bus := True\<rparr>)"
    and logged_in: "I w \<Longrightarrow> I (w\<lparr>mw_login := l\<rparr>)"
    and polling: "I w \<Longrightarrow> I (w\<lparr>mw_poll := b\<rparr>)"
    and connected: "I w \<Longrightarrow> I (w\<lparr>mw_connected := b\<rparr>)"
    and guarded: "I w \<Longrightarrow> I (w\<lparr>mw_lock := b, mw_guard := b\<rparr>)"
begin

lemma safe_release: "safe I release_guard (\<lambda>_. True)"
  unfolding release_guard_def
proof (rule safe_eupd)
  fix w :: "'a mworld" assume w: "I w"
  have "w\<lparr>mw_lock := False, mw_guard := False\<rparr> = w\<lparr>mw_guard := False, mw_lock := False\<rparr>" by simp
  with guarded [OF w, of False] w show "I (if mw_guard w then w\<lparr>mw_guard := False, mw_lock := False\<rparr> else w)"
    by simp
qed

lemma safe_close: "safe I (close_terminal env) (\<lambda>_. True)"
proof -
  have down: "safe I (eupd (\<lambda>w. w\<lparr>mw_connected := False, mw_login := None\<rparr>)) (\<lambda>_. True)"
    by (rule safe_eupd) (rule logged_in, rule connected)
  have shut: "safe I (mcall (xt_shutdown (me_terminal env))) (\<lambda>_. True)"
    by (rule safe_call) (rule reading.intros)
  show ?thesis
    unfolding close_terminal_def
    by (intro safe_bind_eattempt safe_sides shut safe_bind_any [OF down] safe_bind_any [OF safe_release]
        safe_bind_any [OF announced] safe_elifted)
qed

lemma safe_set_poll: "safe I (eupd (\<lambda>w. w\<lparr>mw_poll := b\<rparr>)) (\<lambda>_. True)"
  by (rule safe_eupd) (rule polling)

lemma safe_disconnect: "safe I (mt5_disconnect env) (\<lambda>_. True)"
  unfolding mt5_disconnect_def by (intro safe_steps safe_bind_any [OF safe_set_poll] safe_close)

lemma safe_poll: "safe I (poll_turn env) (\<lambda>_. True)"
  unfolding poll_turn_def teardown_after_account_change_def
  by (intro safe_steps safe_set_poll safe_poll_once safe_bind_any [OF safe_set_poll] safe_close safe_sleep)

lemma safe_connect: "safe I (mt5_connect env) (\<lambda>_. True)"
proof -
  have init: "safe I (mcall (xt_initialize (me_terminal env) a b c d)) (\<lambda>_. True)" for a b c d
    by (rule safe_call) (rule reading.intros)
  have login: "safe I (eupd (\<lambda>w. w\<lparr>mw_login := l\<rparr>)) (\<lambda>_. True)" for l by (rule safe_eupd) (rule logged_in)
  have up: "safe I (eupd (\<lambda>w. w\<lparr>mw_connected := True\<rparr>)) (\<lambda>_. True)" by (rule safe_eupd) (rule connected)
  have opened: "safe I (open_terminal env) (\<lambda>_. True)"
    unfolding open_terminal_def Let_def
    by (intro safe_sides safe_bind_any [OF init] safe_bind_any [OF safe_fail] safe_steps safe_bind_any [OF login] safe_bind_any [OF safe_seed_symbols]
        safe_bind_any [OF safe_seed] safe_bind_any [OF safe_recover] safe_bind_any [OF up] safe_bind_any [OF announced] safe_set_poll)
  have acquire: "safe I (eupd (\<lambda>w. w\<lparr>mw_lock := True, mw_guard := True\<rparr>)) (\<lambda>_. True)" by (rule safe_eupd) (rule guarded)
  have down: "safe I (eupd (\<lambda>w. w\<lparr>mw_connected := False, mw_login := None, mw_poll := False\<rparr>)) (\<lambda>_. True)"
    by (rule safe_eupd) (rule polling, rule logged_in, rule connected)
  show ?thesis
    unfolding mt5_connect_def
    by (intro safe_steps safe_bind_any [OF acquire] safe_etry opened safe_bind_any [OF down] safe_bind_any [OF safe_release])
qed

lemma safe_session_call: "is_session_call c \<Longrightarrow> safe I (mt5_effect env c) (\<lambda>_. True)"
proof -
  have "safe I mt5_attach_bus (\<lambda>_. True)" unfolding mt5_attach_bus_def by (rule safe_eupd) (rule wired)
  then show "is_session_call c \<Longrightarrow> safe I (mt5_effect env c) (\<lambda>_. True)"
    by (cases c) (simp_all add: is_session_call_def safe_connect safe_disconnect safe_poll)
qed

end

locale mt5_whole = mt5_session + mt5_desk
begin

lemma safe_effect: "safe I (mt5_effect env c) (\<lambda>_. True)"
  by (cases "is_session_call c") (simp_all add: safe_session_call safe_plain_call)

lemma run: "I w \<Longrightarrow> I (mt5_run env cs w)"
proof (induction cs arbitrary: w)
  case (Cons c cs)
  from Cons.prems have "I (snd (mt5_effect env c w))" by (rule safeD [OF safe_effect]) (rule prod.collapse [symmetric])
  from Cons.IH [OF this] show ?case by (simp add: mt5_run_def)
qed (simp add: mt5_run_def)

end

end
