(* ===== verification/UTE_MT5_Safety.thy ===== *)
theory UTE_MT5_Safety
  imports UTE_MT5_Desk
begin

text \<open>
  The connection of the MetaTrader adapter: what is true of its state after any sequence of calls and
  turns of the polling task, and that the adapters of one process exclude each other.
\<close>

subsection \<open>The registry of instruments\<close>

definition registry_ok :: "'v mworld \<Rightarrow> bool" where
  \<comment> \<open>an instrument is registered under the symbol it is traded as\<close>
  "registry_ok w \<longleftrightarrow> (\<forall>(s, i) \<in> set (mw_instruments w). in_platform_symbol i = Some s)"

lemma registry_add: "registry_ok w \<Longrightarrow> in_platform_symbol (i :: instrument) = Some s \<Longrightarrow> registry_ok (w\<lparr>mw_instruments := dict_set s i (mw_instruments w)\<rparr>)"
  using set_dict_set_subset [of s i "mw_instruments w"] by (auto simp: registry_ok_def)

lemma registry_get: "registry_ok w \<Longrightarrow> dict_get (mw_instruments w) s = Some i \<Longrightarrow> to_mt5_symbol i = Inr s"
  by (auto simp: registry_ok_def to_mt5_symbol_def dest!: map_of_SomeD)

subsection \<open>The link\<close>

record link =
  li_lock :: bool
  li_guard :: bool
  li_connected :: bool
  li_login :: "int option"
  li_poll :: bool

definition link_of :: "'v mworld \<Rightarrow> link" where
  "link_of w = \<lparr>li_lock = mw_lock w, li_guard = mw_guard w, li_connected = mw_connected w, li_login = mw_login w, li_poll = mw_poll w\<rparr>"

definition at_link :: "link \<Rightarrow> 'v mworld \<Rightarrow> bool" where
  "at_link t w \<longleftrightarrow> link_of w = t \<and> registry_ok w"

lemma link_sel [simp]:
  "li_lock (link_of w) = mw_lock w" "li_guard (link_of w) = mw_guard w" "li_connected (link_of w) = mw_connected w"
  "li_login (link_of w) = mw_login w" "li_poll (link_of w) = mw_poll w"
  by (simp_all add: link_of_def)

interpretation steady: mt5_aside env "at_link t" for env :: "'v menv" and t
proof
  fix w :: "'v mworld" and i :: instrument and s assume "at_link t w" "in_platform_symbol i = Some s"
  then show "at_link t (w\<lparr>mw_instruments := dict_set s i (mw_instruments w)\<rparr>)"
    by (simp add: at_link_def registry_add) (simp add: link_of_def)
qed (simp_all add: at_link_def link_of_def registry_ok_def)

interpretation sending: mt5_desk env "at_link t" for env :: "'v menv" and t
  by unfold_locales (simp add: at_link_def link_of_def registry_ok_def)

definition plugged :: "'v menv \<Rightarrow> bool \<Rightarrow> 'v mworld \<Rightarrow> bool" where
  \<comment> \<open>\<open>other\<close> says that another adapter of the process holds the lock\<close>
  "plugged env other w \<longleftrightarrow>
     registry_ok w \<and> mw_lock w = (mw_guard w \<or> other) \<and> \<not> (mw_guard w \<and> other) \<and> mw_guard w = mw_connected w
     \<and> mw_login w = (if mw_connected w then Some (xc_login (me_config env)) else None) \<and> (mw_poll w \<longrightarrow> mw_connected w)"

lemma plugged_steady:
  assumes "\<And>t. safe (at_link t) m (\<lambda>_. True)"
  shows "safe (plugged env other) m (\<lambda>_. True)"
proof (rule safeI)
  fix w r w' assume w: "plugged env other w" and run: "m w = (r, w')"
  from w have "at_link (link_of w) w" by (simp add: at_link_def plugged_def)
  from safeD [OF assms this run] have l: "link_of w' = link_of w" "registry_ok w'" by (simp_all add: at_link_def)
  then have "mw_lock w' = mw_lock w" "mw_guard w' = mw_guard w" "mw_connected w' = mw_connected w"
    "mw_login w' = mw_login w" "mw_poll w' = mw_poll w" by (simp_all add: link_of_def)
  with w l(2) show "plugged env other w' \<and> (\<forall>a. r = Inr a \<longrightarrow> True)" by (simp add: plugged_def)
qed

lemma wp_steady:
  assumes "\<And>t. safe (at_link t) m (\<lambda>_. True)" "registry_ok w"
    and "\<And>a w'. link_of w' = link_of w \<Longrightarrow> registry_ok w' \<Longrightarrow> Q a w'" "\<And>e w'. link_of w' = link_of w \<Longrightarrow> registry_ok w' \<Longrightarrow> E e w'"
  shows "wp m Q E w"
  by (rule safe_wp [OF assms(1) [of "link_of w"]]) (use assms in \<open>auto simp: at_link_def\<close>)

lemma wp_close:
  assumes "registry_ok w" "mw_guard w" "\<And>r w'. registry_ok w' \<Longrightarrow> link_of w' = (link_of w)\<lparr>li_lock := False, li_guard := False,
    li_connected := False, li_login := None\<rparr> \<Longrightarrow> Q r w'" "\<And>e w'. registry_ok w' \<Longrightarrow> link_of w' = (link_of w)\<lparr>li_lock := False, li_guard := False,
    li_connected := False, li_login := None\<rparr> \<Longrightarrow> E e w'"
  shows "wp (close_terminal env) Q E w"
proof -
  let ?l = "(link_of w)\<lparr>li_lock := False, li_guard := False, li_connected := False, li_login := None\<rparr>"
  have shut: "safe (at_link t) (ebind (get_mt5 env) (\<lambda>_. mcall (xt_shutdown (me_terminal env)))) (\<lambda>_. True)" for t
    by (intro steady.safe_sides steady.safe_call) (rule reading.intros)
  have tail: "wp (mt5_connection_state env False) (\<lambda>_. wp (elift r) Q E) E v" if "registry_ok v" "link_of v = ?l" for v r
    by (rule wp_steady [OF steady.announced that(1)]) (use that(2) assms(3,4) in \<open>auto simp: wp_elift split: sum.splits\<close>)
  have step: "wp (eupd (\<lambda>w. w\<lparr>mw_connected := False, mw_login := None\<rparr>)) (\<lambda>_. wp (ebind release_guard (\<lambda>_.
      ebind (mt5_connection_state env False) (\<lambda>_. elift r))) Q E) E v"
    if "registry_ok v" "link_of v = link_of w" for v r
  proof -
    have g: "mw_guard v" using that(2) assms(2) by (simp add: link_of_def)
    let ?v = "v\<lparr>mw_connected := False, mw_login := None, mw_guard := False, mw_lock := False\<rparr>"
    have "registry_ok ?v" using that(1) by (simp add: registry_ok_def)
    moreover have "link_of ?v = ?l" using that(2) by (simp add: link_of_def)
    ultimately have "wp (mt5_connection_state env False) (\<lambda>_. wp (elift r) Q E) E ?v" by (rule tail)
    with g show ?thesis by (simp add: release_guard_def wp_funs)
  qed
  show ?thesis
    unfolding close_terminal_def wp_ebind [of "eattempt _"] wp_eattempt
    by (rule wp_steady [OF shut assms(1)]) (use step in \<open>simp_all add: wp_ebind [of "eupd _"]\<close>)
qed

lemma plugged_disconnect: "safe (plugged env other) (mt5_disconnect env) (\<lambda>_. True)"
proof (rule safe_wpI)
  fix w :: "'a mworld" assume w: "plugged env other w"
  show "wp (mt5_disconnect env) (\<lambda>_. plugged env other) (\<lambda>_. plugged env other) w"
  proof (cases "mw_connected w")
    case True
    let ?w = "w\<lparr>mw_poll := False\<rparr>"
    have "wp (close_terminal env) (\<lambda>_. plugged env other) (\<lambda>_. plugged env other) ?w"
      by (rule wp_close) (use w True in \<open>auto simp: plugged_def link_of_def registry_ok_def\<close>)
    with True show ?thesis by (simp add: mt5_disconnect_def)
  qed (use w in \<open>simp add: mt5_disconnect_def\<close>)
qed

lemma plugged_poll: "safe (plugged env other) (poll_turn env) (\<lambda>_. True)"
proof (rule safe_wpI)
  fix w :: "'a mworld" assume w: "plugged env other w"
  then have r: "registry_ok w" by (simp add: plugged_def)
  let ?L = "\<lambda>_. plugged env other"
  have same: "plugged env other v" if "link_of v = link_of w" "registry_ok v" for v
    using w that by (simp add: plugged_def link_of_def)
  have sleep: "wp (mt5_sleep env t) ?L ?L v" if "link_of v = link_of w" "registry_ok v" for v t
    by (rule wp_steady [OF steady.safe_sleep that(2)]) (use that(1) same in simp_all)
  have close: "wp (close_terminal env) ?L ?L (v\<lparr>mw_poll := False\<rparr>)" if "link_of v = link_of w" "registry_ok v" "mw_connected w" for v
    by (rule wp_close) (use that w in \<open>auto simp: plugged_def link_of_def registry_ok_def\<close>)
  show "wp (poll_turn env) ?L ?L w"
  proof (cases "mw_poll w \<and> mw_connected w")
    case True
    have "wp (poll_once env) (\<lambda>a. wp (case Inr a of
          Inl e \<Rightarrow> if exn_is (exn_cls e) AccountChangedError
                   then ebind (eupd (\<lambda>w. w\<lparr>mw_poll := False\<rparr>)) (\<lambda>_. teardown_after_account_change env)
                   else mt5_sleep env (xc_poll_interval (me_config env))
        | Inr (_ :: unit) \<Rightarrow> mt5_sleep env (xc_poll_interval (me_config env))) ?L ?L)
      (\<lambda>e. wp (case (Inl e :: exn + unit) of
          Inl e \<Rightarrow> if exn_is (exn_cls e) AccountChangedError
                   then ebind (eupd (\<lambda>w. w\<lparr>mw_poll := False\<rparr>)) (\<lambda>_. teardown_after_account_change env)
                   else mt5_sleep env (xc_poll_interval (me_config env))
        | Inr _ \<Rightarrow> mt5_sleep env (xc_poll_interval (me_config env))) ?L ?L) w"
      by (rule wp_steady [OF steady.safe_poll_once r]) (use True sleep close in \<open>simp_all add: teardown_after_account_change_def\<close>)
    with True show ?thesis by (simp add: poll_turn_def)
  next
    case False
    have "plugged env other (w\<lparr>mw_poll := False\<rparr>)" using w by (simp add: plugged_def registry_ok_def)
    with False w show ?thesis by (auto simp: poll_turn_def)
  qed
qed

definition held :: "'v mworld \<Rightarrow> bool" where
  "held w \<longleftrightarrow> registry_ok w \<and> mw_lock w \<and> mw_guard w"

definition starting :: "int option \<Rightarrow> 'v mworld \<Rightarrow> bool" where
  \<comment> \<open>the guard is taken, the terminal is not yet announced as connected\<close>
  "starting l w \<longleftrightarrow> registry_ok w \<and> link_of w
     = \<lparr>li_lock = True, li_guard = True, li_connected = False, li_login = l, li_poll = False\<rparr>"

lemma starting_held: "starting l w \<Longrightarrow> held w"
  by (auto simp: starting_def held_def link_of_def)

lemma wp_starting:
  assumes "\<And>t. safe (at_link t) m (\<lambda>_. True)" "starting l w" "\<And>a w'. starting l w' \<Longrightarrow> Q a w'"
  shows "wp m Q (\<lambda>_. held) w"
proof (rule wp_steady [OF assms(1)])
  show "registry_ok w" using assms(2) by (simp add: starting_def)
  show "Q a w'" if "link_of w' = link_of w" "registry_ok w'" for a w'
    using that assms(2) by (intro assms(3)) (simp add: starting_def)
  show "held w'" if "link_of w' = link_of w" "registry_ok w'" for w'
    using that assms(2) by (intro starting_held [of l]) (simp add: starting_def)
qed

lemma wp_announce:
  assumes "starting (Some (xc_login (me_config env))) w"
  shows "wp (ebind (eupd (\<lambda>w. w\<lparr>mw_connected := True\<rparr>)) (\<lambda>_. ebind (mt5_connection_state env True) (\<lambda>_.
    eupd (\<lambda>w. w\<lparr>mw_poll := True\<rparr>)))) (\<lambda>_. plugged env False) (\<lambda>_. held) w"
proof -
  let ?w = "w\<lparr>mw_connected := True\<rparr>"
  have "wp (mt5_connection_state env True) (\<lambda>_. wp (eupd (\<lambda>w. w\<lparr>mw_poll := True\<rparr>)) (\<lambda>_. plugged env False) (\<lambda>_. held)) (\<lambda>_. held) ?w"
  proof (rule wp_steady [OF steady.announced])
    show "registry_ok ?w" using assms by (simp add: starting_def registry_ok_def)
  next
    fix a and v :: "'a mworld" assume v: "link_of v = link_of ?w" "registry_ok v"
    have "link_of ?w = (link_of w)\<lparr>li_connected := True\<rparr>" by (simp add: link_of_def)
    with v(1) assms have "link_of v = \<lparr>li_lock = True, li_guard = True, li_connected = True,
        li_login = Some (xc_login (me_config env)), li_poll = False\<rparr>" by (simp add: starting_def)
    with v(2) have "plugged env False (v\<lparr>mw_poll := True\<rparr>)" "held v"
      by (auto simp: plugged_def held_def link_of_def registry_ok_def)
    then show "wp (eupd (\<lambda>w. w\<lparr>mw_poll := True\<rparr>)) (\<lambda>_. plugged env False) (\<lambda>_. held) v" "held v" by simp_all
  qed
  then show ?thesis by simp
qed

lemma wp_logged_in:
  assumes "starting None w" "\<And>w. starting (Some (xc_login (me_config env))) w \<Longrightarrow> wp k Q (\<lambda>_. held) w"
  shows "wp (ebind (eupd (\<lambda>w. w\<lparr>mw_login := Some n\<rparr>)) (\<lambda>_. ebind (eguard (n \<noteq> xc_login (me_config env)) AccountChangedError m)
    (\<lambda>_. k))) Q (\<lambda>_. held) w"
proof -
  let ?w = "w\<lparr>mw_login := Some n\<rparr>"
  have "held ?w" and "n = xc_login (me_config env) \<Longrightarrow> starting (Some (xc_login (me_config env))) ?w"
    using assms(1) by (auto simp: starting_def held_def link_of_def registry_ok_def)
  then have "held ?w" "n = xc_login (me_config env) \<Longrightarrow> wp k Q (\<lambda>_. held) ?w"
    using assms(2) [of ?w] by blast+
  then show ?thesis by simp
qed

lemma starting_bind:
  assumes "\<And>t. safe (at_link t) m (\<lambda>_. True)" "starting l w" "\<And>a w'. starting l w' \<Longrightarrow> wp (f a) Q (\<lambda>_. held) w'"
  shows "wp (ebind m f) Q (\<lambda>_. held) w"
  unfolding wp_ebind by (rule wp_starting [OF assms])

lemma wp_opened:
  assumes "starting None w"
  shows "wp (open_terminal env) (\<lambda>_. plugged env False) (\<lambda>_. held) w"
proof -
  have init: "safe (at_link t) (mcall (xt_initialize (me_terminal env) a b c d)) (\<lambda>_. True)" for t a b c d
    by (rule steady.safe_call) (rule reading.intros)
  have ok: "safe (at_link t) (if b then eret () else mt5_fail env s) (\<lambda>_. True)" for t b s
    by (intro safe_if safe_eret steady.safe_fail TrueI)
  have fail: "wp (mt5_fail env s) Q (\<lambda>_. held) v" if "starting None v" for s v and Q :: "unit \<Rightarrow> 'a mworld \<Rightarrow> bool"
  proof (rule wp_runI)
    fix r :: "exn + unit" and v' assume run: "mt5_fail env s v = (r, v')"
    from that have v: "at_link (link_of v) v" by (simp add: at_link_def starting_def)
    have "safe (at_link (link_of v)) (mt5_fail env s) (\<lambda>_ :: unit. False)" by (rule steady.safe_fail)
    from safeD [OF this v run] safe_valueD [OF this v] run have "at_link (link_of v) v'" "\<forall>a. r \<noteq> Inr a" by auto
    moreover from this that have "held v'" by (auto simp: at_link_def starting_def held_def link_of_def)
    ultimately show "case r of Inl e \<Rightarrow> held v' | Inr a \<Rightarrow> Q a v'" by (cases r) simp_all
  qed
  show ?thesis
    unfolding open_terminal_def Let_def
    apply (rule starting_bind [OF steady.safe_import assms])
    apply (rule starting_bind [OF init], assumption)
    apply (rule starting_bind [OF ok], assumption)
    apply (rule starting_bind [OF steady.safe_account], assumption)
    subgoal for _ _ _ _ _ _ info v
      apply (cases info)
       apply (simp add: fail)
      apply (simp only: option.case)
      apply (rule wp_logged_in, assumption)
      apply (rule starting_bind [OF steady.safe_seed_symbols], assumption)
      apply (rule starting_bind [OF steady.safe_seed], assumption)
      apply (rule starting_bind [OF steady.safe_recover], assumption)
      by (rule wp_announce)
    done
qed

lemma plugged_connect: "safe (plugged env other) (mt5_connect env) (\<lambda>_. True)"
proof (rule safe_wpI)
  fix w :: "'a mworld" assume w: "plugged env other w"
  show "wp (mt5_connect env) (\<lambda>_. plugged env other) (\<lambda>_. plugged env other) w"
  proof (cases "mw_connected w \<or> mw_lock w")
    case True
    with w show ?thesis by (auto simp: mt5_connect_def)
  next
    case False
    let ?w = "w\<lparr>mw_lock := True, mw_guard := True\<rparr>"
    have other: "other = False" and s: "starting None ?w"
      using w False by (auto simp: plugged_def starting_def link_of_def registry_ok_def)
    have "wp (open_terminal env) (\<lambda>_. plugged env False) (\<lambda>e. wp (ebind (eupd (\<lambda>w. w\<lparr>mw_connected := False, mw_login := None,
        mw_poll := False\<rparr>)) (\<lambda>_. ebind release_guard (\<lambda>_. if exn_is (exn_cls e) AccountChangedError then elift (Inl e)
          else eraise PlatformConnectionError ''failed to connect to MT5 terminal''))) (\<lambda>_. plugged env False) (\<lambda>_. plugged env False)) ?w"
      by (rule wp_mono [OF wp_opened [OF s]])
        (auto simp: held_def release_guard_def plugged_def registry_ok_def wp_elift)
    with False other show ?thesis by (simp add: mt5_connect_def)
  qed
qed

subsection \<open>Any sequence of calls\<close>

lemma plugged_effect: "safe (plugged env other) (mt5_effect env c) (\<lambda>_. True)"
proof (cases "is_session_call c")
  case True
  have "safe (at_link t) mt5_attach_bus (\<lambda>_. True)" for t
    unfolding mt5_attach_bus_def by (rule safe_eupd) (simp add: at_link_def link_of_def registry_ok_def)
  with True show ?thesis
    by (cases c) (auto simp: is_session_call_def plugged_connect plugged_disconnect plugged_poll intro!: plugged_steady)
qed (rule plugged_steady [OF sending.safe_plain_call])

lemma plugged_step: "plugged env other w \<Longrightarrow> plugged env other (snd (mt5_effect env c w))"
  using safeD [OF plugged_effect _ prod.collapse [symmetric]] .

lemma plugged_run: "plugged env other w \<Longrightarrow> plugged env other (mt5_run env cs w)"
  by (induction cs arbitrary: w) (simp_all add: mt5_run_def plugged_step)

lemma plugged_init: "plugged env lock (mt5_init v lock bus store)"
  by (simp add: plugged_def mt5_init_def registry_ok_def)

text \<open>
  C17. The connection of one adapter. After any sequence of calls, whatever each of them returned or
  raised, and any number of turns of the polling task: a connected adapter holds the guard of the process
  and the lock behind it, which no other adapter held, and the login it recorded is the one it was
  configured with; one that is not connected has released the guard, left the lock as it found it,
  forgotten the login and polls nothing; and every instrument is registered under the symbol it is traded as.
\<close>

theorem mt5_reachable:
  "let w = mt5_run env cs (mt5_init v lock bus store) in
     registry_ok w
     \<and> (if mw_connected w then mw_guard w \<and> mw_lock w \<and> \<not> lock \<and> mw_login w = Some (xc_login (me_config env))
        else \<not> mw_guard w \<and> mw_lock w = lock \<and> mw_login w = None \<and> \<not> mw_poll w)"
  using plugged_run [OF plugged_init [of env lock v bus store], of cs] by (auto simp: Let_def plugged_def)

subsection \<open>The adapters of a process\<close>

record 'v process =
  pr_venue :: 'v
  pr_lock :: bool
  pr_adapters :: "('v menv \<times> 'v mworld) list"

definition process_init :: "'v \<Rightarrow> ('v menv \<times> bool \<times> store option) list \<Rightarrow> 'v process" where
  "process_init v xs = \<lparr>pr_venue = v, pr_lock = False, pr_adapters = map (\<lambda>(env, bus, store). (env, mt5_init v False bus store)) xs\<rparr>"

definition seen_by :: "'v process \<Rightarrow> nat \<Rightarrow> 'v mworld" where
  \<comment> \<open>the terminal and the lock are the process's, the rest is the adapter's own\<close>
  "seen_by p k = (snd (pr_adapters p ! k))\<lparr>mw_venue := pr_venue p, mw_lock := pr_lock p\<rparr>"

definition process_step :: "nat \<times> mt5_call \<Rightarrow> 'v process \<Rightarrow> 'v process" where
  "process_step s p =
     (let (k, c) = s in
      if k < length (pr_adapters p) then
        let env = fst (pr_adapters p ! k); w = snd (mt5_effect env c (seen_by p k)) in
        \<lparr>pr_venue = mw_venue w, pr_lock = mw_lock w, pr_adapters = (pr_adapters p)[k := (env, w)]\<rparr>
      else p)"

definition process_run :: "(nat \<times> mt5_call) list \<Rightarrow> 'v process \<Rightarrow> 'v process" where
  "process_run ss p = foldl (\<lambda>p s. process_step s p) p ss"

definition guards :: "'v process \<Rightarrow> nat \<Rightarrow> bool" where
  "guards p k \<longleftrightarrow> mw_guard (snd (pr_adapters p ! k))"

definition another_guards :: "'v process \<Rightarrow> nat \<Rightarrow> bool" where
  "another_guards p k \<longleftrightarrow> (\<exists>i < length (pr_adapters p). i \<noteq> k \<and> guards p i)"

definition settled :: "'v process \<Rightarrow> bool" where
  "settled p \<longleftrightarrow> pr_lock p = (\<exists>k < length (pr_adapters p). guards p k)
     \<and> (\<forall>k < length (pr_adapters p). plugged (fst (pr_adapters p ! k)) (another_guards p k) (seen_by p k))"

lemma settled_init: "settled (process_init v xs)"
proof -
  have "plugged env False ((mt5_init v False bus store)\<lparr>mw_venue := v, mw_lock := False\<rparr>)" for env :: "'a menv" and bus store
    using plugged_init [of env False v bus store] by (simp add: plugged_def registry_ok_def mt5_init_def)
  moreover have "\<not> another_guards (process_init v xs) k" for k
    by (auto simp: another_guards_def guards_def process_init_def mt5_init_def split: prod.splits)
  ultimately show ?thesis
    by (simp add: settled_def seen_by_def process_init_def guards_def case_prod_beta) (simp add: mt5_init_def)
qed

lemma settled_guard: "settled p \<Longrightarrow> k < length (pr_adapters p) \<Longrightarrow>
    pr_lock p = (guards p k \<or> another_guards p k) \<and> \<not> (guards p k \<and> another_guards p k)
    \<and> mw_connected (snd (pr_adapters p ! k)) = guards p k"
  by (auto simp: settled_def plugged_def seen_by_def guards_def)

lemma settled_step:
  assumes p: "settled p"
  shows "settled (process_step (k, c) p)"
proof (cases "k < length (pr_adapters p)")
  case k: True
  let ?env = "fst (pr_adapters p ! k)" and ?o = "another_guards p k"
  define w where "w = snd (mt5_effect ?env c (seen_by p k))"
  define q where "q = \<lparr>pr_venue = mw_venue w, pr_lock = mw_lock w, pr_adapters = (pr_adapters p)[k := (?env, w)]\<rparr>"
  have w: "plugged ?env ?o w"
    unfolding w_def by (rule plugged_step) (use p k in \<open>simp add: settled_def\<close>)
  have kept: "another_guards q k = ?o" by (auto simp: another_guards_def guards_def q_def)
  have "plugged (fst (pr_adapters q ! j)) (another_guards q j) (seen_by q j)" if j: "j < length (pr_adapters q)" for j
  proof (cases "j = k")
    case True
    with k w kept show ?thesis by (simp add: q_def seen_by_def plugged_def registry_ok_def)
  next
    case False
    have j': "j < length (pr_adapters p)" using j by (simp add: q_def)
    have "plugged (fst (pr_adapters p ! j)) (another_guards p j) (seen_by p j)" using p j' by (simp add: settled_def)
    moreover have g: "guards q j = guards p j" "guards q k = mw_guard w" using False k by (simp_all add: guards_def q_def)
    moreover have "another_guards q j = (mw_guard w \<or> (\<exists>i < length (pr_adapters p). i \<noteq> j \<and> i \<noteq> k \<and> guards p i))"
      using False k g(2) unfolding another_guards_def
      by (auto simp: q_def guards_def nth_list_update split: if_splits)
    moreover have "?o = (guards p j \<or> (\<exists>i < length (pr_adapters p). i \<noteq> j \<and> i \<noteq> k \<and> guards p i))"
      using False j' by (auto simp: another_guards_def)
    moreover have "(\<exists>i < length (pr_adapters p). i \<noteq> j \<and> i \<noteq> k \<and> guards p i) \<Longrightarrow> another_guards p j"
      by (auto simp: another_guards_def)
    ultimately show ?thesis
      using w False by (auto simp: q_def seen_by_def plugged_def registry_ok_def guards_def)
  qed
  moreover have "pr_lock q = (\<exists>i < length (pr_adapters q). guards q i)"
  proof -
    have "pr_lock q = (mw_guard w \<or> ?o)" using w by (simp add: q_def plugged_def)
    also have "\<dots> = (\<exists>i < length (pr_adapters q). guards q i)"
      using k by (auto simp: another_guards_def q_def guards_def nth_list_update)
    finally show ?thesis .
  qed
  ultimately have "settled q" by (simp add: settled_def)
  with k show ?thesis by (simp add: process_step_def q_def w_def Let_def)
qed (simp add: process_step_def assms)

lemma settled_run: "settled p \<Longrightarrow> settled (process_run ss p)"
  by (induction ss arbitrary: p) (auto simp: process_run_def settled_step)

text \<open>
  C12. One terminal, one connection. Several adapters live in one process and share the terminal's module
  and the lock; their calls and the turns of their polling tasks come in any order. At every moment at most
  one of them is connected, the lock is taken exactly when one is, and a connected adapter is logged in to
  the account of its own configuration. So a second adapter can neither take over a running session nor be
  kept out by one that failed to connect or was torn down.
\<close>

theorem mt5_one_connection:
  "let p = process_run ss (process_init v xs); up = filter (mw_connected \<circ> snd) (pr_adapters p) in
     length up \<le> 1
     \<and> pr_lock p = (up \<noteq> [])
     \<and> map (mw_login \<circ> snd) up = map (Some \<circ> xc_login \<circ> me_config \<circ> fst) up"
proof -
  define p where "p = process_run ss (process_init v xs)"
  let ?up = "filter (mw_connected \<circ> snd) (pr_adapters p)" and ?n = "length (pr_adapters p)"
  have s: "settled p" unfolding p_def by (rule settled_run) (rule settled_init)
  have up: "mw_connected (snd (pr_adapters p ! k)) = guards p k" if "k < ?n" for k using settled_guard [OF s that] by simp
  have one: "i = j" if "i < ?n" "j < ?n" "guards p i" "guards p j" for i j
    using settled_guard [OF s that(1)] that by (auto simp: another_guards_def)
  have "length ?up = card {i. i < ?n \<and> (mw_connected \<circ> snd) (pr_adapters p ! i)}" by (rule length_filter_conv_card)
  also have "\<dots> \<le> 1" unfolding One_nat_def using one up by (subst card_le_Suc0_iff_eq) auto
  finally have "length ?up \<le> 1" .
  moreover have "pr_lock p = (?up \<noteq> [])"
  proof -
    have "pr_lock p = (\<exists>k < ?n. guards p k)" using s by (simp add: settled_def)
    also have "\<dots> = (\<exists>k < ?n. mw_connected (snd (pr_adapters p ! k)))" using up by auto
    also have "\<dots> = (?up \<noteq> [])" unfolding filter_empty_conv by (metis comp_apply in_set_conv_nth)
    finally show ?thesis .
  qed
  moreover have "map (mw_login \<circ> snd) ?up = map (Some \<circ> xc_login \<circ> me_config \<circ> fst) ?up"
  proof (rule map_cong [OF refl])
    fix a assume "a \<in> set ?up"
    then obtain k where "k < ?n" "a = pr_adapters p ! k" "mw_connected (snd a)" by (auto simp: in_set_conv_nth)
    with s show "(mw_login \<circ> snd) a = (Some \<circ> xc_login \<circ> me_config \<circ> fst) a" by (simp add: settled_def plugged_def seen_by_def)
  qed
  ultimately show ?thesis by (simp add: Let_def p_def)
qed

end
