(* ===== verification/UTE_MT5_Fills.thy ===== *)
theory UTE_MT5_Fills
  imports UTE_MT5_Desk
begin

text \<open>
  The fills that the polling task of the MetaTrader adapter publishes: no deal is published twice, and of the
  deals of a cycle none is left out.
\<close>

subsection \<open>Publishing\<close>

lemma wp_mt5_emit:
  assumes "\<And>v ev. mw_bus w \<Longrightarrow> ev_body ev = b \<Longrightarrow> Q () (w\<lparr>mw_venue := v, mw_events := mw_events w @ [ev]\<rparr>)"
    and "\<And>v e. \<not> mw_bus w \<Longrightarrow> E e (w\<lparr>mw_venue := v\<rparr>)"
  shows "wp (mt5_emit env c b) Q E w"
  using assms
  by (auto simp: mt5_emit_def mt5_publish_def mt5_id_def mt5_now_def mside_def wp_def ebind_def eget_def eguard_def guard_exn_def
      elift_def eupd_def split: prod.splits)

definition fill_step :: "fill_record list \<Rightarrow> event_body \<Rightarrow> fill_record list" where
  "fill_step fs b = (case b of FillEvent f \<Rightarrow> fs @ [f] | AccountChangedEvent _ _ \<Rightarrow> [] | _ \<Rightarrow> fs)"

definition session_fills :: "event list \<Rightarrow> fill_record list" where
  \<comment> \<open>the fills published since the account last changed\<close>
  "session_fills es = foldl fill_step [] (map ev_body es)"

lemma session_fills_append [simp]: "session_fills (es @ [e]) = fill_step (session_fills es) (ev_body e)"
  by (simp add: session_fills_def)

lemma fill_step_simps [simp]:
  "fill_step fs (FillEvent f) = fs @ [f]"
  "fill_step fs (AccountChangedEvent d n) = []"
  "fill_step fs (ConnectionStateEvent up) = fs"
  "fill_step fs (PositionUpdateEvent p) = fs"
  "fill_step fs (BalanceUpdateEvent a) = fs"
  by (simp_all add: fill_step_def)

subsection \<open>No deal twice\<close>

definition reported :: "event list \<Rightarrow> bool \<Rightarrow> int \<Rightarrow> bool" where
  "reported es bus n \<longleftrightarrow>
     (\<not> bus \<longrightarrow> es = [])
     \<and> (\<exists>ts. map fl_fill_id (session_fills es) = map int_text ts \<and> sorted_wrt (<) ts \<and> (\<forall>t \<in> set ts. t \<le> n))
     \<and> list_all (\<lambda>f. 0 < fl_quantity f \<and> 0 < fl_price f) (session_fills es)"

definition fills_reported :: "'v mworld \<Rightarrow> bool" where
  "fills_reported w \<longleftrightarrow> reported (mw_events w) (mw_bus w) (mw_deal_ticket w)"

lemma reported_quiet: "reported es bus n \<Longrightarrow> bus \<Longrightarrow> fill_step (session_fills es) (ev_body e) = session_fills es \<Longrightarrow> reported (es @ [e]) bus n"
  by (simp add: reported_def)

lemma reported_fill:
  assumes "reported es bus n" "bus" "ev_body e = FillEvent f" "fl_fill_id f = int_text t" "n < t" "0 < fl_quantity f" "0 < fl_price f"
  shows "reported (es @ [e]) bus t"
proof -
  obtain ts where ts: "map fl_fill_id (session_fills es) = map int_text ts" "sorted_wrt (<) ts" "\<forall>t \<in> set ts. t \<le> n"
    using assms(1) by (auto simp: reported_def)
  let ?ts = "ts @ [t]"
  have "map fl_fill_id (session_fills (es @ [e])) = map int_text ?ts" using ts(1) assms(3,4) by simp
  moreover have "sorted_wrt (<) ?ts" using ts(2,3) assms(5) by (auto simp: sorted_wrt_append)
  moreover have "\<forall>s \<in> set ?ts. s \<le> t" using ts(3) assms(5) by auto
  ultimately have "\<exists>ts. map fl_fill_id (session_fills (es @ [e])) = map int_text ts \<and> sorted_wrt (<) ts \<and> (\<forall>s \<in> set ts. s \<le> t)"
    by blast
  with assms show ?thesis by (simp add: reported_def)
qed

lemma mt5_fill_facts:
  assumes "mt5_fill clients offset currency i d = Inr f"
  shows "fl_fill_id f = int_text (xd_ticket d)" "fl_quantity f = xd_volume d" "fl_price f = xd_price d" "fl_instrument f = i"
  using assms by (auto simp: mt5_fill_def Let_def rbind_eq_Inr fill_post_init_def)

lemma emit_quiet:
  "(\<And>fs. fill_step fs b = fs) \<Longrightarrow> safe fills_reported (mt5_emit env c b) (\<lambda>_. True)"
  by (rule safe_wpI, rule wp_mt5_emit) (auto simp: fills_reported_def reported_quiet)

lemma fills_deal: "safe fills_reported (process_deal env cur is d) (\<lambda>_. True)"
proof (rule safe_wpI)
  fix w :: "'a mworld" assume w: "fills_reported w"
  let ?L = "\<lambda>_. fills_reported"
  show "wp (process_deal env cur is d) ?L ?L w"
  proof (cases "dict_get is (xd_symbol d)")
    case None
    with w show ?thesis by (simp add: process_deal_def)
  next
    case (Some i)
    show ?thesis
    proof (cases "new_deal w d \<and> trade_deal is d \<and> (\<exists>f. mt5_fill (mw_clients w) (mw_offset w) cur i d = Inr f)")
      case False
      with Some w show ?thesis
        by (auto simp: process_deal_def build_fill_def wp_elift split: sum.splits)
    next
      case True
      then obtain f where f: "mt5_fill (mw_clients w) (mw_offset w) cur i d = Inr f" by blast
      from True have "mw_deal_ticket w < xd_ticket d" "0 < xd_volume d" "0 < xd_price d" by (auto simp: new_deal_def trade_deal_def)
      with w mt5_fill_facts [OF f]
      have "wp (mt5_emit env (Some (fl_correlation_id f)) (FillEvent f)) (\<lambda>a. wp (eupd (commit_deal d)) ?L ?L) ?L w"
        by (intro wp_mt5_emit) (auto simp: fills_reported_def commit_deal_def intro: reported_fill)
      with True Some f show ?thesis by (simp add: process_deal_def build_fill_def)
    qed
  qed
qed

lemma fills_changed: "safe fills_reported (detect_account_change env a) (\<lambda>_. True)"
proof (rule safe_wpI)
  fix w :: "'a mworld" assume w: "fills_reported w"
  then have "\<not> mw_bus w \<Longrightarrow> mw_events w = []" "reported [] b n" for b n by (auto simp: fills_reported_def reported_def session_fills_def)
  then show "wp (detect_account_change env a) (\<lambda>_. fills_reported) (\<lambda>_. fills_reported) w"
    using w
    by (auto simp: detect_account_change_def reset_account_state_def mt5_id_def mt5_now_def mside_def mt5_publish_def wp_def ebind_def
        eget_def eguard_def guard_exn_def elift_def eupd_def eret_def fills_reported_def reported_def session_fills_def
        split: option.splits prod.splits if_splits)
qed

interpretation filled: mt5_whole env fills_reported for env :: "'v menv"
proof
  fix env :: "'v menv" and up ps "is" now a cur d
  have positions: "safe fills_reported (eupd (\<lambda>w. w\<lparr>mw_positions := d\<rparr>)) (\<lambda>_. True)" for d
    by (rule safe_eupd) (simp add: fills_reported_def)
  have balance: "safe fills_reported (eupd (\<lambda>w. w\<lparr>mw_balance := d\<rparr>)) (\<lambda>_. True)" for d
    by (rule safe_eupd) (simp add: fills_reported_def)
  show "safe fills_reported (mt5_connection_state env up) (\<lambda>_. True)"
    unfolding mt5_connection_state_def by (rule emit_quiet) simp
  show "safe fills_reported (process_positions env ps is now) (\<lambda>_. True)"
    unfolding process_positions_def current_legs_def publish_position_def
    by (intro safe_walk safe_bind_any [OF positions] safe_efor emit_quiet safe_elifted TrueI fill_step_simps)
  show "safe fills_reported (process_balance env a now) (\<lambda>_. True)"
    unfolding process_balance_def by (intro safe_walk safe_bind_any [OF balance] emit_quiet TrueI fill_step_simps)
  show "safe fills_reported (process_deal env cur is d) (\<lambda>_. True)" by (rule fills_deal)
  show "safe fills_reported (detect_account_change env a) (\<lambda>_. True)" by (rule fills_changed)
qed (simp_all add: fills_reported_def reported_def)

text \<open>
  C13. A deal is published once. Whatever calls are made and however often the account is polled, the
  terminal answering anything (deals in any order, windows that overlap, a session that is torn down and
  opened again): of the fills published since the account last changed the tickets are strictly
  increasing, so none is published a second time, they do not exceed the ticket the adapter has committed,
  and each has an amount and a price.
\<close>

theorem mt5_fills_once:
  "let w = mt5_run env cs (mt5_init v lock bus store); fs = session_fills (mw_events w) in
     (\<exists>ts. map fl_fill_id fs = map int_text ts \<and> sorted_wrt (<) ts \<and> list_all (\<lambda>t. t \<le> mw_deal_ticket w) ts)
     \<and> list_all (\<lambda>f. 0 < fl_quantity f \<and> 0 < fl_price f) fs"
proof -
  have "fills_reported (mt5_init v lock bus store)"
    by (simp add: fills_reported_def reported_def mt5_init_def session_fills_def)
  from filled.run [OF this, of env cs] show ?thesis
    by (simp add: Let_def fills_reported_def reported_def list_all_iff)
qed

subsection \<open>None left out\<close>

definition due :: "'v mworld \<Rightarrow> (string, instrument) dict \<Rightarrow> mt5_deal \<Rightarrow> bool" where
  "due w instruments d \<longleftrightarrow> new_deal w d \<and> trade_deal instruments d"

definition fill_due :: "'v mworld \<Rightarrow> string \<Rightarrow> (string, instrument) dict \<Rightarrow> mt5_deal \<Rightarrow> fill_record result" where
  "fill_due w currency instruments d =
     (case dict_get instruments (xd_symbol d) of
        None \<Rightarrow> raise_exn PyException []
      | Some i \<Rightarrow> mt5_fill (mw_clients w) (mw_offset w) currency i d)"

definition later_deal :: "mt5_deal \<Rightarrow> mt5_deal \<Rightarrow> bool" where
  "later_deal d e \<longleftrightarrow> xd_ticket d < xd_ticket e \<and> xd_time d \<le> xd_time e"

lemma new_deal_later: "later_deal d e \<Longrightarrow> new_deal (commit_deal d w) e = new_deal w e"
  by (auto simp: later_deal_def new_deal_def commit_deal_def split: option.splits)

lemma new_deal_commit: "new_deal (commit_deal d w) e \<Longrightarrow> new_deal w e"
  by (auto simp: new_deal_def commit_deal_def split: option.splits if_splits)

lemma new_deal_committed: "\<not> new_deal (commit_deal d w) d"
  by (simp add: new_deal_def commit_deal_def)

lemma new_deal_events [simp]: "new_deal (w\<lparr>mw_venue := v, mw_events := es\<rparr>) d = new_deal w d"
  by (simp add: new_deal_def)

lemma fill_due_published: "fill_due (commit_deal d (w\<lparr>mw_venue := v, mw_events := es\<rparr>)) cur is e = fill_due w cur is e"
  by (cases "dict_get is (xd_symbol e)") (simp_all add: fill_due_def commit_deal_def)

definition all_published :: "'v mworld \<Rightarrow> (string, instrument) dict \<Rightarrow> mt5_deal list \<Rightarrow> fill_record list \<Rightarrow> 'v mworld \<Rightarrow> bool" where
  "all_published w instruments ds fs w' \<longleftrightarrow>
     session_fills (mw_events w') = session_fills (mw_events w) @ fs
     \<and> (\<forall>d. new_deal w' d \<longrightarrow> new_deal w d) \<and> (\<forall>d \<in> set ds. \<not> due w' instruments d)"

lemma wp_deal_skip: "\<not> due w is d \<Longrightarrow> wp (process_deal env cur is d) Q E w = Q () w"
  by (auto simp: process_deal_def due_def split: option.splits)

lemma wp_deal_due:
  assumes "due w is d" "fill_due w cur is d = Inr f" "mw_bus w"
    and "\<And>v ev. ev_body ev = FillEvent f \<Longrightarrow> Q () (commit_deal d (w\<lparr>mw_venue := v, mw_events := mw_events w @ [ev]\<rparr>))"
  shows "wp (process_deal env cur is d) Q E w"
proof -
  obtain i where i: "dict_get is (xd_symbol d) = Some i" using assms(1) by (auto simp: due_def trade_deal_def)
  have "wp (mt5_emit env (Some (fl_correlation_id f)) (FillEvent f)) (\<lambda>_. wp (eupd (commit_deal d)) Q E) E w"
    by (rule wp_mt5_emit) (use assms(3,4) in simp_all)
  with assms(1,2) i show ?thesis by (simp add: process_deal_def build_fill_def due_def fill_due_def)
qed

lemma fills_published:
  assumes "mw_bus w" "sorted_wrt later_deal ds" "map (fill_due w cur is) (filter (due w is) ds) = map Inr fs"
  shows "wp (process_fills env cur is ds) (\<lambda>_. all_published w is ds fs) (\<lambda>_ _. False) w"
  using assms
proof (induction ds arbitrary: w fs)
  case Nil
  then show ?case by (simp add: process_fills_def all_published_def)
next
  case (Cons d ds)
  show ?case
  proof (cases "due w is d")
    case False
    then have "wp (process_fills env cur is ds) (\<lambda>_. all_published w is ds fs) (\<lambda>_ _. False) w"
      using Cons.prems by (intro Cons.IH) auto
    then have "wp (process_fills env cur is ds) (\<lambda>_. all_published w is (d # ds) fs) (\<lambda>_ _. False) w"
      by (rule wp_mono) (use False in \<open>auto simp: all_published_def due_def\<close>)
    with False show ?thesis by (simp add: process_fills_def wp_deal_skip)
  next
    case True
    with Cons.prems(3) obtain f gs where f: "fill_due w cur is d = Inr f" "fs = f # gs"
      and gs: "map (fill_due w cur is) (filter (due w is) ds) = map Inr gs" by (cases fs) auto
    have "wp (process_deal env cur is d) (\<lambda>_. wp (process_fills env cur is ds) (\<lambda>_. all_published w is (d # ds) fs) (\<lambda>_ _. False)) (\<lambda>_ _. False) w"
    proof (rule wp_deal_due [OF True f(1) Cons.prems(1)])
      fix v and ev :: event assume ev: "ev_body ev = FillEvent f"
      let ?u = "w\<lparr>mw_venue := v, mw_events := mw_events w @ [ev]\<rparr>"
      let ?w = "commit_deal d ?u"
      have same: "due ?w is e = due w is e" if "e \<in> set ds" for e
        using Cons.prems(2) that new_deal_later [of d e ?u] by (simp add: due_def)
      then have f': "filter (due ?w is) ds = filter (due w is) ds" by (rule filter_cong [OF refl])
      have "fill_due ?w cur is = fill_due w cur is" by (simp add: fun_eq_iff fill_due_published)
      then have "wp (process_fills env cur is ds) (\<lambda>_. all_published ?w is ds gs) (\<lambda>_ _. False) ?w"
        using Cons.prems gs f' by (intro Cons.IH) (simp_all add: commit_deal_def [of d ?u])
      then show "wp (process_fills env cur is ds) (\<lambda>_. all_published w is (d # ds) fs) (\<lambda>_ _. False) ?w"
      proof (rule wp_mono)
        fix a and w' :: "'a mworld" assume w': "all_published ?w is ds gs w'"
        have "new_deal w e" if "new_deal ?w e" for e using new_deal_commit [OF that] by simp
        with w' have new: "\<And>e. new_deal w' e \<Longrightarrow> new_deal w e" and "\<not> new_deal w' d"
          using new_deal_committed [of d ?u] unfolding all_published_def by blast+
        moreover have "session_fills (mw_events w') = session_fills (mw_events w) @ fs"
          using w' ev f(2) by (simp add: all_published_def commit_deal_def)
        ultimately show "all_published w is (d # ds) fs w'" using w' by (auto simp: all_published_def due_def)
      qed
    qed
    then show ?thesis by (simp add: process_fills_def)
  qed
qed

text \<open>
  C18. What a cycle publishes. For deals in the order the terminal keeps them (tickets increasing, times not
  decreasing), an adapter with a bus publishes exactly the fills of those that are purchases or sales of a
  resolved symbol with an amount and a price, that are not older than the time baseline and lie beyond the
  last ticket committed, all of them and in that order; then none of the deals is due any more, so a cycle
  whose window overlaps this one publishes none of them again.
\<close>

theorem mt5_fills_complete:
  assumes "mw_bus w" "sorted_wrt later_deal ds"
    and "map (fill_due w cur is) (filter (due w is) ds) = map Inr fs"
  shows "\<exists>w'. process_fills env cur is ds w = (Inr (), w')
     \<and> session_fills (mw_events w') = session_fills (mw_events w) @ fs \<and> \<not> list_ex (due w' is) ds"
proof -
  obtain r w' where run: "process_fills env cur is ds w = (r, w')" by (rule prod.exhaust)
  from wp_run [OF fills_published [OF assms] run] have "r = Inr ()" "all_published w is ds fs w'" by (auto split: sum.splits)
  with run show ?thesis by (auto simp: all_published_def list_ex_iff)
qed

definition a_deal :: "int \<Rightarrow> int \<Rightarrow> string \<Rightarrow> mt5_deal" where
  "a_deal ticket kind symbol =
     \<lparr>xd_ticket = ticket, xd_order = ticket, xd_position = 3, xd_time = 1000 + ticket, xd_type = kind, xd_symbol = symbol,
      xd_volume = 1, xd_price = 2, xd_commission = 0, xd_fee = 0, xd_comment = None, xd_reason = Some 4, xd_entry = Some 1\<rparr>"

definition a_pair :: instrument where
  "a_pair = \<lparr>in_symbol = ''EUR'', in_asset_class = MARGIN_FX, in_quote = Some ''USD'', in_exchange = None, in_currency = None,
     in_expiry = None, in_strike = None, in_right = None, in_multiplier = None, in_platform_symbol = Some ''EURUSD.pro''\<rparr>"

definition some_deals :: "mt5_deal list" where
  \<comment> \<open>reported before, a deposit, a purchase, an unknown symbol, a sale\<close>
  "some_deals = [a_deal 5 0 ''EURUSD.pro'', a_deal 6 2 [], a_deal 7 0 ''EURUSD.pro'', a_deal 8 0 ''XYZ'', a_deal 9 1 ''EURUSD.pro'']"

definition polled_world :: "unit mworld" where
  "polled_world = (mt5_init () True True None)\<lparr>mw_deal_time := Some 1002, mw_deal_ticket := 5, mw_clients := [(Some 7, ''A1'')]\<rparr>"

definition a_fill :: "int \<Rightarrow> string \<Rightarrow> fill_record" where
  "a_fill ticket client =
     \<lparr>fl_client_id = client, fl_fill_id = int_text ticket, fl_instrument = a_pair, fl_quantity = 1, fl_price = 2,
      fl_timestamp = (1000 + ticket) * 1000000, fl_fee_currency = None, fl_fee_amount = None, fl_correlation_id = client,
      fl_position_id = Some ''3'', fl_reason = Some FR_STOP_LOSS, fl_entry = Some FE_OUT\<rparr>"

theorem mt5_fills_complete_witness:
  "\<forall>env :: unit menv. \<exists>w'. process_fills env ''USD'' [(''EURUSD.pro'', a_pair)] some_deals polled_world = (Inr (), w')
     \<and> session_fills (mw_events w') = [a_fill 7 ''A1'', a_fill 9 []]
     \<and> \<not> list_ex (due w' [(''EURUSD.pro'', a_pair)]) some_deals"
proof (rule allI)
  fix env :: "unit menv"
  let ?is = "[(''EURUSD.pro'', a_pair)]"
  have d: "filter (due polled_world ?is) some_deals = [a_deal 7 0 ''EURUSD.pro'', a_deal 9 1 ''EURUSD.pro'']"
    by (simp add: some_deals_def a_deal_def due_def new_deal_def trade_deal_def polled_world_def mt5_init_def)
  have f: "fill_due polled_world ''USD'' ?is (a_deal 7 0 ''EURUSD.pro'') = Inr (a_fill 7 ''A1'')"
    "fill_due polled_world ''USD'' ?is (a_deal 9 1 ''EURUSD.pro'') = Inr (a_fill 9 [])"
    by code_simp+
  have e: "session_fills (mw_events polled_world) = []" by (simp add: polled_world_def mt5_init_def session_fills_def)
  have "mw_bus polled_world" by (simp add: polled_world_def mt5_init_def)
  moreover have "sorted_wrt later_deal some_deals" by (simp add: some_deals_def a_deal_def later_deal_def)
  moreover have "map (fill_due polled_world ''USD'' ?is) (filter (due polled_world ?is) some_deals) = map Inr [a_fill 7 ''A1'', a_fill 9 []]"
    by (simp add: d f)
  ultimately show "\<exists>w'. process_fills env ''USD'' ?is some_deals polled_world = (Inr (), w')
     \<and> session_fills (mw_events w') = [a_fill 7 ''A1'', a_fill 9 []] \<and> \<not> list_ex (due w' ?is) some_deals"
    using mt5_fills_complete [of polled_world some_deals "''USD''" ?is "[a_fill 7 ''A1'', a_fill 9 []]" env] e by simp
qed

end
