(* ===== verification/UTE_MT5_Mirror.thy ===== *)
theory UTE_MT5_Mirror
  imports UTE_MT5_Fills
begin

text \<open>
  The positions that the polling task publishes: a subscriber that replays the events of the bus holds the legs
  the adapter saw last.
\<close>

subsection \<open>The subscriber\<close>

definition leg_of :: "position \<Rightarrow> instrument \<times> string" where
  "leg_of p = (inst_id (po_instrument p), text_of (po_id p))"

definition shown :: "position \<Rightarrow> (decimal \<times> decimal) option" where
  \<comment> \<open>a quantity of zero deletes the leg\<close>
  "shown p = (if po_quantity p = 0 then None else Some (po_quantity p, po_entry p))"

type_synonym legs = "(instrument \<times> string) \<Rightarrow> (decimal \<times> decimal) option"

definition leg_step :: "legs \<Rightarrow> event_body \<Rightarrow> legs" where
  "leg_step m b =
     (case b of PositionUpdateEvent p \<Rightarrow> m(leg_of p := shown p) | AccountChangedEvent _ _ \<Rightarrow> Map.empty | _ \<Rightarrow> m)"

definition replayed :: "event list \<Rightarrow> legs" where
  "replayed es = foldl leg_step Map.empty (map ev_body es)"

definition seen :: "(instrument \<times> string, position) dict \<Rightarrow> legs" where
  "seen d k = (case dict_get d k of None \<Rightarrow> None | Some p \<Rightarrow> shown p)"

lemma leg_step_simps [simp]:
  "leg_step m (PositionUpdateEvent p) = m(leg_of p := shown p)"
  "leg_step m (AccountChangedEvent d n) = Map.empty"
  "leg_step m (ConnectionStateEvent up) = m"
  "leg_step m (FillEvent f) = m"
  "leg_step m (BalanceUpdateEvent a) = m"
  by (simp_all add: leg_step_def)

lemma replayed_append: "replayed (es @ es') = foldl leg_step (replayed es) (map ev_body es')"
  by (simp add: replayed_def)

definition keyed :: "(instrument \<times> string, position) dict \<Rightarrow> bool" where
  "keyed d \<longleftrightarrow> wf_dict d \<and> (\<forall>(k, p) \<in> set d. leg_of p = k)"

definition legs_mirrored :: "'v mworld \<Rightarrow> bool" where
  "legs_mirrored w \<longleftrightarrow> mw_bus w \<and> keyed (mw_positions w) \<and> replayed (mw_events w) = seen (mw_positions w)"

subsection \<open>A cycle\<close>

lemma position_legs_keyed:
  "position_legs offset measured now is ps d = Inr d' \<Longrightarrow> keyed d \<Longrightarrow> keyed d'"
proof (induction ps arbitrary: d)
  case (Cons p ps)
  show ?case
  proof (cases "dict_get is (xp_symbol p)")
    case None
    with Cons show ?thesis by simp
  next
    case (Some i)
    with Cons.prems(1) obtain leg where leg: "position_leg offset measured now i p = Inr leg"
      and rest: "position_legs offset measured now is ps (dict_set (inst_id i, int_text (xp_ticket p)) leg d) = Inr d'"
      by (auto simp: rbind_eq_Inr)
    from leg have "leg_of leg = (inst_id i, int_text (xp_ticket p))"
      by (auto simp: position_leg_def rbind_eq_Inr leg_of_def text_of_def)
    with Cons.prems(2) have "keyed (dict_set (inst_id i, int_text (xp_ticket p)) leg d)"
      using set_dict_set_subset [of "(inst_id i, int_text (xp_ticket p))" leg d] by (auto simp: keyed_def)
    from Cons.IH [OF rest this] show ?thesis .
  qed
qed simp

lemma wp_publish:
  assumes "\<And>x. g x = ewhen (b x) (publish_position env (f x))" "mw_bus w"
    and "\<And>v es. map ev_body es = map (\<lambda>x. PositionUpdateEvent (f x)) (filter b xs)
      \<Longrightarrow> Q () (w\<lparr>mw_venue := v, mw_events := mw_events w @ es\<rparr>)"
  shows "wp (efor xs g) Q E w"
  using assms(2,3)
proof (induction xs arbitrary: w)
  case Nil
  show ?case using Nil.prems(2) [of "[]" "mw_venue w"] by simp
next
  case (Cons x xs)
  show ?case
  proof (cases "b x")
    case False
    have "wp (efor xs g) Q E w" by (rule Cons.IH) (use Cons.prems False in auto)
    with False show ?thesis by (simp only: efor.simps wp_ebind assms(1) [of x] wp_ewhen if_False)
  next
    case True
    have "wp (mt5_emit env None (PositionUpdateEvent (f x))) (\<lambda>_. wp (efor xs g) Q E) E w"
    proof (rule wp_mt5_emit)
      fix v and ev :: event assume ev: "ev_body ev = PositionUpdateEvent (f x)"
      show "wp (efor xs g) Q E (w\<lparr>mw_venue := v, mw_events := mw_events w @ [ev]\<rparr>)"
      proof (rule Cons.IH)
        fix u and es :: "event list" assume "map ev_body es = map (\<lambda>x. PositionUpdateEvent (f x)) (filter b xs)"
        with True ev have "map ev_body (ev # es) = map (\<lambda>x. PositionUpdateEvent (f x)) (filter b (x # xs))" by simp
        from Cons.prems(2) [OF this, of u]
        show "Q () (w\<lparr>mw_venue := v, mw_events := mw_events w @ [ev]\<rparr>
            \<lparr>mw_venue := u, mw_events := mw_events (w\<lparr>mw_venue := v, mw_events := mw_events w @ [ev]\<rparr>) @ es\<rparr>)" by simp
      qed (use Cons.prems(1) in simp)
    qed (use Cons.prems(1) in simp)
    with True show ?thesis by (simp only: efor.simps wp_ebind assms(1) [of x] wp_ewhen if_True publish_position_def)
  qed
qed

lemma foldl_legs:
  assumes "wf_dict d" "\<forall>(k, p) \<in> set d. leg_of (f (k, p)) = k"
  shows "foldl leg_step m (map (\<lambda>x. PositionUpdateEvent (f x)) (filter b d)) k
     = (case dict_get d k of Some p \<Rightarrow> if b (k, p) then shown (f (k, p)) else m k | None \<Rightarrow> m k)"
  using assms
proof (induction d arbitrary: m k)
  case (Cons x d)
  obtain j p where x: "x = (j, p)" by (cases x)
  with Cons.prems have wf: "wf_dict d" and j: "dict_get d j = None" and l: "leg_of (f (j, p)) = j"
    by (auto simp: wf_dict_def map_of_eq_None_iff image_iff)
  have ih: "foldl leg_step m (map (\<lambda>x. PositionUpdateEvent (f x)) (filter b d)) i
     = (case dict_get d i of Some p \<Rightarrow> if b (i, p) then shown (f (i, p)) else m i | None \<Rightarrow> m i)" for m i
    using Cons.prems(2) by (intro Cons.IH [OF wf]) auto
  show ?case using j l by (cases "k = j"; cases "b (j, p)"; cases "dict_get d k") (auto simp: x ih)
qed simp

lemma replay_pass:
  assumes "keyed current" "keyed previous" "m = seen previous"
  shows "foldl leg_step (foldl leg_step m (map (\<lambda>x. PositionUpdateEvent (snd x))
      (filter (\<lambda>x. leg_changed (dict_get previous (fst x)) (snd x)) current)))
      (map (\<lambda>x. PositionUpdateEvent (closed_leg now (snd (fst x)) (snd x))) (filter (\<lambda>x. \<not> dict_has current (fst x)) previous))
    = seen current"
proof (rule ext)
  fix k
  have c: "\<forall>(k, p) \<in> set current. leg_of (snd (k, p)) = k" using assms(1) by (auto simp: keyed_def)
  have p: "\<forall>(k, q) \<in> set previous. leg_of (closed_leg now (snd (fst (k, q))) (snd (k, q))) = k"
    using assms(2) by (auto simp: keyed_def leg_of_def closed_leg_def text_of_def)
  have wf: "wf_dict current" "wf_dict previous" using assms(1,2) by (simp_all add: keyed_def)
  have "shown (closed_leg now t q) = None" for t q by (simp add: shown_def closed_leg_def)
  moreover have "shown q = shown q'" if "\<not> leg_changed (Some q) q'" for q q'
    using that by (auto simp: leg_changed_def shown_def)
  moreover have "leg_changed None q" for q by (simp add: leg_changed_def)
  ultimately show "foldl leg_step (foldl leg_step m (map (\<lambda>x. PositionUpdateEvent (snd x))
      (filter (\<lambda>x. leg_changed (dict_get previous (fst x)) (snd x)) current)))
      (map (\<lambda>x. PositionUpdateEvent (closed_leg now (snd (fst x)) (snd x))) (filter (\<lambda>x. \<not> dict_has current (fst x)) previous)) k
    = seen current k"
    by (auto simp: foldl_legs [OF wf(2) p] foldl_legs [OF wf(1) c] assms(3) seen_def split: option.splits)
qed

lemma mirrored_positions: "safe legs_mirrored (process_positions env ps is now) (\<lambda>_. True)"
proof (rule safe_wpI)
  fix w :: "'a mworld" assume w: "legs_mirrored w"
  let ?L = "\<lambda>_. legs_mirrored"
  show "wp (process_positions env ps is now) ?L ?L w"
  proof (cases "position_legs (mw_offset w) (mw_measured w) now is ps []")
    case (Inl e)
    with w show ?thesis by (simp add: process_positions_def current_legs_def)
  next
    case (Inr current)
    have k: "keyed current" by (rule position_legs_keyed [OF Inr]) (simp add: keyed_def wf_dict_def)
    let ?w = "w\<lparr>mw_positions := current\<rparr>"
    let ?old = "mw_positions w"
    let ?close = "efor ?old (\<lambda>(k, q). ewhen (\<not> dict_has current k) (publish_position env (closed_leg now (snd k) q)))"
    have "wp (efor current (\<lambda>(k, p). ewhen (leg_changed (dict_get ?old k) p) (publish_position env p))) (\<lambda>_. wp ?close ?L ?L) ?L ?w"
    proof (rule wp_publish [where b = "\<lambda>x. leg_changed (dict_get ?old (fst x)) (snd x)" and f = snd])
      fix v and es :: "event list"
      assume es: "map ev_body es = map (\<lambda>x. PositionUpdateEvent (snd x)) (filter (\<lambda>x. leg_changed (dict_get ?old (fst x)) (snd x)) current)"
      show "wp ?close ?L ?L (?w\<lparr>mw_venue := v, mw_events := mw_events ?w @ es\<rparr>)"
      proof (rule wp_publish [where b = "\<lambda>x. \<not> dict_has current (fst x)" and f = "\<lambda>x. closed_leg now (snd (fst x)) (snd x)"])
        fix u and fs :: "event list"
        assume "map ev_body fs = map (\<lambda>x. PositionUpdateEvent (closed_leg now (snd (fst x)) (snd x))) (filter (\<lambda>x. \<not> dict_has current (fst x)) ?old)"
        with es w k replay_pass [of current ?old "replayed (mw_events w)" now] show "legs_mirrored (?w\<lparr>mw_venue := v, mw_events := mw_events ?w @ es\<rparr>\<lparr>mw_venue := u,
            mw_events := mw_events (?w\<lparr>mw_venue := v, mw_events := mw_events ?w @ es\<rparr>) @ fs\<rparr>)"
          by (simp add: legs_mirrored_def replayed_append)
      qed (use w in \<open>auto simp: legs_mirrored_def\<close>)
    qed (use w in \<open>auto simp: legs_mirrored_def\<close>)
    with Inr show ?thesis by (simp add: process_positions_def current_legs_def)
  qed
qed

lemma emit_other:
  "(\<And>m. leg_step m b = m) \<Longrightarrow> safe legs_mirrored (mt5_emit env c b) (\<lambda>_. True)"
  by (rule safe_wpI, rule wp_mt5_emit) (auto simp: legs_mirrored_def replayed_append)

lemma mirrored_changed: "safe legs_mirrored (detect_account_change env a) (\<lambda>_. True)"
proof (rule safe_wpI)
  fix w :: "'a mworld" assume w: "legs_mirrored w"
  have "seen [] = Map.empty" "keyed []" by (auto simp: seen_def keyed_def wf_dict_def)
  with w show "wp (detect_account_change env a) (\<lambda>_. legs_mirrored) (\<lambda>_. legs_mirrored) w"
    by (auto simp: detect_account_change_def reset_account_state_def mt5_id_def mt5_now_def mside_def mt5_publish_def wp_def ebind_def
        eget_def eguard_def guard_exn_def elift_def eupd_def eret_def legs_mirrored_def replayed_append
        split: option.splits prod.splits if_splits)
qed

interpretation mirroring: mt5_whole env legs_mirrored for env :: "'v menv"
proof
  fix env :: "'v menv" and up ps "is" now a cur d
  have balance: "safe legs_mirrored (eupd (\<lambda>w. w\<lparr>mw_balance := d\<rparr>)) (\<lambda>_. True)" for d
    by (rule safe_eupd) (simp add: legs_mirrored_def)
  have deal: "safe legs_mirrored (eupd (commit_deal d)) (\<lambda>_. True)" for d
    by (rule safe_eupd) (simp add: commit_deal_def legs_mirrored_def)
  show "safe legs_mirrored (mt5_connection_state env up) (\<lambda>_. True)"
    unfolding mt5_connection_state_def by (rule emit_other) simp
  show "safe legs_mirrored (process_positions env ps is now) (\<lambda>_. True)" by (rule mirrored_positions)
  show "safe legs_mirrored (process_balance env a now) (\<lambda>_. True)"
    unfolding process_balance_def by (intro safe_walk safe_bind_any [OF balance] emit_other TrueI leg_step_simps)
  show "safe legs_mirrored (process_deal env cur is d) (\<lambda>_. True)"
    unfolding process_deal_def build_fill_def
    by (intro safe_walk safe_elifted safe_bind_any [OF emit_other] deal TrueI leg_step_simps)
  show "safe legs_mirrored (detect_account_change env a) (\<lambda>_. True)" by (rule mirrored_changed)
qed (simp_all add: legs_mirrored_def)

text \<open>
  C14. The positions on the bus are the positions of the terminal. However the calls and the turns of the
  polling task follow one another and wherever a cycle fails, a subscriber that replays the published events
  (an update replaces the leg of its instrument and ticket, a quantity of zero deletes it, a change of the
  account empties the book) holds exactly the legs of the last snapshot the adapter processed, each with its
  quantity and entry price, although the adapter publishes only the legs that changed or disappeared.
\<close>

theorem mt5_positions_mirrored:
  "let w = mt5_run env cs (mt5_init v lock True store) in replayed (mw_events w) = seen (mw_positions w)"
proof -
  have "legs_mirrored (mt5_init v lock True store)"
    by (auto simp: legs_mirrored_def mt5_init_def keyed_def wf_dict_def seen_def replayed_def)
  from mirroring.run [OF this, of env cs] show ?thesis by (simp add: Let_def legs_mirrored_def)
qed

end
