(* ===== verification/UTE_MT5_Requests.thy ===== *)
theory UTE_MT5_Requests
  imports UTE_MT5_Desk UTE_Sending
begin

text \<open>
  The requests the MetaTrader adapter sends. \<open>noted\<close> turns any terminal into one that also keeps the list of the
  requests it was sent.
\<close>

subsection \<open>Keeping the requests\<close>

type_synonym 'v told = "('v, mt5_request) recorded"

definition noted :: "'v terminal \<Rightarrow> 'v told terminal" where
  "noted t =
     \<lparr>xt_installed = xt_installed t, xt_const = xt_const t, xt_initialize = (\<lambda>a b c d. beside (xt_initialize t a b c d)),
      xt_shutdown = beside (xt_shutdown t), xt_last_error = beside (xt_last_error t), xt_account_info = beside (xt_account_info t),
      xt_orders_get = (\<lambda>n. beside (xt_orders_get t n)), xt_positions_get = (\<lambda>n. beside (xt_positions_get t n)),
      xt_deals_get = (\<lambda>i j. beside (xt_deals_get t i j)), xt_symbols_get = (\<lambda>p. beside (xt_symbols_get t p)),
      xt_symbol_info = (\<lambda>s. beside (xt_symbol_info t s)), xt_tick = (\<lambda>s. beside (xt_tick t s)),
      xt_select = (\<lambda>s. beside (xt_select t s)), xt_rates = (\<lambda>s i j. beside (xt_rates t s i j)),
      xt_send = (\<lambda>q. noting q (xt_send t q)), xt_store_fault = beside (xt_store_fault t), xt_clock = beside (xt_clock t),
      xt_monotonic = beside (xt_monotonic t), xt_new_id = beside (xt_new_id t), xt_sleep = (\<lambda>r (v, l). (xt_sleep t r v, l)),
      xt_set_order = xt_set_order t\<rparr>"

definition noting_env :: "'v menv \<Rightarrow> 'v told menv" where
  "noting_env env = \<lparr>me_terminal = noted (me_terminal env), me_config = me_config env\<rparr>"

definition told :: "'v told mworld \<Rightarrow> mt5_request list" where
  "told w = snd (mw_venue w)"

lemma noting_env_sel [simp]: "me_terminal (noting_env env) = noted (me_terminal env)" "me_config (noting_env env) = me_config env"
  by (simp_all add: noting_env_def)

lemma noted_sel [simp]: "xt_installed (noted t) = xt_installed t" "xt_const (noted t) = xt_const t"
  "snd (snd (xt_send (noted t) q v)) = snd v @ [q]" "xt_positions_get (noted t) n = beside (xt_positions_get t n)"
  by (simp_all add: noted_def)

lemma reading_noted: "reading (noted t) v v' \<Longrightarrow> snd v' = snd v"
  by (erule reading.cases) (simp_all add: noted_def split: prod.splits)

definition sent_since :: "'v told mworld \<Rightarrow> mt5_request list \<Rightarrow> 'v told mworld \<Rightarrow> bool" where
  \<comment> \<open>the requests sent since \<open>w\<close>\<close>
  "sent_since w qs w' \<longleftrightarrow> told w' = told w @ qs"

lemma sent_since_refl: "sent_since w [] w"
  by (simp add: sent_since_def)

interpretation still: mt5_aside "noting_env env" "sent_since w qs" for env :: "'v menv" and w :: "'v told mworld" and qs
  by unfold_locales (simp_all add: sent_since_def told_def reading_noted)

interpretation still_session: mt5_session "noting_env env" "sent_since w qs" for env :: "'v menv" and w :: "'v told mworld" and qs
  by unfold_locales (simp_all add: sent_since_def told_def)

subsection \<open>One request per call\<close>

lemma wp_sent_once:
  assumes v: "sent_since w [] v" and Q: "\<And>a w'. sent_since w [q] w' \<Longrightarrow> Q a w'" and E: "\<And>e w'. sent_since w [q] w' \<Longrightarrow> E e w'"
  shows "wp (mt5_send (noting_env env) q) Q E v"
proof -
  let ?v = "v\<lparr>mw_venue := snd (xt_send (noted (me_terminal env)) q (mw_venue v))\<rparr>"
  have "sent_since w [q] ?v" using v by (simp add: sent_since_def told_def)
  with Q E show ?thesis by (auto simp: mt5_send_def mcall_def wp_def split: prod.splits sum.splits)
qed

definition at_most_one :: "'v told mworld \<Rightarrow> 'v told mworld \<Rightarrow> bool" where
  "at_most_one w w' \<longleftrightarrow> (\<exists>qs. sent_since w qs w' \<and> length qs \<le> 1)"

lemma at_most_oneI: "sent_since w [] w' \<Longrightarrow> at_most_one w w'" "sent_since w [q] w' \<Longrightarrow> at_most_one w w'"
  by (auto simp: at_most_one_def)

abbreviation tells_once :: "('v told, 'a) mop \<Rightarrow> 'v told mworld \<Rightarrow> 'v told mworld \<Rightarrow> bool" where
  "tells_once m w v \<equiv> wp m (\<lambda>_. at_most_one w) (\<lambda>_. at_most_one w) v"

lemma told_after:
  assumes "\<And>qs. safe (sent_since w qs) m (\<lambda>_. True)" "at_most_one w v"
  shows "tells_once m w v"
proof -
  from assms(2) obtain qs where qs: "sent_since w qs v" "length qs \<le> 1" by (auto simp: at_most_one_def)
  show ?thesis by (rule safe_wp [OF assms(1) qs(1)]) (use qs(2) in \<open>auto simp: at_most_one_def\<close>)
qed

lemma told_still_then:
  "\<lbrakk>safe (sent_since w []) m (\<lambda>_. True); sent_since w [] v; \<And>x w'. sent_since w [] w' \<Longrightarrow> tells_once (f x) w w'\<rbrakk>
   \<Longrightarrow> tells_once (ebind m f) w v"
  unfolding wp_ebind by (erule (1) safe_wp) (auto intro: at_most_oneI)

lemma told_send_then:
  "\<lbrakk>sent_since w [] v; \<And>x w'. at_most_one w w' \<Longrightarrow> tells_once (f x) w w'\<rbrakk> \<Longrightarrow> tells_once (ebind (mt5_send (noting_env env) q) f) w v"
  by (simp, rule wp_sent_once) (auto intro: at_most_oneI)

lemma told_still: "safe (sent_since w []) m (\<lambda>_. True) \<Longrightarrow> sent_since w [] v \<Longrightarrow> tells_once m w v"
  by (erule (1) safe_wp) (auto intro: at_most_oneI)

lemma told_then:
  "\<lbrakk>tells_once m w v; \<And>x w'. at_most_one w w' \<Longrightarrow> tells_once (f x) w w'\<rbrakk> \<Longrightarrow> tells_once (ebind m f) w v"
  unfolding wp_ebind by (erule wp_mono) auto

lemma told_submit: "sent_since w [] v \<Longrightarrow> tells_once (submit_order (noting_env env) s c x u) w v"
  unfolding submit_order_def
  by (rule told_still_then told_send_then still.safe_offset safe_egot safe_elifted still.safe_quoted told_after still.safe_parse | assumption)+

lemma told_levels: "sent_since w [] v \<Longrightarrow> tells_once (send_levels (noting_env env) p s a b) w v"
  unfolding send_levels_def
  by (rule told_still_then told_send_then safe_elifted told_then told_after still.safe_parse safe_eret TrueI | assumption)+

lemma told_protect: "tells_once (mt5_modify_tpsl (noting_env env) i p tp sl b) w w"
  unfolding mt5_modify_tpsl_def
  by (rule told_still_then told_levels safe_eguarded still.safe_import still.safe_resolve_symbol [THEN safe_any] still.safe_ensure
      safe_if safe_bind_any still.safe_read_tpsl safe_case_option safe_eraise safe_eret wp_case_prod [THEN iffD2] TrueI
      sent_since_refl | assumption | rule prod.case_eq_if [THEN ssubst])+

lemma told_clear: "tells_once (mt5_clear_tpsl (noting_env env) i p a b) w w"
  unfolding mt5_clear_tpsl_def
  by (rule told_still_then safe_eguarded still.safe_import still.safe_resolve_symbol [THEN safe_any] still.safe_ensure
      still.safe_read_tpsl sent_since_refl | assumption)+ (auto intro: told_levels at_most_oneI split: option.splits)

lemma told_request:
  assumes "sent_since w [] v"
  shows "tells_once (ebind (elift r) (\<lambda>q. ebind (mt5_send (noting_env env) q) (\<lambda>x. parse_mt5_result (noting_env env) x c))) w v"
  by (rule told_still_then told_send_then safe_elifted told_after still.safe_parse assms | assumption)+

lemma wp_case_rows:
  "(\<And>r rs. x = Some (r # rs) \<Longrightarrow> wp (f r rs) Q E w) \<Longrightarrow> (x = None \<or> x = Some [] \<Longrightarrow> wp g Q E w)
   \<Longrightarrow> wp (case x of Some (r # rs) \<Rightarrow> f r rs | _ \<Rightarrow> g) Q E w"
  by (auto split: option.split list.split)

lemma told_modify: "tells_once (mt5_modify_order (noting_env env) m) w w"
proof -
  have row: "tells_once (ebind (elift t) (\<lambda>t. case price_stop_price t r of (price, stop) \<Rightarrow>
      ebind (elift (f t price stop)) (\<lambda>q. ebind (mt5_send (noting_env env) q) (\<lambda>x. parse_mt5_result (noting_env env) x c)))) w v"
    if "sent_since w [] v" for t r f c v
    by (rule told_still_then [OF safe_elifted that]) (auto split: prod.splits intro: told_request simp del: wp_ebind)
  have fail: "tells_once (mt5_fail (noting_env env) s) w v" if "sent_since w [] v" for s and w v :: "'a told mworld"
    by (rule told_still [OF still.safe_fail [THEN safe_any] that])
  show ?thesis
    unfolding mt5_modify_order_def
    by (rule told_still_then still.safe_ticket still.safe_import still.safe_orders sent_since_refl wp_case_rows row fail | assumption)+
qed

lemma told_cancel: "tells_once (mt5_cancel_order (noting_env env) c) w w"
  unfolding mt5_cancel_order_def
  by (rule told_still_then told_send_then still.safe_ticket still.safe_import told_then told_after still.safe_parse safe_eret TrueI
      sent_since_refl | assumption)+

subsection \<open>A placement\<close>

definition placement_of :: "mt5_consts \<Rightarrow> string \<Rightarrow> string \<Rightarrow> unified_order \<Rightarrow> mt5_request \<Rightarrow> bool" where
  \<comment> \<open>the translation of the order with its symbol, its comment, the quote of a market order and a filling mode\<close>
  "placement_of c s client u q \<longleftrightarrow>
     (\<exists>offset base price filling. build_mt5_request c offset u = Inr base
        \<and> q = dict_set ''type_filling'' (MV_int filling)
              ((if uo_type u = MARKET then dict_set ''price'' (MV_float price) else id)
                 (commented client (dict_set ''symbol'' (MV_text s) base))))"

definition placing :: "mt5_consts \<Rightarrow> string \<Rightarrow> string \<Rightarrow> unified_order \<Rightarrow> 'v told mworld \<Rightarrow> 'v told mworld \<Rightarrow> bool" where
  "placing c s client u w w' \<longleftrightarrow> (\<exists>q. sent_since w [q] w' \<and> placement_of c s client u q)"

definition placing_or_not :: "mt5_consts \<Rightarrow> string \<Rightarrow> string \<Rightarrow> unified_order \<Rightarrow> 'v told mworld \<Rightarrow> 'v told mworld \<Rightarrow> bool" where
  "placing_or_not c s client u w w' \<longleftrightarrow> sent_since w [] w' \<or> placing c s client u w w'"

lemma wp_quiet_first:
  assumes "safe (sent_since w []) m (\<lambda>_. True)" "sent_since w [] v" "\<And>a v'. sent_since w [] v' \<Longrightarrow> wp (f a) Q (\<lambda>_. placing_or_not c s client u w) v'"
  shows "wp (ebind m f) Q (\<lambda>_. placing_or_not c s client u w) v"
  unfolding wp_ebind by (rule safe_wp [OF assms(1,2)]) (auto simp: placing_or_not_def intro: assms(3))

lemma quoted_value:
  "wp (quoted env s u q) (\<lambda>q' _. \<exists>price. q' = (if uo_type u = MARKET then dict_set ''price'' (MV_float price) else id) q) (\<lambda>_ _. True) v"
proof -
  have any: "wp m (\<lambda>_ _. True) (\<lambda>_ _. True) w" for m :: "('x, 'y) eff" and w
    by (rule wp_runI) (simp split: sum.splits)
  have fail: "wp (mt5_fail env x) Q (\<lambda>_ _. True) w" for x Q w
    by (auto simp: mt5_fail_def mside_def wp_def ebind_def elift_def split: prod.splits)
  have "wp (wait_for_market_tick env s n) (\<lambda>a. wp (case a of None \<Rightarrow> mt5_fail env ''no market quote''
      | Some t \<Rightarrow> eret (dict_set ''price'' (MV_float (f t)) q)) (\<lambda>q' _. \<exists>price. q' = dict_set ''price'' (MV_float price) q)
      (\<lambda>_ _. True)) (\<lambda>_ _. True) w" for n f w
    by (rule wp_mono [OF any]) (auto simp: fail split: option.splits)
  then show ?thesis by (auto simp: quoted_def)
qed

lemma parse_client: "wp (parse_mt5_result env r c) (\<lambda>x _. re_client_id x = c) (\<lambda>_ _. True) v"
  by (auto simp: parse_mt5_result_def mt5_fail_def mside_def mt5_now_def wp_def ebind_def elift_def eret_def order_result_of_def Let_def
      split: option.splits prod.splits)

lemma submit_places:
  assumes "sent_since w [] v"
  shows "wp (submit_order (noting_env env) s client info u)
    (\<lambda>x w'. placing (xt_const (me_terminal env)) s client u w w' \<and> re_client_id x = client)
    (\<lambda>_. placing_or_not (xt_const (me_terminal env)) s client u w) v"
proof -
  let ?c = "xt_const (me_terminal env)"
  let ?Q = "\<lambda>x w'. placing ?c s client u w w' \<and> re_client_id x = client" and ?E = "\<lambda>_ :: exn. placing_or_not ?c s client u w"
  have send: "wp (ebind (mt5_send (noting_env env) q) (\<lambda>r. parse_mt5_result (noting_env env) r client)) ?Q ?E v'"
    if "sent_since w [] v'" "placement_of ?c s client u q" for q v'
    unfolding wp_ebind
  proof (rule wp_sent_once [OF that(1)])
    fix r w' assume w': "sent_since w [q] w'"
    show "wp (parse_mt5_result (noting_env env) r client) ?Q ?E w'"
      by (rule wp_mono [OF wp_conj [OF parse_client safe_wp [OF still.safe_parse w', where Q = "\<lambda>_. sent_since w [q]"
            and E = "\<lambda>_. sent_since w [q]"]]])
        (use that(2) in \<open>auto simp: placing_def placing_or_not_def\<close>)
  qed (use that(2) in \<open>auto simp: placing_def placing_or_not_def\<close>)
  have fill: "wp (ebind (elift r) (\<lambda>filling. ebind (mt5_send (noting_env env) (dict_set ''type_filling'' (MV_int filling) q))
      (\<lambda>r. parse_mt5_result (noting_env env) r client))) ?Q ?E v'"
    if "sent_since w [] v'" "\<And>filling. placement_of ?c s client u (dict_set ''type_filling'' (MV_int filling) q)" for q v' r
    by (rule wp_quiet_first [OF safe_elifted that(1)], rule send) (rule that | assumption)+
  show ?thesis
    unfolding submit_order_def
  proof (rule wp_quiet_first [OF still.safe_offset assms], rule wp_quiet_first [OF safe_egot], assumption)
    fix offset v1 assume v1: "sent_since w [] v1"
    show "wp (ebind (elift (build_mt5_request (xt_const (me_terminal (noting_env env))) offset u)) (\<lambda>request.
        ebind (quoted (noting_env env) s u (commented client (dict_set ''symbol'' (MV_text s) request))) (\<lambda>request'.
        ebind (elift (select_filling (sy_filling_mode info) (uo_tif u))) (\<lambda>filling.
        ebind (mt5_send (noting_env env) (dict_set ''type_filling'' (MV_int filling) request')) (\<lambda>result.
        parse_mt5_result (noting_env env) result client))))) ?Q ?E v1"
    proof (cases "build_mt5_request ?c offset u")
      case (Inl e)
      with v1 show ?thesis by (simp add: placing_or_not_def)
    next
      case (Inr base)
      let ?q = "commented client (dict_set ''symbol'' (MV_text s) base)"
      let ?rest = "\<lambda>request'. ebind (elift (select_filling (sy_filling_mode info) (uo_tif u))) (\<lambda>filling.
        ebind (mt5_send (noting_env env) (dict_set ''type_filling'' (MV_int filling) request')) (\<lambda>result.
        parse_mt5_result (noting_env env) result client))"
      have "wp (quoted (noting_env env) s u ?q) (\<lambda>q'. wp (?rest q') ?Q ?E) ?E v1"
      proof (rule wp_mono [OF wp_conj [OF quoted_value safe_wp [OF still.safe_quoted v1, where Q = "\<lambda>_. sent_since w []"
            and E = "\<lambda>_. sent_since w []"]]], simp_all only:, elim conjE exE)
        fix q' v' price assume q': "q' = (if uo_type u = MARKET then dict_set ''price'' (MV_float price) else id) ?q" and v': "sent_since w [] v'"
        show "wp (?rest q') ?Q ?E v'"
          by (rule fill [OF v']) (unfold placement_of_def q', use Inr in blast)
      qed (auto simp: placing_or_not_def)
      with Inr show ?thesis by (simp only: wp_ebind wp_elift_simps noting_env_sel noted_sel)
    qed
  qed
qed

lemma corrected_value:
  "wp (correct_order env s info u) (\<lambda>u' _. \<exists>i. u' = u\<lparr>uo_instrument := i\<rparr>) (\<lambda>_ _. True) v"
proof -
  have self: "\<exists>i. u = u\<lparr>uo_instrument := i\<rparr>" by (rule exI [of _ "uo_instrument u"]) simp
  show ?thesis
    by (cases "corrected_instrument (me_config env) s info (uo_instrument u)") (auto simp: correct_order_def intro: self)
qed

lemma build_instrument: "build_mt5_request c offset (u\<lparr>uo_instrument := i\<rparr>) = build_mt5_request c offset u"
proof -
  have "request_prices (u\<lparr>uo_instrument := i\<rparr>) = request_prices u" by (cases "uo_type u") (simp_all add: request_prices_def)
  moreover have "expiration_fields c offset (u\<lparr>uo_instrument := i\<rparr>) = expiration_fields c offset u"
    by (cases "uo_tif u") (simp_all add: expiration_fields_def)
  ultimately show ?thesis by (simp add: build_mt5_request_def)
qed

lemma placement_instrument: "placement_of c s client (u\<lparr>uo_instrument := i\<rparr>) = placement_of c s client u"
  by (simp add: fun_eq_iff placement_of_def build_instrument)

lemma placing_instrument:
  "placing c s client (u\<lparr>uo_instrument := i\<rparr>) = placing c s client u"
  "placing_or_not c s client (u\<lparr>uo_instrument := i\<rparr>) = placing_or_not c s client u"
  by (simp_all add: fun_eq_iff placing_def placing_or_not_def placement_instrument)

lemma placing_told: "told w' = told v \<Longrightarrow> placing c s client u w w' = placing c s client u w v"
  by (simp add: placing_def sent_since_def)

lemma forgotten_places:
  assumes "wp m Q (\<lambda>_. placing_or_not c s client u w) v"
  shows "wp (forgetting i m) Q (\<lambda>_. placing_or_not c s client u w) v"
  unfolding forgetting_def wp_etry
  by (rule wp_mono [OF assms]) (auto simp: invalidate_spec_cache_def placing_or_not_def placing_def sent_since_def told_def)

lemma result_places:
  assumes "in_platform_symbol (uo_instrument u) = Some s" "sent_since w [] v"
  shows "wp (placed_result (noting_env env) s client u)
    (\<lambda>(u', x) w'. placing (xt_const (me_terminal env)) s client u w w' \<and> re_client_id x = client)
    (\<lambda>_. placing_or_not (xt_const (me_terminal env)) s client u w) v"
proof -
  let ?c = "xt_const (me_terminal env)"
  let ?Q = "\<lambda>x w'. placing ?c s client u w w' \<and> re_client_id x = client" and ?E = "\<lambda>_ :: exn. placing_or_not ?c s client u w"
  show ?thesis
    unfolding placed_result_def
  proof (rule wp_quiet_first [OF still.safe_forgetting [OF still.safe_symbol_info] assms(2)])
    fix info v1 assume v1: "sent_since w [] v1"
    let ?rest = "\<lambda>u'. ebind (forgetting (uo_instrument u') (submit_order (noting_env env) s client info u')) (\<lambda>result. eret (u', result))"
    have "wp (correct_order (noting_env env) s info u) (\<lambda>u'. wp (?rest u') (\<lambda>(u', x) w'. ?Q x w') ?E) ?E v1"
    proof (rule wp_mono [OF wp_conj [OF corrected_value safe_wp [OF still.safe_correct [OF assms(1)] v1, where Q = "\<lambda>_. sent_since w []"
          and E = "\<lambda>_. sent_since w []"]]], simp_all only:, elim conjE exE)
      fix u' v2 i assume u': "u' = u\<lparr>uo_instrument := i\<rparr>" and v2: "sent_since w [] v2"
      have "wp (submit_order (noting_env env) s client info u') ?Q ?E v2"
        using submit_places [OF v2, of env s client info u'] by (simp add: u' placing_instrument)
      then have "wp (forgetting (uo_instrument u') (submit_order (noting_env env) s client info u')) ?Q ?E v2"
        by (rule forgotten_places)
      then show "wp (?rest u') (\<lambda>(u', x) w'. ?Q x w') ?E v2" by (simp add: wp_funs)
    qed (auto simp: placing_or_not_def)
    then show "wp (ebind (correct_order (noting_env env) s info u) ?rest) (\<lambda>(u', x) w'. ?Q x w') ?E v1" by simp
  qed
qed

definition remembered :: "string \<Rightarrow> order_result \<Rightarrow> 'v mworld \<Rightarrow> bool" where
  \<comment> \<open>the ticket of the result is known under the client's id\<close>
  "remembered client x w \<longleftrightarrow>
     (case re_platform_id x of None \<Rightarrow> True | Some p \<Rightarrow> (case int_of_text p of None \<Rightarrow> False | Some n \<Rightarrow> known_ticket w client = Some n))"

definition placed_ok :: "mt5_consts \<Rightarrow> string \<Rightarrow> string \<Rightarrow> unified_order \<Rightarrow> 'v told mworld \<Rightarrow> order_result \<Rightarrow> 'v told mworld \<Rightarrow> bool" where
  "placed_ok c s client u w x w' \<longleftrightarrow> placing c s client u w w' \<and> re_client_id x = client \<and> remembered client x w'"

definition placement_rest :: "'v menv \<Rightarrow> string \<Rightarrow> string \<Rightarrow> unified_order \<Rightarrow> ('v, unified_order \<times> order_result) mop" where
  "placement_rest env s client u =
     ebind (get_mt5 env) (\<lambda>_. ebind (placed_result env s client u) (\<lambda>(u', result).
     ebind (remember_ticket client result) (\<lambda>_. eret (u', result))))"

lemma rest_places:
  assumes "in_platform_symbol (uo_instrument u) = Some s" "sent_since w [] v"
  shows "wp (placement_rest (noting_env env) s client u) (\<lambda>(u', x). placed_ok (xt_const (me_terminal env)) s client u w x)
    (\<lambda>_. placing_or_not (xt_const (me_terminal env)) s client u w) v"
proof -
  let ?c = "xt_const (me_terminal env)"
  let ?Q = "\<lambda>(u', x). placed_ok ?c s client u w x" and ?E = "\<lambda>_ :: exn. placing_or_not ?c s client u w"
  have keep: "wp (ebind (remember_ticket client x) (\<lambda>_. eret (u', x))) ?Q ?E v"
    if "placing ?c s client u w v" "re_client_id x = client" for u' x v
    using that
    by (auto simp: remember_ticket_def mt5_int_def remembered_def known_ticket_def placing_or_not_def placing_def sent_since_def told_def
        placed_ok_def split: option.splits)
  show ?thesis
    unfolding placement_rest_def
  proof (rule wp_quiet_first [OF still.safe_import assms(2)])
    fix v1 assume v1: "sent_since w [] v1"
    show "wp (ebind (placed_result (noting_env env) s client u) (\<lambda>(u', result). ebind (remember_ticket client result) (\<lambda>_. eret (u', result)))) ?Q ?E v1"
      unfolding wp_ebind [of "placed_result _ _ _ _"]
    proof (rule wp_mono [OF result_places [OF assms(1) v1]])
      fix p :: "unified_order \<times> order_result" and w'
      assume p: "(case p of (u', x) \<Rightarrow> \<lambda>w'. placing ?c s client u w w' \<and> re_client_id x = client) w'"
      show "wp (case p of (u', result) \<Rightarrow> ebind (remember_ticket client result) (\<lambda>_. eret (u', result))) ?Q ?E w'"
        using keep [of w' "snd p" "fst p"] p by (cases p) (simp only: prod.case fst_conv snd_conv)
    qed
  qed
qed

lemma place_unfold:
  "in_platform_symbol (uo_instrument u) = Some s \<Longrightarrow> mt5_place_order env u =
     ebind (ebind (record_symbol_mapping (uo_instrument u)) (\<lambda>_.
       ebind (if text_of (uo_client_id u) \<noteq> [] then eret (text_of (uo_client_id u)) else mt5_id env) (\<lambda>client.
       placement_rest env s client u))) (\<lambda>(u', result). eret result)"
  unfolding mt5_place_order_def mt5_place_def resolve_mt5_symbol_def to_mt5_symbol_def placement_rest_def
  by (simp add: fun_eq_iff ebind_def elift_def split: prod.splits sum.splits)

lemma place_places:
  assumes "in_platform_symbol (uo_instrument u) = Some s" "uo_client_id u = Some client" "client \<noteq> []"
  shows "wp (mt5_place_order (noting_env env) u) (placed_ok (xt_const (me_terminal env)) s client u w)
    (\<lambda>_. placing_or_not (xt_const (me_terminal env)) s client u w) w"
proof -
  have rest: "wp (placement_rest (noting_env env) s client u) (\<lambda>a. wp (case a of (u', x) \<Rightarrow> eret x)
      (placed_ok (xt_const (me_terminal env)) s client u w) (\<lambda>_. placing_or_not (xt_const (me_terminal env)) s client u w))
      (\<lambda>_. placing_or_not (xt_const (me_terminal env)) s client u w) v" if "sent_since w [] v" for v
    by (rule wp_mono [OF rest_places [OF assms(1) that]]) auto
  show ?thesis
    unfolding place_unfold [OF assms(1)] wp_ebind
    by (rule safe_wp [OF still.safe_record_symbol sent_since_refl])
      (use assms rest in \<open>auto simp: text_of_def placing_or_not_def\<close>)
qed

lemma told_place: "tells_once (mt5_place_order (noting_env env) u) w w"
proof (cases "in_platform_symbol (uo_instrument u)")
  case None
  then show ?thesis
    by (simp add: mt5_place_order_def mt5_place_def resolve_mt5_symbol_def record_symbol_mapping_def to_mt5_symbol_def
        at_most_oneI sent_since_refl)
next
  case (Some s)
  have rest: "tells_once (placement_rest (noting_env env) s client u) w v" if "sent_since w [] v" for client v
    by (rule wp_mono [OF rest_places [OF Some that]]) (auto simp: placed_ok_def placing_or_not_def placing_def intro: at_most_oneI)
  show ?thesis
    unfolding place_unfold [OF Some]
    by (rule told_then told_still_then still.safe_record_symbol safe_if safe_eret still.safe_id sent_since_refl rest TrueI told_after
        safe_case_prod | assumption)+
qed

subsection \<open>The properties\<close>

text \<open>
  C16. One request per call. Whatever the terminal answers, placing, changing and cancelling an order and
  setting and clearing the protection of a position send at most one request each, and no other call sends
  any: connecting, polling, the reads of reconciliation, the resolution of symbols and the waiting for a
  quote trade nothing, and nothing is sent a second time.
\<close>

theorem mt5_trades_once:
  "\<exists>qs. told (snd (mt5_effect (noting_env env) c w)) = told w @ qs \<and> length qs \<le> (if is_trade_call c then 1 else 0)"
proof (cases "is_trade_call c")
  case False
  have "safe (sent_since w []) (mt5_effect (noting_env env) c) (\<lambda>_. True)"
    by (cases "is_session_call c") (simp_all add: still_session.safe_session_call still.safe_query False)
  from safeD [OF this sent_since_refl prod.collapse [symmetric]] show ?thesis by (auto simp: sent_since_def)
next
  case True
  have once: "\<exists>qs. told (snd (m w)) = told w @ qs \<and> length qs \<le> 1" if "tells_once m w w" for m :: "('a told, 'b) mop"
    using that by (auto simp: wp_def at_most_one_def sent_since_def split: prod.splits sum.splits)
  have mute: "snd (mute m w) = snd (m w)" for m :: "('a told, 'b) mop"
    by (simp add: mute_def ebind_def eret_def split: prod.splits sum.splits)
  from True once [OF told_place] once [OF told_modify] once [OF told_cancel] once [OF told_protect] once [OF told_clear]
  show ?thesis by (cases c) (simp_all add: is_trade_call_def mute)
qed

text \<open>
  C15. A placement. For an order with a client id and an instrument of the terminal, whatever the terminal
  answers: an order that is placed was sent exactly once, as its translation with its symbol, the comment of
  its id, the quote if it is a market order and a filling mode, although the instrument may have been
  corrected on the way; the result bears the id, and the ticket is known under it from then on. When the
  placement raises, that request or none was sent.
\<close>

theorem mt5_placed_once:
  assumes "in_platform_symbol (uo_instrument u) = Some s" "uo_client_id u = Some client" "client \<noteq> []"
    and "mt5_place_order (noting_env env) u w = (r, w')"
  shows "\<exists>qs. told w' = told w @ qs \<and> length qs \<le> 1 \<and> list_all (placement_of (xt_const (me_terminal env)) s client u) qs
     \<and> (case r of Inl _ \<Rightarrow> True | Inr x \<Rightarrow> qs \<noteq> [] \<and> re_client_id x = client \<and> remembered client x w')"
  using wp_run [OF place_places [OF assms(1-3)] assms(4)]
  by (cases r) (auto simp: placed_ok_def placing_or_not_def placing_def sent_since_def)

subsection \<open>A terminal on paper\<close>

definition paper_symbol :: mt5_symbol where
  "paper_symbol =
     \<lparr>sy_name = Some ''EURUSD.pro'', sy_base = Some ''EUR'', sy_profit = Some ''USD'', sy_path = ''Forex/Majors'', sy_calc_mode = Some 0,
      sy_trade_mode = 4, sy_filling_mode = 2, sy_tick_size = 1 / 100000, sy_volume_step = 1 / 100, sy_volume_min = 1 / 100,
      sy_volume_max = 50, sy_digits = 5, sy_point = None, sy_trade_tick_size = None, sy_stops_level = None, sy_spread = None\<rparr>"

definition paper_terminal :: "unit terminal" where
  \<comment> \<open>one symbol, one position, and every request is carried out\<close>
  "paper_terminal =
     \<lparr>xt_installed = True, xt_const = (\<lambda>k. if k = ''TRADE_ACTION_PENDING'' then 5 else if k = ''TRADE_ACTION_SLTP'' then 6 else 1),
      xt_initialize = (\<lambda>_ _ _ _ v. (Inr True, v)), xt_shutdown = (\<lambda>v. (Inr (), v)), xt_last_error = (\<lambda>v. ((1, ''Success''), v)),
      xt_account_info = (\<lambda>v. (Inr (Some \<lparr>ac_login = 7, ac_currency = ''USD'', ac_balance = 100, ac_margin = 0, ac_leverage = 30\<rparr>), v)),
      xt_orders_get = (\<lambda>_ v. (Inr (Some []), v)),
      xt_positions_get = (\<lambda>_ v. (Inr (Some [\<lparr>xp_ticket = 55, xp_symbol = ''EURUSD.pro'', xp_type = 0, xp_volume = 1, xp_price_open = 1,
         xp_time = 1000, xp_tp = Some (3 / 2), xp_sl = Some (1 / 2)\<rparr>]), v)),
      xt_deals_get = (\<lambda>_ _ v. (Inr (Some []), v)), xt_symbols_get = (\<lambda>_ v. (Inr (Some [''EURUSD.pro'']), v)),
      xt_symbol_info = (\<lambda>_ v. (Inr (Some paper_symbol), v)), xt_tick = (\<lambda>_ v. (Inr None, v)), xt_select = (\<lambda>_ v. (Inr True, v)),
      xt_rates = (\<lambda>_ _ _ v. (Inr None, v)),
      xt_send = (\<lambda>_ v. (Inr (Some \<lparr>xr_retcode = 10009, xr_deal = 0, xr_order = Some 77, xr_volume = 1, xr_price = None, xr_comment = []\<rparr>), v)),
      xt_store_fault = (\<lambda>v. (None, v)), xt_clock = (\<lambda>v. (1000000, v)), xt_monotonic = (\<lambda>v. (0, v)), xt_new_id = (\<lambda>v. (''n'', v)),
      xt_sleep = (\<lambda>_ v. v), xt_set_order = id\<rparr>"

definition paper_env :: "unit menv" where
  "paper_env = \<lparr>me_terminal = paper_terminal, me_config = \<lparr>xc_login = 7, xc_password = [], xc_server = [], xc_path = None,
     xc_poll_interval = 1 / 2, xc_ttl = None, xc_balance_poll = True, xc_balance_interval = 5, xc_class_map = None\<rparr>\<rparr>"

definition paper_pair :: instrument where
  \<comment> \<open>named differently from the broker's metadata, so the placement corrects it\<close>
  "paper_pair = \<lparr>in_symbol = ''EURO'', in_asset_class = MARGIN_FX, in_quote = Some ''USD'', in_exchange = None, in_currency = None,
     in_expiry = None, in_strike = None, in_right = None, in_multiplier = None, in_platform_symbol = Some ''EURUSD.pro''\<rparr>"

definition paper_order :: unified_order where
  "paper_order = \<lparr>uo_instrument = paper_pair, uo_type = LIMIT, uo_side = BUY, uo_quantity = 1, uo_tif = GTC, uo_client_id = Some ''A1'',
     uo_price = Some (5 / 4), uo_stop_price = None, uo_reduce_only = False, uo_client_tag = None, uo_take_profit = None,
     uo_stop_loss = Some \<lparr>tp_trigger = 1, tp_limit = None\<rparr>, uo_position_id = None, uo_expire_at = None\<rparr>"

definition paper_start :: "unit told mworld" where
  "paper_start = mt5_init ((), []) False True None"

theorem mt5_placed_once_witness:
  "\<exists>x w' q. mt5_place_order (noting_env paper_env) paper_order paper_start = (Inr x, w') \<and> told w' = [q]
     \<and> placement_of (xt_const paper_terminal) ''EURUSD.pro'' ''A1'' paper_order q \<and> remembered ''A1'' x w'"
proof -
  let ?m = "mt5_place_order (noting_env paper_env) paper_order paper_start"
  obtain r w' where run: "?m = (r, w')" by (rule prod.exhaust)
  have "case fst ?m of Inr x \<Rightarrow> True | _ \<Rightarrow> False" by code_simp
  then obtain x where x: "r = Inr x" by (auto simp: run split: sum.splits)
  have o: "in_platform_symbol (uo_instrument paper_order) = Some ''EURUSD.pro''" "uo_client_id paper_order = Some ''A1''" "''A1'' \<noteq> []"
    by (simp_all add: paper_order_def paper_pair_def)
  from mt5_placed_once [OF o run] obtain qs where qs: "told w' = told paper_start @ qs" "length qs \<le> 1" "qs \<noteq> []"
    "list_all (placement_of (xt_const (me_terminal paper_env)) ''EURUSD.pro'' ''A1'' paper_order) qs" "remembered ''A1'' x w'"
    by (auto simp: x)
  from qs(2,3) obtain q where "qs = [q]" by (cases qs) auto
  with qs run x show ?thesis by (auto simp: paper_start_def told_def mt5_init_def paper_env_def)
qed

end
