(* ===== verification/UTE_MT5_Levels.thy ===== *)
theory UTE_MT5_Levels
  imports UTE_MT5_Requests
begin

text \<open>
  What the requests of the MetaTrader adapter mean: the levels a change of a position's protection leaves, and
  the order a pending order reads back as.
\<close>

subsection \<open>Position protection\<close>

definition levels_request :: "mt5_consts \<Rightarrow> string \<Rightarrow> int \<Rightarrow> decimal \<Rightarrow> decimal \<Rightarrow> mt5_request" where
  "levels_request c s n tp sl =
     [(''action'', MV_int (c ''TRADE_ACTION_SLTP'')), (''symbol'', MV_text s), (''position'', MV_int n), (''tp'', MV_float tp), (''sl'', MV_float sl)]"

definition level_of :: "decimal option \<Rightarrow> decimal" where
  \<comment> \<open>the level a row of the terminal reports, zero for none\<close>
  "level_of x = (case x of None \<Rightarrow> 0 | Some d \<Rightarrow> d)"

definition holds_leg :: "'v terminal \<Rightarrow> int \<Rightarrow> mt5_position \<Rightarrow> bool" where
  \<comment> \<open>asked for the ticket, the terminal answers with this position, whose levels are floats\<close>
  "holds_leg t n p \<longleftrightarrow>
     (\<forall>v. \<exists>ps. fst (xt_positions_get t (Some n) v) = Inr (Some (p # ps)))
     \<and> py_float (level_of (xp_tp p)) = level_of (xp_tp p) \<and> py_float (level_of (xp_sl p)) = level_of (xp_sl p)"

lemma kept_level: "py_float (level_of x) = level_of x \<Longrightarrow> level_value (nonzero x) = level_of x"
  by (auto simp: level_value_def nonzero_def level_of_def split: option.splits)

lemma wp_levels:
  assumes "sent_since w [] v" "int_of_text position = Some n"
  shows "wp (send_levels (noting_env env) position s tp sl)
    (\<lambda>_. sent_since w [levels_request (xt_const (me_terminal env)) s n (level_value tp) (level_value sl)]) (\<lambda>_ _. True) v"
proof -
  let ?q = "levels_request (xt_const (me_terminal env)) s n (level_value tp) (level_value sl)"
  have q: "build_mt5_sltp_request (xt_const (me_terminal env)) position s (level_value tp) (level_value sl) = Inr ?q"
    by (simp add: build_mt5_sltp_request_def mt5_int_def assms(2) levels_request_def)
  have "wp (mt5_send (noting_env env) ?q) (\<lambda>r. wp (parse_mt5_result (noting_env env) r position) (\<lambda>_. sent_since w [?q]) (\<lambda>_ _. True))
    (\<lambda>_ _. True) v"
    by (rule wp_sent_once [OF assms(1)]) (rule safe_wp [OF still.safe_parse], simp_all)
  then show ?thesis by (simp add: send_levels_def q wp_funs)
qed

lemma wp_read_leg:
  assumes "holds_leg (me_terminal env) n p" "int_of_text position = Some n"
  shows "wp (read_position_tpsl (noting_env env) position) (\<lambda>r _. r = Some (nonzero (xp_tp p), nonzero (xp_sl p))) (\<lambda>_ _. True) v"
proof -
  have "\<exists>ps. fst (beside (xt_positions_get (me_terminal env) (Some n)) (mw_venue v)) = Inr (Some (p # ps))"
    using assms(1) by (simp add: holds_leg_def)
  then obtain ps u where "beside (xt_positions_get (me_terminal env) (Some n)) (mw_venue v) = (Inr (Some (p # ps)), u)"
    by (metis prod.collapse)
  then have "mcall (xt_positions_get (me_terminal (noting_env env)) (Some n)) v = (Inr (Some (p # ps)), v\<lparr>mw_venue := u\<rparr>)"
    by (simp add: mcall_def)
  then have "wp (mcall (xt_positions_get (me_terminal (noting_env env)) (Some n))) (\<lambda>r _. r = Some (p # ps)) (\<lambda>_ _. True) v"
    by (simp add: wp_def)
  then have "wp (mcall (xt_positions_get (me_terminal (noting_env env)) (Some n))) (\<lambda>r. wp (check_call_result (noting_env env) ''positions_get'' r)
      (\<lambda>ps. wp (eret (case ps of [] \<Rightarrow> None | p # _ \<Rightarrow> Some (nonzero (xp_tp p), nonzero (xp_sl p))))
        (\<lambda>r _. r = Some (nonzero (xp_tp p), nonzero (xp_sl p))) (\<lambda>_ _. True)) (\<lambda>_ _. True)) (\<lambda>_ _. True) v"
    by (rule wp_mono) (simp_all add: check_call_result_def)
  then show ?thesis by (simp only: read_position_tpsl_def mt5_int_def assms(2) option.case wp_ebind wp_ebind [abs_def] wp_elift_simps)
qed

lemma wp_read_leg_then:
  assumes "holds_leg (me_terminal env) n p" "int_of_text position = Some n" "sent_since w [] v"
    and "\<And>v. sent_since w [] v \<Longrightarrow> wp (f (Some (nonzero (xp_tp p), nonzero (xp_sl p)))) Q (\<lambda>_ _. True) v"
  shows "wp (ebind (read_position_tpsl (noting_env env) position) f) Q (\<lambda>_ _. True) v"
  unfolding wp_ebind
  by (rule wp_mono [OF wp_conj [OF wp_read_leg [OF assms(1,2)] safe_wp [OF still.safe_read_tpsl assms(3), where Q = "\<lambda>_. sent_since w []"
        and E = "\<lambda>_ _. True"]]]) (use assms(4) in auto)

lemma wp_still_then:
  assumes "safe (sent_since w []) m (\<lambda>_. True)" "sent_since w [] v" "\<And>a v'. sent_since w [] v' \<Longrightarrow> wp (f a) Q (\<lambda>_ _. True) v'"
  shows "wp (ebind m f) Q (\<lambda>_ _. True) v"
  unfolding wp_ebind by (rule safe_wp [OF assms(1,2)]) (auto intro: assms(3))

lemma wp_symbol_then:
  assumes "in_platform_symbol i = Some s" "sent_since w [] v" "\<And>v'. sent_since w [] v' \<Longrightarrow> wp (f s) Q (\<lambda>_ _. True) v'"
  shows "wp (ebind (resolve_mt5_symbol i) f) Q (\<lambda>_ _. True) v"
  by (simp add: resolve_mt5_symbol_def to_mt5_symbol_def assms(1) wp_funs, rule safe_wp [OF still.safe_record_symbol assms(2)])
    (auto intro: assms(3))

lemma protect_levels:
  assumes "holds_leg (me_terminal env) n p" "int_of_text position = Some n" "in_platform_symbol i = Some s"
  shows "wp (mt5_modify_tpsl (noting_env env) i position tp sl b)
    (\<lambda>_. sent_since w [levels_request (xt_const (me_terminal env)) s n
        (case tp of Some x \<Rightarrow> py_float (tp_trigger x) | None \<Rightarrow> level_of (xp_tp p))
        (case sl of Some x \<Rightarrow> py_float (tp_trigger x) | None \<Rightarrow> level_of (xp_sl p))]) (\<lambda>_ _. True) w"
proof -
  let ?t = "\<lambda>a. case tp of Some x \<Rightarrow> Some (tp_trigger x) | None \<Rightarrow> a" and ?s = "\<lambda>a. case sl of Some x \<Rightarrow> Some (tp_trigger x) | None \<Rightarrow> a"
  let ?q = "levels_request (xt_const (me_terminal env)) s n
        (case tp of Some x \<Rightarrow> py_float (tp_trigger x) | None \<Rightarrow> level_of (xp_tp p))
        (case sl of Some x \<Rightarrow> py_float (tp_trigger x) | None \<Rightarrow> level_of (xp_sl p))"
  have send: "wp (send_levels (noting_env env) position s (?t a) (?s c)) (\<lambda>_. sent_since w [?q]) (\<lambda>_ _. True) v"
    if "sent_since w [] v" "tp = None \<Longrightarrow> a = nonzero (xp_tp p)" "sl = None \<Longrightarrow> c = nonzero (xp_sl p)" for v a c
  proof -
    have "level_value (?t a) = (case tp of Some x \<Rightarrow> py_float (tp_trigger x) | None \<Rightarrow> level_of (xp_tp p))"
      "level_value (?s c) = (case sl of Some x \<Rightarrow> py_float (tp_trigger x) | None \<Rightarrow> level_of (xp_sl p))"
      using that(2,3) assms(1) by (auto simp: holds_leg_def kept_level level_value_def [of "Some _"] split: option.splits)
    with wp_levels [OF that(1) assms(2), of env s "?t a" "?s c"] show ?thesis by simp
  qed
  have levels: "wp (ebind (if tp \<noteq> None \<and> sl \<noteq> None then eret (None, None)
            else ebind (read_position_tpsl (noting_env env) position) (\<lambda>current.
                 (case current of None \<Rightarrow> eraise OrderNotFoundError ''No open MT5 position'' | Some p \<Rightarrow> eret p)))
      (\<lambda>(a, c). send_levels (noting_env env) position s (?t a) (?s c))) (\<lambda>_. sent_since w [?q]) (\<lambda>_ _. True) v" if "sent_since w [] v" for v
  proof (cases "tp \<noteq> None \<and> sl \<noteq> None")
    case True
    with send [OF that, of None None] show ?thesis by simp
  next
    case False
    have "wp (ebind (ebind (read_position_tpsl (noting_env env) position) (\<lambda>current.
        (case current of None \<Rightarrow> eraise OrderNotFoundError ''No open MT5 position'' | Some p \<Rightarrow> eret p)))
        (\<lambda>(a, c). send_levels (noting_env env) position s (?t a) (?s c))) (\<lambda>_. sent_since w [?q]) (\<lambda>_ _. True) v"
      unfolding wp_ebind [of "ebind _ _"]
      by (rule wp_read_leg_then [OF assms(1,2) that]) (simp add: send)
    with False show ?thesis by (simp only: if_False)
  qed
  show ?thesis
    unfolding mt5_modify_tpsl_def
    by (assumption | rule sent_since_refl levels wp_still_then [where w = w, OF safe_eguarded] wp_still_then [where w = w, OF still.safe_import]
        wp_still_then [where w = w, OF still.safe_ensure] wp_symbol_then [where w = w, OF assms(3)])+
qed

text \<open>
  C20. A partial change of a position's protection keeps the other side. When a call that sets a take profit, a
  stop loss or both returns, exactly one request was sent, for the ticket of the position and its symbol, and
  it carries both levels, as the terminal needs: each level that was given, as a float, and for the side that
  was not given the level the position has.
\<close>

theorem mt5_protection_kept:
  assumes "holds_leg (me_terminal env) n p" "int_of_text position = Some n" "in_platform_symbol i = Some s"
    and "mt5_modify_tpsl (noting_env env) i position tp sl basis w = (Inr (), w')"
  shows "told w' = told w @ [levels_request (xt_const (me_terminal env)) s n
     (case tp of Some x \<Rightarrow> py_float (tp_trigger x) | None \<Rightarrow> level_of (xp_tp p))
     (case sl of Some x \<Rightarrow> py_float (tp_trigger x) | None \<Rightarrow> level_of (xp_sl p))]"
  using wp_run [OF protect_levels [OF assms(1-3)] assms(4)] by (simp add: sent_since_def)

theorem mt5_protection_kept_witness:
  "\<exists>w'. mt5_modify_tpsl (noting_env paper_env) paper_pair ''55'' None (Some \<lparr>tp_trigger = 3 / 4, tp_limit = None\<rparr>) None paper_start = (Inr (), w')
     \<and> told w' = [levels_request (xt_const paper_terminal) ''EURUSD.pro'' 55 (3 / 2) (3 / 4)]"
proof -
  let ?m = "mt5_modify_tpsl (noting_env paper_env) paper_pair ''55'' None (Some \<lparr>tp_trigger = 3 / 4, tp_limit = None\<rparr>) None paper_start"
  obtain r w' where run: "?m = (r, w')" by (rule prod.exhaust)
  have "case fst ?m of Inr x \<Rightarrow> True | _ \<Rightarrow> False" by code_simp
  then have r: "?m = (Inr (), w')" by (auto simp: run split: sum.splits)
  let ?p = "\<lparr>xp_ticket = 55, xp_symbol = ''EURUSD.pro'', xp_type = 0, xp_volume = 1, xp_price_open = 1, xp_time = 1000,
    xp_tp = Some (3 / 2), xp_sl = Some (1 / 2)\<rparr>"
  have f: "py_float (3 / 2) = 3 / 2" "py_float (1 / 2) = 1 / 2" "py_float (3 / 4) = 3 / 4" by code_simp+
  then have "holds_leg (me_terminal paper_env) 55 ?p" by (simp add: holds_leg_def level_of_def paper_env_def paper_terminal_def)
  moreover have "int_of_text ''55'' = Some 55" by code_simp
  moreover have "in_platform_symbol paper_pair = Some ''EURUSD.pro''" by (simp add: paper_pair_def)
  ultimately have "told w' = told paper_start @ [levels_request (xt_const (me_terminal paper_env)) ''EURUSD.pro'' 55 (3 / 2) (3 / 4)]"
    using mt5_protection_kept [OF _ _ _ r] f(3) by (force simp: level_of_def)
  with r show ?thesis by (simp add: paper_start_def told_def mt5_init_def paper_env_def)
qed

subsection \<open>A pending order read back\<close>

definition number_field :: "mt5_request \<Rightarrow> string \<Rightarrow> decimal" where
  \<comment> \<open>a field that is omitted counts as zero\<close>
  "number_field q k = (case dict_get q k of Some (MV_float d) \<Rightarrow> d | _ \<Rightarrow> 0)"

definition whole_field :: "mt5_request \<Rightarrow> string \<Rightarrow> int" where
  "whole_field q k = (case dict_get q k of Some (MV_int n) \<Rightarrow> n | _ \<Rightarrow> 0)"

definition holds_order :: "mt5_request \<Rightarrow> mt5_order \<Rightarrow> bool" where
  \<comment> \<open>the row of a pending order the terminal has placed for the request and nothing of which is filled\<close>
  "holds_order q r \<longleftrightarrow>
     xo_type r = whole_field q ''type'' \<and> xo_volume_initial r = number_field q ''volume'' \<and> xo_volume_current r = xo_volume_initial r
     \<and> xo_price_open r = Some (number_field q ''price'') \<and> xo_price_stoplimit r = Some (number_field q ''stoplimit'')
     \<and> xo_tp r = Some (number_field q ''tp'') \<and> xo_sl r = Some (number_field q ''sl'')
     \<and> xo_type_time r = whole_field q ''type_time'' \<and> xo_time_expiration r = whole_field q ''expiration'' \<and> xo_state r = 1"

definition float_amount :: "decimal option \<Rightarrow> bool" where
  "float_amount x \<longleftrightarrow> (case x of None \<Rightarrow> True | Some d \<Rightarrow> 0 < d \<and> py_float d = d)"

definition float_order :: "unified_order \<Rightarrow> bool" where
  \<comment> \<open>positive amounts that are floats, a date within the years of a \<^verbatim>\<open>datetime\<close>\<close>
  "float_order u \<longleftrightarrow> wf_order u \<and> uo_type u \<noteq> MARKET
     \<and> list_all float_amount [Some (uo_quantity u), uo_price u, uo_stop_price u, map_option tp_trigger (uo_take_profit u),
          map_option tp_trigger (uo_stop_loss u)]
     \<and> (case uo_expire_at u of Some (Aware t) \<Rightarrow> MIN_EPOCH_SECONDS \<le> epoch_seconds t \<and> epoch_seconds t \<le> MAX_EPOCH_SECONDS | _ \<Rightarrow> True)"

definition kept_expiry :: "unified_order \<Rightarrow> instant option" where
  \<comment> \<open>the expiry to the second\<close>
  "kept_expiry u = (case uo_expire_at u of Some (Aware t) \<Rightarrow> if uo_tif u = GTD then Some (epoch_seconds t * 1000000) else None | _ \<Rightarrow> None)"

lemma unified_type_code: "unified_type_of (order_type_code t s) = Some (t, s)"
  by (cases t; cases s) (simp_all add: unified_type_of_def)

lemma level_fieldD:
  "level_field k a = Inr x \<Longrightarrow> x = (case a of None \<Rightarrow> [] | Some l \<Rightarrow> [(k, mt5_float (tp_trigger l))]) \<and> (\<forall>l. a = Some l \<longrightarrow> tp_limit l = None)"
  by (auto simp: level_field_def rbind_eq_Inr split: option.splits)

definition order_fields :: "mt5_consts \<Rightarrow> int \<Rightarrow> unified_order \<Rightarrow> mt5_request \<Rightarrow> bool" where
  "order_fields c offset u q \<longleftrightarrow>
     whole_field q ''type'' = order_type_code (uo_type u) (uo_side u) \<and> number_field q ''volume'' = py_float (uo_quantity u)
     \<and> number_field q ''price'' = (case (if uo_type u = LIMIT then uo_price u else uo_stop_price u) of None \<Rightarrow> 0 | Some d \<Rightarrow> py_float d)
     \<and> number_field q ''stoplimit'' = (case (if uo_type u = STOP_LIMIT then uo_price u else None) of None \<Rightarrow> 0 | Some d \<Rightarrow> py_float d)
     \<and> number_field q ''tp'' = (case uo_take_profit u of None \<Rightarrow> 0 | Some l \<Rightarrow> py_float (tp_trigger l))
     \<and> number_field q ''sl'' = (case uo_stop_loss u of None \<Rightarrow> 0 | Some l \<Rightarrow> py_float (tp_trigger l))
     \<and> whole_field q ''type_time'' = (case uo_tif u of DAY \<Rightarrow> c ''ORDER_TIME_DAY'' | GTD \<Rightarrow> c ''ORDER_TIME_SPECIFIED'' | _ \<Rightarrow> 0)
     \<and> whole_field q ''expiration'' = (case uo_expire_at u of Some (Aware t) \<Rightarrow> if uo_tif u = GTD then epoch_seconds t + offset else 0 | _ \<Rightarrow> 0)"

lemma built_fields:
  assumes "build_mt5_request c offset u = Inr q" "uo_type u \<noteq> MARKET"
  shows "order_fields c offset u q \<and> (\<forall>l. uo_take_profit u = Some l \<longrightarrow> tp_limit l = None) \<and> (\<forall>l. uo_stop_loss u = Some l \<longrightarrow> tp_limit l = None)
    \<and> (uo_tif u = GTD \<longrightarrow> (\<exists>t. uo_expire_at u = Some (Aware t)))"
proof -
  from assms(1) obtain position prices tp sl expiration where
    pos: "(case uo_position_id u of None \<Rightarrow> Inr [] | Some p \<Rightarrow> rbind (mt5_int p) (\<lambda>n. Inr [(''position'', MV_int n)])) = Inr position"
    and prices: "request_prices u = Inr prices"
    and tp: "level_field ''tp'' (uo_take_profit u) = Inr tp" and sl: "level_field ''sl'' (uo_stop_loss u) = Inr sl"
    and e: "expiration_fields c offset u = Inr expiration"
    and q: "q = [(''action'', MV_int (if uo_type u = MARKET then c ''TRADE_ACTION_DEAL'' else c ''TRADE_ACTION_PENDING'')),
        (''type'', MV_int (order_type_code (uo_type u) (uo_side u))), (''volume'', mt5_float (uo_quantity u))]
        @ position @ prices @ tp @ sl @ expiration"
    unfolding build_mt5_request_def Let_def rbind_eq_Inr by blast
  from pos have p: "position = [] \<or> (\<exists>n. position = [(''position'', MV_int n)])"
    by (auto simp: rbind_eq_Inr split: option.splits)
  then have pos_at: "k \<noteq> ''position'' \<Longrightarrow> dict_get position k = None" for k by auto
  note l = level_fieldD [OF tp] level_fieldD [OF sl]
  have tp_at: "dict_get tp k = (if k = ''tp'' then map_option (\<lambda>x. mt5_float (tp_trigger x)) (uo_take_profit u) else None)" for k
    using l(1) by (simp split: option.split)
  have sl_at: "dict_get sl k = (if k = ''sl'' then map_option (\<lambda>x. mt5_float (tp_trigger x)) (uo_stop_loss u) else None)" for k
    using l(2) by (simp split: option.split)
  have prices_at: "dict_get prices k = (if k = ''price'' then map_option mt5_float (if uo_type u = LIMIT then uo_price u else uo_stop_price u)
      else if k = ''stoplimit'' \<and> uo_type u = STOP_LIMIT then map_option mt5_float (uo_price u) else None)" for k
    using prices assms(2) by (cases "uo_type u") (auto simp: request_prices_def split: option.splits)
  have gtd: "uo_tif u = GTD \<Longrightarrow> \<exists>t. uo_expire_at u = Some (Aware t)"
    using e by (auto simp: expiration_fields_def split: option.splits py_datetime.splits)
  have e_at: "dict_get expiration k = (if k = ''type_time'' \<and> uo_tif u = DAY then Some (MV_int (c ''ORDER_TIME_DAY''))
      else if k = ''type_time'' \<and> uo_tif u = GTD then Some (MV_int (c ''ORDER_TIME_SPECIFIED''))
      else if k = ''expiration'' \<and> uo_tif u = GTD then (case uo_expire_at u of Some (Aware t) \<Rightarrow> Some (MV_int (epoch_seconds t + offset)) | _ \<Rightarrow> None)
      else None)" for k
    using e gtd by (cases "uo_tif u") (auto simp: expiration_fields_def)
  have front: "dict_get q ''type'' = Some (MV_int (order_type_code (uo_type u) (uo_side u)))" "dict_get q ''volume'' = Some (mt5_float (uo_quantity u))"
    by (simp_all add: q)
  have rear: "dict_get q ''price'' = dict_get prices ''price''" "dict_get q ''stoplimit'' = dict_get prices ''stoplimit''"
    "dict_get q ''tp'' = dict_get tp ''tp''" "dict_get q ''sl'' = dict_get sl ''sl''"
    "dict_get q ''type_time'' = dict_get expiration ''type_time''" "dict_get q ''expiration'' = dict_get expiration ''expiration''"
    unfolding q map_of_append map_add_def
    by (simp_all add: pos_at tp_at sl_at prices_at e_at split: option.split)
  have fields: "number_field q ''price'' = (case (if uo_type u = LIMIT then uo_price u else uo_stop_price u) of None \<Rightarrow> 0 | Some d \<Rightarrow> py_float d)"
    "number_field q ''stoplimit'' = (case (if uo_type u = STOP_LIMIT then uo_price u else None) of None \<Rightarrow> 0 | Some d \<Rightarrow> py_float d)"
    "number_field q ''tp'' = (case uo_take_profit u of None \<Rightarrow> 0 | Some l \<Rightarrow> py_float (tp_trigger l))"
    "number_field q ''sl'' = (case uo_stop_loss u of None \<Rightarrow> 0 | Some l \<Rightarrow> py_float (tp_trigger l))"
    by (simp_all add: number_field_def rear prices_at tp_at sl_at mt5_float_def split: option.split)
  have times: "whole_field q ''type_time'' = (case uo_tif u of DAY \<Rightarrow> c ''ORDER_TIME_DAY'' | GTD \<Rightarrow> c ''ORDER_TIME_SPECIFIED'' | _ \<Rightarrow> 0)"
    "whole_field q ''expiration'' = (case uo_expire_at u of Some (Aware t) \<Rightarrow> if uo_tif u = GTD then epoch_seconds t + offset else 0 | _ \<Rightarrow> 0)"
    by (simp_all add: whole_field_def rear e_at split: option.split py_datetime.split time_in_force.split)
  have "order_fields c offset u q"
    unfolding order_fields_def fields times by (simp add: number_field_def whole_field_def front mt5_float_def)
  with l gtd show ?thesis by blast
qed

text \<open>
  C19. An order survives the terminal. A pending order whose amounts are floats is translated into a request; when
  the terminal has placed it, in the documented way that an omitted field counts as zero, the row it reports
  reads back as that order: instrument, type, side, quantity, limit and trigger price, both protection levels
  and the time in force, with its expiry to the second whatever the offset of the server's clock. Of the times
  in force only fill-or-kill and immediate-or-cancel, which a pending order has no field for, come back as
  good-till-cancelled. The one expiry left out is the instant the server's clock reads as zero, which the
  terminal's field cannot tell from no expiry.
\<close>

theorem mt5_order_roundtrip:
  assumes "float_order u" "build_mt5_request c offset u = Inr q" "holds_order q r"
    and "c ''ORDER_TIME_DAY'' = 1" "c ''ORDER_TIME_SPECIFIED'' = 2" "kept_expiry u \<noteq> Some (- offset * 1000000)"
    and "xo_ticket r = Some n" "from_mt5_epoch (xo_time_setup r) offset = Inr t" "xo_time_done r = 0"
  shows "build_order_record r client i offset = Inr
     \<lparr>or_instrument = i, or_type = uo_type u, or_side = uo_side u, or_quantity = uo_quantity u,
      or_tif = (if uo_tif u \<in> {FOK, IOC} then GTC else uo_tif u), or_client_id = client,
      or_price = (if uo_type u = STOP then None else uo_price u), or_stop_price = (if uo_type u = LIMIT then None else uo_stop_price u),
      or_reduce_only = False, or_client_tag = None, or_take_profit = uo_take_profit u, or_stop_loss = uo_stop_loss u,
      or_platform_id = Some (int_text n), or_status = OPEN, or_filled = 0, or_avg_price = None, or_correlation_id = client,
      or_created_at = t, or_updated_at = t, or_expire_at = kept_expiry u\<rparr>"
proof -
  have m: "uo_type u \<noteq> MARKET" and wf: "wf_order u" and qty: "0 < uo_quantity u" "py_float (uo_quantity u) = uo_quantity u"
    and price: "\<And>d. uo_price u = Some d \<Longrightarrow> 0 < d \<and> py_float d = d"
    and stop: "\<And>d. uo_stop_price u = Some d \<Longrightarrow> 0 < d \<and> py_float d = d"
    and tp: "\<And>l. uo_take_profit u = Some l \<Longrightarrow> 0 < tp_trigger l \<and> py_float (tp_trigger l) = tp_trigger l"
    and sl: "\<And>l. uo_stop_loss u = Some l \<Longrightarrow> 0 < tp_trigger l \<and> py_float (tp_trigger l) = tp_trigger l"
    and years: "\<And>t. uo_expire_at u = Some (Aware t) \<Longrightarrow> MIN_EPOCH_SECONDS \<le> epoch_seconds t \<and> epoch_seconds t \<le> MAX_EPOCH_SECONDS"
    using assms(1) by (simp_all add: float_order_def float_amount_def)
  from built_fields [OF assms(2) m] have f: "order_fields c offset u q"
    and lim: "\<And>l. uo_take_profit u = Some l \<Longrightarrow> tp_limit l = None" "\<And>l. uo_stop_loss u = Some l \<Longrightarrow> tp_limit l = None"
    and gtd: "uo_tif u = GTD \<Longrightarrow> \<exists>t. uo_expire_at u = Some (Aware t)" by auto
  have kind: "unified_type_of (xo_type r) = Some (uo_type u, uo_side u)"
    using f assms(3) by (simp add: order_fields_def holds_order_def unified_type_code)
  have prices: "price_stop_price (uo_type u) r = (if uo_type u = STOP then None else uo_price u, if uo_type u = LIMIT then None else uo_stop_price u)"
  proof -
    have row: "xo_price_open r = Some (case (if uo_type u = LIMIT then uo_price u else uo_stop_price u) of None \<Rightarrow> 0 | Some d \<Rightarrow> py_float d)"
      "xo_price_stoplimit r = Some (case (if uo_type u = STOP_LIMIT then uo_price u else None) of None \<Rightarrow> 0 | Some d \<Rightarrow> py_float d)"
      using f assms(3) by (simp_all only: order_fields_def holds_order_def)
    have amount: "positive_or_none (Some (case x of None \<Rightarrow> 0 | Some d \<Rightarrow> py_float d)) = x" if "\<And>d. x = Some d \<Longrightarrow> 0 < d \<and> py_float d = d" for x
      using that by (cases x) (auto simp: positive_or_none_def)
    show ?thesis using m by (cases "uo_type u") (simp_all add: price_stop_price_def row amount [OF price] amount [OF stop])
  qed
  have level: "tp_sl_attachment (Some (case a of None \<Rightarrow> 0 | Some l \<Rightarrow> py_float (tp_trigger l))) = a"
    if "\<And>l. a = Some l \<Longrightarrow> 0 < tp_trigger l \<and> py_float (tp_trigger l) = tp_trigger l" "\<And>l. a = Some l \<Longrightarrow> tp_limit l = None" for a :: "tpsl option"
    using that by (cases a) (auto simp: tp_sl_attachment_def positive_or_none_def)
  have levels: "tp_sl_attachment (xo_tp r) = uo_take_profit u" "tp_sl_attachment (xo_sl r) = uo_stop_loss u"
    using f assms(3) level [OF tp lim(1)] level [OF sl lim(2)] by (simp_all add: order_fields_def holds_order_def)
  have tif: "dict_get ORDER_TIME_TIF_MAP (xo_type_time r) = Some (if uo_tif u \<in> {FOK, IOC} then GTC else uo_tif u)"
    using f assms(3-5) by (cases "uo_tif u") (simp_all add: order_fields_def holds_order_def ORDER_TIME_TIF_MAP_def)
  have expiry: "order_expiry r (if uo_tif u \<in> {FOK, IOC} then GTC else uo_tif u) offset = Inr (kept_expiry u)"
  proof (cases "uo_tif u = GTD")
    case True
    then obtain e where e: "uo_expire_at u = Some (Aware e)" using gtd by blast
    with True f assms(3) have "xo_time_expiration r = epoch_seconds e + offset" by (simp add: order_fields_def holds_order_def)
    moreover have "epoch_seconds e \<noteq> - offset" using assms(6) e True by (auto simp: kept_expiry_def)
    ultimately show ?thesis using e True years [OF e] by (simp add: order_expiry_def kept_expiry_def from_mt5_epoch_def)
  next
    case False
    then show ?thesis by (auto simp: order_expiry_def kept_expiry_def split: option.splits py_datetime.splits)
  qed
  have vol: "xo_volume_initial r = uo_quantity u" "xo_volume_current r = uo_quantity u" "xo_state r = 1"
    using f assms(3) qty by (simp_all add: order_fields_def holds_order_def)
  let ?tif = "if uo_tif u \<in> {FOK, IOC} then GTC else uo_tif u"
  obtain k where k: "k = ?tif" by simp
  show ?thesis
    unfolding k [symmetric]
    by (simp add: build_order_record_def order_ticket_of_def assms(7-9) kind tif [folded k] expiry [folded k] or_int_def order_state_of_def vol
        ORDER_STATE_STATUS_MAP_def prices levels dsub_def)
qed

definition dated_order :: unified_order where
  "dated_order = \<lparr>uo_instrument = paper_pair, uo_type = STOP_LIMIT, uo_side = SELL, uo_quantity = 2, uo_tif = GTD, uo_client_id = Some ''A1'',
     uo_price = Some (5 / 4), uo_stop_price = Some (3 / 2), uo_reduce_only = False, uo_client_tag = None,
     uo_take_profit = Some \<lparr>tp_trigger = 1, tp_limit = None\<rparr>, uo_stop_loss = None, uo_position_id = None,
     uo_expire_at = Some (Aware 5000250000)\<rparr>"

definition dated_row :: mt5_order where
  "dated_row = \<lparr>xo_ticket = Some 77, xo_symbol = ''EURUSD.pro'', xo_type = 7, xo_state = 1, xo_type_time = 2, xo_volume_initial = 2,
     xo_volume_current = 2, xo_price_open = Some (3 / 2), xo_price_stoplimit = Some (5 / 4), xo_tp = Some 1, xo_sl = Some 0,
     xo_time_setup = 8200, xo_time_done = 0, xo_time_expiration = 12200, xo_comment = None\<rparr>"

definition paper_time :: mt5_consts where
  "paper_time k = (if k = ''ORDER_TIME_DAY'' then 1 else if k = ''ORDER_TIME_SPECIFIED'' then 2 else 5)"

theorem mt5_order_roundtrip_witness:
  "\<exists>q x. build_mt5_request paper_time 7200 dated_order = Inr q \<and> holds_order q dated_row
     \<and> build_order_record dated_row ''A1'' paper_pair 7200 = Inr x
     \<and> or_type x = STOP_LIMIT \<and> or_side x = SELL \<and> or_price x = Some (5 / 4) \<and> or_stop_price x = Some (3 / 2)
     \<and> or_take_profit x = Some \<lparr>tp_trigger = 1, tp_limit = None\<rparr> \<and> or_stop_loss x = None \<and> or_expire_at x = Some 5000000000"
proof -
  have f: "py_float 2 = 2" "py_float (5 / 4) = 5 / 4" "py_float (3 / 2) = 3 / 2" "py_float 1 = 1" by code_simp+
  have e: "epoch_seconds 5000250000 = 5000" by (simp add: epoch_seconds_def trunc_div_def)
  let ?q = "[(''action'', MV_int 5), (''type'', MV_int 7), (''volume'', MV_float 2), (''price'', MV_float (3 / 2)), (''stoplimit'', MV_float (5 / 4)),
    (''tp'', MV_float 1), (''type_time'', MV_int 2), (''expiration'', MV_int 12200)]"
  have q: "build_mt5_request paper_time 7200 dated_order = Inr ?q"
    by (simp add: build_mt5_request_def request_prices_def level_field_def expiration_fields_def mt5_float_def f e paper_time_def dated_order_def
        guard_exn_def)
  have h: "holds_order ?q dated_row" by (simp add: holds_order_def number_field_def whole_field_def dated_row_def)
  have u: "float_order dated_order"
    by (simp add: float_order_def float_amount_def wf_order_def f e dated_order_def MIN_EPOCH_SECONDS_def MAX_EPOCH_SECONDS_def)
  have x: "kept_expiry dated_order = Some 5000000000" by (simp add: kept_expiry_def e dated_order_def)
  have t: "from_mt5_epoch (xo_time_setup dated_row) 7200 = Inr 1000000000" "xo_time_done dated_row = 0" "xo_ticket dated_row = Some 77"
    by (simp_all add: from_mt5_epoch_def dated_row_def MIN_EPOCH_SECONDS_def MAX_EPOCH_SECONDS_def)
  have c: "paper_time ''ORDER_TIME_DAY'' = 1" "paper_time ''ORDER_TIME_SPECIFIED'' = 2" by (simp_all add: paper_time_def)
  show ?thesis
    using mt5_order_roundtrip [OF u q h c _ t(3,1,2), of "''A1''" paper_pair] q h by (simp add: x) (simp add: dated_order_def)
qed

subsection \<open>A pending order changed\<close>

text \<open>
  A change of a pending order carries only the protection levels that are given. Where an omitted field counts
  as zero, a change of the price alone takes the levels off the order.
\<close>

lemma modify_omits_levels:
  assumes "build_mt5_modify_request c m ticket t price stop = Inr q" "mo_take_profit m = None" "mo_stop_loss m = None"
  shows "dict_get q ''tp'' = None \<and> dict_get q ''sl'' = None"
proof -
  from assms obtain prices where p: "modify_prices m t price stop = Inr prices"
    and q: "q = [(''action'', MV_int (c ''TRADE_ACTION_MODIFY'')), (''order'', MV_int ticket)] @ prices"
    by (auto simp: build_mt5_modify_request_def rbind_eq_Inr level_field_def)
  from p have "set (map fst prices) \<subseteq> {''price'', ''stoplimit''}"
    by (auto simp: modify_prices_def Let_def split: order_type.splits option.splits)
  then have "''tp'' \<notin> fst ` set prices" "''sl'' \<notin> fst ` set prices" by auto
  then have "dict_get prices ''tp'' = None" "dict_get prices ''sl'' = None" by (simp_all add: map_of_eq_None_iff)
  then show ?thesis by (simp add: q)
qed

end
