(* ===== verification/Spec2Isabelle.thy ===== *)
theory Spec2Isabelle
  imports UTE_Halt UTE_Risk UTE_Reconcile UTE_Rows UTE_Events
    UTE_Trailing_Attached UTE_Trailing_Recoveries UTE_Engine_Safety UTE_Placement UTE_Engine_Edges
    UTE_Worker_Pacing UTE_Comments UTE_Attach_Live UTE_Rates UTE_Binance_Answers UTE_Binance_Wire UTE_Binance_Listing
    UTE_Bybit_Drift UTE_MT5_Safety UTE_MT5_Mirror UTE_MT5_Levels
begin

text \<open>
  A verification development for the unified trading execution library: one interface over several
  trading venues, with client-side risk checks, a halt state machine, a mirror of the venue in
  SQLite, reconciliation, and trailing stops that the library itself moves. Paths below are relative
  to \<^verbatim>\<open>packages/core/src/unified_trading_execution\<close>.

  The parts and their theories:

  \<^item> \<open>UTE_Prelude\<close>: exceptions, results, effects, dictionaries and the rules that carry the proofs.
    An operation with effects is a function from the world to its outcome and the next world, so an
    exception keeps the effects that came before it.
  \<^item> \<open>UTE_Decimal\<close>: Python decimals as rationals with every arithmetic step rounded to the 28 digits
    of the default context.
  \<^item> \<open>UTE_Types\<close> (\<^verbatim>\<open>types/\<close>): orders, instruments, fills, positions, balances and market data with
    their constructor checks.
  \<^item> \<open>UTE_Halt\<close> (\<^verbatim>\<open>state/halt.py\<close>), \<open>UTE_Risk\<close> (\<^verbatim>\<open>risk/\<close>), \<open>UTE_Reconcile\<close>
    (\<^verbatim>\<open>state/reconciliation.py\<close>): the admission of orders under halts, the fail-fast validator chain
    and the comparison of the venue with the mirror.
  \<^item> \<open>UTE_Adapter\<close> (\<^verbatim>\<open>adapter/\<close>): the venue as a record of operations on an abstract outside world.
  \<^item> \<open>UTE_Events\<close> (\<^verbatim>\<open>events/\<close>), \<open>UTE_Store\<close> and \<open>UTE_Rows\<close> (\<^verbatim>\<open>state/store.py\<close>): the event bus, the
    tables with their keys and constraints, and the encoding of trailing rows.
  \<^item> \<open>UTE_Trailing_Types\<close>, \<open>UTE_Trailing_Math\<close> (\<^verbatim>\<open>trailing/types.py\<close>, \<^verbatim>\<open>trailing/math.py\<close>): the
    specifications and the calculations of trailing stops.
  \<^item> \<open>UTE_Routing\<close>, \<open>UTE_Trailing_World\<close>, \<open>UTE_Trailing_Handlers\<close>, \<open>UTE_Trailing_Recovery\<close>,
    \<open>UTE_Trailing_Attach\<close> (\<^verbatim>\<open>trailing/manager.py\<close>): routing, the shared operations, and every handler
    of the trailing manager on every branch.
  \<^item> \<open>UTE_Trailing_Safety\<close>, \<open>UTE_Trailing_Kept\<close>, \<open>UTE_Trailing_Lifecycle\<close>: a locale of row policies,
    proved for every handler and interpreted on the reachable rows; it gives the lifecycle theorem
    over arbitrary sequences of calls.
  \<^item> \<open>UTE_Trailing_Halted\<close>, \<open>UTE_Trailing_Ratchet\<close>, \<open>UTE_Trailing_Recoveries\<close>, \<open>UTE_Trailing_Attached\<close>:
    halts stop every write, tickers only tighten, which degradations recover, and what an attachment
    establishes. \<open>UTE_Trailing_Ratchet\<close> writes the calls an operation made at the venue as a chain of
    venue states, so that a level counts as confirmed when the venue gave it after the write.
    \<open>UTE_Paper_Venue\<close> is the one-leg venue the properties are applied to.
  \<^item> \<open>UTE_Dispatch\<close> (\<^verbatim>\<open>dispatch/\<close>): the placement, modification and cancellation pipelines over a hub,
    the part of the engine they share with reconciliation: mirror, bus, halts, pending clients, risk.
  \<^item> \<open>UTE_Engine\<close>, \<open>UTE_Engine_Reconcile\<close>, \<open>UTE_Engine_Life\<close> (\<^verbatim>\<open>engine.py\<close>): the rate-limit budget, the
    bus callbacks and the tasks they schedule, the order operations, the reconciliation passes with
    the halts they enter and clear, connection, loops, shutdown and the accessors. \<open>engine_step\<close> is
    the relation of one public call or one scheduled task.
  \<^item> \<open>UTE_Engine_Safety\<close>: what every reachable engine keeps, by rule induction over \<open>engine_step\<close>, with
    the trailing policies carried over. \<open>UTE_Placement\<close>: what a placement must have passed.
    \<open>UTE_Engine_Passes\<close>: the mirror after a pass refines the venue's answer, the halts after a pass,
    the errors that abort it, and what the budget grants, with and without an override. \<open>UTE_Engine_Edges\<close>: behaviour at the edges.
    \<open>UTE_Paper_Desk\<close> is the engine with the venue the properties are applied to.
  \<^item> \<open>UTE_Worker\<close>, \<open>UTE_Worker_Pacing\<close> (\<^verbatim>\<open>trailing/worker.py\<close>): the polling cycle of trailing stops, the
    pacing and back-off of its requests and the schedule of its candles.
  \<^item> \<open>UTE_Mock\<close> (\<^verbatim>\<open>testing/\<close>): the in-memory venue shipped for integrators, every operation of the
    adapter contract. \<open>UTE_Attach_Live\<close>: what the trailing manager needs of a venue as locales
    (\<open>protection_venue\<close>, \<open>quiet_venue\<close>), total correctness of an attachment over them, and their
    interpretation on the mock.
  \<^item> \<open>UTE_Rates\<close> (\<^verbatim>\<open>hyperliquid/rates.py\<close>) and \<open>UTE_Binance_Rates\<close> (\<^verbatim>\<open>binance/rate_limits.py\<close>): the
    sliding window of spent weight against a ledger that is never pruned, and the budget observed from
    headers and error codes, with the ban it never lifts early.
  \<^item> \<open>UTE_Python\<close>: decoded JSON as a datatype, with the readings of integers, decimals and dates the
    adapters rely on. \<open>UTE_Binance_Symbols\<close> (\<^verbatim>\<open>binance/symbols.py\<close>), \<open>UTE_Binance_Orders\<close>
    (\<^verbatim>\<open>binance/orders.py\<close>), \<open>UTE_Binance_Errors\<close> (\<^verbatim>\<open>binance/errors.py\<close>, \<^verbatim>\<open>config.py\<close>): catalogs and
    trading rules, order parameters and responses, and the translation of exceptions.
    \<open>UTE_Binance_Listing\<close>, \<open>UTE_Binance_Wire\<close>: round trips and reference definitions for them.
  \<^item> \<open>UTE_Binance_Adapter\<close>, \<open>UTE_Binance_Trading\<close> (\<^verbatim>\<open>binance/adapter.py\<close>): the adapter's state and every
    operation of it over an SDK that is a parameter: any function from the request and the state of
    the venue to a reply. \<open>UTE_Wp\<close>: weakest preconditions for effects. \<open>UTE_Binance_Desk\<close>: three
    locales for what the operations keep, in terms of the primitive steps they are made of.
    \<open>UTE_Binance_Safety\<close> interprets them on the adapter's invariant and on the rows of its catalogs;
    \<open>UTE_Binance_Requests\<close> counts requests with an SDK that records them; \<open>UTE_Binance_Answers\<close>
    states what an answer entitles the adapter to report, with the scripted SDK of the witnesses.
  \<^item> \<open>UTE_Bybit_Symbols\<close>, \<open>UTE_Bybit_Orders\<close>, \<open>UTE_Bybit_Errors\<close>, \<open>UTE_Bybit_Streams\<close> (the modules of those
    names under \<^verbatim>\<open>bybit/\<close>): symbols and categories, request parameters, errors and the entries of streams
    and listings. \<open>UTE_Bybit_Adapter\<close>, \<open>UTE_Bybit_Intent\<close>, \<open>UTE_Bybit_Trading\<close>, \<open>UTE_Bybit_Market\<close>
    (\<^verbatim>\<open>bybit/adapter.py\<close>, \<^verbatim>\<open>config.py\<close>, \<^verbatim>\<open>events.py\<close>, \<^verbatim>\<open>websocket.py\<close>): the adapter's state and requests, the
    stored leverage and modes with their drifts, orders and protection, market data and the callbacks of
    the private streams. \<open>UTE_Bybit_Desk\<close>: locales for what the operations keep, layered by what they may
    do. \<open>UTE_Bybit_Safety\<close> interprets them on the adapter's books and its connection;
    \<open>UTE_Bybit_Requests\<close> on the log of its requests (\<open>UTE_Sending\<close> counts the entries of a log).
    \<open>UTE_Bybit_Leverage\<close> and \<open>UTE_Bybit_Drift\<close>: leverage as set, stored and read back, and what a drift does
    to an order.
  \<^item> \<open>UTE_Float\<close>: a float as the decimal its \<^verbatim>\<open>repr\<close> spells, and when a decimal survives the conversion.
    \<open>UTE_Comments\<close> (\<^verbatim>\<open>mt5/comments.py\<close> of the MetaTrader adapter): order ids in order comments.
    \<open>UTE_MT5_Orders\<close> (\<^verbatim>\<open>mt5/symbols.py\<close>, \<^verbatim>\<open>errors.py\<close>, \<^verbatim>\<open>config.py\<close>, \<^verbatim>\<open>orders.py\<close>): error codes, requests, results
    and order rows of the terminal. \<open>UTE_MT5_Adapter\<close>, \<open>UTE_MT5_Trading\<close>, \<open>UTE_MT5_Polling\<close>
    (\<^verbatim>\<open>mt5/adapter.py\<close>): state, symbols, the clock of the server, recovery and connection; orders, protection
    and market data; the polling cycle and the snapshots. \<open>UTE_MT5_Desk\<close>: locales for what the operations
    keep, layered by what they may do. \<open>UTE_MT5_Safety\<close> interprets them on the connection of one adapter,
    and composes several adapters that share the terminal and the lock of a process.
    \<open>UTE_MT5_Fills\<close> and \<open>UTE_MT5_Mirror\<close> interpret them on what the polling task publishes: fills once and all of
    them, and positions that a subscriber can replay. \<open>UTE_MT5_Requests\<close> counts the requests sent and follows a
    placement; \<open>UTE_MT5_Levels\<close>: protection levels, and a pending order read back from the terminal.

  Conventions. Instants are integers in microseconds; decimals are rationals (no infinities or NaN:
  the constructors the library uses refuse text that is not a finite number). Message texts are
  labels without the values interpolated into them. A handler of the trailing manager runs under the
  lock of its state and is one operation; interleaving is by sequences of calls. The constructor
  check of a trailing state cannot fail in the manager, where the mode is resolved and quantities
  are absolute, so \<open>replace\<close> is a record update. The confirmation loops read the venue twice, as
  the code does; the bound is the argument of their recursion.

  A callback of the bus that schedules work adds a task to the engine; the task runs as a later
  step, in any order. An engine operation is one atomic step, as are the coroutines of a \<^verbatim>\<open>gather\<close>,
  which run one after the other. The store of a disconnected engine is kept and an operation on it is
  not told apart from one on an open store. Times of the monotonic clock are rationals: the rounding
  of floating-point seconds is not modelled.

  A value decoded from JSON is a \<open>py_object\<close>; a floating-point number in it is its \<^verbatim>\<open>repr\<close> text, which is
  all the adapters read of it. A request parameter that renders a decimal stands for the decimal, and
  a date is the number of its day. The SDK of a venue is a parameter of the adapter's environment.
  The loop of the Bybit adapter over the pages of a listing has no bound in the code; in the model it
  stops with an exception of its own after \<open>ye_pages\<close> pages, so that what a listing returns is about
  listings that end. A callback of its socket runs as one step, and what it schedules on the event loop
  runs in later steps. The database of its state store may fail wherever it is used: the failures are a
  parameter. A text for a number that spells an infinity or NaN counts as malformed.

  The terminal of the MetaTrader adapter is a parameter, as are the order in which a set of symbols is
  iterated; a named tuple is a record, with \<^verbatim>\<open>None\<close> where the code allows
  for a missing attribute. One turn of its polling task is one step. Its times are whole seconds of the epoch,
  which the code converts through floats exactly before the year 2242. Infinities and NaN among its
  floats are not modelled.

  Not modelled: log lines, locks, asyncio scheduling within an operation, the SQLite connection and
  migrations, the synchronous facade, the cancellation of a
  Binance or MetaTrader connect under way, the engine facades that only construct and forward, and the
  I/O of the other venue adapters.
\<close>

end
